(* ===== verification/Prelude.thy ===== *)
theory Prelude
  imports Main "HOL-Library.List_Lexorder" "HOL-Library.Char_ord" "HOL-Library.Sublist"
    "HOL-Library.Multiset" "HOL-Library.Word"
begin

text \<open>
  Shared vocabulary of the development: Rust strings as UTF-8 byte lists with their decomposition
  into characters, \<open>str::trim\<close>, the ordered containers \<open>BTreeMap\<close> and \<open>BTreeSet\<close> as sorted
  association lists and sorted lists, and the fold that turns an append-only ledger into its
  map of latest records. The interface \<open>ordered_map\<close> states what the components rely on; it is
  interpreted on the sorted association lists below.
\<close>

named_theorems btree_simps \<open>lookup and update equations of the ordered containers\<close>
named_theorems ident_simps \<open>facts on identifier characters and path-safe strings\<close>

section \<open>Strings\<close>

text \<open>
  A \<open>String\<close> of the program is a \<open>string\<close> of the model, one \<open>char\<close> per UTF-8 byte. So \<open>length\<close>
  is \<open>str::len\<close> and the order of lists of bytes is the order of \<open>str\<close>.
\<close>

abbreviation byte :: "char \<Rightarrow> nat" where
  "byte c \<equiv> of_char c"

definition utf8_continuation :: "char \<Rightarrow> bool" where
  "utf8_continuation c \<longleftrightarrow> 128 \<le> byte c \<and> byte c < 192"

text \<open>\<open>std::str::from_utf8\<close>: no overlong forms, no surrogates, nothing above U+10FFFF.\<close>

fun valid_utf8 :: "string \<Rightarrow> bool" where
  "valid_utf8 [] = True"
| "valid_utf8 (c # cs) = (if byte c < 128 then valid_utf8 cs
     else case cs of [] \<Rightarrow> False
     | d # ds \<Rightarrow>
       if 194 \<le> byte c \<and> byte c < 224 then utf8_continuation d \<and> valid_utf8 ds
       else case ds of [] \<Rightarrow> False
       | e # es \<Rightarrow>
         if 224 \<le> byte c \<and> byte c < 240
         then (if byte c = 224 then 160 \<le> byte d \<and> byte d < 192
               else if byte c = 237 then 128 \<le> byte d \<and> byte d < 160 else utf8_continuation d) \<and>
              utf8_continuation e \<and> valid_utf8 es
         else case es of [] \<Rightarrow> False
         | f # fs \<Rightarrow> 240 \<le> byte c \<and> byte c < 245 \<and>
             (if byte c = 240 then 144 \<le> byte d \<and> byte d < 192
              else if byte c = 244 then 128 \<le> byte d \<and> byte d < 144 else utf8_continuation d) \<and>
             utf8_continuation e \<and> utf8_continuation f \<and> valid_utf8 fs)"

text \<open>\<open>str::chars\<close>: each character as the bytes that encode it.\<close>

function utf8_chars :: "string \<Rightarrow> string list" where
  "utf8_chars [] = []"
| "utf8_chars (c # cs) =
     (c # takeWhile utf8_continuation cs) # utf8_chars (dropWhile utf8_continuation cs)"
  by pat_completeness auto
termination
  by (relation "measure length") (auto simp: le_imp_less_Suc length_dropWhile_le)

lemma concat_utf8_chars [simp]: "concat (utf8_chars s) = s"
  by (induction s rule: utf8_chars.induct) auto

definition is_ascii_digit :: "char \<Rightarrow> bool" where
  "is_ascii_digit c \<longleftrightarrow> 48 \<le> byte c \<and> byte c \<le> 57"

definition is_ascii_alphabetic :: "char \<Rightarrow> bool" where
  "is_ascii_alphabetic c \<longleftrightarrow> 65 \<le> byte c \<and> byte c \<le> 90 \<or> 97 \<le> byte c \<and> byte c \<le> 122"

definition is_ascii_alphanumeric :: "char \<Rightarrow> bool" where
  "is_ascii_alphanumeric c \<longleftrightarrow> is_ascii_alphabetic c \<or> is_ascii_digit c"

text \<open>\<open>char::is_whitespace\<close> (the Unicode White\_Space property) on an encoded character.\<close>

definition utf8_of_bytes :: "nat list \<Rightarrow> string" where
  "utf8_of_bytes bs = map char_of bs"

definition is_whitespace :: "string \<Rightarrow> bool" where
  "is_whitespace ch \<longleftrightarrow> (let bs = map byte ch in
     bs \<in> set ([[9], [10], [11], [12], [13], [32], [194, 133], [194, 160], [225, 154, 128],
               [226, 128, 168], [226, 128, 169], [226, 128, 175], [226, 129, 159], [227, 128, 128]]
              @ map (\<lambda>b. [226, 128, b]) [128, 129, 130, 131, 132, 133, 134, 135, 136, 137, 138]))"

text \<open>The same tests on the bits of a byte, for evaluation.\<close>

definition plain_space :: "bool \<Rightarrow> bool \<Rightarrow> bool \<Rightarrow> bool \<Rightarrow> bool \<Rightarrow> bool \<Rightarrow> bool \<Rightarrow> bool" where
  "plain_space b0 b1 b2 b3 b4 b5 b6 \<longleftrightarrow> (\<not> b6 \<and> (if b5 then \<not> b4 \<and> \<not> b3 \<and> \<not> b2 \<and> \<not> b1 \<and> \<not> b0
     else \<not> b4 \<and> b3 \<and> (if b2 then \<not> b1 else b1 \<or> b0)))"

lemma is_whitespace_bits [code]:
  "is_whitespace [] = False"
  "is_whitespace (Char b0 b1 b2 b3 b4 b5 b6 b7 # cs) =
     (if b7 then (let bs = map byte (Char b0 b1 b2 b3 b4 b5 b6 b7 # cs) in
     bs \<in> set ([[194, 133], [194, 160], [225, 154, 128],
               [226, 128, 168], [226, 128, 169], [226, 128, 175], [226, 129, 159], [227, 128, 128]]
              @ map (\<lambda>b. [226, 128, b]) [128, 129, 130, 131, 132, 133, 134, 135, 136, 137, 138]))
      else cs = [] \<and> plain_space b0 b1 b2 b3 b4 b5 b6)"
proof -
  let ?c = "Char b0 b1 b2 b3 b4 b5 b6 b7"
  have byte: "byte ?c = of_bool b0 + 2 * of_bool b1 + 4 * of_bool b2 + 8 * of_bool b3 + 16 * of_bool b4 +
      32 * of_bool b5 + 64 * of_bool b6 + 128 * of_bool b7"
    by (simp add: of_char_def)
  show "is_whitespace [] = False"
    by (simp add: is_whitespace_def)
  show "is_whitespace (?c # cs) =
     (if b7 then (let bs = map byte (?c # cs) in
     bs \<in> set ([[194, 133], [194, 160], [225, 154, 128],
               [226, 128, 168], [226, 128, 169], [226, 128, 175], [226, 129, 159], [227, 128, 128]]
              @ map (\<lambda>b. [226, 128, b]) [128, 129, 130, 131, 132, 133, 134, 135, 136, 137, 138]))
      else cs = [] \<and> plain_space b0 b1 b2 b3 b4 b5 b6)"
  proof (cases b7)
    case True
    then have "byte ?c \<ge> 128"
      unfolding byte by simp
    then show ?thesis
      using True by (simp add: is_whitespace_def Let_def)
  next
    case False
    then have small: "byte ?c < 128"
      unfolding byte by (simp add: of_bool_def)
    then have "is_whitespace (?c # cs) \<longleftrightarrow> cs = [] \<and> byte ?c \<in> {9, 10, 11, 12, 13, 32}"
      by (auto simp: is_whitespace_def)
    moreover have "byte ?c \<in> {9, 10, 11, 12, 13, 32} \<longleftrightarrow> plain_space b0 b1 b2 b3 b4 b5 b6"
      unfolding byte using False
      by (cases b6; cases b5; cases b4; cases b3; cases b2; cases b1; cases b0; simp add: plain_space_def)
    ultimately show ?thesis
      using False by simp
  qed
qed

lemma utf8_continuation_bits [code]: "utf8_continuation (Char b0 b1 b2 b3 b4 b5 b6 b7) = (b7 \<and> \<not> b6)"
  by (cases b7; cases b6; cases b5; cases b4; cases b3; cases b2; cases b1; cases b0; simp add: utf8_continuation_def of_char_def)

lemma is_ascii_digit_bits [code]:
  "is_ascii_digit (Char b0 b1 b2 b3 b4 b5 b6 b7) =
     (\<not> b7 \<and> \<not> b6 \<and> b5 \<and> b4 \<and> (\<not> b3 \<or> \<not> b2 \<and> \<not> b1))"
  by (cases b7; cases b6; cases b5; cases b4; cases b3; cases b2; cases b1; cases b0;
      simp add: is_ascii_digit_def of_char_def)

lemma is_ascii_alphabetic_bits [code]:
  "is_ascii_alphabetic (Char b0 b1 b2 b3 b4 b5 b6 b7) =
     (\<not> b7 \<and> b6 \<and> (b0 \<or> b1 \<or> b2 \<or> b3 \<or> b4) \<and> \<not> (b4 \<and> b3 \<and> (b2 \<or> b1 \<and> b0)))"
  by (cases b7; cases b6; cases b5; cases b4; cases b3; cases b2; cases b1; cases b0;
      simp add: is_ascii_alphabetic_def of_char_def)

definition trim_start :: "string \<Rightarrow> string" where
  "trim_start s = concat (dropWhile is_whitespace (utf8_chars s))"

definition trim_end :: "string \<Rightarrow> string" where
  "trim_end s = concat (rev (dropWhile is_whitespace (rev (utf8_chars s))))"

definition str_trim :: "string \<Rightarrow> string" where
  "str_trim s = trim_end (trim_start s)"

text \<open>\<open>str::trim_matches\<close> for one ASCII character, \<open>str::split\<close> on one, \<open>join\<close>.\<close>

definition trim_matches :: "char \<Rightarrow> string \<Rightarrow> string" where
  "trim_matches c s = rev (dropWhile (\<lambda>d. d = c) (rev (dropWhile (\<lambda>d. d = c) s)))"

fun split_on :: "(char \<Rightarrow> bool) \<Rightarrow> string \<Rightarrow> string list" where
  "split_on p [] = [[]]"
| "split_on p (c # cs) = (if p c then [] # split_on p cs
     else (case split_on p cs of [] \<Rightarrow> [[c]] | w # ws \<Rightarrow> (c # w) # ws))"

text \<open>\<open>str::lines\<close>: a final line break starts no line, and a carriage return before a line break belongs to it.\<close>

definition strip_cr :: "string \<Rightarrow> string" where
  "strip_cr l = (if l \<noteq> [] \<and> last l = char_of (13 :: nat) then butlast l else l)"

definition str_lines :: "string \<Rightarrow> string list" where
  "str_lines s = (let parts = split_on (\<lambda>c. c = char_of (10 :: nat)) s
     in map strip_cr (butlast parts) @ (if last parts = [] then [] else [last parts]))"

text \<open>\<open>to_ascii_lowercase\<close>, and \<open>replace\<close> of a set of characters.\<close>

definition ascii_lower :: "string \<Rightarrow> string" where
  "ascii_lower s = map (\<lambda>c. if 65 \<le> byte c \<and> byte c \<le> 90 then char_of (byte c + 32) else c) s"

definition replace_chars :: "string \<Rightarrow> char \<Rightarrow> string \<Rightarrow> string" where
  "replace_chars cs d s = map (\<lambda>c. if c \<in> set cs then d else c) s"

fun str_join :: "string \<Rightarrow> string list \<Rightarrow> string" where
  "str_join sep [] = []"
| "str_join sep [s] = s"
| "str_join sep (s # t # ss) = s @ sep @ str_join sep (t # ss)"

definition strip_prefix :: "string \<Rightarrow> string \<Rightarrow> string option" where
  "strip_prefix p s = (if take (length p) s = p then Some (drop (length p) s) else None)"

definition strip_suffix :: "string \<Rightarrow> string \<Rightarrow> string option" where
  "strip_suffix p s = map_option rev (strip_prefix (rev p) (rev s))"

definition starts_with :: "string \<Rightarrow> string \<Rightarrow> bool" where
  "starts_with s p \<longleftrightarrow> take (length p) s = p"

definition ends_with :: "string \<Rightarrow> string \<Rightarrow> bool" where
  "ends_with s p \<longleftrightarrow> length p \<le> length s \<and> drop (length s - length p) s = p"

text \<open>\<open>str::find\<close> and \<open>str::rfind\<close> of one ASCII character, \<open>str::split_once\<close>.\<close>

definition find_char :: "char \<Rightarrow> string \<Rightarrow> nat option" where
  "find_char c s = (let n = length (takeWhile (\<lambda>d. d \<noteq> c) s) in if n < length s then Some n else None)"

definition rfind_char :: "char \<Rightarrow> string \<Rightarrow> nat option" where
  "rfind_char c s = map_option (\<lambda>n. length s - 1 - n) (find_char c (rev s))"

definition split_once :: "char \<Rightarrow> string \<Rightarrow> (string \<times> string) option" where
  "split_once c s = map_option (\<lambda>n. (take n s, drop (n + 1) s)) (find_char c s)"

text \<open>\<open>str::contains\<close> of a text, and \<open>str::get(0..n)\<close>, which needs a character boundary.\<close>

definition str_contains :: "string \<Rightarrow> string \<Rightarrow> bool" where
  "str_contains s p \<longleftrightarrow> list_ex (\<lambda>n. take (length p) (drop n s) = p) [0..<Suc (length s)]"

definition str_get_prefix :: "nat \<Rightarrow> string \<Rightarrow> string option" where
  "str_get_prefix n s = (if n \<le> length s \<and> (n = length s \<or> \<not> utf8_continuation (s ! n))
     then Some (take n s) else None)"

text \<open>\<open>format!("{n}")\<close> and the zero padded \<open>{n:0w}\<close>.\<close>

fun decimal :: "nat \<Rightarrow> string" where
  "decimal n = (if n < 10 then [char_of (48 + n)] else decimal (n div 10) @ [char_of (48 + n mod 10)])"

declare decimal.simps [simp del]

definition newline :: string where
  "newline = [char_of (10 :: nat)]"

definition decimal_padded :: "nat \<Rightarrow> nat \<Rightarrow> string" where
  "decimal_padded w n = (let d = decimal n in replicate (w - length d) CHR ''0'' @ d)"

lemma split_on_nonempty [simp]: "split_on p s \<noteq> []"
  by (induction p s rule: split_on.induct) (auto split: list.splits)

lemma strip_prefix_Some [simp]: "strip_prefix p s = Some r \<longleftrightarrow> s = p @ r"
  by (auto simp: strip_prefix_def) (metis append_take_drop_id)

lemma strip_suffix_Some [simp]: "strip_suffix p s = Some r \<longleftrightarrow> s = r @ p"
proof -
  have "strip_suffix p s = Some r \<longleftrightarrow> strip_prefix (rev p) (rev s) = Some (rev r)"
    by (auto simp: strip_suffix_def)
  also have "\<dots> \<longleftrightarrow> rev s = rev (r @ p)"
    by (simp only: strip_prefix_Some rev_append)
  finally show ?thesis by (simp only: rev_is_rev_conv)
qed

text \<open>Facts on splitting at an ASCII separator.\<close>

lemma split_on_append: "p c \<Longrightarrow> split_on p (a @ c # b) = split_on p a @ split_on p b"
proof (induction a)
  case (Cons d a)
  then show ?case
    using split_on_nonempty [of p a] by (cases "split_on p a") auto
qed simp

lemma split_on_none: "(\<And>c. c \<in> set a \<Longrightarrow> \<not> p c) \<Longrightarrow> split_on p a = [a]"
  by (induction a) auto

lemma rfind_char_Some:
  assumes "rfind_char c s = Some n"
  shows "n < length s \<and> s ! n = c \<and> c \<notin> set (drop (n + 1) s)"
proof -
  let ?k = "length (takeWhile (\<lambda>d. d \<noteq> c) (rev s))"
  have k: "?k < length s" "n = length s - 1 - ?k"
    using assms by (auto simp: rfind_char_def find_char_def Let_def split: if_splits)
  have "rev s ! ?k = c"
    using nth_length_takeWhile [of "\<lambda>d. d \<noteq> c" "rev s"] k by simp
  moreover have "drop (n + 1) s = rev (take ?k (rev s))"
  proof -
    have "n + 1 = length s - ?k"
      using k by linarith
    then show ?thesis
      by (simp add: rev_take)
  qed
  moreover have "take ?k (rev s) = takeWhile (\<lambda>d. d \<noteq> c) (rev s)"
    by (metis takeWhile_eq_take)
  ultimately show ?thesis
    using k by (auto simp: rev_nth dest: set_takeWhileD)
qed

lemma rfind_char_notin: "rfind_char c s = Some n \<Longrightarrow> c \<notin> set (drop (Suc n) s)"
  using rfind_char_Some [of c s n] by simp

lemma rfind_char_last: "c \<notin> set b \<Longrightarrow> rfind_char c (a @ c # b) = Some (length a)"
proof -
  assume "c \<notin> set b"
  then have "takeWhile (\<lambda>d. d \<noteq> c) (rev b @ c # rev a) = rev b"
    by (subst takeWhile_append2) auto
  then show "rfind_char c (a @ c # b) = Some (length a)"
    by (simp add: rfind_char_def find_char_def Let_def)
qed

lemma str_contains_iff: "str_contains s p \<longleftrightarrow> (\<exists>a b. s = a @ p @ b)"
proof
  assume "str_contains s p"
  then obtain n where "take (length p) (drop n s) = p"
    by (auto simp: str_contains_def list_ex_iff)
  then have "s = take n s @ p @ drop (length p) (drop n s)"
    by (metis append_take_drop_id)
  then show "\<exists>a b. s = a @ p @ b" by blast
next
  assume "\<exists>a b. s = a @ p @ b"
  then obtain a b where "s = a @ p @ b" by blast
  then have "take (length p) (drop (length a) s) = p" "length a \<in> set [0..<Suc (length s)]"
    by auto
  then show "str_contains s p"
    unfolding str_contains_def list_ex_iff by blast
qed

lemma ends_with_iff: "ends_with s p \<longleftrightarrow> (\<exists>a. s = a @ p)"
proof
  assume "ends_with s p"
  then have "s = take (length s - length p) s @ p"
    by (metis append_take_drop_id ends_with_def)
  then show "\<exists>a. s = a @ p" by blast
qed (auto simp: ends_with_def)

lemma decimal_digits: "c \<in> set (decimal n) \<Longrightarrow> is_ascii_digit c"
proof (induction n rule: decimal.induct)
  case (1 n)
  have digit: "is_ascii_digit (char_of (48 + k :: nat))" if "k < 10" for k
    using that by (simp add: is_ascii_digit_def)
  show ?case
    using 1 digit [of n] digit [of "n mod 10"] by (subst (asm) (2) decimal.simps) (auto split: if_splits)
qed

section \<open>Fallible operations\<close>

text \<open>
  A fallible computation is \<open>error + value\<close>; \<open>try_then\<close> is the operator \<open>?\<close>. An operation on a store
  returns the store also when it fails, because the records it has appended by then stay; \<open>st_try\<close>
  lets a computation that writes nothing fail inside it, \<open>st_then\<close> runs two operations in turn.
\<close>

definition try_then :: "'e + 'a \<Rightarrow> ('a \<Rightarrow> 'e + 'b) \<Rightarrow> 'e + 'b" where
  "try_then r k = (case r of Inl e \<Rightarrow> Inl e | Inr a \<Rightarrow> k a)"

definition st_try :: "'e + 'a \<Rightarrow> 's \<Rightarrow> ('a \<Rightarrow> ('e + 'b) \<times> 's) \<Rightarrow> ('e + 'b) \<times> 's" where
  "st_try r s k = (case r of Inl e \<Rightarrow> (Inl e, s) | Inr a \<Rightarrow> k a)"

definition st_then :: "('e + 'a) \<times> 's \<Rightarrow> ('a \<Rightarrow> 's \<Rightarrow> ('e + 'b) \<times> 's) \<Rightarrow> ('e + 'b) \<times> 's" where
  "st_then m k = (case m of (Inl e, s) \<Rightarrow> (Inl e, s) | (Inr a, s) \<Rightarrow> k a s)"

definition ok_or :: "'a option \<Rightarrow> 'e \<Rightarrow> 'e + 'a" where
  "ok_or m e = (case m of None \<Rightarrow> Inl e | Some a \<Rightarrow> Inr a)"

definition ensure_that :: "bool \<Rightarrow> 'e \<Rightarrow> 'e + unit" where
  "ensure_that b e = (if b then Inr () else Inl e)"

text \<open>\<open>collect::<Result<Vec<_>>>()\<close>.\<close>

fun try_map :: "('a \<Rightarrow> 'e + 'b) \<Rightarrow> 'a list \<Rightarrow> 'e + 'b list" where
  "try_map f [] = Inr []"
| "try_map f (x # xs) = try_then (f x) (\<lambda>y. try_then (try_map f xs) (\<lambda>ys. Inr (y # ys)))"

named_theorems result_simps \<open>success of fallible computations\<close>

lemma try_then_Inr [result_simps]: "try_then r k = Inr b \<longleftrightarrow> (\<exists>a. r = Inr a \<and> k a = Inr b)"
  by (auto simp: try_then_def split: sum.splits)

lemma try_then_eqs [simp]: "try_then (Inl e) k = Inl e" "try_then (Inr a) k = k a"
  by (simp_all add: try_then_def)

lemma st_try_Inr [result_simps]: "st_try r s k = (Inr b, s') \<longleftrightarrow> (\<exists>a. r = Inr a \<and> k a = (Inr b, s'))"
  by (auto simp: st_try_def split: sum.splits)

lemma st_try_eqs [simp]: "st_try (Inl e) s k = (Inl e, s)" "st_try (Inr a) s k = k a"
  by (simp_all add: st_try_def)

lemma st_then_Inr [result_simps]:
  "st_then m k = (Inr b, s') \<longleftrightarrow> (\<exists>a s1. m = (Inr a, s1) \<and> k a s1 = (Inr b, s'))"
  by (auto simp: st_then_def split: sum.splits prod.splits)

lemma ok_or_Inr [result_simps, simp]: "ok_or m e = Inr a \<longleftrightarrow> m = Some a"
  by (auto simp: ok_or_def split: option.splits)

lemma ensure_that_Inr [result_simps, simp]: "ensure_that b e = Inr u \<longleftrightarrow> b"
  by (auto simp: ensure_that_def)

lemma try_map_Inr: "try_map f xs = Inr ys \<longleftrightarrow> list_all2 (\<lambda>x y. f x = Inr y) xs ys"
proof (induction xs arbitrary: ys)
  case Nil
  then show ?case by auto
next
  case (Cons x xs)
  then show ?case
    by (cases ys) (auto simp: result_simps)
qed

text \<open>\<open>Option::or\<close>, and \<open>Iterator::find_map\<close>.\<close>

definition or_else :: "'a option \<Rightarrow> 'a option \<Rightarrow> 'a option" where
  "or_else a b = (case a of None \<Rightarrow> b | Some x \<Rightarrow> Some x)"

fun find_map :: "('a \<Rightarrow> 'b option) \<Rightarrow> 'a list \<Rightarrow> 'b option" where
  "find_map f [] = None"
| "find_map f (x # xs) = (case f x of Some y \<Rightarrow> Some y | None \<Rightarrow> find_map f xs)"

section \<open>Paths\<close>

text \<open>A \<open>PathBuf\<close> is its text; \<open>Path::join\<close> as on Unix: an absolute argument replaces the path.\<close>

definition path_join :: "string \<Rightarrow> string \<Rightarrow> string" where
  "path_join base p =
     (if p \<noteq> [] \<and> hd p = CHR ''/'' then p
      else if base = [] \<or> last base = CHR ''/'' then base @ p
      else base @ ''/'' @ p)"

lemma path_join_segment:
  "base \<noteq> [] \<Longrightarrow> last base \<noteq> CHR ''/'' \<Longrightarrow> p = [] \<or> hd p \<noteq> CHR ''/'' \<Longrightarrow> path_join base p = base @ ''/'' @ p"
  by (auto simp: path_join_def)

text \<open>\<open>Path::file_name\<close>: the last component, unless it is \<open>..\<close> or there is none.\<close>

definition path_file_name :: "string \<Rightarrow> string option" where
  "path_file_name p = (
     let comps = filter (\<lambda>c. c \<noteq> [] \<and> c \<noteq> ''.'') (split_on (\<lambda>c. c = CHR ''/'') p)
     in if comps = [] \<or> last comps = ''..'' then None else Some (last comps))"

text \<open>\<open>Path::parent\<close> of a path without a trailing separator.\<close>

definition path_parent :: "string \<Rightarrow> string" where
  "path_parent p = (case rfind_char CHR ''/'' p of None \<Rightarrow> [] | Some n \<Rightarrow> if n = 0 then ''/'' else take n p)"

lemma path_parent_below: "p \<noteq> [] \<Longrightarrow> CHR ''/'' \<notin> set n \<Longrightarrow> path_parent (p @ CHR ''/'' # n) = p"
  by (simp add: path_parent_def rfind_char_last)

text \<open>A path and the directories above it, which \<open>fs::create_dir_all\<close> makes.\<close>

definition path_ancestors :: "string \<Rightarrow> string list" where
  "path_ancestors p = map (\<lambda>n. take n p) (filter (\<lambda>n. p ! n = CHR ''/'') [0..<length p]) @ [p]"

lemma path_ancestors_iff: "q \<in> set (path_ancestors p) \<longleftrightarrow> q = p \<or> (\<exists>r. p = q @ CHR ''/'' # r)"
proof -
  have "q \<in> (\<lambda>n. take n p) ` {n. n < length p \<and> p ! n = CHR ''/''} \<longleftrightarrow> (\<exists>r. p = q @ CHR ''/'' # r)"
  proof
    assume "q \<in> (\<lambda>n. take n p) ` {n. n < length p \<and> p ! n = CHR ''/''}"
    then obtain n where "n < length p" "p ! n = CHR ''/''" "q = take n p"
      by blast
    then show "\<exists>r. p = q @ CHR ''/'' # r"
      using id_take_nth_drop [of n p] by auto
  next
    assume "\<exists>r. p = q @ CHR ''/'' # r"
    then obtain r where "p = q @ CHR ''/'' # r"
      by blast
    then show "q \<in> (\<lambda>n. take n p) ` {n. n < length p \<and> p ! n = CHR ''/''}"
      by (intro image_eqI [of _ _ "length q"]) auto
  qed
  moreover have "set (path_ancestors p) = (\<lambda>n. take n p) ` {n. n < length p \<and> p ! n = CHR ''/''} \<union> {p}"
    by (auto simp: path_ancestors_def)
  ultimately show ?thesis
    by auto
qed

section \<open>Ordered maps\<close>

text \<open>
  What the components use of \<open>BTreeMap\<close>: insertion, lookup and iteration in key order.
\<close>

locale ordered_map =
  fixes empty :: "'m"
    and insert :: "'k::linorder \<Rightarrow> 'v \<Rightarrow> 'm \<Rightarrow> 'm"
    and get :: "'m \<Rightarrow> 'k \<Rightarrow> 'v option"
    and entries :: "'m \<Rightarrow> ('k \<times> 'v) list"
    and invar :: "'m \<Rightarrow> bool"
  assumes invar_empty: "invar empty"
    and invar_insert: "invar m \<Longrightarrow> invar (insert k v m)"
    and get_empty: "get empty k = None"
    and get_insert: "invar m \<Longrightarrow> get (insert k v m) j = (if j = k then Some v else get m j)"
    and entries_get: "invar m \<Longrightarrow> (k, v) \<in> set (entries m) \<longleftrightarrow> get m k = Some v"
    and entries_sorted: "invar m \<Longrightarrow> sorted (map fst (entries m))"
    and entries_distinct: "invar m \<Longrightarrow> distinct (map fst (entries m))"
begin

text \<open>Inserting the records of a ledger one by one, each under its key, keeps the latest.\<close>

lemma invar_fold: "invar m \<Longrightarrow> invar (fold (\<lambda>r m. insert (key r) (val r) m) rs m)"
  by (induction rs arbitrary: m) (auto intro: invar_insert)

lemma get_fold:
  "invar m \<Longrightarrow> get (fold (\<lambda>r m. insert (key r) (val r) m) rs m) k =
     (case List.find (\<lambda>r. key r = k) (rev rs) of Some r \<Rightarrow> Some (val r) | None \<Rightarrow> get m k)"
proof (induction rs rule: rev_induct)
  case Nil
  then show ?case by simp
next
  case (snoc r rs)
  have inv: "invar (fold (\<lambda>r m. insert (key r) (val r) m) rs m)"
    using snoc.prems by (rule invar_fold)
  show ?case
    using snoc get_insert [OF inv, of "key r" "val r" k] by auto
qed

lemma values_get:
  assumes "invar m"
  shows "v \<in> snd ` set (entries m) \<longleftrightarrow> (\<exists>k. get m k = Some v)"
  using entries_get [OF assms] by force

lemma keys_get:
  assumes "invar m"
  shows "fst ` set (entries m) = {k. get m k \<noteq> None}"
  using entries_get [OF assms] by force

lemma entries_unique:
  assumes m: "invar m" and n: "invar n" and eq: "\<And>k. get m k = get n k"
  shows "entries m = entries n"
proof -
  have "set (entries m) = set (entries n)"
    using entries_get [OF m] entries_get [OF n] eq by auto
  then show ?thesis
    using entries_sorted [OF m] entries_sorted [OF n] entries_distinct [OF m] entries_distinct [OF n]
    by (intro map_sorted_distinct_set_unique [of fst])
      (auto simp: distinct_map inj_on_def intro!: inj_onI dest!: entries_get [OF m, THEN iffD1]
        entries_get [OF n, THEN iffD1] simp: eq)
qed

end

type_synonym ('k, 'v) btree_map = "('k \<times> 'v) list"

fun bt_insert :: "'k::linorder \<Rightarrow> 'v \<Rightarrow> ('k, 'v) btree_map \<Rightarrow> ('k, 'v) btree_map" where
  "bt_insert k v [] = [(k, v)]"
| "bt_insert k v ((j, w) # m) =
     (if k < j then (k, v) # (j, w) # m
      else if k = j then (k, v) # m
      else (j, w) # bt_insert k v m)"

definition bt_get :: "('k, 'v) btree_map \<Rightarrow> 'k \<Rightarrow> 'v option" where
  "bt_get m k = map_of m k"

definition bt_wf :: "('k::linorder, 'v) btree_map \<Rightarrow> bool" where
  "bt_wf m \<longleftrightarrow> sorted_wrt (<) (map fst m)"

definition bt_values :: "('k, 'v) btree_map \<Rightarrow> 'v list" where
  "bt_values m = map snd m"

definition bt_keys :: "('k, 'v) btree_map \<Rightarrow> 'k list" where
  "bt_keys m = map fst m"

definition bt_contains :: "('k, 'v) btree_map \<Rightarrow> 'k \<Rightarrow> bool" where
  "bt_contains m k \<longleftrightarrow> bt_get m k \<noteq> None"

definition bt_remove :: "'k \<Rightarrow> ('k, 'v) btree_map \<Rightarrow> ('k, 'v) btree_map" where
  "bt_remove k m = filter (\<lambda>e. fst e \<noteq> k) m"

definition bt_of_list :: "('k::linorder \<times> 'v) list \<Rightarrow> ('k, 'v) btree_map" where
  "bt_of_list es = fold (\<lambda>e m. bt_insert (fst e) (snd e) m) es []"

lemma keys_bt_insert: "fst ` set (bt_insert k v m) = Set.insert k (fst ` set m)"
  by (induction k v m rule: bt_insert.induct) auto

lemma bt_wf_Nil [simp]: "bt_wf []"
  by (simp add: bt_wf_def)

lemma bt_wf_insert [simp]: "bt_wf m \<Longrightarrow> bt_wf (bt_insert k v m)"
proof (induction k v m rule: bt_insert.induct)
  case (1 k v)
  then show ?case by (simp add: bt_wf_def)
next
  case (2 k v j w m)
  then show ?case
    using keys_bt_insert [of k v m] by (auto simp: bt_wf_def)
qed

lemma bt_get_Nil [simp, btree_simps]: "bt_get [] k = None"
  by (simp add: bt_get_def)

lemma bt_get_insert [simp, btree_simps]:
  "bt_wf m \<Longrightarrow> bt_get (bt_insert k v m) j = (if j = k then Some v else bt_get m j)"
proof (induction k v m rule: bt_insert.induct)
  case (1 k v)
  then show ?case by (simp add: bt_get_def)
next
  case (2 k v j' w m)
  then show ?case by (auto simp: bt_get_def bt_wf_def)
qed

lemma bt_wf_distinct: "bt_wf m \<Longrightarrow> distinct (map fst m)"
  by (auto simp: bt_wf_def strict_sorted_iff)

lemma bt_wf_sorted: "bt_wf m \<Longrightarrow> sorted (map fst m)"
  by (auto simp: bt_wf_def strict_sorted_iff)

lemma bt_entries_get: "bt_wf m \<Longrightarrow> (k, v) \<in> set m \<longleftrightarrow> bt_get m k = Some v"
  by (simp add: bt_get_def map_of_eq_Some_iff [OF bt_wf_distinct])

interpretation bt: ordered_map "[]" bt_insert bt_get "\<lambda>m. m" bt_wf
  by unfold_locales (simp_all add: bt_wf_distinct bt_wf_sorted bt_entries_get)

lemma bt_wf_of_list [simp]: "bt_wf (bt_of_list es)"
  unfolding bt_of_list_def by (rule bt.invar_fold) simp

lemma inj_on_fst: "bt_wf m \<Longrightarrow> inj_on fst (set m)"
  by (auto simp: inj_on_def dest: eq_key_imp_eq_value [OF bt_wf_distinct])

lemma bt_ext: "bt_wf m \<Longrightarrow> bt_wf m' \<Longrightarrow> (\<And>k. bt_get m k = bt_get m' k) \<Longrightarrow> m = m'"
proof -
  assume wf: "bt_wf m" "bt_wf m'" and get: "\<And>k. bt_get m k = bt_get m' k"
  have "map_of m = map_of m'" using get by (auto simp: bt_get_def)
  then have "set m = set m'"
    by (metis bt_wf_distinct map_of_inject_set wf)
  moreover have "distinct m" "distinct m'" using wf bt_wf_distinct distinct_map by metis+
  ultimately show ?thesis
    using wf by (intro map_sorted_distinct_set_unique [where f = fst])
      (auto simp: bt_wf_sorted bt_wf_distinct intro!: inj_on_fst)
qed

lemma bt_of_list_snoc: "bt_of_list (es @ [(k, v)]) = bt_insert k v (bt_of_list es)"
  by (simp add: bt_of_list_def)

lemma bt_insert_last: "(\<And>j. j \<in> fst ` set m \<Longrightarrow> j < k) \<Longrightarrow> bt_insert k v m = m @ [(k, v)]"
  by (induction k v m rule: bt_insert.induct) (auto dest: order.asym)

lemma bt_of_list_sorted: "sorted_wrt (<) (map fst es) \<Longrightarrow> bt_of_list es = es"
proof (induction es rule: rev_induct)
  case (snoc e es)
  then show ?case
    by (cases e) (auto simp: bt_of_list_snoc sorted_wrt_append intro!: bt_insert_last)
qed (simp add: bt_of_list_def)

section \<open>Ordered sets\<close>

definition bset :: "'a::linorder list \<Rightarrow> 'a list" where
  "bset xs = sort (remdups xs)"

lemma set_bset [simp]: "set (bset xs) = set xs"
  by (simp add: bset_def)

lemma sorted_bset [simp]: "sorted (bset xs)"
  by (simp add: bset_def)

lemma distinct_bset [simp]: "distinct (bset xs)"
  by (simp add: bset_def)

lemma bset_cong: "set xs = set ys \<Longrightarrow> bset xs = bset ys"
  by (rule sorted_distinct_set_unique) auto

lemma bset_Nil [simp]: "bset [] = []"
  by (simp add: bset_def)

lemma bset_Nil_iff [simp]: "bset xs = [] \<longleftrightarrow> xs = []"
  by (metis set_bset set_empty)

section \<open>Ledgers\<close>

text \<open>
  The stores append records to JSONL ledgers and read them back by folding the ledger into a
  \<open>BTreeMap\<close> from the record's identifier to its latest version.
\<close>

definition latest_by :: "('r \<Rightarrow> 'k::linorder) \<Rightarrow> 'r list \<Rightarrow> ('k, 'r) btree_map" where
  "latest_by key rs = fold (\<lambda>r m. bt_insert (key r) r m) rs []"

lemma bt_wf_latest_by [simp]: "bt_wf (latest_by key rs)"
  unfolding latest_by_def by (rule bt.invar_fold [where val = "\<lambda>r. r"]) simp

lemma bt_get_latest_by:
  "bt_get (latest_by key rs) k = List.find (\<lambda>r. key r = k) (rev rs)"
  unfolding latest_by_def using bt.get_fold [of "[]" key "\<lambda>r. r" rs k]
  by (simp split: option.splits)

lemma latest_by_Nil [simp]: "latest_by key [] = []"
  by (simp add: latest_by_def)

lemma latest_by_append [simp, btree_simps]:
  "latest_by key (rs @ [r]) = bt_insert (key r) r (latest_by key rs)"
  by (simp add: latest_by_def)

lemma bt_get_latest_by_key: "bt_get (latest_by key rs) k = Some r \<Longrightarrow> key r = k \<and> r \<in> set rs"
  by (auto simp: bt_get_latest_by find_Some_iff) (metis nth_mem set_rev length_rev)

lemma bt_values_iff: "bt_wf m \<Longrightarrow> v \<in> set (bt_values m) \<longleftrightarrow> (\<exists>k. bt_get m k = Some v)"
  unfolding bt_values_def using bt.values_get [of m v] by simp

lemma bt_keys_iff: "bt_wf m \<Longrightarrow> k \<in> set (bt_keys m) \<longleftrightarrow> bt_get m k \<noteq> None"
  unfolding bt_keys_def using bt.keys_get [of m] by (simp add: set_eq_iff)

text \<open>
  A ledger inside a store: the component that owns it provides the list of its records and the append
  operation, and promises that an append adds one record at the end.
\<close>

locale ledger =
  fixes records :: "'s \<Rightarrow> 'r list"
    and append_record :: "'r \<Rightarrow> 's \<Rightarrow> 's"
    and record_key :: "'r \<Rightarrow> string"
  assumes records_append: "records (append_record r s) = records s @ [r]"
begin

definition latest :: "'s \<Rightarrow> (string, 'r) btree_map" where
  "latest s = latest_by record_key (records s)"

lemma latest_wf: "bt_wf (latest s)"
  by (simp add: latest_def)

lemma get_append:
  "bt_get (latest (append_record r s)) k = (if k = record_key r then Some r else bt_get (latest s) k)"
  by (simp add: latest_def records_append)

lemma get_key: "bt_get (latest s) k = Some r \<Longrightarrow> record_key r = k"
  unfolding latest_def by (drule bt_get_latest_by_key) blast

lemma get_record: "bt_get (latest s) k = Some r \<Longrightarrow> r \<in> set (records s)"
  unfolding latest_def by (drule bt_get_latest_by_key) blast

lemma get_None: "bt_get (latest s) k = None \<longleftrightarrow> k \<notin> record_key ` set (records s)"
  by (auto simp: latest_def bt_get_latest_by find_None_iff)

lemma values_iff: "r \<in> set (bt_values (latest s)) \<longleftrightarrow> bt_get (latest s) (record_key r) = Some r"
  using get_key by (auto simp: bt_values_iff [OF latest_wf])

text \<open>Appending several records, no two with the same key, updates each of their keys once.\<close>

lemma records_fold: "records (fold append_record rs s) = records s @ rs"
  by (induction rs arbitrary: s) (simp_all add: records_append)

lemma get_fold_append:
  "bt_get (latest (fold append_record rs s)) k =
     (case List.find (\<lambda>r. record_key r = k) (rev rs) of Some r \<Rightarrow> Some r | None \<Rightarrow> bt_get (latest s) k)"
proof (induction rs rule: rev_induct)
  case (snoc r rs)
  then show ?case
    by (simp add: get_append)
qed simp

end

text \<open>\<open>Iterator::last\<close>, and the latest record of a key as the last of its history.\<close>

definition last_option :: "'a list \<Rightarrow> 'a option" where
  "last_option xs = (if xs = [] then None else Some (last xs))"

lemma last_option_Some: "last_option xs = Some x \<longleftrightarrow> xs \<noteq> [] \<and> last xs = x"
  by (auto simp: last_option_def)

lemma last_option_None: "last_option xs = None \<longleftrightarrow> xs = []"
  by (simp add: last_option_def)

lemma last_option_snoc [simp]: "last_option (xs @ [x]) = Some x"
  by (simp add: last_option_def)

lemma find_rev_filter: "List.find P (rev xs) = last_option (filter P xs)"
proof (induction xs rule: rev_induct)
  case Nil
  show ?case by (simp add: last_option_def)
next
  case (snoc x xs)
  then show ?case by (simp add: last_option_def)
qed

lemma latest_by_last_option: "bt_get (latest_by key rs) k = last_option (filter (\<lambda>r. key r = k) rs)"
  by (simp add: bt_get_latest_by find_rev_filter)

text \<open>
  A ledger with a rule for the records of one key: the first record is initial, and each record is
  followed only by a record that the rule allows.
\<close>

locale ledger_history = ledger +
  fixes initial :: "'b \<Rightarrow> bool"
    and next_record :: "'b \<Rightarrow> 'b \<Rightarrow> bool"
  assumes next_key: "next_record r r' \<Longrightarrow> record_key r' = record_key r"
begin

definition history :: "'a \<Rightarrow> string \<Rightarrow> 'b list" where
  "history s k = filter (\<lambda>r. record_key r = k) (records s)"

definition valid :: "'a \<Rightarrow> bool" where
  "valid s \<longleftrightarrow> (\<forall>k. (history s k \<noteq> [] \<longrightarrow> initial (hd (history s k))) \<and> successively next_record (history s k))"

lemma latest_history: "bt_get (latest s) k = last_option (history s k)"
  by (simp add: latest_def history_def latest_by_last_option)

lemma history_append:
  "history (append_record r s) k = (if k = record_key r then history s k @ [r] else history s k)"
  by (simp add: history_def records_append)

lemma valid_cong: "records s' = records s \<Longrightarrow> valid s' \<longleftrightarrow> valid s"
  by (simp add: valid_def history_def)

lemma valid_append_new:
  assumes "valid s" "bt_get (latest s) (record_key r) = None" "initial r"
  shows "valid (append_record r s)"
  using assms by (auto simp: valid_def history_append latest_history last_option_None)

lemma valid_append_next:
  assumes "valid s" "bt_get (latest s) (record_key r) = Some r" "next_record r r'"
  shows "valid (append_record r' s)"
proof -
  have key: "record_key r' = record_key r"
    using assms(3) by (rule next_key)
  have h: "history s (record_key r) \<noteq> []" "last (history s (record_key r)) = r"
    using assms(2) by (auto simp: latest_history last_option_Some)
  have "successively next_record (history s (record_key r) @ [r'])"
    using assms(1,3) h by (auto simp: successively_append_iff valid_def)
  then show ?thesis
    using assms(1) h by (auto simp: valid_def history_append key)
qed

lemma valid_successively: "valid s \<Longrightarrow> successively next_record (history s k)"
  by (simp add: valid_def)

lemma valid_initial: "valid s \<Longrightarrow> history s k \<noteq> [] \<Longrightarrow> initial (hd (history s k))"
  by (simp add: valid_def)

end

lemma find_distinct_key:
  "distinct (map f rs) \<Longrightarrow> r \<in> set rs \<Longrightarrow> List.find (\<lambda>x. f x = f r) rs = Some r"
  by (induction rs) (auto simp: image_iff)

end
