(* ===== verification/Bindings.thy ===== *)
theory Bindings
  imports Prelude
begin

text \<open>
  Binding expressions of scheduled jobs, \<open>crates/onecontext-context-engine/src/scheduler_bindings.rs\<close>:
  the expression parser (comma lists with quotes and parentheses, wiki page handles, artifact calls,
  scoped fields, literals) and the resolver against a run's context, with the two facts that make
  their recursion end. All characters that the parser compares with are ASCII, so scanning bytes
  visits the same separators as scanning \<open>char\<close>s. Discovery of wiki pages on disk is not modelled;
  the page handles are part of the context.
\<close>

section \<open>Data\<close>

record binding_reference =
  br_namespace :: string
  br_name :: string
  br_argument :: "string option"

datatype binding_expression =
    BindingExpression (be_raw: string) (be_kind: binding_expression_kind)
      (be_references: "binding_reference list")
and binding_expression_kind =
    Literal
  | Field string string
  | WikiPage string string
  | WikiConceptsDir
  | ContextEngineScratch
  | Artifact string string
  | ArtifactCollection string string
  | BindingList "binding_expression list"

datatype binding_resolution_status = Resolved | RuntimeRequired | Unsupported

datatype binding_value = Scalar string | ValueList "string list"

record binding_resolution =
  bn_expression :: binding_expression
  bn_status :: binding_resolution_status
  bn_value :: "binding_value option"
  bn_reason :: "string option"

record wiki_page_handles =
  wp_source :: string
  wp_talk :: string

record packet_binding_context =
  pb_id :: string
  pb_date :: string
  pb_hour :: string
  pb_path :: string
  pb_content_sha256 :: string
  pb_hour_has_multiple_scribe_artifacts :: "bool option"

record hour_binding_context =
  hb_id :: string
  hb_date :: string
  hb_hour :: string

record day_binding_context =
  db_date :: string

record binding_resolution_context =
  bc_run_id :: string
  bc_latest_refreshed_day :: "string option"
  bc_context_engine_root :: string
  bc_user_wiki_root :: string
  bc_artifact_root :: string
  bc_pages :: "(string, wiki_page_handles) btree_map"
  bc_packet :: "packet_binding_context option"
  bc_hour :: "hour_binding_context option"
  bc_day :: "day_binding_context option"

section \<open>Parsing\<close>

definition is_identifierish :: "string \<Rightarrow> bool" where
  "is_identifierish value \<longleftrightarrow> value \<noteq> [] \<and>
     list_all (\<lambda>c. is_ascii_alphanumeric c \<or> c = CHR ''_'' \<or> c = CHR ''-'') value"

definition quote_single :: char where "quote_single = char_of (39 :: nat)"
definition quote_double :: char where "quote_double = char_of (34 :: nat)"

definition strip_matching_quotes :: "string \<Rightarrow> string" where
  "strip_matching_quotes raw =
     (if length raw \<ge> 2 \<and> ((hd raw = quote_single \<and> last raw = quote_single) \<or>
                           (hd raw = quote_double \<and> last raw = quote_double))
      then butlast (tl raw) else raw)"

text \<open>
  The loop of \<open>split_top_level_commas\<close>: the nesting depth, the open quote, the part being read (the
  slice from \<open>start\<close>) and the rest of the text; \<open>i32\<close> depth cannot overflow on a text below 2 GiB.
\<close>

fun split_scan :: "nat \<Rightarrow> char option \<Rightarrow> string \<Rightarrow> string \<Rightarrow> string list" where
  "split_scan depth quote cur [] = [str_trim cur]"
| "split_scan depth (Some active) cur (ch # rest) =
     split_scan depth (if ch = active then None else Some active) (cur @ [ch]) rest"
| "split_scan depth None cur (ch # rest) =
     (if ch = quote_single \<or> ch = quote_double then split_scan depth (Some ch) (cur @ [ch]) rest
      else if ch = CHR ''('' then split_scan (depth + 1) None (cur @ [ch]) rest
      else if ch = CHR '')'' \<and> depth > 0 then split_scan (depth - 1) None (cur @ [ch]) rest
      else if ch = CHR '','' \<and> depth = 0 then str_trim cur # split_scan depth None [] rest
      else split_scan depth None (cur @ [ch]) rest)"

definition split_top_level_commas :: "string \<Rightarrow> string list" where
  "split_top_level_commas raw = filter (\<lambda>part. part \<noteq> []) (split_scan 0 None [] raw)"

definition parse_wiki_page_handle :: "string \<Rightarrow> (string \<times> string) option" where
  "parse_wiki_page_handle raw = (case strip_prefix ''wiki.page('' raw of None \<Rightarrow> None | Some rest \<Rightarrow>
     (case find_char (CHR '')'') rest of None \<Rightarrow> None | Some close \<Rightarrow>
        let slug = strip_matching_quotes (str_trim (take close rest)) in
        (case strip_prefix ''.'' (drop (close + 1) rest) of None \<Rightarrow> None | Some tail \<Rightarrow>
           let suffix = str_trim tail in
           if slug = [] \<or> \<not> is_identifierish suffix then None else Some (slug, suffix))))"

definition parse_namespace_call :: "string \<Rightarrow> string \<Rightarrow> (string \<times> string) option" where
  "parse_namespace_call raw pre = (case strip_prefix pre raw of None \<Rightarrow> None | Some rest \<Rightarrow>
     (case find_char (CHR ''('') rest of None \<Rightarrow> None | Some opn \<Rightarrow>
     (case rfind_char (CHR '')'') rest of None \<Rightarrow> None | Some close \<Rightarrow>
        if close \<le> opn \<or> close + 1 \<noteq> length rest then None
        else let name = str_trim (take opn rest);
                 argument = str_trim (take (close - (opn + 1)) (drop (opn + 1) rest))
             in if name = [] \<or> argument = [] \<or> \<not> is_identifierish name then None
                else Some (name, argument))))"

text \<open>Everything below the comma list: one expression without a top-level comma.\<close>

definition parse_single_binding :: "string \<Rightarrow> binding_expression" where
  "parse_single_binding raw = (case parse_wiki_page_handle raw of
     Some (slug, handle) \<Rightarrow> BindingExpression raw (WikiPage slug handle)
       [\<lparr> br_namespace = ''wiki.page'', br_name = handle, br_argument = Some slug \<rparr>]
   | None \<Rightarrow>
     if raw = ''wiki.concepts.dir'' then BindingExpression raw WikiConceptsDir
       [\<lparr> br_namespace = ''wiki.concepts'', br_name = ''dir'', br_argument = None \<rparr>]
     else if raw = ''context_engine.scratch'' then BindingExpression raw ContextEngineScratch
       [\<lparr> br_namespace = ''context_engine'', br_name = ''scratch'', br_argument = None \<rparr>]
     else (case parse_namespace_call raw ''artifact.'' of
       Some (name, argument) \<Rightarrow> BindingExpression raw (Artifact name argument)
         [\<lparr> br_namespace = ''artifact'', br_name = name, br_argument = Some argument \<rparr>]
     | None \<Rightarrow> (case parse_namespace_call raw ''artifacts.'' of
       Some (name, argument) \<Rightarrow> BindingExpression raw (ArtifactCollection name argument)
         [\<lparr> br_namespace = ''artifacts'', br_name = name, br_argument = Some argument \<rparr>]
     | None \<Rightarrow> (case split_once (CHR ''.'') raw of
       Some (scope, field) \<Rightarrow>
         if is_identifierish scope \<and> is_identifierish field
         then BindingExpression raw (Field scope field)
           [\<lparr> br_namespace = scope, br_name = field, br_argument = None \<rparr>]
         else BindingExpression raw Literal []
     | None \<Rightarrow> BindingExpression raw Literal []))))"

lemma length_trim_start: "length (trim_start s) \<le> length s"
proof -
  have "length (concat (dropWhile P cs)) \<le> length (concat cs)" for P and cs :: "string list"
    by (induction cs) auto
  then show ?thesis
    by (metis trim_start_def concat_utf8_chars)
qed

lemma length_trim_end: "length (trim_end s) \<le> length s"
proof -
  have "length (concat (rev (dropWhile P cs))) \<le> length (concat (rev cs))" for P and cs :: "string list"
    by (induction cs) auto
  from this [of is_whitespace "rev (utf8_chars s)"] show ?thesis
    by (simp add: trim_end_def)
qed

lemma length_str_trim: "length (str_trim s) \<le> length s"
  unfolding str_trim_def using length_trim_start length_trim_end le_trans by blast

lemma length_strip_matching_quotes: "length (strip_matching_quotes s) \<le> length s"
  by (auto simp: strip_matching_quotes_def)

text \<open>
  A scan that finds a top-level comma loses that comma, so the parts of a list are shorter than
  the list: the measure of the parser.
\<close>

lemma split_scan_nonempty [simp]: "split_scan depth quote cur s \<noteq> []"
  by (induction depth quote cur s rule: split_scan.induct) auto

lemma split_scan_length:
  "sum_list (map length (split_scan depth quote cur s)) + length (split_scan depth quote cur s)
     \<le> length cur + length s + 1"
proof (induction depth quote cur s rule: split_scan.induct)
  case (1 depth quote cur)
  show ?case using length_str_trim [of cur] by simp
next
  case (3 depth cur ch rest)
  then show ?case
    using length_str_trim [of cur] by (auto split: if_splits)
qed auto

lemma split_top_level_commas_shorter:
  assumes "part \<in> set (split_top_level_commas raw)" "1 < length (split_top_level_commas raw)"
  shows "length part < length raw"
proof -
  let ?ps = "split_scan 0 None [] raw"
  have mem: "part \<in> set ?ps"
    using assms(1) by (simp add: split_top_level_commas_def)
  have "1 < length ?ps"
    using assms(2) length_filter_le [of "\<lambda>p. p \<noteq> []" ?ps]
    by (simp add: split_top_level_commas_def del: length_filter_le)
  moreover have "length part \<le> sum_list (map length ?ps)"
    using mem by (intro member_le_sum_list) auto
  ultimately show ?thesis
    using split_scan_length [of 0 None "[]" raw] by simp
qed

function parse_binding_expression :: "string \<Rightarrow> binding_expression" where
  "parse_binding_expression s = (
     let raw = str_trim s; parts = split_top_level_commas raw in
     if length parts > 1 then
       let items = map parse_binding_expression parts in
       BindingExpression raw (BindingList items) (concat (map be_references items))
     else parse_single_binding raw)"
  by pat_completeness auto
termination
proof (relation "measure length")
  fix s raw :: string and parts x
  assume "raw = str_trim s" "parts = split_top_level_commas raw" "1 < length parts" "x \<in> set parts"
  then have "length x < length (str_trim s)"
    using split_top_level_commas_shorter by metis
  then show "(x, s) \<in> measure length"
    using length_str_trim [of s] by simp
qed simp

declare parse_binding_expression.simps [simp del]

section \<open>Resolution\<close>

definition resolved :: "binding_expression \<Rightarrow> binding_value \<Rightarrow> binding_resolution" where
  "resolved e v = \<lparr> bn_expression = e, bn_status = Resolved, bn_value = Some v, bn_reason = None \<rparr>"

definition runtime_required :: "binding_expression \<Rightarrow> string \<Rightarrow> binding_resolution" where
  "runtime_required e reason =
     \<lparr> bn_expression = e, bn_status = RuntimeRequired, bn_value = None, bn_reason = Some reason \<rparr>"

definition unsupported :: "binding_expression \<Rightarrow> string \<Rightarrow> binding_resolution" where
  "unsupported e reason =
     \<lparr> bn_expression = e, bn_status = Unsupported, bn_value = None, bn_reason = Some reason \<rparr>"

definition bool_text :: "bool \<Rightarrow> string" where
  "bool_text b = (if b then ''true'' else ''false'')"

definition packet_field :: "packet_binding_context \<Rightarrow> string \<Rightarrow> string option" where
  "packet_field packet field =
     (if field = ''id'' then Some (pb_id packet)
      else if field = ''date'' then Some (pb_date packet)
      else if field = ''hour'' then Some (pb_hour packet)
      else if field = ''path'' then Some (pb_path packet)
      else if field = ''content_sha256'' then Some (pb_content_sha256 packet)
      else if field = ''hour_has_multiple_scribe_artifacts''
        then map_option bool_text (pb_hour_has_multiple_scribe_artifacts packet)
      else None)"

definition hour_field :: "hour_binding_context \<Rightarrow> string \<Rightarrow> string option" where
  "hour_field hour field =
     (if field = ''id'' then Some (hb_id hour)
      else if field = ''date'' then Some (hb_date hour)
      else if field = ''hour'' then Some (hb_hour hour)
      else None)"

definition field_verdict :: "binding_expression \<Rightarrow> string \<Rightarrow> string \<Rightarrow> string option \<Rightarrow> binding_resolution" where
  "field_verdict e scope field value = (case value of
     Some v \<Rightarrow> resolved e (Scalar v)
   | None \<Rightarrow> runtime_required e (scope @ ''.'' @ field @ '' is supplied by scheduler runtime state''))"

definition resolve_field ::
  "binding_expression \<Rightarrow> string \<Rightarrow> string \<Rightarrow> binding_resolution_context \<Rightarrow> binding_resolution" where
  "resolve_field e scope field ctx =
     (if scope = ''packet'' then (case bc_packet ctx of
        None \<Rightarrow> runtime_required e ''packet context required''
      | Some packet \<Rightarrow> field_verdict e scope field (packet_field packet field))
      else if scope = ''hour'' then (case bc_hour ctx of
        None \<Rightarrow> runtime_required e ''hour context required''
      | Some hour \<Rightarrow> field_verdict e scope field (hour_field hour field))
      else if scope = ''day'' then (case bc_day ctx of
        None \<Rightarrow> runtime_required e ''day context required''
      | Some day \<Rightarrow> field_verdict e scope field (if field = ''date'' then Some (db_date day) else None))
      else if scope = ''run'' then field_verdict e scope field
        (if field = ''id'' then Some (bc_run_id ctx)
         else if field = ''latest_refreshed_day'' then bc_latest_refreshed_day ctx
         else None)
      else field_verdict e scope field None)"

definition resolve_wiki_page ::
  "binding_expression \<Rightarrow> string \<Rightarrow> string \<Rightarrow> binding_resolution_context \<Rightarrow> binding_resolution" where
  "resolve_wiki_page e slug handle ctx = (case bt_get (bc_pages ctx) slug of
     None \<Rightarrow> runtime_required e (''page '' @ slug @ '' must be provisioned'')
   | Some handles \<Rightarrow>
       if handle = ''source'' then resolved e (Scalar (wp_source handles))
       else if handle = ''talk'' then resolved e (Scalar (wp_talk handles))
       else if handle = ''prior''
         then runtime_required e ''prior page selection depends on refresh/run history''
       else runtime_required e (''wiki.page handle '' @ handle @ '' is supplied by wiki runtime''))"

datatype argument_resolution = ArgResolved string | ArgRuntimeRequired string | ArgUnsupported string

definition argument_verdict :: "string \<Rightarrow> binding_resolution \<Rightarrow> argument_resolution" where
  "argument_verdict argument r = (case (bn_status r, bn_value r) of
     (Resolved, Some (Scalar value)) \<Rightarrow> ArgResolved value
   | (RuntimeRequired, _) \<Rightarrow> ArgRuntimeRequired (case bn_reason r of Some reason \<Rightarrow> reason
       | None \<Rightarrow> ''runtime value required for '' @ argument)
   | (Resolved, Some (ValueList _)) \<Rightarrow> ArgUnsupported (argument @ '' resolved to a list'')
   | _ \<Rightarrow> ArgUnsupported (''unsupported artifact argument '' @ argument))"

definition artifact_verdict :: "binding_expression \<Rightarrow> string \<Rightarrow> bool \<Rightarrow> binding_resolution_context \<Rightarrow>
    argument_resolution \<Rightarrow> binding_resolution" where
  "artifact_verdict e name collection ctx arg = (case arg of
     ArgRuntimeRequired reason \<Rightarrow> runtime_required e reason
   | ArgUnsupported reason \<Rightarrow> unsupported e reason
   | ArgResolved argument_value \<Rightarrow>
       let base = path_join (bc_artifact_root ctx) name;
           path = (if collection then path_join base argument_value
                   else path_join base (argument_value @ ''.json''))
       in resolved e (Scalar path))"

text \<open>One step of the loop of \<open>resolve_list\<close>: \<open>Inl\<close> is its early return.\<close>

definition list_step :: "binding_expression \<Rightarrow> binding_expression \<Rightarrow> binding_resolution \<Rightarrow>
    string list \<times> string list \<Rightarrow> binding_resolution + (string list \<times> string list)" where
  "list_step e item r acc = (case acc of (vals, reasons) \<Rightarrow>
     (case (bn_status r, bn_value r) of
       (Resolved, Some (Scalar value)) \<Rightarrow> Inr (vals @ [value], reasons)
     | (Resolved, Some (ValueList xs)) \<Rightarrow> Inr (vals @ xs, reasons)
     | (RuntimeRequired, _) \<Rightarrow> Inr (vals, reasons @ [case bn_reason r of Some reason \<Rightarrow> reason
         | None \<Rightarrow> ''runtime value required for '' @ be_raw item])
     | (Unsupported, _) \<Rightarrow> Inl (unsupported e (case bn_reason r of Some reason \<Rightarrow> reason
         | None \<Rightarrow> ''unsupported expression '' @ be_raw item))
     | _ \<Rightarrow> Inr (vals, reasons @ [''runtime value required for '' @ be_raw item])))"

text \<open>
  The recursion of the resolver ends because the argument of an artifact call is shorter than the
  call and the items of a list are shorter than the list.
\<close>

primrec binding_weight :: "binding_expression \<Rightarrow> nat"
  and kind_weight :: "binding_expression_kind \<Rightarrow> nat" where
  "binding_weight (BindingExpression raw kind refs) = kind_weight kind"
| "kind_weight Literal = 0"
| "kind_weight (Field scope field) = 0"
| "kind_weight (WikiPage slug handle) = 0"
| "kind_weight WikiConceptsDir = 0"
| "kind_weight ContextEngineScratch = 0"
| "kind_weight (Artifact name argument) = 3 * length argument + 2"
| "kind_weight (ArtifactCollection name argument) = 3 * length argument + 2"
| "kind_weight (BindingList items) = 1 + sum_list (map Suc (map binding_weight items))"

lemma binding_weight_kind: "binding_weight e = kind_weight (be_kind e)"
  by (cases e) simp

lemma namespace_call_argument:
  assumes "parse_namespace_call raw pre = Some (name, argument)"
  shows "length argument + length pre + 2 \<le> length raw"
proof -
  obtain rest n c where raw: "raw = pre @ rest" and "c > n" "c + 1 = length rest"
    and arg: "argument = str_trim (take (c - (n + 1)) (drop (n + 1) rest))"
    using assms that
    by (clarsimp simp: parse_namespace_call_def Let_def not_le split: option.splits if_splits)
  then have "length (take (c - (n + 1)) (drop (n + 1) rest)) + 2 \<le> length rest"
      "length raw = length pre + length rest"
    by simp_all
  moreover have "length argument \<le> length (take (c - (n + 1)) (drop (n + 1) rest))"
    unfolding arg by (rule length_str_trim)
  ultimately show ?thesis
    by linarith
qed

lemma single_binding_weight: "binding_weight (parse_single_binding raw) \<le> 3 * length raw"
proof -
  have "3 * length argument + 2 \<le> 3 * length raw"
    if "parse_namespace_call raw pre = Some (name, argument)" for pre name argument
    using namespace_call_argument [OF that] by simp
  then show ?thesis
    by (auto simp: parse_single_binding_def split: option.splits)
qed

lemma parse_binding_weight: "binding_weight (parse_binding_expression s) \<le> 3 * length s"
proof (induction s rule: parse_binding_expression.induct)
  case (1 s)
  let ?parts = "split_top_level_commas (str_trim s)"
  let ?scan = "split_scan 0 None [] (str_trim s)"
  show ?case
  proof (cases "1 < length ?parts")
    case True
    have each: "binding_weight (parse_binding_expression p) \<le> 3 * length p" if "p \<in> set ?parts" for p
      using 1 [OF refl refl True that] .
    have "sum_list (map Suc (map binding_weight (map parse_binding_expression ps)))
        \<le> 3 * sum_list (map length ps) + length ps" if "set ps \<subseteq> set ?parts" for ps
      using that each by (induction ps) fastforce+
    then have "sum_list (map Suc (map binding_weight (map parse_binding_expression ?parts)))
        \<le> 3 * sum_list (map length ?parts) + length ?parts"
      by blast
    moreover have "sum_list (map length ?parts) + length ?parts \<le> length (str_trim s) + 1"
    proof -
      have "sum_list (map length (filter P ps)) + length (filter P ps)
          \<le> sum_list (map length ps) + length ps" for P and ps :: "string list"
        by (induction ps) auto
      then show ?thesis
        using split_scan_length [of 0 None "[]" "str_trim s"] le_trans
        unfolding split_top_level_commas_def by fastforce
    qed
    ultimately show ?thesis
      using True length_str_trim [of s]
      by (subst parse_binding_expression.simps) (simp add: Let_def o_def)
  next
    case False
    then show ?thesis
      using single_binding_weight [of "str_trim s"] length_str_trim [of s]
      by (subst parse_binding_expression.simps) (simp add: Let_def)
  qed
qed

function resolve_binding_expression ::
    "binding_expression \<Rightarrow> binding_resolution_context \<Rightarrow> binding_resolution"
  and resolve_argument :: "string \<Rightarrow> binding_resolution_context \<Rightarrow> argument_resolution"
  and resolve_list_loop :: "binding_expression \<Rightarrow> binding_expression list \<Rightarrow>
    string list \<times> string list \<Rightarrow> binding_resolution_context \<Rightarrow> binding_resolution" where
  "resolve_binding_expression e ctx = (case be_kind e of
     Literal \<Rightarrow> resolved e (Scalar (be_raw e))
   | Field scope field \<Rightarrow> resolve_field e scope field ctx
   | WikiPage slug handle \<Rightarrow> resolve_wiki_page e slug handle ctx
   | WikiConceptsDir \<Rightarrow> resolved e
       (Scalar (path_join (bc_user_wiki_root ctx) ''source/families/reference/topics''))
   | ContextEngineScratch \<Rightarrow> resolved e (Scalar (path_join (bc_context_engine_root ctx) ''scratch''))
   | Artifact name argument \<Rightarrow> artifact_verdict e name False ctx (resolve_argument argument ctx)
   | ArtifactCollection name argument \<Rightarrow>
       artifact_verdict e name True ctx (resolve_argument argument ctx)
   | BindingList items \<Rightarrow> resolve_list_loop e items ([], []) ctx)"
| "resolve_argument argument ctx =
     (let stripped = strip_matching_quotes (str_trim argument) in
      if stripped \<noteq> str_trim argument then ArgResolved stripped
      else argument_verdict argument
        (resolve_binding_expression (parse_binding_expression stripped) ctx))"
| "resolve_list_loop e [] acc ctx =
     (if snd acc = [] then resolved e (ValueList (fst acc))
      else runtime_required e (str_join ''; '' (snd acc)))"
| "resolve_list_loop e (item # items) acc ctx =
     (case list_step e item (resolve_binding_expression item ctx) acc of
        Inl r \<Rightarrow> r
      | Inr acc' \<Rightarrow> resolve_list_loop e items acc' ctx)"
  by pat_completeness auto
termination
proof (relation "measure (\<lambda>x. case x of Inl (e, ctx) \<Rightarrow> binding_weight e
    | Inr (Inl (argument, ctx)) \<Rightarrow> 3 * length argument + 1
    | Inr (Inr (e, items, acc, ctx)) \<Rightarrow> sum_list (map Suc (map binding_weight items)))",
    goal_cases)
  case (5 argument ctx stripped)
  then show ?case
    using parse_binding_weight [of stripped] length_strip_matching_quotes [of "str_trim argument"]
      length_str_trim [of argument] by simp
qed (auto simp: binding_weight_kind)

declare resolve_binding_expression.simps [simp del] resolve_argument.simps [simp del]

definition resolve_binding :: "string \<Rightarrow> binding_resolution_context \<Rightarrow> binding_resolution" where
  "resolve_binding raw ctx = resolve_binding_expression (parse_binding_expression raw) ctx"

section \<open>Facts on resolutions\<close>

text \<open>A verdict has a value when it is resolved and a reason otherwise.\<close>

definition verdict_ok :: "binding_expression \<Rightarrow> binding_resolution \<Rightarrow> bool" where
  "verdict_ok e r \<longleftrightarrow> bn_expression r = e \<and>
     (bn_status r = Resolved \<longleftrightarrow> bn_value r \<noteq> None) \<and> (bn_status r = Resolved \<longleftrightarrow> bn_reason r = None)"

lemma verdict_ok_intros [simp]:
  "verdict_ok e (resolved e v)" "verdict_ok e (runtime_required e s)" "verdict_ok e (unsupported e s)"
  by (simp_all add: verdict_ok_def resolved_def runtime_required_def unsupported_def)

lemma verdict_ok_field [simp]:
  "verdict_ok e (resolve_field e scope field ctx)" "verdict_ok e (resolve_wiki_page e slug handle ctx)"
  "verdict_ok e (artifact_verdict e name coll ctx arg)"
  by (auto simp: resolve_field_def field_verdict_def resolve_wiki_page_def artifact_verdict_def Let_def
      split: option.splits argument_resolution.splits)

lemma list_step_verdict: "list_step e item r acc = Inl r' \<Longrightarrow> verdict_ok e r'"
  by (auto simp: list_step_def split: prod.splits binding_resolution_status.splits option.splits
      binding_value.splits)

lemma resolve_list_loop_ok [simp]: "verdict_ok e (resolve_list_loop e items acc ctx)"
  by (induction items arbitrary: acc) (auto split: sum.splits dest: list_step_verdict)

lemma resolve_verdict_ok [simp]: "verdict_ok e (resolve_binding_expression e ctx)"
  by (subst resolve_binding_expression.simps) (simp split: binding_expression_kind.splits)

text \<open>The runtime context only grows during a run: values that are absent may appear.\<close>

definition opt_le :: "'a option \<Rightarrow> 'a option \<Rightarrow> bool" where
  "opt_le a b \<longleftrightarrow> a = None \<or> a = b"

definition packet_le :: "packet_binding_context \<Rightarrow> packet_binding_context \<Rightarrow> bool" where
  "packet_le p q \<longleftrightarrow>
     p\<lparr> pb_hour_has_multiple_scribe_artifacts := None \<rparr> = q\<lparr> pb_hour_has_multiple_scribe_artifacts := None \<rparr> \<and>
     opt_le (pb_hour_has_multiple_scribe_artifacts p) (pb_hour_has_multiple_scribe_artifacts q)"

definition context_le :: "binding_resolution_context \<Rightarrow> binding_resolution_context \<Rightarrow> bool" where
  "context_le c d \<longleftrightarrow>
     bc_run_id c = bc_run_id d \<and> bc_context_engine_root c = bc_context_engine_root d \<and>
     bc_user_wiki_root c = bc_user_wiki_root d \<and> bc_artifact_root c = bc_artifact_root d \<and>
     opt_le (bc_latest_refreshed_day c) (bc_latest_refreshed_day d) \<and>
     (\<forall>e \<in> set (bc_pages c). bt_get (bc_pages d) (fst e) = Some (snd e)) \<and>
     (case bc_packet c of None \<Rightarrow> True | Some p \<Rightarrow>
        (case bc_packet d of None \<Rightarrow> False | Some q \<Rightarrow> packet_le p q)) \<and>
     opt_le (bc_hour c) (bc_hour d) \<and> opt_le (bc_day c) (bc_day d)"

lemma packet_field_le: "packet_le p q \<Longrightarrow> packet_field p f = Some v \<Longrightarrow> packet_field q f = Some v"
  by (cases p; cases q) (auto simp: packet_le_def packet_field_def opt_le_def split: if_splits)

lemma resolved_eqs [simp]:
  "bn_status (resolved e v) = Resolved" "bn_status (runtime_required e s) = RuntimeRequired"
  "bn_status (unsupported e s) = Unsupported" "bn_value (resolved e v) = Some v"
  by (simp_all add: resolved_def runtime_required_def unsupported_def)

lemma field_verdict_le:
  assumes "opt_le v w" "bn_status (field_verdict e scope f v) = Resolved"
  shows "field_verdict e scope f w = field_verdict e scope f v"
  using assms by (auto simp: opt_le_def field_verdict_def)

lemma packet_field_opt_le: "packet_le p q \<Longrightarrow> opt_le (packet_field p f) (packet_field q f)"
  using packet_field_le [of p q f] by (cases "packet_field p f") (auto simp: opt_le_def)

lemma resolve_field_le:
  assumes le: "context_le c d" and res: "bn_status (resolve_field e scope f c) = Resolved"
  shows "resolve_field e scope f d = resolve_field e scope f c"
proof -
  consider "scope = ''packet''" | "scope = ''hour''" | "scope = ''day''" | "scope = ''run''"
    | "scope \<notin> {''packet'', ''hour'', ''day'', ''run''}"
    by blast
  then show ?thesis
  proof cases
    case 1
    then obtain p q where p: "bc_packet c = Some p" "bc_packet d = Some q" "packet_le p q"
      using le res by (auto simp: resolve_field_def context_le_def split: option.splits)
    show ?thesis
      using res p 1 field_verdict_le [OF packet_field_opt_le [OF p(3)]] by (simp add: resolve_field_def)
  next
    case 2
    then show ?thesis
      using le res by (auto simp: resolve_field_def context_le_def opt_le_def split: option.splits)
  next
    case 3
    then show ?thesis
      using le res by (auto simp: resolve_field_def context_le_def opt_le_def split: option.splits)
  next
    case 4
    let ?v = "\<lambda>k. if f = ''id'' then Some (bc_run_id k)
         else if f = ''latest_refreshed_day'' then bc_latest_refreshed_day k else None"
    have "opt_le (?v c) (?v d)"
      using le by (simp add: context_le_def opt_le_def)
    then show ?thesis
      using res 4 field_verdict_le [of "?v c" "?v d" e scope f] by (simp add: resolve_field_def)
  next
    case 5
    then show ?thesis
      by (simp add: resolve_field_def)
  qed
qed

lemma resolve_wiki_page_le:
  assumes "context_le c d" "bn_status (resolve_wiki_page e slug handle c) = Resolved"
  shows "resolve_wiki_page e slug handle d = resolve_wiki_page e slug handle c"
proof -
  obtain h where h: "bt_get (bc_pages c) slug = Some h"
    using assms(2) by (auto simp: resolve_wiki_page_def split: option.splits)
  then have "(slug, h) \<in> set (bc_pages c)"
    by (simp add: bt_get_def map_of_SomeD)
  then have "bt_get (bc_pages d) slug = Some h"
    using assms(1) by (fastforce simp: context_le_def)
  with h show ?thesis
    by (simp add: resolve_wiki_page_def)
qed

definition same_if_resolved :: "binding_resolution \<Rightarrow> binding_resolution \<Rightarrow> bool" where
  "same_if_resolved r r' \<longleftrightarrow> (bn_status r = Resolved \<longrightarrow> r' = r)"

definition same_if_arg_resolved :: "argument_resolution \<Rightarrow> argument_resolution \<Rightarrow> bool" where
  "same_if_arg_resolved a a' \<longleftrightarrow> (\<forall>v. a = ArgResolved v \<longrightarrow> a' = a)"

lemma resolved_has_value:
  "verdict_ok e r \<Longrightarrow> bn_status r = Resolved \<Longrightarrow> \<exists>v. bn_value r = Some v"
  by (auto simp: verdict_ok_def)

lemma argument_verdict_resolved:
  "argument_verdict argument r = ArgResolved v \<Longrightarrow> bn_status r = Resolved"
  by (auto simp: argument_verdict_def split: binding_resolution_status.splits option.splits
      binding_value.splits)

lemma artifact_verdict_resolved:
  "bn_status (artifact_verdict e name coll ctx arg) = Resolved \<Longrightarrow> \<exists>v. arg = ArgResolved v"
  by (auto simp: artifact_verdict_def split: argument_resolution.splits)

text \<open>A list is resolved only when every item was: a reason, once noted, stays.\<close>

lemma list_step_reasons:
  assumes "list_step e item r acc = Inr acc'"
  shows "snd acc \<noteq> [] \<Longrightarrow> snd acc' \<noteq> []" "verdict_ok item r \<Longrightarrow> snd acc' = [] \<Longrightarrow> bn_status r = Resolved"
  using assms by (auto simp: list_step_def verdict_ok_def split: prod.splits option.splits
      binding_resolution_status.splits binding_value.splits)

lemma list_step_Inl: "list_step e item r acc = Inl r' \<Longrightarrow> bn_status r' = Unsupported"
  by (auto simp: list_step_def split: prod.splits binding_resolution_status.splits option.splits
      binding_value.splits)

lemma resolve_list_loop_resolved:
  assumes "bn_status (resolve_list_loop e items acc ctx) = Resolved"
  shows "snd acc = [] \<and> (\<forall>item \<in> set items. bn_status (resolve_binding_expression item ctx) = Resolved)"
  using assms
proof (induction items arbitrary: acc)
  case Nil
  then show ?case by (auto split: if_splits)
next
  case (Cons item items)
  then show ?case
    using list_step_reasons [of e item "resolve_binding_expression item ctx" acc]
    by (fastforce split: sum.splits dest: list_step_Inl)
qed

lemma resolve_list_loop_cong:
  "(\<And>item. item \<in> set items \<Longrightarrow> resolve_binding_expression item d = resolve_binding_expression item c) \<Longrightarrow>
   resolve_list_loop e items acc d = resolve_list_loop e items acc c"
  by (induction items arbitrary: acc) (auto split: sum.splits)

lemma artifact_verdict_cong:
  "bc_artifact_root c = bc_artifact_root d \<Longrightarrow> artifact_verdict e n k d a = artifact_verdict e n k c a"
  by (cases a) (simp_all add: artifact_verdict_def)

lemma resolve_le:
  assumes le: "context_le c d"
  shows "bn_status (resolve_binding_expression e c) = Resolved \<Longrightarrow>
      resolve_binding_expression e d = resolve_binding_expression e c"
proof (induction "binding_weight e" arbitrary: e rule: less_induct)
  case less
  have roots: "bc_user_wiki_root d = bc_user_wiki_root c" "bc_context_engine_root d = bc_context_engine_root c"
    "bc_artifact_root d = bc_artifact_root c"
    using le by (simp_all add: context_le_def)
  have arg: "resolve_argument argument d = resolve_argument argument c"
    if "3 * length argument + 2 = binding_weight e" "resolve_argument argument c = ArgResolved v"
    for argument v
  proof -
    let ?s = "strip_matching_quotes (str_trim argument)"
    have "binding_weight (parse_binding_expression ?s) < binding_weight e"
      using parse_binding_weight [of ?s] length_strip_matching_quotes [of "str_trim argument"]
        length_str_trim [of argument] that(1) by simp
    then show ?thesis
      using less.hyps that(2) argument_verdict_resolved
      by (auto simp: resolve_argument.simps Let_def split: if_splits)
  qed
  show ?case
  proof (cases "be_kind e")
    case (Artifact name argument)
    then have "bn_status (artifact_verdict e name False c (resolve_argument argument c)) = Resolved"
      using less.prems by (simp add: resolve_binding_expression.simps [of e])
    then obtain v where "resolve_argument argument c = ArgResolved v"
      using artifact_verdict_resolved by blast
    then show ?thesis
      using arg [of argument v] Artifact artifact_verdict_cong [OF roots(3) [symmetric]]
      by (simp add: binding_weight_kind resolve_binding_expression.simps [of e])
  next
    case (ArtifactCollection name argument)
    then have "bn_status (artifact_verdict e name True c (resolve_argument argument c)) = Resolved"
      using less.prems by (simp add: resolve_binding_expression.simps [of e])
    then obtain v where "resolve_argument argument c = ArgResolved v"
      using artifact_verdict_resolved by blast
    then show ?thesis
      using arg [of argument v] ArtifactCollection artifact_verdict_cong [OF roots(3) [symmetric]]
      by (simp add: binding_weight_kind resolve_binding_expression.simps [of e])
  next
    case (BindingList items)
    have "resolve_binding_expression item d = resolve_binding_expression item c" if "item \<in> set items" for item
    proof (rule less.hyps)
      have "Suc (binding_weight item) \<le> sum_list (map Suc (map binding_weight items))"
        using that by (intro member_le_sum_list) auto
      then show "binding_weight item < binding_weight e"
        using BindingList by (simp add: binding_weight_kind [of e])
      show "bn_status (resolve_binding_expression item c) = Resolved"
        using that less.prems BindingList resolve_list_loop_resolved [of e items "([], [])" c]
        by (simp add: resolve_binding_expression.simps [of e])
    qed
    then have "resolve_list_loop e items ([], []) d = resolve_list_loop e items ([], []) c"
      by (rule resolve_list_loop_cong)
    then show ?thesis
      using BindingList by (simp add: resolve_binding_expression.simps [of e])
  next
    case (Field scope field)
    then show ?thesis
      using less.prems resolve_field_le [OF le, of e scope field]
      by (simp add: resolve_binding_expression.simps [of e])
  next
    case (WikiPage slug handle)
    then show ?thesis
      using less.prems resolve_wiki_page_le [OF le, of e slug handle]
      by (simp add: resolve_binding_expression.simps [of e])
  qed (simp_all add: resolve_binding_expression.simps [of e] roots)
qed

section \<open>Properties\<close>

text \<open>Every verdict of the resolver is well formed: it carries the expression it judges, a value
  exactly when it is resolved and a reason exactly when it is not; so no default reason of the
  list and argument resolvers is ever used, whatever the expression and the context.\<close>

theorem resolve_binding_verdict:
  "verdict_ok (parse_binding_expression raw) (resolve_binding raw ctx)"
  by (simp add: resolve_binding_def)

text \<open>Resolution is monotone in the runtime context: once an expression is resolved, adding pages,
  a packet, an hour, a day or the latest refreshed day to the context keeps the very same value.\<close>

theorem resolve_binding_monotone:
  assumes "context_le c d" "bn_status (resolve_binding raw c) = Resolved"
  shows "resolve_binding raw d = resolve_binding raw c"
  using resolve_le [OF assms(1)] assms(2) by (simp add: resolve_binding_def)

definition example_context :: binding_resolution_context where
  "example_context = \<lparr> bc_run_id = ''run-1'', bc_latest_refreshed_day = None,
     bc_context_engine_root = ''/ce'', bc_user_wiki_root = ''/wiki'', bc_artifact_root = ''/ce/artifacts'',
     bc_pages = [], bc_packet = None, bc_hour = None, bc_day = None \<rparr>"

theorem resolve_binding_monotone_witness:
  "resolve_binding ''artifact.plan(run.id)'' (example_context\<lparr> bc_day := Some \<lparr> db_date = ''2026-01-02'' \<rparr> \<rparr>) =
   resolve_binding ''artifact.plan(run.id)'' example_context"
  by (rule resolve_binding_monotone) code_simp+

end
