(* ===== verification/Orchestration.thy ===== *)
theory Orchestration
  imports Prelude
begin

text \<open>
  The executable orchestration plan of \<open>crates/onecontext-context-engine/src/orchestration.rs\<close>: the
  phases with their dependencies and jobs, the receipt policy and the packet policy. Every struct is
  a record with the fields in the order of the source, prefixed by two or three letters of its name.
  An \<open>f64\<close> is kept as its 64-bit pattern.
\<close>

record resolved_route =
  rt_from_role :: string
  rt_thread_id :: string
  rt_to :: "string list"
  rt_cc :: "string list"

record executable_phase_job =
  ej_phase_id :: string
  ej_job_id :: string
  ej_agent_id :: string
  ej_fanout :: string
  ej_when :: "string option"
  ej_max_concurrent :: "32 word option"
  ej_required_artifacts :: "string list"
  ej_required_mail :: "string list"
  ej_bindings :: "(string, string) btree_map"
  ej_inputs :: "string list"
  ej_outputs :: "string list"
  ej_route :: resolved_route

record executable_phase =
  ep_id :: string
  ep_label :: string
  ep_owner :: string
  ep_depends_on :: "string list"
  ep_strategy :: string
  ep_completion :: string
  ep_reads_raw_history :: bool
  ep_durable_receipt :: string
  ep_jobs :: "executable_phase_job list"

record executable_receipt_policy =
  rp_require_birth_certificate :: bool
  rp_require_turn_start :: bool
  rp_require_context_injection :: bool
  rp_require_adapter_events :: bool
  rp_require_final_message :: bool
  rp_require_talk_append :: bool
  rp_require_mail_delivery :: bool
  rp_require_turn_complete :: bool
  rp_final_message_path :: string
  rp_final_message_fields :: "string list"
  rp_talk_delivery_mode :: string
  rp_require_non_empty_final_message :: bool
  rp_do_not_count_codex_exit_as_done :: bool

record executable_packet_policy =
  pp_recent_first_days :: "32 word"
  pp_backfill_days :: "32 word"
  pp_backfill_order :: string
  pp_incremental_unit :: "string option"
  pp_model_context_tokens :: "32 word"
  pp_source_context_fraction :: "64 word"
  pp_target_source_tokens :: "32 word"
  pp_split_when_estimated_tokens_exceed :: "32 word"
  pp_raw_history_roles :: "string list"
  pp_downstream_roles_read_scribe_artifacts :: bool
  pp_cache_enabled :: bool
  pp_cache_key :: "string option"
  pp_skip_unchanged_scribe_packets :: bool

record executable_orchestration_plan =
  op_schema_version :: "32 word"
  op_kind :: string
  op_phase_count :: nat
  op_job_count :: nat
  op_phases :: "executable_phase list"
  op_receipt_policy :: executable_receipt_policy
  op_packet_policy :: executable_packet_policy

end
