(* ===== verification/Safe_Id.thy ===== *)
theory Safe_Id
  imports Prelude
begin

text \<open>
  Identifiers that become directory names of the context engine: \<open>safe_run_id\<close> and
  \<open>storage_id_hash\<close> of \<open>crates/onecontext-context-engine/src/lib.rs\<close>. SHA-256 (crate \<open>sha2\<close>) is the
  parameter \<open>sha\<close>, from the hashed bytes to the digest bytes; where a lemma depends on the digest,
  the fact used is its documented length of 32 bytes.
\<close>

section \<open>The operations\<close>

definition context_engine_schema_version :: "32 word" where
  "context_engine_schema_version = 1"

definition hex_digit :: "nat \<Rightarrow> char" where
  "hex_digit n = (if n < 10 then char_of (48 + n) else char_of (87 + n))"

text \<open>\<open>format!("{byte:02x}")\<close>.\<close>

definition hex_byte :: "char \<Rightarrow> string" where
  "hex_byte c = [hex_digit (byte c div 16), hex_digit (byte c mod 16)]"

fun hex_nibble :: "bool \<Rightarrow> bool \<Rightarrow> bool \<Rightarrow> bool \<Rightarrow> char" where
  "hex_nibble b0 b1 False False = (if b1 then (if b0 then CHR ''3'' else CHR ''2'') else (if b0 then CHR ''1'' else CHR ''0''))"
| "hex_nibble b0 b1 True False = (if b1 then (if b0 then CHR ''7'' else CHR ''6'') else (if b0 then CHR ''5'' else CHR ''4''))"
| "hex_nibble b0 b1 False True = (if b1 then (if b0 then CHR ''b'' else CHR ''a'') else (if b0 then CHR ''9'' else CHR ''8''))"
| "hex_nibble b0 b1 True True = (if b1 then (if b0 then CHR ''f'' else CHR ''e'') else (if b0 then CHR ''d'' else CHR ''c''))"

lemma hex_byte_bits [code]:
  "hex_byte (Char b0 b1 b2 b3 b4 b5 b6 b7) = [hex_nibble b4 b5 b6 b7, hex_nibble b0 b1 b2 b3]"
  by (cases b7; cases b6; cases b5; cases b4; cases b3; cases b2; cases b1; cases b0;
      simp add: hex_byte_def hex_digit_def of_char_def char_of_def bit_0)

definition storage_id_hash :: "(string \<Rightarrow> string) \<Rightarrow> string \<Rightarrow> string" where
  "storage_id_hash sha value = concat (map hex_byte (take 6 (sha value)))"

definition safe_id_char :: "char \<Rightarrow> bool" where
  "safe_id_char c \<longleftrightarrow>
     is_ascii_alphanumeric c \<or> c = CHR ''-'' \<or> c = CHR ''_'' \<or> c = CHR ''.''"

definition safe_id_push :: "string \<Rightarrow> char" where
  "safe_id_push ch = (case ch of [c] \<Rightarrow> if safe_id_char c then c else CHR ''-'' | _ \<Rightarrow> CHR ''-'')"

definition safe_run_id :: "(string \<Rightarrow> string) \<Rightarrow> string \<Rightarrow> string" where
  "safe_run_id sha value = (
     let raw = str_trim value;
         out = map safe_id_push (utf8_chars raw);
         trimmed = trim_matches CHR ''-'' out;
         base = (if trimmed = [] then ''wiki-company-run'' else trimmed);
         max_len = 120;
         needs_hash = (base \<noteq> raw \<or> length (utf8_chars base) > max_len)
     in if \<not> needs_hash then base
        else let suffix = storage_id_hash sha raw;
                 prefix_len = max (max_len - (length suffix + 1)) 1;
                 prefix = concat (take prefix_len (utf8_chars base))
             in prefix @ ''-'' @ suffix)"

section \<open>Characters\<close>

lemma byte_less_256: "byte c < 256"
  by (metis of_char_of nat_of_char_less_256)

lemma safe_id_char_ascii: "safe_id_char c \<Longrightarrow> byte c < 128"
  by (auto simp: safe_id_char_def is_ascii_alphanumeric_def is_ascii_alphabetic_def
      is_ascii_digit_def)

lemma safe_id_push_safe [ident_simps]: "safe_id_char (safe_id_push ch)"
  by (auto simp: safe_id_push_def safe_id_char_def split: list.splits)

lemma not_slash_if_safe: "safe_id_char c \<Longrightarrow> c \<noteq> CHR ''/''"
  by (auto simp: safe_id_char_def is_ascii_alphanumeric_def is_ascii_alphabetic_def
      is_ascii_digit_def)

lemma hex_digit_alnum: "n < 16 \<Longrightarrow> is_ascii_alphanumeric (hex_digit n)"
  by (auto simp: hex_digit_def is_ascii_alphanumeric_def is_ascii_alphabetic_def is_ascii_digit_def)

lemma hex_byte_alnum: "c \<in> set (hex_byte d) \<Longrightarrow> is_ascii_alphanumeric c"
proof -
  have "byte d div 16 < 16"
    using byte_less_256 [of d] by linarith
  then show "c \<in> set (hex_byte d) \<Longrightarrow> is_ascii_alphanumeric c"
    by (auto simp: hex_byte_def intro!: hex_digit_alnum)
qed

lemma storage_id_hash_alnum: "c \<in> set (storage_id_hash sha v) \<Longrightarrow> is_ascii_alphanumeric c"
  by (auto simp: storage_id_hash_def intro: hex_byte_alnum)

lemma length_hex_byte: "length (hex_byte c) = 2"
  by (simp add: hex_byte_def)

lemma length_hex_bytes: "length (concat (map hex_byte cs)) = 2 * length cs"
  by (induction cs) (auto simp: hex_byte_def)

lemma length_storage_id_hash: "length (storage_id_hash sha v) = 2 * min 6 (length (sha v))"
  by (simp add: storage_id_hash_def length_hex_bytes min.commute)

text \<open>A string of ASCII characters is its own list of characters.\<close>

lemma utf8_chars_ascii: "(\<And>c. c \<in> set s \<Longrightarrow> byte c < 128) \<Longrightarrow> utf8_chars s = map (\<lambda>c. [c]) s"
proof (induction s)
  case (Cons c s)
  then have "takeWhile utf8_continuation s = []" "dropWhile utf8_continuation s = s"
    by (cases s; fastforce simp: utf8_continuation_def)+
  with Cons show ?case by simp
qed simp

lemma concat_singletons: "concat (map (\<lambda>c. [c]) s) = s"
  by (induction s) auto

lemma utf8_chars_safe: "list_all safe_id_char s \<Longrightarrow> utf8_chars s = map (\<lambda>c. [c]) s"
  by (rule utf8_chars_ascii) (auto simp: list_all_iff safe_id_char_ascii)

lemma safe_not_whitespace: "safe_id_char c \<Longrightarrow> \<not> is_whitespace [c]"
  by (auto simp: is_whitespace_def safe_id_char_def is_ascii_alphanumeric_def
      is_ascii_alphabetic_def is_ascii_digit_def)

lemma str_trim_safe:
  assumes "list_all safe_id_char s"
  shows "str_trim s = s"
proof -
  have none: "dropWhile is_whitespace (map (\<lambda>c. [c]) t) = map (\<lambda>c. [c]) t"
    if "list_all safe_id_char t" for t :: string
    using that by (cases t) (auto simp: safe_not_whitespace)
  have rev: "dropWhile is_whitespace (rev (map (\<lambda>c. [c]) s)) = rev (map (\<lambda>c. [c]) s)"
    using none [of "rev s"] assms by (simp add: rev_map)
  show ?thesis
    by (simp add: str_trim_def trim_start_def trim_end_def utf8_chars_safe [OF assms] none [OF assms]
        concat_singletons rev)
qed

section \<open>The base of an identifier\<close>

text \<open>The mapped and trimmed text, and the identifier that is built from it.\<close>

definition safe_id_base :: "string \<Rightarrow> string" where
  "safe_id_base raw = (let trimmed = trim_matches CHR ''-'' (map safe_id_push (utf8_chars raw)) in
     if trimmed = [] then ''wiki-company-run'' else trimmed)"

lemma trim_matches_subset: "set (trim_matches c s) \<subseteq> set s"
  unfolding trim_matches_def by (metis set_dropWhileD set_rev subsetI)

lemma hd_dropWhile_neq: "dropWhile (\<lambda>d. d = c) s \<noteq> [] \<Longrightarrow> hd (dropWhile (\<lambda>d. d = c) s) \<noteq> c"
  by (induction s) auto

lemma trim_matches_ends:
  assumes "trim_matches c s \<noteq> []"
  shows "hd (trim_matches c s) \<noteq> c" "last (trim_matches c s) \<noteq> c"
proof -
  let ?t = "dropWhile (\<lambda>d. d = c) s"
  let ?u = "dropWhile (\<lambda>d. d = c) (rev ?t)"
  have u: "?u \<noteq> []"
    using assms by (simp add: trim_matches_def)
  have "last (trim_matches c s) = hd ?u"
    using u by (simp add: trim_matches_def last_rev)
  then show "last (trim_matches c s) \<noteq> c"
    using hd_dropWhile_neq [OF u] by simp
  have t: "?t \<noteq> []"
    using u by (metis dropWhile.simps(1) rev.simps(1))
  have "last ?u = last (rev ?t)"
    using u by (metis last_appendR takeWhile_dropWhile_id)
  then have "hd (trim_matches c s) = hd ?t"
    using u t by (simp add: trim_matches_def hd_rev last_rev)
  then show "hd (trim_matches c s) \<noteq> c"
    using hd_dropWhile_neq [OF t] by simp
qed

lemma trim_matches_id:
  assumes "s \<noteq> [] \<Longrightarrow> hd s \<noteq> c" "s \<noteq> [] \<Longrightarrow> last s \<noteq> c"
  shows "trim_matches c s = s"
proof -
  have "dropWhile (\<lambda>d. d = c) s = s"
    using assms by (cases s) auto
  moreover have "dropWhile (\<lambda>d. d = c) (rev s) = rev s"
    using assms by (cases s rule: rev_cases) auto
  ultimately show ?thesis
    by (simp add: trim_matches_def)
qed

lemma safe_id_base_safe [ident_simps]: "list_all safe_id_char (safe_id_base raw)"
proof -
  have "safe_id_char c" if "c \<in> set (trim_matches CHR ''-'' (map safe_id_push (utf8_chars raw)))" for c
    using that trim_matches_subset [of "CHR ''-''" "map safe_id_push (utf8_chars raw)"]
    by (auto simp: ident_simps)
  moreover have "list_all safe_id_char ''wiki-company-run''"
    by code_simp
  ultimately show ?thesis
    by (auto simp: safe_id_base_def Let_def list_all_iff)
qed

lemma safe_id_base_shape:
  "safe_id_base raw \<noteq> []" "hd (safe_id_base raw) \<noteq> CHR ''-''" "last (safe_id_base raw) \<noteq> CHR ''-''"
  using trim_matches_ends [of "CHR ''-''" "map safe_id_push (utf8_chars raw)"]
  by (auto simp: safe_id_base_def Let_def)

lemma safe_id_base_id:
  assumes "list_all safe_id_char s" "s \<noteq> []" "hd s \<noteq> CHR ''-''" "last s \<noteq> CHR ''-''"
  shows "safe_id_base s = s"
proof -
  have "map safe_id_push (utf8_chars s) = s"
    using assms(1) by (simp add: utf8_chars_safe o_def safe_id_push_def list_all_iff map_idI)
  then show ?thesis
    using assms by (simp add: safe_id_base_def trim_matches_id)
qed

lemma safe_run_id_eq:
  "safe_run_id sha value = (
     let raw = str_trim value; base = safe_id_base raw; suffix = storage_id_hash sha raw in
     if base = raw \<and> length base \<le> 120 then base
     else take (max (120 - (length suffix + 1)) 1) base @ ''-'' @ suffix)"
proof -
  have chars: "utf8_chars (safe_id_base raw) = map (\<lambda>c. [c]) (safe_id_base raw)" for raw
    by (rule utf8_chars_safe) (rule safe_id_base_safe)
  have len: "length (utf8_chars (safe_id_base raw)) = length (safe_id_base raw)" for raw
    by (simp add: chars)
  have pre: "concat (take n (utf8_chars (safe_id_base raw))) = take n (safe_id_base raw)" for n raw
    by (simp add: chars take_map concat_singletons)
  show ?thesis
    unfolding safe_run_id_def Let_def safe_id_base_def [unfolded Let_def, symmetric]
    by (simp only: len pre not_less not_not de_Morgan_disj)
qed

text \<open>A usable identifier: what \<open>safe_run_id\<close> leaves as it is.\<close>

definition stable_id :: "string \<Rightarrow> bool" where
  "stable_id s \<longleftrightarrow> s \<noteq> [] \<and> list_all safe_id_char s \<and> length s \<le> 120 \<and>
     hd s \<noteq> CHR ''-'' \<and> last s \<noteq> CHR ''-''"

lemma safe_run_id_shape:
  "safe_run_id sha v \<noteq> [] \<and> list_all safe_id_char (safe_run_id sha v) \<and>
   length (safe_run_id sha v) \<le> 120 \<and> hd (safe_run_id sha v) \<noteq> CHR ''-''"
proof -
  let ?raw = "str_trim v"
  let ?b = "safe_id_base ?raw" and ?s = "storage_id_hash sha ?raw"
  have len: "length ?s \<le> 12"
    by (simp add: length_storage_id_hash)
  have hash: "list_all safe_id_char ?s"
    by (auto simp: list_all_iff safe_id_char_def dest: storage_id_hash_alnum)
  have pre: "take (max (120 - (length ?s + 1)) 1) ?b = hd ?b # take (max (120 - (length ?s + 1)) 1 - 1) (tl ?b)"
    using safe_id_base_shape(1) [of ?raw] by (cases ?b) (auto simp: take_Cons split: nat.splits)
  have tk: "list_all safe_id_char (take n ?b)" for n
    using safe_id_base_safe [of ?raw] by (auto simp: list_all_iff dest: in_set_takeD)
  show ?thesis
    using len hash tk safe_id_base_shape [of ?raw] safe_id_base_safe [of ?raw]
    by (auto simp: safe_run_id_eq Let_def pre) (auto simp: pre [symmetric] safe_id_char_def min_def)
qed

lemma safe_run_id_fixpoint: "stable_id v \<Longrightarrow> safe_run_id sha v = v"
  by (simp add: stable_id_def safe_run_id_eq str_trim_safe safe_id_base_id Let_def)

lemma last_storage_id_hash:
  assumes "sha v \<noteq> []"
  shows "last (storage_id_hash sha v) \<noteq> CHR ''-''" "storage_id_hash sha v \<noteq> []"
proof -
  show ne: "storage_id_hash sha v \<noteq> []"
    using assms length_storage_id_hash [of sha v]
    by (metis length_0_conv min_def mult_eq_0_iff zero_neq_numeral)
  have "is_ascii_alphanumeric (last (storage_id_hash sha v))"
    using last_in_set [OF ne] by (rule storage_id_hash_alnum)
  then show "last (storage_id_hash sha v) \<noteq> CHR ''-''"
    by (auto simp: is_ascii_alphanumeric_def is_ascii_alphabetic_def is_ascii_digit_def)
qed

lemma safe_run_id_stable:
  assumes "length (sha (str_trim v)) = 32"
  shows "stable_id (safe_run_id sha v)"
proof -
  have "sha (str_trim v) \<noteq> []"
    using assms by auto
  then have "last (safe_run_id sha v) \<noteq> CHR ''-''"
    using safe_id_base_shape [of "str_trim v"] last_storage_id_hash [of sha "str_trim v"]
    unfolding safe_run_id_eq Let_def by (simp split: if_splits) metis
  then show ?thesis
    using safe_run_id_shape [of sha v] by (auto simp: stable_id_def)
qed

lemma hex_digit_inj: "m < 16 \<Longrightarrow> n < 16 \<Longrightarrow> hex_digit m = hex_digit n \<Longrightarrow> m = n"
  by (auto simp: hex_digit_def split: if_splits dest!: arg_cong [of _ _ byte])

lemma hex_byte_inj: "hex_byte c = hex_byte d \<Longrightarrow> c = d"
proof -
  assume eq: "hex_byte c = hex_byte d"
  have lt: "byte c div 16 < 16" "byte d div 16 < 16"
    using byte_less_256 [of c] byte_less_256 [of d] by linarith+
  have "byte c div 16 = byte d div 16"
    by (rule hex_digit_inj) (use eq lt in \<open>auto simp: hex_byte_def\<close>)
  moreover have "byte c mod 16 = byte d mod 16"
    by (rule hex_digit_inj) (use eq in \<open>auto simp: hex_byte_def\<close>)
  ultimately have "byte c = byte d"
    by (metis div_mult_mod_eq)
  then show "c = d"
    by (metis char_of_char)
qed

lemma hex_bytes_inj: "concat (map hex_byte cs) = concat (map hex_byte ds) \<Longrightarrow> cs = ds"
proof (induction cs arbitrary: ds)
  case Nil
  then show ?case
    by (cases ds) (auto simp: hex_byte_def)
next
  case (Cons c cs)
  then obtain d es where ds: "ds = d # es"
    by (cases ds) (auto simp: hex_byte_def)
  have "hex_byte c = hex_byte d \<and> concat (map hex_byte cs) = concat (map hex_byte es)"
    using Cons.prems by (simp add: ds append_eq_append_conv length_hex_byte)
  then show ?case
    using Cons.IH [of es] hex_byte_inj ds by blast
qed

lemma safe_run_id_hashed:
  assumes "safe_run_id sha v \<noteq> str_trim v"
  shows "\<exists>p. safe_run_id sha v = p @ storage_id_hash sha (str_trim v)"
  using assms unfolding safe_run_id_eq Let_def by (auto split: if_splits)

section \<open>Properties\<close>

text \<open>Whatever text names a run, an agent or an operation, \<open>safe_run_id\<close> returns one non-empty
  path component of at most 120 characters: letters, digits, dash, underscore and dot only (so no
  path separator), not beginning with a dash.\<close>

theorem safe_run_id_path_safe:
  "safe_run_id sha v \<noteq> [] \<and> length (safe_run_id sha v) \<le> 120 \<and>
   list_all safe_id_char (safe_run_id sha v) \<and> CHR ''/'' \<notin> set (safe_run_id sha v) \<and>
   hd (safe_run_id sha v) \<noteq> CHR ''-''"
  using safe_run_id_shape [of sha v] not_slash_if_safe by (fastforce simp: list_all_iff)

text \<open>\<open>safe_run_id\<close> is idempotent and its fixed points are exactly the stable identifiers, when
  the digest has the 32 bytes of SHA-256: an identifier read back from a directory name addresses
  the same directory.\<close>

theorem safe_run_id_idempotent:
  assumes "\<And>s. length (sha s) = 32"
  shows "safe_run_id sha (safe_run_id sha v) = safe_run_id sha v \<and>
    (safe_run_id sha v = v \<longleftrightarrow> stable_id v)"
  using safe_run_id_stable [of sha v] safe_run_id_fixpoint assms by metis

theorem safe_run_id_idempotent_witness:
  "safe_run_id (\<lambda>s. replicate 32 CHR ''a'') (safe_run_id (\<lambda>s. replicate 32 CHR ''a'') ''a b'') =
     safe_run_id (\<lambda>s. replicate 32 CHR ''a'') ''a b'' \<and>
   safe_run_id (\<lambda>s. replicate 32 CHR ''a'') ''a b'' \<noteq> ''a b''"
proof -
  have "\<not> stable_id ''a b''"
    by code_simp
  then show ?thesis
    using safe_run_id_idempotent [of "\<lambda>s. replicate 32 CHR ''a''" "''a b''"] by simp
qed

text \<open>Two texts that were rewritten (their identifier is not their trimmed text) share an
  identifier only when the first six digest bytes of their trimmed texts agree.\<close>

theorem safe_run_id_collision:
  assumes "\<And>s. length (sha s) = 32"
    and "safe_run_id sha v \<noteq> str_trim v" "safe_run_id sha w \<noteq> str_trim w"
    and "safe_run_id sha v = safe_run_id sha w"
  shows "take 6 (sha (str_trim v)) = take 6 (sha (str_trim w))"
proof -
  obtain p q where pq: "p @ storage_id_hash sha (str_trim v) = q @ storage_id_hash sha (str_trim w)"
    using safe_run_id_hashed [OF assms(2)] safe_run_id_hashed [OF assms(3)] assms(4) by metis
  have "storage_id_hash sha (str_trim v) = storage_id_hash sha (str_trim w)"
    using pq by (rule append_eq_append_conv [THEN iffD1, THEN conjunct2, rotated])
      (simp add: length_storage_id_hash assms(1))
  then show ?thesis
    unfolding storage_id_hash_def by (rule hex_bytes_inj)
qed

theorem safe_run_id_collision_witness:
  "take 6 ((\<lambda>s. replicate 32 CHR ''a'') (str_trim ''a b'')) =
   take 6 ((\<lambda>s. replicate 32 CHR ''a'') (str_trim ''a/b''))"
proof (rule safe_run_id_collision [of "\<lambda>s. replicate 32 CHR ''a''" "''a b''" "''a/b''"])
  show "safe_run_id (\<lambda>s. replicate 32 CHR ''a'') ''a b'' \<noteq> str_trim ''a b''"
    "safe_run_id (\<lambda>s. replicate 32 CHR ''a'') ''a/b'' \<noteq> str_trim ''a/b''"
    "safe_run_id (\<lambda>s. replicate 32 CHR ''a'') ''a b'' = safe_run_id (\<lambda>s. replicate 32 CHR ''a'') ''a/b''"
    by code_simp+
qed simp

text \<open>The directory names \<open>.\<close> and \<open>..\<close> pass unchanged, although they are not the name of a
  directory below the parent.\<close>

theorem safe_run_id_dots: "safe_run_id sha ''..'' = ''..'' \<and> safe_run_id sha ''.'' = ''.''"
proof -
  have "stable_id ''..''" "stable_id ''.''"
    by code_simp+
  then show ?thesis
    by (simp add: safe_run_id_fixpoint)
qed

end
