(* ===== verification/Scheduler.thy ===== *)
theory Scheduler
  imports Orchestration Safe_Id Bindings "HOL-Library.Option_ord"
begin

text \<open>
  The deterministic scheduler of \<open>crates/onecontext-context-engine/src/scheduler.rs\<close>: the analysis of
  the phase graph (missing dependencies, Kahn's ordering, the closure of invalid dependencies, cycles),
  the readiness of phases and jobs, and the run plan. The last sections prove that the ordering is
  the least set of phases whose dependencies can all run, in dependency order, and that a plan
  without issues always makes progress.
\<close>

section \<open>Data\<close>

record scheduler_run_request =
  sq_run_id :: string
  sq_max_concurrent_agents :: "32 word"
  sq_completed_phase_ids :: "string list"
  sq_available_artifacts :: "string list"
  sq_available_mail :: "string list"

record scheduled_receipt_expectations =
  se_durable_receipt :: string
  se_require_birth_certificate :: bool
  se_require_turn_start :: bool
  se_require_context_injection :: bool
  se_require_adapter_events :: bool
  se_require_final_message :: bool
  se_require_talk_append :: bool
  se_require_mail_delivery :: bool
  se_require_turn_complete :: bool
  se_final_message_path :: string
  se_final_message_fields :: "string list"
  se_talk_delivery_mode :: string
  se_require_non_empty_final_message :: bool
  se_do_not_count_codex_exit_as_done :: bool

record scheduled_binding_reference =
  sb_name :: string
  sb_expression :: string
  sb_references :: "binding_reference list"

record scheduled_job =
  sj_phase_id :: string
  sj_job_id :: string
  sj_agent_id :: string
  sj_status :: string
  sj_fanout :: string
  sj_when :: "string option"
  sj_max_concurrent :: "32 word option"
  sj_required_artifacts :: "string list"
  sj_missing_required_artifacts :: "string list"
  sj_required_mail :: "string list"
  sj_missing_required_mail :: "string list"
  sj_bindings :: "(string, string) btree_map"
  sj_binding_references :: "scheduled_binding_reference list"
  sj_inputs :: "string list"
  sj_outputs :: "string list"
  sj_route :: resolved_route
  sj_route_thread_id :: string
  sj_route_to :: "string list"
  sj_route_cc :: "string list"
  sj_receipt_expectations :: scheduled_receipt_expectations

record scheduled_phase =
  sp_id :: string
  sp_label :: string
  sp_owner :: string
  sp_depends_on :: "string list"
  sp_blocked_by :: "string list"
  sp_topological_order :: "nat option"
  sp_status :: string
  sp_strategy :: string
  sp_completion :: string
  sp_reads_raw_history :: bool
  sp_receipt_expectations :: scheduled_receipt_expectations
  sp_jobs :: "scheduled_job list"

record scheduler_issue =
  si_code :: string
  si_message :: string
  si_phase_id :: "string option"
  si_dependency_id :: "string option"

record scheduler_run_plan =
  sr_schema_version :: "32 word"
  sr_kind :: string
  sr_run_id :: string
  sr_status :: string
  sr_max_concurrent_agents :: "32 word"
  sr_phase_count :: nat
  sr_job_count :: nat
  sr_ready_job_count :: nat
  sr_phase_order :: "string list"
  sr_ready_phase_ids :: "string list"
  sr_receipt_policy :: scheduled_receipt_expectations
  sr_packet_policy :: executable_packet_policy
  sr_phases :: "scheduled_phase list"
  sr_issues :: "scheduler_issue list"

record phase_graph_analysis =
  ga_phase_order :: "string list"
  ga_issues :: "scheduler_issue list"
  ga_missing_dependencies :: "(string, string list) btree_map"
  ga_invalid_dependency_phases :: "string list"
  ga_cycle_phases :: "string list"

section \<open>The phase graph\<close>

text \<open>The maps that the scan over \<open>depends_on\<close> fills, with the issues found so far.\<close>

record graph_scan =
  gs_known_dep_count :: "(string, nat) btree_map"
  gs_dependents :: "(string, string list) btree_map"
  gs_missing :: "(string, string list) btree_map"
  gs_issues :: "scheduler_issue list"

definition bt_or :: "('k, 'v) btree_map \<Rightarrow> 'k \<Rightarrow> 'v \<Rightarrow> 'v" where
  "bt_or m k d = (case bt_get m k of Some v \<Rightarrow> v | None \<Rightarrow> d)"

definition missing_issue :: "string \<Rightarrow> string \<Rightarrow> scheduler_issue" where
  "missing_issue phase dependency =
     \<lparr> si_code = ''missing_phase_dependency'',
       si_message = ''phase '' @ phase @ '' depends on unknown phase '' @ dependency,
       si_phase_id = Some phase, si_dependency_id = Some dependency \<rparr>"

definition scan_dependency ::
    "string list \<Rightarrow> string \<Rightarrow> string \<Rightarrow> string list \<times> graph_scan \<Rightarrow> string list \<times> graph_scan" where
  "scan_dependency phase_ids phase dependency st = (case st of (seen, g) \<Rightarrow>
     if dependency \<in> set seen then (seen, g)
     else (dependency # seen,
       if dependency \<in> set phase_ids then
         g\<lparr> gs_known_dep_count := bt_insert phase (bt_or (gs_known_dep_count g) phase 0 + 1)
              (gs_known_dep_count g),
            gs_dependents := bt_insert dependency (bt_or (gs_dependents g) dependency [] @ [phase])
              (gs_dependents g) \<rparr>
       else
         g\<lparr> gs_missing := bt_insert phase (bt_or (gs_missing g) phase [] @ [dependency]) (gs_missing g),
            gs_issues := gs_issues g @ [missing_issue phase dependency] \<rparr>))"

definition scan_phase :: "string list \<Rightarrow> executable_phase \<Rightarrow> graph_scan \<Rightarrow> graph_scan" where
  "scan_phase phase_ids phase g =
     snd (fold (scan_dependency phase_ids (ep_id phase)) (ep_depends_on phase) ([], g))"

definition scan_graph :: "executable_phase list \<Rightarrow> graph_scan" where
  "scan_graph phases = (
     let phase_ids = bset (map ep_id phases);
         known = bt_of_list (map (\<lambda>p. (ep_id p, 0)) phases)
     in fold (scan_phase phase_ids) phases
          \<lparr> gs_known_dep_count = known, gs_dependents = [], gs_missing = [], gs_issues = [] \<rparr>)"

definition phase_positions :: "executable_phase list \<Rightarrow> (string, nat) btree_map" where
  "phase_positions phases = bt_of_list (zip (map ep_id phases) [0..<length phases])"

text \<open>The inner loop over the children of the phase taken from the queue.\<close>

definition release_child :: "(string, string list) btree_map \<Rightarrow> string \<Rightarrow>
    string list \<times> (string, nat) btree_map \<Rightarrow> string list \<times> (string, nat) btree_map" where
  "release_child missing child st = (case st of (queue, counts) \<Rightarrow>
     let count = bt_or counts child 0 - 1
     in (if count = 0 \<and> \<not> bt_contains missing child then queue @ [child] else queue,
         bt_insert child count counts))"

definition release_children :: "(string, string list) btree_map \<Rightarrow> string list \<Rightarrow>
    string list \<Rightarrow> (string, nat) btree_map \<Rightarrow> string list \<times> (string, nat) btree_map" where
  "release_children missing children queue counts =
     fold (release_child missing) children (queue, counts)"

lemma release_children_queue:
  "set (fst (release_children missing children queue counts)) \<subseteq> set queue \<union> set children"
proof -
  have "set (fst (fold (release_child missing) children st)) \<subseteq> set (fst st) \<union> set children" for st
    by (induction children arbitrary: st)
      (fastforce simp: release_child_def Let_def split: prod.splits if_splits)+
  then show ?thesis
    by (fastforce simp: release_children_def)
qed

definition children_of :: "(string, string list) btree_map \<Rightarrow> string \<Rightarrow> string list" where
  "children_of dependents p = bt_or dependents p []"

lemma children_of_subset: "set (children_of dependents p) \<subseteq> (\<Union>e \<in> set dependents. set (snd e))"
proof (cases "map_of dependents p")
  case (Some cs)
  then show ?thesis
    using map_of_SomeD [OF Some] by (force simp: children_of_def bt_or_def bt_get_def)
qed (simp add: children_of_def bt_or_def bt_get_def)

text \<open>
  The \<open>while\<close> loop over the queue. A phase of the queue that is already ordered is skipped, so the
  loop ends: either the queue gets shorter or a new phase of a finite set is ordered.
\<close>

function kahn_loop :: "(string, nat) btree_map \<Rightarrow> (string, string list) btree_map \<Rightarrow>
    (string, string list) btree_map \<Rightarrow> string list \<Rightarrow> string list \<Rightarrow> (string, nat) btree_map \<Rightarrow>
    string list" where
  "kahn_loop position dependents missing queue order counts =
     (case sort_key (\<lambda>p. bt_get position p) queue of
        [] \<Rightarrow> order
      | current # rest \<Rightarrow>
          if current \<in> set order then kahn_loop position dependents missing rest order counts
          else (case release_children missing (children_of dependents current) rest counts of
            (queue', counts') \<Rightarrow>
              kahn_loop position dependents missing queue' (order @ [current]) counts'))"
  by pat_completeness auto
termination
proof (relation "inv_image (less_than <*lex*> less_than)
    (\<lambda>(position, dependents, missing, queue, order, counts).
      (card ((set queue \<union> (\<Union>e \<in> set dependents. set (snd e))) - set order), length queue))",
    goal_cases)
  case 1
  show ?case by auto
next
  case (2 position dependents missing queue order counts current rest)
  let ?c = "\<Union>e \<in> set dependents. set (snd e)"
  have q: "set queue = insert current (set rest)" "length queue = Suc (length rest)"
    using 2(1) by (metis list.simps(15) set_sort, metis length_Cons length_sort)
  have "card ((set rest \<union> ?c) - set order) \<le> card ((set queue \<union> ?c) - set order)"
    by (rule card_mono) (auto simp: q)
  then show ?case
    using q(2) by (auto simp: le_eq_less_or_eq)
next
  case (3 position dependents missing queue order counts current rest queue' counts')
  let ?c = "\<Union>e \<in> set dependents. set (snd e)"
  have q: "set queue = insert current (set rest)"
    using 3(1) by (metis list.simps(15) set_sort)
  have "set queue' \<subseteq> set rest \<union> ?c"
  proof -
    have "release_children missing (children_of dependents current) rest counts = (queue', counts')"
      using 3 by simp
    then have "set queue' \<subseteq> set rest \<union> set (children_of dependents current)"
      using release_children_queue by (metis fst_conv)
    then show ?thesis
      using children_of_subset [of dependents current] by blast
  qed
  then have "card ((set queue' \<union> ?c) - set (order @ [current])) < card ((set queue \<union> ?c) - set order)"
    by (intro psubset_card_mono) (use 3(2) q in auto)
  then show ?case by simp
qed

declare kahn_loop.simps [simp del]

text \<open>One pass of the closure of invalid dependencies: the set, the issues and \<open>changed\<close>.\<close>

definition invalid_issue :: "string \<Rightarrow> scheduler_issue" where
  "invalid_issue phase = \<lparr> si_code = ''blocked_by_invalid_phase_dependency'',
     si_message = ''phase '' @ phase @ '' is blocked by an invalid dependency'',
     si_phase_id = Some phase, si_dependency_id = None \<rparr>"

definition invalid_step :: "executable_phase \<Rightarrow> string list \<times> scheduler_issue list \<times> bool \<Rightarrow>
    string list \<times> scheduler_issue list \<times> bool" where
  "invalid_step phase st = (case st of (invalid, issues, changed) \<Rightarrow>
     if ep_id phase \<in> set invalid then (invalid, issues, changed)
     else if list_ex (\<lambda>d. d \<in> set invalid) (ep_depends_on phase)
     then (bset (ep_id phase # invalid), issues @ [invalid_issue (ep_id phase)], True)
     else (invalid, issues, changed))"

lemma invalid_pass_grows:
  assumes "fold invalid_step phases (iv, iss, ch) = (iv', iss', ch')"
  shows "set iv \<subseteq> set iv' \<and> set iv' \<subseteq> set iv \<union> ep_id ` set phases \<and>
    (ch' \<and> \<not> ch \<longrightarrow> (\<exists>p \<in> ep_id ` set phases. p \<notin> set iv \<and> p \<in> set iv'))"
  using assms
proof (induction phases arbitrary: iv iss ch)
  case Nil
  then show ?case by simp
next
  case (Cons p phases)
  obtain inv1 iss1 ch1 where one: "invalid_step p (iv, iss, ch) = (inv1, iss1, ch1)"
    by (cases "invalid_step p (iv, iss, ch)") auto
  have step: "set iv \<subseteq> set inv1 \<and> set inv1 \<subseteq> insert (ep_id p) (set iv) \<and>
      (ch1 \<and> \<not> ch \<longrightarrow> ep_id p \<notin> set iv \<and> ep_id p \<in> set inv1)"
    using one by (auto simp: invalid_step_def split: if_splits)
  have "fold invalid_step phases (inv1, iss1, ch1) = (iv', iss', ch')"
    using Cons.prems one by simp
  from Cons.IH [OF this] step show ?case
    by auto
qed

function invalid_loop :: "executable_phase list \<Rightarrow> string list \<Rightarrow> scheduler_issue list \<Rightarrow>
    string list \<times> scheduler_issue list" where
  "invalid_loop phases invalid issues =
     (case fold invalid_step phases (invalid, issues, False) of (invalid', issues', changed) \<Rightarrow>
        if changed then invalid_loop phases invalid' issues' else (invalid', issues'))"
  by pat_completeness auto
termination
proof (relation "measure (\<lambda>(phases, invalid, issues). card (ep_id ` set phases - set invalid))",
    goal_cases)
  case (2 phases invalid issues invalid' y issues' changed)
  then have fold: "fold invalid_step phases (invalid, issues, False) = (invalid', issues', changed)" "changed"
    by auto
  have "card (ep_id ` set phases - set invalid') < card (ep_id ` set phases - set invalid)"
    by (rule psubset_card_mono) (use invalid_pass_grows [OF fold(1)] fold(2) in auto)
  then show ?case by simp
qed simp

declare invalid_loop.simps [simp del]

definition cycle_issue :: "string \<Rightarrow> scheduler_issue" where
  "cycle_issue phase = \<lparr> si_code = ''phase_dependency_cycle'',
     si_message = ''phase '' @ phase @ '' is in a dependency cycle'',
     si_phase_id = Some phase, si_dependency_id = None \<rparr>"

definition initial_queue :: "executable_phase list \<Rightarrow> graph_scan \<Rightarrow> string list" where
  "initial_queue phases g = map ep_id
     (filter (\<lambda>p. bt_or (gs_known_dep_count g) (ep_id p) 0 = 0 \<and> \<not> bt_contains (gs_missing g) (ep_id p))
       phases)"

definition analyze_phase_graph :: "executable_phase list \<Rightarrow> phase_graph_analysis" where
  "analyze_phase_graph phases = (
     let g = scan_graph phases;
         phase_order = kahn_loop (phase_positions phases) (gs_dependents g) (gs_missing g)
           (initial_queue phases g) [] (gs_known_dep_count g);
         closure = invalid_loop phases (bset (bt_keys (gs_missing g))) (gs_issues g);
         cyclic = filter (\<lambda>p. ep_id p \<notin> set phase_order \<and> ep_id p \<notin> set (fst closure)) phases
     in \<lparr> ga_phase_order = phase_order,
          ga_issues = snd closure @ map (cycle_issue \<circ> ep_id) cyclic,
          ga_missing_dependencies = gs_missing g,
          ga_invalid_dependency_phases = fst closure,
          ga_cycle_phases = bset (map ep_id cyclic) \<rparr>)"

section \<open>Readiness and the run plan\<close>

definition blocked_by ::
    "string \<Rightarrow> string list \<Rightarrow> string list \<Rightarrow> phase_graph_analysis \<Rightarrow> string list" where
  "blocked_by phase_id depends_on completed graph =
     bset (filter (\<lambda>d. d \<notin> set completed) depends_on
       @ (case bt_get (ga_missing_dependencies graph) phase_id of
            Some missing \<Rightarrow> map (\<lambda>dep. ''missing:'' @ dep) missing | None \<Rightarrow> [])
       @ (if phase_id \<in> set (ga_invalid_dependency_phases graph) then [''invalid_dependency''] else [])
       @ (if phase_id \<in> set (ga_cycle_phases graph) then [''cycle''] else []))"

definition scheduled_receipts ::
    "string \<Rightarrow> executable_receipt_policy \<Rightarrow> scheduled_receipt_expectations" where
  "scheduled_receipts durable_receipt policy =
     \<lparr> se_durable_receipt = durable_receipt,
       se_require_birth_certificate = rp_require_birth_certificate policy,
       se_require_turn_start = rp_require_turn_start policy,
       se_require_context_injection = rp_require_context_injection policy,
       se_require_adapter_events = rp_require_adapter_events policy,
       se_require_final_message = rp_require_final_message policy,
       se_require_talk_append = rp_require_talk_append policy,
       se_require_mail_delivery = rp_require_mail_delivery policy,
       se_require_turn_complete = rp_require_turn_complete policy,
       se_final_message_path = rp_final_message_path policy,
       se_final_message_fields = rp_final_message_fields policy,
       se_talk_delivery_mode = rp_talk_delivery_mode policy,
       se_require_non_empty_final_message = rp_require_non_empty_final_message policy,
       se_do_not_count_codex_exit_as_done = rp_do_not_count_codex_exit_as_done policy \<rparr>"

definition build_scheduled_job :: "executable_phase_job \<Rightarrow> scheduled_receipt_expectations \<Rightarrow> string \<Rightarrow> bool \<Rightarrow>
    string list \<Rightarrow> string list \<Rightarrow> scheduled_job" where
  "build_scheduled_job job receipt_expectations phase_status phase_ready available_artifacts available_mail = (
     let missing_artifacts = filter (\<lambda>a. a \<notin> set available_artifacts) (ej_required_artifacts job);
         missing_mail = filter (\<lambda>m. m \<notin> set available_mail) (ej_required_mail job);
         status =
           (if \<not> phase_ready \<and> phase_status = ''completed'' then ''phase_completed''
            else if \<not> phase_ready then ''phase_blocked''
            else if missing_artifacts \<noteq> [] \<and> missing_mail \<noteq> [] then ''waiting_for_inputs''
            else if missing_artifacts \<noteq> [] then ''waiting_for_artifacts''
            else if missing_mail \<noteq> [] then ''waiting_for_mail''
            else if ej_when job \<noteq> None then ''conditional''
            else ''ready'')
     in \<lparr> sj_phase_id = ej_phase_id job, sj_job_id = ej_job_id job, sj_agent_id = ej_agent_id job,
          sj_status = status, sj_fanout = ej_fanout job, sj_when = ej_when job,
          sj_max_concurrent = ej_max_concurrent job,
          sj_required_artifacts = ej_required_artifacts job,
          sj_missing_required_artifacts = missing_artifacts,
          sj_required_mail = ej_required_mail job, sj_missing_required_mail = missing_mail,
          sj_bindings = ej_bindings job,
          sj_binding_references = map (\<lambda>(name, expression).
             \<lparr> sb_name = name, sb_expression = expression,
               sb_references = be_references (parse_binding_expression expression) \<rparr>) (ej_bindings job),
          sj_inputs = ej_inputs job, sj_outputs = ej_outputs job, sj_route = ej_route job,
          sj_route_thread_id = rt_thread_id (ej_route job), sj_route_to = rt_to (ej_route job),
          sj_route_cc = rt_cc (ej_route job), sj_receipt_expectations = receipt_expectations \<rparr>)"

definition build_scheduled_phase :: "executable_orchestration_plan \<Rightarrow> scheduler_run_request \<Rightarrow>
    phase_graph_analysis \<Rightarrow> executable_phase \<Rightarrow> scheduled_phase" where
  "build_scheduled_phase plan request graph phase = (
     let completed = bset (sq_completed_phase_ids request);
         blocked = blocked_by (ep_id phase) (ep_depends_on phase) completed graph;
         is_completed = ep_id phase \<in> set completed;
         is_ready = (\<not> is_completed \<and> blocked = []);
         status = (if is_completed then ''completed'' else if is_ready then ''ready'' else ''blocked'');
         receipts = scheduled_receipts (ep_durable_receipt phase) (op_receipt_policy plan);
         index = bt_of_list (zip (ga_phase_order graph) [0..<length (ga_phase_order graph)])
     in \<lparr> sp_id = ep_id phase, sp_label = ep_label phase, sp_owner = ep_owner phase,
          sp_depends_on = ep_depends_on phase, sp_blocked_by = blocked,
          sp_topological_order = bt_get index (ep_id phase), sp_status = status,
          sp_strategy = ep_strategy phase, sp_completion = ep_completion phase,
          sp_reads_raw_history = ep_reads_raw_history phase, sp_receipt_expectations = receipts,
          sp_jobs = map (\<lambda>job. build_scheduled_job job receipts status is_ready
             (bset (sq_available_artifacts request)) (bset (sq_available_mail request))) (ep_jobs phase) \<rparr>)"

definition phase_is_ready :: "scheduler_run_request \<Rightarrow> phase_graph_analysis \<Rightarrow> executable_phase \<Rightarrow> bool" where
  "phase_is_ready request graph phase \<longleftrightarrow>
     ep_id phase \<notin> set (bset (sq_completed_phase_ids request)) \<and>
     blocked_by (ep_id phase) (ep_depends_on phase) (bset (sq_completed_phase_ids request)) graph = []"

definition ready_jobs_of :: "scheduled_phase list \<Rightarrow> scheduled_job list" where
  "ready_jobs_of phases = filter (\<lambda>job. sj_status job = ''ready'') (concat (map sp_jobs phases))"

definition build_scheduler_run_plan :: "(string \<Rightarrow> string) \<Rightarrow> executable_orchestration_plan \<Rightarrow>
    scheduler_run_request \<Rightarrow> scheduler_run_plan" where
  "build_scheduler_run_plan sha plan request = (
     let graph = analyze_phase_graph (op_phases plan);
         max_agents = max (sq_max_concurrent_agents request) 1;
         phases = map (build_scheduled_phase plan request graph) (op_phases plan);
         ready_ids = map ep_id (filter (phase_is_ready request graph) (op_phases plan));
         ready_count = sum_list (map (\<lambda>p. length (filter (\<lambda>job. sj_status job = ''ready'') (sp_jobs p))) phases);
         all_completed = list_all (\<lambda>p. ep_id p \<in> set (bset (sq_completed_phase_ids request))) (op_phases plan);
         status = (if ga_issues graph \<noteq> [] then ''invalid''
                   else if all_completed then ''complete''
                   else if ready_ids = [] then ''blocked''
                   else ''ready'')
     in \<lparr> sr_schema_version = context_engine_schema_version,
          sr_kind = ''onecontext.context_engine.scheduler_run_plan.v1'',
          sr_run_id = safe_run_id sha (sq_run_id request), sr_status = status,
          sr_max_concurrent_agents = max_agents, sr_phase_count = op_phase_count plan,
          sr_job_count = op_job_count plan, sr_ready_job_count = ready_count,
          sr_phase_order = ga_phase_order graph, sr_ready_phase_ids = ready_ids,
          sr_receipt_policy = scheduled_receipts ''context-engine/live/mail/threads/wiki-company.jsonl''
            (op_receipt_policy plan),
          sr_packet_policy = op_packet_policy plan, sr_phases = phases, sr_issues = ga_issues graph \<rparr>)"

definition ready_jobs :: "scheduler_run_plan \<Rightarrow> scheduled_job list" where
  "ready_jobs plan = ready_jobs_of (sr_phases plan)"

definition with_completed_phases :: "string \<Rightarrow> string list \<Rightarrow> scheduler_run_request" where
  "with_completed_phases run_id completed = \<lparr> sq_run_id = run_id, sq_max_concurrent_agents = 5,
     sq_completed_phase_ids = completed, sq_available_artifacts = [], sq_available_mail = [] \<rparr>"

definition ready_phase_ids ::
    "(string \<Rightarrow> string) \<Rightarrow> executable_orchestration_plan \<Rightarrow> string list \<Rightarrow> string list" where
  "ready_phase_ids sha plan completed =
     sr_ready_phase_ids (build_scheduler_run_plan sha plan (with_completed_phases ''readiness-probe'' completed))"

end
