(* ===== verification/Phase_Graph.thy ===== *)
theory Phase_Graph
  imports Scheduler
begin

text \<open>
  Correctness of the phase graph analysis and of the readiness view of \<open>Scheduler\<close>, for plans whose
  phase ids are distinct: the maps that the scan fills, the invariant of Kahn's loop, the closure of
  invalid dependencies and the progress of a run.
\<close>

section \<open>The graph of a plan\<close>

definition plan_ids :: "executable_phase list \<Rightarrow> string set" where
  "plan_ids phases = ep_id ` set phases"

text \<open>\<open>dep_edge phases q d\<close>: a phase with id \<open>q\<close> lists \<open>d\<close> in \<open>depends_on\<close>.\<close>

definition dep_edge :: "executable_phase list \<Rightarrow> string \<Rightarrow> string \<Rightarrow> bool" where
  "dep_edge phases q d \<longleftrightarrow> (\<exists>p \<in> set phases. ep_id p = q \<and> d \<in> set (ep_depends_on p))"

text \<open>The phases that can run at all, and the phases that a missing dependency reaches.\<close>

inductive runnable :: "executable_phase list \<Rightarrow> string \<Rightarrow> bool" for phases where
  "q \<in> plan_ids phases \<Longrightarrow> (\<And>d. dep_edge phases q d \<Longrightarrow> runnable phases d) \<Longrightarrow> runnable phases q"

inductive poisoned :: "executable_phase list \<Rightarrow> string \<Rightarrow> bool" for phases where
  missing: "q \<in> plan_ids phases \<Longrightarrow> dep_edge phases q d \<Longrightarrow> d \<notin> plan_ids phases \<Longrightarrow> poisoned phases q"
| spread: "q \<in> plan_ids phases \<Longrightarrow> dep_edge phases q d \<Longrightarrow> poisoned phases d \<Longrightarrow> poisoned phases q"

inductive_cases runnableE: "runnable phases q"
inductive_cases poisonedE: "poisoned phases q"

lemma runnable_in_plan: "runnable phases q \<Longrightarrow> q \<in> plan_ids phases"
  by (erule runnableE)

lemma poisoned_in_plan: "poisoned phases q \<Longrightarrow> q \<in> plan_ids phases"
  by (erule poisonedE)

lemma poisoned_not_runnable: "poisoned phases q \<Longrightarrow> \<not> runnable phases q"
  by (induction rule: poisoned.induct) (metis runnableE runnable_in_plan)+

section \<open>What the scan collects\<close>

definition scan_wf :: "graph_scan \<Rightarrow> bool" where
  "scan_wf g \<longleftrightarrow> bt_wf (gs_known_dep_count g) \<and> bt_wf (gs_dependents g) \<and> bt_wf (gs_missing g)"

definition known_count :: "graph_scan \<Rightarrow> string \<Rightarrow> nat" where
  "known_count g q = bt_or (gs_known_dep_count g) q 0"

lemma bt_or_insert [simp, btree_simps]: "bt_wf m \<Longrightarrow> bt_or (bt_insert k v m) j d = (if j = k then v else bt_or m j d)"
  by (simp add: bt_or_def)

lemma bt_contains_insert [simp, btree_simps]: "bt_wf m \<Longrightarrow> bt_contains (bt_insert k v m) j \<longleftrightarrow> j = k \<or> bt_contains m j"
  by (simp add: bt_contains_def)

lemma scan_dependencies:
  assumes "fold (scan_dependency ids q) ds (seen, g) = (seen', g')" "scan_wf g"
  shows "scan_wf g' \<and>
    (\<forall>r. known_count g' r = known_count g r + (if r = q then card ((set ds - set seen) \<inter> set ids) else 0)) \<and>
    (\<forall>d. children_of (gs_dependents g') d = children_of (gs_dependents g) d @
       (if d \<in> (set ds - set seen) \<inter> set ids then [q] else [])) \<and>
    (\<forall>r. bt_contains (gs_missing g') r \<longleftrightarrow>
       bt_contains (gs_missing g) r \<or> r = q \<and> \<not> set ds - set seen \<subseteq> set ids) \<and>
    (gs_issues g' = [] \<longleftrightarrow> gs_issues g = [] \<and> set ds - set seen \<subseteq> set ids)"
  using assms
proof (induction ds arbitrary: seen g)
  case Nil
  then show ?case by simp
next
  case (Cons d ds)
  show ?case
  proof (cases "d \<in> set seen")
    case True
    then have diff: "set (d # ds) - set seen = set ds - set seen"
      by auto
    have "scan_dependency ids q d (seen, g) = (seen, g)"
      using True by (simp add: scan_dependency_def)
    then have "fold (scan_dependency ids q) ds (seen, g) = (seen', g')"
      using Cons.prems by simp
    from Cons.IH [OF this Cons.prems(2)] show ?thesis
      unfolding diff .
  next
    case False
    obtain g1 where g1: "scan_dependency ids q d (seen, g) = (d # seen, g1)"
      using False by (simp add: scan_dependency_def)
    have rest: "fold (scan_dependency ids q) ds (d # seen, g1) = (seen', g')"
      using Cons.prems g1 by simp
    have set_eq: "set (d # ds) - set seen = insert d (set ds - set (d # seen))"
      "d \<notin> set ds - set (d # seen)"
      using False by auto
    show ?thesis
    proof (cases "d \<in> set ids")
      case True
      have g1': "g1 = g\<lparr> gs_known_dep_count := bt_insert q (known_count g q + 1) (gs_known_dep_count g),
          gs_dependents := bt_insert d (children_of (gs_dependents g) d @ [q]) (gs_dependents g) \<rparr>"
        using g1 False True by (simp add: scan_dependency_def known_count_def children_of_def)
      have "scan_wf g1"
        using Cons.prems(2) by (simp add: g1' scan_wf_def)
      from Cons.IH [OF rest this] show ?thesis
        using Cons.prems(2) True set_eq
        by (auto simp: g1' scan_wf_def known_count_def children_of_def Int_insert_left)
    next
      case out: False
      have g1': "g1 = g\<lparr> gs_missing := bt_insert q (bt_or (gs_missing g) q [] @ [d]) (gs_missing g),
            gs_issues := gs_issues g @ [missing_issue q d] \<rparr>"
        using g1 False out by (simp add: scan_dependency_def)
      have "scan_wf g1"
        using Cons.prems(2) by (simp add: g1' scan_wf_def)
      from Cons.IH [OF rest this] show ?thesis
        using Cons.prems(2) out set_eq
        by (auto simp: g1' scan_wf_def known_count_def Int_insert_left)
    qed
  qed
qed

lemma scan_one_phase:
  assumes "scan_wf g"
  shows "scan_wf (scan_phase ids p g)"
    "known_count (scan_phase ids p g) r = known_count g r +
       (if r = ep_id p then card (set (ep_depends_on p) \<inter> set ids) else 0)"
    "children_of (gs_dependents (scan_phase ids p g)) d = children_of (gs_dependents g) d @
       (if d \<in> set (ep_depends_on p) \<inter> set ids then [ep_id p] else [])"
    "bt_contains (gs_missing (scan_phase ids p g)) r \<longleftrightarrow> bt_contains (gs_missing g) r \<or>
       r = ep_id p \<and> \<not> set (ep_depends_on p) \<subseteq> set ids"
    "gs_issues (scan_phase ids p g) = [] \<longleftrightarrow> gs_issues g = [] \<and> set (ep_depends_on p) \<subseteq> set ids"
proof -
  obtain seen' g' where "fold (scan_dependency ids (ep_id p)) (ep_depends_on p) ([], g) = (seen', g')"
    by (cases "fold (scan_dependency ids (ep_id p)) (ep_depends_on p) ([], g)")
  moreover from this have "scan_phase ids p g = g'"
    by (simp add: scan_phase_def)
  ultimately show "scan_wf (scan_phase ids p g)"
    "known_count (scan_phase ids p g) r = known_count g r +
       (if r = ep_id p then card (set (ep_depends_on p) \<inter> set ids) else 0)"
    "children_of (gs_dependents (scan_phase ids p g)) d = children_of (gs_dependents g) d @
       (if d \<in> set (ep_depends_on p) \<inter> set ids then [ep_id p] else [])"
    "bt_contains (gs_missing (scan_phase ids p g)) r \<longleftrightarrow> bt_contains (gs_missing g) r \<or>
       r = ep_id p \<and> \<not> set (ep_depends_on p) \<subseteq> set ids"
    "gs_issues (scan_phase ids p g) = [] \<longleftrightarrow> gs_issues g = [] \<and> set (ep_depends_on p) \<subseteq> set ids"
    using scan_dependencies [OF _ assms] by (simp_all del: Int_iff)
qed

lemma scan_phases_wf: "scan_wf g \<Longrightarrow> scan_wf (fold (scan_phase ids) ps g)"
  by (induction ps arbitrary: g) (simp_all add: scan_one_phase)

lemma scan_phases_count:
  assumes "scan_wf g" "distinct (map ep_id ps)"
  shows "known_count (fold (scan_phase ids) ps g) r = known_count g r +
    (\<Sum>p \<leftarrow> filter (\<lambda>p. ep_id p = r) ps. card (set (ep_depends_on p) \<inter> set ids))"
  using assms by (induction ps arbitrary: g) (simp_all add: scan_one_phase)

lemma scan_phases_children:
  assumes "scan_wf g"
  shows "children_of (gs_dependents (fold (scan_phase ids) ps g)) d = children_of (gs_dependents g) d @
    (if d \<in> set ids then map ep_id (filter (\<lambda>p. d \<in> set (ep_depends_on p)) ps) else [])"
  using assms by (induction ps arbitrary: g) (simp_all add: scan_one_phase)

lemma scan_phases_missing:
  assumes "scan_wf g"
  shows "bt_contains (gs_missing (fold (scan_phase ids) ps g)) r \<longleftrightarrow> bt_contains (gs_missing g) r \<or>
    (\<exists>p \<in> set ps. ep_id p = r \<and> \<not> set (ep_depends_on p) \<subseteq> set ids)"
  using assms by (induction ps arbitrary: g) (auto simp: scan_one_phase)

lemma scan_phases_issues:
  assumes "scan_wf g"
  shows "gs_issues (fold (scan_phase ids) ps g) = [] \<longleftrightarrow> gs_issues g = [] \<and>
    (\<forall>p \<in> set ps. set (ep_depends_on p) \<subseteq> set ids)"
  using assms by (induction ps arbitrary: g) (auto simp: scan_one_phase)

text \<open>The scan of a whole plan, on the graph of the plan.\<close>

lemma bt_of_list_const: "bt_or (bt_of_list (map (\<lambda>p. (f p, v)) ps)) k v = v"
proof -
  have "\<forall>m. bt_wf m \<longrightarrow> bt_or m k v = v \<longrightarrow>
      bt_or (fold (\<lambda>e m. bt_insert (fst e) (snd e) m) (map (\<lambda>p. (f p, v)) ps) m) k v = v"
    by (induction ps) simp_all
  then show ?thesis
    by (simp add: bt_of_list_def bt_or_def)
qed

lemma scan_graph_wf: "scan_wf (scan_graph phases)"
  unfolding scan_graph_def Let_def by (rule scan_phases_wf) (simp add: scan_wf_def)

lemma scan_graph_children:
  "set (children_of (gs_dependents (scan_graph phases)) d) =
     (if d \<in> plan_ids phases then {q. dep_edge phases q d} else {})"
  "distinct (map ep_id phases) \<Longrightarrow> distinct (children_of (gs_dependents (scan_graph phases)) d)"
proof -
  have eq: "children_of (gs_dependents (scan_graph phases)) d =
      (if d \<in> plan_ids phases then map ep_id (filter (\<lambda>p. d \<in> set (ep_depends_on p)) phases) else [])"
    unfolding scan_graph_def Let_def
    by (subst scan_phases_children) (simp_all add: scan_wf_def children_of_def bt_or_def plan_ids_def)
  show "set (children_of (gs_dependents (scan_graph phases)) d) =
     (if d \<in> plan_ids phases then {q. dep_edge phases q d} else {})"
    by (auto simp: eq dep_edge_def)
  show "distinct (map ep_id phases) \<Longrightarrow> distinct (children_of (gs_dependents (scan_graph phases)) d)"
    by (auto simp: eq distinct_map intro: inj_on_subset)
qed

lemma scan_graph_missing:
  "bt_contains (gs_missing (scan_graph phases)) q \<longleftrightarrow> (\<exists>d. dep_edge phases q d \<and> d \<notin> plan_ids phases)"
  unfolding scan_graph_def Let_def
  by (subst scan_phases_missing) (auto simp: scan_wf_def bt_contains_def plan_ids_def dep_edge_def)

lemma scan_graph_issues:
  "gs_issues (scan_graph phases) = [] \<longleftrightarrow> (\<forall>q d. dep_edge phases q d \<longrightarrow> d \<in> plan_ids phases)"
  unfolding scan_graph_def Let_def
  by (subst scan_phases_issues) (auto simp: scan_wf_def plan_ids_def dep_edge_def)

lemma scan_graph_count:
  assumes "distinct (map ep_id phases)"
  shows "known_count (scan_graph phases) q = card {d. dep_edge phases q d \<and> d \<in> plan_ids phases}"
proof -
  let ?n = "\<lambda>p. card (set (ep_depends_on p) \<inter> ep_id ` set phases)"
  have zero: "known_count \<lparr> gs_known_dep_count = bt_of_list (map (\<lambda>p. (ep_id p, 0)) phases),
      gs_dependents = [], gs_missing = [], gs_issues = [] \<rparr> q = 0"
    by (simp add: known_count_def bt_of_list_const)
  have "known_count (scan_graph phases) q = sum_list (map ?n (filter (\<lambda>p. ep_id p = q) phases))"
    unfolding scan_graph_def Let_def
    by (subst scan_phases_count) (use assms zero in \<open>auto simp: scan_wf_def\<close>)
  also have "\<dots> = card {d. dep_edge phases q d \<and> d \<in> plan_ids phases}"
  proof (cases "q \<in> ep_id ` set phases")
    case True
    then obtain p where p: "p \<in> set phases" "ep_id p = q"
      by auto
    have "filter (\<lambda>p. ep_id p = q) phases = [p]"
      using assms p by (induction phases) (auto simp: filter_empty_conv image_iff)
    moreover have "{d. dep_edge phases q d \<and> d \<in> plan_ids phases} =
        set (ep_depends_on p) \<inter> ep_id ` set phases"
      using assms p by (auto simp: dep_edge_def plan_ids_def distinct_map inj_on_def)
    ultimately show ?thesis by simp
  next
    case False
    then have "filter (\<lambda>p. ep_id p = q) phases = []" "\<And>d. \<not> dep_edge phases q d"
      by (auto simp: filter_empty_conv dep_edge_def)
    then show ?thesis by simp
  qed
  finally show ?thesis .
qed

section \<open>Kahn's loop\<close>

lemma finite_dep_edge: "finite {d. dep_edge phases q d \<and> P d}"
proof (rule finite_subset)
  show "{d. dep_edge phases q d \<and> P d} \<subseteq> (\<Union>p \<in> set phases. set (ep_depends_on p))"
    by (auto simp: dep_edge_def)
qed simp

lemma dep_edge_in_plan: "dep_edge phases q d \<Longrightarrow> q \<in> plan_ids phases"
  by (auto simp: dep_edge_def plan_ids_def)

lemma release_children_result:
  assumes "release_children missing cs queue counts = (queue', counts')" "bt_wf counts" "distinct cs"
    "distinct queue" "set queue \<inter> set cs = {}"
  shows "bt_wf counts' \<and> (\<forall>q. bt_or counts' q 0 = bt_or counts q 0 - (if q \<in> set cs then 1 else 0)) \<and>
    set queue' = set queue \<union> {c \<in> set cs. bt_or counts c 0 \<le> 1 \<and> \<not> bt_contains missing c} \<and>
    distinct queue'"
  using assms unfolding release_children_def
proof (induction cs arbitrary: queue counts)
  case Nil
  then show ?case by simp
next
  case (Cons c cs)
  define q1 where "q1 = (if bt_or counts c 0 - 1 = 0 \<and> \<not> bt_contains missing c then queue @ [c] else queue)"
  define c1 where "c1 = bt_insert c (bt_or counts c 0 - 1) counts"
  have "release_child missing c (queue, counts) = (q1, c1)"
    by (simp add: release_child_def Let_def q1_def c1_def)
  then have "fold (release_child missing) cs (q1, c1) = (queue', counts')"
    using Cons.prems(1) by simp
  moreover have "bt_wf c1" "distinct q1" "set q1 \<inter> set cs = {}"
    using Cons.prems by (auto simp: c1_def q1_def)
  ultimately have "bt_wf counts' \<and>
      (\<forall>q. bt_or counts' q 0 = bt_or c1 q 0 - (if q \<in> set cs then 1 else 0)) \<and>
      set queue' = set q1 \<union> {c \<in> set cs. bt_or c1 c 0 \<le> 1 \<and> \<not> bt_contains missing c} \<and> distinct queue'"
    using Cons.IH Cons.prems(3) by simp
  moreover have "c \<notin> set cs"
    using Cons.prems(3) by simp
  ultimately show ?case
    using Cons.prems(2) by (auto simp: c1_def q1_def)
qed

text \<open>
  The loop invariant: the counts are the known dependencies that are not ordered yet, the queue
  holds exactly the phases that can be ordered next, and every ordered phase follows its dependencies.
\<close>

definition ordered_after_deps :: "executable_phase list \<Rightarrow> string list \<Rightarrow> bool" where
  "ordered_after_deps phases order \<longleftrightarrow> (\<forall>xs q ys. order = xs @ q # ys \<longrightarrow>
     q \<in> plan_ids phases \<and> (\<forall>d. dep_edge phases q d \<longrightarrow> d \<in> set xs))"

definition kahn_inv ::
    "executable_phase list \<Rightarrow> string list \<Rightarrow> string list \<Rightarrow> (string, nat) btree_map \<Rightarrow> bool" where
  "kahn_inv phases queue order counts \<longleftrightarrow> bt_wf counts \<and> distinct order \<and> distinct queue \<and>
     ordered_after_deps phases order \<and>
     set queue = {q \<in> plan_ids phases. q \<notin> set order \<and> (\<forall>d. dep_edge phases q d \<longrightarrow> d \<in> set order)} \<and>
     (\<forall>q. bt_or counts q 0 =
        card {d. dep_edge phases q d \<and> d \<in> plan_ids phases \<and> d \<notin> set order})"

lemma ordered_after_deps_mem:
  assumes "ordered_after_deps phases order" "q \<in> set order"
  shows "q \<in> plan_ids phases" "dep_edge phases q d \<Longrightarrow> d \<in> set order"
proof -
  obtain xs ys where "order = xs @ q # ys"
    using assms(2) by (meson split_list)
  then show "q \<in> plan_ids phases" "dep_edge phases q d \<Longrightarrow> d \<in> set order"
    using assms(1) by (auto simp: ordered_after_deps_def)
qed

lemma ordered_after_deps_snoc:
  assumes "ordered_after_deps phases order" "q \<in> plan_ids phases" "\<And>d. dep_edge phases q d \<Longrightarrow> d \<in> set order"
  shows "ordered_after_deps phases (order @ [q])"
  unfolding ordered_after_deps_def
proof (intro allI impI)
  fix xs r ys
  assume eq: "order @ [q] = xs @ r # ys"
  show "r \<in> plan_ids phases \<and> (\<forall>d. dep_edge phases r d \<longrightarrow> d \<in> set xs)"
  proof (cases ys rule: rev_cases)
    case Nil
    then show ?thesis using eq assms by simp
  next
    case (snoc zs z)
    then have "order = xs @ r # zs"
      using eq by simp
    then show ?thesis
      using assms(1) unfolding ordered_after_deps_def by blast
  qed
qed

lemma ordered_runnable:
  assumes "ordered_after_deps phases order"
  shows "q \<in> set order \<Longrightarrow> runnable phases q"
  using assms
proof (induction order arbitrary: q rule: rev_induct)
  case Nil
  then show ?case by simp
next
  case (snoc r order)
  have "ordered_after_deps phases order"
    using snoc.prems(2) unfolding ordered_after_deps_def
    by (metis append.assoc append_Cons)
  moreover have "r \<in> plan_ids phases" "\<And>d. dep_edge phases r d \<Longrightarrow> d \<in> set order"
    using snoc.prems(2) unfolding ordered_after_deps_def by blast+
  ultimately show ?case
    using snoc.IH snoc.prems(1) by (auto intro: runnable.intros)
qed

lemma kahn_step:
  assumes dist: "distinct (map ep_id phases)"
    and inv: "kahn_inv phases queue order counts"
    and queue: "set queue = insert c (set rest)" "distinct (c # rest)"
    and rel: "release_children (gs_missing (scan_graph phases))
      (children_of (gs_dependents (scan_graph phases)) c) rest counts = (queue', counts')"
  shows "kahn_inv phases queue' (order @ [c]) counts'"
proof -
  let ?ready = "\<lambda>order q. q \<in> plan_ids phases \<and> q \<notin> set order \<and> (\<forall>d. dep_edge phases q d \<longrightarrow> d \<in> set order)"
  let ?open = "\<lambda>order q. {d. dep_edge phases q d \<and> d \<in> plan_ids phases \<and> d \<notin> set order}"
  have wf: "bt_wf counts" and order: "distinct order" "ordered_after_deps phases order"
    and ready: "set queue = {q. ?ready order q}" and count: "\<And>q. bt_or counts q 0 = card (?open order q)"
    using inv by (auto simp: kahn_inv_def)
  have c: "?ready order c"
    using ready queue by blast
  have kids: "set (children_of (gs_dependents (scan_graph phases)) c) = {q. dep_edge phases q c}"
    "distinct (children_of (gs_dependents (scan_graph phases)) c)"
    using c scan_graph_children dist by auto
  have "set rest \<inter> {q. dep_edge phases q c} = {}"
    using ready queue c by blast
  note res = release_children_result [OF rel wf kids(2) _ this [folded kids(1)], unfolded kids(1)]
  have wf': "bt_wf counts'" and cnt': "\<And>q. bt_or counts' q 0 = bt_or counts q 0 - (if dep_edge phases q c then 1 else 0)"
    and q': "set queue' = set rest \<union> {q. dep_edge phases q c \<and> bt_or counts q 0 \<le> 1 \<and>
        \<not> bt_contains (gs_missing (scan_graph phases)) q}" and d': "distinct queue'"
    using res queue(2) by auto
  have open': "?open (order @ [c]) q = ?open order q - {c}" for q
    by auto
  have fin: "finite (?open order q)" for q
    by (rule finite_dep_edge)
  have "bt_or counts' q 0 = card (?open (order @ [c]) q)" for q
    using cnt' [of q] count [of q] c fin [of q] unfolding open' by (auto simp: card_Diff_singleton_if)
  moreover have "set queue' = {q. ?ready (order @ [c]) q}"
  proof (intro set_eqI iffI CollectI)
    fix q assume "q \<in> set queue'"
    then consider "q \<in> set rest" | "dep_edge phases q c" "card (?open order q) \<le> 1"
        "\<not> bt_contains (gs_missing (scan_graph phases)) q"
      using q' count by auto
    then show "?ready (order @ [c]) q"
    proof cases
      case 1
      then have "q \<noteq> c" "?ready order q"
        using ready queue by auto
      then show ?thesis by auto
    next
      case 2
      have "?open order q \<subseteq> {c}"
      proof -
        have "c \<in> ?open order q" using 2(1) c by auto
        moreover have "\<forall>x \<in> ?open order q. \<forall>y \<in> ?open order q. x = y"
          using 2(2) card_le_Suc0_iff_eq [OF fin [of q]] by simp
        ultimately show ?thesis by blast
      qed
      then have "d \<in> set (order @ [c])" if "dep_edge phases q d" for d
        using 2(3) that by (auto simp: scan_graph_missing)
      moreover have "q \<notin> set (order @ [c])"
        using 2(1) c ordered_after_deps_mem(2) [OF order(2), of q c] by auto
      ultimately show ?thesis
        using 2(1) dep_edge_in_plan by blast
    qed
  next
    fix q assume "q \<in> {q. ?ready (order @ [c]) q}"
    then have q: "?ready (order @ [c]) q" by simp
    show "q \<in> set queue'"
    proof (cases "dep_edge phases q c")
      case True
      have "?open order q \<subseteq> {c}"
        using q by auto
      then have "card (?open order q) \<le> 1"
        using card_mono [of "{c}" "?open order q"] by simp
      moreover have "\<not> bt_contains (gs_missing (scan_graph phases)) q"
        using q ordered_after_deps_mem(1) [OF order(2)] c by (auto simp: scan_graph_missing)
      ultimately show ?thesis
        using True q' count by simp
    next
      case False
      then have "?ready order q" using q by auto
      then have "q \<in> set queue" using ready by blast
      then show ?thesis using queue q q' by auto
    qed
  qed
  moreover have "ordered_after_deps phases (order @ [c])"
    using c order(2) by (intro ordered_after_deps_snoc) auto
  ultimately show ?thesis
    using wf' d' order(1) c by (simp add: kahn_inv_def)
qed

lemma kahn_loop_inv:
  assumes "distinct (map ep_id phases)" "kahn_inv phases queue order counts"
  shows "\<exists>counts'. kahn_inv phases []
    (kahn_loop pos (gs_dependents (scan_graph phases)) (gs_missing (scan_graph phases)) queue order counts)
    counts'"
  using assms(2)
proof (induction pos "gs_dependents (scan_graph phases)" "gs_missing (scan_graph phases)" queue order counts
    rule: kahn_loop.induct)
  case (1 pos queue order counts)
  let ?sorted = "sort_key (bt_get pos) queue"
  show ?case
  proof (cases ?sorted)
    case Nil
    then have "queue = []"
      by (metis set_empty set_sort)
    then show ?thesis
      using 1(3) by (auto simp: kahn_loop.simps [of pos _ _ "[]"])
  next
    case (Cons c rest)
    have queue: "set queue = insert c (set rest)" "distinct (c # rest)"
      using 1(3) Cons by (metis list.simps(15) set_sort, metis distinct_sort kahn_inv_def)
    have new: "c \<notin> set order"
      using 1(3) queue(1) unfolding kahn_inv_def by blast
    obtain queue' counts' where rel: "release_children (gs_missing (scan_graph phases))
        (children_of (gs_dependents (scan_graph phases)) c) rest counts = (queue', counts')"
      by fastforce
    have "kahn_inv phases queue' (order @ [c]) counts'"
      by (rule kahn_step [OF assms(1) 1(3) queue rel])
    from 1(2) [OF Cons new rel [symmetric] this] show ?thesis
      using Cons new rel by (simp add: kahn_loop.simps [of pos _ _ queue])
  qed
qed

lemma kahn_inv_start:
  assumes "distinct (map ep_id phases)"
  shows "kahn_inv phases (initial_queue phases (scan_graph phases)) [] (gs_known_dep_count (scan_graph phases))"
proof -
  have cnt: "bt_or (gs_known_dep_count (scan_graph phases)) q 0 =
      card {d. dep_edge phases q d \<and> d \<in> plan_ids phases}" for q
    using scan_graph_count [OF assms, of q] by (simp add: known_count_def)
  have "bt_or (gs_known_dep_count (scan_graph phases)) q 0 = 0 \<and>
      \<not> bt_contains (gs_missing (scan_graph phases)) q \<longleftrightarrow> (\<forall>d. \<not> dep_edge phases q d)" for q
    unfolding cnt using finite_dep_edge [of phases q "\<lambda>d. d \<in> plan_ids phases"]
    by (auto simp: scan_graph_missing)
  then have "set (initial_queue phases (scan_graph phases)) = {q \<in> plan_ids phases. \<forall>d. \<not> dep_edge phases q d}"
    by (auto simp: initial_queue_def plan_ids_def)
  moreover have "distinct (initial_queue phases (scan_graph phases))"
    using assms by (auto simp: initial_queue_def distinct_map intro: inj_on_subset)
  ultimately show ?thesis
    using scan_graph_wf [of phases] cnt
    by (auto simp: kahn_inv_def scan_wf_def ordered_after_deps_def)
qed

definition plan_order :: "executable_phase list \<Rightarrow> string list" where
  "plan_order phases = ga_phase_order (analyze_phase_graph phases)"

lemma plan_order_inv:
  assumes "distinct (map ep_id phases)"
  shows "\<exists>counts. kahn_inv phases [] (plan_order phases) counts"
  unfolding plan_order_def analyze_phase_graph_def Let_def
  using kahn_loop_inv [OF assms kahn_inv_start [OF assms]] by simp

lemma set_plan_order:
  assumes "distinct (map ep_id phases)"
  shows "set (plan_order phases) = {q. runnable phases q}"
proof -
  obtain counts where inv: "kahn_inv phases [] (plan_order phases) counts"
    using plan_order_inv [OF assms] by blast
  have "q \<in> set (plan_order phases)" if "runnable phases q" for q
    using that
  proof (induction rule: runnable.induct)
    case (1 q)
    have "{q \<in> plan_ids phases. q \<notin> set (plan_order phases) \<and>
        (\<forall>d. dep_edge phases q d \<longrightarrow> d \<in> set (plan_order phases))} = {}"
      using inv by (simp add: kahn_inv_def)
    with 1 show ?case by blast
  qed
  then show ?thesis
    using inv ordered_runnable by (auto simp: kahn_inv_def)
qed

section \<open>Invalid dependencies and cycles\<close>

lemma invalid_step_sound:
  assumes "invalid_step p (iv, iss, ch) = (iv', iss', ch')" "p \<in> set phases" "set iv \<subseteq> {q. poisoned phases q}"
  shows "set iv' \<subseteq> {q. poisoned phases q}"
proof -
  have "poisoned phases (ep_id p)" if "d \<in> set (ep_depends_on p)" "d \<in> set iv" for d
  proof (rule poisoned.spread)
    show "ep_id p \<in> plan_ids phases" "dep_edge phases (ep_id p) d" "poisoned phases d"
      using that assms(2,3) by (auto simp: plan_ids_def dep_edge_def)
  qed
  then show ?thesis
    using assms(1,3) by (fastforce simp: invalid_step_def list_ex_iff split: if_splits)
qed

lemma invalid_pass_sound:
  assumes "fold invalid_step ps (iv, iss, ch) = (iv', iss', ch')" "set ps \<subseteq> set phases"
    "set iv \<subseteq> {q. poisoned phases q}"
  shows "set iv' \<subseteq> {q. poisoned phases q}"
  using assms
proof (induction ps arbitrary: iv iss ch)
  case (Cons p ps)
  obtain iv1 iss1 ch1 where one: "invalid_step p (iv, iss, ch) = (iv1, iss1, ch1)"
    by (cases "invalid_step p (iv, iss, ch)") auto
  with Cons show ?case
    using invalid_step_sound [OF one] by simp
qed simp

lemma invalid_pass_unchanged:
  assumes "fold invalid_step ps (iv, iss, ch) = (iv', iss', False)"
  shows "iv' = iv \<and> iss' = iss \<and> \<not> ch \<and>
    (\<forall>p \<in> set ps. ep_id p \<in> set iv \<or> (\<forall>d \<in> set (ep_depends_on p). d \<notin> set iv))"
  using assms
proof (induction ps arbitrary: iv iss ch)
  case (Cons p ps)
  obtain iv1 iss1 ch1 where one: "invalid_step p (iv, iss, ch) = (iv1, iss1, ch1)"
    by (cases "invalid_step p (iv, iss, ch)") auto
  then have "fold invalid_step ps (iv1, iss1, ch1) = (iv', iss', False)"
    using Cons.prems by simp
  from Cons.IH [OF this] one show ?case
    by (auto simp: invalid_step_def list_ex_iff split: if_splits)
qed simp

lemma invalid_pass_issues:
  assumes "fold invalid_step ps (iv, iss, ch) = (iv', iss', ch')" "\<not> ch"
  shows "(ch' \<longrightarrow> iss' \<noteq> []) \<and> (iss \<noteq> [] \<longrightarrow> iss' \<noteq> [])"
proof -
  have "(ch' \<longrightarrow> ch \<or> iss' \<noteq> []) \<and> (iss \<noteq> [] \<longrightarrow> iss' \<noteq> [])"
    using assms(1)
  proof (induction ps arbitrary: iv iss ch)
    case (Cons p ps)
    obtain iv1 iss1 ch1 where one: "invalid_step p (iv, iss, ch) = (iv1, iss1, ch1)"
      by (cases "invalid_step p (iv, iss, ch)") auto
    then have "fold invalid_step ps (iv1, iss1, ch1) = (iv', iss', ch')"
      using Cons.prems by simp
    from Cons.IH [OF this] one show ?case
      by (auto simp: invalid_step_def split: if_splits)
  qed simp
  then show ?thesis using assms(2) by blast
qed

lemma invalid_loop_result:
  assumes "set iv \<subseteq> {q. poisoned phases q}"
  shows "set iv \<subseteq> set (fst (invalid_loop phases iv iss)) \<and>
    set (fst (invalid_loop phases iv iss)) \<subseteq> {q. poisoned phases q} \<and>
    (\<forall>p \<in> set phases. ep_id p \<in> set (fst (invalid_loop phases iv iss)) \<or>
       (\<forall>d \<in> set (ep_depends_on p). d \<notin> set (fst (invalid_loop phases iv iss)))) \<and>
    (snd (invalid_loop phases iv iss) = [] \<longrightarrow> iss = [])"
  using assms
proof (induction phases iv iss rule: invalid_loop.induct)
  case (1 phases iv iss)
  obtain iv' iss' ch' where pass: "fold invalid_step phases (iv, iss, False) = (iv', iss', ch')"
    by (cases "fold invalid_step phases (iv, iss, False)") auto
  show ?case
  proof (cases ch')
    case True
    have "set iv' \<subseteq> {q. poisoned phases q}"
      using invalid_pass_sound [OF pass _ 1(2)] by simp
    from 1(1) [OF pass [symmetric] refl True this] show ?thesis
      using True pass invalid_pass_grows [OF pass] invalid_pass_issues [OF pass]
      by (simp add: invalid_loop.simps [of phases iv]) blast
  next
    case False
    then show ?thesis
      using pass invalid_pass_unchanged [of phases iv iss False iv' iss'] 1(2)
      by (simp add: invalid_loop.simps [of phases iv])
  qed
qed

definition plan_invalid :: "executable_phase list \<Rightarrow> string list" where
  "plan_invalid phases = ga_invalid_dependency_phases (analyze_phase_graph phases)"

definition plan_cycles :: "executable_phase list \<Rightarrow> string list" where
  "plan_cycles phases = ga_cycle_phases (analyze_phase_graph phases)"

lemma missing_keys:
  "set (bt_keys (gs_missing (scan_graph phases))) = {q. \<exists>d. dep_edge phases q d \<and> d \<notin> plan_ids phases}"
proof -
  have "bt_wf (gs_missing (scan_graph phases))"
    using scan_graph_wf [of phases] by (simp add: scan_wf_def)
  then show ?thesis
    using scan_graph_missing [of phases] by (auto simp: bt_keys_iff bt_contains_def)
qed

lemma missing_poisoned: "dep_edge phases q d \<Longrightarrow> d \<notin> plan_ids phases \<Longrightarrow> poisoned phases q"
  using poisoned.missing dep_edge_in_plan by blast

lemma set_plan_invalid: "set (plan_invalid phases) = {q. poisoned phases q}"
proof -
  let ?r = "invalid_loop phases (bset (bt_keys (gs_missing (scan_graph phases)))) (gs_issues (scan_graph phases))"
  have inv: "plan_invalid phases = fst ?r"
    by (simp add: plan_invalid_def analyze_phase_graph_def Let_def)
  have start: "set (bset (bt_keys (gs_missing (scan_graph phases)))) \<subseteq> {q. poisoned phases q}"
    using missing_poisoned by (auto simp: missing_keys)
  note res = invalid_loop_result [OF start, of "gs_issues (scan_graph phases)"]
  have "q \<in> set (fst ?r)" if "poisoned phases q" for q
    using that
  proof (induction rule: poisoned.induct)
    case (missing q d)
    then show ?case
      using res by (auto simp: missing_keys)
  next
    case (spread q d)
    then show ?case
      using res unfolding dep_edge_def by blast
  qed
  then show ?thesis
    using res inv by auto
qed

lemma set_plan_cycles:
  assumes "distinct (map ep_id phases)"
  shows "set (plan_cycles phases) = {q \<in> plan_ids phases. \<not> runnable phases q \<and> \<not> poisoned phases q}"
  using set_plan_order [OF assms] set_plan_invalid [of phases]
  by (auto simp: plan_cycles_def plan_order_def plan_invalid_def analyze_phase_graph_def Let_def plan_ids_def)

text \<open>A phase in neither set waits for another such phase.\<close>

lemma cycle_has_successor:
  assumes "q \<in> plan_ids phases" "\<not> runnable phases q" "\<not> poisoned phases q"
  shows "\<exists>d. dep_edge phases q d \<and> d \<in> plan_ids phases \<and> \<not> runnable phases d \<and> \<not> poisoned phases d"
proof -
  obtain d where d: "dep_edge phases q d" "\<not> runnable phases d"
    using assms(1,2) runnable.intros by blast
  have "d \<in> plan_ids phases"
    using missing_poisoned d(1) assms(3) by blast
  moreover have "\<not> poisoned phases d"
    using poisoned.spread [OF assms(1) d(1)] assms(3) by blast
  ultimately show ?thesis using d by blast
qed

definition dep_rel :: "executable_phase list \<Rightarrow> (string \<times> string) set" where
  "dep_rel phases = {(q, d). dep_edge phases q d}"

lemma finite_dep_rel: "finite (dep_rel phases)"
proof -
  have "dep_rel phases \<subseteq> (\<Union>p \<in> set phases. {ep_id p} \<times> set (ep_depends_on p))"
    by (auto simp: dep_rel_def dep_edge_def)
  then show ?thesis
    by (rule finite_subset) auto
qed

lemma runnable_no_cycle: "runnable phases q \<Longrightarrow> (q, c) \<in> (dep_rel phases)\<^sup>* \<Longrightarrow> (c, c) \<notin> (dep_rel phases)\<^sup>+"
proof (induction arbitrary: c rule: runnable.induct)
  case (1 q)
  show ?case
  proof
    assume cyc: "(c, c) \<in> (dep_rel phases)\<^sup>+"
    have "(q, c) \<in> (dep_rel phases)\<^sup>+"
      using 1(4) cyc by (metis rtrancl_eq_or_trancl)
    then obtain d where "(q, d) \<in> dep_rel phases" "(d, c) \<in> (dep_rel phases)\<^sup>*"
      by (metis tranclD)
    then show False
      using 1(3) cyc by (auto simp: dep_rel_def)
  qed
qed

lemma no_cycle_runnable:
  assumes "\<And>d. (q, d) \<in> (dep_rel phases)\<^sup>* \<Longrightarrow> (d, d) \<notin> (dep_rel phases)\<^sup>+"
    and "q \<in> plan_ids phases" "\<not> poisoned phases q"
  shows "runnable phases q"
proof (rule ccontr)
  assume "\<not> runnable phases q"
  define R where "R = {(a, b) \<in> dep_rel phases. (q, a) \<in> (dep_rel phases)\<^sup>*}"
  have sub: "R\<^sup>+ \<subseteq> (dep_rel phases)\<^sup>+"
    by (rule trancl_mono_subset) (auto simp: R_def)
  have "acyclic R"
  proof (rule acyclicI, rule allI)
    fix x
    show "(x, x) \<notin> R\<^sup>+"
    proof
      assume x: "(x, x) \<in> R\<^sup>+"
      then obtain y where "(x, y) \<in> R"
        by (metis tranclD)
      then show False
        using assms(1) [of x] x sub by (auto simp: R_def)
    qed
  qed
  moreover have "finite R"
    by (rule finite_subset [OF _ finite_dep_rel [of phases]]) (auto simp: R_def)
  ultimately have wf: "wf (R\<inverse>)"
    by (simp add: finite_acyclic_wf_converse)
  let ?Q = "{a. (q, a) \<in> (dep_rel phases)\<^sup>* \<and> a \<in> plan_ids phases \<and> \<not> runnable phases a \<and> \<not> poisoned phases a}"
  have q: "q \<in> ?Q"
    using assms(2,3) \<open>\<not> runnable phases q\<close> by simp
  obtain z where z: "z \<in> ?Q" "\<And>y. (y, z) \<in> R\<inverse> \<Longrightarrow> y \<notin> ?Q"
    by (rule wfE_min [OF wf q]) blast
  obtain d where d: "dep_edge phases z d" "d \<in> plan_ids phases" "\<not> runnable phases d" "\<not> poisoned phases d"
    using cycle_has_successor z(1) by blast
  then have "(z, d) \<in> R" "(q, d) \<in> (dep_rel phases)\<^sup>*"
    using z(1) by (auto simp: R_def dep_rel_def intro: rtrancl_into_rtrancl)
  then show False
    using z(2) [of d] d by auto
qed

section \<open>Issues and readiness\<close>

lemma plan_issues_runnable:
  assumes "distinct (map ep_id phases)"
  shows "ga_issues (analyze_phase_graph phases) = [] \<longleftrightarrow> (\<forall>q \<in> plan_ids phases. runnable phases q)"
proof
  let ?r = "invalid_loop phases (bset (bt_keys (gs_missing (scan_graph phases)))) (gs_issues (scan_graph phases))"
  have start: "set (bset (bt_keys (gs_missing (scan_graph phases)))) \<subseteq> {q. poisoned phases q}"
    using missing_poisoned by (auto simp: missing_keys)
  have inv: "fst ?r = plan_invalid phases"
    by (simp add: plan_invalid_def analyze_phase_graph_def Let_def)
  have issues: "ga_issues (analyze_phase_graph phases) = snd ?r @ map (cycle_issue \<circ> ep_id)
      (filter (\<lambda>p. ep_id p \<notin> set (plan_order phases) \<and> ep_id p \<notin> set (plan_invalid phases)) phases)"
    by (simp add: plan_order_def plan_invalid_def analyze_phase_graph_def Let_def)
  {
    assume none: "ga_issues (analyze_phase_graph phases) = []"
    then have "gs_issues (scan_graph phases) = []"
      using invalid_loop_result [OF start, of "gs_issues (scan_graph phases)"] issues by simp
    then have "\<not> poisoned phases q" for q
    proof -
      have "False" if "poisoned phases q"
        using that by (induction rule: poisoned.induct)
          (use \<open>gs_issues (scan_graph phases) = []\<close> in \<open>auto simp: scan_graph_issues\<close>)
      then show ?thesis by blast
    qed
    moreover have "ep_id p \<in> set (plan_order phases) \<or> ep_id p \<in> set (plan_invalid phases)" if "p \<in> set phases" for p
      using none issues that by (auto simp: filter_empty_conv)
    ultimately show "\<forall>q \<in> plan_ids phases. runnable phases q"
      using set_plan_order [OF assms] set_plan_invalid [of phases] by (auto simp: plan_ids_def)
  }
  assume all: "\<forall>q \<in> plan_ids phases. runnable phases q"
  have known: "d \<in> plan_ids phases" if "dep_edge phases q d" for q d
    using that all runnable_in_plan dep_edge_in_plan by (blast elim: runnableE)
  have none: "plan_invalid phases = []"
  proof -
    have "{q. poisoned phases q} = {}"
      using all poisoned_not_runnable poisoned_in_plan by blast
    then show ?thesis
      using set_plan_invalid [of phases] by simp
  qed
  then have "fst ?r = []"
    using inv by simp
  moreover have start_empty: "bset (bt_keys (gs_missing (scan_graph phases))) = []"
    using missing_keys [of phases] known by (simp add: set_eq_iff) (metis ex_in_conv set_empty)
  moreover have "gs_issues (scan_graph phases) = []"
    using known scan_graph_issues by blast
  moreover have "fold invalid_step ps ([], [], False) = ([], [], False)" for ps
    by (induction ps) (simp_all add: invalid_step_def list_ex_iff)
  ultimately have "snd ?r = []"
    by (simp add: invalid_loop.simps [of phases])
  moreover have "ep_id p \<in> set (plan_order phases)" if "p \<in> set phases" for p
    using all that set_plan_order [OF assms] by (auto simp: plan_ids_def)
  ultimately show "ga_issues (analyze_phase_graph phases) = []"
    using issues by (simp add: filter_empty_conv)
qed

lemma blocked_by_empty:
  assumes "distinct (map ep_id phases)" "p \<in> set phases"
  shows "blocked_by (ep_id p) (ep_depends_on p) completed (analyze_phase_graph phases) = [] \<longleftrightarrow>
    set (ep_depends_on p) \<subseteq> set completed \<and> runnable phases (ep_id p)"
proof -
  have missing: "ga_missing_dependencies (analyze_phase_graph phases) = gs_missing (scan_graph phases)"
    by (simp add: analyze_phase_graph_def Let_def)
  have "runnable phases (ep_id p) \<longleftrightarrow> ep_id p \<notin> set (plan_invalid phases) \<and> ep_id p \<notin> set (plan_cycles phases)"
    using set_plan_invalid [of phases] set_plan_cycles [OF assms(1)] assms(2) poisoned_not_runnable
    by (auto simp: plan_ids_def)
  moreover have "bt_get (gs_missing (scan_graph phases)) (ep_id p) = None" if "\<not> poisoned phases (ep_id p)"
    using that scan_graph_missing [of phases "ep_id p"] missing_poisoned by (auto simp: bt_contains_def)
  ultimately show ?thesis
    using set_plan_invalid [of phases]
    by (auto simp: blocked_by_def missing plan_invalid_def plan_cycles_def filter_empty_conv
        split: option.splits if_splits)
qed

definition plan_ready :: "executable_phase list \<Rightarrow> string list \<Rightarrow> string list" where
  "plan_ready phases completed = map ep_id (filter
     (\<lambda>p. ep_id p \<notin> set completed \<and> set (ep_depends_on p) \<subseteq> set completed \<and> ep_id p \<in> set (plan_order phases)) phases)"

lemma ready_ids_eq:
  assumes "distinct (map ep_id (op_phases plan))"
  shows "sr_ready_phase_ids (build_scheduler_run_plan sha plan request) =
    plan_ready (op_phases plan) (sq_completed_phase_ids request)"
  unfolding build_scheduler_run_plan_def Let_def plan_ready_def
  using blocked_by_empty [OF assms] set_plan_order [OF assms]
  by (auto simp: phase_is_ready_def intro!: arg_cong [where f = "map ep_id"] filter_cong)

text \<open>A plan without issues has a ready phase as long as a phase is not completed.\<close>

lemma ready_exists:
  assumes "distinct (map ep_id phases)" "runnable phases q" "q \<notin> set completed"
  shows "plan_ready phases completed \<noteq> []"
  using assms(2,3)
proof (induction rule: runnable.induct)
  case (1 q)
  show ?case
  proof (cases "\<forall>d. dep_edge phases q d \<longrightarrow> d \<in> set completed")
    case True
    obtain p where p: "p \<in> set phases" "ep_id p = q"
      using 1(1) by (auto simp: plan_ids_def)
    have "runnable phases q"
      using 1 by (auto intro: runnable.intros)
    then have "q \<in> set (plan_ready phases completed)"
      using p True 1(4) set_plan_order [OF assms(1)]
      by (auto simp: plan_ready_def dep_edge_def intro!: image_eqI [where x = p])
    then show ?thesis by auto
  qed (use 1(3) in blast)
qed

lemma ready_new: "set (plan_ready phases completed) \<subseteq> plan_ids phases - set completed"
  by (auto simp: plan_ready_def plan_ids_def)

definition run_rounds :: "(string \<Rightarrow> string) \<Rightarrow> executable_orchestration_plan \<Rightarrow> nat \<Rightarrow> string list \<Rightarrow> string list" where
  "run_rounds sha plan n completed = ((\<lambda>c. c @ ready_phase_ids sha plan c) ^^ n) completed"

lemma ready_phase_ids_eq:
  assumes "distinct (map ep_id (op_phases plan))"
  shows "ready_phase_ids sha plan completed = plan_ready (op_phases plan) completed"
  using ready_ids_eq [OF assms] by (simp add: ready_phase_ids_def with_completed_phases_def)

lemma run_rounds_progress:
  assumes "distinct (map ep_id (op_phases plan))" "\<forall>q \<in> plan_ids (op_phases plan). runnable (op_phases plan) q"
  shows "card (plan_ids (op_phases plan) - set (run_rounds sha plan n completed)) \<le>
    card (plan_ids (op_phases plan) - set completed) - n"
proof (induction n)
  case 0
  show ?case by (simp add: run_rounds_def)
next
  case (Suc n)
  let ?c = "run_rounds sha plan n completed"
  let ?ids = "plan_ids (op_phases plan)"
  have step: "run_rounds sha plan (Suc n) completed = ?c @ plan_ready (op_phases plan) ?c"
    by (simp add: run_rounds_def ready_phase_ids_eq [OF assms(1)])
  show ?case
  proof (cases "?ids \<subseteq> set ?c")
    case True
    then have "?ids - set (run_rounds sha plan (Suc n) completed) = {}"
      using step by auto
    then show ?thesis by (simp only: card.empty)
  next
    case False
    then obtain q where "q \<in> ?ids" "q \<notin> set ?c"
      by blast
    then have "plan_ready (op_phases plan) ?c \<noteq> []"
      using ready_exists [OF assms(1)] assms(2) by blast
    then obtain r where "r \<in> set (plan_ready (op_phases plan) ?c)"
      by (meson last_in_set)
    then have "?ids - set (run_rounds sha plan (Suc n) completed) \<subset> ?ids - set ?c"
      using ready_new [of "op_phases plan" ?c] unfolding step by auto
    moreover have "finite (?ids - set ?c)"
      by (simp add: plan_ids_def)
    ultimately have "card (?ids - set (run_rounds sha plan (Suc n) completed)) < card (?ids - set ?c)"
      by (rule psubset_card_mono [rotated])
    then show ?thesis
      using Suc by linarith
  qed
qed

section \<open>Properties\<close>

text \<open>C5. The phase order of a plan with distinct phase ids is a duplicate-free topological order of
  exactly the phases that can run: those all of whose dependencies are phases of the plan that can
  run. Every phase stands after all of its dependencies.\<close>

theorem phase_order_topological:
  assumes "distinct (map ep_id phases)"
  shows "distinct (ga_phase_order (analyze_phase_graph phases)) \<and>
    set (ga_phase_order (analyze_phase_graph phases)) = {q. runnable phases q} \<and>
    ordered_after_deps phases (ga_phase_order (analyze_phase_graph phases))"
  using plan_order_inv [OF assms] set_plan_order [OF assms]
  by (auto simp: plan_order_def kahn_inv_def)

definition example_phase :: "string \<Rightarrow> string list \<Rightarrow> executable_phase" where
  "example_phase i deps = \<lparr> ep_id = i, ep_label = i, ep_owner = ''wiki'', ep_depends_on = deps,
     ep_strategy = ''all'', ep_completion = ''receipts'', ep_reads_raw_history = False,
     ep_durable_receipt = ''r'', ep_jobs = [] \<rparr>"

theorem phase_order_topological_witness:
  "ordered_after_deps [example_phase ''b'' [''a''], example_phase ''a'' []]
    (ga_phase_order (analyze_phase_graph [example_phase ''b'' [''a''], example_phase ''a'' []]))"
  using phase_order_topological [of "[example_phase ''b'' [''a''], example_phase ''a'' []]"]
  by (simp add: example_phase_def)

text \<open>C13. With distinct phase ids, the analysis reports no issue exactly when every dependency names a
  phase of the plan and the dependency relation has no cycle.\<close>

theorem issues_iff_acyclic:
  assumes "distinct (map ep_id phases)"
  shows "ga_issues (analyze_phase_graph phases) = [] \<longleftrightarrow>
    (\<forall>q d. dep_edge phases q d \<longrightarrow> d \<in> plan_ids phases) \<and> acyclic (dep_rel phases)"
proof -
  have "(\<forall>q \<in> plan_ids phases. runnable phases q) \<longleftrightarrow>
    (\<forall>q d. dep_edge phases q d \<longrightarrow> d \<in> plan_ids phases) \<and> acyclic (dep_rel phases)" (is "?l \<longleftrightarrow> ?r")
  proof
    assume l: ?l
    have known: "d \<in> plan_ids phases" if "dep_edge phases q d" for q d
      using l that runnable_in_plan dep_edge_in_plan by (blast elim: runnableE)
    moreover have "(c, c) \<notin> (dep_rel phases)\<^sup>+" for c
    proof
      assume cyc: "(c, c) \<in> (dep_rel phases)\<^sup>+"
      then have "c \<in> plan_ids phases"
        using dep_edge_in_plan by (metis (mono_tags) dep_rel_def mem_Collect_eq case_prod_conv tranclD)
      then show False
        using l cyc runnable_no_cycle by blast
    qed
    ultimately show ?r
      by (auto intro: acyclicI)
  next
    assume r: ?r
    have "\<not> poisoned phases q" for q
    proof
      assume "poisoned phases q"
      then show False
        by (induction rule: poisoned.induct) (use r in auto)
    qed
    then show ?l
      using r no_cycle_runnable by (auto simp: acyclic_def)
  qed
  then show ?thesis
    using plan_issues_runnable [OF assms] by simp
qed

theorem issues_iff_acyclic_witness:
  "ga_issues (analyze_phase_graph [example_phase ''a'' [''a'']]) \<noteq> []"
proof -
  have "(''a'', ''a'') \<in> (dep_rel [example_phase ''a'' [''a'']])\<^sup>+"
    by (rule r_into_trancl) (simp add: dep_rel_def dep_edge_def example_phase_def)
  then show ?thesis
    using issues_iff_acyclic [of "[example_phase ''a'' [''a'']]"] by (auto simp: acyclic_def)
qed

text \<open>The three verdicts partition a plan with distinct phase ids: ordered phases, phases reached by
  a missing dependency, and the rest. The rest, reported as being in a dependency cycle, are exactly
  the phases without a missing dependency below them from which some cycle can be reached; they need
  not lie on a cycle themselves.\<close>

theorem cycle_phases_reach_cycle:
  assumes "distinct (map ep_id phases)"
  shows "set (ga_invalid_dependency_phases (analyze_phase_graph phases)) = {q. poisoned phases q} \<and>
    set (ga_cycle_phases (analyze_phase_graph phases)) =
      {q \<in> plan_ids phases. \<not> poisoned phases q \<and>
         (\<exists>c. (q, c) \<in> (dep_rel phases)\<^sup>* \<and> (c, c) \<in> (dep_rel phases)\<^sup>+)}"
proof -
  have "set (plan_cycles phases) =
      {q \<in> plan_ids phases. \<not> poisoned phases q \<and>
         (\<exists>c. (q, c) \<in> (dep_rel phases)\<^sup>* \<and> (c, c) \<in> (dep_rel phases)\<^sup>+)}"
    unfolding set_plan_cycles [OF assms] using no_cycle_runnable runnable_no_cycle by blast
  then show ?thesis
    using set_plan_invalid [of phases] by (simp add: plan_cycles_def plan_invalid_def)
qed

definition downstream_of_cycle :: "executable_phase list" where
  "downstream_of_cycle = [example_phase ''a'' [''a''], example_phase ''b'' [''a'']]"

text \<open>Phase \<open>b\<close> only waits for the cycle of \<open>a\<close>, and is reported all the same.\<close>

theorem cycle_phases_reach_cycle_witness:
  "''b'' \<in> set (ga_cycle_phases (analyze_phase_graph downstream_of_cycle)) \<and>
   (\<forall>d. \<not> dep_edge downstream_of_cycle d ''b'')"
proof -
  have edge: "dep_edge downstream_of_cycle q d \<longleftrightarrow> d = ''a'' \<and> (q = ''a'' \<or> q = ''b'')" for q d
    by (auto simp: dep_edge_def downstream_of_cycle_def example_phase_def)
  have "(''b'', ''a'') \<in> (dep_rel downstream_of_cycle)\<^sup>*" "(''a'', ''a'') \<in> (dep_rel downstream_of_cycle)\<^sup>+"
    by (auto simp: dep_rel_def edge)
  moreover have ids: "plan_ids downstream_of_cycle = {''a'', ''b''}"
    by (auto simp: plan_ids_def downstream_of_cycle_def example_phase_def)
  moreover have "\<not> poisoned downstream_of_cycle q" for q
  proof
    assume "poisoned downstream_of_cycle q"
    then show False
      by (induction rule: poisoned.induct) (auto simp: edge ids)
  qed
  moreover have "distinct (map ep_id downstream_of_cycle)"
    by (simp add: downstream_of_cycle_def example_phase_def)
  ultimately show ?thesis
    using cycle_phases_reach_cycle [of downstream_of_cycle] by (auto simp: edge)
qed

text \<open>A phase of the run plan is ready exactly when it is not completed, all its dependencies are
  completed and it can run; the list keeps the order of the plan.\<close>

theorem ready_phases_characterised:
  assumes "distinct (map ep_id (op_phases plan))"
  shows "sr_ready_phase_ids (build_scheduler_run_plan sha plan request) =
    map ep_id (filter (\<lambda>p. ep_id p \<notin> set (sq_completed_phase_ids request) \<and>
      set (ep_depends_on p) \<subseteq> set (sq_completed_phase_ids request) \<and>
      ep_id p \<in> set (ga_phase_order (analyze_phase_graph (op_phases plan)))) (op_phases plan))"
  using ready_ids_eq [OF assms] by (simp add: plan_ready_def plan_order_def)

definition example_plan :: "executable_phase list \<Rightarrow> executable_orchestration_plan" where
  "example_plan phases = \<lparr> op_schema_version = 1, op_kind = ''plan'', op_phase_count = length phases,
     op_job_count = 0, op_phases = phases,
     op_receipt_policy = \<lparr> rp_require_birth_certificate = True, rp_require_turn_start = True,
       rp_require_context_injection = True, rp_require_adapter_events = True,
       rp_require_final_message = True, rp_require_talk_append = True, rp_require_mail_delivery = True,
       rp_require_turn_complete = True, rp_final_message_path = ''final.md'',
       rp_final_message_fields = [], rp_talk_delivery_mode = ''append'',
       rp_require_non_empty_final_message = True, rp_do_not_count_codex_exit_as_done = True \<rparr>,
     op_packet_policy = \<lparr> pp_recent_first_days = 7, pp_backfill_days = 30,
       pp_backfill_order = ''recent_first'', pp_incremental_unit = None, pp_model_context_tokens = 1000,
       pp_source_context_fraction = 0, pp_target_source_tokens = 500,
       pp_split_when_estimated_tokens_exceed = 500, pp_raw_history_roles = [],
       pp_downstream_roles_read_scribe_artifacts = True, pp_cache_enabled = False, pp_cache_key = None,
       pp_skip_unchanged_scribe_packets = False \<rparr> \<rparr>"

definition example_chain :: executable_orchestration_plan where
  "example_chain = example_plan [example_phase ''b'' [''a''], example_phase ''a'' []]"

lemma example_chain_ids: "map ep_id (op_phases example_chain) = [''b'', ''a'']"
  by (simp add: example_chain_def example_plan_def example_phase_def)

lemma example_chain_distinct: "distinct (map ep_id (op_phases example_chain))"
  by (simp add: example_chain_ids)

theorem ready_phases_characterised_witness:
  "sr_ready_phase_ids (build_scheduler_run_plan (\<lambda>s. s) example_chain (with_completed_phases ''r'' [''a''])) =
   map ep_id (filter (\<lambda>p. ep_id p \<notin> {''a''} \<and> set (ep_depends_on p) \<subseteq> {''a''} \<and>
     ep_id p \<in> set (ga_phase_order (analyze_phase_graph (op_phases example_chain)))) (op_phases example_chain))"
  using ready_phases_characterised [OF example_chain_distinct, of "\<lambda>s. s" "with_completed_phases ''r'' [''a'']"]
  by (simp add: with_completed_phases_def)

text \<open>C19. A plan with distinct phase ids and no issue never stalls: whatever is completed, its status
  is complete or ready, and as many rounds as it has phases, each completing the phases that are
  ready, complete every phase.\<close>

theorem valid_plan_completes:
  assumes "distinct (map ep_id (op_phases plan))" "ga_issues (analyze_phase_graph (op_phases plan)) = []"
  shows "sr_status (build_scheduler_run_plan sha plan request) \<in> {''complete'', ''ready''} \<and>
    ep_id ` set (op_phases plan) \<subseteq> set (run_rounds sha plan (length (op_phases plan)) completed)"
proof -
  let ?ids = "plan_ids (op_phases plan)"
  have all: "\<forall>q \<in> ?ids. runnable (op_phases plan) q"
    using assms plan_issues_runnable by blast
  have ready: "map ep_id (filter (phase_is_ready request (analyze_phase_graph (op_phases plan))) (op_phases plan))
      = plan_ready (op_phases plan) (sq_completed_phase_ids request)"
    using ready_ids_eq [OF assms(1), of sha request] by (simp add: build_scheduler_run_plan_def Let_def)
  have "plan_ready (op_phases plan) (sq_completed_phase_ids request) \<noteq> []"
    if "\<not> list_all (\<lambda>p. ep_id p \<in> set (sq_completed_phase_ids request)) (op_phases plan)"
    using that all ready_exists [OF assms(1)] by (auto simp: list_all_iff plan_ids_def)
  then have "sr_status (build_scheduler_run_plan sha plan request) \<in> {''complete'', ''ready''}"
    using assms(2) ready by (auto simp: build_scheduler_run_plan_def Let_def)
  moreover have "card (?ids - set completed) \<le> length (op_phases plan)"
    using card_mono [of ?ids "?ids - set completed"] card_length [of "map ep_id (op_phases plan)"]
    by (simp add: plan_ids_def)
  then have "card (?ids - set (run_rounds sha plan (length (op_phases plan)) completed)) = 0"
    using run_rounds_progress [OF assms(1) all, of sha "length (op_phases plan)" completed] by simp
  then have "?ids \<subseteq> set (run_rounds sha plan (length (op_phases plan)) completed)"
    by (simp add: plan_ids_def)
  ultimately show ?thesis
    by (simp add: plan_ids_def)
qed

theorem valid_plan_completes_witness:
  "{''a'', ''b''} \<subseteq> set (run_rounds (\<lambda>s. s) example_chain 2 [])"
proof -
  have "ga_issues (analyze_phase_graph (op_phases example_chain)) = []"
    by code_simp
  moreover have "ep_id ` set (op_phases example_chain) = {''a'', ''b''}" "length (op_phases example_chain) = 2"
    using arg_cong [OF example_chain_ids, of set] arg_cong [OF example_chain_ids, of length] by auto
  ultimately show ?thesis
    using valid_plan_completes [OF example_chain_distinct, of "\<lambda>s. s" _ "[]"] by simp
qed

text \<open>A job of the run plan is ready exactly when its phase is ready, its required artifacts and
  mail are available and it has no condition; the reported count of ready jobs is the number of jobs
  that \<open>ready_jobs\<close> returns.\<close>

theorem ready_jobs_characterised:
  "sr_ready_job_count (build_scheduler_run_plan sha plan request) =
     length (ready_jobs (build_scheduler_run_plan sha plan request)) \<and>
   (sj_status (build_scheduled_job job receipts status ready artifacts mail) = ''ready'' \<longleftrightarrow>
     ready \<and> set (ej_required_artifacts job) \<subseteq> set artifacts \<and> set (ej_required_mail job) \<subseteq> set mail \<and>
     ej_when job = None)"
proof -
  have "sum_list (map (\<lambda>p. length (filter P (sp_jobs p))) ps) = length (filter P (concat (map sp_jobs ps)))"
    for P and ps :: "scheduled_phase list"
    by (induction ps) auto
  then have "sr_ready_job_count (build_scheduler_run_plan sha plan request) =
     length (ready_jobs (build_scheduler_run_plan sha plan request))"
    by (simp add: build_scheduler_run_plan_def Let_def ready_jobs_def ready_jobs_of_def)
  then show ?thesis
    by (auto simp: build_scheduled_job_def Let_def filter_empty_conv)
qed

end
