(* ===== verification/Mail_Address.thy ===== *)
theory Mail_Address
  imports Safe_Id
begin

text \<open>
  Typed mail addresses of \<open>crates/onecontext-agent-mail/src/lib.rs\<close>: the parser, the canonical form,
  mailbox keys and the segment checks that the whole mail store uses. \<open>Url::parse\<close> (crate \<open>url\<close>) is a
  parameter that returns the components its getters expose; SHA-256 is a parameter as in \<open>Safe_Id\<close>.
\<close>

section \<open>Errors\<close>

text \<open>One constructor for each \<open>anyhow!\<close> site that the model reaches, with the values it formats.\<close>

datatype delivery_state =
  Unread | Read | Claimed | Done | Archived | Rejected | Snoozed | DeadLetter

datatype notification_state = Pending | Acknowledged | Suppressed

datatype mail_error =
    AddressWhitespace string
  | AddressTraversal string
  | AddressUnparsable string
  | AddressExtraParts string
  | AddressMissingHost string string
  | AddressPathNotEmpty string string
  | AddressSegmentCount string string string
  | RoleWithoutScope string
  | MailboxHost string
  | AddressUnknownScheme string
  | InvalidSegment string string
  | InvalidYearMonth string
  | TimestampUnparsable string string
  | DuplicateIdempotencyKeyPayload string
  | RouteGrantKind string
  | UnknownAgent string
  | RetiredCannotRevive string
  | RetiredCannotHeartbeat string
  | AgentNotActive string
  | StaleLeaseExpired string string
  | AgentIsRetired string
  | DeliveryAccessDenied string string string
  | UnknownDelivery string
  | DeliveryTerminal string
  | DeliveryAlreadyClaimed string string
  | UnsupportedMarkState delivery_state
  | MustClaimBeforeMark string string delivery_state
  | UnknownNotification string
  | NotificationBelongsTo string string
  | NotificationNotPending string notification_state
  | DeliveryNotDispatchable string delivery_state
  | DeliveryClaimedByAnother string
  | UnknownMessage string
  | UnreadableBody string
  | InjectionThreadMismatch string string

section \<open>Segments\<close>

definition has_whitespace :: "string \<Rightarrow> bool" where
  "has_whitespace value \<longleftrightarrow> list_ex is_whitespace (utf8_chars value)"

definition segment_char :: "char \<Rightarrow> bool" where
  "segment_char c \<longleftrightarrow> is_ascii_alphanumeric c \<or> c = CHR ''-'' \<or> c = CHR ''_'' \<or> c = CHR ''.''"

definition segment_ok :: "string \<Rightarrow> bool" where
  "segment_ok value \<longleftrightarrow> \<not> (value = [] \<or> value = ''.'' \<or> value = ''..'' \<or>
     CHR ''/'' \<in> set value \<or> char_of (92 :: nat) \<in> set value \<or> char_of (0 :: nat) \<in> set value \<or>
     has_whitespace value \<or> \<not> list_all segment_char value)"

definition validate_segment :: "string \<Rightarrow> string \<Rightarrow> mail_error + unit" where
  "validate_segment value label = (if segment_ok value then Inr () else Inl (InvalidSegment label value))"

definition validate_dotted_name :: "string \<Rightarrow> string \<Rightarrow> mail_error + unit" where
  "validate_dotted_name value label =
     (if value = [] then Inl (InvalidSegment label value)
      else try_then (try_map (\<lambda>segment. validate_segment segment label) (split_on (\<lambda>c. c = CHR ''.'') value))
        (\<lambda>_. Inr ()))"

definition split_once_text :: "string \<Rightarrow> string \<Rightarrow> (string \<times> string) option" where
  "split_once_text sep s =
     map_option (\<lambda>n. (take n s, drop (n + length sep) s))
       (List.find (\<lambda>n. take (length sep) (drop n s) = sep) [0..<Suc (length s)])"

definition validate_thread_lookup_id :: "string \<Rightarrow> mail_error + unit" where
  "validate_thread_lookup_id value = (case split_once_text ''://'' value of
     Some (scheme, authority) \<Rightarrow>
       try_then (validate_segment scheme ''thread id scheme'') (\<lambda>_.
       try_then (validate_segment authority ''thread id'') (\<lambda>_. Inr ()))
   | None \<Rightarrow> validate_segment value ''thread id'')"

definition year_month :: "string \<Rightarrow> mail_error + (string \<times> string)" where
  "year_month created_at =
     try_then (ok_or (str_get_prefix 7 created_at) (InvalidYearMonth created_at)) (\<lambda>date.
     try_then (ok_or (split_once CHR ''-'' date) (InvalidYearMonth created_at)) (\<lambda>(year, month).
     if length year \<noteq> 4 \<or> length month \<noteq> 2 then Inl (InvalidYearMonth created_at)
     else try_then (validate_segment year ''timestamp year'') (\<lambda>_.
          try_then (validate_segment month ''timestamp month'') (\<lambda>_. Inr (year, month)))))"

section \<open>Addresses\<close>

datatype mail_address =
    Agent string string
  | Role string string
  | MailList string
  | PageMailbox string
  | Thread string
  | System string

text \<open>What the getters of a parsed URL return.\<close>

record url =
  url_scheme :: string
  url_username :: string
  url_password :: "string option"
  url_host_str :: "string option"
  url_port :: "nat option"
  url_path :: string
  url_path_segments :: "string list option"
  url_query :: "string option"
  url_fragment :: "string option"
  url_cannot_be_a_base :: bool

definition validate_mail_address_url :: "url \<Rightarrow> string \<Rightarrow> mail_error + unit" where
  "validate_mail_address_url parsed input =
     (if url_username parsed \<noteq> [] \<or> url_password parsed \<noteq> None \<or> url_port parsed \<noteq> None \<or>
         url_query parsed \<noteq> None \<or> url_fragment parsed \<noteq> None \<or> url_cannot_be_a_base parsed
      then Inl (AddressExtraParts input) else Inr ())"

definition require_empty_path :: "url \<Rightarrow> string \<Rightarrow> string \<Rightarrow> mail_error + unit" where
  "require_empty_path parsed input scheme =
     (if url_path parsed \<noteq> [] \<and> url_path parsed \<noteq> ''/'' then Inl (AddressPathNotEmpty input scheme)
      else Inr ())"

definition single_path_segment :: "url \<Rightarrow> string \<Rightarrow> string \<Rightarrow> string \<Rightarrow> mail_error + string" where
  "single_path_segment parsed input scheme label =
     try_then (ok_or (url_path_segments parsed) (AddressSegmentCount input scheme label)) (\<lambda>segments.
     (case filter (\<lambda>segment. segment \<noteq> []) segments of
        [segment] \<Rightarrow> Inr segment
      | _ \<Rightarrow> Inl (AddressSegmentCount input scheme label)))"

definition parse_address :: "(string \<Rightarrow> url option) \<Rightarrow> string \<Rightarrow> mail_error + mail_address" where
  "parse_address url_parse input = (let value = str_trim input in
     if value = [] \<or> has_whitespace value then Inl (AddressWhitespace input)
     else if str_contains value ''/../'' \<or> ends_with value ''/..'' \<or>
             str_contains value ''/./'' \<or> ends_with value ''/.''
     then Inl (AddressTraversal input)
     else try_then (ok_or (url_parse value) (AddressUnparsable input)) (\<lambda>parsed.
     try_then (validate_mail_address_url parsed input) (\<lambda>_.
     let host = url_host_str parsed; scheme = url_scheme parsed;
         require_host = ok_or host (AddressMissingHost input scheme)
     in if scheme = ''agent'' then
          try_then require_host (\<lambda>transport.
          try_then (single_path_segment parsed input ''agent'' ''id'') (\<lambda>agent_id.
          try_then (validate_segment transport ''agent transport'') (\<lambda>_.
          try_then (validate_segment agent_id ''agent id'') (\<lambda>_. Inr (Agent transport agent_id)))))
        else if scheme = ''role'' then
          try_then require_host (\<lambda>rest.
          try_then (require_empty_path parsed input ''role'') (\<lambda>_.
          (case rfind_char CHR ''.'' rest of
             None \<Rightarrow> Inl (RoleWithoutScope input)
           | Some n \<Rightarrow>
               try_then (validate_segment (take n rest) ''role scope'') (\<lambda>_.
               try_then (validate_segment (drop (n + 1) rest) ''role name'') (\<lambda>_.
               Inr (Role (take n rest) (drop (n + 1) rest)))))))
        else if scheme = ''list'' then
          try_then require_host (\<lambda>name.
          try_then (require_empty_path parsed input ''list'') (\<lambda>_.
          try_then (validate_dotted_name name ''list address'') (\<lambda>_. Inr (MailList name))))
        else if scheme = ''mailbox'' then
          (if host \<noteq> Some ''page'' then Inl (MailboxHost input)
           else try_then (single_path_segment parsed input ''mailbox'' ''page id'') (\<lambda>page_id.
                try_then (validate_segment page_id ''page mailbox id'') (\<lambda>_. Inr (PageMailbox page_id))))
        else if scheme = ''page'' then
          try_then require_host (\<lambda>page_id.
          try_then (require_empty_path parsed input ''page'') (\<lambda>_.
          try_then (validate_segment page_id ''page mailbox id'') (\<lambda>_. Inr (PageMailbox page_id))))
        else if scheme = ''thread'' then
          try_then require_host (\<lambda>thread_id.
          try_then (require_empty_path parsed input ''thread'') (\<lambda>_.
          try_then (validate_segment thread_id ''thread id'') (\<lambda>_. Inr (Thread thread_id))))
        else if scheme = ''system'' then
          try_then require_host (\<lambda>name.
          try_then (require_empty_path parsed input ''system'') (\<lambda>_.
          try_then (validate_dotted_name name ''system address'') (\<lambda>_. Inr (System name))))
        else Inl (AddressUnknownScheme input))))"

fun canonical :: "mail_address \<Rightarrow> string" where
  "canonical (Agent transport agent_id) = ''agent://'' @ transport @ ''/'' @ agent_id"
| "canonical (Role scope role) = ''role://'' @ scope @ ''.'' @ role"
| "canonical (MailList name) = ''list://'' @ name"
| "canonical (PageMailbox page_id) = ''mailbox://page/'' @ page_id"
| "canonical (Thread thread_id) = ''thread://'' @ thread_id"
| "canonical (System name) = ''system://'' @ name"

definition hex_lower :: "string \<Rightarrow> string" where
  "hex_lower bytes = concat (map hex_byte bytes)"

definition mailbox_key :: "(string \<Rightarrow> string) \<Rightarrow> mail_address \<Rightarrow> string" where
  "mailbox_key sha address = ''addr-'' @ hex_lower (sha (canonical address))"

section \<open>Well-formed addresses\<close>

definition dotted_ok :: "string \<Rightarrow> bool" where
  "dotted_ok value \<longleftrightarrow> value \<noteq> [] \<and> list_all segment_ok (split_on (\<lambda>c. c = CHR ''.'') value)"

fun address_ok :: "mail_address \<Rightarrow> bool" where
  "address_ok (Agent transport agent_id) \<longleftrightarrow> segment_ok transport \<and> segment_ok agent_id"
| "address_ok (Role scope role) \<longleftrightarrow> segment_ok scope \<and> segment_ok role \<and> CHR ''.'' \<notin> set role"
| "address_ok (MailList name) \<longleftrightarrow> dotted_ok name"
| "address_ok (PageMailbox page_id) \<longleftrightarrow> segment_ok page_id"
| "address_ok (Thread thread_id) \<longleftrightarrow> segment_ok thread_id"
| "address_ok (System name) \<longleftrightarrow> dotted_ok name"

lemma validate_segment_Inr [simp, result_simps]: "validate_segment v l = Inr u \<longleftrightarrow> segment_ok v"
  by (simp add: validate_segment_def)

lemma validate_dotted_Inr [simp, result_simps]: "validate_dotted_name v l = Inr u \<longleftrightarrow> dotted_ok v"
proof -
  have "(\<exists>ys. try_map (\<lambda>segment. validate_segment segment l) xs = Inr ys) \<longleftrightarrow> list_all segment_ok xs" for xs
    by (induction xs) (auto simp: result_simps)
  then show ?thesis
    by (auto simp: validate_dotted_name_def dotted_ok_def try_then_Inr)
qed

lemma validate_ok [simp]:
  "segment_ok v \<Longrightarrow> validate_segment v l = Inr ()" "dotted_ok v \<Longrightarrow> validate_dotted_name v l = Inr ()"
  by simp_all

lemma parse_address_ok:
  assumes "parse_address url_parse input = Inr a"
  shows "address_ok a"
  using assms unfolding parse_address_def Let_def
  by (auto simp: result_simps rfind_char_notin split: if_splits option.splits)

text \<open>The characters of a well-formed address.\<close>

lemma segment_ok_chars: "segment_ok v \<Longrightarrow> list_all segment_char v \<and> v \<noteq> [] \<and> v \<noteq> ''.'' \<and> v \<noteq> ''..''"
  by (simp add: segment_ok_def)

lemma segment_char_safe: "segment_char c \<longleftrightarrow> safe_id_char c"
  by (simp add: segment_char_def safe_id_char_def)

lemma split_on_chars: "c \<in> set s \<Longrightarrow> p c \<or> (\<exists>w \<in> set (split_on p s). c \<in> set w)"
proof (induction s)
  case (Cons d s)
  then show ?case
    using split_on_nonempty [of p s] by (cases "split_on p s") auto
qed simp

lemma dotted_ok_chars: "dotted_ok v \<Longrightarrow> list_all segment_char v \<and> v \<noteq> []"
proof -
  assume ok: "dotted_ok v"
  have "segment_char c" if c: "c \<in> set v" for c
  proof (cases "c = CHR ''.''")
    case False
    then obtain w where "w \<in> set (split_on (\<lambda>c. c = CHR ''.'') v)" "c \<in> set w"
      using split_on_chars [OF c, of "\<lambda>c. c = CHR ''.''"] False by blast
    then show ?thesis
      using ok segment_ok_chars by (fastforce simp: dotted_ok_def list_all_iff)
  qed (simp add: segment_char_def)
  then show ?thesis
    using ok by (auto simp: dotted_ok_def list_all_iff)
qed

lemma dotted_ok_not_dots: "dotted_ok v \<Longrightarrow> v \<noteq> ''.'' \<and> v \<noteq> ''..''"
  by (auto simp: dotted_ok_def segment_ok_def)

section \<open>Round trip\<close>

text \<open>
  What the parser relies on from \<open>Url::parse\<close>: a URL made of one of the seven schemes, \<open>://\<close> and an
  authority of letters, digits, dashes, underscores and dots, optionally followed by one path segment of
  the same characters, is split into these parts (the host of a non-special scheme is opaque and kept
  as it is; only the segments \<open>.\<close> and \<open>..\<close> are normalised away).
\<close>

definition address_schemes :: "string list" where
  "address_schemes = [''agent'', ''role'', ''list'', ''mailbox'', ''page'', ''thread'', ''system'']"

definition simple_url_record :: "string \<Rightarrow> string \<Rightarrow> string \<Rightarrow> string list option \<Rightarrow> url" where
  "simple_url_record scheme host path segments =
     \<lparr> url_scheme = scheme, url_username = [], url_password = None, url_host_str = Some host,
       url_port = None, url_path = path, url_path_segments = segments, url_query = None,
       url_fragment = None, url_cannot_be_a_base = False \<rparr>"

definition url_contract :: "(string \<Rightarrow> url option) \<Rightarrow> bool" where
  "url_contract url_parse \<longleftrightarrow> (\<forall>scheme \<in> set address_schemes. \<forall>host.
     host \<noteq> [] \<and> list_all segment_char host \<longrightarrow>
       (\<exists>segments. url_parse (scheme @ ''://'' @ host) = Some (simple_url_record scheme host [] segments)) \<and>
       (\<forall>seg. segment_ok seg \<longrightarrow> url_parse (scheme @ ''://'' @ host @ ''/'' @ seg) =
          Some (simple_url_record scheme host (''/'' @ seg) (Some [seg]))))"

lemma address_char_plain:
  assumes "segment_char c \<or> c = CHR '':'' \<or> c = CHR ''/''"
  shows "byte c < 128" "\<not> is_whitespace [c]"
  using assms
  by (auto simp: segment_char_def is_ascii_alphanumeric_def is_ascii_alphabetic_def is_ascii_digit_def
      is_whitespace_def)

lemma plain_text:
  assumes "\<And>c. c \<in> set s \<Longrightarrow> segment_char c \<or> c = CHR '':'' \<or> c = CHR ''/''"
  shows "str_trim s = s" "\<not> has_whitespace s"
proof -
  have chars: "utf8_chars t = map (\<lambda>c. [c]) t" if "set t \<subseteq> set s" for t
    using that assms address_char_plain(1) by (intro utf8_chars_ascii) blast
  have none: "dropWhile is_whitespace (map (\<lambda>c. [c]) t) = map (\<lambda>c. [c]) t" if "set t \<subseteq> set s" for t
    using that assms address_char_plain(2) by (cases t) auto
  show "str_trim s = s"
    using none [of "rev s"] by (simp add: str_trim_def trim_start_def trim_end_def chars none
        concat_singletons rev_map)
  show "\<not> has_whitespace s"
    using assms address_char_plain(2) by (auto simp: has_whitespace_def chars list_ex_iff)
qed

text \<open>A text with no dot segment between its slashes passes the traversal check.\<close>

lemma no_traversal:
  assumes "\<And>w. w \<in> set (split_on (\<lambda>c. c = CHR ''/'') s) \<Longrightarrow> w \<noteq> ''.'' \<and> w \<noteq> ''..''"
  shows "\<not> (str_contains s ''/../'' \<or> ends_with s ''/..'' \<or> str_contains s ''/./'' \<or> ends_with s ''/.'')"
proof -
  have sp: "split_on (\<lambda>c. c = CHR ''/'') (a @ CHR ''/'' # b) =
      split_on (\<lambda>c. c = CHR ''/'') a @ split_on (\<lambda>c. c = CHR ''/'') b" for a b
    by (rule split_on_append) simp
  have dots: "''.'' \<notin> set (split_on (\<lambda>c. c = CHR ''/'') s)" "''..'' \<notin> set (split_on (\<lambda>c. c = CHR ''/'') s)"
    using assms by blast+
  show ?thesis
    using dots by (auto simp: str_contains_iff ends_with_iff sp)
qed

lemma split_address:
  assumes "CHR ''/'' \<notin> set a" "CHR ''/'' \<notin> set b" "CHR ''/'' \<notin> set c"
  shows "set (split_on (\<lambda>c. c = CHR ''/'') (a @ ''://'' @ b)) = {a @ '':'', [], b}"
    "set (split_on (\<lambda>c. c = CHR ''/'') (a @ ''://'' @ b @ ''/'' @ c)) = {a @ '':'', [], b, c}"
proof -
  have sp: "split_on (\<lambda>c. c = CHR ''/'') (a @ CHR ''/'' # b) =
      split_on (\<lambda>c. c = CHR ''/'') a @ split_on (\<lambda>c. c = CHR ''/'') b" for a b
    by (rule split_on_append) simp
  have one: "split_on (\<lambda>c. c = CHR ''/'') w = [w]" if "CHR ''/'' \<notin> set w" for w
    using that by (intro split_on_none) blast
  have e1: "a @ ''://'' @ b = (a @ '':'') @ CHR ''/'' # [] @ CHR ''/'' # b"
    and e2: "a @ ''://'' @ b @ ''/'' @ c = (a @ '':'') @ CHR ''/'' # [] @ CHR ''/'' # b @ CHR ''/'' # c"
    by simp_all
  show "set (split_on (\<lambda>c. c = CHR ''/'') (a @ ''://'' @ b)) = {a @ '':'', [], b}"
    "set (split_on (\<lambda>c. c = CHR ''/'') (a @ ''://'' @ b @ ''/'' @ c)) = {a @ '':'', [], b, c}"
    unfolding e1 e2 sp using assms by (simp_all add: one)
qed

lemma segment_no_slash: "list_all segment_char v \<Longrightarrow> CHR ''/'' \<notin> set v"
  by (auto simp: list_all_iff segment_char_def is_ascii_alphanumeric_def is_ascii_alphabetic_def
      is_ascii_digit_def)

definition scheme_ok :: "string \<Rightarrow> bool" where
  "scheme_ok scheme \<longleftrightarrow> scheme \<in> set address_schemes"

lemma scheme_chars: "scheme_ok scheme \<Longrightarrow> list_all segment_char scheme \<and> scheme \<noteq> []"
  by (auto simp: scheme_ok_def address_schemes_def segment_char_def is_ascii_alphanumeric_def
      is_ascii_alphabetic_def is_ascii_digit_def)

lemma scheme_colon: "scheme @ '':'' \<noteq> ''.'' \<and> scheme @ '':'' \<noteq> ''..'' \<and> [] \<noteq> ''.'' \<and> [] \<noteq> ''..''"
  by (cases scheme) (auto simp: append_eq_Cons_conv)

lemma guards_host:
  assumes "scheme_ok scheme" "list_all segment_char host" "host \<noteq> ''.''" "host \<noteq> ''..''"
  shows "str_trim (scheme @ ''://'' @ host) = scheme @ ''://'' @ host"
    "\<not> has_whitespace (scheme @ ''://'' @ host)"
    "\<not> (str_contains (scheme @ ''://'' @ host) ''/../'' \<or> ends_with (scheme @ ''://'' @ host) ''/..'' \<or>
       str_contains (scheme @ ''://'' @ host) ''/./'' \<or> ends_with (scheme @ ''://'' @ host) ''/.'')"
proof -
  have sc: "list_all segment_char scheme"
    using scheme_chars assms(1) by blast
  have chars: "segment_char c \<or> c = CHR '':'' \<or> c = CHR ''/''" if "c \<in> set (scheme @ ''://'' @ host)" for c
    using that sc assms(2) by (auto simp: list_all_iff)
  show "str_trim (scheme @ ''://'' @ host) = scheme @ ''://'' @ host"
    "\<not> has_whitespace (scheme @ ''://'' @ host)"
    using plain_text [of "scheme @ ''://'' @ host"] chars by blast+
  have "set (split_on (\<lambda>c. c = CHR ''/'') (scheme @ ''://'' @ host)) = {scheme @ '':'', [], host}"
    using split_address(1) [of scheme host] segment_no_slash [OF sc] segment_no_slash [OF assms(2)] by simp
  then have dots: "w \<noteq> ''.'' \<and> w \<noteq> ''..''" if "w \<in> set (split_on (\<lambda>c. c = CHR ''/'') (scheme @ ''://'' @ host))" for w
    using that assms(3,4) scheme_colon [of scheme] by (elim equalityE) auto
  show "\<not> (str_contains (scheme @ ''://'' @ host) ''/../'' \<or> ends_with (scheme @ ''://'' @ host) ''/..'' \<or>
       str_contains (scheme @ ''://'' @ host) ''/./'' \<or> ends_with (scheme @ ''://'' @ host) ''/.'')"
    by (rule no_traversal) (rule dots)
qed

lemma guards_segment:
  assumes "scheme_ok scheme" "list_all segment_char host" "host \<noteq> ''.''" "host \<noteq> ''..''" "segment_ok seg"
  shows "str_trim (scheme @ ''://'' @ host @ ''/'' @ seg) = scheme @ ''://'' @ host @ ''/'' @ seg"
    "\<not> has_whitespace (scheme @ ''://'' @ host @ ''/'' @ seg)"
    "\<not> (str_contains (scheme @ ''://'' @ host @ ''/'' @ seg) ''/../'' \<or>
       ends_with (scheme @ ''://'' @ host @ ''/'' @ seg) ''/..'' \<or>
       str_contains (scheme @ ''://'' @ host @ ''/'' @ seg) ''/./'' \<or>
       ends_with (scheme @ ''://'' @ host @ ''/'' @ seg) ''/.'')"
proof -
  have sc: "list_all segment_char scheme" and sg: "list_all segment_char seg"
    using scheme_chars assms(1) segment_ok_chars [OF assms(5)] by blast+
  have chars: "segment_char c \<or> c = CHR '':'' \<or> c = CHR ''/''"
    if "c \<in> set (scheme @ ''://'' @ host @ ''/'' @ seg)" for c
    using that sc sg assms(2) by (auto simp: list_all_iff)
  show "str_trim (scheme @ ''://'' @ host @ ''/'' @ seg) = scheme @ ''://'' @ host @ ''/'' @ seg"
    "\<not> has_whitespace (scheme @ ''://'' @ host @ ''/'' @ seg)"
    using plain_text [of "scheme @ ''://'' @ host @ ''/'' @ seg"] chars by blast+
  have "set (split_on (\<lambda>c. c = CHR ''/'') (scheme @ ''://'' @ host @ ''/'' @ seg)) = {scheme @ '':'', [], host, seg}"
    using split_address(2) [of scheme host seg] segment_no_slash [OF sc] segment_no_slash [OF assms(2)]
      segment_no_slash [OF sg] by simp
  then have dots: "w \<noteq> ''.'' \<and> w \<noteq> ''..''"
    if "w \<in> set (split_on (\<lambda>c. c = CHR ''/'') (scheme @ ''://'' @ host @ ''/'' @ seg))" for w
    using that assms(3,4) segment_ok_chars [OF assms(5)] scheme_colon [of scheme] by (elim equalityE) auto
  show "\<not> (str_contains (scheme @ ''://'' @ host @ ''/'' @ seg) ''/../'' \<or>
       ends_with (scheme @ ''://'' @ host @ ''/'' @ seg) ''/..'' \<or>
       str_contains (scheme @ ''://'' @ host @ ''/'' @ seg) ''/./'' \<or>
       ends_with (scheme @ ''://'' @ host @ ''/'' @ seg) ''/.'')"
    by (rule no_traversal) (rule dots)
qed

lemma simple_url_valid [simp]: "validate_mail_address_url (simple_url_record scheme host path segs) input = Inr ()"
  by (simp add: validate_mail_address_url_def simple_url_record_def)

lemma simple_url_fields [simp]:
  "url_scheme (simple_url_record scheme host path segs) = scheme"
  "url_host_str (simple_url_record scheme host path segs) = Some host"
  "require_empty_path (simple_url_record scheme host [] segs) input what = Inr ()"
  "segment_ok seg \<Longrightarrow> single_path_segment (simple_url_record scheme host path (Some [seg])) input what label = Inr seg"
  by (simp_all add: simple_url_record_def require_empty_path_def single_path_segment_def ok_or_def segment_ok_def)

lemma parse_host_address:
  assumes "url_contract url_parse" "scheme_ok scheme" "list_all segment_char host" "host \<noteq> []"
    "host \<noteq> ''.''" "host \<noteq> ''..''"
  obtains segs where "url_parse (scheme @ ''://'' @ host) = Some (simple_url_record scheme host [] segs)"
  using assms unfolding url_contract_def scheme_ok_def by blast

lemma parse_segment_address:
  assumes "url_contract url_parse" "scheme_ok scheme" "list_all segment_char host" "host \<noteq> []" "segment_ok seg"
  shows "url_parse (scheme @ ''://'' @ host @ ''/'' @ seg) =
    Some (simple_url_record scheme host (''/'' @ seg) (Some [seg]))"
  using assms unfolding url_contract_def scheme_ok_def by blast

lemma host_ok_parts:
  assumes "segment_ok scope" "segment_ok role"
  shows "list_all segment_char (scope @ ''.'' @ role)" "scope @ ''.'' @ role \<noteq> ''.''" "scope @ ''.'' @ role \<noteq> ''..''"
  using assms segment_ok_chars [of scope] segment_ok_chars [of role]
  by (auto simp: segment_char_def append_eq_Cons_conv)

lemma parse_canonical:
  assumes url: "url_contract url_parse" and ok: "address_ok a"
  shows "parse_address url_parse (canonical a) = Inr a"
proof -
  have schemes: "scheme_ok ''agent''" "scheme_ok ''role''" "scheme_ok ''list''" "scheme_ok ''mailbox''"
    "scheme_ok ''thread''" "scheme_ok ''system''"
    by (simp_all add: scheme_ok_def address_schemes_def)
  have host: "parse_address url_parse (scheme @ ''://'' @ h) =
      (let b = parse_address (\<lambda>_. Some (simple_url_record scheme h [] None)) (scheme @ ''://'' @ h) in b)"
    if prems: "scheme_ok scheme" "list_all segment_char h" "h \<noteq> []" "h \<noteq> ''.''" "h \<noteq> ''..''"
      "scheme \<in> {''role'', ''list'', ''thread'', ''system''}" for scheme h
  proof -
    obtain segs where "url_parse (scheme @ ''://'' @ h) = Some (simple_url_record scheme h [] segs)"
      using parse_host_address [OF url prems(1-5)] by blast
    then show ?thesis
      using prems(6) guards_host [OF prems(1,2,4,5)]
      by (auto simp: parse_address_def Let_def ok_or_def)
  qed
  show ?thesis
  proof (cases a)
    case (Agent t i)
    then have seg: "segment_ok t" "segment_ok i"
      using ok by simp_all
    note t = segment_ok_chars [OF seg(1)]
    show ?thesis
      using guards_segment [OF schemes(1), of t i] parse_segment_address [OF url schemes(1), of t i] t seg Agent
      by (simp add: parse_address_def Let_def ok_or_def)
  next
    case (PageMailbox i)
    then have seg: "segment_ok i" "list_all segment_char ''page''"
      using ok by (simp, code_simp)
    show ?thesis
      using guards_segment [OF schemes(4) seg(2) _ _ seg(1)] parse_segment_address [OF url schemes(4) seg(2) _ seg(1)]
        seg PageMailbox
      by (simp add: parse_address_def Let_def ok_or_def)
  next
    case (Role scope role)
    then have seg: "segment_ok scope" "segment_ok role" "CHR ''.'' \<notin> set role"
      using ok by simp_all
    note parts = host_ok_parts [OF seg(1,2)]
    show ?thesis
      using host [OF schemes(2) parts(1) _ parts(2,3)] guards_host [OF schemes(2) parts] seg Role
        rfind_char_last [OF seg(3), of scope]
      by (simp add: parse_address_def Let_def ok_or_def)
  next
    case (MailList name)
    then have "dotted_ok name" using ok by simp
    then show ?thesis
      using host [OF schemes(3), of name] guards_host [OF schemes(3), of name] dotted_ok_chars [of name]
        dotted_ok_not_dots [of name] MailList
      by (simp add: parse_address_def Let_def ok_or_def)
  next
    case (Thread name)
    then have "segment_ok name" using ok by simp
    then show ?thesis
      using host [OF schemes(5), of name] guards_host [OF schemes(5), of name] segment_ok_chars [of name] Thread
      by (simp add: parse_address_def Let_def ok_or_def)
  next
    case (System name)
    then have "dotted_ok name" using ok by simp
    then show ?thesis
      using host [OF schemes(6), of name] guards_host [OF schemes(6), of name] dotted_ok_chars [of name]
        dotted_ok_not_dots [of name] System
      by (simp add: parse_address_def Let_def ok_or_def)
  qed
qed

text \<open>The contract can be met: a splitter of \<open>scheme://host/path\<close>.\<close>

definition split_url :: "string \<Rightarrow> url option" where
  "split_url s = (case split_once_text ''://'' s of None \<Rightarrow> None | Some (scheme, rest) \<Rightarrow>
     (case split_once CHR ''/'' rest of
        None \<Rightarrow> Some (simple_url_record scheme rest [] None)
      | Some (host, path) \<Rightarrow> Some (simple_url_record scheme host (''/'' @ path)
          (Some (split_on (\<lambda>c. c = CHR ''/'') path)))))"

lemma split_once_text_scheme:
  assumes "CHR '':'' \<notin> set a"
  shows "split_once_text ''://'' (a @ ''://'' @ b) = Some (a, b)"
proof -
  let ?s = "a @ ''://'' @ b"
  have no: "take 3 (drop n ?s) \<noteq> ''://''" if "n < length a" for n
  proof
    assume "take 3 (drop n ?s) = ''://''"
    then have "take 3 (drop n ?s) ! 0 = CHR '':''"
      by simp
    then have "a ! n = CHR '':''"
      using that by (simp add: nth_append)
    then show False
      using that assms by (metis nth_mem)
  qed
  have idx: "[0..<Suc (length ?s)] = [0..<length a] @ length a # [Suc (length a)..<Suc (length ?s)]"
  proof -
    have "[0..<Suc (length ?s)] = [0..<length a] @ [length a..<Suc (length ?s)]"
    proof -
      have "Suc (length ?s) = length a + (4 + length b)"
        by simp
      then show ?thesis
        using upt_add_eq_append [of 0 "length a" "4 + length b"] by (simp only: add_0)
    qed
    moreover have "[length a..<Suc (length ?s)] = length a # [Suc (length a)..<Suc (length ?s)]"
      by (rule upt_conv_Cons) simp
    ultimately show ?thesis by simp
  qed
  have "List.find (\<lambda>n. take 3 (drop n ?s) = ''://'') (xs @ length a # ys) = Some (length a)"
    if "\<forall>n \<in> set xs. n < length a" for xs ys
    using that no by (induction xs) simp_all
  then have "List.find (\<lambda>n. take 3 (drop n ?s) = ''://'') [0..<Suc (length ?s)] = Some (length a)"
    unfolding idx by simp
  then show ?thesis
    by (simp add: split_once_text_def numeral_eq_Suc)
qed

lemma takeWhile_neq: "c \<notin> set a \<Longrightarrow> takeWhile (\<lambda>d. d \<noteq> c) a = a"
  by (simp add: takeWhile_eq_all_conv) blast

lemma find_char_append: "c \<notin> set a \<Longrightarrow> find_char c (a @ c # b) = Some (length a)"
  by (simp add: find_char_def Let_def takeWhile_append takeWhile_neq)

lemma find_char_none: "c \<notin> set a \<Longrightarrow> find_char c a = None"
  by (simp add: find_char_def takeWhile_neq)

lemma split_url_contract: "url_contract split_url"
  unfolding url_contract_def
proof (intro ballI allI impI conjI)
  fix scheme host
  assume scheme: "scheme \<in> set address_schemes" and host: "host \<noteq> [] \<and> list_all segment_char host"
  have colon: "CHR '':'' \<notin> set scheme"
    using scheme by (auto simp: address_schemes_def)
  have slash: "CHR ''/'' \<notin> set host"
    using host segment_no_slash by blast
  show "\<exists>segments. split_url (scheme @ ''://'' @ host) = Some (simple_url_record scheme host [] segments)"
    using split_once_text_scheme [OF colon, of host] find_char_none [OF slash]
    by (simp add: split_url_def split_once_def) blast
  fix seg
  assume seg: "segment_ok seg"
  have "split_on (\<lambda>c. c = CHR ''/'') seg = [seg]"
    using segment_no_slash segment_ok_chars [OF seg] by (intro split_on_none) blast
  then show "split_url (scheme @ ''://'' @ host @ ''/'' @ seg) =
      Some (simple_url_record scheme host (''/'' @ seg) (Some [seg]))"
    using split_once_text_scheme [OF colon, of "host @ ''/'' @ seg"] find_char_append [OF slash, of seg]
    by (simp add: split_url_def split_once_def)
qed

section \<open>Properties\<close>

text \<open>Every address that the parser accepts is well formed, whatever the URL parser returns: all its
  parts are path-safe segments (no separator, no white space, neither \<open>.\<close> nor \<open>..\<close>), dotted names
  have no empty part, and a role name has no dot.\<close>

theorem parse_address_safe:
  "case parse_address url_parse input of Inl e \<Rightarrow> True | Inr a \<Rightarrow> address_ok a"
  using parse_address_ok by (auto split: sum.splits)

text \<open>C23. Parsing the canonical form of a well-formed address gives the address back, for every URL
  parser that splits \<open>scheme://host[/segment]\<close> texts into their parts.\<close>

theorem parse_canonical_roundtrip:
  assumes "url_contract url_parse" "address_ok a"
  shows "parse_address url_parse (canonical a) = Inr a"
  using assms by (rule parse_canonical)

theorem parse_canonical_roundtrip_witness:
  "parse_address split_url (canonical (Agent ''codex'' ''019e3f72'')) = Inr (Agent ''codex'' ''019e3f72'')"
proof (rule parse_canonical_roundtrip)
  show "url_contract split_url"
    by (rule split_url_contract)
  show "address_ok (Agent ''codex'' ''019e3f72'')"
    by code_simp
qed

end
