(* ===== verification/Mail_Types.thy ===== *)
theory Mail_Types
  imports Mail_Address
begin

text \<open>
  The records of the mail store of \<open>crates/onecontext-agent-mail/src/lib.rs\<close> and the store itself: one
  list per JSONL ledger (a record is appended at the end), the message and body files by their path
  below the store, and the mailbox files. Field names carry a short prefix per struct.
\<close>

section \<open>Agents\<close>

datatype agent_state = AgentActive | AgentStale | AgentRetired

datatype agent_lease_state = LeaseActive | LeaseStale | LeaseRetired | LeaseUnknown

datatype push_reason = ActiveLease | StaleLease | RetiredAgent

record agent_transport =
  at_kind :: string
  at_thread_id :: string

record agent_record =
  ar_schema_version :: "32 word"
  ar_agent_id :: string
  ar_primary_address :: string
  ar_transport :: agent_transport
  ar_requested_roles :: "string list"
  ar_granted_roles :: "string list"
  ar_requested_capabilities :: "string list"
  ar_granted_capabilities :: "string list"
  ar_lease_expires_at :: string
  ar_state :: agent_state

record agent_lease_record =
  al_schema_version :: "32 word"
  al_agent_id :: string
  al_lease_expires_at :: string
  al_occurred_at :: string

record agent_status_snapshot =
  as_record :: agent_record
  as_latest_lease :: "agent_lease_record option"

record agent_push_eligibility =
  pe_agent_id :: string
  pe_eligible :: bool
  pe_reason :: push_reason
  pe_latest_lease :: "agent_lease_record option"

record agent_identify_request =
  iq_transport_kind :: string
  iq_thread_id :: string
  iq_requested_roles :: "string list"
  iq_requested_capabilities :: "string list"
  iq_lease_expires_at :: string
  iq_occurred_at :: string

record agent_grant_policy =
  gp_allowed_roles :: "string list"
  gp_allowed_capabilities :: "string list"

section \<open>Messages and deliveries\<close>

record message_page_ref =
  mp_id :: string
  mp_route :: string

record message_body_ref =
  mb_format :: string
  mb_sha256 :: string

record message_attachment_ref =
  ma_filename :: string
  ma_media_type :: string
  ma_sha256 :: string
  ma_handle :: string

record message_envelope =
  me_schema_version :: "32 word"
  me_message_id :: string
  me_idempotency_key :: string
  me_kind :: string
  me_subject :: string
  me_from :: string
  me_to :: "string list"
  me_cc :: "string list"
  me_page :: "message_page_ref option"
  me_thread_id :: string
  me_reply_to :: "string option"
  me_body :: message_body_ref
  me_attachments :: "message_attachment_ref list"
  me_created_at :: string

record delivery_record =
  dl_schema_version :: "32 word"
  dl_delivery_id :: string
  dl_message_id :: string
  dl_thread_id :: string
  dl_recipient :: string
  dl_state :: delivery_state
  dl_claimed_by :: "string option"
  dl_snoozed_until :: "string option"
  dl_created_at :: string
  dl_updated_at :: string

record inbox_row =
  ir_schema_version :: "32 word"
  ir_delivery_id :: string
  ir_message_id :: string
  ir_thread_id :: string
  ir_recipient :: string
  ir_state :: delivery_state
  ir_claimed_by :: "string option"
  ir_snoozed_until :: "string option"
  ir_updated_at :: string

record claim_event =
  ce_schema_version :: "32 word"
  ce_delivery_id :: string
  ce_message_id :: string
  ce_thread_id :: string
  ce_recipient :: string
  ce_agent_id :: string
  ce_state :: delivery_state
  ce_occurred_at :: string

record idempotency_record =
  id_schema_version :: "32 word"
  id_idempotency_key :: string
  id_message_id :: string
  id_payload_sha256 :: string
  id_created_at :: string

datatype mail_error_code =
  InvalidAddress | UnsafeMailboxKey | UnknownRoute | DuplicateIdempotencyKey | MailboxFull
  | StaleAgent | RetiredAgentCode | CorruptIndex | DeadLetterCode

record dead_letter_record =
  dr_schema_version :: "32 word"
  dr_message_id :: "string option"
  dr_recipient :: "string option"
  dr_code :: mail_error_code
  dr_message :: string
  dr_occurred_at :: string

datatype message_acceptance = Accepted | DuplicateSamePayload string

datatype delivery_attempt_status = Delivered | AlreadyDelivered | DeferredCapacity

record delivery_attempt =
  da_recipient :: string
  da_delivery_id :: string
  da_status :: delivery_attempt_status

record mail_send_receipt =
  mr_acceptance :: message_acceptance
  mr_attempts :: "delivery_attempt list"

record recipient_mail_summary =
  rs_recipient :: string
  rs_open_delivery_count :: nat
  rs_open_thread_count :: nat

record hydrated_message =
  hm_envelope :: message_envelope
  hm_body_markdown :: string

section \<open>Notifications\<close>

record notification_record =
  nt_schema_version :: "32 word"
  nt_notification_id :: string
  nt_agent_id :: string
  nt_agent_address :: string
  nt_transport :: string
  nt_transport_thread_id :: string
  nt_delivery_id :: string
  nt_message_id :: string
  nt_message_thread_id :: string
  nt_recipient :: string
  nt_state :: notification_state
  nt_created_at :: string
  nt_updated_at :: string
  nt_acknowledged_at :: "string option"
  nt_attempt_count :: "32 word"
  nt_last_attempt_at :: "string option"
  nt_next_dispatch_at :: "string option"
  nt_last_error :: "string option"

datatype notification_attempt_status = Sent | Failed | DryRun

record codex_steering_payload =
  cp_transport :: string
  cp_thread_id :: string
  cp_transport_attempt_id :: "string option"
  cp_agent_id :: string
  cp_notification_id :: string
  cp_message_id :: string
  cp_delivery_id :: string
  cp_message_thread_id :: string
  cp_mailbox :: string
  cp_kind :: string
  cp_subject :: string
  cp_page :: "message_page_ref option"
  cp_delivery_state :: delivery_state
  cp_delivery_updated_at :: string
  cp_message_created_at :: string
  cp_instruction :: string

record notification_attempt_record =
  na_schema_version :: "32 word"
  na_attempt_id :: string
  na_notification_id :: string
  na_agent_id :: string
  na_transport :: string
  na_status :: notification_attempt_status
  na_occurred_at :: string
  na_payload :: codex_steering_payload
  na_steering_text :: string
  na_error :: "string option"

record agent_thread_status_snapshot =
  ts_schema_version :: "32 word"
  ts_thread_id :: string
  ts_agent_id :: "string option"
  ts_lease_state :: agent_lease_state
  ts_agent :: "agent_record option"
  ts_latest_lease :: "agent_lease_record option"
  ts_active_delivery :: "inbox_row option"
  ts_pending_notifications :: "notification_record list"

section \<open>Opened mail and control events\<close>

record opened_message_summary =
  om_envelope :: message_envelope
  om_body_sha256 :: string
  om_body_bytes :: nat

text \<open>The items are JSON values, kept as their text.\<close>

record open_content_delivery =
  oc_schema_version :: "32 word"
  oc_transport :: string
  oc_method :: string
  oc_status :: string
  oc_thread_id :: string
  oc_items :: "string list"

record open_delivery_result =
  od_delivery :: delivery_record
  od_message :: opened_message_summary
  od_content_delivery :: open_content_delivery

datatype mail_injection_result = InjectionOk | InjectionFailed

record mail_injection_receipt =
  mi_schema_version :: "32 word"
  mi_injection_id :: string
  mi_delivery_id :: string
  mi_message_id :: string
  mi_agent_id :: string
  mi_thread_id :: string
  mi_body_sha256 :: string
  mi_item_count :: nat
  mi_app_server_method :: string
  mi_app_server_result :: mail_injection_result
  mi_created_at :: string
  mi_error :: "string option"

datatype mail_control_event_source = CodexHook | CodexAppServer | MailSupervisor

record mail_control_codex_ref =
  cc_session_id :: "string option"
  cc_thread_id :: "string option"
  cc_turn_id :: "string option"
  cc_cwd :: "string option"
  cc_model :: "string option"
  cc_permission_mode :: "string option"
  cc_item_id :: "string option"
  cc_tool_name :: "string option"
  cc_tool_use_id :: "string option"

record mail_control_agent_ref =
  ca_agent_id :: "string option"
  ca_lease_state :: "agent_lease_state option"
  ca_active_delivery_id :: "string option"

record mail_control_refs =
  cr_notification_id :: "string option"
  cr_message_id :: "string option"
  cr_delivery_id :: "string option"
  cr_claim_id :: "string option"
  cr_proposal_id :: "string option"

datatype mail_control_decision_behavior =
  Allow | Deny | BlockPrompt | ContinueTurn | InjectContext | RecordOnly | RewriteToolInput

record mail_control_decision =
  cd_behavior :: mail_control_decision_behavior
  cd_reason :: "string option"

record mail_control_event =
  cv_schema_version :: "32 word"
  cv_control_event_id :: string
  cv_created_at :: string
  cv_source :: mail_control_event_source
  cv_hook_event_name :: "string option"
  cv_codex :: mail_control_codex_ref
  cv_agent :: mail_control_agent_ref
  cv_mail_refs :: mail_control_refs
  cv_decision :: "mail_control_decision option"
  cv_input_sha256 :: "string option"
  cv_output_sha256 :: "string option"
  cv_additional_context_sha256 :: "string option"

record mail_injection_record_result =
  mj_receipt :: mail_injection_receipt
  mj_control_event :: mail_control_event

section \<open>The store\<close>

text \<open>
  A message and its body are files \<open>messages/<year>/<month>/<id>.json\<close> and
  \<open>bodies/<year>/<month>/<id>.md\<close>, kept under the triple of their path.
\<close>

record mail_store =
  st_messages :: "(string \<times> string \<times> string, message_envelope) btree_map"
  st_bodies :: "(string \<times> string \<times> string, string) btree_map"
  st_deliveries :: "delivery_record list"
  st_claims :: "claim_event list"
  st_idempotency :: "idempotency_record list"
  st_dead_letters :: "dead_letter_record list"
  st_control_events :: "mail_control_event list"
  st_injection_receipts :: "mail_injection_receipt list"
  st_outbox :: "notification_record list"
  st_attempts :: "notification_attempt_record list"
  st_agents :: "agent_record list"
  st_leases :: "agent_lease_record list"
  st_mailboxes :: "(string, inbox_row list) btree_map"

definition empty_store :: mail_store where
  "empty_store = \<lparr> st_messages = [], st_bodies = [], st_deliveries = [], st_claims = [],
     st_idempotency = [], st_dead_letters = [], st_control_events = [], st_injection_receipts = [],
     st_outbox = [], st_attempts = [], st_agents = [], st_leases = [], st_mailboxes = [] \<rparr>"

text \<open>
  What the store takes from other crates: SHA-256, \<open>Url::parse\<close>, the instant of an RFC 3339 text
  (\<open>chrono\<close>, in nanoseconds), its formatting to whole seconds, and the JSON texts that are hashed.
\<close>

record mail_env =
  env_sha :: "string \<Rightarrow> string"
  env_url :: "string \<Rightarrow> url option"
  env_time :: "string \<Rightarrow> int option"
  env_rfc3339_secs :: "int \<Rightarrow> string"
  env_envelope_json :: "message_envelope \<Rightarrow> string"
  env_receipt_json :: "mail_injection_receipt \<Rightarrow> string"

end
