(* ===== verification/Mail_Store.thy ===== *)
theory Mail_Store
  imports Mail_Types "HOL-Library.Product_Lexorder"
begin

text \<open>
  The operations of \<open>AgentMailStore\<close> (\<open>crates/onecontext-agent-mail/src/lib.rs\<close>): acceptance and sending
  of messages, the agent directory with its leases, claims and marks on deliveries, and the notification
  outbox. An operation that takes the mutation lock in the code is one step here. File-system failures
  and unreadable JSON are not modelled: every ledger reads back the records that were appended to it.
  Where a directory is searched for a message file, the files are visited in path order (the order of
  \<open>read_dir\<close> is not specified); the results used below only depend on the file's name.
\<close>

section \<open>Reading the ledgers\<close>

definition latest_deliveries :: "mail_store \<Rightarrow> (string, delivery_record) btree_map" where
  "latest_deliveries s = latest_by dl_delivery_id (st_deliveries s)"

definition latest_notifications :: "mail_store \<Rightarrow> (string, notification_record) btree_map" where
  "latest_notifications s = latest_by nt_notification_id (st_outbox s)"

definition latest_agent_records :: "mail_store \<Rightarrow> (string, agent_record) btree_map" where
  "latest_agent_records s = latest_by ar_agent_id (st_agents s)"

definition latest_agent_record :: "mail_store \<Rightarrow> string \<Rightarrow> agent_record option" where
  "latest_agent_record s agent_id = last_option (filter (\<lambda>r. ar_agent_id r = agent_id) (st_agents s))"

definition latest_agent_record_by_thread :: "mail_store \<Rightarrow> string \<Rightarrow> agent_record option" where
  "latest_agent_record_by_thread s thread_id =
     last_option (filter (\<lambda>r. at_thread_id (ar_transport r) = thread_id) (st_agents s))"

definition latest_agent_lease :: "mail_store \<Rightarrow> string \<Rightarrow> agent_lease_record option" where
  "latest_agent_lease s agent_id = last_option (filter (\<lambda>l. al_agent_id l = agent_id) (st_leases s))"

definition latest_delivery :: "mail_store \<Rightarrow> string \<Rightarrow> delivery_record option" where
  "latest_delivery s delivery_id = bt_get (latest_deliveries s) delivery_id"

section \<open>Appending to the ledgers\<close>

definition append_delivery :: "delivery_record \<Rightarrow> mail_store \<Rightarrow> mail_store" where
  "append_delivery d s = s\<lparr> st_deliveries := st_deliveries s @ [d] \<rparr>"

definition append_claim :: "claim_event \<Rightarrow> mail_store \<Rightarrow> mail_store" where
  "append_claim c s = s\<lparr> st_claims := st_claims s @ [c] \<rparr>"

definition append_dead_letter :: "dead_letter_record \<Rightarrow> mail_store \<Rightarrow> mail_store" where
  "append_dead_letter r s = s\<lparr> st_dead_letters := st_dead_letters s @ [r] \<rparr>"

definition append_notification :: "notification_record \<Rightarrow> mail_store \<Rightarrow> mail_store" where
  "append_notification n s = s\<lparr> st_outbox := st_outbox s @ [n] \<rparr>"

definition append_notification_attempt :: "notification_attempt_record \<Rightarrow> mail_store \<Rightarrow> mail_store" where
  "append_notification_attempt a s = s\<lparr> st_attempts := st_attempts s @ [a] \<rparr>"

definition append_control_event :: "mail_control_event \<Rightarrow> mail_store \<Rightarrow> mail_store" where
  "append_control_event e s = s\<lparr> st_control_events := st_control_events s @ [e] \<rparr>"

definition append_injection_receipt :: "mail_injection_receipt \<Rightarrow> mail_store \<Rightarrow> mail_store" where
  "append_injection_receipt r s = s\<lparr> st_injection_receipts := st_injection_receipts s @ [r] \<rparr>"

definition append_agent :: "agent_record \<Rightarrow> mail_store \<Rightarrow> mail_store" where
  "append_agent r s = s\<lparr> st_agents := st_agents s @ [r] \<rparr>"

definition append_lease :: "agent_lease_record \<Rightarrow> mail_store \<Rightarrow> mail_store" where
  "append_lease r s = s\<lparr> st_leases := st_leases s @ [r] \<rparr>"

section \<open>States and stable identifiers\<close>

definition is_open :: "delivery_state \<Rightarrow> bool" where
  "is_open st \<longleftrightarrow> st = Unread \<or> st = Read \<or> st = Claimed \<or> st = Snoozed"

definition is_terminal :: "delivery_state \<Rightarrow> bool" where
  "is_terminal st \<longleftrightarrow> st = Done \<or> st = Archived \<or> st = Rejected \<or> st = DeadLetter"

definition is_mark_state :: "delivery_state \<Rightarrow> bool" where
  "is_mark_state st \<longleftrightarrow> st = Read \<or> st = Done \<or> st = Archived \<or> st = Rejected"

definition parse_time :: "mail_env \<Rightarrow> string \<Rightarrow> string \<Rightarrow> mail_error + int" where
  "parse_time env value label = ok_or (env_time env value) (TimestampUnparsable label value)"

definition digest16 :: "mail_env \<Rightarrow> string \<Rightarrow> string" where
  "digest16 env text = take 16 (hex_lower (env_sha env text))"

definition stable_agent_id :: "mail_env \<Rightarrow> string \<Rightarrow> string \<Rightarrow> string" where
  "stable_agent_id env transport_kind thread_id =
     ''agent_'' @ transport_kind @ ''_'' @ digest16 env (transport_kind @ '':'' @ thread_id)"

definition stable_delivery_id :: "mail_env \<Rightarrow> string \<Rightarrow> string \<Rightarrow> string" where
  "stable_delivery_id env message_id recipient =
     ''delivery_'' @ digest16 env (message_id @ '':'' @ recipient)"

definition stable_notification_id :: "mail_env \<Rightarrow> string \<Rightarrow> string \<Rightarrow> string" where
  "stable_notification_id env delivery_id agent_id =
     ''notif_'' @ digest16 env (delivery_id @ '':'' @ agent_id)"

fun attempt_status_text :: "notification_attempt_status \<Rightarrow> string" where
  "attempt_status_text Sent = ''Sent''"
| "attempt_status_text Failed = ''Failed''"
| "attempt_status_text DryRun = ''DryRun''"

definition stable_notification_attempt_id ::
    "mail_env \<Rightarrow> string \<Rightarrow> string \<Rightarrow> notification_attempt_status \<Rightarrow> string" where
  "stable_notification_attempt_id env notification_id occurred_at status =
     ''notif_attempt_'' @
     digest16 env (notification_id @ '':'' @ occurred_at @ '':'' @ attempt_status_text status)"

definition stable_injection_id :: "mail_env \<Rightarrow> string \<Rightarrow> string \<Rightarrow> string \<Rightarrow> string \<Rightarrow> string" where
  "stable_injection_id env delivery_id agent_id thread_id occurred_at =
     ''mail_injection_'' @
     digest16 env (delivery_id @ '':'' @ agent_id @ '':'' @ thread_id @ '':'' @ occurred_at)"

definition stable_control_event_id :: "mail_env \<Rightarrow> string \<Rightarrow> string \<Rightarrow> string \<Rightarrow> string" where
  "stable_control_event_id env kind subject_id occurred_at =
     ''mail_control_'' @ digest16 env (kind @ '':'' @ subject_id @ '':'' @ occurred_at)"

definition inbox_row_of :: "delivery_record \<Rightarrow> inbox_row" where
  "inbox_row_of d = \<lparr> ir_schema_version = 1, ir_delivery_id = dl_delivery_id d,
     ir_message_id = dl_message_id d, ir_thread_id = dl_thread_id d, ir_recipient = dl_recipient d,
     ir_state = dl_state d, ir_claimed_by = dl_claimed_by d, ir_snoozed_until = dl_snoozed_until d,
     ir_updated_at = dl_updated_at d \<rparr>"

definition is_due_at :: "mail_env \<Rightarrow> int \<Rightarrow> inbox_row \<Rightarrow> mail_error + bool" where
  "is_due_at env now row =
     (if ir_state row \<noteq> Snoozed then Inr True
      else (case ir_snoozed_until row of None \<Rightarrow> Inr True
        | Some until \<Rightarrow> try_then (parse_time env until ''snooze due'') (\<lambda>t. Inr (t \<le> now))))"

definition delivery_visible_to_agent :: "agent_record \<Rightarrow> delivery_record \<Rightarrow> bool" where
  "delivery_visible_to_agent agent d \<longleftrightarrow>
     dl_recipient d = ar_primary_address agent \<or> list_ex (\<lambda>role. role = dl_recipient d) (ar_granted_roles agent)"

definition delivery_actionable_for_agent :: "agent_record \<Rightarrow> delivery_record \<Rightarrow> bool" where
  "delivery_actionable_for_agent agent d \<longleftrightarrow> delivery_visible_to_agent agent d \<and>
     (case dl_claimed_by d of None \<Rightarrow> True | Some claimed_by \<Rightarrow> claimed_by = ar_agent_id agent)"

section \<open>Messages\<close>

definition message_path :: "string \<Rightarrow> string \<Rightarrow> mail_error + (string \<times> string \<times> string)" where
  "message_path message_id created_at =
     try_then (validate_segment message_id ''message id'') (\<lambda>_.
     try_then (year_month created_at) (\<lambda>(year, month). Inr (year, month, message_id)))"

definition write_message :: "message_envelope \<Rightarrow> string \<Rightarrow> mail_store \<Rightarrow> (mail_error + unit) \<times> mail_store" where
  "write_message envelope body s =
     st_try (message_path (me_message_id envelope) (me_created_at envelope)) s (\<lambda>path.
       (Inr (), s\<lparr> st_messages := bt_insert path envelope (st_messages s),
                  st_bodies := bt_insert path body (st_bodies s) \<rparr>))"

definition message_payload_sha256 :: "mail_env \<Rightarrow> message_envelope \<Rightarrow> string \<Rightarrow> string" where
  "message_payload_sha256 env envelope body =
     hex_lower (env_sha env
       (env_envelope_json env (envelope\<lparr> me_message_id := [], me_created_at := [] \<rparr>) @
        [char_of (10 :: nat)] @ body))"

definition accept_message_unlocked :: "mail_env \<Rightarrow> message_envelope \<Rightarrow> string \<Rightarrow> mail_store \<Rightarrow>
    (mail_error + message_acceptance) \<times> mail_store" where
  "accept_message_unlocked env envelope body s = (
     let payload_sha256 = message_payload_sha256 env envelope body in
     case List.find (\<lambda>r. id_idempotency_key r = me_idempotency_key envelope) (st_idempotency s) of
       Some r \<Rightarrow>
         (if id_payload_sha256 r = payload_sha256 then (Inr (DuplicateSamePayload (id_message_id r)), s)
          else (Inl (DuplicateIdempotencyKeyPayload (me_idempotency_key envelope)), s))
     | None \<Rightarrow> st_then (write_message envelope body s) (\<lambda>_ s1.
         (Inr Accepted, s1\<lparr> st_idempotency := st_idempotency s1 @
            [\<lparr> id_schema_version = 1, id_idempotency_key = me_idempotency_key envelope,
               id_message_id = me_message_id envelope, id_payload_sha256 = payload_sha256,
               id_created_at = me_created_at envelope \<rparr>] \<rparr>)))"

definition accept_message :: "mail_env \<Rightarrow> message_envelope \<Rightarrow> string \<Rightarrow> mail_store \<Rightarrow>
    (mail_error + message_acceptance) \<times> mail_store" where
  "accept_message env envelope body s = accept_message_unlocked env envelope body s"

text \<open>The message file named \<open><id>.json\<close> below \<open>messages\<close>, whatever its directory.\<close>

definition find_message :: "mail_store \<Rightarrow> string \<Rightarrow> ((string \<times> string \<times> string) \<times> message_envelope) option" where
  "find_message s message_id = List.find (\<lambda>((year, month, i), e). i = message_id) (st_messages s)"

definition read_message_envelope_if_present ::
    "string \<Rightarrow> mail_store \<Rightarrow> mail_error + message_envelope option" where
  "read_message_envelope_if_present message_id s =
     try_then (validate_segment message_id ''message id'') (\<lambda>_.
       Inr (map_option snd (find_message s message_id)))"

definition read_message_envelope :: "string \<Rightarrow> mail_store \<Rightarrow> mail_error + message_envelope" where
  "read_message_envelope message_id s =
     try_then (read_message_envelope_if_present message_id s) (\<lambda>found.
       ok_or found (UnknownMessage message_id))"

definition read_body :: "message_envelope \<Rightarrow> mail_store \<Rightarrow> mail_error + hydrated_message" where
  "read_body envelope s =
     try_then (message_path (me_message_id envelope) (me_created_at envelope)) (\<lambda>path.
     try_then (ok_or (bt_get (st_bodies s) path) (UnreadableBody (me_message_id envelope))) (\<lambda>body.
       Inr \<lparr> hm_envelope = envelope, hm_body_markdown = body \<rparr>))"

definition read_message :: "string \<Rightarrow> mail_store \<Rightarrow> mail_error + hydrated_message" where
  "read_message message_id s =
     try_then (read_message_envelope_if_present message_id s) (\<lambda>found.
     try_then (ok_or found (UnknownMessage message_id)) (\<lambda>envelope. read_body envelope s))"

definition read_thread_message :: "mail_store \<Rightarrow> string \<Rightarrow> mail_error + hydrated_message option" where
  "read_thread_message s message_id =
     try_then (validate_segment message_id ''message id'') (\<lambda>_.
     try_then (read_message_envelope_if_present message_id s) (\<lambda>found. (case found of
        None \<Rightarrow> Inr None
      | Some envelope \<Rightarrow> try_then (read_body envelope s) (\<lambda>m. Inr (Some m)))))"

definition read_thread :: "string \<Rightarrow> mail_store \<Rightarrow> mail_error + hydrated_message list" where
  "read_thread thread_id s =
     try_then (validate_thread_lookup_id thread_id) (\<lambda>_.
     let message_ids = bset (map dl_message_id
           (filter (\<lambda>d. dl_thread_id d = thread_id) (bt_values (latest_deliveries s))))
     in try_then (try_map (read_thread_message s) message_ids) (\<lambda>found.
          Inr (sort_key (\<lambda>m. (me_created_at (hm_envelope m), me_message_id (hm_envelope m)))
            (List.map_filter (\<lambda>m. m) found))))"

definition normalized_recipients :: "mail_env \<Rightarrow> message_envelope \<Rightarrow> mail_error + string list" where
  "normalized_recipients env envelope =
     try_then (try_map (\<lambda>v. try_then (parse_address (env_url env) v) (\<lambda>a. Inr (canonical a)))
       (me_to envelope @ me_cc envelope)) (\<lambda>recipients. Inr (bset recipients))"

section \<open>Notification outbox\<close>

definition notification_targets_for_delivery :: "delivery_record \<Rightarrow> mail_store \<Rightarrow> agent_record list" where
  "notification_targets_for_delivery d s =
     (if \<not> is_open (dl_state d) then []
      else filter (\<lambda>agent. ar_state agent \<noteq> AgentRetired \<and> delivery_actionable_for_agent agent d)
        (bt_values (latest_agent_records s)))"

definition new_notification :: "mail_env \<Rightarrow> agent_record \<Rightarrow> delivery_record \<Rightarrow> string \<Rightarrow> notification_record" where
  "new_notification env agent d created_at =
     \<lparr> nt_schema_version = 1,
       nt_notification_id = stable_notification_id env (dl_delivery_id d) (ar_agent_id agent),
       nt_agent_id = ar_agent_id agent, nt_agent_address = ar_primary_address agent,
       nt_transport = at_kind (ar_transport agent), nt_transport_thread_id = at_thread_id (ar_transport agent),
       nt_delivery_id = dl_delivery_id d, nt_message_id = dl_message_id d,
       nt_message_thread_id = dl_thread_id d, nt_recipient = dl_recipient d, nt_state = Pending,
       nt_created_at = created_at, nt_updated_at = created_at, nt_acknowledged_at = None,
       nt_attempt_count = 0, nt_last_attempt_at = None, nt_next_dispatch_at = None, nt_last_error = None \<rparr>"

definition ensure_delivery_step :: "mail_env \<Rightarrow> delivery_record \<Rightarrow> agent_record \<Rightarrow>
    (string, notification_record) btree_map \<times> mail_store \<Rightarrow>
    (string, notification_record) btree_map \<times> mail_store" where
  "ensure_delivery_step env d agent st = (case st of (known, s) \<Rightarrow>
     let n = new_notification env agent d (dl_created_at d) in
     if bt_contains known (nt_notification_id n) then (known, s)
     else (bt_insert (nt_notification_id n) n known, append_notification n s))"

definition ensure_delivery_notifications :: "mail_env \<Rightarrow> delivery_record \<Rightarrow> mail_store \<Rightarrow> mail_store" where
  "ensure_delivery_notifications env d s =
     snd (fold (ensure_delivery_step env d) (notification_targets_for_delivery d s)
       (latest_notifications s, s))"

definition ensure_agent_step :: "mail_env \<Rightarrow> agent_record \<Rightarrow> string \<Rightarrow>
    (string, notification_record) btree_map \<Rightarrow> delivery_record \<Rightarrow> mail_store \<Rightarrow> mail_store" where
  "ensure_agent_step env agent occurred_at known d s =
     (if \<not> is_open (dl_state d) \<or> \<not> delivery_actionable_for_agent agent d then s
      else let n = new_notification env agent d occurred_at in
        if bt_contains known (nt_notification_id n) then s else append_notification n s)"

definition ensure_agent_notifications :: "mail_env \<Rightarrow> agent_record \<Rightarrow> string \<Rightarrow> mail_store \<Rightarrow> mail_store" where
  "ensure_agent_notifications env agent occurred_at s =
     fold (ensure_agent_step env agent occurred_at (latest_notifications s))
       (bt_values (latest_deliveries s)) s"

definition suppress_step :: "string \<Rightarrow> string \<Rightarrow> string \<Rightarrow> notification_record \<Rightarrow> mail_store \<Rightarrow> mail_store" where
  "suppress_step delivery_id winning_agent_id occurred_at n s =
     (if nt_delivery_id n \<noteq> delivery_id \<or> nt_agent_id n = winning_agent_id \<or> nt_state n \<noteq> Pending then s
      else append_notification (n\<lparr> nt_state := Suppressed, nt_updated_at := occurred_at \<rparr>) s)"

definition suppress_competing_notifications ::
    "string \<Rightarrow> string \<Rightarrow> string \<Rightarrow> mail_store \<Rightarrow> mail_store" where
  "suppress_competing_notifications delivery_id winning_agent_id occurred_at s =
     fold (suppress_step delivery_id winning_agent_id occurred_at) (bt_values (latest_notifications s)) s"

section \<open>Sending\<close>

text \<open>\<open>SendMailOptions\<close> has one field, the limit of open deliveries per recipient.\<close>

definition open_delivery_count :: "(string, delivery_record) btree_map \<Rightarrow> string \<Rightarrow> nat" where
  "open_delivery_count latest recipient =
     length (filter (\<lambda>d. dl_recipient d = recipient \<and> is_open (dl_state d)) (bt_values latest))"

definition new_delivery :: "mail_env \<Rightarrow> message_envelope \<Rightarrow> string \<Rightarrow> delivery_record" where
  "new_delivery env envelope recipient =
     \<lparr> dl_schema_version = 1, dl_delivery_id = stable_delivery_id env (me_message_id envelope) recipient,
       dl_message_id = me_message_id envelope, dl_thread_id = me_thread_id envelope,
       dl_recipient = recipient, dl_state = Unread, dl_claimed_by = None, dl_snoozed_until = None,
       dl_created_at = me_created_at envelope, dl_updated_at = me_created_at envelope \<rparr>"

definition mailbox_full_letter :: "message_envelope \<Rightarrow> string \<Rightarrow> nat \<Rightarrow> dead_letter_record" where
  "mailbox_full_letter envelope recipient limit =
     \<lparr> dr_schema_version = 1, dr_message_id = Some (me_message_id envelope),
       dr_recipient = Some recipient, dr_code = MailboxFull,
       dr_message = ''recipient '' @ recipient @ '' reached open delivery limit '' @ decimal limit,
       dr_occurred_at = me_created_at envelope \<rparr>"

definition send_step :: "mail_env \<Rightarrow> message_envelope \<Rightarrow> nat option \<Rightarrow> string \<Rightarrow>
    (string, delivery_record) btree_map \<times> delivery_attempt list \<times> mail_store \<Rightarrow>
    (string, delivery_record) btree_map \<times> delivery_attempt list \<times> mail_store" where
  "send_step env envelope max_open recipient st = (case st of (latest, attempts, s) \<Rightarrow>
     let delivery_id = stable_delivery_id env (me_message_id envelope) recipient;
         attempt = (\<lambda>status. \<lparr> da_recipient = recipient, da_delivery_id = delivery_id, da_status = status \<rparr>)
     in case bt_get latest delivery_id of
       Some d \<Rightarrow> (latest, attempts @ [attempt AlreadyDelivered], ensure_delivery_notifications env d s)
     | None \<Rightarrow>
         if (case max_open of None \<Rightarrow> False | Some limit \<Rightarrow> open_delivery_count latest recipient \<ge> limit)
         then (latest, attempts @ [attempt DeferredCapacity],
               append_dead_letter (mailbox_full_letter envelope recipient (the max_open)) s)
         else let d = new_delivery env envelope recipient in
              (bt_insert (dl_delivery_id d) d latest, attempts @ [attempt Delivered],
               ensure_delivery_notifications env d (append_delivery d s)))"

definition send_mail :: "mail_env \<Rightarrow> message_envelope \<Rightarrow> string \<Rightarrow> nat option \<Rightarrow> mail_store \<Rightarrow>
    (mail_error + mail_send_receipt) \<times> mail_store" where
  "send_mail env envelope body max_open s =
     st_try (parse_address (env_url env) (me_from envelope)) s (\<lambda>_.
     st_try (normalized_recipients env envelope) s (\<lambda>recipients.
     st_then (accept_message_unlocked env envelope body s) (\<lambda>acceptance s1.
     let chosen = (case acceptance of
           DuplicateSamePayload message_id \<Rightarrow>
             if message_id \<noteq> me_message_id envelope then read_message_envelope message_id s1
             else Inr envelope
         | Accepted \<Rightarrow> Inr envelope)
     in st_try chosen s1 (\<lambda>envelope'.
        case fold (send_step env envelope' max_open) recipients (latest_deliveries s1, [], s1) of
          (latest, attempts, s2) \<Rightarrow> (Inr \<lparr> mr_acceptance = acceptance, mr_attempts = attempts \<rparr>, s2)))))"

section \<open>The agent directory\<close>

definition allow_exact :: "mail_env \<Rightarrow> string list \<Rightarrow> string list \<Rightarrow> agent_grant_policy" where
  "allow_exact env roles capabilities =
     \<lparr> gp_allowed_roles = bset (map (\<lambda>role. case parse_address (env_url env) role of
           Inr a \<Rightarrow> canonical a | Inl _ \<Rightarrow> role) roles),
       gp_allowed_capabilities = bset capabilities \<rparr>"

definition grant_roles :: "agent_grant_policy \<Rightarrow> string list \<Rightarrow> string list" where
  "grant_roles policy requested = filter (\<lambda>role. role \<in> set (gp_allowed_roles policy)) requested"

definition grant_capabilities :: "agent_grant_policy \<Rightarrow> string list \<Rightarrow> string list" where
  "grant_capabilities policy requested = filter (\<lambda>c. c \<in> set (gp_allowed_capabilities policy)) requested"

definition route_grant :: "mail_env \<Rightarrow> string \<Rightarrow> mail_error + string" where
  "route_grant env role = try_then (parse_address (env_url env) role) (\<lambda>a. (case a of
     Role _ _ \<Rightarrow> Inr (canonical a) | MailList _ \<Rightarrow> Inr (canonical a) | PageMailbox _ \<Rightarrow> Inr (canonical a)
   | _ \<Rightarrow> Inl (RouteGrantKind role)))"

definition active_record :: "mail_env \<Rightarrow> agent_identify_request \<Rightarrow> agent_grant_policy \<Rightarrow> string list \<Rightarrow>
    agent_record" where
  "active_record env request policy grants = (
     let agent_id = stable_agent_id env (iq_transport_kind request) (iq_thread_id request) in
     \<lparr> ar_schema_version = 1, ar_agent_id = agent_id,
       ar_primary_address = ''agent://'' @ iq_transport_kind request @ ''/'' @ agent_id,
       ar_transport = \<lparr> at_kind = iq_transport_kind request, at_thread_id = iq_thread_id request \<rparr>,
       ar_requested_roles = iq_requested_roles request, ar_granted_roles = grant_roles policy grants,
       ar_requested_capabilities = iq_requested_capabilities request,
       ar_granted_capabilities = grant_capabilities policy (iq_requested_capabilities request),
       ar_lease_expires_at = iq_lease_expires_at request, ar_state = AgentActive \<rparr>)"

definition new_lease :: "string \<Rightarrow> string \<Rightarrow> string \<Rightarrow> agent_lease_record" where
  "new_lease agent_id expires occurred_at = \<lparr> al_schema_version = 1, al_agent_id = agent_id,
     al_lease_expires_at = expires, al_occurred_at = occurred_at \<rparr>"

text \<open>
  \<open>identify_agent\<close> takes no lock: it reads the directory, and later appends to it. The two halves are
  separate definitions; run one after the other on the same store they are the operation.
\<close>

definition identify_check :: "mail_env \<Rightarrow> agent_identify_request \<Rightarrow> agent_grant_policy \<Rightarrow> mail_store \<Rightarrow>
    mail_error + agent_record" where
  "identify_check env request policy s =
     try_then (validate_segment (iq_transport_kind request) ''transport kind'') (\<lambda>_.
     try_then (validate_segment (iq_thread_id request) ''thread id'') (\<lambda>_.
     try_then (try_map (route_grant env) (iq_requested_roles request)) (\<lambda>grants.
     try_then (try_map (\<lambda>c. validate_dotted_name c ''capability'') (iq_requested_capabilities request)) (\<lambda>_.
     let agent_id = stable_agent_id env (iq_transport_kind request) (iq_thread_id request) in
     if (case latest_agent_record s agent_id of None \<Rightarrow> False | Some r \<Rightarrow> ar_state r = AgentRetired)
     then Inl (RetiredCannotRevive agent_id)
     else Inr (active_record env request policy grants)))))"

definition identify_commit :: "agent_identify_request \<Rightarrow> agent_record \<Rightarrow> mail_store \<Rightarrow> mail_store" where
  "identify_commit request r s =
     append_lease (new_lease (ar_agent_id r) (iq_lease_expires_at request) (iq_occurred_at request))
       (append_agent r s)"

definition identify_agent :: "mail_env \<Rightarrow> agent_identify_request \<Rightarrow> agent_grant_policy \<Rightarrow> mail_store \<Rightarrow>
    (mail_error + agent_record) \<times> mail_store" where
  "identify_agent env request policy s =
     st_try (identify_check env request policy s) s (\<lambda>r. (Inr r, identify_commit request r s))"

definition heartbeat_agent :: "string \<Rightarrow> string \<Rightarrow> string \<Rightarrow> mail_store \<Rightarrow>
    (mail_error + agent_lease_record) \<times> mail_store" where
  "heartbeat_agent agent_id lease_expires_at occurred_at s =
     st_try (validate_segment agent_id ''agent id'') s (\<lambda>_.
     st_try (ok_or (latest_agent_record s agent_id) (UnknownAgent agent_id)) s (\<lambda>r.
     if ar_state r = AgentRetired then (Inl (RetiredCannotHeartbeat agent_id), s)
     else let s1 = (if ar_state r = AgentStale
                    then append_agent (r\<lparr> ar_state := AgentActive, ar_lease_expires_at := lease_expires_at \<rparr>) s
                    else s);
              lease = new_lease agent_id lease_expires_at occurred_at
          in (Inr lease, append_lease lease s1)))"

definition retire_agent :: "string \<Rightarrow> string \<Rightarrow> string \<Rightarrow> mail_store \<Rightarrow>
    (mail_error + agent_record) \<times> mail_store" where
  "retire_agent agent_id lease_expires_at occurred_at s =
     st_try (validate_segment agent_id ''agent id'') s (\<lambda>_.
     st_try (ok_or (latest_agent_record s agent_id) (UnknownAgent agent_id)) s (\<lambda>r.
     let retired = r\<lparr> ar_state := AgentRetired, ar_lease_expires_at := lease_expires_at \<rparr>
     in (Inr retired, append_lease (new_lease agent_id lease_expires_at occurred_at) (append_agent retired s))))"

definition agent_status :: "string \<Rightarrow> mail_store \<Rightarrow> mail_error + agent_status_snapshot" where
  "agent_status agent_id s =
     try_then (validate_segment agent_id ''agent id'') (\<lambda>_.
     try_then (ok_or (latest_agent_record s agent_id) (UnknownAgent agent_id)) (\<lambda>r.
       Inr \<lparr> as_record = r, as_latest_lease = latest_agent_lease s agent_id \<rparr>))"

definition agent_push_eligibility :: "mail_env \<Rightarrow> string \<Rightarrow> string \<Rightarrow> mail_store \<Rightarrow>
    mail_error + agent_push_eligibility" where
  "agent_push_eligibility env agent_id now s =
     try_then (agent_status agent_id s) (\<lambda>status.
     let verdict = (\<lambda>eligible reason. \<lparr> pe_agent_id = agent_id, pe_eligible = eligible, pe_reason = reason,
           pe_latest_lease = as_latest_lease status \<rparr>)
     in if ar_state (as_record status) = AgentRetired then Inr (verdict False RetiredAgent)
        else if ar_state (as_record status) = AgentStale then Inr (verdict False StaleLease)
        else try_then (parse_time env now ''now'') (\<lambda>now_utc.
             try_then (case as_latest_lease status of None \<Rightarrow> Inr False
               | Some lease \<Rightarrow> try_then (parse_time env (al_lease_expires_at lease) ''lease expiration'')
                   (\<lambda>expires. Inr (expires > now_utc))) (\<lambda>eligible.
             Inr (verdict eligible (if eligible then ActiveLease else StaleLease)))))"

definition lease_state_for_record :: "mail_env \<Rightarrow> agent_record \<Rightarrow> agent_lease_record option \<Rightarrow> string \<Rightarrow>
    mail_error + agent_lease_state" where
  "lease_state_for_record env agent latest_lease now =
     (if ar_state agent = AgentRetired then Inr LeaseRetired
      else if ar_state agent = AgentStale then Inr LeaseStale
      else try_then (parse_time env now ''now'') (\<lambda>now_utc. (case latest_lease of
          None \<Rightarrow> Inr LeaseStale
        | Some lease \<Rightarrow> try_then (parse_time env (al_lease_expires_at lease) ''lease expiration'') (\<lambda>expires.
            Inr (if expires > now_utc then LeaseActive else LeaseStale)))))"

definition require_active_agent :: "string \<Rightarrow> mail_store \<Rightarrow> mail_error + agent_record" where
  "require_active_agent agent_id s =
     try_then (ok_or (latest_agent_record s agent_id) (UnknownAgent agent_id)) (\<lambda>r.
       if ar_state r \<noteq> AgentActive then Inl (AgentNotActive agent_id) else Inr r)"

definition require_non_retired_agent :: "string \<Rightarrow> mail_store \<Rightarrow> mail_error + agent_record" where
  "require_non_retired_agent agent_id s =
     try_then (ok_or (latest_agent_record s agent_id) (UnknownAgent agent_id)) (\<lambda>r.
       if ar_state r = AgentRetired then Inl (AgentIsRetired agent_id) else Inr r)"

definition require_live_agent :: "mail_env \<Rightarrow> string \<Rightarrow> string \<Rightarrow> mail_store \<Rightarrow> mail_error + agent_record" where
  "require_live_agent env agent_id now s =
     try_then (require_active_agent agent_id s) (\<lambda>r.
     try_then (agent_push_eligibility env agent_id now s) (\<lambda>eligibility.
       if pe_eligible eligibility then Inr r
       else (case pe_reason eligibility of
          StaleLease \<Rightarrow> Inl (StaleLeaseExpired agent_id (case pe_latest_lease eligibility of
            Some lease \<Rightarrow> al_lease_expires_at lease | None \<Rightarrow> ''unknown''))
        | RetiredAgent \<Rightarrow> Inl (AgentIsRetired agent_id)
        | ActiveLease \<Rightarrow> Inr r)))"

definition require_delivery_access :: "agent_record \<Rightarrow> delivery_record \<Rightarrow> mail_error + unit" where
  "require_delivery_access agent d =
     (if delivery_visible_to_agent agent d then Inr ()
      else Inl (DeliveryAccessDenied (ar_agent_id agent) (dl_delivery_id d) (dl_recipient d)))"

section \<open>Claims and marks\<close>

definition transition_delivery_with_snooze :: "delivery_record \<Rightarrow> string option \<Rightarrow> string \<Rightarrow>
    delivery_state \<Rightarrow> string option \<Rightarrow> string \<Rightarrow> mail_store \<Rightarrow> (mail_error + delivery_record) \<times> mail_store" where
  "transition_delivery_with_snooze d claimed_by actor state snoozed_until occurred_at s = (
     let updated = d\<lparr> dl_state := state, dl_claimed_by := claimed_by, dl_snoozed_until := snoozed_until,
           dl_updated_at := occurred_at \<rparr>;
         s1 = append_delivery updated s;
         s2 = append_claim \<lparr> ce_schema_version = 1, ce_delivery_id = dl_delivery_id updated,
           ce_message_id = dl_message_id updated, ce_thread_id = dl_thread_id updated,
           ce_recipient = dl_recipient updated, ce_agent_id = actor, ce_state = state,
           ce_occurred_at = occurred_at \<rparr> s1;
         s3 = (if dl_claimed_by updated = Some actor
               then suppress_competing_notifications (dl_delivery_id updated) actor occurred_at s2 else s2)
     in (Inr updated, s3))"

definition transition_delivery :: "delivery_record \<Rightarrow> string option \<Rightarrow> string \<Rightarrow> delivery_state \<Rightarrow> string \<Rightarrow>
    mail_store \<Rightarrow> (mail_error + delivery_record) \<times> mail_store" where
  "transition_delivery d claimed_by actor state occurred_at s =
     transition_delivery_with_snooze d claimed_by actor state None occurred_at s"

definition claimed_by_other :: "delivery_record \<Rightarrow> string \<Rightarrow> string option" where
  "claimed_by_other d agent_id = (case dl_claimed_by d of None \<Rightarrow> None
     | Some claimed_by \<Rightarrow> if claimed_by \<noteq> agent_id then Some claimed_by else None)"

definition claim_delivery :: "mail_env \<Rightarrow> string \<Rightarrow> string \<Rightarrow> string \<Rightarrow> mail_store \<Rightarrow>
    (mail_error + delivery_record) \<times> mail_store" where
  "claim_delivery env delivery_id agent_id occurred_at s =
     st_try (validate_segment delivery_id ''delivery id'') s (\<lambda>_.
     st_try (validate_segment agent_id ''agent id'') s (\<lambda>_.
     st_try (require_live_agent env agent_id occurred_at s) s (\<lambda>agent.
     st_try (ok_or (latest_delivery s delivery_id) (UnknownDelivery delivery_id)) s (\<lambda>d.
     st_try (require_delivery_access agent d) s (\<lambda>_.
     if is_terminal (dl_state d) then (Inl (DeliveryTerminal delivery_id), s)
     else if dl_state d = Claimed \<and> dl_claimed_by d = Some agent_id then (Inr d, s)
     else (case claimed_by_other d agent_id of
         Some other \<Rightarrow> (Inl (DeliveryAlreadyClaimed delivery_id other), s)
       | None \<Rightarrow> transition_delivery d (Some agent_id) agent_id Claimed occurred_at s))))))"

definition mark_delivery :: "mail_env \<Rightarrow> string \<Rightarrow> string \<Rightarrow> delivery_state \<Rightarrow> string \<Rightarrow> mail_store \<Rightarrow>
    (mail_error + delivery_record) \<times> mail_store" where
  "mark_delivery env delivery_id agent_id state occurred_at s =
     st_try (validate_segment delivery_id ''delivery id'') s (\<lambda>_.
     st_try (validate_segment agent_id ''agent id'') s (\<lambda>_.
     st_try (require_live_agent env agent_id occurred_at s) s (\<lambda>agent.
     if \<not> is_mark_state state then (Inl (UnsupportedMarkState state), s)
     else st_try (ok_or (latest_delivery s delivery_id) (UnknownDelivery delivery_id)) s (\<lambda>d.
     st_try (require_delivery_access agent d) s (\<lambda>_.
     if is_terminal (dl_state d) then
       (if dl_state d = state \<and> dl_claimed_by d = Some agent_id then (Inr d, s)
        else (Inl (DeliveryTerminal delivery_id), s))
     else (case claimed_by_other d agent_id of
         Some other \<Rightarrow> (Inl (DeliveryAlreadyClaimed delivery_id other), s)
       | None \<Rightarrow>
           if dl_claimed_by d = None \<and> is_terminal state
           then (Inl (MustClaimBeforeMark delivery_id agent_id state), s)
           else transition_delivery d (if state = Read then dl_claimed_by d else Some agent_id)
                  agent_id state occurred_at s))))))"

definition snooze_delivery :: "mail_env \<Rightarrow> string \<Rightarrow> string \<Rightarrow> string \<Rightarrow> string \<Rightarrow> mail_store \<Rightarrow>
    (mail_error + delivery_record) \<times> mail_store" where
  "snooze_delivery env delivery_id agent_id snoozed_until occurred_at s =
     st_try (parse_time env snoozed_until ''snooze due'') s (\<lambda>_.
     st_try (validate_segment delivery_id ''delivery id'') s (\<lambda>_.
     st_try (validate_segment agent_id ''agent id'') s (\<lambda>_.
     st_try (require_live_agent env agent_id occurred_at s) s (\<lambda>agent.
     st_try (ok_or (latest_delivery s delivery_id) (UnknownDelivery delivery_id)) s (\<lambda>d.
     st_try (require_delivery_access agent d) s (\<lambda>_.
     if is_terminal (dl_state d) then (Inl (DeliveryTerminal delivery_id), s)
     else (case claimed_by_other d agent_id of
         Some other \<Rightarrow> (Inl (DeliveryAlreadyClaimed delivery_id other), s)
       | None \<Rightarrow> transition_delivery_with_snooze d (Some agent_id) agent_id Snoozed (Some snoozed_until)
                  occurred_at s)))))))"

section \<open>Inboxes\<close>

definition rebuild_mailbox :: "mail_env \<Rightarrow> mail_address \<Rightarrow> mail_store \<Rightarrow> inbox_row list \<times> mail_store" where
  "rebuild_mailbox env recipient s = (
     let rows = map inbox_row_of
           (filter (\<lambda>d. dl_recipient d = canonical recipient) (bt_values (latest_deliveries s)))
     in (rows, s\<lparr> st_mailboxes := bt_insert (mailbox_key (env_sha env) recipient) rows (st_mailboxes s) \<rparr>))"

definition mail_inbox :: "mail_env \<Rightarrow> mail_address \<Rightarrow> mail_store \<Rightarrow> inbox_row list \<times> mail_store" where
  "mail_inbox env recipient s = rebuild_mailbox env recipient s"

definition recipient_summary :: "mail_address \<Rightarrow> mail_store \<Rightarrow> recipient_mail_summary" where
  "recipient_summary recipient s = (
     let matching = filter (\<lambda>d. dl_recipient d = canonical recipient \<and> is_open (dl_state d))
           (bt_values (latest_deliveries s))
     in \<lparr> rs_recipient = canonical recipient, rs_open_delivery_count = length matching,
          rs_open_thread_count = length (bset (map dl_thread_id matching)) \<rparr>)"

fun try_filter :: "('a \<Rightarrow> 'e + bool) \<Rightarrow> 'a list \<Rightarrow> 'e + 'a list" where
  "try_filter f [] = Inr []"
| "try_filter f (x # xs) = try_then (f x) (\<lambda>keep. try_then (try_filter f xs) (\<lambda>ys.
     Inr (if keep then x # ys else ys)))"

definition mail_inbox_due :: "mail_env \<Rightarrow> mail_address \<Rightarrow> string \<Rightarrow> mail_store \<Rightarrow>
    (mail_error + inbox_row list) \<times> mail_store" where
  "mail_inbox_due env recipient now s =
     st_try (parse_time env now ''now'') s (\<lambda>now_utc.
     case rebuild_mailbox env recipient s of (rows, s1) \<Rightarrow>
       (try_filter (is_due_at env now_utc) (filter (\<lambda>row. is_open (ir_state row)) rows), s1))"

definition agent_inbox_step :: "mail_env \<Rightarrow> string \<Rightarrow> mail_address \<Rightarrow>
    (string, inbox_row) btree_map \<times> mail_store \<Rightarrow> (string, inbox_row) btree_map \<times> mail_store" where
  "agent_inbox_step env agent_id address st = (case st of (by_delivery, s) \<Rightarrow>
     (case rebuild_mailbox env address s of (rows, s1) \<Rightarrow>
       (fold (\<lambda>row m. if (case ir_claimed_by row of None \<Rightarrow> False | Some c \<Rightarrow> c \<noteq> agent_id) then m
               else bt_insert (ir_delivery_id row) row m) rows by_delivery, s1)))"

definition agent_inbox :: "mail_env \<Rightarrow> string \<Rightarrow> mail_store \<Rightarrow> (mail_error + inbox_row list) \<times> mail_store" where
  "agent_inbox env agent_id s =
     st_try (require_active_agent agent_id s) s (\<lambda>agent.
     st_try (try_map (parse_address (env_url env)) (ar_primary_address agent # ar_granted_roles agent)) s
       (\<lambda>addresses. case fold (agent_inbox_step env (ar_agent_id agent)) addresses ([], s) of
          (by_delivery, s1) \<Rightarrow> (Inr (bt_values by_delivery), s1)))"

definition active_delivery_for_agent :: "string \<Rightarrow> mail_store \<Rightarrow> inbox_row option" where
  "active_delivery_for_agent agent_id s = (
     let rows = sort_key (\<lambda>r. (ir_updated_at r, ir_delivery_id r)) (map inbox_row_of
           (filter (\<lambda>d. dl_claimed_by d = Some agent_id \<and> is_open (dl_state d)) (bt_values (latest_deliveries s))))
     in case rows of [] \<Rightarrow> None | r # _ \<Rightarrow> Some r)"

section \<open>Polling and dispatch\<close>

text \<open>
  The two listings of pending notifications keep the ones whose delivery is open and due; the one behind
  polling also drops a delivery that another agent has claimed.
\<close>

definition pending_keep :: "mail_env \<Rightarrow> bool \<Rightarrow> string \<Rightarrow> int \<Rightarrow> (string, delivery_record) btree_map \<Rightarrow>
    notification_record \<Rightarrow> mail_error + bool" where
  "pending_keep env skip_claimed agent_id now_utc latest n =
     (if nt_agent_id n \<noteq> agent_id \<or> nt_state n \<noteq> Pending then Inr False
      else (case bt_get latest (nt_delivery_id n) of
          None \<Rightarrow> Inr False
        | Some d \<Rightarrow>
            if \<not> is_open (dl_state d) then Inr False
            else if skip_claimed \<and> claimed_by_other d (nt_agent_id n) \<noteq> None then Inr False
            else is_due_at env now_utc (inbox_row_of d)))"

definition sort_notifications :: "notification_record list \<Rightarrow> notification_record list" where
  "sort_notifications ns = sort_key (\<lambda>n. (nt_created_at n, nt_notification_id n)) ns"

definition pending_open_notifications_for_agent :: "mail_env \<Rightarrow> string \<Rightarrow> string \<Rightarrow> mail_store \<Rightarrow>
    mail_error + notification_record list" where
  "pending_open_notifications_for_agent env agent_id now s =
     try_then (parse_time env now ''now'') (\<lambda>now_utc.
     try_then (try_filter (pending_keep env False agent_id now_utc (latest_deliveries s))
       (bt_values (latest_notifications s))) (\<lambda>ns. Inr (sort_notifications ns)))"

definition pending_due_notifications_for_agent :: "mail_env \<Rightarrow> string \<Rightarrow> string \<Rightarrow> mail_store \<Rightarrow>
    mail_error + notification_record list" where
  "pending_due_notifications_for_agent env agent_id now s =
     try_then (parse_time env now ''now'') (\<lambda>now_utc.
     try_then (try_filter (pending_keep env True agent_id now_utc (latest_deliveries s))
       (bt_values (latest_notifications s))) (\<lambda>ns. Inr (sort_notifications ns)))"

definition dispatchable :: "mail_env \<Rightarrow> int \<Rightarrow> notification_record \<Rightarrow> bool" where
  "dispatchable env now_utc n \<longleftrightarrow> nt_attempt_count n = 0 \<or>
     (case nt_next_dispatch_at n of None \<Rightarrow> False
      | Some next \<Rightarrow> (case env_time env next of None \<Rightarrow> False | Some t \<Rightarrow> t \<le> now_utc))"

definition pending_due_dispatch_notifications_for_agent :: "mail_env \<Rightarrow> string \<Rightarrow> string \<Rightarrow> mail_store \<Rightarrow>
    mail_error + notification_record list" where
  "pending_due_dispatch_notifications_for_agent env agent_id now s =
     try_then (parse_time env now ''now'') (\<lambda>now_utc.
     try_then (pending_due_notifications_for_agent env agent_id now s) (\<lambda>ns.
       Inr (filter (dispatchable env now_utc) ns)))"

definition notification_poll :: "mail_env \<Rightarrow> string \<Rightarrow> string \<Rightarrow> mail_store \<Rightarrow>
    (mail_error + notification_record list) \<times> mail_store" where
  "notification_poll env agent_id now s =
     st_try (validate_segment agent_id ''agent id'') s (\<lambda>_.
     st_try (require_live_agent env agent_id now s) s (\<lambda>agent.
     let s1 = ensure_agent_notifications env agent now s
     in (pending_due_notifications_for_agent env agent_id now s1, s1)))"

definition notification_dispatch_queue :: "mail_env \<Rightarrow> string \<Rightarrow> string \<Rightarrow> mail_store \<Rightarrow>
    (mail_error + notification_record list) \<times> mail_store" where
  "notification_dispatch_queue env agent_id now s =
     st_try (validate_segment agent_id ''agent id'') s (\<lambda>_.
     st_try (require_non_retired_agent agent_id s) s (\<lambda>agent.
     let s1 = ensure_agent_notifications env agent now s
     in (pending_due_dispatch_notifications_for_agent env agent_id now s1, s1)))"

definition acknowledge_notification :: "mail_env \<Rightarrow> string \<Rightarrow> string \<Rightarrow> string \<Rightarrow> mail_store \<Rightarrow>
    (mail_error + notification_record) \<times> mail_store" where
  "acknowledge_notification env agent_id notification_id occurred_at s =
     st_try (validate_segment agent_id ''agent id'') s (\<lambda>_.
     st_try (validate_segment notification_id ''notification id'') s (\<lambda>_.
     st_try (require_live_agent env agent_id occurred_at s) s (\<lambda>_.
     st_try (ok_or (bt_get (latest_notifications s) notification_id) (UnknownNotification notification_id)) s
       (\<lambda>n. if nt_agent_id n \<noteq> agent_id then (Inl (NotificationBelongsTo notification_id (nt_agent_id n)), s)
            else if nt_state n = Acknowledged \<or> nt_state n = Suppressed then (Inr n, s)
            else let acked = n\<lparr> nt_state := Acknowledged, nt_updated_at := occurred_at,
                       nt_acknowledged_at := Some occurred_at \<rparr>
                 in (Inr acked, append_notification acked s)))))"

definition agent_status_by_thread :: "mail_env \<Rightarrow> string \<Rightarrow> string \<Rightarrow> mail_store \<Rightarrow>
    mail_error + agent_thread_status_snapshot" where
  "agent_status_by_thread env thread_id now s =
     try_then (validate_segment thread_id ''thread id'') (\<lambda>_.
     (case latest_agent_record_by_thread s thread_id of
        None \<Rightarrow> Inr \<lparr> ts_schema_version = 1, ts_thread_id = thread_id, ts_agent_id = None,
          ts_lease_state = LeaseUnknown, ts_agent = None, ts_latest_lease = None,
          ts_active_delivery = None, ts_pending_notifications = [] \<rparr>
      | Some agent \<Rightarrow>
          let lease = latest_agent_lease s (ar_agent_id agent) in
          try_then (lease_state_for_record env agent lease now) (\<lambda>lease_state.
          try_then (pending_open_notifications_for_agent env (ar_agent_id agent) now s) (\<lambda>pending.
          Inr \<lparr> ts_schema_version = 1, ts_thread_id = thread_id, ts_agent_id = Some (ar_agent_id agent),
            ts_lease_state = lease_state, ts_agent = Some agent, ts_latest_lease = lease,
            ts_active_delivery = active_delivery_for_agent (ar_agent_id agent) s,
            ts_pending_notifications = pending \<rparr>))))"

section \<open>Steering attempts\<close>

definition steering_instruction :: "notification_record \<Rightarrow> string" where
  "steering_instruction n = ''You have new 1Context mail for '' @ nt_recipient n @
     ''. Call wiki.agent.inbox('' @ nt_agent_id n @ ''), open delivery '' @ nt_delivery_id n @
     '', then claim or defer it before acting.''"

definition codex_steering_payload_for_attempt :: "notification_record \<Rightarrow> string option \<Rightarrow> mail_store \<Rightarrow>
    mail_error + codex_steering_payload" where
  "codex_steering_payload_for_attempt n transport_attempt_id s =
     try_then (validate_segment (nt_agent_id n) ''agent id'') (\<lambda>_.
     try_then (validate_segment (nt_notification_id n) ''notification id'') (\<lambda>_.
     try_then (ok_or (bt_get (latest_notifications s) (nt_notification_id n))
       (UnknownNotification (nt_notification_id n))) (\<lambda>current.
     if nt_state current \<noteq> Pending
     then Inl (NotificationNotPending (nt_notification_id n) (nt_state current))
     else try_then (read_message_envelope (nt_message_id n) s) (\<lambda>envelope.
     try_then (ok_or (latest_delivery s (nt_delivery_id n)) (UnknownDelivery (nt_delivery_id n))) (\<lambda>d.
     if \<not> is_open (dl_state d) then Inl (DeliveryNotDispatchable (nt_delivery_id n) (dl_state d))
     else if claimed_by_other d (nt_agent_id n) \<noteq> None
     then Inl (DeliveryClaimedByAnother (nt_delivery_id n))
     else Inr \<lparr> cp_transport = ''codex.steering'', cp_thread_id = nt_transport_thread_id n,
       cp_transport_attempt_id = transport_attempt_id, cp_agent_id = nt_agent_id n,
       cp_notification_id = nt_notification_id n, cp_message_id = nt_message_id n,
       cp_delivery_id = nt_delivery_id n, cp_message_thread_id = nt_message_thread_id n,
       cp_mailbox = nt_recipient n, cp_kind = me_kind envelope, cp_subject = me_subject envelope,
       cp_page = me_page envelope, cp_delivery_state = dl_state d,
       cp_delivery_updated_at = dl_updated_at d, cp_message_created_at = me_created_at envelope,
       cp_instruction = steering_instruction n \<rparr>)))))"

definition codex_steering_payload :: "notification_record \<Rightarrow> mail_store \<Rightarrow> mail_error + codex_steering_payload" where
  "codex_steering_payload n s = codex_steering_payload_for_attempt n None s"

definition str_replace_char :: "char \<Rightarrow> string \<Rightarrow> string \<Rightarrow> string" where
  "str_replace_char c rep s = concat (map (\<lambda>d. if d = c then rep else [d]) s)"

definition xml_text :: "string \<Rightarrow> string" where
  "xml_text value = str_replace_char CHR ''>'' ''&gt;''
     (str_replace_char CHR ''<'' ''&lt;'' (str_replace_char CHR ''&'' ''&amp;'' value))"

fun delivery_state_text :: "delivery_state \<Rightarrow> string" where
  "delivery_state_text Unread = ''Unread''"
| "delivery_state_text Read = ''Read''"
| "delivery_state_text Claimed = ''Claimed''"
| "delivery_state_text Done = ''Done''"
| "delivery_state_text Archived = ''Archived''"
| "delivery_state_text Rejected = ''Rejected''"
| "delivery_state_text Snoozed = ''Snoozed''"
| "delivery_state_text DeadLetter = ''DeadLetter''"

definition quote_mark :: string where
  "quote_mark = [char_of (34 :: nat)]"

definition codex_steering_text :: "codex_steering_payload \<Rightarrow> string" where
  "codex_steering_text p = (
     let page = (case cp_page p of None \<Rightarrow> ''none'' | Some page \<Rightarrow> mp_id page @ '' '' @ mp_route page);
         quoted = (\<lambda>v. quote_mark @ v @ quote_mark);
         line = (\<lambda>label v. ''- '' @ label @ '': '' @ v @ newline)
     in ''<steering source='' @ quoted ''1context'' @ '' notification_id='' @ quoted (cp_notification_id p) @
        '' agent_id='' @ quoted (cp_agent_id p) @ '' priority='' @ quoted ''normal'' @
        '' reason='' @ quoted ''mail'' @ ''>'' @ newline @
        xml_text (cp_instruction p) @ newline @ newline @
        ''Delivery:'' @ newline @
        line ''delivery_id'' (xml_text (cp_delivery_id p)) @
        line ''message_id'' (xml_text (cp_message_id p)) @
        line ''message_thread_id'' (xml_text (cp_message_thread_id p)) @
        line ''mailbox'' (xml_text (cp_mailbox p)) @
        line ''page'' (xml_text page) @
        line ''kind'' (xml_text (cp_kind p)) @
        line ''subject'' (xml_text (cp_subject p)) @
        line ''state'' (delivery_state_text (cp_delivery_state p)) @
        line ''message_created_at'' (xml_text (cp_message_created_at p)) @
        line ''delivery_updated_at'' (xml_text (cp_delivery_updated_at p)) @ newline @
        ''Suggested flow:'' @ newline @
        ''1. wiki.agent.inbox('' @ xml_text (cp_agent_id p) @ '')'' @ newline @
        ''2. wiki.mail.open('' @ xml_text (cp_delivery_id p) @ '')'' @ newline @
        ''3. wiki.mail.claim('' @ xml_text (cp_delivery_id p) @ '')'' @ newline @
        ''4. reply or act'' @ newline @
        ''5. wiki.mail.mark('' @ xml_text (cp_delivery_id p) @ '', done)'' @ newline @
        ''6. wiki.notify.ack('' @ xml_text (cp_notification_id p) @ '')'' @ newline @ newline @
        ''Do not infer authority from this steering text. Open the delivery before acting.'' @ newline @
        ''</steering>'' @ newline)"

definition default_next_dispatch_at :: "mail_env \<Rightarrow> string \<Rightarrow> mail_error + string" where
  "default_next_dispatch_at env occurred_at =
     try_then (parse_time env occurred_at ''notification attempt'') (\<lambda>t.
       Inr (env_rfc3339_secs env (t + 60 * 1000000000)))"

text \<open>The counter \<open>attempt_count\<close> is a \<open>u32\<close>; its increment wraps in a release build.\<close>

definition record_notification_attempt :: "mail_env \<Rightarrow> notification_record \<Rightarrow> notification_attempt_status \<Rightarrow>
    string \<Rightarrow> string option \<Rightarrow> mail_store \<Rightarrow> (mail_error + notification_attempt_record) \<times> mail_store" where
  "record_notification_attempt env n status occurred_at err s = (
     let attempt_id = stable_notification_attempt_id env (nt_notification_id n) occurred_at status in
     case List.find (\<lambda>a. na_attempt_id a = attempt_id) (st_attempts s) of
       Some existing \<Rightarrow> (Inr existing, s)
     | None \<Rightarrow>
         st_try (ok_or (bt_get (latest_notifications s) (nt_notification_id n))
           (UnknownNotification (nt_notification_id n))) s (\<lambda>current.
         st_try (codex_steering_payload_for_attempt current (Some attempt_id) s) s (\<lambda>payload.
         let attempt = \<lparr> na_schema_version = 1, na_attempt_id = attempt_id,
               na_notification_id = nt_notification_id n, na_agent_id = nt_agent_id n,
               na_transport = ''codex.steering'', na_status = status, na_occurred_at = occurred_at,
               na_payload = payload, na_steering_text = codex_steering_text payload, na_error = err \<rparr>;
             s1 = append_notification_attempt attempt s
         in st_try (case status of Failed \<Rightarrow> try_then (default_next_dispatch_at env occurred_at) (\<lambda>t. Inr (Some t))
              | Sent \<Rightarrow> Inr None | DryRun \<Rightarrow> Inr None) s1 (\<lambda>next_dispatch.
            (Inr attempt, append_notification (current\<lparr> nt_attempt_count := nt_attempt_count current + 1,
               nt_last_attempt_at := Some occurred_at, nt_updated_at := occurred_at,
               nt_last_error := err, nt_next_dispatch_at := next_dispatch \<rparr>) s1)))))"

section \<open>Opening and injection receipts\<close>

definition codex_open_content_delivery :: "agent_record \<Rightarrow> open_content_delivery" where
  "codex_open_content_delivery agent =
     \<lparr> oc_schema_version = 1, oc_transport = ''codex.thread.inject_items'',
       oc_method = ''thread/inject_items'', oc_status = ''requires_host_injection'',
       oc_thread_id = at_thread_id (ar_transport agent), oc_items = [] \<rparr>"

definition open_delivery :: "string \<Rightarrow> string \<Rightarrow> mail_store \<Rightarrow> mail_error + open_delivery_result" where
  "open_delivery delivery_id agent_id s =
     try_then (validate_segment delivery_id ''delivery id'') (\<lambda>_.
     try_then (validate_segment agent_id ''agent id'') (\<lambda>_.
     try_then (require_active_agent agent_id s) (\<lambda>agent.
     try_then (ok_or (latest_delivery s delivery_id) (UnknownDelivery delivery_id)) (\<lambda>d.
     try_then (require_delivery_access agent d) (\<lambda>_.
     try_then (read_message (dl_message_id d) s) (\<lambda>message.
     Inr \<lparr> od_delivery = d,
       od_message = \<lparr> om_envelope = hm_envelope message,
         om_body_sha256 = mb_sha256 (me_body (hm_envelope message)),
         om_body_bytes = length (hm_body_markdown message) \<rparr>,
       od_content_delivery = codex_open_content_delivery agent \<rparr>))))))"

definition sha256_receipt :: "mail_env \<Rightarrow> mail_injection_receipt \<Rightarrow> string" where
  "sha256_receipt env receipt = hex_lower (env_sha env (env_receipt_json env receipt))"

definition injection_event :: "mail_env \<Rightarrow> mail_injection_receipt \<Rightarrow> agent_thread_status_snapshot \<Rightarrow>
    mail_control_event" where
  "injection_event env receipt status =
     \<lparr> cv_schema_version = 1,
       cv_control_event_id = stable_control_event_id env ''mail_injection'' (mi_injection_id receipt)
         (mi_created_at receipt),
       cv_created_at = mi_created_at receipt, cv_source = CodexAppServer, cv_hook_event_name = None,
       cv_codex = \<lparr> cc_session_id = None, cc_thread_id = Some (mi_thread_id receipt), cc_turn_id = None,
         cc_cwd = None, cc_model = None, cc_permission_mode = None, cc_item_id = None,
         cc_tool_name = Some ''wiki.mail.open'', cc_tool_use_id = None \<rparr>,
       cv_agent = \<lparr> ca_agent_id = Some (mi_agent_id receipt), ca_lease_state = Some (ts_lease_state status),
         ca_active_delivery_id = map_option ir_delivery_id (ts_active_delivery status) \<rparr>,
       cv_mail_refs = \<lparr> cr_notification_id = None, cr_message_id = Some (mi_message_id receipt),
         cr_delivery_id = Some (mi_delivery_id receipt), cr_claim_id = None, cr_proposal_id = None \<rparr>,
       cv_decision = Some \<lparr> cd_behavior = RecordOnly, cd_reason = Some (case mi_app_server_result receipt of
         InjectionOk \<Rightarrow> ''mail body injected into Codex thread''
       | InjectionFailed \<Rightarrow> ''mail body injection failed in Codex host adapter'') \<rparr>,
       cv_input_sha256 = Some (mi_body_sha256 receipt), cv_output_sha256 = Some (sha256_receipt env receipt),
       cv_additional_context_sha256 = None \<rparr>"

definition record_mail_injection_result :: "mail_env \<Rightarrow> string \<Rightarrow> string \<Rightarrow> string option \<Rightarrow> nat \<Rightarrow>
    mail_injection_result \<Rightarrow> string \<Rightarrow> string option \<Rightarrow> mail_store \<Rightarrow>
    (mail_error + mail_injection_record_result) \<times> mail_store" where
  "record_mail_injection_result env delivery_id agent_id thread item_count result occurred_at err s =
     st_try (validate_segment delivery_id ''delivery id'') s (\<lambda>_.
     st_try (validate_segment agent_id ''agent id'') s (\<lambda>_.
     st_try (case thread of None \<Rightarrow> Inr () | Some t \<Rightarrow> validate_segment t ''thread id'') s (\<lambda>_.
     st_try (parse_time env occurred_at ''mail injection receipt'') s (\<lambda>_.
     st_try (open_delivery delivery_id agent_id s) s (\<lambda>opened.
     let content = od_content_delivery opened;
         thread_id = (case thread of Some t \<Rightarrow> t | None \<Rightarrow> oc_thread_id content)
     in if thread_id \<noteq> oc_thread_id content
        then (Inl (InjectionThreadMismatch thread_id (oc_thread_id content)), s)
        else let receipt = \<lparr> mi_schema_version = 1,
                   mi_injection_id = stable_injection_id env delivery_id agent_id thread_id occurred_at,
                   mi_delivery_id = delivery_id,
                   mi_message_id = me_message_id (om_envelope (od_message opened)),
                   mi_agent_id = agent_id, mi_thread_id = thread_id,
                   mi_body_sha256 = om_body_sha256 (od_message opened), mi_item_count = item_count,
                   mi_app_server_method = oc_method content, mi_app_server_result = result,
                   mi_created_at = occurred_at, mi_error = err \<rparr>;
                 s1 = append_injection_receipt receipt s
             in st_try (agent_status_by_thread env thread_id occurred_at s1) s1 (\<lambda>status.
                let event = injection_event env receipt status
                in (Inr \<lparr> mj_receipt = receipt, mj_control_event = event \<rparr>,
                    append_control_event event s1)))))))"

end
