(* ===== verification/Mail_Safety.thy ===== *)
theory Mail_Safety
  imports Mail_Store
begin

text \<open>
  Safety of the mail store: the frame of every operation, the reachable stores, and what holds in all of
  them: the history of every delivery (one claimant, terminal states final), the history of every
  notification, and the absence of pending notifications for deliveries that another agent holds.
\<close>

section \<open>The ledgers of the store\<close>

interpretation deliveries: ledger st_deliveries append_delivery dl_delivery_id
  by unfold_locales (simp add: append_delivery_def)

interpretation outbox: ledger st_outbox append_notification nt_notification_id
  by unfold_locales (simp add: append_notification_def)

interpretation agents: ledger st_agents append_agent ar_agent_id
  by unfold_locales (simp add: append_agent_def)

lemma latest_deliveries_ledger: "latest_deliveries = deliveries.latest"
  by (rule ext) (simp add: latest_deliveries_def deliveries.latest_def)

lemma latest_notifications_ledger: "latest_notifications = outbox.latest"
  by (rule ext) (simp add: latest_notifications_def outbox.latest_def)

lemma latest_agent_records_ledger: "latest_agent_records = agents.latest"
  by (rule ext) (simp add: latest_agent_records_def agents.latest_def)

named_theorems frame \<open>ledgers that an operation leaves alone\<close>

lemma append_frames [frame, simp]:
  "st_deliveries (append_notification n s) = st_deliveries s"
  "st_deliveries (append_claim c s) = st_deliveries s"
  "st_deliveries (append_dead_letter dr s) = st_deliveries s"
  "st_deliveries (append_agent r s) = st_deliveries s"
  "st_deliveries (append_lease l s) = st_deliveries s"
  "st_deliveries (append_notification_attempt a s) = st_deliveries s"
  "st_deliveries (append_control_event e s) = st_deliveries s"
  "st_deliveries (append_injection_receipt i s) = st_deliveries s"
  "st_outbox (append_delivery d s) = st_outbox s"
  "st_outbox (append_claim c s) = st_outbox s"
  "st_outbox (append_dead_letter dr s) = st_outbox s"
  "st_outbox (append_agent r s) = st_outbox s"
  "st_outbox (append_lease l s) = st_outbox s"
  "st_outbox (append_notification_attempt a s) = st_outbox s"
  "st_outbox (append_control_event e s) = st_outbox s"
  "st_outbox (append_injection_receipt i s) = st_outbox s"
  "st_agents (append_delivery d s) = st_agents s"
  "st_agents (append_notification n s) = st_agents s"
  "st_agents (append_claim c s) = st_agents s"
  "st_agents (append_dead_letter dr s) = st_agents s"
  "st_agents (append_lease l s) = st_agents s"
  "st_agents (append_notification_attempt a s) = st_agents s"
  "st_agents (append_control_event e s) = st_agents s"
  "st_agents (append_injection_receipt i s) = st_agents s"
  by (simp_all add: append_delivery_def append_notification_def append_claim_def append_dead_letter_def
      append_agent_def append_lease_def append_notification_attempt_def append_control_event_def
      append_injection_receipt_def)

text \<open>An operation on the outbox only: everything else of the store stays.\<close>

definition outbox_only :: "mail_store \<Rightarrow> mail_store \<Rightarrow> bool" where
  "outbox_only s s' \<longleftrightarrow> s' = s\<lparr> st_outbox := st_outbox s' \<rparr>"

lemma outbox_only_refl [simp]: "outbox_only s s"
  by (simp add: outbox_only_def)

lemma outbox_only_append [simp]: "outbox_only s t \<Longrightarrow> outbox_only s (append_notification n t)"
  unfolding outbox_only_def append_notification_def by (metis (no_types, lifting) mail_store.select_convs(9)
      mail_store.surjective mail_store.update_convs(9))

lemma outbox_only_fields:
  assumes "outbox_only s s'"
  shows "st_deliveries s' = st_deliveries s" "st_agents s' = st_agents s" "st_leases s' = st_leases s"
    "st_messages s' = st_messages s" "st_bodies s' = st_bodies s" "st_idempotency s' = st_idempotency s"
    "st_claims s' = st_claims s" "st_attempts s' = st_attempts s" "st_dead_letters s' = st_dead_letters s"
  using assms unfolding outbox_only_def by (metis mail_store.select_convs mail_store.surjective mail_store.update_convs(9))+

lemma fold_outbox_only:
  assumes "\<And>x t. x \<in> set xs \<Longrightarrow> outbox_only s t \<Longrightarrow> outbox_only s (f x t)"
  shows "outbox_only s t \<Longrightarrow> outbox_only s (fold f xs t)"
  using assms by (induction xs arbitrary: t) auto

lemma suppress_outbox_only: "outbox_only s (suppress_competing_notifications d w t s)"
  unfolding suppress_competing_notifications_def
  by (rule fold_outbox_only) (simp_all add: suppress_step_def)

lemma ensure_agent_outbox_only: "outbox_only s (ensure_agent_notifications env a t s)"
  unfolding ensure_agent_notifications_def
  by (rule fold_outbox_only) (simp_all add: ensure_agent_step_def Let_def)

lemma ensure_delivery_outbox_only: "outbox_only s (ensure_delivery_notifications env d s)"
proof -
  have "outbox_only s (snd (fold (ensure_delivery_step env d) xs (k, t)))" if "outbox_only s t" for xs k t
    using that
  proof (induction xs arbitrary: k t)
    case (Cons a xs)
    then show ?case
      by (cases "bt_contains k (nt_notification_id (new_notification env a d (dl_created_at d)))")
        (simp_all add: ensure_delivery_step_def Let_def)
  qed simp
  then show ?thesis
    by (simp add: ensure_delivery_notifications_def)
qed

lemmas ensure_frames [frame, simp] =
  outbox_only_fields [OF suppress_outbox_only] outbox_only_fields [OF ensure_agent_outbox_only]
  outbox_only_fields [OF ensure_delivery_outbox_only]

section \<open>Delivery histories\<close>

text \<open>
  The records with one delivery id, oldest first, are its history. It starts unread and unclaimed; every
  later record keeps the identity of the delivery and its claimant, follows a record that is not
  terminal, and is terminal only after a claim.
\<close>

definition delivery_next :: "delivery_record \<Rightarrow> delivery_record \<Rightarrow> bool" where
  "delivery_next d d' \<longleftrightarrow> \<not> is_terminal (dl_state d) \<and>
     dl_delivery_id d' = dl_delivery_id d \<and> dl_message_id d' = dl_message_id d \<and>
     dl_thread_id d' = dl_thread_id d \<and> dl_recipient d' = dl_recipient d \<and>
     dl_created_at d' = dl_created_at d \<and>
     (dl_claimed_by d \<noteq> None \<longrightarrow> dl_claimed_by d' = dl_claimed_by d) \<and>
     (is_terminal (dl_state d') \<longrightarrow> dl_claimed_by d \<noteq> None) \<and>
     dl_state d' \<in> {Read, Claimed, Done, Archived, Rejected, Snoozed}"

definition delivery_initial :: "delivery_record \<Rightarrow> bool" where
  "delivery_initial d \<longleftrightarrow> dl_state d = Unread \<and> dl_claimed_by d = None"

interpretation deliveries: ledger_history st_deliveries append_delivery dl_delivery_id delivery_initial delivery_next
  by unfold_locales (simp add: delivery_next_def)

text \<open>
  The records with one notification id: the first is pending, and only a pending one is followed by
  another.
\<close>

definition notice_initial :: "notification_record \<Rightarrow> bool" where
  "notice_initial n \<longleftrightarrow> nt_state n = Pending"

definition notice_next :: "notification_record \<Rightarrow> notification_record \<Rightarrow> bool" where
  "notice_next n n' \<longleftrightarrow> nt_state n = Pending \<and> nt_notification_id n' = nt_notification_id n"

interpretation outbox: ledger_history st_outbox append_notification nt_notification_id notice_initial notice_next
  by unfold_locales (simp add: notice_next_def)

text \<open>What a valid history implies.\<close>

lemma history_claim_kept:
  assumes "successively delivery_next (d # ds)" "dl_claimed_by d = Some a" "e \<in> set ds"
  shows "dl_claimed_by e = Some a"
  using assms by (induction ds arbitrary: d) (auto simp: delivery_next_def)

lemma history_claims_agree:
  assumes "successively delivery_next ds" "d \<in> set ds" "e \<in> set ds"
    "dl_claimed_by d = Some a" "dl_claimed_by e = Some b"
  shows "a = b"
  using assms
proof (induction ds)
  case (Cons c ds)
  have tail: "successively delivery_next ds"
    using Cons.prems(1) by (cases ds) auto
  show ?case
  proof (cases "d \<in> set ds \<and> e \<in> set ds")
    case True
    then show ?thesis using Cons.IH tail Cons.prems by blast
  next
    case False
    then consider "d = c" "e = c" | "d = c" "e \<in> set ds" | "e = c" "d \<in> set ds"
      using Cons.prems(2,3) by auto
    then show ?thesis
    proof cases
      case 1
      then show ?thesis using Cons.prems(4,5) by simp
    next
      case 2
      then show ?thesis
        using history_claim_kept [OF Cons.prems(1), of a e] Cons.prems(4,5) by simp
    next
      case 3
      then show ?thesis
        using history_claim_kept [OF Cons.prems(1), of b d] Cons.prems(4,5) by simp
    qed
  qed
qed simp

lemma history_terminal_last:
  assumes "successively delivery_next (xs @ d # ys)" "is_terminal (dl_state d)"
  shows "ys = []"
  using assms by (cases ys) (auto simp: successively_append_iff delivery_next_def)

lemma history_identity:
  assumes "successively delivery_next ds" "d \<in> set ds" "e \<in> set ds"
  shows "dl_message_id d = dl_message_id e \<and> dl_recipient d = dl_recipient e \<and> dl_thread_id d = dl_thread_id e"
  using assms
proof (induction ds arbitrary: d e)
  case (Cons c ds)
  show ?case
  proof (cases ds)
    case (Cons c' ds')
    then have "successively delivery_next ds" "delivery_next c c'"
      using Cons.prems(1) by auto
    then have "dl_message_id x = dl_message_id c' \<and> dl_recipient x = dl_recipient c' \<and> dl_thread_id x = dl_thread_id c'"
      if "x \<in> set (c # ds)" for x
      using that Cons.IH [of x c'] Cons by (auto simp: delivery_next_def)
    then show ?thesis
      using Cons.prems by metis
  qed (use Cons.prems in auto)
qed simp

section \<open>The invariant of the store\<close>

definition pending_fits :: "mail_store \<Rightarrow> notification_record \<Rightarrow> bool" where
  "pending_fits s n \<longleftrightarrow> (nt_state n = Pending \<longrightarrow>
     (\<forall>d. latest_delivery s (nt_delivery_id n) = Some d \<longrightarrow> dl_claimed_by d \<in> {None, Some (nt_agent_id n)}))"

definition no_rival :: "mail_store \<Rightarrow> bool" where
  "no_rival s \<longleftrightarrow> (\<forall>k n. bt_get (latest_notifications s) k = Some n \<longrightarrow> pending_fits s n)"

definition mail_inv :: "mail_store \<Rightarrow> bool" where
  "mail_inv s \<longleftrightarrow> deliveries.valid s \<and> outbox.valid s \<and> no_rival s"

lemma latest_delivery_cong: "st_deliveries s' = st_deliveries s \<Longrightarrow> latest_delivery s' = latest_delivery s"
  by (rule ext) (simp add: latest_delivery_def latest_deliveries_def)

lemma latest_notifications_cong: "st_outbox s' = st_outbox s \<Longrightarrow> latest_notifications s' = latest_notifications s"
  by (simp add: latest_notifications_def)

lemma pending_fits_cong: "st_deliveries s' = st_deliveries s \<Longrightarrow> pending_fits s' n \<longleftrightarrow> pending_fits s n"
  using latest_delivery_cong [of s' s] by (simp add: pending_fits_def)

lemma mail_inv_cong:
  "st_deliveries s' = st_deliveries s \<Longrightarrow> st_outbox s' = st_outbox s \<Longrightarrow> mail_inv s' \<longleftrightarrow> mail_inv s"
  using deliveries.valid_cong [of s' s] outbox.valid_cong [of s' s]
  by (simp add: mail_inv_def no_rival_def latest_notifications_cong [of s' s] pending_fits_cong [of s' s])

text \<open>Appending a notification that fits, when nothing final has its id.\<close>

lemma mail_inv_append_notification:
  assumes "mail_inv s" "pending_fits s n"
    "\<And>m. bt_get (latest_notifications s) (nt_notification_id n) = Some m \<Longrightarrow> nt_state m = Pending"
    "bt_get (latest_notifications s) (nt_notification_id n) = None \<Longrightarrow> nt_state n = Pending"
  shows "mail_inv (append_notification n s)"
proof -
  have "outbox.valid (append_notification n s)"
  proof (cases "bt_get (latest_notifications s) (nt_notification_id n)")
    case None
    then show ?thesis
      using assms by (intro outbox.valid_append_new)
        (auto simp: mail_inv_def notice_initial_def latest_notifications_ledger)
  next
    case (Some m)
    then have "nt_notification_id m = nt_notification_id n"
      by (simp add: latest_notifications_ledger outbox.get_key)
    then show ?thesis
      using assms Some by (intro outbox.valid_append_next [of s m])
        (auto simp: mail_inv_def notice_next_def latest_notifications_ledger)
  qed
  moreover have "no_rival (append_notification n s)"
    using assms(1,2) pending_fits_cong [of "append_notification n s" s]
    by (auto simp: no_rival_def mail_inv_def latest_notifications_ledger outbox.get_append split: if_splits)
  ultimately show ?thesis
    using assms(1) deliveries.valid_cong [of "append_notification n s" s] by (simp add: mail_inv_def)
qed

lemma new_notification_fields [simp]:
  "nt_state (new_notification env a d t) = Pending"
  "nt_agent_id (new_notification env a d t) = ar_agent_id a"
  "nt_delivery_id (new_notification env a d t) = dl_delivery_id d"
  by (simp_all add: new_notification_def)

lemma actionable_fits:
  assumes "latest_delivery s (dl_delivery_id d) = Some d" "delivery_actionable_for_agent a d"
  shows "pending_fits s (new_notification env a d t)"
  using assms by (auto simp: pending_fits_def delivery_actionable_for_agent_def split: option.splits)

text \<open>The two loops that create notifications keep the invariant.\<close>

lemma ensure_agent_inv:
  assumes "mail_inv s"
  shows "mail_inv (ensure_agent_notifications env a t s)"
proof -
  let ?known = "latest_notifications s"
  have loop: "mail_inv u \<and> st_deliveries u = st_deliveries s \<and>
      (\<forall>k m. bt_get ?known k = None \<longrightarrow> bt_get (latest_notifications u) k = Some m \<longrightarrow> nt_state m = Pending)"
    if "u = fold (ensure_agent_step env a t ?known) ds s"
      "\<forall>d \<in> set ds. latest_delivery s (dl_delivery_id d) = Some d" for ds u
    using that
  proof (induction ds arbitrary: u rule: rev_induct)
    case Nil
    then show ?case using assms by simp
  next
    case (snoc d ds)
    define v where "v = fold (ensure_agent_step env a t ?known) ds s"
    define n where "n = new_notification env a d t"
    have v: "mail_inv v" "st_deliveries v = st_deliveries s"
        "\<forall>k m. bt_get ?known k = None \<longrightarrow> bt_get (latest_notifications v) k = Some m \<longrightarrow> nt_state m = Pending"
      using snoc.IH [OF v_def] snoc.prems(2) by auto
    have u: "u = ensure_agent_step env a t ?known d v"
      using snoc.prems(1) by (simp add: v_def)
    show ?case
    proof (cases "is_open (dl_state d) \<and> delivery_actionable_for_agent a d \<and> \<not> bt_contains ?known (nt_notification_id n)")
      case True
      then have u': "u = append_notification n v"
        by (simp add: u ensure_agent_step_def Let_def n_def)
      have "latest_delivery v (dl_delivery_id d) = Some d"
        using snoc.prems(2) latest_delivery_cong [OF v(2)] by simp
      then have "pending_fits v n"
        using True actionable_fits by (simp add: n_def)
      moreover have "bt_get ?known (nt_notification_id n) = None"
        using True by (simp add: bt_contains_def)
      ultimately have "mail_inv u"
        unfolding u' using v by (intro mail_inv_append_notification) (auto simp: n_def)
      then show ?thesis
        using v by (auto simp: u' latest_notifications_ledger outbox.get_append n_def split: if_splits)
    next
      case False
      then have "u = v"
        by (auto simp: u ensure_agent_step_def Let_def n_def)
      then show ?thesis using v by simp
    qed
  qed
  have "\<forall>d \<in> set (bt_values (latest_deliveries s)). latest_delivery s (dl_delivery_id d) = Some d"
    by (simp add: latest_delivery_def latest_deliveries_ledger deliveries.values_iff)
  from loop [OF ensure_agent_notifications_def this] show ?thesis
    by blast
qed

lemma ensure_delivery_step_latest:
  assumes "ensure_delivery_step env d a (latest_notifications s, s) = (known', s')"
  shows "known' = latest_notifications s'"
  using assms
  by (auto simp: ensure_delivery_step_def Let_def latest_notifications_def append_notification_def split: if_splits)

lemma ensure_delivery_inv:
  assumes "mail_inv s" "latest_delivery s (dl_delivery_id d) = Some d"
  shows "mail_inv (ensure_delivery_notifications env d s)"
proof -
  have loop: "mail_inv u \<and> st_deliveries u = st_deliveries s \<and> known = latest_notifications u"
    if "(known, u) = fold (ensure_delivery_step env d) as (latest_notifications s, s)"
      "\<forall>a \<in> set as. delivery_actionable_for_agent a d" for as known u
    using that
  proof (induction as arbitrary: known u rule: rev_induct)
    case Nil
    then show ?case using assms by simp
  next
    case (snoc a as)
    obtain known1 v where v: "(known1, v) = fold (ensure_delivery_step env d) as (latest_notifications s, s)"
      by (metis surj_pair)
    define n where "n = new_notification env a d (dl_created_at d)"
    have iv: "mail_inv v" "st_deliveries v = st_deliveries s" "known1 = latest_notifications v"
      using snoc.IH [OF v] snoc.prems(2) by auto
    have u: "(known, u) = ensure_delivery_step env d a (latest_notifications v, v)"
      using snoc.prems(1) v iv(3) by simp
    have known: "known = latest_notifications u"
      using ensure_delivery_step_latest u [symmetric] by metis
    show ?case
    proof (cases "bt_contains (latest_notifications v) (nt_notification_id n)")
      case True
      then show ?thesis
        using u iv known by (simp add: ensure_delivery_step_def Let_def n_def)
    next
      case False
      then have u': "u = append_notification n v"
        using u by (simp add: ensure_delivery_step_def Let_def n_def)
      have "latest_delivery v (dl_delivery_id d) = Some d"
        using assms(2) latest_delivery_cong [OF iv(2)] by simp
      then have "pending_fits v n"
        using snoc.prems(2) actionable_fits by (simp add: n_def)
      then have "mail_inv u"
        unfolding u' using iv(1) False
        by (intro mail_inv_append_notification) (auto simp: n_def bt_contains_def)
      then show ?thesis
        using iv(2) known by (simp add: u')
    qed
  qed
  have "\<forall>a \<in> set (notification_targets_for_delivery d s). delivery_actionable_for_agent a d"
    by (simp add: notification_targets_for_delivery_def)
  moreover obtain known u where
    "fold (ensure_delivery_step env d) (notification_targets_for_delivery d s) (latest_notifications s, s) = (known, u)"
    by (metis surj_pair)
  ultimately show ?thesis
    using loop [of known u "notification_targets_for_delivery d s"]
    by (simp add: ensure_delivery_notifications_def)
qed

section \<open>Transitions\<close>

definition suppressible :: "string \<Rightarrow> string \<Rightarrow> notification_record \<Rightarrow> bool" where
  "suppressible i w n \<longleftrightarrow> nt_delivery_id n = i \<and> nt_agent_id n \<noteq> w \<and> nt_state n = Pending"

definition suppressed :: "string \<Rightarrow> notification_record \<Rightarrow> notification_record" where
  "suppressed t n = n\<lparr> nt_state := Suppressed, nt_updated_at := t \<rparr>"

lemma suppressed_fields [simp]:
  "nt_notification_id (suppressed t n) = nt_notification_id n" "nt_state (suppressed t n) = Suppressed"
  by (simp_all add: suppressed_def)

lemma suppress_as_appends:
  "suppress_competing_notifications i w t s =
     fold append_notification (map (suppressed t) (filter (suppressible i w) (bt_values (latest_notifications s)))) s"
proof -
  have "fold (suppress_step i w t) ns u = fold append_notification (map (suppressed t) (filter (suppressible i w) ns)) u" for ns u
    by (induction ns arbitrary: u) (simp_all add: suppress_step_def suppressible_def suppressed_def)
  then show ?thesis
    by (simp add: suppress_competing_notifications_def)
qed

lemma distinct_latest_ids: "distinct (map nt_notification_id (bt_values (latest_notifications s)))"
proof -
  have wf: "bt_wf (latest_notifications s)"
    by (simp add: latest_notifications_def)
  have "map nt_notification_id (bt_values (latest_notifications s)) = map fst (latest_notifications s)"
    using outbox.get_key bt_entries_get [OF wf]
    by (auto simp: bt_values_def latest_notifications_ledger)
  then show ?thesis
    using bt_wf_distinct [OF wf] by simp
qed

lemma suppress_latest:
  "bt_get (latest_notifications (suppress_competing_notifications i w t s)) k =
     map_option (\<lambda>n. if suppressible i w n then suppressed t n else n) (bt_get (latest_notifications s) k)"
proof -
  let ?ns = "filter (suppressible i w) (bt_values (latest_notifications s))"
  have dist: "distinct (map nt_notification_id (rev ?ns))"
    using distinct_latest_ids [of s] by (simp add: distinct_map_filter flip: rev_map)
  have vals: "n \<in> set ?ns \<longleftrightarrow> suppressible i w n \<and> bt_get (latest_notifications s) (nt_notification_id n) = Some n" for n
    by (auto simp: latest_notifications_ledger outbox.values_iff)
  have "List.find (\<lambda>r. nt_notification_id r = k) (rev (map (suppressed t) ?ns)) =
      map_option (suppressed t) (List.find (\<lambda>r. nt_notification_id r = k) (rev ?ns))"
  proof -
    have "List.find (\<lambda>r. nt_notification_id r = k) (map (suppressed t) xs) =
        map_option (suppressed t) (List.find (\<lambda>r. nt_notification_id r = k) xs)" for xs
      by (induction xs) auto
    then show ?thesis by (simp add: rev_map)
  qed
  moreover have "List.find (\<lambda>r. nt_notification_id r = k) (rev ?ns) =
      (case bt_get (latest_notifications s) k of None \<Rightarrow> None | Some n \<Rightarrow> if suppressible i w n then Some n else None)"
  proof (cases "\<exists>n \<in> set ?ns. nt_notification_id n = k")
    case True
    then obtain n where n: "n \<in> set ?ns" "nt_notification_id n = k"
      by blast
    have "List.find (\<lambda>r. nt_notification_id r = nt_notification_id n) (rev ?ns) = Some n"
      using find_distinct_key [OF dist] n(1) by (simp del: set_filter)
    then show ?thesis
      using n vals by auto
  next
    case False
    then have "List.find (\<lambda>r. nt_notification_id r = k) (rev ?ns) = None"
      by (auto simp: find_None_iff)
    moreover have "\<not> suppressible i w n" if "bt_get (latest_notifications s) k = Some n" for n
      using False vals [of n] that outbox.get_key [of s k n] by (auto simp: latest_notifications_ledger)
    ultimately show ?thesis
      by (auto split: option.splits)
  qed
  ultimately show ?thesis
    unfolding suppress_as_appends latest_notifications_ledger outbox.get_fold_append
    by (auto simp: latest_notifications_ledger split: option.splits)
qed

lemma suppress_outbox_valid:
  assumes "outbox.valid s"
  shows "outbox.valid (suppress_competing_notifications i w t s)"
proof -
  have loop: "outbox.valid (fold append_notification (map (suppressed t) ns) s)"
    if "distinct (map nt_notification_id ns)"
      "\<forall>n \<in> set ns. nt_state n = Pending \<and> bt_get (outbox.latest s) (nt_notification_id n) = Some n" for ns
    using that
  proof (induction ns rule: rev_induct)
    case Nil
    then show ?case using assms by simp
  next
    case (snoc n ns)
    let ?u = "fold append_notification (map (suppressed t) ns) s"
    have "List.find (\<lambda>r. nt_notification_id r = nt_notification_id n) (rev (map (suppressed t) ns)) = None"
      using snoc.prems(1) by (auto simp: find_None_iff) (metis image_eqI)
    then have "bt_get (outbox.latest ?u) (nt_notification_id n) = Some n"
      using snoc.prems(2) by (simp only: outbox.get_fold_append) simp
    moreover have "outbox.valid ?u"
      using snoc.IH snoc.prems by simp
    moreover have "notice_next n (suppressed t n)"
      using snoc.prems(2) by (simp add: notice_next_def)
    ultimately have "outbox.valid (append_notification (suppressed t n) ?u)"
      using outbox.valid_append_next by blast
    then show ?case by simp
  qed
  show ?thesis
    unfolding suppress_as_appends
    using distinct_latest_ids [of s]
    by (intro loop) (auto simp: distinct_map_filter suppressible_def latest_notifications_ledger outbox.values_iff)
qed

lemma latest_delivery_append [simp]:
  "latest_delivery (append_delivery d s) i = (if i = dl_delivery_id d then Some d else latest_delivery s i)"
  by (simp add: latest_delivery_def latest_deliveries_ledger deliveries.get_append)

definition moved_delivery :: "delivery_record \<Rightarrow> string option \<Rightarrow> delivery_state \<Rightarrow> string option \<Rightarrow> string \<Rightarrow>
    delivery_record" where
  "moved_delivery d claimed_by state snoozed_until t = d\<lparr> dl_state := state, dl_claimed_by := claimed_by,
     dl_snoozed_until := snoozed_until, dl_updated_at := t \<rparr>"

lemma moved_delivery_fields [simp]:
  "dl_delivery_id (moved_delivery d c st sn t) = dl_delivery_id d"
  "dl_claimed_by (moved_delivery d c st sn t) = c"
  "dl_state (moved_delivery d c st sn t) = st"
  "dl_message_id (moved_delivery d c st sn t) = dl_message_id d"
  "dl_recipient (moved_delivery d c st sn t) = dl_recipient d"
  by (simp_all add: moved_delivery_def)

lemma moved_delivery_next:
  assumes "\<not> is_terminal (dl_state d)" "dl_claimed_by d \<noteq> None \<Longrightarrow> c = dl_claimed_by d"
    "is_terminal st \<Longrightarrow> dl_claimed_by d \<noteq> None" "st \<in> {Read, Claimed, Done, Archived, Rejected, Snoozed}"
  shows "delivery_next d (moved_delivery d c st sn t)"
  using assms by (simp add: delivery_next_def moved_delivery_def)

lemma transition_result:
  "transition_delivery_with_snooze d c actor st sn t s = (Inr (moved_delivery d c st sn t),
     let s2 = append_claim \<lparr> ce_schema_version = 1, ce_delivery_id = dl_delivery_id d,
           ce_message_id = dl_message_id d, ce_thread_id = dl_thread_id d, ce_recipient = dl_recipient d,
           ce_agent_id = actor, ce_state = st, ce_occurred_at = t \<rparr> (append_delivery (moved_delivery d c st sn t) s)
     in if c = Some actor then suppress_competing_notifications (dl_delivery_id d) actor t s2 else s2)"
  by (simp add: transition_delivery_with_snooze_def moved_delivery_def Let_def)

lemma transition_deliveries:
  "st_deliveries (snd (transition_delivery_with_snooze d c actor st sn t s)) =
     st_deliveries s @ [moved_delivery d c st sn t]"
  by (simp add: transition_result Let_def append_delivery_def)

lemma transition_inv:
  assumes inv: "mail_inv s" and latest: "latest_delivery s (dl_delivery_id d) = Some d"
    and nxt: "delivery_next d (moved_delivery d c st sn t)"
    and c: "c = Some actor \<or> c = None"
  shows "mail_inv (snd (transition_delivery_with_snooze d c actor st sn t s))"
proof -
  define s1 where "s1 = append_delivery (moved_delivery d c st sn t) s"
  define s2 where "s2 = append_claim \<lparr> ce_schema_version = 1, ce_delivery_id = dl_delivery_id d,
           ce_message_id = dl_message_id d, ce_thread_id = dl_thread_id d, ce_recipient = dl_recipient d,
           ce_agent_id = actor, ce_state = st, ce_occurred_at = t \<rparr> s1"
  define s3 where "s3 = (if c = Some actor then suppress_competing_notifications (dl_delivery_id d) actor t s2 else s2)"
  have res: "snd (transition_delivery_with_snooze d c actor st sn t s) = s3"
    by (simp add: transition_result s3_def s2_def s1_def Let_def)
  have dels: "st_deliveries s3 = st_deliveries s1" and out2: "st_outbox s2 = st_outbox s"
    by (simp_all add: s3_def s2_def s1_def)
  have "deliveries.valid s1"
    unfolding s1_def using inv latest nxt
    by (intro deliveries.valid_append_next)
      (auto simp: mail_inv_def latest_delivery_def latest_deliveries_ledger)
  then have "deliveries.valid s3"
    using deliveries.valid_cong [OF dels] by simp
  moreover have "outbox.valid s2"
    using inv outbox.valid_cong [OF out2] by (simp add: mail_inv_def)
  then have "outbox.valid s3"
    by (simp add: s3_def suppress_outbox_valid)
  moreover have "pending_fits s3 n" if get: "bt_get (latest_notifications s3) k = Some n" for k n
  proof -
    have latest3: "latest_delivery s3 i = (if i = dl_delivery_id d then Some (moved_delivery d c st sn t)
        else latest_delivery s i)" for i
      using latest_delivery_cong [OF dels] by (simp add: s1_def)
    have old: "pending_fits s m" if "bt_get (latest_notifications s) k = Some m" for m
      using inv that by (simp add: mail_inv_def no_rival_def)
    have same: "latest_notifications s2 = latest_notifications s"
      by (rule latest_notifications_cong [OF out2])
    show ?thesis
    proof (cases "c = Some actor")
      case True
      then obtain m where m: "bt_get (latest_notifications s) k = Some m"
          "n = (if suppressible (dl_delivery_id d) actor m then suppressed t m else m)"
        using get by (auto simp: s3_def suppress_latest same)
      then show ?thesis
        using old True by (auto simp: pending_fits_def latest3 suppressible_def split: if_splits)
    next
      case False
      then have "c = None" "bt_get (latest_notifications s) k = Some n"
        using c get by (auto simp: s3_def same)
      then show ?thesis
        using old by (auto simp: pending_fits_def latest3 split: if_splits)
    qed
  qed
  ultimately show ?thesis
    by (simp add: res mail_inv_def no_rival_def)
qed

section \<open>The operations keep the invariant\<close>

lemma claimed_by_other_None: "claimed_by_other d a = None \<longleftrightarrow> dl_claimed_by d = None \<or> dl_claimed_by d = Some a"
  by (auto simp: claimed_by_other_def split: option.splits)

lemma latest_delivery_id: "latest_delivery s i = Some d \<Longrightarrow> dl_delivery_id d = i"
  by (simp add: latest_delivery_def latest_deliveries_ledger deliveries.get_key)

lemma claim_cases:
  assumes "claim_delivery env i a t s = (r, s')"
  shows "s' = s \<or> (\<exists>d. latest_delivery s i = Some d \<and> \<not> is_terminal (dl_state d) \<and>
    (dl_claimed_by d = None \<or> dl_claimed_by d = Some a) \<and>
    (r, s') = transition_delivery_with_snooze d (Some a) a Claimed None t s)"
  using assms
  by (auto simp: claim_delivery_def st_try_def transition_delivery_def claimed_by_other_None
      split: sum.splits if_splits option.splits)

lemma mark_cases:
  assumes "mark_delivery env i a st t s = (r, s')"
  shows "s' = s \<or> (\<exists>d. latest_delivery s i = Some d \<and> \<not> is_terminal (dl_state d) \<and>
    (dl_claimed_by d = None \<or> dl_claimed_by d = Some a) \<and> is_mark_state st \<and>
    (is_terminal st \<longrightarrow> dl_claimed_by d \<noteq> None) \<and>
    (r, s') = transition_delivery_with_snooze d (if st = Read then dl_claimed_by d else Some a) a st None t s)"
  using assms
  by (auto simp: mark_delivery_def st_try_def transition_delivery_def claimed_by_other_None
      split: sum.splits if_splits option.splits)

lemma snooze_cases:
  assumes "snooze_delivery env i a u t s = (r, s')"
  shows "s' = s \<or> (\<exists>d. latest_delivery s i = Some d \<and> \<not> is_terminal (dl_state d) \<and>
    (dl_claimed_by d = None \<or> dl_claimed_by d = Some a) \<and>
    (r, s') = transition_delivery_with_snooze d (Some a) a Snoozed (Some u) t s)"
  using assms
  by (auto simp: snooze_delivery_def st_try_def claimed_by_other_None
      split: sum.splits if_splits option.splits)

lemma transition_step_inv:
  assumes "mail_inv s" "latest_delivery s i = Some d" "\<not> is_terminal (dl_state d)"
    "dl_claimed_by d = None \<or> dl_claimed_by d = Some a" "is_terminal st \<longrightarrow> dl_claimed_by d \<noteq> None"
    "st \<in> {Read, Claimed, Done, Archived, Rejected, Snoozed}" "c = Some a \<or> c = dl_claimed_by d"
    "(r, s') = transition_delivery_with_snooze d c a st sn t s"
  shows "mail_inv s'"
proof -
  have "delivery_next d (moved_delivery d c st sn t)"
    using assms(3-7) by (intro moved_delivery_next) auto
  moreover have "latest_delivery s (dl_delivery_id d) = Some d"
    using assms(2) latest_delivery_id by metis
  ultimately have "mail_inv (snd (transition_delivery_with_snooze d c a st sn t s))"
    using assms(1,4,7) by (intro transition_inv) auto
  then show ?thesis
    using assms(8) by (metis snd_conv)
qed

lemma claim_inv:
  assumes "mail_inv s"
  shows "mail_inv (snd (claim_delivery env i a t s))"
proof -
  obtain r s' where res: "claim_delivery env i a t s = (r, s')"
    by (metis surj_pair)
  consider "s' = s" | d where "latest_delivery s i = Some d" "\<not> is_terminal (dl_state d)"
      "dl_claimed_by d = None \<or> dl_claimed_by d = Some a"
      "(r, s') = transition_delivery_with_snooze d (Some a) a Claimed None t s"
    using claim_cases [OF res] by blast
  then have "mail_inv s'"
  proof cases
    case (2 d)
    show ?thesis
      by (rule transition_step_inv [OF assms 2(1,2,3) _ _ _ 2(4)]) (simp_all add: is_terminal_def)
  qed (use assms in simp)
  then show ?thesis by (simp add: res)
qed

lemma snooze_inv:
  assumes "mail_inv s"
  shows "mail_inv (snd (snooze_delivery env i a u t s))"
proof -
  obtain r s' where res: "snooze_delivery env i a u t s = (r, s')"
    by (metis surj_pair)
  consider "s' = s" | d where "latest_delivery s i = Some d" "\<not> is_terminal (dl_state d)"
      "dl_claimed_by d = None \<or> dl_claimed_by d = Some a"
      "(r, s') = transition_delivery_with_snooze d (Some a) a Snoozed (Some u) t s"
    using snooze_cases [OF res] by blast
  then have "mail_inv s'"
  proof cases
    case (2 d)
    show ?thesis
      by (rule transition_step_inv [OF assms 2(1,2,3) _ _ _ 2(4)]) (simp_all add: is_terminal_def)
  qed (use assms in simp)
  then show ?thesis by (simp add: res)
qed

lemma mark_inv:
  assumes "mail_inv s"
  shows "mail_inv (snd (mark_delivery env i a st t s))"
proof -
  obtain r s' where res: "mark_delivery env i a st t s = (r, s')"
    by (metis surj_pair)
  show ?thesis
    using mark_cases [OF res]
  proof
    assume "\<exists>d. latest_delivery s i = Some d \<and> \<not> is_terminal (dl_state d) \<and>
      (dl_claimed_by d = None \<or> dl_claimed_by d = Some a) \<and> is_mark_state st \<and>
      (is_terminal st \<longrightarrow> dl_claimed_by d \<noteq> None) \<and>
      (r, s') = transition_delivery_with_snooze d (if st = Read then dl_claimed_by d else Some a) a st None t s"
    then obtain d where d: "latest_delivery s i = Some d" "\<not> is_terminal (dl_state d)"
        "dl_claimed_by d = None \<or> dl_claimed_by d = Some a" "is_mark_state st"
        "is_terminal st \<longrightarrow> dl_claimed_by d \<noteq> None"
        "(r, s') = transition_delivery_with_snooze d (if st = Read then dl_claimed_by d else Some a) a st None t s"
      by blast
    have "mail_inv s'"
      by (rule transition_step_inv [OF assms d(1,2,3,5) _ _ d(6)]) (use d(4) in \<open>auto simp: is_mark_state_def\<close>)
    then show ?thesis by (simp add: res)
  qed (use assms res in simp)
qed

text \<open>Sending: the map that the loop carries is the latest deliveries of the store it has reached.\<close>

lemma send_step_inv:
  assumes "send_step env e lim rcp (latest_deliveries s, att, s) = (m', att', s')" "mail_inv s"
  shows "mail_inv s' \<and> m' = latest_deliveries s'"
proof (cases "bt_get (latest_deliveries s) (stable_delivery_id env (me_message_id e) rcp)")
  case (Some d)
  then have s': "s' = ensure_delivery_notifications env d s" "m' = latest_deliveries s"
    using assms(1) by (auto simp: send_step_def Let_def)
  moreover have "latest_delivery s (dl_delivery_id d) = Some d"
    using Some deliveries.get_key by (simp add: latest_delivery_def latest_deliveries_ledger)
  ultimately show ?thesis
    using assms(2) ensure_delivery_inv by (simp add: latest_deliveries_def)
next
  case None
  show ?thesis
  proof (cases "case lim of None \<Rightarrow> False | Some limit \<Rightarrow> open_delivery_count (latest_deliveries s) rcp \<ge> limit")
    case True
    then have s': "s' = append_dead_letter (mailbox_full_letter e rcp (the lim)) s" "m' = latest_deliveries s"
      using assms(1) None by (auto simp: send_step_def Let_def)
    then show ?thesis
      using assms(2) mail_inv_cong [of s' s] by (simp add: latest_deliveries_def)
  next
    case False
    let ?d = "new_delivery env e rcp"
    let ?s1 = "append_delivery ?d s"
    have s': "s' = ensure_delivery_notifications env ?d ?s1" "m' = bt_insert (dl_delivery_id ?d) ?d (latest_deliveries s)"
      using assms(1) None False by (auto simp: send_step_def Let_def)
    have id: "dl_delivery_id ?d = stable_delivery_id env (me_message_id e) rcp"
      by (simp add: new_delivery_def)
    have "deliveries.valid ?s1"
      using assms(2) None
      by (intro deliveries.valid_append_new)
        (auto simp: mail_inv_def id latest_deliveries_ledger delivery_initial_def new_delivery_def)
    moreover have "outbox.valid ?s1"
      using assms(2) outbox.valid_cong [of ?s1 s] by (simp add: mail_inv_def)
    moreover have "pending_fits ?s1 n" if "bt_get (latest_notifications ?s1) k = Some n" for k n
      using that assms(2) latest_notifications_cong [of ?s1 s]
      by (auto simp: mail_inv_def no_rival_def pending_fits_def new_delivery_def)
    ultimately have "mail_inv ?s1"
      by (simp add: mail_inv_def no_rival_def)
    then have "mail_inv s'"
      unfolding s' by (rule ensure_delivery_inv) simp
    moreover have "m' = latest_deliveries s'"
      by (simp add: s' latest_deliveries_def) (simp add: append_delivery_def)
    ultimately show ?thesis by blast
  qed
qed

lemma send_loop_inv:
  assumes "mail_inv s" "fold (send_step env e lim) rcps (latest_deliveries s, att, s) = (m', att', s')"
  shows "mail_inv s' \<and> m' = latest_deliveries s'"
  using assms
proof (induction rcps arbitrary: att s)
  case Nil
  then show ?case by auto
next
  case (Cons rcp rcps)
  obtain m1 att1 s1 where one: "send_step env e lim rcp (latest_deliveries s, att, s) = (m1, att1, s1)"
    by (metis surj_pair)
  then have "fold (send_step env e lim) rcps (m1, att1, s1) = (m', att', s')"
    using Cons.prems(2) by simp
  then show ?case
    using send_step_inv [OF one Cons.prems(1)] Cons.IH [of s1 att1] by simp
qed

lemma accept_frames [frame]:
  "st_deliveries (snd (accept_message_unlocked env e b s)) = st_deliveries s"
  "st_outbox (snd (accept_message_unlocked env e b s)) = st_outbox s"
  "st_agents (snd (accept_message_unlocked env e b s)) = st_agents s"
  by (auto simp: accept_message_unlocked_def write_message_def st_then_def st_try_def Let_def
      split: option.splits sum.splits)

lemma send_inv:
  assumes "mail_inv s"
  shows "mail_inv (snd (send_mail env e b lim s))"
proof -
  let ?s1 = "snd (accept_message_unlocked env e b s)"
  have s1: "mail_inv ?s1"
    using assms mail_inv_cong [OF accept_frames(1,2)] by simp
  have loop: "mail_inv s'" if "fold (send_step env e' lim) rcps (latest_deliveries ?s1, [], ?s1) = (m, att, s')"
    for e' rcps m att s'
    using send_loop_inv [OF s1 that] by blast
  obtain r s2 where acc: "accept_message_unlocked env e b s = (r, s2)"
    by (metis surj_pair)
  show ?thesis
    unfolding send_mail_def st_try_def st_then_def Let_def
    using assms s1 loop acc by (auto split: sum.splits prod.splits)
qed

lemma inv_if_frames:
  "mail_inv s \<Longrightarrow> st_deliveries s' = st_deliveries s \<Longrightarrow> st_outbox s' = st_outbox s \<Longrightarrow> mail_inv s'"
  using mail_inv_cong by blast

lemma identify_inv: "mail_inv s \<Longrightarrow> mail_inv (snd (identify_agent env q pol s))"
  by (erule inv_if_frames) (auto simp: identify_agent_def identify_commit_def st_try_def split: sum.splits)

lemma heartbeat_inv: "mail_inv s \<Longrightarrow> mail_inv (snd (heartbeat_agent a x t s))"
  by (erule inv_if_frames) (auto simp: heartbeat_agent_def st_try_def Let_def split: sum.splits)

lemma retire_inv: "mail_inv s \<Longrightarrow> mail_inv (snd (retire_agent a x t s))"
  by (erule inv_if_frames) (auto simp: retire_agent_def st_try_def Let_def split: sum.splits)

lemma rebuild_frames [frame]:
  "st_deliveries (snd (rebuild_mailbox env r s)) = st_deliveries s"
  "st_outbox (snd (rebuild_mailbox env r s)) = st_outbox s"
  "st_agents (snd (rebuild_mailbox env r s)) = st_agents s"
  by (simp_all add: rebuild_mailbox_def Let_def)

lemma rebuild_inv: "mail_inv s \<Longrightarrow> mail_inv (snd (rebuild_mailbox env r s))"
  by (erule inv_if_frames) (simp_all add: frame)

lemma inbox_due_frames:
  "st_deliveries (snd (mail_inbox_due env r t s)) = st_deliveries s"
  "st_outbox (snd (mail_inbox_due env r t s)) = st_outbox s"
  "st_agents (snd (mail_inbox_due env r t s)) = st_agents s"
  using rebuild_frames [of env r s]
  by (auto simp: mail_inbox_due_def st_try_def split: sum.splits prod.splits)

lemma inbox_fold_frames:
  "st_deliveries (snd (fold (agent_inbox_step env a) as (m, s))) = st_deliveries s \<and>
   st_outbox (snd (fold (agent_inbox_step env a) as (m, s))) = st_outbox s \<and>
   st_agents (snd (fold (agent_inbox_step env a) as (m, s))) = st_agents s"
proof (induction as arbitrary: m s)
  case (Cons x as)
  obtain rows s1 where "rebuild_mailbox env x s = (rows, s1)"
    by (metis surj_pair)
  then show ?case
    using Cons.IH [of _ s1] rebuild_frames [of env x s] by (simp add: agent_inbox_step_def)
qed simp

lemma agent_inbox_frames:
  "st_deliveries (snd (agent_inbox env a s)) = st_deliveries s"
  "st_outbox (snd (agent_inbox env a s)) = st_outbox s"
  "st_agents (snd (agent_inbox env a s)) = st_agents s"
  using inbox_fold_frames [of env]
  by (auto simp: agent_inbox_def st_try_def split: sum.splits prod.splits) (metis snd_conv)+

lemma poll_inv: "mail_inv s \<Longrightarrow> mail_inv (snd (notification_poll env a t s))"
  by (auto simp: notification_poll_def st_try_def Let_def ensure_agent_inv split: sum.splits)

lemma dispatch_inv: "mail_inv s \<Longrightarrow> mail_inv (snd (notification_dispatch_queue env a t s))"
  by (auto simp: notification_dispatch_queue_def st_try_def Let_def ensure_agent_inv split: sum.splits)

lemma pending_fits_state: "nt_state n \<noteq> Pending \<Longrightarrow> pending_fits s n"
  by (simp add: pending_fits_def)

lemma acknowledge_inv:
  assumes "mail_inv s"
  shows "mail_inv (snd (acknowledge_notification env a i t s))"
proof -
  have "mail_inv (append_notification (n\<lparr> nt_state := Acknowledged, nt_updated_at := t, nt_acknowledged_at := Some t \<rparr>) s)"
    if "bt_get (latest_notifications s) i = Some n" "nt_state n \<noteq> Acknowledged" "nt_state n \<noteq> Suppressed" for n
  proof (rule mail_inv_append_notification [OF assms])
    have "nt_notification_id n = i"
      using that(1) outbox.get_key by (simp add: latest_notifications_ledger)
    moreover have "nt_state n = Pending"
      using that(2,3) by (cases "nt_state n") simp_all
    ultimately show "nt_state m = Pending"
      if "bt_get (latest_notifications s) (nt_notification_id (n\<lparr> nt_state := Acknowledged, nt_updated_at := t,
        nt_acknowledged_at := Some t \<rparr>)) = Some m" for m
      using that \<open>bt_get (latest_notifications s) i = Some n\<close> by simp
  qed (use that outbox.get_key in \<open>auto simp: pending_fits_def latest_notifications_ledger\<close>)
  then show ?thesis
    using assms by (auto simp: acknowledge_notification_def st_try_def Let_def ok_or_def split: sum.splits option.splits)
qed

lemma steering_needs_pending:
  "codex_steering_payload_for_attempt n i s = Inr p \<Longrightarrow>
    \<exists>m. bt_get (latest_notifications s) (nt_notification_id n) = Some m \<and> nt_state m = Pending"
  by (auto simp: codex_steering_payload_for_attempt_def result_simps split: if_splits)

lemma attempt_inv:
  assumes "mail_inv s"
  shows "mail_inv (snd (record_notification_attempt env n st t err s))"
proof -
  have att: "mail_inv (append_notification_attempt a s)" for a
    using inv_if_frames [OF assms] by simp
  have noted: "mail_inv (append_notification m' (append_notification_attempt a s))"
    if prem: "bt_get (latest_notifications s) (nt_notification_id n) = Some m"
      "codex_steering_payload_for_attempt m i s = Inr p"
      "m' = m\<lparr> nt_attempt_count := c, nt_last_attempt_at := x, nt_updated_at := u, nt_last_error := e,
        nt_next_dispatch_at := d \<rparr>" for m m' i p a c x u e d
  proof (rule mail_inv_append_notification [OF att])
    let ?s = "append_notification_attempt a s"
    have same: "latest_notifications ?s = latest_notifications s"
      by (rule latest_notifications_cong) simp
    have id: "nt_notification_id m = nt_notification_id n"
      using prem(1) outbox.get_key by (simp add: latest_notifications_ledger)
    have pend: "nt_state m = Pending"
      using steering_needs_pending [OF prem(2)] prem(1) id by auto
    have "pending_fits s m"
      using assms prem(1) by (simp add: mail_inv_def no_rival_def)
    then show "pending_fits ?s m'"
      using pending_fits_cong [of ?s s m'] prem(3) by (simp add: pending_fits_def)
    show "nt_state k = Pending" if "bt_get (latest_notifications ?s) (nt_notification_id m') = Some k" for k
      using that same id pend prem by simp
    show "nt_state m' = Pending"
      using pend prem(3) by simp
  qed
  show ?thesis
    using assms att noted
    by (auto simp: record_notification_attempt_def st_try_def Let_def ok_or_def
        split: option.splits sum.splits)
qed

lemma injection_frames:
  "st_deliveries (snd (record_mail_injection_result env i a th k res t err s)) = st_deliveries s"
  "st_outbox (snd (record_mail_injection_result env i a th k res t err s)) = st_outbox s"
  "st_agents (snd (record_mail_injection_result env i a th k res t err s)) = st_agents s"
  by (auto simp: record_mail_injection_result_def st_try_def Let_def split: sum.splits option.splits)

section \<open>Reachable stores\<close>

text \<open>
  One step is one call of an operation that can change the store, with any arguments; a failed call is
  a step too, because what it appended stays.
\<close>

inductive mail_step :: "mail_env \<Rightarrow> mail_store \<Rightarrow> mail_store \<Rightarrow> bool" for env where
  accept: "mail_step env s (snd (accept_message env e b s))"
| send: "mail_step env s (snd (send_mail env e b lim s))"
| identify: "mail_step env s (snd (identify_agent env q pol s))"
| heartbeat: "mail_step env s (snd (heartbeat_agent a x t s))"
| retire: "mail_step env s (snd (retire_agent a x t s))"
| rebuild: "mail_step env s (snd (rebuild_mailbox env r s))"
| inbox_due: "mail_step env s (snd (mail_inbox_due env r t s))"
| inbox: "mail_step env s (snd (agent_inbox env a s))"
| claim: "mail_step env s (snd (claim_delivery env i a t s))"
| mark: "mail_step env s (snd (mark_delivery env i a st t s))"
| snooze: "mail_step env s (snd (snooze_delivery env i a u t s))"
| poll: "mail_step env s (snd (notification_poll env a t s))"
| dispatch: "mail_step env s (snd (notification_dispatch_queue env a t s))"
| acknowledge: "mail_step env s (snd (acknowledge_notification env a i t s))"
| attempt: "mail_step env s (snd (record_notification_attempt env n st' t err s))"
| injection: "mail_step env s (snd (record_mail_injection_result env i a th k res t err s))"

inductive mail_reachable :: "mail_env \<Rightarrow> mail_store \<Rightarrow> bool" for env where
  start: "mail_reachable env empty_store"
| step: "mail_reachable env s \<Longrightarrow> mail_step env s s' \<Longrightarrow> mail_reachable env s'"

inductive_cases mail_stepE: "mail_step env s s'"

lemma mail_step_inv:
  assumes "mail_step env s s'" "mail_inv s"
  shows "mail_inv s'"
  using assms
proof cases
  case accept
  then show ?thesis
    using assms(2) by (simp add: accept_message_def inv_if_frames accept_frames)
qed (use assms(2) in \<open>simp_all add: send_inv identify_inv heartbeat_inv retire_inv rebuild_inv claim_inv mark_inv
    snooze_inv poll_inv dispatch_inv acknowledge_inv attempt_inv inv_if_frames inbox_due_frames
    agent_inbox_frames injection_frames\<close>)

lemma empty_inv: "mail_inv empty_store"
  by (simp add: mail_inv_def no_rival_def deliveries.valid_def outbox.valid_def deliveries.history_def
      outbox.history_def latest_notifications_def empty_store_def)

lemma reachable_inv: "mail_reachable env s \<Longrightarrow> mail_inv s"
  by (induction rule: mail_reachable.induct) (simp_all add: empty_inv mail_step_inv)

end
