(* ===== verification/Mail_Properties.thy ===== *)
theory Mail_Properties
  imports Mail_Safety
begin

text \<open>
  The promises of the mail store, read off the invariant of \<open>Mail_Safety\<close> and the operations of
  \<open>Mail_Store\<close>, each with an instance on a concrete store.
\<close>

section \<open>A concrete store\<close>

definition example_env :: mail_env where
  "example_env = \<lparr> env_sha = (\<lambda>s. rev (take 8 (rev s @ replicate 8 CHR ''x'')) @ replicate 24 CHR ''x''), env_url = split_url,
     env_time = (\<lambda>s. if s = [] then None else Some (int (length s))), env_rfc3339_secs = (\<lambda>t. ''later''),
     env_envelope_json = (\<lambda>e. me_subject e), env_receipt_json = (\<lambda>r. ''receipt'') \<rparr>"

definition example_request :: "string \<Rightarrow> agent_identify_request" where
  "example_request thread = \<lparr> iq_transport_kind = ''codex'', iq_thread_id = thread,
     iq_requested_roles = [''role://wiki.editor''], iq_requested_capabilities = [],
     iq_lease_expires_at = ''2026-05-01T10:00:00+00:00'', iq_occurred_at = ''2026-05-01'' \<rparr>"

definition example_policy :: agent_grant_policy where
  "example_policy = \<lparr> gp_allowed_roles = [''role://wiki.editor''], gp_allowed_capabilities = [] \<rparr>"

definition example_envelope :: message_envelope where
  "example_envelope = \<lparr> me_schema_version = 1, me_message_id = ''m1'', me_idempotency_key = ''k1'',
     me_kind = ''note'', me_subject = ''hello'', me_from = ''system://wiki'', me_to = [''role://wiki.editor''],
     me_cc = [], me_page = None, me_thread_id = ''t1'', me_reply_to = None,
     me_body = \<lparr> mb_format = ''md'', mb_sha256 = ''00'' \<rparr>, me_attachments = [],
     me_created_at = ''2026-05-01'' \<rparr>"

definition agent_a :: string where "agent_a = stable_agent_id example_env ''codex'' ''a''"
definition agent_b :: string where "agent_b = stable_agent_id example_env ''codex'' ''b''"
definition example_delivery_id :: string where
  "example_delivery_id = stable_delivery_id example_env ''m1'' ''role://wiki.editor''"

definition store_identified :: mail_store where
  "store_identified = snd (identify_agent example_env (example_request ''b'') example_policy
     (snd (identify_agent example_env (example_request ''a'') example_policy empty_store)))"

definition store_sent :: mail_store where
  "store_sent = snd (send_mail example_env example_envelope ''body'' (Some 3) store_identified)"

definition store_claimed :: mail_store where
  "store_claimed = snd (claim_delivery example_env example_delivery_id agent_a ''2026-05-01'' store_sent)"

lemma store_sent_reachable: "mail_reachable example_env store_sent"
proof -
  have "mail_reachable env (snd (identify_agent env q pol empty_store))" for env q pol
    by (rule mail_reachable.step [OF mail_reachable.start mail_step.identify])
  then have "mail_reachable env (snd (identify_agent env r pol (snd (identify_agent env q pol empty_store))))" for env q r pol
    by (rule mail_reachable.step [OF _ mail_step.identify])
  then show ?thesis
    unfolding store_sent_def store_identified_def
    by (intro mail_reachable.step [OF _ mail_step.send]) blast
qed

lemma store_claimed_reachable: "mail_reachable example_env store_claimed"
  unfolding store_claimed_def by (rule mail_reachable.step [OF store_sent_reachable mail_step.claim])

section \<open>Claims\<close>

definition claims_exclusive :: "mail_store \<Rightarrow> bool" where
  "claims_exclusive s \<longleftrightarrow> (\<forall>d e a b. d \<in> set (st_deliveries s) \<longrightarrow> e \<in> set (st_deliveries s) \<longrightarrow>
     dl_delivery_id d = dl_delivery_id e \<longrightarrow>
     dl_message_id d = dl_message_id e \<and> dl_recipient d = dl_recipient e \<and> dl_thread_id d = dl_thread_id e \<and>
     (dl_claimed_by d = Some a \<longrightarrow> dl_claimed_by e = Some b \<longrightarrow> a = b))"

definition terminal_final :: "mail_store \<Rightarrow> bool" where
  "terminal_final s \<longleftrightarrow> (\<forall>xs d ys. st_deliveries s = xs @ d # ys \<longrightarrow> is_terminal (dl_state d) \<longrightarrow>
     dl_claimed_by d \<noteq> None \<and> dl_delivery_id d \<notin> dl_delivery_id ` set ys)"

lemma valid_claims_exclusive:
  assumes "deliveries.valid s"
  shows "claims_exclusive s"
  unfolding claims_exclusive_def
proof (intro allI impI conjI)
  fix d e a b
  assume mem: "d \<in> set (st_deliveries s)" "e \<in> set (st_deliveries s)" and id: "dl_delivery_id d = dl_delivery_id e"
  let ?h = "deliveries.history s (dl_delivery_id d)"
  have h: "d \<in> set ?h" "e \<in> set ?h"
    using mem id by (simp_all add: deliveries.history_def)
  have succ: "successively delivery_next ?h"
    using assms by (rule deliveries.valid_successively)
  show "dl_message_id d = dl_message_id e" "dl_recipient d = dl_recipient e" "dl_thread_id d = dl_thread_id e"
    using history_identity [OF succ h] by simp_all
  assume "dl_claimed_by d = Some a" "dl_claimed_by e = Some b"
  then show "a = b"
    by (rule history_claims_agree [OF succ h])
qed

lemma valid_terminal_final:
  assumes "deliveries.valid s"
  shows "terminal_final s"
  unfolding terminal_final_def
proof (intro allI impI)
  fix xs d ys
  assume eq: "st_deliveries s = xs @ d # ys" and final: "is_terminal (dl_state d)"
  let ?f = "filter (\<lambda>r. dl_delivery_id r = dl_delivery_id d)"
  have h: "deliveries.history s (dl_delivery_id d) = ?f xs @ d # ?f ys"
    by (simp add: deliveries.history_def eq)
  have succ: "successively delivery_next (?f xs @ d # ?f ys)"
    using deliveries.valid_successively [OF assms, of "dl_delivery_id d"] by (simp add: h)
  have "?f ys = []"
    using history_terminal_last [OF succ final] .
  then have "dl_delivery_id d \<notin> dl_delivery_id ` set ys"
    by (auto simp: filter_empty_conv)
  moreover have "?f xs \<noteq> []"
  proof
    assume "?f xs = []"
    then have "delivery_initial d"
      using deliveries.valid_initial [OF assms, of "dl_delivery_id d"] by (simp add: h)
    then show False
      using final by (simp add: delivery_initial_def is_terminal_def)
  qed
  then have "delivery_next (last (?f xs)) d"
    using succ by (simp add: successively_append_iff)
  then have "dl_claimed_by d \<noteq> None"
    using final by (auto simp: delivery_next_def)
  ultimately show "dl_claimed_by d \<noteq> None \<and> dl_delivery_id d \<notin> dl_delivery_id ` set ys"
    by blast
qed

text \<open>C1. In every reachable store, two records of one delivery never name different claimants, and they
  agree on the message, the thread and the recipient: whatever the interleaving of sends, claims, marks
  and snoozes, a delivery has at most one claimant for ever.\<close>

theorem delivery_claims_exclusive:
  assumes "mail_reachable env s"
  shows "claims_exclusive s"
  using reachable_inv [OF assms] by (simp add: mail_inv_def valid_claims_exclusive)

theorem delivery_claims_exclusive_witness: "claims_exclusive store_claimed"
  by (rule delivery_claims_exclusive [OF store_claimed_reachable])

text \<open>C17. In every reachable store, a delivery that is done, archived or rejected was claimed before, and
  no record of it follows.\<close>

theorem delivery_terminal_final:
  assumes "mail_reachable env s"
  shows "terminal_final s"
  using reachable_inv [OF assms] by (simp add: mail_inv_def valid_terminal_final)

theorem delivery_terminal_final_witness: "terminal_final store_claimed"
  by (rule delivery_terminal_final [OF store_claimed_reachable])

text \<open>An agent that may act at a time: its latest record is active and its latest lease has not expired.\<close>

definition agent_live :: "mail_env \<Rightarrow> mail_store \<Rightarrow> string \<Rightarrow> string \<Rightarrow> agent_record \<Rightarrow> bool" where
  "agent_live env s a t r \<longleftrightarrow> segment_ok a \<and> latest_agent_record s a = Some r \<and> ar_state r = AgentActive \<and>
     (case latest_agent_lease s a of None \<Rightarrow> False
      | Some l \<Rightarrow> (case (env_time env t, env_time env (al_lease_expires_at l)) of
          (Some now, Some expires) \<Rightarrow> expires > now | _ \<Rightarrow> False))"

lemma require_live_agent_iff:
  "segment_ok a \<Longrightarrow> require_live_agent env a t s = Inr r \<longleftrightarrow> agent_live env s a t r"
proof (cases "latest_agent_record s a")
  case (Some q)
  assume seg: "segment_ok a"
  show ?thesis
  proof (cases "ar_state q = AgentActive")
    case True
    note defs = require_live_agent_def require_active_agent_def agent_push_eligibility_def agent_status_def
      agent_live_def parse_time_def ok_or_def Let_def Some
    show ?thesis
      using seg True
      by (cases "env_time env t"; cases "latest_agent_lease s a") (auto simp: defs split: option.split)
  qed (auto simp: require_live_agent_def require_active_agent_def ok_or_def agent_live_def Some)
qed (simp add: require_live_agent_def require_active_agent_def ok_or_def agent_live_def)

lemma require_delivery_access_iff [simp]:
  "require_delivery_access r d = Inr u \<longleftrightarrow> delivery_visible_to_agent r d"
  by (simp add: require_delivery_access_def)

definition claim_allowed :: "mail_env \<Rightarrow> mail_store \<Rightarrow> string \<Rightarrow> string \<Rightarrow> string \<Rightarrow> bool" where
  "claim_allowed env s i a t \<longleftrightarrow> segment_ok i \<and> (\<exists>r d. agent_live env s a t r \<and> latest_delivery s i = Some d \<and>
     delivery_visible_to_agent r d \<and> \<not> is_terminal (dl_state d) \<and> dl_claimed_by d \<in> {None, Some a})"

definition claim_done :: "string \<Rightarrow> string \<Rightarrow> (mail_error + delivery_record) \<times> mail_store \<Rightarrow> bool" where
  "claim_done i a res \<longleftrightarrow> (case res of (Inr d, s') \<Rightarrow>
     latest_delivery s' i = Some d \<and> dl_state d = Claimed \<and> dl_claimed_by d = Some a | _ \<Rightarrow> False)"

lemma claim_delivery_Inr:
  assumes "claim_delivery env i a t s = (Inr d', s')"
  shows "claim_allowed env s i a t \<and> claim_done i a (Inr d', s')"
proof -
  obtain r d where pre: "segment_ok i" "segment_ok a" "require_live_agent env a t s = Inr r"
      "latest_delivery s i = Some d" "delivery_visible_to_agent r d" "\<not> is_terminal (dl_state d)"
    and rest: "(dl_state d = Claimed \<and> dl_claimed_by d = Some a \<and> d' = d \<and> s' = s) \<or>
      (claimed_by_other d a = None \<and> transition_delivery d (Some a) a Claimed t s = (Inr d', s'))"
    using assms by (auto simp: claim_delivery_def result_simps split: if_splits option.splits)
  have "dl_claimed_by d \<in> {None, Some a}"
    using rest by (auto simp: claimed_by_other_None)
  then have "claim_allowed env s i a t"
    using pre require_live_agent_iff [OF pre(2)] by (auto simp: claim_allowed_def)
  moreover have "claim_done i a (Inr d', s')"
    using rest
  proof
    assume "dl_state d = Claimed \<and> dl_claimed_by d = Some a \<and> d' = d \<and> s' = s"
    then show ?thesis
      using pre(4) by (simp add: claim_done_def)
  next
    assume "claimed_by_other d a = None \<and> transition_delivery d (Some a) a Claimed t s = (Inr d', s')"
    then have tr: "transition_delivery_with_snooze d (Some a) a Claimed None t s = (Inr d', s')"
      by (simp add: transition_delivery_def)
    then have d': "d' = moved_delivery d (Some a) Claimed None t"
      by (simp add: transition_result)
    have "st_deliveries s' = st_deliveries (append_delivery d' s)"
      using transition_deliveries [of d "Some a" a Claimed None t s] tr d' by (simp add: append_delivery_def)
    then have "latest_delivery s' i = latest_delivery (append_delivery d' s) i"
      using latest_delivery_cong by metis
    then show ?thesis
      using latest_delivery_id [OF pre(4)] by (simp add: claim_done_def d')
  qed
  ultimately show ?thesis by blast
qed

lemma claim_allowed_succeeds:
  assumes "claim_allowed env s i a t"
  shows "\<exists>d' s'. claim_delivery env i a t s = (Inr d', s')"
proof -
  obtain r d where ok: "segment_ok i" "agent_live env s a t r" "latest_delivery s i = Some d"
      "delivery_visible_to_agent r d" "\<not> is_terminal (dl_state d)" "dl_claimed_by d \<in> {None, Some a}"
    using assms unfolding claim_allowed_def by blast
  have seg: "segment_ok a"
    using ok(2) by (simp add: agent_live_def)
  have live: "require_live_agent env a t s = Inr r"
    using require_live_agent_iff [OF seg] ok(2) by blast
  have other: "claimed_by_other d a = None"
    using ok(6) by (auto simp: claimed_by_other_None)
  show ?thesis
    using ok seg live other
    by (simp add: claim_delivery_def ok_or_def require_delivery_access_def transition_delivery_def transition_result)
qed

text \<open>A claim succeeds exactly when the identifiers are path-safe, the agent is active with a lease that
  has not expired at the given time, the delivery exists and is addressed to the agent or to a role it
  was granted, is not terminal and is unclaimed or already claimed by this agent; after a successful
  claim the delivery is claimed by the agent.\<close>

theorem claim_delivery_iff:
  "(if claim_allowed env s i a t then claim_done i a (claim_delivery env i a t s)
    else (\<exists>e. claim_delivery env i a t s = (Inl e, s)))"
proof (cases "claim_allowed env s i a t")
  case True
  then obtain d' s' where res: "claim_delivery env i a t s = (Inr d', s')"
    using claim_allowed_succeeds by blast
  then show ?thesis
    using True claim_delivery_Inr [OF res] by simp
next
  case False
  obtain r s' where res: "claim_delivery env i a t s = (r, s')"
    by (metis surj_pair)
  then have "\<exists>e. r = Inl e"
    using False claim_delivery_Inr [of env i a t s] by (cases r) auto
  moreover have "s' = s"
    using claim_cases [OF res] calculation by (auto simp: transition_result)
  ultimately show ?thesis
    using False res by auto
qed

text \<open>Deliveries are only appended, whatever the operation.\<close>

lemma send_loop_prefix:
  "prefix (st_deliveries s) (st_deliveries (snd (snd (fold (send_step env e lim) rcps (m, att, s)))))"
proof (induction rcps arbitrary: m att s)
  case (Cons rcp rcps)
  obtain m1 att1 s1 where one: "send_step env e lim rcp (m, att, s) = (m1, att1, s1)"
    by (metis surj_pair)
  have "prefix (st_deliveries s) (st_deliveries s1)"
    using one by (auto simp: send_step_def Let_def append_delivery_def split: option.splits if_splits)
  then show ?case
    using Cons.IH [of s1 m1 att1] one by (auto intro: prefix_order.trans)
qed simp

lemma send_prefix: "prefix (st_deliveries s) (st_deliveries (snd (send_mail env e b lim s)))"
proof -
  obtain r s1 where acc: "accept_message_unlocked env e b s = (r, s1)"
    by (metis surj_pair)
  have same: "st_deliveries s1 = st_deliveries s"
    using accept_frames(1) [of env e b s] by (simp add: acc)
  have loop: "prefix (st_deliveries s) (st_deliveries s2)"
    if "fold (send_step env e' lim) rcps (latest_deliveries s1, [], s1) = (m, att, s2)" for e' rcps m att s2
    using send_loop_prefix [of s1 env e' lim rcps "latest_deliveries s1" "[]"] by (simp add: that same)
  show ?thesis
    unfolding send_mail_def st_try_def st_then_def Let_def
    using loop by (auto simp: acc same split: sum.splits prod.splits)
qed

lemma transition_prefix:
  "(r, s') = transition_delivery_with_snooze d c a st sn t s \<Longrightarrow> prefix (st_deliveries s) (st_deliveries s')"
  using transition_deliveries [of d c a st sn t s] by (metis prefixI snd_conv)

lemma step_prefix:
  assumes "mail_step env s s'"
  shows "prefix (st_deliveries s) (st_deliveries s')"
  using assms
proof cases
  case (accept e b)
  then show ?thesis
    by (simp add: accept_message_def accept_frames)
next
  case (send e b lim)
  then show ?thesis by (simp add: send_prefix)
next
  case (claim i a t)
  then show ?thesis
    using claim_cases [of env i a t s _ s'] transition_prefix by (metis prefix_order.refl surjective_pairing)
next
  case (mark i a st t)
  then show ?thesis
    using mark_cases [of env i a st t s _ s'] transition_prefix by (metis prefix_order.refl surjective_pairing)
next
  case (snooze i a u t)
  then show ?thesis
    using snooze_cases [of env i a u t s _ s'] transition_prefix by (metis prefix_order.refl surjective_pairing)
qed (auto simp: inbox_due_frames agent_inbox_frames injection_frames frame identify_agent_def identify_commit_def
    heartbeat_agent_def retire_agent_def notification_poll_def notification_dispatch_queue_def
    acknowledge_notification_def record_notification_attempt_def st_try_def Let_def split: sum.splits option.splits)

text \<open>A claimed delivery keeps its claimant in every later store.\<close>

lemma steps_keep_claim:
  assumes "(mail_step env)\<^sup>*\<^sup>* s s'" "mail_inv s" "latest_delivery s i = Some d" "dl_claimed_by d = Some a"
  shows "mail_inv s' \<and> (\<exists>d'. latest_delivery s' i = Some d' \<and> dl_claimed_by d' = Some a)"
  using assms(1)
proof (induction rule: rtranclp_induct)
  case base
  then show ?case using assms by blast
next
  case (step s1 s2)
  then obtain d1 where d1: "latest_delivery s1 i = Some d1" "dl_claimed_by d1 = Some a" and inv: "mail_inv s1"
    by blast
  have inv2: "mail_inv s2"
    using mail_step_inv [OF step.hyps(2) inv] .
  obtain ds where ds: "st_deliveries s2 = st_deliveries s1 @ ds"
    using step_prefix [OF step.hyps(2)] by (auto simp: prefix_def)
  have last1: "deliveries.history s1 i \<noteq> []" "last (deliveries.history s1 i) = d1"
    using d1(1) by (auto simp: latest_delivery_def latest_deliveries_ledger deliveries.latest_history last_option_Some)
  define hs where "hs = filter (\<lambda>r. dl_delivery_id r = i) ds"
  have hist: "deliveries.history s2 i = butlast (deliveries.history s1 i) @ d1 # hs"
    using last1 by (simp add: deliveries.history_def ds hs_def append_butlast_last_id flip: append_assoc)
      (metis append_butlast_last_id append.assoc append_Cons append_Nil)
  have "successively delivery_next (d1 # hs)"
    using deliveries.valid_successively [of s2 i] inv2 by (simp add: hist mail_inv_def successively_append_iff)
  then have "dl_claimed_by (last (d1 # hs)) = Some a"
    using history_claim_kept [of d1 hs a] d1(2) last_in_set [of hs] by (cases "hs = []") auto
  moreover have "latest_delivery s2 i = Some (last (d1 # hs))"
    by (simp add: latest_delivery_def latest_deliveries_ledger deliveries.latest_history last_option_def hist)
  ultimately show ?case
    using inv2 by blast
qed

definition no_second_claim :: "mail_env \<Rightarrow> string \<Rightarrow> string \<Rightarrow> mail_store \<Rightarrow> bool" where
  "no_second_claim env i a s \<longleftrightarrow> (\<forall>b t. b \<noteq> a \<longrightarrow> (\<exists>e. claim_delivery env i b t s = (Inl e, s)))"

definition claimed_ok :: "(mail_error + delivery_record) \<times> mail_store \<Rightarrow> bool" where
  "claimed_ok res \<longleftrightarrow> (case res of (Inr _, _) \<Rightarrow> True | _ \<Rightarrow> False)"

text \<open>C12. Once an agent's claim has succeeded in a reachable store, no claim of another agent ever succeeds
  again, whatever operations run in between: the first claim wins for good.\<close>

theorem first_claim_wins:
  assumes "mail_reachable env s" "claimed_ok (claim_delivery env i a t s)"
    "(mail_step env)\<^sup>*\<^sup>* (snd (claim_delivery env i a t s)) s'"
  shows "no_second_claim env i a s'"
proof -
  obtain d s1 where res: "claim_delivery env i a t s = (Inr d, s1)"
    using assms(2) by (auto simp: claimed_ok_def split: prod.splits sum.splits)
  have won: "latest_delivery s1 i = Some d" "dl_claimed_by d = Some a"
    using claim_delivery_Inr [OF res] by (simp_all add: claim_done_def)
  have "mail_inv s1"
    using claim_inv [OF reachable_inv [OF assms(1)], of env i a t] by (simp add: res)
  then obtain d' where d': "latest_delivery s' i = Some d'" "dl_claimed_by d' = Some a"
    using steps_keep_claim [of env s1 s' i d a] won assms(3) res by auto
  then have "\<not> claim_allowed env s' i b u" if "b \<noteq> a" for b u
    using that by (auto simp: claim_allowed_def)
  then show ?thesis
    using claim_delivery_iff [of env s' i _ _] unfolding no_second_claim_def by meson
qed

theorem first_claim_wins_witness: "no_second_claim example_env example_delivery_id agent_a store_claimed"
proof (rule first_claim_wins [OF store_sent_reachable])
  show "claimed_ok (claim_delivery example_env example_delivery_id agent_a ''2026-05-01'' store_sent)"
    by code_simp
qed (simp add: store_claimed_def)

section \<open>Pending notifications\<close>

lemma try_filter_cong: "(\<And>x. x \<in> set xs \<Longrightarrow> f x = g x) \<Longrightarrow> try_filter f xs = try_filter g xs"
  by (induction xs) simp_all

text \<open>C18. In every reachable store the two listings of an agent's pending notifications agree: the status
  view, which does not look at claims, never shows a notification for a delivery that another agent
  holds, because winning a claim suppresses the rivals.\<close>

theorem pending_listings_agree:
  assumes "mail_reachable env s"
  shows "pending_open_notifications_for_agent env a t s = pending_due_notifications_for_agent env a t s"
proof -
  have "pending_keep env False a now (latest_deliveries s) n = pending_keep env True a now (latest_deliveries s) n"
    if "n \<in> set (bt_values (latest_notifications s))" for n now
  proof -
    have "pending_fits s n"
      using that reachable_inv [OF assms]
      by (auto simp: mail_inv_def no_rival_def latest_notifications_ledger outbox.values_iff)
    then show ?thesis
      by (auto simp: pending_keep_def pending_fits_def latest_delivery_def claimed_by_other_def
          split: option.splits)
  qed
  then show ?thesis
    unfolding pending_open_notifications_for_agent_def pending_due_notifications_for_agent_def
    using try_filter_cong [of "bt_values (latest_notifications s)"] by metis
qed

theorem pending_listings_agree_witness:
  "pending_open_notifications_for_agent example_env agent_b ''2026-05-01'' store_claimed =
   pending_due_notifications_for_agent example_env agent_b ''2026-05-01'' store_claimed"
  by (rule pending_listings_agree [OF store_claimed_reachable])

section \<open>The agent directory\<close>

lemma latest_agent_record_append:
  "latest_agent_record (append_agent r s) a = (if ar_agent_id r = a then Some r else latest_agent_record s a)"
  by (simp add: latest_agent_record_def append_agent_def)

lemma latest_agent_record_cong: "st_agents s' = st_agents s \<Longrightarrow> latest_agent_record s' a = latest_agent_record s a"
  by (simp add: latest_agent_record_def)

lemma latest_agent_record_id: "latest_agent_record s a = Some r \<Longrightarrow> ar_agent_id r = a"
  unfolding latest_agent_record_def last_option_Some
  using last_in_set [of "filter (\<lambda>r. ar_agent_id r = a) (st_agents s)"] by auto

definition agent_retired :: "mail_store \<Rightarrow> string \<Rightarrow> bool" where
  "agent_retired s a \<longleftrightarrow> (case latest_agent_record s a of None \<Rightarrow> False | Some r \<Rightarrow> ar_state r = AgentRetired)"

lemma agent_retired_append:
  "agent_retired (append_agent r s) a \<longleftrightarrow> (if ar_agent_id r = a then ar_state r = AgentRetired else agent_retired s a)"
  by (simp add: agent_retired_def latest_agent_record_append)

lemma agent_retired_cong: "st_agents s' = st_agents s \<Longrightarrow> agent_retired s' a \<longleftrightarrow> agent_retired s a"
  using latest_agent_record_cong [of s' s a] by (simp add: agent_retired_def)

lemma append_lease_agents [simp]: "agent_retired (append_lease l s) a \<longleftrightarrow> agent_retired s a"
  by (rule agent_retired_cong) simp

lemma active_record_fields [simp]:
  "ar_agent_id (active_record env q pol gs) = stable_agent_id env (iq_transport_kind q) (iq_thread_id q)"
  "ar_state (active_record env q pol gs) = AgentActive"
  "ar_granted_roles (active_record env q pol gs) = grant_roles pol gs"
  "ar_granted_capabilities (active_record env q pol gs) = grant_capabilities pol (iq_requested_capabilities q)"
  by (simp_all add: active_record_def Let_def)

lemma identify_check_Inr:
  assumes "identify_check env q pol s = Inr r"
  shows "\<exists>gs. try_map (route_grant env) (iq_requested_roles q) = Inr gs \<and> r = active_record env q pol gs \<and>
    \<not> agent_retired s (ar_agent_id r)"
  using assms by (auto simp: identify_check_def result_simps Let_def agent_retired_def split: if_splits option.splits)

lemma send_agents: "st_agents (snd (send_mail env e b lim s)) = st_agents s"
proof -
  have one: "st_agents (snd (snd (send_step env e' lim rcp (m, att, u)))) = st_agents u" for e' rcp m att u
    by (auto simp: send_step_def Let_def split: option.splits)
  have loop: "st_agents (snd (snd (fold (send_step env e' lim) rcps (m, att, u)))) = st_agents u" for e' rcps m att u
  proof (induction rcps arbitrary: m att u)
    case (Cons rcp rcps)
    obtain m1 att1 u1 where "send_step env e' lim rcp (m, att, u) = (m1, att1, u1)"
      by (metis surj_pair)
    then show ?case
      using Cons.IH [of m1 att1 u1] one [of e' rcp m att u] by simp
  qed simp
  obtain r s1 where acc: "accept_message_unlocked env e b s = (r, s1)"
    by (metis surj_pair)
  have same: "st_agents s1 = st_agents s"
    using accept_frames(3) [of env e b s] by (simp add: acc)
  have "st_agents s2 = st_agents s" if "fold (send_step env e' lim) rcps (latest_deliveries s1, [], s1) = (m, att, s2)"
    for e' rcps m att s2
    using loop [of e' rcps "latest_deliveries s1" "[]" s1] by (simp add: that same)
  then show ?thesis
    unfolding send_mail_def st_try_def st_then_def Let_def
    by (auto simp: acc same split: sum.splits prod.splits)
qed

lemma transition_agents: "st_agents (snd (transition_delivery_with_snooze d c a st sn t s)) = st_agents s"
  by (simp add: transition_result Let_def)

lemma move_agents:
  "st_agents (snd (claim_delivery env i a t s)) = st_agents s"
  "st_agents (snd (mark_delivery env i a st t s)) = st_agents s"
  "st_agents (snd (snooze_delivery env i a u t s)) = st_agents s"
  by (auto simp: claim_delivery_def mark_delivery_def snooze_delivery_def transition_delivery_def st_try_def
      transition_agents split: sum.splits option.splits)

lemma notice_agents:
  "st_agents (snd (notification_poll env i t s)) = st_agents s"
  "st_agents (snd (notification_dispatch_queue env i t s)) = st_agents s"
  "st_agents (snd (acknowledge_notification env i n t s)) = st_agents s"
  "st_agents (snd (record_notification_attempt env m st t err s)) = st_agents s"
  by (auto simp: notification_poll_def notification_dispatch_queue_def acknowledge_notification_def
      record_notification_attempt_def st_try_def Let_def split: sum.splits option.splits)

lemma heartbeat_keeps_retired:
  assumes "agent_retired s a"
  shows "agent_retired (snd (heartbeat_agent x e t s)) a"
proof (cases "latest_agent_record s x")
  case (Some r)
  then have "ar_agent_id r = x"
    by (rule latest_agent_record_id)
  then show ?thesis
    using assms Some
    by (cases "x = a") (auto simp: heartbeat_agent_def st_try_def ok_or_def Let_def agent_retired_append
        agent_retired_def [of s] split: sum.splits)
qed (use assms in \<open>simp add: heartbeat_agent_def st_try_def ok_or_def split: sum.split\<close>)

lemma retire_keeps_retired: "agent_retired s a \<Longrightarrow> agent_retired (snd (retire_agent x e t s)) a"
  by (auto simp: retire_agent_def st_try_def Let_def agent_retired_append split: sum.splits)

lemma identify_keeps_retired: "agent_retired s a \<Longrightarrow> agent_retired (snd (identify_agent env q pol s)) a"
  using identify_check_Inr [of env q pol s]
  by (fastforce simp: identify_agent_def identify_commit_def st_try_def agent_retired_append split: sum.splits)

lemma agents_frame: "agent_retired s a \<Longrightarrow> st_agents s' = st_agents s \<Longrightarrow> agent_retired s' a"
  using agent_retired_cong by blast

lemma step_keeps_retired:
  assumes "mail_step env s s'" "agent_retired s a"
  shows "agent_retired s' a"
  using assms(1)
proof cases
  case identify
  then show ?thesis using assms(2) by (simp add: identify_keeps_retired)
next
  case heartbeat
  then show ?thesis using assms(2) by (simp add: heartbeat_keeps_retired)
next
  case retire
  then show ?thesis using assms(2) by (simp add: retire_keeps_retired)
qed (rule agents_frame [OF assms(2)], simp add: accept_message_def accept_frames send_agents move_agents rebuild_frames
  inbox_due_frames agent_inbox_frames injection_frames notice_agents)+

text \<open>C21. A retired agent stays retired through any sequence of operations, each taken as one atomic step:
  identification and heartbeat refuse to revive it.\<close>

theorem retired_for_good:
  assumes "(mail_step env)\<^sup>*\<^sup>* s s'" "agent_retired s a"
  shows "agent_retired s' a"
  using assms by (induction rule: rtranclp_induct) (auto intro: step_keeps_retired)

definition store_retired :: mail_store where
  "store_retired = snd (retire_agent agent_a ''2026-05-02'' ''2026-05-02'' store_claimed)"

theorem retired_for_good_witness:
  "agent_retired (snd (identify_agent example_env (example_request ''a'') example_policy store_retired)) agent_a"
proof (rule retired_for_good)
  show "(mail_step example_env)\<^sup>*\<^sup>* store_retired
      (snd (identify_agent example_env (example_request ''a'') example_policy store_retired))"
    by (rule r_into_rtranclp) (rule mail_step.identify)
  show "agent_retired store_retired agent_a"
    by code_simp
qed

text \<open>The lock is missing where it matters: if an identification reads the directory, the agent is then
  retired, and the identification then appends what it prepared, the retired agent is active again.\<close>

theorem identify_race_revives:
  assumes "identify_check env q pol s = Inr r" "retire_agent (ar_agent_id r) e t s = (Inr r', s1)"
  shows "agent_retired s1 (ar_agent_id r) \<and> \<not> agent_retired (identify_commit q r s1) (ar_agent_id r)"
proof -
  have "ar_state r = AgentActive"
    using identify_check_Inr [OF assms(1)] by auto
  moreover have "ar_agent_id r' = ar_agent_id r \<and> ar_state r' = AgentRetired \<and>
      s1 = append_lease (new_lease (ar_agent_id r) e t) (append_agent r' s)"
    using assms(2) latest_agent_record_id [of s "ar_agent_id r"]
    by (auto simp: retire_agent_def result_simps Let_def ok_or_def split: option.splits)
  ultimately show ?thesis
    by (simp add: identify_commit_def agent_retired_append)
qed

theorem identify_race_revives_witness:
  "agent_retired store_retired agent_a \<and>
   \<not> agent_retired (identify_commit (example_request ''a'')
      (active_record example_env (example_request ''a'') example_policy [''role://wiki.editor'']) store_retired) agent_a"
proof -
  let ?r = "active_record example_env (example_request ''a'') example_policy [''role://wiki.editor'']"
  have check: "identify_check example_env (example_request ''a'') example_policy store_claimed = Inr ?r"
    by code_simp
  have id: "ar_agent_id ?r = agent_a"
    by (simp add: agent_a_def example_request_def)
  have "retire_agent agent_a ''2026-05-02'' ''2026-05-02'' store_claimed =
      (Inr (projr (fst (retire_agent agent_a ''2026-05-02'' ''2026-05-02'' store_claimed))), store_retired)"
    by code_simp
  then show ?thesis
    using identify_race_revives [OF check] id by simp
qed

end
