(* ===== verification/Mail_Sending.thy ===== *)
theory Mail_Sending
  imports Mail_Properties
begin

text \<open>
  What sending promises: the open-delivery limit of a recipient, and that sending the same message again
  delivers nothing new; what an identification grants; and the texts and records of steering attempts.
\<close>

section \<open>The loop of a send\<close>

lemma count_fresh_insert:
  "k \<notin> fst ` set m \<Longrightarrow> length (filter P (bt_values (bt_insert k v m))) =
     length (filter P (bt_values m)) + (if P v then 1 else 0)"
  by (induction k v m rule: bt_insert.induct) (auto simp: bt_values_def)

lemma count_new_delivery:
  assumes "bt_get m k = None"
  shows "open_delivery_count (bt_insert k d m) r =
    open_delivery_count m r + (if dl_recipient d = r \<and> is_open (dl_state d) then 1 else 0)"
  unfolding open_delivery_count_def by (rule count_fresh_insert) (use assms in \<open>simp add: bt_get_def map_of_eq_None_iff\<close>)

lemma new_delivery_fields [simp]:
  "dl_delivery_id (new_delivery env e r) = stable_delivery_id env (me_message_id e) r"
  "dl_recipient (new_delivery env e r) = r" "dl_state (new_delivery env e r) = Unread"
  by (simp_all add: new_delivery_def)

lemma ensure_delivery_latest [simp]: "latest_deliveries (ensure_delivery_notifications env d s) = latest_deliveries s"
  by (simp add: latest_deliveries_def)

text \<open>The three outcomes of the loop body for one recipient.\<close>

lemma send_step_cases:
  assumes "send_step env e lim rcp (m, att, s) = (m', att', s')"
  obtains (known) d where "bt_get m (stable_delivery_id env (me_message_id e) rcp) = Some d" "m' = m"
      "s' = ensure_delivery_notifications env d s"
      "att' = att @ [\<lparr> da_recipient = rcp, da_delivery_id = stable_delivery_id env (me_message_id e) rcp, da_status = AlreadyDelivered \<rparr>]"
    | (full) l where "bt_get m (stable_delivery_id env (me_message_id e) rcp) = None" "lim = Some l"
      "l \<le> open_delivery_count m rcp" "m' = m" "s' = append_dead_letter (mailbox_full_letter e rcp l) s"
      "att' = att @ [\<lparr> da_recipient = rcp, da_delivery_id = stable_delivery_id env (me_message_id e) rcp, da_status = DeferredCapacity \<rparr>]"
    | (fresh) "bt_get m (stable_delivery_id env (me_message_id e) rcp) = None"
      "\<forall>l. lim = Some l \<longrightarrow> open_delivery_count m rcp < l"
      "m' = bt_insert (dl_delivery_id (new_delivery env e rcp)) (new_delivery env e rcp) m"
      "s' = ensure_delivery_notifications env (new_delivery env e rcp) (append_delivery (new_delivery env e rcp) s)"
      "att' = att @ [\<lparr> da_recipient = rcp, da_delivery_id = stable_delivery_id env (me_message_id e) rcp, da_status = Delivered \<rparr>]"
  using assms by (cases "bt_get m (stable_delivery_id env (me_message_id e) rcp)"; cases lim)
    (auto simp: send_step_def Let_def split: if_splits)

lemma send_step_latest:
  "send_step env e lim rcp (latest_deliveries s, att, s) = (m', att', s') \<Longrightarrow> m' = latest_deliveries s'"
  by (erule send_step_cases) (simp_all add: latest_deliveries_def append_delivery_def append_dead_letter_def)

lemma send_step_frames:
  "send_step env e lim rcp (m, att, s) = (m', att', s') \<Longrightarrow>
     st_idempotency s' = st_idempotency s \<and> st_messages s' = st_messages s"
  by (erule send_step_cases) (simp_all add: append_delivery_def append_dead_letter_def)

text \<open>A recipient is settled for a message when it has the delivery or no room for it.\<close>

definition settled :: "mail_env \<Rightarrow> message_envelope \<Rightarrow> nat option \<Rightarrow> (string, delivery_record) btree_map \<Rightarrow>
    string \<Rightarrow> bool" where
  "settled env e lim m rcp \<longleftrightarrow> bt_get m (stable_delivery_id env (me_message_id e) rcp) \<noteq> None \<or>
     (\<exists>l. lim = Some l \<and> l \<le> open_delivery_count m rcp)"

lemma send_step_settles:
  assumes "send_step env e lim rcp (m, att, s) = (m', att', s')" "bt_wf m"
  shows "bt_wf m' \<and> settled env e lim m' rcp \<and> (\<forall>r. settled env e lim m r \<longrightarrow> settled env e lim m' r) \<and>
    (\<forall>r. open_delivery_count m' r \<le> max (case lim of None \<Rightarrow> open_delivery_count m' r | Some l \<Rightarrow> l) (open_delivery_count m r))"
  using assms(1)
proof (cases rule: send_step_cases)
  case fresh
  have "settled env e lim m' r" if "settled env e lim m r" for r
    using that fresh(1,3) assms(2) count_new_delivery [OF fresh(1)] by (auto simp: settled_def intro: le_SucI)
  moreover have "open_delivery_count m' r \<le> max (case lim of None \<Rightarrow> open_delivery_count m' r | Some l \<Rightarrow> l) (open_delivery_count m r)" for r
    using fresh(2,3) count_new_delivery [OF fresh(1)] by (cases lim) (auto simp: Suc_le_eq)
  ultimately show ?thesis
    using fresh(3) assms(2) by (simp add: settled_def)
qed (use assms(2) in \<open>auto simp: settled_def split: option.split\<close>)

lemma send_loop:
  assumes "fold (send_step env e lim) rcps (latest_deliveries s, att, s) = (m', att', s')"
  shows "m' = latest_deliveries s' \<and> st_idempotency s' = st_idempotency s \<and> st_messages s' = st_messages s \<and>
    (\<forall>r. settled env e lim (latest_deliveries s) r \<or> r \<in> set rcps \<longrightarrow> settled env e lim m' r) \<and>
    (\<forall>r l. lim = Some l \<longrightarrow> open_delivery_count m' r \<le> max l (open_delivery_count (latest_deliveries s) r))"
  using assms
proof (induction rcps arbitrary: att s)
  case (Cons rcp rcps)
  obtain m1 att1 s1 where one: "send_step env e lim rcp (latest_deliveries s, att, s) = (m1, att1, s1)"
    by (metis surj_pair)
  have m1: "m1 = latest_deliveries s1"
    by (rule send_step_latest [OF one])
  have wf: "bt_wf (latest_deliveries s)"
    by (simp add: latest_deliveries_def)
  note step = send_step_settles [OF one wf] send_step_frames [OF one]
  have "fold (send_step env e lim) rcps (latest_deliveries s1, att1, s1) = (m', att', s')"
    using Cons.prems one m1 by simp
  note rest = Cons.IH [OF this]
  have "open_delivery_count m' r \<le> max l (open_delivery_count (latest_deliveries s) r)" if "lim = Some l" for r l
  proof -
    have "open_delivery_count m1 r \<le> max l (open_delivery_count (latest_deliveries s) r)"
      using step(1) that by simp
    moreover have "open_delivery_count m' r \<le> max l (open_delivery_count m1 r)"
      using rest that unfolding m1 by blast
    ultimately show ?thesis
      by simp
  qed
  then show ?case
    using rest step m1 by auto
qed auto

text \<open>Sending, unfolded once.\<close>

lemma send_mail_Inr:
  assumes "send_mail env e b lim s = (Inr rc, s2)"
  obtains rcps acc s1 e' m where "normalized_recipients env e = Inr rcps"
    "accept_message_unlocked env e b s = (Inr acc, s1)"
    "(case acc of DuplicateSamePayload i \<Rightarrow> if i \<noteq> me_message_id e then read_message_envelope i s1 else Inr e
      | Accepted \<Rightarrow> Inr e) = Inr e'"
    "fold (send_step env e' lim) rcps (latest_deliveries s1, [], s1) = (m, mr_attempts rc, s2)"
    "mr_acceptance rc = acc" "parse_address (env_url env) (me_from e) \<in> range Inr"
proof -
  obtain f rcps acc s1 e' where pre: "parse_address (env_url env) (me_from e) = Inr f"
      "normalized_recipients env e = Inr rcps" "accept_message_unlocked env e b s = (Inr acc, s1)"
      "(case acc of DuplicateSamePayload i \<Rightarrow> if i \<noteq> me_message_id e then read_message_envelope i s1 else Inr e
        | Accepted \<Rightarrow> Inr e) = Inr e'"
    and rest: "(case fold (send_step env e' lim) rcps (latest_deliveries s1, [], s1) of
        (m, att, u) \<Rightarrow> (Inr \<lparr> mr_acceptance = acc, mr_attempts = att \<rparr>, u)) =
        (Inr rc :: mail_error + mail_send_receipt, s2)"
    using assms unfolding send_mail_def st_try_Inr st_then_Inr Let_def by (elim exE conjE) (rule that)
  obtain m att u where loop: "fold (send_step env e' lim) rcps (latest_deliveries s1, [], s1) = (m, att, u)"
    by (metis surj_pair)
  then have "rc = \<lparr> mr_acceptance = acc, mr_attempts = att \<rparr>" "u = s2"
    using rest by auto
  then show thesis
    using that pre loop by auto
qed

text \<open>C20. A send with a limit never takes a recipient's open deliveries above the limit: afterwards there
  are at most as many as the limit, or as many as there were before.\<close>

theorem send_respects_capacity:
  "open_delivery_count (latest_deliveries (snd (send_mail env e b (Some l) s))) r \<le>
     max l (open_delivery_count (latest_deliveries s) r)"
proof -
  obtain res s2 where res: "send_mail env e b (Some l) s = (res, s2)"
    by (metis surj_pair)
  show ?thesis
  proof (cases res)
    case (Inr rc)
    then obtain rcps acc s1 e' m where acc: "accept_message_unlocked env e b s = (Inr acc, s1)"
        and loop: "fold (send_step env e' (Some l)) rcps (latest_deliveries s1, [], s1) = (m, mr_attempts rc, s2)"
      using res by (auto elim: send_mail_Inr)
    have "latest_deliveries s1 = latest_deliveries s"
      using accept_frames(1) [of env e b s] by (simp add: acc latest_deliveries_def)
    then show ?thesis
      using send_loop [OF loop] by (auto simp: res)
  next
    case (Inl x)
    obtain r1 s1 where acc: "accept_message_unlocked env e b s = (r1, s1)"
      by (metis surj_pair)
    have same: "latest_deliveries s1 = latest_deliveries s"
      using accept_frames(1) [of env e b s] by (simp add: acc latest_deliveries_def)
    have "s2 = s \<or> s2 = s1"
      using res Inl acc by (auto simp: send_mail_def st_try_def st_then_def Let_def split: sum.splits prod.splits)
    then show ?thesis
      using same by (auto simp: res)
  qed
qed

section \<open>Sending again\<close>

lemma settled_step:
  assumes "settled env e lim m rcp" "send_step env e lim rcp (m, att, s) = (m', att', s')"
  shows "m' = m \<and> st_deliveries s' = st_deliveries s \<and> da_status ` set att' \<subseteq> Set.insert AlreadyDelivered (Set.insert DeferredCapacity (da_status ` set att))"
  using assms(2) by (cases rule: send_step_cases) (use assms(1) in \<open>auto simp: settled_def append_dead_letter_def\<close>)

lemma settled_loop:
  assumes "\<forall>r \<in> set rcps. settled env e lim m r" "fold (send_step env e lim) rcps (m, att, s) = (m', att', s')"
    "Delivered \<notin> da_status ` set att"
  shows "st_deliveries s' = st_deliveries s \<and> Delivered \<notin> da_status ` set att'"
  using assms
proof (induction rcps arbitrary: att s)
  case (Cons rcp rcps)
  obtain m1 att1 s1 where one: "send_step env e lim rcp (m, att, s) = (m1, att1, s1)"
    by (metis surj_pair)
  have step: "m1 = m" "st_deliveries s1 = st_deliveries s" "Delivered \<notin> da_status ` set att1"
    using settled_step [OF _ one] Cons.prems(1,3) by auto
  then show ?case
    using Cons.IH [of att1 s1] Cons.prems one by simp
qed auto

lemma find_append_None: "List.find P xs = None \<Longrightarrow> List.find P (xs @ ys) = List.find P ys"
  by (induction xs) (simp_all split: if_splits)

lemma accept_again:
  assumes "accept_message_unlocked env e b s = (Inr acc, s1)" "st_idempotency s2 = st_idempotency s1"
  shows "accept_message_unlocked env e b s2 =
    (Inr (DuplicateSamePayload (case acc of Accepted \<Rightarrow> me_message_id e | DuplicateSamePayload i \<Rightarrow> i)), s2)"
proof (cases "List.find (\<lambda>r. id_idempotency_key r = me_idempotency_key e) (st_idempotency s)")
  case None
  then have "List.find (\<lambda>r. id_idempotency_key r = me_idempotency_key e) (st_idempotency s @ xs) =
      List.find (\<lambda>r. id_idempotency_key r = me_idempotency_key e) xs" for xs
    by (rule find_append_None)
  then show ?thesis
    using assms None
    by (auto simp: accept_message_unlocked_def result_simps Let_def write_message_def)
next
  case (Some r)
  then show ?thesis
    using assms by (auto simp: accept_message_unlocked_def Let_def split: if_splits)
qed

definition sent_ok :: "(mail_error + mail_send_receipt) \<times> mail_store \<Rightarrow> bool" where
  "sent_ok res \<longleftrightarrow> (case res of (Inr _, _) \<Rightarrow> True | _ \<Rightarrow> False)"

definition delivers_nothing :: "(mail_error + mail_send_receipt) \<times> mail_store \<Rightarrow> mail_store \<Rightarrow> bool" where
  "delivers_nothing res s \<longleftrightarrow> (case res of
     (Inr rc, s') \<Rightarrow> mr_acceptance rc \<noteq> Accepted \<and> Delivered \<notin> da_status ` set (mr_attempts rc) \<and>
       st_deliveries s' = st_deliveries s
   | _ \<Rightarrow> False)"

lemma sending_again:
  assumes "sent_ok (send_mail env e b lim s)"
  shows "delivers_nothing (send_mail env e b lim (snd (send_mail env e b lim s))) (snd (send_mail env e b lim s))"
proof -
  obtain rc s2 where res: "send_mail env e b lim s = (Inr rc, s2)"
    using assms by (auto simp: sent_ok_def split: prod.splits sum.splits)
  then obtain rcps acc s1 e' m where rcps: "normalized_recipients env e = Inr rcps"
      and acc: "accept_message_unlocked env e b s = (Inr acc, s1)"
      and chosen: "(case acc of DuplicateSamePayload i \<Rightarrow> if i \<noteq> me_message_id e then read_message_envelope i s1 else Inr e
        | Accepted \<Rightarrow> Inr e) = Inr e'"
      and loop: "fold (send_step env e' lim) rcps (latest_deliveries s1, [], s1) = (m, mr_attempts rc, s2)"
      and sender: "parse_address (env_url env) (me_from e) \<in> range Inr"
    by (auto elim: send_mail_Inr)
  note first = send_loop [OF loop]
  define i where "i = (case acc of Accepted \<Rightarrow> me_message_id e | DuplicateSamePayload i \<Rightarrow> i)"
  have again: "accept_message_unlocked env e b s2 = (Inr (DuplicateSamePayload i), s2)"
    using accept_again [OF acc] first by (simp add: i_def)
  have chosen2: "(if i \<noteq> me_message_id e then read_message_envelope i s2 else Inr e) = Inr e'"
    using chosen first
    by (cases acc) (auto simp: i_def read_message_envelope_def read_message_envelope_if_present_def find_message_def)
  obtain m3 att3 s3 where second: "fold (send_step env e' lim) rcps (latest_deliveries s2, [], s2) = (m3, att3, s3)"
    by (metis surj_pair)
  have "\<forall>r \<in> set rcps. settled env e' lim (latest_deliveries s2) r"
    using first by auto
  then have quiet: "st_deliveries s3 = st_deliveries s2 \<and> Delivered \<notin> da_status ` set att3"
    using settled_loop [OF _ second] by simp
  have "send_mail env e b lim s2 = (Inr \<lparr> mr_acceptance = DuplicateSamePayload i, mr_attempts = att3 \<rparr>, s3)"
    using sender rcps again chosen2 second
    by (auto simp: send_mail_def st_try_def st_then_def Let_def)
  then show ?thesis
    using quiet by (simp add: res delivers_nothing_def)
qed

text \<open>C16. Sending is idempotent: after a successful send, sending the same message again succeeds, is
  recognised as a duplicate, and delivers nothing, neither to a recipient that has it nor to one whose
  mailbox was full.\<close>

theorem resend_delivers_nothing:
  assumes "sent_ok (send_mail env e b lim s)"
  shows "delivers_nothing (send_mail env e b lim (snd (send_mail env e b lim s))) (snd (send_mail env e b lim s))"
  by (rule sending_again [OF assms])

theorem resend_delivers_nothing_witness:
  "delivers_nothing (send_mail example_env example_envelope ''body'' (Some 3) store_sent) store_sent"
  unfolding store_sent_def
proof (rule resend_delivers_nothing)
  show "sent_ok (send_mail example_env example_envelope ''body'' (Some 3) store_identified)"
    by code_simp
qed

section \<open>What an identification grants\<close>

definition grants_within :: "mail_env \<Rightarrow> agent_identify_request \<Rightarrow> agent_grant_policy \<Rightarrow> agent_record \<Rightarrow> bool" where
  "grants_within env q pol r \<longleftrightarrow>
     (\<forall>role \<in> set (ar_granted_roles r). role \<in> set (gp_allowed_roles pol) \<and>
        (\<exists>v \<in> set (iq_requested_roles q). route_grant env v = Inr role)) \<and>
     (\<forall>c \<in> set (ar_granted_capabilities r). c \<in> set (gp_allowed_capabilities pol) \<and>
        c \<in> set (iq_requested_capabilities q))"

definition identified :: "mail_env \<Rightarrow> agent_identify_request \<Rightarrow> agent_grant_policy \<Rightarrow>
    (mail_error + agent_record) \<times> mail_store \<Rightarrow> bool" where
  "identified env q pol res \<longleftrightarrow> (case res of (Inl _, _) \<Rightarrow> False
     | (Inr r, s') \<Rightarrow> grants_within env q pol r \<and> latest_agent_record s' (ar_agent_id r) = Some r \<and>
         map_option al_lease_expires_at (latest_agent_lease s' (ar_agent_id r)) = Some (iq_lease_expires_at q))"

lemma try_map_members: "try_map f xs = Inr ys \<Longrightarrow> y \<in> set ys \<Longrightarrow> \<exists>x \<in> set xs. f x = Inr y"
  by (induction xs arbitrary: ys) (auto simp: result_simps)

text \<open>An identification that succeeds makes the agent current with its lease, and grants it no role and
  no capability beyond what it asked for and the policy allows; every granted role is the canonical form
  of a requested role, list or page mailbox, so no request obtains the address of another agent.\<close>

theorem identify_grants_within:
  assumes "fst (identify_agent env q pol s) \<in> range Inr"
  shows "identified env q pol (identify_agent env q pol s)"
proof -
  obtain r where check: "identify_check env q pol s = Inr r"
      and res: "identify_agent env q pol s = (Inr r, identify_commit q r s)"
    using assms by (auto simp: identify_agent_def st_try_def split: sum.splits)
  obtain gs where gs: "try_map (route_grant env) (iq_requested_roles q) = Inr gs" "r = active_record env q pol gs"
    using identify_check_Inr [OF check] by blast
  have "grants_within env q pol r"
    using try_map_members [OF gs(1)]
    by (auto simp: grants_within_def gs(2) grant_roles_def grant_capabilities_def)
  moreover have "latest_agent_record (identify_commit q r s) (ar_agent_id r) = Some r"
    by (simp add: identify_commit_def latest_agent_record_def append_lease_def append_agent_def)
  moreover have "map_option al_lease_expires_at (latest_agent_lease (identify_commit q r s) (ar_agent_id r)) =
      Some (iq_lease_expires_at q)"
    by (simp add: identify_commit_def latest_agent_lease_def append_lease_def append_agent_def new_lease_def)
  ultimately show ?thesis
    by (simp add: identified_def res)
qed

theorem identify_grants_within_witness:
  "identified example_env (example_request ''a'') example_policy
     (identify_agent example_env (example_request ''a'') example_policy empty_store)"
proof (rule identify_grants_within)
  have "case fst (identify_agent example_env (example_request ''a'') example_policy empty_store) of
      Inl _ \<Rightarrow> False | Inr _ \<Rightarrow> True"
    by code_simp
  then show "fst (identify_agent example_env (example_request ''a'') example_policy empty_store) \<in> range Inr"
    by (auto split: sum.splits)
qed

section \<open>Steering texts\<close>

text \<open>A text that holds no angle bracket.\<close>

definition plain :: "string \<Rightarrow> bool" where
  "plain s \<longleftrightarrow> CHR ''<'' \<notin> set s \<and> CHR ''>'' \<notin> set s"

lemma plain_append [simp]: "plain (s @ t) \<longleftrightarrow> plain s \<and> plain t"
  by (auto simp: plain_def)

lemma plain_segment: "segment_ok s \<Longrightarrow> plain s"
proof -
  assume "segment_ok s"
  then have "list_all segment_char s"
    by (simp add: segment_ok_def)
  moreover have "\<not> segment_char CHR ''<'' \<and> \<not> segment_char CHR ''>''"
    by code_simp
  ultimately show ?thesis
    by (auto simp: plain_def list_all_iff)
qed

lemma plain_xml_text: "plain (xml_text s)"
  unfolding xml_text_def plain_def str_replace_char_def by (auto split: if_splits)

lemma plain_state: "plain (delivery_state_text st)"
  by (cases st) (simp_all add: plain_def)

lemma plain_marks [simp]: "plain newline" "plain quote_mark"
  by code_simp+

definition one_steering_element :: "string \<Rightarrow> bool" where
  "one_steering_element x \<longleftrightarrow> (\<exists>attributes body. plain attributes \<and> plain body \<and>
     x = ''<steering'' @ attributes @ ''>'' @ body @ ''</steering>'' @ newline)"

lemma steering_payload_ids:
  "codex_steering_payload_for_attempt n i s = Inr p \<Longrightarrow>
    segment_ok (cp_notification_id p) \<and> segment_ok (cp_agent_id p)"
  by (auto simp: codex_steering_payload_for_attempt_def result_simps validate_segment_def split: if_splits)

text \<open>C22. The steering text of a mail is one \<open>steering\<close> element whatever the mail says: apart from its opening
  tag and its closing tag it holds no angle bracket, so neither the subject nor any other field of a
  message can close the element or open another.\<close>

theorem steering_text_contained:
  assumes "codex_steering_payload_for_attempt n i s = Inr p"
  shows "one_steering_element (codex_steering_text p)"
proof -
  have ids: "plain (cp_notification_id p)" "plain (cp_agent_id p)"
    using steering_payload_ids [OF assms] plain_segment by simp_all
  let ?attributes = "'' source='' @ quote_mark @ ''1context'' @ quote_mark @ '' notification_id='' @ quote_mark @
    cp_notification_id p @ quote_mark @ '' agent_id='' @ quote_mark @ cp_agent_id p @ quote_mark @
    '' priority='' @ quote_mark @ ''normal'' @ quote_mark @ '' reason='' @ quote_mark @ ''mail'' @ quote_mark"
  have attributes: "plain ?attributes"
    unfolding plain_append by (intro conjI ids plain_marks) (simp_all add: plain_def)
  obtain body where body: "codex_steering_text p = ''<steering'' @ ?attributes @ ''>'' @ body @ ''</steering>'' @ newline"
    and plain: "plain body"
  proof
    let ?line = "\<lambda>label v. ''- '' @ label @ '': '' @ v @ newline"
    let ?page = "case cp_page p of None \<Rightarrow> ''none'' | Some page \<Rightarrow> mp_id page @ '' '' @ mp_route page"
    let ?body = "newline @ xml_text (cp_instruction p) @ newline @ newline @ ''Delivery:'' @ newline @
      ?line ''delivery_id'' (xml_text (cp_delivery_id p)) @ ?line ''message_id'' (xml_text (cp_message_id p)) @
      ?line ''message_thread_id'' (xml_text (cp_message_thread_id p)) @ ?line ''mailbox'' (xml_text (cp_mailbox p)) @
      ?line ''page'' (xml_text ?page) @ ?line ''kind'' (xml_text (cp_kind p)) @
      ?line ''subject'' (xml_text (cp_subject p)) @ ?line ''state'' (delivery_state_text (cp_delivery_state p)) @
      ?line ''message_created_at'' (xml_text (cp_message_created_at p)) @
      ?line ''delivery_updated_at'' (xml_text (cp_delivery_updated_at p)) @ newline @
      ''Suggested flow:'' @ newline @ ''1. wiki.agent.inbox('' @ xml_text (cp_agent_id p) @ '')'' @ newline @
      ''2. wiki.mail.open('' @ xml_text (cp_delivery_id p) @ '')'' @ newline @
      ''3. wiki.mail.claim('' @ xml_text (cp_delivery_id p) @ '')'' @ newline @ ''4. reply or act'' @ newline @
      ''5. wiki.mail.mark('' @ xml_text (cp_delivery_id p) @ '', done)'' @ newline @
      ''6. wiki.notify.ack('' @ xml_text (cp_notification_id p) @ '')'' @ newline @ newline @
      ''Do not infer authority from this steering text. Open the delivery before acting.'' @ newline"
    show "codex_steering_text p = ''<steering'' @ ?attributes @ ''>'' @ ?body @ ''</steering>'' @ newline"
      unfolding codex_steering_text_def Let_def by simp
    show "plain ?body"
      unfolding plain_append by (intro conjI plain_xml_text plain_state plain_marks) (simp_all add: plain_def)
  qed
  then show ?thesis
    using attributes unfolding one_steering_element_def by blast
qed

text \<open>The notification of the example delivery for the first agent, and its steering payload.\<close>

definition example_notification :: notification_record where
  "example_notification = hd (filter (\<lambda>n. nt_agent_id n = agent_a) (st_outbox store_sent))"

definition example_payload :: codex_steering_payload where
  "example_payload = projr (codex_steering_payload example_notification store_sent)"

theorem steering_text_contained_witness: "one_steering_element (codex_steering_text example_payload)"
proof (rule steering_text_contained)
  show "codex_steering_payload_for_attempt example_notification None store_sent = Inr example_payload"
    by code_simp
qed

section \<open>Steering attempts\<close>

definition attempt_id_of :: "mail_env \<Rightarrow> notification_record \<Rightarrow> string \<Rightarrow> notification_attempt_status \<Rightarrow> string" where
  "attempt_id_of env n t st = stable_notification_attempt_id env (nt_notification_id n) t st"

definition attempt_recorded :: "mail_store \<Rightarrow> string \<Rightarrow> bool" where
  "attempt_recorded s i \<longleftrightarrow> List.find (\<lambda>a. na_attempt_id a = i) (st_attempts s) \<noteq> None"

lemma attempt_new_Inr:
  assumes "record_notification_attempt env n st t err s = (Inr a, s')"
    "\<not> attempt_recorded s (attempt_id_of env n t st)"
  shows "\<exists>c nd. bt_get (latest_notifications s) (nt_notification_id n) = Some c \<and> nt_state c = Pending \<and>
    (case st of Failed \<Rightarrow> \<exists>u. env_time env t = Some u \<and> nd = Some (env_rfc3339_secs env (u + 60 * 1000000000))
     | _ \<Rightarrow> nd = None) \<and>
    na_attempt_id a = attempt_id_of env n t st \<and>
    s' = append_notification (c\<lparr> nt_attempt_count := nt_attempt_count c + 1, nt_last_attempt_at := Some t,
      nt_updated_at := t, nt_last_error := err, nt_next_dispatch_at := nd \<rparr>) (append_notification_attempt a s)"
proof -
  have new: "List.find (\<lambda>a. na_attempt_id a = stable_notification_attempt_id env (nt_notification_id n) t st) (st_attempts s) = None"
    using assms(2) by (simp add: attempt_recorded_def attempt_id_of_def)
  note run = assms(1) [unfolded record_notification_attempt_def Let_def new option.case(1)]
  obtain c p where c: "bt_get (latest_notifications s) (nt_notification_id n) = Some c"
      "codex_steering_payload_for_attempt c (Some (attempt_id_of env n t st)) s = Inr p"
    using run by (auto simp: result_simps attempt_id_of_def)
  have "nt_notification_id c = nt_notification_id n"
    using c(1) outbox.get_key by (simp add: latest_notifications_ledger)
  then have "nt_state c = Pending"
    using steering_needs_pending [OF c(2)] c(1) by auto
  then show ?thesis
    using run c by (cases st) (auto simp: result_simps attempt_id_of_def default_next_dispatch_at_def parse_time_def)
qed

definition dispatch_schedule :: "mail_env \<Rightarrow> string \<Rightarrow> notification_attempt_status \<Rightarrow> string \<Rightarrow> mail_store \<Rightarrow> bool" where
  "dispatch_schedule env i st t s \<longleftrightarrow> (\<forall>c. bt_get (latest_notifications s) i = Some c \<longrightarrow> nt_attempt_count c \<noteq> 0 \<longrightarrow>
     nt_state c = Pending \<and>
     (\<forall>now. dispatchable env now c \<longleftrightarrow> st = Failed \<and>
        (\<exists>u v. env_time env t = Some u \<and>
           env_time env (env_rfc3339_secs env (u + 60 * 1000000000)) = Some v \<and> v \<le> now)))"

text \<open>A newly recorded attempt decides when a notification is dispatched again: after a sent or dry-run
  attempt never, after a failed one once the formatted time sixty seconds after the attempt is reached
  (unless the 32-bit attempt counter has just wrapped to zero).\<close>

theorem attempt_schedules_dispatch:
  assumes "\<not> attempt_recorded s (attempt_id_of env n t st)"
    "fst (record_notification_attempt env n st t err s) \<in> range Inr"
  shows "dispatch_schedule env (nt_notification_id n) st t (snd (record_notification_attempt env n st t err s))"
proof -
  obtain a s' where res: "record_notification_attempt env n st t err s = (Inr a, s')"
    using assms(2) by (metis image_iff prod.collapse)
  obtain c nd where c: "bt_get (latest_notifications s) (nt_notification_id n) = Some c" "nt_state c = Pending"
      "case st of Failed \<Rightarrow> \<exists>u. env_time env t = Some u \<and> nd = Some (env_rfc3339_secs env (u + 60 * 1000000000))
         | _ \<Rightarrow> nd = None"
      "s' = append_notification (c\<lparr> nt_attempt_count := nt_attempt_count c + 1, nt_last_attempt_at := Some t,
        nt_updated_at := t, nt_last_error := err, nt_next_dispatch_at := nd \<rparr>) (append_notification_attempt a s)"
    using attempt_new_Inr [OF res assms(1)] by blast
  have "nt_notification_id c = nt_notification_id n"
    using c(1) outbox.get_key by (simp add: latest_notifications_ledger)
  then have "bt_get (latest_notifications s') (nt_notification_id n) = Some (c\<lparr> nt_attempt_count := nt_attempt_count c + 1,
      nt_last_attempt_at := Some t, nt_updated_at := t, nt_last_error := err, nt_next_dispatch_at := nd \<rparr>)"
    by (simp add: c(4) latest_notifications_ledger outbox.get_append)
  then show ?thesis
    unfolding res snd_conv dispatch_schedule_def
    using c(2,3) by (cases st) (auto simp: dispatchable_def split: option.splits)
qed

lemma sum_ok_range: "(case r of Inl _ \<Rightarrow> False | Inr _ \<Rightarrow> True) \<Longrightarrow> r \<in> range Inr"
  by (cases r) auto

theorem attempt_schedules_dispatch_witness:
  "dispatch_schedule example_env (nt_notification_id example_notification) Failed ''2026-05-01''
     (snd (record_notification_attempt example_env example_notification Failed ''2026-05-01'' None store_sent))"
proof (rule attempt_schedules_dispatch)
  show "\<not> attempt_recorded store_sent (attempt_id_of example_env example_notification ''2026-05-01'' Failed)"
    by code_simp
  show "fst (record_notification_attempt example_env example_notification Failed ''2026-05-01'' None store_sent) \<in> range Inr"
    by (rule sum_ok_range) code_simp
qed

definition lost_attempt :: "mail_env \<Rightarrow> notification_record \<Rightarrow> string \<Rightarrow> string option \<Rightarrow> mail_store \<Rightarrow> bool" where
  "lost_attempt env n t err s \<longleftrightarrow> (\<exists>e s1 a.
     record_notification_attempt env n Failed t err s = (Inl e, s1) \<and>
     latest_notifications s1 = latest_notifications s \<and> st_attempts s1 = st_attempts s @ [a] \<and>
     record_notification_attempt env n Failed t err s1 = (Inr a, s1))"

text \<open>A failed attempt whose time does not parse is written and then lost: the call returns an error
  after the attempt is appended, the notification keeps its old counter and due time, and a retry with
  the same arguments reports success without repairing it.\<close>

theorem unparsable_attempt_is_lost:
  assumes "env_time env t = None" "\<not> attempt_recorded s (attempt_id_of env n t Failed)"
    "bt_get (latest_notifications s) (nt_notification_id n) = Some c"
    "codex_steering_payload_for_attempt c (Some (attempt_id_of env n t Failed)) s = Inr p"
  shows "lost_attempt env n t err s"
proof -
  have new: "List.find (\<lambda>a. na_attempt_id a = attempt_id_of env n t Failed) (st_attempts s) = None"
    using assms(2) by (simp add: attempt_recorded_def)
  define a where "a = \<lparr> na_schema_version = 1, na_attempt_id = attempt_id_of env n t Failed,
    na_notification_id = nt_notification_id n, na_agent_id = nt_agent_id n, na_transport = ''codex.steering'',
    na_status = Failed, na_occurred_at = t, na_payload = p, na_steering_text = codex_steering_text p, na_error = err \<rparr>"
  have first: "record_notification_attempt env n Failed t err s =
      (Inl (TimestampUnparsable ''notification attempt'' t), append_notification_attempt a s)"
    using assms(1,3,4) new
    by (simp add: record_notification_attempt_def attempt_id_of_def st_try_def ok_or_def Let_def
        default_next_dispatch_at_def parse_time_def a_def)
  have "List.find (\<lambda>a. na_attempt_id a = attempt_id_of env n t Failed) (st_attempts s @ [a]) = Some a"
    using find_append_None [OF new, of "[a]"] by (simp add: a_def)
  then have "record_notification_attempt env n Failed t err (append_notification_attempt a s) = (Inr a, append_notification_attempt a s)"
    by (simp add: record_notification_attempt_def append_notification_attempt_def Let_def attempt_id_of_def)
  moreover have "latest_notifications (append_notification_attempt a s) = latest_notifications s"
    by (rule latest_notifications_cong) simp
  ultimately show ?thesis
    using first unfolding lost_attempt_def by (auto simp: append_notification_attempt_def)
qed

theorem unparsable_attempt_is_lost_witness: "lost_attempt example_env example_notification [] None store_sent"
proof (rule unparsable_attempt_is_lost)
  show "env_time example_env [] = None"
    by code_simp
  show "\<not> attempt_recorded store_sent (attempt_id_of example_env example_notification [] Failed)"
    by code_simp
  show "bt_get (latest_notifications store_sent) (nt_notification_id example_notification) = Some example_notification"
    by code_simp
  show "codex_steering_payload_for_attempt example_notification
      (Some (attempt_id_of example_env example_notification [] Failed)) store_sent =
    Inr (example_payload\<lparr> cp_transport_attempt_id := Some (attempt_id_of example_env example_notification [] Failed) \<rparr>)"
    by code_simp
qed

end
