(* ===== verification/Packet_Planner.thy ===== *)
theory Packet_Planner
  imports Safe_Id "HOL-Library.Product_Lexorder" "HOL-Library.Sublist"
begin

text \<open>
  The packet planner of \<open>crates/onecontext-context-engine/src/packet_planner.rs\<close>: source events are grouped
  by hour, hours that exceed the token budget are split by session and then into runs of events, and the
  packets to work on are selected. Dates belong to the crate \<open>chrono\<close>: the record \<open>planner_env\<close> holds what
  the planner asks of it. Token counts are \<open>u32\<close> and wrap; an \<open>f64\<close> is its bit pattern, and the one product
  of floats is computed exactly, rounded to nearest even.
\<close>

section \<open>Data\<close>

record source_event =
  ev_object_id :: "string option"
  ev_ts :: string
  ev_session_id :: string
  ev_kind :: string
  ev_text :: string
  ev_source_id :: "string option"
  ev_source_type :: "string option"
  ev_source_key :: "string option"
  ev_source_display_name :: "string option"
  ev_source :: "string option"
  ev_source_record_id :: "string option"
  ev_source_record_key :: "string option"
  ev_source_record_hash :: "string option"
  ev_series_id :: "string option"
  ev_series_kind :: "string option"
  ev_series_key :: "string option"
  ev_series_display_name :: "string option"
  ev_role :: "string option"
  ev_privacy_class :: "string option"
  ev_body_type :: "string option"
  ev_cwd :: "string option"
  ev_project_key :: "string option"
  ev_char_count :: "32 word option"

record wiki_memory_packet =
  wp_packet_id :: string
  wp_packet_kind :: string
  wp_date :: string
  wp_hour :: string
  wp_shard_index :: nat
  wp_shard_count :: nat
  wp_session_ids :: "string list"
  wp_event_count :: nat
  wp_char_count :: "32 word"
  wp_estimated_tokens :: "32 word"
  wp_cached :: bool

record packet_planner_policy =
  pl_window_days :: "32 word"
  pl_usable_context_tokens :: "32 word"
  pl_context_fraction :: "64 word"
  pl_target_packet_tokens_override :: "32 word option"
  pl_max_packets_per_run :: nat
  pl_recent_priority_days :: int

record wiki_memory_packet_plan =
  wl_mode :: string
  wl_selection_strategy :: string
  wl_usable_context_tokens :: "32 word"
  wl_context_fraction :: "64 word"
  wl_target_packet_tokens :: "32 word"
  wl_active_day_count :: nat
  wl_active_hour_count :: nat
  wl_total_packet_count :: nat
  wl_selected_packet_count :: nat
  wl_packets :: "wiki_memory_packet list"
  wl_selected_packets :: "wiki_memory_packet list"

text \<open>The UTC date and hour of a timestamp, when it parses, and the date some days before a date.\<close>

record planner_env =
  pv_day_hour :: "string \<Rightarrow> (string \<times> string) option"
  pv_days_before :: "int \<Rightarrow> string \<Rightarrow> string option"

section \<open>The token budget\<close>

text \<open>\<open>f64::clamp(0.25, 0.9)\<close> on bit patterns; a NaN stays.\<close>

definition f64_quarter :: "64 word" where "f64_quarter = 0x3FD0000000000000"
definition f64_nine_tenths :: "64 word" where "f64_nine_tenths = 0x3FECCCCCCCCCCCCD"

definition f64_is_nan :: "64 word \<Rightarrow> bool" where
  "f64_is_nan w \<longleftrightarrow> take_bit 63 w > 0x7FF0000000000000"

definition clamp_fraction :: "64 word \<Rightarrow> 64 word" where
  "clamp_fraction w = (if f64_is_nan w then w
     else if bit w 63 \<or> w < f64_quarter then f64_quarter
     else if f64_nine_tenths < w then f64_nine_tenths else w)"

text \<open>
  A positive float of the binades from 0.25 to 1 as a multiple of \<open>2 ^ -54\<close>; its product with a \<open>u32\<close>, rounded
  to 53 bits (to nearest, ties to even), and the integral part.
\<close>

definition fraction_units :: "64 word \<Rightarrow> nat" where
  "fraction_units w = (2 ^ 52 + unat (take_bit 52 w)) * 2 ^ (unat (drop_bit 52 w) - 1021)"

fun bit_length :: "nat \<Rightarrow> nat" where
  "bit_length n = (if n = 0 then 0 else Suc (bit_length (n div 2)))"

declare bit_length.simps [simp del]

definition round53 :: "nat \<Rightarrow> nat" where
  "round53 n = (let s = bit_length n - 53; q = n div 2 ^ s; r = n mod 2 ^ s
     in if s = 0 then n
        else (if 2 * r < 2 ^ s \<or> (2 * r = 2 ^ s \<and> even q) then q else q + 1) * 2 ^ s)"

definition floor_product :: "32 word \<Rightarrow> 64 word \<Rightarrow> nat" where
  "floor_product tokens fraction = round53 (unat tokens * fraction_units fraction) div 2 ^ 54"

definition target_packet_tokens :: "packet_planner_policy \<Rightarrow> 32 word" where
  "target_packet_tokens p = (case pl_target_packet_tokens_override p of
     Some tokens \<Rightarrow> max tokens 2000
   | None \<Rightarrow> let fraction = clamp_fraction (pl_context_fraction p) in
       if f64_is_nan fraction then 2000
       else word_of_nat (min (max (floor_product (pl_usable_context_tokens p) fraction) 2000) (2 ^ 32 - 1)))"

section \<open>Estimates\<close>

definition event_chars :: "source_event \<Rightarrow> 32 word" where
  "event_chars e = (case ev_char_count e of Some n \<Rightarrow> n | None \<Rightarrow> word_of_nat (length (ev_text e)))"

definition char_count :: "source_event list \<Rightarrow> 32 word" where
  "char_count events = sum_list (map event_chars events)"

definition estimate_tokens :: "source_event list \<Rightarrow> 32 word" where
  "estimate_tokens events = max (char_count events div 4 + word_of_nat (length events) * 16) 1"

section \<open>Grouping and splitting\<close>

text \<open>\<open>map.entry(k).or_default().push(v)\<close>, and the map it builds over a list.\<close>

definition bt_push :: "'k::linorder \<Rightarrow> 'v \<Rightarrow> ('k, 'v list) btree_map \<Rightarrow> ('k, 'v list) btree_map" where
  "bt_push k v m = bt_insert k ((case bt_get m k of None \<Rightarrow> [] | Some vs \<Rightarrow> vs) @ [v]) m"

definition group_by :: "('v \<Rightarrow> 'k::linorder) \<Rightarrow> 'v list \<Rightarrow> ('k, 'v list) btree_map" where
  "group_by key xs = fold (\<lambda>x. bt_push (key x) x) xs []"

definition event_day_hour :: "planner_env \<Rightarrow> source_event \<Rightarrow> (string \<times> string) option" where
  "event_day_hour env e = pv_day_hour env (ev_ts e)"

definition session_key :: "source_event \<Rightarrow> string" where
  "session_key e = (if ev_session_id e = [] then ''unknown'' else ev_session_id e)"

definition split_step :: "32 word \<Rightarrow> source_event \<Rightarrow> source_event list list \<times> source_event list \<times> 32 word \<Rightarrow>
    source_event list list \<times> source_event list \<times> 32 word" where
  "split_step target_tokens row st = (case st of (chunks, current, current_tokens) \<Rightarrow>
     let row_tokens = estimate_tokens [row] in
     if current \<noteq> [] \<and> current_tokens + row_tokens > target_tokens
     then (chunks @ [current], [row], row_tokens)
     else (chunks, current @ [row], current_tokens + row_tokens))"

definition split_event_rows :: "source_event list \<Rightarrow> 32 word \<Rightarrow> source_event list list" where
  "split_event_rows rows target_tokens = (case fold (split_step target_tokens) rows ([], [], 0) of
     (chunks, current, _) \<Rightarrow> if current \<noteq> [] then chunks @ [current] else chunks)"

definition session_chunks :: "32 word \<Rightarrow> source_event list \<Rightarrow> source_event list list" where
  "session_chunks target_tokens rows = (
     let sorted_rows = sort_key ev_ts rows in
     if estimate_tokens sorted_rows \<le> target_tokens then [sorted_rows]
     else split_event_rows sorted_rows target_tokens)"

definition session_ids :: "source_event list \<Rightarrow> string list" where
  "session_ids events = bset (map ev_session_id (filter (\<lambda>e. ev_session_id e \<noteq> []) events))"

definition packet_id_text :: "string \<Rightarrow> string \<Rightarrow> nat \<Rightarrow> nat \<Rightarrow> string \<Rightarrow> string" where
  "packet_id_text date hour shard_index shard_count packet_kind =
     date @ ''T'' @ hour @ ''-'' @ decimal_padded 2 shard_index @ ''-of-'' @ decimal_padded 2 shard_count @
     ''-'' @ packet_kind"

definition packet_for_events :: "string \<Rightarrow> string \<Rightarrow> nat \<Rightarrow> nat \<Rightarrow> string \<Rightarrow> source_event list \<Rightarrow> string list \<Rightarrow>
    wiki_memory_packet" where
  "packet_for_events date hour shard_index shard_count packet_kind events cached = (
     let packet_id = packet_id_text date hour shard_index shard_count packet_kind in
     \<lparr> wp_packet_id = packet_id, wp_packet_kind = packet_kind, wp_date = date, wp_hour = hour,
       wp_shard_index = shard_index, wp_shard_count = shard_count, wp_session_ids = session_ids events,
       wp_event_count = length events, wp_char_count = char_count events,
       wp_estimated_tokens = estimate_tokens events, wp_cached = (packet_id \<in> set cached) \<rparr>)"

definition hour_chunks :: "source_event list \<Rightarrow> 32 word \<Rightarrow> source_event list list" where
  "hour_chunks events target_tokens =
     concat (map (session_chunks target_tokens) (bt_values (group_by session_key events)))"

definition packetize_hour :: "string \<Rightarrow> string \<Rightarrow> source_event list \<Rightarrow> 32 word \<Rightarrow> string list \<Rightarrow>
    wiki_memory_packet list" where
  "packetize_hour date hour events target_tokens cached =
     (if estimate_tokens events \<le> target_tokens then [packet_for_events date hour 1 1 ''hour'' events cached]
      else let chunks = hour_chunks events target_tokens; shard_count = max (length chunks) 1
           in map (\<lambda>(i, rows). packet_for_events date hour (i + 1) shard_count ''hour_part'' rows cached)
                (enumerate 0 chunks))"

section \<open>Selection and the plan\<close>

definition recent_priority_cutoff :: "planner_env \<Rightarrow> wiki_memory_packet list \<Rightarrow> int \<Rightarrow> string option" where
  "recent_priority_cutoff env packets days =
     (if packets = [] then None else pv_days_before env (days - 1) (Max (set (map wp_date packets))))"

definition select_packets_for_run :: "planner_env \<Rightarrow> wiki_memory_packet list \<Rightarrow> string \<Rightarrow> nat \<Rightarrow> int \<Rightarrow>
    wiki_memory_packet list" where
  "select_packets_for_run env packets mode max_packets days = (
     let uncached = filter (\<lambda>p. \<not> wp_cached p) packets in
     if mode \<noteq> ''catch_up_backfill'' \<or> days \<le> 0 then take max_packets uncached
     else (case recent_priority_cutoff env packets days of
         None \<Rightarrow> take max_packets uncached
       | Some cutoff \<Rightarrow> take max_packets (filter (\<lambda>p. wp_date p \<ge> cutoff) uncached @
           filter (\<lambda>p. \<not> wp_date p \<ge> cutoff) uncached)))"

definition resolved_events :: "planner_env \<Rightarrow> source_event list \<Rightarrow> ((string \<times> string) \<times> source_event) list" where
  "resolved_events env events =
     List.map_filter (\<lambda>e. map_option (\<lambda>k. (k, e)) (event_day_hour env e)) events"

definition hours_of :: "planner_env \<Rightarrow> source_event list \<Rightarrow> (string \<times> string, source_event list) btree_map" where
  "hours_of env events = fold (\<lambda>(k, e). bt_push k e) (sort_key (ev_ts \<circ> snd) (resolved_events env events)) []"

definition plan_mode :: "packet_planner_policy \<Rightarrow> string" where
  "plan_mode p = (if pl_window_days p > 2 then ''catch_up_backfill'' else ''daily_maintenance'')"

definition build_packet_plan :: "planner_env \<Rightarrow> source_event list \<Rightarrow> packet_planner_policy \<Rightarrow> string list \<Rightarrow>
    wiki_memory_packet_plan" where
  "build_packet_plan env events policy cached = (
     let target_tokens = target_packet_tokens policy;
         packets = concat (map (\<lambda>((date, hour), evs). packetize_hour date hour evs target_tokens cached)
           (hours_of env events));
         mode = plan_mode policy;
         selected = select_packets_for_run env packets mode (pl_max_packets_per_run policy) (pl_recent_priority_days policy)
     in \<lparr> wl_mode = mode,
          wl_selection_strategy = (if mode = ''catch_up_backfill'' then ''recent_three_days_first_then_oldest_to_newest''
            else ''oldest_to_newest''),
          wl_usable_context_tokens = pl_usable_context_tokens policy,
          wl_context_fraction = clamp_fraction (pl_context_fraction policy),
          wl_target_packet_tokens = target_tokens,
          wl_active_day_count = length (bset (map wp_date packets)),
          wl_active_hour_count = length (bset (map (\<lambda>p. (wp_date p, wp_hour p)) packets)),
          wl_total_packet_count = length packets, wl_selected_packet_count = length selected,
          wl_packets = packets, wl_selected_packets = selected \<rparr>)"

section \<open>Splitting keeps the rows\<close>

lemma split_loop_concat:
  assumes "fold (split_step target) rows (chunks, current, tokens) = (chunks', current', tokens')"
  shows "concat chunks' @ current' = concat chunks @ current @ rows"
  using assms
proof (induction rows arbitrary: chunks current tokens)
  case (Cons row rows)
  then show ?case
    by (cases "current \<noteq> [] \<and> tokens + estimate_tokens [row] > target") (auto simp: split_step_def Let_def)
qed simp

lemma split_concat: "concat (split_event_rows rows target) = rows"
proof -
  obtain chunks current tokens where fold: "fold (split_step target) rows ([], [], 0) = (chunks, current, tokens)"
    by (metis prod_cases3)
  then show ?thesis
    using split_loop_concat [OF fold] by (cases "current = []") (auto simp: split_event_rows_def)
qed

lemma split_step_cases:
  assumes "split_step target row (chunks, current, tokens) = (chunks', current', tokens')"
  obtains (cut) "current \<noteq> []" "tokens + estimate_tokens [row] > target" "chunks' = chunks @ [current]"
      "current' = [row]" "tokens' = estimate_tokens [row]"
    | (grow) "current = [] \<or> tokens + estimate_tokens [row] \<le> target" "chunks' = chunks"
      "current' = current @ [row]" "tokens' = tokens + estimate_tokens [row]"
proof (cases "current \<noteq> [] \<and> tokens + estimate_tokens [row] > target")
  case True
  then have "split_step target row (chunks, current, tokens) = (chunks @ [current], [row], estimate_tokens [row])"
    by (simp add: split_step_def Let_def)
  then have "chunks' = chunks @ [current] \<and> current' = [row] \<and> tokens' = estimate_tokens [row]"
    unfolding assms by blast
  then show ?thesis
    using True by (intro cut) simp_all
next
  case False
  then have "split_step target row (chunks, current, tokens) = (chunks, current @ [row], tokens + estimate_tokens [row])"
    by (simp only: split_step_def Let_def case_prod_conv if_False)
  then have "chunks' = chunks \<and> current' = current @ [row] \<and> tokens' = tokens + estimate_tokens [row]"
    unfolding assms by blast
  moreover have "current = [] \<or> tokens + estimate_tokens [row] \<le> target"
    using False by (simp add: linorder_not_less)
  ultimately show ?thesis
    by (intro grow) simp_all
qed

lemma split_loop_nonempty:
  assumes "fold (split_step target) rows (chunks, current, tokens) = (chunks', current', tokens')" "[] \<notin> set chunks"
  shows "[] \<notin> set chunks'"
  using assms
proof (induction rows arbitrary: chunks current tokens)
  case (Cons row rows)
  obtain c u t where one: "split_step target row (chunks, current, tokens) = (c, u, t)"
    by (metis prod_cases3)
  have "[] \<notin> set c"
    using one by (cases rule: split_step_cases) (use Cons.prems(2) in auto)
  then show ?case
    using Cons.IH [of c u t] Cons.prems(1) one by simp
qed simp

lemma split_nonempty: "[] \<notin> set (split_event_rows rows target)"
proof -
  obtain chunks current tokens where fold: "fold (split_step target) rows ([], [], 0) = (chunks, current, tokens)"
    by (metis prod_cases3)
  then show ?thesis
    using split_loop_nonempty [OF fold] by (auto simp: split_event_rows_def)
qed

lemma split_part:
  assumes "c \<in> set (split_event_rows rows target)"
  shows "\<exists>xs ys. rows = xs @ c @ ys"
proof -
  obtain us vs where "split_event_rows rows target = us @ c # vs"
    using split_list [OF assms] by blast
  then have "rows = concat us @ c @ concat vs"
    using split_concat [of rows target] by simp
  then show ?thesis
    by blast
qed

section \<open>Chunks and the budget\<close>

text \<open>Characters and costs as natural numbers; while the characters fit, \<open>u32\<close> arithmetic is exact.\<close>

definition chars_of :: "source_event list \<Rightarrow> nat" where
  "chars_of es = sum_list (map (unat \<circ> event_chars) es)"

definition cost_of :: "source_event list \<Rightarrow> nat" where
  "cost_of es = sum_list (map (\<lambda>e. unat (event_chars e) div 4 + 16) es)"

definition tokens_fit :: "source_event list \<Rightarrow> bool" where
  "tokens_fit es \<longleftrightarrow> chars_of es + 16 * length es < 2 ^ 32"

lemma chars_of_simps [simp]:
  "chars_of [] = 0" "chars_of (e # es) = unat (event_chars e) + chars_of es" "chars_of (es @ fs) = chars_of es + chars_of fs"
  by (simp_all add: chars_of_def)

lemma cost_of_simps [simp]:
  "cost_of [] = 0" "cost_of (e # es) = unat (event_chars e) div 4 + 16 + cost_of es" "cost_of (es @ fs) = cost_of es + cost_of fs"
  by (simp_all add: cost_of_def)

lemma unat_char_count: "chars_of es < 2 ^ 32 \<Longrightarrow> unat (char_count es) = chars_of es"
proof (induction es)
  case (Cons e es)
  then show ?case
    by (simp add: char_count_def unat_word_ariths(1))
qed (simp add: char_count_def)

lemma unat_estimate:
  assumes "tokens_fit es" "es \<noteq> []"
  shows "unat (estimate_tokens es) = chars_of es div 4 + 16 * length es"
proof -
  have chars: "unat (char_count es) = chars_of es"
    using assms(1) by (intro unat_char_count) (simp add: tokens_fit_def)
  have len: "unat (word_of_nat (length es) * 16 :: 32 word) = 16 * length es"
    using assms(1) by (simp add: tokens_fit_def unat_word_ariths(2) unat_of_nat)
  have "unat (char_count es div 4 + word_of_nat (length es) * 16 :: 32 word) = chars_of es div 4 + 16 * length es"
    using assms(1) chars len by (simp add: unat_word_ariths(1) unat_div tokens_fit_def)
  moreover have "1 \<le> chars_of es div 4 + 16 * length es"
    using assms(2) by (cases es) auto
  ultimately show ?thesis
    unfolding estimate_tokens_def by (simp add: max_def word_le_nat_alt)
qed

lemma cost_bounds: "cost_of es \<le> chars_of es + 16 * length es"
  by (induction es) auto

lemma tokens_fit_part: "tokens_fit (es @ fs) \<Longrightarrow> tokens_fit es" "tokens_fit (es @ fs) \<Longrightarrow> tokens_fit fs"
  by (simp_all add: tokens_fit_def)

lemma unat_row: "tokens_fit [e] \<Longrightarrow> unat (estimate_tokens [e]) = cost_of [e]"
  by (simp add: unat_estimate)

text \<open>The floors lose less than one token per row.\<close>

lemma estimate_cost: "tokens_fit es \<Longrightarrow> es \<noteq> [] \<Longrightarrow> 4 * unat (estimate_tokens es) \<le> 4 * cost_of es + 3 * length es"
proof -
  have "chars_of es + 64 * length es \<le> 4 * cost_of es + 3 * length es"
    by (induction es) auto
  then show "tokens_fit es \<Longrightarrow> es \<noteq> [] \<Longrightarrow> ?thesis"
    by (simp add: unat_estimate)
qed

definition chunk_ok :: "32 word \<Rightarrow> source_event list \<Rightarrow> bool" where
  "chunk_ok target c \<longleftrightarrow> length c \<le> 1 \<or> cost_of c \<le> unat target"

lemma split_loop_budget:
  assumes "fold (split_step target) rows (chunks, current, tokens) = (chunks', current', tokens')"
    "tokens_fit (current @ rows)" "unat tokens = cost_of current" "chunk_ok target current" "\<forall>c \<in> set chunks. chunk_ok target c"
  shows "chunk_ok target current' \<and> (\<forall>c \<in> set chunks'. chunk_ok target c)"
  using assms
proof (induction rows arbitrary: chunks current tokens)
  case (Cons row rows)
  obtain c u t where one: "split_step target row (chunks, current, tokens) = (c, u, t)"
    by (metis prod_cases3)
  have row: "unat (estimate_tokens [row]) = cost_of [row]"
    using Cons.prems(2) by (intro unat_row) (simp add: tokens_fit_def)
  have "cost_of (current @ [row]) < 2 ^ 32"
    using Cons.prems(2) cost_bounds [of "current @ [row]"] by (simp add: tokens_fit_def)
  then have sum: "unat (tokens + estimate_tokens [row]) = cost_of (current @ [row])"
    using row Cons.prems(3) by (simp add: unat_word_ariths(1))
  have "tokens_fit (u @ rows) \<and> unat t = cost_of u \<and> chunk_ok target u \<and> (\<forall>c \<in> set c. chunk_ok target c)"
    using one
  proof (cases rule: split_step_cases)
    case cut
    then show ?thesis
      using Cons.prems(2,4,5) row by (auto simp: chunk_ok_def tokens_fit_def)
  next
    case grow
    then show ?thesis
      using Cons.prems(2,5) sum by (auto simp: chunk_ok_def word_le_nat_alt)
  qed
  then show ?case
    using Cons.IH [of c u t] Cons.prems(1) one by simp
qed simp

lemma split_budget:
  assumes "tokens_fit rows"
  shows "\<forall>c \<in> set (split_event_rows rows target). chunk_ok target c"
proof -
  obtain chunks current tokens where fold: "fold (split_step target) rows ([], [], 0) = (chunks, current, tokens)"
    by (metis prod_cases3)
  then show ?thesis
    using split_loop_budget [OF fold] assms by (auto simp: split_event_rows_def chunk_ok_def)
qed

lemma cost_length: "16 * length es \<le> cost_of es"
  by (induction es) auto

definition sample_event :: "string \<Rightarrow> string \<Rightarrow> string \<Rightarrow> source_event" where
  "sample_event ts session text = \<lparr> ev_object_id = None, ev_ts = ts, ev_session_id = session, ev_kind = ''message'',
     ev_text = text, ev_source_id = None, ev_source_type = None, ev_source_key = None, ev_source_display_name = None,
     ev_source = None, ev_source_record_id = None, ev_source_record_key = None, ev_source_record_hash = None,
     ev_series_id = None, ev_series_kind = None, ev_series_key = None, ev_series_display_name = None, ev_role = None,
     ev_privacy_class = None, ev_body_type = None, ev_cwd = None, ev_project_key = None, ev_char_count = None \<rparr>"

definition split_within_budget :: "source_event list \<Rightarrow> 32 word \<Rightarrow> bool" where
  "split_within_budget rows target \<longleftrightarrow> concat (split_event_rows rows target) = rows \<and>
     (\<forall>c \<in> set (split_event_rows rows target). c \<noteq> [] \<and>
        (length c \<noteq> 1 \<longrightarrow> 64 * unat (estimate_tokens c) \<le> 67 * unat target))"

text \<open>Splitting the rows of a session keeps every row, in order, in non-empty chunks; and unless a chunk is
  a single row, its estimate exceeds the token budget by less than 5 percent (3/64), while the characters
  of the rows fit 32 bits.\<close>

theorem split_rows_budget:
  assumes "tokens_fit rows"
  shows "split_within_budget rows target"
proof -
  have "64 * unat (estimate_tokens c) \<le> 67 * unat target"
    if "c \<in> set (split_event_rows rows target)" "length c \<noteq> 1" for c
  proof -
    have "c \<noteq> []"
      using that(1) split_nonempty by metis
    then have "cost_of c \<le> unat target"
      using split_budget [OF assms, of target] that by (cases c) (auto simp: chunk_ok_def)
    moreover have "tokens_fit c"
      using split_part [OF that(1)] assms by (auto simp: tokens_fit_def)
    ultimately show ?thesis
      using estimate_cost [of c] cost_length [of c] \<open>c \<noteq> []\<close> by simp
  qed
  then show ?thesis
    using split_concat [of rows target] split_nonempty [of rows target] by (auto simp: split_within_budget_def)
qed


text \<open>Four rows of three characters against a budget of 64: one chunk, estimated at 67.\<close>

definition sample_rows :: "source_event list" where
  "sample_rows = (let e = sample_event ''t'' ''s'' ''abc'' in [e, e, e, e])"

lemma split_rows_budget_witness:
  "split_within_budget sample_rows 64 \<and> split_event_rows sample_rows 64 = [sample_rows] \<and> estimate_tokens sample_rows = 67"
proof (intro conjI)
  have "tokens_fit sample_rows"
    by (simp add: tokens_fit_def sample_rows_def Let_def event_chars_def sample_event_def)
  then show "split_within_budget sample_rows 64"
    by (rule split_rows_budget)
qed code_simp+

section \<open>Groups\<close>

lemma bt_wf_push [simp]: "bt_wf m \<Longrightarrow> bt_wf (bt_push k v m)"
  by (simp add: bt_push_def)

lemma bt_get_push:
  "bt_wf m \<Longrightarrow> bt_get (bt_push k v m) j =
     (if j = k then Some ((case bt_get m k of None \<Rightarrow> [] | Some vs \<Rightarrow> vs) @ [v]) else bt_get m j)"
  by (simp add: bt_push_def)

lemma bt_wf_fold_push [simp]: "bt_wf m \<Longrightarrow> bt_wf (fold (\<lambda>x. bt_push (key x) (val x)) xs m)"
  by (induction xs arbitrary: m) simp_all

lemma bt_get_fold_push:
  "bt_get (fold (\<lambda>x. bt_push (key x) (val x)) xs []) k =
     (let vs = map val (filter (\<lambda>x. key x = k) xs) in if vs = [] then None else Some vs)"
proof (induction xs rule: rev_induct)
  case (snoc x xs)
  then show ?case
    by (auto simp: bt_get_push Let_def filter_empty_conv split: if_splits)
qed simp

lemma bt_wf_Cons: "bt_wf ((j, w) # m) \<longleftrightarrow> bt_wf m \<and> (\<forall>i \<in> fst ` set m. j < i)"
  by (auto simp: bt_wf_def)

lemma bt_get_below:
  assumes "bt_wf ((j, w) # m)" "k \<le> j"
  shows "bt_get m k = None"
proof -
  have "k \<notin> fst ` set m"
    using assms by (auto simp: bt_wf_Cons)
  then show ?thesis
    by (simp add: bt_get_def map_of_eq_None_iff)
qed

lemma mset_bt_push:
  assumes "bt_wf m"
  shows "mset (concat (bt_values (bt_push k v m))) = add_mset v (mset (concat (bt_values m)))"
  using assms
proof (induction m)
  case Nil
  then show ?case
    by (simp add: bt_push_def bt_values_def)
next
  case (Cons e m)
  obtain j w where e: "e = (j, w)"
    by (cases e)
  consider "k < j" | "k = j" | "j < k"
    by (rule linorder_cases)
  then show ?case
  proof cases
    case 1
    then have "bt_get ((j, w) # m) k = None"
      using Cons.prems e bt_get_below [of j w m k] by (simp add: bt_get_def)
    then show ?thesis
      using 1 e by (simp add: bt_push_def bt_values_def)
  next
    case 2
    then show ?thesis
      using e by (simp add: bt_push_def bt_values_def bt_get_def)
  next
    case 3
    then have "bt_push k v ((j, w) # m) = (j, w) # bt_push k v m"
      by (auto simp: bt_push_def bt_get_def)
    then show ?thesis
      using Cons e by (simp add: bt_values_def bt_wf_Cons)
  qed
qed

lemma mset_fold_push:
  "mset (concat (bt_values (fold (\<lambda>x. bt_push (key x) (val x)) xs []))) = mset (map val xs)"
proof (induction xs rule: rev_induct)
  case (snoc x xs)
  then show ?case
    by (simp add: mset_bt_push)
qed (simp add: bt_values_def)

lemma mset_group_by: "mset (concat (bt_values (group_by key xs))) = mset xs"
  unfolding group_by_def using mset_fold_push [of key "\<lambda>x. x" xs] by simp

lemma mset_concat_values: "(\<And>v. v \<in> set vs \<Longrightarrow> mset (concat (f v)) = mset v) \<Longrightarrow>
    mset (concat (concat (map f vs))) = mset (concat vs)"
  by (induction vs) auto

lemma mset_session_chunks: "mset (concat (session_chunks target rows)) = mset rows"
  by (simp add: session_chunks_def Let_def split_concat)

lemma mset_hour_chunks: "mset (concat (hour_chunks events target)) = mset events"
  unfolding hour_chunks_def using mset_concat_values [OF mset_session_chunks] mset_group_by [of session_key events]
  by simp

lemma session_chunks_nonempty:
  assumes "rows \<noteq> []"
  shows "[] \<notin> set (session_chunks target rows)"
proof (cases "estimate_tokens (sort_key ev_ts rows) \<le> target")
  case True
  then have "session_chunks target rows = [sort_key ev_ts rows]"
    by (simp add: session_chunks_def)
  moreover have "sort_key ev_ts rows \<noteq> []"
    using assms by (metis length_0_conv length_sort)
  ultimately show ?thesis
    by simp
qed (simp add: session_chunks_def split_nonempty)

lemma group_by_nonempty: "[] \<notin> set (bt_values (group_by key xs))"
proof
  assume "[] \<in> set (bt_values (group_by key xs))"
  moreover have "bt_wf (group_by key xs)"
    unfolding group_by_def by (rule bt_wf_fold_push) simp
  ultimately obtain k where "bt_get (group_by key xs) k = Some []"
    by (auto simp: bt_values_iff)
  then show False
    using bt_get_fold_push [of key "\<lambda>x. x" xs k] by (simp add: group_by_def Let_def split: if_splits)
qed

lemma hour_chunks_nonempty: "[] \<notin> set (hour_chunks events target)"
proof
  assume "[] \<in> set (hour_chunks events target)"
  then obtain rows where rows: "rows \<in> set (bt_values (group_by session_key events))" "[] \<in> set (session_chunks target rows)"
    by (auto simp: hour_chunks_def)
  then have "rows \<noteq> []"
    using group_by_nonempty by metis
  then show False
    using rows(2) session_chunks_nonempty by blast
qed

lemma hours_of_push: "hours_of env events = fold (\<lambda>x. bt_push (fst x) (snd x)) (sort_key (ev_ts \<circ> snd) (resolved_events env events)) []"
  by (simp add: hours_of_def case_prod_unfold)

lemma bt_wf_hours_of [simp]: "bt_wf (hours_of env events)"
  unfolding hours_of_push by (rule bt_wf_fold_push) simp

section \<open>Selection\<close>

definition uncached_packets :: "wiki_memory_packet_plan \<Rightarrow> wiki_memory_packet list" where
  "uncached_packets plan = filter (\<lambda>p. \<not> wp_cached p) (wl_packets plan)"

definition is_recent :: "planner_env \<Rightarrow> packet_planner_policy \<Rightarrow> wiki_memory_packet_plan \<Rightarrow> wiki_memory_packet \<Rightarrow> bool" where
  "is_recent env policy plan p = (wl_mode plan = ''catch_up_backfill'' \<and> 0 < pl_recent_priority_days policy \<and>
     (case recent_priority_cutoff env (wl_packets plan) (pl_recent_priority_days policy) of
        None \<Rightarrow> False | Some cutoff \<Rightarrow> wp_date p \<ge> cutoff))"

definition selection_correct :: "planner_env \<Rightarrow> packet_planner_policy \<Rightarrow> wiki_memory_packet_plan \<Rightarrow> bool" where
  "selection_correct env policy plan \<longleftrightarrow>
     (let sel = wl_selected_packets plan; todo = uncached_packets plan; recent = is_recent env policy plan in
        length sel = min (pl_max_packets_per_run policy) (length todo) \<and>
        (\<exists>rest. mset (sel @ rest) = mset todo \<and> (Bex (set rest) recent \<longrightarrow> Ball (set sel) recent)) \<and>
        prefix (filter recent sel) (filter recent todo) \<and>
        prefix (filter (Not \<circ> recent) sel) (filter (Not \<circ> recent) todo))"

lemma prefix_filter_take: "prefix (filter P (take n xs)) (filter P xs)"
  by (metis append_take_drop_id filter_append prefixI)

lemma priority_take:
  fixes P :: "'a \<Rightarrow> bool"
  defines "q \<equiv> \<lambda>xs. filter P xs @ filter (Not \<circ> P) xs"
  shows "Bex (set (drop n (q xs))) P \<Longrightarrow> Ball (set (take n (q xs))) P"
proof -
  assume "Bex (set (drop n (q xs))) P"
  then obtain x where x: "x \<in> set (drop n (q xs))" "P x"
    by blast
  have "n < length (filter P xs)"
  proof (rule ccontr)
    assume "\<not> n < length (filter P xs)"
    then have "set (drop n (q xs)) \<subseteq> set (filter (Not \<circ> P) xs)"
      by (simp add: q_def set_drop_subset del: set_filter)
    then show False
      using x by auto
  qed
  then show "Ball (set (take n (q xs))) P"
    by (auto simp: q_def dest: in_set_takeD)
qed

lemma select_take:
  assumes "\<And>p. recent p \<longleftrightarrow> mode = ''catch_up_backfill'' \<and> 0 < days \<and>
      (case recent_priority_cutoff env packets days of None \<Rightarrow> False | Some c \<Rightarrow> wp_date p \<ge> c)"
  shows "select_packets_for_run env packets mode n days =
     take n (filter recent (filter (\<lambda>p. \<not> wp_cached p) packets) @
       filter (Not \<circ> recent) (filter (\<lambda>p. \<not> wp_cached p) packets))"
proof (cases "mode \<noteq> ''catch_up_backfill'' \<or> days \<le> 0 \<or> recent_priority_cutoff env packets days = None")
  case True
  then have "recent = (\<lambda>_. False)"
    using assms by (auto simp: fun_eq_iff)
  then show ?thesis
    using True by (auto simp: select_packets_for_run_def Let_def comp_def)
next
  case False
  then obtain c where c: "recent_priority_cutoff env packets days = Some c"
    by auto
  then have "recent = (\<lambda>p. wp_date p \<ge> c)"
    using False assms by (auto simp: fun_eq_iff)
  then show ?thesis
    using False c by (simp add: select_packets_for_run_def Let_def comp_def)
qed

lemma sorted_concat_keys:
  fixes m :: "('k::linorder \<times> 'v) list"
  assumes "sorted (map fst m)" "\<And>e x. e \<in> set m \<Longrightarrow> x \<in> set (f e) \<Longrightarrow> key x = fst e"
  shows "sorted (map key (concat (map f m)))"
  using assms
proof (induction m)
  case (Cons e m)
  have "map key (f e) = replicate (length (f e)) (fst e)"
    using Cons.prems(2) by (simp add: map_eq_conv flip: map_replicate_const)
  then have "sorted (map key (f e))"
    by simp
  moreover have "key x \<le> key y" if x: "x \<in> set (f e)" and y: "y \<in> set (concat (map f m))" for x y
  proof -
    obtain e' where e': "e' \<in> set m" "y \<in> set (f e')"
      using y by auto
    then have "key x = fst e" "key y = fst e'"
      using Cons.prems(2) x by simp_all
    then show ?thesis
      using Cons.prems(1) e'(1) by simp
  qed
  moreover have "sorted (map key (concat (map f m)))"
    using Cons by simp
  ultimately show ?case
    unfolding list.map concat.simps map_append sorted_append set_map by blast
qed simp

lemma packet_for_events_sel [simp]:
  "wp_date (packet_for_events date hour i n kind events cached) = date"
  "wp_hour (packet_for_events date hour i n kind events cached) = hour"
  "wp_packet_id (packet_for_events date hour i n kind events cached) = packet_id_text date hour i n kind"
  "wp_session_ids (packet_for_events date hour i n kind events cached) = session_ids events"
  "wp_event_count (packet_for_events date hour i n kind events cached) = length events"
  "wp_char_count (packet_for_events date hour i n kind events cached) = char_count events"
  "wp_estimated_tokens (packet_for_events date hour i n kind events cached) = estimate_tokens events"
  by (simp_all add: packet_for_events_def Let_def)

text \<open>The shards of an hour: index, count, kind and events of each.\<close>

definition hour_shards :: "source_event list \<Rightarrow> 32 word \<Rightarrow> (nat \<times> nat \<times> string \<times> source_event list) list" where
  "hour_shards events target = (if estimate_tokens events \<le> target then [(1, 1, ''hour'', events)]
     else map (\<lambda>(i, rows). (i + 1, max (length (hour_chunks events target)) 1, ''hour_part'', rows))
       (enumerate 0 (hour_chunks events target)))"

lemma packetize_hour_shards:
  "packetize_hour date hour events target cached =
     map (\<lambda>(i, n, kind, rows). packet_for_events date hour i n kind rows cached) (hour_shards events target)"
  by (simp add: packetize_hour_def hour_shards_def Let_def case_prod_unfold)

lemma packetize_hour_keys:
  assumes "p \<in> set (packetize_hour date hour events target cached)"
  shows "(wp_date p, wp_hour p) = (date, hour)"
proof -
  obtain s where "p = (\<lambda>(i, n, kind, rows). packet_for_events date hour i n kind rows cached) s"
    using assms unfolding packetize_hour_shards set_map by blast
  then show ?thesis
    by (simp add: case_prod_unfold)
qed

lemma plan_hours:
  assumes "p \<in> set (case e of (x, evs) \<Rightarrow> (case x of (date, hour) \<Rightarrow> \<lambda>evs. packetize_hour date hour evs target cached) evs)"
  shows "(wp_date p, wp_hour p) = fst e"
proof -
  obtain date hour evs where "e = ((date, hour), evs)"
    by (metis surj_pair)
  then show ?thesis
    using assms packetize_hour_keys by simp
qed

lemma select_subset: "set (select_packets_for_run env packets mode n days) \<subseteq> set packets"
  unfolding select_packets_for_run_def Let_def by (auto dest!: in_set_takeD split: option.splits)

text \<open>A run selects as many uncached packets as the policy allows, no packet twice; while a recent packet is
  left over only recent ones are selected, and both the recent and the older ones are taken in the order
  of the plan, which is by date and hour.\<close>

theorem selection_is_correct:
  "selection_correct env policy (build_packet_plan env events policy cached) \<and>
   sorted (map (\<lambda>p. (wp_date p, wp_hour p)) (wl_packets (build_packet_plan env events policy cached)))"
proof -
  let ?plan = "build_packet_plan env events policy cached"
  let ?recent = "is_recent env policy ?plan" and ?todo = "uncached_packets ?plan"
  let ?n = "pl_max_packets_per_run policy"
  let ?q = "filter ?recent ?todo @ filter (Not \<circ> ?recent) ?todo"
  have sel: "wl_selected_packets ?plan = take ?n ?q"
    unfolding uncached_packets_def
    by (simp only: build_packet_plan_def Let_def wiki_memory_packet_plan.simps)
      (rule select_take, simp add: is_recent_def)
  have all: "mset ?q = mset ?todo"
    by (simp add: comp_def)
  have "mset (take ?n ?q @ drop ?n ?q) = mset ?todo"
    unfolding append_take_drop_id by (rule all)
  moreover have "length (take ?n ?q) = min ?n (length ?todo)"
    using mset_eq_length [OF all] by (simp add: min.commute)
  moreover have "filter ?recent ?q = filter ?recent ?todo" "filter (Not \<circ> ?recent) ?q = filter (Not \<circ> ?recent) ?todo"
    by (simp_all add: comp_def)
  ultimately have "selection_correct env policy ?plan"
    unfolding selection_correct_def Let_def sel
    using priority_take [of ?n ?recent ?todo] prefix_filter_take [of ?recent ?n ?q]
      prefix_filter_take [of "Not \<circ> ?recent" ?n ?q] by metis
  moreover have "sorted (map (\<lambda>p. (wp_date p, wp_hour p)) (wl_packets ?plan))"
    unfolding build_packet_plan_def Let_def wiki_memory_packet_plan.simps
    using sorted_concat_keys [OF bt_wf_sorted [OF bt_wf_hours_of] plan_hours] .
  ultimately show ?thesis
    by blast
qed

end
