(* ===== verification/Engine_Paths.thy ===== *)
theory Engine_Paths
  imports Safe_Id
begin

text \<open>
  The directory layout of the context engine: \<open>ContextEnginePaths\<close> of
  \<open>crates/onecontext-context-engine/src/lib.rs\<close>, the directories a release creates, and the check that
  no retired directory exists. The file system is the list of the paths that exist; a path is its text.
\<close>

section \<open>The paths\<close>

record context_engine_paths =
  ce_root :: string
  ce_context_engine :: string
  ce_live :: string
  ce_user_wiki :: string
  ce_packs :: string
  ce_orchestrators :: string
  ce_agents :: string
  ce_agent_directory :: string
  ce_agent_directory_agents_file :: string
  ce_agent_directory_leases_file :: string
  ce_agent_harness :: string
  ce_agent_policies :: string
  ce_mail :: string
  ce_mail_messages :: string
  ce_mail_bodies :: string
  ce_mail_mailboxes :: string
  ce_mail_threads :: string
  ce_mail_deliveries_file :: string
  ce_mail_claims_file :: string
  ce_mail_idempotency_file :: string
  ce_mail_injection_receipts_file :: string
  ce_mail_control_events_file :: string
  ce_mail_dead_letter_file :: string
  ce_mail_mutation_lock_file :: string
  ce_wiki_company_mail_thread :: string
  ce_notifications :: string
  ce_notification_outbox_file :: string
  ce_notification_attempts_file :: string
  ce_notification_cursors :: string
  ce_state :: string
  ce_state_harness :: string
  ce_state_codex_app_server :: string
  ce_state_codex_app_server_threads :: string
  ce_state_scheduler :: string
  ce_state_scheduler_dependency_graph :: string
  ce_state_runs :: string
  ce_state_runs_wiki_company :: string
  ce_state_current_run_file :: string
  ce_state_run_events_file :: string
  ce_state_cleanup_receipts_file :: string
  ce_state_migration_receipts_file :: string
  ce_runs :: string
  ce_artifacts :: string
  ce_artifacts_content :: string
  ce_archive :: string
  ce_archive_failed_runs :: string
  ce_process_logs :: string
  ce_codex_app_server_events_file :: string
  ce_wiki_memory_cache :: string
  ce_tmp :: string

definition paths_new :: "string \<Rightarrow> context_engine_paths" where
  "paths_new root = (
     let context_engine = path_join root ''context-engine'';
         live = path_join context_engine ''live'';
         user_wiki = path_join root ''user-wiki'';
         packs = path_join context_engine ''packs'';
         orchestrators = path_join context_engine ''orchestrators'';
         agents = path_join live ''agents'';
         mail = path_join live ''mail'';
         mail_messages = path_join mail ''messages'';
         mail_bodies = path_join mail ''bodies'';
         mail_mailboxes = path_join mail ''mailboxes'';
         mail_threads = path_join mail ''threads'';
         wiki_company_mail_thread = path_join mail_threads ''wiki-company.jsonl'';
         notifications = path_join live ''notifications'';
         state = path_join live ''state'';
         state_harness = path_join state ''harness'';
         state_codex_app_server = path_join state ''codex-app-server'';
         state_codex_app_server_threads = path_join state_codex_app_server ''threads'';
         state_service = path_join state ''service'';
         state_runs = state_service;
         state_runs_wiki_company = state_service;
         state_scheduler = path_join state ''scheduler'';
         runs = path_join live ''runs'';
         artifacts = runs;
         archive = path_join live ''archive'';
         archive_failed_runs = path_join archive ''failed-runs'';
         process_logs = path_join state ''process-logs''
     in \<lparr> ce_root = root,
          ce_context_engine = context_engine,
          ce_live = live,
          ce_user_wiki = user_wiki,
          ce_packs = packs,
          ce_orchestrators = orchestrators,
          ce_agents = agents,
          ce_agent_directory = path_join agents ''directory'',
          ce_agent_directory_agents_file = path_join (path_join agents ''directory'') ''agents.jsonl'',
          ce_agent_directory_leases_file = path_join (path_join agents ''directory'') ''leases.jsonl'',
          ce_agent_harness = state_harness,
          ce_agent_policies = path_join agents ''policies'',
          ce_mail = mail,
          ce_mail_messages = mail_messages,
          ce_mail_bodies = mail_bodies,
          ce_mail_mailboxes = mail_mailboxes,
          ce_mail_threads = mail_threads,
          ce_mail_deliveries_file = path_join mail ''deliveries.jsonl'',
          ce_mail_claims_file = path_join mail ''claims.jsonl'',
          ce_mail_idempotency_file = path_join mail ''idempotency.jsonl'',
          ce_mail_injection_receipts_file = path_join mail ''injection-receipts.jsonl'',
          ce_mail_control_events_file = path_join mail ''control-events.jsonl'',
          ce_mail_dead_letter_file = path_join mail ''dead-letter.jsonl'',
          ce_mail_mutation_lock_file = path_join mail ''.mutation.lock'',
          ce_wiki_company_mail_thread = wiki_company_mail_thread,
          ce_notifications = notifications,
          ce_notification_outbox_file = path_join notifications ''outbox.jsonl'',
          ce_notification_attempts_file = path_join notifications ''attempts.jsonl'',
          ce_notification_cursors = path_join notifications ''cursors'',
          ce_state = state,
          ce_state_harness = state_harness,
          ce_state_codex_app_server = state_codex_app_server,
          ce_state_codex_app_server_threads = state_codex_app_server_threads,
          ce_state_scheduler = state_scheduler,
          ce_state_scheduler_dependency_graph = path_join state_scheduler ''dependency-graph.json'',
          ce_state_runs = state_runs,
          ce_state_runs_wiki_company = state_runs_wiki_company,
          ce_state_current_run_file = path_join state_runs_wiki_company ''current-run.json'',
          ce_state_run_events_file = path_join state_runs_wiki_company ''run-events.jsonl'',
          ce_state_cleanup_receipts_file = path_join state ''cleanup-receipts.jsonl'',
          ce_state_migration_receipts_file = path_join state ''migration-receipts.jsonl'',
          ce_runs = runs,
          ce_artifacts = artifacts,
          ce_artifacts_content = path_join (path_join runs ''_content'') ''sha256'',
          ce_archive = archive,
          ce_archive_failed_runs = archive_failed_runs,
          ce_process_logs = process_logs,
          ce_codex_app_server_events_file = path_join state_codex_app_server ''events.jsonl'',
          ce_wiki_memory_cache = path_join state_service ''wiki-memory-cache'',
          ce_tmp = path_join live ''tmp'' \<rparr>)"

definition release_dirs :: "context_engine_paths \<Rightarrow> string list" where
  "release_dirs p = [ce_context_engine p, ce_live p, ce_user_wiki p, ce_packs p, ce_orchestrators p,
     ce_agents p, ce_agent_directory p, ce_agent_harness p, ce_agent_policies p, ce_mail p,
     ce_mail_messages p, ce_mail_bodies p, ce_mail_mailboxes p, ce_mail_threads p, ce_notifications p,
     ce_notification_cursors p, ce_state p, ce_state_harness p, ce_state_codex_app_server p, ce_state_codex_app_server_threads p,
     ce_state_scheduler p, ce_state_runs_wiki_company p, ce_state_runs p, ce_runs p, ce_artifacts p,
     ce_archive p, ce_archive_failed_runs p, ce_process_logs p, ce_wiki_memory_cache p, ce_tmp p]"

definition forbidden_names :: "string list" where
  "forbidden_names = [''agents'', ''archive'', ''decisions'', ''inbox'', ''jobs'', ''ledgers'',
     ''mail'', ''notifications'', ''observations'', ''runs'', ''state'', ''tmp'',
     ''wiki-memory-cache'', ''source-packets'', ''artifacts'', ''prompts'', ''proposals'']"

text \<open>The paths of one run; the run identifier is made safe first.\<close>

definition agent_tmp_dir :: "(string \<Rightarrow> string) \<Rightarrow> context_engine_paths \<Rightarrow> string \<Rightarrow> string \<Rightarrow> string" where
  "agent_tmp_dir sha p run_id agent_id =
     path_join (path_join (path_join (ce_tmp p) (safe_run_id sha run_id)) ''agents'') (safe_run_id sha agent_id)"

definition run_root :: "(string \<Rightarrow> string) \<Rightarrow> context_engine_paths \<Rightarrow> string \<Rightarrow> string" where
  "run_root sha p run_id = path_join (ce_runs p) (safe_run_id sha run_id)"

definition run_json_path :: "(string \<Rightarrow> string) \<Rightarrow> context_engine_paths \<Rightarrow> string \<Rightarrow> string" where
  "run_json_path sha p run_id = path_join (run_root sha p run_id) ''run.json''"

definition run_source_packets :: "(string \<Rightarrow> string) \<Rightarrow> context_engine_paths \<Rightarrow> string \<Rightarrow> string" where
  "run_source_packets sha p run_id = path_join (run_root sha p run_id) ''source-packets''"

definition run_turns :: "(string \<Rightarrow> string) \<Rightarrow> context_engine_paths \<Rightarrow> string \<Rightarrow> string" where
  "run_turns sha p run_id = path_join (run_root sha p run_id) ''turns''"

definition run_artifacts :: "(string \<Rightarrow> string) \<Rightarrow> context_engine_paths \<Rightarrow> string \<Rightarrow> string" where
  "run_artifacts sha p run_id = path_join (run_root sha p run_id) ''artifacts''"

definition run_publish :: "(string \<Rightarrow> string) \<Rightarrow> context_engine_paths \<Rightarrow> string \<Rightarrow> string" where
  "run_publish sha p run_id = path_join (run_root sha p run_id) ''publish''"

definition run_state_dir :: "(string \<Rightarrow> string) \<Rightarrow> context_engine_paths \<Rightarrow> string \<Rightarrow> string" where
  "run_state_dir sha p run_id = path_join (run_root sha p run_id) ''state''"

definition run_mail_index_path :: "(string \<Rightarrow> string) \<Rightarrow> context_engine_paths \<Rightarrow> string \<Rightarrow> string" where
  "run_mail_index_path sha p run_id = path_join (run_root sha p run_id) ''mail-index.jsonl''"

definition run_receipt_hydration_path :: "(string \<Rightarrow> string) \<Rightarrow> context_engine_paths \<Rightarrow> string \<Rightarrow> string" where
  "run_receipt_hydration_path sha p run_id = path_join (run_root sha p run_id) ''receipt-hydration.json''"

definition run_artifacts_content :: "(string \<Rightarrow> string) \<Rightarrow> context_engine_paths \<Rightarrow> string \<Rightarrow> string" where
  "run_artifacts_content sha p run_id = path_join (path_join (run_artifacts sha p run_id) ''_content'') ''sha256''"

definition final_message_receipt_relative_path :: "(string \<Rightarrow> string) \<Rightarrow> string \<Rightarrow> string \<Rightarrow> string \<Rightarrow> string" where
  "final_message_receipt_relative_path sha run_id operation_id filename = (
     let name = (case path_file_name filename of None \<Rightarrow> ''final-message.md'' | Some n \<Rightarrow> n)
     in ''context-engine/live/runs/'' @ safe_run_id sha run_id @ ''/turns/'' @ safe_run_id sha operation_id @
        ''/attempt-0001/'' @ name)"

section \<open>The directories on disk\<close>

definition create_dir_all :: "string \<Rightarrow> string list \<Rightarrow> string list" where
  "create_dir_all p fs = fs @ path_ancestors p"

definition ensure_release_dirs :: "context_engine_paths \<Rightarrow> string list \<Rightarrow> string list" where
  "ensure_release_dirs p fs = fold create_dir_all (release_dirs p) fs"

record storage_layout_report =
  lr_status :: string
  lr_forbidden_paths :: "string list"

definition validate_storage_layout :: "context_engine_paths \<Rightarrow> string list \<Rightarrow> storage_layout_report" where
  "validate_storage_layout p fs = (
     let forbidden_paths = filter (\<lambda>q. q \<in> set fs) (map (path_join (ce_context_engine p)) forbidden_names)
     in \<lparr> lr_status = (if forbidden_paths = [] then ''ok'' else ''blocked''),
          lr_forbidden_paths = forbidden_paths \<rparr>)"

definition layout_is_valid :: "storage_layout_report \<Rightarrow> bool" where
  "layout_is_valid r \<longleftrightarrow> lr_forbidden_paths r = []"

text \<open>Every directory that belongs to one run and one agent of it.\<close>

definition run_dirs :: "(string \<Rightarrow> string) \<Rightarrow> context_engine_paths \<Rightarrow> string \<Rightarrow> string \<Rightarrow> string list" where
  "run_dirs sha p run_id agent_id = [run_root sha p run_id, run_source_packets sha p run_id, run_turns sha p run_id,
     run_artifacts sha p run_id, run_publish sha p run_id, run_state_dir sha p run_id,
     run_artifacts_content sha p run_id, agent_tmp_dir sha p run_id agent_id]"

section \<open>Nothing retired is created\<close>

lemma create_dirs_exist: "q \<in> set (fold create_dir_all ps fs) \<longleftrightarrow> q \<in> set fs \<or> (\<exists>p \<in> set ps. q \<in> set (path_ancestors p))"
  by (induction ps arbitrary: fs) (auto simp: create_dir_all_def)

text \<open>The root of the layout with the separator that \<open>join\<close> puts after it; every path of the layout is
  this prefix and a fixed text.\<close>

definition root_prefix :: "string \<Rightarrow> string" where
  "root_prefix root = (if root = [] \<or> last root = CHR ''/'' then root else root @ ''/'')"

lemma path_join_root:
  "path_join root ''context-engine'' = root_prefix root @ ''context-engine''"
  "path_join root ''user-wiki'' = root_prefix root @ ''user-wiki''"
  by (simp_all add: path_join_def root_prefix_def)

lemma path_join_below:
  "x \<noteq> [] \<Longrightarrow> last x \<noteq> CHR ''/'' \<Longrightarrow> p = [] \<or> hd p \<noteq> CHR ''/'' \<Longrightarrow> path_join (r @ x) p = r @ x @ ''/'' @ p"
  by (auto simp: path_join_def)

lemma paths_new_context_engine: "ce_context_engine (paths_new root) = root_prefix root @ ''context-engine''"
  by (simp add: paths_new_def Let_def path_join_root)

lemma paths_new_runs: "ce_runs (paths_new root) = root_prefix root @ ''context-engine/live/runs''"
  by (simp add: paths_new_def Let_def path_join_root path_join_below)

lemma paths_new_tmp: "ce_tmp (paths_new root) = root_prefix root @ ''context-engine/live/tmp''"
  by (simp add: paths_new_def Let_def path_join_root path_join_below)

lemma release_dirs_eq:
  "release_dirs (paths_new root) = map ((@) (root_prefix root)) [''context-engine'', ''context-engine/live'',
     ''user-wiki'', ''context-engine/packs'', ''context-engine/orchestrators'', ''context-engine/live/agents'',
     ''context-engine/live/agents/directory'', ''context-engine/live/state/harness'',
     ''context-engine/live/agents/policies'', ''context-engine/live/mail'', ''context-engine/live/mail/messages'',
     ''context-engine/live/mail/bodies'', ''context-engine/live/mail/mailboxes'', ''context-engine/live/mail/threads'',
     ''context-engine/live/notifications'', ''context-engine/live/notifications/cursors'', ''context-engine/live/state'',
     ''context-engine/live/state/harness'', ''context-engine/live/state/codex-app-server'',
     ''context-engine/live/state/codex-app-server/threads'', ''context-engine/live/state/scheduler'',
     ''context-engine/live/state/service'', ''context-engine/live/state/service'', ''context-engine/live/runs'',
     ''context-engine/live/runs'', ''context-engine/live/archive'', ''context-engine/live/archive/failed-runs'',
     ''context-engine/live/state/process-logs'', ''context-engine/live/state/service/wiki-memory-cache'',
     ''context-engine/live/tmp'']"
  by (simp add: release_dirs_def paths_new_def Let_def path_join_root path_join_below)

text \<open>A text that names no retired directory and nothing below one.\<close>

definition allowed_text :: "string \<Rightarrow> bool" where
  "allowed_text x \<longleftrightarrow> list_all (\<lambda>n. ''context-engine/'' @ n \<notin> set (path_ancestors x)) forbidden_names"

lemma forbidden_path_iff:
  "lr_forbidden_paths (validate_storage_layout (paths_new root) fs) =
     filter (\<lambda>q. q \<in> set fs) (map (\<lambda>n. root_prefix root @ ''context-engine/'' @ n) forbidden_names)"
proof -
  have "map (path_join (root_prefix root @ ''context-engine'')) forbidden_names =
      map (\<lambda>n. root_prefix root @ ''context-engine/'' @ n) forbidden_names"
    by (simp add: forbidden_names_def path_join_below)
  then show ?thesis
    unfolding validate_storage_layout_def Let_def paths_new_context_engine by (simp only: storage_layout_report.select_convs)
qed

lemma ancestors_below: "r @ y \<in> set (path_ancestors (r @ x)) \<longleftrightarrow> y \<in> set (path_ancestors x)"
  by (simp add: path_ancestors_iff)

lemma allowed_dirs_keep_layout:
  assumes "\<forall>x \<in> set xs. allowed_text x"
  shows "validate_storage_layout (paths_new root) (fold create_dir_all (map ((@) (root_prefix root)) xs) fs) =
    validate_storage_layout (paths_new root) fs"
proof -
  have "root_prefix root @ ''context-engine/'' @ n \<in> set (fold create_dir_all (map ((@) (root_prefix root)) xs) fs) \<longleftrightarrow>
      root_prefix root @ ''context-engine/'' @ n \<in> set fs" if "n \<in> set forbidden_names" for n
    using assms that unfolding create_dirs_exist
    by (auto simp: ancestors_below allowed_text_def list_all_iff)
  then have "lr_forbidden_paths (validate_storage_layout (paths_new root) (fold create_dir_all (map ((@) (root_prefix root)) xs) fs)) =
      lr_forbidden_paths (validate_storage_layout (paths_new root) fs)"
    unfolding forbidden_path_iff by (intro filter_cong) auto
  then show ?thesis
    by (simp add: validate_storage_layout_def Let_def)
qed

lemma allowed_live: "allowed_text (''context-engine/live/'' @ x)"
  by (auto simp: allowed_text_def list_all_iff path_ancestors_iff forbidden_names_def)

lemma safe_run_id_join:
  "x \<noteq> [] \<Longrightarrow> last x \<noteq> CHR ''/'' \<Longrightarrow> path_join (r @ x) (safe_run_id sha i) = r @ x @ ''/'' @ safe_run_id sha i"
  using safe_run_id_shape [of sha i] hd_in_set [of "safe_run_id sha i"] not_slash_if_safe
  by (intro path_join_below) (auto simp: list_all_iff)

lemma safe_run_id_last: "last (safe_run_id sha i) \<noteq> CHR ''/''"
  using safe_run_id_shape [of sha i] not_slash_if_safe last_in_set [of "safe_run_id sha i"] by (auto simp: list_all_iff)

lemma safe_id_join:
  "path_join (r @ x @ y @ safe_run_id sha i) p = r @ x @ y @ safe_run_id sha i @ ''/'' @ p" if "p = [] \<or> hd p \<noteq> CHR ''/''"
  using that safe_run_id_shape [of sha i] safe_run_id_last [of sha i] by (auto simp: path_join_def last_append)

lemma run_root_eq: "run_root sha (paths_new root) i =
    root_prefix root @ ''context-engine/live/'' @ ''runs/'' @ safe_run_id sha i"
  unfolding run_root_def paths_new_runs by (subst safe_run_id_join) simp_all

definition run_texts :: "(string \<Rightarrow> string) \<Rightarrow> string \<Rightarrow> string \<Rightarrow> string list" where
  "run_texts sha i a = map (\<lambda>x. ''context-engine/live/'' @ x) [''runs/'' @ safe_run_id sha i,
     ''runs/'' @ safe_run_id sha i @ ''/source-packets'', ''runs/'' @ safe_run_id sha i @ ''/turns'',
     ''runs/'' @ safe_run_id sha i @ ''/artifacts'', ''runs/'' @ safe_run_id sha i @ ''/publish'',
     ''runs/'' @ safe_run_id sha i @ ''/state'', ''runs/'' @ safe_run_id sha i @ ''/artifacts/_content/sha256'',
     ''tmp/'' @ safe_run_id sha i @ ''/agents/'' @ safe_run_id sha a]"

lemma agent_tmp_eq: "agent_tmp_dir sha (paths_new root) i a =
    root_prefix root @ ''context-engine/live/'' @ ''tmp/'' @ safe_run_id sha i @ ''/agents/'' @ safe_run_id sha a"
proof -
  have "path_join (ce_tmp (paths_new root)) (safe_run_id sha i) =
      root_prefix root @ ''context-engine/live/'' @ ''tmp/'' @ safe_run_id sha i"
    unfolding paths_new_tmp by (subst safe_run_id_join) simp_all
  then have "path_join (path_join (ce_tmp (paths_new root)) (safe_run_id sha i)) ''agents'' =
      (root_prefix root @ ''context-engine/live/tmp/'' @ safe_run_id sha i) @ ''/agents''"
    using safe_id_join [of "''agents''" "root_prefix root" "''context-engine/live/''" "''tmp/''" sha i] by simp
  then show ?thesis
    unfolding agent_tmp_dir_def by (simp only:) (subst safe_run_id_join, simp_all)
qed

lemma run_dirs_eq: "run_dirs sha (paths_new root) i a = map ((@) (root_prefix root)) (run_texts sha i a)"
proof -
  have below: "path_join (run_root sha (paths_new root) i) p = run_root sha (paths_new root) i @ ''/'' @ p"
    if "p = [] \<or> hd p \<noteq> CHR ''/''" for p
    unfolding run_root_eq append_assoc by (rule safe_id_join [OF that])
  have parts: "run_source_packets sha (paths_new root) i = run_root sha (paths_new root) i @ ''/source-packets''"
    "run_turns sha (paths_new root) i = run_root sha (paths_new root) i @ ''/turns''"
    "run_artifacts sha (paths_new root) i = run_root sha (paths_new root) i @ ''/artifacts''"
    "run_publish sha (paths_new root) i = run_root sha (paths_new root) i @ ''/publish''"
    "run_state_dir sha (paths_new root) i = run_root sha (paths_new root) i @ ''/state''"
    by (simp_all add: run_source_packets_def run_turns_def run_artifacts_def run_publish_def run_state_dir_def below)
  have content: "run_artifacts_content sha (paths_new root) i = run_root sha (paths_new root) i @ ''/artifacts/_content/sha256''"
    unfolding run_artifacts_content_def parts by (simp add: path_join_below)
  show ?thesis
    unfolding run_dirs_def run_texts_def agent_tmp_eq parts content by (simp add: run_root_eq)
qed

text \<open>The layout check never objects to what the engine makes itself: creating the release directories
  and all directories of a run and an agent, whatever their identifiers, leaves the report of
  \<open>validate_storage_layout\<close> exactly as it was.\<close>

theorem layout_stable:
  "validate_storage_layout (paths_new root) (fold create_dir_all (run_dirs sha (paths_new root) i a)
     (ensure_release_dirs (paths_new root) fs)) = validate_storage_layout (paths_new root) fs"
proof -
  have release: "validate_storage_layout (paths_new root) (ensure_release_dirs (paths_new root) fs) =
      validate_storage_layout (paths_new root) fs"
    unfolding ensure_release_dirs_def release_dirs_eq by (rule allowed_dirs_keep_layout) code_simp
  have "\<forall>x \<in> set (run_texts sha i a). allowed_text x"
    unfolding run_texts_def set_map using allowed_live by blast
  then show ?thesis
    unfolding run_dirs_eq by (simp only: allowed_dirs_keep_layout release)
qed

end
