(* ===== verification/Artifacts.thy ===== *)
theory Artifacts
  imports Engine_Paths "HOL-Library.List_Lexorder"
begin

text \<open>
  The artifact store of \<open>crates/onecontext-context-engine/src/artifacts.rs\<close>: immutable JSON evidence below
  a run, addressed by kind and key, and content-addressed objects. JSON values (crate \<open>serde_json\<close>) are a
  type parameter and their compact encoding the function \<open>enc\<close>; the time of a write is an argument. The
  file system is the map from path texts to what the files hold; file-system failures are not modelled,
  and the files of a directory are read in path order.
\<close>

section \<open>Handles and records\<close>

record artifact_handle =
  ah_artifact_id :: string
  ah_kind :: string
  ah_run_id :: string
  ah_key :: string
  ah_path :: string
  ah_content_sha256 :: string
  ah_created_at :: string

record 'v artifact_record =
  ax_schema_version :: "32 word"
  ax_kind :: string
  ax_artifact_id :: string
  ax_run_id :: string
  ax_key :: string
  ax_created_at :: string
  ax_content_sha256 :: string
  ax_metadata :: "(string, string) btree_map"
  ax_value :: 'v

record 'v content_object =
  co_schema_version :: "32 word"
  co_kind :: string
  co_content_sha256 :: string
  co_created_at :: string
  co_value :: 'v

text \<open>What a file holds. An artifact record also parses as a content object, whose fields it has.\<close>

datatype 'v stored_file = ArtifactFile "'v artifact_record" | ContentFile "'v content_object" | OtherFile

type_synonym 'v artifact_files = "(string, 'v stored_file) btree_map"

datatype artifact_error =
    ReadFailed string
  | ParseFailed string
  | ContentHashMismatch string string string
  | HandleHashMismatch string string string
  | ImmutabilityViolation string
  | ContentCollision string

definition safe_artifact_part :: "(string \<Rightarrow> string) \<Rightarrow> string \<Rightarrow> nat \<Rightarrow> string" where
  "safe_artifact_part sha value max_chars = concat (take max_chars (utf8_chars (safe_run_id sha value)))"

definition sha256_hex :: "(string \<Rightarrow> string) \<Rightarrow> string \<Rightarrow> string" where
  "sha256_hex sha bytes = concat (map hex_byte (sha bytes))"

definition short_sha256_hex :: "(string \<Rightarrow> string) \<Rightarrow> string \<Rightarrow> string" where
  "short_sha256_hex sha bytes = take 16 (sha256_hex sha bytes)"

definition artifact_id :: "(string \<Rightarrow> string) \<Rightarrow> string \<Rightarrow> string \<Rightarrow> string" where
  "artifact_id sha kind key =
     safe_artifact_part sha kind 48 @ ''-'' @ safe_artifact_part sha key 72 @ ''-'' @
     short_sha256_hex sha (kind @ [char_of (0 :: nat)] @ key)"

definition content_sha256 :: "(string \<Rightarrow> string) \<Rightarrow> ('v \<Rightarrow> string) \<Rightarrow> 'v \<Rightarrow> string" where
  "content_sha256 sha enc value = sha256_hex sha (enc value)"

definition availability_keys :: "(string \<Rightarrow> string) \<Rightarrow> artifact_handle \<Rightarrow> string list" where
  "availability_keys sha a = bset
     [ah_kind a, ''kind:'' @ ah_kind a, ''artifact:'' @ ah_artifact_id a,
      ah_kind a @ '':artifact:'' @ ah_artifact_id a,
      ah_kind a @ '':key:'' @ safe_artifact_part sha (ah_key a) 120,
      ah_kind a @ '':sha256:'' @ ah_content_sha256 a,
      ''run:'' @ ah_run_id a @ '':'' @ ah_kind a]"

section \<open>Paths of the store\<close>

definition kind_dir :: "(string \<Rightarrow> string) \<Rightarrow> string \<Rightarrow> string \<Rightarrow> string \<Rightarrow> string" where
  "kind_dir sha root run_id kind =
     path_join (path_join (path_join root run_id) ''artifacts'') (safe_artifact_part sha kind 80)"

definition artifact_path :: "(string \<Rightarrow> string) \<Rightarrow> string \<Rightarrow> string \<Rightarrow> string \<Rightarrow> string \<Rightarrow> string" where
  "artifact_path sha root run_id kind key = path_join (kind_dir sha root run_id kind) (artifact_id sha kind key @ ''.json'')"

definition content_addressed_json_path :: "string \<Rightarrow> string \<Rightarrow> string \<Rightarrow> string" where
  "content_addressed_json_path root run_id hash =
     path_join (path_join (path_join (path_join (path_join (path_join root run_id) ''artifacts'') ''_content'') ''sha256'')
       (take 2 hash)) (hash @ ''.json'')"

section \<open>Reading\<close>

definition read_record_path :: "(string \<Rightarrow> string) \<Rightarrow> ('v \<Rightarrow> string) \<Rightarrow> string \<Rightarrow> 'v artifact_files \<Rightarrow>
    artifact_error + 'v artifact_record" where
  "read_record_path sha enc path fs = (case bt_get fs path of
     None \<Rightarrow> Inl (ReadFailed path)
   | Some (ArtifactFile r) \<Rightarrow>
       let expected = content_sha256 sha enc (ax_value r)
       in if ax_content_sha256 r \<noteq> expected then Inl (ContentHashMismatch path expected (ax_content_sha256 r)) else Inr r
   | Some _ \<Rightarrow> Inl (ParseFailed path))"

definition read_json :: "(string \<Rightarrow> string) \<Rightarrow> ('v \<Rightarrow> string) \<Rightarrow> artifact_handle \<Rightarrow> 'v artifact_files \<Rightarrow>
    artifact_error + 'v artifact_record" where
  "read_json sha enc h fs = try_then (read_record_path sha enc (ah_path h) fs) (\<lambda>r.
     if ah_content_sha256 h \<noteq> ax_content_sha256 r
     then Inl (HandleHashMismatch (ah_path h) (ah_content_sha256 h) (ax_content_sha256 r)) else Inr r)"

definition handle_of_record :: "string \<Rightarrow> 'v artifact_record \<Rightarrow> artifact_handle" where
  "handle_of_record path r = \<lparr> ah_artifact_id = ax_artifact_id r, ah_kind = ax_kind r, ah_run_id = ax_run_id r,
     ah_key = ax_key r, ah_path = path, ah_content_sha256 = ax_content_sha256 r, ah_created_at = ax_created_at r \<rparr>"

definition handle_from_path :: "(string \<Rightarrow> string) \<Rightarrow> ('v \<Rightarrow> string) \<Rightarrow> string \<Rightarrow> 'v artifact_files \<Rightarrow>
    artifact_error + artifact_handle" where
  "handle_from_path sha enc path fs =
     try_then (read_record_path sha enc path fs) (\<lambda>r. Inr (handle_of_record path r))"

definition handle_for_key :: "(string \<Rightarrow> string) \<Rightarrow> ('v \<Rightarrow> string) \<Rightarrow> string \<Rightarrow> string \<Rightarrow> string \<Rightarrow> string \<Rightarrow>
    'v artifact_files \<Rightarrow> artifact_error + artifact_handle option" where
  "handle_for_key sha enc root run_id kind key fs = (
     let path = artifact_path sha root (safe_run_id sha run_id) kind key in
     if \<not> bt_contains fs path then Inr None
     else try_then (handle_from_path sha enc path fs) (\<lambda>h. Inr (Some h)))"

definition read_kind_key :: "(string \<Rightarrow> string) \<Rightarrow> ('v \<Rightarrow> string) \<Rightarrow> string \<Rightarrow> string \<Rightarrow> string \<Rightarrow> string \<Rightarrow>
    'v artifact_files \<Rightarrow> artifact_error + 'v artifact_record option" where
  "read_kind_key sha enc root run_id kind key fs =
     try_then (handle_for_key sha enc root run_id kind key fs) (\<lambda>found. (case found of
        None \<Rightarrow> Inr None
      | Some h \<Rightarrow> try_then (read_json sha enc h fs) (\<lambda>r. Inr (Some r))))"

text \<open>The files directly in a directory whose extension is \<open>json\<close>.\<close>

definition json_file_in :: "string \<Rightarrow> string \<Rightarrow> bool" where
  "json_file_in dir path = (case strip_prefix (dir @ ''/'') path of None \<Rightarrow> False
     | Some name \<Rightarrow> CHR ''/'' \<notin> set name \<and>
         (case strip_suffix ''.json'' name of None \<Rightarrow> False | Some stem \<Rightarrow> stem \<noteq> []))"

definition list_kind :: "(string \<Rightarrow> string) \<Rightarrow> ('v \<Rightarrow> string) \<Rightarrow> string \<Rightarrow> string \<Rightarrow> string \<Rightarrow>
    'v artifact_files \<Rightarrow> artifact_error + artifact_handle list" where
  "list_kind sha enc root run_id kind fs = (
     let dir = kind_dir sha root (safe_run_id sha run_id) kind in
     try_then (try_map (\<lambda>path. handle_from_path sha enc path fs) (filter (json_file_in dir) (bt_keys fs)))
       (\<lambda>handles. Inr (sort_key ah_artifact_id handles)))"

definition matches_filters :: "(string \<times> string) list \<Rightarrow> 'v artifact_record \<Rightarrow> bool" where
  "matches_filters filters r = list_all (\<lambda>(key, value). bt_get (ax_metadata r) key = Some value) filters"

fun keep_matching :: "('h \<Rightarrow> 'e + 'r) \<Rightarrow> ('r \<Rightarrow> bool) \<Rightarrow> 'h list \<Rightarrow> 'e + 'h list" where
  "keep_matching read keep [] = Inr []"
| "keep_matching read keep (h # hs) = try_then (read h) (\<lambda>r. try_then (keep_matching read keep hs) (\<lambda>rest.
     Inr (if keep r then h # rest else rest)))"

definition list_kind_matching_metadata :: "(string \<Rightarrow> string) \<Rightarrow> ('v \<Rightarrow> string) \<Rightarrow> string \<Rightarrow> string \<Rightarrow> string \<Rightarrow>
    (string \<times> string) list \<Rightarrow> 'v artifact_files \<Rightarrow> artifact_error + artifact_handle list" where
  "list_kind_matching_metadata sha enc root run_id kind filters fs =
     try_then (list_kind sha enc root run_id kind fs) (\<lambda>handles.
       keep_matching (\<lambda>h. read_json sha enc h fs) (matches_filters filters) handles)"

definition list_kind_for_day :: "(string \<Rightarrow> string) \<Rightarrow> ('v \<Rightarrow> string) \<Rightarrow> string \<Rightarrow> string \<Rightarrow> string \<Rightarrow> string \<Rightarrow>
    'v artifact_files \<Rightarrow> artifact_error + artifact_handle list" where
  "list_kind_for_day sha enc root run_id kind date fs =
     list_kind_matching_metadata sha enc root run_id kind [(''date'', date)] fs"

definition list_kind_for_hour :: "(string \<Rightarrow> string) \<Rightarrow> ('v \<Rightarrow> string) \<Rightarrow> string \<Rightarrow> string \<Rightarrow> string \<Rightarrow> string \<Rightarrow>
    string \<Rightarrow> 'v artifact_files \<Rightarrow> artifact_error + artifact_handle list" where
  "list_kind_for_hour sha enc root run_id kind date hour fs =
     list_kind_matching_metadata sha enc root run_id kind [(''date'', date), (''hour'', hour)] fs"

section \<open>Writing\<close>

definition same_evidence :: "'v artifact_record \<Rightarrow> 'v artifact_record \<Rightarrow> bool" where
  "same_evidence r r' \<longleftrightarrow> ax_schema_version r = ax_schema_version r' \<and> ax_kind r = ax_kind r' \<and>
     ax_artifact_id r = ax_artifact_id r' \<and> ax_run_id r = ax_run_id r' \<and> ax_key r = ax_key r' \<and>
     ax_content_sha256 r = ax_content_sha256 r' \<and> ax_metadata r = ax_metadata r' \<and> ax_value r = ax_value r'"

definition new_artifact_record :: "(string \<Rightarrow> string) \<Rightarrow> ('v \<Rightarrow> string) \<Rightarrow> string \<Rightarrow> string \<Rightarrow> string \<Rightarrow> string \<Rightarrow> 'v \<Rightarrow>
    (string, string) btree_map \<Rightarrow> 'v artifact_record" where
  "new_artifact_record sha enc now run_id kind key value metadata =
     \<lparr> ax_schema_version = context_engine_schema_version, ax_kind = kind, ax_artifact_id = artifact_id sha kind key,
       ax_run_id = run_id, ax_key = key, ax_created_at = now, ax_content_sha256 = content_sha256 sha enc value,
       ax_metadata = metadata, ax_value = value \<rparr>"

definition write_json :: "(string \<Rightarrow> string) \<Rightarrow> ('v \<Rightarrow> string) \<Rightarrow> string \<Rightarrow> string \<Rightarrow> string \<Rightarrow> string \<Rightarrow> string \<Rightarrow> 'v \<Rightarrow>
    (string, string) btree_map \<Rightarrow> 'v artifact_files \<Rightarrow> (artifact_error + artifact_handle) \<times> 'v artifact_files" where
  "write_json sha enc root now run_id kind key value metadata fs = (
     let safe_run = safe_run_id sha run_id;
         r = new_artifact_record sha enc now safe_run kind key value metadata;
         path = artifact_path sha root safe_run kind key
     in if bt_contains fs path
        then st_try (read_record_path sha enc path fs) fs (\<lambda>existing.
               if same_evidence existing r then (Inr (handle_of_record path existing), fs)
               else (Inl (ImmutabilityViolation path), fs))
        else (Inr (handle_of_record path r), bt_insert path (ArtifactFile r) fs))"

fun as_content_object :: "'v stored_file \<Rightarrow> 'v content_object option" where
  "as_content_object (ContentFile c) = Some c"
| "as_content_object (ArtifactFile r) = Some \<lparr> co_schema_version = ax_schema_version r, co_kind = ax_kind r,
     co_content_sha256 = ax_content_sha256 r, co_created_at = ax_created_at r, co_value = ax_value r \<rparr>"
| "as_content_object OtherFile = None"

definition write_content_addressed_json :: "(string \<Rightarrow> string) \<Rightarrow> ('v \<Rightarrow> string) \<Rightarrow> string \<Rightarrow> string \<Rightarrow> string \<Rightarrow> 'v \<Rightarrow>
    'v artifact_files \<Rightarrow> (artifact_error + string \<times> string) \<times> 'v artifact_files" where
  "write_content_addressed_json sha enc root now run_id value fs = (
     let hash = content_sha256 sha enc value;
         path = content_addressed_json_path root (safe_run_id sha run_id) hash
     in case bt_get fs path of
          Some f \<Rightarrow> st_try (ok_or (as_content_object f) (ParseFailed path)) fs (\<lambda>existing.
            if co_content_sha256 existing = hash \<and> co_value existing = value then (Inr (path, hash), fs)
            else (Inl (ContentCollision path), fs))
        | None \<Rightarrow> (Inr (path, hash), bt_insert path (ContentFile \<lparr> co_schema_version = context_engine_schema_version,
            co_kind = ''onecontext.context_engine.content_addressed_artifact.v1'', co_content_sha256 = hash,
            co_created_at = now, co_value = value \<rparr>) fs))"

section \<open>Evidence is never changed\<close>

text \<open>Whatever is written later, a file keeps what it held.\<close>

definition files_kept :: "'v artifact_files \<Rightarrow> 'v artifact_files \<Rightarrow> bool" where
  "files_kept fs fs' \<longleftrightarrow> (\<forall>p f. bt_get fs p = Some f \<longrightarrow> bt_get fs' p = Some f)"

inductive artifact_step :: "(string \<Rightarrow> string) \<Rightarrow> ('v \<Rightarrow> string) \<Rightarrow> string \<Rightarrow> 'v artifact_files \<Rightarrow> 'v artifact_files \<Rightarrow> bool"
  for sha enc root where
  json: "artifact_step sha enc root fs (snd (write_json sha enc root now run_id kind key value metadata fs))"
| content: "artifact_step sha enc root fs (snd (write_content_addressed_json sha enc root now run_id value fs))"

lemma fresh_insert_kept: "bt_wf fs \<Longrightarrow> bt_get fs p = None \<Longrightarrow> bt_wf (bt_insert p f fs) \<and> files_kept fs (bt_insert p f fs)"
  by (auto simp: files_kept_def)

lemma step_keeps_files:
  assumes "artifact_step sha enc root fs fs'" "bt_wf fs"
  shows "bt_wf fs' \<and> files_kept fs fs'"
  using assms(1)
proof cases
  case (json now run_id kind key v metadata)
  then show ?thesis
    using assms(2) fresh_insert_kept
    by (auto simp: write_json_def Let_def st_try_def bt_contains_def files_kept_def split: sum.splits)
next
  case (content now run_id v)
  then show ?thesis
    using assms(2) fresh_insert_kept
    by (auto simp: write_content_addressed_json_def Let_def st_try_def files_kept_def split: option.splits sum.splits)
qed

lemma steps_keep_files:
  assumes "(artifact_step sha enc root)\<^sup>*\<^sup>* fs fs'" "bt_wf fs"
  shows "bt_wf fs' \<and> files_kept fs fs'"
  using assms(1)
proof (induction rule: rtranclp_induct)
  case (step fs1 fs2)
  then show ?case
    using step_keeps_files [OF step.hyps(2)] by (auto simp: files_kept_def)
qed (simp add: assms(2) files_kept_def)

definition wrote_handle :: "(artifact_error + artifact_handle) \<times> 'v artifact_files \<Rightarrow> bool" where
  "wrote_handle res \<longleftrightarrow> (case res of (Inr _, _) \<Rightarrow> True | _ \<Rightarrow> False)"

text \<open>The evidence \<open>value\<close> with \<open>metadata\<close> stands under the kind and key of a run: it reads back, and a
  second write succeeds exactly when it repeats it, giving the same handle.\<close>

definition evidence_stands :: "(string \<Rightarrow> string) \<Rightarrow> ('v \<Rightarrow> string) \<Rightarrow> string \<Rightarrow> string \<Rightarrow> string \<Rightarrow> string \<Rightarrow> 'v \<Rightarrow>
    (string, string) btree_map \<Rightarrow> artifact_handle \<Rightarrow> 'v artifact_files \<Rightarrow> bool" where
  "evidence_stands sha enc root run_id kind key value metadata h fs \<longleftrightarrow>
     handle_for_key sha enc root run_id kind key fs = Inr (Some h) \<and>
     (\<exists>r. read_json sha enc h fs = Inr r \<and> ax_value r = value \<and> ax_metadata r = metadata \<and> ax_kind r = kind \<and>
        ax_key r = key \<and> ax_run_id r = safe_run_id sha run_id) \<and>
     (\<forall>now v m. write_json sha enc root now run_id kind key v m fs =
        (if v = value \<and> m = metadata then Inr h else Inl (ImmutabilityViolation (ah_path h)), fs))"

lemma record_stands:
  assumes "bt_get fs (artifact_path sha root (safe_run_id sha run_id) kind key) =
      Some (ArtifactFile (new_artifact_record sha enc t (safe_run_id sha run_id) kind key value metadata))"
  shows "evidence_stands sha enc root run_id kind key value metadata
    (handle_of_record (artifact_path sha root (safe_run_id sha run_id) kind key)
      (new_artifact_record sha enc t (safe_run_id sha run_id) kind key value metadata)) fs"
  using assms
  by (auto simp: evidence_stands_def handle_for_key_def handle_from_path_def read_json_def read_record_path_def
      bt_contains_def new_artifact_record_def handle_of_record_def write_json_def same_evidence_def Let_def)

text \<open>What a successful write returned is a record of this shape.\<close>

lemma write_json_Inr:
  assumes "bt_wf fs" "write_json sha enc root now run_id kind key value metadata fs = (Inr h, fs')"
  shows "\<exists>t. bt_get fs' (artifact_path sha root (safe_run_id sha run_id) kind key) =
      Some (ArtifactFile (new_artifact_record sha enc t (safe_run_id sha run_id) kind key value metadata)) \<and>
    h = handle_of_record (artifact_path sha root (safe_run_id sha run_id) kind key)
      (new_artifact_record sha enc t (safe_run_id sha run_id) kind key value metadata)"
proof (cases "bt_contains fs (artifact_path sha root (safe_run_id sha run_id) kind key)")
  case True
  let ?path = "artifact_path sha root (safe_run_id sha run_id) kind key"
  obtain r where r: "read_record_path sha enc ?path fs = Inr r" "fs' = fs" "h = handle_of_record ?path r"
      "same_evidence r (new_artifact_record sha enc now (safe_run_id sha run_id) kind key value metadata)"
    using assms(2) True
    by (cases "read_record_path sha enc ?path fs") (simp_all add: write_json_def Let_def split: if_splits)
  have "r = new_artifact_record sha enc (ax_created_at r) (safe_run_id sha run_id) kind key value metadata"
    using r(4) by (simp add: same_evidence_def new_artifact_record_def)
  moreover have "bt_get fs ?path = Some (ArtifactFile r)"
    using r(1) by (auto simp: read_record_path_def Let_def split: option.splits stored_file.splits if_splits)
  ultimately show ?thesis
    using r(2,3) by metis
next
  case False
  then show ?thesis
    using assms by (auto simp: write_json_def Let_def)
qed

text \<open>C24. Artifacts are immutable evidence: once a write has succeeded, after any further writes to the store
  the artifact reads back unchanged with the same handle, repeating the write returns that handle, and
  writing anything else under the same kind and key is refused without touching the store.\<close>

theorem artifact_evidence_stands:
  assumes "bt_wf fs" "wrote_handle (write_json sha enc root now run_id kind key value metadata fs)"
    "(artifact_step sha enc root)\<^sup>*\<^sup>* (snd (write_json sha enc root now run_id kind key value metadata fs)) fs'"
  shows "evidence_stands sha enc root run_id kind key value metadata
    (projr (fst (write_json sha enc root now run_id kind key value metadata fs))) fs'"
proof -
  obtain h fs1 where res: "write_json sha enc root now run_id kind key value metadata fs = (Inr h, fs1)"
    using assms(2) by (auto simp: wrote_handle_def split: prod.splits sum.splits)
  obtain t where t: "bt_get fs1 (artifact_path sha root (safe_run_id sha run_id) kind key) =
      Some (ArtifactFile (new_artifact_record sha enc t (safe_run_id sha run_id) kind key value metadata))"
      "h = handle_of_record (artifact_path sha root (safe_run_id sha run_id) kind key)
        (new_artifact_record sha enc t (safe_run_id sha run_id) kind key value metadata)"
    using write_json_Inr [OF assms(1) res] by blast
  have "bt_wf fs1"
    using step_keeps_files [OF artifact_step.json assms(1)] res by (metis snd_conv)
  then have "files_kept fs1 fs'"
    using steps_keep_files [of sha enc root fs1 fs'] assms(3) res by simp
  then have "bt_get fs' (artifact_path sha root (safe_run_id sha run_id) kind key) =
      Some (ArtifactFile (new_artifact_record sha enc t (safe_run_id sha run_id) kind key value metadata))"
    using t(1) by (simp add: files_kept_def)
  then show ?thesis
    unfolding res fst_conv sum.sel(2) t(2) by (rule record_stands)
qed

theorem artifact_evidence_stands_witness:
  "evidence_stands (\<lambda>s. replicate 32 CHR ''a'') (\<lambda>v :: nat. decimal v) ''/runs'' ''r1'' ''note'' ''k'' 7 []
     (projr (fst (write_json (\<lambda>s. replicate 32 CHR ''a'') decimal ''/runs'' ''t0'' ''r1'' ''note'' ''k'' 7 [] [])))
     (snd (write_content_addressed_json (\<lambda>s. replicate 32 CHR ''a'') decimal ''/runs'' ''t1'' ''r1'' 9
       (snd (write_json (\<lambda>s. replicate 32 CHR ''a'') decimal ''/runs'' ''t0'' ''r1'' ''note'' ''k'' 7 [] []))))"
  by (rule artifact_evidence_stands)
    (auto simp: wrote_handle_def write_json_def Let_def bt_contains_def intro: r_into_rtranclp artifact_step.content)

end
