(* ===== verification/Source_Packets.thy ===== *)
theory Source_Packets
  imports Packet_Planner Artifacts
begin

text \<open>
  Source packets on disk (\<open>crates/onecontext-context-engine/src/source_packets.rs\<close>): the events of every planned
  packet are found again from the plan and the events, rendered as markdown, and written with metadata
  and an index. What a file holds is a value of \<open>packet_file\<close> (JSON files hold the encoded record);
  file-system failures are not modelled, and an issue is a constructor with the data its text prints.
\<close>

section \<open>Data\<close>

record page_snapshot =
  ps_slug :: string
  ps_source_path :: string
  ps_content_sha256 :: string
  ps_excerpt :: string

record source_packet_materialization_request =
  pq_run_id :: string
  pq_source_window_days :: "32 word"
  pq_current_pages :: "page_snapshot list"

record materialized_source_packet =
  mp_schema_version :: "32 word"
  mp_kind :: string
  mp_run_id :: string
  mp_packet_id :: string
  mp_packet_kind :: string
  mp_date :: string
  mp_hour :: string
  mp_shard_index :: nat
  mp_shard_count :: nat
  mp_event_count :: nat
  mp_char_count :: "32 word"
  mp_session_ids :: "string list"
  mp_session_count :: nat
  mp_object_ids :: "string list"
  mp_source_ids :: "string list"
  mp_source_types :: "string list"
  mp_source_keys :: "string list"
  mp_source_record_ids :: "string list"
  mp_source_record_keys :: "string list"
  mp_source_record_hashes :: "string list"
  mp_series_ids :: "string list"
  mp_series_kinds :: "string list"
  mp_series_keys :: "string list"
  mp_series_display_names :: "string list"
  mp_sources :: "string list"
  mp_roles :: "string list"
  mp_privacy_classes :: "string list"
  mp_body_types :: "string list"
  mp_project_keys :: "string list"
  mp_cwd_values :: "string list"
  mp_estimated_tokens :: "32 word"
  mp_target_packet_tokens :: "32 word"
  mp_source_window_days :: "32 word"
  mp_page_snapshot_count :: nat
  mp_page_snapshots :: "page_snapshot list"
  mp_path :: string
  mp_metadata_path :: string
  mp_cache_path :: string
  mp_source_packet_hash :: string
  mp_content_sha256 :: string
  mp_created_at :: string

datatype packet_issue =
    UnparsableTimestamps nat
  | EventCountDiffers string nat nat
  | SessionIdsDiffer string "string list" "string list"
  | CharCountDiffers string "32 word" "32 word"
  | EstimateDiffers string "32 word" "32 word"
  | NoEventsReconstructed string nat

record source_packet_materialization_result =
  pr_schema_version :: "32 word"
  pr_kind :: string
  pr_run_id :: string
  pr_index_path :: string
  pr_packet_count :: nat
  pr_packets :: "materialized_source_packet list"
  pr_issues :: "packet_issue list"

record source_packet_cursor_paths =
  pc_raw_ingest_cursor_path :: string
  pc_wiki_memory_cursor_path :: string
  pc_packet_cache_index_path :: string

record source_packet_cache_policy =
  pk_key :: string
  pk_invalidated_by :: "string list"

record source_packet_index_entry =
  pe_packet_id :: string
  pe_packet_kind :: string
  pe_date :: string
  pe_hour :: string
  pe_shard_index :: nat
  pe_shard_count :: nat
  pe_event_count :: nat
  pe_session_count :: nat
  pe_source_packet_hash :: string
  pe_content_sha256 :: string
  pe_path :: string
  pe_metadata_path :: string
  pe_cache_path :: string

record source_packet_index_record =
  px_schema_version :: "32 word"
  px_kind :: string
  px_run_id :: string
  px_packet_count :: nat
  px_packets :: "source_packet_index_entry list"
  px_cursors :: source_packet_cursor_paths
  px_cache :: source_packet_cache_policy

datatype packet_file = PacketBody string | PacketMetadata materialized_source_packet | PacketIndex source_packet_index_record

section \<open>Which events a packet has\<close>

definition sp_split_step :: "32 word \<Rightarrow> source_event \<Rightarrow> source_event list list \<times> source_event list \<times> 32 word \<Rightarrow>
    source_event list list \<times> source_event list \<times> 32 word" where
  "sp_split_step target_tokens row st = (case st of (chunks, current, current_tokens) \<Rightarrow>
     let row_tokens = estimate_tokens [row] in
     if current \<noteq> [] \<and> current_tokens + row_tokens > target_tokens
     then (chunks @ [current], [row], row_tokens)
     else (chunks, current @ [row], current_tokens + row_tokens))"

definition sp_split_event_rows :: "source_event list \<Rightarrow> 32 word \<Rightarrow> source_event list list" where
  "sp_split_event_rows rows target_tokens = (case fold (sp_split_step target_tokens) rows ([], [], 0) of
     (chunks, current, _) \<Rightarrow> if current \<noteq> [] then chunks @ [current] else chunks)"

definition sp_session_ids :: "source_event list \<Rightarrow> string list" where
  "sp_session_ids events = bset (map ev_session_id (filter (\<lambda>e. ev_session_id e \<noteq> []) events))"

definition sp_char_count :: "source_event list \<Rightarrow> 32 word" where
  "sp_char_count events = sum_list (map (\<lambda>e. case ev_char_count e of Some n \<Rightarrow> n | None \<Rightarrow> word_of_nat (length (ev_text e))) events)"

definition sp_event_day_hour :: "planner_env \<Rightarrow> source_event \<Rightarrow> (string \<times> string) option" where
  "sp_event_day_hour env e = pv_day_hour env (ev_ts e)"

definition packet_id_for :: "string \<Rightarrow> string \<Rightarrow> nat \<Rightarrow> nat \<Rightarrow> string \<Rightarrow> string" where
  "packet_id_for date hour shard_index shard_count packet_kind =
     date @ ''T'' @ hour @ ''-'' @ decimal_padded 2 shard_index @ ''-of-'' @ decimal_padded 2 shard_count @
     ''-'' @ packet_kind"

definition sp_session_chunks :: "32 word \<Rightarrow> source_event list \<Rightarrow> source_event list list" where
  "sp_session_chunks target_tokens rows = (
     let sorted_rows = sort_key ev_ts rows in
     if estimate_tokens sorted_rows \<le> target_tokens then [sorted_rows]
     else sp_split_event_rows sorted_rows target_tokens)"

definition sp_by_session :: "source_event list \<Rightarrow> (string, source_event list) btree_map" where
  "sp_by_session events = fold (\<lambda>e. bt_push (if ev_session_id e = [] then ''unknown'' else ev_session_id e) e) events []"

definition packetize_hour_events :: "string \<Rightarrow> string \<Rightarrow> source_event list \<Rightarrow> 32 word \<Rightarrow>
    (string \<times> source_event list) list" where
  "packetize_hour_events date hour events target_tokens =
     (if estimate_tokens events \<le> target_tokens then [(packet_id_for date hour 1 1 ''hour'', events)]
      else let event_chunks = concat (map (sp_session_chunks target_tokens) (bt_values (sp_by_session events)));
               shard_count = max (length event_chunks) 1
           in map (\<lambda>(i, rows). (packet_id_for date hour (i + 1) shard_count ''hour_part'', rows)) (enumerate 0 event_chunks))"

definition by_hour_step :: "planner_env \<Rightarrow> source_event \<Rightarrow> (string \<times> string, source_event list) btree_map \<Rightarrow>
    (string \<times> string, source_event list) btree_map" where
  "by_hour_step env e m = (case sp_event_day_hour env e of None \<Rightarrow> m | Some key \<Rightarrow> bt_push key e m)"

definition packet_event_entries :: "planner_env \<Rightarrow> wiki_memory_packet_plan \<Rightarrow> source_event list \<Rightarrow>
    (string \<times> source_event list) list" where
  "packet_event_entries env plan events = concat (map (\<lambda>((date, hour), hour_events).
     packetize_hour_events date hour (sort_key ev_ts hour_events) (wl_target_packet_tokens plan))
     (fold (by_hour_step env) events []))"

definition packet_event_index :: "planner_env \<Rightarrow> wiki_memory_packet_plan \<Rightarrow> source_event list \<Rightarrow>
    (string, source_event list) btree_map" where
  "packet_event_index env plan events = bt_of_list (packet_event_entries env plan events)"

definition packet_event_index_issues :: "planner_env \<Rightarrow> source_event list \<Rightarrow> packet_issue list" where
  "packet_event_index_issues env events = (
     let invalid_count = length (filter (\<lambda>e. sp_event_day_hour env e = None) events) in
     if invalid_count = 0 then [] else [UnparsableTimestamps invalid_count])"

definition packet_metadata_issues :: "wiki_memory_packet \<Rightarrow> source_event list \<Rightarrow> packet_issue list" where
  "packet_metadata_issues p events =
     (if wp_event_count p \<noteq> length events then [EventCountDiffers (wp_packet_id p) (wp_event_count p) (length events)] else []) @
     (if wp_session_ids p \<noteq> sp_session_ids events
      then [SessionIdsDiffer (wp_packet_id p) (wp_session_ids p) (sp_session_ids events)] else []) @
     (if wp_char_count p \<noteq> sp_char_count events
      then [CharCountDiffers (wp_packet_id p) (wp_char_count p) (sp_char_count events)] else []) @
     (if wp_estimated_tokens p \<noteq> estimate_tokens events
      then [EstimateDiffers (wp_packet_id p) (wp_estimated_tokens p) (estimate_tokens events)] else [])"

section \<open>The text of a packet\<close>

definition or_empty :: "string option \<Rightarrow> string" where
  "or_empty v = (case v of None \<Rightarrow> [] | Some s \<Rightarrow> s)"

definition ticked :: "string \<Rightarrow> string \<Rightarrow> string" where
  "ticked label value = ''- '' @ label @ '': `'' @ value @ ''`'' @ newline"

definition page_markdown :: "page_snapshot \<Rightarrow> string" where
  "page_markdown page = ''### `'' @ ps_slug page @ ''`'' @ newline @ newline @ ticked ''path'' (ps_source_path page) @
     ticked ''content_sha256'' (ps_content_sha256 page) @ newline @ ps_excerpt page @ newline @ newline"

definition labelled :: "string \<Rightarrow> string \<Rightarrow> string" where
  "labelled label value = label @ '': '' @ value @ newline"

definition event_markdown :: "source_event \<Rightarrow> string" where
  "event_markdown e = ''### '' @ ev_ts e @ '' '' @ or_empty (ev_project_key e) @ newline @ newline @
     labelled ''session_id'' (ev_session_id e) @ labelled ''kind'' (ev_kind e) @
     labelled ''role'' (or_empty (ev_role e)) @ labelled ''privacy_class'' (or_empty (ev_privacy_class e)) @
     labelled ''body_type'' (or_empty (ev_body_type e)) @ labelled ''object_id'' (or_empty (ev_object_id e)) @
     labelled ''source_id'' (or_empty (ev_source_id e)) @ labelled ''source_type'' (or_empty (ev_source_type e)) @
     labelled ''source_key'' (or_empty (ev_source_key e)) @
     labelled ''source_record_key'' (or_empty (ev_source_record_key e)) @
     labelled ''source_record_hash'' (or_empty (ev_source_record_hash e)) @
     labelled ''series_key'' (or_empty (ev_series_key e)) @ labelled ''source'' (or_empty (ev_source e)) @
     labelled ''cwd'' (or_empty (ev_cwd e)) @ newline @ ev_text e @ newline @ newline"

definition packet_markdown :: "wiki_memory_packet \<Rightarrow> source_event list \<Rightarrow> source_packet_materialization_request \<Rightarrow> string" where
  "packet_markdown p events request =
     ''# Bounded Scribe Source Packet'' @ newline @ newline @
     ''This raw Perception transcript packet is for hourly scribe jobs only. '' @
     ''Downstream roles should read scribe artifacts instead of raw history.'' @ newline @ newline @
     ''## Packet'' @ newline @ newline @
     ticked ''packet_id'' (wp_packet_id p) @ ticked ''date'' (wp_date p) @ ticked ''hour'' (wp_hour p) @
     ticked ''packet_kind'' (wp_packet_kind p) @
     ''- shard: `'' @ decimal (wp_shard_index p) @ ''` of `'' @ decimal (wp_shard_count p) @ ''`'' @ newline @
     ticked ''event_count'' (decimal (length events)) @
     ticked ''session_count'' (decimal (length (sp_session_ids events))) @
     ticked ''char_count'' (decimal (unat (sp_char_count events))) @
     ticked ''estimated_tokens'' (decimal (unat (estimate_tokens events))) @
     ticked ''source_window_days'' (decimal (unat (pq_source_window_days request))) @ newline @
     (if pq_current_pages request \<noteq> [] then ''## Current Wiki Page Snapshots'' @ newline @ newline @
        concat (map page_markdown (pq_current_pages request)) else []) @
     ''## Source Events'' @ newline @ newline @ concat (map event_markdown events)"

section \<open>Writing\<close>

definition optional_values :: "source_event list \<Rightarrow> (source_event \<Rightarrow> string option) \<Rightarrow> string list" where
  "optional_values events value = bset (List.map_filter (\<lambda>e. case value e of None \<Rightarrow> None
     | Some v \<Rightarrow> let t = str_trim v in if t = [] then None else Some t) events)"

definition materialize_one_packet :: "(string \<Rightarrow> string) \<Rightarrow> string \<Rightarrow> string \<Rightarrow> string \<Rightarrow> wiki_memory_packet \<Rightarrow>
    source_event list \<Rightarrow> source_packet_materialization_request \<Rightarrow> string \<Rightarrow> 32 word \<Rightarrow>
    (string, packet_file) btree_map \<Rightarrow> materialized_source_packet \<times> (string, packet_file) btree_map" where
  "materialize_one_packet sha now packet_root cache_root p events request run_id budget fs = (
     let body = packet_markdown p events request;
         hash = sha256_hex sha body;
         packet_path = path_join packet_root (safe_run_id sha (wp_packet_id p) @ ''.md'');
         metadata_path = path_join packet_root (safe_run_id sha (wp_packet_id p) @ ''.json'');
         cache_path = path_join cache_root (hash @ ''.json'');
         materialized = \<lparr>
       mp_schema_version = context_engine_schema_version,
       mp_kind = ''onecontext.context_engine.materialized_source_packet.v1'', mp_run_id = run_id,
       mp_packet_id = wp_packet_id p, mp_packet_kind = wp_packet_kind p, mp_date = wp_date p,
       mp_hour = wp_hour p, mp_shard_index = wp_shard_index p, mp_shard_count = wp_shard_count p,
       mp_event_count = length events, mp_char_count = sp_char_count events,
       mp_session_ids = sp_session_ids events, mp_session_count = length (sp_session_ids events),
       mp_object_ids = optional_values events ev_object_id, mp_source_ids = optional_values events ev_source_id,
       mp_source_types = optional_values events ev_source_type,
       mp_source_keys = optional_values events ev_source_key,
       mp_source_record_ids = optional_values events ev_source_record_id,
       mp_source_record_keys = optional_values events ev_source_record_key,
       mp_source_record_hashes = optional_values events ev_source_record_hash,
       mp_series_ids = optional_values events ev_series_id,
       mp_series_kinds = optional_values events ev_series_kind,
       mp_series_keys = optional_values events ev_series_key,
       mp_series_display_names = optional_values events ev_series_display_name,
       mp_sources = optional_values events ev_source, mp_roles = optional_values events ev_role,
       mp_privacy_classes = optional_values events ev_privacy_class,
       mp_body_types = optional_values events ev_body_type,
       mp_project_keys = optional_values events ev_project_key, mp_cwd_values = optional_values events ev_cwd,
       mp_estimated_tokens = estimate_tokens events, mp_target_packet_tokens = budget,
       mp_source_window_days = pq_source_window_days request,
       mp_page_snapshot_count = length (pq_current_pages request), mp_page_snapshots = pq_current_pages request,
       mp_path = packet_path, mp_metadata_path = metadata_path, mp_cache_path = cache_path,
       mp_source_packet_hash = hash, mp_content_sha256 = hash, mp_created_at = now \<rparr>
     in (materialized, bt_insert metadata_path (PacketMetadata materialized) (bt_insert packet_path (PacketBody body) fs)))"

definition index_entry :: "materialized_source_packet \<Rightarrow> source_packet_index_entry" where
  "index_entry p = \<lparr> pe_packet_id = mp_packet_id p, pe_packet_kind = mp_packet_kind p, pe_date = mp_date p,
     pe_hour = mp_hour p, pe_shard_index = mp_shard_index p, pe_shard_count = mp_shard_count p,
     pe_event_count = mp_event_count p, pe_session_count = mp_session_count p,
     pe_source_packet_hash = mp_source_packet_hash p, pe_content_sha256 = mp_content_sha256 p,
     pe_path = mp_path p, pe_metadata_path = mp_metadata_path p, pe_cache_path = mp_cache_path p \<rparr>"

definition source_packet_index :: "(string \<Rightarrow> string) \<Rightarrow> context_engine_paths \<Rightarrow> string \<Rightarrow> materialized_source_packet list \<Rightarrow>
    source_packet_index_record" where
  "source_packet_index sha paths run_id packets = \<lparr> px_schema_version = context_engine_schema_version,
     px_kind = ''onecontext.context_engine.source_packet_index.v1'', px_run_id = run_id,
     px_packet_count = length packets, px_packets = map index_entry packets,
     px_cursors = \<lparr> pc_raw_ingest_cursor_path = path_join (run_state_dir sha paths run_id) ''raw-ingest-cursor.json'',
       pc_wiki_memory_cursor_path = path_join (run_state_dir sha paths run_id) ''wiki-memory-cursor.json'',
       pc_packet_cache_index_path = path_join (run_state_dir sha paths run_id) ''packet-cache-index.json'' \<rparr>,
     px_cache = \<lparr> pk_key = ''source_packet_hash'', pk_invalidated_by = [''source_packet.source_packet_hash'',
       ''prompt_manifest.source_hashes'', ''prompt_manifest.prompt_hashes''] \<rparr> \<rparr>"

definition packet_issues :: "wiki_memory_packet \<Rightarrow> source_event list \<Rightarrow> packet_issue list" where
  "packet_issues p events = packet_metadata_issues p events @
     (if events = [] \<and> wp_event_count p > 0 then [NoEventsReconstructed (wp_packet_id p) (wp_event_count p)] else [])"

definition events_of_packet :: "(string, source_event list) btree_map \<Rightarrow> wiki_memory_packet \<Rightarrow> source_event list" where
  "events_of_packet m p = (case bt_get m (wp_packet_id p) of None \<Rightarrow> [] | Some es \<Rightarrow> es)"

type_synonym materialization = "materialized_source_packet list \<times> packet_issue list \<times> (string, packet_file) btree_map"

definition materialize_step :: "(string \<Rightarrow> string) \<Rightarrow> string \<Rightarrow> string \<Rightarrow> string \<Rightarrow>
    (string, source_event list) btree_map \<Rightarrow> source_packet_materialization_request \<Rightarrow> string \<Rightarrow> 32 word \<Rightarrow>
    wiki_memory_packet \<Rightarrow> materialization \<Rightarrow> materialization" where
  "materialize_step sha now packet_root cache_root by_id request run_id budget p st = (case st of (packets, issues, fs) \<Rightarrow>
     let events = events_of_packet by_id p;
         (m, fs') = materialize_one_packet sha now packet_root cache_root p events request run_id budget fs
     in (packets @ [m], issues @ packet_issues p events, fs'))"

definition materialize_source_packets :: "planner_env \<Rightarrow> (string \<Rightarrow> string) \<Rightarrow> string \<Rightarrow> context_engine_paths \<Rightarrow>
    wiki_memory_packet_plan \<Rightarrow> source_event list \<Rightarrow> source_packet_materialization_request \<Rightarrow>
    (string, packet_file) btree_map \<Rightarrow> source_packet_materialization_result \<times> (string, packet_file) btree_map" where
  "materialize_source_packets env sha now paths plan events request fs = (
     let run_id = safe_run_id sha (pq_run_id request);
         packet_root = run_source_packets sha paths run_id;
         cache_root = path_join (path_join (run_state_dir sha paths run_id) ''wiki-memory-cache'') ''scribe-packets'';
         by_id = packet_event_index env plan events;
         (packets, issues, fs1) = fold
           (materialize_step sha now packet_root cache_root by_id request run_id (wl_target_packet_tokens plan))
           (wl_selected_packets plan) ([], packet_event_index_issues env events, fs);
         index_path = path_join packet_root ''index.json'';
         index = source_packet_index sha paths run_id packets
     in (\<lparr> pr_schema_version = context_engine_schema_version,
           pr_kind = ''onecontext.context_engine.source_packet_materialization.v1'', pr_run_id = run_id,
           pr_index_path = index_path, pr_packet_count = length packets, pr_packets = packets, pr_issues = issues \<rparr>,
         bt_insert index_path (PacketIndex index) fs1))"

section \<open>The hours of the planner\<close>

lemma planner_copies:
  "sp_split_event_rows = split_event_rows" "sp_session_chunks = session_chunks" "sp_session_ids = session_ids"
  "sp_char_count = char_count" "packet_id_for = packet_id_text" "sp_event_day_hour = event_day_hour"
  "sp_by_session = group_by session_key"
proof -
  have "sp_split_step = split_step"
    unfolding sp_split_step_def [abs_def] split_step_def [abs_def] ..
  then show split: "sp_split_event_rows = split_event_rows"
    unfolding sp_split_event_rows_def [abs_def] split_event_rows_def [abs_def] by simp
  then show "sp_session_chunks = session_chunks"
    unfolding sp_session_chunks_def [abs_def] session_chunks_def [abs_def] by (simp only: split)
  show "sp_session_ids = session_ids" "packet_id_for = packet_id_text" "sp_event_day_hour = event_day_hour"
    unfolding sp_session_ids_def [abs_def] session_ids_def [abs_def] packet_id_for_def [abs_def]
      packet_id_text_def [abs_def] sp_event_day_hour_def [abs_def] event_day_hour_def [abs_def] by (rule refl)+
  show "sp_char_count = char_count"
    unfolding sp_char_count_def [abs_def] char_count_def [abs_def] event_chars_def [abs_def] ..
  show "sp_by_session = group_by session_key"
    unfolding sp_by_session_def [abs_def] group_by_def session_key_def [abs_def] ..
qed

lemma packetize_hour_events_shards:
  "packetize_hour_events date hour events target =
     map (\<lambda>(i, n, kind, rows). (packet_id_text date hour i n kind, rows)) (hour_shards events target)"
  by (simp add: packetize_hour_events_def hour_shards_def hour_chunks_def planner_copies Let_def case_prod_unfold)

lemma by_hour_push: "fold (by_hour_step env) events m = fold (\<lambda>x. bt_push (fst x) (snd x)) (resolved_events env events) m"
  by (induction events arbitrary: m)
    (simp_all add: by_hour_step_def resolved_events_def List.map_filter_simps planner_copies split: option.splits)

lemma bt_get_map_values: "bt_get (map (\<lambda>(k, v). (k, f v)) m) k = map_option f (bt_get m k)"
  by (induction m) (auto simp: bt_get_def)

lemma bt_wf_map_values: "bt_wf (map (\<lambda>(k, v). (k, f v)) m) = bt_wf m"
  by (simp add: bt_wf_def case_prod_unfold comp_def)

lemma map_insort_key: "map g (insort_key (f \<circ> g) x xs) = insort_key f (g x) (map g xs)"
  by (induction xs) simp_all

lemma map_sort_key: "map g (sort_key (f \<circ> g) xs) = sort_key f (map g xs)"
  by (induction xs) (simp_all add: sort_key_def map_insort_key [unfolded comp_def])

lemma sort_key_Nil_iff: "sort_key f xs = [] \<longleftrightarrow> xs = []"
  by (metis length_0_conv length_sort)

text \<open>Sorting the events of every hour gives the hours of the planner, which sorts all events first.\<close>

lemma hours_sorted:
  "map (\<lambda>(k, es). (k, sort_key ev_ts es)) (fold (by_hour_step env) events []) = hours_of env events"
proof (rule bt.entries_unique)
  let ?m = "fold (by_hour_step env) events []" and ?rs = "resolved_events env events"
  show "bt_wf (map (\<lambda>(k, es). (k, sort_key ev_ts es)) ?m)"
    unfolding bt_wf_map_values by_hour_push by (rule bt_wf_fold_push) simp
  fix k
  have "map snd (filter (\<lambda>x. fst x = k) (sort_key (ev_ts \<circ> snd) ?rs)) = sort_key ev_ts (map snd (filter (\<lambda>x. fst x = k) ?rs))"
    by (simp add: filter_sort map_sort_key)
  then show "bt_get (map (\<lambda>(k, es). (k, sort_key ev_ts es)) ?m) k = bt_get (hours_of env events) k"
    unfolding bt_get_map_values by_hour_push hours_of_push bt_get_fold_push Let_def
    by (simp add: sort_key_Nil_iff)
qed simp

section \<open>Packet identifiers\<close>

lemma split_at_separator:
  assumes "a @ c # b = a' @ c # b'" "c \<notin> set a" "c \<notin> set a'"
  shows "a = a' \<and> b = b'"
  using assms
proof (induction a arbitrary: a')
  case Nil
  then show ?case by (cases a') auto
next
  case (Cons x a)
  then show ?case by (cases a') auto
qed

definition decimal_value :: "string \<Rightarrow> nat" where
  "decimal_value = foldl (\<lambda>n c. 10 * n + (of_char c - 48)) 0"

lemma decimal_value: "decimal_value (decimal n) = n"
proof (induction n rule: decimal.induct)
  case (1 n)
  then show ?case
    by (subst decimal.simps) (auto simp: decimal_value_def)
qed

lemma decimal_padded_value: "decimal_value (decimal_padded w n) = n"
proof -
  have "foldl (\<lambda>n c. 10 * n + (of_char c - 48)) 0 (replicate k CHR ''0'') = (0 :: nat)" for k
    by (induction k) simp_all
  then show ?thesis
    using decimal_value [of n] by (simp add: decimal_padded_def Let_def decimal_value_def)
qed

lemma decimal_no_dash: "CHR ''-'' \<notin> set (decimal n)"
proof (induction n rule: decimal.induct)
  case (1 n)
  have "CHR ''-'' \<noteq> char_of (48 + k :: nat)" if "k < 10" for k
  proof
    assume "CHR ''-'' = char_of (48 + k :: nat)"
    then have "(of_char CHR ''-'' :: nat) = of_char (char_of (48 + k :: nat))"
      by simp
    then show False
      using that by simp
  qed
  then show ?case
    using 1 by (subst decimal.simps) auto
qed

lemma decimal_padded_no_dash: "CHR ''-'' \<notin> set (decimal_padded w n)"
  using decimal_no_dash [of n] by (auto simp: decimal_padded_def Let_def)

text \<open>The texts of dates have no \<open>T\<close>, and those of hours no dash.\<close>

definition plain_dates :: "planner_env \<Rightarrow> bool" where
  "plain_dates env \<longleftrightarrow> (\<forall>ts date hour. pv_day_hour env ts = Some (date, hour) \<longrightarrow>
     CHR ''T'' \<notin> set date \<and> CHR ''-'' \<notin> set hour)"

lemma packet_id_inj:
  assumes "packet_id_text d h i n k = packet_id_text d' h' i' n' k'"
    "CHR ''T'' \<notin> set d" "CHR ''T'' \<notin> set d'" "CHR ''-'' \<notin> set h" "CHR ''-'' \<notin> set h'"
  shows "d = d' \<and> h = h' \<and> i = i'"
proof -
  have d: "d = d'" and rest: "h @ ''-'' @ decimal_padded 2 i @ ''-of-'' @ decimal_padded 2 n @ ''-'' @ k =
      h' @ ''-'' @ decimal_padded 2 i' @ ''-of-'' @ decimal_padded 2 n' @ ''-'' @ k'"
    using split_at_separator [of d "CHR ''T''" _ d'] assms(1-3) by (auto simp: packet_id_text_def)
  then have h: "h = h'" and rest: "decimal_padded 2 i @ ''-of-'' @ decimal_padded 2 n @ ''-'' @ k =
      decimal_padded 2 i' @ ''-of-'' @ decimal_padded 2 n' @ ''-'' @ k'"
    using split_at_separator [of h "CHR ''-''" _ h'] assms(4,5) by auto
  then have "decimal_padded 2 i = decimal_padded 2 i'"
    using split_at_separator [of "decimal_padded 2 i" "CHR ''-''" _ "decimal_padded 2 i'"] decimal_padded_no_dash
    by auto
  then show ?thesis
    using d h decimal_padded_value by metis
qed

section \<open>The shards of a plan\<close>

type_synonym shard = "string \<times> string \<times> nat \<times> nat \<times> string \<times> source_event list"

definition hour_row :: "32 word \<Rightarrow> (string \<times> string) \<times> source_event list \<Rightarrow> shard list" where
  "hour_row target e = map (\<lambda>s. (fst (fst e), snd (fst e), s)) (hour_shards (snd e) target)"

definition plan_shards :: "planner_env \<Rightarrow> source_event list \<Rightarrow> 32 word \<Rightarrow> shard list" where
  "plan_shards env events target = concat (map (hour_row target) (hours_of env events))"

definition shard_key :: "shard \<Rightarrow> string \<times> string \<times> nat" where
  "shard_key s = (case s of (d, h, i, _) \<Rightarrow> (d, h, i))"

definition shard_id :: "shard \<Rightarrow> string" where
  "shard_id s = (case s of (d, h, i, n, k, _) \<Rightarrow> packet_id_text d h i n k)"

definition shard_rows :: "shard \<Rightarrow> source_event list" where
  "shard_rows s = (case s of (_, _, _, _, _, rows) \<Rightarrow> rows)"

definition shard_packet :: "string list \<Rightarrow> shard \<Rightarrow> wiki_memory_packet" where
  "shard_packet cached s = (case s of (d, h, i, n, k, rows) \<Rightarrow> packet_for_events d h i n k rows cached)"

lemmas shard_defs = shard_key_def shard_id_def shard_rows_def shard_packet_def

lemma entries_of_shards:
  "packet_event_entries env plan events =
     map (\<lambda>s. (shard_id s, shard_rows s)) (plan_shards env events (wl_target_packet_tokens plan))"
proof -
  let ?t = "wl_target_packet_tokens plan"
  have "packet_event_entries env plan events =
      concat (map (\<lambda>e. packetize_hour_events (fst (fst e)) (snd (fst e)) (snd e) ?t)
        (map (\<lambda>(k, es). (k, sort_key ev_ts es)) (fold (by_hour_step env) events [])))"
    unfolding packet_event_entries_def map_map by (simp add: comp_def case_prod_unfold)
  then show ?thesis
    unfolding hours_sorted packetize_hour_events_shards plan_shards_def hour_row_def map_concat map_map
    by (simp add: shard_defs comp_def case_prod_unfold)
qed

lemma packets_of_shards:
  "wl_packets (build_packet_plan env events policy cached) =
     map (shard_packet cached) (plan_shards env events (target_packet_tokens policy))"
  unfolding plan_shards_def hour_row_def map_concat map_map
  by (simp add: build_packet_plan_def Let_def packetize_hour_shards shard_defs comp_def case_prod_unfold)

lemma distinct_map_finer:
  assumes "distinct (map f xs)" "\<And>x y. x \<in> set xs \<Longrightarrow> y \<in> set xs \<Longrightarrow> g x = g y \<Longrightarrow> f x = f y"
  shows "distinct (map g xs)"
  unfolding distinct_map
proof
  show "distinct xs"
    using assms(1) by (simp add: distinct_map)
  show "inj_on g (set xs)"
    using assms unfolding distinct_map inj_on_def by blast
qed

lemma distinct_hour_shards: "distinct (map fst (hour_shards events target))"
proof (cases "estimate_tokens events \<le> target")
  case True
  then show ?thesis
    by (simp add: hour_shards_def)
next
  case False
  have "map fst (map (\<lambda>(i, rows). (i + 1, n, k, rows)) (enumerate 0 xs)) = map Suc (map fst (enumerate 0 xs))"
    for n :: nat and k :: string and xs :: "source_event list list"
    unfolding map_map by (rule map_cong) auto
  then have "map fst (hour_shards events target) = map Suc [0..<length (hour_chunks events target)]"
    using False by (simp only: hour_shards_def if_False map_fst_enumerate add_0)
  then show ?thesis
    by (simp add: distinct_map)
qed

lemma hours_of_key: "e \<in> set (hours_of env events) \<Longrightarrow> \<exists>ts. pv_day_hour env ts = Some (fst e)"
proof -
  assume "e \<in> set (hours_of env events)"
  then have "bt_get (hours_of env events) (fst e) = Some (snd e)"
    using bt_entries_get [of "hours_of env events" "fst e" "snd e"] by simp
  then obtain x where "x \<in> set (resolved_events env events)" "fst x = fst e"
    unfolding hours_of_push bt_get_fold_push by (auto simp: Let_def filter_empty_conv split: if_splits)
  then show ?thesis
    by (auto simp: resolved_events_def event_day_hour_def List.map_filter_def)
qed

lemma distinct_concat_keys:
  assumes "distinct (map fst m)" "\<And>e. e \<in> set m \<Longrightarrow> distinct (map key (f e))"
    "\<And>e x. e \<in> set m \<Longrightarrow> x \<in> set (f e) \<Longrightarrow> part (key x) = fst e"
  shows "distinct (map key (concat (map f m)))"
  using assms
proof (induction m)
  case (Cons e m)
  have "key x \<noteq> key y" if x: "x \<in> set (f e)" and y: "y \<in> set (concat (map f m))" for x y
  proof -
    obtain e' where e': "e' \<in> set m" "y \<in> set (f e')"
      using y by auto
    then have "part (key x) = fst e" "part (key y) = fst e'"
      using Cons.prems(3) x by simp_all
    moreover have "fst e \<noteq> fst e'"
      using Cons.prems(1) e'(1) by force
    ultimately show ?thesis
      by metis
  qed
  then have "set (map key (f e)) \<inter> set (map key (concat (map f m))) = {}"
    unfolding set_map by blast
  moreover have "distinct (map key (f e))" "distinct (map key (concat (map f m)))"
    using Cons by simp_all
  ultimately show ?case
    unfolding list.map concat.simps map_append distinct_append by blast
qed simp

lemma distinct_shard_keys: "distinct (map shard_key (plan_shards env events target))"
  unfolding plan_shards_def
proof (rule distinct_concat_keys [where part = "\<lambda>(d, h, i). (d, h)"])
  show "distinct (map fst (hours_of env events))"
    by (rule bt_wf_distinct) simp
  fix e
  show "distinct (map shard_key (hour_row target e))"
    using distinct_hour_shards [of "snd e" target]
    by (auto simp: hour_row_def shard_defs comp_def case_prod_unfold distinct_map inj_on_def)
  fix x
  assume "x \<in> set (hour_row target e)"
  then show "(\<lambda>(d, h, i). (d, h)) (shard_key x) = fst e"
    by (auto simp: hour_row_def shard_defs)
qed

lemma shard_day_hour:
  assumes "(d, h, s) \<in> set (plan_shards env events target)"
  shows "\<exists>ts. pv_day_hour env ts = Some (d, h)"
proof -
  obtain e where "e \<in> set (hours_of env events)" "(d, h, s) \<in> set (hour_row target e)"
    using assms by (auto simp: plan_shards_def)
  then show ?thesis
    using hours_of_key [of e env events] by (auto simp: hour_row_def)
qed

lemma distinct_shard_ids:
  assumes "plain_dates env"
  shows "distinct (map shard_id (plan_shards env events target))"
proof (rule distinct_map_finer [OF distinct_shard_keys])
  fix x y
  assume xy: "x \<in> set (plan_shards env events target)" "y \<in> set (plan_shards env events target)" "shard_id x = shard_id y"
  obtain d h i n k r where x: "x = (d, h, i, n, k, r)" by (cases x)
  obtain d' h' i' n' k' r' where y: "y = (d', h', i', n', k', r')" by (cases y)
  have "CHR ''T'' \<notin> set d" "CHR ''-'' \<notin> set h" "CHR ''T'' \<notin> set d'" "CHR ''-'' \<notin> set h'"
    using assms xy(1,2) x y shard_day_hour unfolding plain_dates_def by blast+
  then show "shard_key x = shard_key y"
    using packet_id_inj [of d h i n k d' h' i' n' k'] xy(3) x y by (simp add: shard_defs)
qed

lemma bt_get_of_list:
  assumes "distinct (map fst es)" "(k, v) \<in> set es"
  shows "bt_get (bt_of_list es) k = Some v"
proof -
  have "List.find (\<lambda>r. fst r = k) (rev es) = Some (k, v)"
    using find_distinct_key [of fst "rev es" "(k, v)"] assms by (simp add: rev_map [symmetric])
  then show ?thesis
    unfolding bt_of_list_def using bt.get_fold [of "[]" fst snd es k] by simp
qed

lemma index_of_shard:
  assumes "plain_dates env" "s \<in> set (plan_shards env events (wl_target_packet_tokens plan))"
  shows "bt_get (packet_event_index env plan events) (shard_id s) = Some (shard_rows s)"
  unfolding packet_event_index_def entries_of_shards
  by (rule bt_get_of_list) (use assms distinct_shard_ids in \<open>auto simp: comp_def\<close>)

section \<open>Every event in one packet\<close>

lemma mset_concat_map: "mset xs = mset ys \<Longrightarrow> mset (concat (map f xs)) = mset (concat (map f ys))"
  by (simp add: mset_concat flip: sum_mset_sum_list)

lemma mset_bt_of_list:
  assumes "distinct (map fst es)"
  shows "mset (bt_of_list es) = mset es"
proof (rule set_eq_iff_mset_eq_distinct [THEN iffD1])
  show "distinct es"
    using assms by (simp add: distinct_map)
  show "distinct (bt_of_list es)"
    using bt_wf_distinct [OF bt_wf_of_list, of es] by (simp add: distinct_map)
  have "(k, v) \<in> set (bt_of_list es) \<longleftrightarrow> (k, v) \<in> set es" for k v
  proof
    assume "(k, v) \<in> set (bt_of_list es)"
    then have "bt_get (bt_of_list es) k = Some v"
      by (simp add: bt_entries_get)
    then show "(k, v) \<in> set es"
      unfolding bt_of_list_def using bt.get_fold [of "[]" fst snd es k]
      by (auto simp: find_Some_iff split: option.splits) (metis nth_mem prod.collapse set_rev length_rev)
  next
    assume "(k, v) \<in> set es"
    then show "(k, v) \<in> set (bt_of_list es)"
      using bt_get_of_list [OF assms] by (simp add: bt_entries_get)
  qed
  then show "set (bt_of_list es) = set es"
    by auto
qed

lemma rows_of_hour: "mset (concat (map shard_rows (hour_row target e))) = mset (snd e)"
proof (cases "estimate_tokens (snd e) \<le> target")
  case True
  then show ?thesis
    by (simp add: hour_row_def hour_shards_def shard_rows_def)
next
  case False
  have "map (shard_rows \<circ> (\<lambda>s. (d, h, s)) \<circ> (\<lambda>(i, rows). (i + 1, n, k, rows))) (enumerate 0 xs) = xs"
    for d h k :: string and n :: nat and xs :: "source_event list list"
  proof -
    have "map (shard_rows \<circ> (\<lambda>s. (d, h, s)) \<circ> (\<lambda>(i, rows). (i + 1, n, k, rows))) (enumerate 0 xs) = map snd (enumerate 0 xs)"
      by (rule map_cong) (auto simp: shard_rows_def)
    then show ?thesis
      by simp
  qed
  then have "map shard_rows (hour_row target e) = hour_chunks (snd e) target"
    using False by (simp only: hour_row_def hour_shards_def if_False map_map comp_assoc [symmetric])
  then show ?thesis
    by (simp add: mset_hour_chunks)
qed

definition dated_events :: "planner_env \<Rightarrow> source_event list \<Rightarrow> source_event list" where
  "dated_events env events = filter (\<lambda>e. pv_day_hour env (ev_ts e) \<noteq> None) events"

lemma resolved_dated: "map snd (resolved_events env events) = dated_events env events"
  by (induction events)
    (auto simp: resolved_events_def dated_events_def event_day_hour_def List.map_filter_simps split: option.splits)

lemma rows_of_plan: "mset (concat (map shard_rows (plan_shards env events target))) = mset (dated_events env events)"
proof -
  have "mset (concat (map shard_rows (concat (map (hour_row target) es)))) = mset (concat (map snd es))" for es
    by (induction es) (simp_all add: rows_of_hour)
  then have "mset (concat (map shard_rows (plan_shards env events target))) = mset (concat (bt_values (hours_of env events)))"
    by (simp add: plan_shards_def bt_values_def)
  also have "\<dots> = mset (map snd (resolved_events env events))"
    unfolding hours_of_push mset_fold_push by simp
  finally show ?thesis
    by (simp add: resolved_dated)
qed

text \<open>C25. The packets of a plan partition the events with a readable time: the event lists that the index holds
  for the identifiers of the packets contain every such event exactly once, and no other.\<close>

theorem packets_partition_events:
  assumes "plain_dates env"
  shows "mset (concat (bt_values (packet_event_index env plan events))) = mset (dated_events env events)"
proof -
  let ?shards = "plan_shards env events (wl_target_packet_tokens plan)"
  have "distinct (map fst (map (\<lambda>s. (shard_id s, shard_rows s)) ?shards))"
    using distinct_shard_ids [OF assms] by (simp add: comp_def)
  then have "mset (packet_event_index env plan events) = mset (map (\<lambda>s. (shard_id s, shard_rows s)) ?shards)"
    unfolding packet_event_index_def entries_of_shards by (rule mset_bt_of_list)
  then have "mset (concat (bt_values (packet_event_index env plan events))) = mset (concat (map shard_rows ?shards))"
    using mset_concat_map [of _ _ snd] by (fastforce simp: bt_values_def comp_def)
  then show ?thesis
    by (simp add: rows_of_plan)
qed

section \<open>Materializing a plan\<close>

lemma plan_budget: "wl_target_packet_tokens (build_packet_plan env events policy cached) = target_packet_tokens policy"
  by (simp add: build_packet_plan_def Let_def)

lemma shard_packet_id: "wp_packet_id (shard_packet cached s) = shard_id s"
  by (simp add: shard_defs case_prod_unfold)

lemma shard_packet_issues: "packet_metadata_issues (shard_packet cached s) (shard_rows s) = []"
  by (simp add: packet_metadata_issues_def shard_defs case_prod_unfold planner_copies)

lemma index_of_packet:
  assumes "plain_dates env" "p \<in> set (wl_packets (build_packet_plan env events policy cached))"
  shows "\<exists>rows. bt_get (packet_event_index env (build_packet_plan env events policy cached) events) (wp_packet_id p) = Some rows \<and>
    packet_metadata_issues p rows = []"
proof -
  obtain s where "s \<in> set (plan_shards env events (target_packet_tokens policy))" "p = shard_packet cached s"
    using assms(2) unfolding packets_of_shards by auto
  then show ?thesis
    using index_of_shard [OF assms(1), of s events "build_packet_plan env events policy cached"]
    by (auto simp: plan_budget shard_packet_id shard_packet_issues)
qed

definition sample_planner_env :: planner_env where
  "sample_planner_env = \<lparr> pv_day_hour = (\<lambda>ts. if take 2 ts = ''20'' then Some (''2026-05-01'', ''09'') else None),
     pv_days_before = (\<lambda>_ d. Some d) \<rparr>"

definition sample_policy :: packet_planner_policy where
  "sample_policy = \<lparr> pl_window_days = 1, pl_usable_context_tokens = 0, pl_context_fraction = f64_quarter,
     pl_target_packet_tokens_override = Some 2000, pl_max_packets_per_run = 5, pl_recent_priority_days = 3 \<rparr>"

definition sample_events :: "source_event list" where
  "sample_events = [sample_event ''2026-05-01T09:10:00Z'' ''b'' ''two'', sample_event ''2026-05-01T09:05:00Z'' ''a'' ''one'',
     sample_event ''soon'' ''a'' ''lost'']"

lemma sample_plain_dates: "plain_dates sample_planner_env"
  by (auto simp: plain_dates_def sample_planner_env_def split: if_splits)

lemma packets_partition_events_witness:
  "mset (concat (bt_values (packet_event_index sample_planner_env
     (build_packet_plan sample_planner_env sample_events sample_policy []) sample_events))) =
   mset (dated_events sample_planner_env sample_events) \<and>
   dated_events sample_planner_env sample_events = take 2 sample_events"
proof
  show "dated_events sample_planner_env sample_events = take 2 sample_events"
    by code_simp
qed (rule packets_partition_events [OF sample_plain_dates])

text \<open>C36. The two computations of the packets agree: for every packet that \<open>build_packet_plan\<close> planned the
  materializer finds events under its identifier, and they have the number, the sessions, the characters
  and the estimate that the plan says.\<close>

theorem plan_reconstructed:
  assumes "plain_dates env"
  shows "list_all (\<lambda>p. \<exists>rows. bt_get (packet_event_index env (build_packet_plan env events policy cached) events) (wp_packet_id p) =
      Some rows \<and> packet_metadata_issues p rows = []) (wl_packets (build_packet_plan env events policy cached))"
  unfolding list_all_iff using index_of_packet [OF assms] by blast

lemma plan_reconstructed_witness:
  "list_all (\<lambda>p. \<exists>rows. bt_get (packet_event_index sample_planner_env
       (build_packet_plan sample_planner_env sample_events sample_policy []) sample_events) (wp_packet_id p) = Some rows \<and>
     packet_metadata_issues p rows = []) (wl_packets (build_packet_plan sample_planner_env sample_events sample_policy [])) \<and>
   map wp_packet_id (wl_packets (build_packet_plan sample_planner_env sample_events sample_policy [])) =
     [''2026-05-01T09-01-of-01-hour'']"
proof
  show "map wp_packet_id (wl_packets (build_packet_plan sample_planner_env sample_events sample_policy [])) =
     [''2026-05-01T09-01-of-01-hour'']"
    by code_simp
qed (rule plan_reconstructed [OF sample_plain_dates])

lemma materialize_one_fst: "fst (materialize_one_packet sha now pr cr p es request run_id budget fs) =
    fst (materialize_one_packet sha now pr cr p es request run_id budget [])"
  by (simp add: materialize_one_packet_def Let_def)

lemma materialize_one_wf: "bt_wf fs \<Longrightarrow> bt_wf (snd (materialize_one_packet sha now pr cr p es request run_id budget fs))"
  by (simp add: materialize_one_packet_def Let_def)

lemma materialize_step_eq:
  "materialize_step sha now pr cr by_id request run_id budget p (ms, is, fs) =
     (ms @ [fst (materialize_one_packet sha now pr cr p (events_of_packet by_id p) request run_id budget [])],
      is @ packet_issues p (events_of_packet by_id p),
      snd (materialize_one_packet sha now pr cr p (events_of_packet by_id p) request run_id budget fs))"
  unfolding materialize_step_def Let_def prod.case materialize_one_fst [of _ _ _ _ _ _ _ _ _ fs, symmetric]
  by (simp add: case_prod_unfold)

lemma materialize_fold:
  "bt_wf fs \<Longrightarrow> \<exists>fs'. bt_wf fs' \<and> fold (materialize_step sha now pr cr by_id request run_id budget) ps (ms, is, fs) =
     (ms @ map (\<lambda>p. fst (materialize_one_packet sha now pr cr p (events_of_packet by_id p) request run_id budget [])) ps,
      is @ concat (map (\<lambda>p. packet_issues p (events_of_packet by_id p)) ps), fs')"
proof (induction ps arbitrary: ms "is" fs)
  case (Cons p ps)
  show ?case
    using Cons.IH [OF materialize_one_wf [OF Cons.prems], of
        "ms @ [fst (materialize_one_packet sha now pr cr p (events_of_packet by_id p) request run_id budget [])]"
        "is @ packet_issues p (events_of_packet by_id p)" sha now pr cr p "events_of_packet by_id p" request run_id budget]
    by (simp add: materialize_step_eq)
qed simp

lemma materialized_id: "mp_packet_id (fst (materialize_one_packet sha now pr cr p es request run_id budget fs)) = wp_packet_id p"
  by (simp add: materialize_one_packet_def Let_def)

lemma planned_packet_issues:
  assumes "plain_dates env" "p \<in> set (wl_packets (build_packet_plan env events policy cached))"
  shows "packet_issues p (events_of_packet (packet_event_index env (build_packet_plan env events policy cached) events) p) = []"
proof -
  obtain rows where "bt_get (packet_event_index env (build_packet_plan env events policy cached) events) (wp_packet_id p) = Some rows"
    and ok: "packet_metadata_issues p rows = []"
    using index_of_packet [OF assms] by blast
  moreover have "wp_event_count p = length rows"
    using ok by (simp add: packet_metadata_issues_def split: if_splits)
  ultimately show ?thesis
    by (simp add: packet_issues_def events_of_packet_def)
qed

lemma selected_planned: "set (wl_selected_packets (build_packet_plan env events policy cached)) \<subseteq>
    set (wl_packets (build_packet_plan env events policy cached))"
  unfolding build_packet_plan_def Let_def wiki_memory_packet_plan.simps by (rule select_subset)

definition materialized_ids :: "source_packet_materialization_result \<times> (string, packet_file) btree_map \<Rightarrow> string list" where
  "materialized_ids r = map mp_packet_id (pr_packets (fst r))"

text \<open>Materializing a plan of \<open>build_packet_plan\<close> writes the selected packets, in their order, and an index of
  exactly them; the only issue it can report is that events without a readable time were ignored.\<close>

theorem materialization_follows_plan:
  assumes "plain_dates env" "bt_wf fs"
  shows "let plan = build_packet_plan env events policy cached;
      r = materialize_source_packets env sha now paths plan events request fs
    in materialized_ids r = map wp_packet_id (wl_selected_packets plan) \<and>
       pr_issues (fst r) = packet_event_index_issues env events \<and>
       bt_get (snd r) (pr_index_path (fst r)) =
         Some (PacketIndex (source_packet_index sha paths (safe_run_id sha (pq_run_id request)) (pr_packets (fst r))))"
proof -
  let ?plan = "build_packet_plan env events policy cached" and ?run = "safe_run_id sha (pq_run_id request)"
  let ?root = "run_source_packets sha paths ?run"
  let ?cache = "path_join (path_join (run_state_dir sha paths ?run) ''wiki-memory-cache'') ''scribe-packets''"
  let ?index = "packet_event_index env ?plan events"
  let ?one = "\<lambda>p. fst (materialize_one_packet sha now ?root ?cache p (events_of_packet ?index p) request ?run
      (wl_target_packet_tokens ?plan) [])"
  have none: "concat (map (\<lambda>p. packet_issues p (events_of_packet ?index p)) (wl_selected_packets ?plan)) = []"
    using planned_packet_issues [OF assms(1)] selected_planned by (auto simp: subset_iff)
  obtain fs' where "bt_wf fs'" and fold: "fold (materialize_step sha now ?root ?cache ?index request ?run
        (wl_target_packet_tokens ?plan)) (wl_selected_packets ?plan) ([], packet_event_index_issues env events, fs) =
      (map ?one (wl_selected_packets ?plan), packet_event_index_issues env events, fs')"
    using materialize_fold [OF assms(2), of sha now ?root ?cache ?index request ?run "wl_target_packet_tokens ?plan"
        "wl_selected_packets ?plan" "[]" "packet_event_index_issues env events"] none by auto
  then show ?thesis
    unfolding Let_def materialize_source_packets_def fold prod.case
    by (simp add: materialized_ids_def comp_def materialized_id)
qed

lemma materialization_follows_plan_witness:
  "let plan = build_packet_plan sample_planner_env sample_events sample_policy [];
      r = materialize_source_packets sample_planner_env (\<lambda>s. s) ''now'' (paths_new ''r'') plan sample_events
        \<lparr> pq_run_id = ''run'', pq_source_window_days = 1, pq_current_pages = [] \<rparr> []
    in materialized_ids r = map wp_packet_id (wl_selected_packets plan) \<and>
       pr_issues (fst r) = packet_event_index_issues sample_planner_env sample_events \<and>
       bt_get (snd r) (pr_index_path (fst r)) =
         Some (PacketIndex (source_packet_index (\<lambda>s. s) (paths_new ''r'') (safe_run_id (\<lambda>s. s) ''run'') (pr_packets (fst r))))"
  using materialization_follows_plan [OF sample_plain_dates bt_wf_Nil, of sample_events sample_policy "[]" "\<lambda>s. s" "''now''"
      "paths_new ''r''" "\<lparr> pq_run_id = ''run'', pq_source_window_days = 1, pq_current_pages = [] \<rparr>"]
  by simp

end
