(* ===== verification/Fanout.thy ===== *)
theory Fanout
  imports Scheduler Source_Packets
begin

text \<open>
  Fanout of scheduled jobs (\<open>crates/onecontext-context-engine/src/fanout.rs\<close>): a job becomes one unit of work
  for every packet, hour, day or question that it is about.
\<close>

section \<open>Data\<close>

record fanout_context =
  fx_run_id :: string
  fx_selected_packets :: "materialized_source_packet list"
  fx_refreshed_days :: "string list"
  fx_available_artifacts :: "artifact_handle list"

record concrete_job_unit =
  ju_schema_version :: "32 word"
  ju_kind :: string
  ju_run_id :: string
  ju_unit_id :: string
  ju_phase_id :: string
  ju_job_id :: string
  ju_agent_id :: string
  ju_fanout :: string
  ju_status :: string
  ju_bindings :: "(string, string) btree_map"
  ju_unit_scope :: "(string, string) btree_map"
  ju_packet_id :: "string option"
  ju_date :: "string option"
  ju_hour :: "string option"
  ju_required_artifacts :: "string list"

record fanout_expansion =
  fe_schema_version :: "32 word"
  fe_kind :: string
  fe_run_id :: string
  fe_job_id :: string
  fe_unit_count :: nat
  fe_units :: "concrete_job_unit list"
  fe_issues :: "string list"

section \<open>Units\<close>

definition unit_for_packet :: "(string \<Rightarrow> string) \<Rightarrow> scheduled_job \<Rightarrow> fanout_context \<Rightarrow> materialized_source_packet \<Rightarrow>
    concrete_job_unit" where
  "unit_for_packet sha job context packet = (
     let bindings = bt_insert ''source_packet_hash'' (mp_content_sha256 packet)
           (bt_insert ''source_packet_path'' (mp_path packet) (bt_insert ''packet_id'' (mp_packet_id packet)
           (bt_insert ''hour'' (mp_hour packet) (bt_insert ''date'' (mp_date packet) (sj_bindings job)))));
         unit_scope = bt_of_list [(''packet.id'', mp_packet_id packet), (''packet.date'', mp_date packet),
           (''packet.hour'', mp_hour packet), (''packet.path'', mp_path packet),
           (''packet.content_sha256'', mp_content_sha256 packet), (''run.id'', safe_run_id sha (fx_run_id context))]
     in \<lparr> ju_schema_version = context_engine_schema_version,
          ju_kind = ''onecontext.context_engine.concrete_job_unit.v1'',
          ju_run_id = safe_run_id sha (fx_run_id context),
          ju_unit_id = safe_run_id sha (sj_job_id job @ ''-'' @ mp_packet_id packet),
          ju_phase_id = sj_phase_id job, ju_job_id = sj_job_id job, ju_agent_id = sj_agent_id job,
          ju_fanout = sj_fanout job, ju_status = ''planned'', ju_bindings = bindings, ju_unit_scope = unit_scope,
          ju_packet_id = Some (mp_packet_id packet), ju_date = Some (mp_date packet), ju_hour = Some (mp_hour packet),
          ju_required_artifacts = sj_required_artifacts job \<rparr>)"

definition unit_for_day :: "(string \<Rightarrow> string) \<Rightarrow> scheduled_job \<Rightarrow> fanout_context \<Rightarrow> string \<Rightarrow> concrete_job_unit" where
  "unit_for_day sha job context day =
     \<lparr> ju_schema_version = context_engine_schema_version,
       ju_kind = ''onecontext.context_engine.concrete_job_unit.v1'',
       ju_run_id = safe_run_id sha (fx_run_id context),
       ju_unit_id = safe_run_id sha (sj_job_id job @ ''-'' @ day),
       ju_phase_id = sj_phase_id job, ju_job_id = sj_job_id job, ju_agent_id = sj_agent_id job,
       ju_fanout = sj_fanout job, ju_status = ''planned'',
       ju_bindings = bt_insert ''date'' day (sj_bindings job),
       ju_unit_scope = bt_of_list [(''day.date'', day), (''run.id'', safe_run_id sha (fx_run_id context))],
       ju_packet_id = None, ju_date = Some day, ju_hour = None,
       ju_required_artifacts = sj_required_artifacts job \<rparr>"

definition is_key_separator :: "char \<Rightarrow> bool" where
  "is_key_separator c \<longleftrightarrow> c = CHR ''-'' \<or> c = CHR ''_'' \<or> c = CHR '':''"

definition parse_question_key_date_hour :: "string \<Rightarrow> (string \<times> string) option" where
  "parse_question_key_date_hour key = (case split_on is_key_separator key of
     year # month # day # hour # _ \<Rightarrow>
       if length year = 4 \<and> length month = 2 \<and> length day = 2 \<and> length hour = 2 \<and>
          list_all is_ascii_digit year \<and> list_all is_ascii_digit month \<and> list_all is_ascii_digit day \<and>
          list_all is_ascii_digit hour
       then Some (year @ ''-'' @ month @ ''-'' @ day, hour) else None
   | _ \<Rightarrow> None)"

definition insert_date_hour :: "string \<Rightarrow> string \<Rightarrow> (string \<times> string) option \<Rightarrow> (string, string) btree_map \<Rightarrow>
    (string, string) btree_map" where
  "insert_date_hour date_key hour_key dh m = (case dh of None \<Rightarrow> m
     | Some (date, hour) \<Rightarrow> bt_insert hour_key hour (bt_insert date_key date m))"

definition replace_placeholder :: "string \<Rightarrow> string \<Rightarrow> string \<Rightarrow> (string, string) btree_map \<Rightarrow> (string, string) btree_map" where
  "replace_placeholder key placeholder value m =
     (if bt_get m key = Some placeholder then bt_insert key value m else m)"

definition unit_for_question :: "(string \<Rightarrow> string) \<Rightarrow> scheduled_job \<Rightarrow> fanout_context \<Rightarrow> artifact_handle \<Rightarrow>
    concrete_job_unit" where
  "unit_for_question sha job context question = (
     let run_id = safe_run_id sha (fx_run_id context);
         dh = parse_question_key_date_hour (ah_key question);
         bindings = replace_placeholder ''parent_entry'' ''question.parent_entry'' (ah_key question)
           (insert_date_hour ''date'' ''hour'' dh
             (bt_insert ''question_path'' (ah_path question)
               (bt_insert ''question_artifact_id'' (ah_artifact_id question)
                 (bt_insert ''question_id'' (ah_key question) (sj_bindings job)))));
         unit_scope = insert_date_hour ''question.date'' ''question.hour'' dh
           (bt_of_list [(''run.id'', run_id), (''question.id'', ah_key question), (''question.path'', ah_path question),
             (''question.artifact_id'', ah_artifact_id question)])
     in \<lparr> ju_schema_version = context_engine_schema_version,
          ju_kind = ''onecontext.context_engine.concrete_job_unit.v1'', ju_run_id = run_id,
          ju_unit_id = safe_run_id sha (sj_job_id job @ ''-'' @ ah_key question),
          ju_phase_id = sj_phase_id job, ju_job_id = sj_job_id job, ju_agent_id = sj_agent_id job,
          ju_fanout = sj_fanout job, ju_status = ''planned'', ju_bindings = bindings, ju_unit_scope = unit_scope,
          ju_packet_id = None, ju_date = map_option fst dh, ju_hour = map_option snd dh,
          ju_required_artifacts = sj_required_artifacts job \<rparr>)"

definition refreshed_days :: "fanout_context \<Rightarrow> string list" where
  "refreshed_days context = (if fx_refreshed_days context \<noteq> [] then fx_refreshed_days context
     else bset (map mp_date (fx_selected_packets context)))"

definition latest_refreshed_day :: "fanout_context \<Rightarrow> string option" where
  "latest_refreshed_day context = (let days = refreshed_days context in
     if days = [] then None else Some (Max (set days)))"

definition unit_for_once :: "(string \<Rightarrow> string) \<Rightarrow> scheduled_job \<Rightarrow> fanout_context \<Rightarrow> concrete_job_unit" where
  "unit_for_once sha job context = (
     let run_id = safe_run_id sha (fx_run_id context);
         bindings0 = bt_insert ''run_id'' run_id (sj_bindings job);
         scope0 = bt_of_list [(''run.id'', run_id)];
         (bindings, unit_scope) = (case latest_refreshed_day context of None \<Rightarrow> (bindings0, scope0)
           | Some day \<Rightarrow> (replace_placeholder ''era'' ''run.latest_refreshed_day'' day
                 (bt_insert ''latest_refreshed_day'' day bindings0),
               bt_insert ''run.latest_refreshed_day'' day scope0))
     in \<lparr> ju_schema_version = context_engine_schema_version,
          ju_kind = ''onecontext.context_engine.concrete_job_unit.v1'', ju_run_id = run_id,
          ju_unit_id = safe_run_id sha (sj_job_id job @ ''-'' @ fx_run_id context),
          ju_phase_id = sj_phase_id job, ju_job_id = sj_job_id job, ju_agent_id = sj_agent_id job,
          ju_fanout = sj_fanout job, ju_status = ''planned'', ju_bindings = bindings, ju_unit_scope = unit_scope,
          ju_packet_id = None, ju_date = None, ju_hour = None,
          ju_required_artifacts = sj_required_artifacts job \<rparr>)"

definition is_question_artifact :: "artifact_handle \<Rightarrow> bool" where
  "is_question_artifact a \<longleftrightarrow> ah_kind a = ''hourly_answer_question'' \<or> ah_kind a = ''historian_question_mail''"

definition question_units :: "(string \<Rightarrow> string) \<Rightarrow> scheduled_job \<Rightarrow> fanout_context \<Rightarrow> concrete_job_unit list" where
  "question_units sha job context =
     map (unit_for_question sha job context) (filter is_question_artifact (fx_available_artifacts context))"

definition packets_by_hour :: "fanout_context \<Rightarrow> (string \<times> string, materialized_source_packet list) btree_map" where
  "packets_by_hour context = group_by (\<lambda>p. (mp_date p, mp_hour p)) (fx_selected_packets context)"

definition unit_for_hour :: "(string \<Rightarrow> string) \<Rightarrow> scheduled_job \<Rightarrow> fanout_context \<Rightarrow> string \<times> string \<Rightarrow> concrete_job_unit" where
  "unit_for_hour sha job context dh = (case dh of (date, hour) \<Rightarrow>
     let u = unit_for_once sha job context; hour_id = date @ ''-'' @ hour
     in u\<lparr> ju_unit_id := safe_run_id sha (sj_job_id job @ ''-'' @ hour_id),
           ju_bindings := bt_insert ''hour_id'' hour_id (bt_insert ''hour'' hour (bt_insert ''date'' date (ju_bindings u))),
           ju_unit_scope := bt_insert ''hour.hour'' hour (bt_insert ''hour.date'' date
             (bt_insert ''hour.id'' hour_id (ju_unit_scope u))),
           ju_date := Some date, ju_hour := Some hour \<rparr>)"

definition hour_units_with_multiple_packets :: "(string \<Rightarrow> string) \<Rightarrow> scheduled_job \<Rightarrow> fanout_context \<Rightarrow>
    concrete_job_unit list" where
  "hour_units_with_multiple_packets sha job context =
     map (unit_for_hour sha job context \<circ> fst) (filter (\<lambda>e. length (snd e) > 1) (packets_by_hour context))"

definition expand_job_fanout :: "(string \<Rightarrow> string) \<Rightarrow> scheduled_job \<Rightarrow> fanout_context \<Rightarrow> fanout_expansion" where
  "expand_job_fanout sha job context = (
     let (units, issues) =
       (if sj_fanout job = ''selected_packets''
        then (map (unit_for_packet sha job context) (fx_selected_packets context), [])
        else if sj_fanout job = ''hours_with_multiple_scribe_artifacts''
        then (hour_units_with_multiple_packets sha job context, [])
        else if sj_fanout job = ''refreshed_days''
        then (map (unit_for_day sha job context) (refreshed_days context), [])
        else if sj_fanout job = ''historian_questions'' then (question_units sha job context, [])
        else if sj_fanout job = ''once_per_refresh'' \<or> sj_fanout job = ''once'' then ([unit_for_once sha job context], [])
        else ([], [''unsupported fanout strategy '' @ sj_fanout job]))
     in \<lparr> fe_schema_version = context_engine_schema_version,
          fe_kind = ''onecontext.context_engine.fanout_expansion.v1'', fe_run_id = safe_run_id sha (fx_run_id context),
          fe_job_id = sj_job_id job, fe_unit_count = length units, fe_units = units, fe_issues = issues \<rparr>)"

end
