(* ===== verification/Conditions.thy ===== *)
theory Conditions
  imports Artifacts
begin

text \<open>
  The conditions of scheduled jobs (\<open>crates/onecontext-context-engine/src/conditions.rs\<close>): a dotted key is
  true, false or unknown, decided by the facts of the run or, for \<open><kind>.ready\<close>, by the artifacts.
\<close>

record condition_context =
  cx_available_artifacts :: "artifact_handle list"
  cx_artifact_inventory_known :: bool
  cx_facts :: "(string, bool) btree_map"
  cx_named_flags :: "(string, bool) btree_map"

definition with_known_artifacts :: "artifact_handle list \<Rightarrow> condition_context" where
  "with_known_artifacts artifacts = \<lparr> cx_available_artifacts = artifacts, cx_artifact_inventory_known = True,
     cx_facts = [], cx_named_flags = [] \<rparr>"

definition with_fact :: "string \<Rightarrow> bool \<Rightarrow> condition_context \<Rightarrow> condition_context" where
  "with_fact expression v c = c\<lparr> cx_facts := bt_insert expression v (cx_facts c) \<rparr>"

datatype condition_status = ConditionTrue | ConditionFalse | ConditionUnknown

record condition_evaluation =
  cn_expression :: string
  cn_status :: condition_status
  cn_reason :: string

definition condition_identifier :: "string \<Rightarrow> bool" where
  "condition_identifier v = (case utf8_chars v of [] \<Rightarrow> False
     | first # rest \<Rightarrow>
         (case first of [c] \<Rightarrow> is_ascii_alphabetic c \<or> c = CHR ''_'' | _ \<Rightarrow> False) \<and>
         list_all (\<lambda>ch. case ch of [c] \<Rightarrow> is_ascii_alphanumeric c \<or> c = CHR ''_'' | _ \<Rightarrow> False) rest)"

definition is_condition_key :: "string \<Rightarrow> bool" where
  "is_condition_key v = list_all (\<lambda>segment. segment \<noteq> [] \<and> condition_identifier segment)
     (split_on (\<lambda>c. c = CHR ''.'') v)"

definition unknown_eval :: "string \<Rightarrow> string \<Rightarrow> condition_evaluation" where
  "unknown_eval expression reason =
     \<lparr> cn_expression = expression, cn_status = ConditionUnknown, cn_reason = reason \<rparr>"

definition bool_eval :: "string \<Rightarrow> bool \<Rightarrow> string \<Rightarrow> condition_evaluation" where
  "bool_eval expression v reason = \<lparr> cn_expression = expression,
     cn_status = (if v then ConditionTrue else ConditionFalse), cn_reason = reason \<rparr>"

definition runtime_fact :: "string \<Rightarrow> condition_context \<Rightarrow> bool option" where
  "runtime_fact expression c = (case bt_get (cx_facts c) expression of
     Some v \<Rightarrow> Some v | None \<Rightarrow> bt_get (cx_named_flags c) expression)"

definition artifact_ready_eval :: "string \<Rightarrow> string \<Rightarrow> condition_context \<Rightarrow> condition_evaluation" where
  "artifact_ready_eval expression artifact_kind c =
     (if \<not> cx_artifact_inventory_known c then unknown_eval expression ''artifact inventory was not supplied''
      else bool_eval expression (artifact_kind \<in> set (bset (map ah_kind (cx_available_artifacts c))))
        ''artifact inventory'')"

definition evaluate_condition :: "string option \<Rightarrow> condition_context \<Rightarrow> condition_evaluation" where
  "evaluate_condition expr c = (case expr of
     None \<Rightarrow> \<lparr> cn_expression = [], cn_status = ConditionTrue, cn_reason = ''no condition'' \<rparr>
   | Some xt \<Rightarrow>
       let expression = str_trim xt in
       if expression = [] then \<lparr> cn_expression = [], cn_status = ConditionTrue, cn_reason = ''no condition'' \<rparr>
       else if \<not> is_condition_key expression then unknown_eval expression ''condition expression is not supported''
       else (case runtime_fact expression c of
           Some v \<Rightarrow> bool_eval expression v ''runtime condition fact''
         | None \<Rightarrow> (case strip_suffix ''.ready'' expression of
               Some artifact_kind \<Rightarrow> artifact_ready_eval expression artifact_kind c
             | None \<Rightarrow> unknown_eval expression ''runtime condition fact was not supplied'')))"

section \<open>What decides a condition\<close>

lemma strip_suffix_append [simp]: "strip_suffix p (r @ p) = Some r"
  by simp

lemma eval_status [simp]:
  "cn_status (unknown_eval e r) = ConditionUnknown"
  "cn_status (bool_eval e v r) = (if v then ConditionTrue else ConditionFalse)"
  by (simp_all add: unknown_eval_def bool_eval_def)

text \<open>The order in which contexts know more: facts and flags stay, the inventory becomes known and grows.\<close>

definition knows_more :: "condition_context \<Rightarrow> condition_context \<Rightarrow> bool" where
  "knows_more c c' \<longleftrightarrow>
     (\<forall>e. runtime_fact e c \<noteq> None \<longrightarrow> runtime_fact e c' = runtime_fact e c) \<and>
     (\<forall>e k. runtime_fact e c = None \<longrightarrow> runtime_fact e c' = Some False \<longrightarrow> strip_suffix ''.ready'' e = Some k \<longrightarrow>
        k \<notin> ah_kind ` set (cx_available_artifacts c)) \<and>
     (cx_artifact_inventory_known c \<longrightarrow> cx_artifact_inventory_known c') \<and>
     set (cx_available_artifacts c) \<subseteq> set (cx_available_artifacts c')"

text \<open>A condition that holds keeps holding as the run learns more: adding facts that do not contradict
  the inventory, and adding artifacts, never turns a true condition into a false or an unknown one.\<close>

theorem condition_true_stays:
  assumes "knows_more c c'" "cn_status (evaluate_condition expr c) = ConditionTrue"
  shows "cn_status (evaluate_condition expr c') = ConditionTrue"
proof (cases expr)
  case (Some xt)
  show ?thesis
  proof (cases "str_trim xt = [] \<or> \<not> is_condition_key (str_trim xt)")
    case True
    then show ?thesis
      using assms(2) Some by (auto simp: evaluate_condition_def Let_def split: if_splits)
  next
    case False
    show ?thesis
    proof (cases "runtime_fact (str_trim xt) c")
      case None
      then obtain k where k: "strip_suffix ''.ready'' (str_trim xt) = Some k" "cx_artifact_inventory_known c"
          "k \<in> ah_kind ` set (cx_available_artifacts c)"
        using assms(2) False Some
        by (auto simp: evaluate_condition_def Let_def artifact_ready_eval_def split: option.splits if_splits)
      then have "runtime_fact (str_trim xt) c' \<noteq> Some False"
        using assms(1) None unfolding knows_more_def by blast
      moreover have "cx_artifact_inventory_known c'" "k \<in> ah_kind ` set (cx_available_artifacts c')"
        using assms(1) k(2,3) by (auto simp: knows_more_def)
      ultimately show ?thesis
        using k(1) False Some
        by (auto simp: evaluate_condition_def Let_def artifact_ready_eval_def split: option.splits)
    next
      case (Some v)
      then have "runtime_fact (str_trim xt) c' = Some v"
        using assms(1) by (simp add: knows_more_def)
      then show ?thesis
        using assms(2) False Some \<open>expr = Some xt\<close> by (simp add: evaluate_condition_def Let_def split: if_splits)
    qed
  qed
qed (simp add: evaluate_condition_def)

definition note_handle :: artifact_handle where
  "note_handle = \<lparr> ah_artifact_id = ''note-1'', ah_kind = ''note'', ah_run_id = ''r'', ah_key = ''k'', ah_path = ''p'',
     ah_content_sha256 = ''00'', ah_created_at = ''t'' \<rparr>"

theorem condition_true_stays_witness:
  "cn_status (evaluate_condition (Some ''note.ready'') (with_fact ''other'' True (with_known_artifacts [note_handle]))) = ConditionTrue"
proof (rule condition_true_stays)
  have "strip_suffix ''.ready'' ''other'' = None"
    by code_simp
  then show "knows_more (with_known_artifacts [note_handle]) (with_fact ''other'' True (with_known_artifacts [note_handle]))"
    by (auto simp: knows_more_def runtime_fact_def with_known_artifacts_def with_fact_def bt_get_def)
  show "cn_status (evaluate_condition (Some ''note.ready'') (with_known_artifacts [note_handle])) = ConditionTrue"
    by code_simp
qed

end
