(* ===== verification/Runtime_Executor.thy ===== *)
theory Runtime_Executor
  imports Fanout Conditions
begin

text \<open>
  The execution scaffold of a run (\<open>crates/onecontext-context-engine/src/runtime_executor.rs\<close>): the jobs of the
  ready phases are expanded into units with turn descriptors, runnable or conditional, or blocked with a
  reason. The identifiers of the harness come from \<open>harness_executor.rs\<close>.
\<close>

section \<open>Harness identifiers\<close>

definition max_harness_id_len :: nat where "max_harness_id_len = 128"

definition short_harness_id :: "(string \<Rightarrow> string) \<Rightarrow> string \<Rightarrow> string" where
  "short_harness_id sha v = (let safe = safe_run_id sha v in
     if length safe \<le> max_harness_id_len then safe
     else let suffix = concat (map hex_byte (take 8 (sha safe)));
              prefix_len = max_harness_id_len - length suffix - 1
          in take prefix_len safe @ ''-'' @ suffix)"

definition agent_mail_address_for_unit :: "(string \<Rightarrow> string) \<Rightarrow> string \<Rightarrow> string" where
  "agent_mail_address_for_unit sha unit_id = ''agent://context-engine/'' @ short_harness_id sha unit_id"

section \<open>Data\<close>

record runtime_execution_scaffold_request =
  rx_run_id :: string
  rx_schedule :: scheduler_run_plan
  rx_fanout_context :: fanout_context
  rx_condition_context :: condition_context

record runtime_turn_route =
  tr_thread_id :: string
  tr_from_role :: string
  tr_from_mailbox :: string
  tr_to :: "string list"
  tr_cc :: "string list"

record runtime_turn_descriptor =
  td_schema_version :: "32 word"
  td_kind :: string
  td_run_id :: string
  td_status :: string
  td_operation_id :: string
  td_harness_unit_id :: string
  td_harness_turn_id :: string
  td_phase_id :: string
  td_job_id :: string
  td_agent_id :: string
  td_unit_id :: string
  td_fanout :: string
  td_max_concurrent :: "32 word option"
  td_packet_id :: "string option"
  td_date :: "string option"
  td_hour :: "string option"
  td_bindings :: "(string, string) btree_map"
  td_unit_scope :: "(string, string) btree_map"
  td_inputs :: "string list"
  td_outputs :: "string list"
  td_required_artifacts :: "string list"
  td_required_mail :: "string list"
  td_route :: runtime_turn_route
  td_receipt_expectations :: scheduled_receipt_expectations
  td_final_message_path :: string
  td_source_packet_path :: "string option"
  td_source_packet_hash :: "string option"
  td_condition :: "condition_evaluation option"

record runtime_blocked_job =
  bj_schema_version :: "32 word"
  bj_kind :: string
  bj_run_id :: string
  bj_phase_id :: string
  bj_job_id :: string
  bj_agent_id :: string
  bj_scheduler_status :: string
  bj_reason :: string
  bj_missing_required_artifacts :: "string list"
  bj_missing_required_mail :: "string list"
  bj_route_thread_id :: string
  bj_condition :: "condition_evaluation option"

record runtime_execution_scaffold =
  rs_schema_version :: "32 word"
  rs_kind :: string
  rs_run_id :: string
  rs_ready_phase_ids :: "string list"
  rs_runnable_units :: "concrete_job_unit list"
  rs_conditional_units :: "concrete_job_unit list"
  rs_runnable_turns :: "runtime_turn_descriptor list"
  rs_conditional_turns :: "runtime_turn_descriptor list"
  rs_blocked_jobs :: "runtime_blocked_job list"
  rs_blocked_reasons :: "string list"

section \<open>Descriptors\<close>

definition ready_phase_jobs :: "scheduler_run_plan \<Rightarrow> scheduled_job list" where
  "ready_phase_jobs plan = concat (map sp_jobs (filter (\<lambda>phase. sp_status phase = ''ready'') (sr_phases plan)))"

definition final_message_path :: "(string \<Rightarrow> string) \<Rightarrow> string \<Rightarrow> string \<Rightarrow> scheduled_receipt_expectations \<Rightarrow> string" where
  "final_message_path sha run_id operation_id receipts = (
     let filename = (case path_file_name (se_final_message_path receipts) of
           None \<Rightarrow> ''final-message.md'' | Some name \<Rightarrow> if name \<noteq> [] then name else ''final-message.md'')
     in ''context-engine/live/runs/'' @ safe_run_id sha run_id @ ''/turns/'' @ safe_run_id sha operation_id @
        ''/attempt-0001/'' @ filename)"

definition condition_for_descriptor :: "condition_evaluation \<Rightarrow> condition_evaluation option" where
  "condition_for_descriptor c = (if cn_expression c = [] then None else Some c)"

definition turn_descriptor :: "(string \<Rightarrow> string) \<Rightarrow> string \<Rightarrow> scheduled_job \<Rightarrow> concrete_job_unit \<Rightarrow> string \<Rightarrow>
    condition_evaluation option \<Rightarrow> runtime_turn_descriptor" where
  "turn_descriptor sha run job u status condition = (
     let run_id = safe_run_id sha run;
         operation_id = short_harness_id sha (run_id @ '':'' @ ju_unit_id u);
         harness_unit_id = short_harness_id sha (run_id @ '':'' @ ju_unit_id u)
     in \<lparr> td_schema_version = context_engine_schema_version,
          td_kind = ''onecontext.context_engine.runtime_turn_descriptor.v1'', td_run_id = run_id, td_status = status,
          td_operation_id = operation_id, td_harness_unit_id = harness_unit_id,
          td_harness_turn_id = short_harness_id sha (''turn-'' @ operation_id),
          td_phase_id = ju_phase_id u, td_job_id = ju_job_id u, td_agent_id = ju_agent_id u, td_unit_id = ju_unit_id u,
          td_fanout = ju_fanout u, td_max_concurrent = sj_max_concurrent job, td_packet_id = ju_packet_id u,
          td_date = ju_date u, td_hour = ju_hour u, td_bindings = ju_bindings u, td_unit_scope = ju_unit_scope u,
          td_inputs = sj_inputs job, td_outputs = sj_outputs job, td_required_artifacts = ju_required_artifacts u,
          td_required_mail = sj_required_mail job,
          td_route = \<lparr> tr_thread_id = sj_route_thread_id job, tr_from_role = rt_from_role (sj_route job),
            tr_from_mailbox = agent_mail_address_for_unit sha harness_unit_id, tr_to = sj_route_to job,
            tr_cc = sj_route_cc job \<rparr>,
          td_receipt_expectations = sj_receipt_expectations job,
          td_final_message_path = final_message_path sha run_id operation_id (sj_receipt_expectations job),
          td_source_packet_path = bt_get (ju_bindings u) ''source_packet_path'',
          td_source_packet_hash = bt_get (ju_bindings u) ''source_packet_hash'', td_condition = condition \<rparr>)"

definition blocked_job :: "(string \<Rightarrow> string) \<Rightarrow> string \<Rightarrow> scheduled_job \<Rightarrow> string \<Rightarrow> condition_evaluation option \<Rightarrow>
    runtime_blocked_job" where
  "blocked_job sha run_id job reason condition =
     \<lparr> bj_schema_version = context_engine_schema_version,
       bj_kind = ''onecontext.context_engine.runtime_blocked_job.v1'', bj_run_id = safe_run_id sha run_id,
       bj_phase_id = sj_phase_id job, bj_job_id = sj_job_id job, bj_agent_id = sj_agent_id job,
       bj_scheduler_status = sj_status job, bj_reason = reason,
       bj_missing_required_artifacts = sj_missing_required_artifacts job,
       bj_missing_required_mail = sj_missing_required_mail job, bj_route_thread_id = sj_route_thread_id job,
       bj_condition = condition \<rparr>"

section \<open>The scaffold\<close>

text \<open>What one pass of the loop over the ready jobs adds.\<close>

record job_outcome =
  jo_runnable_units :: "concrete_job_unit list"
  jo_conditional_units :: "concrete_job_unit list"
  jo_runnable_turns :: "runtime_turn_descriptor list"
  jo_conditional_turns :: "runtime_turn_descriptor list"
  jo_blocked :: "runtime_blocked_job list"

definition no_outcome :: job_outcome where
  "no_outcome = \<lparr> jo_runnable_units = [], jo_conditional_units = [], jo_runnable_turns = [],
     jo_conditional_turns = [], jo_blocked = [] \<rparr>"

definition missing_inputs_reason :: "scheduled_job \<Rightarrow> string option" where
  "missing_inputs_reason job =
     (if sj_missing_required_artifacts job \<noteq> [] \<and> sj_missing_required_mail job \<noteq> []
      then Some (''waiting for inputs: artifacts ['' @ str_join '', '' (sj_missing_required_artifacts job) @ '']; mail ['' @
        str_join '', '' (sj_missing_required_mail job) @ '']'')
      else if sj_missing_required_artifacts job \<noteq> []
      then Some (''waiting for artifacts: '' @ str_join '', '' (sj_missing_required_artifacts job))
      else if sj_missing_required_mail job \<noteq> []
      then Some (''waiting for mail: '' @ str_join '', '' (sj_missing_required_mail job))
      else None)"

definition job_step :: "(string \<Rightarrow> string) \<Rightarrow> runtime_execution_scaffold_request \<Rightarrow> scheduled_job \<Rightarrow> job_outcome \<Rightarrow>
    job_outcome" where
  "job_step sha request job acc = (case missing_inputs_reason job of
     Some reason \<Rightarrow> acc\<lparr> jo_blocked := jo_blocked acc @ [blocked_job sha (rx_run_id request) job reason None] \<rparr>
   | None \<Rightarrow>
       let condition = evaluate_condition (sj_when job) (rx_condition_context request);
           expansion = expand_job_fanout sha job (rx_fanout_context request);
           issues = map (\<lambda>issue. blocked_job sha (rx_run_id request) job issue (Some condition)) (fe_issues expansion)
       in case cn_status condition of
            ConditionTrue \<Rightarrow> acc\<lparr> jo_blocked := jo_blocked acc @ issues,
              jo_runnable_turns := jo_runnable_turns acc @ map (\<lambda>u. turn_descriptor sha (rx_run_id request) job u
                ''runnable'' (condition_for_descriptor condition)) (fe_units expansion),
              jo_runnable_units := jo_runnable_units acc @ fe_units expansion \<rparr>
          | ConditionFalse \<Rightarrow> acc\<lparr> jo_blocked := jo_blocked acc @ [blocked_job sha (rx_run_id request) job
              (''condition false: '' @ cn_expression condition) (Some condition)] \<rparr>
          | ConditionUnknown \<Rightarrow> acc\<lparr> jo_blocked := jo_blocked acc @ issues @ [blocked_job sha (rx_run_id request) job
                (''condition unknown: '' @ cn_expression condition @ '' ('' @ cn_reason condition @ '')'') (Some condition)],
              jo_conditional_turns := jo_conditional_turns acc @ map (\<lambda>u. turn_descriptor sha (rx_run_id request) job u
                ''conditional'' (Some condition)) (fe_units expansion),
              jo_conditional_units := jo_conditional_units acc @ fe_units expansion \<rparr>)"

definition build_runtime_execution_scaffold :: "(string \<Rightarrow> string) \<Rightarrow> runtime_execution_scaffold_request \<Rightarrow>
    runtime_execution_scaffold" where
  "build_runtime_execution_scaffold sha request = (
     let acc = fold (job_step sha request) (ready_phase_jobs (rx_schedule request)) no_outcome
     in \<lparr> rs_schema_version = context_engine_schema_version,
          rs_kind = ''onecontext.context_engine.runtime_execution_scaffold.v1'',
          rs_run_id = safe_run_id sha (rx_run_id request), rs_ready_phase_ids = sr_ready_phase_ids (rx_schedule request),
          rs_runnable_units = jo_runnable_units acc, rs_conditional_units = jo_conditional_units acc,
          rs_runnable_turns = jo_runnable_turns acc, rs_conditional_turns = jo_conditional_turns acc,
          rs_blocked_jobs = jo_blocked acc,
          rs_blocked_reasons = map si_message (sr_issues (rx_schedule request)) @
            map (\<lambda>b. bj_job_id b @ '' '' @ bj_reason b) (jo_blocked acc) \<rparr>)"

end
