(* ===== verification/Harness_Executor.thy ===== *)
theory Harness_Executor
  imports Runtime_Executor
begin

text \<open>
  Requests to the agent harness (\<open>crates/onecontext-context-engine/src/harness_executor.rs\<close>): what a turn descriptor
  and a worker profile become, and when the receipts of a turn complete it. A file is read through the map
  from paths to contents; exit statuses are \<open>i32\<close>.
\<close>

section \<open>Data\<close>

record harness_turn_harness =
  hh_id :: string
  hh_runner :: string
  hh_transport :: string
  hh_command :: string
  hh_captures :: "string list"

record harness_turn_agent =
  ha_id :: string
  ha_provider :: string
  ha_model :: string
  ha_reasoning_effort :: string
  ha_memory_mode :: string
  ha_memory_attach :: string
  ha_persistent_session :: bool

record harness_turn_job =
  hj_id :: string
  hj_label :: string
  hj_inputs :: "string list"
  hj_outputs :: "string list"
  hj_read_permissions :: "string list"
  hj_write_permissions :: "string list"
  hj_deny_permissions :: "string list"
  hj_completion_done :: "string list"
  hj_completion_skip :: "string list"
  hj_completion_failure :: "string list"

record harness_prompt_part =
  hp_path :: string
  hp_source :: string
  hp_bytes :: nat
  hp_text :: string

record harness_mail_context =
  hm_thread_id :: string
  hm_mailbox :: string
  hm_appendix_enabled :: bool
  hm_appendix_text :: string

record harness_wiki_context =
  hw_user_wiki_root :: string
  hw_source_root :: string
  hw_talk_root :: string

record harness_source_packet =
  hs_packet_id :: string
  hs_source :: string
  hs_bounded_by_job :: bool
  hs_path :: "string option"
  hs_content_sha256 :: "string option"
  hs_bytes :: "nat option"

record harness_tool_policy =
  ho_default_tools :: "string list"
  ho_agent_tools :: "string list"
  ho_job_tools :: "string list"

record harness_receipt_requirements =
  hq_final_message_path :: string
  hq_require_birth_certificate :: bool
  hq_require_turn_start :: bool
  hq_require_context_injection :: bool
  hq_require_adapter_events :: bool
  hq_require_final_message :: bool
  hq_require_talk_append :: bool
  hq_require_mail_delivery :: bool
  hq_require_turn_complete :: bool

record harness_talk_report =
  hk_delivery_mode :: string
  hk_thread_id :: string
  hk_from :: string
  hk_to :: "string list"
  hk_cc :: "string list"

record harness_turn_request =
  ht_schema_version :: "32 word"
  ht_kind :: string
  ht_run_id :: string
  ht_operation_id :: string
  ht_unit_id :: string
  ht_harness :: harness_turn_harness
  ht_agent :: harness_turn_agent
  ht_job :: harness_turn_job
  ht_prompt_bundle :: "harness_prompt_part list"
  ht_prompt_text :: string
  ht_mail_context :: harness_mail_context
  ht_wiki_context :: harness_wiki_context
  ht_source_packet :: harness_source_packet
  ht_tool_policy :: harness_tool_policy
  ht_required_receipts :: harness_receipt_requirements
  ht_talk_report :: harness_talk_report

record harness_turn_receipts =
  hc_codex_exit_status :: "32 word option"
  hc_harness_birth_certificate :: bool
  hc_harness_turn_start :: bool
  hc_context_injection_receipt :: bool
  hc_adapter_events :: bool
  hc_final_message :: "string option"
  hc_talk_receipt :: "string option"
  hc_mail_receipt :: "string option"
  hc_harness_turn_complete :: bool

record harness_turn_completion =
  hx_status :: string
  hx_complete :: bool
  hx_issues :: "string list"
  hx_codex_exit_status :: "32 word option"

record harness_worker_profile =
  hf_model :: string
  hf_reasoning_effort :: string
  hf_prompt_text :: string
  hf_tools :: "string list"

datatype harness_request_error = StatFailed string | PacketReadFailed string

section \<open>Texts\<close>

definition lines2 :: string where "lines2 = newline @ newline"

definition mail_context_appendix_text :: "string \<Rightarrow> string" where
  "mail_context_appendix_text mailbox = ''## Agent Mail Context'' @ lines2 @ ''Thread: mail://wiki-company'' @ newline @
     ''Mailbox: '' @ mailbox @ lines2 @
     ''Read your inbox summary before acting. Do not call wiki.talk.append for your final report. '' @
     ''Write your final report as final-message.md content instead; the 1Context harness will append it to wiki talk '' @
     ''and Agent Mail with delivery_mode=mail after your turn. Put downstream handoff requests in next_agent_requests.''"

definition prompt_section :: "harness_prompt_part \<Rightarrow> string" where
  "prompt_section p = lines2 @ ''<!-- prompt-source: '' @ hp_source p @ '' '' @ hp_path p @ '' -->'' @ lines2 @ hp_text p"

definition render_prompt_text :: "harness_prompt_part list \<Rightarrow> harness_mail_context \<Rightarrow> string" where
  "render_prompt_text prompt_bundle mail_context = concat (map prompt_section prompt_bundle) @
     (if hm_appendix_enabled mail_context then lines2 @ hm_appendix_text mail_context else []) @
     lines2 @ ''## Required Final Message Receipt'' @ lines2 @
     ''Write a non-empty final-message.md with status, evidence, proposed_wiki_talk, next_agent_requests, and '' @
     ''next_state_machine_event. Do not send or append this final report yourself; the harness owns the '' @
     ''wiki.talk.append and Agent Mail receipts.''"

section \<open>The request\<close>

definition mail_context_for_unit :: "(string \<Rightarrow> string) \<Rightarrow> string \<Rightarrow> bool \<Rightarrow> harness_mail_context" where
  "mail_context_for_unit sha unit_id appendix_enabled = (
     let mailbox = agent_mail_address_for_unit sha unit_id
     in \<lparr> hm_thread_id = ''mail://wiki-company'', hm_mailbox = mailbox, hm_appendix_enabled = appendix_enabled,
          hm_appendix_text = mail_context_appendix_text mailbox \<rparr>)"

definition source_packet_from_runtime_turn :: "(string \<Rightarrow> string option) \<Rightarrow> runtime_turn_descriptor \<Rightarrow>
    harness_request_error + harness_source_packet" where
  "source_packet_from_runtime_turn read turn = (
     let packet_id = (case td_packet_id turn of Some p \<Rightarrow> p
           | None \<Rightarrow> (case bt_get (td_unit_scope turn) ''packet.id'' of Some p \<Rightarrow> p | None \<Rightarrow> ''source-packet.pending''));
         packet = (\<lambda>bytes. \<lparr> hs_packet_id = packet_id, hs_source = ''materialized_source_packet'', hs_bounded_by_job = True,
           hs_path = td_source_packet_path turn, hs_content_sha256 = td_source_packet_hash turn, hs_bytes = bytes \<rparr>)
     in case td_source_packet_path turn of
          None \<Rightarrow> Inr (packet None)
        | Some path \<Rightarrow> (case read path of None \<Rightarrow> Inl (StatFailed path) | Some text \<Rightarrow> Inr (packet (Some (length text)))))"

definition or_default :: "string \<Rightarrow> string option \<Rightarrow> string" where
  "or_default d v = (case v of None \<Rightarrow> d | Some s \<Rightarrow> s)"

definition source_packet_prompt_part :: "(string \<Rightarrow> string option) \<Rightarrow> runtime_turn_descriptor \<Rightarrow>
    harness_request_error + harness_prompt_part option" where
  "source_packet_prompt_part read turn = (case td_source_packet_path turn of
     None \<Rightarrow> Inr None
   | Some path \<Rightarrow> (case read path of None \<Rightarrow> Inl (PacketReadFailed path)
       | Some text \<Rightarrow> let rendered = ''## Runtime Source Packet'' @ lines2 @
             ''packet_id: '' @ or_default ''source-packet.pending'' (td_packet_id turn) @ newline @
             ''source_packet_path: '' @ path @ newline @
             ''source_packet_hash: '' @ or_default ''unknown'' (td_source_packet_hash turn) @ lines2 @ text
           in Inr (Some \<lparr> hp_path = path, hp_source = ''runtime-source-packet'', hp_bytes = length rendered,
                hp_text = rendered \<rparr>)))"

definition receipt_requirements_from_runtime_turn :: "runtime_turn_descriptor \<Rightarrow> harness_receipt_requirements" where
  "receipt_requirements_from_runtime_turn turn = (let e = td_receipt_expectations turn in
     \<lparr> hq_final_message_path = td_final_message_path turn,
       hq_require_birth_certificate = se_require_birth_certificate e,
       hq_require_turn_start = se_require_turn_start e,
       hq_require_context_injection = se_require_context_injection e,
       hq_require_adapter_events = se_require_adapter_events e,
       hq_require_final_message = se_require_final_message e,
       hq_require_talk_append = se_require_talk_append e,
       hq_require_mail_delivery = se_require_mail_delivery e,
       hq_require_turn_complete = se_require_turn_complete e \<rparr>)"

definition codex_harness :: harness_turn_harness where
  "codex_harness = \<lparr> hh_id = ''codex-app-server'', hh_runner = ''onecontext-agent-harness'',
     hh_transport = ''codex-app-server'', hh_command = ''codex app-server'',
     hh_captures = [''harness_birth_certificate'', ''harness_turn_start'', ''context_injection_receipt'',
       ''adapter_events'', ''final_message'', ''talk_receipt'', ''mail_receipt'', ''harness_turn_complete''] \<rparr>"

definition build_harness_turn_request_for_runtime_turn :: "(string \<Rightarrow> string) \<Rightarrow> (string \<Rightarrow> string option) \<Rightarrow>
    context_engine_paths \<Rightarrow> harness_worker_profile \<Rightarrow> runtime_turn_descriptor \<Rightarrow>
    harness_request_error + harness_turn_request" where
  "build_harness_turn_request_for_runtime_turn sha read paths profile turn = (
     let run_id = safe_run_id sha (td_run_id turn);
         unit_id = td_harness_unit_id turn;
         mail_context = mail_context_for_unit sha unit_id True;
         first = \<lparr> hp_path = ''worker-profile/'' @ safe_run_id sha (td_job_id turn), hp_source = ''job:'' @ td_job_id turn,
           hp_bytes = length (hf_prompt_text profile), hp_text = hf_prompt_text profile \<rparr>
     in try_then (source_packet_prompt_part read turn) (\<lambda>prompt.
        let prompt_bundle = first # (case prompt of None \<Rightarrow> [] | Some p \<Rightarrow> [p]);
            prompt_text = render_prompt_text prompt_bundle mail_context
        in try_then (source_packet_from_runtime_turn read turn) (\<lambda>packet. Inr
          \<lparr> ht_schema_version = context_engine_schema_version, ht_kind = ''onecontext.agent_harness.turn_request.v1'',
            ht_run_id = run_id, ht_operation_id = td_operation_id turn, ht_unit_id = unit_id, ht_harness = codex_harness,
            ht_agent = \<lparr> ha_id = td_agent_id turn, ha_provider = ''openai'', ha_model = hf_model profile,
              ha_reasoning_effort = hf_reasoning_effort profile, ha_memory_mode = ''episodic'', ha_memory_attach = ''none'',
              ha_persistent_session = False \<rparr>,
            ht_job = \<lparr> hj_id = td_job_id turn, hj_label = td_job_id turn, hj_inputs = td_inputs turn,
              hj_outputs = td_outputs turn, hj_read_permissions = [], hj_write_permissions = [], hj_deny_permissions = [],
              hj_completion_done = [], hj_completion_skip = [], hj_completion_failure = [] \<rparr>,
            ht_prompt_bundle = prompt_bundle, ht_prompt_text = prompt_text, ht_mail_context = mail_context,
            ht_wiki_context = \<lparr> hw_user_wiki_root = ce_user_wiki paths,
              hw_source_root = path_join (ce_user_wiki paths) ''source'',
              hw_talk_root = path_join (ce_user_wiki paths) ''source/talk'' \<rparr>,
            ht_source_packet = packet,
            ht_tool_policy = \<lparr> ho_default_tools = hf_tools profile, ho_agent_tools = [], ho_job_tools = [] \<rparr>,
            ht_required_receipts = receipt_requirements_from_runtime_turn turn,
            ht_talk_report = \<lparr> hk_delivery_mode = ''mail'', hk_thread_id = tr_thread_id (td_route turn),
              hk_from = tr_from_mailbox (td_route turn), hk_to = tr_to (td_route turn), hk_cc = tr_cc (td_route turn) \<rparr> \<rparr>)))"

section \<open>Completion\<close>

definition looks_like_talk_receipt :: "string \<Rightarrow> bool" where
  "looks_like_talk_receipt receipt \<longleftrightarrow> receipt \<noteq> [] \<and>
     (strip_prefix ''wiki.talk.append:'' receipt \<noteq> None \<or> strip_prefix ''user-wiki://page/'' receipt \<noteq> None)"

definition valid_agent_mail_receipt_segment :: "string \<Rightarrow> bool" where
  "valid_agent_mail_receipt_segment v = list_all (\<lambda>ch. case ch of
     [c] \<Rightarrow> is_ascii_alphanumeric c \<or> c = CHR ''-'' \<or> c = CHR ''_'' \<or> c = CHR ''.'' | _ \<Rightarrow> False) (utf8_chars v)"

definition looks_like_agent_mail_receipt :: "string \<Rightarrow> bool" where
  "looks_like_agent_mail_receipt receipt = (case strip_prefix ''agent-mail://'' (str_trim receipt) of
     None \<Rightarrow> False
   | Some rest \<Rightarrow> (case split_on (\<lambda>c. c = CHR ''/'') rest of
         [message, delivery] \<Rightarrow>
           let message_id = str_trim message; delivery_id = str_trim delivery in
           message_id \<noteq> [] \<and> delivery_id \<noteq> [] \<and> valid_agent_mail_receipt_segment message_id \<and>
           valid_agent_mail_receipt_segment delivery_id
       | _ \<Rightarrow> False))"

definition trimmed_passes :: "(string \<Rightarrow> bool) \<Rightarrow> string option \<Rightarrow> bool" where
  "trimmed_passes ok v = (case v of None \<Rightarrow> False | Some s \<Rightarrow> ok (str_trim s))"

definition receipt_gaps :: "harness_receipt_requirements \<Rightarrow> harness_turn_receipts \<Rightarrow> string list" where
  "receipt_gaps q r =
     (if hq_require_birth_certificate q \<and> \<not> hc_harness_birth_certificate r
      then [''missing harness birth certificate''] else []) @
     (if hq_require_turn_start q \<and> \<not> hc_harness_turn_start r then [''missing harness turn start''] else []) @
     (if hq_require_context_injection q \<and> \<not> hc_context_injection_receipt r
      then [''missing context injection receipt''] else []) @
     (if hq_require_adapter_events q \<and> \<not> hc_adapter_events r then [''missing adapter event receipt''] else []) @
     (if hq_require_final_message q \<and> (case hc_final_message r of None \<Rightarrow> [] | Some m \<Rightarrow> str_trim m) = []
      then [''missing non-empty final message at '' @ hq_final_message_path q] else []) @
     (if hq_require_talk_append q \<and> \<not> trimmed_passes looks_like_talk_receipt (hc_talk_receipt r)
      then [''missing wiki.talk.append receipt''] else []) @
     (if hq_require_mail_delivery q \<and> \<not> trimmed_passes looks_like_agent_mail_receipt (hc_mail_receipt r)
      then [''missing Agent Mail delivery receipt''] else []) @
     (if hq_require_turn_complete q \<and> \<not> hc_harness_turn_complete r
      then [''missing harness turn complete receipt''] else [])"

definition evaluate_harness_turn_completion :: "harness_turn_request \<Rightarrow> harness_turn_receipts \<Rightarrow>
    harness_turn_completion" where
  "evaluate_harness_turn_completion request receipts = (
     let gaps = receipt_gaps (ht_required_receipts request) receipts;
         exit = hc_codex_exit_status receipts;
         issues = gaps @
           (if exit = Some 0 \<and> gaps \<noteq> [] then [''codex exit status alone is not a completion receipt''] else []) @
           (case exit of None \<Rightarrow> [] | Some st \<Rightarrow> if st \<noteq> 0
              then [''codex adapter did not report a successful worker turn''] else []);
         complete = (issues = [])
     in \<lparr> hx_status = (if complete then ''complete'' else ''incomplete''), hx_complete = complete, hx_issues = issues,
          hx_codex_exit_status = exit \<rparr>)"

end
