(* ===== verification/Run_State.thy ===== *)
theory Run_State
  imports Artifacts
begin

text \<open>
  The durable state of one run (\<open>crates/onecontext-context-engine/src/run_state.rs\<close>): its status, cursors,
  completed phases, artifacts and job receipts, how it is updated, saved and loaded. The current time is
  the argument \<open>now\<close>. A saved state is kept as the record that its JSON reads back to.
\<close>

section \<open>State\<close>

record wiki_company_cursors =
  wc_raw_ingest_cursor :: "string option"
  wc_wiki_memory_cursor :: "string option"

record job_receipt_state =
  jr_unit_id :: string
  jr_phase_id :: string
  jr_job_id :: string
  jr_channel :: string
  jr_authority :: string
  jr_authoritative :: bool
  jr_status :: string
  jr_receipt_paths :: "string list"
  jr_audit_paths :: "string list"
  jr_external_id :: "string option"
  jr_updated_at :: string

record wiki_company_run_state =
  ws_schema_version :: "32 word"
  ws_kind :: string
  ws_run_id :: string
  ws_status :: string
  ws_terminal_reason :: "string option"
  ws_updated_at :: string
  ws_cursors :: wiki_company_cursors
  ws_completed_phase_ids :: "string list"
  ws_artifacts :: "artifact_handle list"
  ws_job_receipts :: "job_receipt_state list"
  ws_counters :: "(string, 64 word) btree_map"

definition run_state_kind :: string where
  "run_state_kind = ''onecontext.context_engine.wiki_company_run_state.v1''"

definition new_run_state :: "(string \<Rightarrow> string) \<Rightarrow> string \<Rightarrow> string \<Rightarrow> wiki_company_run_state" where
  "new_run_state sha now run_id = \<lparr> ws_schema_version = context_engine_schema_version, ws_kind = run_state_kind,
     ws_run_id = safe_run_id sha run_id, ws_status = ''active'', ws_terminal_reason = None, ws_updated_at = now,
     ws_cursors = \<lparr> wc_raw_ingest_cursor = None, wc_wiki_memory_cursor = None \<rparr>, ws_completed_phase_ids = [],
     ws_artifacts = [], ws_job_receipts = [], ws_counters = [] \<rparr>"

section \<open>Updates\<close>

definition mark_phase_completed :: "string \<Rightarrow> string \<Rightarrow> wiki_company_run_state \<Rightarrow> wiki_company_run_state" where
  "mark_phase_completed now phase_id s =
     s\<lparr> ws_completed_phase_ids := bset (ws_completed_phase_ids s @ [phase_id]), ws_updated_at := now \<rparr>"

definition mark_interrupted :: "string \<Rightarrow> string \<Rightarrow> wiki_company_run_state \<Rightarrow> wiki_company_run_state" where
  "mark_interrupted now reason s =
     s\<lparr> ws_status := ''interrupted'', ws_terminal_reason := Some reason, ws_updated_at := now \<rparr>"

definition mark_failed :: "string \<Rightarrow> string \<Rightarrow> wiki_company_run_state \<Rightarrow> wiki_company_run_state" where
  "mark_failed now reason s =
     s\<lparr> ws_status := ''failed'', ws_terminal_reason := Some reason, ws_updated_at := now \<rparr>"

definition mark_completed :: "string \<Rightarrow> wiki_company_run_state \<Rightarrow> wiki_company_run_state" where
  "mark_completed now s = s\<lparr> ws_status := ''completed'', ws_terminal_reason := None, ws_updated_at := now \<rparr>"

definition set_raw_ingest_cursor :: "string \<Rightarrow> string \<Rightarrow> wiki_company_run_state \<Rightarrow> wiki_company_run_state" where
  "set_raw_ingest_cursor now cursor s =
     s\<lparr> ws_cursors := (ws_cursors s)\<lparr> wc_raw_ingest_cursor := Some cursor \<rparr>, ws_updated_at := now \<rparr>"

definition set_wiki_memory_cursor :: "string \<Rightarrow> string \<Rightarrow> wiki_company_run_state \<Rightarrow> wiki_company_run_state" where
  "set_wiki_memory_cursor now cursor s =
     s\<lparr> ws_cursors := (ws_cursors s)\<lparr> wc_wiki_memory_cursor := Some cursor \<rparr>, ws_updated_at := now \<rparr>"

definition or_keep :: "'a option \<Rightarrow> 'a option \<Rightarrow> 'a option" where
  "or_keep new old = (case new of None \<Rightarrow> old | Some v \<Rightarrow> Some v)"

definition update_cursors :: "string \<Rightarrow> wiki_company_cursors \<Rightarrow> wiki_company_run_state \<Rightarrow> wiki_company_run_state" where
  "update_cursors now c s = s\<lparr> ws_cursors :=
     \<lparr> wc_raw_ingest_cursor = or_keep (wc_raw_ingest_cursor c) (wc_raw_ingest_cursor (ws_cursors s)),
       wc_wiki_memory_cursor = or_keep (wc_wiki_memory_cursor c) (wc_wiki_memory_cursor (ws_cursors s)) \<rparr>,
     ws_updated_at := now \<rparr>"

text \<open>Replace the first entry that matches, or append.\<close>

fun replace_or_push :: "('a \<Rightarrow> bool) \<Rightarrow> 'a \<Rightarrow> 'a list \<Rightarrow> 'a list" where
  "replace_or_push same x [] = [x]"
| "replace_or_push same x (y # ys) = (if same y then x # ys else y # replace_or_push same x ys)"

definition add_artifact :: "string \<Rightarrow> artifact_handle \<Rightarrow> wiki_company_run_state \<Rightarrow> wiki_company_run_state" where
  "add_artifact now a s = s\<lparr> ws_artifacts :=
     replace_or_push (\<lambda>e. ah_artifact_id e = ah_artifact_id a) a (ws_artifacts s), ws_updated_at := now \<rparr>"

definition receipt_key :: "job_receipt_state \<Rightarrow> string \<times> string \<times> string \<times> string" where
  "receipt_key r = (jr_unit_id r, jr_phase_id r, jr_job_id r, jr_channel r)"

definition record_job_receipt :: "string \<Rightarrow> job_receipt_state \<Rightarrow> wiki_company_run_state \<Rightarrow> wiki_company_run_state" where
  "record_job_receipt now r s = s\<lparr> ws_job_receipts :=
     replace_or_push (\<lambda>e. jr_unit_id e = jr_unit_id r \<and> jr_phase_id e = jr_phase_id r \<and>
       jr_job_id e = jr_job_id r \<and> jr_channel e = jr_channel r) r (ws_job_receipts s), ws_updated_at := now \<rparr>"

section \<open>What the scheduler sees\<close>

definition available_artifact_kinds :: "wiki_company_run_state \<Rightarrow> string list" where
  "available_artifact_kinds s = bset (map ah_kind (ws_artifacts s) @ [''run_state_artifacts_known''])"

definition artifact_availability_keys :: "(string \<Rightarrow> string) \<Rightarrow> artifact_handle list \<Rightarrow> string list" where
  "artifact_availability_keys sha artifacts =
     bset (''run_state_artifacts_known'' # concat (map (availability_keys sha) artifacts))"

definition available_artifacts_for_scheduler :: "(string \<Rightarrow> string) \<Rightarrow> wiki_company_run_state \<Rightarrow> string list" where
  "available_artifacts_for_scheduler sha s = artifact_availability_keys sha (ws_artifacts s)"

definition mail_keys :: "job_receipt_state \<Rightarrow> string list" where
  "mail_keys r = (if jr_channel r \<noteq> ''agent_mail'' \<or> \<not> jr_authoritative r \<or> jr_status r \<noteq> ''complete'' then []
     else [''phase:'' @ jr_phase_id r, ''job:'' @ jr_job_id r, ''unit:'' @ jr_unit_id r] @ jr_receipt_paths r @
       (case jr_external_id r of None \<Rightarrow> [] | Some e \<Rightarrow> [''external:'' @ e]))"

definition available_mail :: "wiki_company_run_state \<Rightarrow> string list" where
  "available_mail s = bset (concat (map mail_keys (ws_job_receipts s)))"

section \<open>Saving and loading\<close>

datatype run_file = StateFile wiki_company_run_state | UnparsableFile

record current_run_pointer =
  cu_schema_version :: "32 word"
  cu_kind :: string
  cu_current_run_id :: string
  cu_status :: string
  cu_terminal_reason :: "string option"
  cu_state_path :: string
  cu_updated_at :: string
  cu_time_basis :: string

record run_store =
  rf_files :: "(string, run_file) btree_map"
  rf_pointer :: "current_run_pointer option"

datatype run_state_error =
    StateUnparsable string
  | StateSchemaVersion string "32 word"
  | StateKind string string
  | StateOtherRun string string string

definition validate_state_for_run :: "(string \<Rightarrow> string) \<Rightarrow> wiki_company_run_state \<Rightarrow> string \<Rightarrow> string \<Rightarrow>
    run_state_error + unit" where
  "validate_state_for_run sha s requested_run_id path = (
     let expected_run_id = safe_run_id sha requested_run_id in
     if ws_schema_version s \<noteq> context_engine_schema_version then Inl (StateSchemaVersion path (ws_schema_version s))
     else if ws_kind s \<noteq> run_state_kind then Inl (StateKind path (ws_kind s))
     else if ws_run_id s \<noteq> expected_run_id then Inl (StateOtherRun path (ws_run_id s) expected_run_id)
     else Inr ())"

definition state_path :: "(string \<Rightarrow> string) \<Rightarrow> context_engine_paths \<Rightarrow> string \<Rightarrow> string" where
  "state_path sha p run_id = run_json_path sha p run_id"

definition load_or_new_state :: "(string \<Rightarrow> string) \<Rightarrow> context_engine_paths \<Rightarrow> string \<Rightarrow> string \<Rightarrow> run_store \<Rightarrow>
    run_state_error + wiki_company_run_state" where
  "load_or_new_state sha p now run_id fs = (
     let path = state_path sha p run_id in
     case bt_get (rf_files fs) path of
       None \<Rightarrow> Inr (new_run_state sha now run_id)
     | Some UnparsableFile \<Rightarrow> Inl (StateUnparsable path)
     | Some (StateFile s) \<Rightarrow> try_then (validate_state_for_run sha s run_id path) (\<lambda>_. Inr s))"

definition save_current_run_pointer :: "wiki_company_run_state \<Rightarrow> string \<Rightarrow> run_store \<Rightarrow> run_store" where
  "save_current_run_pointer s path fs = fs\<lparr> rf_pointer := Some
     \<lparr> cu_schema_version = context_engine_schema_version,
       cu_kind = ''onecontext.context_engine.current_wiki_company_run.v1'', cu_current_run_id = ws_run_id s,
       cu_status = ws_status s, cu_terminal_reason = ws_terminal_reason s, cu_state_path = path,
       cu_updated_at = ws_updated_at s, cu_time_basis = ''utc'' \<rparr> \<rparr>"

definition save_state :: "(string \<Rightarrow> string) \<Rightarrow> context_engine_paths \<Rightarrow> string \<Rightarrow> wiki_company_run_state \<Rightarrow>
    run_store \<Rightarrow> string \<times> run_store" where
  "save_state sha p now s fs = (
     let path = state_path sha p (ws_run_id s);
         saved = s\<lparr> ws_updated_at := now \<rparr>
     in (path, save_current_run_pointer saved path (fs\<lparr> rf_files := bt_insert path (StateFile saved) (rf_files fs) \<rparr>)))"

section \<open>The invariant of a run state\<close>

definition run_state_ok :: "(string \<Rightarrow> string) \<Rightarrow> wiki_company_run_state \<Rightarrow> bool" where
  "run_state_ok sha s \<longleftrightarrow> ws_schema_version s = context_engine_schema_version \<and> ws_kind s = run_state_kind \<and>
     (\<exists>i. ws_run_id s = safe_run_id sha i) \<and>
     sorted (ws_completed_phase_ids s) \<and> distinct (ws_completed_phase_ids s) \<and>
     distinct (map ah_artifact_id (ws_artifacts s)) \<and> distinct (map receipt_key (ws_job_receipts s))"

lemma replace_or_push_keys:
  assumes "\<And>y. same y \<longleftrightarrow> key y = key x"
  shows "distinct (map key ys) \<Longrightarrow> distinct (map key (replace_or_push same x ys))"
    "key ` set (replace_or_push same x ys) = Set.insert (key x) (key ` set ys)"
proof -
  show "key ` set (replace_or_push same x ys) = Set.insert (key x) (key ` set ys)"
    by (induction ys) (auto simp: assms)
  have "key ` set (replace_or_push same x zs) = Set.insert (key x) (key ` set zs)" for zs
    by (induction zs) (auto simp: assms)
  then show "distinct (map key ys) \<Longrightarrow> distinct (map key (replace_or_push same x ys))"
    by (induction ys) (auto simp: assms)
qed

lemma replace_or_push_set:
  assumes "distinct (map key ys)" "\<And>y. same y \<longleftrightarrow> key y = key x"
  shows "set (replace_or_push same x ys) = Set.insert x {y \<in> set ys. key y \<noteq> key x}"
  using assms(1) by (induction ys) (auto simp: assms(2) rev_image_eqI)

text \<open>One update of a run state.\<close>

inductive run_update :: "wiki_company_run_state \<Rightarrow> wiki_company_run_state \<Rightarrow> bool" where
  phase: "run_update s (mark_phase_completed now phase_id s)"
| interrupted: "run_update s (mark_interrupted now reason s)"
| failed: "run_update s (mark_failed now reason s)"
| completed: "run_update s (mark_completed now s)"
| raw_cursor: "run_update s (set_raw_ingest_cursor now cursor s)"
| memory_cursor: "run_update s (set_wiki_memory_cursor now cursor s)"
| cursors: "run_update s (update_cursors now c s)"
| artifact: "run_update s (add_artifact now a s)"
| receipt: "run_update s (record_job_receipt now r s)"

lemmas run_update_defs = mark_phase_completed_def mark_interrupted_def mark_failed_def mark_completed_def
  set_raw_ingest_cursor_def set_wiki_memory_cursor_def update_cursors_def add_artifact_def record_job_receipt_def

lemma new_run_state_ok: "run_state_ok sha (new_run_state sha now i)"
  by (auto simp: run_state_ok_def new_run_state_def)

lemma run_update_ok:
  assumes "run_update s s'" "run_state_ok sha s"
  shows "run_state_ok sha s' \<and> ws_run_id s' = ws_run_id s"
  using assms
proof (induction rule: run_update.induct)
  case (artifact s now a)
  then show ?case
    using replace_or_push_keys(1) [of "\<lambda>e. ah_artifact_id e = ah_artifact_id a" ah_artifact_id a]
    by (simp add: run_state_ok_def add_artifact_def)
next
  case (receipt s now r)
  then show ?case
    using replace_or_push_keys(1) [of "\<lambda>e. jr_unit_id e = jr_unit_id r \<and> jr_phase_id e = jr_phase_id r \<and>
       jr_job_id e = jr_job_id r \<and> jr_channel e = jr_channel r" receipt_key r]
    by (simp add: run_state_ok_def record_job_receipt_def receipt_key_def)
qed (auto simp: run_state_ok_def run_update_defs)

lemma run_updates_ok:
  "run_update\<^sup>*\<^sup>* s s' \<Longrightarrow> run_state_ok sha s \<Longrightarrow> run_state_ok sha s' \<and> ws_run_id s' = ws_run_id s"
  by (induction rule: rtranclp_induct) (auto dest: run_update_ok)

lemma bt_get_insert_same [simp]: "bt_get (bt_insert k v m) k = Some v"
  by (induction k v m rule: bt_insert.induct) (auto simp: bt_get_def)

definition loads_back :: "(string \<Rightarrow> string) \<Rightarrow> context_engine_paths \<Rightarrow> string \<Rightarrow> wiki_company_run_state \<Rightarrow> bool" where
  "loads_back sha p i s \<longleftrightarrow> run_state_ok sha s \<and> (\<forall>now now' fs.
     load_or_new_state sha p now' i (snd (save_state sha p now s fs)) = Inr (s\<lparr> ws_updated_at := now \<rparr>))"

text \<open>The state of a run stays well-formed under every update (current schema and run, completed phases
  sorted and without duplicates, one entry per artifact and one per receipt key), and saving it and
  loading it for the same run gives it back, with the time of the save.\<close>

theorem run_state_save_load:
  assumes "\<forall>v. length (sha v) = 32" "run_update\<^sup>*\<^sup>* (new_run_state sha t i) s"
  shows "loads_back sha p i s"
proof -
  have ok: "run_state_ok sha s" "ws_run_id s = safe_run_id sha i"
    using run_updates_ok [OF assms(2) new_run_state_ok] by (simp_all add: new_run_state_def)
  have "safe_run_id sha (safe_run_id sha i) = safe_run_id sha i"
    by (rule safe_run_id_fixpoint [OF safe_run_id_stable]) (simp add: assms(1))
  then have "state_path sha p (ws_run_id s) = state_path sha p i"
    by (simp add: state_path_def run_json_path_def run_root_def ok(2))
  then show ?thesis
    using ok by (auto simp: loads_back_def load_or_new_state_def save_state_def save_current_run_pointer_def
        validate_state_for_run_def run_state_ok_def Let_def)
qed

theorem run_state_save_load_witness:
  "loads_back (\<lambda>s. replicate 32 CHR ''a'') (paths_new ''/home'') ''run 1''
     (mark_completed ''t2'' (mark_phase_completed ''t1'' ''plan'' (new_run_state (\<lambda>s. replicate 32 CHR ''a'') ''t0'' ''run 1'')))"
proof (rule run_state_save_load)
  have "run_update\<^sup>*\<^sup>* s (mark_completed u (mark_phase_completed v x s))" for s u v x
    by (rule converse_rtranclp_into_rtranclp, rule run_update.phase, rule r_into_rtranclp, rule run_update.completed)
  then show "run_update\<^sup>*\<^sup>* (new_run_state (\<lambda>s. replicate 32 CHR ''a'') ''t0'' ''run 1'')
      (mark_completed ''t2'' (mark_phase_completed ''t1'' ''plan'' (new_run_state (\<lambda>s. replicate 32 CHR ''a'') ''t0'' ''run 1'')))" .
qed simp

end
