(* ===== verification/Receipt_Bridge.thy ===== *)
theory Receipt_Bridge
  imports Run_State
begin

text \<open>
  Receipts that the scheduler sees (\<open>crates/onecontext-context-engine/src/receipt_bridge.rs\<close>): which
  observation completes a job, how it enters the state of the run, and the audit log. A payload is a
  JSON value, a type parameter. The audit directory is part of the file system of \<open>Engine_Paths\<close>.
\<close>

section \<open>Authorities, channels and evidence\<close>

datatype receipt_authority = ByAgentMail | ByWikiTalk | ByHarness | ByAuditMirror | ByExternalPending

datatype receipt_channel = HarnessChannel | WikiTalkChannel | AgentMailChannel

datatype receipt_status = ReceiptPending | ReceiptComplete | ReceiptFailed

fun authority_text :: "receipt_authority \<Rightarrow> string" where
  "authority_text ByAgentMail = ''agent_mail''"
| "authority_text ByWikiTalk = ''wiki_talk''"
| "authority_text ByHarness = ''harness''"
| "authority_text ByAuditMirror = ''audit_mirror''"
| "authority_text ByExternalPending = ''external_pending''"

fun authoritative_channel :: "receipt_authority \<Rightarrow> receipt_channel option" where
  "authoritative_channel ByAgentMail = Some AgentMailChannel"
| "authoritative_channel ByWikiTalk = Some WikiTalkChannel"
| "authoritative_channel ByHarness = Some HarnessChannel"
| "authoritative_channel ByAuditMirror = None"
| "authoritative_channel ByExternalPending = None"

definition is_authoritative_for :: "receipt_authority \<Rightarrow> receipt_channel \<Rightarrow> bool" where
  "is_authoritative_for a c \<longleftrightarrow> authoritative_channel a = Some c"

fun channel_text :: "receipt_channel \<Rightarrow> string" where
  "channel_text HarnessChannel = ''harness''"
| "channel_text WikiTalkChannel = ''wiki_talk''"
| "channel_text AgentMailChannel = ''agent_mail''"

fun status_text :: "receipt_status \<Rightarrow> string" where
  "status_text ReceiptPending = ''pending''"
| "status_text ReceiptComplete = ''complete''"
| "status_text ReceiptFailed = ''failed''"

record harness_receipt_state =
  hr_birth_certificate :: bool
  hr_turn_start :: bool
  hr_context_injection_receipt :: bool
  hr_adapter_events :: bool
  hr_final_message_path :: "string option"
  hr_final_message_present :: bool
  hr_turn_complete :: bool
  hr_codex_exit_status :: "32 word option"
  hr_issues :: "string list"

definition harness_complete :: "string \<Rightarrow> harness_receipt_state" where
  "harness_complete final_message_path = \<lparr> hr_birth_certificate = True, hr_turn_start = True,
     hr_context_injection_receipt = True, hr_adapter_events = True, hr_final_message_path = Some final_message_path,
     hr_final_message_present = True, hr_turn_complete = True, hr_codex_exit_status = Some 0, hr_issues = [] \<rparr>"

definition harness_failed :: "string list \<Rightarrow> harness_receipt_state" where
  "harness_failed issues = \<lparr> hr_birth_certificate = False, hr_turn_start = False,
     hr_context_injection_receipt = False, hr_adapter_events = False, hr_final_message_path = None,
     hr_final_message_present = False, hr_turn_complete = False, hr_codex_exit_status = None, hr_issues = issues \<rparr>"

definition harness_status :: "harness_receipt_state \<Rightarrow> receipt_status" where
  "harness_status h =
     (if hr_issues h \<noteq> [] \<or> (case hr_codex_exit_status h of None \<Rightarrow> False | Some st \<Rightarrow> st \<noteq> 0) then ReceiptFailed
      else if hr_birth_certificate h \<and> hr_turn_start h \<and> hr_context_injection_receipt h \<and> hr_adapter_events h \<and>
              hr_final_message_present h \<and> hr_turn_complete h then ReceiptComplete
      else ReceiptPending)"

text \<open>\<open>as_deref().map(str::trim).is_some_and(|r| !r.is_empty())\<close>\<close>

definition has_text :: "string option \<Rightarrow> bool" where
  "has_text r = (case r of None \<Rightarrow> False | Some v \<Rightarrow> str_trim v \<noteq> [])"

record wiki_talk_receipt_state =
  wt_delivery_mode :: string
  wt_thread_id :: string
  wt_receipt_id :: "string option"
  wt_appended :: bool
  wt_issues :: "string list"

definition appended_mail :: "string \<Rightarrow> string \<Rightarrow> wiki_talk_receipt_state" where
  "appended_mail thread_id receipt_id = \<lparr> wt_delivery_mode = ''mail'', wt_thread_id = thread_id,
     wt_receipt_id = Some receipt_id, wt_appended = True, wt_issues = [] \<rparr>"

definition pending_mail :: "string \<Rightarrow> wiki_talk_receipt_state" where
  "pending_mail thread_id = \<lparr> wt_delivery_mode = ''mail'', wt_thread_id = thread_id,
     wt_receipt_id = None, wt_appended = False, wt_issues = [] \<rparr>"

definition wiki_talk_status :: "wiki_talk_receipt_state \<Rightarrow> receipt_status" where
  "wiki_talk_status w = (if wt_issues w \<noteq> [] then ReceiptFailed
     else if wt_appended w \<and> wt_delivery_mode w = ''mail'' \<and> has_text (wt_receipt_id w) then ReceiptComplete
     else ReceiptPending)"

record agent_mail_receipt_state =
  am_thread_id :: string
  am_mailbox :: "string option"
  am_receipt_id :: "string option"
  am_transport :: "string option"
  am_delivered :: bool
  am_external_pending :: bool
  am_pending_reason :: "string option"
  am_issues :: "string list"

definition mail_delivered :: "string \<Rightarrow> string \<Rightarrow> string \<Rightarrow> agent_mail_receipt_state" where
  "mail_delivered thread_id receipt_id transport = \<lparr> am_thread_id = thread_id, am_mailbox = None,
     am_receipt_id = Some receipt_id, am_transport = Some transport, am_delivered = True,
     am_external_pending = False, am_pending_reason = None, am_issues = [] \<rparr>"

definition pending_external :: "string \<Rightarrow> string \<Rightarrow> string \<Rightarrow> agent_mail_receipt_state" where
  "pending_external thread_id mailbox reason = \<lparr> am_thread_id = thread_id, am_mailbox = Some mailbox,
     am_receipt_id = None, am_transport = None, am_delivered = False, am_external_pending = True,
     am_pending_reason = Some reason, am_issues = [] \<rparr>"

definition agent_mail_status :: "agent_mail_receipt_state \<Rightarrow> receipt_status" where
  "agent_mail_status m = (if am_issues m \<noteq> [] then ReceiptFailed
     else if am_delivered m \<and> \<not> am_external_pending m \<and> has_text (am_receipt_id m) then ReceiptComplete
     else ReceiptPending)"

datatype scheduler_receipt_state =
    HarnessReceipt harness_receipt_state
  | WikiTalkReceipt wiki_talk_receipt_state
  | AgentMailReceipt agent_mail_receipt_state

fun receipt_state_channel :: "scheduler_receipt_state \<Rightarrow> receipt_channel" where
  "receipt_state_channel (HarnessReceipt _) = HarnessChannel"
| "receipt_state_channel (WikiTalkReceipt _) = WikiTalkChannel"
| "receipt_state_channel (AgentMailReceipt _) = AgentMailChannel"

fun receipt_state_status :: "scheduler_receipt_state \<Rightarrow> receipt_status" where
  "receipt_state_status (HarnessReceipt h) = harness_status h"
| "receipt_state_status (WikiTalkReceipt w) = wiki_talk_status w"
| "receipt_state_status (AgentMailReceipt m) = agent_mail_status m"

section \<open>Receipts\<close>

record 'v scheduler_receipt =
  rc_schema_version :: "32 word"
  rc_kind :: string
  rc_run_id :: string
  rc_unit_id :: string
  rc_phase_id :: string
  rc_job_id :: string
  rc_authority :: receipt_authority
  rc_status :: receipt_status
  rc_receipt :: scheduler_receipt_state
  rc_path :: "string option"
  rc_external_id :: "string option"
  rc_payload :: 'v
  rc_created_at :: string

definition has_authoritative_source :: "'v scheduler_receipt \<Rightarrow> bool" where
  "has_authoritative_source r \<longleftrightarrow> is_authoritative_for (rc_authority r) (receipt_state_channel (rc_receipt r))"

definition completes_job :: "'v scheduler_receipt \<Rightarrow> bool" where
  "completes_job r \<longleftrightarrow> has_authoritative_source r \<and> rc_status r = ReceiptComplete"

definition option_list :: "'a option \<Rightarrow> 'a list" where
  "option_list x = (case x of None \<Rightarrow> [] | Some y \<Rightarrow> [y])"

definition to_job_receipt_state :: "'v scheduler_receipt \<Rightarrow> string option \<Rightarrow> job_receipt_state option" where
  "to_job_receipt_state r audit_path = (if \<not> completes_job r then None
     else Some \<lparr> jr_unit_id = rc_unit_id r, jr_phase_id = rc_phase_id r, jr_job_id = rc_job_id r,
       jr_channel = channel_text (receipt_state_channel (rc_receipt r)), jr_authority = authority_text (rc_authority r),
       jr_authoritative = True, jr_status = status_text (rc_status r), jr_receipt_paths = option_list (rc_path r),
       jr_audit_paths = option_list audit_path, jr_external_id = rc_external_id r, jr_updated_at = rc_created_at r \<rparr>)"

definition receipt_for_job :: "(string \<Rightarrow> string) \<Rightarrow> string \<Rightarrow> string \<Rightarrow> string \<Rightarrow> string \<Rightarrow> string \<Rightarrow>
    receipt_authority \<Rightarrow> scheduler_receipt_state \<Rightarrow> 'v \<Rightarrow> 'v scheduler_receipt" where
  "receipt_for_job sha now run_id unit_id phase_id job_id authority receipt payload =
     \<lparr> rc_schema_version = context_engine_schema_version, rc_kind = ''onecontext.context_engine.scheduler_receipt.v1'',
       rc_run_id = safe_run_id sha run_id, rc_unit_id = unit_id, rc_phase_id = phase_id, rc_job_id = job_id,
       rc_authority = authority, rc_status = receipt_state_status receipt, rc_receipt = receipt, rc_path = None,
       rc_external_id = None, rc_payload = payload, rc_created_at = now \<rparr>"

definition harness_receipt_for_job :: "(string \<Rightarrow> string) \<Rightarrow> string \<Rightarrow> string \<Rightarrow> string \<Rightarrow> string \<Rightarrow> string \<Rightarrow>
    harness_receipt_state \<Rightarrow> 'v \<Rightarrow> 'v scheduler_receipt" where
  "harness_receipt_for_job sha now run_id unit_id phase_id job_id state payload =
     receipt_for_job sha now run_id unit_id phase_id job_id ByHarness (HarnessReceipt state) payload"

definition wiki_talk_receipt_for_job :: "(string \<Rightarrow> string) \<Rightarrow> string \<Rightarrow> string \<Rightarrow> string \<Rightarrow> string \<Rightarrow> string \<Rightarrow>
    wiki_talk_receipt_state \<Rightarrow> 'v \<Rightarrow> 'v scheduler_receipt" where
  "wiki_talk_receipt_for_job sha now run_id unit_id phase_id job_id state payload =
     receipt_for_job sha now run_id unit_id phase_id job_id ByWikiTalk (WikiTalkReceipt state) payload"

definition agent_mail_receipt_for_job :: "(string \<Rightarrow> string) \<Rightarrow> string \<Rightarrow> string \<Rightarrow> string \<Rightarrow> string \<Rightarrow> string \<Rightarrow>
    receipt_authority \<Rightarrow> agent_mail_receipt_state \<Rightarrow> 'v \<Rightarrow> 'v scheduler_receipt" where
  "agent_mail_receipt_for_job sha now run_id unit_id phase_id job_id authority state payload =
     receipt_for_job sha now run_id unit_id phase_id job_id authority (AgentMailReceipt state) payload"

section \<open>The audit log\<close>

record receipt_append_result =
  ap_audit_path :: string
  ap_authoritative :: bool
  ap_completes_job :: bool

record 'v audit_store =
  au_paths :: "string list"
  au_logs :: "(string, 'v scheduler_receipt list) btree_map"

definition audit_receipt_path :: "(string \<Rightarrow> string) \<Rightarrow> context_engine_paths \<Rightarrow> string \<Rightarrow> string" where
  "audit_receipt_path sha p run_id = path_join (path_join (path_join (ce_context_engine p) ''mail'') ''threads'')
     (''wiki-company-'' @ safe_run_id sha run_id @ ''.jsonl'')"

definition append_scheduler_receipt :: "(string \<Rightarrow> string) \<Rightarrow> context_engine_paths \<Rightarrow> 'v scheduler_receipt \<Rightarrow>
    'v audit_store \<Rightarrow> receipt_append_result \<times> 'v audit_store" where
  "append_scheduler_receipt sha p r st = (
     let path = audit_receipt_path sha p (rc_run_id r);
         log = (case bt_get (au_logs st) path of None \<Rightarrow> [] | Some rs \<Rightarrow> rs)
     in (\<lparr> ap_audit_path = path, ap_authoritative = has_authoritative_source r, ap_completes_job = completes_job r \<rparr>,
         \<lparr> au_paths = create_dir_all (path_parent path) (au_paths st) @ [path],
           au_logs = bt_insert path (log @ [r]) (au_logs st) \<rparr>))"

definition apply_receipt_to_state :: "string \<Rightarrow> 'v scheduler_receipt \<Rightarrow> wiki_company_run_state \<Rightarrow> wiki_company_run_state" where
  "apply_receipt_to_state now r s = (case to_job_receipt_state r None of
     None \<Rightarrow> s | Some j \<Rightarrow> record_job_receipt now j s)"

definition apply_appended_receipt_to_state :: "string \<Rightarrow> 'v scheduler_receipt \<Rightarrow> receipt_append_result \<Rightarrow>
    wiki_company_run_state \<Rightarrow> wiki_company_run_state" where
  "apply_appended_receipt_to_state now r res s = (case to_job_receipt_state r (Some (ap_audit_path res)) of
     None \<Rightarrow> s | Some j \<Rightarrow> record_job_receipt now j s)"

section \<open>What makes mail available\<close>

text \<open>The units, phases and jobs whose mail the run state accepts as delivered.\<close>

definition mail_evidence :: "wiki_company_run_state \<Rightarrow> (string \<times> string \<times> string) set" where
  "mail_evidence s = {(jr_unit_id j, jr_phase_id j, jr_job_id j) | j. j \<in> set (ws_job_receipts s) \<and>
     jr_channel j = ''agent_mail'' \<and> jr_authoritative j \<and> jr_status j = ''complete''}"

lemma mail_evidence_available:
  "(u, p, j) \<in> mail_evidence s \<Longrightarrow>
    {''phase:'' @ p, ''job:'' @ j, ''unit:'' @ u} \<subseteq> set (available_mail s)"
  by (fastforce simp: mail_evidence_def available_mail_def mail_keys_def)

definition accepted_mail :: "wiki_company_run_state \<Rightarrow> bool" where
  "accepted_mail s \<longleftrightarrow> distinct (map receipt_key (ws_job_receipts s)) \<and>
     (\<forall>j \<in> set (ws_job_receipts s). jr_authoritative j \<and> jr_status j = ''complete'')"

lemma record_receipts:
  assumes "distinct (map receipt_key (ws_job_receipts s))"
  shows "set (ws_job_receipts (record_job_receipt now j s)) =
    Set.insert j {e \<in> set (ws_job_receipts s). receipt_key e \<noteq> receipt_key j}"
  using replace_or_push_set [OF assms, of "\<lambda>e. jr_unit_id e = jr_unit_id j \<and> jr_phase_id e = jr_phase_id j \<and>
       jr_job_id e = jr_job_id j \<and> jr_channel e = jr_channel j" j]
  by (simp add: record_job_receipt_def receipt_key_def)

text \<open>The evidence that one receipt adds.\<close>

definition receipt_evidence :: "'v scheduler_receipt \<Rightarrow> (string \<times> string \<times> string) set" where
  "receipt_evidence r = (case rc_receipt r of
     AgentMailReceipt m \<Rightarrow> if rc_authority r = ByAgentMail \<and> rc_status r = ReceiptComplete
       then {(rc_unit_id r, rc_phase_id r, rc_job_id r)} else {}
   | _ \<Rightarrow> {})"

definition proven :: "job_receipt_state \<Rightarrow> bool" where
  "proven j \<longleftrightarrow> jr_authoritative j \<and> jr_status j = ''complete''"

lemma mail_evidence_key:
  "(u, p, q) \<in> mail_evidence s \<longleftrightarrow>
    (\<exists>e \<in> set (ws_job_receipts s). receipt_key e = (u, p, q, ''agent_mail'') \<and> proven e)"
  unfolding mail_evidence_def receipt_key_def proven_def by blast

lemma replaced_entry:
  assumes "P j"
  shows "(\<exists>e \<in> Set.insert j {e \<in> S. key e \<noteq> key j}. key e = k \<and> P e) \<longleftrightarrow> (\<exists>e \<in> S. key e = k \<and> P e) \<or> key j = k"
  using assms by (cases "key j = k") auto

lemma record_evidence:
  assumes "distinct (map receipt_key (ws_job_receipts s))" "proven j"
  shows "(u, p, q) \<in> mail_evidence (record_job_receipt now j s) \<longleftrightarrow>
    (u, p, q) \<in> mail_evidence s \<or> receipt_key j = (u, p, q, ''agent_mail'')"
  unfolding mail_evidence_key record_receipts [OF assms(1)] by (rule replaced_entry) (rule assms(2))

lemma channel_text_inj: "channel_text c = channel_text c' \<longleftrightarrow> c = c'"
  by (cases c; cases c') simp_all

lemma completes_mail_iff:
  "completes_job r \<and> receipt_state_channel (rc_receipt r) = AgentMailChannel \<longleftrightarrow> receipt_evidence r \<noteq> {}"
  by (cases "rc_receipt r"; cases "rc_authority r")
    (simp_all add: completes_job_def has_authoritative_source_def is_authoritative_for_def receipt_evidence_def)

lemma apply_receipt_evidence:
  assumes "distinct (map receipt_key (ws_job_receipts s))"
  shows "mail_evidence (apply_receipt_to_state now r s) = mail_evidence s \<union> receipt_evidence r"
proof (cases "completes_job r")
  case False
  then have "receipt_evidence r = {}"
    using completes_mail_iff by blast
  then show ?thesis
    using False by (simp add: apply_receipt_to_state_def to_job_receipt_state_def)
next
  case True
  define j where "j = the (to_job_receipt_state r None)"
  have j: "to_job_receipt_state r None = Some j" "jr_authoritative j" "jr_status j = ''complete''"
      "jr_channel j = channel_text (receipt_state_channel (rc_receipt r))"
      "(jr_unit_id j, jr_phase_id j, jr_job_id j) = (rc_unit_id r, rc_phase_id r, rc_job_id r)"
    using True by (simp_all add: j_def to_job_receipt_state_def completes_job_def)
  have "proven j"
    using j(2,3) by (simp add: proven_def)
  then have "(u, p, q) \<in> mail_evidence (record_job_receipt now j s) \<longleftrightarrow> (u, p, q) \<in> mail_evidence s \<union>
      (if jr_channel j = ''agent_mail'' then {(jr_unit_id j, jr_phase_id j, jr_job_id j)} else {})" for u p q
    unfolding record_evidence [OF assms \<open>proven j\<close>] by (auto simp: receipt_key_def)
  then have "mail_evidence (record_job_receipt now j s) =
      mail_evidence s \<union> (if jr_channel j = ''agent_mail'' then {(jr_unit_id j, jr_phase_id j, jr_job_id j)} else {})"
    by (simp only: set_eq_iff split_paired_All simp_thms)
  moreover have "jr_channel j = ''agent_mail'' \<longleftrightarrow> receipt_evidence r \<noteq> {}"
    using completes_mail_iff [of r] True j(4) channel_text_inj [of "receipt_state_channel (rc_receipt r)" AgentMailChannel]
    by simp
  moreover have "receipt_evidence r \<subseteq> {(rc_unit_id r, rc_phase_id r, rc_job_id r)}"
    by (auto simp: receipt_evidence_def split: scheduler_receipt_state.splits if_splits)
  ultimately show ?thesis
    using j(1,5) by (auto simp: apply_receipt_to_state_def)
qed

lemma apply_receipt_distinct:
  assumes "distinct (map receipt_key (ws_job_receipts s))"
  shows "distinct (map receipt_key (ws_job_receipts (apply_receipt_to_state now r s)))"
proof (cases "to_job_receipt_state r None")
  case (Some j)
  then show ?thesis
    using replace_or_push_keys(1) [OF _ assms, of "\<lambda>e. jr_unit_id e = jr_unit_id j \<and> jr_phase_id e = jr_phase_id j \<and>
       jr_job_id e = jr_job_id j \<and> jr_channel e = jr_channel j" j]
    by (simp add: apply_receipt_to_state_def record_job_receipt_def receipt_key_def)
qed (simp add: apply_receipt_to_state_def assms)

text \<open>Mail counts as delivered only by proof: after any sequence of receipts on a new run, the jobs whose
  mail is available to the scheduler are exactly those with a completed agent-mail receipt of the
  agent-mail authority; audit mirrors, pending and failed observations and receipts of other channels
  add nothing, and no later receipt takes anything away.\<close>

theorem mail_available_only_by_proof:
  "mail_evidence (fold (apply_receipt_to_state now) rs (new_run_state sha t i)) = (\<Union>r \<in> set rs. receipt_evidence r)"
proof -
  have "mail_evidence (fold (apply_receipt_to_state now) rs s) = mail_evidence s \<union> (\<Union>r \<in> set rs. receipt_evidence r)"
    if "distinct (map receipt_key (ws_job_receipts s))" for s
    using that
  proof (induction rs arbitrary: s)
    case (Cons r rs)
    then show ?case
      using Cons.IH [OF apply_receipt_distinct [OF Cons.prems, of now r]] apply_receipt_evidence [OF Cons.prems, of now r]
      by auto
  qed simp
  then show ?thesis
    by (simp add: new_run_state_def mail_evidence_def)
qed

section \<open>The audit log and the layout\<close>

lemma audit_receipt_path_eq: "audit_receipt_path sha (paths_new root) i =
    (root_prefix root @ ''context-engine/mail/threads'') @ CHR ''/'' # ''wiki-company-'' @ safe_run_id sha i @ ''.jsonl''"
  unfolding audit_receipt_path_def paths_new_context_engine by (simp add: path_join_below)

text \<open>Recording a receipt breaks the layout check: the audit log goes to the retired directory
  \<open>context-engine/mail\<close>, so after any \<open>append_scheduler_receipt\<close> the storage layout is reported as blocked
  because of it.\<close>

theorem audit_log_blocks_layout:
  "lr_status (validate_storage_layout (paths_new root) (au_paths (snd (append_scheduler_receipt sha (paths_new root) r st)))) = ''blocked'' \<and>
   root_prefix root @ ''context-engine/mail'' \<in>
     set (lr_forbidden_paths (validate_storage_layout (paths_new root) (au_paths (snd (append_scheduler_receipt sha (paths_new root) r st)))))"
proof -
  let ?fs = "au_paths (snd (append_scheduler_receipt sha (paths_new root) r st))"
  have slash: "CHR ''/'' \<notin> set (''wiki-company-'' @ safe_run_id sha i @ ''.jsonl'')" for i
    using safe_run_id_shape [of sha i] not_slash_if_safe by (auto simp: list_all_iff)
  have "path_parent (audit_receipt_path sha (paths_new root) i) = root_prefix root @ ''context-engine/mail/threads''" for i
    unfolding audit_receipt_path_eq by (rule path_parent_below [OF _ slash]) simp
  then have "?fs = create_dir_all (root_prefix root @ ''context-engine/mail/threads'') (au_paths st) @
      [audit_receipt_path sha (paths_new root) (rc_run_id r)]"
    by (simp add: append_scheduler_receipt_def Let_def)
  then have made: "root_prefix root @ ''context-engine/mail'' \<in> set ?fs"
    by (auto simp: create_dir_all_def path_ancestors_iff)
  then have in_report: "root_prefix root @ ''context-engine/mail'' \<in>
      set (lr_forbidden_paths (validate_storage_layout (paths_new root) ?fs))"
    unfolding forbidden_path_iff by (simp add: forbidden_names_def)
  then have "lr_forbidden_paths (validate_storage_layout (paths_new root) ?fs) \<noteq> []"
    by (metis empty_iff list.set(1))
  then show ?thesis
    using in_report by (simp add: validate_storage_layout_def Let_def)
qed

end
