(* ===== verification/Agent_Turns.thy ===== *)
theory Agent_Turns
  imports Harness_Executor Receipt_Bridge
begin

text \<open>
  The bookkeeping of executed turns (\<open>crates/onecontext-context-engine/src/agent_execution.rs\<close>): which turns of the
  scaffold run, what a completed turn records (a mail receipt, artifacts for the scheduler, the run state), and
  which phases a batch completes. The processes, sockets and threads of a turn itself are not modelled; what
  they produce is the record \<open>wiki_company_agent_turn_result\<close>.
\<close>

section \<open>Data\<close>

record codex_token_usage =
  tu_total_tokens :: "64 word"
  tu_input_tokens :: "64 word"
  tu_cached_input_tokens :: "64 word"
  tu_output_tokens :: "64 word"
  tu_reasoning_output_tokens :: "64 word"

record talk_mail_receipt =
  tm_talk_receipt :: string
  tm_mail_receipt :: "string option"
  tm_message_id :: string
  tm_delivery_ids :: "string list"

text \<open>Why a request for another agent was not sent: the text of the error, or the error of the mail store.\<close>

record 'e next_agent_request_receipt =
  nr_status :: string
  nr_request_text :: string
  nr_to :: "string list"
  nr_cc :: "string list"
  nr_message_id :: "string option"
  nr_delivery_ids :: "string list"
  nr_mail_receipt :: "string option"
  nr_error :: "'e option"

record registered_mail_agent =
  ra_agent_id :: string
  ra_primary_address :: string
  ra_transport_kind :: string
  ra_transport_thread_id :: string
  ra_requested_roles :: "string list"
  ra_granted_roles :: "string list"
  ra_requested_capabilities :: "string list"
  ra_granted_capabilities :: "string list"
  ra_lease_expires_at :: string
  ra_inbox_delivery_count :: nat
  ra_thread_message_count :: nat

record ('v, 'e) wiki_company_agent_turn_result =
  wr_job_id :: string
  wr_agent_id :: string
  wr_unit_id :: string
  wr_turn_id :: string
  wr_codex_thread_id :: "string option"
  wr_codex_turn_id :: "string option"
  wr_codex_thread_resumed :: bool
  wr_usage :: "codex_token_usage option"
  wr_mail_agent :: "registered_mail_agent option"
  wr_worker_config :: 'v
  wr_final_message_path :: string
  wr_final_message_sha256 :: string
  wr_final_message_origin :: string
  wr_talk_receipt_path :: string
  wr_mail_receipt_path :: string
  wr_follow_up_mail_receipts :: "'e next_agent_request_receipt list"
  wr_audit_report_path :: string
  wr_completion :: harness_turn_completion
  wr_assistant_preview :: string

definition mail_delivery_id :: "('v, 'e) wiki_company_agent_turn_result \<Rightarrow> string option" where
  "mail_delivery_id r = (let v = str_trim (last (split_on (\<lambda>c. c = CHR ''/'') (wr_mail_receipt_path r)))
     in if v = [] then None else Some v)"

definition mail_delivery_ids :: "('v, 'e) wiki_company_agent_turn_result \<Rightarrow> string list" where
  "mail_delivery_ids r = option_list (mail_delivery_id r)"

section \<open>Which turns run\<close>

text \<open>\<open>worker_timeout_secs\<close>: the environment variable as an unsigned number of seconds, at least 30.\<close>

definition u64_of_text :: "string \<Rightarrow> nat option" where
  "u64_of_text s = (let digits = (case s of [] \<Rightarrow> [] | c # cs \<Rightarrow> if c = CHR ''+'' then cs else s);
       n = foldl (\<lambda>n c. 10 * n + (byte c - 48)) 0 digits
     in if digits \<noteq> [] \<and> list_all is_ascii_digit digits \<and> n < 2 ^ 64 then Some n else None)"

definition worker_timeout_secs :: "string option \<Rightarrow> nat" where
  "worker_timeout_secs var = (case var of None \<Rightarrow> 600
     | Some v \<Rightarrow> (case u64_of_text (str_trim v) of None \<Rightarrow> 600 | Some n \<Rightarrow> if n \<ge> 30 then n else 600))"

definition live_job_filter :: "string option \<Rightarrow> string list option" where
  "live_job_filter var = (case var of None \<Rightarrow> None
     | Some v \<Rightarrow> let jobs = filter (\<lambda>j. j \<noteq> []) (map str_trim (split_on (\<lambda>c. c = CHR '','') v))
         in if jobs = [] then None else Some (bset jobs))"

definition runnable_live_turns :: "string option \<Rightarrow> runtime_execution_scaffold \<Rightarrow> 32 word \<Rightarrow>
    runtime_turn_descriptor list" where
  "runnable_live_turns var runtime max_agents = (
     let turns = filter (\<lambda>t. case live_job_filter var of None \<Rightarrow> True | Some jobs \<Rightarrow> td_job_id t \<in> set jobs)
           (rs_runnable_turns runtime)
     in take (max (unat (max max_agents 1)) 1) turns)"

section \<open>What a completed turn records\<close>

definition first_line :: "string \<Rightarrow> string option" where
  "first_line s = (if s = [] then None else
     let l = hd (split_on (\<lambda>c. c = char_of (10 :: nat)) s)
     in Some (if l \<noteq> [] \<and> last l = char_of (13 :: nat) \<and> length l < length s then butlast l else l))"

definition turn_result_status_is_skipped :: "('v, 'e) wiki_company_agent_turn_result \<Rightarrow> bool" where
  "turn_result_status_is_skipped r = (case first_line (wr_assistant_preview r) of None \<Rightarrow> False
     | Some l \<Rightarrow> ascii_lower (str_trim l) = ''status: skipped'')"

definition scheduler_visible_artifact_kinds :: "runtime_turn_descriptor \<Rightarrow> ('v, 'e) wiki_company_agent_turn_result \<Rightarrow>
    string list" where
  "scheduler_visible_artifact_kinds turn result = bset (
     let skipped = turn_result_status_is_skipped result in
     if td_job_id turn = ''memory.hourly.scribe'' then [''hourly_talk_entry'', ''scribe_artifacts'']
     else if td_job_id turn = ''memory.wiki.historian'' then
       (if \<not> skipped then filter (\<lambda>kind. kind \<noteq> ''hourly_answer_questions'') (td_outputs turn) else []) @
       (if list_ex (\<lambda>r. nr_status r = ''sent'' \<and> ''role://memory.hourly.answerer'' \<in> set (nr_to r))
           (wr_follow_up_mail_receipts result) then [''hourly_answer_questions''] else [])
     else if td_job_id turn = ''memory.hourly.answerer'' then (if \<not> skipped then [''hourly_answer_replies''] else [])
     else (if \<not> skipped then td_outputs turn else []))"

definition scheduler_artifact_key :: "runtime_turn_descriptor \<Rightarrow> string \<Rightarrow> string" where
  "scheduler_artifact_key turn kind = (case (td_date turn, td_hour turn) of
     (Some date, Some hour) \<Rightarrow>
       if kind = ''scribe_artifacts'' \<or> kind = ''hourly_talk_entry'' then date @ ''-'' @ hour
       else if kind = ''hourly_answer_questions'' \<or> kind = ''hourly_answer_replies''
       then date @ ''-'' @ hour @ ''-'' @ td_operation_id turn else date
   | (Some date, None) \<Rightarrow> date
   | (None, _) \<Rightarrow> td_operation_id turn)"

text \<open>The JSON objects that are written, as records.\<close>

record 'e turn_evidence =
  te_run_id :: string
  te_phase_id :: string
  te_job_id :: string
  te_unit_id :: string
  te_operation_id :: string
  te_final_message_path :: string
  te_talk_receipt :: string
  te_mail_receipt :: string
  te_follow_up_mail_receipts :: "'e next_agent_request_receipt list"
  te_date :: "string option"
  te_hour :: "string option"
  te_packet_id :: "string option"

record mail_payload =
  mo_talk_receipt :: string
  mo_mail_receipt :: string
  mo_mail_delivery_ids :: "string list"
  mo_final_message_path :: string
  mo_final_message_sha256 :: string
  mo_final_message_origin :: string

definition agent_mail_scheduler_receipt :: "(string \<Rightarrow> string) \<Rightarrow> string \<Rightarrow> runtime_turn_descriptor \<Rightarrow>
    ('v, 'e) wiki_company_agent_turn_result \<Rightarrow> mail_payload scheduler_receipt option" where
  "agent_mail_scheduler_receipt sha now turn result = (
     let mail_receipt = str_trim (wr_mail_receipt_path result) in
     if mail_receipt = [] then None
     else Some ((agent_mail_receipt_for_job sha now (td_run_id turn) (td_harness_unit_id turn) (td_phase_id turn)
         (td_job_id turn) ByAgentMail (mail_delivered (tr_thread_id (td_route turn)) mail_receipt ''wiki-core'')
         \<lparr> mo_talk_receipt = wr_talk_receipt_path result, mo_mail_receipt = wr_mail_receipt_path result,
           mo_mail_delivery_ids = mail_delivery_ids result, mo_final_message_path = wr_final_message_path result,
           mo_final_message_sha256 = wr_final_message_sha256 result,
           mo_final_message_origin = wr_final_message_origin result \<rparr>)
       \<lparr> rc_path := Some mail_receipt, rc_external_id := mail_delivery_id result \<rparr>))"

record 'e engine_store =
  es_audit :: "mail_payload audit_store"
  es_artifacts :: "'e turn_evidence artifact_files"
  es_runs :: run_store

definition evidence_of :: "runtime_turn_descriptor \<Rightarrow> ('v, 'e) wiki_company_agent_turn_result \<Rightarrow> 'e turn_evidence" where
  "evidence_of turn result = \<lparr> te_run_id = td_run_id turn, te_phase_id = td_phase_id turn, te_job_id = td_job_id turn,
     te_unit_id = td_unit_id turn, te_operation_id = td_operation_id turn,
     te_final_message_path = wr_final_message_path result, te_talk_receipt = wr_talk_receipt_path result,
     te_mail_receipt = wr_mail_receipt_path result, te_follow_up_mail_receipts = wr_follow_up_mail_receipts result,
     te_date = td_date turn, te_hour = td_hour turn, te_packet_id = td_packet_id turn \<rparr>"

definition turn_metadata :: "runtime_turn_descriptor \<Rightarrow> (string, string) btree_map" where
  "turn_metadata turn = bt_of_list [(''phase_id'', td_phase_id turn), (''job_id'', td_job_id turn), (''unit_id'', td_unit_id turn)]"

text \<open>The loop over the kinds: the first failing write ends it, what was written before stays.\<close>

fun record_artifacts :: "(string \<Rightarrow> string) \<Rightarrow> ('e turn_evidence \<Rightarrow> string) \<Rightarrow> string \<Rightarrow> string \<Rightarrow> runtime_turn_descriptor \<Rightarrow>
    'e turn_evidence \<Rightarrow> string list \<Rightarrow> wiki_company_run_state \<Rightarrow> 'e turn_evidence artifact_files \<Rightarrow>
    (artifact_error + unit) \<times> wiki_company_run_state \<times> 'e turn_evidence artifact_files" where
  "record_artifacts sha enc root now turn evidence [] state fs = (Inr (), state, fs)"
| "record_artifacts sha enc root now turn evidence (kind # kinds) state fs =
     (case write_json sha enc root now (td_run_id turn) kind (scheduler_artifact_key turn kind) evidence
         (turn_metadata turn) fs of
        (Inl e, fs') \<Rightarrow> (Inl e, state, fs')
      | (Inr h, fs') \<Rightarrow> record_artifacts sha enc root now turn evidence kinds (add_artifact now h state) fs')"

definition record_turn_receipt :: "(string \<Rightarrow> string) \<Rightarrow> string \<Rightarrow> context_engine_paths \<Rightarrow> runtime_turn_descriptor \<Rightarrow>
    ('v, 'e) wiki_company_agent_turn_result \<Rightarrow> wiki_company_run_state \<Rightarrow> mail_payload audit_store \<Rightarrow>
    wiki_company_run_state \<times> mail_payload audit_store" where
  "record_turn_receipt sha now paths turn result state audit = (case agent_mail_scheduler_receipt sha now turn result of
     None \<Rightarrow> (state, audit)
   | Some receipt \<Rightarrow> let (res, audit') = append_scheduler_receipt sha paths receipt audit
       in (apply_appended_receipt_to_state now receipt res state, audit'))"

definition record_completed_runtime_turn :: "(string \<Rightarrow> string) \<Rightarrow> ('e turn_evidence \<Rightarrow> string) \<Rightarrow> string \<Rightarrow>
    context_engine_paths \<Rightarrow> runtime_turn_descriptor \<Rightarrow> ('v, 'e) wiki_company_agent_turn_result \<Rightarrow>
    wiki_company_run_state \<Rightarrow> 'e engine_store \<Rightarrow>
    (artifact_error + unit) \<times> wiki_company_run_state \<times> 'e engine_store" where
  "record_completed_runtime_turn sha enc now paths turn result state st = (
     let (state1, audit1) = record_turn_receipt sha now paths turn result state (es_audit st)
     in case record_artifacts sha enc (ce_runs paths) now turn (evidence_of turn result)
          (scheduler_visible_artifact_kinds turn result) state1 (es_artifacts st) of
        (Inl e, state2, fs) \<Rightarrow> (Inl e, state2, st\<lparr> es_audit := audit1, es_artifacts := fs \<rparr>)
      | (Inr _, state2, fs) \<Rightarrow> (Inr (), state2, st\<lparr> es_audit := audit1, es_artifacts := fs,
          es_runs := snd (save_state sha paths now state2 (es_runs st)) \<rparr>))"

section \<open>Which phases a batch completes\<close>

definition phase_batch_done :: "runtime_execution_scaffold \<Rightarrow> string list \<Rightarrow> string \<Rightarrow> bool" where
  "phase_batch_done runtime completed phase_id = (
     let phase_runnable_turns = filter (\<lambda>t. td_phase_id t = phase_id) (rs_runnable_turns runtime)
     in phase_runnable_turns \<noteq> [] \<and> list_all (\<lambda>t. td_operation_id t \<in> set completed) phase_runnable_turns \<and>
        \<not> list_ex (\<lambda>t. td_phase_id t = phase_id) (rs_conditional_turns runtime))"

definition candidate_phases :: "runtime_execution_scaffold \<Rightarrow> string list \<Rightarrow> wiki_company_run_state \<Rightarrow> string list" where
  "candidate_phases runtime completed state = filter (\<lambda>p. p \<notin> set (ws_completed_phase_ids state))
     (bset (map td_phase_id (filter (\<lambda>t. td_operation_id t \<in> set completed) (rs_runnable_turns runtime))))"

definition complete_batch_phases :: "(string \<Rightarrow> string) \<Rightarrow> string \<Rightarrow> context_engine_paths \<Rightarrow> runtime_execution_scaffold \<Rightarrow>
    string list \<Rightarrow> wiki_company_run_state \<Rightarrow> run_store \<Rightarrow> wiki_company_run_state \<times> run_store" where
  "complete_batch_phases sha now paths runtime completed state fs = (
     if completed = [] then (state, fs)
     else let state' = fold (\<lambda>p s. if phase_batch_done runtime completed p then mark_phase_completed now p s else s)
                (candidate_phases runtime completed state) state
          in (state', snd (save_state sha paths now state' fs)))"

end
