(* ===== verification/Runtime_Properties.thy ===== *)
theory Runtime_Properties
  imports Harness_Executor Phase_Graph Mail_Address
begin

text \<open>
  What the execution scaffold promises, from the plan over the schedule to the turns: which units run, that
  every ready job is accounted for, and that the mailboxes of turns are addresses the mail store accepts.
\<close>

section \<open>The loop over the jobs\<close>

definition job_condition :: "runtime_execution_scaffold_request \<Rightarrow> scheduled_job \<Rightarrow> condition_evaluation" where
  "job_condition request job = evaluate_condition (sj_when job) (rx_condition_context request)"

definition job_units :: "(string \<Rightarrow> string) \<Rightarrow> runtime_execution_scaffold_request \<Rightarrow> scheduled_job \<Rightarrow> concrete_job_unit list" where
  "job_units sha request job = fe_units (expand_job_fanout sha job (rx_fanout_context request))"

definition job_in :: "condition_status \<Rightarrow> runtime_execution_scaffold_request \<Rightarrow> scheduled_job \<Rightarrow> bool" where
  "job_in st request job \<longleftrightarrow> missing_inputs_reason job = None \<and> cn_status (job_condition request job) = st"

lemma missing_inputs_None:
  "missing_inputs_reason job = None \<longleftrightarrow> sj_missing_required_artifacts job = [] \<and> sj_missing_required_mail job = []"
  by (simp add: missing_inputs_reason_def)

definition selected :: "bool \<Rightarrow> 'a list \<Rightarrow> 'a list" where
  "selected b xs = (if b then xs else [])"

lemma job_step_parts:
  "jo_runnable_units (job_step sha request job acc) =
     jo_runnable_units acc @ selected (job_in ConditionTrue request job) (job_units sha request job)"
  "jo_conditional_units (job_step sha request job acc) =
     jo_conditional_units acc @ selected (job_in ConditionUnknown request job) (job_units sha request job)"
  "jo_runnable_turns (job_step sha request job acc) = jo_runnable_turns acc @
     selected (job_in ConditionTrue request job) (map (\<lambda>u. turn_descriptor sha (rx_run_id request) job u ''runnable''
       (condition_for_descriptor (job_condition request job))) (job_units sha request job))"
  "jo_conditional_turns (job_step sha request job acc) = jo_conditional_turns acc @
     selected (job_in ConditionUnknown request job) (map (\<lambda>u. turn_descriptor sha (rx_run_id request) job u ''conditional''
       (Some (job_condition request job))) (job_units sha request job))"
  by (simp_all add: job_step_def job_in_def job_units_def job_condition_def selected_def Let_def
      split: option.splits condition_status.splits)

lemma fold_collects:
  assumes "\<And>job acc. part (step job acc) = part acc @ f job"
  shows "part (fold step jobs acc) = part acc @ concat (map f jobs)"
  by (induction jobs arbitrary: acc) (simp_all add: assms)

lemma scaffold_parts:
  "rs_runnable_units (build_runtime_execution_scaffold sha request) =
     concat (map (\<lambda>job. selected (job_in ConditionTrue request job) (job_units sha request job))
       (ready_phase_jobs (rx_schedule request)))"
  "rs_conditional_units (build_runtime_execution_scaffold sha request) =
     concat (map (\<lambda>job. selected (job_in ConditionUnknown request job) (job_units sha request job))
       (ready_phase_jobs (rx_schedule request)))"
  "rs_runnable_turns (build_runtime_execution_scaffold sha request) =
     concat (map (\<lambda>job. selected (job_in ConditionTrue request job) (map (\<lambda>u. turn_descriptor sha (rx_run_id request) job u
       ''runnable'' (condition_for_descriptor (job_condition request job))) (job_units sha request job)))
       (ready_phase_jobs (rx_schedule request)))"
  "rs_conditional_turns (build_runtime_execution_scaffold sha request) =
     concat (map (\<lambda>job. selected (job_in ConditionUnknown request job) (map (\<lambda>u. turn_descriptor sha (rx_run_id request) job u
       ''conditional'' (Some (job_condition request job))) (job_units sha request job)))
       (ready_phase_jobs (rx_schedule request)))"
  unfolding build_runtime_execution_scaffold_def Let_def runtime_execution_scaffold.simps
  by (subst fold_collects, rule job_step_parts, simp add: no_outcome_def)+

lemma scaffold_blocked:
  "rs_blocked_jobs (build_runtime_execution_scaffold sha request) =
     concat (map (\<lambda>job. jo_blocked (job_step sha request job no_outcome)) (ready_phase_jobs (rx_schedule request)))"
proof -
  have step: "jo_blocked (job_step sha request job acc) = jo_blocked acc @ jo_blocked (job_step sha request job no_outcome)" for job acc
    by (simp add: job_step_def no_outcome_def Let_def split: option.splits condition_status.splits)
  have "jo_blocked (fold (job_step sha request) jobs no_outcome) =
      jo_blocked no_outcome @ concat (map (\<lambda>job. jo_blocked (job_step sha request job no_outcome)) jobs)" for jobs
    by (rule fold_collects) (rule step)
  moreover have "jo_blocked no_outcome = []"
    by (simp add: no_outcome_def)
  ultimately show ?thesis
    unfolding build_runtime_execution_scaffold_def Let_def runtime_execution_scaffold.simps by (simp only: append_Nil)
qed

section \<open>The jobs of the ready phases\<close>

definition scheduled_as_ready :: "executable_orchestration_plan \<Rightarrow> scheduler_run_request \<Rightarrow> executable_phase \<Rightarrow>
    executable_phase_job \<Rightarrow> scheduled_job" where
  "scheduled_as_ready plan sreq phase job = build_scheduled_job job
     (scheduled_receipts (ep_durable_receipt phase) (op_receipt_policy plan)) ''ready'' True
     (bset (sq_available_artifacts sreq)) (bset (sq_available_mail sreq))"

definition phase_may_run :: "executable_orchestration_plan \<Rightarrow> scheduler_run_request \<Rightarrow> executable_phase \<Rightarrow> bool" where
  "phase_may_run plan sreq phase \<longleftrightarrow> ep_id phase \<notin> set (sq_completed_phase_ids sreq) \<and>
     set (ep_depends_on phase) \<subseteq> set (sq_completed_phase_ids sreq) \<and>
     ep_id phase \<in> set (ga_phase_order (analyze_phase_graph (op_phases plan)))"

definition job_may_run :: "scheduler_run_request \<Rightarrow> condition_context \<Rightarrow> executable_phase_job \<Rightarrow> bool" where
  "job_may_run sreq context job \<longleftrightarrow> set (ej_required_artifacts job) \<subseteq> set (sq_available_artifacts sreq) \<and>
     set (ej_required_mail job) \<subseteq> set (sq_available_mail sreq) \<and>
     cn_status (evaluate_condition (ej_when job) context) = ConditionTrue"

lemma phase_status:
  assumes "distinct (map ep_id (op_phases plan))" "phase \<in> set (op_phases plan)"
  shows "sp_status (build_scheduled_phase plan sreq (analyze_phase_graph (op_phases plan)) phase) = ''ready'' \<longleftrightarrow>
    phase_may_run plan sreq phase"
  using blocked_by_empty [OF assms] set_plan_order [OF assms(1)] assms(2)
  by (auto simp: build_scheduled_phase_def Let_def phase_may_run_def plan_order_def plan_ids_def)

lemma phase_jobs:
  assumes "sp_status (build_scheduled_phase plan sreq graph phase) = ''ready''"
  shows "sp_jobs (build_scheduled_phase plan sreq graph phase) = map (scheduled_as_ready plan sreq phase) (ep_jobs phase)"
  using assms by (auto simp: build_scheduled_phase_def Let_def scheduled_as_ready_def split: if_splits)

lemma ready_jobs_of_plan:
  assumes "distinct (map ep_id (op_phases plan))"
  shows "ready_phase_jobs (build_scheduler_run_plan sha plan sreq) =
    concat (map (\<lambda>phase. map (scheduled_as_ready plan sreq phase) (ep_jobs phase)) (filter (phase_may_run plan sreq) (op_phases plan)))"
proof -
  let ?f = "build_scheduled_phase plan sreq (analyze_phase_graph (op_phases plan))"
  have "filter (\<lambda>p. sp_status p = ''ready'') (map ?f (op_phases plan)) = map ?f (filter (phase_may_run plan sreq) (op_phases plan))"
    unfolding filter_map comp_def using phase_status [OF assms] by (auto intro!: arg_cong [where f = "map ?f"] filter_cong)
  moreover have "map sp_jobs (map ?f (filter (phase_may_run plan sreq) (op_phases plan))) =
      map (\<lambda>phase. map (scheduled_as_ready plan sreq phase) (ep_jobs phase)) (filter (phase_may_run plan sreq) (op_phases plan))"
    unfolding map_map comp_def using phase_status [OF assms] phase_jobs by (auto intro!: map_cong)
  moreover have "sr_phases (build_scheduler_run_plan sha plan sreq) = map ?f (op_phases plan)"
    by (simp add: build_scheduler_run_plan_def Let_def)
  ultimately show ?thesis
    unfolding ready_phase_jobs_def by (simp only:)
qed

lemma scheduled_inputs:
  "sj_missing_required_artifacts (scheduled_as_ready plan sreq phase job) = [] \<longleftrightarrow>
     set (ej_required_artifacts job) \<subseteq> set (sq_available_artifacts sreq)"
  "sj_missing_required_mail (scheduled_as_ready plan sreq phase job) = [] \<longleftrightarrow>
     set (ej_required_mail job) \<subseteq> set (sq_available_mail sreq)"
  "sj_when (scheduled_as_ready plan sreq phase job) = ej_when job"
  by (auto simp: scheduled_as_ready_def build_scheduled_job_def Let_def filter_empty_conv)

definition run_request :: "(string \<Rightarrow> string) \<Rightarrow> executable_orchestration_plan \<Rightarrow> scheduler_run_request \<Rightarrow> fanout_context \<Rightarrow>
    condition_context \<Rightarrow> runtime_execution_scaffold_request" where
  "run_request sha plan sreq fanout context = \<lparr> rx_run_id = sq_run_id sreq,
     rx_schedule = build_scheduler_run_plan sha plan sreq, rx_fanout_context = fanout, rx_condition_context = context \<rparr>"

lemma rx_schedule_run_request: "rx_schedule (run_request sha plan sreq fanout context) = build_scheduler_run_plan sha plan sreq"
  and rx_fanout_run_request: "rx_fanout_context (run_request sha plan sreq fanout context) = fanout"
  by (simp_all add: run_request_def)

lemma job_in_may_run:
  "job_in ConditionTrue (run_request sha plan sreq fanout context) (scheduled_as_ready plan sreq phase job) \<longleftrightarrow>
    job_may_run sreq context job"
  by (simp add: job_in_def job_condition_def missing_inputs_None scheduled_inputs job_may_run_def run_request_def)

text \<open>From the plan to the turn: the units that the scaffold reports as runnable are exactly the units of
  the jobs whose phase can run, is not completed and has all its dependencies completed, whose required
  artifacts and mail are available, and whose condition is true.\<close>

theorem runnable_units_characterised:
  assumes "distinct (map ep_id (op_phases plan))"
  shows "u \<in> set (rs_runnable_units (build_runtime_execution_scaffold sha (run_request sha plan sreq fanout context))) \<longleftrightarrow>
    (\<exists>phase \<in> set (op_phases plan). \<exists>job \<in> set (ep_jobs phase). phase_may_run plan sreq phase \<and>
       job_may_run sreq context job \<and>
       u \<in> set (fe_units (expand_job_fanout sha (scheduled_as_ready plan sreq phase job) fanout)))"
proof -
  note may_run = job_in_may_run [of sha plan sreq fanout "context"]
  show ?thesis
    using may_run unfolding scaffold_parts
    by (auto simp: run_request_def ready_jobs_of_plan [OF assms] selected_def job_units_def)
qed

text \<open>A plan of one phase with one job, for closed instances.\<close>

definition sample_job :: executable_phase_job where
  "sample_job = \<lparr> ej_phase_id = ''p'', ej_job_id = ''memory.hourly.scribe'', ej_agent_id = ''scribe'', ej_fanout = ''once'',
     ej_when = None, ej_max_concurrent = None, ej_required_artifacts = [], ej_required_mail = [], ej_bindings = [],
     ej_inputs = [], ej_outputs = [], ej_route = \<lparr> rt_from_role = ''r'', rt_thread_id = ''t'', rt_to = [], rt_cc = [] \<rparr> \<rparr>"

definition sample_plan :: executable_orchestration_plan where
  "sample_plan = example_plan [(example_phase ''p'' [])\<lparr> ep_jobs := [sample_job] \<rparr>]"

definition sample_fanout :: fanout_context where
  "sample_fanout = \<lparr> fx_run_id = ''run'', fx_selected_packets = [], fx_refreshed_days = [], fx_available_artifacts = [] \<rparr>"

definition sample_run :: runtime_execution_scaffold_request where
  "sample_run = run_request (\<lambda>s. s) sample_plan (with_completed_phases ''run'' []) sample_fanout (with_known_artifacts [])"

definition sample_unit :: concrete_job_unit where
  "sample_unit = unit_for_once (\<lambda>s. s) (scheduled_as_ready sample_plan (with_completed_phases ''run'' [])
     ((example_phase ''p'' [])\<lparr> ep_jobs := [sample_job] \<rparr>) sample_job) sample_fanout"

lemma runnable_units_characterised_witness:
  "sample_unit \<in> set (rs_runnable_units (build_runtime_execution_scaffold (\<lambda>s. s) sample_run))"
proof -
  let ?phase = "(example_phase ''p'' [])\<lparr> ep_jobs := [sample_job] \<rparr>"
  have "distinct (map ep_id (op_phases sample_plan))"
    by code_simp
  moreover have "phase_may_run sample_plan (with_completed_phases ''run'' []) ?phase"
    unfolding phase_may_run_def by code_simp
  moreover have "job_may_run (with_completed_phases ''run'' []) (with_known_artifacts []) sample_job"
    unfolding job_may_run_def by code_simp
  moreover have "?phase \<in> set (op_phases sample_plan)" "sample_job \<in> set (ep_jobs ?phase)"
    by (simp_all add: sample_plan_def example_plan_def)
  moreover have "sample_unit \<in> set (fe_units (expand_job_fanout (\<lambda>s. s)
      (scheduled_as_ready sample_plan (with_completed_phases ''run'' []) ?phase sample_job) sample_fanout))"
    by (simp add: expand_job_fanout_def sample_unit_def Let_def scheduled_as_ready_def build_scheduled_job_def sample_job_def)
  ultimately show ?thesis
    unfolding sample_run_def using runnable_units_characterised [of sample_plan sample_unit "\<lambda>s. s"] by blast
qed

definition turn_of_unit :: "(string \<Rightarrow> string) \<Rightarrow> string \<Rightarrow> string \<Rightarrow> runtime_turn_descriptor \<Rightarrow> concrete_job_unit \<Rightarrow> bool" where
  "turn_of_unit sha run_id status t u \<longleftrightarrow> td_unit_id t = ju_unit_id u \<and> td_job_id t = ju_job_id u \<and>
     td_phase_id t = ju_phase_id u \<and> td_bindings t = ju_bindings u \<and> td_status t = status \<and>
     td_operation_id t = short_harness_id sha (safe_run_id sha run_id @ '':'' @ ju_unit_id u) \<and>
     td_harness_unit_id t = td_operation_id t"

definition job_accounted :: "(string \<Rightarrow> string) \<Rightarrow> runtime_execution_scaffold_request \<Rightarrow> runtime_execution_scaffold \<Rightarrow>
    scheduled_job \<Rightarrow> bool" where
  "job_accounted sha request scaffold job \<longleftrightarrow>
     list_ex (\<lambda>b. bj_job_id b = sj_job_id job \<and> bj_phase_id b = sj_phase_id job) (rs_blocked_jobs scaffold) \<or>
     (job_in ConditionTrue request job \<and> fe_issues (expand_job_fanout sha job (rx_fanout_context request)) = [] \<and>
      set (job_units sha request job) \<subseteq> set (rs_runnable_units scaffold))"

lemma turn_descriptor_of_unit: "turn_of_unit sha run_id status (turn_descriptor sha run_id job u status c) u"
  by (simp add: turn_of_unit_def turn_descriptor_def Let_def)

lemma list_all2_selected:
  assumes "\<And>job u. R (f job u) u"
  shows "list_all2 R (concat (map (\<lambda>job. selected (P job) (map (f job) (g job))) jobs))
    (concat (map (\<lambda>job. selected (P job) (g job)) jobs))"
proof (induction jobs)
  case (Cons job jobs)
  have "list_all2 R (selected (P job) (map (f job) (g job))) (selected (P job) (g job))"
    by (auto simp: selected_def list_all2_conv_all_nth assms)
  then show ?case
    using Cons.IH by (simp add: list_all2_appendI)
qed simp

lemma blocked_job_ids:
  "bj_job_id (blocked_job sha run_id job reason c) = sj_job_id job"
  "bj_phase_id (blocked_job sha run_id job reason c) = sj_phase_id job"
  by (simp_all add: blocked_job_def)

lemma job_step_blocks:
  "job_in ConditionTrue request job \<and> fe_issues (expand_job_fanout sha job (rx_fanout_context request)) = [] \<or>
   (\<exists>reason c. blocked_job sha (rx_run_id request) job reason c \<in> set (jo_blocked (job_step sha request job acc)))"
proof (cases "missing_inputs_reason job")
  case None
  then show ?thesis
  proof (cases "cn_status (job_condition request job)")
    case ConditionTrue
    then show ?thesis
      using None by (cases "fe_issues (expand_job_fanout sha job (rx_fanout_context request))")
        (auto simp: job_step_def job_in_def job_condition_def Let_def)
  qed (use None in \<open>auto simp: job_step_def job_condition_def Let_def\<close>)
qed (auto simp: job_step_def)

text \<open>No ready job disappears: every job of a ready phase is reported as blocked, or its condition is true, its
  fanout is supported and all its units are runnable. And the turns correspond to the units one to one, in
  order, with the operation id that the unit id gives.\<close>

theorem ready_jobs_accounted:
  "list_all (job_accounted sha request (build_runtime_execution_scaffold sha request)) (ready_phase_jobs (rx_schedule request)) \<and>
   list_all2 (turn_of_unit sha (rx_run_id request) ''runnable'')
     (rs_runnable_turns (build_runtime_execution_scaffold sha request))
     (rs_runnable_units (build_runtime_execution_scaffold sha request)) \<and>
   list_all2 (turn_of_unit sha (rx_run_id request) ''conditional'')
     (rs_conditional_turns (build_runtime_execution_scaffold sha request))
     (rs_conditional_units (build_runtime_execution_scaffold sha request))"
proof (intro conjI)
  have "job_accounted sha request (build_runtime_execution_scaffold sha request) job"
    if job: "job \<in> set (ready_phase_jobs (rx_schedule request))" for job
    using job_step_blocks [of request job sha no_outcome]
  proof
    assume "\<exists>reason c. blocked_job sha (rx_run_id request) job reason c \<in> set (jo_blocked (job_step sha request job no_outcome))"
    then obtain reason c where "blocked_job sha (rx_run_id request) job reason c \<in>
        set (rs_blocked_jobs (build_runtime_execution_scaffold sha request))"
      using job unfolding scaffold_blocked by auto
    then show ?thesis
      unfolding job_accounted_def list_ex_iff using blocked_job_ids by blast
  next
    assume "job_in ConditionTrue request job \<and> fe_issues (expand_job_fanout sha job (rx_fanout_context request)) = []"
    then show ?thesis
      using job by (auto simp: job_accounted_def scaffold_parts selected_def)
  qed
  then show "list_all (job_accounted sha request (build_runtime_execution_scaffold sha request))
      (ready_phase_jobs (rx_schedule request))"
    by (simp add: list_all_iff)
qed (unfold scaffold_parts, (rule list_all2_selected, rule turn_descriptor_of_unit)+)

section \<open>Mailboxes\<close>

lemma colon_not_whitespace: "CHR '':'' \<in> set ch \<Longrightarrow> \<not> is_whitespace ch"
proof
  assume "CHR '':'' \<in> set ch" "is_whitespace ch"
  then have "byte CHR '':'' \<in> set (map byte ch)"
    by (metis image_eqI set_map)
  then have "58 \<in> set (map byte ch)"
    by simp
  then show False
    using \<open>is_whitespace ch\<close> by (auto simp: is_whitespace_def Let_def)
qed

lemma in_dropWhile: "x \<in> set xs \<Longrightarrow> \<not> P x \<Longrightarrow> x \<in> set (dropWhile P xs)"
  by (induction xs) auto

lemma colon_in_chars: "CHR '':'' \<in> set s \<Longrightarrow> \<exists>ch \<in> set (utf8_chars s). CHR '':'' \<in> set ch"
  using concat_utf8_chars [of s] by (metis UN_iff set_concat)

lemma colon_kept: "CHR '':'' \<in> set s \<Longrightarrow> CHR '':'' \<in> set (str_trim s)"
proof -
  assume "CHR '':'' \<in> set s"
  then have "CHR '':'' \<in> set (trim_start s)"
    using colon_in_chars [of s] colon_not_whitespace in_dropWhile [of _ "utf8_chars s" is_whitespace]
    by (fastforce simp: trim_start_def)
  then show ?thesis
    using colon_in_chars [of "trim_start s"] colon_not_whitespace in_dropWhile [of _ "rev (utf8_chars (trim_start s))" is_whitespace]
    by (fastforce simp: str_trim_def trim_end_def)
qed

lemma unsafe_chars: "\<not> safe_id_char CHR '':''" "\<not> safe_id_char (char_of (92 :: nat))" "\<not> safe_id_char (char_of (0 :: nat))"
    "\<not> safe_id_char CHR ''/''"
  by code_simp+

lemma safe_run_id_of_colon:
  assumes "\<And>s. length (sha s) = 32" "CHR '':'' \<in> set v"
  shows "length (safe_run_id sha v) > 2"
proof -
  have "safe_id_base (str_trim v) \<noteq> str_trim v"
    using colon_kept [OF assms(2)] safe_id_base_safe [of "str_trim v"] unsafe_chars(1) unfolding list_all_iff by metis
  then show ?thesis
    using length_storage_id_hash [of sha "str_trim v"] assms(1) by (simp add: safe_run_id_eq Let_def)
qed

lemma safe_segment_ok:
  assumes "list_all safe_id_char s" "length s > 2"
  shows "segment_ok s"
proof -
  have "\<not> has_whitespace s"
    using assms(1) utf8_chars_safe [OF assms(1)] safe_not_whitespace
    by (auto simp: has_whitespace_def list_ex_iff list_all_iff)
  moreover have "CHR ''/'' \<notin> set s" "char_of (92 :: nat) \<notin> set s" "char_of (0 :: nat) \<notin> set s"
    using assms(1) unsafe_chars unfolding list_all_iff by metis+
  moreover have "list_all segment_char s"
    using assms(1) by (simp add: list_all_iff segment_char_safe)
  ultimately show ?thesis
    using assms(2) unfolding segment_ok_def by auto
qed

text \<open>No identifier is shortened: \<open>safe_run_id\<close> stays below the limit.\<close>

lemma short_harness_id_eq: "short_harness_id sha v = safe_run_id sha v"
  using safe_run_id_shape [of sha v] by (simp add: short_harness_id_def max_harness_id_len_def Let_def)

text \<open>The mailbox that a turn writes from is an address that the mail store accepts: it parses as the agent of
  transport \<open>context-engine\<close> whose id is exactly the harness unit of the turn. (The digest has the 32 bytes of
  SHA-256, and the URL parser splits plain texts into scheme, host and segment.)\<close>

theorem turn_mailbox_parses:
  assumes "url_contract url_parse" "\<And>s. length (sha s) = 32"
  shows "parse_address url_parse (tr_from_mailbox (td_route (turn_descriptor sha run_id job u status c))) =
    Inr (Agent ''context-engine'' (td_harness_unit_id (turn_descriptor sha run_id job u status c)))"
proof -
  let ?v = "safe_run_id sha run_id @ '':'' @ ju_unit_id u"
  have unit: "td_harness_unit_id (turn_descriptor sha run_id job u status c) = safe_run_id sha ?v"
    by (simp add: turn_descriptor_def Let_def short_harness_id_eq)
  have "safe_run_id sha (safe_run_id sha ?v) = safe_run_id sha ?v"
    using safe_run_id_stable [of sha ?v] safe_run_id_fixpoint assms(2) by blast
  then have box: "tr_from_mailbox (td_route (turn_descriptor sha run_id job u status c)) =
      canonical (Agent ''context-engine'' (safe_run_id sha ?v))"
    by (simp add: turn_descriptor_def Let_def agent_mail_address_for_unit_def short_harness_id_eq)
  have "segment_ok (safe_run_id sha ?v)"
    using safe_run_id_shape [of sha ?v] safe_run_id_of_colon [OF assms(2), of ?v] by (intro safe_segment_ok) simp_all
  moreover have "segment_ok ''context-engine''"
    by code_simp
  ultimately show ?thesis
    unfolding box unit by (intro parse_canonical [OF assms(1)]) simp
qed

lemma turn_mailbox_parses_witness:
  "parse_address split_url (tr_from_mailbox (td_route (turn_descriptor (\<lambda>s. replicate 32 CHR ''a'') ''run''
     (scheduled_as_ready sample_plan (with_completed_phases ''run'' []) (example_phase ''p'' []) sample_job) sample_unit
     ''runnable'' None))) =
   Inr (Agent ''context-engine'' (td_harness_unit_id (turn_descriptor (\<lambda>s. replicate 32 CHR ''a'') ''run''
     (scheduled_as_ready sample_plan (with_completed_phases ''run'' []) (example_phase ''p'' []) sample_job) sample_unit
     ''runnable'' None)))"
  by (rule turn_mailbox_parses [OF split_url_contract]) simp

end
