(* ===== verification/Turn_Properties.thy ===== *)
theory Turn_Properties
  imports Agent_Turns Runtime_Properties
begin

text \<open>
  What the bookkeeping of turns guarantees and where it falls short: the completion of phases, the artifacts of
  several turns for one hour, and the questions of the historian.
\<close>

section \<open>Completion of phases\<close>

lemma mark_phases:
  "set (ws_completed_phase_ids (fold (\<lambda>p s. if done p then mark_phase_completed now p s else s) ps state)) =
     set (ws_completed_phase_ids state) \<union> {p \<in> set ps. done p}"
  by (induction ps arbitrary: state) (auto simp: mark_phase_completed_def)

definition batch_completes :: "runtime_execution_scaffold \<Rightarrow> string list \<Rightarrow> string \<Rightarrow> bool" where
  "batch_completes runtime completed p \<longleftrightarrow> p \<in> td_phase_id ` set (rs_runnable_turns runtime) \<and>
     p \<notin> td_phase_id ` set (rs_conditional_turns runtime) \<and>
     td_operation_id ` {t \<in> set (rs_runnable_turns runtime). td_phase_id t = p} \<subseteq> set completed"

lemma completed_phases_after:
  "set (ws_completed_phase_ids (fst (complete_batch_phases sha now paths runtime completed state fs))) =
     set (ws_completed_phase_ids state) \<union> {p. batch_completes runtime completed p}"
proof (cases "completed = []")
  case True
  then show ?thesis
    by (auto simp: complete_batch_phases_def batch_completes_def)
next
  case False
  have "phase_batch_done runtime completed p \<longleftrightarrow> batch_completes runtime completed p" for p
    unfolding batch_completes_def phase_batch_done_def Let_def filter_empty_conv list_all_iff list_ex_iff set_filter by blast
  moreover have "phase_batch_done runtime completed p \<Longrightarrow> p \<notin> set (ws_completed_phase_ids state) \<Longrightarrow>
      p \<in> set (candidate_phases runtime completed state)" for p
    by (fastforce simp: candidate_phases_def phase_batch_done_def Let_def filter_empty_conv list_all_iff)
  ultimately show ?thesis
    using False mark_phases [of "phase_batch_done runtime completed" now "candidate_phases runtime completed state" state]
    by (auto simp: complete_batch_phases_def Let_def)
qed

text \<open>C26. A batch completes exactly the phases that have a runnable turn, all of whose runnable turns were completed
  and that have no conditional turn; phases completed before stay completed.\<close>

theorem phase_completion_characterised:
  "p \<in> set (ws_completed_phase_ids (fst (complete_batch_phases sha now paths runtime completed state fs))) \<longleftrightarrow>
     p \<in> set (ws_completed_phase_ids state) \<or>
     list_ex (\<lambda>t. td_phase_id t = p) (rs_runnable_turns runtime) \<and>
     list_all (\<lambda>t. td_operation_id t \<in> set completed) (filter (\<lambda>t. td_phase_id t = p) (rs_runnable_turns runtime)) \<and>
     \<not> list_ex (\<lambda>t. td_phase_id t = p) (rs_conditional_turns runtime)"
proof -
  have "batch_completes runtime completed p \<longleftrightarrow> list_ex (\<lambda>t. td_phase_id t = p) (rs_runnable_turns runtime) \<and>
     list_all (\<lambda>t. td_operation_id t \<in> set completed) (filter (\<lambda>t. td_phase_id t = p) (rs_runnable_turns runtime)) \<and>
     \<not> list_ex (\<lambda>t. td_phase_id t = p) (rs_conditional_turns runtime)"
    unfolding batch_completes_def list_ex_iff list_all_iff set_filter by blast
  then show ?thesis
    unfolding completed_phases_after by blast
qed

section \<open>Several turns for one hour\<close>

lemma recorded_artifact_blocks:
  assumes "bt_wf fs" "write_json sha enc root now run_id kind key value metadata fs = (Inr h, fs')" "files_kept fs' fs''"
    "value' \<noteq> value"
  shows "\<exists>p. write_json sha enc root now' run_id kind key value' metadata' fs'' = (Inl (ImmutabilityViolation p), fs'')"
proof -
  obtain t where "bt_get fs' (artifact_path sha root (safe_run_id sha run_id) kind key) =
      Some (ArtifactFile (new_artifact_record sha enc t (safe_run_id sha run_id) kind key value metadata))"
    using write_json_Inr [OF assms(1,2)] by blast
  then have "bt_get fs'' (artifact_path sha root (safe_run_id sha run_id) kind key) =
      Some (ArtifactFile (new_artifact_record sha enc t (safe_run_id sha run_id) kind key value metadata))"
    using assms(3) by (simp add: files_kept_def)
  from record_stands [OF this] show ?thesis
    using assms(4) unfolding evidence_stands_def by auto
qed

lemma scribe_kinds:
  "td_job_id turn = ''memory.hourly.scribe'' \<Longrightarrow>
    scheduler_visible_artifact_kinds turn result = [''hourly_talk_entry'', ''scribe_artifacts'']"
proof -
  assume "td_job_id turn = ''memory.hourly.scribe''"
  then have "scheduler_visible_artifact_kinds turn result = bset [''hourly_talk_entry'', ''scribe_artifacts'']"
    by (simp only: scheduler_visible_artifact_kinds_def Let_def simp_thms if_True)
  moreover have "bset [''hourly_talk_entry'', ''scribe_artifacts''] = [''hourly_talk_entry'', ''scribe_artifacts'']"
    by code_simp
  ultimately show ?thesis
    by simp
qed

lemma scribe_key:
  "td_date turn = Some d \<Longrightarrow> td_hour turn = Some h \<Longrightarrow> scheduler_artifact_key turn ''hourly_talk_entry'' = d @ ''-'' @ h"
  by (simp add: scheduler_artifact_key_def)

definition record_outcome :: "(artifact_error + unit) \<times> wiki_company_run_state \<times> 'e engine_store \<Rightarrow> artifact_error option" where
  "record_outcome r = (case fst r of Inl e \<Rightarrow> Some e | Inr _ \<Rightarrow> None)"

definition store_after :: "(artifact_error + unit) \<times> wiki_company_run_state \<times> 'e engine_store \<Rightarrow> 'e engine_store" where
  "store_after r = snd (snd r)"

lemma write_json_kept:
  assumes "bt_wf fs" "write_json sha enc root now run_id kind key v metadata fs = (r, fs')"
  shows "bt_wf fs' \<and> files_kept fs fs'"
  using step_keeps_files [OF artifact_step.json assms(1), of sha enc root now run_id kind key v metadata] assms(2) by simp

lemma record_artifacts_first:
  assumes "bt_wf fs" "record_artifacts sha enc root now turn evidence (kind # kinds) state fs = (Inr (), state', fs')"
  shows "\<exists>h fs1. write_json sha enc root now (td_run_id turn) kind (scheduler_artifact_key turn kind) evidence (turn_metadata turn) fs =
      (Inr h, fs1) \<and> bt_wf fs1 \<and> files_kept fs1 fs'"
proof -
  have kept: "bt_wf fs \<Longrightarrow> record_artifacts sha enc root now turn evidence ks state fs = (r, state', fs') \<Longrightarrow> files_kept fs fs'"
    for ks state fs r state' fs'
  proof (induction ks arbitrary: state fs)
    case (Cons k ks)
    obtain w fs1 where w: "write_json sha enc root now (td_run_id turn) k (scheduler_artifact_key turn k) evidence (turn_metadata turn) fs =
        (w, fs1)"
      by (metis surj_pair)
    note step = write_json_kept [OF Cons.prems(1) w]
    show ?case
    proof (cases w)
      case (Inl e)
      then show ?thesis
        using Cons.prems(2) w step by simp
    next
      case (Inr h)
      then have "files_kept fs1 fs'"
        using Cons.IH [of fs1 "add_artifact now h state"] Cons.prems(2) w step by simp
      then show ?thesis
        using step by (simp add: files_kept_def)
    qed
  qed (simp add: files_kept_def)
  obtain w fs1 where w: "write_json sha enc root now (td_run_id turn) kind (scheduler_artifact_key turn kind) evidence
      (turn_metadata turn) fs = (w, fs1)"
    by (metis surj_pair)
  moreover obtain h where "w = Inr h"
    using assms(2) w by (cases w) simp_all
  ultimately show ?thesis
    using kept [of fs1 kinds "add_artifact now h state" "Inr ()" state' fs'] write_json_kept [OF assms(1) w] assms(2) by simp
qed

lemma record_succeeded:
  assumes "record_outcome (record_completed_runtime_turn sha enc now paths turn result state st) = None"
  shows "\<exists>state1 state2. record_artifacts sha enc (ce_runs paths) now turn (evidence_of turn result)
      (scheduler_visible_artifact_kinds turn result) state1 (es_artifacts st) =
    (Inr (), state2, es_artifacts (store_after (record_completed_runtime_turn sha enc now paths turn result state st)))"
proof -
  obtain state1 audit1 where pair: "record_turn_receipt sha now paths turn result state (es_audit st) = (state1, audit1)"
    by (rule prod.exhaust)
  obtain out state2 fs where art: "record_artifacts sha enc (ce_runs paths) now turn (evidence_of turn result)
      (scheduler_visible_artifact_kinds turn result) state1 (es_artifacts st) = (out, state2, fs)"
    by (rule prod_cases3)
  show ?thesis
  proof (cases out)
    case (Inl e)
    then show ?thesis
      using assms by (simp add: record_completed_runtime_turn_def pair art record_outcome_def)
  next
    case (Inr u)
    then have "es_artifacts (store_after (record_completed_runtime_turn sha enc now paths turn result state st)) = fs"
      by (simp add: record_completed_runtime_turn_def pair art store_after_def)
    then show ?thesis
      using art Inr by auto
  qed
qed

lemma record_failed:
  assumes "\<And>state1. record_artifacts sha enc (ce_runs paths) now turn (evidence_of turn result)
      (scheduler_visible_artifact_kinds turn result) state1 (es_artifacts st) = (Inl e, state1, fs)"
  shows "record_outcome (record_completed_runtime_turn sha enc now paths turn result state st) = Some e \<and>
    es_artifacts (store_after (record_completed_runtime_turn sha enc now paths turn result state st)) = fs \<and>
    es_runs (store_after (record_completed_runtime_turn sha enc now paths turn result state st)) = es_runs st"
proof -
  obtain state1 audit1 where pair: "record_turn_receipt sha now paths turn result state (es_audit st) = (state1, audit1)"
    by (rule prod.exhaust)
  show ?thesis
    unfolding record_completed_runtime_turn_def pair Let_def prod.case assms
    by (simp add: record_outcome_def store_after_def)
qed

text \<open>Only one scribe turn per hour is recorded: when an hour was split into several packets, or a scribe turn is
  repeated, the artifacts of the second turn have the same kind and key but other evidence, so recording it
  fails as a violation of immutability, and neither its artifacts nor the run state are written.\<close>

theorem second_scribe_turn_of_hour_fails:
  assumes "td_job_id t1 = ''memory.hourly.scribe''" "td_job_id t2 = ''memory.hourly.scribe''" "td_run_id t2 = td_run_id t1"
    "td_date t1 = Some d" "td_hour t1 = Some h" "td_date t2 = Some d" "td_hour t2 = Some h"
    "td_operation_id t2 \<noteq> td_operation_id t1 \<or> wr_final_message_path r2 \<noteq> wr_final_message_path r1"
    "bt_wf (es_artifacts st)"
    "record_outcome (record_completed_runtime_turn sha enc now paths t1 r1 s1 st) = None"
    "st1 = store_after (record_completed_runtime_turn sha enc now paths t1 r1 s1 st)"
    "second = record_completed_runtime_turn sha enc now' paths t2 r2 s2 st1"
  shows "(\<exists>path. record_outcome second = Some (ImmutabilityViolation path)) \<and>
    es_artifacts (store_after second) = es_artifacts st1 \<and> es_runs (store_after second) = es_runs st1"
proof -
  let ?kinds = "[''scribe_artifacts'']"
  obtain state1 state2 where first: "record_artifacts sha enc (ce_runs paths) now t1 (evidence_of t1 r1)
      (''hourly_talk_entry'' # ?kinds) state1 (es_artifacts st) = (Inr (), state2, es_artifacts st1)"
    using record_succeeded [OF assms(10)] unfolding scribe_kinds [OF assms(1)] assms(11) by blast
  obtain hd1 fs1 where w: "write_json sha enc (ce_runs paths) now (td_run_id t1) ''hourly_talk_entry'' (d @ ''-'' @ h)
      (evidence_of t1 r1) (turn_metadata t1) (es_artifacts st) = (Inr hd1, fs1)" and kept: "files_kept fs1 (es_artifacts st1)"
    using record_artifacts_first [OF assms(9) first] unfolding scribe_key [OF assms(4,5)] by blast
  have "evidence_of t2 r2 \<noteq> evidence_of t1 r1"
    using assms(8) by (auto simp: evidence_of_def)
  then obtain p where "write_json sha enc (ce_runs paths) now' (td_run_id t2) ''hourly_talk_entry'' (d @ ''-'' @ h)
      (evidence_of t2 r2) (turn_metadata t2) (es_artifacts st1) = (Inl (ImmutabilityViolation p), es_artifacts st1)"
    using recorded_artifact_blocks [OF assms(9) w kept] assms(3) by metis
  then have "record_artifacts sha enc (ce_runs paths) now' t2 (evidence_of t2 r2) (scheduler_visible_artifact_kinds t2 r2) state3
      (es_artifacts st1) = (Inl (ImmutabilityViolation p), state3, es_artifacts st1)" for state3
    unfolding scribe_kinds [OF assms(2)] by (simp add: scribe_key [OF assms(6,7)])
  then show ?thesis
    unfolding assms(12) using record_failed by blast
qed

text \<open>A scribe turn of one hour, for closed instances.\<close>

definition sample_turn :: "string \<Rightarrow> string \<Rightarrow> string list \<Rightarrow> runtime_turn_descriptor" where
  "sample_turn job_id operation_id outputs = \<lparr> td_schema_version = 1, td_kind = [], td_run_id = ''run'', td_status = ''runnable'',
     td_operation_id = operation_id, td_harness_unit_id = operation_id, td_harness_turn_id = [], td_phase_id = ''p'',
     td_job_id = job_id, td_agent_id = ''a'', td_unit_id = operation_id, td_fanout = ''selected_packets'',
     td_max_concurrent = None, td_packet_id = None, td_date = Some ''2026-05-01'', td_hour = Some ''09'', td_bindings = [],
     td_unit_scope = [], td_inputs = [], td_outputs = outputs, td_required_artifacts = [], td_required_mail = [],
     td_route = \<lparr> tr_thread_id = [], tr_from_role = [], tr_from_mailbox = [], tr_to = [], tr_cc = [] \<rparr>,
     td_receipt_expectations = scheduled_receipts [] (op_receipt_policy sample_plan), td_final_message_path = [],
     td_source_packet_path = None, td_source_packet_hash = None, td_condition = None \<rparr>"

definition sample_result :: "string \<Rightarrow> unit next_agent_request_receipt list \<Rightarrow> (unit, unit) wiki_company_agent_turn_result" where
  "sample_result final follow_ups = \<lparr> wr_job_id = [], wr_agent_id = [], wr_unit_id = [], wr_turn_id = [],
     wr_codex_thread_id = None, wr_codex_turn_id = None, wr_codex_thread_resumed = False, wr_usage = None,
     wr_mail_agent = None, wr_worker_config = (), wr_final_message_path = final, wr_final_message_sha256 = [],
     wr_final_message_origin = [], wr_talk_receipt_path = [], wr_mail_receipt_path = [],
     wr_follow_up_mail_receipts = follow_ups, wr_audit_report_path = [],
     wr_completion = \<lparr> hx_status = ''complete'', hx_complete = True, hx_issues = [], hx_codex_exit_status = Some 0 \<rparr>,
     wr_assistant_preview = ''done'' \<rparr>"

definition sample_state :: wiki_company_run_state where
  "sample_state = new_run_state (\<lambda>s. s) ''t0'' ''run''"

definition empty_engine_store :: "unit engine_store" where
  "empty_engine_store = \<lparr> es_audit = \<lparr> au_paths = [], au_logs = [] \<rparr>, es_artifacts = [],
     es_runs = \<lparr> rf_files = [], rf_pointer = None \<rparr> \<rparr>"

definition sample_first :: "(artifact_error + unit) \<times> wiki_company_run_state \<times> unit engine_store" where
  "sample_first = record_completed_runtime_turn (\<lambda>s. s) te_operation_id ''t1'' (paths_new ''r'')
     (sample_turn ''memory.hourly.scribe'' ''op1'' []) (sample_result ''f1'' []) sample_state empty_engine_store"

lemma second_scribe_turn_of_hour_fails_witness:
  "\<exists>path. record_outcome (record_completed_runtime_turn (\<lambda>s. s) te_operation_id ''t2'' (paths_new ''r'')
     (sample_turn ''memory.hourly.scribe'' ''op2'' []) (sample_result ''f2'' []) (fst (snd sample_first))
     (store_after sample_first)) = Some (ImmutabilityViolation path)"
proof -
  have "record_outcome sample_first = None"
    by code_simp
  then show ?thesis
    using second_scribe_turn_of_hour_fails [of "sample_turn ''memory.hourly.scribe'' ''op1'' []"
        "sample_turn ''memory.hourly.scribe'' ''op2'' []" "''2026-05-01''" "''09''" "sample_result ''f2'' []" "sample_result ''f1'' []"
        empty_engine_store "\<lambda>s. s" te_operation_id "''t1''" "paths_new ''r''" sample_state "store_after sample_first" _
        "''t2''" "fst (snd sample_first)"]
    by (simp add: sample_turn_def sample_result_def empty_engine_store_def sample_first_def)
qed

section \<open>The questions of the historian\<close>

text \<open>The kinds of artifact that the fanout over the questions looks for.\<close>

definition question_kinds :: "string list" where
  "question_kinds = [''hourly_answer_question'', ''historian_question_mail'']"

lemma is_question_artifact_kind: "is_question_artifact a \<longleftrightarrow> ah_kind a \<in> set question_kinds"
  by (simp add: is_question_artifact_def question_kinds_def)

lemma literal_kinds:
  "''hourly_talk_entry'' \<notin> set question_kinds" "''scribe_artifacts'' \<notin> set question_kinds"
  "''hourly_answer_questions'' \<notin> set question_kinds" "''hourly_answer_replies'' \<notin> set question_kinds"
  by code_simp+

lemma recorded_kinds:
  assumes "set (td_outputs turn) \<inter> set question_kinds = {}"
  shows "set (scheduler_visible_artifact_kinds turn result) \<inter> set question_kinds = {}"
  using assms literal_kinds unfolding scheduler_visible_artifact_kinds_def Let_def set_bset
  by (simp split: if_splits) blast

text \<open>The questions of the historian are never fanned out: the artifact that a historian turn records when it has
  sent questions to the answerer is of kind \<open>hourly_answer_questions\<close>, but the fanout \<open>historian_questions\<close> looks
  for \<open>hourly_answer_question\<close> and \<open>historian_question_mail\<close>; unless a job names one of these as its output, the
  artifacts that the turns of a run record give no unit at all.\<close>

theorem historian_questions_never_fan_out:
  assumes "\<And>a. a \<in> set (fx_available_artifacts context) \<Longrightarrow>
      \<exists>(turn, result) \<in> set recorded. ah_kind a \<in> set (scheduler_visible_artifact_kinds turn result)"
    "\<And>turn result. (turn, result) \<in> set recorded \<Longrightarrow> set (td_outputs turn) \<inter> set question_kinds = {}"
    "sj_fanout job = ''historian_questions''"
  shows "fe_units (expand_job_fanout sha job context) = [] \<and> fe_issues (expand_job_fanout sha job context) = []"
proof -
  have "\<not> is_question_artifact a" if a: "a \<in> set (fx_available_artifacts context)" for a
  proof -
    obtain turn result where "(turn, result) \<in> set recorded" "ah_kind a \<in> set (scheduler_visible_artifact_kinds turn result)"
      using assms(1) [OF a] by blast
    then show ?thesis
      using recorded_kinds [OF assms(2)] by (auto simp: is_question_artifact_kind)
  qed
  then have "question_units sha job context = []"
    by (simp add: question_units_def filter_empty_conv)
  then show ?thesis
    by (simp add: expand_job_fanout_def assms(3))
qed

definition historian_turn :: runtime_turn_descriptor where
  "historian_turn = sample_turn ''memory.wiki.historian'' ''op'' [''hourly_answer_questions'']"

definition historian_result :: "(unit, unit) wiki_company_agent_turn_result" where
  "historian_result = sample_result ''f'' [\<lparr> nr_status = ''sent'', nr_request_text = ''why?'',
     nr_to = [''role://memory.hourly.answerer''], nr_cc = [], nr_message_id = None, nr_delivery_ids = [],
     nr_mail_receipt = None, nr_error = None \<rparr>]"

definition historian_context :: fanout_context where
  "historian_context = \<lparr> fx_run_id = ''run'', fx_selected_packets = [], fx_refreshed_days = [],
     fx_available_artifacts = [\<lparr> ah_artifact_id = ''i'', ah_kind = ''hourly_answer_questions'', ah_run_id = ''run'',
       ah_key = ''2026-05-01-09-op'', ah_path = ''p'', ah_content_sha256 = ''h'', ah_created_at = ''t'' \<rparr>] \<rparr>"

lemma historian_questions_never_fan_out_witness:
  "scheduler_visible_artifact_kinds historian_turn historian_result = [''hourly_answer_questions''] \<and>
   scheduler_artifact_key historian_turn ''hourly_answer_questions'' = ''2026-05-01-09-op'' \<and>
   parse_question_key_date_hour ''2026-05-01-09-op'' = Some (''2026-05-01'', ''09'') \<and>
   fe_units (expand_job_fanout (\<lambda>s. s) (scheduled_as_ready sample_plan (with_completed_phases ''run'' []) (example_phase ''p'' [])
     (sample_job\<lparr> ej_fanout := ''historian_questions'' \<rparr>)) historian_context) = []"
proof (intro conjI)
  show kinds: "scheduler_visible_artifact_kinds historian_turn historian_result = [''hourly_answer_questions'']"
    by code_simp
  show "fe_units (expand_job_fanout (\<lambda>s. s) (scheduled_as_ready sample_plan (with_completed_phases ''run'' []) (example_phase ''p'' [])
     (sample_job\<lparr> ej_fanout := ''historian_questions'' \<rparr>)) historian_context) = []"
  proof (rule historian_questions_never_fan_out [THEN conjunct1, of _ "[(historian_turn, historian_result)]"])
    show "\<exists>(turn, result) \<in> set [(historian_turn, historian_result)]. ah_kind a \<in> set (scheduler_visible_artifact_kinds turn result)"
      if "a \<in> set (fx_available_artifacts historian_context)" for a
      using that by (simp add: kinds historian_context_def)
    show "set (td_outputs turn) \<inter> set question_kinds = {}"
      if "(turn, result) \<in> set [(historian_turn, historian_result)]" for turn result
      using that literal_kinds(3) by (simp add: historian_turn_def sample_turn_def)
  qed (simp add: scheduled_as_ready_def build_scheduled_job_def Let_def)
qed code_simp+

section \<open>Blocked jobs\<close>

definition abandoned :: "(string \<Rightarrow> string) \<Rightarrow> executable_orchestration_plan \<Rightarrow> wiki_company_run_state \<Rightarrow> string \<Rightarrow> bool" where
  "abandoned sha plan state p \<longleftrightarrow> (\<forall>sreq. sq_completed_phase_ids sreq = ws_completed_phase_ids state \<longrightarrow>
     p \<notin> sj_phase_id ` set (ready_phase_jobs (build_scheduler_run_plan sha plan sreq)))"

text \<open>C27. A job that waits for an input is lost when the other jobs of its phase run first: once the runnable turns
  of a phase without conditional turns are completed, the batch completes the phase, whatever jobs of it
  are blocked, and no later schedule of the run, whatever has become available, has a job of it ready.\<close>

theorem blocked_jobs_abandoned:
  assumes "distinct (map ep_id (op_phases plan))"
    "list_all (\<lambda>ph. list_all (\<lambda>j. ej_phase_id j = ep_id ph) (ep_jobs ph)) (op_phases plan)"
    "runtime = build_runtime_execution_scaffold sha (run_request sha plan sreq fanout context)"
    "p \<in> td_phase_id ` set (rs_runnable_turns runtime)" "p \<notin> td_phase_id ` set (rs_conditional_turns runtime)"
    "completed = map td_operation_id (rs_runnable_turns runtime)"
  shows "abandoned sha plan (fst (complete_batch_phases sha' now paths runtime completed state fs)) p"
proof -
  have in_completed: "p \<in> set (ws_completed_phase_ids (fst (complete_batch_phases sha' now paths runtime completed state fs)))"
    using assms(4,5) unfolding completed_phases_after by (auto simp: batch_completes_def assms(6))
  have "p \<notin> sj_phase_id ` set (ready_phase_jobs (build_scheduler_run_plan sha plan sreq'))"
    if "p \<in> set (sq_completed_phase_ids sreq')" for sreq'
  proof
    assume "p \<in> sj_phase_id ` set (ready_phase_jobs (build_scheduler_run_plan sha plan sreq'))"
    then obtain ph j where ph: "ph \<in> set (op_phases plan)" "phase_may_run plan sreq' ph" "j \<in> set (ep_jobs ph)"
        "p = sj_phase_id (scheduled_as_ready plan sreq' ph j)"
      unfolding ready_jobs_of_plan [OF assms(1)] by auto
    have "p = ep_id ph"
      using ph assms(2) by (simp add: scheduled_as_ready_def build_scheduled_job_def Let_def list_all_iff)
    then show False
      using ph(2) that by (simp add: phase_may_run_def)
  qed
  then show ?thesis
    using in_completed unfolding abandoned_def by metis
qed

text \<open>A phase with a job that can run and one that waits for an artifact.\<close>

definition waiting_job :: executable_phase_job where
  "waiting_job = sample_job\<lparr> ej_job_id := ''waits'', ej_required_artifacts := [''x''] \<rparr>"

definition waiting_plan :: executable_orchestration_plan where
  "waiting_plan = example_plan [(example_phase ''p'' [])\<lparr> ep_jobs := [sample_job, waiting_job] \<rparr>]"

definition first_request :: runtime_execution_scaffold_request where
  "first_request = run_request (\<lambda>s. s) waiting_plan (with_completed_phases ''run'' []) sample_fanout (with_known_artifacts [])"

lemma first_ready_jobs:
  "ready_phase_jobs (rx_schedule first_request) =
     (let ph = (example_phase ''p'' [])\<lparr> ep_jobs := [sample_job, waiting_job] \<rparr>; r = with_completed_phases ''run'' []
      in [scheduled_as_ready waiting_plan r ph sample_job, scheduled_as_ready waiting_plan r ph waiting_job])"
proof -
  have "distinct (map ep_id (op_phases waiting_plan))"
    by code_simp
  moreover have "phase_may_run waiting_plan (with_completed_phases ''run'' [])
      ((example_phase ''p'' [])\<lparr> ep_jobs := [sample_job, waiting_job] \<rparr>)"
    unfolding phase_may_run_def by code_simp
  ultimately show ?thesis
    by (simp add: first_request_def rx_schedule_run_request ready_jobs_of_plan Let_def)
      (simp add: waiting_plan_def example_plan_def)
qed

lemma first_jobs_may_run:
  "job_may_run (with_completed_phases ''run'' []) (with_known_artifacts []) sample_job"
  "\<not> job_may_run (with_completed_phases ''run'' []) (with_known_artifacts []) waiting_job"
  unfolding job_may_run_def by code_simp+

lemma first_turns:
  "td_phase_id ` set (rs_runnable_turns (build_runtime_execution_scaffold (\<lambda>s. s) first_request)) = {''p''}"
  "rs_conditional_turns (build_runtime_execution_scaffold (\<lambda>s. s) first_request) = []"
  "''waits'' \<in> bj_job_id ` set (rs_blocked_jobs (build_runtime_execution_scaffold (\<lambda>s. s) first_request))"
proof -
  define ready where "ready = scheduled_as_ready waiting_plan (with_completed_phases ''run'' [])
    ((example_phase ''p'' [])\<lparr> ep_jobs := [sample_job, waiting_job] \<rparr>)"
  have jobs: "ready_phase_jobs (rx_schedule first_request) = [ready sample_job, ready waiting_job]"
    by (simp add: first_ready_jobs Let_def ready_def)
  have in_true: "job_in ConditionTrue first_request (ready sample_job)" "\<not> job_in ConditionTrue first_request (ready waiting_job)"
    using first_jobs_may_run by (simp_all add: first_request_def ready_def job_in_may_run)
  have missing: "missing_inputs_reason (ready waiting_job) \<noteq> None"
    by (simp add: missing_inputs_None ready_def scheduled_inputs waiting_job_def sample_job_def with_completed_phases_def)
  have in_unknown: "\<not> job_in ConditionUnknown first_request (ready sample_job)" "\<not> job_in ConditionUnknown first_request (ready waiting_job)"
    using in_true(1) missing by (simp_all add: job_in_def)
  have units: "job_units (\<lambda>s. s) first_request (ready sample_job) = [unit_for_once (\<lambda>s. s) (ready sample_job) sample_fanout]"
    by (simp add: job_units_def expand_job_fanout_def ready_def scheduled_as_ready_def build_scheduled_job_def Let_def
        sample_job_def first_request_def rx_fanout_run_request)
  have "ju_phase_id (unit_for_once (\<lambda>s. s) (ready sample_job) sample_fanout) = ''p''"
    by (simp add: unit_for_once_def ready_def scheduled_as_ready_def build_scheduled_job_def Let_def sample_job_def split: prod.split)
  then have "td_phase_id (turn_descriptor (\<lambda>s. s) r (ready sample_job) (unit_for_once (\<lambda>s. s) (ready sample_job) sample_fanout) st c) = ''p''"
    for r st c by (simp add: turn_descriptor_def Let_def)
  then show "td_phase_id ` set (rs_runnable_turns (build_runtime_execution_scaffold (\<lambda>s. s) first_request)) = {''p''}"
    unfolding scaffold_parts jobs by (simp add: selected_def in_true units)
  show "rs_conditional_turns (build_runtime_execution_scaffold (\<lambda>s. s) first_request) = []"
    unfolding scaffold_parts jobs by (simp add: selected_def in_unknown)
  have "sj_job_id (ready waiting_job) = ''waits''"
    by (simp add: ready_def scheduled_as_ready_def build_scheduled_job_def Let_def waiting_job_def)
  moreover obtain reason where "missing_inputs_reason (ready waiting_job) = Some reason"
    using missing by auto
  ultimately show "''waits'' \<in> bj_job_id ` set (rs_blocked_jobs (build_runtime_execution_scaffold (\<lambda>s. s) first_request))"
    unfolding scaffold_blocked jobs by (simp add: job_step_def blocked_job_ids)
qed

lemma blocked_jobs_abandoned_witness:
  "abandoned (\<lambda>s. s) waiting_plan (fst (complete_batch_phases (\<lambda>s. s) ''t'' (paths_new ''r'')
       (build_runtime_execution_scaffold (\<lambda>s. s) first_request)
       (map td_operation_id (rs_runnable_turns (build_runtime_execution_scaffold (\<lambda>s. s) first_request)))
       sample_state \<lparr> rf_files = [], rf_pointer = None \<rparr>)) ''p'' \<and>
   ''waits'' \<in> bj_job_id ` set (rs_blocked_jobs (build_runtime_execution_scaffold (\<lambda>s. s) first_request))"
proof
  show "abandoned (\<lambda>s. s) waiting_plan (fst (complete_batch_phases (\<lambda>s. s) ''t'' (paths_new ''r'')
       (build_runtime_execution_scaffold (\<lambda>s. s) first_request)
       (map td_operation_id (rs_runnable_turns (build_runtime_execution_scaffold (\<lambda>s. s) first_request)))
       sample_state \<lparr> rf_files = [], rf_pointer = None \<rparr>)) ''p''"
  proof (rule blocked_jobs_abandoned)
    show "distinct (map ep_id (op_phases waiting_plan))"
      "list_all (\<lambda>ph. list_all (\<lambda>j. ej_phase_id j = ep_id ph) (ep_jobs ph)) (op_phases waiting_plan)"
      by code_simp+
    show "build_runtime_execution_scaffold (\<lambda>s. s) first_request = build_runtime_execution_scaffold (\<lambda>s. s)
        (run_request (\<lambda>s. s) waiting_plan (with_completed_phases ''run'' []) sample_fanout (with_known_artifacts []))"
      by (simp add: first_request_def)
  qed (simp_all add: first_turns)
qed (rule first_turns)

end
