(* ===== verification/Follow_Ups.thy ===== *)
theory Follow_Ups
  imports Agent_Turns Mail_Store
begin

text \<open>
  The final message of a turn and the requests to other agents in it
  (\<open>crates/onecontext-context-engine/src/agent_execution.rs\<close>): the attempt path of a final message, the section
  \<open>next_agent_requests\<close> of an answer, its recipients, and the mail that is sent for it through the mail store.
  Files are a map from paths to contents; a path has no trailing or doubled separator.
\<close>

section \<open>Data\<close>

record codex_worker_turn_result =
  cw_status :: string
  cw_thread_id :: "string option"
  cw_turn_id :: "string option"
  cw_resumed_thread :: bool
  cw_mail_agent :: "registered_mail_agent option"
  cw_assistant_text :: string
  cw_error :: "string option"
  cw_usage :: "codex_token_usage option"
  cw_rejected_server_requests :: "string list"
  cw_duration_ms :: "64 word"

record final_message_write =
  fm_path :: string
  fm_content_sha256 :: string
  fm_origin :: string

datatype final_message_error =
    EmptyFinalMessage string string
  | NoFilename string
  | NoAttemptDirectory string
  | NoTurnDirectory string
  | NoFreeAttempt string
  | OutsideRoot string string

section \<open>The final message\<close>

definition path_parent_option :: "string \<Rightarrow> string option" where
  "path_parent_option p = (if p = [] \<or> p = ''/'' then None else Some (path_parent p))"

text \<open>\<open>Path::with_extension\<close>: the extension is what follows the last dot that is not the first character.\<close>

definition file_stem :: "string \<Rightarrow> string" where
  "file_stem name = (case rfind_char CHR ''.'' name of None \<Rightarrow> name | Some n \<Rightarrow> if n = 0 then name else take n name)"

definition path_with_extension :: "string \<Rightarrow> string \<Rightarrow> string" where
  "path_with_extension p ext = (case path_file_name p of None \<Rightarrow> p
     | Some name \<Rightarrow> take (length p - length name) p @ file_stem name @ ''.'' @ ext)"

definition attempt_candidate :: "string \<Rightarrow> string \<Rightarrow> nat \<Rightarrow> string" where
  "attempt_candidate turn_dir filename attempt =
     path_join (path_join turn_dir (''attempt-'' @ decimal_padded 4 attempt)) filename"

text \<open>The loop \<open>for attempt in 2..=9999\<close>: the first attempt from the given one on whose path is free.\<close>

function attempt_loop :: "(string, string) btree_map \<Rightarrow> string \<Rightarrow> string \<Rightarrow> nat \<Rightarrow> nat option" where
  "attempt_loop files turn_dir filename attempt =
     (if attempt > 9999 then None
      else if \<not> bt_contains files (attempt_candidate turn_dir filename attempt) then Some attempt
      else attempt_loop files turn_dir filename (attempt + 1))"
  by pat_completeness auto
termination
  by (relation "measure (\<lambda>(files, turn_dir, filename, attempt). 10000 - attempt)") auto

declare attempt_loop.simps [simp del]

definition next_available_final_message_path :: "(string, string) btree_map \<Rightarrow> string \<Rightarrow>
    final_message_error + string" where
  "next_available_final_message_path files requested_path =
     (if \<not> bt_contains files requested_path then Inr requested_path
      else try_then (ok_or (path_file_name requested_path) (NoFilename requested_path)) (\<lambda>filename.
           try_then (ok_or (path_parent_option requested_path) (NoAttemptDirectory requested_path)) (\<lambda>attempt_dir.
           try_then (ok_or (path_parent_option attempt_dir) (NoTurnDirectory requested_path)) (\<lambda>turn_dir.
           case attempt_loop files turn_dir filename 2 of
             Some attempt \<Rightarrow> Inr (attempt_candidate turn_dir filename attempt)
           | None \<Rightarrow> Inl (NoFreeAttempt turn_dir)))))"

text \<open>\<open>Path::components\<close> as texts: the root, a leading dot, then the names.\<close>

definition path_components :: "string \<Rightarrow> string list" where
  "path_components p = (let parts = split_on (\<lambda>c. c = CHR ''/'') p
     in (if take 1 p = ''/'' then [''/''] else if hd parts = ''.'' then [''.''] else []) @
        filter (\<lambda>c. c \<noteq> [] \<and> c \<noteq> ''.'') parts)"

definition path_relative_to_root :: "context_engine_paths \<Rightarrow> string \<Rightarrow> final_message_error + string" where
  "path_relative_to_root paths path = (
     let root = path_components (ce_root paths); comps = path_components path
     in if take (length root) comps = root then Inr (str_join ''/'' (drop (length root) comps))
        else Inl (OutsideRoot path (ce_root paths)))"

definition assign_available_final_message_path :: "context_engine_paths \<Rightarrow> (string, string) btree_map \<Rightarrow>
    harness_turn_request \<Rightarrow> final_message_error + harness_turn_request" where
  "assign_available_final_message_path paths files request =
     try_then (next_available_final_message_path files
       (path_join (ce_root paths) (hq_final_message_path (ht_required_receipts request)))) (\<lambda>path.
     try_then (path_relative_to_root paths path) (\<lambda>relative.
       Inr (request\<lparr> ht_required_receipts := (ht_required_receipts request)\<lparr> hq_final_message_path := relative \<rparr> \<rparr>)))"

definition sha256_text :: "(string \<Rightarrow> string) \<Rightarrow> string \<Rightarrow> string" where
  "sha256_text sha v = hex_lower (sha v)"

definition short_hash :: "(string \<Rightarrow> string) \<Rightarrow> string \<Rightarrow> nat \<Rightarrow> string" where
  "short_hash sha v chars = take chars (sha256_text sha v)"

definition write_final_message :: "(string \<Rightarrow> string) \<Rightarrow> context_engine_paths \<Rightarrow> harness_turn_request \<Rightarrow>
    codex_worker_turn_result \<Rightarrow> (string, string) btree_map \<Rightarrow>
    (final_message_error + final_message_write) \<times> (string, string) btree_map" where
  "write_final_message sha paths request worker files =
     (if str_trim (cw_assistant_text worker) = []
      then (Inl (EmptyFinalMessage (ht_operation_id request) (cw_status worker)), files)
      else st_try (next_available_final_message_path files
             (path_join (ce_root paths) (hq_final_message_path (ht_required_receipts request)))) files (\<lambda>path.
           let body = cw_assistant_text worker; hash = sha256_text sha body
           in (Inr \<lparr> fm_path = path, fm_content_sha256 = hash, fm_origin = ''model_output'' \<rparr>,
               bt_insert (path_with_extension path ''sha256'') (hash @ newline) (bt_insert path body files))))"

section \<open>The requests in an answer\<close>

definition trim_end_matches :: "char \<Rightarrow> string \<Rightarrow> string" where
  "trim_end_matches c s = rev (dropWhile (\<lambda>d. d = c) (rev s))"

definition trim_set :: "string \<Rightarrow> string \<Rightarrow> string" where
  "trim_set cs s = rev (dropWhile (\<lambda>d. d \<in> set cs) (rev (dropWhile (\<lambda>d. d \<in> set cs) s)))"

definition normalized_heading_key :: "string \<Rightarrow> string" where
  "normalized_heading_key line = replace_chars '' -'' CHR ''_''
     (ascii_lower (trim_end_matches CHR '':'' (str_trim (dropWhile (\<lambda>c. c = CHR ''#'') line))))"

definition is_next_agent_requests_heading :: "string \<Rightarrow> bool" where
  "is_next_agent_requests_heading line \<longleftrightarrow> normalized_heading_key line = ''next_agent_requests''"

definition section_keys :: "string list" where
  "section_keys = [''status'', ''evidence'', ''page_change_summary'', ''link_and_page_intent'', ''topic_page_decisions'',
     ''contradictions_or_stale_claims'', ''decisions'', ''proposed_wiki_talk'', ''next_state_machine_event'']"

definition is_section_boundary :: "string \<Rightarrow> bool" where
  "is_section_boundary line \<longleftrightarrow> line \<noteq> [] \<and>
     (normalized_heading_key line \<in> set section_keys \<or>
      hd line = CHR ''#'' \<and> normalized_heading_key line \<noteq> ''next_agent_requests'')"

definition strip_list_marker :: "string \<Rightarrow> string option" where
  "strip_list_marker line = (case strip_prefix ''- '' line of Some r \<Rightarrow> Some (str_trim r)
     | None \<Rightarrow> (case strip_prefix ''* '' line of Some r \<Rightarrow> Some (str_trim r)
     | None \<Rightarrow> (case strip_prefix ''+ '' line of Some r \<Rightarrow> Some (str_trim r)
     | None \<Rightarrow> (case split_once_text ''. '' line of None \<Rightarrow> None
         | Some (digits, rest) \<Rightarrow> if list_all is_ascii_digit digits then Some (str_trim rest) else None))))"

definition is_empty_next_agent_request :: "string \<Rightarrow> bool" where
  "is_empty_next_agent_request v \<longleftrightarrow> ascii_lower (trim_set ''<>.-'' (str_trim v)) \<in>
     set ['''', ''none'', ''no requests'', ''n/a'', ''na'', ''no next agent requests'']"

fun parse_request_lines :: "bool \<Rightarrow> string list \<Rightarrow> string list \<Rightarrow> string list" where
  "parse_request_lines in_section requests [] = requests"
| "parse_request_lines in_section requests (line # ls) = (let trimmed = str_trim line in
     if is_next_agent_requests_heading trimmed then parse_request_lines True requests ls
     else if \<not> in_section then parse_request_lines in_section requests ls
     else if is_section_boundary trimmed then requests
     else if trimmed = [] then parse_request_lines in_section requests ls
     else case strip_list_marker trimmed of
       Some item \<Rightarrow> parse_request_lines in_section
         (if is_empty_next_agent_request item then requests else requests @ [item]) ls
     | None \<Rightarrow> parse_request_lines in_section
         (if requests \<noteq> [] then butlast requests @ [last requests @ '' '' @ trimmed]
          else if \<not> is_empty_next_agent_request trimmed then requests @ [trimmed] else requests) ls)"

definition parse_next_agent_requests :: "string \<Rightarrow> string list" where
  "parse_next_agent_requests text = parse_request_lines False [] (str_lines text)"

section \<open>Recipients\<close>

datatype follow_up_error = AmbiguousCurator | NoKnownTarget | FollowUpNotSent mail_error

text \<open>\<open>str::split\<close> at characters.\<close>

fun split_chars :: "(string \<Rightarrow> bool) \<Rightarrow> string list \<Rightarrow> string list" where
  "split_chars p [] = [[]]"
| "split_chars p (c # cs) = (if p c then [] # split_chars p cs
     else (case split_chars p cs of [] \<Rightarrow> [c] | w # ws \<Rightarrow> (c @ w) # ws))"

definition address_separator :: "string \<Rightarrow> bool" where
  "address_separator ch \<longleftrightarrow> is_whitespace ch \<or> ch \<in> (\<lambda>c. [c]) ` set '',;)([]{}''"

definition address_quotes :: string where
  "address_quotes = ''.:'' @ [CHR 0x22, CHR 0x27, CHR 0x60]"

definition explicit_mail_addresses :: "mail_env \<Rightarrow> string \<Rightarrow> string list" where
  "explicit_mail_addresses env v = bset (filter
     (\<lambda>candidate. str_contains candidate ''://'' \<and>
        (case parse_address (env_url env) candidate of Inl _ \<Rightarrow> False | Inr _ \<Rightarrow> True))
     (map (\<lambda>token. str_trim (trim_set address_quotes token)) (split_chars address_separator (utf8_chars v))))"

definition role_aliases :: "(string \<times> string) list" where
  "role_aliases = [(''for you curator'', ''role://memory.wiki.for_you_curator''),
     (''context curator'', ''role://memory.wiki.context_curator''), (''librarian'', ''role://memory.wiki.librarian''),
     (''biographer'', ''role://memory.wiki.biographer''), (''historian'', ''role://memory.wiki.historian''),
     (''hourly answerer'', ''role://memory.hourly.answerer''), (''answerer'', ''role://memory.hourly.answerer''),
     (''for you editor'', ''role://memory.wiki.for_you_editor''), (''editor'', ''role://memory.wiki.for_you_editor''),
     (''scribe'', ''role://memory.hourly.scribe'')]"

definition resolve_next_agent_request_targets :: "mail_env \<Rightarrow> string \<Rightarrow> follow_up_error + string list" where
  "resolve_next_agent_request_targets env request_text = (
     let explicit = explicit_mail_addresses env request_text in
     if explicit \<noteq> [] then Inr explicit
     else let lower = replace_chars ''_-'' CHR '' '' (ascii_lower request_text);
              targets = bset (map snd (filter (\<lambda>(needle, address). str_contains lower needle) role_aliases))
          in if str_contains lower ''curator'' \<and> targets = [] then Inl AmbiguousCurator
             else if targets = [] then Inl NoKnownTarget else Inr targets)"

definition follow_up_cc_addresses :: "string list" where
  "follow_up_cc_addresses = [''list://wiki-company'']"

definition follow_up_page_ref :: "string list \<Rightarrow> message_page_ref option" where
  "follow_up_page_ref targets = map_option (\<lambda>page_id. \<lparr> mp_id = page_id, mp_route = ''mailbox://page/'' @ page_id \<rparr>)
     (find_map (strip_prefix ''mailbox://page/'') targets)"

definition normalize_mail_addresses :: "mail_env \<Rightarrow> string list \<Rightarrow> string list \<times> string list" where
  "normalize_mail_addresses env addresses =
     partition (\<lambda>a. case parse_address (env_url env) a of Inl _ \<Rightarrow> False | Inr _ \<Rightarrow> True) addresses"

definition job_default_talk_page :: "string \<Rightarrow> string option" where
  "job_default_talk_page job_id =
     (if str_contains job_id ''context_curator'' \<or> str_contains job_id ''biographer'' then Some ''your-context''
      else if str_contains job_id ''librarian'' \<or> str_contains job_id ''concept'' \<or> str_contains job_id ''contradiction''
      then Some ''topics'' else Some ''for-you'')"

definition talk_page_for_request :: "harness_turn_request \<Rightarrow> string" where
  "talk_page_for_request request =
     (case find_map (strip_prefix ''mailbox://page/'') (hk_to (ht_talk_report request) @ hk_cc (ht_talk_report request)) of
        Some p \<Rightarrow> p
      | None \<Rightarrow> (case job_default_talk_page (hj_id (ht_job request)) of Some p \<Rightarrow> p | None \<Rightarrow> ''for-you''))"

definition harness_talk_report_operation_id :: "string \<Rightarrow> string" where
  "harness_talk_report_operation_id operation_id = operation_id @ '':harness-final-report''"

section \<open>Sending the requests\<close>

definition render_next_agent_request_body :: "harness_turn_request \<Rightarrow> string \<Rightarrow> string \<Rightarrow> talk_mail_receipt \<Rightarrow>
    registered_mail_agent \<Rightarrow> string" where
  "render_next_agent_request_body request request_text message_file parent agent =
     ''## Next Agent Request'' @ lines2 @ request_text @ lines2 @ ''## Source'' @ lines2 @
     ''- source_job_id: '' @ hj_id (ht_job request) @ newline @
     ''- source_agent_id: '' @ ha_id (ht_agent request) @ newline @
     ''- source_mail_agent_id: '' @ ra_agent_id agent @ newline @
     ''- source_primary_address: '' @ ra_primary_address agent @ newline @
     ''- operation_id: '' @ ht_operation_id request @ newline @
     ''- final_message_path: '' @ message_file @ newline @
     ''- parent_message_id: '' @ tm_message_id parent @ newline @
     ''- parent_talk_receipt: '' @ tm_talk_receipt parent @ newline @
     ''- parent_mail_receipt: '' @ or_default ''none'' (tm_mail_receipt parent) @ newline"

definition stable_mail_message_id :: "(string \<Rightarrow> string) \<Rightarrow> string \<Rightarrow> string" where
  "stable_mail_message_id sha v = ''mailmsg_'' @ short_hash sha v 20"

definition follow_up_message_id :: "mail_env \<Rightarrow> harness_turn_request \<Rightarrow> nat \<Rightarrow> string \<Rightarrow> string" where
  "follow_up_message_id env request index request_text = stable_mail_message_id (env_sha env)
     (ht_operation_id request @ '':'' @ decimal index @ '':'' @ request_text)"

definition follow_up_envelope :: "mail_env \<Rightarrow> string \<Rightarrow> harness_turn_request \<Rightarrow> talk_mail_receipt \<Rightarrow>
    registered_mail_agent \<Rightarrow> nat \<Rightarrow> string \<Rightarrow> string list \<Rightarrow> string \<Rightarrow> message_envelope" where
  "follow_up_envelope env now request parent agent index request_text targets body =
     \<lparr> me_schema_version = 1, me_message_id = follow_up_message_id env request index request_text,
       me_idempotency_key = ht_operation_id request @ '':next-agent-request:'' @ decimal index @ '':'' @
         short_hash (env_sha env) request_text 12,
       me_kind = ''agent_request'', me_subject = ''Next agent request from '' @ hj_label (ht_job request),
       me_from = ra_primary_address agent, me_to = targets, me_cc = follow_up_cc_addresses,
       me_page = follow_up_page_ref targets, me_thread_id = hk_thread_id (ht_talk_report request),
       me_reply_to = Some (tm_message_id parent),
       me_body = \<lparr> mb_format = ''markdown'', mb_sha256 = sha256_text (env_sha env) body \<rparr>,
       me_attachments = [], me_created_at = now \<rparr>"

definition delivered_ids :: "mail_send_receipt \<Rightarrow> string list" where
  "delivered_ids r = map da_delivery_id
     (filter (\<lambda>a. da_status a = Delivered \<or> da_status a = AlreadyDelivered) (mr_attempts r))"

definition skipped_request :: "string \<Rightarrow> follow_up_error \<Rightarrow> follow_up_error next_agent_request_receipt" where
  "skipped_request request_text e = \<lparr> nr_status = ''skipped'', nr_request_text = request_text, nr_to = [], nr_cc = [],
     nr_message_id = None, nr_delivery_ids = [], nr_mail_receipt = None, nr_error = Some e \<rparr>"

text \<open>One pass of the loop over the requests. The clock is read once per request.\<close>

definition dispatch_one :: "mail_env \<Rightarrow> string \<Rightarrow> harness_turn_request \<Rightarrow> string \<Rightarrow> talk_mail_receipt \<Rightarrow>
    registered_mail_agent \<Rightarrow> nat \<Rightarrow> string \<Rightarrow> mail_store \<Rightarrow>
    follow_up_error next_agent_request_receipt \<times> mail_store" where
  "dispatch_one env now request message_file parent agent index request_text s =
     (case resolve_next_agent_request_targets env request_text of
        Inl e \<Rightarrow> (skipped_request request_text e, s)
      | Inr targets \<Rightarrow>
          let body = render_next_agent_request_body request request_text message_file parent agent;
              message_id = follow_up_message_id env request index request_text;
              envelope = follow_up_envelope env now request parent agent index request_text targets body;
              receipt = \<lparr> nr_status = ''failed'', nr_request_text = request_text, nr_to = targets,
                nr_cc = follow_up_cc_addresses, nr_message_id = Some message_id, nr_delivery_ids = [],
                nr_mail_receipt = None, nr_error = None \<rparr>
          in case send_mail env envelope body None s of
               (Inl e, s') \<Rightarrow> (receipt\<lparr> nr_error := Some (FollowUpNotSent e) \<rparr>, s')
             | (Inr r, s') \<Rightarrow> let ids = delivered_ids r in
                 (receipt\<lparr> nr_status := (if ids = [] then ''deferred'' else ''sent''), nr_delivery_ids := ids,
                    nr_mail_receipt := (case ids of [] \<Rightarrow> None
                      | i # _ \<Rightarrow> Some (''agent-mail://'' @ message_id @ ''/'' @ i)) \<rparr>, s'))"

fun dispatch_requests :: "mail_env \<Rightarrow> (nat \<Rightarrow> string) \<Rightarrow> harness_turn_request \<Rightarrow> string \<Rightarrow> talk_mail_receipt \<Rightarrow>
    registered_mail_agent \<Rightarrow> nat \<Rightarrow> string list \<Rightarrow> mail_store \<Rightarrow>
    follow_up_error next_agent_request_receipt list \<times> mail_store" where
  "dispatch_requests env clock request path parent agent index [] s = ([], s)"
| "dispatch_requests env clock request path parent agent index (t # ts) s =
     (let (r, s1) = dispatch_one env (clock index) request path parent agent index t s;
          (rs, s2) = dispatch_requests env clock request path parent agent (Suc index) ts s1
      in (r # rs, s2))"

definition dispatch_next_agent_requests :: "mail_env \<Rightarrow> (nat \<Rightarrow> string) \<Rightarrow> harness_turn_request \<Rightarrow>
    codex_worker_turn_result \<Rightarrow> string \<Rightarrow> talk_mail_receipt \<Rightarrow> registered_mail_agent \<Rightarrow> mail_store \<Rightarrow>
    follow_up_error next_agent_request_receipt list \<times> mail_store" where
  "dispatch_next_agent_requests env clock request worker path parent agent s =
     dispatch_requests env clock request path parent agent 0
       (parse_next_agent_requests (cw_assistant_text worker)) s"

end
