(* ===== verification/Follow_Up_Properties.thy ===== *)
theory Follow_Up_Properties
  imports Follow_Ups Mail_Sending
begin

text \<open>
  What final messages and the requests in them guarantee: no message is overwritten, the section of requests
  reads back, every request has one receipt, and where a retry goes wrong.
\<close>

section \<open>Final messages\<close>

lemma attempt_loop_Some: "attempt_loop files dir name a = Some n \<longleftrightarrow>
    a \<le> n \<and> n \<le> 9999 \<and> \<not> bt_contains files (attempt_candidate dir name n) \<and>
    (\<forall>m. a \<le> m \<and> m < n \<longrightarrow> bt_contains files (attempt_candidate dir name m))"
proof (induction files dir name a rule: attempt_loop.induct)
  case (1 files dir name a)
  consider "a > 9999" | "a \<le> 9999" "\<not> bt_contains files (attempt_candidate dir name a)"
    | "a \<le> 9999" "bt_contains files (attempt_candidate dir name a)"
    by linarith
  then show ?case
  proof cases
    case 2
    then show ?thesis
      by (subst attempt_loop.simps) (auto dest: le_neq_implies_less)
  next
    case 3
    then have "attempt_loop files dir name a = attempt_loop files dir name (a + 1)"
      by (subst attempt_loop.simps) simp
    then show ?thesis
      using 1 3 by (simp add: Suc_le_eq) (metis le_eq_less_or_eq)
  qed (subst attempt_loop.simps, auto)
qed

lemma next_available_fresh: "next_available_final_message_path files p = Inr q \<Longrightarrow> \<not> bt_contains files q"
  unfolding next_available_final_message_path_def result_simps
  by (auto simp: result_simps attempt_loop_Some split: if_splits option.splits)

definition message_kept :: "(string, string) btree_map \<Rightarrow> (string, string) btree_map \<Rightarrow> string \<Rightarrow> bool" where
  "message_kept files files' p \<longleftrightarrow> bt_get files p = None \<or> bt_get files' p = bt_get files p"

text \<open>A final message is never overwritten: a successful write stores exactly the worker's text, under a path that had no
  file, unless the file is named like its own hash file; the hash recorded is the hash of the text, and every other
  file stays as it was, except a hash file left behind without its message.\<close>

theorem final_message_write_fresh:
  assumes "bt_wf files" "write_final_message sha paths request worker files = (Inr w, files')"
  shows "bt_get files (fm_path w) = None \<and> fm_content_sha256 w = hex_lower (sha (cw_assistant_text worker)) \<and>
     bt_get files' (path_with_extension (fm_path w) ''sha256'') = Some (fm_content_sha256 w @ newline) \<and>
     (path_with_extension (fm_path w) ''sha256'' = fm_path w \<or>
      bt_get files' (fm_path w) = Some (cw_assistant_text worker)) \<and>
     (p = path_with_extension (fm_path w) ''sha256'' \<or> message_kept files files' p)"
proof -
  obtain path where path: "next_available_final_message_path files
        (path_join (ce_root paths) (hq_final_message_path (ht_required_receipts request))) = Inr path"
      and w: "fm_path w = path" "fm_content_sha256 w = sha256_text sha (cw_assistant_text worker)"
      and files': "files' = bt_insert (path_with_extension path ''sha256'') (fm_content_sha256 w @ newline)
        (bt_insert path (cw_assistant_text worker) files)"
    using assms(2) by (auto simp: write_final_message_def result_simps Let_def split: if_splits)
  have "bt_get files path = None"
    using next_available_fresh [OF path] by (simp add: bt_contains_def)
  then show ?thesis
    using assms(1) by (auto simp: files' w sha256_text_def message_kept_def)
qed

lemma path_join_plain: "base \<noteq> [] \<Longrightarrow> last base \<noteq> CHR ''/'' \<Longrightarrow> name \<noteq> [] \<Longrightarrow> CHR ''/'' \<notin> set name \<Longrightarrow>
    path_join base name = base @ CHR ''/'' # name"
  by (cases name) (auto simp: path_join_def)

lemma parent_below: "base \<noteq> [] \<Longrightarrow> name \<noteq> [] \<Longrightarrow> CHR ''/'' \<notin> set name \<Longrightarrow>
    path_parent_option (base @ CHR ''/'' # name) = Some base"
  using path_parent_below [of base name] by (auto simp: path_parent_option_def append_eq_Cons_conv)

definition plain_name :: "string \<Rightarrow> bool" where
  "plain_name name \<longleftrightarrow> name \<noteq> [] \<and> name \<noteq> ''.'' \<and> name \<noteq> ''..'' \<and> CHR ''/'' \<notin> set name"

lemma file_name_below: "plain_name name \<Longrightarrow> path_file_name (base @ CHR ''/'' # name) = Some name"
proof -
  assume name: "plain_name name"
  then have "split_on (\<lambda>c. c = CHR ''/'') name = [name]"
    by (intro split_on_none) (auto simp: plain_name_def)
  then have "split_on (\<lambda>c. c = CHR ''/'') (base @ CHR ''/'' # name) = split_on (\<lambda>c. c = CHR ''/'') base @ [name]"
    using split_on_append [of "\<lambda>c. c = CHR ''/''" "CHR ''/''" base name] by simp
  then show ?thesis
    using name unfolding path_file_name_def Let_def plain_name_def by simp
qed

definition attempt_name :: "nat \<Rightarrow> string" where "attempt_name n = ''attempt-'' @ decimal_padded 4 n"

lemma attempt_name_plain: "attempt_name n \<noteq> []" "CHR ''/'' \<notin> set (attempt_name n)"
proof -
  have "CHR ''/'' \<notin> set (decimal n)"
    using decimal_digits [of "CHR ''/''" n] by (auto simp: is_ascii_digit_bits)
  then show "CHR ''/'' \<notin> set (attempt_name n)"
    by (auto simp: attempt_name_def decimal_padded_def Let_def)
qed (simp add: attempt_name_def)

lemma attempt_candidate_eq:
  assumes "turn_dir \<noteq> []" "last turn_dir \<noteq> CHR ''/''" "plain_name name"
  shows "attempt_candidate turn_dir name n = (turn_dir @ CHR ''/'' # attempt_name n) @ CHR ''/'' # name"
proof -
  have "path_join turn_dir (attempt_name n) = turn_dir @ CHR ''/'' # attempt_name n"
    using assms by (intro path_join_plain) (auto simp: attempt_name_plain)
  moreover have "last (attempt_name n) \<noteq> CHR ''/''"
    using attempt_name_plain [of n] last_in_set by metis
  ultimately show ?thesis
    using assms path_join_plain [of "turn_dir @ CHR ''/'' # attempt_name n" name] attempt_name_plain [of n]
    unfolding attempt_candidate_def attempt_name_def [symmetric] by (simp only: plain_name_def) simp
qed

lemma attempt_name_inj: "attempt_name m = attempt_name n \<Longrightarrow> m = n"
  unfolding attempt_name_def by (metis decimal_padded_value same_append_eq)

lemma some_attempt_free:
  assumes "turn_dir \<noteq> []" "last turn_dir \<noteq> CHR ''/''" "plain_name name" "length files < 9999"
  shows "\<exists>n \<in> {1..9999}. \<not> bt_contains files (attempt_candidate turn_dir name n)"
proof (rule ccontr)
  assume "\<not> ?thesis"
  then have "attempt_candidate turn_dir name ` {1..9999} \<subseteq> fst ` set files"
    by (auto simp: bt_contains_def bt_get_def map_of_eq_None_iff)
  moreover have "inj_on (attempt_candidate turn_dir name) {1..9999}"
    using attempt_name_inj by (auto simp: inj_on_def attempt_candidate_eq [OF assms(1-3)])
  ultimately have "card {1..9999 :: nat} \<le> card (fst ` set files)"
    by (metis card_image card_mono finite_imageI finite_set)
  also have "\<dots> \<le> length files"
    by (metis card_image_le card_length finite_set le_trans)
  finally show False
    using assms(4) by simp
qed

text \<open>A turn always finds a place for its final message, unless thousands of attempts were made: while there are
  fewer than 9999 files, the path chosen for the first attempt of a turn is the path of the smallest attempt number
  that is free.\<close>

theorem attempt_search_succeeds:
  assumes "turn_dir \<noteq> []" "last turn_dir \<noteq> CHR ''/''" "plain_name name" "length files < 9999"
  shows "\<exists>n. n \<in> {1..9999} \<and>
     next_available_final_message_path files (attempt_candidate turn_dir name 1) = Inr (attempt_candidate turn_dir name n) \<and>
     \<not> bt_contains files (attempt_candidate turn_dir name n) \<and>
     list_all (\<lambda>m. bt_contains files (attempt_candidate turn_dir name m)) [1..<n]"
proof (cases "bt_contains files (attempt_candidate turn_dir name 1)")
  case False
  then show ?thesis
    by (intro exI [of _ 1]) (simp add: next_available_final_message_path_def)
next
  case True
  let ?taken = "\<lambda>m. bt_contains files (attempt_candidate turn_dir name m)"
  obtain k where "k \<in> {1..9999}" "\<not> ?taken k"
    using some_attempt_free [OF assms] by blast
  define n where "n = (LEAST m. 2 \<le> m \<and> \<not> ?taken m)"
  have k: "2 \<le> k \<and> \<not> ?taken k"
    using True \<open>k \<in> _\<close> \<open>\<not> ?taken k\<close> by (cases "k = 1") auto
  then have n: "2 \<le> n \<and> \<not> ?taken n" "n \<le> k"
    unfolding n_def by (rule LeastI, rule Least_le)
  have below: "?taken m" if "2 \<le> m \<and> m < n" for m
    using not_less_Least [of m "\<lambda>m. 2 \<le> m \<and> \<not> ?taken m"] that by (auto simp: n_def)
  then have found: "attempt_loop files turn_dir name 2 = Some n"
    using n \<open>k \<in> _\<close> by (auto simp: attempt_loop_Some)
  have parents: "path_file_name (attempt_candidate turn_dir name 1) = Some name"
      "path_parent_option (attempt_candidate turn_dir name 1) = Some (turn_dir @ CHR ''/'' # attempt_name 1)"
      "path_parent_option (turn_dir @ CHR ''/'' # attempt_name 1) = Some turn_dir"
    using file_name_below [OF assms(3)] parent_below [of "turn_dir @ CHR ''/'' # attempt_name 1" name]
      parent_below [of turn_dir "attempt_name 1"] assms(1,3) attempt_name_plain [of 1]
    unfolding attempt_candidate_eq [OF assms(1-3)] by (simp_all only: plain_name_def) simp_all
  have "list_all ?taken [1..<n]"
    using below True n by (auto simp: list_all_iff) (metis One_nat_def Suc_1 Suc_leI le_neq_implies_less)
  then show ?thesis
    using n \<open>k \<in> _\<close> True by (intro exI [of _ n])
      (simp add: next_available_final_message_path_def parents [unfolded One_nat_def] found ok_or_def)
qed

section \<open>The requests in an answer\<close>

definition plain_line :: "string \<Rightarrow> bool" where
  "plain_line l \<longleftrightarrow> char_of (10 :: nat) \<notin> set l \<and> strip_cr l = l"

definition text_of_lines :: "string list \<Rightarrow> string" where
  "text_of_lines ls = concat (map (\<lambda>l. l @ newline) ls)"

text \<open>Text that \<open>str::trim\<close> leaves alone and that starts with a character.\<close>

definition trimmed_text :: "string \<Rightarrow> bool" where
  "trimmed_text t \<longleftrightarrow> t \<noteq> [] \<and> \<not> utf8_continuation (hd t) \<and> \<not> is_whitespace (hd (utf8_chars t)) \<and>
     \<not> is_whitespace (last (utf8_chars t))"

definition request_item :: "string \<Rightarrow> bool" where
  "request_item r \<longleftrightarrow> plain_line r \<and> trimmed_text r \<and> \<not> is_empty_next_agent_request r"

lemma str_lines_of: "list_all plain_line ls \<Longrightarrow> str_lines (text_of_lines ls) = ls"
proof -
  assume plain: "list_all plain_line ls"
  have "split_on (\<lambda>c. c = char_of (10 :: nat)) (text_of_lines ls) = ls @ [[]]"
    using plain
  proof (induction ls)
    case (Cons l ls)
    have "split_on (\<lambda>c. c = char_of (10 :: nat)) (l @ char_of (10 :: nat) # text_of_lines ls) =
        split_on (\<lambda>c. c = char_of (10 :: nat)) l @ split_on (\<lambda>c. c = char_of (10 :: nat)) (text_of_lines ls)"
      by (rule split_on_append) simp
    moreover have "split_on (\<lambda>c. c = char_of (10 :: nat)) l = [l]"
      using Cons.prems by (intro split_on_none) (auto simp: plain_line_def)
    ultimately show ?case
      using Cons by (simp add: text_of_lines_def newline_def)
  qed (simp add: text_of_lines_def)
  then show ?thesis
    using plain by (auto simp: str_lines_def Let_def butlast_append plain_line_def list_all_iff intro: map_idI)
qed

lemma utf8_chars_Nil_iff: "utf8_chars s = [] \<longleftrightarrow> s = []"
  by (cases s) auto

lemma trim_id: "trimmed_text t \<Longrightarrow> str_trim t = t"
proof -
  assume t: "trimmed_text t"
  obtain c cs where chars: "utf8_chars t = c # cs"
    using t utf8_chars_Nil_iff [of t] by (cases "utf8_chars t") (auto simp: trimmed_text_def)
  then have "trim_start t = t"
    using t concat_utf8_chars [of t] unfolding trim_start_def trimmed_text_def by simp
  moreover have "dropWhile is_whitespace (rev (utf8_chars t)) = rev (utf8_chars t)"
    using t utf8_chars_Nil_iff [of t]
    by (intro dropWhile_eq_self_iff [THEN iffD2]) (simp add: trimmed_text_def hd_rev)
  ultimately show ?thesis
    by (simp add: str_trim_def trim_end_def)
qed

lemma bullet_chars: "trimmed_text r \<Longrightarrow> utf8_chars (''- '' @ r) = ''-'' # '' '' # utf8_chars r"
  by (cases r) (auto simp: trimmed_text_def utf8_continuation_bits)

lemma bullet_trimmed: "trimmed_text r \<Longrightarrow> trimmed_text (''- '' @ r)"
  unfolding trimmed_text_def [of "''- '' @ r"] using bullet_chars [of r] utf8_chars_Nil_iff [of r]
  by (simp add: trimmed_text_def utf8_continuation_bits is_whitespace_bits plain_space_def)

lemma trim_end_matches_keeps: "a \<noteq> [] \<Longrightarrow> last a \<noteq> c \<Longrightarrow> \<exists>b'. trim_end_matches c (a @ b) = a @ b'"
proof -
  assume a: "a \<noteq> []" "last a \<noteq> c"
  have "dropWhile (\<lambda>d. d = c) (rev a) = rev a"
    using a by (intro dropWhile_eq_self_iff [THEN iffD2]) (simp add: hd_rev)
  then have "dropWhile (\<lambda>d. d = c) (rev b @ rev a) = dropWhile (\<lambda>d. d = c) (rev b) @ rev a"
    by (cases "\<forall>d \<in> set b. d = c") (auto simp: dropWhile_append)
  then show ?thesis
    by (auto simp: trim_end_matches_def)
qed

lemma bullet_nonempty: "((''- '' @ r) = []) = False"
  by simp

lemma bullet_key: "trimmed_text r \<Longrightarrow> \<exists>x. normalized_heading_key (''- '' @ r) = CHR ''_'' # x"
proof -
  assume r: "trimmed_text r"
  obtain b where "trim_end_matches CHR '':'' (''- '' @ r) = ''- '' @ b"
    using trim_end_matches_keeps [of "''- ''" "CHR '':''" r] by auto
  moreover have "dropWhile (\<lambda>c. c = CHR ''#'') (''- '' @ r) = ''- '' @ r"
    by simp
  ultimately have "normalized_heading_key (''- '' @ r) = replace_chars '' -'' CHR ''_'' (ascii_lower (''- '' @ b))"
    using trim_id [OF bullet_trimmed [OF r]] by (simp only: normalized_heading_key_def)
  then show ?thesis
    by (auto simp: replace_chars_def ascii_lower_def)
qed

lemma bullet_plain:
  assumes "trimmed_text r"
  shows "\<not> is_next_agent_requests_heading (''- '' @ r)" "\<not> is_section_boundary (''- '' @ r)"
proof -
  obtain x where key: "normalized_heading_key (''- '' @ r) = CHR ''_'' # x"
    using bullet_key [OF assms] by blast
  show "\<not> is_next_agent_requests_heading (''- '' @ r)"
    unfolding is_next_agent_requests_heading_def key by simp
  show "\<not> is_section_boundary (''- '' @ r)"
    unfolding is_section_boundary_def key section_keys_def by simp
qed

lemma bullet_item: "trimmed_text r \<Longrightarrow> strip_list_marker (''- '' @ r) = Some r"
proof -
  assume "trimmed_text r"
  moreover have "strip_prefix ''- '' (''- '' @ r) = Some r"
    by (simp only: strip_prefix_Some)
  ultimately show ?thesis
    unfolding strip_list_marker_def by (simp only: option.case trim_id)
qed

lemma parse_bullets:
  assumes "list_all request_item rs"
  shows "parse_request_lines True acc (map (\<lambda>r. ''- '' @ r) rs @ rest) = parse_request_lines True (acc @ rs) rest"
  using assms
proof (induction rs arbitrary: acc)
  case (Cons r rs)
  have shape: "map (\<lambda>r. ''- '' @ r) (r # rs) @ rest = (''- '' @ r) # (map (\<lambda>r. ''- '' @ r) rs @ rest)"
    by (simp only: list.map append_Cons)
  from Cons have r: "trimmed_text r" "\<not> is_empty_next_agent_request r"
    by (auto simp: request_item_def)
  have step: "parse_request_lines True acc ((''- '' @ r) # map (\<lambda>r. ''- '' @ r) rs @ rest) =
      parse_request_lines True (acc @ [r]) (map (\<lambda>r. ''- '' @ r) rs @ rest)"
    unfolding parse_request_lines.simps Let_def trim_id [OF bullet_trimmed [OF r(1)]] bullet_item [OF r(1)]
    using bullet_plain [OF r(1)] r(2) by (simp only: if_False if_True not_True_eq_False option.case bullet_nonempty)
  have "parse_request_lines True (acc @ [r]) (map (\<lambda>r. ''- '' @ r) rs @ rest) = parse_request_lines True (acc @ r # rs) rest"
    using Cons.IH [of "acc @ [r]"] Cons.prems by simp
  then show ?case
    unfolding shape step .
qed simp

lemma butlast_shorter: "butlast r = r \<Longrightarrow> r = []"
  using length_butlast [of r] by (cases r) auto

lemma parse_before:
  "list_all (\<lambda>l. \<not> is_next_agent_requests_heading (str_trim l)) ls \<Longrightarrow>
   parse_request_lines False acc (ls @ rest) = parse_request_lines False acc rest"
  by (induction ls) (auto simp: Let_def)

definition section_ends :: "string list \<Rightarrow> bool" where
  "section_ends ls \<longleftrightarrow> (case ls of [] \<Rightarrow> True
     | l # _ \<Rightarrow> is_section_boundary (str_trim l) \<and> \<not> is_next_agent_requests_heading (str_trim l))"

text \<open>C30. The requests of an answer read back: whatever stands before the heading and after the next section, the
  items of a list under the heading are the requests, in order and unchanged.\<close>

theorem requests_read_back:
  assumes "list_all plain_line (before @ heading # after)"
    and "list_all (\<lambda>l. \<not> is_next_agent_requests_heading (str_trim l)) before"
    and "is_next_agent_requests_heading (str_trim heading)" "list_all request_item requests" "section_ends after"
  shows "parse_next_agent_requests (text_of_lines (before @ heading # map (\<lambda>r. ''- '' @ r) requests @ after)) = requests"
proof -
  have "plain_line (''- '' @ r)" if "request_item r" for r
  proof -
    have "char_of (10 :: nat) \<notin> set ''- ''"
      by code_simp
    moreover have "r \<noteq> []"
      using that by (simp add: request_item_def trimmed_text_def)
    moreover have "\<not> (last r = char_of (13 :: nat))"
      using that \<open>r \<noteq> []\<close> butlast_shorter [of r] by (auto simp: request_item_def plain_line_def strip_cr_def split: if_splits)
    ultimately show ?thesis
      using that by (auto simp: request_item_def plain_line_def strip_cr_def simp del: insert_iff)
  qed
  then have "list_all plain_line (map (\<lambda>r. ''- '' @ r) requests)"
    using assms(4) by (auto simp: list_all_iff)
  then have "str_lines (text_of_lines (before @ heading # map (\<lambda>r. ''- '' @ r) requests @ after)) =
      before @ heading # map (\<lambda>r. ''- '' @ r) requests @ after"
    using assms(1) by (intro str_lines_of) simp
  moreover have "parse_request_lines True requests after = requests"
    using assms(5) by (cases after) (auto simp: section_ends_def Let_def)
  ultimately show ?thesis
    using parse_bullets [OF assms(4), of "[]" after] assms(3)
    by (simp only: parse_next_agent_requests_def parse_before [OF assms(2)] parse_request_lines.simps Let_def if_True
        append_Nil)
qed

theorem requests_read_back_witness:
  "parse_next_agent_requests (text_of_lines ([''## Status'', ''done''] @ ''next_agent_requests:'' #
     map (\<lambda>r. ''- '' @ r) [''Historian: check the dates'', ''ask role://memory.wiki.librarian''] @ [''## Decisions'', ''- none'']))
   = [''Historian: check the dates'', ''ask role://memory.wiki.librarian'']"
proof (rule requests_read_back)
  show "list_all plain_line ([''## Status'', ''done''] @ ''next_agent_requests:'' # [''## Decisions'', ''- none''])"
    by code_simp
  show "list_all (\<lambda>l. \<not> is_next_agent_requests_heading (str_trim l)) [''## Status'', ''done'']"
    by code_simp
  show "is_next_agent_requests_heading (str_trim ''next_agent_requests:'')"
    by code_simp
  show "list_all request_item [''Historian: check the dates'', ''ask role://memory.wiki.librarian'']"
    by code_simp
  show "section_ends [''## Decisions'', ''- none'']"
    by code_simp
qed
section \<open>One receipt per request\<close>

lemma hex_lower_alnum: "list_all is_ascii_alphanumeric (hex_lower s)"
  by (auto simp: hex_lower_def list_all_iff hex_byte_alnum)

lemma alnum_prefix: "list_all is_ascii_alphanumeric s \<Longrightarrow> list_all is_ascii_alphanumeric (take n s)"
  by (auto simp: list_all_iff dest: in_set_takeD)

lemma segment_chars_ascii: "list_all segment_char s \<Longrightarrow> utf8_chars s = map (\<lambda>c. [c]) s"
  by (rule utf8_chars_ascii)
    (auto simp: list_all_iff segment_char_def is_ascii_alphanumeric_def is_ascii_alphabetic_def is_ascii_digit_def)

lemma segment_char_plain: "segment_char c \<Longrightarrow> \<not> is_whitespace [c] \<and> c \<noteq> CHR ''/'' \<and> \<not> utf8_continuation c"
  by (cases c) (auto simp: segment_char_def is_ascii_alphanumeric_def is_ascii_alphabetic_bits is_ascii_digit_bits
    is_whitespace_bits plain_space_def utf8_continuation_bits)

lemma segment_trimmed: "list_all segment_char s \<Longrightarrow> s \<noteq> [] \<Longrightarrow> trimmed_text s"
  using segment_chars_ascii [of s] by (cases s rule: rev_cases)
    (auto simp: trimmed_text_def list_all_iff hd_map hd_append segment_char_plain split: if_splits)

lemma receipt_recognised:
  assumes "list_all segment_char m" "m \<noteq> []" "list_all segment_char d" "d \<noteq> []"
  shows "trimmed_passes looks_like_agent_mail_receipt (Some (''agent-mail://'' @ m @ ''/'' @ d))"
proof -
  let ?r = "''agent-mail://'' @ m @ ''/'' @ d"
  have ascii: "byte c < 128" if "segment_char c" for c
    using that by (auto simp: segment_char_def is_ascii_alphanumeric_def is_ascii_alphabetic_def is_ascii_digit_def)
  have "utf8_chars ?r = map (\<lambda>c. [c]) ?r"
    using assms(1,3) by (intro utf8_chars_ascii) (auto simp: list_all_iff intro: ascii)
  moreover have "\<not> is_whitespace [last d]"
    using assms(3,4) segment_char_plain [of "last d"] by (auto simp: list_all_iff)
  ultimately have "trimmed_text ?r"
    using assms(4) unfolding trimmed_text_def by (simp add: utf8_continuation_bits is_whitespace_bits plain_space_def last_map)
  then have trim: "str_trim ?r = ?r"
    by (rule trim_id)
  have prefix: "strip_prefix ''agent-mail://'' ?r = Some (m @ CHR ''/'' # d)"
    by (simp only: strip_prefix_Some) simp
  have none: "split_on (\<lambda>c. c = CHR ''/'') m = [m]" "split_on (\<lambda>c. c = CHR ''/'') d = [d]"
    using assms(1,3) segment_char_plain by (auto intro!: split_on_none simp: list_all_iff)
  have split: "split_on (\<lambda>c. c = CHR ''/'') (m @ CHR ''/'' # d) = [m, d]"
    by (simp add: split_on_append [of "\<lambda>c. c = CHR ''/''"] none)
  have valid: "valid_agent_mail_receipt_segment s" if "list_all segment_char s" for s
    using that unfolding valid_agent_mail_receipt_segment_def segment_chars_ascii [OF that]
    by (auto simp: list_all_iff segment_char_def)
  show ?thesis
    unfolding trimmed_passes_def looks_like_agent_mail_receipt_def trim prefix option.case split list.case Let_def
    using assms valid trim_id [OF segment_trimmed] by simp
qed

lemma send_loop_attempts:
  assumes "fold (send_step env e None) rcps (m, att, s) = (m', att', s')"
  shows "\<exists>news. att' = att @ news \<and> length news = length rcps \<and>
    (\<forall>a \<in> set news. (da_status a = Delivered \<or> da_status a = AlreadyDelivered) \<and>
       (\<exists>r. da_delivery_id a = stable_delivery_id env (me_message_id e) r))"
  using assms
proof (induction rcps arbitrary: m att s)
  case (Cons rcp rcps)
  obtain m1 att1 s1 where one: "send_step env e None rcp (m, att, s) = (m1, att1, s1)"
    by (metis surj_pair)
  have "\<exists>a. att1 = att @ [a] \<and> (da_status a = Delivered \<or> da_status a = AlreadyDelivered) \<and>
      da_delivery_id a = stable_delivery_id env (me_message_id e) rcp"
    using one by (auto simp: send_step_def Let_def split: option.splits)
  then obtain a where a: "att1 = att @ [a]" "da_status a = Delivered \<or> da_status a = AlreadyDelivered"
      "da_delivery_id a = stable_delivery_id env (me_message_id e) rcp"
    by blast
  obtain news where "att' = att1 @ news" "length news = length rcps"
      "\<forall>a \<in> set news. (da_status a = Delivered \<or> da_status a = AlreadyDelivered) \<and>
       (\<exists>r. da_delivery_id a = stable_delivery_id env (me_message_id e) r)"
    using Cons.IH [of m1 att1 s1] Cons.prems one by auto
  then show ?case
    using a by (intro exI [of _ "a # news"]) auto
qed simp

lemma try_map_length: "try_map f xs = Inr ys \<Longrightarrow> length ys = length xs"
  by (simp add: try_map_Inr list_all2_lengthD)

lemma delivered_ids_sent:
  assumes "send_mail env e b None s = (Inr rc, s2)" "me_cc e \<noteq> []"
  shows "delivered_ids rc \<noteq> [] \<and> (\<forall>i \<in> set (delivered_ids rc). \<exists>t. i = ''delivery_'' @ digest16 env t)"
proof -
  obtain rcps acc s1 e' m where rcps: "normalized_recipients env e = Inr rcps"
      and loop: "fold (send_step env e' None) rcps (latest_deliveries s1, [], s1) = (m, mr_attempts rc, s2)"
    using assms(1) by (auto elim: send_mail_Inr)
  obtain as where "try_map (\<lambda>v. try_then (parse_address (env_url env) v) (\<lambda>a. Inr (canonical a))) (me_to e @ me_cc e) = Inr as"
      "rcps = bset as"
    using rcps by (auto simp: normalized_recipients_def result_simps)
  then have "rcps \<noteq> []"
    using assms(2) try_map_length [of _ "me_to e @ me_cc e" as] by auto
  then obtain a as' where att: "mr_attempts rc = a # as'"
      and all: "\<forall>a \<in> set (mr_attempts rc). (da_status a = Delivered \<or> da_status a = AlreadyDelivered) \<and>
       (\<exists>r. da_delivery_id a = stable_delivery_id env (me_message_id e') r)"
    using send_loop_attempts [OF loop] by (cases "mr_attempts rc") auto
  then have "delivered_ids rc = map da_delivery_id (mr_attempts rc)"
    by (simp add: delivered_ids_def)
  then show ?thesis
    using all att by (auto simp: stable_delivery_id_def)
qed

definition request_accounted :: "mail_env \<Rightarrow> string \<Rightarrow> follow_up_error next_agent_request_receipt \<Rightarrow> bool" where
  "request_accounted env request_text r \<longleftrightarrow> nr_request_text r = request_text \<and>
     (case resolve_next_agent_request_targets env request_text of
        Inl e \<Rightarrow> nr_status r = ''skipped'' \<and> nr_error r = Some e \<and> nr_delivery_ids r = [] \<and> nr_to r = []
      | Inr targets \<Rightarrow> nr_to r = targets \<and> nr_cc r = [''list://wiki-company''] \<and>
          (nr_status r = ''failed'' \<and> nr_error r \<noteq> None \<and> nr_delivery_ids r = [] \<and> nr_mail_receipt r = None \<or>
           nr_status r = ''sent'' \<and> nr_error r = None \<and> nr_delivery_ids r \<noteq> [] \<and>
             trimmed_passes looks_like_agent_mail_receipt (nr_mail_receipt r)))"

lemma alnum_segment: "is_ascii_alphanumeric c \<Longrightarrow> segment_char c"
  by (simp add: segment_char_def)

lemma follow_up_id_segment: "list_all segment_char (follow_up_message_id env request index t)"
proof -
  have "list_all segment_char (''mailmsg_'' :: string)"
    by code_simp
  moreover have "list_all segment_char (short_hash sha v n)" for sha v n
    using alnum_prefix [OF hex_lower_alnum] alnum_segment
    by (auto simp: short_hash_def sha256_text_def list_all_iff dest: bspec)
  ultimately show ?thesis
    unfolding follow_up_message_id_def stable_mail_message_id_def list_all_append by blast
qed

lemma delivery_id_segment: "list_all segment_char (''delivery_'' @ digest16 env t)"
proof -
  have "list_all segment_char (''delivery_'' :: string)"
    by code_simp
  moreover have "list_all segment_char (digest16 env t)"
    using alnum_prefix [OF hex_lower_alnum] alnum_segment by (auto simp: digest16_def list_all_iff dest: bspec)
  ultimately show ?thesis
    unfolding list_all_append by blast
qed
lemma dispatch_one_accounted: "request_accounted env t (fst (dispatch_one env now request file parent agent index t s))"
proof (cases "resolve_next_agent_request_targets env t")
  case (Inl e)
  then show ?thesis
    by (simp add: dispatch_one_def request_accounted_def skipped_request_def)
next
  case (Inr targets)
  let ?body = "render_next_agent_request_body request t file parent agent"
  let ?e = "follow_up_envelope env now request parent agent index t targets ?body"
  obtain res s' where sent: "send_mail env ?e ?body None s = (res, s')"
    by (metis surj_pair)
  show ?thesis
  proof (cases res)
    case (Inl x)
    then show ?thesis
      using Inr sent by (simp add: dispatch_one_def request_accounted_def Let_def follow_up_cc_addresses_def)
  next
    case (Inr rc)
    have cc: "me_cc ?e \<noteq> []"
      by (simp add: follow_up_envelope_def follow_up_cc_addresses_def)
    obtain i ids where ids: "delivered_ids rc = i # ids"
      using delivered_ids_sent [OF sent [unfolded Inr] cc] by (cases "delivered_ids rc") auto
    then obtain x where i: "i = ''delivery_'' @ digest16 env x"
      using delivered_ids_sent [OF sent [unfolded Inr] cc] by auto
    have pass: "trimmed_passes looks_like_agent_mail_receipt
        (Some (''agent-mail://'' @ follow_up_message_id env request index t @ ''/'' @ i))"
    proof (rule receipt_recognised)
      show "follow_up_message_id env request index t \<noteq> []"
        by (simp add: follow_up_message_id_def stable_mail_message_id_def)
    qed (simp_all only: i follow_up_id_segment delivery_id_segment, simp)
    show ?thesis
      using \<open>resolve_next_agent_request_targets env t = Inr targets\<close> sent Inr ids pass
      by (simp add: dispatch_one_def request_accounted_def Let_def follow_up_cc_addresses_def)
  qed
qed

text \<open>C28. Every request of an answer has one receipt, in the order of the answer: it is skipped when no recipient can
  be found; otherwise it failed with the error of the mail store, or it was sent, never deferred, with a receipt that
  the completion check of the harness accepts as proof of delivery.\<close>

theorem dispatch_accounts_for_requests:
  "list_all2 (request_accounted env) (parse_next_agent_requests (cw_assistant_text worker))
     (fst (dispatch_next_agent_requests env clock request worker file parent agent s))"
proof -
  have "list_all2 (request_accounted env) ts (fst (dispatch_requests env clock request file parent agent k ts s))" for k ts
    using dispatch_one_accounted [of env _ "clock k"]
    by (induction ts arbitrary: k s) (auto simp: split_beta intro: dispatch_one_accounted)
  then show ?thesis
    by (simp add: dispatch_next_agent_requests_def)
qed

section \<open>Retries and aliases\<close>

lemma hex_lower_inj: "hex_lower a = hex_lower b \<Longrightarrow> a = b"
proof (induction a arbitrary: b)
  case Nil
  then show ?case
    by (cases b) (auto simp: hex_lower_def hex_byte_def)
next
  case (Cons x a)
  then obtain y b' where b: "b = y # b'"
    by (cases b) (auto simp: hex_lower_def hex_byte_def)
  have digits: "hex_digit m = hex_digit n \<Longrightarrow> m < 16 \<Longrightarrow> n < 16 \<Longrightarrow> m = n" for m n
  proof -
    assume eq: "hex_digit m = hex_digit n" and small: "m < 16" "n < 16"
    have "byte (hex_digit k) = (if k < 10 then 48 + k else 87 + k)" if "k < 16" for k
      using that by (simp add: hex_digit_def)
    then show "m = n"
      using arg_cong [OF eq, of byte] small by (auto split: if_splits)
  qed
  have "byte x div 16 = byte y div 16" "byte x mod 16 = byte y mod 16"
    using Cons.prems digits [of "byte x div 16" "byte y div 16"] digits [of "byte x mod 16" "byte y mod 16"]
      byte_less_256 [of x] byte_less_256 [of y]
    unfolding b by (auto simp: hex_lower_def hex_byte_def less_mult_imp_div_less)
  then have "byte x = byte y"
    by (metis div_mult_mod_eq)
  then have "x = y"
    by simp
  then show ?case
    using Cons unfolding b by (simp add: hex_lower_def)
qed
text \<open>The text whose hash the mail store keeps for an accepted message.\<close>

definition payload_text :: "mail_env \<Rightarrow> message_envelope \<Rightarrow> string \<Rightarrow> string" where
  "payload_text env e b = env_envelope_json env (e\<lparr> me_message_id := [], me_created_at := [] \<rparr>) @ char_of (10 :: nat) # b"

definition follow_up_payload :: "mail_env \<Rightarrow> string \<Rightarrow> harness_turn_request \<Rightarrow> string \<Rightarrow> talk_mail_receipt \<Rightarrow>
    registered_mail_agent \<Rightarrow> nat \<Rightarrow> string \<Rightarrow> string" where
  "follow_up_payload env now request file parent agent index t =
     (case resolve_next_agent_request_targets env t of Inl _ \<Rightarrow> []
      | Inr targets \<Rightarrow> let body = render_next_agent_request_body request t file parent agent
          in payload_text env (follow_up_envelope env now request parent agent index t targets body) body)"

lemma accepted_payload:
  assumes "accept_message_unlocked env e b s = (Inr (DuplicateSamePayload i), s')"
  shows "\<exists>r. List.find (\<lambda>r. id_idempotency_key r = me_idempotency_key e) (st_idempotency s) = Some r \<and>
    id_payload_sha256 r = message_payload_sha256 env e b"
  using assms by (auto simp: accept_message_unlocked_def Let_def result_simps write_message_def
      split: option.splits if_splits)

lemma find_append_Some: "List.find P xs = Some x \<Longrightarrow> List.find P (xs @ ys) = Some x"
  by (induction xs) (simp_all split: if_splits)

lemma sent_payload_recorded:
  assumes "send_mail env e b lim s = (Inr rc, s2)" "prefix (st_idempotency s2) (st_idempotency s3)"
  shows "\<exists>r. List.find (\<lambda>r. id_idempotency_key r = me_idempotency_key e) (st_idempotency s3) = Some r \<and>
    id_payload_sha256 r = message_payload_sha256 env e b"
proof -
  obtain rcps acc s1 e' m where acc: "accept_message_unlocked env e b s = (Inr acc, s1)"
      and loop: "fold (send_step env e' lim) rcps (latest_deliveries s1, [], s1) = (m, mr_attempts rc, s2)"
    using assms(1) by (auto elim: send_mail_Inr)
  have "st_idempotency s2 = st_idempotency s1"
    using send_loop [OF loop] by blast
  from accepted_payload [OF accept_again [OF acc this]] obtain r where
      "List.find (\<lambda>r. id_idempotency_key r = me_idempotency_key e) (st_idempotency s2) = Some r"
      "id_payload_sha256 r = message_payload_sha256 env e b"
    by blast
  then show ?thesis
    using assms(2) find_append_Some by (fastforce simp: prefix_def)
qed

lemma send_conflict:
  assumes "parse_address (env_url env) (me_from e) \<in> range Inr" "normalized_recipients env e \<in> range Inr"
    and "List.find (\<lambda>r. id_idempotency_key r = me_idempotency_key e) (st_idempotency s) = Some r"
    and "id_payload_sha256 r \<noteq> message_payload_sha256 env e b"
  shows "send_mail env e b lim s = (Inl (DuplicateIdempotencyKeyPayload (me_idempotency_key e)), s)"
  using assms by (auto simp: send_mail_def accept_message_unlocked_def Let_def st_then_def)

lemma bodies_differ:
  assumes "file \<noteq> file'"
  shows "render_next_agent_request_body request t file parent agent \<noteq> render_next_agent_request_body request t file' parent agent"
  using assms by (simp add: render_next_agent_request_body_def)

lemma payloads_differ:
  assumes "\<And>e. char_of (10 :: nat) \<notin> set (env_envelope_json env e)" "b \<noteq> b'"
  shows "payload_text env e b \<noteq> payload_text env e' b'"
  using split_at_separator [OF _ assms(1) assms(1)] assms(2) unfolding payload_text_def by blast

text \<open>C29. A retry of a turn cannot send its requests again: the body of a request names the file of the final
  message, which every attempt gets anew, while its idempotency key stays; so the mail store takes the second attempt for
  another message under a used key and refuses it, and the request is reported as failed although its mail was
  delivered. (The hash has no collision on the two payloads, and the compact encoding of an envelope contains no
  line break.)\<close>

theorem retried_request_fails:
  assumes "nr_status (fst (dispatch_one env now request file parent agent index t s)) = ''sent''"
    and "prefix (st_idempotency (snd (dispatch_one env now request file parent agent index t s))) (st_idempotency s')"
    and "file \<noteq> file'" "\<And>e. char_of (10 :: nat) \<notin> set (env_envelope_json env e)"
    and "env_sha env (follow_up_payload env now request file parent agent index t) =
         env_sha env (follow_up_payload env now' request file' parent agent index t) \<Longrightarrow>
         follow_up_payload env now request file parent agent index t = follow_up_payload env now' request file' parent agent index t"
  shows "nr_status (fst (dispatch_one env now' request file' parent agent index t s')) = ''failed'' \<and>
    (\<exists>key. nr_error (fst (dispatch_one env now' request file' parent agent index t s')) =
       Some (FollowUpNotSent (DuplicateIdempotencyKeyPayload key))) \<and>
    snd (dispatch_one env now' request file' parent agent index t s') = s'"
proof -
  obtain targets where targets: "resolve_next_agent_request_targets env t = Inr targets"
    using assms(1) by (cases "resolve_next_agent_request_targets env t") (auto simp: dispatch_one_def skipped_request_def)
  define b where "b = render_next_agent_request_body request t file parent agent"
  define e where "e = follow_up_envelope env now request parent agent index t targets b"
  define b' where "b' = render_next_agent_request_body request t file' parent agent"
  define e' where "e' = follow_up_envelope env now' request parent agent index t targets b'"
  obtain rc s2 where sent: "send_mail env e b None s = (Inr rc, s2)"
    using assms(1) targets by (auto simp: dispatch_one_def e_def b_def Let_def split: sum.splits prod.splits)
  then have "snd (dispatch_one env now request file parent agent index t s) = s2"
    using targets by (simp add: dispatch_one_def e_def b_def Let_def)
  then obtain r where r: "List.find (\<lambda>r. id_idempotency_key r = me_idempotency_key e) (st_idempotency s') = Some r"
      "id_payload_sha256 r = message_payload_sha256 env e b"
    using sent_payload_recorded [OF sent, of s'] assms(2) by auto
  have same: "me_idempotency_key e' = me_idempotency_key e" "me_from e' = me_from e"
      "normalized_recipients env e' = normalized_recipients env e"
    by (simp_all add: e_def e'_def follow_up_envelope_def normalized_recipients_def)
  have "payload_text env e b \<noteq> payload_text env e' b'"
    using bodies_differ [OF assms(3)] assms(4) by (intro payloads_differ) (auto simp: b_def b'_def)
  then have "env_sha env (payload_text env e b) \<noteq> env_sha env (payload_text env e' b')"
    using assms(5) by (auto simp: follow_up_payload_def targets Let_def b_def [symmetric] e_def [symmetric]
      b'_def [symmetric] e'_def [symmetric])
  then have "message_payload_sha256 env e b \<noteq> message_payload_sha256 env e' b'"
    using hex_lower_inj by (auto simp: message_payload_sha256_def payload_text_def)
  moreover have "parse_address (env_url env) (me_from e) \<in> range Inr" "normalized_recipients env e \<in> range Inr"
    using sent by (auto elim: send_mail_Inr)
  ultimately have "send_mail env e' b' None s' = (Inl (DuplicateIdempotencyKeyPayload (me_idempotency_key e')), s')"
    using r by (intro send_conflict [where r = r]) (auto simp: same)
  then show ?thesis
    using targets by (auto simp: dispatch_one_def Let_def e'_def b'_def)
qed
section \<open>Concrete requests\<close>

definition sample_mail_env :: mail_env where
  "sample_mail_env = example_env\<lparr> env_sha := (\<lambda>s. s),
     env_envelope_json := (\<lambda>e. filter (\<lambda>c. c \<noteq> char_of (10 :: nat)) (me_subject e)) \<rparr>"

definition sample_requirements :: harness_receipt_requirements where
  "sample_requirements = \<lparr> hq_final_message_path = ''m.md'', hq_require_birth_certificate = True,
     hq_require_turn_start = True, hq_require_context_injection = True, hq_require_adapter_events = True,
     hq_require_final_message = True, hq_require_talk_append = True, hq_require_mail_delivery = True,
     hq_require_turn_complete = True \<rparr>"

definition sample_turn_request :: harness_turn_request where
  "sample_turn_request = \<lparr> ht_schema_version = 1, ht_kind = ''k'', ht_run_id = ''r'', ht_operation_id = ''op'',
     ht_unit_id = ''u'', ht_harness = codex_harness,
     ht_agent = \<lparr> ha_id = ''historian'', ha_provider = ''openai'', ha_model = ''m'', ha_reasoning_effort = ''low'',
       ha_memory_mode = ''episodic'', ha_memory_attach = ''none'', ha_persistent_session = False \<rparr>,
     ht_job = \<lparr> hj_id = ''memory.wiki.historian'', hj_label = ''memory.wiki.historian'', hj_inputs = [], hj_outputs = [],
       hj_read_permissions = [], hj_write_permissions = [], hj_deny_permissions = [], hj_completion_done = [],
       hj_completion_skip = [], hj_completion_failure = [] \<rparr>,
     ht_prompt_bundle = [], ht_prompt_text = [],
     ht_mail_context = \<lparr> hm_thread_id = [], hm_mailbox = [], hm_appendix_enabled = False, hm_appendix_text = [] \<rparr>,
     ht_wiki_context = \<lparr> hw_user_wiki_root = [], hw_source_root = [], hw_talk_root = [] \<rparr>,
     ht_source_packet = \<lparr> hs_packet_id = [], hs_source = [], hs_bounded_by_job = True, hs_path = None,
       hs_content_sha256 = None, hs_bytes = None \<rparr>,
     ht_tool_policy = \<lparr> ho_default_tools = [], ho_agent_tools = [], ho_job_tools = [] \<rparr>,
     ht_required_receipts = sample_requirements,
     ht_talk_report = \<lparr> hk_delivery_mode = ''mail'', hk_thread_id = ''t1'', hk_from = [], hk_to = [''list://wiki''], hk_cc = [] \<rparr> \<rparr>"

definition sample_parent :: talk_mail_receipt where
  "sample_parent = \<lparr> tm_talk_receipt = ''talk'', tm_mail_receipt = None, tm_message_id = ''m0'', tm_delivery_ids = [] \<rparr>"

definition sample_mail_agent :: registered_mail_agent where
  "sample_mail_agent = \<lparr> ra_agent_id = ''agent_1'', ra_primary_address = ''agent://codex/one'', ra_transport_kind = ''codex'',
     ra_transport_thread_id = ''one'', ra_requested_roles = [], ra_granted_roles = [], ra_requested_capabilities = [],
     ra_granted_capabilities = [], ra_lease_expires_at = [], ra_inbox_delivery_count = 0, ra_thread_message_count = 0 \<rparr>"

definition sample_dispatch :: "string \<Rightarrow> mail_store \<Rightarrow> follow_up_error next_agent_request_receipt \<times> mail_store" where
  "sample_dispatch file = dispatch_one sample_mail_env ''2026-05-01T10:00:00Z'' sample_turn_request file sample_parent
     sample_mail_agent 0 ''Librarian: sort the topics''"

theorem retried_request_fails_witness:
  "nr_status (fst (dispatch_one sample_mail_env ''2026-05-01T11:00:00Z'' sample_turn_request ''attempt-0002/m.md''
       sample_parent sample_mail_agent 0 ''Librarian: sort the topics'' (snd (sample_dispatch ''attempt-0001/m.md'' empty_store))))
     = ''failed''"
proof -
  let ?t = "''Librarian: sort the topics''" and ?now = "''2026-05-01T10:00:00Z''" and ?later = "''2026-05-01T11:00:00Z''"
  let ?s = "snd (dispatch_one sample_mail_env ?now sample_turn_request ''attempt-0001/m.md'' sample_parent sample_mail_agent 0 ?t empty_store)"
  have "nr_status (fst (dispatch_one sample_mail_env ?later sample_turn_request ''attempt-0002/m.md'' sample_parent
        sample_mail_agent 0 ?t ?s)) = ''failed'' \<and>
      (\<exists>key. nr_error (fst (dispatch_one sample_mail_env ?later sample_turn_request ''attempt-0002/m.md'' sample_parent
        sample_mail_agent 0 ?t ?s)) = Some (FollowUpNotSent (DuplicateIdempotencyKeyPayload key))) \<and>
      snd (dispatch_one sample_mail_env ?later sample_turn_request ''attempt-0002/m.md'' sample_parent
        sample_mail_agent 0 ?t ?s) = ?s"
  proof (rule retried_request_fails)
    show "nr_status (fst (dispatch_one sample_mail_env ?now sample_turn_request ''attempt-0001/m.md'' sample_parent
        sample_mail_agent 0 ?t empty_store)) = ''sent''"
      by code_simp
    show "''attempt-0001/m.md'' \<noteq> ''attempt-0002/m.md''"
      by simp
    show "char_of (10 :: nat) \<notin> set (env_envelope_json sample_mail_env e)" for e
      by (simp add: sample_mail_env_def)
  qed (simp_all add: sample_mail_env_def)
  then show ?thesis
    unfolding sample_dispatch_def by blast
qed

text \<open>An alias is found inside other words: a request that contains the word describe and names no address is
  mailed to the hourly scribe, whoever it was meant for.\<close>

theorem describe_mails_the_scribe:
  assumes "explicit_mail_addresses env t = []" "str_contains (ascii_lower t) ''describe''"
  shows "\<exists>targets. resolve_next_agent_request_targets env t = Inr targets \<and> ''role://memory.hourly.scribe'' \<in> set targets"
proof -
  define lower where "lower = replace_chars ''_-'' CHR '' '' (ascii_lower t)"
  obtain a b where "ascii_lower t = a @ ''describe'' @ b"
    using assms(2) by (auto simp: str_contains_iff)
  then have "lower = (replace_chars ''_-'' CHR '' '' a @ ''de'') @ ''scribe'' @ replace_chars ''_-'' CHR '' '' b"
    by (simp add: lower_def replace_chars_def)
  then have "str_contains lower ''scribe''"
    unfolding str_contains_iff by blast
  then have "''role://memory.hourly.scribe'' \<in> set (map snd (filter (\<lambda>(needle, address). str_contains lower needle) role_aliases))"
    by (simp add: role_aliases_def)
  then have "bset (map snd (filter (\<lambda>(needle, address). str_contains lower needle) role_aliases)) \<noteq> []"
      "''role://memory.hourly.scribe'' \<in> set (bset (map snd (filter (\<lambda>(needle, address). str_contains lower needle) role_aliases)))"
    by (metis bset_Nil_iff empty_iff list.set(1), metis set_bset)
  then show ?thesis
    unfolding resolve_next_agent_request_targets_def Let_def lower_def [symmetric] using assms(1) by simp
qed

theorem describe_mails_the_scribe_witness:
  "\<exists>targets. resolve_next_agent_request_targets sample_mail_env ''Biographer: describe the early years'' = Inr targets \<and>
     ''role://memory.hourly.scribe'' \<in> set targets"
proof (rule describe_mails_the_scribe)
  show "explicit_mail_addresses sample_mail_env ''Biographer: describe the early years'' = []"
    by code_simp
  show "str_contains (ascii_lower ''Biographer: describe the early years'') ''describe''"
    by code_simp
qed
definition sample_worker :: codex_worker_turn_result where
  "sample_worker = \<lparr> cw_status = ''completed'', cw_thread_id = None, cw_turn_id = None, cw_resumed_thread = False,
     cw_mail_agent = None, cw_assistant_text = ''status: done'', cw_error = None, cw_usage = None,
     cw_rejected_server_requests = [], cw_duration_ms = 0 \<rparr>"

definition sample_files :: "(string, string) btree_map" where
  "sample_files = [(''/r/turns/op/attempt-0001/m.md'', ''first'')]"

definition sample_request_at :: "string \<Rightarrow> harness_turn_request" where
  "sample_request_at p = sample_turn_request\<lparr> ht_required_receipts := sample_requirements\<lparr> hq_final_message_path := p \<rparr> \<rparr>"

definition sample_write :: "(final_message_error + final_message_write) \<times> (string, string) btree_map" where
  "sample_write = write_final_message (\<lambda>s. take 32 (s @ replicate 32 CHR ''x'')) (paths_new ''/r'')
     (sample_request_at ''turns/op/attempt-0001/m.md'') sample_worker sample_files"

theorem final_message_write_fresh_witness:
  "bt_get (snd sample_write) ''/r/turns/op/attempt-0002/m.md'' = Some ''status: done'' \<and>
   message_kept sample_files (snd sample_write) ''/r/turns/op/attempt-0001/m.md''"
proof -
  have wf: "bt_wf sample_files"
    by (simp add: sample_files_def bt_wf_def)
  have path: "(case fst sample_write of Inl _ \<Rightarrow> [] | Inr w \<Rightarrow> fm_path w) = ''/r/turns/op/attempt-0002/m.md''"
    by code_simp
  then obtain w where w: "sample_write = (Inr w, snd sample_write)" "fm_path w = ''/r/turns/op/attempt-0002/m.md''"
    by (cases "fst sample_write") (auto simp: prod_eq_iff)
  have "path_with_extension ''/r/turns/op/attempt-0002/m.md'' ''sha256'' = ''/r/turns/op/attempt-0002/m.sha256''"
    by code_simp
  then show ?thesis
    using final_message_write_fresh [OF wf w(1) [unfolded sample_write_def], of "''/r/turns/op/attempt-0001/m.md''"]
    unfolding w(2) sample_write_def by (elim conjE disjE) (simp_all add: sample_worker_def)
qed

theorem attempt_search_succeeds_witness:
  "\<exists>n. n \<in> {1..9999} \<and> next_available_final_message_path sample_files (attempt_candidate ''/r/turns/op'' ''m.md'' 1) =
     Inr (attempt_candidate ''/r/turns/op'' ''m.md'' n)"
  using attempt_search_succeeds [of "''/r/turns/op''" "''m.md''" sample_files]
  by (auto simp: plain_name_def sample_files_def)
end
