(* ===== verification/Capture_Paths.thy ===== *)
theory Capture_Paths
  imports Safe_Id
begin

text \<open>
  Paths of the capture spool and of capture bundles (\<open>paths.rs\<close>, \<open>lanes.rs\<close>, \<open>error.rs\<close> and the URI of a source in
  \<open>event.rs\<close>, all in \<open>crates/onecontext-capture-core/src\<close>). A path is its text. An error keeps the path and the message;
  the text of a system or JSON error is not modelled.
\<close>

datatype capture_core_error =
    CaptureIo string
  | CaptureJson string
  | CaptureInvalidPath string string
  | CaptureInvalidState string
  | CaptureInvalidTimeRange int int

section \<open>Directories\<close>

record capture_root_paths =
  cp_capture_root :: string
  cp_events_dir :: string
  cp_windows_dir :: string
  cp_displays_dir :: string
  cp_media_dir :: string
  cp_bundles_dir :: string
  cp_processing_dir :: string
  cp_live_dir :: string
  cp_failed_dir :: string
  cp_pinned_dir :: string
  cp_retention_dir :: string
  cp_sweeps_log :: string

definition capture_paths_new :: "string \<Rightarrow> capture_root_paths" where
  "capture_paths_new root = (let bundles = path_join root ''bundles''; retention = path_join root ''retention''
     in \<lparr> cp_capture_root = root, cp_events_dir = path_join root ''events'', cp_windows_dir = path_join root ''windows'',
          cp_displays_dir = path_join root ''displays'', cp_media_dir = path_join root ''media'', cp_bundles_dir = bundles,
          cp_processing_dir = path_join bundles ''processing'', cp_live_dir = path_join bundles ''live'',
          cp_failed_dir = path_join bundles ''failed'', cp_pinned_dir = path_join bundles ''pinned'',
          cp_retention_dir = retention, cp_sweeps_log = path_join retention ''sweeps.jsonl'' \<rparr>)"

definition capture_directories :: "capture_root_paths \<Rightarrow> string list" where
  "capture_directories p = [cp_capture_root p, cp_events_dir p, cp_windows_dir p, cp_displays_dir p, cp_media_dir p,
     cp_bundles_dir p, cp_processing_dir p, cp_live_dir p, cp_failed_dir p, cp_pinned_dir p, cp_retention_dir p]"

section \<open>Paths inside a bundle\<close>

text \<open>\<open>Path::components\<close> without the root: the named components, \<open>..\<close> among them.\<close>

definition named_components :: "string \<Rightarrow> string list" where
  "named_components p = filter (\<lambda>c. c \<noteq> [] \<and> c \<noteq> ''.'') (split_on (\<lambda>c. c = CHR ''/'') p)"

definition replace_char :: "char \<Rightarrow> char \<Rightarrow> string \<Rightarrow> string" where
  "replace_char c d s = map (\<lambda>x. if x = c then d else x) s"

definition bundle_relative_path :: "string \<Rightarrow> capture_core_error + string" where
  "bundle_relative_path v =
     (if str_trim v = [] then Inl (CaptureInvalidPath v ''bundle path cannot be empty'')
      else if take 1 v = ''/'' then Inl (CaptureInvalidPath v ''bundle path must be relative'')
      else if ''..'' \<in> set (named_components v) then Inl (CaptureInvalidPath v ''bundle path cannot escape bundle root'')
      else Inr (replace_char CHR 0x5C CHR ''/'' v))"

definition join_under :: "string \<Rightarrow> string \<Rightarrow> string" where
  "join_under relative root = path_join root relative"

section \<open>Lanes and required files\<close>

definition contract_version :: string where "contract_version = ''capture-window-bundle.v0''"

definition mandatory_lane_ids :: "string list" where
  "mandatory_lane_ids = [''capture.windows'', ''capture.displays'', ''capture.events'', ''capture.ax'', ''capture.ux'',
     ''capture.active_window_frames'', ''capture.browser'', ''capture.terminal'', ''capture.editor'',
     ''capture.external_refs'']"

definition required_bundle_files :: "string list" where
  "required_bundle_files = [''manifest.json'', ''sources.json'', ''time_alignment.json'',
     ''capabilities/capture.status.json'', ''capabilities/permissions.json'', ''capabilities/ux-event-tap.json'',
     ''capabilities/samplers.json'', ''capabilities/browser-extension-proof.json'', ''quality/known_gaps.jsonl'',
     ''events/windows.jsonl'', ''events/displays.jsonl'', ''events/capture.events.jsonl'', ''events/ax.events.jsonl'',
     ''events/ux.events.jsonl'', ''events/sck-frame-metadata.events.jsonl'', ''events/browser.events.jsonl'',
     ''events/terminal.events.jsonl'', ''events/editor.events.jsonl'', ''media/media.index.jsonl'', ''media/frames-2fps/'',
     ''external_refs/source-envelopes.jsonl'']"

section \<open>The URI of a source\<close>

definition upper_hex_digit :: "nat \<Rightarrow> char" where
  "upper_hex_digit n = (if n < 10 then char_of (48 + n) else char_of (55 + n))"

definition uri_plain :: "char \<Rightarrow> bool" where
  "uri_plain c \<longleftrightarrow> is_ascii_alphanumeric c \<or> c \<in> set ''-._~/''"

definition uri_byte :: "char \<Rightarrow> string" where
  "uri_byte c = (if uri_plain c then [c]
     else [CHR ''%'', upper_hex_digit (byte c div 16), upper_hex_digit (byte c mod 16)])"

definition file_uri :: "string \<Rightarrow> string" where
  "file_uri path = ''file://'' @ concat (map uri_byte path)"

text \<open>
  The check for escaping looks at the path before backslashes become separators. So a name made of backslashes
  passes, and below the bundle it leads out of it.
\<close>

lemma escaping_path_accepted: "bundle_relative_path (''..'' @ [CHR 0x5C] @ ''..'' @ [CHR 0x5C] @ ''x'') = Inr ''../../x''"
  by code_simp

end
