(* ===== verification/Spool_Index.thy ===== *)
theory Spool_Index
  imports Capture_Paths "HOL-Library.Product_Lexorder"
begin

text \<open>
  The time index of a window spool (\<open>crates/onecontext-capture-core/src/spool_index.rs\<close>): a sidecar file that lists, for
  every line of a \<open>.windows.jsonl\<close> file, its time and its bytes, so that a window of time is read by seeking.
  \<open>DateTime::parse_from_rfc3339\<close> is a parameter that gives the instant in nanoseconds. A sidecar is the index its JSON
  decodes to, or unreadable; byte counts and line numbers are natural numbers (files are smaller than \<open>2 ^ 64\<close> bytes).
\<close>

section \<open>Data\<close>

record source_file_fingerprint =
  sg_byte_count :: nat
  sg_modified_unix_seconds :: "nat option"
  sg_modified_subsec_nanos :: "nat option"

record windows_jsonl_time_index_entry =
  we_primary_time :: int
  we_line_number :: nat
  we_byte_start :: nat
  we_byte_end :: nat

datatype unindexed_line_reason = MissingPrimaryTime | InvalidUtf8Prefix

record unindexed_windows_jsonl_line =
  uw_line_number :: nat
  uw_byte_start :: nat
  uw_byte_end :: nat
  uw_reason :: unindexed_line_reason

record windows_jsonl_time_index =
  wi_schema_version :: nat
  wi_source_path :: string
  wi_source :: source_file_fingerprint
  wi_total_lines :: nat
  wi_indexed_lines :: nat
  wi_empty_lines :: nat
  wi_unindexed_lines :: "unindexed_windows_jsonl_line list"
  wi_entries :: "windows_jsonl_time_index_entry list"

definition is_complete :: "windows_jsonl_time_index \<Rightarrow> bool" where
  "is_complete ix \<longleftrightarrow> wi_unindexed_lines ix = []"

record windows_jsonl_indexed_range =
  xr_byte_start :: nat
  xr_byte_end :: nat
  xr_line_start :: nat
  xr_line_end :: nat
  xr_entry_count :: nat

record windows_jsonl_range_lookup =
  wl_source_path :: string
  wl_sidecar_path :: string
  wl_time_start :: int
  wl_time_end :: int
  wl_source_byte_count :: nat
  wl_total_lines :: nat
  wl_selected_entry_count :: nat
  wl_indexed_entry_count :: nat
  wl_ranges :: "windows_jsonl_indexed_range list"

datatype fallback_reason =
    UnsupportedSourceFile | MissingSidecar | CorruptSidecar | StaleSidecar | IncompleteSidecar

datatype windows_jsonl_index_lookup =
    Indexed windows_jsonl_range_lookup
  | Fallback fallback_reason

text \<open>The files: contents with the modification time that the system reports, and the sidecars.\<close>

record spool_file =
  sf_bytes :: string
  sf_modified :: "(nat \<times> nat) option"

datatype sidecar = UnreadableJson | IndexJson windows_jsonl_time_index

record spool_fs =
  ss_files :: "(string, spool_file) btree_map"
  ss_sidecars :: "(string, sidecar) btree_map"

definition index_schema_version :: nat where "index_schema_version = 1"
definition spool_envelope_prefix_bytes :: nat where "spool_envelope_prefix_bytes = 4096"
definition windows_jsonl_suffix :: string where "windows_jsonl_suffix = ''.windows.jsonl''"
definition index_suffix :: string where "index_suffix = ''.time-index.json''"

section \<open>Bytes of a line\<close>

text \<open>\<open>read_until(b'\n')\<close> until the end: the lines with their line breaks.\<close>

fun raw_lines :: "string \<Rightarrow> string list" where
  "raw_lines [] = []"
| "raw_lines (c # cs) = (if c = char_of (10 :: nat) then [c] # raw_lines cs
     else case raw_lines cs of [] \<Rightarrow> [[c]] | l # ls \<Rightarrow> (c # l) # ls)"

definition drop_suffix_byte :: "nat \<Rightarrow> string \<Rightarrow> string" where
  "drop_suffix_byte b s = (if s \<noteq> [] \<and> last s = char_of b then butlast s else s)"

definition trim_jsonl_newline :: "string \<Rightarrow> string" where
  "trim_jsonl_newline line = drop_suffix_byte 13 (drop_suffix_byte 10 line)"

text \<open>\<open>str::find\<close> of a text.\<close>

fun str_find :: "string \<Rightarrow> string \<Rightarrow> nat option" where
  "str_find p [] = (if p = [] then Some 0 else None)"
| "str_find p (c # cs) = (if take (length p) (c # cs) = p then Some 0 else map_option Suc (str_find p cs))"

definition skip_json_whitespace :: "string \<Rightarrow> string" where
  "skip_json_whitespace = dropWhile (\<lambda>c. c \<in> {CHR '' '', char_of (10 :: nat), char_of (13 :: nat), char_of (9 :: nat)})"

definition json_text_until_quote :: "string \<Rightarrow> string option" where
  "json_text_until_quote s = (let v = takeWhile (\<lambda>c. c \<noteq> CHR 0x22 \<and> c \<noteq> CHR 0x5C) s
     in case drop (length v) s of [] \<Rightarrow> None | c # _ \<Rightarrow> if c = CHR 0x22 then Some v else None)"

lemma str_find_bound: "str_find p s = Some n \<Longrightarrow> n + length p \<le> length s"
proof (induction p s arbitrary: n rule: str_find.induct)
  case (2 p c cs)
  show ?case
  proof (cases "take (length p) (c # cs) = p")
    case True
    then have "length p \<le> length (c # cs)"
      by (metis length_take min.cobounded1 min.commute)
    then show ?thesis
      using 2 True by simp
  qed (use 2 in auto)
qed (auto split: if_splits)

lemma str_find_progress: "str_find p s = Some n \<Longrightarrow> p \<noteq> [] \<Longrightarrow> length s - Suc n < length s"
  using str_find_bound [of p s n] by (cases p) auto

text \<open>
  \<open>json_string_field\<close>: the string after the first occurrence of the quoted key that is followed by a colon and a
  quote. The suffix that is left to search stands for the position \<open>search_from\<close>.
\<close>

function json_string_field_from :: "string \<Rightarrow> string \<Rightarrow> string option" where
  "json_string_field_from needle s = (if needle = [] then None else case str_find needle s of None \<Rightarrow> None
     | Some n \<Rightarrow>
         let retry = drop (n + 1) s;
             rest = skip_json_whitespace (drop (n + length needle) s)
         in case rest of [] \<Rightarrow> json_string_field_from needle retry
            | c # rest' \<Rightarrow> if c \<noteq> CHR '':'' then json_string_field_from needle retry
                else (case skip_json_whitespace rest' of [] \<Rightarrow> json_string_field_from needle retry
                  | d # rest'' \<Rightarrow> if d \<noteq> CHR 0x22 then json_string_field_from needle retry
                      else json_text_until_quote rest''))"
  by pat_completeness auto
termination
  by (relation "measure (length \<circ> snd)") (auto intro: str_find_progress)

declare json_string_field_from.simps [simp del]

definition json_string_field :: "string \<Rightarrow> string \<Rightarrow> string option" where
  "json_string_field raw key = json_string_field_from ([CHR 0x22] @ key @ [CHR 0x22]) raw"

definition time_keys :: "string list" where
  "time_keys = [''eventTimeStart'', ''recordedAt'', ''event_time_start'', ''recorded_at'']"

definition parse_rfc3339 :: "(string \<Rightarrow> int option) \<Rightarrow> string option \<Rightarrow> int option" where
  "parse_rfc3339 time v = (case v of None \<Rightarrow> None | Some s \<Rightarrow> time s)"

definition primary_time_from_json_prefix :: "(string \<Rightarrow> int option) \<Rightarrow> string \<Rightarrow> int option" where
  "primary_time_from_json_prefix time line = (let p = take spool_envelope_prefix_bytes line
     in if valid_utf8 p then find_map (\<lambda>key. parse_rfc3339 time (json_string_field p key)) time_keys else None)"

definition unindexed_reason :: "string \<Rightarrow> unindexed_line_reason" where
  "unindexed_reason line = (if valid_utf8 (take spool_envelope_prefix_bytes line) then MissingPrimaryTime
     else InvalidUtf8Prefix)"

section \<open>Building the index\<close>

definition windows_jsonl_time_index_path :: "string \<Rightarrow> string" where
  "windows_jsonl_time_index_path source_path = source_path @ index_suffix"

definition is_windows_jsonl_source :: "string \<Rightarrow> bool" where
  "is_windows_jsonl_source source_path = (case path_file_name source_path of None \<Rightarrow> False
     | Some name \<Rightarrow> ends_with name windows_jsonl_suffix)"

definition validate_windows_jsonl_source :: "string \<Rightarrow> capture_core_error + unit" where
  "validate_windows_jsonl_source source_path = (if is_windows_jsonl_source source_path then Inr ()
     else Inl (CaptureInvalidPath source_path ''time indexes are only defined for .windows.jsonl files''))"

definition source_fingerprint :: "string \<Rightarrow> spool_fs \<Rightarrow> capture_core_error + source_file_fingerprint" where
  "source_fingerprint source_path fs = (case bt_get (ss_files fs) source_path of None \<Rightarrow> Inl (CaptureIo source_path)
     | Some f \<Rightarrow> Inr \<lparr> sg_byte_count = length (sf_bytes f), sg_modified_unix_seconds = map_option fst (sf_modified f),
         sg_modified_subsec_nanos = map_option snd (sf_modified f) \<rparr>)"

definition entry_key :: "windows_jsonl_time_index_entry \<Rightarrow> int \<times> nat \<times> nat" where
  "entry_key e = (we_primary_time e, we_line_number e, we_byte_start e)"

definition empty_index :: "string \<Rightarrow> source_file_fingerprint \<Rightarrow> windows_jsonl_time_index" where
  "empty_index source_path source = \<lparr> wi_schema_version = index_schema_version, wi_source_path = source_path,
     wi_source = source, wi_total_lines = 0, wi_indexed_lines = 0, wi_empty_lines = 0, wi_unindexed_lines = [],
     wi_entries = [] \<rparr>"

text \<open>What one line adds to the index.\<close>

definition index_line :: "(string \<Rightarrow> int option) \<Rightarrow> nat \<Rightarrow> nat \<Rightarrow> string \<Rightarrow> windows_jsonl_time_index \<Rightarrow>
    windows_jsonl_time_index" where
  "index_line time line_number byte_start line ix = (
     let trimmed = trim_jsonl_newline line; byte_end = byte_start + length line;
         ix1 = ix\<lparr> wi_total_lines := wi_total_lines ix + 1 \<rparr>
     in if trimmed = [] then ix1\<lparr> wi_empty_lines := wi_empty_lines ix + 1 \<rparr>
        else case primary_time_from_json_prefix time trimmed of
          Some t \<Rightarrow> ix1\<lparr> wi_indexed_lines := wi_indexed_lines ix + 1, wi_entries := wi_entries ix @
            [\<lparr> we_primary_time = t, we_line_number = line_number, we_byte_start = byte_start, we_byte_end = byte_end \<rparr>] \<rparr>
        | None \<Rightarrow> ix1\<lparr> wi_unindexed_lines := wi_unindexed_lines ix @
            [\<lparr> uw_line_number = line_number, uw_byte_start = byte_start, uw_byte_end = byte_end,
               uw_reason = unindexed_reason trimmed \<rparr>] \<rparr>)"

fun index_loop :: "(string \<Rightarrow> int option) \<Rightarrow> nat \<Rightarrow> nat \<Rightarrow> string list \<Rightarrow> windows_jsonl_time_index \<Rightarrow>
    windows_jsonl_time_index" where
  "index_loop time line_number byte_start [] ix = ix"
| "index_loop time line_number byte_start (line # ls) ix =
     index_loop time (line_number + 1) (byte_start + length line) ls
       (index_line time (line_number + 1) byte_start line ix)"

definition rebuild_windows_jsonl_time_index :: "(string \<Rightarrow> int option) \<Rightarrow> string \<Rightarrow> spool_fs \<Rightarrow>
    capture_core_error + windows_jsonl_time_index" where
  "rebuild_windows_jsonl_time_index time source_path fs =
     try_then (validate_windows_jsonl_source source_path) (\<lambda>_.
     try_then (source_fingerprint source_path fs) (\<lambda>source.
     try_then (ok_or (bt_get (ss_files fs) source_path) (CaptureIo source_path)) (\<lambda>f.
       let ix = index_loop time 0 0 (raw_lines (sf_bytes f)) (empty_index source_path source)
       in Inr (ix\<lparr> wi_entries := sort_key entry_key (wi_entries ix) \<rparr>))))"

definition write_windows_jsonl_time_index :: "(string \<Rightarrow> int option) \<Rightarrow> string \<Rightarrow> spool_fs \<Rightarrow>
    (capture_core_error + windows_jsonl_time_index) \<times> spool_fs" where
  "write_windows_jsonl_time_index time source_path fs =
     st_try (rebuild_windows_jsonl_time_index time source_path fs) fs (\<lambda>ix.
       (Inr ix, fs\<lparr> ss_sidecars := bt_insert (windows_jsonl_time_index_path source_path) (IndexJson ix) (ss_sidecars fs) \<rparr>))"

section \<open>Looking up a window of time\<close>

text \<open>The two binary searches.\<close>

function lower_bound_loop :: "windows_jsonl_time_index_entry list \<Rightarrow> int \<Rightarrow> nat \<Rightarrow> nat \<Rightarrow> nat" where
  "lower_bound_loop entries time left right = (if left < right then
     let mid = left + (right - left) div 2
     in if we_primary_time (entries ! mid) < time then lower_bound_loop entries time (mid + 1) right
        else lower_bound_loop entries time left mid
     else left)"
  by pat_completeness auto
termination
  by (relation "measure (\<lambda>(entries, time, left, right). right - left)") auto

declare lower_bound_loop.simps [simp del]

definition lower_bound_time :: "windows_jsonl_time_index_entry list \<Rightarrow> int \<Rightarrow> nat" where
  "lower_bound_time entries time = lower_bound_loop entries time 0 (length entries)"

function upper_bound_loop :: "windows_jsonl_time_index_entry list \<Rightarrow> int \<Rightarrow> nat \<Rightarrow> nat \<Rightarrow> nat" where
  "upper_bound_loop entries time left right = (if left < right then
     let mid = left + (right - left) div 2
     in if we_primary_time (entries ! mid) \<le> time then upper_bound_loop entries time (mid + 1) right
        else upper_bound_loop entries time left mid
     else left)"
  by pat_completeness auto
termination
  by (relation "measure (\<lambda>(entries, time, left, right). right - left)") auto

declare upper_bound_loop.simps [simp del]

definition upper_bound_time :: "windows_jsonl_time_index_entry list \<Rightarrow> int \<Rightarrow> nat" where
  "upper_bound_time entries time = upper_bound_loop entries time 0 (length entries)"

definition coalesce_step :: "windows_jsonl_time_index_entry \<Rightarrow> windows_jsonl_indexed_range list \<Rightarrow>
    windows_jsonl_indexed_range list" where
  "coalesce_step entry ranges =
     (if ranges \<noteq> [] \<and> xr_byte_end (last ranges) = we_byte_start entry \<and>
         xr_line_end (last ranges) + 1 = we_line_number entry
      then butlast ranges @ [(last ranges)\<lparr> xr_byte_end := we_byte_end entry, xr_line_end := we_line_number entry,
             xr_entry_count := xr_entry_count (last ranges) + 1 \<rparr>]
      else ranges @ [\<lparr> xr_byte_start = we_byte_start entry, xr_byte_end = we_byte_end entry,
             xr_line_start = we_line_number entry, xr_line_end = we_line_number entry, xr_entry_count = 1 \<rparr>])"

definition coalesce_ranges :: "windows_jsonl_time_index_entry list \<Rightarrow> windows_jsonl_indexed_range list" where
  "coalesce_ranges entries = fold coalesce_step entries []"

definition selected_entries :: "windows_jsonl_time_index_entry list \<Rightarrow> int \<Rightarrow> int \<Rightarrow> windows_jsonl_time_index_entry list" where
  "selected_entries entries time_start time_end = (
     let start = lower_bound_time entries time_start; stop = upper_bound_time entries time_end
     in sort_key (\<lambda>e. (we_byte_start e, we_line_number e)) (drop start (take stop entries)))"

definition query_index :: "windows_jsonl_time_index \<Rightarrow> string \<Rightarrow> string \<Rightarrow> int \<Rightarrow> int \<Rightarrow> windows_jsonl_range_lookup" where
  "query_index ix source_path sidecar_path time_start time_end = (
     let selected = selected_entries (wi_entries ix) time_start time_end
     in \<lparr> wl_source_path = source_path, wl_sidecar_path = sidecar_path, wl_time_start = time_start, wl_time_end = time_end,
          wl_source_byte_count = sg_byte_count (wi_source ix), wl_total_lines = wi_total_lines ix,
          wl_selected_entry_count = length selected, wl_indexed_entry_count = length (wi_entries ix),
          wl_ranges = coalesce_ranges selected \<rparr>)"

text \<open>The first fault of the entries: an empty range, or a time before the previous one.\<close>

fun entries_fault :: "int option \<Rightarrow> windows_jsonl_time_index_entry list \<Rightarrow> bool" where
  "entries_fault previous [] = False"
| "entries_fault previous (e # es) = (we_byte_start e \<ge> we_byte_end e \<or>
     (case previous of None \<Rightarrow> False | Some t \<Rightarrow> we_primary_time e < t) \<or> entries_fault (Some (we_primary_time e)) es)"

definition index_shape_error :: "windows_jsonl_time_index \<Rightarrow> bool" where
  "index_shape_error ix \<longleftrightarrow> wi_indexed_lines ix \<noteq> length (wi_entries ix) \<or>
     wi_indexed_lines ix + wi_empty_lines ix + length (wi_unindexed_lines ix) \<noteq> wi_total_lines ix \<or>
     entries_fault None (wi_entries ix)"

definition query_windows_jsonl_time_index :: "string \<Rightarrow> int \<Rightarrow> int \<Rightarrow> spool_fs \<Rightarrow>
    capture_core_error + windows_jsonl_index_lookup" where
  "query_windows_jsonl_time_index source_path time_start time_end fs =
     (if time_start > time_end then Inl (CaptureInvalidTimeRange time_start time_end)
      else let sidecar_path = windows_jsonl_time_index_path source_path in
        if \<not> is_windows_jsonl_source source_path then Inr (Fallback UnsupportedSourceFile)
        else try_then (source_fingerprint source_path fs) (\<lambda>current.
          case bt_get (ss_sidecars fs) sidecar_path of
            None \<Rightarrow> Inr (Fallback MissingSidecar)
          | Some UnreadableJson \<Rightarrow> Inr (Fallback CorruptSidecar)
          | Some (IndexJson ix) \<Rightarrow>
              if wi_schema_version ix \<noteq> index_schema_version then Inr (Fallback CorruptSidecar)
              else if wi_source ix \<noteq> current then Inr (Fallback StaleSidecar)
              else if index_shape_error ix then Inr (Fallback CorruptSidecar)
              else if \<not> is_complete ix then Inr (Fallback IncompleteSidecar)
              else Inr (Indexed (query_index ix source_path sidecar_path time_start time_end))))"

end
