(* ===== verification/Spool_Read.thy ===== *)
theory Spool_Read
  imports Spool_Index
begin

text \<open>
  Reading a window of time from the capture spool (\<open>spool.rs\<close> and the records of \<open>event.rs\<close> in
  \<open>crates/onecontext-capture-core/src\<close>): the full scan of a spool file, the reading through the time index, and the
  report of both. The JSON decoders, the lossy conversion to text and SHA-256 are parameters; the payload of
  an event is opaque.
\<close>

section \<open>Data\<close>

record 'v capture_event_envelope =
  cv_schema_version :: "32 word option"
  cv_event_type :: string
  cv_recorded_at :: "int option"
  cv_event_time_start :: "int option"
  cv_event_time_end :: "int option"
  cv_lane_id :: "string option"
  cv_stream_id :: "string option"
  cv_source_record_id :: "string option"
  cv_source_hash :: "string option"
  cv_source_span_id :: "string option"
  cv_capture_bundle_id :: "string option"
  cv_payload :: 'v

definition envelope_primary_time :: "'v capture_event_envelope \<Rightarrow> int option" where
  "envelope_primary_time e = or_else (cv_event_time_start e) (cv_recorded_at e)"

record 'v raw_spool_record =
  rw_source_path :: string
  rw_line_number :: nat
  rw_byte_offset :: nat
  rw_raw_record_hash :: string
  rw_raw_json :: string
  rw_envelope :: "'v capture_event_envelope"

record raw_spool_provenance =
  rv_raw_source_uri :: string
  rv_raw_line_number :: nat
  rv_raw_byte_offset :: nat
  rv_raw_record_hash :: string

definition provenance :: "'v raw_spool_record \<Rightarrow> raw_spool_provenance" where
  "provenance r = \<lparr> rv_raw_source_uri = file_uri (rw_source_path r), rv_raw_line_number = rw_line_number r,
     rv_raw_byte_offset = rw_byte_offset r, rv_raw_record_hash = rw_raw_record_hash r \<rparr>"

record spool_query =
  sq_capture_root :: string
  sq_time_start :: int
  sq_time_end :: int

datatype spool_read_mode = Tolerant | Strict

record spool_file_stats =
  sx_path :: string
  sx_total_lines :: nat
  sx_parsed_lines :: nat
  sx_full_record_parse_count :: nat
  sx_selected_records :: nat
  sx_malformed_lines :: nat
  sx_byte_count :: nat
  sx_scan_strategy :: "string option"
  sx_index_used :: bool
  sx_index_built :: bool
  sx_index_refreshed :: bool
  sx_index_checkpoint_count :: nat
  sx_indexed_start_line :: "nat option"
  sx_indexed_start_byte_offset :: "nat option"
  sx_indexed_lines_scanned :: nat

record malformed_spool_line =
  ml_source_path :: string
  ml_line_number :: nat
  ml_byte_offset :: nat
  ml_raw_record_hash :: string
  ml_raw_sample :: string
  ml_parser_error :: string

record 'v spool_read_report =
  so_schema_version :: nat
  so_tolerant_read :: bool
  so_records :: "'v raw_spool_record list"
  so_files :: "spool_file_stats list"
  so_malformed_lines :: "malformed_spool_line list"

text \<open>What is not part of the source: the decoders (an error is its text), the lossy text of bytes, the hash.\<close>

record 'v spool_decoders =
  sd_time :: "string \<Rightarrow> int option"
  sd_filter :: "string \<Rightarrow> string + int option \<times> int option"
  sd_envelope :: "string \<Rightarrow> string + 'v capture_event_envelope"
  sd_lossy :: "string \<Rightarrow> string"
  sd_sha :: "string \<Rightarrow> string"

definition malformed_sample_max_bytes :: nat where "malformed_sample_max_bytes = 256"

definition spool_sha256_hex :: "(string \<Rightarrow> string) \<Rightarrow> string \<Rightarrow> string" where
  "spool_sha256_hex sha bytes = concat (map hex_byte (sha bytes))"

definition sample_text :: "(string \<Rightarrow> string) \<Rightarrow> string \<Rightarrow> string" where
  "sample_text lossy v = lossy (take malformed_sample_max_bytes v) @
     (if length v > malformed_sample_max_bytes then ''...'' else [])"

definition empty_stats :: "string \<Rightarrow> spool_file_stats" where
  "empty_stats path = \<lparr> sx_path = path, sx_total_lines = 0, sx_parsed_lines = 0, sx_full_record_parse_count = 0,
     sx_selected_records = 0, sx_malformed_lines = 0, sx_byte_count = 0, sx_scan_strategy = None, sx_index_used = False,
     sx_index_built = False, sx_index_refreshed = False, sx_index_checkpoint_count = 0, sx_indexed_start_line = None,
     sx_indexed_start_byte_offset = None, sx_indexed_lines_scanned = 0 \<rparr>"

section \<open>One line\<close>

type_synonym 'v scan = "spool_file_stats \<times> 'v spool_read_report"

definition push_record :: "'v spool_decoders \<Rightarrow> string \<Rightarrow> nat \<Rightarrow> nat \<Rightarrow> string \<Rightarrow> 'v capture_event_envelope \<Rightarrow>
    'v scan \<Rightarrow> 'v scan" where
  "push_record dec file line_number byte_offset trimmed envelope st = (case st of (stats, report) \<Rightarrow>
     (stats\<lparr> sx_full_record_parse_count := sx_full_record_parse_count stats + 1,
        sx_selected_records := sx_selected_records stats + 1 \<rparr>,
      report\<lparr> so_records := so_records report @
        [\<lparr> rw_source_path = file, rw_line_number = line_number, rw_byte_offset = byte_offset,
           rw_raw_record_hash = spool_sha256_hex (sd_sha dec) trimmed, rw_raw_json = sd_lossy dec trimmed,
           rw_envelope = envelope \<rparr>] \<rparr>))"

definition push_malformed :: "'v spool_decoders \<Rightarrow> string \<Rightarrow> nat \<Rightarrow> nat \<Rightarrow> string \<Rightarrow> string \<Rightarrow> 'v scan \<Rightarrow> 'v scan" where
  "push_malformed dec file line_number byte_offset trimmed error st = (case st of (stats, report) \<Rightarrow>
     (stats\<lparr> sx_malformed_lines := sx_malformed_lines stats + 1 \<rparr>,
      report\<lparr> so_malformed_lines := so_malformed_lines report @
        [\<lparr> ml_source_path = file, ml_line_number = line_number, ml_byte_offset = byte_offset,
           ml_raw_record_hash = spool_sha256_hex (sd_sha dec) trimmed, ml_raw_sample = sample_text (sd_lossy dec) trimmed,
           ml_parser_error = error \<rparr>] \<rparr>))"

text \<open>The full parse that both ways of reading apply to a selected line of a window spool.\<close>

definition parse_selected :: "'v spool_decoders \<Rightarrow> string \<Rightarrow> nat \<Rightarrow> nat \<Rightarrow> string \<Rightarrow> 'v scan \<Rightarrow> 'v scan" where
  "parse_selected dec file line_number byte_offset trimmed st = (case sd_envelope dec trimmed of
     Inr envelope \<Rightarrow> push_record dec file line_number byte_offset trimmed envelope st
   | Inl error \<Rightarrow> push_malformed dec file line_number byte_offset trimmed error st)"

definition fast_prefix_filter_eligible :: "string \<Rightarrow> bool" where
  "fast_prefix_filter_eligible file = (case path_file_name file of None \<Rightarrow> False
     | Some name \<Rightarrow> ends_with name ''.windows.jsonl'')"

definition count_line :: "string \<Rightarrow> 'v scan \<Rightarrow> 'v scan" where
  "count_line line st = (case st of (stats, report) \<Rightarrow>
     (stats\<lparr> sx_total_lines := sx_total_lines stats + 1, sx_byte_count := sx_byte_count stats + length line \<rparr>, report))"

definition count_parsed :: "'v scan \<Rightarrow> 'v scan" where
  "count_parsed st = (case st of (stats, report) \<Rightarrow> (stats\<lparr> sx_parsed_lines := sx_parsed_lines stats + 1 \<rparr>, report))"

definition in_window :: "spool_query \<Rightarrow> int \<Rightarrow> bool" where
  "in_window query t \<longleftrightarrow> sq_time_start query \<le> t \<and> t \<le> sq_time_end query"

text \<open>\<open>SpoolEnvelopeFilter::primary_time\<close>: of the pair of recorded and start time.\<close>

definition filter_primary_time :: "int option \<times> int option \<Rightarrow> int option" where
  "filter_primary_time f = or_else (snd f) (fst f)"

definition scan_line :: "'v spool_decoders \<Rightarrow> string \<Rightarrow> spool_query \<Rightarrow> spool_read_mode \<Rightarrow> nat \<Rightarrow> nat \<Rightarrow> string \<Rightarrow>
    'v scan \<Rightarrow> capture_core_error + 'v scan" where
  "scan_line dec file query mode line_number byte_offset line st0 = (
     let st = count_line line st0; trimmed = trim_jsonl_newline line;
         prefix_time = (if mode = Tolerant \<and> fast_prefix_filter_eligible file
           then primary_time_from_json_prefix (sd_time dec) trimmed else None)
     in if trimmed = [] then Inr st
        else case prefix_time of
          Some t \<Rightarrow> Inr (if in_window query t then parse_selected dec file line_number byte_offset trimmed (count_parsed st)
            else count_parsed st)
        | None \<Rightarrow> (case sd_filter dec trimmed of
            Inr f \<Rightarrow> (case filter_primary_time f of
                None \<Rightarrow> Inr (count_parsed st)
              | Some t \<Rightarrow> if in_window query t
                  then (case sd_envelope dec trimmed of
                      Inl error \<Rightarrow> Inl (CaptureJson (file @ '':'' @ decimal line_number))
                    | Inr envelope \<Rightarrow> Inr (push_record dec file line_number byte_offset trimmed envelope (count_parsed st)))
                  else Inr (count_parsed st))
          | Inl error \<Rightarrow> if mode = Tolerant
              then Inr (push_malformed dec file line_number byte_offset trimmed error st)
              else Inl (CaptureJson (file @ '':'' @ decimal line_number))))"

fun scan_lines :: "'v spool_decoders \<Rightarrow> string \<Rightarrow> spool_query \<Rightarrow> spool_read_mode \<Rightarrow> nat \<Rightarrow> nat \<Rightarrow> string list \<Rightarrow>
    'v scan \<Rightarrow> capture_core_error + 'v scan" where
  "scan_lines dec file query mode line_number byte_offset [] st = Inr st"
| "scan_lines dec file query mode line_number byte_offset (line # ls) st =
     try_then (scan_line dec file query mode (line_number + 1) byte_offset line st) (\<lambda>st'.
       scan_lines dec file query mode (line_number + 1) (byte_offset + length line) ls st')"

definition push_stats :: "'v scan \<Rightarrow> 'v spool_read_report" where
  "push_stats st = (case st of (stats, report) \<Rightarrow> report\<lparr> so_files := so_files report @ [stats] \<rparr>)"

definition read_jsonl_file_full_scan :: "'v spool_decoders \<Rightarrow> string \<Rightarrow> spool_query \<Rightarrow> spool_read_mode \<Rightarrow> spool_fs \<Rightarrow>
    'v spool_read_report \<Rightarrow> capture_core_error + 'v spool_read_report" where
  "read_jsonl_file_full_scan dec file query mode fs report =
     try_then (ok_or (bt_get (ss_files fs) file) (CaptureIo file)) (\<lambda>f.
     try_then (scan_lines dec file query mode 0 0 (raw_lines (sf_bytes f)) (empty_stats file, report)) (\<lambda>st.
       Inr (push_stats st)))"

section \<open>Reading through the index\<close>

record loaded_windows_time_range =
  lw_lookup :: windows_jsonl_range_lookup
  lw_built :: bool
  lw_refreshed :: bool

definition indexed_time_range_after_refresh :: "string \<Rightarrow> spool_query \<Rightarrow> bool \<Rightarrow> bool \<Rightarrow> spool_fs \<Rightarrow>
    capture_core_error + loaded_windows_time_range option" where
  "indexed_time_range_after_refresh file query built refreshed fs =
     try_then (query_windows_jsonl_time_index file (sq_time_start query) (sq_time_end query) fs) (\<lambda>found. Inr (case found of
       Indexed lookup \<Rightarrow> Some \<lparr> lw_lookup = lookup, lw_built = built, lw_refreshed = refreshed \<rparr>
     | Fallback reason \<Rightarrow> None))"

definition load_or_refresh_windows_time_range :: "(string \<Rightarrow> int option) \<Rightarrow> string \<Rightarrow> spool_query \<Rightarrow> spool_fs \<Rightarrow>
    (capture_core_error + loaded_windows_time_range option) \<times> spool_fs" where
  "load_or_refresh_windows_time_range time file query fs =
     st_try (query_windows_jsonl_time_index file (sq_time_start query) (sq_time_end query) fs) fs (\<lambda>found. case found of
       Indexed lookup \<Rightarrow> (Inr (Some \<lparr> lw_lookup = lookup, lw_built = False, lw_refreshed = False \<rparr>), fs)
     | Fallback reason \<Rightarrow>
         if reason = MissingSidecar \<or> reason = StaleSidecar
         then st_then (write_windows_jsonl_time_index time file fs) (\<lambda>_ fs'.
           (indexed_time_range_after_refresh file query (reason = MissingSidecar) (reason = StaleSidecar) fs', fs'))
         else (Inr None, fs))"

text \<open>One line of a range; every line that is not blank is parsed.\<close>

definition indexed_line :: "'v spool_decoders \<Rightarrow> string \<Rightarrow> nat \<Rightarrow> nat \<Rightarrow> string \<Rightarrow> 'v scan \<Rightarrow> 'v scan" where
  "indexed_line dec file line_number byte_offset line st0 = (
     let st = (case st0 of (stats, report) \<Rightarrow> (stats\<lparr> sx_indexed_lines_scanned := sx_indexed_lines_scanned stats + 1 \<rparr>, report));
         trimmed = trim_jsonl_newline line
     in if trimmed = [] then st else parse_selected dec file line_number byte_offset trimmed (count_parsed st))"

fun indexed_lines :: "'v spool_decoders \<Rightarrow> string \<Rightarrow> nat \<Rightarrow> nat \<Rightarrow> string list \<Rightarrow> 'v scan \<Rightarrow> 'v scan" where
  "indexed_lines dec file line_number byte_offset [] st = st"
| "indexed_lines dec file line_number byte_offset (line # ls) st =
     indexed_lines dec file (line_number + 1) (byte_offset + length line) ls
       (indexed_line dec file (line_number + 1) byte_offset line st)"

text \<open>\<open>seek\<close> and \<open>read_exact\<close>: the bytes of a range, which must all be there.\<close>

definition range_bytes :: "string \<Rightarrow> windows_jsonl_indexed_range \<Rightarrow> string option" where
  "range_bytes bytes r = (let n = xr_byte_end r - xr_byte_start r; s = take n (drop (xr_byte_start r) bytes)
     in if length s = n then Some s else None)"

fun read_ranges :: "'v spool_decoders \<Rightarrow> string \<Rightarrow> string \<Rightarrow> windows_jsonl_indexed_range list \<Rightarrow> 'v scan \<Rightarrow>
    capture_core_error + 'v scan" where
  "read_ranges dec file bytes [] st = Inr st"
| "read_ranges dec file bytes (r # rs) st = (case range_bytes bytes r of
     None \<Rightarrow> Inl (CaptureIo file)
   | Some s \<Rightarrow> read_ranges dec file bytes rs
       (indexed_lines dec file (xr_line_start r - 1) (xr_byte_start r) (raw_lines s) st))"

definition indexed_stats :: "string \<Rightarrow> loaded_windows_time_range \<Rightarrow> spool_file_stats" where
  "indexed_stats file loaded = (let lookup = lw_lookup loaded; first = (case wl_ranges lookup of [] \<Rightarrow> None | r # _ \<Rightarrow> Some r)
     in (empty_stats file)\<lparr> sx_total_lines := wl_total_lines lookup, sx_byte_count := wl_source_byte_count lookup,
          sx_scan_strategy := Some ''windows_spool_time_index'', sx_index_used := True, sx_index_built := lw_built loaded,
          sx_index_refreshed := lw_refreshed loaded, sx_index_checkpoint_count := wl_indexed_entry_count lookup,
          sx_indexed_start_line := map_option xr_line_start first,
          sx_indexed_start_byte_offset := map_option xr_byte_start first \<rparr>)"

definition read_indexed_windows_jsonl_file :: "'v spool_decoders \<Rightarrow> string \<Rightarrow> spool_query \<Rightarrow> 'v spool_read_report \<Rightarrow>
    spool_fs \<Rightarrow> (capture_core_error + 'v spool_read_report) \<times> spool_fs" where
  "read_indexed_windows_jsonl_file dec file query report fs =
     st_then (load_or_refresh_windows_time_range (sd_time dec) file query fs) (\<lambda>found fs'. (case found of
       None \<Rightarrow> read_jsonl_file_full_scan dec file query Tolerant fs' report
     | Some loaded \<Rightarrow>
         try_then (ok_or (bt_get (ss_files fs') file) (CaptureIo file)) (\<lambda>f.
         try_then (read_ranges dec file (sf_bytes f) (wl_ranges (lw_lookup loaded)) (indexed_stats file loaded, report)) (\<lambda>st.
           Inr (push_stats st))), fs'))"

definition read_jsonl_file :: "'v spool_decoders \<Rightarrow> string \<Rightarrow> spool_query \<Rightarrow> spool_read_mode \<Rightarrow> 'v spool_read_report \<Rightarrow>
    spool_fs \<Rightarrow> (capture_core_error + 'v spool_read_report) \<times> spool_fs" where
  "read_jsonl_file dec file query mode report fs =
     (if mode = Tolerant \<and> fast_prefix_filter_eligible file
      then read_indexed_windows_jsonl_file dec file query report fs
      else (read_jsonl_file_full_scan dec file query mode fs report, fs))"

section \<open>All files of the spool\<close>

text \<open>
  The files of a directory by their suffix. The order of \<open>read_dir\<close> does not matter, as the paths are sorted;
  within one spool the order of the paths' components is the order of their bytes.
\<close>

definition collect_jsonl_files :: "string \<Rightarrow> string \<Rightarrow> spool_fs \<Rightarrow> string list" where
  "collect_jsonl_files directory ending fs = filter (\<lambda>path. path_parent path = directory \<and>
     (case path_file_name path of None \<Rightarrow> False | Some name \<Rightarrow> ends_with name ending)) (bt_keys (ss_files fs))"

fun read_files :: "'v spool_decoders \<Rightarrow> spool_query \<Rightarrow> spool_read_mode \<Rightarrow> string list \<Rightarrow> 'v spool_read_report \<Rightarrow>
    spool_fs \<Rightarrow> (capture_core_error + 'v spool_read_report) \<times> spool_fs" where
  "read_files dec query mode [] report fs = (Inr report, fs)"
| "read_files dec query mode (file # files) report fs =
     st_then (read_jsonl_file dec file query mode report fs) (\<lambda>report' fs'. read_files dec query mode files report' fs')"

definition empty_report :: "spool_read_mode \<Rightarrow> 'v spool_read_report" where
  "empty_report mode = \<lparr> so_schema_version = 1, so_tolerant_read = (mode = Tolerant), so_records = [], so_files = [],
     so_malformed_lines = [] \<rparr>"

definition read_spool_window_report :: "'v spool_decoders \<Rightarrow> spool_query \<Rightarrow> spool_read_mode \<Rightarrow> spool_fs \<Rightarrow>
    (capture_core_error + 'v spool_read_report) \<times> spool_fs" where
  "read_spool_window_report dec query mode fs = (
     let paths = capture_paths_new (sq_capture_root query);
         files = sort (collect_jsonl_files (cp_events_dir paths) ''.events.jsonl'' fs @
           collect_jsonl_files (cp_windows_dir paths) ''.windows.jsonl'' fs @
           collect_jsonl_files (cp_displays_dir paths) ''.displays.jsonl'' fs)
     in read_files dec query mode files (empty_report mode) fs)"

definition read_spool_window :: "'v spool_decoders \<Rightarrow> spool_query \<Rightarrow> spool_fs \<Rightarrow>
    (capture_core_error + 'v raw_spool_record list) \<times> spool_fs" where
  "read_spool_window dec query fs =
     st_then (read_spool_window_report dec query Tolerant fs) (\<lambda>report fs'. (Inr (so_records report), fs'))"

definition read_spool_window_tolerant :: "'v spool_decoders \<Rightarrow> spool_query \<Rightarrow> spool_fs \<Rightarrow>
    (capture_core_error + 'v spool_read_report) \<times> spool_fs" where
  "read_spool_window_tolerant dec query fs = read_spool_window_report dec query Tolerant fs"

definition read_spool_window_strict :: "'v spool_decoders \<Rightarrow> spool_query \<Rightarrow> spool_fs \<Rightarrow>
    (capture_core_error + 'v raw_spool_record list) \<times> spool_fs" where
  "read_spool_window_strict dec query fs =
     st_then (read_spool_window_report dec query Strict fs) (\<lambda>report fs'. (Inr (so_records report), fs'))"

end
