(* ===== verification/Spool_Lines.thy ===== *)
theory Spool_Lines
  imports Spool_Read
begin

text \<open>
  The lines of a spool file and their positions: the binary searches of the index, the loops over lines as folds, the
  index that the rebuilding gives, the ranges that a query coalesces, and what reading them finds.
\<close>

section \<open>Binary search\<close>

definition sorted_times :: "windows_jsonl_time_index_entry list \<Rightarrow> bool" where
  "sorted_times es \<longleftrightarrow> sorted (map we_primary_time es)"

lemma sorted_times_nth: "sorted_times es \<Longrightarrow> i \<le> j \<Longrightarrow> j < length es \<Longrightarrow>
    we_primary_time (es ! i) \<le> we_primary_time (es ! j)"
  by (auto simp: sorted_times_def sorted_iff_nth_mono)

definition splits_at :: "(int \<Rightarrow> bool) \<Rightarrow> windows_jsonl_time_index_entry list \<Rightarrow> nat \<Rightarrow> bool" where
  "splits_at before es m \<longleftrightarrow> m \<le> length es \<and> (\<forall>i < m. before (we_primary_time (es ! i))) \<and>
     (\<forall>i. m \<le> i \<and> i < length es \<longrightarrow> \<not> before (we_primary_time (es ! i)))"

lemma lower_bound_loop_splits:
  assumes "sorted_times es" "left \<le> right" "right \<le> length es"
    and "\<And>i. i < left \<Longrightarrow> we_primary_time (es ! i) < t"
    and "\<And>i. right \<le> i \<Longrightarrow> i < length es \<Longrightarrow> \<not> we_primary_time (es ! i) < t"
  shows "splits_at (\<lambda>x. x < t) es (lower_bound_loop es t left right)"
  using assms
proof (induction es t left right rule: lower_bound_loop.induct)
  case (1 es t left right)
  show ?case
  proof (cases "left < right")
    case False
    then show ?thesis
      using 1 by (subst lower_bound_loop.simps) (auto simp: splits_at_def)
  next
    case True
    define mid where "mid = left + (right - left) div 2"
    have mid: "left \<le> mid" "mid < right"
      using True by (auto simp: mid_def)
    show ?thesis
    proof (cases "we_primary_time (es ! mid) < t")
      case below: True
      have "splits_at (\<lambda>x. x < t) es (lower_bound_loop es t (mid + 1) right)"
      proof (rule "1.IH"(1) [OF True mid_def below])
        fix i assume "i < mid + 1"
        then show "we_primary_time (es ! i) < t"
          using sorted_times_nth [OF "1.prems"(1), of i mid] below mid "1.prems"(3) by simp
      qed (use "1.prems" mid in auto)
      then show ?thesis
        using True below by (subst lower_bound_loop.simps) (simp add: Let_def mid_def)
    next
      case above: False
      have "splits_at (\<lambda>x. x < t) es (lower_bound_loop es t left mid)"
      proof (rule "1.IH"(2) [OF True mid_def above])
        fix i assume "mid \<le> i" "i < length es"
        then show "\<not> we_primary_time (es ! i) < t"
          using sorted_times_nth [OF "1.prems"(1), of mid i] above by simp
      qed (use "1.prems" mid in auto)
      then show ?thesis
        using True above by (subst lower_bound_loop.simps) (simp add: Let_def mid_def)
    qed
  qed
qed

lemma upper_bound_loop_lower: "upper_bound_loop es t left right = lower_bound_loop es (t + 1) left right"
proof (induction es t left right rule: upper_bound_loop.induct)
  case (1 es t left right)
  then show ?case
    by (subst upper_bound_loop.simps, subst lower_bound_loop.simps) (auto simp: Let_def)
qed

lemma window_of_bounds:
  assumes "sorted_times es" "t1 \<le> t2"
  shows "lower_bound_time es t1 \<le> upper_bound_time es t2 \<and> upper_bound_time es t2 \<le> length es \<and>
    drop (lower_bound_time es t1) (take (upper_bound_time es t2) es) =
      filter (\<lambda>e. t1 \<le> we_primary_time e \<and> we_primary_time e \<le> t2) es"
proof -
  define a where "a = lower_bound_time es t1"
  define b where "b = upper_bound_time es t2"
  have a: "splits_at (\<lambda>x. x < t1) es a"
    unfolding a_def lower_bound_time_def by (rule lower_bound_loop_splits) (use assms in auto)
  have b: "splits_at (\<lambda>x. x < t2 + 1) es b"
    unfolding b_def upper_bound_time_def upper_bound_loop_lower by (rule lower_bound_loop_splits) (use assms in auto)
  have ab: "a \<le> b"
  proof (rule ccontr)
    assume "\<not> a \<le> b"
    then have "b < a" "b < length es"
      using a by (auto simp: splits_at_def)
    then have "we_primary_time (es ! b) < t1" "\<not> we_primary_time (es ! b) < t2 + 1"
      using a b unfolding splits_at_def by blast+
    then show False
      using assms(2) by simp
  qed
  let ?w = "\<lambda>e. t1 \<le> we_primary_time e \<and> we_primary_time e \<le> t2"
  have es: "es = take a es @ drop a (take b es) @ drop b es"
    using ab by (metis append_assoc append_take_drop_id min_absorb1 take_take)
  have "filter ?w (take a es) = []"
    using a by (force simp: splits_at_def filter_empty_conv in_set_conv_nth)
  moreover have "filter ?w (drop b es) = []"
    using b by (force simp: splits_at_def filter_empty_conv in_set_conv_nth)
  moreover have "filter ?w (drop a (take b es)) = drop a (take b es)"
  proof -
    have "?w (drop a (take b es) ! k)" if "k < b - a" for k
    proof -
      have k: "a + k < b" "a + k < length es"
        using that b by (auto simp: splits_at_def)
      then have "we_primary_time (es ! (a + k)) < t2 + 1" "\<not> we_primary_time (es ! (a + k)) < t1"
        using a b unfolding splits_at_def by (blast, simp)
      then show ?thesis
        using k by simp
    qed
    then show ?thesis
      using b by (auto simp: filter_id_conv in_set_conv_nth splits_at_def min_def split: if_splits)
  qed
  ultimately have "filter ?w es = drop a (take b es)"
    using arg_cong [OF es, of "filter ?w"] unfolding filter_append by simp
  then show ?thesis
    using ab b by (simp add: a_def [symmetric] b_def [symmetric] splits_at_def)
qed

section \<open>Lines and their positions\<close>

definition line_offset :: "string list \<Rightarrow> nat \<Rightarrow> nat" where
  "line_offset ls j = length (concat (take j ls))"

lemma line_offset_0 [simp]: "line_offset ls 0 = 0"
  by (simp add: line_offset_def)

lemma line_offset_Cons [simp]: "line_offset (l # ls) (Suc j) = length l + line_offset ls j"
  by (simp add: line_offset_def)

lemma line_offset_Suc: "j < length ls \<Longrightarrow> line_offset ls (Suc j) = line_offset ls j + length (ls ! j)"
  by (simp add: line_offset_def take_Suc_conv_app_nth)

text \<open>A loop that counts lines and bytes is a fold over the indices of the lines.\<close>

lemma upt_Suc_shift: "[0..<Suc k] = 0 # map Suc [0..<k]"
  by (simp add: upt_conv_Cons map_Suc_upt del: upt_Suc)

lemma fold_map_Suc: "fold f (map Suc xs) st = fold (\<lambda>j. f (Suc j)) xs st"
  by (simp add: fold_map comp_def)

lemma index_loop_fold: "index_loop time n off ls ix =
    fold (\<lambda>j. index_line time (n + j + 1) (off + line_offset ls j) (ls ! j)) [0..<length ls] ix"
  by (induction ls arbitrary: n off ix)
    (simp_all add: upt_Suc_shift fold_map_Suc add.assoc add.commute add.left_commute del: upt_Suc)

lemma indexed_lines_fold: "indexed_lines dec file n off ls st =
    fold (\<lambda>j. indexed_line dec file (n + j + 1) (off + line_offset ls j) (ls ! j)) [0..<length ls] st"
  by (induction ls arbitrary: n off st)
    (simp_all add: upt_Suc_shift fold_map_Suc add.assoc add.commute add.left_commute del: upt_Suc)

lemma scan_lines_fold:
  assumes "\<And>j st. j < length ls \<Longrightarrow> scan_line dec file q m (n + j + 1) (off + line_offset ls j) (ls ! j) st = Inr (step j st)"
  shows "scan_lines dec file q m n off ls st = Inr (fold step [0..<length ls] st)"
  using assms
proof (induction ls arbitrary: n off st step)
  case (Cons l ls)
  have one: "scan_line dec file q m (n + 1) off l st = Inr (step 0 st)"
    using Cons.prems [of 0] by simp
  have "scan_lines dec file q m (n + 1) (off + length l) ls (step 0 st) = Inr (fold (\<lambda>j. step (Suc j)) [0..<length ls] (step 0 st))"
  proof (rule Cons.IH)
    fix j st assume "j < length ls"
    then show "scan_line dec file q m (n + 1 + j + 1) (off + length l + line_offset ls j) (ls ! j) st = Inr (step (Suc j) st)"
      using Cons.prems [of "Suc j" st] by (simp add: add.assoc)
  qed
  then show ?case
    using one by (simp add: upt_Suc_shift fold_map_Suc del: upt_Suc)
qed simp

subsection \<open>Raw lines\<close>

fun proper_lines :: "string list \<Rightarrow> bool" where
  "proper_lines [] = True"
| "proper_lines [l] = (l \<noteq> [] \<and> char_of (10 :: nat) \<notin> set (butlast l))"
| "proper_lines (l # m # ls) = (l \<noteq> [] \<and> last l = char_of (10 :: nat) \<and> char_of (10 :: nat) \<notin> set (butlast l) \<and>
     proper_lines (m # ls))"

lemma concat_raw_lines [simp]: "concat (raw_lines s) = s"
  by (induction s rule: raw_lines.induct) (auto split: list.splits)

lemma raw_lines_Nil_iff [simp]: "raw_lines s = [] \<longleftrightarrow> s = []"
  by (metis concat.simps(1) concat_raw_lines raw_lines.simps(1))

lemma proper_raw_lines: "proper_lines (raw_lines s)"
proof (induction s rule: raw_lines.induct)
  case (2 c cs)
  show ?case
  proof (cases "raw_lines cs")
    case (Cons l ls)
    have IH: "proper_lines (raw_lines cs)"
      using 2 by (cases "c = char_of (10 :: nat)") auto
    then show ?thesis
      using Cons by (cases ls) auto
  qed auto
qed simp

lemma proper_appendD: "proper_lines (a @ b) \<Longrightarrow> proper_lines b"
  by (induction a rule: proper_lines.induct) (auto elim: proper_lines.elims)

lemma proper_append_left: "proper_lines (a @ b) \<Longrightarrow> proper_lines a"
proof (induction a rule: proper_lines.induct)
  case (2 l)
  then show ?case by (cases b) auto
qed auto

lemma raw_lines_break: "char_of (10 :: nat) \<notin> set a \<Longrightarrow> raw_lines (a @ char_of (10 :: nat) # b) = (a @ [char_of (10 :: nat)]) # raw_lines b"
  by (induction a) auto

lemma raw_lines_single: "char_of (10 :: nat) \<notin> set a \<Longrightarrow> a \<noteq> [] \<Longrightarrow> raw_lines a = [a]"
proof (induction a)
  case (Cons x a)
  then show ?case
    by (cases a) auto
qed simp

lemma raw_lines_concat: "proper_lines ls \<Longrightarrow> raw_lines (concat ls) = ls"
proof (induction ls rule: proper_lines.induct)
  case (2 l)
  show ?case
  proof (cases "last l = char_of (10 :: nat)")
    case True
    then show ?thesis
      using 2 raw_lines_break [of "butlast l" "[]"] append_butlast_last_id [of l] by auto
  next
    case False
    then have "char_of (10 :: nat) \<notin> set l"
      using 2 by (metis append_butlast_last_id in_set_conv_decomp in_set_butlastD insert_iff list.simps(15) proper_lines.simps(2) set_append Un_iff empty_iff list.set(1))
    then show ?thesis
      using 2 raw_lines_single by simp
  qed
next
  case (3 l m ls)
  have l: "l = butlast l @ [char_of (10 :: nat)]"
    using 3 append_butlast_last_id [of l] by auto
  have eq: "concat (l # m # ls) = butlast l @ char_of (10 :: nat) # concat (m # ls)"
    by (subst l) simp
  have "raw_lines (concat (l # m # ls)) = l # raw_lines (concat (m # ls))"
    unfolding eq using 3 raw_lines_break [of "butlast l" "concat (m # ls)"] l [symmetric] by simp
  then show ?case
    using 3 by simp
qed simp

lemma slice_lines:
  assumes "i + k \<le> length ls"
  shows "take (line_offset ls (i + k) - line_offset ls i) (drop (line_offset ls i) (concat ls)) = concat (take k (drop i ls))"
proof -
  have ls: "ls = take i ls @ take k (drop i ls) @ drop (i + k) ls"
    by (metis add.commute append_take_drop_id drop_drop)
  have "take (i + k) ls = take i ls @ take k (drop i ls)"
    by (simp add: take_add)
  then have off: "line_offset ls (i + k) = line_offset ls i + length (concat (take k (drop i ls)))"
    by (simp add: line_offset_def)
  have "concat ls = concat (take i ls) @ concat (take k (drop i ls)) @ concat (drop (i + k) ls)"
    using ls by (metis concat_append)
  moreover have "line_offset ls i = length (concat (take i ls))"
    by (simp add: line_offset_def)
  ultimately show ?thesis
    using off by simp
qed

lemma raw_lines_slice: "raw_lines (concat (take k (drop i (raw_lines s)))) = take k (drop i (raw_lines s))"
proof (rule raw_lines_concat)
  have "proper_lines (drop i (raw_lines s))"
    using proper_appendD [of "take i (raw_lines s)" "drop i (raw_lines s)"] proper_raw_lines [of s]
    by (simp only: append_take_drop_id)
  then show "proper_lines (take k (drop i (raw_lines s)))"
    using proper_append_left [of "take k (drop i (raw_lines s))" "drop k (drop i (raw_lines s))"]
    by (simp only: append_take_drop_id)
qed

section \<open>The index of a file\<close>

definition line_time :: "(string \<Rightarrow> int option) \<Rightarrow> string \<Rightarrow> int option" where
  "line_time time l = (let trimmed = trim_jsonl_newline l in
     if trimmed = [] then None else primary_time_from_json_prefix time trimmed)"

definition line_entry :: "(string \<Rightarrow> int option) \<Rightarrow> string list \<Rightarrow> nat \<Rightarrow> windows_jsonl_time_index_entry" where
  "line_entry time ls j = \<lparr> we_primary_time = the (line_time time (ls ! j)), we_line_number = j + 1,
     we_byte_start = line_offset ls j, we_byte_end = line_offset ls (j + 1) \<rparr>"

definition timed_lines :: "(string \<Rightarrow> int option) \<Rightarrow> string list \<Rightarrow> nat list" where
  "timed_lines time ls = filter (\<lambda>j. line_time time (ls ! j) \<noteq> None) [0..<length ls]"

definition blank_line :: "string \<Rightarrow> bool" where
  "blank_line l \<longleftrightarrow> trim_jsonl_newline l = []"

lemma index_fold:
  assumes "k \<le> length ls"
  shows "let ix' = fold (\<lambda>j. index_line time (j + 1) (line_offset ls j) (ls ! j)) [0..<k] ix in
     wi_entries ix' = wi_entries ix @ map (line_entry time ls) (filter (\<lambda>j. line_time time (ls ! j) \<noteq> None) [0..<k]) \<and>
     wi_total_lines ix' = wi_total_lines ix + k \<and>
     wi_indexed_lines ix' = wi_indexed_lines ix + length (filter (\<lambda>j. line_time time (ls ! j) \<noteq> None) [0..<k]) \<and>
     wi_empty_lines ix' = wi_empty_lines ix + length (filter (\<lambda>j. blank_line (ls ! j)) [0..<k]) \<and>
     map uw_line_number (wi_unindexed_lines ix') = map uw_line_number (wi_unindexed_lines ix) @
       map Suc (filter (\<lambda>j. \<not> blank_line (ls ! j) \<and> line_time time (ls ! j) = None) [0..<k]) \<and>
     wi_schema_version ix' = wi_schema_version ix \<and> wi_source ix' = wi_source ix"
  using assms
proof (induction k)
  case (Suc k)
  then have "k < length ls"
    by simp
  then show ?case
    using Suc by (auto simp: index_line_def Let_def line_time_def blank_line_def line_entry_def line_offset_Suc
      split: option.splits)
qed simp

definition built_index :: "(string \<Rightarrow> int option) \<Rightarrow> string list \<Rightarrow> windows_jsonl_time_index \<Rightarrow> bool" where
  "built_index time ls ix \<longleftrightarrow> wi_entries ix = sort_key entry_key (map (line_entry time ls) (timed_lines time ls)) \<and>
     wi_total_lines ix = length ls \<and> wi_indexed_lines ix = length (timed_lines time ls) \<and>
     wi_empty_lines ix = length (filter (\<lambda>j. blank_line (ls ! j)) [0..<length ls]) \<and>
     map uw_line_number (wi_unindexed_lines ix) =
       map Suc (filter (\<lambda>j. \<not> blank_line (ls ! j) \<and> line_time time (ls ! j) = None) [0..<length ls]) \<and>
     wi_schema_version ix = index_schema_version"

lemma built_unindexed: "built_index time ls ix \<Longrightarrow> map uw_line_number (wi_unindexed_lines ix) =
    map Suc (filter (\<lambda>j. \<not> blank_line (ls ! j) \<and> line_time time (ls ! j) = None) [0..<length ls])"
  by (simp add: built_index_def)

lemma filter_equal_count: "filter (\<lambda>x. k = x) xs = replicate (count (mset xs) k) k"
  by (induction xs) auto

lemma rebuild_built:
  assumes "rebuild_windows_jsonl_time_index time file fs = Inr ix"
  shows "\<exists>f. bt_get (ss_files fs) file = Some f \<and> built_index time (raw_lines (sf_bytes f)) ix \<and>
    source_fingerprint file fs = Inr (wi_source ix)"
proof -
  obtain f source where f: "bt_get (ss_files fs) file = Some f" "source_fingerprint file fs = Inr source"
      "ix = (let ix = index_loop time 0 0 (raw_lines (sf_bytes f)) (empty_index file source)
        in ix\<lparr> wi_entries := sort_key entry_key (wi_entries ix) \<rparr>)"
    using assms by (auto simp: rebuild_windows_jsonl_time_index_def result_simps Let_def)
  then show ?thesis
    using index_fold [of "length (raw_lines (sf_bytes f))" "raw_lines (sf_bytes f)" time "empty_index file source"]
    by (simp add: built_index_def index_loop_fold Let_def empty_index_def timed_lines_def)
qed

lemma sorted_times_sort: "sorted_times (sort_key entry_key es)"
proof -
  have "sorted (map entry_key (sort_key entry_key es))"
    by simp
  then have "sorted_wrt (\<lambda>a b. entry_key a \<le> entry_key b) (sort_key entry_key es)"
    by (simp add: sorted_map)
  then have "sorted_wrt (\<lambda>a b. we_primary_time a \<le> we_primary_time b) (sort_key entry_key es)"
    by (rule sorted_wrt_mono_rel [rotated]) (auto simp: entry_key_def less_eq_prod_def)
  then show ?thesis
    by (simp add: sorted_times_def sorted_map)
qed

lemma entries_fault_sorted:
  assumes "sorted_times es" "\<And>e. e \<in> set es \<Longrightarrow> we_byte_start e < we_byte_end e"
    "\<And>t e. p = Some t \<Longrightarrow> e \<in> set es \<Longrightarrow> t \<le> we_primary_time e"
  shows "\<not> entries_fault p es"
  using assms
proof (induction p es rule: entries_fault.induct)
  case (2 p e es)
  then show ?case
    by (fastforce simp: sorted_times_def split: option.splits)
qed simp

lemma raw_line_nonempty: "j < length (raw_lines s) \<Longrightarrow> raw_lines s ! j \<noteq> []"
proof -
  have "proper_lines ls \<Longrightarrow> [] \<notin> set ls" for ls
    by (induction ls rule: proper_lines.induct) auto
  then show "j < length (raw_lines s) \<Longrightarrow> raw_lines s ! j \<noteq> []"
    using proper_raw_lines [of s] by (metis nth_mem)
qed

lemma built_shape:
  assumes "built_index time (raw_lines s) ix"
  shows "\<not> index_shape_error ix"
proof -
  let ?ls = "raw_lines s"
  have "length [0..<length ?ls] = length (filter (\<lambda>j. line_time time (?ls ! j) \<noteq> None) [0..<length ?ls]) +
      length (filter (\<lambda>j. blank_line (?ls ! j)) [0..<length ?ls]) +
      length (filter (\<lambda>j. \<not> blank_line (?ls ! j) \<and> line_time time (?ls ! j) = None) [0..<length ?ls])"
  proof -
    have part: "length xs = length (filter P xs) + length (filter Q xs) + length (filter (\<lambda>j. \<not> Q j \<and> \<not> P j) xs)"
      if "\<And>j. Q j \<Longrightarrow> \<not> P j" for P Q and xs :: "nat list"
      using that by (induction xs) auto
    show ?thesis
      using part [of "\<lambda>j. blank_line (?ls ! j)" "\<lambda>j. line_time time (?ls ! j) \<noteq> None" "[0..<length ?ls]"]
      by (simp add: line_time_def blank_line_def Let_def)
  qed
  moreover have "length (wi_unindexed_lines ix) =
      length (filter (\<lambda>j. \<not> blank_line (?ls ! j) \<and> line_time time (?ls ! j) = None) [0..<length ?ls])"
    using arg_cong [OF built_unindexed [OF assms], of length] by simp
  moreover have "\<not> entries_fault None (wi_entries ix)"
  proof (rule entries_fault_sorted)
    show "sorted_times (wi_entries ix)"
      using assms by (simp add: built_index_def sorted_times_sort)
    fix e assume "e \<in> set (wi_entries ix)"
    then obtain j where "j < length ?ls" "e = line_entry time ?ls j"
      using assms by (auto simp: built_index_def timed_lines_def)
    then show "we_byte_start e < we_byte_end e"
      using raw_line_nonempty [of j s] by (simp add: line_entry_def line_offset_Suc)
  qed simp
  ultimately show ?thesis
    using assms by (simp add: index_shape_error_def built_index_def timed_lines_def)
qed

lemma built_complete:
  assumes "built_index time ls ix"
  shows "is_complete ix \<longleftrightarrow> (\<forall>j < length ls. blank_line (ls ! j) \<or> line_time time (ls ! j) \<noteq> None)"
proof -
  have "length (wi_unindexed_lines ix) =
      length (filter (\<lambda>j. \<not> blank_line (ls ! j) \<and> line_time time (ls ! j) = None) [0..<length ls])"
    using arg_cong [OF built_unindexed [OF assms], of length] by simp
  then have "is_complete ix \<longleftrightarrow> filter (\<lambda>j. \<not> blank_line (ls ! j) \<and> line_time time (ls ! j) = None) [0..<length ls] = []"
    unfolding is_complete_def by (metis length_0_conv)
  then show ?thesis
    unfolding filter_empty_conv set_upt by auto
qed

section \<open>Selecting lines\<close>

definition window_lines :: "(string \<Rightarrow> int option) \<Rightarrow> string list \<Rightarrow> int \<Rightarrow> int \<Rightarrow> nat list" where
  "window_lines time ls t1 t2 = filter (\<lambda>j. case line_time time (ls ! j) of None \<Rightarrow> False | Some t \<Rightarrow> t1 \<le> t \<and> t \<le> t2)
     [0..<length ls]"

lemma line_offset_mono: "i \<le> j \<Longrightarrow> line_offset ls i \<le> line_offset ls j"
proof -
  assume "i \<le> j"
  then have "take j ls = take i ls @ take (j - i) (drop i ls)"
    by (metis le_add_diff_inverse take_add)
  then show ?thesis
    by (simp add: line_offset_def)
qed

lemma selected_entries_built:
  assumes "built_index time ls ix" "t1 \<le> t2"
  shows "selected_entries (wi_entries ix) t1 t2 = map (line_entry time ls) (window_lines time ls t1 t2)"
proof -
  let ?w = "\<lambda>e. t1 \<le> we_primary_time e \<and> we_primary_time e \<le> t2"
  let ?key = "\<lambda>e. (we_byte_start e, we_line_number e)"
  let ?es = "sort_key entry_key (map (line_entry time ls) (timed_lines time ls))"
  let ?target = "map (line_entry time ls) (window_lines time ls t1 t2)"
  have entries: "wi_entries ix = ?es"
    using assms(1) by (simp add: built_index_def)
  have sel: "selected_entries (wi_entries ix) t1 t2 = sort_key ?key (filter ?w ?es)"
    using window_of_bounds [OF sorted_times_sort assms(2), of "map (line_entry time ls) (timed_lines time ls)"]
    unfolding selected_entries_def entries Let_def by simp
  have target: "?target = filter ?w (map (line_entry time ls) (timed_lines time ls))"
    unfolding window_lines_def timed_lines_def filter_map filter_filter
    by (intro arg_cong [of _ _ "map _"] filter_cong) (auto simp: line_entry_def split: option.splits)
  have mset: "mset ?target = mset (filter ?w ?es)"
    unfolding target by (simp add: mset_filter)
  have sorted: "sorted (map ?key ?target)"
  proof -
    have "sorted_wrt (<) (window_lines time ls t1 t2)"
      unfolding window_lines_def by (intro sorted_wrt_filter) (simp add: sorted_wrt_upt)
    moreover have "?key (line_entry time ls i) \<le> ?key (line_entry time ls j)" if "i < j" for i j
      using line_offset_mono [of i j ls] that by (simp add: line_entry_def less_eq_prod_def le_less)
    ultimately have "sorted_wrt (\<lambda>i j. ?key (line_entry time ls i) \<le> ?key (line_entry time ls j)) (window_lines time ls t1 t2)"
      by (rule sorted_wrt_mono_rel [rotated])
    then show ?thesis
      by (simp add: sorted_map comp_def sorted_wrt_map)
  qed
  have inj: "inj_on ?key (set ?target)"
    by (auto simp: inj_on_def line_entry_def)
  have "sort_key ?key (filter ?w ?es) = ?target"
  proof (rule properties_for_sort_key)
    show "mset ?target = mset (filter ?w ?es)"
      by (rule mset)
    show "sorted (map ?key ?target)"
      by (rule sorted)
    fix k assume k: "k \<in> set ?target"
    have same: "filter (\<lambda>x. ?key k = ?key x) xs = filter (\<lambda>x. k = x) xs" if "set xs \<subseteq> set ?target" for xs
      using that inj k by (intro filter_cong) (auto simp: inj_on_def)
    have "set (filter ?w ?es) \<subseteq> set ?target"
      using arg_cong [OF mset, of set_mset] by (simp only: set_mset_mset order_refl)
    from same [OF this] same [OF order_refl]
    show "filter (\<lambda>x. ?key k = ?key x) ?target = filter (\<lambda>x. ?key k = ?key x) (filter ?w ?es)"
      by (simp only: filter_equal_count mset)
  qed
  then show ?thesis
    using sel by simp
qed

section \<open>Ranges\<close>

text \<open>A run of lines as a range: its first line and the number of its lines.\<close>

definition run_range :: "string list \<Rightarrow> nat \<times> nat \<Rightarrow> windows_jsonl_indexed_range" where
  "run_range ls r = (case r of (i, k) \<Rightarrow> \<lparr> xr_byte_start = line_offset ls i, xr_byte_end = line_offset ls (i + k),
     xr_line_start = i + 1, xr_line_end = i + k, xr_entry_count = k \<rparr>)"

definition run_lines :: "nat \<times> nat \<Rightarrow> nat list" where
  "run_lines r = [fst r..<fst r + snd r]"

lemma coalesce_runs:
  assumes "\<And>j. j \<in> set is \<Longrightarrow> j < length ls"
  shows "\<exists>runs. coalesce_ranges (map (line_entry time ls) is) = map (run_range ls) runs \<and>
    concat (map run_lines runs) = is \<and> (\<forall>r \<in> set runs. snd r > 0 \<and> fst r + snd r \<le> length ls)"
  using assms
proof (induction "is" rule: rev_induct)
  case Nil
  then show ?case
    by (intro exI [of _ "[]"]) (simp add: coalesce_ranges_def)
next
  case (snoc j js)
  then obtain runs where runs: "coalesce_ranges (map (line_entry time ls) js) = map (run_range ls) runs"
      "concat (map run_lines runs) = js" "\<forall>r \<in> set runs. snd r > 0 \<and> fst r + snd r \<le> length ls"
    by auto
  have j: "j < length ls"
    using snoc by simp
  have step: "coalesce_ranges (map (line_entry time ls) (js @ [j])) = coalesce_step (line_entry time ls j) (map (run_range ls) runs)"
    using runs(1) by (simp add: coalesce_ranges_def)
  show ?case
  proof (cases "runs \<noteq> [] \<and> fst (last runs) + snd (last runs) = j")
    case True
    obtain i k where last: "last runs = (i, k)" "i + k = j"
      using True by (cases "last runs") auto
    have k: "k > 0"
      using runs(3) True last by (metis last_in_set snd_conv)
    have "run_lines (i, k + 1) = run_lines (i, k) @ [j]"
      using last by (simp add: run_lines_def)
    moreover have split: "runs = butlast runs @ [(i, k)]"
      using True last by (metis append_butlast_last_id)
    moreover have "js = concat (map run_lines (butlast runs)) @ run_lines (i, k)"
      by (subst runs(2) [symmetric], subst split) simp
    ultimately have "concat (map run_lines (butlast runs @ [(i, k + 1)])) = js @ [j]"
      by simp
    moreover have "coalesce_step (line_entry time ls j) (map (run_range ls) runs) = map (run_range ls) (butlast runs @ [(i, k + 1)])"
      using True last by (simp add: coalesce_step_def last_map run_range_def line_entry_def map_butlast)
    moreover have "\<forall>r \<in> set (butlast runs @ [(i, k + 1)]). snd r > 0 \<and> fst r + snd r \<le> length ls"
      using runs(3) last j by (auto dest: in_set_butlastD)
    ultimately show ?thesis
      using step by metis
  next
    case False
    have "coalesce_step (line_entry time ls j) (map (run_range ls) runs) = map (run_range ls) (runs @ [(j, 1)])"
      using False by (cases "last runs") (auto simp: coalesce_step_def last_map run_range_def line_entry_def)
    moreover have "concat (map run_lines (runs @ [(j, 1)])) = js @ [j]"
      using runs(2) by (simp add: run_lines_def)
    moreover have "\<forall>r \<in> set (runs @ [(j, 1)]). snd r > 0 \<and> fst r + snd r \<le> length ls"
      using runs(3) j by auto
    ultimately show ?thesis
      using step by metis
  qed
qed

section \<open>Reading the ranges\<close>

text \<open>What a line contributes to the records and the malformed lines of a report.\<close>

type_synonym 'v found = "'v raw_spool_record list \<times> malformed_spool_line list"

definition found_in :: "'v scan \<Rightarrow> 'v found" where
  "found_in st = (so_records (snd st), so_malformed_lines (snd st))"

definition line_found :: "'v spool_decoders \<Rightarrow> string \<Rightarrow> string list \<Rightarrow> nat \<Rightarrow> 'v found \<Rightarrow> 'v found" where
  "line_found dec file ls j f = (let trimmed = trim_jsonl_newline (ls ! j) in case sd_envelope dec trimmed of
     Inr envelope \<Rightarrow> (fst f @ [\<lparr> rw_source_path = file, rw_line_number = j + 1, rw_byte_offset = line_offset ls j,
       rw_raw_record_hash = spool_sha256_hex (sd_sha dec) trimmed, rw_raw_json = sd_lossy dec trimmed,
       rw_envelope = envelope \<rparr>], snd f)
   | Inl error \<Rightarrow> (fst f, snd f @ [\<lparr> ml_source_path = file, ml_line_number = j + 1, ml_byte_offset = line_offset ls j,
       ml_raw_record_hash = spool_sha256_hex (sd_sha dec) trimmed, ml_raw_sample = sample_text (sd_lossy dec) trimmed,
       ml_parser_error = error \<rparr>]))"

lemma parse_selected_found:
  "found_in (parse_selected dec file (j + 1) (line_offset ls j) (trim_jsonl_newline (ls ! j)) st) = line_found dec file ls j (found_in st)"
  by (cases st) (auto simp: parse_selected_def push_record_def push_malformed_def found_in_def line_found_def Let_def split: sum.splits)

lemma found_in_counts [simp]: "found_in (count_parsed st) = found_in st" "found_in (count_line l st) = found_in st"
  by (cases st; simp add: found_in_def count_parsed_def count_line_def)+

lemma fold_found:
  assumes "\<And>j st. j \<in> set js \<Longrightarrow> found_in (g j st) = h j (found_in st)"
  shows "found_in (fold g js st) = fold h js (found_in st)"
  using assms by (induction js arbitrary: st) auto

lemma indexed_line_found:
  "\<not> blank_line (ls ! j) \<Longrightarrow> found_in (indexed_line dec file (j + 1) (line_offset ls j) (ls ! j) st) = line_found dec file ls j (found_in st)"
  using parse_selected_found [of dec "file" j ls "count_parsed ((fst st)\<lparr> sx_indexed_lines_scanned := sx_indexed_lines_scanned (fst st) + 1 \<rparr>, snd st)"]
  by (cases st) (simp add: indexed_line_def blank_line_def Let_def, simp add: found_in_def)

lemma line_offset_shift:
  assumes "j \<le> k"
  shows "line_offset ls i + line_offset (take k (drop i ls)) j = line_offset ls (i + j)"
proof -
  have "take j (take k (drop i ls)) = take j (drop i ls)"
    using assms by (simp add: min_absorb1)
  then show ?thesis
    by (simp add: line_offset_def take_add)
qed

lemma indexed_run:
  assumes "i + k \<le> length ls"
  shows "indexed_lines dec file i (line_offset ls i) (take k (drop i ls)) st =
    fold (\<lambda>j. indexed_line dec file (j + 1) (line_offset ls j) (ls ! j)) [i..<i + k] st"
proof -
  have len: "length (take k (drop i ls)) = k"
    using assms by simp
  have "[i..<i + k] = map (\<lambda>j. i + j) [0..<k]"
    by (simp add: map_add_upt add.commute)
  moreover have "fold f (map (\<lambda>j. i + j) [0..<k]) st = fold (\<lambda>j. f (i + j)) [0..<k] st" for f :: "nat \<Rightarrow> 'a scan \<Rightarrow> 'a scan"
    by (simp add: fold_map comp_def)
  moreover have "fold (\<lambda>j. indexed_line dec file (i + j + 1) (line_offset ls i + line_offset (take k (drop i ls)) j)
        (take k (drop i ls) ! j)) [0..<k] st =
      fold (\<lambda>j. indexed_line dec file (i + j + 1) (line_offset ls (i + j)) (ls ! (i + j))) [0..<k] st"
    using assms by (intro fold_cong) (auto simp: line_offset_shift)
  ultimately show ?thesis
    unfolding indexed_lines_fold len by simp
qed

lemma read_runs:
  assumes "\<forall>r \<in> set runs. snd r > 0 \<and> fst r + snd r \<le> length (raw_lines s)"
  shows "read_ranges dec file s (map (run_range (raw_lines s)) runs) st =
    Inr (fold (\<lambda>j. indexed_line dec file (j + 1) (line_offset (raw_lines s) j) (raw_lines s ! j)) (concat (map run_lines runs)) st)"
  using assms
proof (induction runs arbitrary: st)
  case (Cons r runs)
  obtain i k where r: "r = (i, k)"
    by fastforce
  let ?ls = "raw_lines s"
  have ik: "i + k \<le> length ?ls"
    using Cons.prems r by simp
  have slice: "take (line_offset ?ls (i + k) - line_offset ?ls i) (drop (line_offset ?ls i) s) = concat (take k (drop i ?ls))"
    using slice_lines [OF ik] by simp
  have "length (concat (take k (drop i ?ls))) = line_offset ?ls (i + k) - line_offset ?ls i"
    using line_offset_shift [of k k ?ls i] by (simp add: line_offset_def)
  then have "range_bytes s (run_range ?ls r) = Some (concat (take k (drop i ?ls)))"
    by (simp add: range_bytes_def run_range_def r Let_def slice del: length_take)
  then show ?case
    using Cons indexed_run [OF ik, of dec "file" st] by (simp add: raw_lines_slice r run_range_def run_lines_def)
qed simp

end
