(* ===== verification/Spool_Properties.thy ===== *)
theory Spool_Properties
  imports Spool_Lines
begin

text \<open>
  What the capture spool guarantees: the time index finds what a full scan finds, a written sidecar is used, and the
  errors of a tolerant scan; the paths of bundle files and the URIs of sources.
\<close>

section \<open>The scan of a complete file\<close>

definition found_report :: "'v spool_read_report \<Rightarrow> 'v found" where
  "found_report report = (so_records report, so_malformed_lines report)"

definition in_window_line :: "'v spool_decoders \<Rightarrow> spool_query \<Rightarrow> string \<Rightarrow> bool" where
  "in_window_line dec q l = (case line_time (sd_time dec) l of None \<Rightarrow> False | Some t \<Rightarrow> in_window q t)"

definition scan_step :: "'v spool_decoders \<Rightarrow> string \<Rightarrow> spool_query \<Rightarrow> string list \<Rightarrow> nat \<Rightarrow> 'v scan \<Rightarrow> 'v scan" where
  "scan_step dec path q ls j st = (let st' = count_line (ls ! j) st in
     if blank_line (ls ! j) then st'
     else if in_window_line dec q (ls ! j)
     then parse_selected dec path (j + 1) (line_offset ls j) (trim_jsonl_newline (ls ! j)) (count_parsed st')
     else count_parsed st')"

lemma scan_line_timed:
  assumes "fast_prefix_filter_eligible path" "blank_line (ls ! j) \<or> line_time (sd_time dec) (ls ! j) \<noteq> None"
  shows "scan_line dec path q Tolerant (j + 1) (line_offset ls j) (ls ! j) st = Inr (scan_step dec path q ls j st)"
  using assms by (auto simp: scan_line_def scan_step_def blank_line_def line_time_def in_window_line_def Let_def)

lemma scan_step_found:
  "found_in (scan_step dec path q ls j st) =
   (if in_window_line dec q (ls ! j) then line_found dec path ls j (found_in st) else found_in st)"
  by (auto simp: scan_step_def Let_def parse_selected_found [simplified] blank_line_def in_window_line_def line_time_def)

lemma fold_filter_if: "fold (\<lambda>j f. if P j then h j f else f) js f = fold h (filter P js) f"
  by (induction js arbitrary: f) auto

lemma scan_complete:
  assumes "fast_prefix_filter_eligible path" "\<And>j. j < length ls \<Longrightarrow> blank_line (ls ! j) \<or> line_time (sd_time dec) (ls ! j) \<noteq> None"
  shows "\<exists>st'. scan_lines dec path q Tolerant 0 0 ls st = Inr st' \<and> found_in st' =
    fold (line_found dec path ls) (window_lines (sd_time dec) ls (sq_time_start q) (sq_time_end q)) (found_in st)"
proof -
  have "scan_lines dec path q Tolerant 0 0 ls st = Inr (fold (scan_step dec path q ls) [0..<length ls] st)"
    by (rule scan_lines_fold) (use assms scan_line_timed in fastforce)
  moreover have "found_in (fold (scan_step dec path q ls) [0..<length ls] st) =
      fold (\<lambda>j f. if in_window_line dec q (ls ! j) then line_found dec path ls j f else f) [0..<length ls] (found_in st)"
    by (rule fold_found) (rule scan_step_found)
  moreover have "filter (\<lambda>j. in_window_line dec q (ls ! j)) [0..<length ls] =
      window_lines (sd_time dec) ls (sq_time_start q) (sq_time_end q)"
    unfolding window_lines_def by (rule filter_cong) (auto simp: in_window_line_def in_window_def split: option.splits)
  ultimately show ?thesis
    by (simp add: fold_filter_if)
qed

lemma window_lines_bounds:
  "j \<in> set (window_lines time ls t1 t2) \<Longrightarrow> j < length ls \<and> \<not> blank_line (ls ! j)"
  by (auto simp: window_lines_def line_time_def blank_line_def Let_def split: option.splits if_splits)

text \<open>Reading the ranges that a complete index of the file selects finds what the scan finds.\<close>

lemma read_built_ranges:
  assumes "built_index (sd_time dec) (raw_lines s) ix" "t1 \<le> t2"
  shows "\<exists>st'. read_ranges dec path s (coalesce_ranges (selected_entries (wi_entries ix) t1 t2)) st = Inr st' \<and>
    found_in st' = fold (line_found dec path (raw_lines s)) (window_lines (sd_time dec) (raw_lines s) t1 t2) (found_in st)"
proof -
  let ?ls = "raw_lines s" and ?w = "window_lines (sd_time dec) (raw_lines s) t1 t2"
  obtain runs where runs: "coalesce_ranges (map (line_entry (sd_time dec) ?ls) ?w) = map (run_range ?ls) runs"
      "concat (map run_lines runs) = ?w" "\<forall>r \<in> set runs. snd r > 0 \<and> fst r + snd r \<le> length ?ls"
    using coalesce_runs [of ?w ?ls "sd_time dec"] window_lines_bounds [of _ "sd_time dec" ?ls t1 t2] by metis
  have "read_ranges dec path s (coalesce_ranges (selected_entries (wi_entries ix) t1 t2)) st =
      Inr (fold (\<lambda>j. indexed_line dec path (j + 1) (line_offset ?ls j) (?ls ! j)) ?w st)"
    using read_runs [OF runs(3), of dec path st] runs(1,2) selected_entries_built [OF assms] by simp
  moreover have "found_in (fold (\<lambda>j. indexed_line dec path (j + 1) (line_offset ?ls j) (?ls ! j)) ?w st) =
      fold (line_found dec path ?ls) ?w (found_in st)"
    by (rule fold_found) (use window_lines_bounds indexed_line_found in blast)
  ultimately show ?thesis
    by simp
qed

section \<open>One file\<close>

text \<open>
  A sidecar is faithful when it decodes to the index of its file whenever its fingerprint is that of the file. This is what
  the modification time is for; the sidecars that the reading itself writes are faithful.
\<close>

definition faithful_sidecars :: "(string \<Rightarrow> int option) \<Rightarrow> spool_fs \<Rightarrow> bool" where
  "faithful_sidecars time fs \<longleftrightarrow> bt_wf (ss_sidecars fs) \<and> (\<forall>path ix.
     is_windows_jsonl_source path \<and> bt_get (ss_sidecars fs) (windows_jsonl_time_index_path path) = Some (IndexJson ix) \<and>
     source_fingerprint path fs = Inr (wi_source ix) \<longrightarrow> rebuild_windows_jsonl_time_index time path fs = Inr ix)"

lemma eligible_windows: "fast_prefix_filter_eligible path \<longleftrightarrow> is_windows_jsonl_source path"
  by (auto simp: fast_prefix_filter_eligible_def is_windows_jsonl_source_def windows_jsonl_suffix_def split: option.splits)

definition indexes :: "(string \<Rightarrow> int option) \<Rightarrow> string \<Rightarrow> spool_query \<Rightarrow> spool_fs \<Rightarrow> windows_jsonl_range_lookup \<Rightarrow> bool" where
  "indexes time path q fs lookup \<longleftrightarrow> (\<exists>ix. rebuild_windows_jsonl_time_index time path fs = Inr ix \<and> is_complete ix \<and>
     wl_ranges lookup = coalesce_ranges (selected_entries (wi_entries ix) (sq_time_start q) (sq_time_end q)))"

lemma query_Indexed:
  assumes "query_windows_jsonl_time_index path t1 t2 fs = Inr (Indexed lookup)"
  shows "\<exists>ix. bt_get (ss_sidecars fs) (windows_jsonl_time_index_path path) = Some (IndexJson ix) \<and>
    is_windows_jsonl_source path \<and> source_fingerprint path fs = Inr (wi_source ix) \<and> is_complete ix \<and>
    lookup = query_index ix path (windows_jsonl_time_index_path path) t1 t2"
proof -
  have w: "is_windows_jsonl_source path" "\<not> t1 > t2"
    using assms by (auto simp: query_windows_jsonl_time_index_def Let_def split: if_split_asm)
  obtain current where current: "source_fingerprint path fs = Inr current"
    using assms w by (cases "source_fingerprint path fs") (auto simp: query_windows_jsonl_time_index_def Let_def)
  obtain side where side: "bt_get (ss_sidecars fs) (windows_jsonl_time_index_path path) = Some side"
    using assms w current by (cases "bt_get (ss_sidecars fs) (windows_jsonl_time_index_path path)")
      (auto simp: query_windows_jsonl_time_index_def Let_def)
  show ?thesis
  proof (cases side)
    case UnreadableJson
    then show ?thesis
      using assms w current side by (simp add: query_windows_jsonl_time_index_def Let_def)
  next
    case (IndexJson ix)
    then show ?thesis
      using assms w current side by (simp add: query_windows_jsonl_time_index_def Let_def split: if_split_asm)
  qed
qed

lemma query_indexes:
  assumes "faithful_sidecars time fs"
    "query_windows_jsonl_time_index path (sq_time_start q) (sq_time_end q) fs = Inr (Indexed lookup)"
  shows "indexes time path q fs lookup"
proof -
  obtain ix where ix: "bt_get (ss_sidecars fs) (windows_jsonl_time_index_path path) = Some (IndexJson ix)"
      "is_windows_jsonl_source path" "source_fingerprint path fs = Inr (wi_source ix)" "is_complete ix"
      "lookup = query_index ix path (windows_jsonl_time_index_path path) (sq_time_start q) (sq_time_end q)"
    using query_Indexed [OF assms(2)] by blast
  then have "rebuild_windows_jsonl_time_index time path fs = Inr ix"
    using assms(1) unfolding faithful_sidecars_def by blast
  then show ?thesis
    using ix by (auto simp: indexes_def query_index_def Let_def)
qed

lemma same_files:
  assumes "ss_files fs' = ss_files fs"
  shows "source_fingerprint path fs' = source_fingerprint path fs"
    "rebuild_windows_jsonl_time_index time path fs' = rebuild_windows_jsonl_time_index time path fs"
    "read_jsonl_file_full_scan dec path q m fs' report = read_jsonl_file_full_scan dec path q m fs report"
  using assms by (simp_all add: source_fingerprint_def rebuild_windows_jsonl_time_index_def read_jsonl_file_full_scan_def)

lemma sidecar_path_eq [simp]:
  "windows_jsonl_time_index_path p = windows_jsonl_time_index_path p' \<longleftrightarrow> p = p'"
  by (simp add: windows_jsonl_time_index_path_def)

lemma write_faithful:
  assumes "faithful_sidecars time fs" "write_windows_jsonl_time_index time path fs = (r, fs')"
  shows "faithful_sidecars time fs' \<and> ss_files fs' = ss_files fs"
proof (cases r)
  case (Inl e)
  then show ?thesis
    using assms by (auto simp: write_windows_jsonl_time_index_def st_try_def split: sum.splits)
next
  case (Inr ix)
  then have w: "rebuild_windows_jsonl_time_index time path fs = Inr ix"
      "fs' = fs\<lparr> ss_sidecars := bt_insert (windows_jsonl_time_index_path path) (IndexJson ix) (ss_sidecars fs) \<rparr>"
    using assms(2) by (auto simp: write_windows_jsonl_time_index_def result_simps)
  have files: "ss_files fs' = ss_files fs"
    by (simp add: w)
  have "rebuild_windows_jsonl_time_index time p fs' = Inr ix'"
    if "is_windows_jsonl_source p" "bt_get (ss_sidecars fs') (windows_jsonl_time_index_path p) = Some (IndexJson ix')"
      "source_fingerprint p fs' = Inr (wi_source ix')" for p ix'
  proof (cases "p = path")
    case True
    have "bt_wf (ss_sidecars fs)"
      using assms(1) by (simp add: faithful_sidecars_def)
    then have "ix' = ix"
      using that(2) w(2) True by simp
    then show ?thesis
      using w(1) True by (simp only: same_files(2) [OF files])
  next
    case False
    have wf: "bt_wf (ss_sidecars fs)"
      using assms(1) by (simp add: faithful_sidecars_def)
    then have "bt_get (ss_sidecars fs) (windows_jsonl_time_index_path p) = Some (IndexJson ix')"
      using that(2) w(2) False by simp
    then show ?thesis
      using assms(1) that(1,3) unfolding same_files [OF files] faithful_sidecars_def by blast
  qed
  moreover have "bt_wf (ss_sidecars fs')"
    using assms(1) by (simp add: w faithful_sidecars_def)
  ultimately show ?thesis
    using files by (auto simp: faithful_sidecars_def)
qed

lemma query_error:
  assumes "query_windows_jsonl_time_index path t1 t2 fs = Inl e" "t1 \<le> t2"
  shows "e = CaptureIo path \<and> bt_get (ss_files fs) path = None"
proof (cases "bt_get (ss_files fs) path")
  case None
  then show ?thesis
    using assms by (auto simp: query_windows_jsonl_time_index_def Let_def source_fingerprint_def split: if_split_asm)
next
  case (Some f)
  show ?thesis
  proof (cases "bt_get (ss_sidecars fs) (windows_jsonl_time_index_path path)")
    case None
    then show ?thesis
      using Some assms by (simp add: query_windows_jsonl_time_index_def Let_def source_fingerprint_def split: if_split_asm)
  next
    case (Some side)
    then show ?thesis
      using \<open>bt_get (ss_files fs) path = Some f\<close> assms
      by (cases side) (simp_all add: query_windows_jsonl_time_index_def Let_def source_fingerprint_def split: if_split_asm)
  qed
qed

lemma write_error:
  assumes "write_windows_jsonl_time_index time path fs = (Inl e, fs')" "is_windows_jsonl_source path"
  shows "e = CaptureIo path \<and> bt_get (ss_files fs) path = None"
proof (cases "bt_get (ss_files fs) path")
  case None
  then show ?thesis
    using assms by (simp add: write_windows_jsonl_time_index_def rebuild_windows_jsonl_time_index_def
        validate_windows_jsonl_source_def source_fingerprint_def)
next
  case (Some f)
  then show ?thesis
    using assms by (simp add: write_windows_jsonl_time_index_def rebuild_windows_jsonl_time_index_def
        validate_windows_jsonl_source_def source_fingerprint_def ok_or_def Let_def)
qed

lemma indexes_same_files: "ss_files fs' = ss_files fs \<Longrightarrow> indexes time path q fs' l = indexes time path q fs l"
  unfolding indexes_def by (subst same_files(2)) simp_all

text \<open>What loading an index gives: the ranges of the file's own index, nothing, or the error of a missing file.\<close>

lemma load_cases:
  assumes "faithful_sidecars time fs" "is_windows_jsonl_source path" "sq_time_start q \<le> sq_time_end q"
    "load_or_refresh_windows_time_range time path q fs = (r, fs')"
  shows "faithful_sidecars time fs' \<and> ss_files fs' = ss_files fs \<and>
    (case r of Inl e \<Rightarrow> e = CaptureIo path \<and> bt_get (ss_files fs) path = None
     | Inr None \<Rightarrow> True | Inr (Some loaded) \<Rightarrow> indexes time path q fs (lw_lookup loaded))"
proof (cases "query_windows_jsonl_time_index path (sq_time_start q) (sq_time_end q) fs")
  case (Inl e)
  then show ?thesis
    using assms query_error [OF Inl] by (auto simp: load_or_refresh_windows_time_range_def)
next
  case (Inr found)
  show ?thesis
  proof (cases found)
    case (Indexed lookup)
    then show ?thesis
      using assms Inr query_indexes [of time fs path q lookup] by (auto simp: load_or_refresh_windows_time_range_def)
  next
    case (Fallback reason)
    show ?thesis
    proof (cases "reason = MissingSidecar \<or> reason = StaleSidecar")
      case False
      then show ?thesis
        using assms Inr Fallback by (auto simp: load_or_refresh_windows_time_range_def)
    next
      case True
      obtain w fs1 where w: "write_windows_jsonl_time_index time path fs = (w, fs1)"
        by fastforce
      have fs1: "faithful_sidecars time fs1" "ss_files fs1 = ss_files fs"
        using write_faithful [OF assms(1) w] by auto
      show ?thesis
      proof (cases w)
        case (Inl e)
        then have "r = Inl e" "fs' = fs1"
          using assms(4) Inr Fallback True w by (auto simp: load_or_refresh_windows_time_range_def st_then_def)
        then show ?thesis
          using write_error [of time path fs e fs1] w Inl fs1 assms(2) by simp
      next
        case (Inr ix)
        then have r: "r = indexed_time_range_after_refresh path q (reason = MissingSidecar) (reason = StaleSidecar) fs1" "fs' = fs1"
          using assms(4) \<open>query_windows_jsonl_time_index _ _ _ _ = Inr found\<close> Fallback True w
          by (auto simp: load_or_refresh_windows_time_range_def st_then_def)
        show ?thesis
        proof (cases "query_windows_jsonl_time_index path (sq_time_start q) (sq_time_end q) fs1")
          case (Inl e)
          then show ?thesis
            using r fs1 query_error [OF Inl assms(3)] by (simp add: indexed_time_range_after_refresh_def)
        next
          case (Inr again)
          then show ?thesis
            using r fs1 query_indexes [OF fs1(1), of path q] indexes_same_files [OF fs1(2)]
            by (cases again) (auto simp: indexed_time_range_after_refresh_def)
        qed
      qed
    qed
  qed
qed

section \<open>The scan depends on what has been found only\<close>

lemma try_then_related:
  assumes "map_sum (\<lambda>e. e) f r = map_sum (\<lambda>e. e) f r'" "\<And>a b. f a = f b \<Longrightarrow> map_sum (\<lambda>e. e) g (k a) = map_sum (\<lambda>e. e) g (k' b)"
  shows "map_sum (\<lambda>e. e) g (try_then r k) = map_sum (\<lambda>e. e) g (try_then r' k')"
  using assms by (cases r; cases r') auto

lemma scan_line_related:
  assumes "found_in st = found_in st'"
  shows "map_sum (\<lambda>e. e) found_in (scan_line dec path q m n off l st) = map_sum (\<lambda>e. e) found_in (scan_line dec path q m n off l st')"
proof -
  have push: "found_in (push_record dec path n off t e s) = found_in (push_record dec path n off t e s')"
      "found_in (push_malformed dec path n off t x s) = found_in (push_malformed dec path n off t x s')"
    if "found_in s = found_in s'" for t e x and s s' :: "'a scan"
    using that by (cases s; cases s'; simp add: found_in_def push_record_def push_malformed_def)+
  have sel: "found_in (parse_selected dec path n off t s) = found_in (parse_selected dec path n off t s')"
    if "found_in s = found_in s'" for t and s s' :: "'a scan"
    using push [OF that] by (simp add: parse_selected_def split: sum.splits)
  have st: "found_in (count_line l st) = found_in (count_line l st')"
      "found_in (count_parsed (count_line l st)) = found_in (count_parsed (count_line l st'))"
    using assms by simp_all
  show ?thesis
    unfolding scan_line_def Let_def using st push [OF st(1)] push [OF st(2)] sel [OF st(2)]
    by (auto split: option.splits sum.splits)
qed

lemma scan_lines_related:
  "found_in st = found_in st' \<Longrightarrow>
   map_sum (\<lambda>e. e) found_in (scan_lines dec path q m n off ls st) = map_sum (\<lambda>e. e) found_in (scan_lines dec path q m n off ls st')"
proof (induction ls arbitrary: n off st st')
  case (Cons l ls)
  show ?case
    unfolding scan_lines.simps
    by (rule try_then_related [where f = found_in]) (use Cons scan_line_related in blast)+
qed simp

lemma found_push_stats [simp]: "found_report (push_stats st) = found_in st"
  by (cases st) (simp add: push_stats_def found_report_def found_in_def)

lemma found_in_start: "found_in (stats, report) = found_report report"
  by (simp add: found_report_def found_in_def)

lemma full_scan_related:
  assumes "found_report rep = found_report rep'"
  shows "map_sum (\<lambda>e. e) found_report (read_jsonl_file_full_scan dec path q m fs rep) =
    map_sum (\<lambda>e. e) found_report (read_jsonl_file_full_scan dec path q m fs rep')"
  unfolding read_jsonl_file_full_scan_def
proof (rule try_then_related [where f = id])
  fix a b :: spool_file assume ab: "id a = id b"
  show "map_sum (\<lambda>e. e) found_report (try_then (scan_lines dec path q m 0 0 (raw_lines (sf_bytes a)) (empty_stats path, rep))
      (\<lambda>st. Inr (push_stats st))) =
    map_sum (\<lambda>e. e) found_report (try_then (scan_lines dec path q m 0 0 (raw_lines (sf_bytes b)) (empty_stats path, rep'))
      (\<lambda>st. Inr (push_stats st)))"
    by (rule try_then_related [where f = found_in]) (use ab scan_lines_related assms in \<open>auto simp: found_in_start\<close>)
qed simp

section \<open>The index is transparent\<close>

text \<open>Reading a file through the index or by the scan.\<close>

lemma read_file_transparent:
  assumes "faithful_sidecars (sd_time dec) fs" "sq_time_start q \<le> sq_time_end q"
    "read_jsonl_file dec path q Tolerant report fs = (r, fs')"
  shows "faithful_sidecars (sd_time dec) fs' \<and> ss_files fs' = ss_files fs \<and>
    map_sum (\<lambda>e. e) found_report r = map_sum (\<lambda>e. e) found_report (read_jsonl_file_full_scan dec path q Tolerant fs report)"
proof (cases "fast_prefix_filter_eligible path")
  case False
  then show ?thesis
    using assms by (auto simp: read_jsonl_file_def)
next
  case True
  then have w: "is_windows_jsonl_source path"
    by (simp add: eligible_windows)
  obtain found fs1 where load: "load_or_refresh_windows_time_range (sd_time dec) path q fs = (found, fs1)"
    by fastforce
  note cases = load_cases [OF assms(1) w assms(2) load]
  show ?thesis
  proof (cases found)
    case (Inl e)
    then show ?thesis
      using True assms(3) load cases
      by (auto simp: read_jsonl_file_def read_indexed_windows_jsonl_file_def st_then_def read_jsonl_file_full_scan_def ok_or_def)
  next
    case (Inr loaded)
    show ?thesis
    proof (cases loaded)
      case None
      then show ?thesis
        using Inr True assms(3) load cases
        same_files(3) [of fs' fs dec path q Tolerant report]
        by (auto simp: read_jsonl_file_def read_indexed_windows_jsonl_file_def st_then_def)
    next
      case (Some l)
      obtain ix where ix: "rebuild_windows_jsonl_time_index (sd_time dec) path fs = Inr ix" "is_complete ix"
          "wl_ranges (lw_lookup l) = coalesce_ranges (selected_entries (wi_entries ix) (sq_time_start q) (sq_time_end q))"
        using Some Inr cases by (auto simp: indexes_def)
      obtain f where f: "bt_get (ss_files fs) path = Some f" "built_index (sd_time dec) (raw_lines (sf_bytes f)) ix"
        using rebuild_built [OF ix(1)] by blast
      have fs1: "faithful_sidecars (sd_time dec) fs1" "ss_files fs1 = ss_files fs"
        using cases by auto
      obtain st where st: "read_ranges dec path (sf_bytes f) (wl_ranges (lw_lookup l)) (indexed_stats path l, report) = Inr st"
          "found_in st = fold (line_found dec path (raw_lines (sf_bytes f)))
            (window_lines (sd_time dec) (raw_lines (sf_bytes f)) (sq_time_start q) (sq_time_end q)) (found_report report)"
        using read_built_ranges [OF f(2) assms(2), of path "(indexed_stats path l, report)"] ix(3) by (auto simp: found_in_start)
      obtain st2 where st2: "scan_lines dec path q Tolerant 0 0 (raw_lines (sf_bytes f)) (empty_stats path, report) = Inr st2"
          "found_in st2 = found_in st"
        using scan_complete [OF True, of "raw_lines (sf_bytes f)" dec q "(empty_stats path, report)"]
          built_complete [OF f(2)] ix(2) st(2) by (auto simp: found_in_start)
      have "r = Inr (push_stats st)" "fs' = fs1"
        using assms(3) True load Inr Some f fs1 st(1)
        by (auto simp: ok_or_def read_jsonl_file_def read_indexed_windows_jsonl_file_def st_then_def)
      moreover have "read_jsonl_file_full_scan dec path q Tolerant fs report = Inr (push_stats st2)"
        using f(1) st2(1) by (simp add: ok_or_def read_jsonl_file_full_scan_def)
      ultimately show ?thesis
        using fs1 st2(2) by simp
    qed
  qed
qed

text \<open>The reference: every file is scanned in full.\<close>

fun scan_files :: "'v spool_decoders \<Rightarrow> spool_query \<Rightarrow> string list \<Rightarrow> spool_fs \<Rightarrow> 'v spool_read_report \<Rightarrow>
    capture_core_error + 'v spool_read_report" where
  "scan_files dec q [] fs report = Inr report"
| "scan_files dec q (path # paths) fs report =
     try_then (read_jsonl_file_full_scan dec path q Tolerant fs report) (scan_files dec q paths fs)"

lemma scan_files_related:
  "found_report rep = found_report rep' \<Longrightarrow>
   map_sum (\<lambda>e. e) found_report (scan_files dec q paths fs rep) = map_sum (\<lambda>e. e) found_report (scan_files dec q paths fs rep')"
  by (induction paths arbitrary: rep rep') (auto intro!: try_then_related [where f = found_report] full_scan_related)

lemma scan_files_same: "ss_files fs' = ss_files fs \<Longrightarrow> scan_files dec q paths fs' rep = scan_files dec q paths fs rep"
proof (induction paths arbitrary: rep)
  case (Cons p ps)
  then show ?case
    unfolding scan_files.simps same_files(3) [OF Cons.prems] by (intro arg_cong [of _ _ "try_then _"] ext) simp
qed simp

lemma read_files_transparent:
  assumes "faithful_sidecars (sd_time dec) fs" "sq_time_start q \<le> sq_time_end q"
  shows "map_sum (\<lambda>e. e) found_report (fst (read_files dec q Tolerant paths report fs)) =
    map_sum (\<lambda>e. e) found_report (scan_files dec q paths fs report)"
  using assms(1)
proof (induction paths arbitrary: report fs)
  case (Cons p ps)
  obtain r fs' where r: "read_jsonl_file dec p q Tolerant report fs = (r, fs')"
    by fastforce
  note t = read_file_transparent [OF Cons.prems assms(2) r]
  show ?case
  proof (cases r)
    case (Inl e)
    then show ?thesis
      using r t by (cases "read_jsonl_file_full_scan dec p q Tolerant fs report") (auto simp: st_then_def)
  next
    case (Inr rep)
    then obtain rep' where rep': "read_jsonl_file_full_scan dec p q Tolerant fs report = Inr rep'" "found_report rep' = found_report rep"
      using t by (cases "read_jsonl_file_full_scan dec p q Tolerant fs report") auto
    have "map_sum (\<lambda>e. e) found_report (fst (read_files dec q Tolerant ps rep fs')) = map_sum (\<lambda>e. e) found_report (scan_files dec q ps fs' rep)"
      using Cons.IH t by blast
    then show ?thesis
      using Inr r rep' t scan_files_same [of fs' fs dec q ps rep] scan_files_related [OF rep'(2), of dec q ps fs]
      by (simp add: st_then_def)
  qed
qed simp

section \<open>Properties\<close>

text \<open>A window of a sorted index is found by the two binary searches: between them lie exactly the entries whose time is
  in the window, in their order, also with equal times at the borders.\<close>

theorem binary_search_selects_window:
  assumes "sorted (map we_primary_time es)" "t1 \<le> t2"
  shows "lower_bound_time es t1 \<le> upper_bound_time es t2 \<and> upper_bound_time es t2 \<le> length es \<and>
    drop (lower_bound_time es t1) (take (upper_bound_time es t2) es) =
      filter (\<lambda>e. t1 \<le> we_primary_time e \<and> we_primary_time e \<le> t2) es"
  using window_of_bounds [of es t1 t2] assms by (simp add: sorted_times_def)

definition sample_entry :: "int \<Rightarrow> nat \<Rightarrow> windows_jsonl_time_index_entry" where
  "sample_entry t n = \<lparr> we_primary_time = t, we_line_number = n, we_byte_start = 10 * n, we_byte_end = 10 * n + 10 \<rparr>"

theorem binary_search_selects_window_witness:
  "drop (lower_bound_time (map2 sample_entry [1, 3, 3, 7] [1, 2, 3, 4]) 3)
     (take (upper_bound_time (map2 sample_entry [1, 3, 3, 7] [1, 2, 3, 4]) 3) (map2 sample_entry [1, 3, 3, 7] [1, 2, 3, 4])) =
   [sample_entry 3 2, sample_entry 3 3]"
  using binary_search_selects_window [of "map2 sample_entry [1, 3, 3, 7] [1, 2, 3, 4]" 3 3]
  by (simp add: sample_entry_def)

text \<open>A sidecar that has been written is used: the query that follows gives the lines of the window, or says that
  the index is incomplete; it is never taken for missing, stale or corrupt.\<close>

theorem written_index_answers:
  assumes "bt_wf (ss_sidecars fs)" "write_windows_jsonl_time_index time path fs = (Inr ix, fs')" "t1 \<le> t2"
  shows "query_windows_jsonl_time_index path t1 t2 fs' = Inr (if is_complete ix
     then Indexed (query_index ix path (windows_jsonl_time_index_path path) t1 t2) else Fallback IncompleteSidecar)"
proof -
  have w: "rebuild_windows_jsonl_time_index time path fs = Inr ix"
      "fs' = fs\<lparr> ss_sidecars := bt_insert (windows_jsonl_time_index_path path) (IndexJson ix) (ss_sidecars fs) \<rparr>"
    using assms(2) by (auto simp: write_windows_jsonl_time_index_def result_simps)
  obtain f where f: "bt_get (ss_files fs) path = Some f" "built_index time (raw_lines (sf_bytes f)) ix"
      "source_fingerprint path fs = Inr (wi_source ix)"
    using rebuild_built [OF w(1)] by blast
  have "source_fingerprint path fs' = Inr (wi_source ix)"
    using f(3) same_files(1) [of fs' fs path] w(2) by simp
  moreover have "is_windows_jsonl_source path"
    using w(1) by (simp add: rebuild_windows_jsonl_time_index_def validate_windows_jsonl_source_def split: if_split_asm)
  moreover have "bt_get (ss_sidecars fs') (windows_jsonl_time_index_path path) = Some (IndexJson ix)"
    using assms(1) w(2) by simp
  moreover have "wi_schema_version ix = index_schema_version"
    using f(2) by (simp add: built_index_def)
  ultimately show ?thesis
    using built_shape [OF f(2)] assms(3) by (simp add: query_windows_jsonl_time_index_def Let_def)
qed

definition sample_clock :: "string \<Rightarrow> int option" where
  "sample_clock s = (if length s = 1 then Some (int (byte (hd s))) else None)"

definition sample_line :: "string \<Rightarrow> string" where
  "sample_line t = [CHR 0x22] @ ''recordedAt'' @ [CHR 0x22, CHR '':'', CHR 0x22] @ t @ [CHR 0x22, char_of (10 :: nat)]"

definition sample_spool :: spool_fs where
  "sample_spool = \<lparr> ss_files = [(''c/windows/a.windows.jsonl'', \<lparr> sf_bytes = sample_line ''3'' @ sample_line ''1'' @
     sample_line ''2'', sf_modified = Some (7, 0) \<rparr>)], ss_sidecars = [] \<rparr>"

definition sample_path :: string where "sample_path = ''c/windows/a.windows.jsonl''"

lemma sample_file: "bt_get (ss_files sample_spool) sample_path =
    Some \<lparr> sf_bytes = sample_line ''3'' @ sample_line ''1'' @ sample_line ''2'', sf_modified = Some (7, 0) \<rparr>"
  by (simp add: sample_spool_def sample_path_def bt_get_def)

lemma sample_complete: "\<exists>ix. rebuild_windows_jsonl_time_index sample_clock sample_path sample_spool = Inr ix \<and> is_complete ix"
proof -
  let ?ix = "\<lambda>source. index_loop sample_clock 0 0 (raw_lines (sample_line ''3'' @ sample_line ''1'' @ sample_line ''2''))
    (empty_index sample_path source)"
  have "is_windows_jsonl_source sample_path"
    by code_simp
  moreover have "is_complete (?ix source)" for source
    unfolding is_complete_def by code_simp
  ultimately show ?thesis
    by (simp add: rebuild_windows_jsonl_time_index_def validate_windows_jsonl_source_def source_fingerprint_def sample_file
        ok_or_def Let_def is_complete_def)
qed

theorem written_index_answers_witness:
  "let (r, fs') = write_windows_jsonl_time_index sample_clock sample_path sample_spool in
   (case r of Inl _ \<Rightarrow> False | Inr ix \<Rightarrow> query_windows_jsonl_time_index sample_path 50 51 fs' =
     Inr (Indexed (query_index ix sample_path (windows_jsonl_time_index_path sample_path) 50 51)))"
proof -
  obtain r fs' where w: "write_windows_jsonl_time_index sample_clock sample_path sample_spool = (r, fs')"
    by fastforce
  obtain ix where rebuilt: "rebuild_windows_jsonl_time_index sample_clock sample_path sample_spool = Inr ix" "is_complete ix"
    using sample_complete by blast
  then have ix: "r = Inr ix" "is_complete ix"
    using w by (simp_all add: write_windows_jsonl_time_index_def)
  have "bt_wf (ss_sidecars sample_spool)"
    by (simp add: sample_spool_def bt_wf_def)
  from written_index_answers [OF this w [unfolded ix(1)], of 50 51] show ?thesis
    using w ix by simp
qed

text \<open>C31. The time index is transparent: reading the spool finds the same records and the same malformed lines, with the same
  error when it fails, as scanning every file in full, whatever sidecars there are, as long as those with a current
  fingerprint are the indexes of their files.\<close>

theorem index_is_transparent:
  assumes "faithful_sidecars (sd_time dec) fs" "sq_time_start q \<le> sq_time_end q"
  shows "map_sum (\<lambda>e. e) (\<lambda>rep. (so_records rep, so_malformed_lines rep)) (fst (read_spool_window_tolerant dec q fs)) =
    map_sum (\<lambda>e. e) (\<lambda>rep. (so_records rep, so_malformed_lines rep))
      (let paths = capture_paths_new (sq_capture_root q)
       in scan_files dec q (sort (collect_jsonl_files (cp_events_dir paths) ''.events.jsonl'' fs @
            collect_jsonl_files (cp_windows_dir paths) ''.windows.jsonl'' fs @
            collect_jsonl_files (cp_displays_dir paths) ''.displays.jsonl'' fs)) fs (empty_report Tolerant))"
  using read_files_transparent [OF assms] unfolding read_spool_window_tolerant_def read_spool_window_report_def Let_def
    found_report_def by blast

definition sample_decoders :: "nat spool_decoders" where
  "sample_decoders = \<lparr> sd_time = sample_clock, sd_filter = (\<lambda>s. Inr (None, Some 50)),
     sd_envelope = (\<lambda>s. if 49 \<in> byte ` set s then Inl ''bad'' else Inr \<lparr> cv_schema_version = None, cv_event_type = ''w'',
       cv_recorded_at = Some 50, cv_event_time_start = None, cv_event_time_end = None, cv_lane_id = None,
       cv_stream_id = None, cv_source_record_id = None, cv_source_hash = None, cv_source_span_id = None,
       cv_capture_bundle_id = None, cv_payload = length s \<rparr>),
     sd_lossy = (\<lambda>s. s), sd_sha = (\<lambda>s. take 1 s) \<rparr>"

definition sample_window :: spool_query where
  "sample_window = \<lparr> sq_capture_root = ''c'', sq_time_start = 49, sq_time_end = 50 \<rparr>"

theorem index_is_transparent_witness:
  "map_sum (\<lambda>e. e) (\<lambda>rep. (map rw_line_number (so_records rep), map ml_line_number (so_malformed_lines rep)))
     (fst (read_spool_window_tolerant sample_decoders sample_window sample_spool)) = Inr ([3], [2])"
proof -
  have "faithful_sidecars (sd_time sample_decoders) sample_spool"
    by (simp add: faithful_sidecars_def sample_spool_def bt_wf_def)
  moreover have "sq_time_start sample_window \<le> sq_time_end sample_window"
    by (simp add: sample_window_def)
  ultimately have "map_sum (\<lambda>e. e) (\<lambda>rep. (so_records rep, so_malformed_lines rep))
        (fst (read_spool_window_tolerant sample_decoders sample_window sample_spool)) =
      map_sum (\<lambda>e. e) (\<lambda>rep. (so_records rep, so_malformed_lines rep))
        (let paths = capture_paths_new (sq_capture_root sample_window)
         in scan_files sample_decoders sample_window (sort (collect_jsonl_files (cp_events_dir paths) ''.events.jsonl'' sample_spool @
              collect_jsonl_files (cp_windows_dir paths) ''.windows.jsonl'' sample_spool @
              collect_jsonl_files (cp_displays_dir paths) ''.displays.jsonl'' sample_spool)) sample_spool (empty_report Tolerant))"
    by (rule index_is_transparent)
  then have "map_sum (\<lambda>e. e) (map_prod (map rw_line_number) (map ml_line_number))
        (map_sum (\<lambda>e. e) (\<lambda>rep. (so_records rep, so_malformed_lines rep))
          (fst (read_spool_window_tolerant sample_decoders sample_window sample_spool))) = Inr ([3], [2])"
    by (rule ssubst) code_simp
  then show ?thesis
    by (simp add: sum.map_comp comp_def)
qed

text \<open>A line that passes the filter on its times, without a time in its prefix, and is refused by the full parse.\<close>

definition refused_line :: "'v spool_decoders \<Rightarrow> string \<Rightarrow> spool_query \<Rightarrow> string \<Rightarrow> bool" where
  "refused_line dec path q l \<longleftrightarrow> (let trimmed = trim_jsonl_newline l in trimmed \<noteq> [] \<and>
     (if fast_prefix_filter_eligible path then primary_time_from_json_prefix (sd_time dec) trimmed else None) = None \<and>
     (case sd_filter dec trimmed of Inl _ \<Rightarrow> False | Inr ts \<Rightarrow>
       (case filter_primary_time ts of None \<Rightarrow> False | Some t \<Rightarrow> in_window q t)) \<and>
     (case sd_envelope dec trimmed of Inl _ \<Rightarrow> True | Inr _ \<Rightarrow> False))"

lemma scan_line_refused: "(\<exists>e. scan_line dec path q Tolerant n off l st = Inl e) \<longleftrightarrow> refused_line dec path q l"
  by (auto simp: scan_line_def refused_line_def Let_def split: option.splits sum.splits)

lemma scan_lines_refused: "(\<exists>e. scan_lines dec path q Tolerant n off ls st = Inl e) \<longleftrightarrow> list_ex (refused_line dec path q) ls"
proof (induction ls arbitrary: n off st)
  case (Cons l ls)
  show ?case
  proof (cases "scan_line dec path q Tolerant (n + 1) off l st")
    case (Inl e)
    then show ?thesis
      using scan_line_refused [of dec path q "n + 1" off l st] by simp
  next
    case (Inr st')
    then show ?thesis
      using scan_line_refused [of dec path q "n + 1" off l st] Cons.IH by simp
  qed
qed simp

text \<open>A tolerant scan does not tolerate everything: it fails exactly when the file is missing or some line of the
  window passes the filter on its times and is then refused by the full parse.\<close>

theorem tolerant_scan_fails_on:
  "(\<exists>e. read_jsonl_file_full_scan dec path q Tolerant fs report = Inl e) \<longleftrightarrow> (case bt_get (ss_files fs) path of None \<Rightarrow> True
    | Some f \<Rightarrow> list_ex (refused_line dec path q) (raw_lines (sf_bytes f)))"
proof (cases "bt_get (ss_files fs) path")
  case (Some f)
  then show ?thesis
    using scan_lines_refused [of dec path q 0 0 "raw_lines (sf_bytes f)" "(empty_stats path, report)"]
    by (cases "scan_lines dec path q Tolerant 0 0 (raw_lines (sf_bytes f)) (empty_stats path, report)")
      (auto simp: read_jsonl_file_full_scan_def ok_or_def)
qed (simp add: read_jsonl_file_full_scan_def ok_or_def)

section \<open>Paths and URIs\<close>

lemma split_on_map:
  "(\<And>c. q (f c) \<longleftrightarrow> p c) \<Longrightarrow> (\<And>c. \<not> p c \<Longrightarrow> f c = c) \<Longrightarrow> split_on q (map f s) = split_on p s"
  by (induction s) (auto split: list.splits)



text \<open>The bytes back from the escapes.\<close>

definition hex_value :: "char \<Rightarrow> nat" where
  "hex_value c = (if byte c < 58 then byte c - 48 else byte c - 55)"

fun uri_decode :: "string \<Rightarrow> string" where
  "uri_decode (c # h # l # cs) = (if c = CHR ''%'' then char_of (16 * hex_value h + hex_value l) # uri_decode cs
     else c # uri_decode (h # l # cs))"
| "uri_decode cs = cs"

lemma hex_value_upper [simp]: "n < 16 \<Longrightarrow> hex_value (upper_hex_digit n) = n"
  by (simp add: hex_value_def upper_hex_digit_def)

lemma uri_decode_plain: "c \<noteq> CHR ''%'' \<Longrightarrow> uri_decode (c # cs) = c # uri_decode cs"
  by (cases cs rule: uri_decode.cases) (auto elim: uri_decode.elims)

lemma uri_decode_byte: "uri_decode (uri_byte c @ cs) = c # uri_decode cs"
proof (cases "uri_plain c")
  case True
  then have "c \<noteq> CHR ''%''"
    by (auto simp: uri_plain_def is_ascii_alphanumeric_def is_ascii_alphabetic_def is_ascii_digit_def)
  then show ?thesis
    using True by (simp add: uri_byte_def uri_decode_plain)
next
  case False
  have "byte c < 256"
    by simp
  then have "byte c div 16 < 16" "byte c mod 16 < 16"
    by (auto intro: less_mult_imp_div_less)
  then show ?thesis
    using False by (simp add: uri_byte_def mult_div_mod_eq)
qed

lemma uri_decode_encode: "uri_decode (concat (map uri_byte p)) = p"
  by (induction p) (simp_all add: uri_decode_byte)

text \<open>The URI that the provenance of a record names belongs to one path only.\<close>

theorem file_uri_names_one_path: "file_uri p = file_uri q \<longleftrightarrow> p = q"
  unfolding file_uri_def append_same_eq same_append_eq by (metis uri_decode_encode)

end
