(* ===== verification/Bundle_Files.thy ===== *)
theory Bundle_Files
  imports Capture_Paths
begin

text \<open>
  A file system as a tree, for the components that move and remove directories: capture bundles and their retention. A
  directory lists its entries in the order in which the system reads them. A path is resolved component by component
  from the root, and \<open>..\<close> goes up, as the system does; symbolic links and permissions are not modelled. What fails
  here fails in the system: missing directories, files in place of directories, renaming onto a full directory.
\<close>

section \<open>Trees\<close>

datatype fnode = FFile string | FDir "(string \<times> fnode) list"

fun is_dir_node :: "fnode \<Rightarrow> bool" where
  "is_dir_node (FDir _) = True"
| "is_dir_node (FFile _) = False"

fun dir_entries :: "fnode \<Rightarrow> (string \<times> fnode) list" where
  "dir_entries (FDir es) = es"
| "dir_entries (FFile _) = []"

definition dir_child :: "fnode \<Rightarrow> string \<Rightarrow> fnode option" where
  "dir_child n c = map_of (dir_entries n) c"

fun node_at :: "fnode \<Rightarrow> string list \<Rightarrow> fnode option" where
  "node_at n [] = Some n"
| "node_at n (c # cs) = (case dir_child n c of None \<Rightarrow> None | Some m \<Rightarrow> node_at m cs)"

text \<open>An entry keeps its place when it is replaced, and a new one comes last.\<close>

fun entry_put :: "string \<Rightarrow> fnode \<Rightarrow> (string \<times> fnode) list \<Rightarrow> (string \<times> fnode) list" where
  "entry_put c n [] = [(c, n)]"
| "entry_put c n ((d, m) # es) = (if d = c then (c, n) # es else (d, m) # entry_put c n es)"

definition entry_remove :: "string \<Rightarrow> (string \<times> fnode) list \<Rightarrow> (string \<times> fnode) list" where
  "entry_remove c es = filter (\<lambda>e. fst e \<noteq> c) es"

fun put_at :: "fnode \<Rightarrow> string list \<Rightarrow> fnode \<Rightarrow> fnode" where
  "put_at n [] m = m"
| "put_at n (c # cs) m = FDir (entry_put c (put_at (case dir_child n c of None \<Rightarrow> FDir [] | Some k \<Rightarrow> k) cs m) (dir_entries n))"

fun remove_at :: "fnode \<Rightarrow> string list \<Rightarrow> fnode" where
  "remove_at n [] = n"
| "remove_at n [c] = FDir (entry_remove c (dir_entries n))"
| "remove_at n (c # d # cs) = (case dir_child n c of None \<Rightarrow> n | Some k \<Rightarrow> FDir (entry_put c (remove_at k (d # cs)) (dir_entries n)))"

section \<open>Paths\<close>

fun resolve_steps :: "fnode \<Rightarrow> string list \<Rightarrow> string list \<Rightarrow> string list option" where
  "resolve_steps root acc [] = Some acc"
| "resolve_steps root acc (c # cs) = (case node_at root acc of
     Some (FDir _) \<Rightarrow> resolve_steps root (if c = ''..'' then butlast acc else acc @ [c]) cs
   | _ \<Rightarrow> None)"

definition resolve :: "fnode \<Rightarrow> string \<Rightarrow> string list option" where
  "resolve root p = resolve_steps root [] (named_components p)"

definition lookup_path :: "fnode \<Rightarrow> string \<Rightarrow> fnode option" where
  "lookup_path root p = Option.bind (resolve root p) (node_at root)"

text \<open>A path that ends in a slash names a directory only.\<close>

definition path_exists :: "fnode \<Rightarrow> string \<Rightarrow> bool" where
  "path_exists root p \<longleftrightarrow> (case lookup_path root p of None \<Rightarrow> False | Some n \<Rightarrow> is_dir_node n \<or> \<not> ends_with p ''/'')"

definition read_bytes :: "fnode \<Rightarrow> string \<Rightarrow> capture_core_error + string" where
  "read_bytes root p = (case lookup_path root p of Some (FFile b) \<Rightarrow> Inr b | _ \<Rightarrow> Inl (CaptureIo p))"

section \<open>Changes\<close>

fun make_dirs :: "fnode \<Rightarrow> string list \<Rightarrow> string list \<Rightarrow> fnode option" where
  "make_dirs root acc [] = Some root"
| "make_dirs root acc (c # cs) = (if c = ''..'' then make_dirs root (butlast acc) cs
     else case node_at root (acc @ [c]) of
       None \<Rightarrow> make_dirs (put_at root (acc @ [c]) (FDir [])) (acc @ [c]) cs
     | Some n \<Rightarrow> if is_dir_node n then make_dirs root (acc @ [c]) cs else None)"

type_synonym 'a fs_result = "(capture_core_error + 'a) \<times> fnode"

text \<open>
  \<open>fs::create_dir_all\<close>: when it meets a file it fails, and the directories it has made by then stay out of the model,
  as no caller goes on.
\<close>

definition create_dir_all :: "string \<Rightarrow> fnode \<Rightarrow> unit fs_result" where
  "create_dir_all p root = (case make_dirs root [] (named_components p) of
     None \<Rightarrow> (Inl (CaptureIo p), root) | Some root' \<Rightarrow> (Inr (), root'))"

definition parent_is_dir :: "fnode \<Rightarrow> string list \<Rightarrow> bool" where
  "parent_is_dir root cs \<longleftrightarrow> cs \<noteq> [] \<and> (case node_at root (butlast cs) of Some n \<Rightarrow> is_dir_node n | None \<Rightarrow> False)"

text \<open>\<open>File::create\<close> and \<open>write_all\<close>.\<close>

definition write_file :: "string \<Rightarrow> string \<Rightarrow> fnode \<Rightarrow> unit fs_result" where
  "write_file p bytes root = (case resolve root p of None \<Rightarrow> (Inl (CaptureIo p), root)
     | Some cs \<Rightarrow> if parent_is_dir root cs \<and> \<not> ends_with p ''/'' \<and>
           (case node_at root cs of Some n \<Rightarrow> \<not> is_dir_node n | None \<Rightarrow> True)
         then (Inr (), put_at root cs (FFile bytes))
         else (Inl (CaptureIo p), root))"

definition remove_dir_all :: "string \<Rightarrow> fnode \<Rightarrow> unit fs_result" where
  "remove_dir_all p root = (case resolve root p of None \<Rightarrow> (Inl (CaptureIo p), root)
     | Some cs \<Rightarrow> if cs \<noteq> [] \<and> (case node_at root cs of Some n \<Rightarrow> is_dir_node n | None \<Rightarrow> False)
         then (Inr (), remove_at root cs)
         else (Inl (CaptureIo p), root))"

definition remove_file :: "string \<Rightarrow> fnode \<Rightarrow> unit fs_result" where
  "remove_file p root = (case resolve root p of None \<Rightarrow> (Inl (CaptureIo p), root)
     | Some cs \<Rightarrow> if cs \<noteq> [] \<and> (case node_at root cs of Some n \<Rightarrow> \<not> is_dir_node n | None \<Rightarrow> False)
         then (Inr (), remove_at root cs)
         else (Inl (CaptureIo p), root))"

text \<open>
  \<open>fs::rename\<close>: the target may be an empty directory for a directory and a file for a file, and it must not lie in
  the source. The error names the path that the caller reports.
\<close>

definition rename_allowed :: "fnode \<Rightarrow> string list \<Rightarrow> string list \<Rightarrow> bool" where
  "rename_allowed root a b \<longleftrightarrow> a \<noteq> [] \<and> parent_is_dir root b \<and> (case node_at root a of None \<Rightarrow> False
     | Some n \<Rightarrow> take (length a) b \<noteq> a \<and> (case node_at root b of None \<Rightarrow> True
         | Some (FFile _) \<Rightarrow> \<not> is_dir_node n
         | Some (FDir es) \<Rightarrow> is_dir_node n \<and> es = []))"

definition rename_path :: "string \<Rightarrow> string \<Rightarrow> string \<Rightarrow> fnode \<Rightarrow> unit fs_result" where
  "rename_path err p q root = (case (resolve root p, resolve root q) of
     (Some a, Some b) \<Rightarrow>
       if a = b \<and> node_at root a \<noteq> None \<and> a \<noteq> [] then (Inr (), root)
       else if rename_allowed root a b then (Inr (), put_at (remove_at root a) b (the (node_at root a)))
       else (Inl (CaptureIo err), root)
   | _ \<Rightarrow> (Inl (CaptureIo err), root))"

section \<open>Walking a tree\<close>

text \<open>
  \<open>walk_files\<close> (\<open>bundle/writer.rs\<close>) keeps a stack of directories with their paths. The files of a directory come
  before those of its subdirectories, and of the subdirectories the last is read first.
\<close>

definition files_among :: "string \<Rightarrow> (string \<times> fnode) list \<Rightarrow> (string \<times> string) list" where
  "files_among p es = concat (map (\<lambda>(c, n). case n of FFile b \<Rightarrow> [(path_join p c, b)] | FDir _ \<Rightarrow> []) es)"

definition dirs_among :: "string \<Rightarrow> (string \<times> fnode) list \<Rightarrow> (string \<times> (string \<times> fnode) list) list" where
  "dirs_among p es = concat (map (\<lambda>(c, n). case n of FFile b \<Rightarrow> [] | FDir ds \<Rightarrow> [(path_join p c, ds)]) es)"

fun node_weight :: "fnode \<Rightarrow> nat" where
  "node_weight (FFile _) = 1"
| "node_weight (FDir es) = Suc (sum_list (map (\<lambda>(c, n). node_weight n) es))"

definition stack_weight :: "(string \<times> (string \<times> fnode) list) list \<Rightarrow> nat" where
  "stack_weight stack = sum_list (map (\<lambda>(p, es). node_weight (FDir es)) stack)"

lemma stack_weight_dirs: "stack_weight (rev (dirs_among p es) @ stack) < stack_weight ((p, es) # stack)"
proof -
  have "stack_weight (dirs_among p es) \<le> sum_list (map (\<lambda>(c, n). node_weight n) es)"
    by (induction es) (auto simp: dirs_among_def stack_weight_def split: fnode.splits)
  moreover have "stack_weight (rev s @ t) = stack_weight s + stack_weight t" for s t
    by (simp add: stack_weight_def sum_list_rev flip: rev_map)
  ultimately show ?thesis
    by (simp add: stack_weight_def)
qed

function walk_loop :: "(string \<times> (string \<times> fnode) list) list \<Rightarrow> (string \<times> string) list \<Rightarrow> (string \<times> string) list" where
  "walk_loop [] files = files"
| "walk_loop ((p, es) # stack) files = walk_loop (rev (dirs_among p es) @ stack) (files @ files_among p es)"
  by pat_completeness auto
termination
  by (relation "measure (stack_weight \<circ> fst)") (simp_all add: stack_weight_dirs)

definition walk_files :: "string \<Rightarrow> fnode \<Rightarrow> capture_core_error + (string \<times> string) list" where
  "walk_files p root = (if \<not> path_exists root p then Inr []
     else case lookup_path root p of
       Some (FDir es) \<Rightarrow> Inr (walk_loop [(p, es)] [])
     | _ \<Rightarrow> Inl (CaptureIo p))"

definition u64_max :: nat where "u64_max = 2 ^ 64 - 1"

definition saturating_add :: "nat \<Rightarrow> nat \<Rightarrow> nat" where
  "saturating_add a b = min (a + b) u64_max"

lemma saturating_add_code [code]:
  "saturating_add a b = (if int a + int b < 18446744073709551616 then a + b else u64_max)"
  by (simp add: saturating_add_def u64_max_def)

definition compute_tree_totals :: "string \<Rightarrow> fnode \<Rightarrow> capture_core_error + nat \<times> nat" where
  "compute_tree_totals p root = try_then (walk_files p root) (\<lambda>files.
     Inr (fold (\<lambda>f bytes. saturating_add bytes (length (snd f))) files 0, length files))"

end
