(* ===== verification/Json_Value.thy ===== *)
theory Json_Value
  imports Safe_Id
begin

text \<open>
  JSON values as the crate \<open>serde_json\<close> has them (without its feature \<open>preserve_order\<close> the members of an object are a
  map in the order of their names), and the accessors that several components use: \<open>get\<close>, \<open>as_str\<close>, \<open>as_bool\<close>,
  \<open>as_array\<close>, \<open>as_u64\<close>, \<open>as_i64\<close> and \<open>pointer\<close>. The text of a value, its parser and its printer belong to the crate.
\<close>

datatype json_number = PosInt "64 word" | NegInt "64 word" | FloatBits "64 word"

datatype json =
    JNull
  | JBool bool
  | JNumber json_number
  | JString string
  | JArray "json list"
  | JObject "(string \<times> json) list"

fun json_get :: "string \<Rightarrow> json \<Rightarrow> json option" where
  "json_get key (JObject members) = map_of members key"
| "json_get key _ = None"

fun as_str :: "json \<Rightarrow> string option" where
  "as_str (JString s) = Some s"
| "as_str _ = None"

fun as_bool :: "json \<Rightarrow> bool option" where
  "as_bool (JBool b) = Some b"
| "as_bool _ = None"

fun as_array :: "json \<Rightarrow> json list option" where
  "as_array (JArray vs) = Some vs"
| "as_array _ = None"

fun as_object :: "json \<Rightarrow> (string \<times> json) list option" where
  "as_object (JObject ms) = Some ms"
| "as_object _ = None"

fun is_object :: "json \<Rightarrow> bool" where
  "is_object (JObject _) = True"
| "is_object _ = False"

fun as_u64 :: "json \<Rightarrow> nat option" where
  "as_u64 (JNumber (PosInt n)) = Some (unat n)"
| "as_u64 _ = None"

text \<open>A \<open>NegInt\<close> is negative; a \<open>PosInt\<close> is an \<open>i64\<close> when it is small enough.\<close>

fun as_i64 :: "json \<Rightarrow> int option" where
  "as_i64 (JNumber (PosInt n)) = (if unat n < 2 ^ 63 then Some (int (unat n)) else None)"
| "as_i64 (JNumber (NegInt n)) = Some (sint n)"
| "as_i64 _ = None"

definition json_number :: "nat \<Rightarrow> json" where
  "json_number n = JNumber (PosInt (of_nat n))"

text \<open>The value below a list of names, as \<open>get\<close> and \<open>?\<close> or \<open>and_then\<close> read it step by step.\<close>

fun value_path :: "json \<Rightarrow> string list \<Rightarrow> json option" where
  "value_path v [] = Some v"
| "value_path v (name # names) = (case json_get name v of None \<Rightarrow> None | Some w \<Rightarrow> value_path w names)"

definition string_path :: "json \<Rightarrow> string list \<Rightarrow> string option" where
  "string_path v names = Option.bind (value_path v names) as_str"

definition bool_path :: "json \<Rightarrow> string list \<Rightarrow> bool option" where
  "bool_path v names = Option.bind (value_path v names) as_bool"

text \<open>A member set in an object, and an object built from members (\<open>json!\<close>), both in the order of names.\<close>

fun json_insert :: "string \<Rightarrow> json \<Rightarrow> json \<Rightarrow> json" where
  "json_insert key v (JObject members) = JObject (bt_insert key v members)"
| "json_insert key v w = w"

definition json_object :: "(string \<times> json) list \<Rightarrow> json" where
  "json_object ms = JObject (bt_of_list ms)"

definition json_strings :: "string list \<Rightarrow> json" where
  "json_strings ss = JArray (map JString ss)"

definition json_option :: "('a \<Rightarrow> json) \<Rightarrow> 'a option \<Rightarrow> json" where
  "json_option f v = (case v of None \<Rightarrow> JNull | Some x \<Rightarrow> f x)"

end
