(* ===== verification/Bundles.thy ===== *)
theory Bundles
  imports Bundle_Files Json_Value
begin

text \<open>
  Capture bundles: their documents (\<open>bundle/schema.rs\<close>) and the writer that fills a directory below \<open>processing\<close> and
  moves it to \<open>live\<close> or \<open>failed\<close> as a whole (\<open>bundle/writer.rs\<close>, both in \<open>crates/onecontext-capture-core/src\<close>). Times are
  nanoseconds; the JSON text of a document is given by the caller.
\<close>

section \<open>Documents\<close>

datatype bundle_state = BundlePartial | BundleReady | BundleFailed | BundleExpired

datatype retention_class = Ephemeral | FailedAudit | PinnedDebug

record capture_bundle_manifest =
  cm_schema_version :: nat
  cm_contract_version :: string
  cm_capture_id :: string
  cm_state :: bundle_state
  cm_created_at :: int
  cm_ready_at :: "int option"
  cm_time_start :: int
  cm_time_end :: int
  cm_expires_at :: "int option"
  cm_retention_class :: retention_class
  cm_pinned :: bool
  cm_pin_reason :: "string option"
  cm_source_spool :: json
  cm_v0_required_files :: "string list"
  cm_optional_files :: "string list"
  cm_byte_count :: nat
  cm_file_count :: nat
  cm_lane_count :: nat
  cm_known_gap_count :: nat
  cm_producer :: json
  cm_app_identity :: json

datatype source_status = SourcePresent | SourceDegraded | PermissionDenied | SourceUnavailable | DisabledByPolicy

record lane_source =
  ln_source_id :: string
  ln_lane_id :: string
  ln_status :: source_status
  ln_required_for_v0 :: bool
  ln_record_count :: nat
  ln_degraded_reason :: "string option"
  ln_confidence :: "32 word option"
  ln_extra :: "(string, json) btree_map"

record source_inventory =
  iv_schema_version :: nat
  iv_sources :: "lane_source list"

datatype source_envelope_ref_kind = BundleRelative | ExternalPathMetadata

record source_envelope_ref_record =
  er_schema_version :: nat
  er_kind :: source_envelope_ref_kind
  er_path :: string
  er_absolute :: bool
  er_exists :: bool
  er_file_name :: "string option"
  er_byte_count :: "nat option"
  er_modified_at :: "int option"
  er_error :: "string option"
  er_extra :: "(string, json) btree_map"

record known_gap_record =
  kg_schema_version :: nat
  kg_time :: int
  kg_source_id :: string
  kg_severity :: string
  kg_code :: string
  kg_message :: string
  kg_blocks_ready :: bool
  kg_extra :: "(string, json) btree_map"

datatype validation_severity = InfoFinding | WarningFinding | ErrorFinding | FatalFinding

record validation_finding =
  vf_severity :: validation_severity
  vf_code :: string
  vf_path :: "string option"
  vf_message :: string
  vf_blocks_ready :: bool

record validation_report =
  vr_ok :: bool
  vr_capture_id :: "string option"
  vr_findings :: "validation_finding list"

definition new_report :: "string option \<Rightarrow> validation_report" where
  "new_report capture_id = \<lparr> vr_ok = True, vr_capture_id = capture_id, vr_findings = [] \<rparr>"

definition push_finding :: "validation_finding \<Rightarrow> validation_report \<Rightarrow> validation_report" where
  "push_finding f report = report\<lparr>
     vr_ok := vr_ok report \<and> \<not> (vf_severity f = ErrorFinding \<or> vf_severity f = FatalFinding \<or> vf_blocks_ready f),
     vr_findings := vr_findings report @ [f] \<rparr>"

section \<open>The writer\<close>

record atomic_bundle_writer =
  bw_paths :: capture_root_paths
  bw_capture_id :: string
  bw_partial_path :: string
  bw_live_path :: string

fun create_all :: "string list \<Rightarrow> fnode \<Rightarrow> unit fs_result" where
  "create_all [] root = (Inr (), root)"
| "create_all (d # ds) root = st_then (create_dir_all d root) (\<lambda>_ root'. create_all ds root')"

definition ensure_directories :: "capture_root_paths \<Rightarrow> fnode \<Rightarrow> unit fs_result" where
  "ensure_directories paths root = create_all (capture_directories paths) root"

definition create_writer :: "capture_root_paths \<Rightarrow> string \<Rightarrow> fnode \<Rightarrow> atomic_bundle_writer fs_result" where
  "create_writer paths capture_id root =
     st_then (ensure_directories paths root) (\<lambda>_ root1.
       let partial_path = path_join (cp_processing_dir paths) (capture_id @ ''.partial'');
           live_path = path_join (cp_live_dir paths) capture_id
       in if path_exists root1 partial_path \<or> path_exists root1 live_path
          then (Inl (CaptureInvalidState (''bundle already exists for capture_id '' @ capture_id)), root1)
          else st_then (create_dir_all partial_path root1) (\<lambda>_ root2.
            (Inr \<lparr> bw_paths = paths, bw_capture_id = capture_id, bw_partial_path = partial_path, bw_live_path = live_path \<rparr>,
             root2)))"

text \<open>The files of a bundle; a file is written below the partial directory.\<close>

definition write_bytes :: "atomic_bundle_writer \<Rightarrow> string \<Rightarrow> string \<Rightarrow> fnode \<Rightarrow> unit fs_result" where
  "write_bytes w relative bytes root = st_try (bundle_relative_path relative) root (\<lambda>r.
     let path = join_under r (bw_partial_path w)
     in st_then (create_dir_all (path_parent path) root) (\<lambda>_ root1. write_file path bytes root1))"

definition write_bundle_json :: "('v \<Rightarrow> string) \<Rightarrow> atomic_bundle_writer \<Rightarrow> string \<Rightarrow> 'v \<Rightarrow> fnode \<Rightarrow> unit fs_result" where
  "write_bundle_json pretty w relative v root = write_bytes w relative (pretty v) root"

definition write_jsonl_values :: "('v \<Rightarrow> string) \<Rightarrow> atomic_bundle_writer \<Rightarrow> string \<Rightarrow> 'v list \<Rightarrow> fnode \<Rightarrow> unit fs_result" where
  "write_jsonl_values compact w relative vs root =
     write_bytes w relative (concat (map (\<lambda>v. compact v @ [char_of (10 :: nat)]) vs)) root"

definition write_raw_jsonl_lines :: "atomic_bundle_writer \<Rightarrow> string \<Rightarrow> string list \<Rightarrow> fnode \<Rightarrow> unit fs_result" where
  "write_raw_jsonl_lines w relative ls root =
     write_bytes w relative (concat (map (\<lambda>l. l @ [char_of (10 :: nat)]) ls)) root"

definition copy_file_from :: "atomic_bundle_writer \<Rightarrow> string \<Rightarrow> string \<Rightarrow> fnode \<Rightarrow> nat fs_result" where
  "copy_file_from w relative source root = st_try (bundle_relative_path relative) root (\<lambda>r.
     let destination = join_under r (bw_partial_path w)
     in st_then (create_dir_all (path_parent destination) root) (\<lambda>_ root1.
       case read_bytes root1 source of Inl _ \<Rightarrow> (Inl (CaptureIo destination), root1)
       | Inr b \<Rightarrow> st_then (write_file destination b root1) (\<lambda>_ root2. (Inr (length b), root2))))"

definition write_manifest :: "(capture_bundle_manifest \<Rightarrow> string) \<Rightarrow> atomic_bundle_writer \<Rightarrow> capture_bundle_manifest \<Rightarrow>
    fnode \<Rightarrow> unit fs_result" where
  "write_manifest pretty w manifest root = write_bundle_json pretty w ''manifest.json'' manifest root"

definition write_ready_sentinel :: "atomic_bundle_writer \<Rightarrow> fnode \<Rightarrow> unit fs_result" where
  "write_ready_sentinel w root = write_bytes w ''READY'' (''READY'' @ [char_of (10 :: nat)]) root"

definition remove_ready_sentinel :: "atomic_bundle_writer \<Rightarrow> fnode \<Rightarrow> unit fs_result" where
  "remove_ready_sentinel w root = (let path = path_join (bw_partial_path w) ''READY''
     in if path_exists root path then remove_file path root else (Inr (), root))"

definition compute_partial_totals :: "atomic_bundle_writer \<Rightarrow> fnode \<Rightarrow> capture_core_error + nat \<times> nat" where
  "compute_partial_totals w root = compute_tree_totals (bw_partial_path w) root"

text \<open>The end of a bundle: live, failed in place of an earlier failure, or failed if there is none.\<close>

definition promote :: "atomic_bundle_writer \<Rightarrow> fnode \<Rightarrow> string fs_result" where
  "promote w root = st_then (rename_path (bw_live_path w) (bw_partial_path w) (bw_live_path w) root) (\<lambda>_ root1.
     (Inr (bw_live_path w), root1))"

definition fail_bundle :: "atomic_bundle_writer \<Rightarrow> fnode \<Rightarrow> string fs_result" where
  "fail_bundle w root = (let failed_path = path_join (cp_failed_dir (bw_paths w)) (bw_capture_id w)
     in st_then (if path_exists root failed_path then remove_dir_all failed_path root else (Inr (), root)) (\<lambda>_ root1.
        st_then (rename_path failed_path (bw_partial_path w) failed_path root1) (\<lambda>_ root2. (Inr failed_path, root2))))"

definition move_to_failed :: "atomic_bundle_writer \<Rightarrow> fnode \<Rightarrow> string fs_result" where
  "move_to_failed w root = (let failed_path = path_join (cp_failed_dir (bw_paths w)) (bw_capture_id w)
     in if path_exists root failed_path
        then (Inl (CaptureInvalidState (''failed bundle already exists for capture_id '' @ bw_capture_id w)), root)
        else st_then (create_dir_all (cp_failed_dir (bw_paths w)) root) (\<lambda>_ root1.
          st_then (rename_path failed_path (bw_partial_path w) failed_path root1) (\<lambda>_ root2. (Inr failed_path, root2))))"

end
