(* ===== verification/Retention.thy ===== *)
theory Retention
  imports Bundles "HOL-Library.Product_Lexorder"
begin

text \<open>
  The retention of capture bundles (\<open>crates/onecontext-capture-core/src/retention.rs\<close>): the inventory of the four
  directories, the plan of a sweep, and what applying it does to the files. The decoder of a manifest and the JSON line
  of a report are parameters; \<open>now\<close> is an argument. The system's error text after a path is not modelled.
\<close>

section \<open>Data\<close>

datatype bundle_directory_class = ProcessingClass | LiveClass | FailedClass | PinnedClass

record bundle_entry =
  be_capture_id :: string
  be_directory_class :: bundle_directory_class
  be_path :: string
  be_state :: "bundle_state option"
  be_ready :: bool
  be_pinned :: bool
  be_byte_count :: nat
  be_file_count :: nat
  be_created_at :: "int option"
  be_ready_at :: "int option"
  be_expires_at :: "int option"

record bundle_inventory =
  bi_capture_root :: string
  bi_entries :: "bundle_entry list"
  bi_total_bytes :: nat
  bi_total_files :: nat

record retention_policy =
  rp_processing_stale_after_seconds :: int
  rp_live_ttl_seconds :: int
  rp_failed_ttl_seconds :: int
  rp_keep_last_ready :: nat
  rp_dry_run :: bool

definition default_retention_policy :: retention_policy where
  "default_retention_policy = \<lparr> rp_processing_stale_after_seconds = 15 * 60, rp_live_ttl_seconds = 60 * 60,
     rp_failed_ttl_seconds = 72 * 60 * 60, rp_keep_last_ready = 20, rp_dry_run = False \<rparr>"

datatype sweep_action_kind = DeleteAction | MoveToFailedAction | PreserveAction

record sweep_action =
  sa_kind :: sweep_action_kind
  sa_path :: string
  sa_destination :: "string option"
  sa_reason :: string
  sa_byte_count :: nat

record sweep_plan =
  sw_generated_at :: int
  sw_dry_run :: bool
  sw_actions :: "sweep_action list"

record sweep_report =
  sp_started_at :: int
  sp_completed_at :: int
  sp_dry_run :: bool
  sp_deleted_paths :: "string list"
  sp_moved_paths :: "string list"
  sp_preserved_paths :: "string list"
  sp_deleted_bytes :: nat
  sp_errors :: "string list"

type_synonym manifest_decoder = "string \<Rightarrow> capture_bundle_manifest option"

section \<open>The inventory\<close>

definition read_manifest :: "manifest_decoder \<Rightarrow> string \<Rightarrow> fnode \<Rightarrow> capture_core_error + capture_bundle_manifest" where
  "read_manifest decode path root = try_then (read_bytes root path) (\<lambda>text. ok_or (decode text) (CaptureJson path))"

definition result_ok :: "'e + 'a \<Rightarrow> 'a option" where
  "result_ok r = (case r of Inl _ \<Rightarrow> None | Inr x \<Rightarrow> Some x)"

definition collect_entry :: "manifest_decoder \<Rightarrow> bundle_directory_class \<Rightarrow> string \<Rightarrow> fnode \<Rightarrow> capture_core_error + bundle_entry" where
  "collect_entry decode cls path root = (
     let manifest = result_ok (read_manifest decode (path_join path ''manifest.json'') root)
     in try_then (compute_tree_totals path root) (\<lambda>(byte_count, file_count). Inr
       \<lparr> be_capture_id = (case manifest of Some m \<Rightarrow> cm_capture_id m
           | None \<Rightarrow> (case path_file_name path of Some name \<Rightarrow> name | None \<Rightarrow> ''unknown'')),
         be_directory_class = cls, be_path = path, be_state = map_option cm_state manifest,
         be_ready = path_exists root (path_join path ''READY''),
         be_pinned = ((case manifest of Some m \<Rightarrow> cm_pinned m | None \<Rightarrow> False) \<or> cls = PinnedClass),
         be_byte_count = byte_count, be_file_count = file_count, be_created_at = map_option cm_created_at manifest,
         be_ready_at = Option.bind manifest cm_ready_at, be_expires_at = Option.bind manifest cm_expires_at \<rparr>))"

definition collect_child :: "manifest_decoder \<Rightarrow> bundle_directory_class \<Rightarrow> string \<Rightarrow> fnode \<Rightarrow> string \<times> fnode \<Rightarrow>
    capture_core_error + bundle_entry" where
  "collect_child decode cls directory root child = collect_entry decode cls (path_join directory (fst child)) root"

definition collect_entries :: "manifest_decoder \<Rightarrow> bundle_directory_class \<Rightarrow> string \<Rightarrow> fnode \<Rightarrow>
    capture_core_error + bundle_entry list" where
  "collect_entries decode cls directory root = (case lookup_path root directory of
     Some (FDir es) \<Rightarrow> try_map (collect_child decode cls directory root) (filter (\<lambda>(name, n). is_dir_node n) es)
   | _ \<Rightarrow> Inr [])"

definition list_bundles :: "manifest_decoder \<Rightarrow> string \<Rightarrow> fnode \<Rightarrow> capture_core_error + bundle_inventory" where
  "list_bundles decode capture_root root = (let paths = capture_paths_new capture_root in
     try_then (collect_entries decode ProcessingClass (cp_processing_dir paths) root) (\<lambda>e1.
     try_then (collect_entries decode LiveClass (cp_live_dir paths) root) (\<lambda>e2.
     try_then (collect_entries decode FailedClass (cp_failed_dir paths) root) (\<lambda>e3.
     try_then (collect_entries decode PinnedClass (cp_pinned_dir paths) root) (\<lambda>e4.
       let entries = e1 @ e2 @ e3 @ e4 in Inr \<lparr> bi_capture_root = cp_capture_root paths, bi_entries = entries,
         bi_total_bytes = sum_list (map be_byte_count entries), bi_total_files = sum_list (map be_file_count entries) \<rparr>)))))"

section \<open>The plan\<close>

definition nanos_per_second :: int where "nanos_per_second = 1000000000"

definition is_older_than :: "int option \<Rightarrow> int \<Rightarrow> int \<Rightarrow> bool" where
  "is_older_than time now seconds = (case time of None \<Rightarrow> False | Some t \<Rightarrow> now - t > seconds * nanos_per_second)"

definition delete_action :: "bundle_entry \<Rightarrow> string \<Rightarrow> sweep_action" where
  "delete_action e reason = \<lparr> sa_kind = DeleteAction, sa_path = be_path e, sa_destination = None, sa_reason = reason,
     sa_byte_count = be_byte_count e \<rparr>"

definition preserve_action :: "bundle_entry \<Rightarrow> string \<Rightarrow> sweep_action" where
  "preserve_action e reason = \<lparr> sa_kind = PreserveAction, sa_path = be_path e, sa_destination = None, sa_reason = reason,
     sa_byte_count = be_byte_count e \<rparr>"

text \<open>The key of the stable sort: \<open>None\<close> comes before every time.\<close>

definition option_key :: "int option \<Rightarrow> bool \<times> int" where
  "option_key t = (case t of None \<Rightarrow> (False, 0) | Some x \<Rightarrow> (True, x))"

definition live_ready :: "bundle_entry list \<Rightarrow> bundle_entry list" where
  "live_ready entries = rev (sort_key (\<lambda>e. option_key (or_else (be_ready_at e) (be_created_at e)))
     (filter (\<lambda>e. be_directory_class e = LiveClass \<and> be_ready e \<and> \<not> be_pinned e) entries))"

fun position :: "('a \<Rightarrow> bool) \<Rightarrow> 'a list \<Rightarrow> nat option" where
  "position P [] = None"
| "position P (x # xs) = (if P x then Some 0 else map_option Suc (position P xs))"

definition stale_action :: "string \<Rightarrow> bundle_entry \<Rightarrow> sweep_action" where
  "stale_action capture_root e = \<lparr> sa_kind = (if be_file_count e = 0 then DeleteAction else MoveToFailedAction),
     sa_path = be_path e,
     sa_destination = map_option (path_join (cp_failed_dir (capture_paths_new capture_root))) (path_file_name (be_path e)),
     sa_reason = ''stale processing bundle'', sa_byte_count = be_byte_count e \<rparr>"

definition keep_by_rank :: "retention_policy \<Rightarrow> bundle_entry list \<Rightarrow> bundle_entry \<Rightarrow> bool" where
  "keep_by_rank policy entries e = (case position (\<lambda>c. be_path c = be_path e) (live_ready entries) of
     None \<Rightarrow> False | Some rank \<Rightarrow> rank < rp_keep_last_ready policy)"

definition live_expired :: "retention_policy \<Rightarrow> int \<Rightarrow> bundle_entry \<Rightarrow> bool" where
  "live_expired policy now e \<longleftrightarrow> (case be_expires_at e of None \<Rightarrow> False | Some t \<Rightarrow> t \<le> now) \<or>
     is_older_than (or_else (be_ready_at e) (be_created_at e)) now (rp_live_ttl_seconds policy)"

definition plan_action :: "retention_policy \<Rightarrow> int \<Rightarrow> bundle_inventory \<Rightarrow> bundle_entry \<Rightarrow> sweep_action" where
  "plan_action policy now inventory e =
     (if be_pinned e \<or> be_directory_class e = PinnedClass then preserve_action e ''pinned bundle''
      else case be_directory_class e of
        ProcessingClass \<Rightarrow>
          if is_older_than (be_created_at e) now (rp_processing_stale_after_seconds policy)
          then stale_action (bi_capture_root inventory) e
          else preserve_action e ''processing bundle still fresh''
      | LiveClass \<Rightarrow>
          if live_expired policy now e \<and> \<not> keep_by_rank policy (bi_entries inventory) e
          then delete_action e ''expired live bundle''
          else preserve_action e ''live bundle retained''
      | FailedClass \<Rightarrow>
          if is_older_than (be_created_at e) now (rp_failed_ttl_seconds policy)
          then delete_action e ''expired failed bundle''
          else preserve_action e ''failed bundle retained for audit''
      | PinnedClass \<Rightarrow> preserve_action e ''pinned bundle'')"

definition plan_retention_sweep :: "manifest_decoder \<Rightarrow> string \<Rightarrow> retention_policy \<Rightarrow> int \<Rightarrow> fnode \<Rightarrow>
    capture_core_error + sweep_plan" where
  "plan_retention_sweep decode capture_root policy now root =
     try_then (list_bundles decode capture_root root) (\<lambda>inventory.
       Inr \<lparr> sw_generated_at = now, sw_dry_run = rp_dry_run policy,
         sw_actions = map (plan_action policy now inventory) (bi_entries inventory) \<rparr>)"

section \<open>The sweep\<close>

definition new_sweep_report :: "int \<Rightarrow> bool \<Rightarrow> sweep_report" where
  "new_sweep_report started_at dry_run = \<lparr> sp_started_at = started_at, sp_completed_at = started_at, sp_dry_run = dry_run,
     sp_deleted_paths = [], sp_moved_paths = [], sp_preserved_paths = [], sp_deleted_bytes = 0, sp_errors = [] \<rparr>"

definition sweep_error :: "string \<Rightarrow> sweep_report \<Rightarrow> sweep_report" where
  "sweep_error path report = report\<lparr> sp_errors := sp_errors report @ [path] \<rparr>"

definition apply_delete :: "bool \<Rightarrow> sweep_action \<Rightarrow> sweep_report \<times> fnode \<Rightarrow> sweep_report \<times> fnode" where
  "apply_delete dry_run a st = (case st of (report, root) \<Rightarrow>
     case (if dry_run then (Inr (), root) else remove_dir_all (sa_path a) root) of
       (Inl _, root') \<Rightarrow> (sweep_error (sa_path a) report, root')
     | (Inr _, root') \<Rightarrow> (report\<lparr> sp_deleted_bytes := saturating_add (sp_deleted_bytes report) (sa_byte_count a),
         sp_deleted_paths := sp_deleted_paths report @ [sa_path a] \<rparr>, root'))"

definition apply_move :: "bool \<Rightarrow> sweep_action \<Rightarrow> string \<Rightarrow> sweep_report \<times> fnode \<Rightarrow> sweep_report \<times> fnode" where
  "apply_move dry_run a destination st = (case st of (report, root) \<Rightarrow>
     if dry_run then (report\<lparr> sp_moved_paths := sp_moved_paths report @ [destination] \<rparr>, root)
     else case create_dir_all (path_parent destination) root of
       (Inl _, root1) \<Rightarrow> (sweep_error (path_parent destination) report, root1)
     | (Inr _, root1) \<Rightarrow> (case rename_path (sa_path a) (sa_path a) destination root1 of
         (Inl _, root2) \<Rightarrow> (sweep_error (sa_path a) report, root2)
       | (Inr _, root2) \<Rightarrow> (report\<lparr> sp_moved_paths := sp_moved_paths report @ [destination] \<rparr>, root2)))"

definition apply_action :: "bool \<Rightarrow> sweep_action \<Rightarrow> sweep_report \<times> fnode \<Rightarrow> sweep_report \<times> fnode" where
  "apply_action dry_run a st = (case sa_kind a of
     PreserveAction \<Rightarrow> (case st of (report, root) \<Rightarrow>
       (report\<lparr> sp_preserved_paths := sp_preserved_paths report @ [sa_path a] \<rparr>, root))
   | DeleteAction \<Rightarrow> apply_delete dry_run a st
   | MoveToFailedAction \<Rightarrow> (case sa_destination a of None \<Rightarrow> st | Some destination \<Rightarrow> apply_move dry_run a destination st))"

definition apply_retention_sweep :: "sweep_plan \<Rightarrow> int \<Rightarrow> int \<Rightarrow> fnode \<Rightarrow> sweep_report \<times> fnode" where
  "apply_retention_sweep plan started_at completed_at root =
     (case fold (apply_action (sw_dry_run plan)) (sw_actions plan) (new_sweep_report started_at (sw_dry_run plan), root) of
        (report, root') \<Rightarrow> (report\<lparr> sp_completed_at := completed_at \<rparr>, root'))"

text \<open>The audit log is opened for appending, so what it holds stays.\<close>

definition append_sweep_audit :: "(sweep_report \<Rightarrow> string) \<Rightarrow> string \<Rightarrow> sweep_report \<Rightarrow> fnode \<Rightarrow> unit fs_result" where
  "append_sweep_audit encode capture_root report root = (let paths = capture_paths_new capture_root in
     st_then (create_dir_all (cp_retention_dir paths) root) (\<lambda>_ root1.
       let old = (case read_bytes root1 (cp_sweeps_log paths) of Inl _ \<Rightarrow> [] | Inr b \<Rightarrow> b)
       in write_file (cp_sweeps_log paths) (old @ encode report @ [char_of (10 :: nat)]) root1))"

definition sweep_bundles :: "manifest_decoder \<Rightarrow> (sweep_report \<Rightarrow> string) \<Rightarrow> string \<Rightarrow> retention_policy \<Rightarrow> int \<Rightarrow> int \<Rightarrow> int \<Rightarrow>
    fnode \<Rightarrow> sweep_report fs_result" where
  "sweep_bundles decode encode capture_root policy now started_at completed_at root =
     st_try (plan_retention_sweep decode capture_root policy now root) root (\<lambda>plan.
       let (report, root1) = apply_retention_sweep plan started_at completed_at root
       in st_then (append_sweep_audit encode capture_root report root1) (\<lambda>_ root2. (Inr report, root2)))"

end
