(* ===== verification/Bundle_Trees.thy ===== *)
theory Bundle_Trees
  imports Retention
begin

text \<open>
  Facts on the tree of files: places that are apart do not affect each other, paths without parent steps lead where their
  components say, and where the bundles of an inventory lie.
\<close>

section \<open>Trees\<close>

lemma dir_entries_simps [simp]: "dir_child (FDir es) c = map_of es c" "dir_child (FFile b) c = None"
  by (simp_all add: dir_child_def)

lemma map_of_entry_put [simp]: "map_of (entry_put c n es) d = (if d = c then Some n else map_of es d)"
  by (induction c n es rule: entry_put.induct) auto

lemma map_of_entry_remove [simp]: "map_of (entry_remove c es) d = (if d = c then None else map_of es d)"
  unfolding entry_remove_def by (induction es) auto

lemma node_at_append: "node_at n (a @ b) = Option.bind (node_at n a) (\<lambda>m. node_at m b)"
  by (induction n a rule: node_at.induct) (auto split: option.splits)

text \<open>Two places are apart when neither lies in the other.\<close>

definition apart :: "string list \<Rightarrow> string list \<Rightarrow> bool" where
  "apart a b \<longleftrightarrow> take (length a) b \<noteq> a \<and> take (length b) a \<noteq> b"

lemma apart_sym: "apart a b \<Longrightarrow> apart b a"
  by (auto simp: apart_def)

lemma apart_Cons [simp]: "apart (c # a) (d # b) \<longleftrightarrow> c \<noteq> d \<or> apart a b"
  by (auto simp: apart_def)

lemma not_apart_Nil [simp]: "\<not> apart [] b" "\<not> apart a []"
  by (auto simp: apart_def)

lemma apart_append [simp]: "apart (p @ a) (p @ b) \<longleftrightarrow> apart a b"
  by (induction p) auto

lemma apart_extend: "apart a b \<Longrightarrow> apart (a @ c) b"
proof (induction a b rule: list_induct2')
  case 1
  then show ?case by simp
qed auto

lemma put_apart: "apart a b \<Longrightarrow> node_at (put_at n a m) b = node_at n b"
proof (induction n a m arbitrary: b rule: put_at.induct)
  case (2 n c cs m)
  then obtain d ds where b: "b = d # ds"
    by (cases b) auto
  show ?case
  proof (cases "d = c")
    case True
    have "node_at (put_at (case dir_child n c of None \<Rightarrow> FDir [] | Some k \<Rightarrow> k) cs m) ds =
        node_at (case dir_child n c of None \<Rightarrow> FDir [] | Some k \<Rightarrow> k) ds"
      using 2 True b by simp
    moreover have "ds \<noteq> []"
      using 2 True b by auto
    ultimately show ?thesis
      using True b by (cases ds) (auto simp: dir_child_def split: option.splits)
  next
    case False
    then show ?thesis
      using b by (simp add: dir_child_def)
  qed
qed simp

lemma put_same: "node_at (put_at n a m) (a @ b) = node_at m b"
  by (induction n a m rule: put_at.induct) auto

lemma remove_apart: "apart a b \<Longrightarrow> node_at (remove_at n a) b = node_at n b"
proof (induction n a arbitrary: b rule: remove_at.induct)
  case (2 n c)
  then obtain d ds where "b = d # ds" "d \<noteq> c"
    by (cases b) (auto simp: apart_def)
  then show ?case
    by (simp add: dir_child_def)
next
  case (3 n c e cs)
  then obtain d ds where b: "b = d # ds"
    by (cases b) auto
  then show ?case
    using 3 by (auto simp: dir_child_def split: option.splits)
qed simp

lemma remove_gone: "a \<noteq> [] \<Longrightarrow> node_at (remove_at n a) (a @ b) = None"
proof (induction n a rule: remove_at.induct)
  case (3 n c d cs)
  then show ?case
    by (auto simp: dir_child_def split: option.splits)
qed simp_all

section \<open>Paths without parent steps\<close>

definition plain_path :: "string \<Rightarrow> bool" where
  "plain_path p \<longleftrightarrow> ''..'' \<notin> set (named_components p)"

lemma resolve_steps_plain:
  "''..'' \<notin> set cs \<Longrightarrow> Option.bind (resolve_steps root acc cs) (node_at root) = node_at root (acc @ cs)"
proof (induction cs arbitrary: acc)
  case (Cons c cs)
  show ?case
  proof (cases "node_at root acc")
    case None
    then show ?thesis
      by (simp add: node_at_append)
  next
    case (Some n)
    then show ?thesis
      using Cons by (cases n) (auto simp: node_at_append split: option.splits)
  qed
qed simp

lemma lookup_plain: "plain_path p \<Longrightarrow> lookup_path root p = node_at root (named_components p)"
  unfolding lookup_path_def resolve_def plain_path_def using resolve_steps_plain by fastforce

lemma resolve_steps_result: "''..'' \<notin> set cs \<Longrightarrow> resolve_steps root acc cs = Some r \<Longrightarrow> r = acc @ cs"
  by (induction cs arbitrary: acc) (fastforce split: option.splits fnode.splits)+

lemma resolve_result: "plain_path p \<Longrightarrow> resolve root p = Some r \<Longrightarrow> r = named_components p"
  unfolding resolve_def plain_path_def using resolve_steps_result by fastforce

definition plain_name :: "string \<Rightarrow> bool" where
  "plain_name c \<longleftrightarrow> c \<noteq> [] \<and> c \<noteq> ''.'' \<and> c \<noteq> ''..'' \<and> CHR ''/'' \<notin> set c"

lemma named_components_name: "plain_name c \<Longrightarrow> named_components c = [c]"
proof -
  assume c: "plain_name c"
  then have "split_on (\<lambda>c. c = CHR ''/'') c = [c]"
    by (intro split_on_none) (auto simp: plain_name_def)
  then show ?thesis
    using c by (simp add: named_components_def plain_name_def)
qed

lemma named_components_join:
  assumes "c \<noteq> []" "hd c \<noteq> CHR ''/''"
  shows "named_components (path_join p c) = named_components p @ named_components c"
proof (cases "p = [] \<or> last p = CHR ''/''")
  case False
  then show ?thesis
    using assms by (simp add: path_join_def named_components_def split_on_append)
next
  case True
  show ?thesis
  proof (cases "p = []")
    case True
    then show ?thesis
      using assms by (simp add: path_join_def named_components_def)
  next
    case False
    then obtain q where "p = q @ [CHR ''/'']"
      using True by (metis append_butlast_last_id)
    then show ?thesis
      using assms by (simp add: path_join_def named_components_def split_on_append)
  qed
qed

lemma named_components_join_name: "plain_name c \<Longrightarrow> named_components (path_join p c) = named_components p @ [c]"
  using named_components_join [of c p] named_components_name [of c] by (cases c) (auto simp: plain_name_def)

section \<open>What the operations leave alone\<close>

lemma make_dirs_keeps:
  assumes "make_dirs root acc cs = Some root'" "''..'' \<notin> set cs" "node_at root b = Some n" "take (length b) (acc @ cs) \<noteq> b"
  shows "node_at root' b = Some n"
  using assms
proof (induction cs arbitrary: root acc)
  case (Cons c cs)
  show ?case
  proof (cases "node_at root (acc @ [c])")
    case None
    have "take (length (acc @ [c])) b \<noteq> acc @ [c]"
    proof
      assume "take (length (acc @ [c])) b = acc @ [c]"
      then have "b = (acc @ [c]) @ drop (length (acc @ [c])) b"
        by (metis append_take_drop_id)
      then have "node_at root b = Option.bind (node_at root (acc @ [c])) (\<lambda>m. node_at m (drop (length (acc @ [c])) b))"
        by (metis node_at_append)
      then show False
        using None Cons.prems(3) by simp
    qed
    moreover have "take (length b) (acc @ [c]) \<noteq> b"
    proof
      assume a: "take (length b) (acc @ [c]) = b"
      then have "length b \<le> length (acc @ [c])"
        by (metis length_take min.cobounded1 min.commute)
      then have "take (length b) ((acc @ [c]) @ cs) = b"
        using a by (metis take_append append_Nil2 diff_is_0_eq take0)
      then show False
        using Cons.prems(4) by simp
    qed
    ultimately have "node_at (put_at root (acc @ [c]) (FDir [])) b = Some n"
      using put_apart [of "acc @ [c]" b root "FDir []"] Cons.prems(3) by (simp add: apart_def)
    then show ?thesis
      using Cons.IH [of "put_at root (acc @ [c]) (FDir [])" "acc @ [c]"] Cons.prems None by (auto split: if_splits)
  next
    case (Some m)
    then show ?thesis
      using Cons.IH [of root "acc @ [c]"] Cons.prems by (auto split: if_splits)
  qed
qed simp

lemma create_keeps:
  assumes "create_dir_all p root = (r, root')" "plain_path p" "node_at root b = Some n" "take (length b) (named_components p) \<noteq> b"
  shows "node_at root' b = Some n"
  using assms make_dirs_keeps [of root "[]" "named_components p" root' b n]
  by (auto simp: create_dir_all_def plain_path_def split: option.splits)

lemma remove_keeps:
  assumes "remove_dir_all p root = (r, root')" "plain_path p" "apart (named_components p) b"
  shows "node_at root' b = node_at root b"
  using assms remove_apart [of "named_components p" b root] resolve_result [of p root]
  by (auto simp: remove_dir_all_def split: option.splits if_splits)

lemma write_keeps:
  assumes "write_file p bytes root = (r, root')" "plain_path p" "apart (named_components p) b"
  shows "node_at root' b = node_at root b"
  using assms put_apart [of "named_components p" b root "FFile bytes"] resolve_result [of p root]
  by (auto simp: write_file_def split: option.splits if_splits)

lemma rename_keeps:
  assumes "rename_path err p q root = (r, root')" "plain_path p" "plain_path q" "apart (named_components p) b"
    "apart (named_components q) b \<or> named_components q = b \<and> node_at root b = Some (FDir es) \<and> es \<noteq> []"
  shows "node_at root' b = node_at root b"
proof (cases "root' = root")
  case False
  then have a: "resolve root p = Some (named_components p)" "resolve root q = Some (named_components q)"
      "rename_allowed root (named_components p) (named_components q)"
      "root' = put_at (remove_at root (named_components p)) (named_components q) (the (node_at root (named_components p)))"
    using assms(1) resolve_result [OF assms(2), of root] resolve_result [OF assms(3), of root]
    by (auto simp: rename_path_def split: option.splits if_splits)
  have "apart (named_components q) b"
    using assms(5) a(3) by (auto simp: rename_allowed_def split: option.splits)
  then show ?thesis
    using a(4) put_apart remove_apart [OF assms(4)] by simp
qed simp

section \<open>The places of bundles\<close>

fun wf_tree :: "fnode \<Rightarrow> bool" where
  "wf_tree (FFile b) = True"
| "wf_tree (FDir es) = (distinct (map fst es) \<and> list_all (\<lambda>(c, n). plain_name c \<and> wf_tree n) es)"

lemma wf_node_at: "wf_tree n \<Longrightarrow> node_at n cs = Some m \<Longrightarrow> wf_tree m"
proof (induction n cs rule: node_at.induct)
  case (2 n c cs)
  then show ?case
    by (cases n) (auto simp: list_all_iff dest!: map_of_SomeD split: option.splits)
qed simp

fun class_dir :: "bundle_directory_class \<Rightarrow> string" where
  "class_dir ProcessingClass = ''processing''"
| "class_dir LiveClass = ''live''"
| "class_dir FailedClass = ''failed''"
| "class_dir PinnedClass = ''pinned''"

definition class_path :: "string \<Rightarrow> bundle_directory_class \<Rightarrow> string" where
  "class_path capture_root cls = path_join (path_join capture_root ''bundles'') (class_dir cls)"

lemma class_dir_inj [simp]: "class_dir a = class_dir b \<longleftrightarrow> a = b"
  by (cases a; cases b) simp_all

lemma plain_class_dir: "plain_name (class_dir cls)"
  by (cases cls) (simp_all add: plain_name_def)

lemma class_paths:
  "cp_processing_dir (capture_paths_new r) = class_path r ProcessingClass"
  "cp_live_dir (capture_paths_new r) = class_path r LiveClass"
  "cp_failed_dir (capture_paths_new r) = class_path r FailedClass"
  "cp_pinned_dir (capture_paths_new r) = class_path r PinnedClass"
  by (simp_all add: capture_paths_new_def class_path_def Let_def)

lemma class_path_components: "named_components (class_path r cls) = named_components r @ [''bundles'', class_dir cls]"
proof -
  have "plain_name ''bundles''"
    by (simp add: plain_name_def)
  then show ?thesis
    by (simp add: class_path_def named_components_join_name plain_class_dir)
qed

definition entry_at :: "manifest_decoder \<Rightarrow> string \<Rightarrow> fnode \<Rightarrow> bundle_entry \<Rightarrow> string \<Rightarrow> (string \<times> fnode) list \<Rightarrow> bool" where
  "entry_at decode capture_root root e name es \<longleftrightarrow> plain_name name \<and>
     be_path e = path_join (class_path capture_root (be_directory_class e)) name \<and>
     named_components (be_path e) = named_components capture_root @ [''bundles'', class_dir (be_directory_class e), name] \<and>
     node_at root (named_components (be_path e)) = Some (FDir es) \<and>
     collect_entry decode (be_directory_class e) (be_path e) root = Inr e"

lemma try_map_member: "try_map f xs = Inr ys \<Longrightarrow> y \<in> set ys \<Longrightarrow> \<exists>x \<in> set xs. f x = Inr y"
  by (induction xs arbitrary: ys) (auto simp: result_simps)

lemma collect_entry_fields: "collect_entry decode cls path root = Inr e \<Longrightarrow> be_directory_class e = cls \<and> be_path e = path"
  by (auto simp: collect_entry_def Let_def result_simps)

lemma collect_entries_at:
  assumes "wf_tree root" "plain_path capture_root" "collect_entries decode cls (class_path capture_root cls) root = Inr entries"
    "e \<in> set entries"
  shows "\<exists>name es. entry_at decode capture_root root e name es"
proof -
  have plain: "plain_path (class_path capture_root cls)"
    using assms(2) by (cases cls) (simp_all add: plain_path_def class_path_components)
  obtain ds where ds: "lookup_path root (class_path capture_root cls) = Some (FDir ds)"
    using assms(3,4) by (auto simp: collect_entries_def split: option.splits fnode.splits)
  then obtain name n where n: "(name, n) \<in> set ds" "is_dir_node n"
      "collect_entry decode cls (path_join (class_path capture_root cls) name) root = Inr e"
    using assms(3,4) by (auto simp: collect_entries_def collect_child_def dest!: try_map_member)
  have at: "node_at root (named_components (class_path capture_root cls)) = Some (FDir ds)"
    using ds plain by (simp add: lookup_plain)
  then have "wf_tree (FDir ds)"
    using assms(1) wf_node_at by blast
  then have name: "plain_name name" "map_of ds name = Some n"
    using n(1) by (auto simp: list_all_iff)
  obtain es where es: "n = FDir es"
    using n(2) by (cases n) auto
  have "node_at root (named_components (class_path capture_root cls) @ [name]) = Some (FDir es)"
    using at name(2) es by (simp add: node_at_append)
  then show ?thesis
    using collect_entry_fields [OF n(3)] n(3) name(1)
    by (auto simp: entry_at_def named_components_join_name class_path_components)
qed

lemma list_bundles_at:
  assumes "wf_tree root" "plain_path capture_root" "list_bundles decode capture_root root = Inr inventory"
    "e \<in> set (bi_entries inventory)"
  shows "\<exists>name es. entry_at decode capture_root root e name es"
  using assms(3,4) collect_entries_at [OF assms(1,2)]
  by (auto simp: list_bundles_def Let_def result_simps class_paths)

lemma entry_at_apart:
  assumes "entry_at decode r root e name es" "entry_at decode r root e' name' es'" "e \<noteq> e'"
  shows "apart (named_components (be_path e)) (named_components (be_path e'))"
proof -
  have "class_dir (be_directory_class e) \<noteq> class_dir (be_directory_class e') \<or> name \<noteq> name'"
    using assms by (auto simp: entry_at_def)
  then show ?thesis
    using assms(1,2) by (auto simp: entry_at_def apart_def)
qed

lemma entry_at_plain: "entry_at decode r root e name es \<Longrightarrow> plain_path r \<Longrightarrow> plain_path (be_path e)"
  by (cases "be_directory_class e") (auto simp: entry_at_def plain_path_def plain_name_def)

lemma path_file_name_components:
  "path_file_name p = (if named_components p = [] \<or> last (named_components p) = ''..'' then None else Some (last (named_components p)))"
  by (simp add: path_file_name_def named_components_def Let_def)

lemma entry_at_file_name: "entry_at decode r root e name es \<Longrightarrow> path_file_name (be_path e) = Some name"
  by (auto simp: entry_at_def path_file_name_components plain_name_def)

lemma class_path_parent: "plain_name name \<Longrightarrow> path_parent (path_join (class_path r cls) name) = class_path r cls"
proof -
  assume name: "plain_name name"
  have ends: "class_path r cls \<noteq> [] \<and> last (class_path r cls) \<noteq> CHR ''/''"
    by (cases cls) (simp_all add: class_path_def path_join_def)
  moreover have "hd name \<noteq> CHR ''/''"
    using name by (metis hd_in_set plain_name_def)
  ultimately have "path_join (class_path r cls) name = class_path r cls @ CHR ''/'' # name"
    by (subst path_join_segment) auto
  then show ?thesis
    using ends name by (simp add: path_parent_below plain_name_def)
qed

end
