(* ===== verification/Retention_Properties.thy ===== *)
theory Retention_Properties
  imports Bundle_Trees
begin

text \<open>
  What the retention of bundles and the bundle writer guarantee: preserved bundles survive a sweep, the newest are kept,
  only bundles with a manifest are swept, and promotion is all or nothing.
\<close>

section \<open>The sweep\<close>

lemma plan_action_path: "sa_path (plan_action policy now inventory e) = be_path e"
  by (simp add: plan_action_def preserve_action_def delete_action_def stale_action_def split: bundle_directory_class.splits)

lemma plan_action_move:
  "sa_kind (plan_action policy now inventory e) = MoveToFailedAction \<Longrightarrow>
   sa_destination (plan_action policy now inventory e) =
     map_option (path_join (cp_failed_dir (capture_paths_new (bi_capture_root inventory)))) (path_file_name (be_path e))"
  by (auto simp: plan_action_def preserve_action_def delete_action_def stale_action_def
      split: bundle_directory_class.splits if_splits)

lemma apply_delete_keeps:
  assumes "apply_delete dry_run a (report, root) = (report', root')" "plain_path (sa_path a)" "apart (named_components (sa_path a)) b"
  shows "node_at root' b = node_at root b"
  using assms remove_keeps [of "sa_path a" root]
  by (auto simp: apply_delete_def split: prod.splits sum.splits if_splits)

lemma apply_move_keeps:
  assumes "apply_move dry_run a dest (report, root) = (report', root')" "plain_path (sa_path a)" "plain_path dest"
    "plain_path (path_parent dest)" "apart (named_components (sa_path a)) b" "node_at root b = Some (FDir es)"
    "take (length b) (named_components (path_parent dest)) \<noteq> b"
    "apart (named_components dest) b \<or> named_components dest = b \<and> es \<noteq> []"
  shows "node_at root' b = node_at root b"
proof (cases dry_run)
  case True
  then show ?thesis
    using assms(1) by (simp add: apply_move_def)
next
  case False
  obtain r1 root1 where c: "create_dir_all (path_parent dest) root = (r1, root1)"
    by fastforce
  have k: "node_at root1 b = Some (FDir es)"
    using create_keeps [OF c assms(4,6,7)] by simp
  show ?thesis
  proof (cases r1)
    case (Inl e)
    then show ?thesis
      using assms(1) False c k assms(6) by (simp add: apply_move_def)
  next
    case (Inr u)
    obtain r2 root2 where m: "rename_path (sa_path a) (sa_path a) dest root1 = (r2, root2)"
      by fastforce
    have "node_at root2 b = node_at root1 b"
      using rename_keeps [OF m assms(2,3,5)] assms(8) k by auto
    moreover have "root' = root2"
      using assms(1) False c Inr m by (auto simp: apply_move_def split: sum.splits)
    ultimately show ?thesis
      using k assms(6) by simp
  qed
qed

text \<open>Every action of a plan leaves a preserved bundle alone, if it is not an empty directory.\<close>

lemma apply_action_keeps:
  assumes "plain_path capture_root" "bi_capture_root inventory = capture_root"
    "entry_at decode capture_root root0 e name es" "sa_kind (plan_action policy now inventory e) = PreserveAction" "es \<noteq> []"
    "entry_at decode capture_root root0 e' name' es'"
    "node_at root (named_components (be_path e)) = Some (FDir es)"
    "apply_action dry_run (plan_action policy now inventory e') (report, root) = (report', root')"
  shows "node_at root' (named_components (be_path e)) = Some (FDir es)"
proof (cases "sa_kind (plan_action policy now inventory e') = PreserveAction")
  case True
  then show ?thesis
    using assms(7,8) by (simp add: apply_action_def)
next
  case False
  then have "e' \<noteq> e"
    using assms(4) by blast
  let ?a = "plan_action policy now inventory e'"
  have apart: "apart (named_components (sa_path ?a)) (named_components (be_path e))"
    using entry_at_apart [OF assms(6,3)] \<open>e' \<noteq> e\<close> by (simp add: plan_action_path)
  have plain: "plain_path (sa_path ?a)"
    using entry_at_plain [OF assms(6,1)] by (simp add: plan_action_path)
  show ?thesis
  proof (cases "sa_kind ?a")
    case PreserveAction
    then show ?thesis
      using False by simp
  next
    case DeleteAction
    then have "apply_delete dry_run ?a (report, root) = (report', root')"
      using assms(8) by (simp add: apply_action_def)
    then show ?thesis
      using apply_delete_keeps plain apart assms(7) by metis
  next
    case MoveToFailedAction
    let ?dest = "path_join (class_path capture_root FailedClass) name'"
    have "sa_destination ?a = Some ?dest"
      using plan_action_move [OF MoveToFailedAction] entry_at_file_name [OF assms(6)] assms(2) by (simp add: class_paths)
    then have move: "apply_move dry_run ?a ?dest (report, root) = (report', root')"
      using assms(8) MoveToFailedAction by (simp add: apply_action_def)
    have name': "plain_name name'"
      using assms(6) by (simp add: entry_at_def)
    have parent: "path_parent ?dest = class_path capture_root FailedClass"
      using class_path_parent name' by blast
    have dest: "named_components ?dest = named_components capture_root @ [''bundles'', ''failed'', name']"
      using name' by (simp add: named_components_join_name class_path_components)
    have b: "named_components (be_path e) = named_components capture_root @ [''bundles'', class_dir (be_directory_class e), name]"
      using assms(3) unfolding entry_at_def by blast
    have "node_at root' (named_components (be_path e)) = node_at root (named_components (be_path e))"
    proof (rule apply_move_keeps [OF move plain _ _ apart assms(7)])
      show "plain_path ?dest"
        using assms(1) name' dest by (auto simp: plain_path_def plain_name_def)
      show "plain_path (path_parent ?dest)"
        using assms(1) by (simp add: parent plain_path_def class_path_components)
      show "take (length (named_components (be_path e))) (named_components (path_parent ?dest)) \<noteq> named_components (be_path e)"
        by (simp add: parent b class_path_components)
      show "apart (named_components ?dest) (named_components (be_path e)) \<or> named_components ?dest = named_components (be_path e) \<and> es \<noteq> []"
        using assms(5) unfolding dest b by (auto simp: apart_def)
    qed
    then show ?thesis
      using assms(7) by simp
  qed
qed

lemma fold_actions_keep:
  assumes "plain_path capture_root" "bi_capture_root inventory = capture_root"
    "entry_at decode capture_root root0 e name es" "sa_kind (plan_action policy now inventory e) = PreserveAction" "es \<noteq> []"
    "\<And>e'. e' \<in> set entries \<Longrightarrow> \<exists>name' es'. entry_at decode capture_root root0 e' name' es'"
    "node_at root (named_components (be_path e)) = Some (FDir es)"
  shows "node_at (snd (fold (apply_action dry_run) (map (plan_action policy now inventory) entries) (report, root)))
    (named_components (be_path e)) = Some (FDir es)"
  using assms(6,7)
proof (induction entries arbitrary: report root)
  case (Cons e' entries)
  obtain report' root' where s: "apply_action dry_run (plan_action policy now inventory e') (report, root) = (report', root')"
    by fastforce
  obtain name' es' where "entry_at decode capture_root root0 e' name' es'"
    using Cons.prems(1) by fastforce
  then have "node_at root' (named_components (be_path e)) = Some (FDir es)"
    using apply_action_keeps [OF assms(1-5) _ Cons.prems(2) s] by blast
  then show ?case
    using Cons.IH [of root' report'] Cons.prems(1) s by simp
qed simp

lemma audit_keeps:
  assumes "append_sweep_audit encode capture_root report root = (r, root')" "plain_path capture_root"
    "node_at root b = Some n" "b = named_components capture_root @ [''bundles'', c, name]"
  shows "node_at root' b = Some n"
proof -
  let ?paths = "capture_paths_new capture_root"
  have plain: "plain_name ''retention''" "plain_name ''sweeps.jsonl''"
    by (simp_all add: plain_name_def)
  have dirs: "named_components (cp_retention_dir ?paths) = named_components capture_root @ [''retention'']"
      "named_components (cp_sweeps_log ?paths) = named_components capture_root @ [''retention'', ''sweeps.jsonl'']"
    using plain by (simp_all add: capture_paths_new_def Let_def named_components_join_name)
  obtain r1 root1 where c: "create_dir_all (cp_retention_dir ?paths) root = (r1, root1)"
    by fastforce
  have k: "node_at root1 b = Some n"
    by (rule create_keeps [OF c _ assms(3)]) (use assms(2,4) in \<open>simp_all add: dirs plain_path_def\<close>)
  show ?thesis
  proof (cases r1)
    case (Inl e)
    then show ?thesis
      using assms(1) c k by (simp add: append_sweep_audit_def Let_def st_then_def)
  next
    case (Inr u)
    then obtain bytes where "write_file (cp_sweeps_log ?paths) bytes root1 = (r, root')"
      using assms(1) c by (auto simp: append_sweep_audit_def Let_def st_then_def)
    then show ?thesis
      using write_keeps [of "cp_sweeps_log ?paths" bytes root1 r root' b] assms(2,4) k
      by (simp add: dirs plain_path_def apart_def)
  qed
qed

lemma list_bundles_root: "list_bundles decode capture_root root = Inr inventory \<Longrightarrow> bi_capture_root inventory = capture_root"
  by (auto simp: list_bundles_def Let_def result_simps capture_paths_new_def)

lemma sweep_keeps:
  assumes "wf_tree root" "plain_path capture_root" "list_bundles decode capture_root root = Inr inventory"
    "e \<in> set (bi_entries inventory)" "sa_kind (plan_action policy now inventory e) = PreserveAction"
    "lookup_path root (be_path e) \<noteq> Some (FDir [])"
    "sweep_bundles decode encode capture_root policy now started_at completed_at root = (r, root')"
  shows "lookup_path root' (be_path e) = lookup_path root (be_path e)"
proof -
  obtain name es where at: "entry_at decode capture_root root e name es"
    using list_bundles_at [OF assms(1-4)] by blast
  have plain: "plain_path (be_path e)"
    using entry_at_plain [OF at assms(2)] .
  have node: "node_at root (named_components (be_path e)) = Some (FDir es)"
    using at unfolding entry_at_def by blast
  then have "es \<noteq> []"
    using assms(6) plain by (auto simp: lookup_plain)
  define plan where "plan = \<lparr> sw_generated_at = now, sw_dry_run = rp_dry_run policy,
    sw_actions = map (plan_action policy now inventory) (bi_entries inventory) \<rparr>"
  obtain report root1 where applied: "apply_retention_sweep plan started_at completed_at root = (report, root1)"
    by fastforce
  have "root1 = snd (fold (apply_action (rp_dry_run policy)) (map (plan_action policy now inventory) (bi_entries inventory))
      (new_sweep_report started_at (rp_dry_run policy), root))"
    using applied by (auto simp: apply_retention_sweep_def plan_def split: prod.splits)
  then have k: "node_at root1 (named_components (be_path e)) = Some (FDir es)"
    using fold_actions_keep [OF assms(2) list_bundles_root [OF assms(3)] at assms(5) \<open>es \<noteq> []\<close> list_bundles_at [OF assms(1-3)] node]
    by blast
  obtain r2 root2 where audit: "append_sweep_audit encode capture_root report root1 = (r2, root2)"
    by fastforce
  have "root' = root2"
    using assms(3,7) applied audit
    by (cases r2) (simp_all add: sweep_bundles_def plan_retention_sweep_def plan_def [symmetric] st_then_def)
  then have "node_at root' (named_components (be_path e)) = Some (FDir es)"
    using audit_keeps [OF audit assms(2) k] at unfolding entry_at_def by blast
  then show ?thesis
    using node plain by (simp add: lookup_plain)
qed

section \<open>What is deleted\<close>

lemma walk_loop_files: "length files + length (files_among p es) \<le> length (walk_loop ((p, es) # stack) files)"
proof -
  have "length files \<le> length (walk_loop stack files)" for stack files
    by (induction stack files rule: walk_loop.induct) simp_all
  from this [of "files @ files_among p es" "rev (dirs_among p es) @ stack"] show ?thesis
    by simp
qed

lemma files_among_member: "(c, FFile b) \<in> set es \<Longrightarrow> files_among p es \<noteq> []"
  by (force simp: files_among_def)

lemma totals_of_file:
  assumes "compute_tree_totals p root = Inr (bytes, n)" "plain_path p" "node_at root (named_components p) = Some (FDir es)"
    "(c, FFile b) \<in> set es"
  shows "n > 0"
proof -
  have "lookup_path root p = Some (FDir es)"
    using assms(2,3) by (simp add: lookup_plain)
  moreover from this have "path_exists root p"
    by (simp add: path_exists_def)
  ultimately have "n = length (walk_loop [(p, es)] [])"
    using assms(1) by (auto simp: compute_tree_totals_def walk_files_def result_simps)
  moreover have "length (files_among p es) \<noteq> 0"
    using files_among_member [OF assms(4)] by simp
  ultimately show ?thesis
    using walk_loop_files [of "[]" p es "[]"] by linarith
qed

lemma collect_entry_facts:
  assumes "collect_entry decode cls path root = Inr e"
  shows "\<exists>bytes. compute_tree_totals path root = Inr (bytes, be_file_count e) \<and>
    (let m = result_ok (read_manifest decode (path_join path ''manifest.json'') root) in
      be_created_at e = map_option cm_created_at m \<and> be_ready_at e = Option.bind m cm_ready_at \<and>
      be_expires_at e = Option.bind m cm_expires_at \<and> (cls \<noteq> PinnedClass \<longrightarrow> be_pinned e = (case m of None \<Rightarrow> False | Some m \<Rightarrow> cm_pinned m)))"
  using assms by (cases "compute_tree_totals path root") (auto simp: collect_entry_def Let_def)

text \<open>An entry with a time of creation has a manifest, so it has a file.\<close>

lemma created_entry_has_file:
  assumes "entry_at decode capture_root root e name es" "plain_path capture_root" "be_created_at e \<noteq> None"
  shows "be_file_count e > 0"
proof -
  have plain: "plain_path (be_path e)"
    using entry_at_plain [OF assms(1,2)] .
  have node: "node_at root (named_components (be_path e)) = Some (FDir es)"
    using assms(1) unfolding entry_at_def by blast
  have e: "collect_entry decode (be_directory_class e) (be_path e) root = Inr e"
    using assms(1) unfolding entry_at_def by blast
  have manifest: "plain_name ''manifest.json''"
    by (simp add: plain_name_def)
  then have mplain: "plain_path (path_join (be_path e) ''manifest.json'')"
    using plain by (simp add: plain_path_def named_components_join_name)
  obtain bytes where totals: "compute_tree_totals (be_path e) root = Inr (bytes, be_file_count e)"
      "be_created_at e = map_option cm_created_at (result_ok (read_manifest decode (path_join (be_path e) ''manifest.json'') root))"
    using collect_entry_facts [OF e] by (auto simp: Let_def)
  then obtain m where "read_manifest decode (path_join (be_path e) ''manifest.json'') root = Inr m"
    using assms(3) by (auto simp: result_ok_def split: sum.splits)
  then obtain body where "read_bytes root (path_join (be_path e) ''manifest.json'') = Inr body"
    by (auto simp: read_manifest_def result_simps)
  then have "lookup_path root (path_join (be_path e) ''manifest.json'') = Some (FFile body)"
    by (auto simp: read_bytes_def split: option.splits fnode.splits)
  then have "map_of es ''manifest.json'' = Some (FFile body)"
    using mplain manifest node by (auto simp: lookup_plain named_components_join_name node_at_append split: option.splits)
  then have "(''manifest.json'', FFile body) \<in> set es"
    by (rule map_of_SomeD)
  then show ?thesis
    using totals_of_file [OF totals(1) plain node] by blast
qed

section \<open>The newest bundles\<close>

definition recency :: "bundle_entry \<Rightarrow> bool \<times> int" where
  "recency e = option_key (or_else (be_ready_at e) (be_created_at e))"

lemma position_bound: "\<exists>x \<in> set xs. P x \<Longrightarrow> \<exists>n. position P xs = Some n \<and> n < length xs \<and> P (xs ! n) \<and> (\<forall>i < n. \<not> P (xs ! i))"
proof (induction xs)
  case (Cons x xs)
  then show ?case
  proof (cases "P x")
    case False
    then obtain n where n: "position P xs = Some n" "n < length xs" "P (xs ! n)" "\<forall>i < n. \<not> P (xs ! i)"
      using Cons by auto
    have "\<not> P ((x # xs) ! i)" if "i < Suc n" for i
      using that n(4) False by (cases i) auto
    then show ?thesis
      using n False by auto
  qed auto
qed simp

lemma live_ready_sorted: "sorted_wrt (\<lambda>a b. recency a \<ge> recency b) (live_ready entries)"
proof -
  have "sorted (map recency (sort_key recency (filter (\<lambda>e. be_directory_class e = LiveClass \<and> be_ready e \<and> \<not> be_pinned e) entries)))"
    by simp
  then show ?thesis
    unfolding live_ready_def sorted_wrt_rev recency_def [abs_def, symmetric] by (simp add: sorted_map)
qed

lemma kept_by_rank:
  assumes "e \<in> set (live_ready entries)"
    "length (filter (\<lambda>c. recency e \<le> recency c) (live_ready entries)) \<le> rp_keep_last_ready policy"
  shows "keep_by_rank policy entries e"
proof -
  let ?L = "live_ready entries"
  obtain n where n: "position (\<lambda>c. be_path c = be_path e) ?L = Some n" "n < length ?L"
      "\<forall>i < n. be_path (?L ! i) \<noteq> be_path e"
    using position_bound [of ?L "\<lambda>c. be_path c = be_path e"] assms(1) by blast
  obtain k where k: "k < length ?L" "?L ! k = e"
    using assms(1) by (metis in_set_conv_nth)
  have "n \<le> k"
    using n(3) k by (metis not_le)
  have "recency e \<le> recency (?L ! i)" if "i < Suc k" for i
    using sorted_wrt_nth_less [OF live_ready_sorted, of i k entries] that k by (cases "i = k") auto
  then have "filter (\<lambda>c. recency e \<le> recency c) (take (Suc k) ?L) = take (Suc k) ?L"
    using k(1) by (auto simp: filter_id_conv in_set_conv_nth)
  moreover have "length (filter P (take (Suc k) xs)) \<le> length (filter P xs)" for P and xs :: "bundle_entry list"
    by (metis append_take_drop_id filter_append length_append le_add1)
  ultimately have "Suc k \<le> length (filter (\<lambda>c. recency e \<le> recency c) ?L)"
    using k(1) by (metis length_take min_absorb2 Suc_leI)
  then show ?thesis
    using n(1) \<open>n \<le> k\<close> assms(2) by (simp add: keep_by_rank_def)
qed

section \<open>Properties\<close>

text \<open>C33. A bundle that is pinned, or that the plan preserves, is after the sweep exactly what it was, whatever
  fails on the way and wherever other bundles are moved; only an empty directory below \<open>failed\<close> can be replaced.\<close>

theorem preserved_bundles_survive:
  assumes "wf_tree root" "plain_path capture_root" "list_bundles decode capture_root root = Inr inventory"
    "e \<in> set (bi_entries inventory)" "be_pinned e \<or> sa_kind (plan_action policy now inventory e) = PreserveAction"
    "lookup_path root (be_path e) \<noteq> Some (FDir [])"
    "sweep_bundles decode encode capture_root policy now started_at completed_at root = (r, root')"
  shows "lookup_path root' (be_path e) = lookup_path root (be_path e)"
proof -
  have "sa_kind (plan_action policy now inventory e) = PreserveAction"
  proof (cases "be_pinned e")
    case True
    then show ?thesis
      by (simp add: plan_action_def preserve_action_def)
  qed (use assms(5) in blast)
  then show ?thesis
    using sweep_keeps [OF assms(1-4) _ assms(6,7)] by blast
qed

text \<open>C34. Among the ready live bundles that are not pinned, one that has at most as many as \<open>keep_last_ready\<close> others and itself
  that are as recent is never deleted, however old it is.\<close>

theorem newest_ready_kept:
  assumes "e \<in> set (live_ready (bi_entries inventory))"
    "length (filter (\<lambda>c. recency e \<le> recency c) (live_ready (bi_entries inventory))) \<le> rp_keep_last_ready policy"
  shows "sa_kind (plan_action policy now inventory e) = PreserveAction"
proof -
  have "be_directory_class e = LiveClass" "\<not> be_pinned e"
    using assms(1) by (auto simp: live_ready_def)
  then show ?thesis
    using kept_by_rank [OF assms] by (simp add: plan_action_def preserve_action_def)
qed

text \<open>The plan never deletes a bundle in \<open>processing\<close>: a stale one has a manifest, so it is not empty and is moved to
  \<open>failed\<close>. And without a manifest that parses no bundle is ever deleted or moved, whatever its age.\<close>

theorem sweep_needs_manifest:
  assumes "wf_tree root" "plain_path capture_root" "list_bundles decode capture_root root = Inr inventory"
    "e \<in> set (bi_entries inventory)"
  shows "(be_directory_class e = ProcessingClass \<longrightarrow> sa_kind (plan_action policy now inventory e) \<noteq> DeleteAction) \<and>
    (read_manifest decode (path_join (be_path e) ''manifest.json'') root \<notin> range Inr \<longrightarrow>
      sa_kind (plan_action policy now inventory e) = PreserveAction)"
proof -
  obtain name es where at: "entry_at decode capture_root root e name es"
    using list_bundles_at [OF assms] by blast
  have "sa_kind (plan_action policy now inventory e) \<noteq> DeleteAction" if "be_directory_class e = ProcessingClass"
    using created_entry_has_file [OF at assms(2)] that
    by (auto simp: plan_action_def preserve_action_def stale_action_def is_older_than_def split: option.splits)
  moreover have "sa_kind (plan_action policy now inventory e) = PreserveAction"
    if "read_manifest decode (path_join (be_path e) ''manifest.json'') root \<notin> range Inr"
  proof -
    have "collect_entry decode (be_directory_class e) (be_path e) root = Inr e"
      using at unfolding entry_at_def by blast
    moreover have "result_ok (read_manifest decode (path_join (be_path e) ''manifest.json'') root) = None"
      using that by (auto simp: result_ok_def split: sum.splits)
    ultimately have "be_created_at e = None" "be_ready_at e = None" "be_expires_at e = None"
      using collect_entry_facts by (fastforce simp: Let_def)+
    then show ?thesis
      by (auto simp: plan_action_def preserve_action_def is_older_than_def live_expired_def or_else_def
          split: bundle_directory_class.splits)
  qed
  ultimately show ?thesis
    by blast
qed

section \<open>Samples\<close>

definition sample_manifest :: "string \<Rightarrow> capture_bundle_manifest option" where
  "sample_manifest s = (case s of [] \<Rightarrow> None | c # cs \<Rightarrow> Some \<lparr> cm_schema_version = 1, cm_contract_version = contract_version,
     cm_capture_id = cs, cm_state = BundleReady, cm_created_at = int (byte c) * nanos_per_second, cm_ready_at = None,
     cm_time_start = 0, cm_time_end = 0, cm_expires_at = None, cm_retention_class = Ephemeral, cm_pinned = (cs = ''pin''),
     cm_pin_reason = None, cm_source_spool = JNull, cm_v0_required_files = [], cm_optional_files = [], cm_byte_count = 0,
     cm_file_count = 0, cm_lane_count = 0, cm_known_gap_count = 0, cm_producer = JNull, cm_app_identity = JNull \<rparr>)"

definition sample_bundle :: "string \<Rightarrow> fnode" where
  "sample_bundle m = FDir [(''manifest.json'', FFile m), (''READY'', FFile ''R'')]"

definition sample_tree :: fnode where
  "sample_tree = FDir [(''c'', FDir [(''bundles'', FDir
     [(''processing'', FDir [(''s.partial'', sample_bundle ''0s'')]),
      (''live'', FDir [(''a'', sample_bundle ''0a''), (''p'', sample_bundle ''0pin''), (''b'', sample_bundle ''1b'')])])])]"

definition sample_policy :: retention_policy where
  "sample_policy = default_retention_policy\<lparr> rp_keep_last_ready := 1 \<rparr>"

definition sample_now :: int where "sample_now = 1000000 * nanos_per_second"

definition sample_inventory :: bundle_inventory where
  "sample_inventory = (case list_bundles sample_manifest ''c'' sample_tree of Inr i \<Rightarrow> i
     | Inl _ \<Rightarrow> \<lparr> bi_capture_root = [], bi_entries = [], bi_total_bytes = 0, bi_total_files = 0 \<rparr>)"

lemma sample_listed: "list_bundles sample_manifest ''c'' sample_tree = Inr sample_inventory"
proof -
  have "case list_bundles sample_manifest ''c'' sample_tree of Inr i \<Rightarrow> True | Inl _ \<Rightarrow> False"
    by code_simp
  then show ?thesis
    by (auto simp: sample_inventory_def split: sum.splits)
qed

lemma sample_sizes: "map be_path (bi_entries sample_inventory) = [''c/bundles/processing/s.partial'', ''c/bundles/live/a'',
    ''c/bundles/live/p'', ''c/bundles/live/b'']"
  by code_simp

lemma sample_wf: "wf_tree sample_tree" "plain_path ''c''"
  by code_simp+

definition swept :: "(capture_core_error + sweep_report) \<times> fnode" where
  "swept = sweep_bundles sample_manifest (\<lambda>_. ''x'') ''c'' sample_policy sample_now 0 1 sample_tree"

text \<open>The stale bundle is moved, \<open>a\<close> is deleted, \<open>p\<close> is pinned and \<open>b\<close> is kept as the newest.\<close>

theorem preserved_bundles_survive_witness:
  "lookup_path (snd swept) ''c/bundles/live/p'' = Some (sample_bundle ''0pin'') \<and>
   map (path_exists (snd swept)) [''c/bundles/processing/s.partial'', ''c/bundles/failed/s.partial'', ''c/bundles/live/a'',
     ''c/bundles/live/b''] = [False, True, False, True]"
proof -
  have e: "bi_entries sample_inventory ! 2 \<in> set (bi_entries sample_inventory)"
    using arg_cong [OF sample_sizes, of length] by (intro nth_mem) simp
  have p: "be_path (bi_entries sample_inventory ! 2) = ''c/bundles/live/p''"
    by code_simp
  have "be_pinned (bi_entries sample_inventory ! 2)"
    by code_simp
  moreover have "lookup_path sample_tree (be_path (bi_entries sample_inventory ! 2)) \<noteq> Some (FDir [])"
    unfolding p by code_simp
  moreover have "sweep_bundles sample_manifest (\<lambda>_. ''x'') ''c'' sample_policy sample_now 0 1 sample_tree = (fst swept, snd swept)"
    by (simp add: swept_def)
  ultimately have "lookup_path (snd swept) (be_path (bi_entries sample_inventory ! 2)) =
      lookup_path sample_tree (be_path (bi_entries sample_inventory ! 2))"
    using preserved_bundles_survive [OF sample_wf sample_listed e] by blast
  moreover have "lookup_path sample_tree ''c/bundles/live/p'' = Some (sample_bundle ''0pin'')"
    by code_simp
  moreover have "map (path_exists (snd swept)) [''c/bundles/processing/s.partial'', ''c/bundles/failed/s.partial'',
      ''c/bundles/live/a'', ''c/bundles/live/b''] = [False, True, False, True]"
    by code_simp
  ultimately show ?thesis
    unfolding p by simp
qed

theorem newest_ready_kept_witness:
  "sa_kind (plan_action sample_policy sample_now sample_inventory (bi_entries sample_inventory ! 3)) = PreserveAction \<and>
   sa_kind (plan_action sample_policy sample_now sample_inventory (bi_entries sample_inventory ! 1)) = DeleteAction"
proof -
  have "live_ready (bi_entries sample_inventory) = [bi_entries sample_inventory ! 3, bi_entries sample_inventory ! 1]"
    by code_simp
  then have "bi_entries sample_inventory ! 3 \<in> set (live_ready (bi_entries sample_inventory))"
    by simp
  moreover have "length (filter (\<lambda>c. recency (bi_entries sample_inventory ! 3) \<le> recency c)
      (live_ready (bi_entries sample_inventory))) \<le> rp_keep_last_ready sample_policy"
    by code_simp
  ultimately have "sa_kind (plan_action sample_policy sample_now sample_inventory (bi_entries sample_inventory ! 3)) = PreserveAction"
    by (rule newest_ready_kept)
  moreover have "sa_kind (plan_action sample_policy sample_now sample_inventory (bi_entries sample_inventory ! 1)) = DeleteAction"
    by code_simp
  ultimately show ?thesis ..
qed

theorem sweep_needs_manifest_witness:
  "sa_kind (plan_action sample_policy sample_now sample_inventory (bi_entries sample_inventory ! 0)) = MoveToFailedAction"
proof -
  have "bi_entries sample_inventory ! 0 \<in> set (bi_entries sample_inventory)"
    using arg_cong [OF sample_sizes, of length] by (intro nth_mem) simp
  then have "sa_kind (plan_action sample_policy sample_now sample_inventory (bi_entries sample_inventory ! 0)) \<noteq> DeleteAction"
    using sweep_needs_manifest [OF sample_wf sample_listed] by code_simp
  moreover have "sa_kind (plan_action sample_policy sample_now sample_inventory (bi_entries sample_inventory ! 0)) \<noteq> PreserveAction"
    by code_simp
  ultimately show ?thesis
    by (cases "sa_kind (plan_action sample_policy sample_now sample_inventory (bi_entries sample_inventory ! 0))") simp_all
qed

section \<open>The writer\<close>

lemma created_writer:
  assumes "create_writer (capture_paths_new capture_root) capture_id root0 = (Inr w, root1)"
  shows "bw_partial_path w = path_join (class_path capture_root ProcessingClass) (capture_id @ ''.partial'')"
    "bw_live_path w = path_join (class_path capture_root LiveClass) capture_id"
  using assms by (auto simp: create_writer_def Let_def class_paths st_then_def split: sum.splits prod.splits if_splits)

lemma plain_partial: "plain_name c \<Longrightarrow> plain_name (c @ ''.partial'')"
  by (auto simp: plain_name_def append_eq_Cons_conv)

lemma rename_result:
  assumes "rename_path err p q root = (Inr u, root')" "plain_path p" "plain_path q"
    "apart (named_components p) (named_components q)"
  shows "lookup_path root' q = lookup_path root p \<and> lookup_path root' p = None \<and> lookup_path root p \<noteq> None \<and>
    (case lookup_path root q of Some (FDir es) \<Rightarrow> es = [] | _ \<Rightarrow> True)"
proof -
  let ?a = "named_components p" and ?b = "named_components q"
  have r: "resolve root p = Some ?a" "resolve root q = Some ?b"
    using assms(1) resolve_result [OF assms(2), of root] resolve_result [OF assms(3), of root]
    by (auto simp: rename_path_def split: option.splits if_splits)
  have "?a \<noteq> ?b"
    using assms(4) by (auto simp: apart_def)
  then have allowed: "rename_allowed root ?a ?b" "root' = put_at (remove_at root ?a) ?b (the (node_at root ?a))"
    using assms(1) r by (auto simp: rename_path_def split: if_splits)
  then have a: "node_at root ?a \<noteq> None" "?a \<noteq> []"
    by (auto simp: rename_allowed_def split: option.splits)
  have "node_at root' ?b = node_at root ?a"
    using put_same [of "remove_at root ?a" ?b "the (node_at root ?a)" "[]"] a allowed(2) by auto
  moreover have "node_at root' ?a = None"
    using put_apart [OF apart_sym [OF assms(4)]] remove_gone [OF a(2), of root "[]"] allowed(2) by simp
  ultimately show ?thesis
    using a allowed(1) assms(2,3) by (auto simp: lookup_plain rename_allowed_def split: option.splits fnode.splits)
qed

text \<open>Promotion is all or nothing: it either leaves everything as it was, or the directory that was being written is, whole
  and unchanged, the live bundle and no longer partial; a live bundle with files in it is never replaced.\<close>

theorem promotion_is_atomic:
  assumes "plain_path capture_root" "plain_name capture_id"
    "create_writer (capture_paths_new capture_root) capture_id root0 = (Inr w, root1)" "promote w root = (r, root')"
  shows "case r of Inl _ \<Rightarrow> root' = root
    | Inr p \<Rightarrow> p = bw_live_path w \<and> lookup_path root' p = lookup_path root (bw_partial_path w) \<and>
        lookup_path root' (bw_partial_path w) = None \<and>
        (case lookup_path root p of Some (FDir es) \<Rightarrow> es = [] | _ \<Rightarrow> True)"
proof -
  have paths: "named_components (bw_partial_path w) = named_components capture_root @ [''bundles'', ''processing'', capture_id @ ''.partial'']"
      "named_components (bw_live_path w) = named_components capture_root @ [''bundles'', ''live'', capture_id]"
    using created_writer [OF assms(3)] assms(2) plain_partial by (simp_all add: named_components_join_name class_path_components)
  have plain: "plain_path (bw_partial_path w)" "plain_path (bw_live_path w)"
    using assms(1,2) plain_partial [OF assms(2)] by (auto simp: plain_path_def paths plain_name_def)
  obtain r1 root2 where ren: "rename_path (bw_live_path w) (bw_partial_path w) (bw_live_path w) root = (r1, root2)"
    by fastforce
  show ?thesis
  proof (cases r1)
    case (Inl e)
    then have "root2 = root"
      using ren by (auto simp: rename_path_def split: option.splits if_splits)
    then show ?thesis
      using assms(4) ren Inl by (auto simp: promote_def st_then_def)
  next
    case (Inr u)
    then have "r = Inr (bw_live_path w)" "root' = root2"
      using assms(4) ren by (auto simp: promote_def st_then_def)
    then show ?thesis
      using rename_result [OF ren [unfolded Inr] plain] by (simp add: paths)
  qed
qed

text \<open>What the writer puts into a file of the bundle is what is read there, unless its name leads upwards.\<close>

theorem bundle_file_reads_back:
  assumes "write_bytes w relative bytes root = (Inr u, root')" "bundle_relative_path relative = Inr r"
    "plain_path (join_under r (bw_partial_path w))"
  shows "read_bytes root' (join_under r (bw_partial_path w)) = Inr bytes"
proof -
  obtain root1 where "write_file (join_under r (bw_partial_path w)) bytes root1 = (Inr u, root')"
    using assms(1,2) by (auto simp: write_bytes_def Let_def result_simps)
  then obtain cs where "root' = put_at root1 cs (FFile bytes)" "cs = named_components (join_under r (bw_partial_path w))"
    using resolve_result [OF assms(3), of root1] by (auto simp: write_file_def split: option.splits if_splits)
  then have "lookup_path root' (join_under r (bw_partial_path w)) = Some (FFile bytes)"
    using put_same [of root1 cs "FFile bytes" "[]"] assms(3) by (simp add: lookup_plain)
  then show ?thesis
    by (simp add: read_bytes_def)
qed

definition sample_writer :: atomic_bundle_writer where
  "sample_writer = \<lparr> bw_paths = capture_paths_new ''c'', bw_capture_id = ''n'', bw_partial_path = ''c/bundles/processing/n.partial'',
     bw_live_path = ''c/bundles/live/n'' \<rparr>"

definition created_sample :: fnode where
  "created_sample = snd (create_writer (capture_paths_new ''c'') ''n'' sample_tree)"

lemma sample_created: "create_writer (capture_paths_new ''c'') ''n'' sample_tree = (Inr sample_writer, created_sample)"
proof -
  have "fst (create_writer (capture_paths_new ''c'') ''n'' sample_tree) = Inr sample_writer"
    by code_simp
  then show ?thesis
    by (simp add: created_sample_def prod_eq_iff)
qed

theorem promotion_is_atomic_witness:
  "let root = snd (write_bytes sample_writer ''events/x'' ''hi'' created_sample) in
   lookup_path (snd (promote sample_writer root)) ''c/bundles/live/n'' = Some (FDir [(''events'', FDir [(''x'', FFile ''hi'')])])"
proof -
  let ?root = "snd (write_bytes sample_writer ''events/x'' ''hi'' created_sample)"
  have names: "plain_path ''c''" "plain_name ''n''"
    by code_simp+
  have ok: "fst (promote sample_writer ?root) = Inr ''c/bundles/live/n''"
    by code_simp
  have "promote sample_writer ?root = (fst (promote sample_writer ?root), snd (promote sample_writer ?root))"
    by simp
  note atomic = promotion_is_atomic [OF names sample_created this]
  have "bw_live_path sample_writer = ''c/bundles/live/n''"
    by (simp add: sample_writer_def)
  then have "lookup_path (snd (promote sample_writer ?root)) ''c/bundles/live/n'' = lookup_path ?root (bw_partial_path sample_writer)"
    using atomic unfolding ok by simp
  moreover have "lookup_path ?root (bw_partial_path sample_writer) = Some (FDir [(''events'', FDir [(''x'', FFile ''hi'')])])"
    by code_simp
  ultimately show ?thesis
    by (simp add: Let_def)
qed

theorem bundle_file_reads_back_witness:
  "read_bytes (snd (write_bytes sample_writer ''events/x'' ''hi'' created_sample)) ''c/bundles/processing/n.partial/events/x'' = Inr ''hi''"
proof -
  have "fst (write_bytes sample_writer ''events/x'' ''hi'' created_sample) = Inr ()"
    by code_simp
  then have "write_bytes sample_writer ''events/x'' ''hi'' created_sample =
      (Inr (), snd (write_bytes sample_writer ''events/x'' ''hi'' created_sample))"
    by (simp add: prod_eq_iff)
  moreover have "bundle_relative_path ''events/x'' = Inr ''events/x''"
    by code_simp
  moreover have "plain_path (join_under ''events/x'' (bw_partial_path sample_writer))"
    by code_simp
  ultimately have "read_bytes (snd (write_bytes sample_writer ''events/x'' ''hi'' created_sample))
      (join_under ''events/x'' (bw_partial_path sample_writer)) = Inr ''hi''"
    by (rule bundle_file_reads_back)
  moreover have "join_under ''events/x'' (bw_partial_path sample_writer) = ''c/bundles/processing/n.partial/events/x''"
    by code_simp
  ultimately show ?thesis
    by simp
qed

end
