(* ===== verification/Bundle_Validation.thy ===== *)
theory Bundle_Validation
  imports Bundles
begin

text \<open>
  The validation of a capture bundle (\<open>crates/onecontext-capture-core/src/bundle/validate.rs\<close>), before it becomes ready
  and after. The JSON parsers (of a value, a manifest and a source inventory) and the quoting of a text in a message are
  parameters. An error ends the validation; a finding does not.
\<close>

datatype validation_mode = CandidateMode | ReadyMode

record bundle_decoders =
  bd_value :: "string \<Rightarrow> json option"
  bd_manifest :: "string \<Rightarrow> capture_bundle_manifest option"
  bd_inventory :: "string \<Rightarrow> source_inventory option"
  bd_quote :: "string \<Rightarrow> string"

section \<open>Reading documents\<close>

definition fatal :: "string \<Rightarrow> string option \<Rightarrow> string \<Rightarrow> validation_finding" where
  "fatal code path message = \<lparr> vf_severity = FatalFinding, vf_code = code, vf_path = path, vf_message = message,
     vf_blocks_ready = True \<rparr>"

definition read_text :: "fnode \<Rightarrow> string \<Rightarrow> capture_core_error + string" where
  "read_text root p = try_then (read_bytes root p) (\<lambda>b. if valid_utf8 b then Inr b else Inl (CaptureIo p))"

definition read_document :: "(string \<Rightarrow> 'v option) \<Rightarrow> fnode \<Rightarrow> string \<Rightarrow> capture_core_error + 'v" where
  "read_document decode root p = try_then (read_text root p) (\<lambda>text. ok_or (decode text) (CaptureJson p))"

text \<open>The values of the lines that are not blank, with an error that names the first line that does not parse.\<close>

fun parse_lines :: "(string \<Rightarrow> json option) \<Rightarrow> (nat \<Rightarrow> string) \<Rightarrow> nat \<Rightarrow> string list \<Rightarrow> capture_core_error + json list" where
  "parse_lines decode name n [] = Inr []"
| "parse_lines decode name n (l # ls) = (if str_trim l = [] then parse_lines decode name (n + 1) ls
     else try_then (ok_or (decode l) (CaptureJson (name (n + 1)))) (\<lambda>v.
       try_then (parse_lines decode name (n + 1) ls) (\<lambda>vs. Inr (v # vs))))"

definition read_jsonl_values :: "bundle_decoders \<Rightarrow> fnode \<Rightarrow> string \<Rightarrow> capture_core_error + json list" where
  "read_jsonl_values dec root p = (if \<not> path_exists root p then Inr []
     else try_then (read_text root p) (\<lambda>text. parse_lines (bd_value dec) (\<lambda>n. p @ '':'' @ decimal n) 0 (str_lines text)))"

definition has_non_empty_array :: "json \<Rightarrow> string list \<Rightarrow> bool" where
  "has_non_empty_array v path = (case Option.bind (value_path v path) as_array of None \<Rightarrow> False | Some vs \<Rightarrow> vs \<noteq> [])"

section \<open>Files\<close>

definition window_context :: "json \<Rightarrow> bool" where
  "window_context v \<longleftrightarrow> has_non_empty_array v [''payload'', ''windows''] \<or> has_non_empty_array v [''windows'']"

definition display_context :: "json \<Rightarrow> bool" where
  "display_context v \<longleftrightarrow> has_non_empty_array v [''payload'', ''displays''] \<or> has_non_empty_array v [''displays'']"

definition push_if :: "bool \<Rightarrow> validation_finding \<Rightarrow> validation_report \<Rightarrow> validation_report" where
  "push_if b f report = (if b then push_finding f report else report)"

definition validate_file :: "bundle_decoders \<Rightarrow> fnode \<Rightarrow> string \<Rightarrow> string \<Rightarrow> validation_report \<Rightarrow>
    capture_core_error + validation_report" where
  "validate_file dec root bundle relative report = (let path = path_join bundle relative in
     if ends_with relative ''.json'' then try_then (read_document (bd_value dec) root path) (\<lambda>_. Inr report)
     else if ends_with relative ''.jsonl'' then
       try_then (read_text root path) (\<lambda>text.
       try_then (parse_lines (bd_value dec) (\<lambda>n. path_join bundle (relative @ '':'' @ decimal n)) 0 (str_lines text)) (\<lambda>vs.
         let windows = (relative = ''events/windows.jsonl''); displays = (relative = ''events/displays.jsonl'');
             blank = (str_trim text = [])
         in Inr ((push_if (displays \<and> \<not> blank \<and> \<not> list_ex display_context vs) (fatal ''empty_display_context'' (Some relative)
                   ''display snapshots must include a non-empty displays array'') \<circ>
             push_if (windows \<and> \<not> blank \<and> \<not> list_ex window_context vs) (fatal ''empty_window_context'' (Some relative)
                   ''window snapshots must include a non-empty windows array'') \<circ>
             push_if (displays \<and> blank) (fatal ''empty_displays_jsonl'' (Some relative)
                   ''events/displays.jsonl must contain display context for V0 READY bundles'') \<circ>
             push_if (windows \<and> blank) (fatal ''empty_windows_jsonl'' (Some relative)
                   ''events/windows.jsonl must contain at least one window snapshot'')) report)))
     else Inr report)"

fun validate_required :: "bundle_decoders \<Rightarrow> fnode \<Rightarrow> string \<Rightarrow> string list \<Rightarrow> validation_report \<Rightarrow>
    capture_core_error + validation_report" where
  "validate_required dec root bundle [] report = Inr report"
| "validate_required dec root bundle (required # rest) report =
     try_then (bundle_relative_path required) (\<lambda>relative.
       if \<not> path_exists root (join_under relative bundle)
       then validate_required dec root bundle rest (push_finding (fatal ''missing_required_file'' (Some required)
         ''required V0 file is missing'') report)
       else try_then (validate_file dec root bundle required report) (validate_required dec root bundle rest))"

section \<open>Sources\<close>

definition known_gap_source_ids :: "bundle_decoders \<Rightarrow> fnode \<Rightarrow> string \<Rightarrow> capture_core_error + string list" where
  "known_gap_source_ids dec root bundle =
     try_then (read_jsonl_values dec root (path_join bundle ''quality/known_gaps.jsonl'')) (\<lambda>vs.
       Inr (List.map_filter (\<lambda>v. string_path v [''source_id'']) vs))"

definition known_gap_codes :: "bundle_decoders \<Rightarrow> fnode \<Rightarrow> string \<Rightarrow> capture_core_error + (string \<times> string) list" where
  "known_gap_codes dec root bundle =
     try_then (read_jsonl_values dec root (path_join bundle ''quality/known_gaps.jsonl'')) (\<lambda>vs.
       Inr (List.map_filter (\<lambda>v. case string_path v [''source_id''] of None \<Rightarrow> None
         | Some s \<Rightarrow> map_option (Pair s) (string_path v [''code''])) vs))"

text \<open>The file of each lane.\<close>

definition lane_files :: "(string, string) btree_map" where
  "lane_files = bt_of_list [(''capture.windows'', ''events/windows.jsonl''), (''capture.displays'', ''events/displays.jsonl''),
     (''capture.events'', ''events/capture.events.jsonl''), (''capture.ax'', ''events/ax.events.jsonl''),
     (''capture.ux'', ''events/ux.events.jsonl''),
     (''capture.active_window_frames'', ''events/sck-frame-metadata.events.jsonl''),
     (''capture.browser'', ''events/browser.events.jsonl''), (''capture.terminal'', ''events/terminal.events.jsonl''),
     (''capture.editor'', ''events/editor.events.jsonl''),
     (''capture.external_refs'', ''external_refs/source-envelopes.jsonl'')]"

definition is_available_frame_2fps :: "json \<Rightarrow> bool" where
  "is_available_frame_2fps v \<longleftrightarrow>
     (let status = or_else (string_path v [''status'']) (string_path v [''state'']);
          path = or_else (string_path v [''path'']) (string_path v [''uri''])
      in string_path v [''kind''] = Some ''frame_2fps'' \<and> status \<in> Some ` {''available'', ''present'', ''ready''} \<and>
         (case path of None \<Rightarrow> False | Some p \<Rightarrow> starts_with p ''media/frames-2fps/''))"

definition actual_lane_count :: "bundle_decoders \<Rightarrow> fnode \<Rightarrow> string \<Rightarrow> string \<Rightarrow> capture_core_error + nat" where
  "actual_lane_count dec root bundle relative =
     try_then (read_jsonl_values dec root (path_join bundle relative)) (\<lambda>vs. Inr (length vs))"

definition actual_lane_counts :: "bundle_decoders \<Rightarrow> fnode \<Rightarrow> string \<Rightarrow> capture_core_error + (string, nat) btree_map" where
  "actual_lane_counts dec root bundle =
     try_then (try_map (\<lambda>relative. try_then (actual_lane_count dec root bundle relative) (\<lambda>n. Inr (relative, n)))
       (bt_values lane_files)) (\<lambda>es.
     try_then (read_jsonl_values dec root (path_join bundle ''media/media.index.jsonl'')) (\<lambda>media.
       let counts = bt_of_list es; active = ''events/sck-frame-metadata.events.jsonl''
       in Inr (case bt_get counts active of None \<Rightarrow> counts
          | Some n \<Rightarrow> bt_insert active (n + length (filter is_available_frame_2fps media)) counts)))"

definition capability_status :: "bundle_decoders \<Rightarrow> fnode \<Rightarrow> string \<Rightarrow> string \<Rightarrow> capture_core_error + source_status" where
  "capability_status dec root bundle relative =
     try_then (read_document (bd_value dec) root (path_join bundle relative)) (\<lambda>v. Inr (case bool_path v [''ready''] of
       Some True \<Rightarrow> SourcePresent
     | Some False \<Rightarrow> SourceDegraded
     | None \<Rightarrow> (case string_path v [''status''] of
         None \<Rightarrow> SourcePresent
       | Some s \<Rightarrow> if s \<in> {''ok'', ''present'', ''ready'', ''available'', ''granted''} then SourcePresent
           else if s \<in> {''permission_denied'', ''denied''} then PermissionDenied
           else if s \<in> {''source_unavailable'', ''unavailable''} then SourceUnavailable
           else if s = ''disabled_by_policy'' then DisabledByPolicy
           else SourceDegraded)))"

fun status_debug :: "source_status \<Rightarrow> string" where
  "status_debug SourcePresent = ''Present''"
| "status_debug SourceDegraded = ''Degraded''"
| "status_debug PermissionDenied = ''PermissionDenied''"
| "status_debug SourceUnavailable = ''SourceUnavailable''"
| "status_debug DisabledByPolicy = ''DisabledByPolicy''"

text \<open>The findings on one source, but for its capability document.\<close>

definition source_findings :: "string list \<Rightarrow> (string, nat) btree_map \<Rightarrow> lane_source \<Rightarrow> validation_finding list" where
  "source_findings gaps counts s =
     (if ln_status s = SourcePresent \<and> ln_record_count s = 0 then [fatal ''present_source_has_no_records'' (Some ''sources.json'')
        (''source '' @ ln_source_id s @ '' is present but record_count is zero'')] else []) @
     (if ln_status s \<noteq> SourcePresent \<and> ln_record_count s > 0 then [fatal ''degraded_source_has_records'' (Some ''sources.json'')
        (''source '' @ ln_source_id s @ '' is '' @ status_debug (ln_status s) @ '' but record_count is '' @
         decimal (ln_record_count s))] else []) @
     (if ln_required_for_v0 s \<and> ln_status s \<noteq> SourcePresent \<and> ln_source_id s \<notin> set gaps
      then [fatal ''missing_known_gap_for_degraded_lane'' (Some ''quality/known_gaps.jsonl'')
        (''degraded required source '' @ ln_source_id s @ '' must have a known-gap record'')] else []) @
     (case Option.bind (bt_get lane_files (ln_lane_id s)) (\<lambda>relative. map_option (Pair relative) (bt_get counts relative)) of
        None \<Rightarrow> []
      | Some (relative, n) \<Rightarrow> if ln_record_count s \<noteq> n then [fatal ''source_record_count_mismatch'' (Some ''sources.json'')
        (''source '' @ ln_source_id s @ '' reports '' @ decimal (ln_record_count s) @ '' records but '' @ relative @
         '' contains '' @ decimal n)] else [])"

definition validate_source :: "bundle_decoders \<Rightarrow> fnode \<Rightarrow> string \<Rightarrow> string list \<Rightarrow> (string, nat) btree_map \<Rightarrow> lane_source \<Rightarrow>
    validation_report \<Rightarrow> capture_core_error + validation_report" where
  "validate_source dec root bundle gaps counts s report = (let report1 = fold push_finding (source_findings gaps counts s) report
     in if bt_get lane_files (ln_lane_id s) = None \<and> starts_with (ln_lane_id s) ''capabilities/''
        then try_then (capability_status dec root bundle (ln_lane_id s)) (\<lambda>expected. Inr (push_if (ln_status s \<noteq> expected)
          (fatal ''capability_source_status_mismatch'' (Some ''sources.json'')
            (''source '' @ ln_source_id s @ '' status does not match '' @ ln_lane_id s)) report1))
        else Inr report1)"

fun validate_each :: "('a \<Rightarrow> validation_report \<Rightarrow> capture_core_error + validation_report) \<Rightarrow> 'a list \<Rightarrow> validation_report \<Rightarrow>
    capture_core_error + validation_report" where
  "validate_each f [] report = Inr report"
| "validate_each f (x # xs) report = try_then (f x report) (validate_each f xs)"

definition missing_lane :: "source_inventory \<Rightarrow> string \<Rightarrow> validation_report \<Rightarrow> validation_report" where
  "missing_lane inventory lane = push_if (lane \<notin> ln_lane_id ` set (iv_sources inventory))
     (fatal ''missing_mandatory_lane_source'' (Some ''sources.json'') (''sources.json lacks mandatory lane '' @ lane))"

definition validate_sources :: "bundle_decoders \<Rightarrow> fnode \<Rightarrow> string \<Rightarrow> validation_report \<Rightarrow>
    capture_core_error + validation_report" where
  "validate_sources dec root bundle report = (let path = path_join bundle ''sources.json'' in
     if \<not> path_exists root path then Inr report
     else try_then (read_document (bd_inventory dec) root path) (\<lambda>inventory.
       try_then (known_gap_source_ids dec root bundle) (\<lambda>gaps.
       let report1 = fold (missing_lane inventory) mandatory_lane_ids report
       in try_then (actual_lane_counts dec root bundle) (\<lambda>counts.
          validate_each (validate_source dec root bundle gaps counts) (iv_sources inventory) report1))))"

section \<open>Times, media and references\<close>

definition validate_time_alignment :: "bundle_decoders \<Rightarrow> fnode \<Rightarrow> string \<Rightarrow> validation_report \<Rightarrow>
    capture_core_error + validation_report" where
  "validate_time_alignment dec root bundle report = (let path = path_join bundle ''time_alignment.json''; at = Some ''time_alignment.json'' in
     if \<not> path_exists root path then Inr report
     else try_then (read_document (bd_value dec) root path) (\<lambda>v. Inr (
       (push_if (case Option.bind (json_get ''join_keys'' v) as_array of None \<Rightarrow> True | Some ks \<Rightarrow> ks = [])
          (fatal ''missing_time_alignment_join_keys'' at ''time_alignment.json must list timestamp join keys'') \<circ>
        push_if (string_path v [''time_range'', ''start''] = None \<or> string_path v [''time_range'', ''end''] = None)
          (fatal ''missing_time_alignment_range'' at ''time_alignment.json must include the exported time range'') \<circ>
        push_if (string_path v [''canonical_clock''] = None)
          (fatal ''missing_time_alignment_canonical_clock'' at ''time_alignment.json must name the canonical clock'') \<circ>
        push_if (string_path v [''status''] = Some ''scaffold'')
          (fatal ''scaffold_time_alignment'' at
             ''time_alignment.json must contain concrete V0 clock alignment metadata, not scaffold status'')) report)))"

definition sck_indicates_media_candidate :: "json \<Rightarrow> bool" where
  "sck_indicates_media_candidate v \<longleftrightarrow> bool_path v [''attachmentsPresent''] = Some True \<or>
     bool_path v [''payload'', ''attachmentsPresent''] = Some True \<or>
     bool_path v [''payload'', ''adaptiveDecision'', ''shouldStoreKeyframe''] = Some True \<or>
     bool_path v [''payload'', ''adaptiveDecision'', ''shouldEncodeVideoSegment''] = Some True \<or>
     string_path v [''mediaRef''] \<noteq> None \<or> string_path v [''payload'', ''mediaRef''] \<noteq> None"

definition media_record_findings :: "fnode \<Rightarrow> string \<Rightarrow> nat \<times> json \<Rightarrow> validation_finding list" where
  "media_record_findings root bundle r = (case r of (index, v) \<Rightarrow>
     case or_else (string_path v [''path'']) (string_path v [''uri'']) of None \<Rightarrow> []
     | Some path \<Rightarrow> if str_contains path ''://'' then []
         else case bundle_relative_path path of
           Inl _ \<Rightarrow> [fatal ''invalid_media_path'' (Some ''media/media.index.jsonl'')
             (''media record '' @ decimal (index + 1) @ '' has invalid bundle-relative path'')]
         | Inr relative \<Rightarrow> if path_exists root (join_under relative bundle) then []
             else [fatal ''missing_media_artifact'' (Some ''media/media.index.jsonl'')
               (''media record '' @ decimal (index + 1) @ '' references missing artifact '' @ path)])"

definition media_gap :: "(string \<times> string) list \<Rightarrow> bool" where
  "media_gap gaps \<longleftrightarrow> (''media'', ''media_candidate_omitted'') \<in> set gaps \<or> (''media'', ''keyframe_media_omitted'') \<in> set gaps \<or>
     (''media'', ''media_frame_omitted'') \<in> set gaps"

definition validate_media_consistency :: "bundle_decoders \<Rightarrow> fnode \<Rightarrow> string \<Rightarrow> validation_report \<Rightarrow>
    capture_core_error + validation_report" where
  "validate_media_consistency dec root bundle report =
     try_then (read_jsonl_values dec root (path_join bundle ''events/sck-frame-metadata.events.jsonl'')) (\<lambda>sck.
     try_then (read_jsonl_values dec root (path_join bundle ''media/media.index.jsonl'')) (\<lambda>media.
     try_then (known_gap_codes dec root bundle) (\<lambda>gaps.
       let report1 = push_if (list_ex sck_indicates_media_candidate sck \<and> media = [] \<and> \<not> media_gap gaps)
             (fatal ''empty_media_for_keyframe_candidates'' (Some ''media/media.index.jsonl'')
                ''SCK/keyframe metadata indicates media candidates, but media.index.jsonl is empty and no media known-gap explains the omission'') report;
           report2 = push_if (\<not> list_ex is_available_frame_2fps media)
             (fatal ''missing_frame_2fps_media'' (Some ''media/media.index.jsonl'')
                ''READY capture bundles must include available 2fps screenshot frames under media/frames-2fps/'') report1
       in Inr (fold push_finding (concat (map (media_record_findings root bundle) (List.enumerate 0 media))) report2))))"

definition ref_findings :: "fnode \<Rightarrow> string \<Rightarrow> nat \<times> json \<Rightarrow> validation_finding list" where
  "ref_findings root bundle r = (case r of (index, v) \<Rightarrow> let at = Some ''external_refs/source-envelopes.jsonl'' in
     if string_path v [''kind''] \<noteq> Some ''bundle_relative'' then []
     else case string_path v [''path''] of
       None \<Rightarrow> [fatal ''missing_source_envelope_path'' at (''source envelope ref '' @ decimal (index + 1) @ '' is missing path'')]
     | Some path \<Rightarrow> (case bundle_relative_path path of
           Inl _ \<Rightarrow> [fatal ''invalid_source_envelope_path'' at
             (''source envelope ref '' @ decimal (index + 1) @ '' has invalid path'')]
         | Inr relative \<Rightarrow> if path_exists root (join_under relative bundle) then []
             else [fatal ''missing_source_envelope_artifact'' at
               (''source envelope ref '' @ decimal (index + 1) @ '' points at missing artifact '' @ path)]))"

definition validate_provenance_refs :: "bundle_decoders \<Rightarrow> fnode \<Rightarrow> string \<Rightarrow> validation_report \<Rightarrow>
    capture_core_error + validation_report" where
  "validate_provenance_refs dec root bundle report =
     try_then (read_jsonl_values dec root (path_join bundle ''external_refs/source-envelopes.jsonl'')) (\<lambda>refs.
       Inr (fold push_finding (concat (map (ref_findings root bundle) (List.enumerate 0 refs))) report))"

definition forbidden_outputs :: "string list" where
  "forbidden_outputs = [''attention-filter-output'', ''memory-write'', ''memory_written'', ''keep-drop'', ''composites/'',
     ''decisions.jsonl'']"

text \<open>\<open>Path::strip_prefix\<close> of the directory that was walked.\<close>

definition path_below :: "string \<Rightarrow> string \<Rightarrow> string" where
  "path_below bundle p = (let n = drop (length bundle) p in if n \<noteq> [] \<and> hd n = CHR ''/'' then tl n else n)"

definition file_findings :: "string \<Rightarrow> validation_finding list" where
  "file_findings name = map (\<lambda>_. fatal ''attention_output_in_bundle'' (Some name)
     ''capture bundle must not contain attention-filter output'') (filter (str_contains name) forbidden_outputs)"

definition validate_forbidden_attention_outputs :: "fnode \<Rightarrow> string \<Rightarrow> validation_report \<Rightarrow>
    capture_core_error + validation_report" where
  "validate_forbidden_attention_outputs root bundle report = try_then (walk_files bundle root) (\<lambda>files.
     Inr (fold push_finding (concat (map (\<lambda>(p, b). file_findings (path_below bundle p)) files)) report))"

section \<open>The whole bundle\<close>

definition path_error_text :: "bundle_decoders \<Rightarrow> capture_core_error \<Rightarrow> string" where
  "path_error_text dec e = (case e of
     CaptureInvalidPath p m \<Rightarrow> ''invalid path '' @ bd_quote dec p @ '': '' @ m | CaptureInvalidState m \<Rightarrow> m | _ \<Rightarrow> [])"

definition manifest_findings :: "bundle_decoders \<Rightarrow> validation_mode \<Rightarrow> capture_bundle_manifest \<Rightarrow> validation_finding list" where
  "manifest_findings dec mode m =
     (if mode = ReadyMode \<and> cm_state m \<noteq> BundleReady
      then [fatal ''manifest_not_ready'' (Some ''manifest.json'') ''manifest.state must be ready'']
      else if mode = CandidateMode \<and> cm_state m = BundleFailed
      then [fatal ''manifest_failed'' (Some ''manifest.json'') ''failed bundles are not valid export candidates'']
      else []) @
     concat (map (\<lambda>v. case bundle_relative_path v of Inr _ \<Rightarrow> []
         | Inl e \<Rightarrow> [fatal ''invalid_manifest_path'' (Some ''manifest.json'') (path_error_text dec e)])
       (cm_v0_required_files m @ cm_optional_files m))"

definition validate_manifest :: "bundle_decoders \<Rightarrow> fnode \<Rightarrow> string \<Rightarrow> validation_mode \<Rightarrow>
    capture_core_error + validation_report" where
  "validate_manifest dec root bundle mode = (let path = path_join bundle ''manifest.json'' in
     if path_exists root path
     then try_then (read_document (bd_manifest dec) root path) (\<lambda>m.
       Inr (fold push_finding (manifest_findings dec mode m) (new_report (Some (cm_capture_id m)))))
     else Inr (push_finding (fatal ''missing_manifest'' (Some ''manifest.json'') ''manifest.json is required'') (new_report None)))"

definition validate_bundle :: "bundle_decoders \<Rightarrow> fnode \<Rightarrow> string \<Rightarrow> validation_mode \<Rightarrow>
    capture_core_error + validation_report" where
  "validate_bundle dec root bundle mode =
     try_then (validate_manifest dec root bundle mode) (\<lambda>r0.
     let r1 = push_if (mode = ReadyMode \<and> \<not> path_exists root (path_join bundle ''READY''))
           (fatal ''missing_ready'' (Some ''READY'') ''READY sentinel is required'') r0
     in try_then (validate_required dec root bundle required_bundle_files r1) (\<lambda>r2.
        try_then (validate_sources dec root bundle r2) (\<lambda>r3.
        try_then (validate_time_alignment dec root bundle r3) (\<lambda>r4.
        try_then (validate_media_consistency dec root bundle r4) (\<lambda>r5.
        try_then (validate_provenance_refs dec root bundle r5) (\<lambda>r6.
        validate_forbidden_attention_outputs root bundle r6))))))"

definition validate_ready_bundle :: "bundle_decoders \<Rightarrow> fnode \<Rightarrow> string \<Rightarrow> capture_core_error + validation_report" where
  "validate_ready_bundle dec root bundle = validate_bundle dec root bundle ReadyMode"

definition validate_bundle_candidate :: "bundle_decoders \<Rightarrow> fnode \<Rightarrow> string \<Rightarrow> capture_core_error + validation_report" where
  "validate_bundle_candidate dec root bundle = validate_bundle dec root bundle CandidateMode"

end
