(* ===== verification/Validation_Properties.thy ===== *)
theory Validation_Properties
  imports Retention_Properties Bundle_Validation
begin

text \<open>
  What the validation of a bundle guarantees when it accepts one.
\<close>

section \<open>Validation\<close>

lemma push_fatal [simp]: "vr_ok (push_finding (fatal c p m) r) = False"
  "vr_findings (push_finding f r) = vr_findings r @ [f]" "vr_capture_id (push_finding f r) = vr_capture_id r"
  by (simp_all add: push_finding_def fatal_def)

lemma new_report_id [simp]: "vr_capture_id (new_report c) = c"
  by (simp add: new_report_def)

lemma push_if_ok [simp]: "vr_ok (push_if b (fatal c p m) r) \<longleftrightarrow> vr_ok r \<and> \<not> b"
  "vr_capture_id (push_if b f r) = vr_capture_id r"
  by (simp_all add: push_if_def)

definition all_fatal :: "validation_finding list \<Rightarrow> bool" where
  "all_fatal fs \<longleftrightarrow> list_all (\<lambda>f. vf_severity f = FatalFinding) fs"

lemma fatal_severity [simp]: "vf_severity (fatal c p m) = FatalFinding"
  by (simp add: fatal_def)

lemma all_fatal_simps [simp]: "all_fatal []" "all_fatal (f # fs) \<longleftrightarrow> vf_severity f = FatalFinding \<and> all_fatal fs"
  "all_fatal (fs @ gs) \<longleftrightarrow> all_fatal fs \<and> all_fatal gs"
  by (simp_all add: all_fatal_def)

lemma all_fatal_concat: "(\<And>x. x \<in> set xs \<Longrightarrow> all_fatal (f x)) \<Longrightarrow> all_fatal (concat (map f xs))"
  by (induction xs) auto

lemma fold_push_capture [simp]: "vr_capture_id (fold push_finding fs r) = vr_capture_id r"
  by (induction fs arbitrary: r) auto

lemma fold_push_ok: "all_fatal fs \<Longrightarrow> vr_ok (fold push_finding fs r) \<longleftrightarrow> vr_ok r \<and> fs = []"
proof (induction fs arbitrary: r)
  case (Cons f fs)
  then show ?case
    by (simp add: push_finding_def)
qed simp

text \<open>A report is clean when it is accepted exactly if it has no findings. Only fatal findings are ever made.\<close>

definition clean :: "validation_report \<Rightarrow> bool" where
  "clean r \<longleftrightarrow> (vr_ok r \<longleftrightarrow> vr_findings r = [])"

lemma clean_new [simp]: "clean (new_report c)"
  by (simp add: clean_def new_report_def)

lemma clean_push: "vf_severity f = FatalFinding \<Longrightarrow> clean (push_finding f r)"
  by (simp add: clean_def push_finding_def)

lemma clean_push_if [intro, simp]: "clean r \<Longrightarrow> clean (push_if b (fatal c p m) r)"
  by (simp add: push_if_def clean_push)

lemma clean_fold: "all_fatal fs \<Longrightarrow> clean r \<Longrightarrow> clean (fold push_finding fs r)"
proof (induction fs arbitrary: r)
  case (Cons f fs)
  then show ?case
    using clean_push [of f r] by simp
qed simp

subsection \<open>The stages\<close>

lemma fatal_manifest: "all_fatal (manifest_findings dec mode m)"
  unfolding manifest_findings_def by (auto intro!: all_fatal_concat split: sum.splits)

lemma manifest_stage:
  assumes "validate_manifest dec root bundle mode = Inr r"
  shows "clean r \<and> (vr_ok r \<longrightarrow> (\<exists>m. read_document (bd_manifest dec) root (path_join bundle ''manifest.json'') = Inr m \<and>
    vr_capture_id r = Some (cm_capture_id m) \<and> manifest_findings dec mode m = []))"
  using assms fatal_manifest
  by (auto simp: validate_manifest_def Let_def result_simps fold_push_ok clean_fold clean_push split: if_splits)

lemma file_stage:
  assumes "validate_file dec root bundle relative r = Inr r'"
  shows "(clean r \<longrightarrow> clean r') \<and> (vr_ok r' \<longrightarrow> vr_ok r) \<and> vr_capture_id r' = vr_capture_id r"
  using assms by (auto simp: validate_file_def Let_def result_simps split: if_splits)

lemma required_stage:
  assumes "validate_required dec root bundle files r = Inr r'" "list_all (\<lambda>f. bundle_relative_path f = Inr f) files"
  shows "(clean r \<longrightarrow> clean r') \<and> vr_capture_id r' = vr_capture_id r \<and>
    (vr_ok r' \<longrightarrow> vr_ok r \<and> (\<forall>f \<in> set files. path_exists root (path_join bundle f)))"
  using assms
proof (induction files arbitrary: r)
  case (Cons f files)
  show ?case
  proof (cases "path_exists root (path_join bundle f)")
    case False
    then have "validate_required dec root bundle files (push_finding (fatal ''missing_required_file'' (Some f)
        ''required V0 file is missing'') r) = Inr r'"
      using Cons.prems by (simp add: join_under_def)
    then show ?thesis
      using Cons.IH Cons.prems(2) clean_push by fastforce
  next
    case True
    then obtain r1 where "validate_file dec root bundle f r = Inr r1" "validate_required dec root bundle files r1 = Inr r'"
      using Cons.prems by (auto simp: join_under_def result_simps)
    then show ?thesis
      using Cons.IH [of r1] Cons.prems(2) file_stage True by auto
  qed
qed simp

lemma fatal_source: "all_fatal (source_findings gaps counts s)"
  by (auto simp: source_findings_def split: option.splits)

lemma source_stage:
  assumes "validate_source dec root bundle gaps counts s r = Inr r'"
  shows "(clean r \<longrightarrow> clean r') \<and> vr_capture_id r' = vr_capture_id r \<and>
    (vr_ok r' \<longrightarrow> vr_ok r \<and> source_findings gaps counts s = [])"
  using assms fatal_source
  by (auto simp: validate_source_def Let_def result_simps fold_push_ok clean_fold split: if_splits)

lemma each_source_stage:
  assumes "validate_each (validate_source dec root bundle gaps counts) ss r = Inr r'"
  shows "(clean r \<longrightarrow> clean r') \<and> vr_capture_id r' = vr_capture_id r \<and>
    (vr_ok r' \<longrightarrow> vr_ok r \<and> (\<forall>s \<in> set ss. source_findings gaps counts s = []))"
  using assms
proof (induction ss arbitrary: r)
  case (Cons s ss)
  then obtain r1 where "validate_source dec root bundle gaps counts s r = Inr r1"
      "validate_each (validate_source dec root bundle gaps counts) ss r1 = Inr r'"
    by (auto simp: result_simps)
  then show ?case
    using Cons.IH [of r1] source_stage by auto
qed simp

lemma lanes_stage:
  "(clean r \<longrightarrow> clean (fold (missing_lane inventory) lanes r)) \<and> vr_capture_id (fold (missing_lane inventory) lanes r) = vr_capture_id r \<and>
   (vr_ok (fold (missing_lane inventory) lanes r) \<longleftrightarrow> vr_ok r \<and> set lanes \<subseteq> ln_lane_id ` set (iv_sources inventory))"
  by (induction lanes arbitrary: r) (auto simp: missing_lane_def)

lemma sources_stage:
  assumes "validate_sources dec root bundle r = Inr r'"
  shows "(clean r \<longrightarrow> clean r') \<and> vr_capture_id r' = vr_capture_id r \<and> (vr_ok r' \<longrightarrow> vr_ok r \<and>
    (path_exists root (path_join bundle ''sources.json'') \<longrightarrow>
      (\<exists>inventory. read_document (bd_inventory dec) root (path_join bundle ''sources.json'') = Inr inventory \<and>
        set mandatory_lane_ids \<subseteq> ln_lane_id ` set (iv_sources inventory) \<and>
        (\<forall>s \<in> set (iv_sources inventory). ln_status s = SourcePresent \<longleftrightarrow> ln_record_count s > 0))))"
proof (cases "path_exists root (path_join bundle ''sources.json'')")
  case False
  then show ?thesis
    using assms by (simp add: validate_sources_def Let_def)
next
  case True
  then obtain inventory gaps counts where s: "read_document (bd_inventory dec) root (path_join bundle ''sources.json'') = Inr inventory"
      "validate_each (validate_source dec root bundle gaps counts) (iv_sources inventory)
        (fold (missing_lane inventory) mandatory_lane_ids r) = Inr r'"
    using assms by (auto simp: validate_sources_def Let_def result_simps)
  have "ln_status s = SourcePresent \<longleftrightarrow> ln_record_count s > 0" if "source_findings gaps counts s = []" for s
    using that by (auto simp: source_findings_def split: if_splits)
  then show ?thesis
    using each_source_stage [OF s(2)] lanes_stage [of r inventory mandatory_lane_ids] s(1) by simp
qed

lemma times_stage:
  assumes "validate_time_alignment dec root bundle r = Inr r'"
  shows "(clean r \<longrightarrow> clean r') \<and> vr_capture_id r' = vr_capture_id r \<and> (vr_ok r' \<longrightarrow> vr_ok r)"
  using assms by (auto simp: validate_time_alignment_def Let_def result_simps split: if_splits)

lemma media_stage:
  assumes "validate_media_consistency dec root bundle r = Inr r'"
  shows "(clean r \<longrightarrow> clean r') \<and> vr_capture_id r' = vr_capture_id r \<and> (vr_ok r' \<longrightarrow> vr_ok r \<and>
    (\<exists>media. read_jsonl_values dec root (path_join bundle ''media/media.index.jsonl'') = Inr media \<and>
      list_ex is_available_frame_2fps media))"
proof -
  have "all_fatal (media_record_findings root bundle x)" for x
    by (auto simp: media_record_findings_def Let_def split: prod.splits option.splits sum.splits)
  then have "all_fatal (concat (map (media_record_findings root bundle) xs))" for xs
    by (rule all_fatal_concat)
  then show ?thesis
    using assms by (auto simp: validate_media_consistency_def Let_def result_simps fold_push_ok clean_fold)
qed

lemma refs_stage:
  assumes "validate_provenance_refs dec root bundle r = Inr r'"
  shows "(clean r \<longrightarrow> clean r') \<and> vr_capture_id r' = vr_capture_id r \<and> (vr_ok r' \<longrightarrow> vr_ok r)"
proof -
  have "all_fatal (ref_findings root bundle x)" for x
    by (auto simp: ref_findings_def Let_def split: prod.splits option.splits sum.splits)
  then have "all_fatal (concat (map (ref_findings root bundle) xs))" for xs
    by (rule all_fatal_concat)
  then show ?thesis
    using assms by (auto simp: validate_provenance_refs_def result_simps fold_push_ok clean_fold)
qed

lemma outputs_stage:
  assumes "validate_forbidden_attention_outputs root bundle r = Inr r'"
  shows "(clean r \<longrightarrow> clean r') \<and> vr_capture_id r' = vr_capture_id r \<and> (vr_ok r' \<longrightarrow> vr_ok r \<and>
    (\<exists>files. walk_files bundle root = Inr files \<and>
      (\<forall>p \<in> fst ` set files. \<forall>w \<in> set forbidden_outputs. \<not> str_contains (path_below bundle p) w)))"
proof -
  have f: "all_fatal (file_findings n)" for n
    unfolding file_findings_def by (induction "filter (str_contains n) forbidden_outputs") (simp_all add: all_fatal_def list_all_iff)
  have all: "all_fatal (concat (map (\<lambda>(p, b). file_findings (path_below bundle p)) fs))" for fs :: "(string \<times> string) list"
    by (rule all_fatal_concat) (auto simp: f)
  obtain files where files: "walk_files bundle root = Inr files"
      "r' = fold push_finding (concat (map (\<lambda>(p, b). file_findings (path_below bundle p)) files)) r"
    using assms by (auto simp: validate_forbidden_attention_outputs_def result_simps)
  have none: "file_findings n = [] \<longleftrightarrow> (\<forall>w \<in> set forbidden_outputs. \<not> str_contains n w)" for n
    by (simp add: file_findings_def filter_empty_conv)
  have "vr_ok r' \<longleftrightarrow> vr_ok r \<and> (\<forall>x \<in> set files. file_findings (path_below bundle (fst x)) = [])"
    unfolding files(2) fold_push_ok [OF all] by auto
  then show ?thesis
    using files clean_fold [OF all] unfolding none by auto
qed

lemma required_relative: "list_all (\<lambda>f. bundle_relative_path f = Inr f) required_bundle_files"
  by code_simp

text \<open>C35. A bundle that the validation accepts as ready has no findings, its marker and a manifest in state ready, every required
  file, a source for every mandatory lane, records for exactly the sources that are present, a frame in the media index, and
  no output of later stages.\<close>

theorem accepted_bundle_is_complete:
  assumes "validate_ready_bundle dec root bundle = Inr report" "vr_ok report"
  shows "vr_findings report = [] \<and> path_exists root (path_join bundle ''READY'') \<and>
    (\<exists>m. read_document (bd_manifest dec) root (path_join bundle ''manifest.json'') = Inr m \<and> cm_state m = BundleReady \<and>
      vr_capture_id report = Some (cm_capture_id m)) \<and>
    (\<forall>f \<in> set required_bundle_files. path_exists root (path_join bundle f)) \<and>
    (\<exists>inventory. read_document (bd_inventory dec) root (path_join bundle ''sources.json'') = Inr inventory \<and>
      set mandatory_lane_ids \<subseteq> ln_lane_id ` set (iv_sources inventory) \<and>
      (\<forall>s \<in> set (iv_sources inventory). ln_status s = SourcePresent \<longleftrightarrow> ln_record_count s > 0)) \<and>
    (\<exists>media. read_jsonl_values dec root (path_join bundle ''media/media.index.jsonl'') = Inr media \<and>
      list_ex is_available_frame_2fps media) \<and>
    (\<exists>files. walk_files bundle root = Inr files \<and>
      (\<forall>p \<in> fst ` set files. \<forall>w \<in> set forbidden_outputs. \<not> str_contains (path_below bundle p) w))"
proof -
  obtain r0 r2 r3 r4 r5 r6 where r:
      "validate_manifest dec root bundle ReadyMode = Inr r0"
      "validate_required dec root bundle required_bundle_files (push_if (\<not> path_exists root (path_join bundle ''READY''))
        (fatal ''missing_ready'' (Some ''READY'') ''READY sentinel is required'') r0) = Inr r2"
      "validate_sources dec root bundle r2 = Inr r3" "validate_time_alignment dec root bundle r3 = Inr r4"
      "validate_media_consistency dec root bundle r4 = Inr r5" "validate_provenance_refs dec root bundle r5 = Inr r6"
      "validate_forbidden_attention_outputs root bundle r6 = Inr report"
    using assms(1) by (auto simp: validate_ready_bundle_def validate_bundle_def Let_def result_simps)
  note stages = manifest_stage [OF r(1)] required_stage [OF r(2) required_relative] sources_stage [OF r(3)]
    times_stage [OF r(4)] media_stage [OF r(5)] refs_stage [OF r(6)] outputs_stage [OF r(7)]
  have ok: "vr_ok r0" "path_exists root (path_join bundle ''READY'')" "vr_ok r2" "vr_ok r3" "vr_ok r4" "vr_ok r5" "vr_ok r6"
    using stages assms(2) by auto
  have "clean report"
    using stages by auto
  then have none: "vr_findings report = []"
    using assms(2) by (simp add: clean_def)
  obtain m where m: "read_document (bd_manifest dec) root (path_join bundle ''manifest.json'') = Inr m"
      "vr_capture_id r0 = Some (cm_capture_id m)" "manifest_findings dec ReadyMode m = []"
    using stages(1) ok(1) by blast
  then have "cm_state m = BundleReady"
    by (auto simp: manifest_findings_def split: if_splits)
  moreover have "vr_capture_id report = vr_capture_id r0"
    using stages by simp
  moreover have req: "\<forall>f \<in> set required_bundle_files. path_exists root (path_join bundle f)"
    using stages(2) ok(3) by blast
  moreover have "path_exists root (path_join bundle ''sources.json'')"
    using req by (simp add: required_bundle_files_def)
  ultimately show ?thesis
    using none ok m stages(3,5,7) assms(2) by auto
qed

text \<open>A complete bundle: every line of its files is read as the same value, which has all that the checks ask for.\<close>

definition sample_value :: json where
  "sample_value = JObject [(''canonical_clock'', JString ''utc''), (''displays'', JArray [JNull]), (''join_keys'', JArray [JNull]),
     (''kind'', JString ''frame_2fps''), (''path'', JString ''media/frames-2fps/f''), (''status'', JString ''ready''),
     (''time_range'', JObject [(''end'', JString ''2''), (''start'', JString ''1'')]), (''windows'', JArray [JNull])]"

definition sample_source :: "string \<Rightarrow> lane_source" where
  "sample_source lane = \<lparr> ln_source_id = lane, ln_lane_id = lane, ln_status = SourcePresent, ln_required_for_v0 = True,
     ln_record_count = (if lane = ''capture.active_window_frames'' then 2 else 1), ln_degraded_reason = None,
     ln_confidence = None, ln_extra = [] \<rparr>"

definition sample_documents :: bundle_decoders where
  "sample_documents = \<lparr> bd_value = (\<lambda>_. Some sample_value), bd_manifest = sample_manifest,
     bd_inventory = (\<lambda>_. Some \<lparr> iv_schema_version = 1, iv_sources = map sample_source mandatory_lane_ids \<rparr>),
     bd_quote = (\<lambda>s. s) \<rparr>"

definition complete_bundle :: fnode where
  "complete_bundle = FDir [(''b'', fold (\<lambda>p n. put_at n (named_components p) (FFile ''1m''))
     (''READY'' # ''media/frames-2fps/f'' # filter (\<lambda>p. \<not> ends_with p ''/'') required_bundle_files) (FDir []))]"

lemma complete_bundle_accepted:
  "case validate_ready_bundle sample_documents complete_bundle ''b'' of Inl _ \<Rightarrow> False | Inr r \<Rightarrow> vr_ok r"
  by code_simp

theorem accepted_bundle_is_complete_witness:
  "(case validate_ready_bundle sample_documents complete_bundle ''b'' of Inl _ \<Rightarrow> False | Inr r \<Rightarrow> vr_findings r = []) \<and>
   path_exists complete_bundle ''b/READY''"
proof -
  obtain r where r: "validate_ready_bundle sample_documents complete_bundle ''b'' = Inr r" "vr_ok r"
    using complete_bundle_accepted by (auto split: sum.splits)
  have "path_join ''b'' ''READY'' = ''b/READY''"
    by code_simp
  then show ?thesis
    using accepted_bundle_is_complete [OF r] r(1) by simp
qed

end
