(* ===== verification/Harness_Types.thy ===== *)
theory Harness_Types
  imports Json_Value "HOL-Library.Product_Lexorder"
begin

text \<open>
  The data of the agent harness (\<open>lib.rs\<close> and \<open>turn.rs\<close> in \<open>crates/onecontext-agent-harness/core/src\<close>): agent units with
  their birth certificates, receipts, adapter events, and the snapshot of the store. Identifiers are texts, counters of
  type \<open>u64\<close> are natural numbers with their checked additions, times are nanoseconds. The evidence of a receipt is the
  record of the fields that its JSON object has; a field that does not decode is not represented.
\<close>

definition agent_harness_schema_version :: nat where "agent_harness_schema_version = 1"

section \<open>Enumerations\<close>

datatype agent_visibility = VisPrivate | VisTeam | VisPublic | VisHidden
datatype agent_availability = UnitActive | UnitIsRetired
datatype harness_lifecycle_state =
    StateNew | StateBorn | StateReady | StateRunning | StateWaiting | StateBlocked | StateDone | StateError | StateRetired
datatype capability_transport =
    TransportMcp | CodexAppServerDynamicTool | CodexSkillTransport | CodexPluginTransport | CodexConnectorTransport |
    CodexAppTransport | HostHookTransport | LocalTestTransport
datatype receipt_kind =
    AgentCalled | AgentRetiredReceipt | Birth | CapabilityBound | SessionStarted | TurnStarted | TurnCompleted |
    UsageUpdated | ProofObserved | StateChanged | ErrorReceipt
datatype adapter_kind =
    CodexAppServer | CodexCli | CodexSkill | CodexPlugin | CodexConnector | CodexApp | McpAdapter | HostHook | LocalTest
datatype adapter_event_kind =
    TransportIdentityObserved | RuntimeWakeupAttempted | RuntimeWakeupAccepted | RuntimeWakeupFailed |
    ContextInjectionRequested | ContextInjectionExecuted | HookRegistryObserved | HookDecisionObserved |
    SkillRegistryObserved | PluginRegistryObserved | ConnectorRegistryObserved | AppRegistryObserved |
    ToolAllowlistChecked | ToolCallObserved | ToolCallDenied | NativeExtraToolObserved |
    SupervisorDispatchAttempted | SupervisorDispatchSuppressed | AgentLeaseExpired | AgentHeartbeatObserved
datatype adapter_event_status = EventObserved | EventAccepted | EventFailed | EventBlocked | EventSuppressed | EventMissing
datatype agent_turn_completion_state = TurnReady | TurnWaiting | TurnDone

fun completion_lifecycle_state :: "agent_turn_completion_state \<Rightarrow> harness_lifecycle_state" where
  "completion_lifecycle_state TurnReady = StateReady"
| "completion_lifecycle_state TurnWaiting = StateWaiting"
| "completion_lifecycle_state TurnDone = StateDone"

section \<open>Records\<close>

record capability_binding =
  cb_id :: string
  cb_transport :: capability_transport
  cb_tool_names :: "string list"
  cb_config :: json
  cb_policy :: json
  cb_proof_required :: "string list"

record inheritance_policy =
  ip_ambient_config :: string
  ip_codex_home :: string
  ip_project_docs :: string
  ip_tools :: string

definition default_inheritance_policy :: inheritance_policy where
  "default_inheritance_policy = \<lparr> ip_ambient_config = ''deny_unless_declared'', ip_codex_home = ''isolated'',
     ip_project_docs = ''disabled_unless_declared'', ip_tools = ''declared_capabilities_only'' \<rparr>"

record agent_call_request =
  ac_unit_id :: "string option"
  ac_parent_unit_id :: "string option"
  ac_spawn_request_id :: "string option"
  ac_role :: string
  ac_model :: string
  ac_identity :: json
  ac_instructions :: "(string, string) btree_map"
  ac_runtime :: json
  ac_capabilities :: "capability_binding list"
  ac_visibility :: agent_visibility
  ac_metadata :: json

record agent_lineage =
  li_parent_unit_id :: "string option"
  li_root_unit_id :: string
  li_spawn_request_id :: "string option"

text \<open>
  \<open>birth_inputs\<close> is the JSON of the request, which determines it; \<open>None\<close> is any other JSON.
\<close>

record harness_birth_certificate =
  ct_kind :: string
  ct_version :: nat
  ct_certificate_id :: string
  ct_call_id :: string
  ct_issued_at :: int
  ct_unit_id :: string
  ct_role :: string
  ct_model :: string
  ct_identity :: json
  ct_instructions :: "(string, string) btree_map"
  ct_runtime :: json
  ct_capabilities :: "capability_binding list"
  ct_birth_inputs :: "agent_call_request option"
  ct_generated_ids :: "(string, string) btree_map"
  ct_inheritance_policy :: inheritance_policy
  ct_lineage :: agent_lineage

record agent_harness_metadata =
  hm_visibility :: agent_visibility
  hm_availability :: agent_availability
  hm_title :: "string option"
  hm_owner :: "string option"
  hm_tags :: "string list"
  hm_called_at :: int
  hm_last_active_at :: int
  hm_retired_at :: "int option"
  hm_retirement_reason :: "string option"
  hm_parent_unit_id :: "string option"
  hm_spawn_request_id :: "string option"
  hm_turns_started :: nat
  hm_turns_completed :: nat
  hm_active_turn_id :: "string option"
  hm_input_tokens :: nat
  hm_output_tokens :: nat
  hm_total_tokens :: nat
  hm_total_duration_ms :: nat

record agent_turn_usage =
  us_input_tokens :: nat
  us_output_tokens :: nat
  us_total_tokens :: "nat option"
  us_duration_ms :: nat

record agent_turn_start_request =
  tr_unit_id :: string
  tr_turn_id :: "string option"
  tr_metadata :: json

record agent_turn_complete_request =
  tc_unit_id :: string
  tc_turn_id :: string
  tc_usage :: agent_turn_usage
  tc_next_state :: agent_turn_completion_state
  tc_metadata :: json

record adapter_correlation =
  ak_thread_id :: "string option"
  ak_session_id :: "string option"
  ak_turn_id :: "string option"
  ak_expected_turn_id :: "string option"
  ak_notification_id :: "string option"
  ak_transport_attempt_id :: "string option"
  ak_delivery_id :: "string option"
  ak_message_id :: "string option"
  ak_tool_call_id :: "string option"
  ak_hook_key :: "string option"

record adapter_redaction =
  rd_raw_prompts_redacted :: bool
  rd_mail_bodies_redacted :: bool
  rd_tool_outputs_redacted :: bool
  rd_secrets_redacted :: bool

definition default_redaction :: adapter_redaction where
  "default_redaction = \<lparr> rd_raw_prompts_redacted = True, rd_mail_bodies_redacted = True, rd_tool_outputs_redacted = True,
     rd_secrets_redacted = True \<rparr>"

definition redaction_is_complete :: "adapter_redaction \<Rightarrow> bool" where
  "redaction_is_complete r \<longleftrightarrow> rd_raw_prompts_redacted r \<and> rd_mail_bodies_redacted r \<and> rd_tool_outputs_redacted r \<and>
     rd_secrets_redacted r"

record adapter_event =
  ae_id :: string
  ae_at :: int
  ae_unit_id :: string
  ae_adapter :: adapter_kind
  ae_kind :: adapter_event_kind
  ae_status :: adapter_event_status
  ae_correlation :: adapter_correlation
  ae_evidence :: json
  ae_redaction :: adapter_redaction

record adapter_event_request =
  aq_unit_id :: string
  aq_adapter :: adapter_kind
  aq_kind :: adapter_event_kind
  aq_status :: adapter_event_status
  aq_correlation :: adapter_correlation
  aq_evidence :: json
  aq_redaction :: adapter_redaction

record evidence_record =
  ev_certificate :: "harness_birth_certificate option"
  ev_session_id :: "string option"
  ev_namespace_path :: "string option"
  ev_unit_metadata :: "agent_harness_metadata option"
  ev_lifecycle_state :: "harness_lifecycle_state option"
  ev_turn_id :: "string option"
  ev_at :: "int option"
  ev_turn_count :: "nat option"
  ev_usage :: "agent_turn_usage option"
  ev_accounted_total_tokens :: "nat option"
  ev_next_state :: "agent_turn_completion_state option"
  ev_request_metadata :: "json option"
  ev_retired_at :: "int option"
  ev_retirement_reason :: "string option"
  ev_adapter_event :: "adapter_event option"

definition no_evidence :: evidence_record where
  "no_evidence = \<lparr> ev_certificate = None, ev_session_id = None, ev_namespace_path = None, ev_unit_metadata = None,
     ev_lifecycle_state = None, ev_turn_id = None, ev_at = None, ev_turn_count = None, ev_usage = None,
     ev_accounted_total_tokens = None, ev_next_state = None, ev_request_metadata = None, ev_retired_at = None,
     ev_retirement_reason = None, ev_adapter_event = None \<rparr>"

record harness_receipt =
  hr_id :: string
  hr_at :: int
  hr_unit_id :: string
  hr_kind :: receipt_kind
  hr_summary :: string
  hr_evidence :: evidence_record

record agent_harness_unit =
  hu_kind :: string
  hu_unit_id :: string
  hu_certificate :: harness_birth_certificate
  hu_namespace_path :: string
  hu_lifecycle_state :: harness_lifecycle_state
  hu_session_id :: string
  hu_metadata :: agent_harness_metadata
  hu_receipts :: "harness_receipt list"
  hu_adapter_events :: "adapter_event list"

record agent_harness_snapshot =
  hn_kind :: string
  hn_version :: nat
  hn_generated_id_sequence :: nat
  hn_units :: "(string, agent_harness_unit) btree_map"
  hn_receipts :: "harness_receipt list"
  hn_adapter_events :: "adapter_event list"

definition empty_snapshot :: agent_harness_snapshot where
  "empty_snapshot = \<lparr> hn_kind = ''onecontext.agent_harness.store'', hn_version = agent_harness_schema_version,
     hn_generated_id_sequence = 0, hn_units = [], hn_receipts = [], hn_adapter_events = [] \<rparr>"

record agent_harness_inventory_entry =
  ie_unit_id :: string
  ie_parent_unit_id :: "string option"
  ie_role :: string
  ie_model :: string
  ie_lifecycle_state :: harness_lifecycle_state
  ie_availability :: agent_availability
  ie_called_at :: int
  ie_last_active_at :: int
  ie_retired_at :: "int option"

record agent_harness_inventory =
  ai_active :: "agent_harness_inventory_entry list"
  ai_retired :: "agent_harness_inventory_entry list"

datatype harness_error =
    HarnessIo
  | CorruptStore
  | StoreLocked
  | UnitAlreadyExists string
  | UnitNotFound string
  | UnitRetired string
  | TurnAlreadyActive string string
  | NoActiveTurn string
  | TurnMismatch string string string
  | HarnessInvalidInput string

record generated_call_ids =
  gi_unit_id :: string
  gi_unit_id_was_generated :: bool
  gi_certificate_id :: string
  gi_call_id :: string
  gi_session_id :: string
  gi_receipt_id :: string

definition generated_ids :: "generated_call_ids \<Rightarrow> (string, string) btree_map" where
  "generated_ids g = (let ids = bt_of_list [(''call_id'', gi_call_id g), (''certificate_id'', gi_certificate_id g),
       (''session_id'', gi_session_id g), (''receipt_id'', gi_receipt_id g)]
     in if gi_unit_id_was_generated g then bt_insert ''unit_id'' (gi_unit_id g) ids else ids)"

text \<open>
  The files of the store: the snapshot, the receipts and events by unit and file name, the certificates; and the lock
  file. The order of the keys is the order of the paths below \<open>units\<close>.
\<close>

datatype store_file = NoStore | UnreadableStore | StoredSnapshot agent_harness_snapshot

record harness_store =
  hs_locked :: bool
  hs_file :: store_file
  hs_certificates :: "(string, harness_birth_certificate) btree_map"
  hs_receipts :: "(string \<times> string, harness_receipt) btree_map"
  hs_events :: "(string \<times> string, adapter_event) btree_map"

definition empty_harness :: harness_store where
  "empty_harness = \<lparr> hs_locked = False, hs_file = NoStore, hs_certificates = [], hs_receipts = [], hs_events = [] \<rparr>"

section \<open>Paths\<close>

record agent_harness_paths =
  hp_onecontext_root :: string
  hp_harness_root :: string
  hp_store_path :: string
  hp_birth_certificates_dir :: string
  hp_units_dir :: string

definition harness_paths_new :: "string \<Rightarrow> agent_harness_paths" where
  "harness_paths_new root = (let h = path_join root ''context-engine/live/state/harness''
     in \<lparr> hp_onecontext_root = root, hp_harness_root = h, hp_store_path = path_join h ''agent-harness.json'',
          hp_birth_certificates_dir = path_join h ''birth-certificates'', hp_units_dir = path_join h ''units'' \<rparr>)"

definition receipt_artifact_path :: "agent_harness_paths \<Rightarrow> harness_receipt \<Rightarrow> string" where
  "receipt_artifact_path paths r =
     path_join (path_join (path_join (hp_units_dir paths) (hr_unit_id r)) ''receipts'') (hr_id r @ ''.json'')"

definition adapter_event_artifact_path :: "agent_harness_paths \<Rightarrow> adapter_event \<Rightarrow> string" where
  "adapter_event_artifact_path paths e =
     path_join (path_join (path_join (hp_units_dir paths) (ae_unit_id e)) ''adapter-events'') (ae_id e @ ''.json'')"

end
