(* ===== verification/Harness_Core.thy ===== *)
theory Harness_Core
  imports Harness_Types
begin

text \<open>
  The store of the agent harness (\<open>crates/onecontext-agent-harness/core/src/lib.rs\<close>): calling a unit, its turns, its
  retirement, adapter events, and the replay of the snapshot from the receipts when the snapshot is unreadable. The
  current time is an argument, and writing the files does not fail; the loops that allocate identifiers search as far
  as there are identifiers to collide with.
\<close>

section \<open>Checks\<close>

definition id_char :: "char \<Rightarrow> bool" where
  "id_char c \<longleftrightarrow> is_ascii_alphanumeric c \<or> c \<in> set ''-_.''"

definition valid_id :: "string \<Rightarrow> bool" where
  "valid_id i \<longleftrightarrow> i \<noteq> [] \<and> length i \<le> 128 \<and> list_all id_char i"

definition validate_id :: "string \<Rightarrow> string \<Rightarrow> harness_error + unit" where
  "validate_id label i = (if valid_id i then Inr () else Inl (HarnessInvalidInput (label @ '' must be a non-empty path-safe id'')))"

definition validate_id_option :: "string \<Rightarrow> string option \<Rightarrow> harness_error + unit" where
  "validate_id_option label i = (case i of None \<Rightarrow> Inr () | Some v \<Rightarrow> validate_id label v)"

text \<open>A check of each element, up to the first failure.\<close>

fun check_each :: "('a \<Rightarrow> harness_error + unit) \<Rightarrow> 'a list \<Rightarrow> harness_error + unit" where
  "check_each f [] = Inr ()"
| "check_each f (x # xs) = try_then (f x) (\<lambda>_. check_each f xs)"

definition require :: "bool \<Rightarrow> string \<Rightarrow> harness_error + unit" where
  "require b message = (if b then Inr () else Inl (HarnessInvalidInput message))"

definition validate_call_request :: "agent_call_request \<Rightarrow> harness_error + unit" where
  "validate_call_request q =
     try_then (require (str_trim (ac_role q) \<noteq> []) ''agent call role must not be empty'') (\<lambda>_.
     try_then (require (str_trim (ac_model q) \<noteq> []) ''agent call model must not be empty'') (\<lambda>_.
     try_then (validate_id_option ''unit_id'' (ac_unit_id q)) (\<lambda>_.
     try_then (validate_id_option ''parent_unit_id'' (ac_parent_unit_id q)) (\<lambda>_.
     try_then (require (ac_parent_unit_id q = None \<or> ac_unit_id q \<noteq> ac_parent_unit_id q)
       ''agent call parent_unit_id must not equal unit_id'') (\<lambda>_.
     try_then (validate_id_option ''spawn_request_id'' (ac_spawn_request_id q)) (\<lambda>_.
     check_each (\<lambda>c. validate_id ''capability_id'' (cb_id c)) (ac_capabilities q)))))))"

definition ensure_unit_accepts_turn_mutation :: "agent_harness_unit \<Rightarrow> harness_error + unit" where
  "ensure_unit_accepts_turn_mutation u =
     (if hm_availability (hu_metadata u) = UnitIsRetired \<or> hu_lifecycle_state u = StateRetired
      then Inl (UnitRetired (hu_unit_id u)) else Inr ())"

definition overflow_error :: "string \<Rightarrow> harness_error" where
  "overflow_error field = HarnessInvalidInput (field @ '' accounting overflow'')"

definition checked_add :: "string \<Rightarrow> nat \<Rightarrow> nat \<Rightarrow> harness_error + nat" where
  "checked_add field a b = (if int a + int b < 18446744073709551616 then Inr (a + b) else Inl (overflow_error field))"

definition accounted_total_tokens :: "agent_turn_usage \<Rightarrow> harness_error + nat" where
  "accounted_total_tokens u = (case us_total_tokens u of Some t \<Rightarrow> Inr t
     | None \<Rightarrow> checked_add ''total_tokens'' (us_input_tokens u) (us_output_tokens u))"

definition add_usage_to_metadata :: "agent_harness_metadata \<Rightarrow> agent_turn_usage \<Rightarrow> nat \<Rightarrow> harness_error + agent_harness_metadata" where
  "add_usage_to_metadata m u amount =
     try_then (checked_add ''input_tokens'' (hm_input_tokens m) (us_input_tokens u)) (\<lambda>i.
     try_then (checked_add ''output_tokens'' (hm_output_tokens m) (us_output_tokens u)) (\<lambda>out.
     try_then (checked_add ''total_tokens'' (hm_total_tokens m) amount) (\<lambda>t.
     try_then (checked_add ''total_duration_ms'' (hm_total_duration_ms m) (us_duration_ms u)) (\<lambda>d.
       Inr (m\<lparr> hm_input_tokens := i, hm_output_tokens := out, hm_total_tokens := t, hm_total_duration_ms := d \<rparr>)))))"

definition validate_turn_start_request :: "agent_turn_start_request \<Rightarrow> harness_error + unit" where
  "validate_turn_start_request q = try_then (validate_id ''unit_id'' (tr_unit_id q)) (\<lambda>_.
     validate_id_option ''turn_id'' (tr_turn_id q))"

definition validate_turn_complete_request :: "agent_turn_complete_request \<Rightarrow> harness_error + unit" where
  "validate_turn_complete_request q = try_then (validate_id ''unit_id'' (tc_unit_id q)) (\<lambda>_.
     try_then (validate_id ''turn_id'' (tc_turn_id q)) (\<lambda>_.
     try_then (accounted_total_tokens (tc_usage q)) (\<lambda>_. Inr ())))"

section \<open>Redaction\<close>

definition is_sensitive_evidence_key :: "string \<Rightarrow> bool" where
  "is_sensitive_evidence_key key \<longleftrightarrow> (let n = ascii_lower (replace_chars ''- '' CHR ''_'' key) in
     n = ''message'' \<or> n = ''messages'' \<or> n = ''body'' \<or> ends_with n ''_body'' \<or> n = ''content'' \<or> ends_with n ''_content'' \<or>
     n = ''text'' \<or> ends_with n ''_text'' \<or> n = ''raw'' \<or> starts_with n ''raw_'' \<or> str_contains n ''prompt'' \<or>
     str_contains n ''secret'' \<or> str_contains n ''password'' \<or> n = ''token'' \<or> ends_with n ''_token'' \<or> n = ''output'' \<or>
     ends_with n ''_output'')"

fun redact_value_for_persistence :: "json \<Rightarrow> json" where
  "redact_value_for_persistence (JArray vs) = JArray (map redact_value_for_persistence vs)"
| "redact_value_for_persistence (JObject ms) = JObject (map (\<lambda>(key, v).
     (key, if is_sensitive_evidence_key key then JString ''[redacted]'' else redact_value_for_persistence v)) ms)"
| "redact_value_for_persistence v = v"

definition is_redacted_marker :: "json \<Rightarrow> bool" where
  "is_redacted_marker v \<longleftrightarrow> v = JNull \<or> v = JString ''[redacted]'' \<or> v = JString ''<redacted>''"

text \<open>The check stops at the first unredacted member; its error is always the same, so it is a test.\<close>

fun redacted_below :: "json \<Rightarrow> bool" where
  "redacted_below (JArray vs) = list_all redacted_below vs"
| "redacted_below (JObject ms) = list_all (\<lambda>(key, v).
     (is_sensitive_evidence_key key \<longrightarrow> is_redacted_marker v) \<and> redacted_below v) ms"
| "redacted_below v = True"

definition validate_redacted_value :: "json \<Rightarrow> harness_error + unit" where
  "validate_redacted_value v = require (redacted_below v) ''adapter evidence contains unredacted sensitive body data''"

definition redact_adapter_event_for_persistence :: "adapter_event \<Rightarrow> adapter_event" where
  "redact_adapter_event_for_persistence e =
     e\<lparr> ae_evidence := redact_value_for_persistence (ae_evidence e), ae_redaction := default_redaction \<rparr>"

definition validate_adapter_correlation :: "adapter_correlation \<Rightarrow> harness_error + unit" where
  "validate_adapter_correlation c =
     try_then (validate_id_option ''session_id'' (ak_session_id c)) (\<lambda>_.
     try_then (validate_id_option ''turn_id'' (ak_turn_id c)) (\<lambda>_.
     try_then (validate_id_option ''expected_turn_id'' (ak_expected_turn_id c)) (\<lambda>_.
     validate_id_option ''tool_call_id'' (ak_tool_call_id c))))"

definition validate_adapter_event_request :: "adapter_event_request \<Rightarrow> harness_error + unit" where
  "validate_adapter_event_request q = try_then (validate_id ''unit_id'' (aq_unit_id q)) (\<lambda>_.
     try_then (validate_adapter_correlation (aq_correlation q)) (\<lambda>_.
     validate_redacted_value (redact_value_for_persistence (aq_evidence q))))"

definition validate_adapter_event :: "adapter_event \<Rightarrow> harness_error + unit" where
  "validate_adapter_event e =
     try_then (validate_id ''adapter_event_id'' (ae_id e)) (\<lambda>_.
     try_then (validate_id ''unit_id'' (ae_unit_id e)) (\<lambda>_.
     try_then (validate_adapter_correlation (ae_correlation e)) (\<lambda>_.
     try_then (require (redaction_is_complete (ae_redaction e))
       (''adapter event '' @ ae_id e @ '' must be fully redacted before persistence'')) (\<lambda>_.
     validate_redacted_value (ae_evidence e)))))"

section \<open>The snapshot\<close>

text \<open>The receipts: each id is checked before it is compared with those before it.\<close>

fun check_receipts :: "string list \<Rightarrow> harness_receipt list \<Rightarrow> harness_error + unit" where
  "check_receipts seen [] = Inr ()"
| "check_receipts seen (r # rs) = try_then (validate_id ''receipt_id'' (hr_id r)) (\<lambda>_.
     if hr_id r \<in> set seen then Inl (HarnessInvalidInput (''duplicate receipt id: '' @ hr_id r))
     else check_receipts (hr_id r # seen) rs)"

fun check_generated :: "string list \<Rightarrow> string list \<Rightarrow> harness_error + string list" where
  "check_generated seen [] = Inr seen"
| "check_generated seen (g # gs) = try_then (validate_id ''generated_id'' g) (\<lambda>_.
     if g \<in> set seen then Inl (HarnessInvalidInput (''duplicate host-generated id: '' @ g))
     else check_generated (g # seen) gs)"

definition check_lineage :: "(string, agent_harness_unit) btree_map \<Rightarrow> string \<Rightarrow> agent_lineage \<Rightarrow> harness_error + unit" where
  "check_lineage units unit_id l =
     try_then (require (li_root_unit_id l \<noteq> []) (''unit '' @ unit_id @ '' must have a root lineage id'')) (\<lambda>_.
     case li_parent_unit_id l of None \<Rightarrow> Inr ()
     | Some parent \<Rightarrow> try_then (validate_id ''parent_unit_id'' parent) (\<lambda>_.
         try_then (require (parent \<noteq> unit_id) (''unit '' @ unit_id @ '' must not be its own parent'')) (\<lambda>_.
         require (bt_contains units parent) (''unit '' @ unit_id @ '' references missing parent '' @ parent))))"

definition check_unit :: "(string, agent_harness_unit) btree_map \<Rightarrow> string list \<Rightarrow> string \<times> agent_harness_unit \<Rightarrow>
    harness_error + string list" where
  "check_unit units seen x = (case x of (unit_id, u) \<Rightarrow>
     let m = hu_metadata u; cert = hu_certificate u; lineage = ct_lineage cert in
     try_then (validate_id ''unit_id'' unit_id) (\<lambda>_.
     try_then (require (unit_id = hu_unit_id u \<and> unit_id = ct_unit_id cert) (''unit id mismatch for '' @ unit_id)) (\<lambda>_.
     try_then (check_lineage units unit_id lineage) (\<lambda>_.
     try_then (validate_id ''root_unit_id'' (li_root_unit_id lineage)) (\<lambda>_.
     try_then (validate_id ''certificate_id'' (ct_certificate_id cert)) (\<lambda>_.
     try_then (validate_id ''call_id'' (ct_call_id cert)) (\<lambda>_.
     try_then (validate_id ''session_id'' (hu_session_id u)) (\<lambda>_.
     try_then (check_generated seen (bt_values (ct_generated_ids cert))) (\<lambda>seen'.
     try_then (require (\<not> (hm_availability m = UnitIsRetired \<and> hu_lifecycle_state u \<noteq> StateRetired))
       (''retired unit '' @ unit_id @ '' must have retired lifecycle state'')) (\<lambda>_.
     try_then (validate_id_option ''turn_id'' (hm_active_turn_id m)) (\<lambda>_.
     try_then (require (\<not> (hm_active_turn_id m \<noteq> None \<and> hu_lifecycle_state u = StateRetired))
       (''retired unit '' @ unit_id @ '' must not have an active turn'')) (\<lambda>_.
     try_then (require (hm_turns_completed m \<le> hm_turns_started m)
       (''unit '' @ unit_id @ '' has more completed turns than started turns'')) (\<lambda>_.
     try_then (check_each (\<lambda>e. require (ae_unit_id e = unit_id)
       (''adapter event '' @ ae_id e @ '' stored under mismatched unit '' @ unit_id)) (hu_adapter_events u)) (\<lambda>_.
     Inr seen'))))))))))))))"

fun check_units :: "(string, agent_harness_unit) btree_map \<Rightarrow> string list \<Rightarrow> (string \<times> agent_harness_unit) list \<Rightarrow>
    harness_error + unit" where
  "check_units units seen [] = Inr ()"
| "check_units units seen (x # xs) = try_then (check_unit units seen x) (\<lambda>seen'. check_units units seen' xs)"

fun check_events :: "(string, agent_harness_unit) btree_map \<Rightarrow> string list \<Rightarrow> adapter_event list \<Rightarrow> harness_error + unit" where
  "check_events units seen [] = Inr ()"
| "check_events units seen (e # es) = try_then (validate_adapter_event e) (\<lambda>_.
     try_then (require (bt_contains units (ae_unit_id e))
       (''adapter event '' @ ae_id e @ '' references missing unit '' @ ae_unit_id e)) (\<lambda>_.
     if ae_id e \<in> set seen then Inl (HarnessInvalidInput (''duplicate adapter event id: '' @ ae_id e))
     else check_events units (ae_id e # seen) es))"

text \<open>The events of a unit against those of the snapshot, of which the last with an id counts.\<close>

fun check_unit_events :: "adapter_event list \<Rightarrow> string \<Rightarrow> string list \<Rightarrow> adapter_event list \<Rightarrow> harness_error + unit" where
  "check_unit_events all unit_id seen [] = Inr ()"
| "check_unit_events all unit_id seen (e # es) = try_then (validate_adapter_event e) (\<lambda>_.
     if ae_id e \<in> set seen then Inl (HarnessInvalidInput (''duplicate adapter event id on unit '' @ unit_id @ '': '' @ ae_id e))
     else if List.find (\<lambda>x. ae_id x = ae_id e) (rev all) \<noteq> Some e
     then Inl (HarnessInvalidInput (''unit '' @ unit_id @ '' adapter event '' @ ae_id e @ '' missing from snapshot index''))
     else check_unit_events all unit_id (ae_id e # seen) es)"

definition validate_snapshot :: "agent_harness_snapshot \<Rightarrow> harness_error + unit" where
  "validate_snapshot s =
     try_then (require (hn_version s = agent_harness_schema_version)
       (''unsupported agent harness store version: '' @ decimal (hn_version s))) (\<lambda>_.
     try_then (check_receipts [] (hn_receipts s)) (\<lambda>_.
     try_then (check_units (hn_units s) [] (hn_units s)) (\<lambda>_.
     try_then (check_events (hn_units s) [] (hn_adapter_events s)) (\<lambda>_.
     check_each (\<lambda>(unit_id, u). check_unit_events (hn_adapter_events s) unit_id [] (hu_adapter_events u)) (hn_units s)))))"

definition inventory_entry :: "agent_harness_unit \<Rightarrow> agent_harness_inventory_entry" where
  "inventory_entry u = \<lparr> ie_unit_id = hu_unit_id u, ie_parent_unit_id = hm_parent_unit_id (hu_metadata u),
     ie_role = ct_role (hu_certificate u), ie_model = ct_model (hu_certificate u),
     ie_lifecycle_state = hu_lifecycle_state u, ie_availability = hm_availability (hu_metadata u),
     ie_called_at = hm_called_at (hu_metadata u), ie_last_active_at = hm_last_active_at (hu_metadata u),
     ie_retired_at = hm_retired_at (hu_metadata u) \<rparr>"

definition snapshot_inventory :: "agent_harness_snapshot \<Rightarrow> agent_harness_inventory" where
  "snapshot_inventory s = (let entries = map inventory_entry (bt_values (hn_units s))
     in \<lparr> ai_active = filter (\<lambda>e. ie_availability e = UnitActive) entries,
          ai_retired = filter (\<lambda>e. ie_availability e = UnitIsRetired) entries \<rparr>)"

section \<open>Legacy fields\<close>

text \<open>
  The root of a lineage that has none: up the parents, whose root counts when they have one. The set of visited units
  grows until it closes or leaves the snapshot, so as many steps as there are units, and one, are enough.
\<close>

fun infer_root_loop :: "(string, agent_harness_unit) btree_map \<Rightarrow> string \<Rightarrow> nat \<Rightarrow> string list \<Rightarrow> string \<Rightarrow> string" where
  "infer_root_loop units parent 0 visited current = parent"
| "infer_root_loop units parent (Suc n) visited current =
     (if current \<in> set visited then parent
      else case bt_get units current of None \<Rightarrow> current
      | Some u \<Rightarrow> let l = ct_lineage (hu_certificate u) in
          if li_root_unit_id l \<noteq> [] then li_root_unit_id l
          else case or_else (li_parent_unit_id l) (hm_parent_unit_id (hu_metadata u)) of
            Some next_parent \<Rightarrow> infer_root_loop units parent n (current # visited) next_parent
          | None \<Rightarrow> hu_unit_id u)"

definition infer_root_unit_id :: "(string, agent_harness_unit) btree_map \<Rightarrow> string \<Rightarrow> string option \<Rightarrow> string" where
  "infer_root_unit_id units unit_id parent = (case parent of None \<Rightarrow> unit_id
     | Some p \<Rightarrow> infer_root_loop units p (length units + 1) [] p)"

definition normalized_lineage :: "(string, agent_harness_unit) btree_map \<Rightarrow> string \<Rightarrow> agent_harness_unit \<Rightarrow> agent_lineage" where
  "normalized_lineage units unit_id u = (
     let l0 = ct_lineage (hu_certificate u);
         parent = or_else (li_parent_unit_id l0) (hm_parent_unit_id (hu_metadata u));
         spawn = or_else (li_spawn_request_id l0) (hm_spawn_request_id (hu_metadata u))
     in l0\<lparr> li_parent_unit_id := parent, li_spawn_request_id := spawn,
            li_root_unit_id := (if li_root_unit_id l0 = [] then infer_root_unit_id units unit_id parent else li_root_unit_id l0) \<rparr>)"

definition normalize_unit :: "(string, agent_harness_unit) btree_map \<Rightarrow> string \<times> agent_harness_unit \<Rightarrow>
    string \<times> agent_harness_unit" where
  "normalize_unit units x = (case x of (unit_id, u) \<Rightarrow> let l = normalized_lineage units unit_id u; m = hu_metadata u in
     (unit_id, u\<lparr> hu_metadata := m\<lparr> hm_parent_unit_id := or_else (hm_parent_unit_id m) (li_parent_unit_id l),
         hm_spawn_request_id := or_else (hm_spawn_request_id m) (li_spawn_request_id l) \<rparr>,
       hu_certificate := (hu_certificate u)\<lparr> ct_lineage := l \<rparr> \<rparr>))"

definition normalize_snapshot_legacy_fields :: "agent_harness_snapshot \<Rightarrow> agent_harness_snapshot" where
  "normalize_snapshot_legacy_fields s = s\<lparr> hn_units := map (normalize_unit (hn_units s)) (hn_units s) \<rparr>"

section \<open>Replay\<close>

definition replay_field :: "string \<Rightarrow> string \<Rightarrow> 'a option \<Rightarrow> harness_error + 'a" where
  "replay_field field receipt_id v = ok_or v (HarnessInvalidInput (''receipt '' @ receipt_id @ '' missing replay field '' @ field))"

definition replay_turn_started :: "agent_harness_unit \<Rightarrow> harness_receipt \<Rightarrow> harness_error + agent_harness_unit" where
  "replay_turn_started u r =
     try_then (ensure_unit_accepts_turn_mutation u) (\<lambda>_.
     case hm_active_turn_id (hu_metadata u) of Some active \<Rightarrow> Inl (TurnAlreadyActive (hu_unit_id u) active)
     | None \<Rightarrow> try_then (replay_field ''turn_id'' (hr_id r) (ev_turn_id (hr_evidence r))) (\<lambda>turn_id.
         try_then (checked_add ''turns_started'' (hm_turns_started (hu_metadata u)) 1) (\<lambda>n.
           Inr (u\<lparr> hu_lifecycle_state := StateRunning, hu_metadata := (hu_metadata u)\<lparr> hm_active_turn_id := Some turn_id,
             hm_turns_started := n, hm_last_active_at := hr_at r \<rparr> \<rparr>))))"

definition replay_turn_completed :: "agent_harness_unit \<Rightarrow> harness_receipt \<Rightarrow> harness_error + agent_harness_unit" where
  "replay_turn_completed u r = (let ev = hr_evidence r in
     try_then (ensure_unit_accepts_turn_mutation u) (\<lambda>_.
     try_then (replay_field ''turn_id'' (hr_id r) (ev_turn_id ev)) (\<lambda>turn_id.
     try_then (ok_or (hm_active_turn_id (hu_metadata u)) (NoActiveTurn (hu_unit_id u))) (\<lambda>active.
     if active \<noteq> turn_id then Inl (TurnMismatch (hu_unit_id u) active turn_id)
     else try_then (replay_field ''usage'' (hr_id r) (ev_usage ev)) (\<lambda>usage.
       try_then (accounted_total_tokens usage) (\<lambda>accounted.
       let amount = (case ev_accounted_total_tokens ev of Some t \<Rightarrow> t | None \<Rightarrow> accounted);
           state = (case ev_lifecycle_state ev of Some l \<Rightarrow> l | None \<Rightarrow> StateReady)
       in try_then (require (state \<in> {StateReady, StateWaiting, StateDone})
            (''receipt '' @ hr_id r @ '' has invalid completed turn lifecycle state'')) (\<lambda>_.
          try_then (checked_add ''turns_completed'' (hm_turns_completed (hu_metadata u)) 1) (\<lambda>n.
          try_then (add_usage_to_metadata ((hu_metadata u)\<lparr> hm_active_turn_id := None, hm_turns_completed := n \<rparr>) usage amount) (\<lambda>m.
            Inr (u\<lparr> hu_lifecycle_state := state, hu_metadata := m\<lparr> hm_last_active_at := hr_at r \<rparr> \<rparr>))))))))))"

definition replay_retired :: "agent_harness_unit \<Rightarrow> harness_receipt \<Rightarrow> agent_harness_unit" where
  "replay_retired u r = u\<lparr> hu_lifecycle_state := StateRetired, hu_metadata := (hu_metadata u)\<lparr>
     hm_availability := UnitIsRetired, hm_active_turn_id := None,
     hm_retired_at := or_else (ev_retired_at (hr_evidence r)) (Some (hr_at r)),
     hm_retirement_reason := ev_retirement_reason (hr_evidence r), hm_last_active_at := hr_at r \<rparr> \<rparr>"

definition replay_called :: "agent_harness_paths \<Rightarrow> harness_receipt \<Rightarrow> harness_error + agent_harness_unit" where
  "replay_called paths r = (let ev = hr_evidence r in
     try_then (replay_field ''certificate'' (hr_id r) (ev_certificate ev)) (\<lambda>certificate.
     try_then (replay_field ''session_id'' (hr_id r) (ev_session_id ev)) (\<lambda>session_id.
     try_then (replay_field ''metadata'' (hr_id r) (ev_unit_metadata ev)) (\<lambda>metadata.
     try_then (replay_field ''lifecycle_state'' (hr_id r) (ev_lifecycle_state ev)) (\<lambda>state.
       Inr \<lparr> hu_kind = ''onecontext.agent_harness.unit'', hu_unit_id = hr_unit_id r, hu_certificate = certificate,
         hu_namespace_path = (case ev_namespace_path ev of Some p \<Rightarrow> p | None \<Rightarrow> path_join (hp_units_dir paths) (hr_unit_id r)),
         hu_lifecycle_state = state, hu_session_id = session_id, hu_metadata = metadata, hu_receipts = [r],
         hu_adapter_events = [] \<rparr>)))))"

definition push_receipt :: "harness_receipt \<Rightarrow> agent_harness_unit \<Rightarrow> agent_harness_unit" where
  "push_receipt r u = u\<lparr> hu_receipts := hu_receipts u @ [r] \<rparr>"

definition replay_receipt :: "agent_harness_paths \<Rightarrow> harness_receipt \<Rightarrow> (string, agent_harness_unit) btree_map \<Rightarrow>
    harness_error + (string, agent_harness_unit) btree_map" where
  "replay_receipt paths r units = (let found = bt_get units (hr_unit_id r); id = hr_unit_id r in
     if hr_kind r = AgentCalled \<or> hr_kind r = Birth then
       (if found \<noteq> None then Inr units
        else try_then (replay_called paths r) (\<lambda>u. Inr (bt_insert id u units)))
     else if hr_kind r = AgentRetiredReceipt then
       try_then (ok_or found (UnitNotFound id)) (\<lambda>u. Inr (bt_insert id (push_receipt r (replay_retired u r)) units))
     else if hr_kind r = TurnStarted then
       try_then (ok_or found (UnitNotFound id)) (\<lambda>u. try_then (replay_turn_started u r) (\<lambda>u'.
         Inr (bt_insert id (push_receipt r u') units)))
     else if hr_kind r = TurnCompleted then
       try_then (ok_or found (UnitNotFound id)) (\<lambda>u. try_then (replay_turn_completed u r) (\<lambda>u'.
         Inr (bt_insert id (push_receipt r u') units)))
     else Inr (case found of None \<Rightarrow> units | Some u \<Rightarrow> bt_insert id (push_receipt r u) units))"

fun replay_receipts :: "agent_harness_paths \<Rightarrow> harness_receipt list \<Rightarrow> (string, agent_harness_unit) btree_map \<Rightarrow>
    harness_error + (string, agent_harness_unit) btree_map" where
  "replay_receipts paths [] units = Inr units"
| "replay_receipts paths (r # rs) units = try_then (replay_receipt paths r units) (replay_receipts paths rs)"

definition replay_units_from_receipts :: "agent_harness_paths \<Rightarrow> harness_receipt list \<Rightarrow>
    harness_error + (string, agent_harness_unit) btree_map" where
  "replay_units_from_receipts paths receipts = replay_receipts paths receipts []"

text \<open>The events: those in receipts, the later of two with one id, then the artifacts that are not among them.\<close>

definition event_of_receipt :: "harness_receipt \<Rightarrow> adapter_event option" where
  "event_of_receipt r = (if hr_kind r = ProofObserved
     then map_option redact_adapter_event_for_persistence (ev_adapter_event (hr_evidence r)) else None)"

definition events_by_id :: "harness_receipt list \<Rightarrow> adapter_event list \<Rightarrow> (string, adapter_event) btree_map" where
  "events_by_id receipts artifacts =
     fold (\<lambda>e m. if bt_contains m (ae_id e) then m else bt_insert (ae_id e) e m) artifacts
       (bt_of_list (map (\<lambda>e. (ae_id e, e)) (List.map_filter event_of_receipt receipts)))"

definition replay_event_on_unit :: "adapter_event \<Rightarrow> agent_harness_unit \<Rightarrow> agent_harness_unit" where
  "replay_event_on_unit e u = (let m = hu_metadata u in u\<lparr>
     hu_adapter_events := (if list_ex (\<lambda>x. ae_id x = ae_id e) (hu_adapter_events u) then hu_adapter_events u
       else hu_adapter_events u @ [e]),
     hu_metadata := m\<lparr> hm_last_active_at := (if hm_last_active_at m < ae_at e then ae_at e else hm_last_active_at m) \<rparr> \<rparr>)"

definition replay_event :: "adapter_event \<Rightarrow> agent_harness_snapshot \<Rightarrow> agent_harness_snapshot" where
  "replay_event e s = (case bt_get (hn_units s) (ae_unit_id e) of None \<Rightarrow> s
     | Some u \<Rightarrow> s\<lparr> hn_units := bt_insert (ae_unit_id e) (replay_event_on_unit e u) (hn_units s),
         hn_adapter_events := hn_adapter_events s @ [e] \<rparr>)"

definition event_key :: "adapter_event \<Rightarrow> int \<times> string" where
  "event_key e = (ae_at e, ae_id e)"

definition sort_events :: "agent_harness_snapshot \<Rightarrow> agent_harness_snapshot" where
  "sort_events s = s\<lparr> hn_adapter_events := sort_key event_key (hn_adapter_events s),
     hn_units := map (\<lambda>(i, u). (i, u\<lparr> hu_adapter_events := sort_key event_key (hu_adapter_events u) \<rparr>)) (hn_units s) \<rparr>"

definition replay_adapter_events :: "adapter_event list \<Rightarrow> harness_receipt list \<Rightarrow> agent_harness_snapshot \<Rightarrow>
    agent_harness_snapshot" where
  "replay_adapter_events artifacts receipts s =
     sort_events (fold replay_event (bt_values (events_by_id receipts artifacts)) s)"

text \<open>The number in a receipt id: its first twelve characters, when they are digits, of which the first may be a sign.\<close>

fun digits_value :: "nat \<Rightarrow> string \<Rightarrow> nat option" where
  "digits_value n [] = Some n"
| "digits_value n (c # cs) = (if is_ascii_digit c then digits_value (10 * n + (byte c - 48)) cs else None)"

definition receipt_sequence :: "harness_receipt \<Rightarrow> nat option" where
  "receipt_sequence r = (case strip_prefix ''agent-receipt-'' (hr_id r) of None \<Rightarrow> None
     | Some rest \<Rightarrow> if length rest < 12 then None
       else digits_value 0 (if hd rest = CHR ''+'' then take 11 (tl rest) else take 12 rest))"

definition highest_generated_sequence :: "harness_receipt list \<Rightarrow> nat" where
  "highest_generated_sequence receipts = fold max (List.map_filter receipt_sequence receipts) 0"

definition replay_snapshot_from_receipts :: "agent_harness_paths \<Rightarrow> adapter_event list \<Rightarrow> harness_receipt list \<Rightarrow>
    harness_error + agent_harness_snapshot" where
  "replay_snapshot_from_receipts paths artifacts receipts =
     try_then (replay_units_from_receipts paths receipts) (\<lambda>units.
       let s = normalize_snapshot_legacy_fields (replay_adapter_events artifacts receipts
             (empty_snapshot\<lparr> hn_generated_id_sequence := highest_generated_sequence receipts, hn_units := units,
                hn_receipts := receipts \<rparr>))
       in try_then (validate_snapshot s) (\<lambda>_. Inr s))"

section \<open>Loading\<close>

text \<open>
  The directories below \<open>units\<close> with their files. A unit named \<open>.\<close> or \<open>..\<close> has its directory elsewhere.
\<close>

definition listed_unit :: "string \<Rightarrow> bool" where
  "listed_unit unit_id \<longleftrightarrow> unit_id \<noteq> ''.'' \<and> unit_id \<noteq> ''..''"

definition receipt_order :: "harness_receipt \<Rightarrow> int \<times> string" where
  "receipt_order r = (hr_at r, hr_id r)"

definition read_receipt_artifacts :: "harness_store \<Rightarrow> harness_receipt list" where
  "read_receipt_artifacts st = sort_key receipt_order (map snd (filter (\<lambda>((unit_id, name), r). listed_unit unit_id) (hs_receipts st)))"

definition read_adapter_event_artifacts :: "harness_store \<Rightarrow> adapter_event list" where
  "read_adapter_event_artifacts st = sort_key event_key (map (redact_adapter_event_for_persistence \<circ> snd)
     (filter (\<lambda>((unit_id, name), e). listed_unit unit_id) (hs_events st)))"

definition read_snapshot :: "store_file \<Rightarrow> harness_error + agent_harness_snapshot" where
  "read_snapshot f = (case f of NoStore \<Rightarrow> Inl HarnessIo | UnreadableStore \<Rightarrow> Inl CorruptStore
     | StoredSnapshot s0 \<Rightarrow> let s = normalize_snapshot_legacy_fields s0 in try_then (validate_snapshot s) (\<lambda>_. Inr s))"

definition load_snapshot :: "agent_harness_paths \<Rightarrow> harness_store \<Rightarrow> harness_error + agent_harness_snapshot" where
  "load_snapshot paths st = (if hs_file st = NoStore then Inr empty_snapshot
     else case read_snapshot (hs_file st) of Inr s \<Rightarrow> Inr s
     | Inl store_error \<Rightarrow> let receipts = read_receipt_artifacts st in
         if receipts = [] then Inl store_error
         else replay_snapshot_from_receipts paths (read_adapter_event_artifacts st) receipts)"

definition store_inventory :: "agent_harness_paths \<Rightarrow> harness_store \<Rightarrow> harness_error + agent_harness_inventory" where
  "store_inventory paths st = try_then (load_snapshot paths st) (\<lambda>s. Inr (snapshot_inventory s))"

definition harness_agent_status :: "agent_harness_paths \<Rightarrow> harness_store \<Rightarrow> string \<Rightarrow> harness_error + agent_harness_unit" where
  "harness_agent_status paths st unit_id = try_then (load_snapshot paths st) (\<lambda>s. ok_or (bt_get (hn_units s) unit_id) (UnitNotFound unit_id))"

section \<open>Identifiers\<close>

text \<open>A number with leading zeros to twelve digits.\<close>

definition padded :: "nat \<Rightarrow> string" where
  "padded n = decimal_padded 12 n"

fun next_free :: "(nat \<Rightarrow> bool) \<Rightarrow> nat \<Rightarrow> nat \<Rightarrow> nat" where
  "next_free taken 0 n = n + 1"
| "next_free taken (Suc k) n = (if taken (n + 1) then next_free taken k (n + 1) else n + 1)"

definition call_ids :: "string option \<Rightarrow> nat \<Rightarrow> generated_call_ids" where
  "call_ids requested n = \<lparr> gi_unit_id = (case requested of Some i \<Rightarrow> i | None \<Rightarrow> ''agent-unit-'' @ padded n),
     gi_unit_id_was_generated = (requested = None), gi_certificate_id = ''agent-cert-'' @ padded n,
     gi_call_id = ''agent-call-'' @ padded n, gi_session_id = ''agent-session-'' @ padded n,
     gi_receipt_id = ''agent-receipt-'' @ padded n @ ''-called'' \<rparr>"

definition existing_generated_ids :: "agent_harness_snapshot \<Rightarrow> string list" where
  "existing_generated_ids s = concat (map (\<lambda>u. bt_values (ct_generated_ids (hu_certificate u))) (bt_values (hn_units s)))"

definition allocate_call_ids :: "agent_harness_snapshot \<Rightarrow> string option \<Rightarrow> generated_call_ids \<times> agent_harness_snapshot" where
  "allocate_call_ids s requested = (
     let existing = existing_generated_ids s;
         taken = (\<lambda>n. let g = call_ids requested n in
           list_ex (\<lambda>v. v \<in> set existing) (bt_values (generated_ids g)) \<or> bt_contains (hn_units s) (gi_unit_id g));
         n = next_free taken (length existing + length (hn_units s)) (hn_generated_id_sequence s)
     in (call_ids requested n, s\<lparr> hn_generated_id_sequence := n \<rparr>))"

definition receipt_id_at :: "string \<Rightarrow> nat \<Rightarrow> string" where
  "receipt_id_at tag n = ''agent-receipt-'' @ padded n @ ''-'' @ tag"

definition allocate_receipt_id :: "agent_harness_snapshot \<Rightarrow> string \<Rightarrow> string \<times> agent_harness_snapshot" where
  "allocate_receipt_id s tag = (
     let n = next_free (\<lambda>n. receipt_id_at tag n \<in> hr_id ` set (hn_receipts s)) (length (hn_receipts s)) (hn_generated_id_sequence s)
     in (receipt_id_at tag n, s\<lparr> hn_generated_id_sequence := n \<rparr>))"

definition allocate_adapter_event_id :: "agent_harness_snapshot \<Rightarrow> string \<times> agent_harness_snapshot" where
  "allocate_adapter_event_id s = (
     let n = next_free (\<lambda>n. ''agent-adapter-event-'' @ padded n \<in> ae_id ` set (hn_adapter_events s))
           (length (hn_adapter_events s)) (hn_generated_id_sequence s)
     in (''agent-adapter-event-'' @ padded n, s\<lparr> hn_generated_id_sequence := n \<rparr>))"

definition receipt_turn_id :: "harness_receipt \<Rightarrow> string option" where
  "receipt_turn_id r = ev_turn_id (hr_evidence r)"

definition allocate_turn_id :: "agent_harness_snapshot \<Rightarrow> string \<times> agent_harness_snapshot" where
  "allocate_turn_id s = (
     let n = next_free (\<lambda>n. ''agent-turn-'' @ padded n \<in> set (List.map_filter receipt_turn_id (hn_receipts s)))
           (length (hn_receipts s)) (hn_generated_id_sequence s)
     in (''agent-turn-'' @ padded n, s\<lparr> hn_generated_id_sequence := n \<rparr>))"

end
