(* ===== verification/Harness_Ops.thy ===== *)
theory Harness_Ops
  imports Harness_Core
begin

text \<open>
  The operations of the harness store (\<open>lib.rs\<close>): each one checks its request, takes the lock, loads the snapshot,
  changes one unit, records a receipt, validates the whole snapshot and writes the artifacts before the snapshot. The
  current time is an argument. A store that is returned unchanged has not been written.
\<close>

section \<open>Call\<close>

definition json_str_field :: "string \<Rightarrow> json \<Rightarrow> string option" where
  "json_str_field key v = Option.bind (json_get key v) as_str"

definition json_tags :: "json \<Rightarrow> string list" where
  "json_tags v = (case Option.bind (json_get ''tags'' v) as_array of None \<Rightarrow> [] | Some vs \<Rightarrow> List.map_filter as_str vs)"

definition metadata_from_request :: "agent_call_request \<Rightarrow> int \<Rightarrow> agent_harness_metadata" where
  "metadata_from_request q now = \<lparr> hm_visibility = ac_visibility q, hm_availability = UnitActive,
     hm_title = json_str_field ''title'' (ac_metadata q), hm_owner = json_str_field ''owner'' (ac_metadata q),
     hm_tags = json_tags (ac_metadata q), hm_called_at = now, hm_last_active_at = now, hm_retired_at = None,
     hm_retirement_reason = None, hm_parent_unit_id = ac_parent_unit_id q, hm_spawn_request_id = ac_spawn_request_id q,
     hm_turns_started = 0, hm_turns_completed = 0, hm_active_turn_id = None, hm_input_tokens = 0, hm_output_tokens = 0,
     hm_total_tokens = 0, hm_total_duration_ms = 0 \<rparr>"

definition root_unit_id_for_call :: "agent_harness_snapshot \<Rightarrow> agent_call_request \<Rightarrow> harness_error + string option" where
  "root_unit_id_for_call s q = (case ac_parent_unit_id q of None \<Rightarrow> Inr None
     | Some p \<Rightarrow> try_then (ok_or (bt_get (hn_units s) p) (UnitNotFound p)) (\<lambda>parent.
         if hm_availability (hu_metadata parent) = UnitIsRetired \<or> hu_lifecycle_state parent = StateRetired
         then Inl (UnitRetired p)
         else let root = li_root_unit_id (ct_lineage (hu_certificate parent))
              in Inr (Some (if root = [] then hu_unit_id parent else root))))"

definition birth_certificate :: "agent_call_request \<Rightarrow> generated_call_ids \<Rightarrow> string \<Rightarrow> int \<Rightarrow> harness_birth_certificate" where
  "birth_certificate q g root now = \<lparr> ct_kind = ''onecontext.agent_harness.birth_certificate'',
     ct_version = agent_harness_schema_version, ct_certificate_id = gi_certificate_id g, ct_call_id = gi_call_id g,
     ct_issued_at = now, ct_unit_id = gi_unit_id g, ct_role = ac_role q, ct_model = ac_model q,
     ct_identity = ac_identity q, ct_instructions = ac_instructions q, ct_runtime = ac_runtime q,
     ct_capabilities = ac_capabilities q, ct_birth_inputs = Some q, ct_generated_ids = generated_ids g,
     ct_inheritance_policy = default_inheritance_policy,
     ct_lineage = \<lparr> li_parent_unit_id = ac_parent_unit_id q, li_root_unit_id = root,
       li_spawn_request_id = ac_spawn_request_id q \<rparr> \<rparr>"

definition born_unit :: "agent_harness_paths \<Rightarrow> agent_call_request \<Rightarrow> generated_call_ids \<Rightarrow> string \<Rightarrow> int \<Rightarrow> agent_harness_unit" where
  "born_unit paths q g root now = \<lparr> hu_kind = ''onecontext.agent_harness.unit'', hu_unit_id = gi_unit_id g,
     hu_certificate = birth_certificate q g root now, hu_namespace_path = path_join (hp_units_dir paths) (gi_unit_id g),
     hu_lifecycle_state = StateBorn, hu_session_id = gi_session_id g, hu_metadata = metadata_from_request q now,
     hu_receipts = [], hu_adapter_events = [] \<rparr>"

definition called_receipt :: "agent_harness_unit \<Rightarrow> generated_call_ids \<Rightarrow> int \<Rightarrow> harness_receipt" where
  "called_receipt u g now = \<lparr> hr_id = gi_receipt_id g, hr_at = now, hr_unit_id = gi_unit_id g, hr_kind = AgentCalled,
     hr_summary = ''agent unit '' @ gi_unit_id g @ '' born'',
     hr_evidence = no_evidence\<lparr> ev_certificate := Some (hu_certificate u), ev_session_id := Some (gi_session_id g),
       ev_namespace_path := Some (hu_namespace_path u), ev_lifecycle_state := Some (hu_lifecycle_state u),
       ev_unit_metadata := Some (hu_metadata u) \<rparr> \<rparr>"

text \<open>The end of every operation: the receipt goes to the unit and to the snapshot, which is validated and written.\<close>

definition commit_unit :: "harness_store \<Rightarrow> agent_harness_snapshot \<Rightarrow> agent_harness_unit \<Rightarrow> harness_receipt \<Rightarrow>
    harness_error + agent_harness_unit \<times> harness_store" where
  "commit_unit st s u r = (let u' = push_receipt r u;
       s' = s\<lparr> hn_units := bt_insert (hr_unit_id r) u' (hn_units s), hn_receipts := hn_receipts s @ [r] \<rparr>
     in try_then (validate_snapshot s') (\<lambda>_. Inr (u', st\<lparr> hs_file := StoredSnapshot s',
          hs_receipts := bt_insert (hr_unit_id r, hr_id r) r (hs_receipts st) \<rparr>)))"

definition call_new_unit :: "agent_harness_paths \<Rightarrow> harness_store \<Rightarrow> agent_harness_snapshot \<Rightarrow> int \<Rightarrow> agent_call_request \<Rightarrow>
    harness_error + agent_harness_unit \<times> harness_store" where
  "call_new_unit paths st s now q =
     try_then (root_unit_id_for_call s q) (\<lambda>root. case allocate_call_ids s (ac_unit_id q) of (g, s1) \<Rightarrow>
       let u = born_unit paths q g (case root of Some r \<Rightarrow> r | None \<Rightarrow> gi_unit_id g) now
       in commit_unit (st\<lparr> hs_certificates := bt_insert (gi_certificate_id g) (hu_certificate u) (hs_certificates st) \<rparr>)
            s1 u (called_receipt u g now))"

definition with_lock :: "harness_store \<Rightarrow> (unit \<Rightarrow> harness_error + 'a) \<Rightarrow> harness_error + 'a" where
  "with_lock st f = (if hs_locked st then Inl StoreLocked else f ())"

definition harness_call :: "agent_harness_paths \<Rightarrow> int \<Rightarrow> agent_call_request \<Rightarrow> harness_store \<Rightarrow>
    harness_error + agent_harness_unit \<times> harness_store" where
  "harness_call paths now q st =
     try_then (validate_call_request q) (\<lambda>_. with_lock st (\<lambda>_.
     try_then (load_snapshot paths st) (\<lambda>s.
     case Option.bind (ac_unit_id q) (bt_get (hn_units s)) of
       Some existing \<Rightarrow> (if ct_birth_inputs (hu_certificate existing) = Some q then Inr (existing, st)
         else Inl (UnitAlreadyExists (the (ac_unit_id q))))
     | None \<Rightarrow> call_new_unit paths st s now q)))"

section \<open>Turns\<close>

definition find_unit :: "agent_harness_snapshot \<Rightarrow> string \<Rightarrow> harness_error + agent_harness_unit" where
  "find_unit s unit_id = ok_or (bt_get (hn_units s) unit_id) (UnitNotFound unit_id)"

definition turn_started_receipt :: "string \<Rightarrow> int \<Rightarrow> string \<Rightarrow> agent_harness_unit \<Rightarrow> agent_turn_start_request \<Rightarrow> harness_receipt" where
  "turn_started_receipt receipt_id now turn_id u q = \<lparr> hr_id = receipt_id, hr_at = now, hr_unit_id = tr_unit_id q,
     hr_kind = TurnStarted, hr_summary = ''agent unit '' @ tr_unit_id q @ '' started turn '' @ turn_id,
     hr_evidence = no_evidence\<lparr> ev_turn_id := Some turn_id, ev_at := Some now, ev_lifecycle_state := Some StateRunning,
       ev_turn_count := Some (hm_turns_started (hu_metadata u)), ev_request_metadata := Some (tr_metadata q) \<rparr> \<rparr>"

definition started_unit :: "string \<Rightarrow> string \<Rightarrow> int \<Rightarrow> agent_harness_unit \<Rightarrow> harness_error + agent_harness_unit" where
  "started_unit unit_id turn_id now u =
     try_then (ensure_unit_accepts_turn_mutation u) (\<lambda>_.
     case hm_active_turn_id (hu_metadata u) of Some active \<Rightarrow> Inl (TurnAlreadyActive unit_id active)
     | None \<Rightarrow> try_then (checked_add ''turns_started'' (hm_turns_started (hu_metadata u)) 1) (\<lambda>n.
         Inr (u\<lparr> hu_lifecycle_state := StateRunning, hu_metadata := (hu_metadata u)\<lparr> hm_active_turn_id := Some turn_id,
           hm_turns_started := n, hm_last_active_at := now \<rparr> \<rparr>)))"

definition harness_start_turn :: "agent_harness_paths \<Rightarrow> int \<Rightarrow> agent_turn_start_request \<Rightarrow> harness_store \<Rightarrow>
    harness_error + agent_harness_unit \<times> harness_store" where
  "harness_start_turn paths now q st =
     try_then (validate_turn_start_request q) (\<lambda>_. with_lock st (\<lambda>_.
     try_then (load_snapshot paths st) (\<lambda>s.
     case (case tr_turn_id q of Some i \<Rightarrow> (i, s) | None \<Rightarrow> allocate_turn_id s) of (turn_id, s1) \<Rightarrow>
     case allocate_receipt_id s1 ''turn-started'' of (receipt_id, s2) \<Rightarrow>
     try_then (find_unit s2 (tr_unit_id q)) (\<lambda>u.
     try_then (started_unit (tr_unit_id q) turn_id now u) (\<lambda>u'.
       commit_unit st s2 u' (turn_started_receipt receipt_id now turn_id u' q))))))"

definition turn_completed_receipt :: "string \<Rightarrow> int \<Rightarrow> nat \<Rightarrow> agent_harness_unit \<Rightarrow> agent_turn_complete_request \<Rightarrow> harness_receipt" where
  "turn_completed_receipt receipt_id now amount u q = \<lparr> hr_id = receipt_id, hr_at = now, hr_unit_id = tc_unit_id q,
     hr_kind = TurnCompleted, hr_summary = ''agent unit '' @ tc_unit_id q @ '' completed turn '' @ tc_turn_id q,
     hr_evidence = no_evidence\<lparr> ev_turn_id := Some (tc_turn_id q), ev_at := Some now, ev_usage := Some (tc_usage q),
       ev_accounted_total_tokens := Some amount, ev_next_state := Some (tc_next_state q),
       ev_lifecycle_state := Some (completion_lifecycle_state (tc_next_state q)),
       ev_turn_count := Some (hm_turns_completed (hu_metadata u)), ev_request_metadata := Some (tc_metadata q) \<rparr> \<rparr>"

definition completed_unit :: "agent_turn_complete_request \<Rightarrow> nat \<Rightarrow> int \<Rightarrow> agent_harness_unit \<Rightarrow> harness_error + agent_harness_unit" where
  "completed_unit q amount now u =
     try_then (ensure_unit_accepts_turn_mutation u) (\<lambda>_.
     try_then (ok_or (hm_active_turn_id (hu_metadata u)) (NoActiveTurn (tc_unit_id q))) (\<lambda>active.
     if active \<noteq> tc_turn_id q then Inl (TurnMismatch (tc_unit_id q) active (tc_turn_id q))
     else try_then (checked_add ''turns_completed'' (hm_turns_completed (hu_metadata u)) 1) (\<lambda>n.
       try_then (add_usage_to_metadata ((hu_metadata u)\<lparr> hm_active_turn_id := None, hm_turns_completed := n \<rparr>) (tc_usage q) amount) (\<lambda>m.
         Inr (u\<lparr> hu_lifecycle_state := completion_lifecycle_state (tc_next_state q),
           hu_metadata := m\<lparr> hm_last_active_at := now \<rparr> \<rparr>)))))"

definition harness_complete_turn :: "agent_harness_paths \<Rightarrow> int \<Rightarrow> agent_turn_complete_request \<Rightarrow> harness_store \<Rightarrow>
    harness_error + agent_harness_unit \<times> harness_store" where
  "harness_complete_turn paths now q st =
     try_then (validate_turn_complete_request q) (\<lambda>_. with_lock st (\<lambda>_.
     try_then (load_snapshot paths st) (\<lambda>s.
     case allocate_receipt_id s ''turn-completed'' of (receipt_id, s1) \<Rightarrow>
     try_then (accounted_total_tokens (tc_usage q)) (\<lambda>amount.
     try_then (find_unit s1 (tc_unit_id q)) (\<lambda>u.
     try_then (completed_unit q amount now u) (\<lambda>u'.
       commit_unit st s1 u' (turn_completed_receipt receipt_id now amount u' q)))))))"

section \<open>Retirement\<close>

definition retired_unit :: "string \<Rightarrow> int \<Rightarrow> agent_harness_unit \<Rightarrow> agent_harness_unit" where
  "retired_unit reason now u = u\<lparr> hu_lifecycle_state := StateRetired, hu_metadata := (hu_metadata u)\<lparr>
     hm_availability := UnitIsRetired, hm_active_turn_id := None, hm_retired_at := Some now,
     hm_retirement_reason := Some reason, hm_last_active_at := now \<rparr> \<rparr>"

definition retired_receipt :: "string \<Rightarrow> int \<Rightarrow> string \<Rightarrow> string \<Rightarrow> harness_receipt" where
  "retired_receipt receipt_id now unit_id reason = \<lparr> hr_id = receipt_id, hr_at = now, hr_unit_id = unit_id,
     hr_kind = AgentRetiredReceipt, hr_summary = ''agent unit '' @ unit_id @ '' retired'',
     hr_evidence = no_evidence\<lparr> ev_retired_at := Some now, ev_retirement_reason := Some reason,
       ev_lifecycle_state := Some StateRetired \<rparr> \<rparr>"

definition harness_retire :: "agent_harness_paths \<Rightarrow> int \<Rightarrow> string \<Rightarrow> string \<Rightarrow> harness_store \<Rightarrow>
    harness_error + agent_harness_unit \<times> harness_store" where
  "harness_retire paths now unit_id reason st =
     try_then (validate_id ''unit_id'' unit_id) (\<lambda>_. with_lock st (\<lambda>_.
     try_then (load_snapshot paths st) (\<lambda>s.
     case allocate_receipt_id s ''retired'' of (receipt_id, s1) \<Rightarrow>
     try_then (find_unit s1 unit_id) (\<lambda>u.
     if hm_availability (hu_metadata u) = UnitIsRetired then Inr (u, st)
     else commit_unit st s1 (retired_unit reason now u) (retired_receipt receipt_id now unit_id reason)))))"

section \<open>Adapter events\<close>

definition requested_event :: "string \<Rightarrow> int \<Rightarrow> adapter_event_request \<Rightarrow> adapter_event" where
  "requested_event event_id now q = redact_adapter_event_for_persistence \<lparr> ae_id = event_id, ae_at = now,
     ae_unit_id = aq_unit_id q, ae_adapter = aq_adapter q, ae_kind = aq_kind q, ae_status = aq_status q,
     ae_correlation = aq_correlation q, ae_evidence = aq_evidence q, ae_redaction = aq_redaction q \<rparr>"

definition event_receipt :: "string \<Rightarrow> adapter_event \<Rightarrow> harness_receipt" where
  "event_receipt receipt_id e = \<lparr> hr_id = receipt_id, hr_at = ae_at e, hr_unit_id = ae_unit_id e,
     hr_kind = ProofObserved, hr_summary = ''adapter event '' @ ae_id e @ '' observed'',
     hr_evidence = no_evidence\<lparr> ev_adapter_event := Some e \<rparr> \<rparr>"

definition observed_unit :: "adapter_event \<Rightarrow> agent_harness_unit \<Rightarrow> agent_harness_unit" where
  "observed_unit e u = u\<lparr> hu_adapter_events := hu_adapter_events u @ [e],
     hu_metadata := (hu_metadata u)\<lparr> hm_last_active_at := ae_at e \<rparr> \<rparr>"

definition harness_record_adapter_event :: "agent_harness_paths \<Rightarrow> int \<Rightarrow> adapter_event_request \<Rightarrow> harness_store \<Rightarrow>
    harness_error + agent_harness_unit \<times> harness_store" where
  "harness_record_adapter_event paths now q st =
     try_then (validate_adapter_event_request q) (\<lambda>_. with_lock st (\<lambda>_.
     try_then (load_snapshot paths st) (\<lambda>s.
     case allocate_adapter_event_id s of (event_id, s1) \<Rightarrow>
     case allocate_receipt_id s1 ''proof-observed'' of (receipt_id, s2) \<Rightarrow>
     let e = requested_event event_id now q in
     try_then (validate_adapter_event e) (\<lambda>_.
     try_then (find_unit s2 (ae_unit_id e)) (\<lambda>u.
       commit_unit (st\<lparr> hs_events := bt_insert (ae_unit_id e, ae_id e) e (hs_events st) \<rparr>)
         (s2\<lparr> hn_adapter_events := hn_adapter_events s2 @ [e] \<rparr>) (observed_unit e u) (event_receipt receipt_id e))))))"

section \<open>Histories\<close>

datatype harness_command =
    CallUnit agent_call_request
  | StartTurn agent_turn_start_request
  | CompleteTurn agent_turn_complete_request
  | RetireUnit string string
  | RecordEvent adapter_event_request

fun run_command :: "agent_harness_paths \<Rightarrow> int \<Rightarrow> harness_command \<Rightarrow> harness_store \<Rightarrow>
    harness_error + agent_harness_unit \<times> harness_store" where
  "run_command paths now (CallUnit q) st = harness_call paths now q st"
| "run_command paths now (StartTurn q) st = harness_start_turn paths now q st"
| "run_command paths now (CompleteTurn q) st = harness_complete_turn paths now q st"
| "run_command paths now (RetireUnit i reason) st = harness_retire paths now i reason st"
| "run_command paths now (RecordEvent q) st = harness_record_adapter_event paths now q st"

text \<open>The store after an operation: as it was when the operation fails.\<close>

definition store_after_command :: "agent_harness_paths \<Rightarrow> int \<times> harness_command \<Rightarrow> harness_store \<Rightarrow> harness_store" where
  "store_after_command paths x st = (case run_command paths (fst x) (snd x) st of Inl _ \<Rightarrow> st | Inr (_, st') \<Rightarrow> st')"

inductive harness_history :: "agent_harness_paths \<Rightarrow> int \<Rightarrow> harness_store \<Rightarrow> bool" for paths where
  history_start: "harness_history paths now empty_harness"
| history_step: "harness_history paths t st \<Longrightarrow> t \<le> now \<Longrightarrow> harness_history paths now (store_after_command paths (now, c) st)"

end
