(* ===== verification/Harness_Ids.thy ===== *)
theory Harness_Ids
  imports Harness_Ops
begin

text \<open>
  The identifiers that the harness store allocates: a number padded to twelve digits is read back from an identifier,
  the order of identifiers is the order of their numbers up to twelve digits, and the search for a free number finds
  one, so that no allocated identifier is in use.
\<close>

section \<open>Padded numbers\<close>

lemma digits_value_append:
  "digits_value n (xs @ ys) = Option.bind (digits_value n xs) (\<lambda>m. digits_value m ys)"
  by (induction n xs rule: digits_value.induct) auto

lemma byte_digit: "k < 10 \<Longrightarrow> is_ascii_digit (char_of (48 + k :: nat)) \<and> byte (char_of (48 + k :: nat)) = 48 + k"
  by (simp add: is_ascii_digit_def)

lemma digits_value_decimal: "digits_value 0 (decimal n) = Some n"
proof (induction n rule: decimal.induct)
  case (1 n)
  show ?case
  proof (cases "n < 10")
    case True
    then show ?thesis using byte_digit [of n] by (subst decimal.simps) simp
  next
    case False
    then show ?thesis using 1 byte_digit [of "n mod 10"]
      by (subst decimal.simps) (simp add: digits_value_append)
  qed
qed

lemma digits_value_zeros: "digits_value 0 (replicate k CHR ''0'' @ xs) = digits_value 0 xs"
  by (induction k) (simp_all add: is_ascii_digit_def)

lemma digits_value_padded: "digits_value 0 (padded n) = Some n"
  by (simp add: padded_def decimal_padded_def Let_def digits_value_zeros digits_value_decimal)

lemma padded_inj: "padded m = padded n \<longleftrightarrow> m = n"
  by (metis digits_value_padded option.inject)

lemma padded_digits: "c \<in> set (padded n) \<Longrightarrow> is_ascii_digit c"
  by (auto simp: padded_def decimal_padded_def Let_def is_ascii_digit_def dest: decimal_digits)

lemma length_decimal: "0 < k \<Longrightarrow> n < 10 ^ k \<Longrightarrow> length (decimal n) \<le> k"
proof (induction k arbitrary: n)
  case (Suc k)
  show ?case
  proof (cases "n < 10")
    case False
    with Suc.prems have "n div 10 < 10 ^ k" "0 < k" by (simp_all add: less_mult_imp_div_less mult.commute) (rule gr0I, simp)
    with Suc.IH [of "n div 10"] False show ?thesis by (subst decimal.simps) simp
  qed (subst decimal.simps, simp)
qed simp

lemma length_padded: "n < 10 ^ 12 \<Longrightarrow> length (padded n) = 12"
  using length_decimal [of 12 n] by (simp add: padded_def decimal_padded_def Let_def)

text \<open>Texts of digits of one length are ordered as the numbers are.\<close>

lemma digits_value_mono: "length xs = length ys \<Longrightarrow> digits_value m xs = Some a \<Longrightarrow> digits_value n ys = Some b \<Longrightarrow>
    m < n \<Longrightarrow> a < b"
proof (induction xs ys arbitrary: m n rule: list_induct2)
  case (Cons x xs y ys)
  have "byte x - 48 < 10" using Cons.prems by (auto simp: is_ascii_digit_def split: if_splits)
  with Cons.prems have "10 * m + (byte x - 48) < 10 * n + (byte y - 48)" by linarith
  with Cons show ?case by (auto split: if_splits)
qed simp

lemma digits_value_less: "length xs = length ys \<Longrightarrow> digits_value n xs = Some a \<Longrightarrow> digits_value n ys = Some b \<Longrightarrow>
    a < b \<Longrightarrow> xs < ys"
proof (induction xs ys arbitrary: n rule: list_induct2)
  case (Cons x xs y ys)
  have order: "x < y" if "byte x - 48 < byte y - 48"
    using that by (simp add: less_char_def)
  have vals: "digits_value (10 * n + (byte x - 48)) xs = Some a" "digits_value (10 * n + (byte y - 48)) ys = Some b"
    using Cons.prems by (auto split: if_splits)
  have False if "byte y - 48 < byte x - 48"
    using digits_value_mono [OF Cons.hyps [symmetric] vals(2,1)] that Cons.prems(3) by linarith
  moreover have ?case if "byte x - 48 = byte y - 48"
  proof -
    have "48 \<le> byte x" "48 \<le> byte y" using Cons.prems by (auto simp: is_ascii_digit_def split: if_splits)
    with that have "byte x = byte y" by linarith
    then have "x = y" by simp
    with Cons show ?thesis by (auto split: if_splits)
  qed
  ultimately show ?case using order by (cases "byte x - 48" "byte y - 48" rule: linorder_cases) auto
qed simp

lemma append_less: "length a = length b \<Longrightarrow> a < b \<Longrightarrow> p @ a @ x < p @ b @ (y :: 'a::linorder list)"
proof -
  have "length a = length b \<Longrightarrow> a < b \<Longrightarrow> a @ x < b @ y"
    by (induction a b rule: list_induct2) auto
  then show "length a = length b \<Longrightarrow> a < b \<Longrightarrow> p @ a @ x < p @ b @ y" by (induction p) auto
qed

lemma padded_less: "m < n \<Longrightarrow> n < 10 ^ 12 \<Longrightarrow> p @ padded m @ x < p @ padded n @ y"
  by (intro append_less digits_value_less [OF _ digits_value_padded digits_value_padded]) (simp_all add: length_padded)

section \<open>Free numbers\<close>

lemma next_free_gt: "n < next_free taken k n"
  by (induction k arbitrary: n) (auto intro: Suc_lessD)

lemma next_free_taken: "taken (next_free taken k n) \<Longrightarrow> n < m \<Longrightarrow> m \<le> n + k + 1 \<Longrightarrow> taken m"
proof (induction k arbitrary: n)
  case (Suc k)
  then show ?case by (cases "m = n + 1") (auto split: if_splits)
qed (metis Suc_leI add_0_right le_antisym next_free.simps(1) Suc_eq_plus1)

text \<open>
  A number is taken when one of its identifiers is in a list; identifiers of different numbers differ; so a search of
  as many steps as the list is long ends at a free number.
\<close>

lemma next_free_free:
  assumes used: "\<And>m. taken m \<Longrightarrow> \<exists>v\<in>F m. v \<in> set S" and apart: "\<And>m m' v. v \<in> F m \<Longrightarrow> v \<in> F m' \<Longrightarrow> m = m'"
    and steps: "length S \<le> k"
  shows "\<not> taken (next_free taken k n)"
proof
  assume "taken (next_free taken k n)"
  then have "\<forall>m\<in>{n<..n + k + 1}. \<exists>v. v \<in> F m \<and> v \<in> set S"
    using next_free_taken used by (metis greaterThanAtMost_iff)
  then obtain f where f: "\<forall>m\<in>{n<..n + k + 1}. f m \<in> F m \<and> f m \<in> set S" by metis
  then have "inj_on f {n<..n + k + 1}" using apart by (metis inj_onI)
  then have "card {n<..n + k + 1} \<le> card (set S)" using f by (intro card_inj_on_le [of f]) auto
  then show False using card_length [of S] steps by simp
qed

lemma receipt_id_at_inj: "receipt_id_at tag m = receipt_id_at tag n \<longleftrightarrow> m = n"
  by (simp add: receipt_id_at_def padded_inj)

lemma receipt_id_at_less: "m < n \<Longrightarrow> n < 10 ^ 12 \<Longrightarrow> receipt_id_at tag m < receipt_id_at tag' n"
  unfolding receipt_id_at_def by (rule padded_less)

lemma allocated_receipt_free:
  assumes "allocate_receipt_id s tag = (i, s')"
  shows "i \<notin> hr_id ` set (hn_receipts s)"
  using assms next_free_free [of "\<lambda>n. receipt_id_at tag n \<in> hr_id ` set (hn_receipts s)" "\<lambda>n. {receipt_id_at tag n}"
      "map hr_id (hn_receipts s)" "length (hn_receipts s)" "hn_generated_id_sequence s"]
  by (auto simp: allocate_receipt_id_def Let_def receipt_id_at_inj)

lemma allocated_event_free:
  assumes "allocate_adapter_event_id s = (i, s')"
  shows "i \<notin> ae_id ` set (hn_adapter_events s)"
  using assms next_free_free [of "\<lambda>n. ''agent-adapter-event-'' @ padded n \<in> ae_id ` set (hn_adapter_events s)"
      "\<lambda>n. {''agent-adapter-event-'' @ padded n}" "map ae_id (hn_adapter_events s)" "length (hn_adapter_events s)"
      "hn_generated_id_sequence s"]
  by (auto simp: allocate_adapter_event_id_def Let_def padded_inj)

lemma bt_of_list_Cons_values: "set (bt_values (bt_insert k v m)) \<subseteq> Set.insert v (set (bt_values m))"
  by (induction k v m rule: bt_insert.induct) (auto simp: bt_values_def)

lemma generated_values:
  "v \<in> set (bt_values (generated_ids (call_ids None n))) \<Longrightarrow>
     v \<in> {''agent-call-'' @ padded n, ''agent-cert-'' @ padded n, ''agent-session-'' @ padded n,
          ''agent-receipt-'' @ padded n @ ''-called'', ''agent-unit-'' @ padded n}"
  "v \<in> set (bt_values (generated_ids (call_ids (Some i) n))) \<Longrightarrow>
     v \<in> {''agent-call-'' @ padded n, ''agent-cert-'' @ padded n, ''agent-session-'' @ padded n,
          ''agent-receipt-'' @ padded n @ ''-called''}"
  by (auto simp: generated_ids_def call_ids_def bt_of_list_def bt_values_def Let_def)

definition numbered_ids :: "nat \<Rightarrow> string set" where
  "numbered_ids n = {''agent-call-'' @ padded n, ''agent-cert-'' @ padded n, ''agent-session-'' @ padded n,
     ''agent-receipt-'' @ padded n @ ''-called'', ''agent-unit-'' @ padded n}"

lemma numbered_ids_apart: "v \<in> numbered_ids m \<Longrightarrow> v \<in> numbered_ids n \<Longrightarrow> m = n"
  by (auto simp: numbered_ids_def padded_inj)

lemma allocated_call_free:
  assumes "allocate_call_ids s requested = (g, s')" "\<And>i. requested = Some i \<Longrightarrow> bt_get (hn_units s) i = None"
  shows "bt_get (hn_units s) (gi_unit_id g) = None"
    and "set (bt_values (generated_ids g)) \<inter> set (existing_generated_ids s) = {}"
proof -
  define taken where "taken = (\<lambda>n. let g = call_ids requested n in
     list_ex (\<lambda>v. v \<in> set (existing_generated_ids s)) (bt_values (generated_ids g)) \<or> bt_contains (hn_units s) (gi_unit_id g))"
  define n where "n = next_free taken (length (existing_generated_ids s) + length (hn_units s)) (hn_generated_id_sequence s)"
  have "\<not> taken n"
    unfolding n_def
  proof (rule next_free_free [where F = numbered_ids and S = "existing_generated_ids s @ map fst (hn_units s)"])
    fix m assume "taken m"
    then consider v where "v \<in> set (bt_values (generated_ids (call_ids requested m)))" "v \<in> set (existing_generated_ids s)"
      | "bt_contains (hn_units s) (gi_unit_id (call_ids requested m))"
      by (auto simp: taken_def Let_def list_ex_iff)
    then show "\<exists>v\<in>numbered_ids m. v \<in> set (existing_generated_ids s @ map fst (hn_units s))"
    proof cases
      case 1
      then have "v \<in> numbered_ids m" using generated_values by (cases requested) (force simp: numbered_ids_def)+
      with 1 show ?thesis by auto
    next
      case 2
      then have "requested = None" using assms(2) by (cases requested) (auto simp: call_ids_def bt_contains_def)
      with 2 have "''agent-unit-'' @ padded m \<in> fst ` set (hn_units s)"
        by (auto simp: call_ids_def bt_contains_def bt_get_def domIff dest: map_of_SomeD)
          (metis fst_conv image_eqI map_of_SomeD)
      then show ?thesis by (auto simp: numbered_ids_def)
    qed
  qed (auto dest: numbered_ids_apart)
  moreover have "g = call_ids requested n"
    using assms(1) by (simp add: allocate_call_ids_def Let_def n_def taken_def)
  ultimately show "bt_get (hn_units s) (gi_unit_id g) = None" "set (bt_values (generated_ids g)) \<inter> set (existing_generated_ids s) = {}"
    by (auto simp: taken_def Let_def list_ex_iff bt_contains_def)
qed

end
