(* ===== verification/Harness_Steps.thy ===== *)
theory Harness_Steps
  imports Harness_Ids
begin

text \<open>
  What the operations of the harness store do, as one step relation: a receipt takes a unit from before to after, and
  the snapshot is extended by the unit, the receipt and its event. Every operation that writes performs a step; the
  invariants and the exactness of the recovery are proved of steps.
\<close>

section \<open>Steps\<close>

inductive unit_step :: "agent_harness_paths \<Rightarrow> harness_receipt \<Rightarrow> agent_harness_unit option \<Rightarrow> agent_harness_unit \<Rightarrow> bool"
  for paths where
  step_called: "u = born_unit paths q g root now \<Longrightarrow> unit_step paths (called_receipt u g now) None u"
| step_started: "started_unit (tr_unit_id q) turn_id now u = Inr u' \<Longrightarrow>
    unit_step paths (turn_started_receipt receipt_id now turn_id u' q) (Some u) u'"
| step_completed: "accounted_total_tokens (tc_usage q) = Inr amount \<Longrightarrow> completed_unit q amount now u = Inr u' \<Longrightarrow>
    unit_step paths (turn_completed_receipt receipt_id now amount u' q) (Some u) u'"
| step_retired: "hm_availability (hu_metadata u) \<noteq> UnitIsRetired \<Longrightarrow>
    unit_step paths (retired_receipt receipt_id now unit_id reason) (Some u) (retired_unit reason now u)"
| step_observed: "redact_adapter_event_for_persistence e = e \<Longrightarrow>
    unit_step paths (event_receipt receipt_id e) (Some u) (observed_unit e u)"

text \<open>The parent of a called unit is there and not retired, and passes on its root.\<close>

definition lineage_from :: "agent_harness_snapshot \<Rightarrow> agent_harness_unit \<Rightarrow> bool" where
  "lineage_from s u = (let l = ct_lineage (hu_certificate u) in case li_parent_unit_id l of
     None \<Rightarrow> li_root_unit_id l = hu_unit_id u
   | Some p \<Rightarrow> (case bt_get (hn_units s) p of None \<Rightarrow> False | Some parent \<Rightarrow>
       hm_availability (hu_metadata parent) \<noteq> UnitIsRetired \<and> hu_lifecycle_state parent \<noteq> StateRetired \<and>
       li_root_unit_id l = (let root = li_root_unit_id (ct_lineage (hu_certificate parent)) in
         if root = [] then hu_unit_id parent else root)))"

definition receipt_events :: "harness_receipt \<Rightarrow> adapter_event list" where
  "receipt_events r = (case event_of_receipt r of None \<Rightarrow> [] | Some e \<Rightarrow> [e])"

definition event_id_at :: "nat \<Rightarrow> string" where
  "event_id_at n = ''agent-adapter-event-'' @ padded n"

definition extend_snapshot :: "agent_harness_snapshot \<Rightarrow> nat \<Rightarrow> harness_receipt \<Rightarrow> agent_harness_unit \<Rightarrow> agent_harness_snapshot" where
  "extend_snapshot s n r u = s\<lparr> hn_generated_id_sequence := n,
     hn_adapter_events := hn_adapter_events s @ receipt_events r,
     hn_units := bt_insert (hr_unit_id r) (push_receipt r u) (hn_units s), hn_receipts := hn_receipts s @ [r] \<rparr>"

definition snapshot_step :: "agent_harness_paths \<Rightarrow> agent_harness_snapshot \<Rightarrow> harness_receipt \<Rightarrow> agent_harness_snapshot \<Rightarrow> bool" where
  "snapshot_step paths s r s' \<longleftrightarrow> (\<exists>u n tag. s' = extend_snapshot s n r u \<and> hr_id r = receipt_id_at tag n \<and>
     hn_generated_id_sequence s < n \<and> unit_step paths r (bt_get (hn_units s) (hr_unit_id r)) u \<and>
     (bt_get (hn_units s) (hr_unit_id r) = None \<longrightarrow> lineage_from s u \<and> hu_unit_id u = hr_unit_id r \<and>
        set (bt_values (ct_generated_ids (hu_certificate u))) \<inter> set (existing_generated_ids s) = {}) \<and>
     (\<forall>e\<in>set (receipt_events r). ae_unit_id e = hr_unit_id r \<and> ae_at e = hr_at r \<and>
        (\<exists>k. ae_id e = event_id_at k \<and> hn_generated_id_sequence s < k \<and> k < n)) \<and>
     validate_snapshot s' = Inr ())"

definition store_step :: "harness_store \<Rightarrow> harness_receipt \<Rightarrow> agent_harness_snapshot \<Rightarrow> harness_store \<Rightarrow> bool" where
  "store_step st r s' st' \<longleftrightarrow> hs_locked st' = hs_locked st \<and> hs_file st' = StoredSnapshot s' \<and>
     hs_receipts st' = bt_insert (hr_unit_id r, hr_id r) r (hs_receipts st) \<and>
     hs_events st' = fold (\<lambda>e. bt_insert (ae_unit_id e, ae_id e) e) (receipt_events r) (hs_events st)"

section \<open>Operations perform steps\<close>

lemma require_Inr [result_simps, simp]: "require b m = Inr u \<longleftrightarrow> b"
  by (simp add: require_def)

lemma with_lock_Inr [result_simps]: "with_lock st f = Inr x \<longleftrightarrow> \<not> hs_locked st \<and> f () = Inr x"
  by (simp add: with_lock_def)

lemma redact_value_idem: "redact_value_for_persistence (redact_value_for_persistence v) = redact_value_for_persistence v"
  by (induction v rule: redact_value_for_persistence.induct) auto

lemma redact_event_idem [simp]:
  "redact_adapter_event_for_persistence (redact_adapter_event_for_persistence e) = redact_adapter_event_for_persistence e"
  by (simp add: redact_adapter_event_for_persistence_def redact_value_idem)

lemmas receipt_defs = called_receipt_def turn_started_receipt_def turn_completed_receipt_def retired_receipt_def event_receipt_def

lemma receipt_events_simps [simp]:
  "receipt_events (called_receipt u g now) = []" "receipt_events (turn_started_receipt i now t u q) = []"
  "receipt_events (turn_completed_receipt i now a u q') = []" "receipt_events (retired_receipt i now x y) = []"
  "redact_adapter_event_for_persistence e = e \<Longrightarrow> receipt_events (event_receipt i e) = [e]"
  by (simp_all add: receipt_events_def event_of_receipt_def receipt_defs no_evidence_def)

lemma allocate_receipt_step:
  "allocate_receipt_id s tag = (i, s') \<Longrightarrow> \<exists>n. i = receipt_id_at tag n \<and> hn_generated_id_sequence s < n \<and>
     s' = s\<lparr> hn_generated_id_sequence := n \<rparr>"
  by (auto simp: allocate_receipt_id_def Let_def next_free_gt)

lemma commit_step:
  assumes "commit_unit st0 s1 u r = Inr (u', st')" "hs_locked st0 = hs_locked st" "hs_receipts st0 = hs_receipts st"
    and "hs_events st0 = fold (\<lambda>e. bt_insert (ae_unit_id e, ae_id e) e) (receipt_events r) (hs_events st)"
    and "s1 = s\<lparr> hn_generated_id_sequence := n, hn_adapter_events := hn_adapter_events s @ receipt_events r \<rparr>"
  shows "validate_snapshot (extend_snapshot s n r u) = Inr ()" "store_step st r (extend_snapshot s n r u) st'"
  using assms by (auto simp: commit_unit_def Let_def result_simps extend_snapshot_def store_step_def)

lemma call_steps:
  assumes "load_snapshot paths st = Inr s" "harness_call paths now q st = Inr (u, st')"
  shows "st' = st \<or> (\<exists>r s'. hr_at r = now \<and> snapshot_step paths s r s' \<and> store_step st r s' st')"
proof (cases "Option.bind (ac_unit_id q) (bt_get (hn_units s))")
  case None
  obtain g s1 where ids: "allocate_call_ids s (ac_unit_id q) = (g, s1)" by fastforce
  with None assms obtain root where root: "root_unit_id_for_call s q = Inr root" and
      commit: "commit_unit (st\<lparr> hs_certificates := bt_insert (gi_certificate_id g)
            (hu_certificate (born_unit paths q g (case root of Some r \<Rightarrow> r | None \<Rightarrow> gi_unit_id g) now)) (hs_certificates st) \<rparr>)
          s1 (born_unit paths q g (case root of Some r \<Rightarrow> r | None \<Rightarrow> gi_unit_id g) now)
          (called_receipt (born_unit paths q g (case root of Some r \<Rightarrow> r | None \<Rightarrow> gi_unit_id g) now) g now) = Inr (u, st')"
    by (auto simp: harness_call_def call_new_unit_def result_simps Let_def)
  define v where "v = born_unit paths q g (case root of Some r \<Rightarrow> r | None \<Rightarrow> gi_unit_id g) now"
  define r where "r = called_receipt v g now"
  obtain n where n: "g = call_ids (ac_unit_id q) n" "s1 = s\<lparr> hn_generated_id_sequence := n \<rparr>" "hn_generated_id_sequence s < n"
    using ids by (auto simp: allocate_call_ids_def Let_def next_free_gt)
  have "bt_get (hn_units s) i = None" if "ac_unit_id q = Some i" for i using None that by simp
  then have fresh: "bt_get (hn_units s) (gi_unit_id g) = None" "set (bt_values (generated_ids g)) \<inter> set (existing_generated_ids s) = {}"
    by (rule allocated_call_free [OF ids]; simp)+
  have lineage: "lineage_from s v"
    using root by (auto simp: lineage_from_def v_def born_unit_def birth_certificate_def root_unit_id_for_call_def Let_def
        result_simps split: option.splits if_splits)
  have r: "hr_id r = receipt_id_at ''called'' n" "hr_unit_id r = gi_unit_id g" "receipt_events r = []"
    using n by (auto simp: r_def) (simp_all add: receipt_id_at_def called_receipt_def call_ids_def)
  have v: "hu_unit_id v = gi_unit_id g" "ct_generated_ids (hu_certificate v) = generated_ids g"
    by (simp_all add: v_def born_unit_def birth_certificate_def)
  have written: "validate_snapshot (extend_snapshot s n r v) = Inr ()" "store_step st r (extend_snapshot s n r v) st'"
    by (rule commit_step [OF commit [folded v_def, folded r_def]]; use n r in simp)+
  then have "snapshot_step paths s r (extend_snapshot s n r v)"
    unfolding snapshot_step_def using n(3) r v fresh lineage step_called [OF v_def, folded r_def]
    by (intro exI [of _ n] exI [of _ "''called''"] exI [of _ v]) simp
  with written have "snapshot_step paths s r (extend_snapshot s n r v)" "store_step st r (extend_snapshot s n r v) st'" by blast+
  moreover have "hr_at r = now" by (simp add: r_def called_receipt_def)
  ultimately show ?thesis by blast
next
  case (Some existing)
  with assms show ?thesis by (auto simp: harness_call_def result_simps split: if_splits)
qed

text \<open>The turns, the retirement and the events find their unit and keep the sequence numbers growing.\<close>

lemma update_step:
  assumes commit: "commit_unit st0 (s\<lparr> hn_generated_id_sequence := n, hn_adapter_events := hn_adapter_events s @ receipt_events r \<rparr>) u r
      = Inr (u', st')"
    and store: "hs_locked st0 = hs_locked st" "hs_receipts st0 = hs_receipts st"
      "hs_events st0 = fold (\<lambda>e. bt_insert (ae_unit_id e, ae_id e) e) (receipt_events r) (hs_events st)"
    and id: "hr_id r = receipt_id_at tag n" "hn_generated_id_sequence s < n"
    and unit: "bt_get (hn_units s) (hr_unit_id r) = Some u0" "unit_step paths r (Some u0) u"
    and event: "\<And>e. e \<in> set (receipt_events r) \<Longrightarrow> ae_unit_id e = hr_unit_id r \<and> ae_at e = hr_at r \<and>
      (\<exists>k. ae_id e = event_id_at k \<and> hn_generated_id_sequence s < k \<and> k < n)"
  shows "\<exists>s'. snapshot_step paths s r s' \<and> store_step st r s' st'"
  using commit_step [OF commit store refl] id unit event unfolding snapshot_step_def by (metis option.distinct(1))

lemma no_events: "receipt_events r = [] \<Longrightarrow>
    s\<lparr> hn_generated_id_sequence := n \<rparr> = s\<lparr> hn_generated_id_sequence := n, hn_adapter_events := hn_adapter_events s @ receipt_events r \<rparr>"
  by simp

lemma find_unit_Inr [result_simps]: "find_unit s i = Inr u \<longleftrightarrow> bt_get (hn_units s) i = Some u"
  by (simp add: find_unit_def)

lemma start_turn_steps:
  assumes "load_snapshot paths st = Inr s" "harness_start_turn paths now q st = Inr (u, st')"
  shows "\<exists>r. hr_at r = now \<and> (\<exists>s'. snapshot_step paths s r s' \<and> store_step st r s' st')"
proof -
  obtain turn_id s1 where turn: "(case tr_turn_id q of Some i \<Rightarrow> (i, s) | None \<Rightarrow> allocate_turn_id s) = (turn_id, s1)" by fastforce
  obtain i s2 where receipt: "allocate_receipt_id s1 ''turn-started'' = (i, s2)" by fastforce
  obtain k where k: "s1 = s\<lparr> hn_generated_id_sequence := k \<rparr>" "hn_generated_id_sequence s \<le> k"
  proof (cases "tr_turn_id q")
    case None
    with turn that show ?thesis by (auto simp: allocate_turn_id_def Let_def intro: less_imp_le next_free_gt)
  qed (use turn that [of "hn_generated_id_sequence s"] in simp)
  obtain n where n: "i = receipt_id_at ''turn-started'' n" "k < n" "s2 = s1\<lparr> hn_generated_id_sequence := n \<rparr>"
    using allocate_receipt_step [OF receipt] k by auto
  obtain u0 u' where unit: "bt_get (hn_units s) (tr_unit_id q) = Some u0" "started_unit (tr_unit_id q) turn_id now u0 = Inr u'"
      and commit: "commit_unit st s2 u' (turn_started_receipt i now turn_id u' q) = Inr (u, st')"
    using assms turn receipt k n by (auto simp: harness_start_turn_def result_simps)
  define r where "r = turn_started_receipt i now turn_id u' q"
  have r: "hr_id r = i" "hr_unit_id r = tr_unit_id q" "hr_at r = now" "receipt_events r = []"
    by (auto simp: r_def) (simp_all add: turn_started_receipt_def)
  have "\<exists>s'. snapshot_step paths s r s' \<and> store_step st r s' st'"
    by (rule update_step [where tag = "''turn-started''" and n = n and u = u' and u' = u and ?u0.0 = u0 and ?st0.0 = st])
      (use commit [folded r_def] unit n k r step_started [OF unit(2), of paths i, folded r_def] in simp_all)
  with r show ?thesis by blast
qed

lemma complete_turn_steps:
  assumes "load_snapshot paths st = Inr s" "harness_complete_turn paths now q st = Inr (u, st')"
  shows "\<exists>r. hr_at r = now \<and> (\<exists>s'. snapshot_step paths s r s' \<and> store_step st r s' st')"
proof -
  obtain i s2 where receipt: "allocate_receipt_id s ''turn-completed'' = (i, s2)" by fastforce
  obtain n where n: "i = receipt_id_at ''turn-completed'' n" "hn_generated_id_sequence s < n" "s2 = s\<lparr> hn_generated_id_sequence := n \<rparr>"
    using allocate_receipt_step [OF receipt] by auto
  obtain amount u0 u' where unit: "bt_get (hn_units s) (tc_unit_id q) = Some u0"
      "accounted_total_tokens (tc_usage q) = Inr amount" "completed_unit q amount now u0 = Inr u'"
      and commit: "commit_unit st s2 u' (turn_completed_receipt i now amount u' q) = Inr (u, st')"
    using assms receipt n by (auto simp: harness_complete_turn_def result_simps)
  define r where "r = turn_completed_receipt i now amount u' q"
  have r: "hr_id r = i" "hr_unit_id r = tc_unit_id q" "hr_at r = now" "receipt_events r = []"
    by (auto simp: r_def) (simp_all add: turn_completed_receipt_def)
  have "\<exists>s'. snapshot_step paths s r s' \<and> store_step st r s' st'"
    by (rule update_step [where tag = "''turn-completed''" and n = n and u = u' and u' = u and ?u0.0 = u0 and ?st0.0 = st])
      (use commit [folded r_def] unit n r step_completed [OF unit(2,3), of paths i, folded r_def] in simp_all)
  with r show ?thesis by blast
qed

lemma retire_steps:
  assumes "load_snapshot paths st = Inr s" "harness_retire paths now unit_id reason st = Inr (u, st')"
  shows "st' = st \<or> (\<exists>r. hr_at r = now \<and> (\<exists>s'. snapshot_step paths s r s' \<and> store_step st r s' st'))"
proof -
  obtain i s2 where receipt: "allocate_receipt_id s ''retired'' = (i, s2)" by fastforce
  obtain n where n: "i = receipt_id_at ''retired'' n" "hn_generated_id_sequence s < n" "s2 = s\<lparr> hn_generated_id_sequence := n \<rparr>"
    using allocate_receipt_step [OF receipt] by auto
  obtain u0 where unit: "bt_get (hn_units s) unit_id = Some u0" and
      rest: "(if hm_availability (hu_metadata u0) = UnitIsRetired then Inr (u0, st)
        else commit_unit st s2 (retired_unit reason now u0) (retired_receipt i now unit_id reason)) = Inr (u, st')"
    using assms receipt n by (auto simp: harness_retire_def result_simps)
  show ?thesis
  proof (cases "hm_availability (hu_metadata u0) = UnitIsRetired")
    case False
    define r where "r = retired_receipt i now unit_id reason"
    have r: "hr_id r = i" "hr_unit_id r = unit_id" "hr_at r = now" "receipt_events r = []"
      by (auto simp: r_def) (simp_all add: retired_receipt_def)
    have "\<exists>s'. snapshot_step paths s r s' \<and> store_step st r s' st'"
      by (rule update_step [where tag = "''retired''" and n = n and u = "retired_unit reason now u0" and u' = u and ?u0.0 = u0 and ?st0.0 = st])
        (use rest [folded r_def] False unit n r step_retired [OF False, of paths i now unit_id reason, folded r_def] in simp_all)
    with r show ?thesis by blast
  qed (use rest in simp)
qed

lemma record_event_steps:
  assumes "load_snapshot paths st = Inr s" "harness_record_adapter_event paths now q st = Inr (u, st')"
  shows "\<exists>r. hr_at r = now \<and> (\<exists>s'. snapshot_step paths s r s' \<and> store_step st r s' st')"
proof -
  obtain i s1 where event: "allocate_adapter_event_id s = (i, s1)" by fastforce
  obtain j s2 where receipt: "allocate_receipt_id s1 ''proof-observed'' = (j, s2)" by fastforce
  obtain k where k: "i = event_id_at k" "hn_generated_id_sequence s < k" "s1 = s\<lparr> hn_generated_id_sequence := k \<rparr>"
    using event by (auto simp: allocate_adapter_event_id_def Let_def event_id_at_def next_free_gt)
  obtain n where n: "j = receipt_id_at ''proof-observed'' n" "k < n" "s2 = s\<lparr> hn_generated_id_sequence := n \<rparr>"
    using allocate_receipt_step [OF receipt] k by auto
  define e where "e = requested_event i now q"
  have e: "redact_adapter_event_for_persistence e = e" "ae_id e = i" "ae_at e = now"
    by (simp_all add: e_def requested_event_def) (simp_all add: redact_adapter_event_for_persistence_def)
  obtain u0 where unit: "bt_get (hn_units s) (ae_unit_id e) = Some u0" and
      commit: "commit_unit (st\<lparr> hs_events := bt_insert (ae_unit_id e, ae_id e) e (hs_events st) \<rparr>)
         (s2\<lparr> hn_adapter_events := hn_adapter_events s2 @ [e] \<rparr>) (observed_unit e u0) (event_receipt j e) = Inr (u, st')"
    using assms event receipt k n by (auto simp: harness_record_adapter_event_def result_simps Let_def e_def)
  define r where "r = event_receipt j e"
  have r: "hr_id r = j" "hr_unit_id r = ae_unit_id e" "hr_at r = now" "receipt_events r = [e]"
    using e by (auto simp: r_def) (simp_all add: event_receipt_def)
  have "\<exists>s'. snapshot_step paths s r s' \<and> store_step st r s' st'"
    by (rule update_step [where tag = "''proof-observed''" and n = n and u = "observed_unit e u0" and u' = u and ?u0.0 = u0
          and ?st0.0 = "st\<lparr> hs_events := bt_insert (ae_unit_id e, ae_id e) e (hs_events st) \<rparr>"])
      (use commit [folded r_def] unit n k r e step_observed [OF e(1), of paths j, folded r_def] in auto)
  with r show ?thesis by blast
qed

lemma command_steps:
  assumes "load_snapshot paths st = Inr s" "run_command paths now c st = Inr (u, st')"
  shows "st' = st \<or> (\<exists>r s'. hr_at r = now \<and> snapshot_step paths s r s' \<and> store_step st r s' st')"
  using assms call_steps start_turn_steps complete_turn_steps retire_steps record_event_steps by (cases c; simp; metis)

end
