(* ===== verification/Harness_Invariants.thy ===== *)
theory Harness_Invariants
  imports Harness_Steps
begin

text \<open>
  The invariants of the harness store: a run of steps from the empty snapshot, what its files hold, the lifecycle of a
  unit, the accounting of its usage, and the lineage of the units.
\<close>

section \<open>Runs\<close>

inductive snapshot_run :: "agent_harness_paths \<Rightarrow> int \<Rightarrow> agent_harness_snapshot \<Rightarrow> bool" for paths where
  run_start: "snapshot_run paths t empty_snapshot"
| run_step: "snapshot_run paths t s \<Longrightarrow> t \<le> hr_at r \<Longrightarrow> hr_at r \<le> t' \<Longrightarrow> snapshot_step paths s r s' \<Longrightarrow> snapshot_run paths t' s'"

inductive_cases snapshot_runE: "snapshot_run paths t s"

lemma snapshot_run_later: "snapshot_run paths t s \<Longrightarrow> t \<le> t' \<Longrightarrow> snapshot_run paths t' s"
  by (induction rule: snapshot_run.induct) (auto intro: snapshot_run.intros)

text \<open>The files of a store: the snapshot is written when there is a receipt.\<close>

definition stored :: "agent_harness_snapshot \<Rightarrow> harness_store \<Rightarrow> bool" where
  "stored s st \<longleftrightarrow> \<not> hs_locked st \<and>
     hs_file st = (if hn_receipts s = [] then NoStore else StoredSnapshot s) \<and> (hn_receipts s = [] \<longrightarrow> s = empty_snapshot) \<and>
     hs_receipts st = bt_of_list (map (\<lambda>r. ((hr_unit_id r, hr_id r), r)) (hn_receipts s)) \<and>
     hs_events st = bt_of_list (map (\<lambda>e. ((ae_unit_id e, ae_id e), e)) (hn_adapter_events s))"

lemma stored_empty: "stored empty_snapshot empty_harness"
  by (simp add: stored_def empty_snapshot_def empty_harness_def bt_of_list_def)

lemma stored_step:
  assumes "stored s st" "snapshot_step paths s r s'" "store_step st r s' st'"
  shows "stored s' st'"
proof -
  have "fold (\<lambda>e. bt_insert (ae_unit_id e, ae_id e) e) es (bt_of_list (map (\<lambda>e. ((ae_unit_id e, ae_id e), e)) xs)) =
      bt_of_list (map (\<lambda>e. ((ae_unit_id e, ae_id e), e)) (xs @ es))" for es xs
    by (simp add: bt_of_list_def fold_map comp_def)
  with assms show ?thesis
    by (auto simp: stored_def snapshot_step_def store_step_def extend_snapshot_def bt_of_list_snoc)
qed

section \<open>Validated snapshots\<close>

lemma step_validated: "snapshot_step paths s r s' \<Longrightarrow> validate_snapshot s' = Inr ()"
  by (auto simp: snapshot_step_def)

lemma run_validated: "snapshot_run paths t s \<Longrightarrow> validate_snapshot s = Inr ()"
  by (erule snapshot_run.cases) (simp add: validate_snapshot_def empty_snapshot_def require_def, simp add: step_validated)

lemma check_each_Inr: "check_each f xs = Inr () \<longleftrightarrow> (\<forall>x\<in>set xs. f x = Inr ())"
  by (induction xs) (auto simp: result_simps)

lemma check_units_Inr: "check_units units seen xs = Inr () \<Longrightarrow> x \<in> set xs \<Longrightarrow> \<exists>seen' seen''. check_unit units seen' x = Inr seen''"
  by (induction xs arbitrary: seen) (auto simp: result_simps)

lemma check_receipts_Inr:
  "check_receipts seen rs = Inr () \<Longrightarrow> distinct (map hr_id rs) \<and> set (map hr_id rs) \<inter> set seen = {} \<and> (\<forall>r\<in>set rs. valid_id (hr_id r))"
  by (induction rs arbitrary: seen) (fastforce simp: result_simps validate_id_def split: if_splits)+

text \<open>What the validation says of one unit.\<close>

lemma validated_unit:
  assumes "validate_snapshot s = Inr ()" "(i, u) \<in> set (hn_units s)"
  shows "hu_unit_id u = i" "ct_unit_id (hu_certificate u) = i" "valid_id i" "li_root_unit_id (ct_lineage (hu_certificate u)) \<noteq> []"
    "hm_turns_completed (hu_metadata u) \<le> hm_turns_started (hu_metadata u)"
    "\<And>p. li_parent_unit_id (ct_lineage (hu_certificate u)) = Some p \<Longrightarrow> p \<noteq> i \<and> bt_contains (hn_units s) p"
    "\<And>e. e \<in> set (hu_adapter_events u) \<Longrightarrow> ae_unit_id e = i"
proof -
  have "check_units (hn_units s) [] (hn_units s) = Inr ()" using assms(1) by (simp add: validate_snapshot_def result_simps)
  from check_units_Inr [OF this assms(2)] obtain seen seen' where "check_unit (hn_units s) seen (i, u) = Inr seen'" by blast
  then show "hu_unit_id u = i" "ct_unit_id (hu_certificate u) = i" "valid_id i" "li_root_unit_id (ct_lineage (hu_certificate u)) \<noteq> []"
    "hm_turns_completed (hu_metadata u) \<le> hm_turns_started (hu_metadata u)"
    "\<And>p. li_parent_unit_id (ct_lineage (hu_certificate u)) = Some p \<Longrightarrow> p \<noteq> i \<and> bt_contains (hn_units s) p"
    "\<And>e. e \<in> set (hu_adapter_events u) \<Longrightarrow> ae_unit_id e = i"
    by (auto simp: check_unit_def check_lineage_def Let_def result_simps check_each_Inr validate_id_def split: if_splits)
qed

lemma validated_event:
  assumes "validate_snapshot s = Inr ()" "e \<in> set (hn_adapter_events s)"
  shows "bt_contains (hn_units s) (ae_unit_id e)" "redacted_below (ae_evidence e)"
proof -
  have "check_events units seen es = Inr () \<Longrightarrow> e \<in> set es \<Longrightarrow> bt_contains units (ae_unit_id e) \<and> validate_adapter_event e = Inr ()" for units seen es
    by (induction es arbitrary: seen) (auto simp: result_simps split: if_splits)
  with assms show "bt_contains (hn_units s) (ae_unit_id e)" "redacted_below (ae_evidence e)"
    by (auto simp: validate_snapshot_def result_simps validate_adapter_event_def validate_redacted_value_def)
qed

section \<open>Units along a run\<close>

lemma run_wf: "snapshot_run paths t s \<Longrightarrow> bt_wf (hn_units s)"
  by (induction rule: snapshot_run.induct) (auto simp: empty_snapshot_def snapshot_step_def extend_snapshot_def)

lemmas unit_step_defs = born_unit_def birth_certificate_def metadata_from_request_def started_unit_def completed_unit_def
  retired_unit_def observed_unit_def add_usage_to_metadata_def push_receipt_def receipt_defs

lemma step_units:
  assumes "snapshot_step paths s r s'" "bt_wf (hn_units s)"
  shows "\<exists>u. unit_step paths r (bt_get (hn_units s) (hr_unit_id r)) u \<and>
    (\<forall>i. bt_get (hn_units s') i = (if i = hr_unit_id r then Some (push_receipt r u) else bt_get (hn_units s) i))"
  using assms by (auto simp: snapshot_step_def extend_snapshot_def)

text \<open>An invariant of the units: what steps keep of a unit, with the receipts that it has.\<close>

lemma unit_invariant:
  assumes run: "snapshot_run paths t s" and unit: "bt_get (hn_units s) i = Some u"
    and born: "\<And>r v. unit_step paths r None v \<Longrightarrow> P (push_receipt r v)"
    and kept: "\<And>r u v. unit_step paths r (Some u) v \<Longrightarrow> P u \<Longrightarrow> P (push_receipt r v)"
  shows "P u"
  using run unit
proof (induction arbitrary: u)
  case (run_step t s r t' s')
  from step_units [OF run_step.hyps(4) run_wf [OF run_step.hyps(1)]] obtain v where
    v: "unit_step paths r (bt_get (hn_units s) (hr_unit_id r)) v"
      "bt_get (hn_units s') i = (if i = hr_unit_id r then Some (push_receipt r v) else bt_get (hn_units s) i)" by blast
  show ?case
  proof (cases "i = hr_unit_id r")
    case True
    with v run_step.prems run_step.IH show ?thesis
      by (cases "bt_get (hn_units s) i") (auto intro: born kept)
  qed (use v run_step in simp)
qed (simp add: empty_snapshot_def)

definition lineage_agrees :: "agent_harness_unit \<Rightarrow> bool" where
  "lineage_agrees u \<longleftrightarrow> hm_parent_unit_id (hu_metadata u) = li_parent_unit_id (ct_lineage (hu_certificate u)) \<and>
     hm_spawn_request_id (hu_metadata u) = li_spawn_request_id (ct_lineage (hu_certificate u))"

lemma run_lineage_agrees: "snapshot_run paths t s \<Longrightarrow> bt_get (hn_units s) i = Some u \<Longrightarrow> lineage_agrees u"
  by (erule (1) unit_invariant; erule unit_step.cases)
    (auto simp: lineage_agrees_def unit_step_defs result_simps Let_def split: option.splits if_splits)

section \<open>Loading what was stored\<close>

lemma normalize_agreeing:
  assumes "li_root_unit_id (ct_lineage (hu_certificate u)) \<noteq> []" "lineage_agrees u"
  shows "normalize_unit units (i, u) = (i, u)"
  using assms by (simp add: normalize_unit_def normalized_lineage_def Let_def lineage_agrees_def or_else_def split: option.splits)

lemma run_normalized: "snapshot_run paths t s \<Longrightarrow> normalize_snapshot_legacy_fields s = s"
  unfolding normalize_snapshot_legacy_fields_def
  by (subst map_idI) (auto intro!: normalize_agreeing
      dest: validated_unit(4) [OF run_validated] run_lineage_agrees bt_entries_get [OF run_wf, THEN iffD1])

lemma load_stored:
  assumes "snapshot_run paths t s" "stored s st"
  shows "load_snapshot paths st = Inr s"
  using assms by (auto simp: stored_def load_snapshot_def read_snapshot_def Let_def run_normalized run_validated)

text \<open>A history of operations is a run of steps.\<close>

lemma history_run: "harness_history paths t st \<Longrightarrow> \<exists>s. snapshot_run paths t s \<and> stored s st"
proof (induction rule: harness_history.induct)
  case (history_start now)
  show ?case using run_start stored_empty by blast
next
  case (history_step t st now c)
  then obtain s where s: "snapshot_run paths t s" "stored s st" by blast
  note load = load_stored [OF s]
  show ?case
  proof (cases "run_command paths now c st")
    case (Inl e)
    with s history_step show ?thesis by (auto simp: store_after_command_def intro: snapshot_run_later)
  next
    case (Inr x)
    then obtain u st' where x: "run_command paths now c st = Inr (u, st')" by (cases x) auto
    then have "store_after_command paths (now, c) st = st'" by (simp add: store_after_command_def)
    with command_steps [OF load x] s history_step show ?thesis
      by (auto intro: snapshot_run_later run_step stored_step)
  qed
qed

end
