(* ===== verification/Harness_Replay.thy ===== *)
theory Harness_Replay
  imports Harness_Invariants "HOL-Library.Multiset"
begin

text \<open>
  The recovery of the harness store is exact: what the replay makes of the receipts and events on disk is the snapshot
  that the operations wrote. The replay of the receipts alone gives the units without their events; the replay of the
  events completes them; the order of the files is the order in which they were written as long as the clock does not
  go back and the numbers have twelve digits.
\<close>

section \<open>Replaying receipts\<close>

definition strip_unit :: "agent_harness_unit \<Rightarrow> int \<Rightarrow> agent_harness_unit" where
  "strip_unit u t = u\<lparr> hu_adapter_events := [], hu_metadata := (hu_metadata u)\<lparr> hm_last_active_at := t \<rparr> \<rparr>"

text \<open>A unit before the replay of its events, against the unit itself.\<close>

definition base_unit :: "int \<Rightarrow> agent_harness_unit \<Rightarrow> agent_harness_unit \<Rightarrow> bool" where
  "base_unit t u0 u \<longleftrightarrow> (\<exists>b. u0 = strip_unit u b \<and>
     hm_last_active_at (hu_metadata u) = fold max (map ae_at (hu_adapter_events u)) b) \<and>
     hm_last_active_at (hu_metadata u) \<le> t"

lemma fold_max_le: "fold max xs b \<le> t \<longleftrightarrow> b \<le> t \<and> (\<forall>x\<in>set xs. x \<le> (t :: 'a::linorder))"
  by (induction xs arbitrary: b) auto

lemma fold_max_absorb: "(\<And>x. x \<in> set xs \<Longrightarrow> x \<le> b) \<Longrightarrow> fold max xs b = (b :: 'a::linorder)"
  by (induction xs arbitrary: b) (auto simp: max_def)

lemma base_events: "base_unit t u0 u \<Longrightarrow> e \<in> set (hu_adapter_events u) \<Longrightarrow> ae_at e \<le> t"
  by (auto simp: base_unit_def fold_max_le)

text \<open>A step that sets the time of the last activity and keeps the events.\<close>

lemma base_unitI:
  assumes "base_unit t u0 u" "hu_adapter_events v = hu_adapter_events u" "hm_last_active_at (hu_metadata v) = t'" "t \<le> t'"
  shows "base_unit t' (strip_unit v t') v"
proof -
  have "ae_at e \<le> t'" if "e \<in> set (hu_adapter_events v)" for e
    using base_events [OF assms(1), of e] that assms(2,4) by simp
  then have "fold max (map ae_at (hu_adapter_events v)) t' = t'" by (intro fold_max_absorb) auto
  with assms(3) show ?thesis by (auto simp: base_unit_def)
qed

lemma base_unit_obtain:
  assumes "base_unit t u0 u" obtains b where "u0 = strip_unit u b"
  using assms by (auto simp: base_unit_def)

lemma strip_unit_simps [simp]:
  "hu_metadata (strip_unit u b) = (hu_metadata u)\<lparr> hm_last_active_at := b \<rparr>" "hu_lifecycle_state (strip_unit u b) = hu_lifecycle_state u"
  "hu_unit_id (strip_unit u b) = hu_unit_id u" "hu_adapter_events (strip_unit u b) = []"
  by (simp_all add: strip_unit_def)

lemma replay_started:
  assumes "started_unit (tr_unit_id q) turn_id now u = Inr v" "base_unit t u0 u" "t \<le> now"
  shows "replay_turn_started u0 (turn_started_receipt i now turn_id v q) = Inr (strip_unit v now)"
    and "base_unit now (strip_unit v now) v"
proof -
  obtain b where b: "u0 = strip_unit u b" by (rule base_unit_obtain [OF assms(2)])
  show "replay_turn_started u0 (turn_started_receipt i now turn_id v q) = Inr (strip_unit v now)"
    using assms(1) by (auto simp: b started_unit_def replay_turn_started_def turn_started_receipt_def replay_field_def
        ensure_unit_accepts_turn_mutation_def result_simps no_evidence_def strip_unit_def split: option.splits if_splits)
  show "base_unit now (strip_unit v now) v"
    by (rule base_unitI [OF assms(2)]) (use assms in \<open>auto simp: started_unit_def result_simps split: option.splits\<close>)
qed

lemma replay_completed:
  assumes amount: "accounted_total_tokens (tc_usage q) = Inr amount" and step: "completed_unit q amount now u = Inr v"
    and base: "base_unit t u0 u" "t \<le> now"
  shows "replay_turn_completed u0 (turn_completed_receipt i now amount v q) = Inr (strip_unit v now)"
    and "base_unit now (strip_unit v now) v"
proof -
  obtain b where b: "u0 = strip_unit u b" by (rule base_unit_obtain [OF base(1)])
  have "completion_lifecycle_state (tc_next_state q) \<in> {StateReady, StateWaiting, StateDone}"
    by (cases "tc_next_state q") auto
  with step amount show "replay_turn_completed u0 (turn_completed_receipt i now amount v q) = Inr (strip_unit v now)"
    by (auto simp: b completed_unit_def replay_turn_completed_def turn_completed_receipt_def replay_field_def Let_def
        ensure_unit_accepts_turn_mutation_def result_simps no_evidence_def add_usage_to_metadata_def strip_unit_def split: if_splits)
  show "base_unit now (strip_unit v now) v"
    by (rule base_unitI [OF base(1)]) (use step base(2) in \<open>auto simp: completed_unit_def add_usage_to_metadata_def result_simps split: if_splits\<close>)
qed

lemma replay_retired_unit:
  assumes "base_unit t u0 u" "t \<le> now"
  shows "replay_retired u0 (retired_receipt i now x reason) = strip_unit (retired_unit reason now u) now"
    and "base_unit now (strip_unit (retired_unit reason now u) now) (retired_unit reason now u)"
proof -
  obtain b where b: "u0 = strip_unit u b" by (rule base_unit_obtain [OF assms(1)])
  show "replay_retired u0 (retired_receipt i now x reason) = strip_unit (retired_unit reason now u) now"
    by (simp add: b replay_retired_def retired_receipt_def retired_unit_def strip_unit_def no_evidence_def or_else_def)
  show "base_unit now (strip_unit (retired_unit reason now u) now) (retired_unit reason now u)"
    by (rule base_unitI [OF assms(1)]) (use assms(2) in \<open>simp_all add: retired_unit_def\<close>)
qed

lemma replay_observed:
  assumes "base_unit t u0 u" "t \<le> ae_at e"
  shows "base_unit (ae_at e) u0 (observed_unit e u)"
proof -
  obtain b where b: "u0 = strip_unit u b" "hm_last_active_at (hu_metadata u) = fold max (map ae_at (hu_adapter_events u)) b"
      "hm_last_active_at (hu_metadata u) \<le> t" using assms(1) by (auto simp: base_unit_def)
  then have "fold max (map ae_at (hu_adapter_events u @ [e])) b = ae_at e" using assms(2) by simp
  with b show ?thesis unfolding base_unit_def by (auto simp: observed_unit_def strip_unit_def intro!: exI [of _ b])
qed

lemma base_push: "base_unit t u0 u \<Longrightarrow> base_unit t (push_receipt r u0) (push_receipt r u)"
proof -
  have "push_receipt r (strip_unit u b) = strip_unit (push_receipt r u) b" for b
    by (cases u) (simp add: push_receipt_def strip_unit_def)
  then show "base_unit t u0 u \<Longrightarrow> base_unit t (push_receipt r u0) (push_receipt r u)"
    by (auto simp: base_unit_def) (auto simp: push_receipt_def)
qed

lemma replay_born:
  assumes "u = born_unit paths q g root now"
  shows "replay_called paths (called_receipt u g now) = Inr (push_receipt (called_receipt u g now) u)" "base_unit now u u"
  using assms by (simp_all add: replay_called_def called_receipt_def no_evidence_def replay_field_def ok_or_def Let_def push_receipt_def
      born_unit_def base_unit_def metadata_from_request_def strip_unit_def)

lemma receipt_kinds [simp]:
  "hr_kind (called_receipt u g now) = AgentCalled" "hr_kind (turn_started_receipt i now t u q) = TurnStarted"
  "hr_kind (turn_completed_receipt i now a u q') = TurnCompleted" "hr_kind (retired_receipt i now x y) = AgentRetiredReceipt"
  "hr_kind (event_receipt i e) = ProofObserved"
  "hr_at (called_receipt u g now) = now" "hr_at (turn_started_receipt i now t u q) = now"
  "hr_at (turn_completed_receipt i now a u q') = now" "hr_at (retired_receipt i now x y) = now" "hr_at (event_receipt i e) = ae_at e"
  by (simp_all add: receipt_defs)

text \<open>The replay of a receipt follows the step that wrote it.\<close>

lemma replay_step:
  assumes "unit_step paths r ou v" "rel_option (base_unit t) (bt_get units (hr_unit_id r)) ou" "t \<le> hr_at r"
  shows "\<exists>v0. replay_receipt paths r units = Inr (bt_insert (hr_unit_id r) v0 units) \<and> base_unit (hr_at r) v0 (push_receipt r v)"
  using assms(1)
proof cases
  case (step_called q g root now)
  then show ?thesis using assms(2) replay_born [OF step_called(3)] base_push [OF replay_born(2) [OF step_called(3)], of r]
    by (auto simp: replay_receipt_def Let_def)
next
  case (step_started q turn_id now u i)
  with assms(2) obtain u0 where u0: "bt_get units (hr_unit_id r) = Some u0" "base_unit t u0 u"
    by (auto simp: option_rel_Some2)
  with step_started assms(3) replay_started(1) [OF step_started(3) u0(2), of i] replay_started(2) [OF step_started(3) u0(2)] show ?thesis
    by (auto simp: replay_receipt_def Let_def ok_or_def intro!: base_push)
next
  case (step_completed q amount now u i)
  with assms(2) obtain u0 where u0: "bt_get units (hr_unit_id r) = Some u0" "base_unit t u0 u"
    by (auto simp: option_rel_Some2)
  with step_completed assms(3) replay_completed(1) [OF step_completed(3,4) u0(2), of i] replay_completed(2) [OF step_completed(3,4) u0(2)] show ?thesis
    by (auto simp: replay_receipt_def Let_def ok_or_def intro!: base_push)
next
  case (step_retired u i now unit_id reason)
  with assms(2) obtain u0 where u0: "bt_get units (hr_unit_id r) = Some u0" "base_unit t u0 u"
    by (auto simp: option_rel_Some2)
  with step_retired assms(3) replay_retired_unit(1) [OF u0(2), of now i unit_id reason] replay_retired_unit(2) [OF u0(2), of now reason] show ?thesis
    by (auto simp: replay_receipt_def Let_def ok_or_def intro!: base_push)
next
  case (step_observed e i u)
  with assms(2) obtain u0 where u0: "bt_get units (hr_unit_id r) = Some u0" "base_unit t u0 u"
    by (auto simp: option_rel_Some2)
  with step_observed assms(3) replay_observed [OF u0(2), of e] show ?thesis
    by (auto simp: replay_receipt_def Let_def ok_or_def intro!: base_push)
qed

lemma replay_receipts_append: "replay_receipts paths (xs @ ys) units = try_then (replay_receipts paths xs units) (replay_receipts paths ys)"
  by (induction xs arbitrary: units) (simp_all add: try_then_def split: sum.splits)

lemma replay_receipt_wf: "replay_receipt paths r units = Inr units' \<Longrightarrow> bt_wf units \<Longrightarrow> bt_wf units'"
  by (auto simp: replay_receipt_def Let_def result_simps split: if_splits option.splits)

lemma base_later: "base_unit t u0 u \<Longrightarrow> t \<le> t' \<Longrightarrow> base_unit t' u0 u"
  by (auto simp: base_unit_def)

lemma run_replay:
  "snapshot_run paths t s \<Longrightarrow> \<exists>units. replay_units_from_receipts paths (hn_receipts s) = Inr units \<and> bt_wf units \<and>
     (\<forall>i. rel_option (base_unit t) (bt_get units i) (bt_get (hn_units s) i))"
proof (induction rule: snapshot_run.induct)
  case (run_step t s r t' s')
  then obtain units where units: "replay_receipts paths (hn_receipts s) [] = Inr units" "bt_wf units"
      "\<And>i. rel_option (base_unit t) (bt_get units i) (bt_get (hn_units s) i)"
    by (auto simp: replay_units_from_receipts_def)
  obtain v where v: "unit_step paths r (bt_get (hn_units s) (hr_unit_id r)) v"
      "\<And>i. bt_get (hn_units s') i = (if i = hr_unit_id r then Some (push_receipt r v) else bt_get (hn_units s) i)"
    using step_units [OF run_step.hyps(4) run_wf [OF run_step.hyps(1)]] by blast
  obtain v0 where v0: "replay_receipt paths r units = Inr (bt_insert (hr_unit_id r) v0 units)" "base_unit (hr_at r) v0 (push_receipt r v)"
    using replay_step [OF v(1) units(3) run_step.hyps(2)] by blast
  have "hn_receipts s' = hn_receipts s @ [r]" using run_step.hyps(4) by (auto simp: snapshot_step_def extend_snapshot_def)
  then have "replay_units_from_receipts paths (hn_receipts s') = Inr (bt_insert (hr_unit_id r) v0 units)"
    by (simp add: replay_units_from_receipts_def replay_receipts_append units(1) v0(1))
  moreover have "rel_option (base_unit t') (bt_get (bt_insert (hr_unit_id r) v0 units) i) (bt_get (hn_units s') i)" for i
    using units(2) v(2) v0(2) run_step.hyps(2,3) units(3) [of i]
    by (auto intro: base_later elim!: option.rel_mono_strong)
  ultimately show ?case using units(2) by (auto intro!: exI [of _ "bt_insert (hr_unit_id r) v0 units"])
qed (simp add: empty_snapshot_def replay_units_from_receipts_def)

end
