(* ===== verification/Harness_Recovery.thy ===== *)
theory Harness_Recovery
  imports Harness_Replay
begin

text \<open>
  The recovery of the harness store is exact: the order of the receipts and events on disk is that of their writing, so
  their replay is the snapshot of the run.
\<close>

section \<open>Order\<close>

definition numbered :: "nat \<Rightarrow> harness_receipt \<Rightarrow> bool" where
  "numbered n r \<longleftrightarrow> (\<exists>tag. hr_id r = receipt_id_at tag n)"

definition receipt_before :: "nat \<Rightarrow> harness_receipt \<Rightarrow> harness_receipt \<Rightarrow> bool" where
  "receipt_before m r r' \<longleftrightarrow> hr_at r \<le> hr_at r' \<and> (\<exists>n n'. numbered n r \<and> numbered n' r' \<and> n < n' \<and> n' \<le> m)"

definition event_before :: "adapter_event \<Rightarrow> adapter_event \<Rightarrow> bool" where
  "event_before e e' \<longleftrightarrow> ae_at e \<le> ae_at e' \<and> (\<exists>k k'. ae_id e = event_id_at k \<and> ae_id e' = event_id_at k' \<and> k < k')"

lemma sorted_wrt_weaken: "sorted_wrt P xs \<Longrightarrow> (\<And>x y. x \<in> set xs \<Longrightarrow> y \<in> set xs \<Longrightarrow> P x y \<Longrightarrow> Q x y) \<Longrightarrow> sorted_wrt Q xs"
  by (induction xs) auto

lemma step_extends:
  assumes "snapshot_step paths s r s'"
  obtains n where "numbered n r" "hn_generated_id_sequence s < n" "hn_generated_id_sequence s' = n"
    "hn_receipts s' = hn_receipts s @ [r]" "hn_adapter_events s' = hn_adapter_events s @ receipt_events r"
    "\<forall>e\<in>set (receipt_events r). ae_unit_id e = hr_unit_id r \<and> ae_at e = hr_at r \<and>
       (\<exists>k. ae_id e = event_id_at k \<and> hn_generated_id_sequence s < k \<and> k < n)"
proof -
  from assms obtain u n tag where "s' = extend_snapshot s n r u" "hr_id r = receipt_id_at tag n" "hn_generated_id_sequence s < n"
    "\<forall>e\<in>set (receipt_events r). ae_unit_id e = hr_unit_id r \<and> ae_at e = hr_at r \<and>
       (\<exists>k. ae_id e = event_id_at k \<and> hn_generated_id_sequence s < k \<and> k < n)"
    unfolding snapshot_step_def by blast
  then show ?thesis by (intro that [of n]) (auto simp: extend_snapshot_def numbered_def)
qed

lemma run_receipts_order:
  "snapshot_run paths t s \<Longrightarrow> sorted_wrt (receipt_before (hn_generated_id_sequence s)) (hn_receipts s) \<and>
     (\<forall>r\<in>set (hn_receipts s). hr_at r \<le> t \<and> (\<exists>n\<le>hn_generated_id_sequence s. numbered n r)) \<and>
     (if hn_receipts s = [] then hn_generated_id_sequence s = 0 else numbered (hn_generated_id_sequence s) (last (hn_receipts s)))"
proof (induction rule: snapshot_run.induct)
  case (run_step t s r t' s')
  obtain n where n: "numbered n r" "hn_generated_id_sequence s < n" "hn_generated_id_sequence s' = n"
      "hn_receipts s' = hn_receipts s @ [r]"
    by (rule step_extends [OF run_step.hyps(4)])
  have "receipt_before n x r" if "x \<in> set (hn_receipts s)" for x
  proof -
    from that run_step.IH obtain k where "hr_at x \<le> t" "k \<le> hn_generated_id_sequence s" "numbered k x" by blast
    with n run_step.hyps(2) show ?thesis unfolding receipt_before_def by (meson le_less_trans order.refl order.trans)
  qed
  moreover have "sorted_wrt (receipt_before n) (hn_receipts s)"
    using conjunct1 [OF run_step.IH] by (rule sorted_wrt_weaken) (use n(2) in \<open>auto simp: receipt_before_def intro: less_imp_le le_less_trans\<close>)
  moreover have "hr_at x \<le> t' \<and> (\<exists>k\<le>n. numbered k x)" if "x \<in> set (hn_receipts s)" for x
  proof -
    from that run_step.IH obtain k where "hr_at x \<le> t" "k \<le> hn_generated_id_sequence s" "numbered k x" by blast
    with n(2) run_step.hyps(2,3) show ?thesis by (metis le_less_trans less_imp_le order.trans)
  qed
  ultimately show ?case using n run_step.hyps(3) by (auto simp: sorted_wrt_append)
qed (simp add: empty_snapshot_def)

lemma run_events_order:
  "snapshot_run paths t s \<Longrightarrow> hn_adapter_events s = concat (map receipt_events (hn_receipts s)) \<and>
     sorted_wrt event_before (hn_adapter_events s) \<and>
     (\<forall>e\<in>set (hn_adapter_events s). ae_at e \<le> t \<and> (\<exists>k\<le>hn_generated_id_sequence s. ae_id e = event_id_at k))"
proof (induction rule: snapshot_run.induct)
  case (run_step t s r t' s')
  obtain n where n: "hn_generated_id_sequence s < n" "hn_generated_id_sequence s' = n"
      "hn_receipts s' = hn_receipts s @ [r]" "hn_adapter_events s' = hn_adapter_events s @ receipt_events r"
      "\<forall>e\<in>set (receipt_events r). ae_unit_id e = hr_unit_id r \<and> ae_at e = hr_at r \<and>
         (\<exists>k. ae_id e = event_id_at k \<and> hn_generated_id_sequence s < k \<and> k < n)"
    by (rule step_extends [OF run_step.hyps(4)])
  from run_step.IH have old: "\<forall>e\<in>set (hn_adapter_events s). ae_at e \<le> t \<and> (\<exists>k\<le>hn_generated_id_sequence s. ae_id e = event_id_at k)"
    by simp
  have "event_before x e" if "x \<in> set (hn_adapter_events s)" "e \<in> set (receipt_events r)" for x e
  proof -
    from old that(1) obtain k where "ae_at x \<le> t" "ae_id x = event_id_at k" "k \<le> hn_generated_id_sequence s" by blast
    moreover from that(2) n(5) obtain k' where "ae_at e = hr_at r" "ae_id e = event_id_at k'" "hn_generated_id_sequence s < k'"
      by blast
    moreover from calculation run_step.hyps(2) have "ae_at x \<le> ae_at e" by simp
    moreover from calculation have "k < k'" by simp
    ultimately show ?thesis unfolding event_before_def by blast
  qed
  moreover have "sorted_wrt event_before (receipt_events r)"
    by (auto simp: receipt_events_def split: option.splits)
  moreover have "ae_at e \<le> t' \<and> (\<exists>k\<le>n. ae_id e = event_id_at k)" if "e \<in> set (hn_adapter_events s')" for e
  proof (cases "e \<in> set (receipt_events r)")
    case True
    with n(5) run_step.hyps(3) show ?thesis by (metis less_imp_le)
  next
    case False
    with that n(4) have "e \<in> set (hn_adapter_events s)" by auto
    with old obtain k where "ae_at e \<le> t" "k \<le> hn_generated_id_sequence s" "ae_id e = event_id_at k" by blast
    with n(1) run_step.hyps(2,3) show ?thesis by (metis le_less_trans less_imp_le order.trans)
  qed
  moreover have "sorted_wrt event_before (hn_adapter_events s')"
    using run_step.IH calculation(1,2) unfolding n(4) sorted_wrt_append by blast
  ultimately show ?case using run_step.IH n(2-4) by simp
qed (simp add: empty_snapshot_def)

lemma run_unit_events:
  "snapshot_run paths t s \<Longrightarrow> bt_get (hn_units s) i = Some u \<Longrightarrow>
     hu_adapter_events u = filter (\<lambda>e. ae_unit_id e = i) (hn_adapter_events s)"
proof (induction arbitrary: u rule: snapshot_run.induct)
  case (run_step t s r t' s')
  obtain v where v: "unit_step paths r (bt_get (hn_units s) (hr_unit_id r)) v"
      "\<And>j. bt_get (hn_units s') j = (if j = hr_unit_id r then Some (push_receipt r v) else bt_get (hn_units s) j)"
    using step_units [OF run_step.hyps(4) run_wf [OF run_step.hyps(1)]] by blast
  have new: "hn_adapter_events s' = hn_adapter_events s @ receipt_events r" "\<forall>e\<in>set (receipt_events r). ae_unit_id e = hr_unit_id r"
    by (rule step_extends [OF run_step.hyps(4)], blast)+
  show ?case
  proof (cases "i = hr_unit_id r")
    case True
    have "hu_adapter_events v = filter (\<lambda>e. ae_unit_id e = i) (hn_adapter_events s) @ receipt_events r"
    proof (cases "bt_get (hn_units s) i")
      case None
      then have "filter (\<lambda>e. ae_unit_id e = i) (hn_adapter_events s) = []"
        using validated_event(1) [OF run_validated [OF run_step.hyps(1)]] by (fastforce simp: bt_contains_def filter_empty_conv)
      moreover have "hu_adapter_events v = []" "receipt_events r = []"
        using v(1) None True by (auto simp: born_unit_def elim: unit_step.cases)
      ultimately show ?thesis by simp
    next
      case (Some w)
      with run_step.IH have w: "hu_adapter_events w = filter (\<lambda>e. ae_unit_id e = i) (hn_adapter_events s)" by simp
      from v(1) Some True have "unit_step paths r (Some w) v" by simp
      then have "hu_adapter_events v = hu_adapter_events w @ receipt_events r"
        by cases (auto simp: started_unit_def completed_unit_def retired_unit_def observed_unit_def result_simps split: option.splits if_splits)
      with w show ?thesis by simp
    qed
    with True new v(2) run_step.prems show ?thesis by (auto simp: push_receipt_def)
  next
    case False
    with new v(2) run_step show ?thesis by (auto simp: filter_empty_conv)
  qed
qed (simp add: empty_snapshot_def)

lemma run_receipts_known:
  "snapshot_run paths t s \<Longrightarrow> r \<in> set (hn_receipts s) \<Longrightarrow> bt_contains (hn_units s) (hr_unit_id r)"
proof (induction rule: snapshot_run.induct)
  case (run_step t s r' t' s')
  from step_units [OF run_step.hyps(4) run_wf [OF run_step.hyps(1)]] run_step show ?case
    by (fastforce simp: bt_contains_def snapshot_step_def extend_snapshot_def)
qed (simp add: empty_snapshot_def)

section \<open>Reading the files\<close>

lemma bt_insert_mset: "k \<notin> fst ` set m \<Longrightarrow> mset (bt_insert k v m) = add_mset (k, v) (mset m)"
  by (induction k v m rule: bt_insert.induct) auto

lemma bt_of_list_keys: "fst ` set (bt_of_list es) = fst ` set es"
proof (induction es rule: rev_induct)
  case (snoc e es)
  then show ?case by (cases e) (simp add: bt_of_list_snoc keys_bt_insert)
qed (simp add: bt_of_list_def)

lemma bt_of_list_mset: "distinct (map fst es) \<Longrightarrow> mset (bt_of_list es) = mset es"
proof (induction es rule: rev_induct)
  case (snoc e es)
  then show ?case by (cases e) (auto simp: bt_of_list_snoc bt_insert_mset bt_of_list_keys)
qed (simp add: bt_of_list_def)

lemma numbered_less: "numbered n r \<Longrightarrow> numbered n' r' \<Longrightarrow> n < n' \<Longrightarrow> n' < 10 ^ 12 \<Longrightarrow> hr_id r < hr_id r'"
  using receipt_id_at_less by (auto simp: numbered_def)

lemma event_id_at_less: "k < k' \<Longrightarrow> k' < 10 ^ 12 \<Longrightarrow> event_id_at k < event_id_at k'"
  using padded_less [of k k' "''agent-adapter-event-''" "[]" "[]"] by (simp add: event_id_at_def)

lemma receipts_sorted:
  assumes run: "snapshot_run paths t s" and bound: "hn_generated_id_sequence s < 10 ^ 12"
  shows "sorted_wrt (<) (map receipt_order (hn_receipts s))"
  unfolding sorted_wrt_map
proof (rule sorted_wrt_weaken [OF conjunct1 [OF run_receipts_order [OF run]]])
  fix r r' assume "receipt_before (hn_generated_id_sequence s) r r'"
  then obtain n n' where "hr_at r \<le> hr_at r'" "numbered n r" "numbered n' r'" "n < n'" "n' < 10 ^ 12"
    using bound by (auto simp: receipt_before_def)
  then show "receipt_order r < receipt_order r'"
    using numbered_less [of n r n' r'] by (auto simp: receipt_order_def)
qed

lemma events_sorted:
  assumes run: "snapshot_run paths t s" and bound: "hn_generated_id_sequence s < 10 ^ 12"
  shows "sorted_wrt (\<lambda>e e'. ae_id e < ae_id e' \<and> event_key e < event_key e') (hn_adapter_events s)"
proof (rule sorted_wrt_weaken [OF conjunct1 [OF conjunct2 [OF run_events_order [OF run]]]])
  fix e e' assume "e' \<in> set (hn_adapter_events s)" "event_before e e'"
  then obtain k k' where k: "ae_at e \<le> ae_at e'" "ae_id e = event_id_at k" "ae_id e' = event_id_at k'" "k < k'" "k' < 10 ^ 12"
  proof -
    from \<open>event_before e e'\<close> obtain k k' where k: "ae_at e \<le> ae_at e'" "ae_id e = event_id_at k" "ae_id e' = event_id_at k'" "k < k'"
      by (auto simp: event_before_def)
    from run_events_order [OF run] \<open>e' \<in> set (hn_adapter_events s)\<close> obtain j where
      "j \<le> hn_generated_id_sequence s" "ae_id e' = event_id_at j" by blast
    with k(3) bound have "k' < 10 ^ 12" by (simp add: event_id_at_def padded_inj)
    with k show ?thesis by (rule that)
  qed
  then have "ae_id e < ae_id e'" using event_id_at_less by simp
  with k show "ae_id e < ae_id e' \<and> event_key e < event_key e'" by (auto simp: event_key_def)
qed


lemma bt_of_list_subset: "set (bt_of_list es) \<subseteq> set es"
proof (induction es rule: rev_induct)
  case (snoc e es)
  have "set (bt_insert k v m) \<subseteq> Set.insert (k, v) (set m)" for k v and m :: "('a \<times> 'b) list"
    by (induction k v m rule: bt_insert.induct) auto
  with snoc show ?case by (cases e) (fastforce simp: bt_of_list_snoc)
qed (simp add: bt_of_list_def)

lemma run_distinct_receipts: "snapshot_run paths t s \<Longrightarrow> distinct (map hr_id (hn_receipts s))"
  using run_validated [of paths t s] check_receipts_Inr [of "[]"] by (auto simp: validate_snapshot_def result_simps)

lemma read_receipts:
  assumes run: "snapshot_run paths t s" and st: "stored s st" and bound: "hn_generated_id_sequence s < 10 ^ 12"
    and listed: "\<And>i. bt_contains (hn_units s) i \<Longrightarrow> listed_unit i"
  shows "read_receipt_artifacts st = hn_receipts s"
proof -
  let ?es = "map (\<lambda>r. ((hr_unit_id r, hr_id r), r)) (hn_receipts s)"
  have distinct: "distinct (map fst ?es)"
    using run_distinct_receipts [OF run] by (auto simp: distinct_map inj_on_def)
  have all: "filter (\<lambda>((unit_id, name), r). listed_unit unit_id) (hs_receipts st) = hs_receipts st"
    using bt_of_list_subset [of ?es] st run_receipts_known [OF run] listed
    by (intro filter_True) (auto simp: stored_def)
  have "mset (map snd (hs_receipts st)) = image_mset snd (mset (hs_receipts st))" by simp
  also have "\<dots> = mset (hn_receipts s)" using bt_of_list_mset [OF distinct] st by (simp add: stored_def image_mset.compositionality comp_def flip: mset_map)
  finally have "mset (map snd (hs_receipts st)) = mset (hn_receipts s)" .
  moreover have "sorted (map receipt_order (hn_receipts s))" "inj_on receipt_order (set (hn_receipts s))"
    using receipts_sorted [OF run bound] by (auto simp: strict_sorted_iff distinct_map)
  moreover from calculation(1) have "set (map snd (hs_receipts st)) = set (hn_receipts s)" by (rule mset_eq_setD)
  ultimately show ?thesis
    unfolding read_receipt_artifacts_def all by (intro sort_key_inj_key_eq) (simp_all only: )
qed

lemma read_events:
  assumes "stored s st" "e \<in> set (read_adapter_event_artifacts st)"
  shows "ae_id e \<in> ae_id ` set (hn_adapter_events s)"
  using assms bt_of_list_subset [of "map (\<lambda>e. ((ae_unit_id e, ae_id e), e)) (hn_adapter_events s)"]
  by (fastforce simp: read_adapter_event_artifacts_def stored_def redact_adapter_event_for_persistence_def)

section \<open>Replaying events\<close>

lemma receipts_events: "List.map_filter event_of_receipt rs = concat (map receipt_events rs)"
  by (induction rs) (auto simp: List.map_filter_def receipt_events_def)

lemma keep_events:
  "(\<And>e. e \<in> set es \<Longrightarrow> bt_contains m (ae_id e)) \<Longrightarrow>
     fold (\<lambda>e m. if bt_contains m (ae_id e) then m else bt_insert (ae_id e) e m) es m = m"
  by (induction es) auto

lemma run_events_by_id:
  assumes run: "snapshot_run paths t s" and st: "stored s st" and bound: "hn_generated_id_sequence s < 10 ^ 12"
  shows "bt_values (events_by_id (hn_receipts s) (read_adapter_event_artifacts st)) = hn_adapter_events s"
proof -
  let ?m = "map (\<lambda>e. (ae_id e, e)) (hn_adapter_events s)"
  have "sorted_wrt (<) (map fst ?m)"
    unfolding sorted_wrt_map using events_sorted [OF run bound] by (rule sorted_wrt_weaken) simp
  then have "bt_of_list ?m = ?m" by (rule bt_of_list_sorted)
  moreover have "List.map_filter event_of_receipt (hn_receipts s) = hn_adapter_events s"
    using run_events_order [OF run] by (simp add: receipts_events)
  moreover have "bt_contains ?m (ae_id e)" if "e \<in> set (read_adapter_event_artifacts st)" for e
    using read_events [OF st that] by (simp add: bt_contains_def bt_get_def map_of_eq_None_iff image_image)
  ultimately show ?thesis by (simp add: events_by_id_def keep_events bt_values_def comp_def)
qed

lemma replay_on_unit:
  "distinct (map ae_id (hu_adapter_events v @ es)) \<Longrightarrow> fold replay_event_on_unit es v =
     v\<lparr> hu_adapter_events := hu_adapter_events v @ es,
       hu_metadata := (hu_metadata v)\<lparr> hm_last_active_at := fold max (map ae_at es) (hm_last_active_at (hu_metadata v)) \<rparr> \<rparr>"
proof (induction es arbitrary: v)
  case (Cons e es)
  from Cons.prems have "ae_id e \<notin> ae_id ` set (hu_adapter_events v)" by simp
  then have "\<not> list_ex (\<lambda>x. ae_id x = ae_id e) (hu_adapter_events v)" unfolding list_ex_iff by (metis image_eqI)
  then have "replay_event_on_unit e v = v\<lparr> hu_adapter_events := hu_adapter_events v @ [e],
      hu_metadata := (hu_metadata v)\<lparr> hm_last_active_at := max (ae_at e) (hm_last_active_at (hu_metadata v)) \<rparr> \<rparr>"
    by (simp add: replay_event_on_unit_def Let_def max_def)
  with Cons show ?case by simp
qed simp

lemma replay_base:
  assumes "base_unit t u0 u" "distinct (map ae_id (hu_adapter_events u))"
  shows "fold replay_event_on_unit (hu_adapter_events u) u0 = u"
proof -
  from assms(1) obtain b where "u0 = strip_unit u b" "hm_last_active_at (hu_metadata u) = fold max (map ae_at (hu_adapter_events u)) b"
    by (auto simp: base_unit_def)
  with assms(2) show ?thesis by (simp add: replay_on_unit) (simp add: strip_unit_def)
qed

lemma replay_events:
  "bt_wf (hn_units s) \<Longrightarrow> (\<And>e. e \<in> set es \<Longrightarrow> bt_contains (hn_units s) (ae_unit_id e)) \<Longrightarrow>
     bt_wf (hn_units (fold replay_event es s)) \<and>
     (\<forall>i. bt_get (hn_units (fold replay_event es s)) i =
        map_option (fold replay_event_on_unit (filter (\<lambda>e. ae_unit_id e = i) es)) (bt_get (hn_units s) i)) \<and>
     fold replay_event es s = s\<lparr> hn_units := hn_units (fold replay_event es s), hn_adapter_events := hn_adapter_events s @ es \<rparr>"
proof (induction es arbitrary: s)
  case (Cons e es)
  then obtain u where u: "bt_get (hn_units s) (ae_unit_id e) = Some u" by (force simp: bt_contains_def)
  define s1 where "s1 = s\<lparr> hn_units := bt_insert (ae_unit_id e) (replay_event_on_unit e u) (hn_units s),
      hn_adapter_events := hn_adapter_events s @ [e] \<rparr>"
  have s1: "replay_event e s = s1" by (simp add: replay_event_def u s1_def)
  have get: "bt_get (hn_units s1) i = (if i = ae_unit_id e then Some (replay_event_on_unit e u) else bt_get (hn_units s) i)" for i
    using Cons.prems(1) by (simp add: s1_def)
  have "bt_wf (hn_units s1)" using Cons.prems(1) by (simp add: s1_def)
  moreover have "bt_contains (hn_units s1) (ae_unit_id x)" if "x \<in> set es" for x
    using Cons.prems(2) [of x] that by (simp add: bt_contains_def get)
  ultimately have IH: "bt_wf (hn_units (fold replay_event es s1))"
      "\<And>i. bt_get (hn_units (fold replay_event es s1)) i =
        map_option (fold replay_event_on_unit (filter (\<lambda>e. ae_unit_id e = i) es)) (bt_get (hn_units s1) i)"
      "fold replay_event es s1 = s1\<lparr> hn_units := hn_units (fold replay_event es s1), hn_adapter_events := hn_adapter_events s1 @ es \<rparr>"
    using Cons.IH [of s1] by auto
  from IH(1,2) u get IH(3) show ?case
    by (auto simp: s1) (simp add: s1_def)
qed (simp add: option.map_id)

lemma sort_sorted: "sorted_wrt (\<lambda>x y. f x < f y) xs \<Longrightarrow> sort_key f xs = xs"
  by (rule properties_for_sort_key) (auto simp: sorted_wrt_map elim: sorted_wrt_mono_rel [rotated])

section \<open>Exactness\<close>

lemma run_constants: "snapshot_run paths t s \<Longrightarrow> hn_kind s = hn_kind empty_snapshot \<and> hn_version s = hn_version empty_snapshot"
  by (induction rule: snapshot_run.induct) (auto simp: snapshot_step_def extend_snapshot_def)

lemma highest_sequence:
  assumes run: "snapshot_run paths t s" and bound: "hn_generated_id_sequence s < 10 ^ 12"
  shows "highest_generated_sequence (hn_receipts s) = hn_generated_id_sequence s"
proof -
  have number: "receipt_sequence r = Some n" if "numbered n r" "n < 10 ^ 12" for n r
  proof -
    have "hd (padded n) \<noteq> CHR ''+''"
      using padded_digits [of "hd (padded n)" n] length_padded [OF that(2)] by (cases "padded n") (auto simp: is_ascii_digit_def)
    moreover from that(1) obtain tag where "strip_prefix ''agent-receipt-'' (hr_id r) = Some (padded n @ ''-'' @ tag)"
      unfolding numbered_def receipt_id_at_def strip_prefix_Some by blast
    ultimately show ?thesis
      using length_padded [OF that(2)] by (auto simp: receipt_sequence_def digits_value_padded hd_append simp del: strip_prefix_Some)
  qed
  have order: "\<forall>r\<in>set (hn_receipts s). \<exists>n\<le>hn_generated_id_sequence s. receipt_sequence r = Some n"
    using run_receipts_order [OF run] number bound by (metis le_less_trans)
  have max_id: "fold max xs b = (m :: nat)" if "\<forall>x\<in>set xs. x \<le> m" "b \<le> m" "b = m \<or> m \<in> set xs" for xs b m
    using that by (induction xs arbitrary: b) (auto simp: fold_max_absorb max_def)
  show ?thesis
  proof (cases "hn_receipts s = []")
    case True
    then show ?thesis using run_receipts_order [OF run] by (simp add: highest_generated_sequence_def List.map_filter_def)
  next
    case False
    then have "receipt_sequence (last (hn_receipts s)) = Some (hn_generated_id_sequence s)"
      using run_receipts_order [OF run] number bound by simp
    with False have "hn_generated_id_sequence s \<in> set (List.map_filter receipt_sequence (hn_receipts s))"
      by (force simp: List.map_filter_def image_iff intro: last_in_set)
    moreover have "\<forall>n\<in>set (List.map_filter receipt_sequence (hn_receipts s)). n \<le> hn_generated_id_sequence s"
      using order by (auto simp: List.map_filter_def)
    ultimately show ?thesis unfolding highest_generated_sequence_def by (intro max_id) auto
  qed
qed

lemma replay_exact:
  assumes run: "snapshot_run paths t s" and st: "stored s st" and bound: "hn_generated_id_sequence s < 10 ^ 12"
  shows "replay_snapshot_from_receipts paths (read_adapter_event_artifacts st) (hn_receipts s) = Inr s"
proof -
  obtain units where units: "replay_units_from_receipts paths (hn_receipts s) = Inr units" "bt_wf units"
      "\<And>i. rel_option (base_unit t) (bt_get units i) (bt_get (hn_units s) i)" using run_replay [OF run] by blast
  define s0 where "s0 = empty_snapshot\<lparr> hn_generated_id_sequence := hn_generated_id_sequence s, hn_units := units,
    hn_receipts := hn_receipts s \<rparr>"
  define s1 where "s1 = fold replay_event (hn_adapter_events s) s0"
  have "bt_contains (hn_units s0) (ae_unit_id e)" if "e \<in> set (hn_adapter_events s)" for e
    using validated_event(1) [OF run_validated [OF run] that] units(3) [of "ae_unit_id e"]
    by (auto simp: s0_def bt_contains_def elim: option.rel_cases)
  then have s1: "bt_wf (hn_units s1)" "s1 = s0\<lparr> hn_units := hn_units s1, hn_adapter_events := hn_adapter_events s0 @ hn_adapter_events s \<rparr>"
      "\<And>i. bt_get (hn_units s1) i = map_option (fold replay_event_on_unit (filter (\<lambda>e. ae_unit_id e = i) (hn_adapter_events s))) (bt_get units i)"
    using replay_events [of s0 "hn_adapter_events s"] units(2) unfolding s1_def by (auto simp: s0_def)
  note sorted = events_sorted [OF run bound]
  have distinct: "distinct (map ae_id (hn_adapter_events s))"
    using sorted_wrt_weaken [OF sorted, of "\<lambda>e e'. ae_id e < ae_id e'"] by (simp add: strict_sorted_iff flip: sorted_wrt_map)
  have "hn_units s1 = hn_units s"
  proof (rule bt_ext [OF s1(1) run_wf [OF run]])
    fix i
    show "bt_get (hn_units s1) i = bt_get (hn_units s) i"
      using units(3) [of i]
    proof (cases rule: option.rel_cases)
      case (Some u0 u)
      then have "hu_adapter_events u = filter (\<lambda>e. ae_unit_id e = i) (hn_adapter_events s)"
        using run_unit_events [OF run] by blast
      with replay_base [OF Some(3)] distinct_map_filter [OF distinct] Some show ?thesis by (simp add: s1(3))
    qed (simp add: s1(3))
  qed
  with s1(2) run_constants [OF run] have s1_s: "s1 = s"
    by (cases s) (simp add: s0_def empty_snapshot_def)
  have "sort_events s = s"
  proof -
    have "(i, u\<lparr> hu_adapter_events := sort_key event_key (hu_adapter_events u) \<rparr>) = (i, u)" if "(i, u) \<in> set (hn_units s)" for i u
    proof -
      have "hu_adapter_events u = filter (\<lambda>e. ae_unit_id e = i) (hn_adapter_events s)"
        using that run_unit_events [OF run] bt_entries_get [OF run_wf [OF run]] by blast
      then have "sort_key event_key (hu_adapter_events u) = hu_adapter_events u"
        using sorted_wrt_weaken [OF sorted, of "\<lambda>e e'. event_key e < event_key e'"] by (simp add: sort_sorted sorted_wrt_filter)
      then show ?thesis by simp
    qed
    then have "map (\<lambda>(i, u). (i, u\<lparr> hu_adapter_events := sort_key event_key (hu_adapter_events u) \<rparr>)) (hn_units s) = hn_units s"
      by (intro map_idI) auto
    moreover have "sort_key event_key (hn_adapter_events s) = hn_adapter_events s"
      using sorted_wrt_weaken [OF sorted, of "\<lambda>e e'. event_key e < event_key e'"] by (simp add: sort_sorted)
    ultimately show ?thesis by (simp add: sort_events_def)
  qed
  then have "replay_adapter_events (read_adapter_event_artifacts st) (hn_receipts s) s0 = s"
    using run_events_by_id [OF run st bound] by (simp add: replay_adapter_events_def s1_def [symmetric] s1_s)
  then show ?thesis
    by (simp add: replay_snapshot_from_receipts_def units(1) highest_sequence [OF run bound] s0_def [symmetric] Let_def
        run_normalized [OF run] run_validated [OF run])
qed

end
