(* ===== verification/Harness_Properties.thy ===== *)
theory Harness_Properties
  imports Harness_Recovery
begin

text \<open>
  What the agent harness store promises: the receipts on disk are enough to recover the snapshot, units move through
  their lifecycle, usage is what the receipts account for, and the units form a forest with one root for each tree.
\<close>

lemma history_snapshot:
  assumes "harness_history paths t st" "load_snapshot paths st = Inr s"
  shows "snapshot_run paths t s" "stored s st"
  using history_run [OF assms(1)] load_stored [of paths t _ st] assms(2) by auto

section \<open>An example\<close>

definition demo_request :: "string \<Rightarrow> string option \<Rightarrow> agent_call_request" where
  "demo_request i parent = \<lparr> ac_unit_id = Some i, ac_parent_unit_id = parent, ac_spawn_request_id = None, ac_role = ''scribe'',
     ac_model = ''m'', ac_identity = JNull, ac_instructions = [], ac_runtime = JNull, ac_capabilities = [],
     ac_visibility = VisTeam, ac_metadata = JNull \<rparr>"

definition demo_usage :: agent_turn_usage where
  "demo_usage = \<lparr> us_input_tokens = 3, us_output_tokens = 2, us_total_tokens = None, us_duration_ms = 1 \<rparr>"

definition demo_correlation :: adapter_correlation where
  "demo_correlation = \<lparr> ak_thread_id = None, ak_session_id = None, ak_turn_id = None, ak_expected_turn_id = None,
     ak_notification_id = None, ak_transport_attempt_id = None, ak_delivery_id = None, ak_message_id = None,
     ak_tool_call_id = None, ak_hook_key = None \<rparr>"

definition demo_commands :: "harness_command list" where
  "demo_commands = [CallUnit (demo_request ''a'' None), CallUnit (demo_request ''b'' (Some ''a'')),
     StartTurn \<lparr> tr_unit_id = ''b'', tr_turn_id = None, tr_metadata = JNull \<rparr>,
     CompleteTurn \<lparr> tc_unit_id = ''b'', tc_turn_id = ''agent-turn-000000000003'', tc_usage = demo_usage,
       tc_next_state = TurnDone, tc_metadata = JNull \<rparr>,
     RecordEvent \<lparr> aq_unit_id = ''b'', aq_adapter = CodexCli, aq_kind = ToolCallObserved, aq_status = EventObserved,
       aq_correlation = demo_correlation, aq_evidence = JObject [(''body'', JString ''x'')], aq_redaction = default_redaction \<rparr>,
     RetireUnit ''a'' ''over'']"

definition demo_paths :: agent_harness_paths where
  "demo_paths = harness_paths_new ''r''"

fun run_commands :: "agent_harness_paths \<Rightarrow> int \<Rightarrow> harness_command list \<Rightarrow> harness_store \<Rightarrow> harness_store" where
  "run_commands paths now [] st = st"
| "run_commands paths now (c # cs) st = run_commands paths (now + 1) cs (store_after_command paths (now, c) st)"

lemma run_commands_history:
  "harness_history paths t st \<Longrightarrow> t \<le> now \<Longrightarrow> \<exists>t'. harness_history paths t' (run_commands paths now cs st)"
proof (induction cs arbitrary: t now st)
  case (Cons c cs)
  have "harness_history paths now (store_after_command paths (now, c) st)" using Cons.prems by (rule history_step)
  from Cons.IH [OF this, of "now + 1"] show ?case by simp
qed auto

definition demo_store :: harness_store where
  "demo_store = run_commands demo_paths 5 demo_commands empty_harness"

lemma demo_history: "\<exists>t. harness_history demo_paths t demo_store"
  unfolding demo_store_def by (rule run_commands_history [OF history_start order.refl])

declare try_then_def [code_unfold] with_lock_def [code_unfold]

definition demo_check :: "(agent_harness_snapshot \<Rightarrow> bool) \<Rightarrow> bool" where
  "demo_check P = (case load_snapshot demo_paths demo_store of Inl _ \<Rightarrow> False | Inr s \<Rightarrow> P s)"

definition demo_facts :: "agent_harness_snapshot \<Rightarrow> bool" where
  "demo_facts s \<longleftrightarrow> int (hn_generated_id_sequence s) < 1000000000000 \<and> list_all listed_unit (bt_keys (hn_units s)) \<and>
     hn_receipts s \<noteq> [] \<and> (case bt_get (hn_units s) ''b'' of None \<Rightarrow> False | Some u \<Rightarrow>
       hu_lifecycle_state u = StateDone \<and> hm_total_tokens (hu_metadata u) = 5 \<and>
       hm_parent_unit_id (hu_metadata u) = Some ''a'') \<and>
     (case bt_get (hn_units s) ''a'' of None \<Rightarrow> False | Some u \<Rightarrow> hu_lifecycle_state u = StateRetired)"

lemma demo_loads: "demo_check demo_facts"
  by code_simp

lemma demo_snapshot:
  obtains t s u where "harness_history demo_paths t demo_store" "load_snapshot demo_paths demo_store = Inr s"
    "int (hn_generated_id_sequence s) < 10 ^ 12" "list_all listed_unit (bt_keys (hn_units s))" "hn_receipts s \<noteq> []"
    "bt_get (hn_units s) ''b'' = Some u" "hm_total_tokens (hu_metadata u) = 5" "hm_parent_unit_id (hu_metadata u) = Some ''a''"
  using demo_loads demo_history by (auto simp: demo_check_def demo_facts_def split: sum.splits option.splits)

section \<open>Recovery\<close>



section \<open>Lifecycle and accounting\<close>

definition lifecycle_ok :: "agent_harness_unit \<Rightarrow> bool" where
  "lifecycle_ok u \<longleftrightarrow> (let m = hu_metadata u in
     hu_lifecycle_state u \<in> {StateBorn, StateRunning, StateReady, StateWaiting, StateDone, StateRetired} \<and>
     (hm_active_turn_id m \<noteq> None) = (hu_lifecycle_state u = StateRunning) \<and>
     (hm_availability m = UnitIsRetired) = (hu_lifecycle_state u = StateRetired) \<and>
     (hm_retired_at m \<noteq> None) = (hu_lifecycle_state u = StateRetired) \<and>
     (hu_lifecycle_state u = StateBorn \<longrightarrow> hm_turns_started m = 0) \<and>
     (if hu_lifecycle_state u = StateRetired then hm_turns_started m \<in> {hm_turns_completed m, hm_turns_completed m + 1}
      else hm_turns_started m = hm_turns_completed m + (if hm_active_turn_id m = None then 0 else 1)))"

lemmas lifecycle_simps = lifecycle_ok_def push_receipt_def Let_def

lemma born_lifecycle: "unit_step paths r None v \<Longrightarrow> lifecycle_ok (push_receipt r v)"
  by (erule unit_step.cases) (simp_all add: lifecycle_simps born_unit_def metadata_from_request_def)

lemma accepts_turn: "ensure_unit_accepts_turn_mutation u = Inr x \<longleftrightarrow> hm_availability (hu_metadata u) \<noteq> UnitIsRetired \<and> hu_lifecycle_state u \<noteq> StateRetired"
  by (auto simp: ensure_unit_accepts_turn_mutation_def)

lemma checked_add_Inr: "checked_add f a b = Inr c \<longleftrightarrow> c = a + b \<and> int a + int b < 18446744073709551616"
  by (auto simp: checked_add_def)

lemma add_usage_Inr: "add_usage_to_metadata m u n = Inr m' \<Longrightarrow>
    m' = m\<lparr> hm_input_tokens := hm_input_tokens m + us_input_tokens u, hm_output_tokens := hm_output_tokens m + us_output_tokens u,
      hm_total_tokens := hm_total_tokens m + n, hm_total_duration_ms := hm_total_duration_ms m + us_duration_ms u \<rparr>"
  by (auto simp: add_usage_to_metadata_def result_simps checked_add_Inr)

lemma started_unit_Inr: "started_unit i turn_id now u = Inr v \<Longrightarrow>
    hm_availability (hu_metadata u) \<noteq> UnitIsRetired \<and> hu_lifecycle_state u \<noteq> StateRetired \<and> hm_active_turn_id (hu_metadata u) = None \<and>
    v = u\<lparr> hu_lifecycle_state := StateRunning, hu_metadata := (hu_metadata u)\<lparr> hm_active_turn_id := Some turn_id,
      hm_turns_started := hm_turns_started (hu_metadata u) + 1, hm_last_active_at := now \<rparr> \<rparr>"
  by (auto simp: started_unit_def result_simps accepts_turn checked_add_Inr split: option.splits)

lemma completed_unit_Inr: "completed_unit q amount now u = Inr v \<Longrightarrow>
    hm_availability (hu_metadata u) \<noteq> UnitIsRetired \<and> hu_lifecycle_state u \<noteq> StateRetired \<and>
    hm_active_turn_id (hu_metadata u) = Some (tc_turn_id q) \<and>
    v = u\<lparr> hu_lifecycle_state := completion_lifecycle_state (tc_next_state q), hu_metadata := (hu_metadata u)\<lparr>
      hm_active_turn_id := None, hm_turns_completed := hm_turns_completed (hu_metadata u) + 1,
      hm_input_tokens := hm_input_tokens (hu_metadata u) + us_input_tokens (tc_usage q),
      hm_output_tokens := hm_output_tokens (hu_metadata u) + us_output_tokens (tc_usage q),
      hm_total_tokens := hm_total_tokens (hu_metadata u) + amount,
      hm_total_duration_ms := hm_total_duration_ms (hu_metadata u) + us_duration_ms (tc_usage q), hm_last_active_at := now \<rparr> \<rparr>"
  by (auto simp: completed_unit_def result_simps accepts_turn checked_add_Inr dest!: add_usage_Inr split: if_splits)

lemma step_lifecycle:
  assumes "unit_step paths r (Some u) v" "lifecycle_ok u"
  shows "lifecycle_ok (push_receipt r v)"
  using assms(1)
proof cases
  case (step_started q turn_id now i)
  with started_unit_Inr [OF step_started(2)] assms(2) show ?thesis by (auto simp: lifecycle_simps)
next
  case (step_completed q amount now i)
  with completed_unit_Inr [OF step_completed(3)] assms(2) show ?thesis
    by (cases "tc_next_state q") (auto simp: lifecycle_simps)
next
  case (step_retired i now unit_id reason)
  with assms(2) show ?thesis by (auto simp: lifecycle_simps retired_unit_def split: if_splits)
next
  case (step_observed e i)
  with assms(2) show ?thesis by (auto simp: lifecycle_simps observed_unit_def split: if_splits)
qed

text \<open>C6. In every store that a history of operations has written, a unit has an active turn exactly while it is running,
  is retired exactly when its state, its availability and its retirement time say so, has completed every turn that it
  started but the active one (a retired unit may have left one), and has started none while it is only born.\<close>

theorem unit_lifecycle:
  assumes "harness_history paths t st" and "load_snapshot paths st = Inr s" and "bt_get (hn_units s) i = Some u"
  shows "lifecycle_ok u"
  using history_snapshot(1) [OF assms(1,2)] assms(3) born_lifecycle step_lifecycle by (rule unit_invariant)

lemma unit_lifecycle_witness:
  "\<exists>s u. load_snapshot demo_paths demo_store = Inr s \<and> bt_get (hn_units s) ''b'' = Some u \<and> lifecycle_ok u"
  by (rule demo_snapshot) (metis unit_lifecycle)

text \<open>The tokens that a receipt accounts for: input, output, in total, and the duration.\<close>

definition receipt_usage :: "(agent_turn_usage \<Rightarrow> nat) \<Rightarrow> harness_receipt \<Rightarrow> nat" where
  "receipt_usage f r = (case ev_usage (hr_evidence r) of None \<Rightarrow> 0 | Some u \<Rightarrow> f u)"

definition receipt_total :: "harness_receipt \<Rightarrow> nat" where
  "receipt_total r = (case ev_accounted_total_tokens (hr_evidence r) of None \<Rightarrow> 0 | Some n \<Rightarrow> n)"

definition usage_accounted :: "agent_harness_unit \<Rightarrow> bool" where
  "usage_accounted u \<longleftrightarrow> (let m = hu_metadata u; rs = hu_receipts u in
     hm_input_tokens m = sum_list (map (receipt_usage us_input_tokens) rs) \<and>
     hm_output_tokens m = sum_list (map (receipt_usage us_output_tokens) rs) \<and>
     hm_total_tokens m = sum_list (map receipt_total rs) \<and>
     hm_total_duration_ms m = sum_list (map (receipt_usage us_duration_ms) rs) \<and>
     hm_turns_started m = length (filter (\<lambda>r. hr_kind r = TurnStarted) rs) \<and>
     hm_turns_completed m = length (filter (\<lambda>r. hr_kind r = TurnCompleted) rs))"

lemmas usage_simps = usage_accounted_def push_receipt_def receipt_usage_def receipt_total_def no_evidence_def Let_def

lemma born_usage: "unit_step paths r None v \<Longrightarrow> usage_accounted (push_receipt r v)"
  by (erule unit_step.cases) (simp_all add: usage_simps born_unit_def metadata_from_request_def called_receipt_def)

lemma step_usage:
  assumes "unit_step paths r (Some u) v" "usage_accounted u"
  shows "usage_accounted (push_receipt r v)"
  using assms(1)
proof cases
  case (step_started q turn_id now i)
  with started_unit_Inr [OF step_started(2)] assms(2) show ?thesis by (simp add: usage_simps turn_started_receipt_def)
next
  case (step_completed q amount now i)
  with completed_unit_Inr [OF step_completed(3)] assms(2) show ?thesis by (simp add: usage_simps turn_completed_receipt_def)
next
  case (step_retired i now unit_id reason)
  with assms(2) show ?thesis by (simp add: usage_simps retired_unit_def retired_receipt_def)
next
  case (step_observed e i)
  with assms(2) show ?thesis by (simp add: usage_simps observed_unit_def event_receipt_def)
qed

text \<open>C8. The usage of a unit is what its receipts account for: its input, output and total tokens and its duration are the
  sums over its completed turns (no sum wraps: an operation that would overflow fails), and its turn counters count its
  receipts.\<close>

theorem usage_is_accounted:
  assumes "harness_history paths t st" and "load_snapshot paths st = Inr s" and "bt_get (hn_units s) i = Some u"
  shows "usage_accounted u"
  using history_snapshot(1) [OF assms(1,2)] assms(3) born_usage step_usage by (rule unit_invariant)

lemma usage_is_accounted_witness:
  "\<exists>s u. load_snapshot demo_paths demo_store = Inr s \<and> bt_get (hn_units s) ''b'' = Some u \<and> usage_accounted u \<and>
     hm_total_tokens (hu_metadata u) = 5"
  by (rule demo_snapshot) (metis usage_is_accounted)

section \<open>Lineage\<close>

definition parent_of :: "agent_harness_snapshot \<Rightarrow> string \<Rightarrow> string option" where
  "parent_of s i = Option.bind (bt_get (hn_units s) i) (\<lambda>u. li_parent_unit_id (ct_lineage (hu_certificate u)))"

definition root_of :: "agent_harness_snapshot \<Rightarrow> string \<Rightarrow> string option" where
  "root_of s i = map_option (\<lambda>u. li_root_unit_id (ct_lineage (hu_certificate u))) (bt_get (hn_units s) i)"

definition lineage_forest :: "agent_harness_snapshot \<Rightarrow> bool" where
  "lineage_forest s \<longleftrightarrow> acyclic {(i, p). parent_of s i = Some p} \<and>
     (\<forall>i. bt_contains (hn_units s) i \<longrightarrow> (case parent_of s i of None \<Rightarrow> root_of s i = Some i
        | Some p \<Rightarrow> bt_contains (hn_units s) p \<and> root_of s i = root_of s p))"

lemma step_certificate: "unit_step paths r (Some u) v \<Longrightarrow> hu_certificate (push_receipt r v) = hu_certificate u"
  by (erule unit_step.cases) (auto simp: unit_step_defs result_simps Let_def split: option.splits if_splits)

lemma run_forest: "snapshot_run paths t s \<Longrightarrow> lineage_forest s"
proof (induction rule: snapshot_run.induct)
  case (run_start t)
  show ?case by (simp add: lineage_forest_def empty_snapshot_def parent_of_def bt_contains_def acyclic_def)
next
  case (run_step t s r t' s')
  let ?i = "hr_unit_id r"
  note wf = run_wf [OF run_step.hyps(1)]
  from run_step.hyps(4) obtain n v where v: "unit_step paths r (bt_get (hn_units s) ?i) v" "s' = extend_snapshot s n r v"
      "bt_get (hn_units s) ?i = None \<longrightarrow> lineage_from s v \<and> hu_unit_id v = ?i" unfolding snapshot_step_def by metis
  have get: "bt_get (hn_units s') j = (if j = ?i then Some (push_receipt r v) else bt_get (hn_units s) j)" for j
    using wf v(2) by (simp add: extend_snapshot_def)
  show ?case
  proof (cases "bt_get (hn_units s) ?i")
    case (Some u)
    then have "hu_certificate (push_receipt r v) = hu_certificate u" using v(1) step_certificate by simp
    then have same: "parent_of s' = parent_of s" "root_of s' = root_of s" "bt_contains (hn_units s') = bt_contains (hn_units s)"
      using Some by (auto simp: fun_eq_iff parent_of_def root_of_def bt_contains_def get)
    show ?thesis using run_step.IH unfolding lineage_forest_def same .
  next
    case None
    let ?l = "ct_lineage (hu_certificate v)"
    have new: "parent_of s' ?i = li_parent_unit_id ?l" "root_of s' ?i = Some (li_root_unit_id ?l)" "bt_contains (hn_units s') ?i"
      by (simp_all add: parent_of_def root_of_def bt_contains_def get push_receipt_def)
    have old: "parent_of s' j = parent_of s j" "root_of s' j = root_of s j" "bt_contains (hn_units s') j = bt_contains (hn_units s) j"
      if "j \<noteq> ?i" for j using that by (simp_all add: parent_of_def root_of_def bt_contains_def get)
    have lineage: "lineage_from s v" "hu_unit_id v = ?i" using v(3) None by auto
    have fresh: "p \<noteq> ?i" if "parent_of s j = Some p" for j p
    proof -
      have "bt_contains (hn_units s) j" using that by (auto simp: parent_of_def bt_contains_def bind_eq_Some_conv)
      with run_step.IH that have "bt_contains (hn_units s) p" by (auto simp: lineage_forest_def)
      with None show ?thesis by (auto simp: bt_contains_def)
    qed
    have parent: "p \<noteq> ?i \<and> bt_contains (hn_units s) p \<and> root_of s' p = root_of s' ?i" if "li_parent_unit_id ?l = Some p" for p
    proof -
      from lineage(1) that obtain w where w: "bt_get (hn_units s) p = Some w" "li_root_unit_id ?l =
          (let root = li_root_unit_id (ct_lineage (hu_certificate w)) in if root = [] then hu_unit_id w else root)"
        by (auto simp: lineage_from_def Let_def split: option.splits)
      moreover have "li_root_unit_id (ct_lineage (hu_certificate w)) \<noteq> []"
        using validated_unit(4) [OF run_validated [OF run_step.hyps(1)]] w(1) bt_entries_get [OF wf] by blast
      moreover have "p \<noteq> ?i" using w(1) None by auto
      moreover have "root_of s p = Some (li_root_unit_id (ct_lineage (hu_certificate w)))" by (simp add: root_of_def w(1))
      ultimately show ?thesis using new(2) old(2) w(1) by (simp add: bt_contains_def Let_def)
    qed
    have "{(i, p). parent_of s' i = Some p} \<subseteq> {(i, p). parent_of s i = Some p} \<union> (case li_parent_unit_id ?l of None \<Rightarrow> {} | Some p \<Rightarrow> {(?i, p)})"
    proof (intro subsetI, clarify)
      fix j q assume "parent_of s' j = Some q" "(j, q) \<notin> (case li_parent_unit_id ?l of None \<Rightarrow> {} | Some p \<Rightarrow> {(?i, p)})"
      with new(1) have "j \<noteq> ?i" by (auto split: option.splits)
      with old(1) \<open>parent_of s' j = Some q\<close> show "parent_of s j = Some q" by simp
    qed
    moreover have "acyclic ({(i, p). parent_of s i = Some p} \<union> (case li_parent_unit_id ?l of None \<Rightarrow> {} | Some p \<Rightarrow> {(?i, p)}))"
    proof (cases "li_parent_unit_id ?l")
      case (Some p)
      have "(p, ?i) \<notin> {(i, p). parent_of s i = Some p}\<^sup>*"
      proof
        assume "(p, ?i) \<in> {(i, p). parent_of s i = Some p}\<^sup>*"
        then show False using parent [OF Some] fresh by (cases rule: rtranclE) auto
      qed
      with run_step.IH Some show ?thesis by (simp add: lineage_forest_def)
    qed (use run_step.IH in \<open>simp add: lineage_forest_def\<close>)
    ultimately have "acyclic {(i, p). parent_of s' i = Some p}" by (rule acyclic_subset [rotated])
    moreover have "case parent_of s' j of None \<Rightarrow> root_of s' j = Some j
        | Some p \<Rightarrow> bt_contains (hn_units s') p \<and> root_of s' j = root_of s' p" if "bt_contains (hn_units s') j" for j
    proof (cases "j = ?i")
      case True
      with new parent old lineage show ?thesis
        by (auto simp: lineage_from_def Let_def split: option.splits)
    next
      case False
      with that old run_step.IH fresh show ?thesis by (auto simp: lineage_forest_def split: option.splits)
    qed
    ultimately show ?thesis by (simp add: lineage_forest_def)
  qed
qed

text \<open>C7. The units of a stored snapshot form a forest: following parents never returns to a unit, the parent of a unit is in
  the snapshot and has the same root, and a unit without parent is its own root.\<close>

theorem lineage_is_a_forest:
  assumes "harness_history paths t st" and "load_snapshot paths st = Inr s"
  shows "lineage_forest s"
  using run_forest history_snapshot(1) [OF assms] by blast

lemma lineage_is_a_forest_witness:
  "\<exists>s u. load_snapshot demo_paths demo_store = Inr s \<and> lineage_forest s \<and> bt_get (hn_units s) ''b'' = Some u \<and>
     hm_parent_unit_id (hu_metadata u) = Some ''a''"
  by (rule demo_snapshot) (metis lineage_is_a_forest)

end
