(* ===== verification/Harness_Proof.thy ===== *)
theory Harness_Proof
  imports Harness_Types
begin

text \<open>
  The proof gate of an agent unit (\<open>proof.rs\<close>): which categories of evidence its capability bindings require, which of
  them its adapter events show, and whether the unit is satisfied, degraded or blocked. Sets of categories are ordered
  as the enumeration is.
\<close>

section \<open>Categories\<close>

datatype proof_category =
    TransportIdentity | Steering | ContextInjection | Hooks | SkillRegistry | PluginRegistry | ConnectorRegistry |
    AppRegistry | ToolConformance | DispatchLeaseLiveness

definition proof_categories :: "proof_category list" where
  "proof_categories = [TransportIdentity, Steering, ContextInjection, Hooks, SkillRegistry, PluginRegistry,
     ConnectorRegistry, AppRegistry, ToolConformance, DispatchLeaseLiveness]"

fun category_rank :: "proof_category \<Rightarrow> nat" where
  "category_rank TransportIdentity = 0"
| "category_rank Steering = 1"
| "category_rank ContextInjection = 2"
| "category_rank Hooks = 3"
| "category_rank SkillRegistry = 4"
| "category_rank PluginRegistry = 5"
| "category_rank ConnectorRegistry = 6"
| "category_rank AppRegistry = 7"
| "category_rank ToolConformance = 8"
| "category_rank DispatchLeaseLiveness = 9"

lemma category_rank_inj: "category_rank c = category_rank d \<longleftrightarrow> c = d"
  by (cases c; cases d) simp_all

instantiation proof_category :: linorder
begin

definition less_eq_proof_category :: "proof_category \<Rightarrow> proof_category \<Rightarrow> bool" where
  "c \<le> d \<longleftrightarrow> category_rank c \<le> category_rank d"

definition less_proof_category :: "proof_category \<Rightarrow> proof_category \<Rightarrow> bool" where
  "c < d \<longleftrightarrow> category_rank c < category_rank d"

instance
  by standard (auto simp: less_eq_proof_category_def less_proof_category_def category_rank_inj)

end

fun category_text :: "proof_category \<Rightarrow> string" where
  "category_text TransportIdentity = ''transport_identity''"
| "category_text Steering = ''steering''"
| "category_text ContextInjection = ''context_injection''"
| "category_text Hooks = ''hooks''"
| "category_text SkillRegistry = ''skill_registry''"
| "category_text PluginRegistry = ''plugin_registry''"
| "category_text ConnectorRegistry = ''connector_registry''"
| "category_text AppRegistry = ''app_registry''"
| "category_text ToolConformance = ''tool_conformance''"
| "category_text DispatchLeaseLiveness = ''dispatch_lease_liveness''"

definition category_names :: "(string \<times> proof_category) list" where
  "category_names = [(''transport_identity'', TransportIdentity), (''steering'', Steering), (''wake_steering'', Steering),
     (''context_injection'', ContextInjection), (''hooks'', Hooks), (''hook_conformance'', Hooks),
     (''skill_registry'', SkillRegistry), (''codex_skill_registry'', SkillRegistry), (''skill_registry_observed'', SkillRegistry),
     (''plugin_registry'', PluginRegistry), (''codex_plugin_registry'', PluginRegistry), (''plugin_registry_observed'', PluginRegistry),
     (''connector_registry'', ConnectorRegistry), (''codex_connector_registry'', ConnectorRegistry),
     (''connector_registry_observed'', ConnectorRegistry),
     (''app_registry'', AppRegistry), (''codex_app_registry'', AppRegistry), (''app_registry_observed'', AppRegistry),
     (''tool_conformance'', ToolConformance), (''tool_allowlist_conformance'', ToolConformance),
     (''dispatch_lease_liveness'', DispatchLeaseLiveness), (''dispatch_and_lease_liveness'', DispatchLeaseLiveness)]"

definition parse_category :: "string \<Rightarrow> proof_category option" where
  "parse_category v = map_of category_names (str_trim v)"

section \<open>Summaries\<close>

datatype proof_gate_status = GateSatisfied | GateDegraded | GateBlocked

record proof_warning =
  pw_code :: string
  pw_message :: string
  pw_category :: "proof_category option"
  pw_event_id :: "string option"
  pw_binding_id :: "string option"
  pw_tool_name :: "string option"

definition new_warning :: "string \<Rightarrow> string \<Rightarrow> proof_category option \<Rightarrow> proof_warning" where
  "new_warning code message category = \<lparr> pw_code = code, pw_message = message, pw_category = category, pw_event_id = None,
     pw_binding_id = None, pw_tool_name = None \<rparr>"

record required_proof_summary =
  rq_required :: "proof_category list"
  rq_unknown_required :: "string list"
  rq_warnings :: "proof_warning list"

record adapter_evidence_summary =
  es_observed :: "proof_category list"
  es_partial :: "proof_category list"
  es_event_counts :: "(string, nat) btree_map"
  es_warnings :: "proof_warning list"

record capability_proof_summary =
  cs_binding_id :: string
  cs_required :: "proof_category list"
  cs_observed :: "proof_category list"
  cs_missing :: "proof_category list"
  cs_unknown_required :: "string list"
  cs_warnings :: "proof_warning list"
  cs_gate_status :: proof_gate_status
  cs_lifecycle_hint :: harness_lifecycle_state

record proof_status_summary =
  ps_required :: "proof_category list"
  ps_observed :: "proof_category list"
  ps_missing :: "proof_category list"
  ps_unknown_required :: "string list"
  ps_warnings :: "proof_warning list"
  ps_capabilities :: "capability_proof_summary list"
  ps_gate_status :: proof_gate_status
  ps_lifecycle_hint :: harness_lifecycle_state

section \<open>Requirements\<close>

definition known_required :: "capability_binding \<Rightarrow> proof_category list" where
  "known_required b = List.map_filter parse_category (cb_proof_required b)"

definition unknown_required :: "capability_binding \<Rightarrow> string list" where
  "unknown_required b = filter (\<lambda>raw. parse_category raw = None) (cb_proof_required b)"

definition unknown_warning :: "string \<Rightarrow> proof_warning" where
  "unknown_warning binding_id = (new_warning ''unknown_required_proof''
     ''capability binding requires an unknown proof category'' None)\<lparr> pw_binding_id := Some binding_id \<rparr>"

definition unknown_warnings :: "capability_binding \<Rightarrow> proof_warning list" where
  "unknown_warnings b = map (\<lambda>_. unknown_warning (cb_id b)) (unknown_required b)"

definition summarize_required_proof :: "capability_binding list \<Rightarrow> required_proof_summary" where
  "summarize_required_proof bs = \<lparr> rq_required = bset (concat (map known_required bs)),
     rq_unknown_required = bset (concat (map unknown_required bs)), rq_warnings = concat (map unknown_warnings bs) \<rparr>"

section \<open>Evidence\<close>

fun is_positive :: "adapter_event_status \<Rightarrow> bool" where
  "is_positive EventObserved = True"
| "is_positive EventAccepted = True"
| "is_positive _ = False"

fun is_missing :: "adapter_event_status \<Rightarrow> bool" where
  "is_missing EventMissing = True"
| "is_missing _ = False"

fun event_kind_name :: "adapter_event_kind \<Rightarrow> string" where
  "event_kind_name TransportIdentityObserved = ''transport_identity_observed''"
| "event_kind_name RuntimeWakeupAttempted = ''runtime_wakeup_attempted''"
| "event_kind_name RuntimeWakeupAccepted = ''runtime_wakeup_accepted''"
| "event_kind_name RuntimeWakeupFailed = ''runtime_wakeup_failed''"
| "event_kind_name ContextInjectionRequested = ''context_injection_requested''"
| "event_kind_name ContextInjectionExecuted = ''context_injection_executed''"
| "event_kind_name HookRegistryObserved = ''hook_registry_observed''"
| "event_kind_name HookDecisionObserved = ''hook_decision_observed''"
| "event_kind_name SkillRegistryObserved = ''skill_registry_observed''"
| "event_kind_name PluginRegistryObserved = ''plugin_registry_observed''"
| "event_kind_name ConnectorRegistryObserved = ''connector_registry_observed''"
| "event_kind_name AppRegistryObserved = ''app_registry_observed''"
| "event_kind_name ToolAllowlistChecked = ''tool_allowlist_checked''"
| "event_kind_name ToolCallObserved = ''tool_call_observed''"
| "event_kind_name ToolCallDenied = ''tool_call_denied''"
| "event_kind_name NativeExtraToolObserved = ''native_extra_tool_observed''"
| "event_kind_name SupervisorDispatchAttempted = ''supervisor_dispatch_attempted''"
| "event_kind_name SupervisorDispatchSuppressed = ''supervisor_dispatch_suppressed''"
| "event_kind_name AgentLeaseExpired = ''agent_lease_expired''"
| "event_kind_name AgentHeartbeatObserved = ''agent_heartbeat_observed''"

definition not_empty :: "string \<Rightarrow> bool" where
  "not_empty v \<longleftrightarrow> str_trim v \<noteq> []"

definition is_some_and :: "('a \<Rightarrow> bool) \<Rightarrow> 'a option \<Rightarrow> bool" where
  "is_some_and P v = (case v of None \<Rightarrow> False | Some x \<Rightarrow> P x)"

definition generated_ids_present :: "json \<Rightarrow> bool" where
  "generated_ids_present evidence = is_some_and (\<lambda>ids. ids \<noteq> []) (Option.bind (json_get ''generated_ids'' evidence) as_object)"

definition has_complete_transport_identity :: "adapter_event \<Rightarrow> bool" where
  "has_complete_transport_identity e \<longleftrightarrow> (let c = ae_correlation e in is_some_and not_empty (ak_thread_id c) \<and>
     is_some_and not_empty (ak_session_id c) \<and> is_some_and not_empty (ak_turn_id c) \<and> generated_ids_present (ae_evidence e))"

definition native_tool_name :: "adapter_event \<Rightarrow> string option" where
  "native_tool_name e = find_map (\<lambda>key. Option.bind (json_get key (ae_evidence e)) as_str)
     [''tool_name'', ''native_tool_name'', ''name'']"

definition native_extra_tool_warning :: "adapter_event \<Rightarrow> proof_warning" where
  "native_extra_tool_warning e = (new_warning ''native_extra_tool_observed''
     ''adapter observed a native extra tool outside the harness capability binding'' (Some ToolConformance))
       \<lparr> pw_event_id := Some (ae_id e) \<rparr>"

definition incomplete_identity_warning :: "adapter_event \<Rightarrow> proof_warning" where
  "incomplete_identity_warning e = (new_warning ''incomplete_transport_identity''
     ''transport identity proof must cite thread, session, turn, and generated ids'' (Some TransportIdentity))
       \<lparr> pw_event_id := Some (ae_id e) \<rparr>"

record adapter_evidence_families =
  fa_transport_identity_complete :: bool
  fa_transport_identity_partial :: bool
  fa_steering :: bool
  fa_context_injection_requested :: bool
  fa_context_injection_executed :: bool
  fa_hook_registry_observed :: bool
  fa_hook_decision_observed :: bool
  fa_skill_registry_observed :: bool
  fa_plugin_registry_observed :: bool
  fa_connector_registry_observed :: bool
  fa_app_registry_observed :: bool
  fa_tool_allowlist_checked :: bool
  fa_tool_activity_observed :: bool
  fa_dispatch_or_liveness :: bool

definition no_families :: adapter_evidence_families where
  "no_families = \<lparr> fa_transport_identity_complete = False, fa_transport_identity_partial = False, fa_steering = False,
     fa_context_injection_requested = False, fa_context_injection_executed = False, fa_hook_registry_observed = False,
     fa_hook_decision_observed = False, fa_skill_registry_observed = False, fa_plugin_registry_observed = False,
     fa_connector_registry_observed = False, fa_app_registry_observed = False, fa_tool_allowlist_checked = False,
     fa_tool_activity_observed = False, fa_dispatch_or_liveness = False \<rparr>"

fun satisfies :: "adapter_evidence_families \<Rightarrow> proof_category \<Rightarrow> bool" where
  "satisfies f TransportIdentity = fa_transport_identity_complete f"
| "satisfies f Steering = fa_steering f"
| "satisfies f ContextInjection = fa_context_injection_executed f"
| "satisfies f Hooks = (fa_hook_registry_observed f \<and> fa_hook_decision_observed f)"
| "satisfies f SkillRegistry = fa_skill_registry_observed f"
| "satisfies f PluginRegistry = fa_plugin_registry_observed f"
| "satisfies f ConnectorRegistry = fa_connector_registry_observed f"
| "satisfies f AppRegistry = fa_app_registry_observed f"
| "satisfies f ToolConformance = fa_tool_allowlist_checked f"
| "satisfies f DispatchLeaseLiveness = fa_dispatch_or_liveness f"

fun has_partial :: "adapter_evidence_families \<Rightarrow> proof_category \<Rightarrow> bool" where
  "has_partial f TransportIdentity = fa_transport_identity_partial f"
| "has_partial f Steering = fa_steering f"
| "has_partial f ContextInjection = (fa_context_injection_requested f \<or> fa_context_injection_executed f)"
| "has_partial f Hooks = (fa_hook_registry_observed f \<or> fa_hook_decision_observed f)"
| "has_partial f SkillRegistry = fa_skill_registry_observed f"
| "has_partial f PluginRegistry = fa_plugin_registry_observed f"
| "has_partial f ConnectorRegistry = fa_connector_registry_observed f"
| "has_partial f AppRegistry = fa_app_registry_observed f"
| "has_partial f ToolConformance = (fa_tool_allowlist_checked f \<or> fa_tool_activity_observed f)"
| "has_partial f DispatchLeaseLiveness = fa_dispatch_or_liveness f"

text \<open>The effect of an event on the families, and the warning that it gives.\<close>

definition family_step :: "adapter_event \<Rightarrow> adapter_evidence_families \<Rightarrow> adapter_evidence_families" where
  "family_step e f = (let positive = is_positive (ae_status e); present = \<not> is_missing (ae_status e) in
     case ae_kind e of
       TransportIdentityObserved \<Rightarrow> if \<not> positive then f else f\<lparr> fa_transport_identity_partial := True,
           fa_transport_identity_complete := fa_transport_identity_complete f \<or> has_complete_transport_identity e \<rparr>
     | RuntimeWakeupAttempted \<Rightarrow> if present then f\<lparr> fa_steering := True \<rparr> else f
     | RuntimeWakeupAccepted \<Rightarrow> if present then f\<lparr> fa_steering := True \<rparr> else f
     | RuntimeWakeupFailed \<Rightarrow> if present then f\<lparr> fa_steering := True \<rparr> else f
     | SupervisorDispatchSuppressed \<Rightarrow> if present then f\<lparr> fa_steering := True, fa_dispatch_or_liveness := True \<rparr> else f
     | ContextInjectionRequested \<Rightarrow> if positive then f\<lparr> fa_context_injection_requested := True \<rparr> else f
     | ContextInjectionExecuted \<Rightarrow> if positive then f\<lparr> fa_context_injection_executed := True \<rparr> else f
     | HookRegistryObserved \<Rightarrow> if positive then f\<lparr> fa_hook_registry_observed := True \<rparr> else f
     | HookDecisionObserved \<Rightarrow> if positive then f\<lparr> fa_hook_decision_observed := True \<rparr> else f
     | SkillRegistryObserved \<Rightarrow> if positive then f\<lparr> fa_skill_registry_observed := True \<rparr> else f
     | PluginRegistryObserved \<Rightarrow> if positive then f\<lparr> fa_plugin_registry_observed := True \<rparr> else f
     | ConnectorRegistryObserved \<Rightarrow> if positive then f\<lparr> fa_connector_registry_observed := True \<rparr> else f
     | AppRegistryObserved \<Rightarrow> if positive then f\<lparr> fa_app_registry_observed := True \<rparr> else f
     | ToolAllowlistChecked \<Rightarrow> if positive then f\<lparr> fa_tool_allowlist_checked := True \<rparr> else f
     | ToolCallObserved \<Rightarrow> if present then f\<lparr> fa_tool_activity_observed := True \<rparr> else f
     | ToolCallDenied \<Rightarrow> if present then f\<lparr> fa_tool_activity_observed := True \<rparr> else f
     | NativeExtraToolObserved \<Rightarrow> if present then f\<lparr> fa_tool_activity_observed := True \<rparr> else f
     | SupervisorDispatchAttempted \<Rightarrow> if present then f\<lparr> fa_dispatch_or_liveness := True \<rparr> else f
     | AgentLeaseExpired \<Rightarrow> if present then f\<lparr> fa_dispatch_or_liveness := True \<rparr> else f
     | AgentHeartbeatObserved \<Rightarrow> if present then f\<lparr> fa_dispatch_or_liveness := True \<rparr> else f)"

definition event_warnings :: "adapter_event \<Rightarrow> proof_warning list" where
  "event_warnings e =
     (if ae_kind e = TransportIdentityObserved \<and> is_positive (ae_status e) \<and> \<not> has_complete_transport_identity e
      then [incomplete_identity_warning e]
      else if ae_kind e = NativeExtraToolObserved \<and> \<not> is_missing (ae_status e)
      then [(native_extra_tool_warning e)\<lparr> pw_tool_name := native_tool_name e \<rparr>] else [])"

definition apply_adapter_event :: "adapter_event \<Rightarrow> adapter_evidence_families \<times> proof_warning list \<Rightarrow>
    adapter_evidence_families \<times> proof_warning list" where
  "apply_adapter_event e x = (family_step e (fst x), snd x @ event_warnings e)"

definition count_event :: "adapter_event \<Rightarrow> (string, nat) btree_map \<Rightarrow> (string, nat) btree_map" where
  "count_event e m = (let name = event_kind_name (ae_kind e) in
     bt_insert name ((case bt_get m name of None \<Rightarrow> 0 | Some n \<Rightarrow> n) + 1) m)"

definition summarize_adapter_evidence :: "adapter_event list \<Rightarrow> adapter_evidence_summary" where
  "summarize_adapter_evidence events = (case fold apply_adapter_event events (no_families, []) of (f, warnings) \<Rightarrow>
     \<lparr> es_observed = filter (satisfies f) proof_categories,
       es_partial = filter (\<lambda>c. has_partial f c \<and> \<not> satisfies f c) proof_categories,
       es_event_counts = fold count_event events [], es_warnings = warnings \<rparr>)"

section \<open>The gate\<close>

definition gate_status :: "bool \<Rightarrow> bool \<Rightarrow> proof_warning list \<Rightarrow> proof_gate_status" where
  "gate_status no_missing no_unknown warnings = (if \<not> no_missing \<or> \<not> no_unknown then GateBlocked
     else if warnings = [] then GateSatisfied else GateDegraded)"

fun lifecycle_hint :: "proof_gate_status \<Rightarrow> harness_lifecycle_state" where
  "lifecycle_hint GateSatisfied = StateReady"
| "lifecycle_hint GateDegraded = StateWaiting"
| "lifecycle_hint GateBlocked = StateBlocked"

definition native_warning_for :: "capability_binding \<Rightarrow> adapter_event \<Rightarrow> proof_warning" where
  "native_warning_for b e = (native_extra_tool_warning e)\<lparr> pw_binding_id := Some (cb_id b), pw_tool_name := native_tool_name e \<rparr>"

definition summarize_capability_proof :: "capability_binding \<Rightarrow> proof_category list \<Rightarrow> adapter_event list \<Rightarrow>
    capability_proof_summary" where
  "summarize_capability_proof b observed events = (
     let required = bset (known_required b); missing = filter (\<lambda>c. c \<notin> set observed) required;
         unknown = unknown_required b;
         warnings = unknown_warnings b @ map (native_warning_for b) (filter (\<lambda>e. ae_kind e = NativeExtraToolObserved) events);
         status = gate_status (missing = []) (unknown = []) warnings
     in \<lparr> cs_binding_id = cb_id b, cs_required = required, cs_observed = filter (\<lambda>c. c \<in> set observed) required,
          cs_missing = missing, cs_unknown_required = unknown, cs_warnings = warnings, cs_gate_status = status,
          cs_lifecycle_hint = lifecycle_hint status \<rparr>)"

definition summarize_proof_status :: "capability_binding list \<Rightarrow> adapter_event list \<Rightarrow> proof_status_summary" where
  "summarize_proof_status bs events = (
     let rq = summarize_required_proof bs; es = summarize_adapter_evidence events;
         required = bset (rq_required rq); observed = bset (es_observed es);
         missing = filter (\<lambda>c. c \<notin> set observed) required; warnings = rq_warnings rq @ es_warnings es;
         status = gate_status (missing = []) (rq_unknown_required rq = []) warnings
     in \<lparr> ps_required = required, ps_observed = observed, ps_missing = missing, ps_unknown_required = rq_unknown_required rq,
          ps_warnings = warnings, ps_capabilities = map (\<lambda>b. summarize_capability_proof b observed events) bs,
          ps_gate_status = status, ps_lifecycle_hint = lifecycle_hint status \<rparr>)"

section \<open>What the gate says\<close>

text \<open>The events that show a category.\<close>

definition any_event :: "adapter_event list \<Rightarrow> adapter_event_kind set \<Rightarrow> (adapter_event \<Rightarrow> bool) \<Rightarrow> bool" where
  "any_event events kinds P \<longleftrightarrow> (\<exists>e\<in>set events. ae_kind e \<in> kinds \<and> P e)"

definition positive_event :: "adapter_event \<Rightarrow> bool" where
  "positive_event e \<longleftrightarrow> is_positive (ae_status e)"

definition present_event :: "adapter_event \<Rightarrow> bool" where
  "present_event e \<longleftrightarrow> \<not> is_missing (ae_status e)"

definition evidence_for :: "adapter_event list \<Rightarrow> proof_category \<Rightarrow> bool" where
  "evidence_for events c = (case c of
       TransportIdentity \<Rightarrow> any_event events {TransportIdentityObserved} (\<lambda>e. positive_event e \<and> has_complete_transport_identity e)
     | Steering \<Rightarrow> any_event events {RuntimeWakeupAttempted, RuntimeWakeupAccepted, RuntimeWakeupFailed, SupervisorDispatchSuppressed} present_event
     | ContextInjection \<Rightarrow> any_event events {ContextInjectionExecuted} positive_event
     | Hooks \<Rightarrow> any_event events {HookRegistryObserved} positive_event \<and> any_event events {HookDecisionObserved} positive_event
     | SkillRegistry \<Rightarrow> any_event events {SkillRegistryObserved} positive_event
     | PluginRegistry \<Rightarrow> any_event events {PluginRegistryObserved} positive_event
     | ConnectorRegistry \<Rightarrow> any_event events {ConnectorRegistryObserved} positive_event
     | AppRegistry \<Rightarrow> any_event events {AppRegistryObserved} positive_event
     | ToolConformance \<Rightarrow> any_event events {ToolAllowlistChecked} positive_event
     | DispatchLeaseLiveness \<Rightarrow> any_event events {SupervisorDispatchSuppressed, SupervisorDispatchAttempted, AgentLeaseExpired, AgentHeartbeatObserved} present_event)"

lemma apply_events: "fold apply_adapter_event es (f, ws) = (fold family_step es f, ws @ concat (map event_warnings es))"
  by (induction es arbitrary: f ws) (simp_all add: apply_adapter_event_def)

lemma any_event_simps [simp]: "\<not> any_event [] ks P" "any_event (e # es) ks P \<longleftrightarrow> ae_kind e \<in> ks \<and> P e \<or> any_event es ks P"
  by (auto simp: any_event_def)

text \<open>An event sets a family when it is of its kinds and counts; nothing clears one.\<close>

lemma family_step_fields:
  "fa_transport_identity_complete (family_step e f) \<longleftrightarrow> ae_kind e \<in> {TransportIdentityObserved} \<and> (\<lambda>e. positive_event e \<and> has_complete_transport_identity e) e \<or> fa_transport_identity_complete f"
  "fa_steering (family_step e f) \<longleftrightarrow> ae_kind e \<in> {RuntimeWakeupAttempted, RuntimeWakeupAccepted, RuntimeWakeupFailed, SupervisorDispatchSuppressed} \<and> present_event e \<or> fa_steering f"
  "fa_context_injection_executed (family_step e f) \<longleftrightarrow> ae_kind e \<in> {ContextInjectionExecuted} \<and> positive_event e \<or> fa_context_injection_executed f"
  "fa_hook_registry_observed (family_step e f) \<longleftrightarrow> ae_kind e \<in> {HookRegistryObserved} \<and> positive_event e \<or> fa_hook_registry_observed f"
  "fa_hook_decision_observed (family_step e f) \<longleftrightarrow> ae_kind e \<in> {HookDecisionObserved} \<and> positive_event e \<or> fa_hook_decision_observed f"
  "fa_skill_registry_observed (family_step e f) \<longleftrightarrow> ae_kind e \<in> {SkillRegistryObserved} \<and> positive_event e \<or> fa_skill_registry_observed f"
  "fa_plugin_registry_observed (family_step e f) \<longleftrightarrow> ae_kind e \<in> {PluginRegistryObserved} \<and> positive_event e \<or> fa_plugin_registry_observed f"
  "fa_connector_registry_observed (family_step e f) \<longleftrightarrow> ae_kind e \<in> {ConnectorRegistryObserved} \<and> positive_event e \<or> fa_connector_registry_observed f"
  "fa_app_registry_observed (family_step e f) \<longleftrightarrow> ae_kind e \<in> {AppRegistryObserved} \<and> positive_event e \<or> fa_app_registry_observed f"
  "fa_tool_allowlist_checked (family_step e f) \<longleftrightarrow> ae_kind e \<in> {ToolAllowlistChecked} \<and> positive_event e \<or> fa_tool_allowlist_checked f"
  "fa_dispatch_or_liveness (family_step e f) \<longleftrightarrow> ae_kind e \<in> {SupervisorDispatchSuppressed, SupervisorDispatchAttempted, AgentLeaseExpired, AgentHeartbeatObserved} \<and> present_event e \<or> fa_dispatch_or_liveness f"
  by (cases "ae_kind e"; auto simp: family_step_def positive_event_def present_event_def Let_def)+

lemma family_fold:
  "fa_transport_identity_complete (fold family_step es f) \<longleftrightarrow> any_event es {TransportIdentityObserved} (\<lambda>e. positive_event e \<and> has_complete_transport_identity e) \<or> fa_transport_identity_complete f"
  "fa_steering (fold family_step es f) \<longleftrightarrow> any_event es {RuntimeWakeupAttempted, RuntimeWakeupAccepted, RuntimeWakeupFailed, SupervisorDispatchSuppressed} present_event \<or> fa_steering f"
  "fa_context_injection_executed (fold family_step es f) \<longleftrightarrow> any_event es {ContextInjectionExecuted} positive_event \<or> fa_context_injection_executed f"
  "fa_hook_registry_observed (fold family_step es f) \<longleftrightarrow> any_event es {HookRegistryObserved} positive_event \<or> fa_hook_registry_observed f"
  "fa_hook_decision_observed (fold family_step es f) \<longleftrightarrow> any_event es {HookDecisionObserved} positive_event \<or> fa_hook_decision_observed f"
  "fa_skill_registry_observed (fold family_step es f) \<longleftrightarrow> any_event es {SkillRegistryObserved} positive_event \<or> fa_skill_registry_observed f"
  "fa_plugin_registry_observed (fold family_step es f) \<longleftrightarrow> any_event es {PluginRegistryObserved} positive_event \<or> fa_plugin_registry_observed f"
  "fa_connector_registry_observed (fold family_step es f) \<longleftrightarrow> any_event es {ConnectorRegistryObserved} positive_event \<or> fa_connector_registry_observed f"
  "fa_app_registry_observed (fold family_step es f) \<longleftrightarrow> any_event es {AppRegistryObserved} positive_event \<or> fa_app_registry_observed f"
  "fa_tool_allowlist_checked (fold family_step es f) \<longleftrightarrow> any_event es {ToolAllowlistChecked} positive_event \<or> fa_tool_allowlist_checked f"
  "fa_dispatch_or_liveness (fold family_step es f) \<longleftrightarrow> any_event es {SupervisorDispatchSuppressed, SupervisorDispatchAttempted, AgentLeaseExpired, AgentHeartbeatObserved} present_event \<or> fa_dispatch_or_liveness f"
  by (induction es arbitrary: f) (auto simp: family_step_fields)

lemma family_satisfies: "satisfies (fold family_step es no_families) c \<longleftrightarrow> evidence_for es c"
  by (cases c) (simp_all add: family_fold evidence_for_def no_families_def)

lemma observed_categories: "set (ps_observed (summarize_proof_status bs events)) = {c. evidence_for events c}"
proof -
  have "c \<in> set proof_categories" for c by (cases c) (simp_all add: proof_categories_def)
  then show ?thesis
    by (auto simp: summarize_proof_status_def summarize_adapter_evidence_def apply_events family_satisfies Let_def)
qed

lemma known_required_iff: "c \<in> set (known_required b) \<longleftrightarrow> (\<exists>raw\<in>set (cb_proof_required b). parse_category raw = Some c)"
  by (force simp: known_required_def List.map_filter_def)

definition binding_unmet :: "adapter_event list \<Rightarrow> capability_binding \<Rightarrow> bool" where
  "binding_unmet events b \<longleftrightarrow> (\<exists>raw\<in>set (cb_proof_required b). case parse_category raw of None \<Rightarrow> True
     | Some c \<Rightarrow> \<not> evidence_for events c)"

lemma binding_unmet_iff:
  "binding_unmet events b \<longleftrightarrow> (\<exists>c\<in>set (known_required b). \<not> evidence_for events c) \<or> unknown_required b \<noteq> []"
proof -
  have "(case parse_category raw of None \<Rightarrow> True | Some c \<Rightarrow> \<not> evidence_for events c) \<longleftrightarrow>
      parse_category raw = None \<or> (\<exists>c. parse_category raw = Some c \<and> \<not> evidence_for events c)" for raw
    by (cases "parse_category raw") auto
  moreover have "(\<exists>c\<in>set (known_required b). \<not> evidence_for events c) \<longleftrightarrow>
      (\<exists>raw\<in>set (cb_proof_required b). \<exists>c. parse_category raw = Some c \<and> \<not> evidence_for events c)"
    by (auto simp: Bex_def known_required_iff)
  moreover have "unknown_required b \<noteq> [] \<longleftrightarrow> (\<exists>raw\<in>set (cb_proof_required b). parse_category raw = None)"
    by (auto simp: unknown_required_def filter_empty_conv)
  ultimately show ?thesis unfolding binding_unmet_def by (simp only: bex_disj_distrib disj_commute)
qed

lemma gate_blocked: "gate_status a b ws = GateBlocked \<longleftrightarrow> \<not> a \<or> \<not> b"
  by (simp add: gate_status_def)

lemma capability_blocked:
  assumes "set observed = {c. evidence_for events c}"
  shows "cs_gate_status (summarize_capability_proof b observed events) = GateBlocked \<longleftrightarrow> binding_unmet events b"
  by (auto simp: summarize_capability_proof_def gate_blocked binding_unmet_iff filter_empty_conv assms Let_def)

lemma status_blocked: "ps_gate_status (summarize_proof_status bs events) = GateBlocked \<longleftrightarrow> (\<exists>b\<in>set bs. binding_unmet events b)"
proof -
  let ?observed = "bset (es_observed (summarize_adapter_evidence events))"
  have "set ?observed = {c. evidence_for events c}"
    using observed_categories [of bs events] by (simp add: summarize_proof_status_def Let_def)
  then show ?thesis
    by (auto simp: summarize_proof_status_def Let_def gate_blocked summarize_required_proof_def binding_unmet_iff filter_empty_conv)
qed

text \<open>C9. A unit is blocked exactly when one of its capabilities is, and that is when a binding requires a category that
  no event shows or one that the gate does not know. What the events show is a property of their set: their order does
  not matter, and later events take nothing back.\<close>

theorem gate_blocked_iff:
  "(ps_gate_status (summarize_proof_status bs events) = GateBlocked) = (\<exists>b\<in>set bs. binding_unmet events b) \<and>
   (ps_gate_status (summarize_proof_status bs events) = GateBlocked) =
     (\<exists>s\<in>set (ps_capabilities (summarize_proof_status bs events)). cs_gate_status s = GateBlocked)"
proof -
  have "set (ps_observed (summarize_proof_status bs events)) = {c. evidence_for events c}" by (rule observed_categories)
  moreover have "ps_capabilities (summarize_proof_status bs events) =
      map (\<lambda>b. summarize_capability_proof b (ps_observed (summarize_proof_status bs events)) events) bs"
    by (simp add: summarize_proof_status_def Let_def)
  ultimately show ?thesis by (simp add: status_blocked capability_blocked)
qed

text \<open>
  The overall gate ignores a native tool event whose status is missing, the gates of the capabilities count it: a unit
  can be satisfied while each of its capabilities is degraded.
\<close>

definition missing_native_event :: adapter_event where
  "missing_native_event = \<lparr> ae_id = ''e'', ae_at = 0, ae_unit_id = ''u'', ae_adapter = LocalTest, ae_kind = NativeExtraToolObserved,
     ae_status = EventMissing, ae_correlation = \<lparr> ak_thread_id = None, ak_session_id = None, ak_turn_id = None,
       ak_expected_turn_id = None, ak_notification_id = None, ak_transport_attempt_id = None, ak_delivery_id = None,
       ak_message_id = None, ak_tool_call_id = None, ak_hook_key = None \<rparr>,
     ae_evidence = JNull, ae_redaction = default_redaction \<rparr>"

definition free_binding :: capability_binding where
  "free_binding = \<lparr> cb_id = ''b'', cb_transport = TransportMcp, cb_tool_names = [], cb_config = JNull, cb_policy = JNull,
     cb_proof_required = [] \<rparr>"

lemma missing_native_tool_divides_gates:
  "ps_gate_status (summarize_proof_status [free_binding] [missing_native_event]) = GateSatisfied \<and>
   map cs_gate_status (ps_capabilities (summarize_proof_status [free_binding] [missing_native_event])) = [GateDegraded]"
  by code_simp

end
