(* ===== verification/Wiki_Text.thy ===== *)
theory Wiki_Text
  imports Prelude
begin

text \<open>
  The text of wiki pages (\<open>crates/onecontext-wiki-core/src/lib.rs\<close>): the frontmatter, headings and sections, the spans
  that the operator has touched, and the guard that keeps agents out of them. Positions are byte offsets.
\<close>

section \<open>Lines\<close>

definition nl :: char where "nl = char_of (10 :: nat)"
definition cr :: char where "cr = char_of (13 :: nat)"

text \<open>\<open>str::split_inclusive('\n')\<close>.\<close>

fun split_inclusive :: "string \<Rightarrow> string list" where
  "split_inclusive [] = []"
| "split_inclusive (c # cs) = (if c = nl then [c] # split_inclusive cs
     else case split_inclusive cs of [] \<Rightarrow> [[c]] | l # ls \<Rightarrow> (c # l) # ls)"

definition trim_start_set :: "string \<Rightarrow> string \<Rightarrow> string" where
  "trim_start_set cs s = dropWhile (\<lambda>c. c \<in> set cs) s"

definition trim_end_set :: "string \<Rightarrow> string \<Rightarrow> string" where
  "trim_end_set cs s = rev (dropWhile (\<lambda>c. c \<in> set cs) (rev s))"

definition count_char :: "char \<Rightarrow> string \<Rightarrow> nat" where
  "count_char c s = length (filter (\<lambda>d. d = c) s)"

section \<open>Errors\<close>

record operator_touched_span =
  ot_date :: "string option"
  ot_note :: "string option"
  ot_section_slug :: "string option"
  ot_line_range :: "nat \<times> nat"
  ot_closed :: bool

record wiki_actor =
  wa_kind :: string
  wa_name :: "string option"

definition operator_actor :: wiki_actor where
  "operator_actor = \<lparr> wa_kind = ''operator'', wa_name = None \<rparr>"

definition agent_actor :: "string \<Rightarrow> wiki_actor" where
  "agent_actor address = \<lparr> wa_kind = ''agent'', wa_name = Some address \<rparr>"

record operator_touched_conflict =
  oc_operation :: string
  oc_page :: string
  oc_actor :: wiki_actor
  oc_edit_line_range :: "(nat \<times> nat) option"
  oc_conflicting_spans :: "operator_touched_span list"

text \<open>Messages that quote a text with Rust's \<open>Debug\<close> are constructors with the text.\<close>

datatype wiki_error =
    WikiError string
  | OperatorTouched operator_touched_conflict
  | InvalidTalkTarget string string
  | OptionDiffers string string string string
  | FrontmatterContract string string string "string option"

definition parse_actor :: "string \<Rightarrow> wiki_error + wiki_actor" where
  "parse_actor v = (let t = str_trim v in
     if t = ''operator'' then Inr operator_actor
     else case strip_prefix ''agent://'' t of
       Some u \<Rightarrow> if str_trim u \<noteq> [] then Inr (agent_actor t)
         else Inl (WikiError (''invalid actor: '' @ t @ ''; expected operator or agent://<unit>''))
     | None \<Rightarrow> Inl (WikiError (''invalid actor: '' @ t @ ''; expected operator or agent://<unit>'')))"

definition is_operator :: "wiki_actor \<Rightarrow> bool" where
  "is_operator a \<longleftrightarrow> wa_kind a = ''operator''"

section \<open>Frontmatter\<close>

definition strip_nl :: "string \<Rightarrow> string" where
  "strip_nl l = (if l \<noteq> [] \<and> last l = nl then butlast l else l)"

text \<open>The position after the closing delimiter.\<close>

fun closing_position :: "nat \<Rightarrow> string list \<Rightarrow> nat option" where
  "closing_position position [] = None"
| "closing_position position (l # ls) = (if trim_end_set [cr] (strip_nl l) = ''---'' then Some (position + length l)
     else closing_position (position + length l) ls)"

definition split_at_closing :: "string \<Rightarrow> nat \<Rightarrow> wiki_error + string \<times> string" where
  "split_at_closing s start = (case closing_position start (split_inclusive (drop start s)) of
     Some p \<Rightarrow> Inr (take p s, drop p s)
   | None \<Rightarrow> Inl (WikiError ''source markdown frontmatter is missing closing delimiter; refusing body-only edit''))"

definition split_markdown_frontmatter :: "string \<Rightarrow> wiki_error + string \<times> string" where
  "split_markdown_frontmatter s = (if starts_with s (''---'' @ [nl]) then split_at_closing s 4
     else if starts_with s (''---'' @ [cr, nl]) then split_at_closing s 5
     else Inl (WikiError ''source markdown is missing YAML frontmatter; refusing body-only edit''))"

definition unquote_frontmatter_value :: "string \<Rightarrow> string" where
  "unquote_frontmatter_value v = (let t = str_trim v in
     if length t \<ge> 2 \<and> (hd t = CHR 0x22 \<and> last t = CHR 0x22 \<or> hd t = CHR 0x27 \<and> last t = CHR 0x27)
     then butlast (tl t) else t)"

definition frontmatter_field :: "string \<Rightarrow> (string \<times> string) option" where
  "frontmatter_field line0 = (let line = str_trim line0 in
     if line = [] \<or> line = ''---'' \<or> starts_with line ''#'' then None
     else map_option (\<lambda>(key, v). (str_trim key, unquote_frontmatter_value (str_trim v))) (split_once CHR '':'' line))"

definition parse_simple_frontmatter_fields :: "string \<Rightarrow> wiki_error + (string, string) btree_map" where
  "parse_simple_frontmatter_fields s = try_then (split_markdown_frontmatter s) (\<lambda>(frontmatter, _).
     Inr (bt_of_list (List.map_filter frontmatter_field (str_lines frontmatter))))"

section \<open>Markers and headings\<close>

definition operator_touched_open_note :: "string \<Rightarrow> string option" where
  "operator_touched_open_note line = (let t = str_trim line in
     case strip_prefix ''<!-- operator-touched'' t of None \<Rightarrow> None
     | Some rest \<Rightarrow> (case strip_suffix ''-->'' rest of None \<Rightarrow> None
       | Some inner \<Rightarrow> if starts_with t ''<!-- /operator-touched'' then None
           else Some (str_trim (trim_start_set '':'' (str_trim inner)))))"

definition is_operator_touched_close :: "string \<Rightarrow> bool" where
  "is_operator_touched_close line \<longleftrightarrow> (let t = str_trim line in
     starts_with t ''<!-- /operator-touched'' \<and> ends_with t ''-->'')"

definition looks_like_date :: "string \<Rightarrow> bool" where
  "looks_like_date token \<longleftrightarrow> length token = 10 \<and> token ! 4 = CHR ''-'' \<and> token ! 7 = CHR ''-'' \<and>
     list_all (\<lambda>i. i = 4 \<or> i = 7 \<or> is_ascii_digit (token ! i)) [0..<10]"

definition atx_heading_text :: "string \<Rightarrow> (nat \<times> string) option" where
  "atx_heading_text line = (let t = trim_end_set [cr, nl] line; level = length (takeWhile (\<lambda>c. c = CHR ''#'') t);
       rest = drop level t
     in if level = 0 \<or> level > 6 then None
        else if rest \<noteq> [] \<and> \<not> starts_with rest '' '' then None
        else Some (level, trim_end (trim_end_set ''#'' (str_trim rest))))"

fun push_slug :: "string \<Rightarrow> string \<Rightarrow> string" where
  "push_slug out [] = out"
| "push_slug out (c # cs) = (if is_ascii_alphanumeric c then push_slug (out @ ascii_lower [c]) cs
     else if ends_with out ''-'' then push_slug out cs else push_slug (out @ ''-'') cs)"

definition slugify :: "string \<Rightarrow> string" where
  "slugify v = take 64 (trim_matches CHR ''-'' (push_slug [] v))"

text \<open>\<open>split_once\<close> at the first character that is white space.\<close>

definition split_once_whitespace :: "string \<Rightarrow> (string \<times> string) option" where
  "split_once_whitespace s = (case dropWhile (\<lambda>c. \<not> is_whitespace c) (utf8_chars s) of [] \<Rightarrow> None
     | _ # rest \<Rightarrow> Some (concat (takeWhile (\<lambda>c. \<not> is_whitespace c) (utf8_chars s)), concat rest))"

definition some_text :: "string \<Rightarrow> string option" where
  "some_text s = (if s = [] then None else Some s)"

definition date_and_note :: "string \<Rightarrow> string option \<times> string option" where
  "date_and_note text0 = (case split_once_whitespace text0 of
     Some (first, rest) \<Rightarrow> if looks_like_date first then (Some first, some_text (str_trim rest)) else (None, some_text text0)
   | None \<Rightarrow> if looks_like_date text0 then (Some text0, None) else (None, some_text text0))"

section \<open>Operator-touched spans\<close>

record parsed_operator_span =
  po_span :: operator_touched_span
  po_start :: nat
  po_end :: nat
  po_closed :: bool

record open_marker =
  om_start :: nat
  om_line :: nat
  om_date :: "string option"
  om_note :: "string option"
  om_section :: "string option"

definition finish_span :: "nat \<Rightarrow> nat \<Rightarrow> bool \<Rightarrow> nat \<Rightarrow> open_marker \<Rightarrow> parsed_operator_span" where
  "finish_span frontmatter_lines last_line closed until m = \<lparr> po_span = \<lparr> ot_date = om_date m, ot_note = om_note m,
       ot_section_slug = om_section m, ot_line_range = (frontmatter_lines + om_line m, frontmatter_lines + last_line),
       ot_closed = closed \<rparr>,
     po_start = om_start m, po_end = until, po_closed = closed \<rparr>"

definition new_marker :: "nat \<Rightarrow> nat \<Rightarrow> string option \<Rightarrow> string \<Rightarrow> open_marker" where
  "new_marker start line section text0 = (case date_and_note text0 of (date, remark) \<Rightarrow>
     \<lparr> om_start = start, om_line = line, om_date = date, om_note = remark, om_section = section \<rparr>)"

text \<open>The state of the loop: the offset and number of the next line, the slug of the section, and the open marker.\<close>

fun parse_spans_loop :: "nat \<Rightarrow> nat \<Rightarrow> string list \<Rightarrow> nat \<Rightarrow> nat \<Rightarrow> string option \<Rightarrow> open_marker option \<Rightarrow>
    parsed_operator_span list" where
  "parse_spans_loop fl bl [] offset line section None = []"
| "parse_spans_loop fl bl [] offset line section (Some m) = [finish_span fl bl False offset m]"
| "parse_spans_loop fl bl (l # ls) offset line section om = (case atx_heading_text l of
     Some (_, heading) \<Rightarrow> parse_spans_loop fl bl ls (offset + length l) (line + 1)
       (if om = None then some_text (slugify heading) else section) om
   | None \<Rightarrow> (case om of
       None \<Rightarrow> parse_spans_loop fl bl ls (offset + length l) (line + 1) section
         (map_option (new_marker offset (line + 1) section) (operator_touched_open_note l))
     | Some m \<Rightarrow> if is_operator_touched_close l
         then finish_span fl (line + 1) True (offset + length l) m #
           parse_spans_loop fl bl ls (offset + length l) (line + 1) section None
         else parse_spans_loop fl bl ls (offset + length l) (line + 1) section (Some m)))"

definition parse_operator_touched_spans :: "string \<Rightarrow> string \<Rightarrow> parsed_operator_span list" where
  "parse_operator_touched_spans frontmatter body =
     parse_spans_loop (count_char nl frontmatter) (max (length (str_lines body)) 1) (split_inclusive body) 0 0 None None"

definition operator_touched_spans_for_source :: "string \<Rightarrow> operator_touched_span list" where
  "operator_touched_spans_for_source source = (case split_markdown_frontmatter source of Inl _ \<Rightarrow> []
     | Inr (frontmatter, body) \<Rightarrow> map po_span (parse_operator_touched_spans frontmatter body))"

definition body_byte_range_to_file_lines :: "string \<Rightarrow> string \<Rightarrow> nat \<Rightarrow> nat \<Rightarrow> nat \<times> nat" where
  "body_byte_range_to_file_lines frontmatter body start until = (let fl = count_char nl frontmatter;
       start_line = fl + count_char nl (take start body) + 1;
       end_line = fl + count_char nl (trim_end_set [nl] (take (min until (length body)) body)) + 1
     in (start_line, max end_line start_line))"

text \<open>An unclosed span has no end; the test is on the half-open ranges.\<close>

definition span_conflicts :: "nat \<Rightarrow> nat \<Rightarrow> parsed_operator_span \<Rightarrow> bool" where
  "span_conflicts edit_start edit_end p \<longleftrightarrow> (po_closed p \<longrightarrow> edit_start < po_end p) \<and> po_start p < edit_end"

definition enforce_operator_touched_spans :: "string \<Rightarrow> string \<Rightarrow> wiki_actor \<Rightarrow> string \<Rightarrow> string \<Rightarrow> nat \<Rightarrow> nat \<Rightarrow>
    wiki_error + unit" where
  "enforce_operator_touched_spans operation page_id actor frontmatter body edit_start edit_end =
     (if is_operator actor then Inr ()
      else let conflicting = filter (span_conflicts edit_start edit_end) (parse_operator_touched_spans frontmatter body)
        in if conflicting = [] then Inr ()
           else Inl (OperatorTouched \<lparr> oc_operation = operation, oc_page = page_id, oc_actor = actor,
             oc_edit_line_range = Some (body_byte_range_to_file_lines frontmatter body edit_start edit_end),
             oc_conflicting_spans = map po_span conflicting \<rparr>))"

section \<open>Sections\<close>

fun line_offsets :: "nat \<Rightarrow> string list \<Rightarrow> (nat \<times> string) list" where
  "line_offsets offset [] = []"
| "line_offsets offset (l # ls) = (offset, l) # line_offsets (offset + length l) ls"

text \<open>The lines from the first heading with the wanted text on, when it is the only one.\<close>

definition heading_matches :: "string \<Rightarrow> (nat \<times> string) list \<Rightarrow> (nat \<times> nat \<times> nat) list" where
  "heading_matches wanted lines = List.map_filter (\<lambda>(index, offset, l). case atx_heading_text l of
     Some (level, t) \<Rightarrow> if t = wanted then Some (index, offset, level) else None | None \<Rightarrow> None) (enumerate 0 lines)"

definition section_end :: "nat \<Rightarrow> (nat \<times> string) list \<Rightarrow> nat option" where
  "section_end level lines = find_map (\<lambda>(offset, l). case atx_heading_text l of
     Some (k, _) \<Rightarrow> if k \<le> level then Some offset else None | None \<Rightarrow> None) lines"

definition locate_section :: "string \<Rightarrow> string \<Rightarrow> string \<Rightarrow> wiki_error + nat \<times> nat" where
  "locate_section body page_id heading = (let wanted = str_trim (trim_start_set ''#'' (str_trim heading));
       lines = line_offsets 0 (split_inclusive body)
     in if wanted = [] then Inl (WikiError ''page-append-section requires a non-empty --section heading'')
        else case heading_matches wanted lines of
          [] \<Rightarrow> Inl (WikiError (''section heading not found in body for '' @ page_id @ '': '' @ wanted @
            ''; use page-open to inspect the current source''))
        | [(index, start, level)] \<Rightarrow> Inr (start, case section_end level (drop (index + 1) lines) of
            Some e \<Rightarrow> e | None \<Rightarrow> length body)
        | ms \<Rightarrow> Inl (WikiError (''section heading matched '' @ decimal (length ms) @ '' times in body for '' @ page_id @ '': '' @
            wanted @ ''; make the heading unique before appending'')))"

definition append_block_at :: "string \<Rightarrow> nat \<Rightarrow> string \<Rightarrow> string" where
  "append_block_at body insertion content = (let before = take insertion body; after = drop insertion body;
       n1 = (if before \<noteq> [] \<and> \<not> ends_with before [nl] then before @ [nl] else before);
       n2 = (if n1 \<noteq> [] \<and> \<not> ends_with n1 [nl, nl] then n1 @ [nl] else n1)
     in n2 @ trim_end content @ [nl] @ (if after = [] then [] else nl # after))"

section \<open>Edits of the text\<close>

text \<open>Occurrences that do not overlap, as \<open>str::matches\<close> finds them; the first one.\<close>

fun occurrences :: "nat \<Rightarrow> string \<Rightarrow> string \<Rightarrow> nat list" where
  "occurrences position pat [] = (if pat = [] then [position] else [])"
| "occurrences position pat (c # cs) = (if pat \<noteq> [] \<and> take (length pat) (c # cs) = pat
     then position # occurrences (position + length pat) pat (drop (length pat - 1) cs)
     else occurrences (position + 1) pat cs)"

definition write_body_text :: "string \<Rightarrow> wiki_actor \<Rightarrow> string \<Rightarrow> string \<Rightarrow> wiki_error + string" where
  "write_body_text page_id actor original body_markdown =
     try_then (split_markdown_frontmatter original) (\<lambda>(frontmatter, body).
     try_then (enforce_operator_touched_spans ''wiki.page.write_body'' page_id actor frontmatter body 0 (length body)) (\<lambda>_.
       Inr (frontmatter @ body_markdown)))"

definition patch_body_text :: "string \<Rightarrow> wiki_actor \<Rightarrow> string \<Rightarrow> string \<Rightarrow> string \<Rightarrow> wiki_error + string" where
  "patch_body_text page_id actor original wanted_text replacement =
     (if wanted_text = [] then Inl (WikiError ''page-patch-body requires a non-empty --find value'') else
     try_then (split_markdown_frontmatter original) (\<lambda>(frontmatter, body).
     case occurrences 0 wanted_text body of
       [] \<Rightarrow> Inl (WikiError (''patch text not found in body for '' @ page_id @ ''; use page-open to inspect the current source''))
     | [start] \<Rightarrow> try_then (enforce_operator_touched_spans ''wiki.page.patch_body'' page_id actor frontmatter body start
           (start + length wanted_text)) (\<lambda>_.
         Inr (frontmatter @ take start body @ replacement @ drop (start + length wanted_text) body))
     | ps \<Rightarrow> Inl (WikiError (''patch text matched '' @ decimal (length ps) @ '' times in body for '' @ page_id @
         ''; make --find more specific or use page-write-body''))))"

definition append_section_text :: "string \<Rightarrow> wiki_actor \<Rightarrow> string \<Rightarrow> string \<Rightarrow> string \<Rightarrow> wiki_error + string" where
  "append_section_text page_id actor original heading content =
     (if str_trim content = [] then Inl (WikiError ''page-append-section requires non-empty --content markdown'') else
     try_then (split_markdown_frontmatter original) (\<lambda>(frontmatter, body).
     try_then (locate_section body page_id heading) (\<lambda>(_, insertion).
     try_then (enforce_operator_touched_spans ''wiki.page.append_section'' page_id actor frontmatter body insertion insertion) (\<lambda>_.
       Inr (frontmatter @ append_block_at body insertion content)))))"

end
