(* ===== verification/Wiki_Routes.thy ===== *)
theory Wiki_Routes
  imports Wiki_Text
begin

text \<open>
  Slugs, routes and links of the wiki (\<open>crates/onecontext-wiki-core/src/lib.rs\<close>): which routes a page may have, the
  canonical form of a route, what a link in a page points at, and the names of attachments and assets.
\<close>

definition is_ascii_lowercase :: "char \<Rightarrow> bool" where
  "is_ascii_lowercase c \<longleftrightarrow> 97 \<le> byte c \<and> byte c \<le> 122"

definition is_slash :: "char \<Rightarrow> bool" where
  "is_slash c \<longleftrightarrow> c = CHR ''/''"

definition option_bind_none :: "'a option \<Rightarrow> 'a \<Rightarrow> 'a" where
  "option_bind_none m d = (case m of None \<Rightarrow> d | Some x \<Rightarrow> x)"

definition strip_suffix_or :: "string \<Rightarrow> string \<Rightarrow> string" where
  "strip_suffix_or p s = (case strip_suffix p s of None \<Rightarrow> s | Some r \<Rightarrow> r)"

text \<open>\<open>str::replace\<close> of a text that is not empty.\<close>

function str_replace :: "string \<Rightarrow> string \<Rightarrow> string \<Rightarrow> string" where
  "str_replace pat rep [] = []"
| "str_replace pat rep (c # cs) = (if pat \<noteq> [] \<and> take (length pat) (c # cs) = pat
     then rep @ str_replace pat rep (drop (length pat) (c # cs)) else c # str_replace pat rep cs)"
  by pat_completeness auto
termination
proof (relation "measure (\<lambda>(p, r, s). length s)")
  fix pat rep :: string and c cs
  assume "pat \<noteq> [] \<and> take (length pat) (c # cs) = pat"
  then show "((pat, rep, drop (length pat) (c # cs)), (pat, rep, c # cs)) \<in> measure (\<lambda>(p, r, s). length s)"
    by (cases pat) auto
qed simp_all

section \<open>Slugs and routes\<close>

definition slug_char :: "char \<Rightarrow> bool" where
  "slug_char c \<longleftrightarrow> is_ascii_lowercase c \<or> is_ascii_digit c \<or> c = CHR ''-'' \<or> c = CHR ''.''"

definition page_slug_is_allowed :: "string \<Rightarrow> bool" where
  "page_slug_is_allowed slug \<longleftrightarrow> slug \<noteq> [] \<and> length slug \<le> 60 \<and> \<not> str_contains slug ''..'' \<and>
     (is_ascii_lowercase (hd slug) \<or> is_ascii_digit (hd slug)) \<and> (is_ascii_lowercase (last slug) \<or> is_ascii_digit (last slug)) \<and>
     list_all slug_char slug"

definition validate_page_slug :: "string \<Rightarrow> wiki_error + unit" where
  "validate_page_slug slug = ensure_that (page_slug_is_allowed slug) (WikiError (''invalid page slug '' @ slug @
     ''; expected 1-60 lowercase alphanumeric characters, hyphens, or dots, with an alphanumeric start and end''))"

definition validate_family_path_token :: "string \<Rightarrow> string \<Rightarrow> wiki_error + unit" where
  "validate_family_path_token v label = ensure_that (page_slug_is_allowed v) (WikiError (''invalid page '' @ label @ '' '' @ v @
     ''; expected a safe filesystem token with lowercase alphanumeric characters, hyphens, or dots, and no path traversal''))"

definition validate_nav_section :: "string \<Rightarrow> wiki_error + unit" where
  "validate_nav_section s = ensure_that (s \<in> {''primary'', ''utility'', ''hidden''})
     (WikiError (''invalid nav section '' @ s @ ''; expected primary, utility, or hidden''))"

definition validate_route_segment :: "string \<Rightarrow> string \<Rightarrow> wiki_error + unit" where
  "validate_route_segment route segment =
     (if segment = [] then Inl (WikiError (''invalid page route '' @ route @ ''; route segments must not be empty''))
      else if ends_with segment ''.md'' \<or> ends_with segment ''.html'' \<or> \<not> page_slug_is_allowed segment
      then Inl (WikiError (''invalid page route '' @ route @ ''; each segment must be a safe slug and must not end in .md or .html''))
      else Inr ())"

definition validate_page_route :: "string \<Rightarrow> wiki_error + unit" where
  "validate_page_route route =
     (if route \<noteq> str_trim route then Inl (WikiError (''invalid page route '' @ route @ ''; route must not have leading or trailing whitespace''))
      else if \<not> starts_with route ''/'' then Inl (WikiError (''invalid page route '' @ route @ ''; expected an absolute route starting with /''))
      else if CHR 0x5C \<in> set route \<or> CHR ''?'' \<in> set route \<or> CHR ''#'' \<in> set route
      then Inl (WikiError (''invalid page route '' @ route @ ''; routes must not contain backslashes, query strings, or fragments''))
      else if route \<noteq> ''/'' \<and> ends_with route ''/''
      then Inl (WikiError (''invalid page route '' @ route @ ''; omit trailing slashes so every page has one canonical route''))
      else if route = ''/'' then Inr ()
      else try_then (try_map (validate_route_segment route) (split_on is_slash (trim_start_set ''/'' route))) (\<lambda>_. Inr ()))"

text \<open>The path without empty and \<open>.\<close> segments; \<open>..\<close> takes one back, and there is none above the root.\<close>

fun route_parts :: "string list \<Rightarrow> string list \<Rightarrow> string list option" where
  "route_parts parts [] = Some parts"
| "route_parts parts (p # ps) = (if p = [] \<or> p = ''.'' then route_parts parts ps
     else if p = ''..'' then (if parts = [] then None else route_parts (butlast parts) ps)
     else route_parts (parts @ [p]) ps)"

definition normalize_wiki_route_segments :: "string \<Rightarrow> string option" where
  "normalize_wiki_route_segments path = map_option (\<lambda>parts. ''/'' @ str_join ''/'' parts) (route_parts [] (split_on is_slash path))"

definition route_stem :: "string \<Rightarrow> string" where
  "route_stem v = strip_suffix_or ''.md'' (strip_suffix_or ''.html'' (strip_suffix_or ''/index.md'' (strip_suffix_or ''/index.html'' v)))"

definition canonical_route_target :: "string \<Rightarrow> string option" where
  "canonical_route_target route = (if str_trim route = [] then None
     else case normalize_wiki_route_segments (trim_start_set ''/'' (route_stem (str_trim route))) of
       None \<Rightarrow> None
     | Some normalized \<Rightarrow> if normalized = ''/'' then Some ''/'' else Some (trim_end_set ''/'' normalized))"

definition route_conflict_key :: "string \<Rightarrow> string" where
  "route_conflict_key route = (case canonical_route_target route of Some r \<Rightarrow> r
     | None \<Rightarrow> (let trimmed = trim_end_set ''/'' (trim_start_set ''/'' (str_trim route))
         in if trimmed = [] then ''/'' else ''/'' @ trimmed))"

definition talk_route_for_route :: "string \<Rightarrow> string" where
  "talk_route_for_route route0 = (let route = route_conflict_key route0 in if route = ''/'' then ''/talk'' else route @ ''/talk'')"

definition markdown_url_for_route :: "string \<Rightarrow> string" where
  "markdown_url_for_route route = (let trimmed = trim_end_set ''/'' route in if trimmed = [] then ''/index.md'' else trimmed @ ''.md'')"

definition page_asset_published_href :: "string \<Rightarrow> string \<Rightarrow> string" where
  "page_asset_published_href route filename = (let stem = trim_end_set ''/'' (trim_start_set ''/'' (route_conflict_key route))
     in if stem = [] then ''/index.assets/'' @ filename else ''/'' @ stem @ ''.assets/'' @ filename)"

section \<open>Links\<close>

text \<open>\<open>split_whitespace().next()\<close>.\<close>

definition first_word :: "string \<Rightarrow> string option" where
  "first_word s = (case takeWhile (\<lambda>c. \<not> is_whitespace c) (dropWhile is_whitespace (utf8_chars s)) of [] \<Rightarrow> None | w \<Rightarrow> Some (concat w))"

definition markdown_link_destination :: "string \<Rightarrow> string" where
  "markdown_link_destination raw = (case strip_prefix ''<'' raw of
     Some inner \<Rightarrow> str_trim (takeWhile (\<lambda>c. c \<noteq> CHR ''>'') inner)
   | None \<Rightarrow> str_trim (option_bind_none (first_word raw) raw))"

definition href_of :: "string \<Rightarrow> string list" where
  "href_of inner = (let raw = str_trim inner in if raw = [] then [] else [markdown_link_destination raw])"

text \<open>The text from the first \<open>](\<close> on, without it.\<close>

fun after_bracket :: "string \<Rightarrow> string option" where
  "after_bracket (c # d # cs) = (if c = CHR '']'' \<and> d = CHR ''('' then Some cs else after_bracket (d # cs))"
| "after_bracket _ = None"

lemma after_bracket_shorter: "after_bracket s = Some r \<Longrightarrow> length r < length s"
  by (induction s rule: after_bracket.induct) (auto split: if_splits)

function extract_markdown_link_hrefs :: "string \<Rightarrow> string list" where
  "extract_markdown_link_hrefs markdown = (case after_bracket markdown of None \<Rightarrow> []
     | Some inner \<Rightarrow> (case find_char CHR '')'' inner of None \<Rightarrow> []
       | Some n \<Rightarrow> href_of (take n inner) @ extract_markdown_link_hrefs (drop (n + 1) inner)))"
  by pat_completeness auto
termination by (relation "measure length") (auto dest!: after_bracket_shorter)

declare extract_markdown_link_hrefs.simps [simp del]

record normalized_wiki_href =
  nh_target :: string
  nh_route_target :: string
  nh_target_kind :: string

definition external_href :: "string \<Rightarrow> bool" where
  "external_href t \<longleftrightarrow> t = [] \<or> list_ex (starts_with t)
     [''#'', ''http://'', ''https://'', ''mailto:'', ''tel:'', ''data:'', ''javascript:'']"

definition parent_route :: "string \<Rightarrow> string" where
  "parent_route route = (let r = trim_end_set ''/'' (trim_start_set ''/'' route) in
     case rfind_char CHR ''/'' r of None \<Rightarrow> [] | Some n \<Rightarrow> take n r)"

definition resolve_href :: "string \<Rightarrow> string \<Rightarrow> string option" where
  "resolve_href path source_route = (if starts_with path ''/'' then normalize_wiki_route_segments (trim_start_set ''/'' path)
     else let base = parent_route source_route
       in normalize_wiki_route_segments (if base = [] then path else base @ ''/'' @ path))"

definition normalize_wiki_href :: "string \<Rightarrow> string \<Rightarrow> normalized_wiki_href option" where
  "normalize_wiki_href href source_route = (let t = str_trim href in
     if external_href t then None
     else case resolve_href (takeWhile (\<lambda>c. c \<noteq> CHR ''?'') (takeWhile (\<lambda>c. c \<noteq> CHR ''#'') t)) source_route of
       None \<Rightarrow> None
     | Some normalized \<Rightarrow> (case canonical_route_target normalized of
         None \<Rightarrow> None
       | Some route_target \<Rightarrow> (let kind = (if ends_with normalized ''.md'' then ''markdown_twin'' else ''route'')
           in Some \<lparr> nh_target = (if kind = ''markdown_twin'' then markdown_url_for_route route_target else route_target),
               nh_route_target = route_target, nh_target_kind = kind \<rparr>)))"

definition link_points_at_deleted_route :: "string \<Rightarrow> string \<Rightarrow> bool" where
  "link_points_at_deleted_route target deleted_route \<longleftrightarrow> target = deleted_route \<or>
     deleted_route \<noteq> ''/'' \<and> starts_with target (trim_end_set ''/'' deleted_route @ ''/'')"

section \<open>Names of files and targets\<close>

fun sanitize_loop :: "string list \<Rightarrow> bool \<Rightarrow> string" where
  "sanitize_loop [] dashed = []"
| "sanitize_loop (ch # chs) dashed = (if list_all (\<lambda>c. is_ascii_alphanumeric c \<or> c = CHR ''.'' \<or> c = CHR ''_'') ch
     then ch @ sanitize_loop chs False
     else if dashed then sanitize_loop chs True else ''-'' @ sanitize_loop chs True)"

text \<open>\<open>while contains("-.")\<close>: every round makes the text shorter.\<close>

lemma str_replace_length: "length rep \<le> length pat \<Longrightarrow> length (str_replace pat rep s) \<le> length s"
proof (induction pat rep s rule: str_replace.induct)
  case (2 pat rep c cs)
  show ?case
  proof (cases "pat \<noteq> [] \<and> take (length pat) (c # cs) = pat")
    case True
    have "length (take (length pat) (c # cs)) = length pat" using True by simp
    then have "length pat \<le> length (c # cs)" by simp
    with True 2 show ?thesis by (auto simp del: take_Suc_Cons drop_Suc_Cons)
  next
    case False
    with 2 show ?thesis by auto
  qed
qed simp

lemma str_replace_shorter:
  "length rep < length pat \<Longrightarrow> str_contains s pat \<Longrightarrow> length (str_replace pat rep s) < length s"
proof (induction pat rep s rule: str_replace.induct)
  case (2 pat rep c cs)
  show ?case
  proof (cases "pat \<noteq> [] \<and> take (length pat) (c # cs) = pat")
    case True
    have "length (take (length pat) (c # cs)) = length pat" using True by simp
    then have "length pat \<le> length (c # cs)" by simp
    with True 2(3) str_replace_length [of rep pat "drop (length pat) (c # cs)"] show ?thesis
      by (auto simp del: take_Suc_Cons drop_Suc_Cons)
  next
    case False
    from 2(4) obtain a b where ab: "c # cs = a @ pat @ b" by (auto simp: str_contains_iff)
    then have "a \<noteq> []" using False 2(3) by (cases a) auto
    then obtain a' where "cs = a' @ pat @ b" using ab by (cases a) auto
    then have "str_contains cs pat" by (auto simp: str_contains_iff)
    with False 2 show ?thesis by auto
  qed
qed (auto simp: str_contains_iff)

function drop_dash_dots :: "string \<Rightarrow> string" where
  "drop_dash_dots s = (if str_contains s ''-.'' then drop_dash_dots (str_replace ''-.'' ''.'' s) else s)"
  by pat_completeness auto
termination by (relation "measure length") (auto intro: str_replace_shorter)

declare drop_dash_dots.simps [simp del]

definition safe_attachment_filename :: "string \<Rightarrow> wiki_error + string" where
  "safe_attachment_filename v = (let trimmed = str_trim v; invalid = Inl (WikiError (''invalid attachment filename: '' @ v)) in
     if trimmed = [] \<or> trimmed = ''.'' \<or> trimmed = ''..'' \<or> CHR ''/'' \<in> set trimmed \<or> CHR 0x5C \<in> set trimmed \<or>
       char_of (0 :: nat) \<in> set trimmed then invalid
     else let sanitized = trim_end_set ''.-'' (trim_start_set ''.-'' (drop_dash_dots (sanitize_loop (utf8_chars trimmed) False)))
       in if sanitized = [] then invalid else Inr sanitized)"

definition rsplit_dot :: "string \<Rightarrow> (string \<times> string) option" where
  "rsplit_dot s = map_option (\<lambda>n. (take n s, drop (n + 1) s)) (rfind_char CHR ''.'' s)"

definition candidate_name :: "string \<Rightarrow> nat \<Rightarrow> string" where
  "candidate_name filename n = (case rsplit_dot filename of
     Some (stem, extension) \<Rightarrow> stem @ ''-'' @ decimal n @ ''.'' @ extension
   | None \<Rightarrow> filename @ ''-'' @ decimal n)"

text \<open>The search for a free number: \<open>fuel\<close> bounds its rounds.\<close>

fun candidate_loop :: "nat \<Rightarrow> string \<Rightarrow> string list \<Rightarrow> nat \<Rightarrow> string option" where
  "candidate_loop 0 filename used n = None"
| "candidate_loop (Suc fuel) filename used n = (if candidate_name filename n \<in> set used
     then candidate_loop fuel filename used (n + 1) else Some (candidate_name filename n))"

definition unique_attachment_filename :: "string \<Rightarrow> string list \<Rightarrow> (string \<times> string list) option" where
  "unique_attachment_filename filename used = (if filename \<notin> set used then Some (filename, filename # used)
     else map_option (\<lambda>c. (c, c # used)) (candidate_loop (length used + 1) filename used 2))"

definition extension_of :: "string \<Rightarrow> string option" where
  "extension_of filename = map_option (\<lambda>(_, extension). ascii_lower extension) (rsplit_dot filename)"

definition infer_media_type :: "string \<Rightarrow> string" where
  "infer_media_type filename = (case extension_of filename of
     None \<Rightarrow> ''application/octet-stream''
   | Some e \<Rightarrow>
       if e = ''png'' then ''image/png''
       else if e \<in> {''jpg'', ''jpeg''} then ''image/jpeg''
       else if e = ''gif'' then ''image/gif''
       else if e = ''webp'' then ''image/webp''
       else if e = ''svg'' then ''image/svg+xml''
       else if e = ''json'' then ''application/json''
       else if e \<in> {''md'', ''markdown''} then ''text/markdown''
       else if e = ''eml'' then ''text/plain''
       else if e = ''css'' then ''text/css''
       else if e = ''html'' then ''text/html''
       else if e \<in> {''js'', ''mjs'', ''jsx'', ''ts'', ''tsx''} then ''text/javascript''
       else if e = ''toml'' then ''text/toml''
       else if e \<in> {''yaml'', ''yml''} then ''text/yaml''
       else if e \<in> {''txt'', ''log'', ''rs'', ''swift'', ''py'', ''go'', ''java'', ''kt'', ''sh'', ''sql'', ''c'', ''h'', ''cc'', ''cpp'',
         ''hpp'', ''m'', ''mm'', ''rb'', ''xml''} then ''text/plain''
       else if e = ''csv'' then ''text/csv''
       else if e = ''pdf'' then ''application/pdf''
       else ''application/octet-stream'')"

definition page_asset_kind :: "string \<Rightarrow> string \<Rightarrow> string" where
  "page_asset_kind filename media_type = (if starts_with media_type ''image/'' then ''image''
     else case extension_of filename of None \<Rightarrow> ''file''
       | Some e \<Rightarrow> if e \<in> {''c'', ''cc'', ''cpp'', ''css'', ''go'', ''h'', ''hpp'', ''html'', ''java'', ''js'', ''jsx'', ''kt'', ''m'', ''mm'', ''mjs'',
           ''py'', ''rb'', ''rs'', ''sh'', ''sql'', ''swift'', ''toml'', ''ts'', ''tsx'', ''xml'', ''yaml'', ''yml''} then ''code_file''
         else ''file'')"

fun slug_token_loop :: "string list \<Rightarrow> bool \<Rightarrow> string" where
  "slug_token_loop [] joined = []"
| "slug_token_loop (ch # chs) joined = (if list_all is_ascii_alphanumeric ch then ascii_lower ch @ slug_token_loop chs False
     else if joined then slug_token_loop chs True else ''_'' @ slug_token_loop chs True)"

definition slug_token :: "string \<Rightarrow> string" where
  "slug_token v = trim_matches CHR ''_'' (slug_token_loop (utf8_chars v) False)"

text \<open>\<open>char::is_control\<close> on an encoded character.\<close>

definition is_control :: "string \<Rightarrow> bool" where
  "is_control ch \<longleftrightarrow> (let bs = map byte ch in
     length bs = 1 \<and> (hd bs < 32 \<or> hd bs = 127) \<or> length bs = 2 \<and> hd bs = 194 \<and> 128 \<le> bs ! 1 \<and> bs ! 1 \<le> 159)"

definition talk_target_id_is_valid :: "string \<Rightarrow> bool" where
  "talk_target_id_is_valid v \<longleftrightarrow> (let trimmed = str_trim v in trimmed \<noteq> [] \<and> length trimmed \<le> 200 \<and> trimmed = v \<and>
     \<not> list_ex (\<lambda>ch. is_whitespace ch \<or> is_control ch) (utf8_chars trimmed))"

definition validate_talk_target_id :: "string \<Rightarrow> string \<Rightarrow> wiki_error + string" where
  "validate_talk_target_id v flag = (if talk_target_id_is_valid (str_trim v) then Inr (str_trim v) else Inl (InvalidTalkTarget flag v))"

section \<open>Attachments of a talk message\<close>

record talk_attachment_input =
  ti_path :: string
  ti_filename :: "string option"
  ti_caption :: "string option"
  ti_alt_text :: "string option"

record talk_attachment_record =
  tr_filename :: string
  tr_media_type :: string
  tr_path :: string
  tr_handle :: string
  tr_caption :: "string option"
  tr_alt_text :: "string option"

definition attachment_record :: "string \<Rightarrow> string \<Rightarrow> talk_attachment_input \<Rightarrow> string \<Rightarrow> talk_attachment_record" where
  "attachment_record page_id message_id input filename = \<lparr> tr_filename = filename, tr_media_type = infer_media_type filename,
     tr_path = ''attachments/'' @ message_id @ ''/'' @ filename,
     tr_handle = ''user-wiki://page/'' @ page_id @ ''/talk/attachments/'' @ message_id @ ''/'' @ filename,
     tr_caption = ti_caption input, tr_alt_text = ti_alt_text input \<rparr>"

definition requested_name :: "talk_attachment_input \<Rightarrow> wiki_error + string" where
  "requested_name input = ok_or (or_else (ti_filename input) (path_file_name (ti_path input)))
     (WikiError (''attachment filename missing for '' @ ti_path input))"

text \<open>The records of the files that are copied, before the first one is; \<open>is_file\<close> asks the file system.\<close>

fun pending_attachments :: "(string \<Rightarrow> bool) \<Rightarrow> string \<Rightarrow> string \<Rightarrow> talk_attachment_input list \<Rightarrow> string list \<Rightarrow>
    wiki_error + talk_attachment_record list" where
  "pending_attachments is_file page_id message_id [] used = Inr []"
| "pending_attachments is_file page_id message_id (input # inputs) used =
     (if \<not> is_file (ti_path input) then Inl (WikiError (''attachment not found: '' @ ti_path input))
      else try_then (requested_name input) (\<lambda>name. try_then (safe_attachment_filename name) (\<lambda>safe.
        case unique_attachment_filename safe used of
          None \<Rightarrow> Inl (WikiError ''the search for a name did not end'')
        | Some (filename, used') \<Rightarrow> try_then (pending_attachments is_file page_id message_id inputs used') (\<lambda>records.
            Inr (attachment_record page_id message_id input filename # records)))))"

end
