(* ===== verification/Wiki_Route_Properties.thy ===== *)
theory Wiki_Route_Properties
  imports Wiki_Routes Safe_Id
begin

text \<open>
  What holds of the routes, the links and the names of files of the wiki: the canonical form of a valid route, links that
  find the page they are made for, and names of attachments that stay in their directory and apart from each other.
\<close>

section \<open>Texts of plain characters\<close>

definition visible :: "char \<Rightarrow> bool" where
  "visible c \<longleftrightarrow> 33 \<le> byte c \<and> byte c < 127"

lemma visible_chars: "list_all visible s \<Longrightarrow> utf8_chars s = map (\<lambda>c. [c]) s"
  by (rule utf8_chars_ascii) (auto simp: list_all_iff visible_def)

lemma visible_not_space: "visible c \<Longrightarrow> \<not> is_whitespace [c]"
  by (auto simp: is_whitespace_def visible_def)

lemma visible_trim: "list_all visible s \<Longrightarrow> str_trim s = s"
proof -
  assume s: "list_all visible s"
  have none: "dropWhile is_whitespace (map (\<lambda>c. [c]) t) = map (\<lambda>c. [c]) t" if "list_all visible t" for t :: string
    using that by (cases t) (auto simp: visible_not_space)
  have "dropWhile is_whitespace (rev (map (\<lambda>c. [c]) s)) = rev (map (\<lambda>c. [c]) s)"
    using none [of "rev s"] s by (simp add: rev_map)
  then show ?thesis
    by (simp add: str_trim_def trim_start_def trim_end_def visible_chars [OF s] none [OF s] concat_singletons)
qed

lemma slug_visible: "slug_char c \<Longrightarrow> visible c \<and> \<not> is_slash c \<and> c \<noteq> CHR ''?'' \<and> c \<noteq> CHR ''#''"
  by (auto simp: slug_char_def visible_def is_slash_def is_ascii_lowercase_def is_ascii_digit_def)

lemma slug_end: "is_ascii_lowercase c \<or> is_ascii_digit c \<Longrightarrow> slug_char c \<and> c \<noteq> CHR ''.''"
  by (auto simp: slug_char_def is_ascii_lowercase_def is_ascii_digit_def)

section \<open>Valid routes\<close>

text \<open>The segments of a valid route.\<close>

definition plain_segment :: "string \<Rightarrow> bool" where
  "plain_segment s \<longleftrightarrow> page_slug_is_allowed s \<and> \<not> ends_with s ''.md'' \<and> \<not> ends_with s ''.html''"

lemma plain_segment_facts:
  assumes "plain_segment s"
  shows "s \<noteq> []" "list_all slug_char s" "hd s \<noteq> CHR ''.''" "last s \<noteq> CHR ''/''"
  using assms slug_end [of "hd s"] slug_end [of "last s"] slug_visible [of "last s"]
  by (auto simp: plain_segment_def page_slug_is_allowed_def is_slash_def)

lemma split_slash_join:
  assumes "ss \<noteq> []" "\<forall>s\<in>set ss. list_all slug_char s"
  shows "split_on is_slash (str_join ''/'' ss) = ss"
  using assms
proof (induction "''/''" ss rule: str_join.induct)
  case (2 s)
  then have "split_on is_slash s = [s]" by (intro split_on_none) (auto simp: list_all_iff slug_visible)
  then show ?case by simp
next
  case (3 s t ss)
  then have "split_on is_slash s = [s]" by (intro split_on_none) (auto simp: list_all_iff slug_visible)
  moreover have "is_slash CHR ''/''" by (simp add: is_slash_def)
  ultimately show ?case using 3 split_on_append [of is_slash "CHR ''/''" s "str_join ''/'' (t # ss)"] by simp
qed simp

lemma join_split_slash: "str_join ''/'' (split_on is_slash s) = s"
proof (induction s)
  case (Cons c s)
  have "is_slash c \<longleftrightarrow> c = CHR ''/''" by (simp add: is_slash_def)
  with Cons split_on_nonempty [of is_slash s] show ?case
    by (cases "split_on is_slash s"; cases "tl (split_on is_slash s)") auto
qed simp

lemma valid_route:
  assumes "validate_page_route r = Inr ()"
  shows "r = ''/'' \<or> (\<exists>ss slashes. r = slashes @ str_join ''/'' ss \<and> slashes \<noteq> [] \<and> set slashes = {CHR ''/''} \<and>
     ss \<noteq> [] \<and> (\<forall>s\<in>set ss. plain_segment s))"
proof (cases "r = ''/''")
  case False
  let ?ss = "split_on is_slash (trim_start_set ''/'' r)"
  have start: "starts_with r ''/''" using assms by (auto simp: validate_page_route_def split: if_splits)
  obtain us where "try_map (validate_route_segment r) ?ss = Inr us"
    using assms False by (auto simp: validate_page_route_def try_then_Inr split: if_splits)
  then have "\<forall>s\<in>set ?ss. validate_route_segment r s = Inr ()"
    by (auto simp: try_map_Inr list_all2_conv_all_nth in_set_conv_nth)
  then have ok: "\<forall>s\<in>set ?ss. plain_segment s" by (auto simp: validate_route_segment_def plain_segment_def split: if_splits)
  let ?slashes = "takeWhile (\<lambda>c. c \<in> set ''/'') r"
  have r: "r = ?slashes @ str_join ''/'' ?ss" by (simp add: join_split_slash trim_start_set_def)
  have "?slashes \<noteq> []" using start by (cases r) (auto simp: starts_with_def)
  moreover have "set ?slashes \<subseteq> {CHR ''/''}" by (auto dest: set_takeWhileD)
  ultimately have "set ?slashes = {CHR ''/''}" by (metis set_empty subset_singletonD)
  with r ok \<open>?slashes \<noteq> []\<close> show ?thesis by (metis split_on_nonempty)
qed simp

text \<open>The end of a route is the end of its last segment, as far as texts without a slash go.\<close>

lemma str_join_last: "ss \<noteq> [] \<Longrightarrow> \<exists>front. str_join ''/'' ss = front @ last ss \<and> (front = [] \<or> last front = CHR ''/'')"
proof (induction "''/''" ss rule: str_join.induct)
  case (3 s t ss)
  then obtain front where "str_join ''/'' (t # ss) = front @ last (t # ss)" "front = [] \<or> last front = CHR ''/''" by auto
  then show ?case by (intro exI [of _ "s @ ''/'' @ front"]) auto
qed auto

lemma ends_in_segment:
  assumes "ends_with (front @ s) p" "front = [] \<or> last front = CHR ''/''" "CHR ''/'' \<notin> set p"
  shows "ends_with s p"
proof -
  from assms(1) obtain a where "front @ s = a @ p" by (auto simp: ends_with_iff)
  then consider us where "front = a @ us" "us @ s = p" | us where "s = us @ p" by (auto simp: append_eq_append_conv2)
  then show ?thesis
  proof cases
    case 1
    show ?thesis
    proof (cases "us = []")
      case True
      with 1 show ?thesis by (simp add: ends_with_def)
    next
      case False
      with 1 assms(2) have "CHR ''/'' \<in> set us" by (metis append_is_Nil_conv last_appendR last_in_set)
      with 1 assms(3) show ?thesis by auto
    qed
  qed (auto simp: ends_with_iff)
qed

lemma route_parts_ok: "\<forall>s\<in>set ss. plain_segment s \<Longrightarrow> route_parts parts ss = Some (parts @ ss)"
proof (induction ss arbitrary: parts)
  case (Cons s ss)
  then have "plain_segment s" by simp
  then have "s \<noteq> []" "hd s \<noteq> CHR ''.''" by (rule plain_segment_facts)+
  then have "s \<noteq> ''.''" "s \<noteq> ''..''" by auto
  with Cons \<open>s \<noteq> []\<close> show ?case by simp
qed simp

lemma join_visible: "\<forall>s\<in>set ss. list_all visible s \<Longrightarrow> list_all visible (str_join ''/'' ss)"
  by (induction "''/''" ss rule: str_join.induct) (auto simp: visible_def)

lemma join_hd: "ss \<noteq> [] \<Longrightarrow> \<forall>s\<in>set ss. plain_segment s \<Longrightarrow> str_join ''/'' ss \<noteq> [] \<and> hd (str_join ''/'' ss) \<noteq> CHR ''/''"
proof (induction "''/''" ss rule: str_join.induct)
  case (2 s)
  then have "plain_segment s" by simp
  from plain_segment_facts(1,2) [OF this] show ?case by (cases s) (auto simp: slug_char_def is_ascii_lowercase_def is_ascii_digit_def)
next
  case (3 s t ss)
  then have "plain_segment s" by simp
  from plain_segment_facts(1,2) [OF this] show ?case by (cases s) (auto simp: slug_char_def is_ascii_lowercase_def is_ascii_digit_def)
qed simp

lemma strip_or_not: "\<not> ends_with s p \<Longrightarrow> strip_suffix_or p s = s"
  by (auto simp: strip_suffix_or_def ends_with_iff split: option.splits)

lemma strip_or_append: "strip_suffix_or p (s @ p) = s"
  by (simp add: strip_suffix_or_def split: option.splits) (metis option.distinct(1) strip_suffix_Some)

lemma ends_with_trans: "ends_with s (a @ p) \<Longrightarrow> ends_with s p"
  by (auto simp: ends_with_iff)

lemma canonical_of_segments:
  assumes "ss \<noteq> []" "\<forall>s\<in>set ss. plain_segment s" and slashes: "slashes \<noteq> []" "set slashes = {CHR ''/''}"
  shows "list_all visible (slashes @ str_join ''/'' ss)" "route_stem (slashes @ str_join ''/'' ss) = slashes @ str_join ''/'' ss"
    "normalize_wiki_route_segments (trim_start_set ''/'' (slashes @ str_join ''/'' ss)) = Some (''/'' @ str_join ''/'' ss)"
    "canonical_route_target (slashes @ str_join ''/'' ss) = Some (''/'' @ str_join ''/'' ss)"
    "trim_end_set ''/'' (slashes @ str_join ''/'' ss) = slashes @ str_join ''/'' ss"
    "str_join ''/'' ss \<noteq> []" "\<not> ends_with (slashes @ str_join ''/'' ss) ''.md''"
proof -
  let ?r = "slashes @ str_join ''/'' ss"
  have chars: "\<forall>s\<in>set ss. list_all slug_char s" using assms(2) plain_segment_facts(2) by blast
  show vis: "list_all visible ?r"
  proof -
    have "list_all visible slashes" unfolding list_all_iff slashes(2) by (simp add: visible_def)
    moreover have "\<forall>s\<in>set ss. list_all visible s" using chars slug_visible by (fastforce simp: list_all_iff)
    ultimately show ?thesis using join_visible [of ss] by simp
  qed
  obtain front where front: "str_join ''/'' ss = front @ last ss" "front = [] \<or> last front = CHR ''/''"
    using str_join_last [OF assms(1)] by blast
  have seg: "plain_segment (last ss)" using assms(1,2) by simp
  have front': "slashes @ front = [] \<or> last (slashes @ front) = CHR ''/''"
    using front(2) slashes by (metis last_appendR last_in_set singletonD append_Nil2)
  have ends: "ends_with ?r p \<Longrightarrow> ends_with (last ss) p" if "CHR ''/'' \<notin> set p" for p
    using ends_in_segment [of "slashes @ front" "last ss" p] front' that by (simp add: front(1))
  have "\<not> ends_with ?r ''.md''" "\<not> ends_with ?r ''.html''"
    using ends [of "''.md''"] ends [of "''.html''"] seg by (auto simp: plain_segment_def)
  then show "\<not> ends_with ?r ''.md''" by simp
  have "\<not> ends_with ?r ''/index.md''" "\<not> ends_with ?r ''/index.html''"
    using ends_with_trans [of ?r "''/index''" "''.md''"] ends_with_trans [of ?r "''/index''" "''.html''"]
      \<open>\<not> ends_with ?r ''.md''\<close> \<open>\<not> ends_with ?r ''.html''\<close> by auto
  then show stem: "route_stem ?r = ?r"
    using \<open>\<not> ends_with ?r ''.md''\<close> \<open>\<not> ends_with ?r ''.html''\<close> by (simp add: route_stem_def strip_or_not)
  have drop: "trim_start_set ''/'' ?r = str_join ''/'' ss"
  proof -
    obtain c cs where "str_join ''/'' ss = c # cs" "c \<noteq> CHR ''/''" using join_hd [OF assms(1,2)] by (cases "str_join ''/'' ss") auto
    moreover have "\<forall>c\<in>set slashes. c \<in> set ''/''" using slashes(2) by simp
    ultimately show ?thesis by (simp add: trim_start_set_def dropWhile_append2)
  qed
  then show norm: "normalize_wiki_route_segments (trim_start_set ''/'' ?r) = Some (''/'' @ str_join ''/'' ss)"
    using assms(1,2) chars by (simp add: normalize_wiki_route_segments_def split_slash_join route_parts_ok)
  have "last (str_join ''/'' ss) \<noteq> CHR ''/''" using front(1) seg plain_segment_facts(1,4) by (metis last_appendR)
  moreover show nonempty: "str_join ''/'' ss \<noteq> []" using join_hd assms(1,2) by blast
  ultimately have "trim_end_set ''/'' (x @ str_join ''/'' ss) = x @ str_join ''/'' ss" for x
    by (cases "str_join ''/'' ss" rule: rev_cases) (auto simp: trim_end_set_def)
  from this [of slashes] this [of "''/''"] show "trim_end_set ''/'' ?r = ?r" "canonical_route_target ?r = Some (''/'' @ str_join ''/'' ss)"
    using norm stem nonempty visible_trim [OF vis] slashes by (simp_all add: canonical_route_target_def)
qed

section \<open>What a link points at\<close>

lemma takeWhile_absent: "c \<notin> set p \<Longrightarrow> takeWhile (\<lambda>d. d \<noteq> c) p = p"
  by (auto simp: takeWhile_eq_all_conv)

lemma starts_with_hd: "starts_with (c # s) (d # p) \<Longrightarrow> c = d"
  by (simp add: starts_with_def)

lemma href_tail:
  assumes "list_all visible p" "starts_with p ''/''" "CHR ''?'' \<notin> set p" "CHR ''#'' \<notin> set p"
    "list_all visible tail" "tail = [] \<or> hd tail \<in> {CHR ''?'', CHR ''#''}"
  shows "normalize_wiki_href (p @ tail) source_route = normalize_wiki_href p source_route"
proof -
  have trim: "str_trim (p @ tail) = p @ tail" "str_trim p = p" using assms by (simp_all add: visible_trim)
  obtain p' where p: "p = CHR ''/'' # p'" using assms(2) by (cases p) (auto simp: starts_with_def)
  then have "\<not> external_href (p @ tail)" "\<not> external_href p" by (auto simp: external_href_def starts_with_def)
  moreover have "takeWhile (\<lambda>c. c \<noteq> CHR ''?'') (takeWhile (\<lambda>c. c \<noteq> CHR ''#'') (p @ tail)) = p"
  proof (cases "tail = [] \<or> hd tail = CHR ''#''")
    case True
    then have "takeWhile (\<lambda>c. c \<noteq> CHR ''#'') (p @ tail) = p" using assms(4) by (cases tail) (auto simp: takeWhile_append)
    then show ?thesis using assms(3) by (simp add: takeWhile_absent)
  next
    case False
    then obtain t where "tail = CHR ''?'' # t" using assms(6) by (cases tail) auto
    then show ?thesis using assms(3,4) by (auto simp: takeWhile_append takeWhile_eq_all_conv)
  qed
  moreover have "takeWhile (\<lambda>c. c \<noteq> CHR ''?'') (takeWhile (\<lambda>c. c \<noteq> CHR ''#'') p) = p"
    using assms(3,4) by (simp add: takeWhile_absent)
  ultimately show ?thesis using trim by (simp add: normalize_wiki_href_def)
qed

lemma plain_href:
  assumes "list_all visible p" "starts_with p ''/''" "CHR ''?'' \<notin> set p" "CHR ''#'' \<notin> set p"
    "normalize_wiki_route_segments (trim_start_set ''/'' p) = Some normalized" "canonical_route_target normalized = Some c"
  shows "normalize_wiki_href p source_route = Some \<lparr>
      nh_target = (if ends_with normalized ''.md'' then markdown_url_for_route c else c), nh_route_target = c,
      nh_target_kind = (if ends_with normalized ''.md'' then ''markdown_twin'' else ''route'') \<rparr>"
proof -
  obtain p' where p: "p = CHR ''/'' # p'" using assms(2) by (cases p) (auto simp: starts_with_def)
  then have "\<not> external_href p" by (auto simp: external_href_def starts_with_def)
  moreover have "takeWhile (\<lambda>c. c \<noteq> CHR ''?'') (takeWhile (\<lambda>c. c \<noteq> CHR ''#'') p) = p"
    using assms(3,4) by (simp add: takeWhile_absent)
  ultimately show ?thesis using assms by (simp add: normalize_wiki_href_def visible_trim resolve_href_def Let_def)
qed

lemma slug_join_chars:
  assumes "\<forall>s\<in>set ss. list_all slug_char s"
  shows "CHR ''?'' \<notin> set (str_join ''/'' ss)" "CHR ''#'' \<notin> set (str_join ''/'' ss)"
  using assms slug_visible by (induction "''/''" ss rule: str_join.induct) (auto simp: list_all_iff)

lemma valid_route_canonical: "validate_page_route r = Inr () \<Longrightarrow>
    canonical_route_target r = Some (''/'' @ trim_start_set ''/'' r) \<and> (''/'' @ trim_start_set ''/'' r = r \<longleftrightarrow> \<not> starts_with r ''//'')"
proof -
  assume valid: "validate_page_route r = Inr ()"
  show ?thesis
    using valid_route [OF valid]
  proof (elim disjE exE conjE)
    assume "r = ''/''"
    moreover have "canonical_route_target ''/'' = Some (''/'' @ trim_start_set ''/'' ''/'')" by code_simp
    ultimately show ?thesis by (simp add: starts_with_def trim_start_set_def)
  next
    fix ss slashes
    assume r: "r = slashes @ str_join ''/'' ss" "slashes \<noteq> []" "set slashes = {CHR ''/''}" "ss \<noteq> []" "\<forall>s\<in>set ss. plain_segment s"
    note facts = canonical_of_segments [OF r(4,5,2,3)]
    obtain c cs where c: "str_join ''/'' ss = c # cs" "c \<noteq> CHR ''/''" using join_hd [OF r(4,5)] by (cases "str_join ''/'' ss") auto
    have "\<forall>d\<in>set slashes. d \<in> set ''/''" using r(3) by simp
    with c have drop: "trim_start_set ''/'' r = str_join ''/'' ss" by (simp add: r(1) trim_start_set_def dropWhile_append2)
    obtain slashes' where s: "slashes = CHR ''/'' # slashes'" using r(2,3) by (cases slashes) auto
    have "''/'' @ str_join ''/'' ss = r \<longleftrightarrow> slashes' = []" by (simp add: r(1) s)
    moreover have "starts_with r ''//'' \<longleftrightarrow> slashes' \<noteq> []" using r(3) c by (cases slashes') (auto simp: r(1) s starts_with_def)
    ultimately show ?thesis using facts(4) drop by (simp add: r(1))
  qed
qed

text \<open>A valid route is its own canonical form unless it begins with two slashes: those routes are accepted, and their
  canonical form is the route with one.\<close>

theorem valid_routes_canonical:
  assumes "validate_page_route r = Inr ()"
  shows "canonical_route_target r = Some (''/'' @ trim_start_set ''/'' r) \<and>
    route_conflict_key r = ''/'' @ trim_start_set ''/'' r \<and> (canonical_route_target r = Some r \<longleftrightarrow> \<not> starts_with r ''//'')"
  using valid_route_canonical [OF assms] by (auto simp: route_conflict_key_def)

lemma valid_routes_canonical_witness:
  "canonical_route_target ''/topics/a-1.b'' = Some ''/topics/a-1.b'' \<and> canonical_route_target ''//host'' = Some ''/host''"
proof -
  have "validate_page_route ''/topics/a-1.b'' = Inr ()" "validate_page_route ''//host'' = Inr ()" by code_simp+
  from this [THEN valid_routes_canonical] show ?thesis by (simp add: trim_start_set_def)
qed

text \<open>The link to the markdown of a page.\<close>

lemma markdown_link:
  assumes ss: "ss \<noteq> []" "\<forall>s\<in>set ss. plain_segment s" and slashes: "slashes \<noteq> []" "set slashes = {CHR ''/''}"
    and "\<not> ends_with (slashes @ str_join ''/'' ss) ''/index''"
  shows "normalize_wiki_href (slashes @ str_join ''/'' ss @ ''.md'') source_route = Some \<lparr>
      nh_target = markdown_url_for_route (''/'' @ str_join ''/'' ss), nh_route_target = ''/'' @ str_join ''/'' ss, nh_target_kind = ''markdown_twin'' \<rparr>"
proof -
  let ?c = "''/'' @ str_join ''/'' ss" and ?join = "str_join ''/'' ss"
  note facts = canonical_of_segments [OF ss slashes] and root = canonical_of_segments [OF ss, of "''/''"]
  obtain front where front: "?join @ ''.md'' = str_join ''/'' (butlast ss @ [last ss @ ''.md''])"
  proof -
    have "str_join ''/'' (xs @ [x @ y]) = str_join ''/'' (xs @ [x]) @ y" for xs x y
    proof (induction "''/''" xs rule: str_join.induct)
      case (3 s t ss)
      then show ?case by simp
    qed (auto simp: str_join.simps)
    from this [of "butlast ss" "last ss" "''.md''"] that show thesis using ss(1) by simp
  qed
  have chars: "\<forall>s\<in>set (butlast ss @ [last ss @ ''.md'']). list_all slug_char s"
    using ss plain_segment_facts(2) by (auto dest!: in_set_butlastD simp: slug_char_def is_ascii_lowercase_def)
  have parts: "route_parts [] (butlast ss @ [last ss @ ''.md'']) = Some (butlast ss @ [last ss @ ''.md''])"
  proof -
    have "route_parts ps (xs @ [y]) = Some (ps @ xs @ [y])" if "\<forall>x\<in>set xs. plain_segment x" "y \<noteq> []" "y \<noteq> ''.''" "y \<noteq> ''..''" for ps xs y
      using that
    proof (induction xs arbitrary: ps)
      case (Cons x xs)
      then have "x \<noteq> [] \<and> hd x \<noteq> CHR ''.''" using plain_segment_facts(1,3) by auto
      then have "x \<noteq> ''.''" "x \<noteq> ''..''" by auto
      with Cons \<open>x \<noteq> [] \<and> _\<close> show ?case by simp
    qed simp
    moreover have "last ss @ ''.md'' \<noteq> ''.''" "last ss @ ''.md'' \<noteq> ''..''" by (auto dest: arg_cong [of _ _ length])
    moreover have "\<forall>x\<in>set (butlast ss). plain_segment x" using ss(2) by (auto dest: in_set_butlastD)
    ultimately show ?thesis by simp
  qed
  have drop: "trim_start_set ''/'' (slashes @ ?join @ ''.md'') = ?join @ ''.md''"
  proof -
    obtain c cs where "?join = c # cs" "c \<noteq> CHR ''/''" using join_hd [OF ss] by (cases ?join) auto
    moreover have "\<forall>c\<in>set slashes. c \<in> set ''/''" using slashes(2) by simp
    ultimately show ?thesis by (simp add: trim_start_set_def dropWhile_append2)
  qed
  have normalized: "normalize_wiki_route_segments (trim_start_set ''/'' (slashes @ ?join @ ''.md'')) = Some (?c @ ''.md'')"
    using split_slash_join [OF _ chars] parts drop by (simp add: normalize_wiki_route_segments_def flip: front)
  have visible: "list_all visible (slashes @ ?join @ ''.md'')" "list_all visible (?c @ ''.md'')"
    using facts(1) root(1) by (simp_all add: visible_def)
  have "\<not> ends_with (?c @ ''.md'') ''/index.html''" by (auto simp: ends_with_iff)
  moreover have "\<not> ends_with (?c @ ''.md'') ''/index.md''"
  proof
    assume "ends_with (?c @ ''.md'') ''/index.md''"
    then obtain a where "?c @ ''.md'' = (a @ ''/index'') @ ''.md''" by (auto simp: ends_with_iff)
    then have "?c = a @ ''/index''" by (simp only: append_same_eq)
    moreover obtain slashes' where "slashes = slashes' @ ''/''" using slashes
      by (metis append_butlast_last_id last_in_set singletonD)
    ultimately have "slashes @ ?join = slashes' @ a @ ''/index''" by simp
    with assms(5) show False by (metis append.assoc ends_with_iff)
  qed
  moreover have "\<not> ends_with (?c @ ''.md'') ''.html''" by (auto simp: ends_with_iff)
  ultimately have stem: "route_stem (?c @ ''.md'') = ?c"
    unfolding route_stem_def by (simp only: strip_or_not strip_or_append simp_thms)
  have "canonical_route_target (?c @ ''.md'') = Some ?c"
    using root(3,5,6) visible_trim [OF visible(2)] stem by (simp add: canonical_route_target_def)
  from plain_href [OF visible(1) _ _ _ normalized this] show ?thesis
    using slashes slug_join_chars [of ss] plain_segment_facts(2) ss(2)
    by (cases slashes) (auto simp: starts_with_def ends_with_iff)
qed



text \<open>Pages \<open>/a\<close> and \<open>/a/index\<close> are accepted beside each other, and the markdown link of the second is one to the first.\<close>

lemma index_route_is_shadowed:
  "validate_page_route ''/a'' = Inr () \<and> validate_page_route ''/a/index'' = Inr () \<and>
   route_conflict_key ''/a'' \<noteq> route_conflict_key ''/a/index'' \<and>
   map_option nh_route_target (normalize_wiki_href (markdown_url_for_route ''/a/index'') ''/'') = Some ''/a''"
  by code_simp

section \<open>Names of attachments\<close>

definition name_char :: "char \<Rightarrow> bool" where
  "name_char c \<longleftrightarrow> is_ascii_alphanumeric c \<or> c = CHR ''.'' \<or> c = CHR ''_'' \<or> c = CHR ''-''"

lemma str_replace_chars: "set (str_replace pat rep s) \<subseteq> set s \<union> set rep"
proof (induction pat rep s rule: str_replace.induct)
  case (2 pat rep c cs)
  have "set (drop (length pat) (c # cs)) \<subseteq> set (c # cs)" by (rule set_drop_subset)
  with 2 show ?case by (auto simp del: drop_Suc_Cons)
qed simp

lemma drop_dash_dots_facts: "\<not> str_contains (drop_dash_dots s) ''-.'' \<and> set (drop_dash_dots s) \<subseteq> set s \<union> {CHR ''.''}"
proof (induction s rule: drop_dash_dots.induct)
  case (1 s)
  show ?case
  proof (cases "str_contains s ''-.''")
    case True
    with 1 str_replace_chars [of "''-.''" "''.''" s] drop_dash_dots.simps [of s] show ?thesis by auto
  qed (auto simp: drop_dash_dots.simps [of s])
qed

lemma sanitize_chars: "c \<in> set (sanitize_loop chs dashed) \<Longrightarrow> name_char c"
  by (induction chs dashed rule: sanitize_loop.induct) (auto simp: name_char_def list_all_iff split: if_splits)

lemma trim_ends_contains: "str_contains (trim_end_set cs (trim_start_set cs s)) p \<Longrightarrow> str_contains s p"
proof -
  assume "str_contains (trim_end_set cs (trim_start_set cs s)) p"
  then obtain a b where ab: "trim_end_set cs (trim_start_set cs s) = a @ p @ b" by (auto simp: str_contains_iff)
  have "s = takeWhile (\<lambda>c. c \<in> set cs) s @ trim_start_set cs s" by (simp add: trim_start_set_def)
  moreover have "t = trim_end_set cs t @ rev (takeWhile (\<lambda>c. c \<in> set cs) (rev t))" for t
    by (metis rev_append rev_rev_ident takeWhile_dropWhile_id trim_end_set_def)
  ultimately have "s = (takeWhile (\<lambda>c. c \<in> set cs) s @ a) @ p @ (b @ rev (takeWhile (\<lambda>c. c \<in> set cs) (rev (trim_start_set cs s))))"
    by (metis ab append.assoc)
  then show "str_contains s p" unfolding str_contains_iff by blast
qed

lemma trim_ends_chars: "set (trim_end_set cs (trim_start_set cs s)) \<subseteq> set s"
  by (auto simp: trim_end_set_def trim_start_set_def dest!: set_dropWhileD)

lemma trim_ends_neq:
  assumes "trim_end_set cs (trim_start_set cs s) \<noteq> []"
  shows "hd (trim_end_set cs (trim_start_set cs s)) \<notin> set cs" "last (trim_end_set cs (trim_start_set cs s)) \<notin> set cs"
proof -
  let ?t = "trim_start_set cs s"
  have "trim_end_set cs ?t @ rev (takeWhile (\<lambda>c. c \<in> set cs) (rev ?t)) = ?t"
    by (metis rev_append rev_rev_ident takeWhile_dropWhile_id trim_end_set_def)
  then have "hd (trim_end_set cs ?t) = hd ?t" "?t \<noteq> []" using assms by (metis hd_append2, auto)
  then show "hd (trim_end_set cs ?t) \<notin> set cs" using hd_dropWhile [of "\<lambda>c. c \<in> set cs" s] by (simp add: trim_start_set_def)
  show "last (trim_end_set cs ?t) \<notin> set cs"
    using assms hd_dropWhile [of "\<lambda>c. c \<in> set cs" "rev ?t"] by (simp add: trim_end_set_def last_rev)
qed

text \<open>The name of an accepted attachment is one component of a path, neither hidden nor a step upwards.\<close>

lemma attachment_name_safe:
  assumes "safe_attachment_filename v = Inr n"
  shows "n \<noteq> [] \<and> list_all name_char n \<and> hd n \<notin> {CHR ''.'', CHR ''-''} \<and> last n \<notin> {CHR ''.'', CHR ''-''} \<and> \<not> str_contains n ''-.''"
proof -
  let ?d = "drop_dash_dots (sanitize_loop (utf8_chars (str_trim v)) False)"
  have n: "n = trim_end_set ''.-'' (trim_start_set ''.-'' ?d)" "n \<noteq> []"
    using assms by (auto simp: safe_attachment_filename_def Let_def split: if_splits)
  have "list_all name_char n"
    using trim_ends_chars [of "''.-''" ?d] drop_dash_dots_facts [of "sanitize_loop (utf8_chars (str_trim v)) False"] sanitize_chars n(1)
    by (fastforce simp: list_all_iff name_char_def)
  moreover have "\<not> str_contains n ''-.''"
    using trim_ends_contains [of "''.-''" ?d "''-.''"] drop_dash_dots_facts n(1) by auto
  ultimately show ?thesis using trim_ends_neq [of "''.-''" ?d] n by auto
qed

fun ascii_decimal_value :: "nat \<Rightarrow> string \<Rightarrow> nat" where
  "ascii_decimal_value n [] = n"
| "ascii_decimal_value n (c # cs) = ascii_decimal_value (n * 10 + (byte c - 48)) cs"

lemma decimal_value_append: "ascii_decimal_value n (xs @ ys) = ascii_decimal_value (ascii_decimal_value n xs) ys"
  by (induction xs arbitrary: n) auto

lemma decimal_value_decimal: "ascii_decimal_value 0 (decimal n) = n"
proof (induction n rule: decimal.induct)
  case (1 n)
  have "byte (char_of (48 + k :: nat)) = 48 + k" if "k < 10" for k using that by simp
  with 1 show ?case by (subst decimal.simps) (auto simp: decimal_value_append)
qed

lemma candidate_inj: "candidate_name filename m = candidate_name filename n \<Longrightarrow> m = n"
  by (auto simp: candidate_name_def split: option.splits prod.splits) (metis decimal_value_decimal)+

lemma candidate_loop_fails: "candidate_loop fuel filename used n = None \<Longrightarrow> \<forall>k<fuel. candidate_name filename (n + k) \<in> set used"
proof (induction fuel arbitrary: n)
  case (Suc fuel)
  then have "candidate_loop fuel filename used (n + 1) = None" "candidate_name filename n \<in> set used" by (auto split: if_splits)
  with Suc.IH [of "n + 1"] have "\<forall>k<fuel. candidate_name filename (n + 1 + k) \<in> set used" "candidate_name filename n \<in> set used" by auto
  then show ?case by (auto simp: less_Suc_eq_0_disj simp del: candidate_loop.simps)
qed simp

lemma candidate_loop_free: "candidate_loop fuel filename used n = Some c \<Longrightarrow> c \<notin> set used"
  by (induction fuel arbitrary: n) (auto split: if_splits)

text \<open>The search for a free name ends: among one more candidates than names in use there is a free one.\<close>

lemma unique_name_found:
  "\<exists>name. unique_attachment_filename filename used = Some (name, name # used) \<and> name \<notin> set used"
proof (cases "filename \<in> set used")
  case True
  have "candidate_loop (length used + 1) filename used 2 \<noteq> None"
  proof
    assume "candidate_loop (length used + 1) filename used 2 = None"
    then have "(\<lambda>k. candidate_name filename (2 + k)) ` {..<length used + 1} \<subseteq> set used" using candidate_loop_fails by blast
    moreover have "inj_on (\<lambda>k. candidate_name filename (2 + k)) {..<length used + 1}"
      by (auto intro!: inj_onI dest!: candidate_inj)
    ultimately have "length used + 1 \<le> card (set used)" using card_inj_on_le [of _ "{..<length used + 1}" "set used"] by simp
    then show False using card_length [of used] by simp
  qed
  then show ?thesis using True candidate_loop_free by (auto simp: unique_attachment_filename_def)
qed (simp add: unique_attachment_filename_def)

definition file_name_ok :: "string \<Rightarrow> bool" where
  "file_name_ok n \<longleftrightarrow> n \<noteq> [] \<and> list_all name_char n \<and> hd n \<notin> {CHR ''.'', CHR ''-''}"

lemma name_char_digits: "list_all name_char (decimal n)"
  by (auto simp: list_all_iff name_char_def is_ascii_alphanumeric_def dest: decimal_digits)

lemma candidate_name_ok:
  assumes "file_name_ok n"
  shows "file_name_ok (candidate_name n k)"
proof (cases "rsplit_dot n")
  case None
  with assms show ?thesis using name_char_digits [of k] by (simp add: candidate_name_def file_name_ok_def) (simp add: name_char_def)
next
  case (Some parts)
  then obtain i where i: "rfind_char CHR ''.'' n = Some i" "parts = (take i n, drop (i + 1) n)" by (auto simp: rsplit_dot_def)
  with rfind_char_Some [OF i(1)] have "i < length n" "n ! i = CHR ''.''" by auto
  with assms have "i \<noteq> 0" by (cases i; cases n) (auto simp: file_name_ok_def)
  then have "take i n \<noteq> []" "hd (take i n) = hd n" using \<open>i < length n\<close> by (cases n; cases i; simp)+
  moreover have "list_all name_char (take i n)" "list_all name_char (drop (i + 1) n)"
    using assms by (auto simp: file_name_ok_def list_all_iff dest: in_set_takeD in_set_dropD)
  ultimately show ?thesis using Some i assms name_char_digits [of k]
    by (simp add: candidate_name_def file_name_ok_def) (simp add: name_char_def)
qed

lemma candidate_loop_name: "candidate_loop fuel filename used n = Some c \<Longrightarrow> \<exists>k. c = candidate_name filename k"
  by (induction fuel arbitrary: n) (auto split: if_splits)

lemma pending_names:
  "pending_attachments is_file page_id message_id inputs used = Inr records \<Longrightarrow>
   distinct (map tr_filename records) \<and> set (map tr_filename records) \<inter> set used = {} \<and> list_all (file_name_ok \<circ> tr_filename) records \<and>
   map tr_path records = map (\<lambda>r. ''attachments/'' @ message_id @ ''/'' @ tr_filename r) records \<and> length records = length inputs"
proof (induction inputs arbitrary: used records)
  case (Cons input inputs)
  then obtain name safe filename rest where steps: "safe_attachment_filename name = Inr safe"
    "unique_attachment_filename safe used = Some (filename, filename # used)" "filename \<notin> set used"
    "pending_attachments is_file page_id message_id inputs (filename # used) = Inr rest"
    "records = attachment_record page_id message_id input filename # rest"
  proof -
    from Cons.prems obtain name safe where 1: "safe_attachment_filename name = Inr safe"
      "(case unique_attachment_filename safe used of None \<Rightarrow> Inl (WikiError ''the search for a name did not end'')
        | Some (filename, used') \<Rightarrow> try_then (pending_attachments is_file page_id message_id inputs used') (\<lambda>records.
            Inr (attachment_record page_id message_id input filename # records))) = Inr records"
      by (auto simp: try_then_Inr split: if_splits)
    obtain filename where "unique_attachment_filename safe used = Some (filename, filename # used)" "filename \<notin> set used"
      using unique_name_found by blast
    with 1 show thesis by (auto simp: try_then_Inr intro: that)
  qed
  have "file_name_ok safe" using attachment_name_safe [OF steps(1)] by (simp add: file_name_ok_def)
  then have "file_name_ok filename"
    using steps(2) candidate_name_ok by (auto simp: unique_attachment_filename_def split: if_splits dest!: candidate_loop_name)
  with Cons.IH [OF steps(4)] steps(3,5) show ?case by (auto simp: attachment_record_def)
qed simp

text \<open>The attachments of a talk message have different names, and each is one visible component of a path below the
  directory of the message: none overwrites another or leaves the directory, whatever names the sender asks for.\<close>

theorem attachments_stay_apart:
  assumes "pending_attachments is_file page_id message_id inputs [] = Inr records"
  shows "length records = length inputs \<and> distinct (map tr_path records) \<and>
    (\<forall>r\<in>set records. \<exists>name. tr_path r = ''attachments/'' @ message_id @ ''/'' @ name \<and> file_name_ok name)"
proof -
  from pending_names [OF assms] have facts: "distinct (map tr_filename records)" "list_all (file_name_ok \<circ> tr_filename) records"
    "map tr_path records = map (\<lambda>r. ''attachments/'' @ message_id @ ''/'' @ tr_filename r) records" "length records = length inputs"
    by blast+
  have "distinct (map tr_path records)" unfolding facts(3) using facts(1) by (auto simp: distinct_map inj_on_def)
  with facts show ?thesis by (auto simp: list_all_iff)
qed

lemma attachments_stay_apart_witness:
  "\<exists>records. pending_attachments (\<lambda>p. True) ''p'' ''m''
     [\<lparr> ti_path = ''/tmp/a b.png'', ti_filename = None, ti_caption = None, ti_alt_text = None \<rparr>,
      \<lparr> ti_path = ''/tmp/x'', ti_filename = Some ''a b.png'', ti_caption = None, ti_alt_text = None \<rparr>] [] = Inr records \<and>
     map tr_path records = [''attachments/m/a-b.png'', ''attachments/m/a-b-2.png''] \<and> distinct (map tr_path records)"
proof -
  let ?inputs = "[\<lparr> ti_path = ''/tmp/a b.png'', ti_filename = None, ti_caption = None, ti_alt_text = None \<rparr>,
      \<lparr> ti_path = ''/tmp/x'', ti_filename = Some ''a b.png'', ti_caption = None, ti_alt_text = None \<rparr>]"
  have "(case pending_attachments (\<lambda>p. True) ''p'' ''m'' ?inputs [] of Inl e \<Rightarrow> None
      | Inr records \<Rightarrow> Some (map tr_path records)) = Some [''attachments/m/a-b.png'', ''attachments/m/a-b-2.png'']" by code_simp
  then obtain records where records: "pending_attachments (\<lambda>p. True) ''p'' ''m'' ?inputs [] = Inr records"
    "map tr_path records = [''attachments/m/a-b.png'', ''attachments/m/a-b-2.png'']" by (auto split: sum.splits)
  moreover from attachments_stay_apart [OF records(1)] have "distinct (map tr_path records)" by simp
  ultimately show ?thesis by (intro exI [of _ records]) simp
qed

end
