(* ===== verification/Wiki_Config.thy ===== *)
theory Wiki_Config
  imports Wiki_Routes
begin

text \<open>
  The registry of the wiki, \<open>user-wiki/wiki.toml\<close> (\<open>crates/onecontext-wiki-core/src/lib.rs\<close>): the records of pages and
  generated pages, the edits of its text, the templates of pages, and the check of its integrity. The TOML parser and the
  upper case of characters outside ASCII belong to libraries and are parameters.
\<close>

section \<open>Values\<close>

datatype toml =
    TomlString string
  | TomlInteger int
  | TomlBoolean bool
  | TomlArray "toml list"
  | TomlTable "(string \<times> toml) list"
  | TomlOther

fun toml_get :: "toml \<Rightarrow> string \<Rightarrow> toml option" where
  "toml_get (TomlTable fm) key = map_of fm key"
| "toml_get _ key = None"

fun toml_str :: "toml \<Rightarrow> string option" where
  "toml_str (TomlString s) = Some s"
| "toml_str _ = None"

fun toml_bool :: "toml \<Rightarrow> bool option" where
  "toml_bool (TomlBoolean b) = Some b"
| "toml_bool _ = None"

fun toml_integer :: "toml \<Rightarrow> int option" where
  "toml_integer (TomlInteger i) = Some i"
| "toml_integer _ = None"

fun toml_array :: "toml \<Rightarrow> toml list option" where
  "toml_array (TomlArray vs) = Some vs"
| "toml_array _ = None"

definition get_opt_str :: "toml \<Rightarrow> string \<Rightarrow> string option" where
  "get_opt_str v key = Option.bind (toml_get v key) toml_str"

definition get_opt_bool :: "toml \<Rightarrow> string \<Rightarrow> bool option" where
  "get_opt_bool v key = Option.bind (toml_get v key) toml_bool"

definition get_opt_i64 :: "toml \<Rightarrow> string \<Rightarrow> int option" where
  "get_opt_i64 v key = Option.bind (toml_get v key) toml_integer"

definition get_str :: "toml \<Rightarrow> string \<Rightarrow> wiki_error + string" where
  "get_str v key = ok_or (get_opt_str v key) (WikiError (''missing string field '' @ key))"

definition get_array :: "toml \<Rightarrow> string \<Rightarrow> toml list option" where
  "get_array v key = Option.bind (toml_get v key) toml_array"

definition or_text :: "string option \<Rightarrow> string \<Rightarrow> string" where
  "or_text m d = (case m of None \<Rightarrow> d | Some s \<Rightarrow> s)"

definition if_empty :: "string \<Rightarrow> string \<Rightarrow> string" where
  "if_empty s fallback = (if s = [] then fallback else s)"

section \<open>Pages\<close>

record wiki_page =
  pg_id :: string
  pg_enabled :: bool
  pg_title :: string
  pg_slug :: string
  pg_route :: string
  pg_family_group :: string
  pg_family_group_title :: string
  pg_family_id :: string
  pg_family_title :: string
  pg_page_type :: string
  pg_template :: string
  pg_talk_conventions_template :: "string option"
  pg_talk_curator_template :: "string option"
  pg_summary :: "string option"
  pg_nav_section :: "string option"
  pg_nav_order :: "int option"
  pg_origin :: string

record site_page =
  sp_id :: string
  sp_enabled :: bool
  sp_title :: string
  sp_route :: string
  sp_kind :: string
  sp_template :: string
  sp_nav_section :: "string option"
  sp_nav_order :: "int option"

record page_create_options =
  po_title :: "string option"
  po_slug :: "string option"
  po_route :: "string option"
  po_family_group :: "string option"
  po_family_group_title :: "string option"
  po_family_id :: "string option"
  po_family_title :: "string option"
  po_page_type :: "string option"
  po_template :: "string option"
  po_talk_conventions_template :: "string option"
  po_talk_curator_template :: "string option"
  po_summary :: "string option"
  po_nav_order :: "int option"
  po_nav_section :: "string option"

definition default_page_options :: page_create_options where
  "default_page_options = \<lparr> po_title = None, po_slug = None, po_route = None, po_family_group = None,
     po_family_group_title = None, po_family_id = None, po_family_title = None, po_page_type = None, po_template = None,
     po_talk_conventions_template = None, po_talk_curator_template = None, po_summary = None, po_nav_order = None,
     po_nav_section = None \<rparr>"

text \<open>The first character of every word in upper case: \<open>upper\<close> is \<open>char::to_uppercase\<close> outside ASCII.\<close>

definition upper_char :: "(string \<Rightarrow> string) \<Rightarrow> string \<Rightarrow> string" where
  "upper_char upper ch = (case ch of [c] \<Rightarrow> if 97 \<le> byte c \<and> byte c \<le> 122 then [char_of (byte c - 32)] else [c] | _ \<Rightarrow> upper ch)"

definition title_case :: "(string \<Rightarrow> string) \<Rightarrow> string \<Rightarrow> string" where
  "title_case upper v = str_join '' '' (map (\<lambda>part. case utf8_chars part of [] \<Rightarrow> [] | ch # chs \<Rightarrow> upper_char upper ch @ concat chs)
     (filter (\<lambda>part. part \<noteq> []) (split_on (\<lambda>c. c = CHR ''-'' \<or> c = CHR ''_'') v)))"

definition default_template :: "toml option \<Rightarrow> string \<Rightarrow> string" where
  "default_template defaults slug = (case Option.bind defaults (\<lambda>d. get_opt_str d ''template_pack'') of
     Some pack \<Rightarrow> ''pages/'' @ pack @ ''/'' @ slug @ ''.md''
   | None \<Rightarrow> ''pages/'' @ slug @ ''.md'')"

definition page_record :: "(string \<Rightarrow> string) \<Rightarrow> toml \<Rightarrow> toml option \<Rightarrow> wiki_error + wiki_page" where
  "page_record upper v defaults = try_then (get_str v ''id'') (\<lambda>id.
     let slug = or_text (get_opt_str v ''slug'') id; title = or_text (get_opt_str v ''title'') id;
         family_group = or_text (get_opt_str v ''family_group'') ''pages''
     in Inr \<lparr> pg_id = id, pg_enabled = (get_opt_bool v ''enabled'' \<noteq> Some False), pg_title = title, pg_slug = slug,
       pg_route = or_text (get_opt_str v ''route'') (''/'' @ slug), pg_family_group = family_group,
       pg_family_group_title = or_text (get_opt_str v ''family_group_title'') (title_case upper family_group),
       pg_family_id = or_text (get_opt_str v ''family_id'') slug, pg_family_title = or_text (get_opt_str v ''family_title'') title,
       pg_page_type = or_text (get_opt_str v ''type'') ''context-page'',
       pg_template = or_text (get_opt_str v ''template'') (default_template defaults slug),
       pg_talk_conventions_template = get_opt_str v ''talk_conventions_template'',
       pg_talk_curator_template = get_opt_str v ''talk_curator_template'', pg_summary = get_opt_str v ''summary'',
       pg_nav_section = get_opt_str v ''nav_section'', pg_nav_order = get_opt_i64 v ''nav_order'',
       pg_origin = or_text (get_opt_str v ''origin'') ''created_from_template'' \<rparr>)"

definition site_page_record :: "toml \<Rightarrow> wiki_error + site_page" where
  "site_page_record v = try_then (get_str v ''id'') (\<lambda>id.
     Inr \<lparr> sp_id = id, sp_enabled = (get_opt_bool v ''enabled'' \<noteq> Some False), sp_title = or_text (get_opt_str v ''title'') id,
       sp_route = or_text (get_opt_str v ''route'') (''/'' @ id), sp_kind = or_text (get_opt_str v ''kind'') ''generated'',
       sp_template = or_text (get_opt_str v ''template'') ''site/index.md'', sp_nav_section = get_opt_str v ''nav_section'',
       sp_nav_order = get_opt_i64 v ''nav_order'' \<rparr>)"

definition check_existing_page_option :: "string \<Rightarrow> string \<Rightarrow> string option \<Rightarrow> string \<Rightarrow> wiki_error + unit" where
  "check_existing_page_option page_id field requested existing = (case requested of None \<Rightarrow> Inr ()
     | Some r \<Rightarrow> if r \<noteq> existing then Inl (OptionDiffers page_id field r existing) else Inr ())"

definition existing_options :: "wiki_page \<Rightarrow> page_create_options \<Rightarrow> (string \<times> string option \<times> string) list" where
  "existing_options p o1 =
     [(''title'', po_title o1, pg_title p), (''slug'', po_slug o1, pg_slug p), (''route'', po_route o1, pg_route p),
      (''family_group'', po_family_group o1, pg_family_group p),
      (''family_group_title'', po_family_group_title o1, pg_family_group_title p), (''family_id'', po_family_id o1, pg_family_id p),
      (''family_title'', po_family_title o1, pg_family_title p), (''type'', po_page_type o1, pg_page_type p),
      (''template'', po_template o1, pg_template p),
      (''talk_conventions_template'', po_talk_conventions_template o1, or_text (pg_talk_conventions_template p) []),
      (''talk_curator_template'', po_talk_curator_template o1, or_text (pg_talk_curator_template p) []),
      (''summary'', po_summary o1, or_text (pg_summary p) []),
      (''nav_section'', po_nav_section o1, or_text (pg_nav_section p) ''primary'')]"

definition validate_existing_page_create_options :: "wiki_page \<Rightarrow> page_create_options \<Rightarrow> wiki_error + unit" where
  "validate_existing_page_create_options p o1 =
     try_then (try_map (\<lambda>(field, requested, existing). check_existing_page_option (pg_id p) field requested existing) (existing_options p o1)) (\<lambda>_.
       if po_nav_order o1 \<noteq> None
       then Inl (WikiError (''page already exists: '' @ pg_id p @ ''; page-create cannot change nav_order for an existing page''))
       else Inr ())"

section \<open>Edits of the text\<close>

definition toml_quote :: "string \<Rightarrow> string" where
  "toml_quote v = [CHR 0x22] @ concat (map (\<lambda>c. if c = CHR 0x22 then [CHR 0x5C, CHR 0x22] else [c])
     (concat (map (\<lambda>c. if c = CHR 0x5C then [CHR 0x5C, CHR 0x5C] else [c]) v))) @ [CHR 0x22]"

text \<open>\<open>trim_start_matches\<close> of a text that is not empty.\<close>

function trim_start_text :: "string \<Rightarrow> string \<Rightarrow> string" where
  "trim_start_text p s = (if p \<noteq> [] \<and> starts_with s p then trim_start_text p (drop (length p) s) else s)"
  by pat_completeness auto
termination
proof (relation "measure (\<lambda>(p, s). length s)")
  fix p s :: string
  assume "p \<noteq> [] \<and> starts_with s p"
  then show "((p, drop (length p) s), (p, s)) \<in> measure (\<lambda>(p, s). length s)"
    by (cases p; cases s) (auto simp: starts_with_def)
qed simp

declare trim_start_text.simps [simp del]

definition relines :: "string \<Rightarrow> string list \<Rightarrow> string" where
  "relines original ls = str_join [nl] ls @ (if ends_with original [nl] then [nl] else [])"

definition array_key :: "string \<Rightarrow> string" where
  "array_key key = key @ '' = [''"

definition is_array_line :: "string \<Rightarrow> string \<Rightarrow> bool" where
  "is_array_line key line \<longleftrightarrow> starts_with (trim_start line) (array_key key) \<and> ends_with (trim_start line) '']''"

definition line_indent :: "string \<Rightarrow> string" where
  "line_indent line = take (length line - length (trim_start line)) line"

definition array_inner :: "string \<Rightarrow> string \<Rightarrow> string" where
  "array_inner key line = str_trim (trim_end_set '']'' (trim_start_text (array_key key) (trim_start line)))"

definition append_to_line :: "string \<Rightarrow> string \<Rightarrow> string \<Rightarrow> string" where
  "append_to_line key v line = (let quoted = toml_quote v; inner = array_inner key line in
     if str_contains (trim_start line) quoted then line
     else line_indent line @ array_key key @ (if inner = [] then quoted else inner @ '', '' @ quoted) @ '']'')"

fun append_loop :: "string \<Rightarrow> string \<Rightarrow> string list \<Rightarrow> string list" where
  "append_loop key v [] = []"
| "append_loop key v (line # ls) = (if is_array_line key line then append_to_line key v line # ls else line # append_loop key v ls)"

definition append_to_toml_string_array :: "string \<Rightarrow> string \<Rightarrow> string \<Rightarrow> string" where
  "append_to_toml_string_array t key v = relines t (append_loop key v (str_lines t))"

definition remove_from_line :: "string \<Rightarrow> string \<Rightarrow> string \<Rightarrow> string" where
  "remove_from_line key v line = (if is_array_line key line
     then line_indent line @ array_key key @ str_join '', '' (filter (\<lambda>e. e \<noteq> [] \<and> e \<noteq> toml_quote v)
       (map str_trim (split_on (\<lambda>c. c = CHR '','') (array_inner key line)))) @ '']''
     else line)"

definition remove_from_toml_string_array :: "string \<Rightarrow> string \<Rightarrow> string \<Rightarrow> string" where
  "remove_from_toml_string_array t key v = relines t (map (remove_from_line key v) (str_lines t))"

definition parse_toml_string_literal :: "string \<Rightarrow> string option" where
  "parse_toml_string_literal v = Option.bind (strip_prefix [CHR 0x22] v) (strip_suffix [CHR 0x22])"

definition enabled_line :: "bool \<Rightarrow> string" where
  "enabled_line enabled = ''enabled = '' @ (if enabled then ''true'' else ''false'')"

definition is_id_line :: "string \<Rightarrow> bool" where
  "is_id_line line \<longleftrightarrow> starts_with (str_trim line) ''id = ''"

definition id_line_names :: "string \<Rightarrow> string \<Rightarrow> bool" where
  "id_line_names page_id line \<longleftrightarrow>
     parse_toml_string_literal (str_trim (trim_start_text ''id = '' (str_trim line))) = Some page_id"

definition is_enabled_line :: "string \<Rightarrow> bool" where
  "is_enabled_line line \<longleftrightarrow> starts_with (str_trim line) ''enabled = ''"

text \<open>The flags are \<open>in_page\<close>, \<open>target\<close> and \<open>saw_enabled\<close>.\<close>

fun enable_loop :: "string \<Rightarrow> string \<Rightarrow> string list \<Rightarrow> bool \<Rightarrow> bool \<Rightarrow> bool \<Rightarrow> string list" where
  "enable_loop page_id e [] in_page target saw = (if in_page \<and> target \<and> \<not> saw then [e] else [])"
| "enable_loop page_id e (line # ls) in_page target saw =
     (if str_trim line = ''[[pages]]''
      then (if in_page \<and> target \<and> \<not> saw then [e] else []) @ line # enable_loop page_id e ls True False False
      else if in_page \<and> starts_with (str_trim line) ''[[''
      then (if target \<and> \<not> saw then [e] else []) @ line # enable_loop page_id e ls False False False
      else let target' = (if in_page \<and> is_id_line line then id_line_names page_id line else target) in
        if in_page \<and> target' \<and> is_enabled_line line
        then (line_indent line @ e) # enable_loop page_id e ls in_page target' True
        else line # enable_loop page_id e ls in_page target' saw)"

definition set_page_enabled :: "string \<Rightarrow> string \<Rightarrow> bool \<Rightarrow> string" where
  "set_page_enabled t page_id enabled = relines t (enable_loop page_id (enabled_line enabled) (str_lines t) False False False)"

text \<open>The text of the registry after a page is retired, and after it is restored.\<close>

definition retired_registry :: "string \<Rightarrow> string \<Rightarrow> string" where
  "retired_registry t page_id = set_page_enabled (fold (\<lambda>key t. remove_from_toml_string_array t key page_id)
     [''navigation'', ''primary_navigation'', ''utility_navigation''] t) page_id False"

definition navigation_added :: "string \<Rightarrow> string option \<Rightarrow> string \<Rightarrow> string" where
  "navigation_added t nav_section page_id = (if nav_section = Some ''hidden'' then t
     else append_to_toml_string_array (append_to_toml_string_array t ''navigation'' page_id)
       (if nav_section = Some ''utility'' then ''utility_navigation'' else ''primary_navigation'') page_id)"

definition restored_registry :: "string \<Rightarrow> wiki_page \<Rightarrow> string" where
  "restored_registry t p = navigation_added (set_page_enabled t (pg_id p) True) (pg_nav_section p) (pg_id p)"

definition int_text :: "int \<Rightarrow> string" where
  "int_text i = (if i < 0 then ''-'' @ decimal (nat (- i)) else decimal (nat i))"

definition field_line :: "string \<Rightarrow> string \<Rightarrow> string" where
  "field_line key v = key @ '' = '' @ toml_quote v @ [nl]"

definition opt_field_line :: "string \<Rightarrow> string option \<Rightarrow> string" where
  "opt_field_line key v = (case v of None \<Rightarrow> [] | Some s \<Rightarrow> field_line key s)"

definition registry_entry :: "wiki_page \<Rightarrow> string" where
  "registry_entry p = [nl, nl] @ ''[[pages]]'' @ [nl] @ field_line ''id'' (pg_id p) @ ''enabled = true'' @ [nl] @
     field_line ''title'' (pg_title p) @ field_line ''slug'' (pg_slug p) @ field_line ''route'' (pg_route p) @
     field_line ''family_group'' (pg_family_group p) @ field_line ''family_group_title'' (pg_family_group_title p) @
     field_line ''family_id'' (pg_family_id p) @ field_line ''family_title'' (pg_family_title p) @
     field_line ''type'' (pg_page_type p) @ field_line ''origin'' (pg_origin p) @ field_line ''template'' (pg_template p) @
     opt_field_line ''talk_conventions_template'' (pg_talk_conventions_template p) @
     opt_field_line ''talk_curator_template'' (pg_talk_curator_template p) @ opt_field_line ''summary'' (pg_summary p) @
     (case pg_nav_order p of None \<Rightarrow> [] | Some i \<Rightarrow> ''nav_order = '' @ int_text i @ [nl]) @
     opt_field_line ''nav_section'' (pg_nav_section p)"

section \<open>Templates and the contract of the renderer\<close>

definition render_variable :: "string \<times> string \<Rightarrow> string \<Rightarrow> string" where
  "render_variable = (\<lambda>(key, v) t. str_replace (''{{'' @ key @ ''}}'') v (str_replace (''{{ '' @ key @ '' }}'') v t))"

definition render_template :: "string \<Rightarrow> (string, string) btree_map \<Rightarrow> string" where
  "render_template template vars = fold render_variable vars template"

definition renderer_sections :: "string list" where
  "renderer_sections = [''for-you'', ''context'', ''project'', ''work'', ''reference'', ''system'', ''site'']"

definition renderer_section_is_allowed :: "string \<Rightarrow> bool" where
  "renderer_section_is_allowed s \<longleftrightarrow> s \<in> set renderer_sections"

definition renderer_section_for_page :: "wiki_page \<Rightarrow> string" where
  "renderer_section_for_page p = (if renderer_section_is_allowed (pg_family_group p) then pg_family_group p
     else if pg_page_type p \<in> {''project'', ''project-index''} then ''project''
     else if pg_page_type p \<in> {''topic'', ''topic-index''} then ''reference''
     else if pg_page_type p \<in> {''for-you'', ''for-you-week''} then ''for-you''
     else if pg_page_type p = ''system'' then ''system''
     else if pg_page_type p = ''site'' then ''site''
     else if pg_page_type p = ''work'' then ''work''
     else ''context'')"

definition missing_field :: "(string, string) btree_map \<Rightarrow> string option" where
  "missing_field fm = List.find (\<lambda>f. case bt_get fm f of None \<Rightarrow> True | Some v \<Rightarrow> str_trim v = [])
     [''title'', ''slug'', ''section'', ''access'']"

definition access_tiers :: "string list" where
  "access_tiers = [''public'', ''shared'', ''private'']"

definition optional_fields :: "(string \<times> string list) list" where
  "optional_fields =
     [(''source_type'', [''authored'', ''imported'']), (''status'', [''draft'', ''published'', ''archived'', ''superseded'']),
      (''audience'', [''internal'', ''public'', ''both'']), (''theme_default'', [''light'', ''dark'', ''auto'']),
      (''article_width'', [''s'', ''m'', ''l'']), (''font_size'', [''s'', ''m'', ''l'']), (''border_radius'', [''rounded'', ''square'']),
      (''links_style'', [''underline'', ''color'']), (''cover_image'', [''show'', ''hide'']), (''article_style'', [''full'', ''pics'', ''text''])]"

text \<open>The messages quote the value: they are constructors with the field, the value and what is allowed.\<close>

datatype frontmatter_problem =
    MissingField string
  | BadSlug string
  | NotAllowed string string "string list"

definition field_of :: "(string, string) btree_map \<Rightarrow> string \<Rightarrow> string" where
  "field_of fm f = or_text (bt_get fm f) []"

definition optional_problem :: "(string, string) btree_map \<Rightarrow> frontmatter_problem option" where
  "optional_problem fm = find_map (\<lambda>(f, allowed). case bt_get fm f of None \<Rightarrow> None
     | Some v \<Rightarrow> if v \<in> set allowed then None else Some (NotAllowed f v allowed)) optional_fields"

definition validate_renderer_frontmatter_fields :: "(string, string) btree_map \<Rightarrow> frontmatter_problem option" where
  "validate_renderer_frontmatter_fields fm = (case missing_field fm of Some f \<Rightarrow> Some (MissingField f)
     | None \<Rightarrow> if \<not> page_slug_is_allowed (field_of fm ''slug'') then Some (BadSlug (field_of fm ''slug''))
         else if \<not> renderer_section_is_allowed (field_of fm ''section'')
         then Some (NotAllowed ''section'' (field_of fm ''section'') renderer_sections)
         else if field_of fm ''access'' \<notin> set access_tiers
         then Some (NotAllowed ''access'' (field_of fm ''access'') access_tiers)
         else optional_problem fm)"

end
