(* ===== verification/Wiki_Registry.thy ===== *)
theory Wiki_Registry
  imports Wiki_Config
begin

text \<open>
  Which pages may stand in the registry together (\<open>crates/onecontext-wiki-core/src/lib.rs\<close>): the routes that are reserved,
  the record of a new page, and the check of the integrity of \<open>wiki.toml\<close>.
\<close>

section \<open>Reserved routes\<close>

definition site_page_values :: "toml \<Rightarrow> toml list" where
  "site_page_values config = (case get_array config ''site_pages'' of None \<Rightarrow> [] | Some vs \<Rightarrow> vs)"

definition site_page_id :: "toml \<Rightarrow> string" where
  "site_page_id v = or_text (get_opt_str v ''id'') ''unknown''"

definition site_page_route :: "toml \<Rightarrow> string" where
  "site_page_route v = or_text (get_opt_str v ''route'') (''/'' @ site_page_id v)"

definition reserved_site_routes :: "toml \<Rightarrow> (string, string) btree_map" where
  "reserved_site_routes config = fold (\<lambda>v. bt_insert (route_conflict_key (site_page_route v)) (''site page '' @ site_page_id v))
     (site_page_values config) []"

definition page_owner :: "wiki_page \<Rightarrow> string" where
  "page_owner p = ''page '' @ pg_id p"

definition talk_owner :: "wiki_page \<Rightarrow> string" where
  "talk_owner p = ''talk route for page '' @ pg_id p"

definition reserved_routes_for_create :: "wiki_page list \<Rightarrow> toml \<Rightarrow> (string, string) btree_map" where
  "reserved_routes_for_create pages config = fold (\<lambda>p m. bt_insert (talk_route_for_route (pg_route p)) (talk_owner p)
       (bt_insert (route_conflict_key (pg_route p)) (page_owner p) m)) pages (reserved_site_routes config)"

section \<open>New pages\<close>

definition check_nav_section :: "string option \<Rightarrow> wiki_error + unit" where
  "check_nav_section s = (case s of None \<Rightarrow> Inr () | Some n \<Rightarrow> validate_nav_section n)"

definition family_group_of :: "page_create_options \<Rightarrow> string" where
  "family_group_of o1 = or_text (or_else (po_family_group o1) (po_nav_section o1)) ''custom''"

definition slug_of :: "string \<Rightarrow> page_create_options \<Rightarrow> string" where
  "slug_of page_id o1 = or_text (po_slug o1) (if_empty (slugify page_id) ''page'')"

definition route_of :: "string \<Rightarrow> page_create_options \<Rightarrow> string" where
  "route_of page_id o1 = or_text (po_route o1) (''/'' @ slug_of page_id o1)"

definition check_source_path :: "wiki_page list \<Rightarrow> string \<Rightarrow> string \<Rightarrow> string \<Rightarrow> wiki_error + unit" where
  "check_source_path existing slug family_group family_id =
     (case List.find (\<lambda>p. pg_family_group p = family_group \<and> pg_family_id p = family_id \<and> pg_slug p = slug) existing of
       None \<Rightarrow> Inr ()
     | Some conflict \<Rightarrow> Inl (WikiError (''page source path already exists for slug '' @ slug @ '' in family '' @ family_group @ ''/'' @
         family_id @ ''; owned by page '' @ pg_id conflict)))"

definition check_routes :: "(string, string) btree_map \<Rightarrow> string \<Rightarrow> wiki_error + unit" where
  "check_routes reserved route =
     (case bt_get reserved (route_conflict_key route) of
       Some owner \<Rightarrow> Inl (WikiError (''route already exists: '' @ route_conflict_key route @ ''; owned by '' @ owner))
     | None \<Rightarrow> (case bt_get reserved (talk_route_for_route route) of
         Some owner \<Rightarrow> Inl (WikiError (''route already exists: '' @ talk_route_for_route route @ ''; reserved by '' @ owner @
           ''. Choose a page route whose talk route does not collide.''))
       | None \<Rightarrow> Inr ()))"

definition built_record :: "(string \<Rightarrow> string) \<Rightarrow> string \<Rightarrow> page_create_options \<Rightarrow> wiki_page" where
  "built_record upper page_id o1 = (let slug = slug_of page_id o1; title = or_text (po_title o1) (title_case upper slug);
       family_group = family_group_of o1
     in \<lparr> pg_id = page_id, pg_enabled = True, pg_title = title, pg_slug = slug, pg_route = route_of page_id o1,
       pg_family_group = family_group, pg_family_group_title = or_text (po_family_group_title o1) (title_case upper family_group),
       pg_family_id = or_text (po_family_id o1) slug, pg_family_title = or_text (po_family_title o1) title,
       pg_page_type = or_text (po_page_type o1) ''context-page'', pg_template = or_text (po_template o1) ''pages/context-page.md'',
       pg_talk_conventions_template = Some (or_text (po_talk_conventions_template o1) ''talk/conventions.md''),
       pg_talk_curator_template = Some (or_text (po_talk_curator_template o1) ''talk/curators/your-context.md''),
       pg_summary = po_summary o1, pg_nav_section = po_nav_section o1, pg_nav_order = po_nav_order o1,
       pg_origin = ''created_from_template'' \<rparr>)"

definition new_page_record :: "(string \<Rightarrow> string) \<Rightarrow> wiki_page list \<Rightarrow> toml \<Rightarrow> string \<Rightarrow> page_create_options \<Rightarrow> wiki_error + wiki_page" where
  "new_page_record upper existing config page_id o1 = (let p = built_record upper page_id o1 in
     if list_ex (\<lambda>q. pg_id q = page_id) existing then Inl (WikiError (''page already exists: '' @ page_id))
     else try_then (validate_page_slug (pg_slug p)) (\<lambda>_.
     try_then (validate_page_route (pg_route p)) (\<lambda>_.
     try_then (check_nav_section (po_nav_section o1)) (\<lambda>_.
     try_then (validate_family_path_token (pg_family_group p) ''family_group'') (\<lambda>_.
     try_then (validate_family_path_token (pg_family_id p) ''family_id'') (\<lambda>_.
     try_then (check_source_path existing (pg_slug p) (pg_family_group p) (pg_family_id p)) (\<lambda>_.
     try_then (check_routes (reserved_routes_for_create existing config) (pg_route p)) (\<lambda>_. Inr p))))))))"

definition registry_with :: "string \<Rightarrow> wiki_page \<Rightarrow> string" where
  "registry_with t p = navigation_added t (pg_nav_section p) (pg_id p) @ registry_entry p"

section \<open>Issues of the registry\<close>

record page_reference =
  pp_id :: string
  pp_title :: string
  pp_route :: string

record validation_issue =
  vi_code :: string
  vi_severity :: string
  vi_page :: "page_reference option"
  vi_paths :: "string list"
  vi_message :: string
  vi_next_action :: string

definition config_issue :: "string \<Rightarrow> page_reference option \<Rightarrow> string \<Rightarrow> validation_issue" where
  "config_issue code page message = \<lparr> vi_code = code, vi_severity = ''error'', vi_page = page,
     vi_paths = [''user-wiki/wiki.toml''], vi_message = message, vi_next_action = ''repair_wiki_toml'' \<rparr>"

fun error_text :: "wiki_error \<Rightarrow> string" where
  "error_text (WikiError s) = s"
| "error_text _ = []"

definition issue_on :: "string \<Rightarrow> page_reference \<Rightarrow> wiki_error + unit \<Rightarrow> validation_issue list" where
  "issue_on code page verdict = (case verdict of Inr _ \<Rightarrow> [] | Inl e \<Rightarrow> [config_issue code (Some page) (error_text e)])"

definition reference_of :: "wiki_page \<Rightarrow> page_reference" where
  "reference_of p = \<lparr> pp_id = pg_id p, pp_title = pg_title p, pp_route = pg_route p \<rparr>"

text \<open>The owners of routes, and an issue when a route has one already: the later owner replaces it.\<close>

fun push_route_reservation_issue :: "string \<Rightarrow> string \<Rightarrow> page_reference \<Rightarrow>
    validation_issue list \<times> (string, string) btree_map \<Rightarrow> validation_issue list \<times> (string, string) btree_map" where
  "push_route_reservation_issue route owner page (issues, owners) =
     (issues @ (case bt_get owners route of None \<Rightarrow> []
        | Some existing \<Rightarrow> [config_issue ''duplicate_route'' (Some page) (''wiki.toml route '' @ route @ '' is claimed by both '' @
            existing @ '' and '' @ owner @ ''; choose one owner or assign a unique route.'')]),
      bt_insert route owner owners)"

record integrity_state =
  is_issues :: "validation_issue list"
  is_seen :: "string list"
  is_owners :: "(string, string) btree_map"

definition page_field_issues :: "wiki_page \<Rightarrow> validation_issue list" where
  "page_field_issues p = issue_on ''invalid_page_slug'' (reference_of p) (validate_page_slug (pg_slug p)) @
     issue_on ''invalid_page_route'' (reference_of p) (validate_page_route (pg_route p)) @
     issue_on ''invalid_nav_section'' (reference_of p) (check_nav_section (pg_nav_section p))"

definition check_page :: "wiki_page \<Rightarrow> integrity_state \<Rightarrow> integrity_state" where
  "check_page p s = (let duplicate = (if pg_id p \<in> set (is_seen s) then [config_issue ''duplicate_page_id'' (Some (reference_of p))
         (''wiki.toml defines page id '' @ pg_id p @ '' more than once; keep one [[pages]] entry or assign a unique id.'')] else []);
       (issues, owners) = push_route_reservation_issue (talk_route_for_route (pg_route p)) (talk_owner p) (reference_of p)
         (push_route_reservation_issue (route_conflict_key (pg_route p)) (page_owner p) (reference_of p)
           (is_issues s @ duplicate @ page_field_issues p, is_owners s))
     in \<lparr> is_issues = issues, is_seen = pg_id p # is_seen s, is_owners = owners \<rparr>)"

definition bad_nav_order :: "toml \<Rightarrow> bool" where
  "bad_nav_order v \<longleftrightarrow> (case toml_get v ''nav_order'' of None \<Rightarrow> False | Some x \<Rightarrow> toml_integer x = None)"

definition value_reference :: "toml \<Rightarrow> page_reference" where
  "value_reference v = \<lparr> pp_id = site_page_id v, pp_title = or_text (get_opt_str v ''title'') (site_page_id v), pp_route = site_page_route v \<rparr>"

definition site_page_issues :: "toml \<Rightarrow> validation_issue list" where
  "site_page_issues v = issue_on ''invalid_site_page_route'' (value_reference v) (validate_page_route (site_page_route v)) @
     (if bad_nav_order v then [config_issue ''invalid_nav_order'' (Some (value_reference v)) ''site page nav_order must be an integer.''] else [])"

definition page_order_issues :: "toml \<Rightarrow> validation_issue list" where
  "page_order_issues v = (if bad_nav_order v
     then [config_issue ''invalid_nav_order'' (Some (value_reference v)) ''page nav_order must be an integer.''] else [])"

definition navigation_issue :: "string \<Rightarrow> string list \<Rightarrow> toml \<Rightarrow> validation_issue list" where
  "navigation_issue nav_key ids v = (case toml_str v of
     None \<Rightarrow> [config_issue ''invalid_navigation_entry'' None (nav_key @ '' entries must be page ids.'')]
   | Some page_id \<Rightarrow> if page_id \<in> set ids then [] else [config_issue ''unknown_navigation_page'' None
       (nav_key @ '' references '' @ page_id @ '', but no [[pages]] or [[site_pages]] entry owns that id.'')])"

definition site_array :: "toml \<Rightarrow> string \<Rightarrow> toml list" where
  "site_array config key = (case Option.bind (or_else (Option.bind (toml_get config ''site'') (\<lambda>s. toml_get s key)) (toml_get config key))
     toml_array of None \<Rightarrow> [] | Some vs \<Rightarrow> vs)"

definition page_values :: "toml \<Rightarrow> toml list" where
  "page_values config = (case get_array config ''pages'' of None \<Rightarrow> [] | Some vs \<Rightarrow> vs)"

definition pages_of :: "(string \<Rightarrow> string) \<Rightarrow> toml \<Rightarrow> wiki_error + wiki_page list" where
  "pages_of upper config = (case get_array config ''pages'' of
     None \<Rightarrow> Inl (WikiError ''wiki.toml does not contain [[pages]]'')
   | Some vs \<Rightarrow> try_map (\<lambda>v. page_record upper v (toml_get config ''defaults'')) vs)"

definition site_pages_of :: "toml \<Rightarrow> wiki_error + site_page list" where
  "site_pages_of config = try_map site_page_record (site_page_values config)"

definition or_no_pages :: "wiki_error + wiki_page list \<Rightarrow> wiki_page list" where
  "or_no_pages r = (case r of Inl _ \<Rightarrow> [] | Inr ps \<Rightarrow> ps)"

definition navigation_keys :: "string list" where
  "navigation_keys = [''navigation'', ''primary_navigation'', ''utility_navigation'']"

definition navigation_issues :: "toml \<Rightarrow> string list \<Rightarrow> string \<Rightarrow> validation_issue list" where
  "navigation_issues config ids key = concat (map (navigation_issue key ids) (site_array config key))"

definition integrity_issues :: "toml \<Rightarrow> wiki_page list \<Rightarrow> validation_issue list" where
  "integrity_issues config pages =
     is_issues (fold check_page pages \<lparr> is_issues = [], is_seen = [], is_owners = reserved_site_routes config \<rparr>) @
     concat (map site_page_issues (site_page_values config)) @ concat (map page_order_issues (page_values config)) @
     concat (map (navigation_issues config (map pg_id pages @ map site_page_id (site_page_values config))) navigation_keys)"

definition config_integrity_issues :: "(string \<Rightarrow> string) \<Rightarrow> toml \<Rightarrow> validation_issue list" where
  "config_integrity_issues upper config = integrity_issues config (or_no_pages (pages_of upper config))"

section \<open>The verdict of a validation\<close>

record validation_verdict =
  vv_status :: string
  vv_can_publish :: bool
  vv_issue_count :: nat
  vv_blocking_count :: nat
  vv_warning_count :: nat
  vv_highest_severity :: "string option"
  vv_next_action :: string

definition count_severity :: "string \<Rightarrow> validation_issue list \<Rightarrow> nat" where
  "count_severity s issues = length (filter (\<lambda>i. vi_severity i = s) issues)"

definition first_issue :: "validation_issue list \<Rightarrow> validation_issue option" where
  "first_issue issues = or_else (List.find (\<lambda>i. vi_severity i = ''error'') issues) (case issues of [] \<Rightarrow> None | i # _ \<Rightarrow> Some i)"

definition verdict_of :: "validation_issue list \<Rightarrow> validation_verdict" where
  "verdict_of issues = (let blocking = count_severity ''error'' issues; warnings = count_severity ''warning'' issues in
     \<lparr> vv_status = (if blocking > 0 then ''error'' else if warnings > 0 then ''warning'' else ''ok''),
       vv_can_publish = (blocking = 0), vv_issue_count = length issues, vv_blocking_count = blocking, vv_warning_count = warnings,
       vv_highest_severity = (if blocking > 0 then Some ''error'' else if warnings > 0 then Some ''warning'' else None),
       vv_next_action = (case first_issue issues of None \<Rightarrow> ''none'' | Some i \<Rightarrow> vi_next_action i) \<rparr>)"

declare try_then_def [code_unfold]

section \<open>Clean registries\<close>

definition route_keys :: "wiki_page \<Rightarrow> string list" where
  "route_keys p = [route_conflict_key (pg_route p), talk_route_for_route (pg_route p)]"

definition page_ok :: "wiki_page \<Rightarrow> bool" where
  "page_ok p \<longleftrightarrow> page_slug_is_allowed (pg_slug p) \<and> validate_page_route (pg_route p) = Inr () \<and>
     (\<forall>n. pg_nav_section p = Some n \<longrightarrow> n \<in> {''primary'', ''utility'', ''hidden''})"

text \<open>Every route leads to one owner, and every page can be addressed by its identifier.\<close>

definition pages_clean :: "string list \<Rightarrow> wiki_page list \<Rightarrow> bool" where
  "pages_clean site_keys pages \<longleftrightarrow> distinct (map pg_id pages) \<and> list_all page_ok pages \<and>
     distinct (concat (map route_keys pages)) \<and> set (concat (map route_keys pages)) \<inter> set site_keys = {}"

definition site_keys :: "toml \<Rightarrow> string list" where
  "site_keys config = map (\<lambda>v. route_conflict_key (site_page_route v)) (site_page_values config)"

definition registry_clean :: "toml \<Rightarrow> wiki_page list \<Rightarrow> bool" where
  "registry_clean config pages \<longleftrightarrow> pages_clean (site_keys config) pages \<and>
     (\<forall>v\<in>set (site_page_values config). validate_page_route (site_page_route v) = Inr () \<and> \<not> bad_nav_order v) \<and>
     (\<forall>v\<in>set (page_values config). \<not> bad_nav_order v) \<and>
     (\<forall>key\<in>set navigation_keys. \<forall>v\<in>set (site_array config key).
        \<exists>id. toml_str v = Some id \<and> id \<in> pg_id ` set pages \<union> site_page_id ` set (site_page_values config))"

lemma issue_on_Nil [simp]: "issue_on code page verdict = [] \<longleftrightarrow> verdict = Inr ()"
  by (auto simp: issue_on_def split: sum.splits)

lemma page_field_issues_Nil: "page_field_issues p = [] \<longleftrightarrow> page_ok p"
  by (auto simp: page_field_issues_def page_ok_def validate_page_slug_def check_nav_section_def validate_nav_section_def
      ensure_that_def split: option.splits if_splits)

lemma bt_get_reserved_sites:
  "bt_wf (reserved_site_routes config) \<and> (bt_get (reserved_site_routes config) k \<noteq> None \<longleftrightarrow> k \<in> set (site_keys config))"
proof -
  have "bt_wf (fold (\<lambda>v. bt_insert (f v) (g v)) vs m) \<and> (bt_get (fold (\<lambda>v. bt_insert (f v) (g v)) vs m) k \<noteq> None \<longleftrightarrow>
      k \<in> set (map f vs) \<or> bt_get m k \<noteq> None)" if "bt_wf m" for f :: "toml \<Rightarrow> string" and g :: "toml \<Rightarrow> string" and vs m
    using that by (induction vs arbitrary: m) (auto simp: bt_get_insert bt_wf_insert)
  from this [of "[]"] show ?thesis by (simp add: reserved_site_routes_def site_keys_def)
qed

lemma check_page_step:
  assumes "bt_wf (is_owners s)"
  shows "bt_wf (is_owners (check_page p s)) \<and> (bt_get (is_owners (check_page p s)) k \<noteq> None \<longleftrightarrow>
      k \<in> set (route_keys p) \<or> bt_get (is_owners s) k \<noteq> None) \<and> set (is_seen (check_page p s)) = insert (pg_id p) (set (is_seen s)) \<and>
    (is_issues (check_page p s) = [] \<longleftrightarrow> is_issues s = [] \<and> pg_id p \<notin> set (is_seen s) \<and> page_ok p \<and> distinct (route_keys p) \<and>
      (\<forall>k\<in>set (route_keys p). bt_get (is_owners s) k = None))"
  using assms by (auto simp: check_page_def Let_def route_keys_def bt_get_insert bt_wf_insert
      page_field_issues_Nil split: option.splits)

lemma check_pages:
  assumes "bt_wf (is_owners s)"
  shows "is_issues (fold check_page pages s) = [] \<longleftrightarrow> is_issues s = [] \<and> distinct (map pg_id pages) \<and>
    pg_id ` set pages \<inter> set (is_seen s) = {} \<and> list_all page_ok pages \<and> distinct (concat (map route_keys pages)) \<and>
    (\<forall>k\<in>set (concat (map route_keys pages)). bt_get (is_owners s) k = None)"
  using assms
proof (induction pages arbitrary: s)
  case (Cons p pages)
  note step = check_page_step [OF Cons.prems, of p]
  have get: "bt_get (is_owners (check_page p s)) k = None \<longleftrightarrow> k \<notin> set (route_keys p) \<and> bt_get (is_owners s) k = None" for k
    using check_page_step [OF Cons.prems, of p k] by blast
  from Cons.IH [of "check_page p s"] step show ?case by (auto simp: get)
qed simp


definition sample_page_value :: "string \<Rightarrow> string \<Rightarrow> toml" where
  "sample_page_value page_id route = TomlTable [(''id'', TomlString page_id), (''route'', TomlString route)]"

definition sample_config :: toml where
  "sample_config = TomlTable [(''pages'', TomlArray [sample_page_value ''home'' ''/'', sample_page_value ''topics'' ''/topics'']),
     (''site_pages'', TomlArray [sample_page_value ''map'' ''/map'']),
     (''site'', TomlTable [(''navigation'', TomlArray [TomlString ''topics''])])]"


section \<open>Creating a page\<close>

lemma bt_get_reserved:
  "bt_get (reserved_routes_for_create pages config) k = None \<longleftrightarrow>
     k \<notin> set (site_keys config) \<and> k \<notin> set (concat (map route_keys pages))"
proof -
  have "bt_wf m \<Longrightarrow> bt_get (fold (\<lambda>p m. bt_insert (talk_route_for_route (pg_route p)) (talk_owner p)
       (bt_insert (route_conflict_key (pg_route p)) (page_owner p) m)) pages m) k = None \<longleftrightarrow>
      bt_get m k = None \<and> k \<notin> set (concat (map route_keys pages))" for m
  proof (induction pages arbitrary: m)
    case (Cons p pages)
    then show ?case by (auto simp: bt_get_insert bt_wf_insert route_keys_def)
  qed simp
  then show ?thesis using bt_get_reserved_sites [of config k] by (auto simp: reserved_routes_for_create_def)
qed

lemma talk_route_differs: "route_conflict_key r \<noteq> talk_route_for_route r"
  by (auto simp: talk_route_for_route_def Let_def)



text \<open>Two generated pages with the same route are not reported, and a page of the registry without an identifier hides all
  others from the check.\<close>

lemma same_site_routes_unreported:
  "config_integrity_issues (\<lambda>c. c) (TomlTable [(''pages'', TomlArray []),
     (''site_pages'', TomlArray [sample_page_value ''a'' ''/map'', sample_page_value ''b'' ''/map''])]) = []"
  by code_simp

lemma broken_page_hides_conflicts:
  "config_integrity_issues (\<lambda>c. c) (TomlTable [(''pages'', TomlArray
     [sample_page_value ''a'' ''/x'', sample_page_value ''b'' ''/x'', TomlTable []])]) = []"
  by code_simp

text \<open>A line break in a title goes into the registry as it is, where a basic string of TOML must not have one.\<close>

lemma title_breaks_line: "field_line ''title'' [CHR ''a'', nl, CHR ''b''] = ''title = '' @ [CHR 0x22, CHR ''a'', nl, CHR ''b'', CHR 0x22, nl]"
  by code_simp

end
