(* ===== verification/Wiki_Guard.thy ===== *)
theory Wiki_Guard
  imports Wiki_Text "HOL-Library.Sublist"
begin

text \<open>
  What the guard of the operator-touched spans protects: the lines between the markers, seen as a machine with one bit
  of state that reads the lines of a body. An edit that the guard lets through leaves this machine closed at its
  beginning, so nothing that it does to the lines of the edit can take protection from the lines after it.
\<close>

section \<open>Lines of a text\<close>

definition ends_line :: "string \<Rightarrow> bool" where
  "ends_line s \<longleftrightarrow> s = [] \<or> last s = nl"

definition lines_of :: "string \<Rightarrow> string list" where
  "lines_of s = map strip_nl (split_inclusive s)"

lemma concat_split_inclusive [simp]: "concat (split_inclusive s) = s"
  by (induction s) (auto split: list.splits)

lemma split_inclusive_eq_Nil [simp]: "split_inclusive s = [] \<longleftrightarrow> s = []"
  by (cases s) (auto split: list.splits)

lemma split_inclusive_nonempty: "l \<in> set (split_inclusive s) \<Longrightarrow> l \<noteq> []"
  by (induction s arbitrary: l) (auto split: list.splits if_splits)

lemma split_inclusive_append: "ends_line a \<Longrightarrow> split_inclusive (a @ b) = split_inclusive a @ split_inclusive b"
  by (induction a) (auto simp: ends_line_def split: list.splits if_splits)

lemma split_inclusive_ends: "split_inclusive s = xs @ y # ys \<Longrightarrow> ends_line (concat xs)"
proof (induction s arbitrary: xs)
  case (Cons c cs)
  show ?case
  proof (cases xs)
    case (Cons x xs')
    show ?thesis
    proof (cases "c = nl")
      case True
      with Cons Cons.prems Cons.IH [of xs'] have "concat xs = nl # concat xs'" "ends_line (concat xs')" by auto
      then show ?thesis by (metis ends_line_def last.simps)
    next
      case False
      with Cons Cons.prems obtain l where l: "split_inclusive cs = l # xs' @ y # ys" "x = c # l"
        by (auto split: list.splits)
      then have "l \<noteq> []" using split_inclusive_nonempty [of l cs] by simp
      with l Cons Cons.IH [of "l # xs'"] show ?thesis by (auto simp: ends_line_def)
    qed
  qed (simp add: ends_line_def)
qed simp

lemma ends_line_append: "b \<noteq> [] \<Longrightarrow> ends_line (a @ b) \<longleftrightarrow> ends_line b"
  by (simp add: ends_line_def)

lemma lines_of_append: "ends_line a \<Longrightarrow> lines_of (a @ b) = lines_of a @ lines_of b"
  by (simp add: lines_of_def split_inclusive_append)

lemma strip_nl_Cons: "l \<noteq> [] \<Longrightarrow> strip_nl (c # l) = c # strip_nl l"
  by (simp add: strip_nl_def)

lemma lines_of_nl: "a \<noteq> [] \<Longrightarrow> \<not> ends_line a \<Longrightarrow> lines_of (a @ [nl]) = lines_of a"
proof (induction a)
  case (Cons c cs)
  show ?case
  proof (cases "cs = []")
    case True
    with Cons.prems show ?thesis by (simp add: lines_of_def strip_nl_def ends_line_def)
  next
    case False
    with Cons have IH: "lines_of (cs @ [nl]) = lines_of cs" by (simp add: ends_line_def)
    obtain l ls m ms where lm: "split_inclusive cs = l # ls" "split_inclusive (cs @ [nl]) = m # ms"
      using False by (metis list.exhaust split_inclusive_eq_Nil append_is_Nil_conv)
    then have "l \<noteq> []" "m \<noteq> []" using split_inclusive_nonempty by (metis list.set_intros(1))+
    with IH lm show ?thesis by (auto simp: lines_of_def strip_nl_Cons)
  qed
qed simp

section \<open>The protected lines\<close>

definition opens :: "string \<Rightarrow> bool" where
  "opens l \<longleftrightarrow> atx_heading_text l = None \<and> operator_touched_open_note l \<noteq> None"

definition shuts :: "string \<Rightarrow> bool" where
  "shuts l \<longleftrightarrow> atx_heading_text l = None \<and> is_operator_touched_close l"

text \<open>The state after a list of lines, and the lines that a span contains, its markers among them.\<close>

fun marker_state :: "bool \<Rightarrow> string list \<Rightarrow> bool" where
  "marker_state b [] = b"
| "marker_state b (l # ls) = marker_state (if b then \<not> shuts l else opens l) ls"

fun protected_from :: "bool \<Rightarrow> string list \<Rightarrow> string list" where
  "protected_from b [] = []"
| "protected_from b (l # ls) = (if b \<or> opens l then [l] else []) @ protected_from (if b then \<not> shuts l else opens l) ls"

definition protected_lines :: "string \<Rightarrow> string list" where
  "protected_lines body = protected_from False (lines_of body)"

lemma marker_state_append: "marker_state b (xs @ ys) = marker_state (marker_state b xs) ys"
  by (induction xs arbitrary: b) auto

lemma protected_append: "protected_from b (xs @ ys) = protected_from b xs @ protected_from (marker_state b xs) ys"
  by (induction xs arbitrary: b) auto

lemma open_not_close: "opens l \<Longrightarrow> \<not> shuts l"
  by (auto simp: opens_def shuts_def operator_touched_open_note_def is_operator_touched_close_def Let_def split: option.splits)

lemma protected_mono: "subseq (protected_from False ls) (protected_from b ls)"
  by (induction ls arbitrary: b) (auto dest: open_not_close)

section \<open>The line terminator does not matter to the markers\<close>

lemma utf8_chars_nl: "utf8_chars (s @ [nl]) = utf8_chars s @ [[nl]]"
proof (induction s rule: utf8_chars.induct)
  case (2 c cs)
  have "\<not> utf8_continuation nl" by code_simp
  then have "takeWhile utf8_continuation (cs @ [nl]) = takeWhile utf8_continuation cs"
    "dropWhile utf8_continuation (cs @ [nl]) = dropWhile utf8_continuation cs @ [nl]"
    by (simp_all add: takeWhile_tail dropWhile_append)
  with 2 show ?case by simp
qed simp

lemma trim_nl: "str_trim (s @ [nl]) = str_trim s"
proof -
  have w: "is_whitespace [nl]" by code_simp
  have e: "trim_end (t @ [nl]) = trim_end t" for t by (simp add: trim_end_def utf8_chars_nl w)
  show ?thesis
  proof (cases "\<forall>u\<in>set (utf8_chars s). is_whitespace u")
    case True
    with w have "trim_start (s @ [nl]) = []" "trim_start s = []"
      by (simp_all add: trim_start_def utf8_chars_nl dropWhile_append dropWhile_eq_Nil_conv [THEN iffD2])
    then show ?thesis by (simp add: str_trim_def)
  next
    case False
    then have "trim_start (s @ [nl]) = trim_start s @ [nl]"
      by (auto simp: trim_start_def utf8_chars_nl dropWhile_append)
    then show ?thesis by (simp add: str_trim_def e)
  qed
qed

lemma trim_strip_nl: "str_trim (strip_nl l) = str_trim l"
  by (metis append_butlast_last_id strip_nl_def trim_nl)

lemma heading_strip_nl: "atx_heading_text (strip_nl l) = atx_heading_text l"
proof -
  have "trim_end_set [cr, nl] (strip_nl l) = trim_end_set [cr, nl] l"
    by (cases l rule: rev_cases) (auto simp: strip_nl_def trim_end_set_def)
  then show ?thesis by (simp add: atx_heading_text_def)
qed

lemma marker_strip_nl [simp]: "opens (strip_nl l) = opens l" "shuts (strip_nl l) = shuts l"
  by (simp_all add: opens_def shuts_def heading_strip_nl operator_touched_open_note_def is_operator_touched_close_def trim_strip_nl)

lemma marker_state_strip [simp]: "marker_state b (map strip_nl ls) = marker_state b ls"
  by (induction ls arbitrary: b) auto

lemma protected_strip [simp]: "protected_from b (map strip_nl ls) = map strip_nl (protected_from b ls)"
  by (induction ls arbitrary: b) auto

lemma protected_lines_split: "protected_lines s = map strip_nl (protected_from False (split_inclusive s))"
  by (simp add: protected_lines_def lines_of_def)

section \<open>Spans and the protected lines\<close>

lemma new_marker_start [simp]: "om_start (new_marker start line sec t) = start"
  by (simp add: new_marker_def split: prod.splits)

text \<open>An open marker gives a span that reaches over the next line.\<close>

lemma open_span:
  "\<exists>p\<in>set (parse_spans_loop fl bl ls offset line sec (Some m)). po_start p = om_start m \<and>
     (po_closed p \<longrightarrow> ls \<noteq> [] \<and> offset + length (hd ls) \<le> po_end p)"
proof (induction ls arbitrary: offset line sec)
  case (Cons l ls)
  show ?case
  proof (cases "shuts l")
    case True
    then show ?thesis by (simp add: shuts_def finish_span_def)
  next
    case False
    then obtain sec' where "parse_spans_loop fl bl (l # ls) offset line sec (Some m) =
        parse_spans_loop fl bl ls (offset + length l) (line + 1) sec' (Some m)"
      by (cases "atx_heading_text l") (auto simp: shuts_def)
    with Cons.IH [of "offset + length l" "line + 1" sec'] show ?thesis by fastforce
  qed
qed (simp add: finish_span_def)

text \<open>The loop after the first lines: an open marker began before.\<close>

lemma spans_after:
  assumes "\<forall>l\<in>set xs. l \<noteq> []" "\<forall>m. om = Some m \<longrightarrow> om_start m < offset"
  shows "\<exists>line' sec' om'. (om' \<noteq> None \<longleftrightarrow> marker_state (om \<noteq> None) xs) \<and>
     (\<forall>m. om' = Some m \<longrightarrow> om_start m < offset + length (concat xs)) \<and>
     set (parse_spans_loop fl bl ys (offset + length (concat xs)) line' sec' om') \<subseteq>
       set (parse_spans_loop fl bl (xs @ ys) offset line sec om)"
  using assms
proof (induction xs arbitrary: offset line sec om)
  case Nil
  then show ?case by (intro exI [of _ line] exI [of _ sec] exI [of _ om]) auto
next
  case (Cons l xs)
  have "\<exists>line' sec' om'. (om' \<noteq> None \<longleftrightarrow> (if om \<noteq> None then \<not> shuts l else opens l)) \<and>
      (\<forall>m. om' = Some m \<longrightarrow> om_start m < offset + length l) \<and>
      set (parse_spans_loop fl bl (xs @ ys) (offset + length l) line' sec' om') \<subseteq>
        set (parse_spans_loop fl bl ((l # xs) @ ys) offset line sec om)"
  proof (cases om)
    case None
    then show ?thesis
    proof (cases "atx_heading_text l")
      case a: None
      have "(map_option (new_marker offset (line + 1) sec) (operator_touched_open_note l) \<noteq> None) = opens l"
        by (simp add: opens_def a)
      moreover have "om_start m < offset + length l"
        if "map_option (new_marker offset (line + 1) sec) (operator_touched_open_note l) = Some m" for m
        using that Cons.prems(1) by auto
      ultimately show ?thesis using None a
        by (intro exI [of _ "line + 1"] exI [of _ sec]
            exI [of _ "map_option (new_marker offset (line + 1) sec) (operator_touched_open_note l)"]) simp
    next
      case (Some h)
      with None show ?thesis
        by (intro exI [of _ "line + 1"] exI [of _ "some_text (slugify (snd h))"] exI [of _ None]) (cases h; auto simp: opens_def)
    qed
  next
    case (Some m)
    then have m: "om_start m < offset" using Cons.prems(2) by simp
    show ?thesis
    proof (cases "shuts l")
      case True
      with Some show ?thesis
        by (intro exI [of _ "line + 1"] exI [of _ sec] exI [of _ None]) (auto simp: shuts_def)
    next
      case False
      with Some m show ?thesis
        by (intro exI [of _ "line + 1"] exI [of _ sec] exI [of _ om]) (auto simp: shuts_def split: option.splits)
    qed
  qed
  then obtain line1 sec1 om1 where 1: "om1 \<noteq> None \<longleftrightarrow> (if om \<noteq> None then \<not> shuts l else opens l)"
    "\<forall>m. om1 = Some m \<longrightarrow> om_start m < offset + length l"
    "set (parse_spans_loop fl bl (xs @ ys) (offset + length l) line1 sec1 om1) \<subseteq>
       set (parse_spans_loop fl bl ((l # xs) @ ys) offset line sec om)" by blast
  obtain line2 sec2 om2 where 2: "om2 \<noteq> None \<longleftrightarrow> marker_state (om1 \<noteq> None) xs"
    "\<forall>m. om2 = Some m \<longrightarrow> om_start m < offset + length l + length (concat xs)"
    "set (parse_spans_loop fl bl ys (offset + length l + length (concat xs)) line2 sec2 om2) \<subseteq>
       set (parse_spans_loop fl bl (xs @ ys) (offset + length l) line1 sec1 om1)"
    using Cons.IH [of om1 "offset + length l" line1 sec1] Cons.prems(1) 1(2) by auto
  have "om2 \<noteq> None \<longleftrightarrow> marker_state (om \<noteq> None) (l # xs)" using 1(1) 2(1) by simp
  moreover have "offset + length (concat (l # xs)) = offset + length l + length (concat xs)" by simp
  ultimately show ?case using 2(2) subset_trans [OF 2(3) 1(3)]
    by (intro exI [of _ line2] exI [of _ sec2] exI [of _ om2]) (simp only: simp_thms)
qed

text \<open>What the guard lets through: no line that meets the edit is protected, and none is open where it begins.\<close>

definition untouched :: "nat \<Rightarrow> nat \<Rightarrow> string list \<Rightarrow> bool" where
  "untouched start until ls \<longleftrightarrow> filter (span_conflicts start until) (parse_spans_loop 0 0 ls 0 0 None None) = []"

lemma untouched_line:
  assumes "untouched start until (xs @ l # ys)" "\<forall>k\<in>set (xs @ l # ys). k \<noteq> []"
    "length (concat xs) < until" "start < length (concat xs) + length l"
  shows "\<not> marker_state False xs \<and> \<not> opens l"
proof (rule ccontr)
  obtain line sec om where after: "om \<noteq> None \<longleftrightarrow> marker_state False xs" "\<forall>m. om = Some m \<longrightarrow> om_start m < length (concat xs)"
    "set (parse_spans_loop 0 0 (l # ys) (length (concat xs)) line sec om) \<subseteq> set (parse_spans_loop 0 0 (xs @ l # ys) 0 0 None None)"
    using spans_after [of xs None 0 0 0 "l # ys" 0 None] assms(2) by auto
  assume "\<not> (\<not> marker_state False xs \<and> \<not> opens l)"
  then have "\<exists>p\<in>set (parse_spans_loop 0 0 (l # ys) (length (concat xs)) line sec om). po_start p \<le> length (concat xs) \<and>
      (po_closed p \<longrightarrow> length (concat xs) + length l \<le> po_end p)"
  proof (cases om)
    case (Some m)
    with after(2) open_span [of 0 0 "l # ys" "length (concat xs)" line sec m] show ?thesis by force
  next
    case None
    with after(1) \<open>\<not> (\<not> marker_state False xs \<and> \<not> opens l)\<close> obtain t where t: "operator_touched_open_note l = Some t"
      "atx_heading_text l = None" by (cases "atx_heading_text l") (auto simp: opens_def)
    then have loop: "parse_spans_loop 0 0 (l # ys) (length (concat xs)) line sec None = parse_spans_loop 0 0 ys
        (length (concat xs) + length l) (line + 1) sec (Some (new_marker (length (concat xs)) (line + 1) sec t))" by simp
    obtain p where "p \<in> set (parse_spans_loop 0 0 (l # ys) (length (concat xs)) line sec None)" "po_start p = length (concat xs)"
      "po_closed p \<longrightarrow> length (concat xs) + length l + length (hd ys) \<le> po_end p"
      using open_span [of 0 0 ys "length (concat xs) + length l" "line + 1" sec "new_marker (length (concat xs)) (line + 1) sec t"]
      unfolding loop by auto
    with None show ?thesis by (metis add_leD1 le_refl)
  qed
  then obtain p where "p \<in> set (parse_spans_loop 0 0 (xs @ l # ys) 0 0 None None)" "po_start p \<le> length (concat xs)"
    "po_closed p \<longrightarrow> length (concat xs) + length l \<le> po_end p" using after(3) by blast
  with assms(1,3,4) show False by (auto simp: untouched_def span_conflicts_def filter_empty_conv)
qed

lemma untouched_boundary:
  assumes "untouched at at (xs @ ys)" "\<forall>k\<in>set (xs @ ys). k \<noteq> []" "at = length (concat xs)"
  shows "\<not> marker_state False xs"
proof
  obtain line sec om where after: "om \<noteq> None \<longleftrightarrow> marker_state False xs" "\<forall>m. om = Some m \<longrightarrow> om_start m < length (concat xs)"
    "set (parse_spans_loop 0 0 ys (length (concat xs)) line sec om) \<subseteq> set (parse_spans_loop 0 0 (xs @ ys) 0 0 None None)"
    using spans_after [of xs None 0 0 0 ys 0 None] assms(2) by auto
  assume "marker_state False xs"
  with after obtain m where m: "om = Some m" "om_start m < at" using assms(3) by auto
  from open_span [of 0 0 ys at line sec m] obtain p where p: "p \<in> set (parse_spans_loop 0 0 ys at line sec om)" "po_start p < at"
    "po_closed p \<longrightarrow> ys \<noteq> [] \<and> at + length (hd ys) \<le> po_end p" using m by auto
  have "po_closed p \<longrightarrow> at < po_end p" using p(3) assms(2) by (cases ys; cases "hd ys") auto
  with p(1,2) after(3) assms(1,3) show False by (auto simp: untouched_def span_conflicts_def filter_empty_conv)
qed

lemma untouched_edit:
  assumes "untouched start until (xs @ ms @ ys)" "\<forall>k\<in>set (xs @ ms @ ys). k \<noteq> []" "ms \<noteq> []"
    "\<And>as l bs. ms = as @ l # bs \<Longrightarrow> length (concat (xs @ as)) < until \<and> start < length (concat (xs @ as)) + length l"
  shows "\<not> marker_state False xs" "protected_from False ms = []" "\<not> marker_state False ms"
proof -
  have line: "\<not> marker_state False (xs @ as) \<and> \<not> opens l" if "ms = as @ l # bs" for as l bs
    using untouched_line [of start until "xs @ as" l "bs @ ys"] assms(1,2) assms(4) [OF that] that by simp
  then show "\<not> marker_state False xs" using assms(3) by (metis append_Nil append_Nil2 neq_Nil_conv)
  then have "\<not> marker_state False as \<and> \<not> opens l" if "ms = as @ l # bs" for as l bs
    using line [OF that] by (simp add: marker_state_append)
  then have "protected_from False as = [] \<and> \<not> marker_state False as" if "ms = as @ bs" for as bs
    using that
  proof (induction as arbitrary: bs rule: rev_induct)
    case (snoc l as)
    then show ?case by (auto simp: protected_append marker_state_append)
  qed simp
  then show "protected_from False ms = []" "\<not> marker_state False ms" by auto
qed

section \<open>Edits of a body\<close>

text \<open>The lines that an edit meets: from the beginning of the line where it begins to the end of the one where it ends.\<close>

lemma line_start: "\<exists>a0 p. a = a0 @ p \<and> ends_line a0 \<and> nl \<notin> set p"
proof (induction a rule: rev_induct)
  case (snoc c a)
  show ?case
  proof (cases "c = nl")
    case True
    then show ?thesis by (intro exI [of _ "a @ [c]"] exI [of _ "[]"]) (simp add: ends_line_def)
  next
    case False
    from snoc obtain a0 p where "a = a0 @ p" "ends_line a0" "nl \<notin> set p" by blast
    with False show ?thesis by (intro exI [of _ a0] exI [of _ "p @ [c]"]) simp
  qed
qed (simp add: ends_line_def)

lemma line_rest: "\<exists>q b1. b = q @ b1 \<and> nl \<notin> set (butlast q) \<and> (b1 = [] \<or> q \<noteq> [] \<and> ends_line q)"
proof (cases "nl \<in> set b")
  case True
  then obtain r b1 where "b = r @ nl # b1" "nl \<notin> set r" by (meson split_list_first)
  then show ?thesis by (intro exI [of _ "r @ [nl]"] exI [of _ b1]) (simp add: ends_line_def)
next
  case False
  then show ?thesis by (intro exI [of _ b] exI [of _ "[]"]) (auto dest: in_set_butlastD)
qed

lemma edited_lines:
  assumes ms: "split_inclusive (p @ x @ q) = as @ l # bs" and "x \<noteq> []" "nl \<notin> set p"
    and q: "nl \<notin> set (butlast q)" "ends_line (p @ x) \<Longrightarrow> q = []"
  shows "length (concat as) < length (p @ x)" "length p < length (concat as) + length l"
proof -
  have all: "concat as @ l @ concat bs = p @ x @ q" by (metis ms concat.simps(2) concat_append concat_split_inclusive)
  have l: "l \<noteq> []" using ms split_inclusive_nonempty by (metis in_set_conv_decomp)
  show "length (concat as) < length (p @ x)"
  proof (rule ccontr)
    assume "\<not> length (concat as) < length (p @ x)"
    then obtain q' where q': "concat as = (p @ x) @ q'" using all
      by (metis append_eq_append_conv_if append_take_drop_id append.assoc leI)
    then have rest: "q = q' @ l @ concat bs" using all by simp
    have "ends_line ((p @ x) @ q')" using split_inclusive_ends [OF ms] q' by simp
    then have "q' \<noteq> [] \<Longrightarrow> nl \<in> set q'" by (metis append_is_Nil_conv ends_line_def last_appendR last_in_set)
    moreover have "set q' \<subseteq> set (butlast q)" using rest l by (auto simp: butlast_append)
    ultimately have "q' = []" using q(1) by auto
    with \<open>ends_line ((p @ x) @ q')\<close> q(2) rest l show False by simp
  qed
  show "length p < length (concat as) + length l"
  proof (rule ccontr)
    assume short: "\<not> length p < length (concat as) + length l"
    then have "bs \<noteq> []" using all \<open>x \<noteq> []\<close> l by (auto dest: arg_cong [of _ _ length])
    then obtain k ks where "split_inclusive (p @ x @ q) = (as @ [l]) @ k # ks" using ms by (cases bs) auto
    then have "ends_line (concat (as @ [l]))" by (rule split_inclusive_ends)
    then have "last (concat as @ l) = nl" using l by (simp add: ends_line_def)
    moreover have "concat as @ l = take (length (concat as @ l)) p"
      using short arg_cong [OF all, of "take (length (concat as @ l))"] by simp
    ultimately have "nl \<in> set p" using l by (metis append_is_Nil_conv in_set_takeD last_in_set)
    with \<open>nl \<notin> set p\<close> show False by simp
  qed
qed

lemma split_nonempty_lines: "\<forall>k\<in>set (split_inclusive s). k \<noteq> []"
  by (simp add: split_inclusive_nonempty)

text \<open>A replacement that the guard lets through and that leaves the end of a line where one was.\<close>

lemma replacement_keeps:
  assumes guard: "untouched (length a) (length (a @ x)) (split_inclusive (a @ x @ b))" and "x \<noteq> []"
    and line: "ends_line (a @ x) \<Longrightarrow> ends_line (a @ y)"
  shows "subseq (protected_lines (a @ x @ b)) (protected_lines (a @ y @ b))"
proof -
  obtain a0 p where a: "a = a0 @ p" "ends_line a0" "nl \<notin> set p" using line_start by blast
  obtain q b1 where b: "b = q @ b1" "nl \<notin> set (butlast q)" "ends_line (a @ x) \<Longrightarrow> q = []"
    "b1 = [] \<or> ends_line (a @ x) \<or> q \<noteq> [] \<and> ends_line q"
    using line_rest [of b] by (cases "ends_line (a @ x)") (force, blast)
  have px: "ends_line (p @ x) \<longleftrightarrow> ends_line (a @ x)" using \<open>x \<noteq> []\<close> by (simp add: ends_line_append)
  have whole: "ends_line (p @ z @ q) \<or> b1 = []" if "z = x \<or> z = y" for z
  proof (cases "b1 = [] \<or> q \<noteq> []")
    case True
    with b(4) b(3) show ?thesis by (metis append_assoc ends_line_append)
  next
    case False
    with b(4) line have "ends_line (a @ z)" using that by auto
    with False a(1,2) show ?thesis by (cases "p @ z = []") (auto simp: ends_line_def)
  qed
  have split: "split_inclusive (a @ z @ b) = split_inclusive a0 @ split_inclusive (p @ z @ q) @ split_inclusive b1"
    if "z = x \<or> z = y" for z
  proof -
    have "split_inclusive ((p @ z @ q) @ b1) = split_inclusive (p @ z @ q) @ split_inclusive b1"
      using whole [OF that] by (auto simp only: split_inclusive_append append_Nil2 split_inclusive.simps)
    then show ?thesis using split_inclusive_append [OF a(2), of "(p @ z @ q) @ b1"] by (simp add: a(1) b(1))
  qed
  let ?A = "split_inclusive a0" and ?B = "split_inclusive b1"
  let ?M = "\<lambda>z. split_inclusive (p @ z @ q)"
  have edit: "\<not> marker_state False ?A" "protected_from False (?M x) = []" "\<not> marker_state False (?M x)"
  proof -
    have "length (concat (?A @ as)) < length (a @ x) \<and> length a < length (concat (?A @ as)) + length l"
      if "?M x = as @ l # bs" for as l bs
      using edited_lines [OF that \<open>x \<noteq> []\<close> a(3) b(2)] b(3) px by (simp add: a(1))
    moreover have "untouched (length a) (length (a @ x)) (?A @ ?M x @ ?B)" using guard split [of x] by simp
    moreover have "?M x \<noteq> []" using \<open>x \<noteq> []\<close> by simp
    moreover have "\<forall>k\<in>set (?A @ ?M x @ ?B). k \<noteq> []" by (auto dest: split_inclusive_nonempty)
    ultimately show "\<not> marker_state False ?A" "protected_from False (?M x) = []" "\<not> marker_state False (?M x)"
      using untouched_edit [of "length a" "length (a @ x)" ?A "?M x" ?B] by blast+
  qed
  have "subseq (protected_from False (?A @ ?M x @ ?B)) (protected_from False (?A @ ?M y @ ?B))"
    using edit protected_mono [of ?B "marker_state False (?M y)"]
    by (auto simp: protected_append marker_state_append intro!: list_emb_append_mono)
  then show ?thesis using split [of x] split [of y] by (simp only: protected_lines_split subseq_map simp_thms)
qed

text \<open>A block between two lines outside of all spans.\<close>

lemma insertion_keeps:
  assumes guard: "untouched (length before) (length before) (split_inclusive (before @ after))"
    and lines: "ends_line before \<or> after = []"
  shows "subseq (protected_lines (before @ after)) (protected_lines (append_block_at (before @ after) (length before) content))"
proof -
  have split: "lines_of (before @ after) = lines_of before @ lines_of after"
    using lines by (auto simp: lines_of_append) (simp add: lines_of_def)
  have split_raw: "split_inclusive (before @ after) = split_inclusive before @ split_inclusive after"
    using lines by (auto simp: split_inclusive_append)
  have closed: "\<not> marker_state False (lines_of before)"
  proof -
    have "\<not> marker_state False (split_inclusive before)"
      using guard split_nonempty_lines [of "before @ after"] unfolding split_raw by (rule untouched_boundary) simp
    then show ?thesis by (simp add: lines_of_def)
  qed
  have nn: "lines_of [nl] = [[]]" "ends_line [nl]" by (simp_all add: lines_of_def ends_line_def strip_nl_def)
  obtain n2 where n2: "append_block_at (before @ after) (length before) content =
      n2 @ (trim_end content @ [nl]) @ (if after = [] then [] else nl # after)"
    and n2': "ends_line n2" "\<exists>extra. lines_of n2 = lines_of before @ extra"
  proof (cases "before = [] \<or> ends_with before [nl, nl]")
    case True
    then have "before = [] \<or> ends_with before [nl]" by (auto simp: ends_with_iff)
    with True that [of before] show thesis by (auto simp: append_block_at_def ends_line_def ends_with_iff Let_def)
  next
    case more: False
    show thesis
    proof (cases "ends_line before")
      case True
      then have "ends_with before [nl]" using more by (metis append_butlast_last_id ends_line_def ends_with_iff)
      with more True that [of "before @ [nl]"] show thesis
        by (simp add: append_block_at_def Let_def lines_of_append ends_line_append nn)
    next
      case False
      then have "\<not> ends_with before [nl]" "\<not> ends_with (before @ [nl]) [nl, nl]" by (auto simp: ends_line_def ends_with_iff)
      moreover have "lines_of ((before @ [nl]) @ [nl]) = lines_of before @ [[]]"
        using more False lines_of_append [of "before @ [nl]" "[nl]"] by (simp add: ends_line_append nn lines_of_nl del: append_assoc)
      ultimately show thesis using more that [of "before @ [nl, nl]"]
        by (simp add: append_block_at_def Let_def) (simp add: ends_line_def)
    qed
  qed
  have "\<exists>extra. lines_of (append_block_at (before @ after) (length before) content) = lines_of before @ extra @ lines_of after"
  proof -
    have "lines_of (nl # after) = [] # lines_of after" using lines_of_append [OF nn(2), of after] by (simp add: nn)
    moreover have "ends_line (trim_end content @ [nl])" by (simp add: ends_line_append nn)
    ultimately have "lines_of ((trim_end content @ [nl]) @ (if after = [] then [] else nl # after)) =
        (lines_of (trim_end content @ [nl]) @ (if after = [] then [] else [[]])) @ lines_of after"
      using lines_of_append [of "trim_end content @ [nl]" "nl # after"] by (cases "after = []") (simp_all add: lines_of_def)
    moreover obtain extra where "lines_of n2 = lines_of before @ extra" using n2'(2) by blast
    ultimately have "lines_of (append_block_at (before @ after) (length before) content) =
        lines_of before @ (extra @ lines_of (trim_end content @ [nl]) @ (if after = [] then [] else [[]])) @ lines_of after"
      using n2'(1) by (simp only: n2 lines_of_append append_assoc)
    then show ?thesis by blast
  qed
  then obtain extra where "lines_of (append_block_at (before @ after) (length before) content) = lines_of before @ extra @ lines_of after" by blast
  with closed split protected_mono [of "lines_of after" "marker_state False extra"] show ?thesis
    by (auto simp: protected_lines_def protected_append intro!: list_emb_append_mono)
qed

section \<open>The edits of a page\<close>

datatype page_edit = WriteBody string | PatchBody string string | AppendSection string string

fun edit_text :: "string \<Rightarrow> wiki_actor \<Rightarrow> page_edit \<Rightarrow> string \<Rightarrow> wiki_error + string" where
  "edit_text page_id actor (WriteBody body) source = write_body_text page_id actor source body"
| "edit_text page_id actor (PatchBody wanted_text replacement) source = patch_body_text page_id actor source wanted_text replacement"
| "edit_text page_id actor (AppendSection heading content) source = append_section_text page_id actor source heading content"

text \<open>A refused edit leaves the page as it is.\<close>

definition edit_step :: "string \<Rightarrow> wiki_actor \<times> page_edit \<Rightarrow> string \<Rightarrow> string" where
  "edit_step page_id = (\<lambda>(actor, e) source. case edit_text page_id actor e source of Inl _ \<Rightarrow> source | Inr s \<Rightarrow> s)"

definition run_edits :: "string \<Rightarrow> (wiki_actor \<times> page_edit) list \<Rightarrow> string \<Rightarrow> string" where
  "run_edits page_id = fold (edit_step page_id)"

text \<open>A patch that takes away the end of a line puts one back.\<close>

fun keeps_line_end :: "page_edit \<Rightarrow> bool" where
  "keeps_line_end (PatchBody wanted_text replacement) = (last wanted_text = nl \<longrightarrow> replacement \<noteq> [] \<and> last replacement = nl)"
| "keeps_line_end _ = True"

lemma loop_ranges:
  "map (\<lambda>p. (po_start p, po_end p, po_closed p)) (parse_spans_loop fl bl ls offset line sec om) =
   map (\<lambda>p. (po_start p, po_end p, po_closed p)) (parse_spans_loop 0 0 ls offset line sec om)"
proof (induction ls arbitrary: offset line sec om)
  case Nil
  then show ?case by (cases om) (simp_all add: finish_span_def)
next
  case (Cons l ls)
  then show ?case by (cases om; cases "atx_heading_text l") (auto simp: finish_span_def)
qed

lemma guard_untouched:
  assumes "enforce_operator_touched_spans operation page_id actor frontmatter body start until = Inr ()" "\<not> is_operator actor"
  shows "untouched start until (split_inclusive body)"
proof -
  let ?range = "\<lambda>p. (po_start p, po_end p, po_closed p)"
  let ?loop = "\<lambda>fl bl. parse_spans_loop fl bl (split_inclusive body) 0 0 None None"
  let ?fl = "count_char nl frontmatter" and ?bl = "max (length (str_lines body)) 1"
  have "\<forall>p\<in>set (?loop ?fl ?bl). \<not> span_conflicts start until p"
    using assms by (auto simp: enforce_operator_touched_spans_def Let_def filter_empty_conv parse_operator_touched_spans_def split: if_splits)
  then have "\<forall>r\<in>set (map ?range (?loop ?fl ?bl)). \<not> ((snd (snd r) \<longrightarrow> start < fst (snd r)) \<and> fst r < until)"
    by (simp add: span_conflicts_def)
  then have "\<forall>p\<in>set (?loop 0 0). \<not> span_conflicts start until p" unfolding loop_ranges [of ?fl ?bl] by (simp add: span_conflicts_def)
  then show ?thesis by (simp add: untouched_def filter_empty_conv)
qed

lemma occurrence_at:
  "i \<in> set (occurrences position pat s) \<Longrightarrow> \<exists>a b. s = a @ pat @ b \<and> i = position + length a"
proof (induction position pat s rule: occurrences.induct)
  case (2 position pat c cs)
  show ?case
  proof (cases "pat \<noteq> [] \<and> take (length pat) (c # cs) = pat")
    case True
    then have split: "c # cs = pat @ drop (length pat) (c # cs)" by (metis append_take_drop_id)
    show ?thesis
    proof (cases "i = position")
      case True
      then show ?thesis using split by (intro exI [of _ "[]"] exI [of _ "drop (length pat) (c # cs)"]) simp
    next
      case False
      with 2 True obtain a b where ab: "drop (length pat - 1) cs = a @ pat @ b" "i = position + length pat + length a" by auto
      moreover have "drop (length pat) (c # cs) = drop (length pat - 1) cs" using True by (cases pat) auto
      ultimately have "c # cs = (pat @ a) @ pat @ b" using split by simp
      with ab(2) show ?thesis by (intro exI [of _ "pat @ a"] exI [of _ b]) simp
    qed
  next
    case False
    with 2 obtain a b where "cs = a @ pat @ b" "i = position + 1 + length a" by (auto split: if_splits)
    then show ?thesis by (intro exI [of _ "c # a"] exI [of _ b]) simp
  qed
qed (auto split: if_splits)

lemma line_offsets_at: "(offset, l) \<in> set (line_offsets start ls) \<Longrightarrow> \<exists>xs ys. ls = xs @ l # ys \<and> offset = start + length (concat xs)"
proof (induction start ls rule: line_offsets.induct)
  case (2 start k ls)
  show ?case
  proof (cases "(offset, l) = (start, k)")
    case True
    then show ?thesis by (intro exI [of _ "[]"] exI [of _ ls]) simp
  next
    case False
    with 2 obtain xs ys where "ls = xs @ l # ys" "offset = start + length k + length (concat xs)" by auto
    then show ?thesis by (intro exI [of _ "k # xs"] exI [of _ ys]) simp
  qed
qed simp

lemma find_map_Some: "find_map f xs = Some y \<Longrightarrow> \<exists>x\<in>set xs. f x = Some y"
  by (induction xs) (auto split: option.splits)

text \<open>A section ends at the beginning of a line or at the end of the body.\<close>

lemma section_end_line:
  assumes "locate_section body page_id heading = Inr (start, until)"
  shows "\<exists>before after. body = before @ after \<and> until = length before \<and> (ends_line before \<or> after = [])"
proof -
  obtain index level where "until = (case section_end level (drop (index + 1) (line_offsets 0 (split_inclusive body))) of
      Some e \<Rightarrow> e | None \<Rightarrow> length body)"
    using assms by (auto simp: locate_section_def Let_def split: if_splits list.splits prod.splits)
  then consider "until = length body" | l where "(until, l) \<in> set (line_offsets 0 (split_inclusive body))"
    by (auto simp: section_end_def split: option.splits dest!: find_map_Some in_set_dropD split: if_splits)
  then show ?thesis
  proof cases
    case 2
    from line_offsets_at [OF this] obtain xs ys where "split_inclusive body = xs @ l # ys" "until = length (concat xs)" by auto
    then show ?thesis using split_inclusive_ends [of body xs l ys] concat_split_inclusive [of body]
      by (intro exI [of _ "concat xs"] exI [of _ "concat (l # ys)"]) auto
  qed auto
qed

section \<open>The frontmatter\<close>

lemma closing_position_append:
  "closing_position position (xs @ ys) = (case closing_position position xs of Some p \<Rightarrow> Some p
     | None \<Rightarrow> closing_position (position + length (concat xs)) ys)"
  by (induction xs arbitrary: position) (auto simp: add.assoc split: option.splits)

lemma closing_position_gt: "closing_position position ls = Some p \<Longrightarrow> \<forall>l\<in>set ls. l \<noteq> [] \<Longrightarrow> position < p"
  by (induction position ls rule: closing_position.induct) (fastforce split: if_splits)+

lemma closing_position_le: "closing_position position ls = Some p \<Longrightarrow> p \<le> position + length (concat ls)"
  by (induction position ls rule: closing_position.induct) (fastforce split: if_splits)+

lemma split_at_closing_body:
  assumes "split_at_closing (f @ body) start = Inr (f, body)" "start < length f" "last f = nl"
  shows "split_at_closing (f @ body') start = Inr (f, body')"
proof -
  have f: "ends_line (drop start f)" using assms(2,3) by (simp add: ends_line_def)
  have "closing_position start (split_inclusive (drop start f) @ split_inclusive body) = Some (length f)"
  proof -
    from assms(1) obtain p where p: "closing_position start (split_inclusive (drop start (f @ body))) = Some p" "take p (f @ body) = f"
      by (auto simp: split_at_closing_def split: option.splits)
    have "p \<le> length (f @ body)" using closing_position_le [OF p(1)] assms(2) by simp
    with p(2) have "p = length f" by (metis length_take min_absorb2)
    then show ?thesis using p(1) assms(2) f by (simp add: split_inclusive_append)
  qed
  moreover have "closing_position (start + length (concat (split_inclusive (drop start f)))) (split_inclusive body) \<noteq> Some (length f)"
    using closing_position_gt split_nonempty_lines [of body] assms(2) by fastforce
  ultimately have "closing_position start (split_inclusive (drop start f)) = Some (length f)"
    by (simp add: closing_position_append split: option.splits)
  then show ?thesis using assms(2) f by (simp add: split_at_closing_def split_inclusive_append closing_position_append)
qed

lemma split_at_closing_parts: "split_at_closing s start = Inr (f, body) \<Longrightarrow> s = f @ body"
  by (auto simp: split_at_closing_def split: option.splits)

lemma split_frontmatter_parts: "split_markdown_frontmatter s = Inr (f, body) \<Longrightarrow> s = f @ body"
  by (auto simp: split_markdown_frontmatter_def split: if_splits dest: split_at_closing_parts)

lemma split_frontmatter_body:
  assumes split: "split_markdown_frontmatter (f @ body) = Inr (f, body)" and nl: "last f = nl"
  shows "split_markdown_frontmatter (f @ body') = Inr (f, body')"
proof -
  have start: "start < length f" if "split_at_closing (f @ body) start = Inr (f, body)" for start
  proof -
    from that obtain p where p: "closing_position start (split_inclusive (drop start (f @ body))) = Some p" "take p (f @ body) = f"
      by (auto simp: split_at_closing_def split: option.splits)
    have "drop start (f @ body) \<noteq> []" using p(1) by auto
    then have "p \<le> length (f @ body)" using closing_position_le [OF p(1)] by (simp, arith)
    with p(2) have "p = length f" by (metis length_take min_absorb2)
    with closing_position_gt [OF p(1) split_nonempty_lines] show ?thesis by simp
  qed
  have head: "starts_with (f @ body') h = starts_with (f @ body) h" if "length h < length f" for h
    using that by (simp add: starts_with_def)
  show ?thesis
  proof (cases "starts_with (f @ body) (''---'' @ [nl])")
    case True
    then have "split_at_closing (f @ body) 4 = Inr (f, body)" using split by (simp add: split_markdown_frontmatter_def)
    with start [OF this] nl True head [of "''---'' @ [nl]"] split_at_closing_body [of f body 4 body']
    show ?thesis by (simp add: split_markdown_frontmatter_def)
  next
    case False
    then have "starts_with (f @ body) (''---'' @ [cr, nl])" "split_at_closing (f @ body) 5 = Inr (f, body)"
      using split by (auto simp: split_markdown_frontmatter_def split: if_splits)
    with start [of 5] nl False head [of "''---'' @ [nl]"] head [of "''---'' @ [cr, nl]"] split_at_closing_body [of f body 5 body']
    show ?thesis by (simp add: split_markdown_frontmatter_def)
  qed
qed

section \<open>What the guard promises\<close>

lemma edit_keeps:
  assumes split: "split_markdown_frontmatter source = Inr (f, body)"
    and actor: "\<not> is_operator actor" and line: "keeps_line_end e"
    and edit: "edit_text page_id actor e source = Inr s"
  shows "\<exists>body'. s = f @ body' \<and> subseq (protected_lines body) (protected_lines body')"
proof (cases e)
  case (WriteBody new)
  with edit split have s: "s = f @ new" and guard: "untouched 0 (length body) (split_inclusive body)"
    by (auto simp: try_then_Inr write_body_text_def dest: guard_untouched [OF _ actor])
  have "subseq (protected_lines body) (protected_lines new)"
  proof (cases "body = []")
    case False
    then have "protected_from False (split_inclusive body) = []"
      using untouched_edit [of 0 "length body" "[]" "split_inclusive body" "[]"] guard split_nonempty_lines [of body]
      by (simp add: guard) (metis concat.simps(2) concat_append concat_split_inclusive length_append less_add_same_cancel1
        length_greater_0_conv append_is_Nil_conv in_set_conv_decomp)
    then show ?thesis by (simp add: protected_lines_split)
  qed (simp add: protected_lines_split)
  with s show ?thesis by blast
next
  case (PatchBody w r)
  with edit split obtain start where w: "w \<noteq> []" and start: "occurrences 0 w body = [start]"
    and guard: "untouched start (start + length w) (split_inclusive body)"
    and s: "s = f @ take start body @ r @ drop (start + length w) body"
    by (auto simp: try_then_Inr patch_body_text_def split: if_splits list.splits dest!: guard_untouched [OF _ actor])
  from occurrence_at [of start 0 w body] start obtain a b where ab: "body = a @ w @ b" "start = length a" by auto
  have "ends_line (a @ r)" if "ends_line (a @ w)"
    using that line w PatchBody by (auto simp: ends_line_def)
  from replacement_keeps [OF _ w this] guard have "subseq (protected_lines body) (protected_lines (a @ r @ b))" by (simp add: ab)
  with s show ?thesis by (simp add: ab)
next
  case (AppendSection h c)
  with edit split obtain first until where loc: "locate_section body page_id h = Inr (first, until)"
    and guard: "untouched until until (split_inclusive body)" and s: "s = f @ append_block_at body until c"
    by (auto simp: try_then_Inr append_section_text_def split: if_splits dest: guard_untouched [OF _ actor])
  from section_end_line [OF loc] obtain before after where "body = before @ after" "until = length before"
    "ends_line before \<or> after = []" by blast
  with insertion_keeps [of before after c] guard s show ?thesis by auto
qed

text \<open>Whatever a sequence of agents writes, patches and appends, the frontmatter of the page stays as it is and every
  line that the operator has protected stays, in order and still protected, as long as a patch that takes away the end of
  a line puts one back.\<close>

theorem operator_lines_survive:
  assumes "split_markdown_frontmatter source = Inr (f, body)" "last f = nl"
    "\<forall>(actor, e)\<in>set edits. \<not> is_operator actor \<and> keeps_line_end e"
  shows "\<exists>body'. split_markdown_frontmatter (run_edits page_id edits source) = Inr (f, body') \<and>
    subseq (protected_lines body) (protected_lines body')"
  using assms(3)
proof (induction edits rule: rev_induct)
  case Nil
  then show ?case using assms(1) by (simp add: run_edits_def)
next
  case (snoc step edits)
  obtain actor e where step: "step = (actor, e)" by force
  from snoc obtain mid where mid: "split_markdown_frontmatter (run_edits page_id edits source) = Inr (f, mid)"
    "subseq (protected_lines body) (protected_lines mid)" by auto
  have run: "run_edits page_id (edits @ [step]) source = edit_step page_id (actor, e) (run_edits page_id edits source)"
    by (simp add: run_edits_def step)
  show ?case
  proof (cases "edit_text page_id actor e (run_edits page_id edits source)")
    case (Inl x)
    with mid show ?thesis unfolding run by (simp add: edit_step_def)
  next
    case (Inr s)
    with edit_keeps [OF mid(1) _ _ Inr] snoc.prems step obtain body' where "s = f @ body'"
      "subseq (protected_lines mid) (protected_lines body')" by auto
    moreover have "split_markdown_frontmatter (f @ body') = Inr (f, body')"
      using split_frontmatter_body [of f mid body'] mid(1) assms(2) split_frontmatter_parts by metis
    ultimately show ?thesis using Inr mid(2) unfolding run by (auto simp: edit_step_def intro: subseq_order.order_trans)
  qed
qed

definition sample_head :: string where "sample_head = ''---'' @ [nl] @ ''---'' @ [nl]"

definition sample_body :: string where
  "sample_body = ''intro'' @ [nl] @ ''<!-- operator-touched -->'' @ [nl] @ ''mine'' @ [nl] @ ''<!-- /operator-touched -->'' @ [nl]"

definition sample_agent :: wiki_actor where "sample_agent = agent_actor ''agent://a''"

lemma operator_lines_survive_witness:
  "(\<exists>body'. split_markdown_frontmatter (run_edits ''p'' [(sample_agent, PatchBody ''intro'' ''overview''),
       (sample_agent, PatchBody ''mine'' ''yours'')] (sample_head @ sample_body)) = Inr (sample_head, body') \<and>
     subseq (protected_lines sample_body) (protected_lines body')) \<and>
   protected_lines sample_body = [''<!-- operator-touched -->'', ''mine'', ''<!-- /operator-touched -->'']"
proof
  have "split_markdown_frontmatter (sample_head @ sample_body) = Inr (sample_head, sample_body)" by code_simp
  moreover have "last sample_head = nl" by code_simp
  moreover have "\<not> is_operator sample_agent" by code_simp
  moreover have "keeps_line_end (PatchBody ''intro'' ''overview'')" "keeps_line_end (PatchBody ''mine'' ''yours'')" by code_simp+
  ultimately show "\<exists>body'. split_markdown_frontmatter (run_edits ''p'' [(sample_agent, PatchBody ''intro'' ''overview''),
       (sample_agent, PatchBody ''mine'' ''yours'')] (sample_head @ sample_body)) = Inr (sample_head, body') \<and>
     subseq (protected_lines sample_body) (protected_lines body')"
    by (intro operator_lines_survive) auto
  show "protected_lines sample_body = [''<!-- operator-touched -->'', ''mine'', ''<!-- /operator-touched -->'']" by code_simp
qed

text \<open>Without the condition on the ends of lines the guard can be passed by: it compares byte ranges, and a patch of
  the line before an opening marker that takes away the end of that line turns the marker into part of a paragraph. The
  next patch changes what the operator wrote.\<close>

theorem guard_passed_by_joining_lines:
  "run_edits ''p'' [(sample_agent, PatchBody (''intro'' @ [nl]) ''intro ''), (sample_agent, PatchBody ''mine'' ''yours'')]
     (sample_head @ sample_body) =
   sample_head @ ''intro <!-- operator-touched -->'' @ [nl] @ ''yours'' @ [nl] @ ''<!-- /operator-touched -->'' @ [nl]"
  by code_simp

text \<open>A body written behind a closing delimiter that has no line end is glued to it, and the page has no frontmatter
  any more.\<close>

lemma delimiter_without_line_end:
  "edit_text ''p'' operator_actor (WriteBody ''text'') (''---'' @ [nl] @ ''---'') = Inr (''---'' @ [nl] @ ''---text'') \<and>
   split_markdown_frontmatter (''---'' @ [nl] @ ''---text'') =
     Inl (WikiError ''source markdown frontmatter is missing closing delimiter; refusing body-only edit'')"
  by code_simp

end
