(* ===== verification/Wiki_Pages.thy ===== *)
theory Wiki_Pages
  imports Wiki_Registry Wiki_Guard Json_Value
begin

text \<open>
  The pages of the wiki and their life (\<open>crates/onecontext-wiki-core/src/lib.rs\<close>): status, inventory, edits of the body,
  tombstones and their removal, creation. The store is the tree of files below the root, as a map from paths to contents
  beside the directories that exist, and the ledger of page events. The parsers of TOML and JSON, the JSON of a page
  record, SHA-256 and the upper case of characters outside ASCII are parameters. Reading and writing a file that is there
  does not fail. Every operation here runs under the lock of the lifecycle, and so is one step.
\<close>

record wiki_env =
  we_root :: string
  we_toml :: "string \<Rightarrow> toml option"
  we_json :: "string \<Rightarrow> json option"
  we_fingerprints :: "string \<Rightarrow> (string \<times> string) list option"
  we_record_json :: "wiki_page \<Rightarrow> string"
  we_sha256 :: "string \<Rightarrow> string"
  we_upper :: "string \<Rightarrow> string"

record page_ledger_event =
  pv_event :: string
  pv_page :: string
  pv_at :: string
  pv_actor :: "wiki_actor option"
  pv_origin :: "string option"
  pv_source_sha256 :: "string option"
  pv_template_sha256 :: "string option"

record wiki_store =
  ws_files :: "(string, string) btree_map"
  ws_dirs :: "string list"
  ws_ledger :: "page_ledger_event list"

section \<open>Paths and files\<close>

definition user_wiki :: "wiki_env \<Rightarrow> string" where
  "user_wiki env = path_join (we_root env) ''user-wiki''"

definition wiki_source :: "wiki_env \<Rightarrow> string" where
  "wiki_source env = path_join (user_wiki env) ''source''"

definition wiki_templates :: "wiki_env \<Rightarrow> string" where
  "wiki_templates env = path_join (user_wiki env) ''templates''"

definition wiki_site :: "wiki_env \<Rightarrow> string" where
  "wiki_site env = path_join (user_wiki env) ''site''"

definition config_path :: "wiki_env \<Rightarrow> string" where
  "config_path env = path_join (user_wiki env) ''wiki.toml''"

definition family_dir :: "wiki_env \<Rightarrow> wiki_page \<Rightarrow> string" where
  "family_dir env p = path_join (path_join (path_join (wiki_source env) ''families'') (pg_family_group p)) (pg_family_id p)"

definition source_path :: "wiki_env \<Rightarrow> wiki_page \<Rightarrow> string" where
  "source_path env p = path_join (path_join (family_dir env p) ''source'') (pg_slug p @ ''.md'')"

definition page_asset_dir :: "wiki_env \<Rightarrow> wiki_page \<Rightarrow> string" where
  "page_asset_dir env p = path_join (path_join (family_dir env p) ''source'') (pg_slug p @ ''.assets'')"

definition talk_dir :: "wiki_env \<Rightarrow> wiki_page \<Rightarrow> string" where
  "talk_dir env p = path_join (path_join (family_dir env p) ''talk'') (pg_slug p @ ''.talk'')"

text \<open>\<open>Path::with_extension\<close> of a path with a file name.\<close>

definition with_extension :: "string \<Rightarrow> string \<Rightarrow> string" where
  "with_extension p ext = (let start = (case rfind_char CHR ''/'' p of None \<Rightarrow> 0 | Some n \<Rightarrow> n + 1); name = drop start p;
       stem = (case rfind_char CHR ''.'' name of None \<Rightarrow> name | Some n \<Rightarrow> if n = 0 then name else take n name)
     in take start p @ stem @ ''.'' @ ext)"

definition tombstone_path :: "wiki_env \<Rightarrow> wiki_page \<Rightarrow> string" where
  "tombstone_path env p = with_extension (source_path env p) ''tombstone.toml''"

text \<open>\<open>strip_prefix\<close> of a path: the rest of its components.\<close>

definition display_under_root :: "string \<Rightarrow> string \<Rightarrow> string" where
  "display_under_root p root = (case strip_prefix (if ends_with root ''/'' then root else root @ ''/'') p of None \<Rightarrow> p | Some r \<Rightarrow> r)"

definition is_file :: "wiki_store \<Rightarrow> string \<Rightarrow> bool" where
  "is_file st p \<longleftrightarrow> bt_contains (ws_files st) p"

definition is_dir :: "wiki_store \<Rightarrow> string \<Rightarrow> bool" where
  "is_dir st p \<longleftrightarrow> p \<in> set (ws_dirs st)"

definition wiki_path_exists :: "wiki_store \<Rightarrow> string \<Rightarrow> bool" where
  "wiki_path_exists st p \<longleftrightarrow> is_file st p \<or> is_dir st p"

definition create_dirs :: "string \<Rightarrow> wiki_store \<Rightarrow> wiki_store" where
  "create_dirs p st = st\<lparr> ws_dirs := filter (\<lambda>d. d \<notin> set (ws_dirs st)) (path_ancestors p) @ ws_dirs st \<rparr>"

definition put_file :: "string \<Rightarrow> string \<Rightarrow> wiki_store \<Rightarrow> wiki_store" where
  "put_file p content st = st\<lparr> ws_files := bt_insert p content (ws_files st) \<rparr>"

text \<open>Writing a new file or replacing one makes the directories above it.\<close>

definition put_below :: "string \<Rightarrow> string \<Rightarrow> wiki_store \<Rightarrow> wiki_store" where
  "put_below p content st = put_file p content (create_dirs (path_parent p) st)"

definition read_text_file :: "wiki_store \<Rightarrow> string \<Rightarrow> wiki_error + string" where
  "read_text_file st p = ok_or (bt_get (ws_files st) p) (WikiError (''read '' @ p))"

definition sha256_file :: "wiki_env \<Rightarrow> wiki_store \<Rightarrow> string \<Rightarrow> string option" where
  "sha256_file env st p = map_option (we_sha256 env) (bt_get (ws_files st) p)"

definition ensure_runtime_dirs :: "wiki_env \<Rightarrow> wiki_store \<Rightarrow> wiki_store" where
  "ensure_runtime_dirs env st = create_dirs (path_join (wiki_source env) ''families'')
     (create_dirs (path_join (user_wiki env) ''.1context'') st)"

text \<open>Taking the lock makes its file; operations that hold it exclude each other.\<close>

definition lock_path :: "wiki_env \<Rightarrow> string" where
  "lock_path env = path_join (user_wiki env) ''.1context/page-lifecycle.lock''"

definition lock_lifecycle_writes :: "wiki_env \<Rightarrow> wiki_store \<Rightarrow> wiki_store" where
  "lock_lifecycle_writes env st = (let st1 = create_dirs (path_parent (lock_path env)) st in
     if is_file st1 (lock_path env) then st1 else put_file (lock_path env) [] st1)"

definition prepared :: "wiki_env \<Rightarrow> wiki_store \<Rightarrow> wiki_store" where
  "prepared env st = lock_lifecycle_writes env (ensure_runtime_dirs env st)"

definition append_page_event :: "page_ledger_event \<Rightarrow> wiki_store \<Rightarrow> wiki_store" where
  "append_page_event event st = st\<lparr> ws_ledger := ws_ledger st @ [event] \<rparr>"

section \<open>The registry\<close>

definition wiki_config :: "wiki_env \<Rightarrow> wiki_store \<Rightarrow> wiki_error + toml" where
  "wiki_config env st = try_then (read_text_file st (config_path env)) (\<lambda>t.
     ok_or (we_toml env t) (WikiError (''parse '' @ config_path env)))"

definition wiki_pages :: "wiki_env \<Rightarrow> wiki_store \<Rightarrow> wiki_error + wiki_page list" where
  "wiki_pages env st = try_then (wiki_config env st) (pages_of (we_upper env))"

definition wiki_site_pages :: "wiki_env \<Rightarrow> wiki_store \<Rightarrow> wiki_error + site_page list" where
  "wiki_site_pages env st = try_then (wiki_config env st) site_pages_of"

definition reference_route :: "string \<Rightarrow> string" where
  "reference_route reference = (if starts_with reference ''/'' then reference else ''/'' @ reference)"

definition site_page_reference :: "wiki_env \<Rightarrow> wiki_store \<Rightarrow> string \<Rightarrow> wiki_error + page_reference option" where
  "site_page_reference env st reference = try_then (wiki_config env st) (\<lambda>config.
     Inr (map_option value_reference (List.find (\<lambda>v. site_page_id v = reference \<or> site_page_route v = reference_route reference \<or>
       site_page_route v = reference) (site_page_values config))))"

definition unknown_source_page :: "wiki_env \<Rightarrow> wiki_store \<Rightarrow> string \<Rightarrow> wiki_error" where
  "unknown_source_page env st reference = (case site_page_reference env st reference of
     Inl e \<Rightarrow> e
   | Inr (Some p) \<Rightarrow> WikiError (''generated site page '' @ pp_id p @ '' at '' @ pp_route p @
       '' is not source-backed; use wiki.publish/status or inspect the route manifest instead of wiki.page.status/open'')
   | Inr None \<Rightarrow> WikiError (''unknown configured page: '' @ reference))"

text \<open>The first page whose identifier is the reference or whose route is.\<close>

definition matches_reference :: "string \<Rightarrow> string \<Rightarrow> string \<Rightarrow> bool" where
  "matches_reference reference page_id route \<longleftrightarrow> page_id = reference \<or> route = reference_route reference"

definition find_page :: "wiki_env \<Rightarrow> wiki_store \<Rightarrow> string \<Rightarrow> wiki_error + wiki_page" where
  "find_page env st reference = try_then (wiki_pages env st) (\<lambda>pages.
     ok_or (List.find (\<lambda>p. matches_reference reference (pg_id p) (pg_route p)) pages) (unknown_source_page env st reference))"

section \<open>Fingerprints\<close>

text \<open>Files below a directory, in the order of paths: component by component.\<close>

definition below :: "string \<Rightarrow> string \<Rightarrow> bool" where
  "below root p \<longleftrightarrow> starts_with p (root @ ''/'')"

definition path_order :: "string list \<Rightarrow> string list" where
  "path_order paths = sort_key (split_on is_slash) paths"

definition collect_files :: "wiki_store \<Rightarrow> string \<Rightarrow> string list" where
  "collect_files st root = filter (below root) (bt_keys (ws_files st))"

definition is_publish_input_file :: "string \<Rightarrow> bool" where
  "is_publish_input_file p = (case path_file_name (path_parent p) of None \<Rightarrow> False
     | Some parent \<Rightarrow> ends_with parent ''.assets'' \<or> parent = ''source'' \<and>
         (case path_file_name p of None \<Rightarrow> False
          | Some name \<Rightarrow> (case rfind_char CHR ''.'' name of None \<Rightarrow> False | Some n \<Rightarrow> n \<noteq> 0 \<and> drop (n + 1) name = ''md'') \<or>
              ends_with name ''.tombstone.toml''))"

text \<open>A directory whose name ends in \<open>.talk\<close> gives all its files.\<close>

definition in_talk_tree :: "string \<Rightarrow> string \<Rightarrow> bool" where
  "in_talk_tree root p \<longleftrightarrow> list_ex (\<lambda>c. ends_with c ''.talk'')
     (butlast (split_on is_slash (drop (length root + 1) p)))"

definition collect_publish_input_files :: "wiki_store \<Rightarrow> string \<Rightarrow> string list" where
  "collect_publish_input_files st root = filter (\<lambda>p. in_talk_tree root p \<or> is_publish_input_file p) (collect_files st root)"

definition nul :: char where "nul = char_of (0 :: nat)"

definition file_content :: "wiki_store \<Rightarrow> string \<Rightarrow> string" where
  "file_content st p = or_text (bt_get (ws_files st) p) []"

definition fingerprint_input :: "wiki_store \<Rightarrow> string \<Rightarrow> string list \<Rightarrow> string" where
  "fingerprint_input st root paths = concat (map (\<lambda>p. display_under_root p root @ [nul] @ file_content st p @ [nul]) (path_order paths))"

definition wiki_source_fingerprint :: "wiki_env \<Rightarrow> wiki_store \<Rightarrow> string" where
  "wiki_source_fingerprint env st = we_sha256 env (fingerprint_input st (user_wiki env)
     ((if is_file st (config_path env) then [config_path env] else []) @ collect_publish_input_files st (wiki_source env)))"

definition tree_fingerprint :: "wiki_env \<Rightarrow> wiki_store \<Rightarrow> string \<Rightarrow> string" where
  "tree_fingerprint env st root = we_sha256 env (fingerprint_input st root (collect_files st root))"

definition optional_file_input :: "wiki_store \<Rightarrow> string \<Rightarrow> string \<Rightarrow> string" where
  "optional_file_input st label p = label @ [nul] @ (case bt_get (ws_files st) p of
     Some content \<Rightarrow> ''present'' @ [nul] @ content | None \<Rightarrow> ''missing'') @ [nul]"

definition optional_tree_input :: "wiki_store \<Rightarrow> string \<Rightarrow> string \<Rightarrow> string" where
  "optional_tree_input st label p = label @ [nul] @
     (if is_dir st p then ''present'' @ [nul] @ fingerprint_input st p (collect_files st p) else ''missing'') @ [nul]"

definition page_publish_fingerprint :: "wiki_env \<Rightarrow> wiki_store \<Rightarrow> wiki_page \<Rightarrow> string" where
  "page_publish_fingerprint env st p = we_sha256 env (''1context-page-publish-fingerprint-v2'' @ [nul] @ we_record_json env p @ [nul] @
     optional_file_input st ''source'' (source_path env p) @ optional_file_input st ''tombstone'' (tombstone_path env p) @
     optional_tree_input st ''assets'' (page_asset_dir env p) @ optional_tree_input st ''talk'' (talk_dir env p))"

definition page_fingerprint_map :: "(string \<times> string) list \<Rightarrow> (string, string) btree_map" where
  "page_fingerprint_map fingerprints = bt_of_list fingerprints"

definition page_publish_fingerprints :: "wiki_env \<Rightarrow> wiki_store \<Rightarrow> wiki_error + (string \<times> string) list" where
  "page_publish_fingerprints env st = try_then (wiki_pages env st) (\<lambda>pages.
     Inr (map (\<lambda>p. (pg_id p, page_publish_fingerprint env st p)) pages))"

definition published_page_fingerprints :: "wiki_env \<Rightarrow> wiki_store \<Rightarrow> (string \<times> string) list option" where
  "published_page_fingerprints env st = Option.bind (bt_get (ws_files st)
     (path_join (path_join (wiki_site env) ''.1context'') ''page-fingerprints.json'')) (we_fingerprints env)"

definition published_source_fingerprint :: "wiki_env \<Rightarrow> wiki_store \<Rightarrow> string option" where
  "published_source_fingerprint env st = map_option str_trim (bt_get (ws_files st)
     (path_join (path_join (wiki_site env) ''.1context'') ''source-fingerprint.txt''))"

definition page_publish_stale :: "string \<Rightarrow> (string, string) btree_map option \<Rightarrow> (string, string) btree_map option \<Rightarrow> bool \<Rightarrow> bool" where
  "page_publish_stale page_id current published site_stale =
     (case Option.bind current (\<lambda>m. bt_get m page_id) of
       None \<Rightarrow> site_stale
     | Some h \<Rightarrow> (case Option.bind published (\<lambda>m. bt_get m page_id) of None \<Rightarrow> site_stale | Some h' \<Rightarrow> h' \<noteq> h))"

definition site_needs_publish :: "wiki_env \<Rightarrow> wiki_store \<Rightarrow> bool" where
  "site_needs_publish env st = (case published_source_fingerprint env st of None \<Rightarrow> True | Some h \<Rightarrow> wiki_source_fingerprint env st \<noteq> h)"

end
