(* ===== verification/Wiki_Status.thy ===== *)
theory Wiki_Status
  imports Wiki_Pages
begin

text \<open>
  The status of a page (\<open>page_status_from_record\<close>, \<open>site_page_status_from_record\<close>, \<open>inventory\<close>, \<open>page_status\<close> and
  \<open>open_page\<close> of \<open>crates/onecontext-wiki-core/src/lib.rs\<close>): what the files, the ledger and the last publication say about
  it, what may be done with it, and what has to be.
\<close>

record page_flags =
  fl_enabled :: bool
  fl_source_backed :: bool
  fl_rendered :: bool
  fl_stale :: bool
  fl_tombstoned :: bool
  fl_talk_ready :: bool
  fl_template_derived :: bool
  fl_runtime_default :: bool
  fl_custom_created :: bool
  fl_user_edited :: bool

record page_handles =
  ph_source :: string
  ph_talk :: string
  ph_curator :: string
  ph_conventions :: string
  ph_published :: string

record page_template_summary =
  ts_relative_path :: string
  ts_path :: string
  ts_sha256 :: "string option"
  ts_baseline_sha256 :: "string option"

record link_repair_task =
  lt_page_id :: string
  lt_route :: string
  lt_markdown_path :: "string option"
  lt_source_path :: "string option"
  lt_route_index_path :: "string option"
  lt_broken_internal_count :: nat
  lt_hrefs :: "string list"
  lt_targets :: "string list"
  lt_next_action :: string
  lt_suggested_operations :: "string list"

record page_link_summary =
  ls_status :: string
  ls_broken_internal_count :: nat
  ls_broken_internal_targets :: "string list"
  ls_checked_against :: "string option"
  ls_issues :: "json list"
  ls_repair_tasks :: "link_repair_task list"

record validation_summary =
  vs_status :: string
  vs_issue_count :: nat
  vs_blocking_count :: nat
  vs_warning_count :: nat
  vs_highest_severity :: "string option"

record wiki_page_status =
  st_id :: string
  st_title :: string
  st_route :: string
  st_nav_section :: "string option"
  st_nav_order :: "int option"
  st_page_type :: string
  st_collection :: string
  st_kind :: string
  st_state :: string
  st_content_state :: string
  st_origin :: string
  st_template_state :: string
  st_template :: page_template_summary
  st_dirty_since_publish :: bool
  st_talk_state :: string
  st_flags :: page_flags
  st_handles :: page_handles
  st_links :: page_link_summary
  st_validation :: validation_summary
  st_allowed_actions :: "string list"
  st_next_action :: string

section \<open>Parts of a status\<close>

definition page_origin_is_template_derived :: "string \<Rightarrow> bool" where
  "page_origin_is_template_derived origin \<longleftrightarrow> origin = ''created_from_template'' \<or> origin = ''runtime_default''"

definition template_state :: "string \<Rightarrow> string \<Rightarrow> string" where
  "template_state origin content_state = (if \<not> page_origin_is_template_derived origin then ''not_template_backed''
     else if content_state = ''template_unedited'' then ''template_unedited''
     else if content_state = ''edited'' then ''edited_from_template'' else ''unknown'')"

definition page_allowed_actions :: "string \<Rightarrow> bool \<Rightarrow> string list" where
  "page_allowed_actions state rendered =
     (if state = ''source_missing'' then [''wiki.publish'', ''wiki.page.create'', ''wiki.page.open'', ''wiki.validate'']
      else if (state = ''tombstoned'' \<or> state = ''disabled'') \<and> rendered then [''wiki.page.restore'', ''wiki.validate'', ''wiki.publish'']
      else if state = ''tombstoned'' \<or> state = ''disabled'' then [''wiki.page.restore'', ''wiki.validate'']
      else [''wiki.page.open'', ''wiki.page.patch_body'', ''wiki.page.write_body'', ''wiki.asset.add'', ''wiki.asset.list'',
        ''wiki.talk.append'', ''wiki.validate'', ''wiki.publish'', ''wiki.page.delete''])"

definition route_exists :: "wiki_env \<Rightarrow> wiki_store \<Rightarrow> string \<Rightarrow> bool" where
  "route_exists env st route = (let trimmed = trim_end_set ''/'' (trim_start_set ''/'' route) in
     if trimmed = [] then wiki_path_exists st (path_join (wiki_site env) ''index.html'')
     else wiki_path_exists st (path_join (wiki_site env) (trimmed @ ''.html'')) \<or>
       wiki_path_exists st (path_join (path_join (wiki_site env) trimmed) ''index.html''))"

definition last_event :: "page_ledger_event list \<Rightarrow> string \<Rightarrow> string \<Rightarrow> page_ledger_event option" where
  "last_event log page event = List.find (\<lambda>e. pv_page e = page \<and> pv_event e = event) (rev log)"

definition origin_of :: "page_ledger_event list \<Rightarrow> wiki_page \<Rightarrow> string" where
  "origin_of log p = or_text (Option.bind (last_event log (pg_id p) ''page.created'') pv_origin) (pg_origin p)"

definition baseline_source :: "page_ledger_event list \<Rightarrow> wiki_page \<Rightarrow> string option" where
  "baseline_source log p = Option.bind (last_event log (pg_id p) ''template.baseline'') pv_source_sha256"

definition baseline_template :: "page_ledger_event list \<Rightarrow> wiki_page \<Rightarrow> string option" where
  "baseline_template log p = Option.bind (last_event log (pg_id p) ''template.baseline'') pv_template_sha256"

text \<open>A source that is a directory exists and has no hash.\<close>

definition template_content_state :: "wiki_env \<Rightarrow> wiki_store \<Rightarrow> wiki_page \<Rightarrow> string" where
  "template_content_state env st p = (let source = source_path env p in
     if \<not> wiki_path_exists st source then ''missing_source''
     else case sha256_file env st source of None \<Rightarrow> ''unknown''
       | Some h \<Rightarrow> (case baseline_source (ws_ledger st) p of
           Some b \<Rightarrow> if b = h then ''template_unedited'' else ''edited''
         | None \<Rightarrow> if page_origin_is_template_derived (origin_of (ws_ledger st) p) then ''edited'' else ''unknown''))"

definition talk_ready :: "wiki_env \<Rightarrow> wiki_store \<Rightarrow> wiki_page \<Rightarrow> bool" where
  "talk_ready env st p \<longleftrightarrow> wiki_path_exists st (path_join (talk_dir env p) ''_meta.yaml'') \<and>
     wiki_path_exists st (path_join (talk_dir env p) ''_conventions.md'') \<and> wiki_path_exists st (path_join (talk_dir env p) ''_curator.md'')"

definition page_state :: "wiki_env \<Rightarrow> wiki_store \<Rightarrow> wiki_page \<Rightarrow> bool \<Rightarrow> string" where
  "page_state env st p stale =
     (if wiki_path_exists st (tombstone_path env p) then ''tombstoned''
      else if \<not> pg_enabled p then ''disabled''
      else if \<not> wiki_path_exists st (source_path env p) then ''source_missing''
      else if \<not> talk_ready env st p then ''talk_missing''
      else if stale \<or> \<not> route_exists env st (pg_route p) then ''needs_publish'' else ''rendered'')"

definition state_issue_count :: "string \<Rightarrow> bool \<Rightarrow> nat" where
  "state_issue_count state rendered = (if state = ''rendered'' then 0
     else if state = ''tombstoned'' \<or> state = ''disabled'' then (if rendered then 1 else 0) else 1)"

definition page_next_action :: "string \<Rightarrow> bool \<Rightarrow> nat \<Rightarrow> string" where
  "page_next_action state rendered link_issue_count =
     (if state = ''source_missing'' then ''publish''
      else if state = ''needs_publish'' \<or> state = ''talk_missing'' then ''publish''
      else if state = ''rendered'' \<and> link_issue_count > 0 then ''repair_links''
      else if state = ''rendered'' then ''none''
      else if (state = ''tombstoned'' \<or> state = ''disabled'') \<and> rendered then ''publish''
      else if state = ''tombstoned'' \<or> state = ''disabled'' then ''none'' else ''validate'')"

definition template_summary :: "wiki_env \<Rightarrow> wiki_store \<Rightarrow> string \<Rightarrow> string option \<Rightarrow> page_template_summary" where
  "template_summary env st relative baseline = (let path = path_join (wiki_templates env) relative in
     \<lparr> ts_relative_path = relative, ts_path = display_under_root path (we_root env), ts_sha256 = sha256_file env st path,
       ts_baseline_sha256 = baseline \<rparr>)"

section \<open>Links of the last publication\<close>

definition no_links :: "page_link_summary" where
  "no_links = \<lparr> ls_status = ''unknown'', ls_broken_internal_count = 0, ls_broken_internal_targets = [], ls_checked_against = None,
     ls_issues = [], ls_repair_tasks = [] \<rparr>"

definition json_text :: "string \<Rightarrow> json \<Rightarrow> string option" where
  "json_text key v = Option.bind (json_get key v) as_str"

definition first_issue_string :: "json list \<Rightarrow> string \<Rightarrow> string option" where
  "first_issue_string issues key = find_map (json_text key) issues"

definition issue_strings :: "json list \<Rightarrow> string \<Rightarrow> string list" where
  "issue_strings issues key = bset (List.map_filter (json_text key) issues)"

definition link_repair_tasks_for_page :: "wiki_page \<Rightarrow> json list \<Rightarrow> link_repair_task list" where
  "link_repair_tasks_for_page p issues = (if issues = [] then [] else
     [\<lparr> lt_page_id = pg_id p, lt_route = pg_route p,
        lt_markdown_path = or_else (first_issue_string issues ''markdown_path'') (Some (pg_slug p @ ''.md'')),
        lt_source_path = first_issue_string issues ''source_path'', lt_route_index_path = first_issue_string issues ''route_index_path'',
        lt_broken_internal_count = length issues, lt_hrefs = issue_strings issues ''href'', lt_targets = issue_strings issues ''target'',
        lt_next_action = ''repair_links'',
        lt_suggested_operations = [''wiki.page.open'', ''wiki.page.patch_body'', ''wiki.publish'', ''wiki.validate''] \<rparr>])"

definition issue_is_about :: "wiki_page \<Rightarrow> json \<Rightarrow> bool" where
  "issue_is_about p issue \<longleftrightarrow> json_text ''page_id'' issue = Some (pg_id p) \<or> json_text ''route'' issue = Some (pg_route p) \<or>
     json_text ''markdown_path'' issue = Some (pg_slug p @ ''.md'') \<or> json_text ''source_path'' issue = Some (pg_slug p @ ''.html'')"

definition receipt_issues :: "json \<Rightarrow> json list" where
  "receipt_issues diagnostics = (case Option.bind (json_get ''issues'' diagnostics) as_array of None \<Rightarrow> [] | Some vs \<Rightarrow> vs)"

definition link_summary :: "wiki_page \<Rightarrow> json \<Rightarrow> page_link_summary" where
  "link_summary p diagnostics = (let issues = filter (issue_is_about p) (receipt_issues diagnostics) in
     \<lparr> ls_status = (if issues = [] then ''ok'' else ''warning''), ls_broken_internal_count = length issues,
       ls_broken_internal_targets = issue_strings issues ''target'',
       ls_checked_against = or_else (first_issue_string issues ''manifest_path'')
         (map_option (\<lambda>_. ''.1context/route-manifest.json'') (json_text ''status'' diagnostics)),
       ls_issues = issues, ls_repair_tasks = link_repair_tasks_for_page p issues \<rparr>)"

definition last_publish_receipt_path :: "wiki_env \<Rightarrow> string" where
  "last_publish_receipt_path env = path_join (path_join (we_root env) ''context-engine'') ''runs/wiki-publish-receipt.json''"

text \<open>An unreadable receipt counts as none.\<close>

definition last_link_summary_for_page :: "wiki_env \<Rightarrow> wiki_store \<Rightarrow> wiki_page \<Rightarrow> page_link_summary" where
  "last_link_summary_for_page env st p =
     (case Option.bind (Option.bind (bt_get (ws_files st) (last_publish_receipt_path env)) (we_json env)) (json_get ''link_diagnostics'') of
       None \<Rightarrow> no_links | Some diagnostics \<Rightarrow> link_summary p diagnostics)"

section \<open>The status\<close>

definition page_status_from_record :: "wiki_env \<Rightarrow> wiki_store \<Rightarrow> wiki_page \<Rightarrow> bool \<Rightarrow> wiki_page_status" where
  "page_status_from_record env st p stale = (let origin = origin_of (ws_ledger st) p; content = template_content_state env st p;
       tombstoned = wiki_path_exists st (tombstone_path env p); rendered = route_exists env st (pg_route p);
       state = page_state env st p stale; links = last_link_summary_for_page env st p;
       issue_count = state_issue_count state rendered + ls_broken_internal_count links
     in \<lparr> st_id = pg_id p, st_title = pg_title p, st_route = pg_route p, st_nav_section = pg_nav_section p,
       st_nav_order = pg_nav_order p, st_page_type = pg_page_type p, st_collection = pg_family_group p, st_kind = ''source_page'',
       st_state = state, st_content_state = (if tombstoned then ''tombstoned'' else content), st_origin = origin,
       st_template_state = template_state origin content,
       st_template = template_summary env st (pg_template p) (baseline_template (ws_ledger st) p),
       st_dirty_since_publish = stale, st_talk_state = (if talk_ready env st p then ''ready'' else ''missing''),
       st_flags = \<lparr> fl_enabled = pg_enabled p, fl_source_backed = wiki_path_exists st (source_path env p), fl_rendered = rendered,
         fl_stale = stale, fl_tombstoned = tombstoned, fl_talk_ready = talk_ready env st p,
         fl_template_derived = page_origin_is_template_derived origin, fl_runtime_default = (origin = ''runtime_default''),
         fl_custom_created = (origin = ''created_from_template''), fl_user_edited = (content = ''edited'') \<rparr>,
       st_handles = \<lparr> ph_source = ''user-wiki://page/'' @ pg_id p @ ''/source'', ph_talk = ''user-wiki://page/'' @ pg_id p @ ''/talk'',
         ph_curator = ''user-wiki://page/'' @ pg_id p @ ''/curator'',
         ph_conventions = ''user-wiki://page/'' @ pg_id p @ ''/conventions'', ph_published = ''app-support://wiki'' @ pg_route p \<rparr>,
       st_links = links,
       st_validation = \<lparr> vs_status = (if issue_count = 0 then ''ok'' else ''warning''), vs_issue_count = issue_count,
         vs_blocking_count = 0, vs_warning_count = issue_count,
         vs_highest_severity = (if issue_count > 0 then Some ''warning'' else None) \<rparr>,
       st_allowed_actions = page_allowed_actions state rendered,
       st_next_action = page_next_action state rendered (ls_broken_internal_count links) \<rparr>)"

definition site_page_state :: "wiki_env \<Rightarrow> wiki_store \<Rightarrow> site_page \<Rightarrow> string" where
  "site_page_state env st p = (if \<not> sp_enabled p then ''disabled'' else if route_exists env st (sp_route p) then ''rendered'' else ''needs_publish'')"

definition site_page_status_from_record :: "wiki_env \<Rightarrow> wiki_store \<Rightarrow> site_page \<Rightarrow> wiki_page_status" where
  "site_page_status_from_record env st p = (let rendered = route_exists env st (sp_route p); state = site_page_state env st p
     in \<lparr> st_id = sp_id p, st_title = sp_title p, st_route = sp_route p, st_nav_section = sp_nav_section p,
       st_nav_order = sp_nav_order p, st_page_type = sp_kind p, st_collection = ''site'', st_kind = ''generated_site_page'',
       st_state = state, st_content_state = (if rendered then ''generated'' else ''missing_render''),
       st_origin = ''generated_site_page'', st_template_state = ''generated_from_template'',
       st_template = template_summary env st (sp_template p) None, st_dirty_since_publish = (state = ''needs_publish''),
       st_talk_state = ''not_applicable'',
       st_flags = \<lparr> fl_enabled = sp_enabled p, fl_source_backed = False, fl_rendered = rendered, fl_stale = False,
         fl_tombstoned = False, fl_talk_ready = False, fl_template_derived = False, fl_runtime_default = False,
         fl_custom_created = False, fl_user_edited = False \<rparr>,
       st_handles = \<lparr> ph_source = ''user-wiki://template/'' @ sp_template p, ph_talk = ''not_applicable'',
         ph_curator = ''not_applicable'', ph_conventions = ''not_applicable'', ph_published = ''app-support://wiki'' @ sp_route p \<rparr>,
       st_links = no_links,
       st_validation = \<lparr> vs_status = ''ok'', vs_issue_count = 0, vs_blocking_count = 0, vs_warning_count = 0, vs_highest_severity = None \<rparr>,
       st_allowed_actions = [''wiki.validate'', ''wiki.publish''],
       st_next_action = (if state = ''rendered'' then ''none'' else ''publish'') \<rparr>)"

definition site_stale :: "wiki_env \<Rightarrow> wiki_store \<Rightarrow> bool" where
  "site_stale env st \<longleftrightarrow> (case published_source_fingerprint env st of None \<Rightarrow> False | Some h \<Rightarrow> wiki_source_fingerprint env st \<noteq> h)"

definition page_is_stale :: "wiki_env \<Rightarrow> wiki_store \<Rightarrow> wiki_page \<Rightarrow> bool" where
  "page_is_stale env st p = page_publish_stale (pg_id p)
     (case page_publish_fingerprints env st of Inl _ \<Rightarrow> None | Inr fs \<Rightarrow> Some (page_fingerprint_map fs))
     (map_option page_fingerprint_map (published_page_fingerprints env st)) (site_stale env st)"

record wiki_inventory =
  wv_page_count :: nat
  wv_source_page_count :: nat
  wv_generated_page_count :: nat
  wv_pages :: "wiki_page_status list"
  wv_publish_fingerprint :: "string option"

text \<open>Reading makes the runtime directories first; nothing here looks at those.\<close>

definition inventory :: "wiki_env \<Rightarrow> wiki_store \<Rightarrow> wiki_error + wiki_inventory" where
  "inventory env st = try_then (wiki_pages env st) (\<lambda>pages. try_then (wiki_site_pages env st) (\<lambda>site_pages.
     Inr \<lparr> wv_page_count = length pages + length site_pages, wv_source_page_count = length pages,
       wv_generated_page_count = length site_pages,
       wv_pages = map (\<lambda>p. page_status_from_record env st p (page_is_stale env st p)) pages @
         map (site_page_status_from_record env st) site_pages,
       wv_publish_fingerprint = Some (wiki_source_fingerprint env st) \<rparr>))"

definition page_status :: "wiki_env \<Rightarrow> wiki_store \<Rightarrow> string \<Rightarrow> wiki_error + wiki_page_status" where
  "page_status env st reference = try_then (inventory env st) (\<lambda>inv.
     ok_or (List.find (\<lambda>s. matches_reference reference (st_id s) (st_route s)) (wv_pages inv)) (unknown_source_page env st reference))"

section \<open>Opening a page\<close>

record edit_preconditions =
  ep_expected_source_sha256 :: "string option"
  ep_expected_talk_sha256 :: "string option"
  ep_safe_to_edit :: bool
  ep_recommended_write_mode :: string
  ep_recommended_operation :: string
  ep_required_preconditions :: "string list"
  ep_proposal_required :: bool

definition closed_state :: "string \<Rightarrow> bool" where
  "closed_state state \<longleftrightarrow> state = ''tombstoned'' \<or> state = ''disabled''"

definition talk_hash :: "wiki_env \<Rightarrow> wiki_store \<Rightarrow> wiki_page \<Rightarrow> string option" where
  "talk_hash env st p = (if is_dir st (talk_dir env p) then Some (tree_fingerprint env st (talk_dir env p)) else None)"

definition edit_rules :: "wiki_env \<Rightarrow> wiki_store \<Rightarrow> wiki_page \<Rightarrow> wiki_page_status \<Rightarrow> edit_preconditions" where
  "edit_rules env st p status = (let missing = (st_state status = ''source_missing'');
       safe = (\<not> missing \<and> \<not> closed_state (st_state status)); unedited = (st_content_state status = ''template_unedited'')
     in \<lparr> ep_expected_source_sha256 = sha256_file env st (source_path env p), ep_expected_talk_sha256 = talk_hash env st p,
       ep_safe_to_edit = safe,
       ep_recommended_write_mode = (if missing then ''create_from_template'' else if \<not> safe then ''not_editable''
         else if unedited then ''hash_checked_direct_edit'' else ''hash_checked_patch''),
       ep_recommended_operation = (if missing then ''wiki.publish'' else if closed_state (st_state status) then ''wiki.page.restore''
         else if unedited then ''wiki.page.write_body'' else ''wiki.page.patch_body''),
       ep_required_preconditions = (if safe then [''expected_source_sha256'', ''preserve_user_edits''] else []),
       ep_proposal_required = (\<not> safe \<and> \<not> missing) \<rparr>)"

record page_open_result =
  or_record :: wiki_page
  or_status :: wiki_page_status
  or_operator_touched :: "operator_touched_span list"
  or_edit :: edit_preconditions

definition open_page :: "wiki_env \<Rightarrow> wiki_store \<Rightarrow> string \<Rightarrow> wiki_error + page_open_result" where
  "open_page env st reference = try_then (find_page env st reference) (\<lambda>p. try_then (page_status env st reference) (\<lambda>status.
     Inr \<lparr> or_record = p, or_status = status,
       or_operator_touched = (case bt_get (ws_files st) (source_path env p) of None \<Rightarrow> [] | Some t \<Rightarrow> operator_touched_spans_for_source t),
       or_edit = edit_rules env st p status \<rparr>))"

end
