(* ===== verification/Wiki_Operations.thy ===== *)
theory Wiki_Operations
  imports Wiki_Status
begin

text \<open>
  The operations on pages (\<open>crates/onecontext-wiki-core/src/lib.rs\<close>): edits of the body under the hash of the source, the
  tombstone and its removal, and the creation of a page from its templates. \<open>now\<close> is the time in RFC 3339, \<open>today\<close> the
  date. An error leaves what was written before it.
\<close>

section \<open>Receipts\<close>

record inbound_link_issue =
  il_phase :: string
  il_source_page_id :: string
  il_source_route :: string
  il_source_path :: string
  il_href :: string
  il_target :: string
  il_target_kind :: string

record link_impact_summary =
  lm_status :: string
  lm_deleted_route :: string
  lm_deleted_markdown_path :: string
  lm_post_publish_expected_next_action :: string
  lm_inbound_link_count :: nat
  lm_source_page_count :: nat
  lm_issues :: "inbound_link_issue list"

text \<open>Evidence: a path below the root, and what happened to it.\<close>

type_synonym evidence = "string \<times> string"

record operation_receipt =
  rc_operation :: string
  rc_id :: string
  rc_actor :: "wiki_actor option"
  rc_evidence :: "evidence list"
  rc_page_status :: "wiki_page_status option"
  rc_edit :: "edit_preconditions option"
  rc_before_source_sha256 :: "string option"
  rc_after_source_sha256 :: "string option"
  rc_link_impact :: "link_impact_summary option"
  rc_render_required :: bool
  rc_next_action :: string
  rc_repair_hints :: "string list"

text \<open>The status and the preconditions of the next edit are read back at the end.\<close>

definition with_page_context :: "wiki_env \<Rightarrow> wiki_store \<Rightarrow> operation_receipt \<Rightarrow> operation_receipt" where
  "with_page_context env st r = r\<lparr>
     rc_page_status := (case page_status env st (rc_id r) of Inl _ \<Rightarrow> None | Inr s \<Rightarrow> Some s),
     rc_edit := (case open_page env st (rc_id r) of Inl _ \<Rightarrow> None | Inr opened \<Rightarrow> Some (or_edit opened)) \<rparr>"

definition new_receipt :: "string \<Rightarrow> string \<Rightarrow> wiki_actor option \<Rightarrow> evidence list \<Rightarrow> operation_receipt" where
  "new_receipt operation page_id actor evidence = \<lparr> rc_operation = operation, rc_id = page_id, rc_actor = actor,
     rc_evidence = evidence, rc_page_status = None, rc_edit = None, rc_before_source_sha256 = None,
     rc_after_source_sha256 = None, rc_link_impact = None, rc_render_required = False, rc_next_action = ''none'', rc_repair_hints = [] \<rparr>"

definition new_event :: "string \<Rightarrow> string \<Rightarrow> string \<Rightarrow> wiki_actor option \<Rightarrow> string option \<Rightarrow> string option \<Rightarrow> string option \<Rightarrow>
    page_ledger_event" where
  "new_event event page at actor origin source_hash template_hash = \<lparr> pv_event = event, pv_page = page, pv_at = at,
     pv_actor = actor, pv_origin = origin, pv_source_sha256 = source_hash, pv_template_sha256 = template_hash \<rparr>"

section \<open>Edits of the body\<close>

fun edit_operation :: "page_edit \<Rightarrow> string" where
  "edit_operation (WriteBody _) = ''wiki.page.write_body''"
| "edit_operation (PatchBody _ _) = ''wiki.page.patch_body''"
| "edit_operation (AppendSection _ _) = ''wiki.page.append_section''"

fun edit_event :: "page_edit \<Rightarrow> string" where
  "edit_event (WriteBody _) = ''page.body_written''"
| "edit_event (PatchBody _ _) = ''page.body_patched''"
| "edit_event (AppendSection _ _) = ''page.section_appended''"

text \<open>Arguments that are refused before anything is touched.\<close>

fun edit_check :: "page_edit \<Rightarrow> wiki_error + unit" where
  "edit_check (WriteBody _) = Inr ()"
| "edit_check (PatchBody wanted_text _) = ensure_that (wanted_text \<noteq> []) (WikiError ''page-patch-body requires a non-empty --find value'')"
| "edit_check (AppendSection _ content) = ensure_that (str_trim content \<noteq> [])
     (WikiError ''page-append-section requires non-empty --content markdown'')"

text \<open>The status is looked up again, by the identifier.\<close>

definition ensure_page_body_editable :: "wiki_env \<Rightarrow> wiki_store \<Rightarrow> wiki_page \<Rightarrow> wiki_error + unit" where
  "ensure_page_body_editable env st p = try_then (page_status env st (pg_id p)) (\<lambda>status.
     if closed_state (st_state status)
     then Inl (WikiError (''page body edit refused for '' @ st_state status @ '' page '' @ pg_id p @
       ''; use wiki.page.restore before editing or choose an enabled page''))
     else ensure_that (is_file st (source_path env p)) (WikiError (''page source missing for '' @ pg_id p @ ''; call wiki.page.create first'')))"

definition check_expected :: "wiki_page \<Rightarrow> string option \<Rightarrow> string \<Rightarrow> wiki_error + unit" where
  "check_expected p expected before_hash = (case expected of None \<Rightarrow> Inr ()
     | Some h \<Rightarrow> if h \<noteq> before_hash then Inl (WikiError (''source hash mismatch for '' @ pg_id p @ ''; expected '' @ h @
         '', found '' @ before_hash)) else Inr ())"

text \<open>The page, its source and the source after the edit.\<close>

definition edit_decision :: "wiki_env \<Rightarrow> string \<Rightarrow> page_edit \<Rightarrow> string option \<Rightarrow> wiki_actor \<Rightarrow> wiki_store \<Rightarrow>
    wiki_error + wiki_page \<times> string \<times> string" where
  "edit_decision env reference e expected actor st =
     try_then (find_page env st reference) (\<lambda>p.
     try_then (ensure_page_body_editable env st p) (\<lambda>_.
     try_then (read_text_file st (source_path env p)) (\<lambda>original.
     try_then (check_expected p expected (we_sha256 env original)) (\<lambda>_.
     try_then (edit_text (pg_id p) actor e original) (\<lambda>next_content. Inr (p, original, next_content))))))"

definition write_page_source_update :: "wiki_env \<Rightarrow> string \<Rightarrow> page_edit \<Rightarrow> wiki_actor \<Rightarrow> wiki_page \<Rightarrow> string \<Rightarrow> string \<Rightarrow> wiki_store \<Rightarrow>
    operation_receipt \<times> wiki_store" where
  "write_page_source_update env now e actor p original next_content st = (let source = source_path env p;
       shown = display_under_root source (we_root env); before = Some (we_sha256 env original);
       receipt = (\<lambda>status. new_receipt (edit_operation e) (pg_id p) (Some actor) [(shown, status)])
     in if original = next_content
        then (with_page_context env st ((receipt ''unchanged'')\<lparr> rc_before_source_sha256 := before, rc_after_source_sha256 := before \<rparr>), st)
        else let after = Some (we_sha256 env next_content);
               st' = append_page_event (new_event (edit_event e) (pg_id p) now (Some actor) (Some ''body_edit'') after None)
                 (put_file source next_content st)
             in (with_page_context env st' ((receipt ''updated'')\<lparr> rc_before_source_sha256 := before,
                  rc_after_source_sha256 := after, rc_render_required := True, rc_next_action := ''publish'' \<rparr>), st'))"

definition edit_page :: "wiki_env \<Rightarrow> string \<Rightarrow> string \<Rightarrow> page_edit \<Rightarrow> string option \<Rightarrow> wiki_actor \<Rightarrow> wiki_store \<Rightarrow>
    (wiki_error + operation_receipt) \<times> wiki_store" where
  "edit_page env now reference e expected actor st = (case edit_check e of
     Inl err \<Rightarrow> (Inl err, st)
   | Inr _ \<Rightarrow> (case edit_decision env reference e expected actor (prepared env st) of
       Inl err \<Rightarrow> (Inl err, prepared env st)
     | Inr (p, original, next_content) \<Rightarrow>
         map_prod Inr (\<lambda>s. s) (write_page_source_update env now e actor p original next_content (prepared env st))))"

section \<open>Links to a page\<close>

definition inbound_issue :: "wiki_env \<Rightarrow> string \<Rightarrow> string \<Rightarrow> string \<Rightarrow> string \<Rightarrow> string \<Rightarrow> string \<Rightarrow> inbound_link_issue option" where
  "inbound_issue env path page_id route phase deleted_route href = (case normalize_wiki_href href route of
     None \<Rightarrow> None
   | Some n \<Rightarrow> if link_points_at_deleted_route (nh_route_target n) deleted_route
       then Some \<lparr> il_phase = phase, il_source_page_id = page_id, il_source_route = route,
         il_source_path = display_under_root path (we_root env), il_href = href, il_target = nh_target n, il_target_kind = nh_target_kind n \<rparr>
       else None)"

definition collect_inbound_link_issues :: "wiki_env \<Rightarrow> wiki_store \<Rightarrow> string \<Rightarrow> string \<Rightarrow> string \<Rightarrow> string \<Rightarrow> string \<Rightarrow> inbound_link_issue list" where
  "collect_inbound_link_issues env st path page_id route phase deleted_route =
     List.map_filter (inbound_issue env path page_id route phase deleted_route) (extract_markdown_link_hrefs (file_content st path))"

definition plain_talk_route :: "wiki_page \<Rightarrow> string" where
  "plain_talk_route p = (if pg_route p = ''/'' then ''/talk'' else trim_end_set ''/'' (pg_route p) @ ''/talk'')"

definition is_markdown :: "string \<Rightarrow> bool" where
  "is_markdown p \<longleftrightarrow> (case path_file_name p of None \<Rightarrow> False
     | Some name \<Rightarrow> (case rfind_char CHR ''.'' name of None \<Rightarrow> False | Some n \<Rightarrow> n \<noteq> 0 \<and> drop (n + 1) name = ''md''))"

definition page_link_issues :: "wiki_env \<Rightarrow> wiki_store \<Rightarrow> wiki_page \<Rightarrow> string \<Rightarrow> wiki_page \<Rightarrow> inbound_link_issue list" where
  "page_link_issues env st target deleted_route p =
     (if pg_id p = pg_id target \<or> \<not> pg_enabled p \<or> \<not> is_file st (source_path env p) \<or> wiki_path_exists st (tombstone_path env p) then []
      else collect_inbound_link_issues env st (source_path env p) (pg_id p) (pg_route p) ''pre_delete_source_link_scan'' deleted_route @
        concat (map (\<lambda>f. collect_inbound_link_issues env st f (pg_id p @ ''.talk'') (plain_talk_route p) ''pre_delete_talk_link_scan''
          deleted_route) (filter is_markdown (path_order (collect_files st (talk_dir env p))))))"

definition sort_link_issues :: "inbound_link_issue list \<Rightarrow> inbound_link_issue list" where
  "sort_link_issues issues = sort_key il_source_page_id (sort_key il_href issues)"

definition link_impact :: "string \<Rightarrow> inbound_link_issue list \<Rightarrow> link_impact_summary" where
  "link_impact deleted_route issues = \<lparr> lm_status = (if issues = [] then ''ok'' else ''warning''), lm_deleted_route = deleted_route,
     lm_deleted_markdown_path = markdown_url_for_route deleted_route,
     lm_post_publish_expected_next_action = (if issues = [] then ''none'' else ''repair_links''),
     lm_inbound_link_count = length issues, lm_source_page_count = length (bset (map il_source_page_id issues)),
     lm_issues = issues \<rparr>"

definition inbound_link_impact_for_delete :: "wiki_env \<Rightarrow> wiki_store \<Rightarrow> wiki_page \<Rightarrow> wiki_error + link_impact_summary" where
  "inbound_link_impact_for_delete env st target = (let deleted_route = or_text (canonical_route_target (pg_route target)) (pg_route target) in
     try_then (wiki_pages env st) (\<lambda>pages.
       Inr (link_impact deleted_route (sort_link_issues (concat (map (page_link_issues env st target deleted_route) pages))))))"

section \<open>Tombstones\<close>

definition write_if_missing :: "wiki_env \<Rightarrow> string \<Rightarrow> string \<Rightarrow> evidence list \<times> wiki_store \<Rightarrow> evidence list \<times> wiki_store" where
  "write_if_missing env path content s = (if wiki_path_exists (snd s) path
     then (fst s @ [(display_under_root path (we_root env), ''skipped_existing'')], snd s)
     else (fst s @ [(display_under_root path (we_root env), ''created'')], put_below path content (snd s)))"

text \<open>\<open>write_text_atomic\<close> replaces the file; the temporary file beside it is gone afterwards.\<close>

definition replace_registry :: "wiki_env \<Rightarrow> string \<Rightarrow> string \<Rightarrow> string \<Rightarrow> string \<Rightarrow> wiki_store \<Rightarrow> bool \<times> evidence \<times> wiki_store" where
  "replace_registry env original new_text changed_status same_status st =
     (let shown = display_under_root (config_path env) (we_root env) in
      if new_text \<noteq> original then (True, (shown, changed_status), put_below (config_path env) new_text st)
      else (False, (shown, same_status), st))"

definition retire_page_from_registry :: "wiki_env \<Rightarrow> string \<Rightarrow> wiki_store \<Rightarrow> wiki_error + bool \<times> evidence \<times> wiki_store" where
  "retire_page_from_registry env page_id st = try_then (read_text_file st (config_path env)) (\<lambda>original.
     Inr (replace_registry env original (retired_registry original page_id) ''retired_from_navigation'' ''navigation_already_retired'' st))"

definition restore_page_to_registry :: "wiki_env \<Rightarrow> wiki_page \<Rightarrow> wiki_store \<Rightarrow> wiki_error + bool \<times> evidence \<times> wiki_store" where
  "restore_page_to_registry env p st = try_then (read_text_file st (config_path env)) (\<lambda>original.
     Inr (replace_registry env original (restored_registry original p) ''restored_to_navigation'' ''navigation_already_restored'' st))"

definition quoted :: "string \<Rightarrow> string" where
  "quoted s = [CHR 0x22] @ s @ [CHR 0x22, nl]"

definition tombstone_content :: "wiki_page \<Rightarrow> string \<Rightarrow> string option \<Rightarrow> string" where
  "tombstone_content p now source_hash = ''schema_version = 1'' @ [nl] @ ''page_id = '' @ quoted (pg_id p) @
     ''route = '' @ quoted (pg_route p) @ ''mode = '' @ quoted ''tombstone'' @ ''created_at = '' @ quoted now @
     ''source_sha256 = '' @ quoted (or_text source_hash [])"

definition delete_hints :: "link_impact_summary \<Rightarrow> string list" where
  "delete_hints impact = (if lm_inbound_link_count impact > 0
     then [''Repair '' @ decimal (lm_inbound_link_count impact) @ '' inbound source link(s) to '' @ lm_deleted_route impact @
       '' before or after publishing the tombstone.''] else []) @ [''Render after tombstone if the deleted route is still published.'']"

definition delete_next_action :: "bool \<Rightarrow> bool \<Rightarrow> string" where
  "delete_next_action published linked = (if published \<and> linked then ''publish_then_repair_links'' else if published then ''publish''
     else if linked then ''repair_links'' else ''none'')"

definition tombstone_page :: "wiki_env \<Rightarrow> string \<Rightarrow> wiki_page \<Rightarrow> link_impact_summary \<Rightarrow> wiki_store \<Rightarrow>
    (wiki_error + operation_receipt) \<times> wiki_store" where
  "tombstone_page env now p impact st = (let source_hash = sha256_file env st (source_path env p);
       (evidence, st1) = write_if_missing env (tombstone_path env p) (tombstone_content p now source_hash) ([], st)
     in case retire_page_from_registry env (pg_id p) st1 of
       Inl err \<Rightarrow> (Inl err, st1)
     | Inr (retired, ev, st2) \<Rightarrow> (let all_evidence = evidence @ [ev];
           changed = list_ex (\<lambda>x. snd x \<notin> {''skipped_existing'', ''navigation_already_retired''}) all_evidence;
           st3 = (if changed then append_page_event (new_event ''page.tombstoned'' (pg_id p) now None (Some ''tombstone'') source_hash None) st2
             else st2);
           published = route_exists env st3 (pg_route p)
         in (Inr (with_page_context env st3 ((new_receipt ''wiki.page.delete'' (pg_id p) None all_evidence)\<lparr>
              rc_link_impact := Some impact, rc_render_required := published,
              rc_next_action := delete_next_action published (lm_inbound_link_count impact > 0),
              rc_repair_hints := delete_hints impact \<rparr>)), st3)))"

definition delete_page :: "wiki_env \<Rightarrow> string \<Rightarrow> string \<Rightarrow> string \<Rightarrow> wiki_store \<Rightarrow> (wiki_error + operation_receipt) \<times> wiki_store" where
  "delete_page env now reference mode st =
     (if mode \<noteq> ''tombstone'' then (Inl (WikiError (''unsupported page-delete mode: '' @ mode @ ''; expected tombstone'')), st)
      else let st0 = prepared env st in
        st_try (find_page env st0 reference) st0 (\<lambda>p.
        st_try (inbound_link_impact_for_delete env st0 p) st0 (\<lambda>impact. tombstone_page env now p impact st0)))"

definition remove_wiki_file :: "string \<Rightarrow> wiki_store \<Rightarrow> wiki_store" where
  "remove_wiki_file p st = st\<lparr> ws_files := bt_remove p (ws_files st) \<rparr>"

definition revive_page :: "wiki_env \<Rightarrow> string \<Rightarrow> wiki_page \<Rightarrow> wiki_store \<Rightarrow> (wiki_error + operation_receipt) \<times> wiki_store" where
  "revive_page env now p st = (let source_hash = sha256_file env st (source_path env p); tombstone = tombstone_path env p;
       shown = display_under_root tombstone (we_root env); removed = is_file st tombstone;
       st1 = (if removed then remove_wiki_file tombstone st else st);
       evidence = (shown, if removed then ''removed_tombstone'' else ''no_tombstone'')
     in case restore_page_to_registry env p st1 of
       Inl err \<Rightarrow> (Inl err, st1)
     | Inr (restored, ev, st2) \<Rightarrow> (let changed = (removed \<or> restored);
           st3 = (if changed then append_page_event (new_event ''page.restored'' (pg_id p) now None (Some ''restore'') source_hash None) st2
             else st2)
         in (Inr (with_page_context env st3 ((new_receipt ''wiki.page.restore'' (pg_id p) None [evidence, ev])\<lparr>
              rc_render_required := changed, rc_next_action := (if changed then ''publish'' else ''none''),
              rc_repair_hints := (if changed then [''Publish after restore so the route and navigation return to the rendered site.'']
                else []) \<rparr>)), st3)))"

definition restore_page :: "wiki_env \<Rightarrow> string \<Rightarrow> string \<Rightarrow> wiki_store \<Rightarrow> (wiki_error + operation_receipt) \<times> wiki_store" where
  "restore_page env now reference st = (let st0 = prepared env st in
     st_try (find_page env st0 reference) st0 (\<lambda>p.
       if \<not> is_file st0 (source_path env p)
       then (Inl (WikiError (''page-restore refused for '' @ pg_id p @
         '' because source is missing; recreate with wiki.page.create instead'')), st0)
       else revive_page env now p st0))"

end
