(* ===== verification/Wiki_Creation.thy ===== *)
theory Wiki_Creation
  imports Wiki_Operations
begin

text \<open>
  The creation of a page (\<open>create_page_with_options\<close>, \<open>create_all_pages_with_operation\<close> of
  \<open>crates/onecontext-wiki-core/src/lib.rs\<close>): its entry in the registry, its source and talk files from the templates, none
  of which replaces a file that is there, and the two events that record what the source was at birth. And the assets
  that are added beside the source of a page.
\<close>

section \<open>Templates\<close>

definition read_template :: "wiki_env \<Rightarrow> wiki_store \<Rightarrow> string \<Rightarrow> wiki_error + string" where
  "read_template env st relative = (if str_contains relative ''..'' \<or> starts_with relative ''/''
     then Inl (WikiError (''template path escapes templates/: '' @ relative))
     else ok_or (bt_get (ws_files st) (path_join (wiki_templates env) relative)) (WikiError (''read template '' @ relative)))"

definition validate_new_page_templates :: "wiki_env \<Rightarrow> wiki_store \<Rightarrow> page_create_options \<Rightarrow> wiki_error + unit" where
  "validate_new_page_templates env st o1 =
     try_then (read_template env st (or_text (po_template o1) ''pages/context-page.md'')) (\<lambda>_.
     try_then (read_template env st (or_text (po_talk_conventions_template o1) ''talk/conventions.md'')) (\<lambda>_.
     try_then (read_template env st (or_text (po_talk_curator_template o1) ''talk/curators/your-context.md'')) (\<lambda>_. Inr ())))"

definition default_value :: "toml option \<Rightarrow> string \<Rightarrow> string \<Rightarrow> string" where
  "default_value defaults key fallback = or_text (Option.bind defaults (\<lambda>d. get_opt_str d key)) fallback"

definition template_pairs :: "toml option \<Rightarrow> string \<Rightarrow> string \<Rightarrow> wiki_page \<Rightarrow> (string \<times> string) list" where
  "template_pairs defaults now today p =
     [(''page_id'', pg_id p), (''title'', pg_title p), (''slug'', pg_slug p), (''page_slug'', pg_slug p), (''route'', pg_route p),
      (''md_url'', markdown_url_for_route (pg_route p)), (''talk_route'', plain_talk_route p), (''page_type'', pg_page_type p),
      (''section'', renderer_section_for_page p), (''summary'', or_text (pg_summary p) []),
      (''operator_name'', default_value defaults ''operator_name'' ''Operator''),
      (''access_tier'', default_value defaults ''access_tier'' ''private''),
      (''asset_base'', default_value defaults ''asset_base'' ''.''), (''home_href'', default_value defaults ''home_href'' ''/''),
      (''created_date'', today), (''last_updated'', today), (''created_at'', now), (''updated_at'', now),
      (''talk_for_uri'', ''mailbox://page/'' @ pg_id p),
      (''article_path'', ''user-wiki://source/families/'' @ pg_family_group p @ ''/'' @ pg_family_id p @ ''/source/'' @ pg_slug p @ ''.md''),
      (''talk_folder'', ''user-wiki://source/families/'' @ pg_family_group p @ ''/'' @ pg_family_id p @ ''/talk/'' @ pg_slug p @ ''.talk''),
      (''concept_page_dir'', ''user-wiki://source/families/'' @ pg_family_group p)]"

definition template_vars :: "wiki_env \<Rightarrow> wiki_store \<Rightarrow> string \<Rightarrow> string \<Rightarrow> wiki_page \<Rightarrow> (string, string) btree_map" where
  "template_vars env st now today p = bt_of_list (template_pairs (case wiki_config env st of Inl _ \<Rightarrow> None
     | Inr config \<Rightarrow> toml_get config ''defaults'') now today p)"

definition check_render_contract :: "wiki_page \<Rightarrow> (string, string) btree_map \<Rightarrow> wiki_error + unit" where
  "check_render_contract p fm = (case missing_field fm of
     Some f \<Rightarrow> Inl (FrontmatterContract (pg_template p) (pg_id p) f None)
   | None \<Rightarrow> if \<not> renderer_section_is_allowed (field_of fm ''section'')
       then Inl (FrontmatterContract (pg_template p) (pg_id p) ''section'' (Some (field_of fm ''section'')))
       else if field_of fm ''access'' \<notin> set access_tiers
       then Inl (FrontmatterContract (pg_template p) (pg_id p) ''access'' (Some (field_of fm ''access'')))
       else Inr ())"

definition validate_page_source_render_contract :: "wiki_env \<Rightarrow> wiki_store \<Rightarrow> string \<Rightarrow> string \<Rightarrow> wiki_page \<Rightarrow> wiki_error + unit" where
  "validate_page_source_render_contract env st now today p = try_then (read_template env st (pg_template p)) (\<lambda>template.
     case parse_simple_frontmatter_fields (render_template template (template_vars env st now today p)) of
       Inl _ \<Rightarrow> Inl (WikiError (''template '' @ pg_template p @ '' renders invalid markdown for page '' @ pg_id p))
     | Inr fm \<Rightarrow> check_render_contract p fm)"

section \<open>The entry in the registry\<close>

definition append_page_registry_entry :: "wiki_env \<Rightarrow> string \<Rightarrow> string \<Rightarrow> string \<Rightarrow> page_create_options \<Rightarrow> wiki_store \<Rightarrow>
    (wiki_error + wiki_page) \<times> wiki_store" where
  "append_page_registry_entry env now today page_id o1 st =
     st_try (read_text_file st (config_path env)) st (\<lambda>t.
     st_try (wiki_config env st) st (\<lambda>config.
     st_try (new_page_record (we_upper env) (or_no_pages (wiki_pages env st)) config page_id o1) st (\<lambda>p.
     st_try (validate_page_source_render_contract env st now today p) st (\<lambda>_.
       (Inr p, put_below (config_path env) (registry_with t p) st)))))"

section \<open>The files of a page\<close>

definition group_toml :: "wiki_page \<Rightarrow> string" where
  "group_toml p = ''schema_version = 1'' @ [nl] @ ''title = '' @ quoted (pg_family_group_title p)"

definition family_toml :: "wiki_page \<Rightarrow> string" where
  "family_toml p = ''schema_version = 1'' @ [nl] @ ''id = '' @ quoted (pg_family_id p) @ ''title = '' @ quoted (pg_family_title p) @
     ''page_id = '' @ quoted (pg_id p) @ ''slug = '' @ quoted (pg_slug p) @ ''route = '' @ quoted (pg_route p) @
     ''type = '' @ quoted (pg_page_type p) @ ''template = '' @ quoted (pg_template p)"

definition talk_meta :: "wiki_page \<Rightarrow> string" where
  "talk_meta p = ''title: '' @ quoted (''Talk - '' @ pg_title p) @ ''talk_for: '' @ quoted (''mailbox://page/'' @ pg_id p) @
     ''page: '' @ quoted (''user-wiki://source/families/'' @ pg_family_group p @ ''/'' @ pg_family_id p @ ''/source/'' @ pg_slug p @ ''.md'') @
     ''route: '' @ quoted (pg_route p) @ ''talk_route: '' @ quoted (plain_talk_route p) @ ''status: open'' @ [nl] @ ''schema_version: 1'' @ [nl]"

definition group_dir :: "wiki_env \<Rightarrow> wiki_page \<Rightarrow> string" where
  "group_dir env p = path_join (path_join (wiki_source env) ''families'') (pg_family_group p)"

definition templates_dir :: "wiki_env \<Rightarrow> wiki_page \<Rightarrow> string" where
  "templates_dir env p = path_join (family_dir env p) ''templates''"

definition talk_templates_dir :: "wiki_env \<Rightarrow> wiki_page \<Rightarrow> string" where
  "talk_templates_dir env p = path_join (templates_dir env p) ''talk''"

definition make_page_dirs :: "wiki_env \<Rightarrow> wiki_page \<Rightarrow> wiki_store \<Rightarrow> wiki_store" where
  "make_page_dirs env p = fold create_dirs [group_dir env p, family_dir env p, path_join (family_dir env p) ''source'',
     talk_dir env p, templates_dir env p, talk_templates_dir env p]"

text \<open>A step that reads a template and writes what it renders to, at the paths where nothing is.\<close>

definition write_rendered :: "wiki_env \<Rightarrow> (string, string) btree_map \<Rightarrow> string \<Rightarrow> string list \<Rightarrow> evidence list \<times> wiki_store \<Rightarrow>
    (wiki_error + evidence list) \<times> wiki_store" where
  "write_rendered env vars template paths s = (case read_template env (snd s) template of
     Inl err \<Rightarrow> (Inl err, snd s)
   | Inr t \<Rightarrow> (case fold (\<lambda>p. write_if_missing env p (render_template t vars)) paths s of (evidence, st) \<Rightarrow> (Inr evidence, st)))"

definition write_conventions :: "wiki_env \<Rightarrow> (string, string) btree_map \<Rightarrow> wiki_page \<Rightarrow> evidence list \<times> wiki_store \<Rightarrow>
    (wiki_error + evidence list) \<times> wiki_store" where
  "write_conventions env vars p s = (case pg_talk_conventions_template p of
     None \<Rightarrow> (Inr (fst s), snd s)
   | Some template \<Rightarrow> write_rendered env vars template
       [path_join (talk_dir env p) ''_conventions.md'', path_join (talk_templates_dir env p) ''_conventions.template.md''] s)"

definition write_curator :: "wiki_env \<Rightarrow> (string, string) btree_map \<Rightarrow> wiki_page \<Rightarrow> evidence list \<times> wiki_store \<Rightarrow>
    (wiki_error + evidence list) \<times> wiki_store" where
  "write_curator env vars p s = (case pg_talk_curator_template p of
     None \<Rightarrow> (Inl (WikiError (''page '' @ pg_id p @ '' missing talk_curator_template; page-create requires an explicit curator template'')), snd s)
   | Some template \<Rightarrow> write_rendered env vars template
       [path_join (talk_dir env p) ''_curator.md'', path_join (talk_templates_dir env p) ''_curator.template.md''] s)"

definition write_talk_files :: "wiki_env \<Rightarrow> (string, string) btree_map \<Rightarrow> wiki_page \<Rightarrow> evidence list \<times> wiki_store \<Rightarrow>
    (wiki_error + evidence list) \<times> wiki_store" where
  "write_talk_files env vars p s =
     st_then (write_conventions env vars p (write_if_missing env (path_join (talk_dir env p) ''_meta.yaml'') (talk_meta p) s)) (\<lambda>evidence st.
     st_then (write_curator env vars p (evidence, st)) (\<lambda>evidence st.
       write_rendered env vars ''talk/entry.md'' [path_join (talk_templates_dir env p) ''entry.template.md''] (evidence, st)))"

definition birth_events :: "wiki_env \<Rightarrow> string \<Rightarrow> wiki_actor option \<Rightarrow> wiki_page \<Rightarrow> string \<Rightarrow> wiki_store \<Rightarrow> wiki_store" where
  "birth_events env now actor p template st = (let source_hash = sha256_file env st (source_path env p) in
     append_page_event (new_event ''template.baseline'' (pg_id p) now actor None source_hash (Some (we_sha256 env template)))
       (append_page_event (new_event ''page.created'' (pg_id p) now actor (Some (pg_origin p)) source_hash None) st))"

definition created_receipt :: "wiki_env \<Rightarrow> wiki_actor option \<Rightarrow> wiki_page \<Rightarrow> evidence list \<Rightarrow> wiki_store \<Rightarrow> operation_receipt" where
  "created_receipt env actor p evidence st = with_page_context env st
     ((new_receipt ''wiki.page.create'' (pg_id p) actor evidence)\<lparr> rc_render_required := True, rc_next_action := ''publish'' \<rparr>)"

text \<open>The page is in the registry; its files follow.\<close>

definition write_page_files :: "wiki_env \<Rightarrow> string \<Rightarrow> string \<Rightarrow> wiki_actor option \<Rightarrow> wiki_page \<Rightarrow> wiki_store \<Rightarrow>
    (wiki_error + operation_receipt) \<times> wiki_store" where
  "write_page_files env now today actor p st0 = (let vars = template_vars env st0 now today p;
       s = write_if_missing env (path_join (family_dir env p) ''family.toml'') (family_toml p)
         (write_if_missing env (path_join (group_dir env p) ''group.toml'') (group_toml p) ([], make_page_dirs env p st0));
       preexisted = wiki_path_exists (snd s) (source_path env p)
     in st_try (read_template env (snd s) (pg_template p)) (snd s) (\<lambda>template.
        st_try (if preexisted then Inr () else validate_page_source_render_contract env (snd s) now today p) (snd s) (\<lambda>_.
        st_then (write_talk_files env vars p
          (write_if_missing env (path_join (templates_dir env p) ''page.template.md'') (render_template template vars)
            (write_if_missing env (source_path env p) (render_template template vars) s))) (\<lambda>evidence st.
          let st' = (if preexisted then st else birth_events env now actor p template st)
          in (Inr (created_receipt env actor p evidence st'), st')))))"

text \<open>The page that is created: one that the registry has, or a new one.\<close>

definition page_to_create :: "wiki_env \<Rightarrow> string \<Rightarrow> string \<Rightarrow> string \<Rightarrow> page_create_options \<Rightarrow> wiki_store \<Rightarrow>
    (wiki_error + wiki_page) \<times> wiki_store" where
  "page_to_create env now today page_id o1 st = (case find_page env st page_id of
     Inr p \<Rightarrow> st_try (page_status env st (pg_id p)) st (\<lambda>status.
       if closed_state (st_state status)
       then (Inl (WikiError (''page-create refused for '' @ st_state status @ '' page '' @ pg_id p @
         ''; use a new page id or an explicit restore operation'')), st)
       else st_try (validate_existing_page_create_options p o1) st (\<lambda>_. (Inr p, st)))
   | Inl err \<Rightarrow> st_try (site_page_reference env st page_id) st (\<lambda>r.
       if r \<noteq> None then (Inl err, st)
       else st_try (validate_new_page_templates env st o1) st (\<lambda>_. append_page_registry_entry env now today page_id o1 st)))"

definition create_page_with_options :: "wiki_env \<Rightarrow> string \<Rightarrow> string \<Rightarrow> string \<Rightarrow> page_create_options \<Rightarrow> wiki_actor option \<Rightarrow>
    wiki_store \<Rightarrow> (wiki_error + operation_receipt) \<times> wiki_store" where
  "create_page_with_options env now today page_id o1 actor st =
     st_then (page_to_create env now today page_id o1 (prepared env st)) (\<lambda>p st1. write_page_files env now today actor p st1)"

definition create_page :: "wiki_env \<Rightarrow> string \<Rightarrow> string \<Rightarrow> string \<Rightarrow> wiki_actor option \<Rightarrow> wiki_store \<Rightarrow>
    (wiki_error + operation_receipt) \<times> wiki_store" where
  "create_page env now today page_id actor st = create_page_with_options env now today page_id default_page_options actor st"

text \<open>All enabled pages, as the registry had them at the beginning.\<close>

fun create_each :: "wiki_env \<Rightarrow> string \<Rightarrow> string \<Rightarrow> wiki_page list \<Rightarrow> wiki_store \<Rightarrow>
    (wiki_error + operation_receipt list) \<times> wiki_store" where
  "create_each env now today [] st = (Inr [], st)"
| "create_each env now today (p # ps) st = (if \<not> pg_enabled p then create_each env now today ps st
     else st_then (create_page env now today (pg_id p) None st) (\<lambda>receipt st1.
       st_then (create_each env now today ps st1) (\<lambda>receipts st2. (Inr (receipt # receipts), st2))))"

definition create_all_pages :: "wiki_env \<Rightarrow> string \<Rightarrow> string \<Rightarrow> wiki_store \<Rightarrow> (wiki_error + operation_receipt list) \<times> wiki_store" where
  "create_all_pages env now today st = (let st0 = ensure_runtime_dirs env st in
     st_try (wiki_pages env st0) st0 (\<lambda>pages. create_each env now today pages st0))"

section \<open>Assets\<close>

definition some_trimmed :: "string option \<Rightarrow> string option" where
  "some_trimmed v = (case v of None \<Rightarrow> None | Some s \<Rightarrow> if str_trim s = [] then None else Some (str_trim s))"

definition requested_asset_name :: "string \<Rightarrow> string option \<Rightarrow> wiki_error + string" where
  "requested_asset_name input filename = ok_or (or_else (case filename of None \<Rightarrow> None | Some f \<Rightarrow> if str_trim f = [] then None else Some f)
     (path_file_name input)) (WikiError (''asset filename missing for '' @ input))"

definition names_in_dir :: "wiki_store \<Rightarrow> string \<Rightarrow> string list" where
  "names_in_dir st dir = List.map_filter (\<lambda>p. if path_parent p = dir then path_file_name p else None) (bt_keys (ws_files st))"

definition asset_checks :: "string \<Rightarrow> string \<Rightarrow> string option \<Rightarrow> string option \<Rightarrow> wiki_error + unit" where
  "asset_checks media_type purpose caption alt_text =
     (if starts_with media_type ''image/'' \<and> purpose \<noteq> ''decorative'' \<and> alt_text = None
      then Inl (WikiError ''image asset requires --alt-text unless --purpose decorative is used'')
      else if \<not> starts_with media_type ''image/'' \<and> caption = None
      then Inl (WikiError ''file asset requires --caption so the reader link has a label'')
      else Inr ())"

text \<open>Where the asset goes: the name is free in the directory of the page.\<close>

definition asset_target :: "wiki_env \<Rightarrow> wiki_store \<Rightarrow> string \<Rightarrow> string \<Rightarrow> string option \<Rightarrow> string option \<Rightarrow> string option \<Rightarrow>
    string option \<Rightarrow> wiki_error + wiki_page \<times> string" where
  "asset_target env st reference input filename purpose caption alt_text =
     try_then (find_page env st reference) (\<lambda>p.
     try_then (page_status env st reference) (\<lambda>status.
     if st_state status = ''source_missing''
     then Inl (WikiError (''page asset target source is missing for '' @ pg_id p @ ''; create or publish the page before adding assets''))
     else if closed_state (st_state status)
     then Inl (WikiError (''page asset target '' @ pg_id p @ '' is '' @ st_state status @ ''; restore the page before adding assets''))
     else if \<not> is_file st input then Inl (WikiError (''asset file not found: '' @ input))
     else try_then (requested_asset_name input filename) (\<lambda>name.
       try_then (safe_attachment_filename name) (\<lambda>safe.
       case unique_attachment_filename safe (if is_dir st (page_asset_dir env p) then names_in_dir st (page_asset_dir env p) else []) of
         None \<Rightarrow> Inl (WikiError ''the search for a name did not end'')
       | Some (safe_name, _) \<Rightarrow> try_then (asset_checks (infer_media_type safe_name)
           (or_text (some_trimmed purpose) (if starts_with (infer_media_type safe_name) ''image/'' then ''inline_image'' else ''download''))
           (some_trimmed caption) (some_trimmed alt_text)) (\<lambda>_. Inr (p, safe_name))))))"

definition add_page_asset :: "wiki_env \<Rightarrow> string \<Rightarrow> string \<Rightarrow> string \<Rightarrow> string option \<Rightarrow> string option \<Rightarrow> string option \<Rightarrow> string option \<Rightarrow>
    wiki_store \<Rightarrow> (wiki_error + string) \<times> wiki_store" where
  "add_page_asset env now reference input filename purpose caption alt_text st = (let st0 = prepared env st in
     st_try (asset_target env st0 reference input filename purpose caption alt_text) st0 (\<lambda>(p, safe_name).
       let destination = path_join (page_asset_dir env p) safe_name;
           st1 = put_file destination (file_content st0 input) (create_dirs (page_asset_dir env p) st0)
       in (Inr destination, append_page_event (new_event ''page.asset_added'' (pg_id p) now None (Some safe_name)
            (sha256_file env st1 destination) None) st1)))"

end
