(* ===== verification/Wiki_Properties.thy ===== *)
theory Wiki_Properties
  imports Wiki_Creation
begin

text \<open>
  What the operations on pages guarantee: the lines of the operator survive every sequence of them, an edit made against
  an old source is refused, what an edit changes and records, and where the guards of an operation look at another page
  than the operation changes.
\<close>

lemma bt_get_remove: "bt_get (bt_remove k m) j = (if j = k then None else bt_get m j)"
  by (induction m) (auto simp: bt_get_def bt_remove_def)

lemma bt_wf_remove: "bt_wf m \<Longrightarrow> bt_wf (bt_remove k m)"
proof -
  assume "bt_wf m"
  then have "sorted_wrt (<) (map fst (filter (\<lambda>e. fst e \<noteq> k) m))" unfolding bt_wf_def sorted_wrt_map by (rule sorted_wrt_filter)
  then show ?thesis by (simp add: bt_wf_def bt_remove_def)
qed

section \<open>Files that an operation leaves alone\<close>

definition holds :: "string \<Rightarrow> string \<Rightarrow> wiki_store \<Rightarrow> bool" where
  "holds x c st \<longleftrightarrow> bt_wf (ws_files st) \<and> bt_get (ws_files st) x = Some c"

named_theorems holds_intros \<open>steps that keep the content of a file\<close>

lemma holds_files: "ws_files st' = ws_files st \<Longrightarrow> holds x c st \<Longrightarrow> holds x c st'"
  by (simp add: holds_def)

lemma holds_create_dirs [holds_intros]: "holds x c st \<Longrightarrow> holds x c (create_dirs p st)"
  by (rule holds_files) (simp_all add: create_dirs_def)

lemma holds_event [holds_intros]: "holds x c st \<Longrightarrow> holds x c (append_page_event event st)"
  by (rule holds_files) (simp_all add: append_page_event_def)

lemma holds_put: "p \<noteq> x \<Longrightarrow> holds x c st \<Longrightarrow> holds x c (put_file p content st)"
  by (simp add: holds_def put_file_def)

lemma holds_put_below: "p \<noteq> x \<Longrightarrow> holds x c st \<Longrightarrow> holds x c (put_below p content st)"
  by (simp add: put_below_def holds_put holds_create_dirs)

lemma holds_remove: "p \<noteq> x \<Longrightarrow> holds x c st \<Longrightarrow> holds x c (remove_wiki_file p st)"
  by (simp add: holds_def remove_wiki_file_def bt_get_remove bt_wf_remove)

lemma holds_is_file: "holds x c st \<Longrightarrow> is_file st x"
  by (simp add: holds_def is_file_def bt_contains_def)

lemma holds_write_if_missing [holds_intros]: "holds x c (snd s) \<Longrightarrow> holds x c (snd (write_if_missing env p content s))"
  by (auto simp: write_if_missing_def wiki_path_exists_def dest: holds_is_file intro!: holds_put_below)

lemma holds_prepared [holds_intros]: "holds x c st \<Longrightarrow> holds x c (prepared env st)"
proof -
  assume "holds x c st"
  then have "holds x c (create_dirs (path_parent (lock_path env)) (ensure_runtime_dirs env st))"
    by (simp add: ensure_runtime_dirs_def holds_intros)
  then show ?thesis by (auto simp: prepared_def lock_lifecycle_writes_def Let_def dest: holds_is_file intro!: holds_put)
qed

lemma holds_st_try: "(\<And>a. r = Inr a \<Longrightarrow> holds x c (snd (k a))) \<Longrightarrow> holds x c s \<Longrightarrow> holds x c (snd (st_try r s k))"
  by (cases r) simp_all

lemma holds_st_then: "holds x c (snd m) \<Longrightarrow> (\<And>a s. fst m = Inr a \<Longrightarrow> holds x c s \<Longrightarrow> holds x c (snd (k a s))) \<Longrightarrow>
    holds x c (snd (st_then m k))"
  by (cases m) (auto simp: st_then_def split: sum.splits)

text \<open>The registry, tombstones and sources are told apart by the ends of their paths.\<close>

lemma path_join_end: "ends_with b e \<Longrightarrow> b \<noteq> [] \<Longrightarrow> ends_with (path_join a b) e"
  by (auto simp: path_join_def ends_with_iff)

lemma config_path_end: "ends_with (config_path env) ''.toml''"
  by (auto simp: config_path_def ends_with_iff intro!: path_join_end) (metis append_Cons append_Nil ends_with_iff path_join_end list.distinct(1))

lemma source_path_end: "ends_with (source_path env p) ''.md''"
  unfolding source_path_def by (intro path_join_end) (auto simp: ends_with_iff)

lemma tombstone_path_end: "ends_with (tombstone_path env p) ''.toml''"
proof -
  have "ends_with (a @ b @ ''.'' @ ''tombstone.toml'') ''.toml''" for a b
    by (auto simp: ends_with_iff intro!: exI [of _ "a @ b @ ''.tombstone''"])
  then show ?thesis by (simp add: tombstone_path_def with_extension_def Let_def)
qed

lemma ends_differ: "ends_with p ''.toml'' \<Longrightarrow> ends_with q ''.md'' \<Longrightarrow> p \<noteq> q"
  by (auto simp: ends_with_iff)

lemma source_is_not_registry: "ends_with x ''.md'' \<Longrightarrow> config_path env \<noteq> x" "ends_with x ''.md'' \<Longrightarrow> tombstone_path env p \<noteq> x"
  using ends_differ config_path_end tombstone_path_end by blast+

section \<open>Every operation but an edit leaves the sources alone\<close>

lemma holds_put_config: "ends_with x ''.md'' \<Longrightarrow> holds x c st \<Longrightarrow> holds x c (put_below (config_path env) t st)"
  by (simp add: holds_put_below source_is_not_registry)

lemma holds_replace_registry: "replace_registry env original new_text cs ss st = (b, ev, st') \<Longrightarrow> ends_with x ''.md'' \<Longrightarrow>
    holds x c st \<Longrightarrow> holds x c st'"
  by (auto simp: replace_registry_def Let_def holds_put_config split: if_splits)

lemma holds_retire: "retire_page_from_registry env page_id st = Inr (b, ev, st') \<Longrightarrow> ends_with x ''.md'' \<Longrightarrow>
    holds x c st \<Longrightarrow> holds x c st'"
  by (auto simp: retire_page_from_registry_def try_then_Inr dest!: holds_replace_registry)

lemma holds_restore: "restore_page_to_registry env p st = Inr (b, ev, st') \<Longrightarrow> ends_with x ''.md'' \<Longrightarrow>
    holds x c st \<Longrightarrow> holds x c st'"
  by (auto simp: restore_page_to_registry_def try_then_Inr dest!: holds_replace_registry)

lemma holds_tombstone_page:
  assumes "ends_with x ''.md''" "holds x c st"
  shows "holds x c (snd (tombstone_page env now p impact st))"
proof -
  obtain evidence st1 where w: "write_if_missing env (tombstone_path env p)
      (tombstone_content p now (sha256_file env st (source_path env p))) ([], st) = (evidence, st1)"
    by fastforce
  with holds_write_if_missing [of x c "([], st)"] assms have "holds x c st1" by (metis snd_conv)
  then show ?thesis
    by (auto simp: tombstone_page_def Let_def w split: sum.splits dest: holds_retire [OF _ assms(1)] intro: holds_event)
qed

lemma holds_delete_page: "ends_with x ''.md'' \<Longrightarrow> holds x c st \<Longrightarrow> holds x c (snd (delete_page env now reference mode st))"
  by (auto simp: delete_page_def Let_def intro!: holds_st_try holds_tombstone_page holds_prepared)

lemma holds_revive_page:
  assumes "ends_with x ''.md''" "holds x c st"
  shows "holds x c (snd (revive_page env now p st))"
proof -
  have *: "holds x c (if is_file st (tombstone_path env p) then remove_wiki_file (tombstone_path env p) st else st)"
    using assms by (simp add: holds_remove source_is_not_registry)
  show ?thesis
  proof (cases "restore_page_to_registry env p
      (if is_file st (tombstone_path env p) then remove_wiki_file (tombstone_path env p) st else st)")
    case (Inl err)
    with * show ?thesis by (simp add: revive_page_def Let_def)
  next
    case (Inr r)
    obtain b ev st2 where r: "r = (b, ev, st2)" by (cases r) auto
    with Inr holds_restore assms(1) * have "holds x c st2" by blast
    with Inr r show ?thesis by (simp add: revive_page_def Let_def holds_event)
  qed
qed

lemma holds_restore_page: "ends_with x ''.md'' \<Longrightarrow> holds x c st \<Longrightarrow> holds x c (snd (restore_page env now reference st))"
  by (auto simp: restore_page_def Let_def intro!: holds_st_try holds_revive_page holds_prepared)

lemma holds_append_entry: "ends_with x ''.md'' \<Longrightarrow> holds x c st \<Longrightarrow>
    holds x c (snd (append_page_registry_entry env now today page_id o1 st))"
  by (auto simp: append_page_registry_entry_def intro!: holds_st_try holds_put_config)

lemma holds_page_to_create: "ends_with x ''.md'' \<Longrightarrow> holds x c st \<Longrightarrow>
    holds x c (snd (page_to_create env now today page_id o1 st))"
  by (auto simp: page_to_create_def split: sum.splits intro!: holds_st_try holds_append_entry)

lemma holds_fold_write: "holds x c (snd s) \<Longrightarrow> holds x c (snd (fold (\<lambda>p. write_if_missing env p t) paths s))"
  by (induction paths arbitrary: s) (simp_all add: holds_write_if_missing)

lemma holds_write_rendered: "holds x c (snd s) \<Longrightarrow> holds x c (snd (write_rendered env vars template paths s))"
  using holds_fold_write [of x c s] by (auto simp: write_rendered_def split: sum.splits prod.splits) (metis snd_conv)

lemma holds_write_talk: "holds x c (snd s) \<Longrightarrow> holds x c (snd (write_talk_files env vars p s))"
  unfolding write_talk_files_def write_conventions_def write_curator_def
  by (intro holds_st_then) (auto split: option.splits intro!: holds_write_rendered holds_write_if_missing holds_st_then)

lemma holds_make_dirs: "holds x c st \<Longrightarrow> holds x c (make_page_dirs env p st)"
  by (simp add: make_page_dirs_def holds_create_dirs)

lemma holds_birth: "holds x c st \<Longrightarrow> holds x c (birth_events env now actor p template st)"
  by (simp add: birth_events_def Let_def holds_event)

lemma holds_page_start: "holds x c st \<Longrightarrow> holds x c (snd (write_if_missing env a b (write_if_missing env d e ([], make_page_dirs env p st))))"
  by (intro holds_write_if_missing) (simp add: holds_make_dirs)

lemma holds_write_page_files: "holds x c st \<Longrightarrow> holds x c (snd (write_page_files env now today actor p st))"
  unfolding write_page_files_def Let_def
  by (intro holds_st_try holds_st_then holds_page_start holds_write_talk holds_write_if_missing) (simp_all add: holds_birth)

lemma holds_create: "ends_with x ''.md'' \<Longrightarrow> holds x c st \<Longrightarrow>
    holds x c (snd (create_page_with_options env now today page_id o1 actor st))"
  unfolding create_page_with_options_def
  by (intro holds_st_then holds_page_to_create holds_write_page_files holds_prepared)

lemma holds_create_each: "ends_with x ''.md'' \<Longrightarrow> holds x c st \<Longrightarrow> holds x c (snd (create_each env now today ps st))"
proof (induction ps arbitrary: st)
  case (Cons p ps)
  have "holds x c (snd (st_then (create_page env now today (pg_id p) None st) (\<lambda>receipt st1.
       st_then (create_each env now today ps st1) (\<lambda>receipts st2. (Inr (receipt # receipts), st2)))))"
    unfolding create_page_def by (rule holds_st_then, rule holds_create, rule Cons.prems, rule Cons.prems,
      rule holds_st_then, rule Cons.IH, rule Cons.prems) simp_all
  then show ?case using Cons.IH [OF Cons.prems] by simp
qed simp

lemma holds_create_all: "ends_with x ''.md'' \<Longrightarrow> holds x c st \<Longrightarrow> holds x c (snd (create_all_pages env now today st))"
  by (auto simp: create_all_pages_def Let_def ensure_runtime_dirs_def intro!: holds_st_try holds_create_each holds_create_dirs)

lemma holds_add_asset:
  assumes "holds x c st" "\<And>q n. asset_target env (prepared env st) reference input filename purpose caption alt_text = Inr (q, n) \<Longrightarrow>
    path_join (page_asset_dir env q) n \<noteq> x"
  shows "holds x c (snd (add_page_asset env now reference input filename purpose caption alt_text st))"
  using assms by (auto simp: add_page_asset_def Let_def intro!: holds_st_try holds_event holds_put holds_create_dirs holds_prepared)

section \<open>Commands on the wiki\<close>

datatype wiki_command = EditPage string page_edit "string option" wiki_actor | DeletePage string string | RestorePage string
  | CreatePage string page_create_options "wiki_actor option" | CreateAllPages

text \<open>The store after a command, at its time and on its day, whether it succeeded or not.\<close>

fun wiki_command_step :: "wiki_env \<Rightarrow> string \<times> string \<times> wiki_command \<Rightarrow> wiki_store \<Rightarrow> wiki_store" where
  "wiki_command_step env (now, today, EditPage reference e expected actor) st = snd (edit_page env now reference e expected actor st)"
| "wiki_command_step env (now, today, DeletePage reference mode) st = snd (delete_page env now reference mode st)"
| "wiki_command_step env (now, today, RestorePage reference) st = snd (restore_page env now reference st)"
| "wiki_command_step env (now, today, CreatePage page_id o1 actor) st = snd (create_page_with_options env now today page_id o1 actor st)"
| "wiki_command_step env (now, today, CreateAllPages) st = snd (create_all_pages env now today st)"

definition run_wiki_commands :: "wiki_env \<Rightarrow> (string \<times> string \<times> wiki_command) list \<Rightarrow> wiki_store \<Rightarrow> wiki_store" where
  "run_wiki_commands env = fold (wiki_command_step env)"

text \<open>Edits by agents whose patches keep the ends of lines.\<close>

fun agent_command :: "wiki_command \<Rightarrow> bool" where
  "agent_command (EditPage reference e expected actor) \<longleftrightarrow> \<not> is_operator actor \<and> keeps_line_end e"
| "agent_command _ \<longleftrightarrow> True"

definition keeps_source :: "string \<Rightarrow> string \<Rightarrow> string list \<Rightarrow> wiki_store \<Rightarrow> bool" where
  "keeps_source x f ls st \<longleftrightarrow> (\<exists>body. holds x (f @ body) st \<and> split_markdown_frontmatter (f @ body) = Inr (f, body) \<and>
     subseq ls (protected_lines body))"

lemma edit_decision_parts:
  assumes "edit_decision env reference e expected actor st = Inr (p, original, next_content)"
  shows "find_page env st reference = Inr p" "bt_get (ws_files st) (source_path env p) = Some original"
    "expected = None \<or> expected = Some (we_sha256 env original)" "edit_text (pg_id p) actor e original = Inr next_content"
  using assms by (auto simp: edit_decision_def try_then_Inr read_text_file_def ok_or_def check_expected_def
      split: option.splits if_splits)

lemma edit_keeps_source:
  assumes "keeps_source x f ls st" "\<not> is_operator actor" "keeps_line_end e" "last f = nl"
  shows "keeps_source x f ls (snd (edit_page env now reference e expected actor st))"
proof (cases "edit_check e")
  case (Inr u)
  let ?st = "prepared env st"
  from assms(1) obtain body where body: "holds x (f @ body) ?st" "split_markdown_frontmatter (f @ body) = Inr (f, body)"
    "subseq ls (protected_lines body)" by (auto simp: keeps_source_def intro: holds_prepared)
  show ?thesis
  proof (cases "edit_decision env reference e expected actor ?st")
    case (Inl err)
    with Inr body show ?thesis by (auto simp: edit_page_def keeps_source_def)
  next
    case decision: (Inr r)
    obtain p original next_content where r: "r = (p, original, next_content)" by (cases r) auto
    note parts = edit_decision_parts [OF decision [unfolded r]]
    have st': "snd (edit_page env now reference e expected actor st) =
        snd (write_page_source_update env now e actor p original next_content ?st)"
      by (simp add: edit_page_def Inr decision r split: prod.splits)
    show ?thesis
    proof (cases "original = next_content")
      case True
      with body show ?thesis by (auto simp: st' write_page_source_update_def Let_def keeps_source_def)
    next
      case False
      then have written: "ws_files (snd (edit_page env now reference e expected actor st)) =
          bt_insert (source_path env p) next_content (ws_files ?st)"
        by (simp add: st' write_page_source_update_def Let_def append_page_event_def put_file_def)
      show ?thesis
      proof (cases "source_path env p = x")
        case False
        with body written show ?thesis by (auto simp: keeps_source_def holds_def)
      next
        case True
        with parts(2) body(1) have "original = f @ body" by (simp add: holds_def)
        with edit_keeps [OF body(2) assms(2,3)] parts(4) obtain body' where body': "next_content = f @ body'"
          "subseq (protected_lines body) (protected_lines body')" by blast
        moreover have "split_markdown_frontmatter (f @ body') = Inr (f, body')"
          by (rule split_frontmatter_body [OF body(2) assms(4)])
        ultimately show ?thesis using body True written
          by (auto simp: keeps_source_def holds_def intro: subseq_order.order_trans)
      qed
    qed
  qed
qed (use assms in \<open>simp add: edit_page_def\<close>)

lemma command_keeps_source:
  assumes "keeps_source x f ls st" "ends_with x ''.md''" "agent_command cmd" "last f = nl"
  shows "keeps_source x f ls (wiki_command_step env (now, today, cmd) st)"
  using assms by (cases cmd)
    (auto simp: edit_keeps_source, auto simp: keeps_source_def intro: holds_delete_page holds_restore_page holds_create holds_create_all)


text \<open>An edit of a tiny wiki.\<close>

definition tiny_page :: "string \<Rightarrow> string \<Rightarrow> bool \<Rightarrow> toml" where
  "tiny_page page_id route enabled = TomlTable [(''id'', TomlString page_id), (''enabled'', TomlBoolean enabled), (''title'', TomlString page_id),
     (''slug'', TomlString page_id), (''route'', TomlString route), (''family_id'', TomlString page_id), (''template'', TomlString ''t'')]"

definition tiny_env :: "toml list \<Rightarrow> wiki_env" where
  "tiny_env pages = \<lparr> we_root = ''/w'', we_toml = (\<lambda>t. Some (TomlTable [(''pages'', TomlArray pages)])), we_json = (\<lambda>t. None),
     we_fingerprints = (\<lambda>t. None), we_record_json = pg_id, we_sha256 = (\<lambda>s. s), we_upper = (\<lambda>c. c) \<rparr>"

definition tiny_source :: string where
  "tiny_source = ''/w/user-wiki/source/families/pages/b/source/b.md''"

definition tiny_store :: wiki_store where
  "tiny_store = \<lparr> ws_files = bt_of_list [(''/w/user-wiki/wiki.toml'', ''pages''), (tiny_source, sample_head @ sample_body)],
     ws_dirs = [], ws_ledger = [] \<rparr>"


section \<open>When an edit is made\<close>

lemma closed_page_state: "closed_state (page_state env st p stale) \<longleftrightarrow> wiki_path_exists st (tombstone_path env p) \<or> \<not> pg_enabled p"
  by (simp add: closed_state_def page_state_def)

lemma status_of_record [simp]: "st_id (page_status_from_record env st p stale) = pg_id p"
    "st_route (page_status_from_record env st p stale) = pg_route p"
    "st_state (page_status_from_record env st p stale) = page_state env st p stale"
  by (simp_all add: page_status_from_record_def Let_def)

lemma find_status_page:
  assumes "List.find (\<lambda>p. matches_reference reference (pg_id p) (pg_route p)) pages = Some q"
  shows "List.find (\<lambda>s. matches_reference reference (st_id s) (st_route s))
    (map (\<lambda>p. page_status_from_record env st p (page_is_stale env st p)) pages @ others) =
    Some (page_status_from_record env st q (page_is_stale env st q))"
  using assms by (induction pages) (simp_all split: if_splits)

lemma page_status_first:
  assumes "wiki_pages env st = Inr pages" "wiki_site_pages env st = Inr site_pages"
    and "List.find (\<lambda>p. matches_reference reference (pg_id p) (pg_route p)) pages = Some q"
  shows "page_status env st reference = Inr (page_status_from_record env st q (page_is_stale env st q))"
  by (simp add: page_status_def inventory_def assms find_status_page [OF assms(3)] ok_or_def)

lemma editable_iff:
  assumes "wiki_pages env st = Inr pages" "wiki_site_pages env st = Inr site_pages"
    and "List.find (\<lambda>q. matches_reference (pg_id p) (pg_id q) (pg_route q)) pages = Some q"
  shows "ensure_page_body_editable env st p = Inr u \<longleftrightarrow>
    pg_enabled q \<and> \<not> wiki_path_exists st (tombstone_path env q) \<and> is_file st (source_path env p)"
  by (auto simp: ensure_page_body_editable_def page_status_first [OF assms] closed_page_state ensure_that_def)

lemma edit_page_result:
  "edit_page env now reference e expected actor st = (Inr r, st1) \<longleftrightarrow> (\<exists>p original next_content. edit_check e = Inr () \<and>
     edit_decision env reference e expected actor (prepared env st) = Inr (p, original, next_content) \<and>
     write_page_source_update env now e actor p original next_content (prepared env st) = (r, st1))"
  by (auto simp: edit_page_def split: sum.splits prod.splits)
    (metis map_prod_simp old.prod.exhaust prod.inject sum.inject(2))

lemma edit_decision_iff:
  assumes "wiki_pages env st = Inr pages" "wiki_site_pages env st = Inr site_pages"
    and "List.find (\<lambda>p. matches_reference reference (pg_id p) (pg_route p)) pages = Some p"
    and "List.find (\<lambda>q. matches_reference (pg_id p) (pg_id q) (pg_route q)) pages = Some q"
  shows "edit_decision env reference e expected actor st = Inr (p', original, s) \<longleftrightarrow>
    p' = p \<and> pg_enabled q \<and> \<not> wiki_path_exists st (tombstone_path env q) \<and> bt_get (ws_files st) (source_path env p) = Some original \<and>
    expected \<in> {None, Some (we_sha256 env original)} \<and> edit_text (pg_id p) actor e original = Inr s"
proof -
  have found: "find_page env st reference = Inr p" by (simp add: find_page_def assms(1,3) ok_or_def)
  show ?thesis
    by (auto simp: edit_decision_def found try_then_Inr editable_iff [OF assms(1,2,4)] read_text_file_def ok_or_def
      check_expected_def is_file_def bt_contains_def split: option.splits if_splits)
qed

text \<open>C15. An edit is made exactly when its arguments are not empty, the page it names is found, the page that is found by the
  identifier of that page is enabled and has no tombstone, the source is there with the expected hash if one is given, and
  the edit of the text is possible. The page whose state is checked is the first one with the identifier or with the route
  made of it, so it may be another page than the one whose source is changed.\<close>

theorem edit_made_iff:
  assumes "st0 = prepared env st" "wiki_pages env st0 = Inr pages" "wiki_site_pages env st0 = Inr site_pages"
    and "List.find (\<lambda>p. matches_reference reference (pg_id p) (pg_route p)) pages = Some p"
    and "List.find (\<lambda>q. matches_reference (pg_id p) (pg_id q) (pg_route q)) pages = Some q"
  shows "(\<exists>r. fst (edit_page env now reference e expected actor st) = Inr r) \<longleftrightarrow>
    edit_check e = Inr () \<and> pg_enabled q \<and> \<not> wiki_path_exists st0 (tombstone_path env q) \<and>
    (\<exists>original s. bt_get (ws_files st0) (source_path env p) = Some original \<and>
       expected \<in> {None, Some (we_sha256 env original)} \<and> edit_text (pg_id p) actor e original = Inr s)"
proof -
  have "(\<exists>r. fst (edit_page env now reference e expected actor st) = Inr r) \<longleftrightarrow>
      edit_check e = Inr () \<and> (\<exists>p' original s. edit_decision env reference e expected actor st0 = Inr (p', original, s))"
    by (auto simp: edit_page_def assms(1) split: sum.splits prod.splits)
  then show ?thesis by (auto simp: edit_decision_iff [OF assms(2-5)])
qed

text \<open>The page \<open>b\<close> is disabled, and its body is written, because the route of the page \<open>a\<close> is \<open>/b\<close>.\<close>

definition wrong_env :: wiki_env where
  "wrong_env = tiny_env [tiny_page ''a'' ''/b'' True, tiny_page ''b'' ''/c'' False]"

definition wrong_pages :: "wiki_page list" where
  "wrong_pages = or_no_pages (wiki_pages wrong_env (prepared wrong_env tiny_store))"

lemma wrong_found:
  "wiki_pages wrong_env (prepared wrong_env tiny_store) = Inr wrong_pages"
  "wiki_site_pages wrong_env (prepared wrong_env tiny_store) = Inr []"
  "List.find (\<lambda>p. matches_reference ''/c'' (pg_id p) (pg_route p)) wrong_pages = Some (wrong_pages ! 1)"
  "List.find (\<lambda>q. matches_reference (pg_id (wrong_pages ! 1)) (pg_id q) (pg_route q)) wrong_pages = Some (wrong_pages ! 0)"
  by code_simp+

lemma wrong_facts:
  "pg_enabled (wrong_pages ! 0)" "\<not> wiki_path_exists (prepared wrong_env tiny_store) (tombstone_path wrong_env (wrong_pages ! 0))"
  "bt_get (ws_files (prepared wrong_env tiny_store)) (source_path wrong_env (wrong_pages ! 1)) = Some (sample_head @ sample_body)"
  "edit_text (pg_id (wrong_pages ! 1)) operator_actor (WriteBody ''mine'') (sample_head @ sample_body) = Inr (sample_head @ ''mine'')"
  by code_simp+

lemma edit_made_iff_witness:
  "(\<exists>r. fst (edit_page wrong_env ''t'' ''/c'' (WriteBody ''mine'') None operator_actor tiny_store) = Inr r) \<and>
   map pg_id wrong_pages = [''a'', ''b''] \<and> map pg_route wrong_pages = [''/b'', ''/c''] \<and> map pg_enabled wrong_pages = [True, False]"
proof
  show "\<exists>r. fst (edit_page wrong_env ''t'' ''/c'' (WriteBody ''mine'') None operator_actor tiny_store) = Inr r"
    unfolding edit_made_iff [OF refl wrong_found] using wrong_facts by (auto simp: edit_check.simps)
  show "map pg_id wrong_pages = [''a'', ''b''] \<and> map pg_route wrong_pages = [''/b'', ''/c''] \<and> map pg_enabled wrong_pages = [True, False]"
    by code_simp
qed

section \<open>Edits against an old source\<close>

lemma prepared_files: "ws_files (prepared env st) = (if is_file st (lock_path env) then ws_files st else bt_insert (lock_path env) [] (ws_files st))"
  by (simp add: prepared_def lock_lifecycle_writes_def ensure_runtime_dirs_def create_dirs_def put_file_def is_file_def Let_def)

lemma prepared_ledger [simp]: "ws_ledger (prepared env st) = ws_ledger st"
  by (simp add: prepared_def lock_lifecycle_writes_def ensure_runtime_dirs_def create_dirs_def put_file_def Let_def)

lemma update_store:
  assumes "write_page_source_update env now e actor p original next_content st = (r, st1)"
  shows "rc_before_source_sha256 r = Some (we_sha256 env original)"
    and "original \<noteq> next_content \<Longrightarrow> rc_after_source_sha256 r = Some (we_sha256 env next_content)"
    and "original = next_content \<Longrightarrow> st1 = st \<and> rc_after_source_sha256 r = rc_before_source_sha256 r"
    and "original \<noteq> next_content \<Longrightarrow> ws_files st1 = bt_insert (source_path env p) next_content (ws_files st) \<and>
      ws_ledger st1 = ws_ledger st @ [new_event (edit_event e) (pg_id p) now (Some actor) (Some ''body_edit'')
        (Some (we_sha256 env next_content)) None]"
  using assms by (auto simp: write_page_source_update_def Let_def with_page_context_def new_receipt_def put_file_def
      append_page_event_def split: if_splits)

text \<open>C14. What a successful edit does: if it changes the source, the file has the new text, every other file is as it was but for
  the lock, and the ledger has one more event with the actor and the hash of what is now in the file; if it does not, nothing is
  written and nothing recorded. The receipt has the two hashes.\<close>

theorem edit_writes_and_records:
  assumes "edit_page env now reference e expected actor st = (Inr r, st1)" "bt_wf (ws_files st)"
  shows "\<exists>p original next_content. find_page env (prepared env st) reference = Inr p \<and>
    bt_get (ws_files (prepared env st)) (source_path env p) = Some original \<and> edit_text (pg_id p) actor e original = Inr next_content \<and>
    bt_get (ws_files st1) (source_path env p) = Some next_content \<and>
    (\<forall>x. x \<noteq> source_path env p \<longrightarrow> x \<noteq> lock_path env \<longrightarrow> bt_get (ws_files st1) x = bt_get (ws_files st) x) \<and>
    rc_before_source_sha256 r = Some (we_sha256 env original) \<and> rc_after_source_sha256 r = sha256_file env st1 (source_path env p) \<and>
    ws_ledger st1 = ws_ledger st @ (if original = next_content then [] else
      [new_event (edit_event e) (pg_id p) now (Some actor) (Some ''body_edit'') (sha256_file env st1 (source_path env p)) None])"
proof -
  from assms(1) obtain p original next_content where
    d: "edit_decision env reference e expected actor (prepared env st) = Inr (p, original, next_content)" and
    w: "write_page_source_update env now e actor p original next_content (prepared env st) = (r, st1)"
    unfolding edit_page_result by blast
  note parts = edit_decision_parts [OF d] and stored = update_store [OF w]
  have wf: "bt_wf (ws_files (prepared env st))" using assms(2) by (simp add: prepared_files)
  have others: "x \<noteq> lock_path env \<Longrightarrow> bt_get (ws_files (prepared env st)) x = bt_get (ws_files st) x" for x
    using assms(2) by (simp add: prepared_files)
  show ?thesis
  proof (cases "original = next_content")
    case True
    with stored(1,3) parts others show ?thesis by (intro exI [of _ p] exI [of _ original]) (simp add: sha256_file_def)
  next
    case False
    with stored(1,2,4) parts others wf show ?thesis
      by (intro exI [of _ p] exI [of _ original] exI [of _ next_content]) (simp add: sha256_file_def)
  qed
qed

lemma wrong_edit:
  assumes "expected \<in> {None, Some (sample_head @ sample_body)}"
  shows "\<exists>r st1. edit_page wrong_env now ''/c'' (WriteBody ''mine'') expected operator_actor tiny_store = (Inr r, st1) \<and>
    rc_after_source_sha256 r \<noteq> rc_before_source_sha256 r"
proof -
  have hash: "we_sha256 wrong_env t = t" for t by (simp add: wrong_env_def tiny_env_def)
  have differ: "sample_head @ sample_body \<noteq> sample_head @ ''mine''" by code_simp
  obtain r st1 where w: "write_page_source_update wrong_env now (WriteBody ''mine'') operator_actor (wrong_pages ! 1)
      (sample_head @ sample_body) (sample_head @ ''mine'') (prepared wrong_env tiny_store) = (r, st1)" by fastforce
  have "edit_page wrong_env now ''/c'' (WriteBody ''mine'') expected operator_actor tiny_store = (Inr r, st1)"
    unfolding edit_page_result using assms wrong_facts w
    by (intro exI [of _ "wrong_pages ! 1"] exI [of _ "sample_head @ sample_body"] exI [of _ "sample_head @ ''mine''"])
      (simp add: edit_decision_iff [OF wrong_found] hash)
  with update_store(1,2) [OF w] differ show ?thesis by (auto simp: hash)
qed

lemma edit_writes_and_records_witness:
  "\<exists>r st1 p original next_content. edit_page wrong_env ''t'' ''/c'' (WriteBody ''mine'') None operator_actor tiny_store = (Inr r, st1) \<and>
     original \<noteq> next_content \<and> bt_get (ws_files st1) (source_path wrong_env p) = Some next_content \<and> length (ws_ledger st1) = 1"
proof -
  obtain r st1 where r: "edit_page wrong_env ''t'' ''/c'' (WriteBody ''mine'') None operator_actor tiny_store = (Inr r, st1)"
    "rc_after_source_sha256 r \<noteq> rc_before_source_sha256 r" using wrong_edit [of None] by blast
  have "bt_wf (ws_files tiny_store)" "ws_ledger tiny_store = []" by (simp_all add: tiny_store_def bt_wf_of_list)
  with edit_writes_and_records [OF r(1)] r show ?thesis
    by (auto simp: sha256_file_def) blast
qed

lemma find_page_cong:
  assumes "bt_get (ws_files st) (config_path env) = bt_get (ws_files st') (config_path env)" "find_page env st reference = Inr p"
    and "find_page env st' reference = Inr p'"
  shows "p' = p"
proof -
  have "wiki_pages env st = wiki_pages env st'" using assms(1) by (simp add: wiki_pages_def wiki_config_def read_text_file_def)
  with assms(2,3) show ?thesis by (auto simp: find_page_def try_then_Inr ok_or_def split: option.splits)
qed

text \<open>C4. Of two edits that expect the same hash of the source the second is refused when the first has changed the hash, whoever
  makes it and whatever it is; no file and no event comes of it. So an edit made from an old reading never overwrites a newer text.\<close>

theorem stale_edit_refused:
  assumes "edit_page env now reference e (Some h) actor st = (Inr r, st1)" "rc_after_source_sha256 r \<noteq> rc_before_source_sha256 r"
    and "bt_wf (ws_files st)"
  shows "\<exists>err st2. edit_page env now2 reference e2 (Some h) actor2 st1 = (Inl err, st2) \<and>
    ws_files st2 = ws_files st1 \<and> ws_ledger st2 = ws_ledger st1"
proof -
  from assms(1) obtain p original next_content where
    d: "edit_decision env reference e (Some h) actor (prepared env st) = Inr (p, original, next_content)" and
    w: "write_page_source_update env now e actor p original next_content (prepared env st) = (r, st1)"
    unfolding edit_page_result by blast
  note parts = edit_decision_parts [OF d] and stored = update_store [OF w]
  have wf: "bt_wf (ws_files (prepared env st))" using assms(3) by (simp add: prepared_files)
  from stored(3) assms(2) have changed: "original \<noteq> next_content" by blast
  with stored(1,2) assms(2) parts(3) have hash: "we_sha256 env next_content \<noteq> h" by auto
  have locked: "is_file (prepared env st) (lock_path env)"
    using assms(3) by (simp add: is_file_def [of "prepared env st"] prepared_files bt_contains_def is_file_def)
  with stored(4) changed wf have "is_file st1 (lock_path env)" by (auto simp: is_file_def bt_contains_def)
  then have same: "ws_files (prepared env st1) = ws_files st1" by (simp add: prepared_files)
  have refused: "\<exists>err. edit_decision env reference e2 (Some h) actor2 (prepared env st1) = Inl err"
  proof (cases "edit_decision env reference e2 (Some h) actor2 (prepared env st1)")
    case (Inr d2)
    obtain p2 original2 next2 where "d2 = (p2, original2, next2)" by (cases d2) auto
    note parts2 = edit_decision_parts [OF Inr [unfolded this]]
    have "config_path env \<noteq> source_path env p" using ends_differ [OF config_path_end source_path_end] .
    with find_page_cong [OF _ parts(1) parts2(1)] stored(4) changed wf same have "p2 = p" by simp
    with parts2(2,3) stored(4) changed wf same hash show ?thesis by auto
  qed blast
  then show ?thesis by (cases "edit_check e2") (auto simp: edit_page_def same)
qed

lemma stale_edit_refused_witness:
  "\<exists>r st1 err st2. edit_page wrong_env ''t1'' ''/c'' (WriteBody ''mine'') (Some (sample_head @ sample_body)) operator_actor tiny_store =
      (Inr r, st1) \<and>
    edit_page wrong_env ''t2'' ''/c'' (WriteBody ''yours'') (Some (sample_head @ sample_body)) sample_agent st1 = (Inl err, st2)"
proof -
  obtain r st1 where r: "edit_page wrong_env ''t1'' ''/c'' (WriteBody ''mine'') (Some (sample_head @ sample_body)) operator_actor tiny_store =
      (Inr r, st1)" "rc_after_source_sha256 r \<noteq> rc_before_source_sha256 r" using wrong_edit by blast
  have "bt_wf (ws_files tiny_store)" by (simp add: tiny_store_def bt_wf_of_list)
  from stale_edit_refused [OF r this] r(1) show ?thesis by blast
qed

end
