(* ===== verification/Engine_Publish.thy ===== *)
theory Engine_Publish
  imports Engine_Paths Wiki_Guard Json_Value
begin

text \<open>
  How the context engine writes pages of the wiki and marks a refresh (\<open>wiki_publish.rs\<close> and \<open>wiki_marker.rs\<close> of
  \<open>crates/onecontext-context-engine\<close>). Files are a map from paths to contents; \<open>fault\<close> is what the system reports for a
  path that cannot be made or written. SHA-256, the JSON of the receipts, the processes of the wiki and the parser of
  what they print are parameters.
\<close>

section \<open>Drafts and receipts\<close>

record wiki_page_draft =
  wd_slug :: string
  wd_title :: string
  wd_body :: string
  wd_source_path :: "string option"

record wiki_page_write_receipt =
  ww_slug :: string
  ww_page_id :: string
  ww_source_path :: string
  ww_operation_id :: string
  ww_old_content_sha256 :: "string option"
  ww_new_content_sha256 :: string
  ww_content_sha256 :: string
  ww_changed :: bool
  ww_conflict_status :: string
  ww_write_proof_path :: string
  ww_updated_at :: string

record wiki_publish_request =
  wq_run_id :: string
  wq_drafts :: "wiki_page_draft list"

record wiki_publish_result =
  wp_run_id :: string
  wp_publish_id :: string
  wp_status :: string
  wp_page_receipts :: "wiki_page_write_receipt list"
  wp_changed_page_count :: nat
  wp_site_path :: string
  wp_publish_proof_path :: string
  wp_created_at :: string
  wp_issues :: "string list"

record publish_env =
  pb_sha :: "string \<Rightarrow> string"
  pb_receipt_json :: "wiki_page_write_receipt \<Rightarrow> string"
  pb_result_json :: "wiki_publish_result \<Rightarrow> string"
  pb_fault :: "string \<Rightarrow> string option"

definition draft_from_status :: "string \<Rightarrow> string \<Rightarrow> string \<Rightarrow> wiki_page_draft" where
  "draft_from_status slug title body = \<lparr> wd_slug = slug, wd_title = title, wd_body = body, wd_source_path = None \<rparr>"

section \<open>Writing\<close>

definition create_parent :: "publish_env \<Rightarrow> string \<Rightarrow> string + unit" where
  "create_parent env path = (case pb_fault env (path_parent path) of None \<Rightarrow> Inr ()
     | Some e \<Rightarrow> Inl (''failed to create '' @ path_parent path @ '': '' @ e))"

definition write_to :: "publish_env \<Rightarrow> string \<Rightarrow> string \<Rightarrow> string \<Rightarrow> (string, string) btree_map \<Rightarrow> string + (string, string) btree_map" where
  "write_to env what path content files = (case pb_fault env path of None \<Rightarrow> Inr (bt_insert path content files)
     | Some e \<Rightarrow> Inl (''failed to write '' @ what @ path @ '': '' @ e))"

definition default_page_source_path :: "(string \<Rightarrow> string) \<Rightarrow> context_engine_paths \<Rightarrow> string \<Rightarrow> string" where
  "default_page_source_path sha paths slug = (let page = safe_run_id sha slug in
     if page = ''for-you'' then path_join (ce_user_wiki paths) ''source/families/for-you/for-you/source/for-you.md''
     else if page = ''your-context'' then path_join (ce_user_wiki paths) ''source/families/context/your-context/source/your-context.md''
     else if page = ''projects'' then path_join (ce_user_wiki paths) ''source/families/work/projects/source/projects.md''
     else if page = ''topics'' then path_join (ce_user_wiki paths) ''source/families/reference/topics/source/topics.md''
     else path_join (path_join (path_join (path_join (path_join (path_join (ce_user_wiki paths) ''source'') ''families'') ''generated'')
       page) ''source'') (page @ ''.md''))"

definition page_write_proof_path :: "(string \<Rightarrow> string) \<Rightarrow> context_engine_paths \<Rightarrow> string \<Rightarrow> string \<Rightarrow> string" where
  "page_write_proof_path sha paths run_id page_id =
     path_join (run_publish sha paths run_id) (''page-write-'' @ safe_run_id sha page_id @ ''.json'')"

definition normalize_page_body :: "wiki_page_draft \<Rightarrow> string" where
  "normalize_page_body d = (if starts_with (trim_start (wd_body d)) ''# '' then str_trim (wd_body d) @ [nl]
     else ''# '' @ wd_title d @ [nl, nl] @ str_trim (wd_body d) @ [nl])"

definition draft_path :: "(string \<Rightarrow> string) \<Rightarrow> context_engine_paths \<Rightarrow> wiki_page_draft \<Rightarrow> string" where
  "draft_path sha paths d = (case wd_source_path d of Some p \<Rightarrow> p | None \<Rightarrow> default_page_source_path sha paths (wd_slug d))"

definition write_receipt :: "publish_env \<Rightarrow> string \<Rightarrow> context_engine_paths \<Rightarrow> string \<Rightarrow> wiki_page_draft \<Rightarrow> string option \<Rightarrow>
    wiki_page_write_receipt" where
  "write_receipt env now paths run_id d before = (let sha = pb_sha env; page_id = safe_run_id sha (wd_slug d); body = normalize_page_body d in
     \<lparr> ww_slug = wd_slug d, ww_page_id = page_id, ww_source_path = draft_path sha paths d,
       ww_operation_id = ''wiki-page-write-'' @ run_id @ ''-'' @ page_id, ww_old_content_sha256 = map_option sha before,
       ww_new_content_sha256 = sha body, ww_content_sha256 = sha body, ww_changed = (before \<noteq> Some body),
       ww_conflict_status = ''none'', ww_write_proof_path = page_write_proof_path sha paths run_id page_id, ww_updated_at = now \<rparr>)"

text \<open>The page is written before its proof, and stays when the proof cannot be written.\<close>

definition write_page_draft :: "publish_env \<Rightarrow> string \<Rightarrow> context_engine_paths \<Rightarrow> string \<Rightarrow> wiki_page_draft \<Rightarrow> (string, string) btree_map \<Rightarrow>
    (string + wiki_page_write_receipt) \<times> (string, string) btree_map" where
  "write_page_draft env now paths run_id d files = (let path = draft_path (pb_sha env) paths d;
       receipt = write_receipt env now paths run_id d (bt_get files path); proof_path = ww_write_proof_path receipt in
     st_try (create_parent env path) files (\<lambda>_.
     st_try (write_to env ''page '' path (normalize_page_body d) files) files (\<lambda>files1.
     st_try (create_parent env proof_path) files1 (\<lambda>_.
     st_try (write_to env [] proof_path (pb_receipt_json env receipt) files1) files1 (\<lambda>files2. (Inr receipt, files2))))))"

fun write_drafts :: "publish_env \<Rightarrow> string \<Rightarrow> context_engine_paths \<Rightarrow> string \<Rightarrow> wiki_page_draft list \<Rightarrow> (string, string) btree_map \<Rightarrow>
    wiki_page_write_receipt list \<times> string list \<times> (string, string) btree_map" where
  "write_drafts env now paths run_id [] files = ([], [], files)"
| "write_drafts env now paths run_id (d # ds) files = (case write_page_draft env now paths run_id d files of (r, files1) \<Rightarrow>
     (case write_drafts env now paths run_id ds files1 of (receipts, issues, files2) \<Rightarrow>
       (case r of Inr receipt \<Rightarrow> (receipt # receipts, issues, files2) | Inl issue \<Rightarrow> (receipts, issue # issues, files2))))"

definition publish_result :: "publish_env \<Rightarrow> string \<Rightarrow> context_engine_paths \<Rightarrow> string \<Rightarrow> wiki_page_write_receipt list \<Rightarrow> string list \<Rightarrow>
    wiki_publish_result" where
  "publish_result env now paths run_id receipts issues = \<lparr> wp_run_id = run_id, wp_publish_id = ''wiki-publish-'' @ run_id,
     wp_status = (if issues = [] then ''complete'' else ''partial''), wp_page_receipts = receipts,
     wp_changed_page_count = length (filter ww_changed receipts), wp_site_path = path_join (ce_user_wiki paths) ''site'',
     wp_publish_proof_path = path_join (run_publish (pb_sha env) paths run_id) ''publish-proof.json'', wp_created_at = now,
     wp_issues = issues \<rparr>"

definition write_pages_and_publish_scaffold :: "publish_env \<Rightarrow> string \<Rightarrow> context_engine_paths \<Rightarrow> wiki_publish_request \<Rightarrow>
    (string, string) btree_map \<Rightarrow> (string + wiki_publish_result) \<times> (string, string) btree_map" where
  "write_pages_and_publish_scaffold env now paths request files = (let run_id = safe_run_id (pb_sha env) (wq_run_id request) in
     case write_drafts env now paths run_id (wq_drafts request) files of (receipts, issues, files1) \<Rightarrow>
       (let r = publish_result env now paths run_id receipts issues in
        st_try (create_parent env (wp_publish_proof_path r)) files1 (\<lambda>_.
        st_try (write_to env [] (wp_publish_proof_path r) (pb_result_json env r) files1) files1 (\<lambda>files2. (Inr r, files2)))))"

section \<open>The marker of a refresh\<close>

record wiki_refresh_marker =
  wm_status :: string
  wm_page :: string
  wm_operation_id :: string
  wm_executable :: "string option"
  wm_create_pages :: "json option"
  wm_talk_append :: "json option"
  wm_error :: "string option"

record process_output =
  px_success :: bool
  px_status :: string
  px_stdout :: string
  px_stderr :: string

record marker_env =
  mk_sha :: "string \<Rightarrow> string"
  mk_is_file :: "string \<Rightarrow> bool"
  mk_wiki_bin :: "string option"
  mk_current_exe :: "string option"
  mk_current_dir :: "string option"
  mk_run :: "string \<Rightarrow> string list \<Rightarrow> string + process_output"
  mk_lossy :: "string \<Rightarrow> string"
  mk_json :: "string \<Rightarrow> string + json"

definition unavailable_marker :: "string \<Rightarrow> wiki_refresh_marker" where
  "unavailable_marker error = \<lparr> wm_status = ''unavailable'', wm_page = ''for-you'', wm_operation_id = [], wm_executable = None,
     wm_create_pages = None, wm_talk_append = None, wm_error = Some error \<rparr>"

definition run_wiki_json :: "marker_env \<Rightarrow> string \<Rightarrow> string list \<Rightarrow> string + json" where
  "run_wiki_json env executable args = (case mk_run env executable args of
     Inl e \<Rightarrow> Inl (''failed to run '' @ executable @ '': '' @ e)
   | Inr out \<Rightarrow> if \<not> px_success out
       then (let stderr = str_trim (mk_lossy env (px_stderr out)); stdout = str_trim (mk_lossy env (px_stdout out));
                 detail = (if stderr \<noteq> [] then stderr else stdout)
             in Inl (if detail = [] then executable @ '' exited '' @ px_status out else detail))
       else (case mk_json env (px_stdout out) of Inl e \<Rightarrow> Inl (executable @ '' returned invalid JSON: '' @ e) | Inr v \<Rightarrow> Inr v))"

definition exe_candidates :: "string \<Rightarrow> string list" where
  "exe_candidates exe = (let dir = path_parent exe in
     if exe = [] \<or> exe = ''/'' then [] else path_join dir ''onecontext-wiki'' #
       (if dir = [] \<or> dir = ''/'' then [] else [path_join (path_parent dir) ''onecontext-wiki'']))"

definition discover_wiki_executable :: "marker_env \<Rightarrow> string option" where
  "discover_wiki_executable env = List.find (mk_is_file env)
     ((case mk_wiki_bin env of None \<Rightarrow> [] | Some p \<Rightarrow> if str_trim p = [] then [] else [p]) @
      (case mk_current_exe env of None \<Rightarrow> [] | Some exe \<Rightarrow> exe_candidates exe) @
      (case mk_current_dir env of None \<Rightarrow> []
        | Some cwd \<Rightarrow> [path_join cwd ''target/debug/onecontext-wiki'', path_join cwd ''target/release/onecontext-wiki'']))"

definition refresh_body :: "(string \<Rightarrow> string) \<Rightarrow> string \<Rightarrow> string \<Rightarrow> bool \<Rightarrow> string" where
  "refresh_body sha run_id trigger execute_agents =
     ''Context Engine refreshed the wiki through the native product path.'' @ [nl, nl] @ ''- Run: `'' @ safe_run_id sha run_id @ ''`'' @ [nl] @
     ''- Trigger: `'' @ trigger @ ''`'' @ [nl] @ ''- Runtime owner: `onecontext-context-engine`'' @ [nl] @
     ''- Agent execution requested: `'' @ (if execute_agents then ''true'' else ''false'') @ ''`'' @ [nl]"

definition talk_append_args :: "context_engine_paths \<Rightarrow> string \<Rightarrow> string \<Rightarrow> string list" where
  "talk_append_args paths operation_id body = [''--root'', ce_root paths, ''talk-append'', ''--page'', ''for-you'', ''--kind'', ''status'',
     ''--subject'', ''Context Engine Refresh'', ''--from'', ''agent://context-engine.runner'', ''--operation-id'', operation_id,
     ''--delivery-mode'', ''labels-only'', ''--body'', body]"

definition append_context_engine_refresh_marker :: "marker_env \<Rightarrow> context_engine_paths \<Rightarrow> string \<Rightarrow> string \<Rightarrow> bool \<Rightarrow> wiki_refresh_marker" where
  "append_context_engine_refresh_marker env paths run_id trigger execute_agents = (case discover_wiki_executable env of
     None \<Rightarrow> unavailable_marker ''onecontext-wiki executable not found''
   | Some executable \<Rightarrow> (let operation_id = safe_run_id (mk_sha env) (run_id @ ''-context-engine-refresh'');
         marker = (\<lambda>status created appended error. \<lparr> wm_status = status, wm_page = ''for-you'', wm_operation_id = operation_id,
           wm_executable = Some executable, wm_create_pages = created, wm_talk_append = appended, wm_error = error \<rparr>)
       in case run_wiki_json env executable [''--root'', ce_root paths, ''page-create-all''] of
         Inl e \<Rightarrow> marker ''failed'' None None (Some e)
       | Inr created \<Rightarrow> (case run_wiki_json env executable
             (talk_append_args paths operation_id (refresh_body (mk_sha env) run_id trigger execute_agents)) of
           Inl e \<Rightarrow> marker ''failed'' (Some created) None (Some e)
         | Inr v \<Rightarrow> marker ''written'' (Some created) (Some v) None)))"

text \<open>The marker says that it was written exactly when the program was found and both commands succeeded, and carries an error
  otherwise.\<close>

lemma marker_written_iff:
  "wm_status (append_context_engine_refresh_marker env paths run_id trigger execute_agents) = ''written'' \<longleftrightarrow>
   wm_error (append_context_engine_refresh_marker env paths run_id trigger execute_agents) = None"
  "wm_status (append_context_engine_refresh_marker env paths run_id trigger execute_agents) = ''written'' \<longleftrightarrow>
   (\<exists>executable created v. discover_wiki_executable env = Some executable \<and>
     run_wiki_json env executable [''--root'', ce_root paths, ''page-create-all''] = Inr created \<and>
     run_wiki_json env executable (talk_append_args paths (safe_run_id (mk_sha env) (run_id @ ''-context-engine-refresh''))
       (refresh_body (mk_sha env) run_id trigger execute_agents)) = Inr v)"
  by (auto simp: append_context_engine_refresh_marker_def unavailable_marker_def Let_def split: option.splits sum.splits)

section \<open>Writing the same pages again\<close>

definition writable :: "publish_env \<Rightarrow> context_engine_paths \<Rightarrow> string \<Rightarrow> wiki_page_draft \<Rightarrow> bool" where
  "writable env paths run_id d \<longleftrightarrow> list_all (\<lambda>p. pb_fault env (path_parent p) = None \<and> pb_fault env p = None)
     [draft_path (pb_sha env) paths d, page_write_proof_path (pb_sha env) paths run_id (safe_run_id (pb_sha env) (wd_slug d))]"

definition with_page :: "publish_env \<Rightarrow> string \<Rightarrow> context_engine_paths \<Rightarrow> string \<Rightarrow> wiki_page_draft \<Rightarrow> (string, string) btree_map \<Rightarrow>
    (string, string) btree_map" where
  "with_page env now paths run_id d files = (let receipt = write_receipt env now paths run_id d (bt_get files (draft_path (pb_sha env) paths d))
     in bt_insert (ww_write_proof_path receipt) (pb_receipt_json env receipt)
       (bt_insert (draft_path (pb_sha env) paths d) (normalize_page_body d) files))"

lemma receipt_proof_path [simp]: "ww_write_proof_path (write_receipt env now paths run_id d before) =
    page_write_proof_path (pb_sha env) paths run_id (safe_run_id (pb_sha env) (wd_slug d))"
  by (simp add: write_receipt_def Let_def)

lemma receipt_changed [simp]: "ww_changed (write_receipt env now paths run_id d before) \<longleftrightarrow> before \<noteq> Some (normalize_page_body d)"
  by (simp add: write_receipt_def Let_def)

lemma write_page_draft_ok: "writable env paths run_id d \<Longrightarrow> write_page_draft env now paths run_id d files =
    (Inr (write_receipt env now paths run_id d (bt_get files (draft_path (pb_sha env) paths d))), with_page env now paths run_id d files)"
  by (simp add: writable_def write_page_draft_def with_page_def create_parent_def write_to_def Let_def)

lemma write_page_draft_fails: "\<not> writable env paths run_id d \<Longrightarrow> \<exists>e files1. write_page_draft env now paths run_id d files = (Inl e, files1)"
  by (auto simp: writable_def write_page_draft_def create_parent_def write_to_def Let_def split: option.splits)

lemma write_drafts_issues:
  "write_drafts env now paths run_id ds files = (receipts, [], files1) \<Longrightarrow> list_all (writable env paths run_id) ds"
proof (induction ds arbitrary: files receipts)
  case (Cons d ds)
  show ?case
  proof (cases "writable env paths run_id d")
    case True
    with Cons show ?thesis by (auto simp: write_page_draft_ok split: prod.splits)
  next
    case False
    with write_page_draft_fails [OF this, of now files] Cons.prems show ?thesis by (auto split: prod.splits)
  qed
qed simp

lemma write_drafts_ok: "list_all (writable env paths run_id) ds \<Longrightarrow>
    \<exists>receipts files1. write_drafts env now paths run_id ds files = (receipts, [], files1)"
proof (induction ds arbitrary: files)
  case (Cons d ds)
  from Cons.IH [of "with_page env now paths run_id d files"] Cons.prems show ?case by (auto simp: write_page_draft_ok)
qed simp

lemma proof_is_no_page: "ends_with x ''.md'' \<Longrightarrow> page_write_proof_path sha paths run_id page_id \<noteq> x"
proof -
  have "\<exists>a. path_join b (''page-write-'' @ v @ ''.json'') = a @ ''json''" for b v :: string
    by (cases "b = [] \<or> last b = CHR ''/''") (auto simp: path_join_def)
  then obtain a where "page_write_proof_path sha paths run_id page_id = a @ ''json''" unfolding page_write_proof_path_def by blast
  then show "ends_with x ''.md'' \<Longrightarrow> page_write_proof_path sha paths run_id page_id \<noteq> x" by (auto simp: ends_with_iff)
qed

lemma get_with_page: "bt_wf files \<Longrightarrow> ends_with x ''.md'' \<Longrightarrow> bt_get (with_page env now paths run_id d files) x =
    (if x = draft_path (pb_sha env) paths d then Some (normalize_page_body d) else bt_get files x)"
  using proof_is_no_page [of x] by (auto simp: with_page_def Let_def)

lemma wf_with_page: "bt_wf files \<Longrightarrow> bt_wf (with_page env now paths run_id d files)"
  by (simp add: with_page_def Let_def)

lemma written_pages:
  assumes "write_drafts env now paths run_id ds files = (receipts, [], files1)" "bt_wf files"
    and "distinct (map (draft_path (pb_sha env) paths) ds)"
  shows "bt_wf files1 \<and> (\<forall>x. ends_with x ''.md'' \<longrightarrow> x \<notin> draft_path (pb_sha env) paths ` set ds \<longrightarrow> bt_get files1 x = bt_get files x) \<and>
    (\<forall>d\<in>set ds. ends_with (draft_path (pb_sha env) paths d) ''.md'' \<longrightarrow>
      bt_get files1 (draft_path (pb_sha env) paths d) = Some (normalize_page_body d))"
  using assms
proof (induction ds arbitrary: files receipts)
  case (Cons d ds)
  from write_drafts_issues [OF Cons.prems(1)] have "writable env paths run_id d" by simp
  with Cons.prems(1) obtain rs where step: "write_drafts env now paths run_id ds (with_page env now paths run_id d files) = (rs, [], files1)"
    by (auto simp: write_page_draft_ok split: prod.splits)
  from Cons.IH [OF step wf_with_page] Cons.prems(2,3) show ?case by (auto simp: get_with_page)
qed simp

lemma rewritten_pages:
  assumes "write_drafts env now paths run_id ds files = (receipts, [], files1)" "bt_wf files"
    and "\<forall>d\<in>set ds. ends_with (draft_path (pb_sha env) paths d) ''.md'' \<and>
      bt_get files (draft_path (pb_sha env) paths d) = Some (normalize_page_body d)"
  shows "filter ww_changed receipts = [] \<and> bt_wf files1 \<and> (\<forall>x. ends_with x ''.md'' \<longrightarrow> bt_get files1 x = bt_get files x)"
  using assms
proof (induction ds arbitrary: files receipts)
  case (Cons d ds)
  from write_drafts_issues [OF Cons.prems(1)] have "writable env paths run_id d" by simp
  with Cons.prems(1) obtain rs where step: "write_drafts env now paths run_id ds (with_page env now paths run_id d files) = (rs, [], files1)"
    and receipts: "receipts = write_receipt env now paths run_id d (bt_get files (draft_path (pb_sha env) paths d)) # rs"
    by (auto simp: write_page_draft_ok split: prod.splits)
  have same: "ends_with x ''.md'' \<Longrightarrow> bt_get (with_page env now paths run_id d files) x = bt_get files x" for x
    using Cons.prems(2,3) by (simp add: get_with_page)
  from Cons.IH [OF step wf_with_page] Cons.prems(2,3) same receipts show ?case by simp
qed simp

definition publish_proof_path :: "publish_env \<Rightarrow> context_engine_paths \<Rightarrow> string \<Rightarrow> string" where
  "publish_proof_path env paths run_id = path_join (run_publish (pb_sha env) paths run_id) ''publish-proof.json''"

lemma result_proof_path [simp]: "wp_publish_proof_path (publish_result env now paths run_id receipts issues) = publish_proof_path env paths run_id"
  by (simp add: publish_result_def publish_proof_path_def)

lemma result_is_no_page [simp]: "\<not> ends_with (publish_proof_path env paths run_id) ''.md''"
proof -
  have "\<exists>a. path_join b ''publish-proof.json'' = a @ ''json''" for b :: string
    by (cases "b = [] \<or> last b = CHR ''/''") (auto simp: path_join_def)
  then obtain a where "publish_proof_path env paths run_id = a @ ''json''" unfolding publish_proof_path_def by blast
  then show ?thesis by (auto simp: ends_with_iff)
qed

lemma publish_Inr:
  "write_pages_and_publish_scaffold env now paths request files = (Inr r, files') \<longleftrightarrow> (\<exists>receipts issues files1.
     write_drafts env now paths (safe_run_id (pb_sha env) (wq_run_id request)) (wq_drafts request) files = (receipts, issues, files1) \<and>
     r = publish_result env now paths (safe_run_id (pb_sha env) (wq_run_id request)) receipts issues \<and>
     pb_fault env (path_parent (publish_proof_path env paths (safe_run_id (pb_sha env) (wq_run_id request)))) = None \<and>
     pb_fault env (publish_proof_path env paths (safe_run_id (pb_sha env) (wq_run_id request))) = None \<and>
     files' = bt_insert (publish_proof_path env paths (safe_run_id (pb_sha env) (wq_run_id request))) (pb_result_json env r) files1)"
  by (auto simp: write_pages_and_publish_scaffold_def Let_def st_try_Inr create_parent_def write_to_def split: option.splits prod.splits)

text \<open>C39. Publishing is idempotent: when every draft of a request could be written and the drafts have pages of their own, the same
  request at a later time succeeds again, reports no page as changed, and leaves every page as it is; and the first time put the
  normalized body of every draft into its page and left the other pages alone.\<close>

theorem republish_changes_nothing:
  assumes "write_pages_and_publish_scaffold env now paths request files = (Inr r, files1)" "wp_status r = ''complete''" "bt_wf files"
    and "distinct (map (draft_path (pb_sha env) paths) (wq_drafts request))"
    and "\<forall>d\<in>set (wq_drafts request). ends_with (draft_path (pb_sha env) paths d) ''.md''"
  shows "(\<exists>r2 files2. write_pages_and_publish_scaffold env later paths request files1 = (Inr r2, files2) \<and> wp_status r2 = ''complete'' \<and>
      wp_changed_page_count r2 = 0 \<and> (\<forall>x. ends_with x ''.md'' \<longrightarrow> bt_get files2 x = bt_get files1 x)) \<and>
    (\<forall>d\<in>set (wq_drafts request). bt_get files1 (draft_path (pb_sha env) paths d) = Some (normalize_page_body d)) \<and>
    (\<forall>x. ends_with x ''.md'' \<longrightarrow> x \<notin> draft_path (pb_sha env) paths ` set (wq_drafts request) \<longrightarrow> bt_get files1 x = bt_get files x)"
proof -
  let ?run = "safe_run_id (pb_sha env) (wq_run_id request)" and ?ds = "wq_drafts request"
  from assms(1) obtain receipts issues mid where
    w: "write_drafts env now paths ?run ?ds files = (receipts, issues, mid)" and
    r: "r = publish_result env now paths ?run receipts issues" and
    ok: "pb_fault env (path_parent (publish_proof_path env paths ?run)) = None" "pb_fault env (publish_proof_path env paths ?run) = None" and
    files1: "files1 = bt_insert (publish_proof_path env paths ?run) (pb_result_json env r) mid"
    unfolding publish_Inr by blast
  from assms(2) r have "issues = []" by (auto simp: publish_result_def split: if_splits)
  note w = w [unfolded this]
  from written_pages [OF w assms(3,4)] have mid: "bt_wf mid"
    "\<And>x. ends_with x ''.md'' \<Longrightarrow> x \<notin> draft_path (pb_sha env) paths ` set ?ds \<Longrightarrow> bt_get mid x = bt_get files x"
    "\<And>d. d \<in> set ?ds \<Longrightarrow> bt_get mid (draft_path (pb_sha env) paths d) = Some (normalize_page_body d)" using assms(5) by auto
  have same: "bt_wf files1" "\<And>x. ends_with x ''.md'' \<Longrightarrow> bt_get files1 x = bt_get mid x"
    using mid(1) by (auto simp: files1)
  from write_drafts_ok [OF write_drafts_issues [OF w], of later files1] obtain receipts2 mid2 where
    w2: "write_drafts env later paths ?run ?ds files1 = (receipts2, [], mid2)" by blast
  have "\<forall>d\<in>set ?ds. ends_with (draft_path (pb_sha env) paths d) ''.md'' \<and>
      bt_get files1 (draft_path (pb_sha env) paths d) = Some (normalize_page_body d)" using assms(5) mid(3) same(2) by auto
  from rewritten_pages [OF w2 same(1) this] have second: "filter ww_changed receipts2 = []" "bt_wf mid2"
    "\<And>x. ends_with x ''.md'' \<Longrightarrow> bt_get mid2 x = bt_get files1 x" by auto
  let ?r2 = "publish_result env later paths ?run receipts2 []"
  let ?files2 = "bt_insert (publish_proof_path env paths ?run) (pb_result_json env ?r2) mid2"
  have "write_pages_and_publish_scaffold env later paths request files1 = (Inr ?r2, ?files2)"
    unfolding publish_Inr using w2 ok by blast
  moreover have "wp_status ?r2 = ''complete''" "wp_changed_page_count ?r2 = 0" by (simp_all add: publish_result_def second(1))
  moreover have "\<forall>x. ends_with x ''.md'' \<longrightarrow> bt_get ?files2 x = bt_get files1 x" using second(2,3) by auto
  ultimately show ?thesis using mid same assms(5) by auto
qed

definition sample_paths :: context_engine_paths where "sample_paths = paths_new ''/r''"

definition sample_publish :: publish_env where
  "sample_publish = \<lparr> pb_sha = (\<lambda>s. s), pb_receipt_json = ww_slug, pb_result_json = wp_run_id, pb_fault = (\<lambda>p. None) \<rparr>"

definition sample_request :: wiki_publish_request where
  "sample_request = \<lparr> wq_run_id = ''run'', wq_drafts = [draft_from_status ''for-you'' ''For You'' ''Fresh.'', draft_from_status ''notes'' ''Notes'' ''New.''] \<rparr>"

definition for_you_source :: string where
  "for_you_source = ''/r/user-wiki/source/families/for-you/for-you/source/for-you.md''"

lemma sample_drafts:
  "map (draft_path (pb_sha sample_publish) sample_paths) (wq_drafts sample_request) =
     [for_you_source, ''/r/user-wiki/source/families/generated/notes/source/notes.md'']"
  by code_simp

lemma republish_changes_nothing_witness:
  "\<exists>r files1 r2 files2. write_pages_and_publish_scaffold sample_publish ''t1'' sample_paths sample_request [] = (Inr r, files1) \<and>
     wp_changed_page_count r = 2 \<and>
     write_pages_and_publish_scaffold sample_publish ''t2'' sample_paths sample_request files1 = (Inr r2, files2) \<and> wp_changed_page_count r2 = 0"
proof -
  have "(case write_pages_and_publish_scaffold sample_publish ''t1'' sample_paths sample_request [] of
      (Inl _, _) \<Rightarrow> False | (Inr r, _) \<Rightarrow> wp_status r = ''complete'' \<and> wp_changed_page_count r = 2)" by code_simp
  then obtain r files1 where r: "write_pages_and_publish_scaffold sample_publish ''t1'' sample_paths sample_request [] = (Inr r, files1)"
    "wp_status r = ''complete''" "wp_changed_page_count r = 2" by (auto split: prod.splits sum.splits)
  have "distinct (map (draft_path (pb_sha sample_publish) sample_paths) (wq_drafts sample_request))"
    unfolding sample_drafts by code_simp
  moreover have "list_all (\<lambda>p. ends_with p ''.md'') (map (draft_path (pb_sha sample_publish) sample_paths) (wq_drafts sample_request))"
    unfolding sample_drafts by code_simp
  then have "\<forall>d\<in>set (wq_drafts sample_request). ends_with (draft_path (pb_sha sample_publish) sample_paths d) ''.md''"
    by (auto simp: list_all_iff)
  moreover have "bt_wf ([] :: (string, string) btree_map)" by (simp add: bt_wf_def)
  ultimately show ?thesis using republish_changes_nothing [OF r(1,2), of "''t2''"] r(1,3) by blast
qed

text \<open>What the operator has protected is not: the page is replaced together with its frontmatter.\<close>

lemma publish_drops_operator_lines:
  "bt_get (snd (write_pages_and_publish_scaffold sample_publish ''t1'' sample_paths sample_request
      (bt_of_list [(for_you_source, sample_head @ sample_body)]))) for_you_source = Some (''# For You'' @ [nl, nl] @ ''Fresh.'' @ [nl]) \<and>
   protected_lines sample_body \<noteq> [] \<and>
   split_markdown_frontmatter (''# For You'' @ [nl, nl] @ ''Fresh.'' @ [nl]) =
     Inl (WikiError ''source markdown is missing YAML frontmatter; refusing body-only edit'')"
  by code_simp

end
