(* ===== verification/Wiki_Talk.thy ===== *)
theory Wiki_Talk
  imports Wiki_Creation Mail_Store
begin

text \<open>
  Talk messages (\<open>append_talk\<close> of \<open>crates/onecontext-wiki-core/src/lib.rs\<close>): a message becomes a file of its own in the talk
  directory of its page, with its attachments beside it, and, when it is asked for, mail through the mail store of the
  agents. The time in RFC 3339 and the stamp of file names are arguments. The files of a directory are visited in the order
  of their paths; the order of \<open>read_dir\<close> is not specified.
\<close>

section \<open>Requests and results\<close>

datatype talk_delivery_mode = LabelsOnly | MailDelivery

record talk_append_request =
  tq_page :: string
  tq_kind :: string
  tq_subject :: string
  tq_operation_id :: "string option"
  tq_delivery_mode :: talk_delivery_mode
  tq_thread_id :: "string option"
  tq_reply_to :: "string option"
  tq_from :: string
  tq_to :: "string list"
  tq_cc :: "string list"
  tq_body_markdown :: string
  tq_attachments :: "talk_attachment_input list"
  tq_allow_tombstoned :: bool

record talk_thread_target =
  th_thread_id :: string
  th_reply_to :: "string option"

record talk_message_target =
  tm_message_id :: string
  tm_thread_id :: string
  tm_page_id :: string

record talk_mail_delivery_attempt =
  tl_recipient :: string
  tl_delivery_id :: string
  tl_status :: string

datatype talk_mail_error = AttachmentUnreadable string | MailNotSent mail_error

record talk_mail_delivery_result =
  td_status :: string
  td_acceptance :: "string option"
  td_attempts :: "talk_mail_delivery_attempt list"
  td_error :: "talk_mail_error option"

record talk_append_result =
  tt_status :: string
  tt_message_id :: string
  tt_thread_id :: string
  tt_reply_to :: "string option"
  tt_page_id :: string
  tt_route :: string
  tt_kind :: string
  tt_subject :: string
  tt_created_at :: string
  tt_source :: string
  tt_delivery_mode :: talk_delivery_mode
  tt_mail_delivery :: "talk_mail_delivery_result option"
  tt_attachments :: "talk_attachment_record list"
  tt_repair_hints :: "string list"

section \<open>Names\<close>

definition short_hash :: "wiki_env \<Rightarrow> string \<Rightarrow> string" where
  "short_hash env v = take 10 (we_sha256 env v)"

definition checked_target_id :: "string option \<Rightarrow> string \<Rightarrow> wiki_error + string option" where
  "checked_target_id v flag = (case v of None \<Rightarrow> Inr None | Some s \<Rightarrow> map_sum id Some (validate_talk_target_id s flag))"

definition talk_stamp :: "wiki_env \<Rightarrow> string \<Rightarrow> string option \<Rightarrow> string" where
  "talk_stamp env file_stamp operation_id = (case operation_id of Some op \<Rightarrow> ''op-'' @ short_hash env op | None \<Rightarrow> file_stamp)"

definition talk_message_id :: "wiki_env \<Rightarrow> string \<Rightarrow> string \<Rightarrow> string option \<Rightarrow> string" where
  "talk_message_id env file_stamp subject operation_id = (case operation_id of
     Some op \<Rightarrow> ''talkmsg_op_'' @ short_hash env op
   | None \<Rightarrow> ''talkmsg_'' @ filter (\<lambda>c. c \<noteq> CHR ''-'') file_stamp @ ''_'' @ short_hash env subject)"

definition talk_source_path :: "wiki_env \<Rightarrow> wiki_page \<Rightarrow> string \<Rightarrow> string \<Rightarrow> string \<Rightarrow> string" where
  "talk_source_path env p stamp kind subject = path_join (talk_dir env p) (stamp @ ''.'' @ kind @ ''.'' @ slugify subject @ ''.md'')"

definition talk_recipients :: "talk_append_request \<Rightarrow> string list" where
  "talk_recipients q = bset (filter (\<lambda>r. r \<noteq> []) (map str_trim (tq_to q @ tq_cc q)))"

definition existing_talk_created_at :: "wiki_store \<Rightarrow> string \<Rightarrow> string option" where
  "existing_talk_created_at st path = (case bt_get (ws_files st) path of None \<Rightarrow> None
     | Some t \<Rightarrow> (case parse_simple_frontmatter_fields t of Inl _ \<Rightarrow> None | Inr fm \<Rightarrow> bt_get fm ''created''))"

section \<open>Threads\<close>

definition talk_file_subject :: "(string, string) btree_map \<Rightarrow> string \<Rightarrow> string \<Rightarrow> string" where
  "talk_file_subject fm body message_id = (case bt_get fm ''subject'' of
     Some v \<Rightarrow> if str_trim v \<noteq> [] then str_trim v else or_text (find_map (\<lambda>line. case strip_prefix ''## '' (str_trim line) of
         None \<Rightarrow> None | Some h \<Rightarrow> some_text (str_trim h)) (str_lines body)) message_id
   | None \<Rightarrow> or_text (find_map (\<lambda>line. case strip_prefix ''## '' (str_trim line) of
         None \<Rightarrow> None | Some h \<Rightarrow> some_text (str_trim h)) (str_lines body)) message_id)"

definition default_thread_id :: "wiki_page \<Rightarrow> string \<Rightarrow> string" where
  "default_thread_id p subject = ''thread_'' @ pg_id p @ ''_'' @ slugify subject"

definition talk_file_thread_id :: "wiki_page \<Rightarrow> (string, string) btree_map \<Rightarrow> string \<Rightarrow> string \<Rightarrow> string" where
  "talk_file_thread_id p fm body message_id = (case bt_get fm ''thread'' of
     Some v \<Rightarrow> if talk_target_id_is_valid (str_trim v) then str_trim v else default_thread_id p (talk_file_subject fm body message_id)
   | None \<Rightarrow> default_thread_id p (talk_file_subject fm body message_id))"

text \<open>A file without a usable frontmatter or identifier is no message.\<close>

definition talk_target :: "wiki_page \<Rightarrow> string \<Rightarrow> talk_message_target option" where
  "talk_target p t = (case parse_simple_frontmatter_fields t of Inl _ \<Rightarrow> None
     | Inr fm \<Rightarrow> (case bt_get fm ''id'' of None \<Rightarrow> None
       | Some message_id \<Rightarrow> if \<not> talk_target_id_is_valid message_id then None
           else (case split_markdown_frontmatter t of Inl _ \<Rightarrow> None
             | Inr (_, body) \<Rightarrow> Some \<lparr> tm_message_id = message_id, tm_thread_id = talk_file_thread_id p fm body message_id,
                 tm_page_id = pg_id p \<rparr>)))"

definition file_talk_message_targets :: "wiki_env \<Rightarrow> wiki_store \<Rightarrow> wiki_page \<Rightarrow> talk_message_target list" where
  "file_talk_message_targets env st p = (if \<not> is_dir st (talk_dir env p) then []
     else List.map_filter (\<lambda>q. talk_target p (file_content st q))
       (filter (\<lambda>q. path_parent q = talk_dir env p \<and> is_markdown q) (bt_keys (ws_files st))))"

text \<open>The first message with an identifier counts.\<close>

definition first_target :: "talk_message_target \<Rightarrow> (string, talk_message_target) btree_map \<Rightarrow> (string, talk_message_target) btree_map" where
  "first_target t m = (if bt_contains m (tm_message_id t) then m else bt_insert (tm_message_id t) t m)"

definition all_talk_message_targets :: "wiki_env \<Rightarrow> wiki_store \<Rightarrow> wiki_error + talk_message_target list" where
  "all_talk_message_targets env st = try_then (wiki_pages env st) (\<lambda>pages.
     Inr (map snd (fold first_target (concat (map (file_talk_message_targets env st) pages)) [])))"

definition parent_target :: "wiki_page \<Rightarrow> talk_message_target list \<Rightarrow> string \<Rightarrow> wiki_error + talk_message_target" where
  "parent_target p targets reply_to = try_then
     (ok_or (List.find (\<lambda>t. tm_message_id t = reply_to) targets)
       (WikiError (''talk reply target not found in page talk files: '' @ reply_to))) (\<lambda>parent.
     if tm_page_id parent \<noteq> pg_id p
     then Inl (WikiError (''talk reply target '' @ reply_to @ '' belongs to page '' @ tm_page_id parent @ ''; expected page '' @ pg_id p))
     else Inr parent)"

definition explicit_thread :: "wiki_page \<Rightarrow> talk_message_target list \<Rightarrow> talk_message_target option \<Rightarrow> string \<Rightarrow> wiki_error + string" where
  "explicit_thread p targets parent thread_id =
     (if \<not> list_ex (\<lambda>t. tm_page_id t = pg_id p \<and> tm_thread_id t = thread_id) targets \<and>
         list_ex (\<lambda>t. tm_page_id t \<noteq> pg_id p \<and> tm_thread_id t = thread_id) targets
      then Inl (WikiError (''talk thread target belongs to a different page; page '' @ pg_id p @ '' cannot append to '' @ thread_id))
      else case parent of None \<Rightarrow> Inr thread_id
        | Some t \<Rightarrow> if tm_thread_id t \<noteq> thread_id
            then Inl (WikiError (''talk reply target '' @ tm_message_id t @ '' belongs to thread '' @ tm_thread_id t @
              ''; expected thread '' @ thread_id))
            else Inr thread_id)"

definition resolve_talk_thread_target :: "wiki_env \<Rightarrow> wiki_store \<Rightarrow> wiki_page \<Rightarrow> talk_append_request \<Rightarrow> string \<Rightarrow>
    wiki_error + talk_thread_target" where
  "resolve_talk_thread_target env st p q default_id =
     try_then (checked_target_id (tq_thread_id q) ''--thread-id'') (\<lambda>thread_id.
     try_then (checked_target_id (tq_reply_to q) ''--reply-to'') (\<lambda>reply_to.
     if thread_id = None \<and> reply_to = None then Inr \<lparr> th_thread_id = default_id, th_reply_to = None \<rparr>
     else try_then (all_talk_message_targets env st) (\<lambda>targets.
       try_then (case reply_to of None \<Rightarrow> Inr None | Some r \<Rightarrow> map_sum id Some (parent_target p targets r)) (\<lambda>parent.
       try_then (case thread_id of Some t \<Rightarrow> explicit_thread p targets parent t
           | None \<Rightarrow> Inr (case parent of Some t \<Rightarrow> tm_thread_id t | None \<Rightarrow> default_id)) (\<lambda>thread.
         Inr \<lparr> th_thread_id = thread, th_reply_to = reply_to \<rparr>)))))"

section \<open>Attachments\<close>

text \<open>A file that is there is not replaced; what was copied before stays.\<close>

fun copy_each :: "wiki_env \<Rightarrow> string \<Rightarrow> (talk_attachment_input \<times> talk_attachment_record) list \<Rightarrow> wiki_store \<Rightarrow>
    (wiki_error + unit) \<times> wiki_store" where
  "copy_each env dir [] st = (Inr (), st)"
| "copy_each env dir ((input, r) # rest) st = (if wiki_path_exists st (path_join dir (tr_filename r))
     then (Inl (WikiError (''create attachment '' @ path_join dir (tr_filename r))), st)
     else copy_each env dir rest (put_file (path_join dir (tr_filename r)) (file_content st (ti_path input)) st))"

definition attachment_dir :: "wiki_env \<Rightarrow> wiki_page \<Rightarrow> string \<Rightarrow> string" where
  "attachment_dir env p message_id = path_join (path_join (talk_dir env p) ''attachments'') message_id"

definition copy_talk_attachments :: "wiki_env \<Rightarrow> wiki_page \<Rightarrow> string \<Rightarrow> talk_attachment_input list \<Rightarrow> wiki_store \<Rightarrow>
    (wiki_error + talk_attachment_record list) \<times> wiki_store" where
  "copy_talk_attachments env p message_id inputs st = (if inputs = [] then (Inr [], st)
     else st_try (pending_attachments (is_file st) (pg_id p) message_id inputs []) st (\<lambda>records.
       st_then (copy_each env (attachment_dir env p message_id) (zip inputs records) (create_dirs (attachment_dir env p message_id) st))
         (\<lambda>_ st1. (Inr records, st1))))"

section \<open>The text of a message\<close>

definition escape_yaml :: "string \<Rightarrow> string" where
  "escape_yaml v = concat (map (\<lambda>c. if c = CHR 0x22 then [CHR 0x5C, CHR 0x22] else [c])
     (concat (map (\<lambda>c. if c = CHR 0x5C then [CHR 0x5C, CHR 0x5C] else [c]) v)))"

definition in_quotes :: "string \<Rightarrow> string" where
  "in_quotes v = [CHR 0x22] @ v @ [CHR 0x22]"

definition recipient_lines :: "string list \<Rightarrow> string list" where
  "recipient_lines recipients = (if recipients = [] then [''recipients: []'']
     else ''recipients:'' # map (\<lambda>r. ''  - '' @ in_quotes (escape_yaml r)) recipients)"

definition attachment_lines :: "talk_attachment_record list \<Rightarrow> string list" where
  "attachment_lines records = (if records = [] then [''attachments: []''] else ''attachments:'' # concat (map (\<lambda>r.
     [''  - filename: '' @ in_quotes (escape_yaml (tr_filename r)), ''    media_type: '' @ in_quotes (escape_yaml (tr_media_type r)),
      ''    path: '' @ in_quotes (escape_yaml (tr_path r)), ''    handle: '' @ in_quotes (escape_yaml (tr_handle r))] @
     (case tr_caption r of None \<Rightarrow> [] | Some c \<Rightarrow> [''    caption: '' @ in_quotes (escape_yaml c)]) @
     (case tr_alt_text r of None \<Rightarrow> [] | Some a \<Rightarrow> [''    alt_text: '' @ in_quotes (escape_yaml a)])) records))"

definition talk_attachment_href :: "wiki_page \<Rightarrow> string \<Rightarrow> string" where
  "talk_attachment_href p relative = plain_talk_route p @ ''/'' @ trim_start_set ''/'' relative"

definition attachment_section :: "wiki_page \<Rightarrow> talk_attachment_record list \<Rightarrow> string" where
  "attachment_section p records = (if records = [] then []
     else [nl, nl] @ ''## Attachments'' @ [nl, nl] @ str_join [nl] (map (\<lambda>r. ''- ['' @ tr_filename r @ ''](''
       @ talk_attachment_href p (tr_path r) @ '') ('' @ tr_media_type r @ '')'' @
       (case tr_caption r of None \<Rightarrow> [] | Some c \<Rightarrow> '' - '' @ c)) records))"

text \<open>The lines between the delimiters.\<close>

definition talk_fields :: "talk_append_request \<Rightarrow> wiki_page \<Rightarrow> string \<Rightarrow> string option \<Rightarrow> string \<Rightarrow> talk_thread_target \<Rightarrow>
    talk_attachment_record list \<Rightarrow> string list" where
  "talk_fields q p message_id operation_id created_at target records =
     [''id: '' @ in_quotes message_id] @
     (case operation_id of None \<Rightarrow> [] | Some op \<Rightarrow> [''operation_id: '' @ in_quotes (escape_yaml op)]) @
     [''kind: '' @ in_quotes (tq_kind q), ''author: '' @ in_quotes (tq_from q), ''created: '' @ in_quotes created_at,
      ''talk_for: '' @ in_quotes (''mailbox://page/'' @ pg_id p), ''thread: '' @ in_quotes (th_thread_id target)] @
     (case th_reply_to target of None \<Rightarrow> [] | Some r \<Rightarrow> [''reply_to: '' @ in_quotes (escape_yaml r)]) @
     [''subject: '' @ in_quotes (escape_yaml (tq_subject q)), ''state: open''] @
     recipient_lines (talk_recipients q) @ attachment_lines records"

definition talk_text :: "talk_append_request \<Rightarrow> wiki_page \<Rightarrow> string \<Rightarrow> string option \<Rightarrow> string \<Rightarrow> talk_thread_target \<Rightarrow>
    talk_attachment_record list \<Rightarrow> string" where
  "talk_text q p message_id operation_id created_at target records =
     concat (map (\<lambda>l. l @ [nl]) ([''---''] @ talk_fields q p message_id operation_id created_at target records @ [''---''])) @
     [nl] @ ''## '' @ tq_subject q @ [nl, nl] @ tq_body_markdown q @ attachment_section p records @ [nl]"

text \<open>A message with an operation identifier that is there already is left as it is.\<close>

definition write_talk_source :: "string \<Rightarrow> string \<Rightarrow> string option \<Rightarrow> wiki_store \<Rightarrow> (wiki_error + unit) \<times> wiki_store" where
  "write_talk_source path content operation_id st =
     (if wiki_path_exists st path \<and> operation_id \<noteq> None then (Inr (), st)
      else let st1 = create_dirs (path_parent path) st in
        if wiki_path_exists st1 path then (Inl (WikiError (''create '' @ path)), st1) else (Inr (), put_file path content st1))"

section \<open>Mail\<close>

definition mail_attachment :: "wiki_env \<Rightarrow> wiki_store \<Rightarrow> wiki_page \<Rightarrow> talk_attachment_record \<Rightarrow> talk_mail_error + message_attachment_ref" where
  "mail_attachment env st p r = try_then (ok_or (sha256_file env st (path_join (talk_dir env p) (tr_path r)))
       (AttachmentUnreadable (path_join (talk_dir env p) (tr_path r)))) (\<lambda>h.
     Inr \<lparr> ma_filename = tr_filename r, ma_media_type = tr_media_type r, ma_sha256 = h, ma_handle = tr_handle r \<rparr>)"

definition talk_envelope :: "wiki_env \<Rightarrow> talk_append_request \<Rightarrow> wiki_page \<Rightarrow> string \<Rightarrow> talk_thread_target \<Rightarrow> string \<Rightarrow> string option \<Rightarrow>
    message_attachment_ref list \<Rightarrow> message_envelope" where
  "talk_envelope env q p message_id target created_at operation_id attachments = \<lparr> me_schema_version = 1, me_message_id = message_id,
     me_idempotency_key = or_text operation_id message_id, me_kind = tq_kind q, me_subject = tq_subject q, me_from = tq_from q,
     me_to = tq_to q, me_cc = tq_cc q, me_page = Some \<lparr> mp_id = pg_id p, mp_route = pg_route p \<rparr>,
     me_thread_id = th_thread_id target, me_reply_to = th_reply_to target,
     me_body = \<lparr> mb_format = ''markdown'', mb_sha256 = we_sha256 env (tq_body_markdown q) \<rparr>,
     me_attachments = attachments, me_created_at = created_at \<rparr>"

fun attempt_text :: "delivery_attempt_status \<Rightarrow> string" where
  "attempt_text Delivered = ''delivered''"
| "attempt_text AlreadyDelivered = ''already_delivered''"
| "attempt_text DeferredCapacity = ''deferred_capacity''"

fun acceptance_text :: "message_acceptance \<Rightarrow> string" where
  "acceptance_text Accepted = ''accepted''"
| "acceptance_text (DuplicateSamePayload _) = ''duplicate_same_payload''"

definition delivery_status :: "delivery_attempt list \<Rightarrow> string" where
  "delivery_status attempts = (if list_ex (\<lambda>a. da_status a = Delivered \<or> da_status a = AlreadyDelivered) attempts then ''delivered''
     else if list_ex (\<lambda>a. da_status a = DeferredCapacity) attempts then ''deferred_capacity'' else ''no_deliveries'')"

definition mail_delivery_of :: "mail_send_receipt \<Rightarrow> talk_mail_delivery_result" where
  "mail_delivery_of receipt = \<lparr> td_status = delivery_status (mr_attempts receipt), td_acceptance = Some (acceptance_text (mr_acceptance receipt)),
     td_attempts = map (\<lambda>a. \<lparr> tl_recipient = da_recipient a, tl_delivery_id = da_delivery_id a, tl_status = attempt_text (da_status a) \<rparr>)
       (mr_attempts receipt), td_error = None \<rparr>"

definition send_talk_mail :: "wiki_env \<Rightarrow> mail_env \<Rightarrow> wiki_store \<Rightarrow> talk_append_request \<Rightarrow> wiki_page \<Rightarrow> string \<Rightarrow> talk_thread_target \<Rightarrow>
    string \<Rightarrow> string option \<Rightarrow> talk_attachment_record list \<Rightarrow> mail_store \<Rightarrow>
    (talk_mail_error + talk_mail_delivery_result) \<times> mail_store" where
  "send_talk_mail env menv st q p message_id target created_at operation_id records ms =
     st_try (try_map (mail_attachment env st p) records) ms (\<lambda>attachments.
       case send_mail menv (talk_envelope env q p message_id target created_at operation_id attachments) (tq_body_markdown q) None ms of
         (Inl e, ms1) \<Rightarrow> (Inl (MailNotSent e), ms1)
       | (Inr receipt, ms1) \<Rightarrow> (Inr (mail_delivery_of receipt), ms1))"

section \<open>Appending\<close>

definition talk_page :: "wiki_env \<Rightarrow> wiki_store \<Rightarrow> talk_append_request \<Rightarrow> wiki_error + wiki_page" where
  "talk_page env st q = try_then (wiki_pages env st) (\<lambda>pages.
     try_then (ok_or (List.find (\<lambda>p. pg_id p = tq_page q \<or> pg_route p = tq_page q) pages) (WikiError (''unknown page: '' @ tq_page q))) (\<lambda>p.
     try_then (page_status env st (pg_id p)) (\<lambda>status.
       if \<not> tq_allow_tombstoned q \<and> closed_state (st_state status)
       then Inl (WikiError (''talk append refused for '' @ st_state status @ '' page '' @ pg_id p @
         ''; pass --allow-tombstoned to append archive-maintenance talk''))
       else if \<not> wiki_path_exists st (talk_dir env p)
       then Inl (WikiError (''talk folder missing for page '' @ pg_id p @ ''; call wiki.page.create first''))
       else Inr p)))"

definition mail_outcome :: "(talk_mail_error + talk_mail_delivery_result) \<Rightarrow> string \<times> talk_mail_delivery_result option \<times> string list" where
  "mail_outcome r = (case r of
     Inr d \<Rightarrow> if td_status d = ''delivered'' then (''appended'', Some d, [])
       else (''appended_delivery_deferred'', Some d,
         [''Talk source was preserved; Agent Mail did not create any delivered recipient records yet.''])
   | Inl e \<Rightarrow> (''appended_delivery_failed'', Some \<lparr> td_status = ''failed'', td_acceptance = None, td_attempts = [], td_error = Some e \<rparr>,
       [''Talk source was preserved; repair the mail request and retry explicit delivery.'']))"

definition talk_result :: "talk_append_request \<Rightarrow> wiki_page \<Rightarrow> string \<Rightarrow> talk_thread_target \<Rightarrow> string \<Rightarrow> talk_attachment_record list \<Rightarrow>
    string \<times> talk_mail_delivery_result option \<times> string list \<Rightarrow> talk_append_result" where
  "talk_result q p message_id target created_at records = (\<lambda>(status, delivery, hints). \<lparr> tt_status = status, tt_message_id = message_id,
     tt_thread_id = th_thread_id target, tt_reply_to = th_reply_to target, tt_page_id = pg_id p, tt_route = pg_route p,
     tt_kind = tq_kind q, tt_subject = tq_subject q, tt_created_at = created_at,
     tt_source = ''user-wiki://page/'' @ pg_id p @ ''/talk/messages/'' @ message_id, tt_delivery_mode = tq_delivery_mode q,
     tt_mail_delivery = delivery, tt_attachments = records, tt_repair_hints = hints \<rparr>)"

text \<open>What the message is, before anything is written: the page, the identifiers, the thread, the path and the time.\<close>

definition talk_plan :: "wiki_env \<Rightarrow> string \<Rightarrow> string \<Rightarrow> talk_append_request \<Rightarrow> wiki_store \<Rightarrow>
    wiki_error + wiki_page \<times> string option \<times> talk_thread_target \<times> string \<times> string" where
  "talk_plan env now file_stamp q st =
     try_then (talk_page env st q) (\<lambda>p.
     try_then (checked_target_id (tq_operation_id q) ''--operation-id'') (\<lambda>operation_id.
     try_then (resolve_talk_thread_target env st p q (default_thread_id p (tq_subject q))) (\<lambda>target.
       let path = talk_source_path env p (talk_stamp env file_stamp operation_id) (tq_kind q) (tq_subject q)
       in Inr (p, operation_id, target, path, or_text (existing_talk_created_at st path) now))))"

definition append_talk :: "wiki_env \<Rightarrow> mail_env \<Rightarrow> string \<Rightarrow> string \<Rightarrow> talk_append_request \<Rightarrow> wiki_store \<times> mail_store \<Rightarrow>
    (wiki_error + talk_append_result) \<times> wiki_store \<times> mail_store" where
  "append_talk env menv now file_stamp q s = (case s of (st, ms) \<Rightarrow> let st0 = ensure_runtime_dirs env st in
     st_try (talk_plan env now file_stamp q st0) (st0, ms) (\<lambda>(p, operation_id, target, path, created_at).
       let message_id = talk_message_id env file_stamp (tq_subject q) operation_id in
       case copy_talk_attachments env p message_id (tq_attachments q) st0 of
         (Inl e, st1) \<Rightarrow> (Inl e, st1, ms)
       | (Inr records, st1) \<Rightarrow>
         (case write_talk_source path (talk_text q p message_id operation_id created_at target records) operation_id st1 of
           (Inl e, st2) \<Rightarrow> (Inl e, st2, ms)
         | (Inr _, st2) \<Rightarrow>
           (if tq_delivery_mode q = MailDelivery
            then case send_talk_mail env menv st2 q p message_id target created_at operation_id records ms of
                (r, ms1) \<Rightarrow> (Inr (talk_result q p message_id target created_at records (mail_outcome r)), st2, ms1)
            else (Inr (talk_result q p message_id target created_at records (''appended'', None, [])), st2, ms)))))"

end
