(* ===== verification/Wiki_Talk_Properties.thy ===== *)
theory Wiki_Talk_Properties
  imports Wiki_Talk Wiki_Properties Mail_Sending
begin

text \<open>
  What appending to a talk page guarantees: no file is ever replaced; the frontmatter of a message reads back; a retry with
  the same operation identifier finds its message and delivers no mail again, unless the message has attachments, when every
  retry fails.
\<close>

section \<open>No file is replaced\<close>

lemma holds_copy_each: "holds x c st \<Longrightarrow> holds x c (snd (copy_each env dir pairs st))"
proof (induction env dir pairs st rule: copy_each.induct)
  case (2 env dir input r rest st)
  show ?case
  proof (cases "wiki_path_exists st (path_join dir (tr_filename r))")
    case False
    with 2(2) have "path_join dir (tr_filename r) \<noteq> x" by (auto simp: wiki_path_exists_def dest: holds_is_file)
    with 2 False show ?thesis by (simp add: holds_put)
  qed (use 2 in simp)
qed simp

lemma holds_copy_attachments: "holds x c st \<Longrightarrow> holds x c (snd (copy_talk_attachments env p message_id inputs st))"
  by (auto simp: copy_talk_attachments_def intro!: holds_st_try holds_st_then holds_copy_each holds_create_dirs)

lemma holds_write_talk_source: "holds x c st \<Longrightarrow> holds x c (snd (write_talk_source path content operation_id st))"
proof -
  assume h: "holds x c st"
  then have "holds x c (create_dirs (path_parent path) st)" by (rule holds_create_dirs)
  moreover from this have "\<not> wiki_path_exists (create_dirs (path_parent path) st) path \<Longrightarrow> path \<noteq> x"
    by (auto simp: wiki_path_exists_def dest: holds_is_file)
  ultimately show ?thesis using h by (simp add: write_talk_source_def Let_def holds_put)
qed

lemma append_talk_holds:
  assumes "holds x c st"
  shows "holds x c (fst (snd (append_talk env menv now file_stamp q (st, ms))))"
proof -
  have st0: "holds x c (ensure_runtime_dirs env st)" using assms by (simp add: ensure_runtime_dirs_def holds_create_dirs)
  show ?thesis
  proof (cases "talk_plan env now file_stamp q (ensure_runtime_dirs env st)")
    case (Inl e)
    with st0 show ?thesis by (simp add: append_talk_def)
  next
    case (Inr r)
    obtain p operation_id target path created_at where r: "r = (p, operation_id, target, path, created_at)" by (cases r) auto
    let ?mid = "talk_message_id env file_stamp (tq_subject q) operation_id"
    obtain c1 st1 where copy: "copy_talk_attachments env p ?mid (tq_attachments q) (ensure_runtime_dirs env st) = (c1, st1)" by fastforce
    with holds_copy_attachments [OF st0, of env p ?mid "tq_attachments q"] have st1: "holds x c st1" by simp
    show ?thesis
    proof (cases c1)
      case (Inl e)
      with Inr r copy st1 show ?thesis by (simp add: append_talk_def)
    next
      case records: (Inr records)
      let ?t = "talk_text q p ?mid operation_id created_at target records"
      obtain w st2 where w: "write_talk_source path ?t operation_id st1 = (w, st2)" by fastforce
      with holds_write_talk_source [OF st1, of path ?t operation_id] have "holds x c st2" by simp
      with Inr r copy records w show ?thesis by (auto simp: append_talk_def Let_def split: sum.splits prod.splits)
    qed
  qed
qed

text \<open>Appending to a talk page, whether it succeeds or not, replaces no file: everything that was there is there with the
  same content.\<close>

theorem append_talk_keeps_files:
  assumes "bt_wf (ws_files st)" "bt_get (ws_files st) x = Some c"
  shows "bt_get (ws_files (fst (snd (append_talk env menv now file_stamp q (st, ms))))) x = Some c"
  using append_talk_holds [of x c st] assms by (simp add: holds_def)

section \<open>Texts of lines\<close>

definition ascii_lines :: "string list \<Rightarrow> string" where
  "ascii_lines ls = concat (map (\<lambda>l. l @ [nl]) ls)"

lemma split_inclusive_lines: "\<forall>l\<in>set ls. nl \<notin> set l \<Longrightarrow> split_inclusive (ascii_lines ls @ rest) = map (\<lambda>l. l @ [nl]) ls @ split_inclusive rest"
proof (induction ls)
  case (Cons l ls)
  have "split_inclusive (l @ [nl]) = [l @ [nl]]" using Cons.prems by (induction l) auto
  moreover have "ends_line (l @ [nl])" by (simp add: ends_line_def)
  ultimately show ?case using Cons split_inclusive_append [of "l @ [nl]" "ascii_lines ls @ rest"] by (simp add: ascii_lines_def)
qed (simp add: ascii_lines_def)

lemma closing_lines:
  assumes "\<forall>l\<in>set ls. trim_end_set [cr] l \<noteq> ''---''"
  shows "closing_position n (map (\<lambda>l. l @ [nl]) ls @ (''---'' @ [nl]) # rest) = Some (n + length (ascii_lines ls) + 4)"
  using assms
proof (induction ls arbitrary: n)
  case Nil
  have "trim_end_set [cr] (strip_nl (''---'' @ [nl])) = ''---''" by code_simp
  then show ?case by (simp add: ascii_lines_def)
next
  case (Cons l ls)
  then show ?case by (simp add: ascii_lines_def strip_nl_def)
qed

lemma split_frontmatter_lines:
  assumes "\<forall>l\<in>set ls. nl \<notin> set l \<and> trim_end_set [cr] l \<noteq> ''---''"
  shows "split_markdown_frontmatter (ascii_lines ([''---''] @ ls @ [''---'']) @ rest) = Inr (ascii_lines ([''---''] @ ls @ [''---'']), rest)"
proof -
  let ?s = "ascii_lines ([''---''] @ ls @ [''---'']) @ rest"
  have s: "?s = (''---'' @ [nl]) @ ascii_lines ls @ ''---'' @ nl # rest" by (simp add: ascii_lines_def)
  have drop: "drop 4 ?s = ascii_lines (ls @ [''---'']) @ rest" by (simp add: ascii_lines_def)
  have "nl \<notin> set ''---''" by code_simp
  with assms have "split_inclusive (drop 4 ?s) = map (\<lambda>l. l @ [nl]) ls @ (''---'' @ [nl]) # split_inclusive rest"
    unfolding drop by (subst split_inclusive_lines) auto
  then have "closing_position 4 (split_inclusive (drop 4 ?s)) = Some (4 + length (ascii_lines ls) + 4)"
    using closing_lines [of ls 4] assms by simp
  moreover have "starts_with ?s (''---'' @ [nl])" unfolding s by (simp add: starts_with_def)
  ultimately show ?thesis by (simp add: split_markdown_frontmatter_def split_at_closing_def) (simp add: ascii_lines_def)
qed

lemma split_on_lines: "\<forall>l\<in>set ls. nl \<notin> set l \<Longrightarrow> split_on (\<lambda>c. c = nl) (ascii_lines ls) = ls @ [[]]"
proof (induction ls)
  case (Cons l ls)
  have "split_on (\<lambda>c. c = nl) (l @ nl # t) = l # split_on (\<lambda>c. c = nl) t" if "nl \<notin> set l" for t
    using that by (induction l) auto
  with Cons show ?case by (simp add: ascii_lines_def)
qed (simp add: ascii_lines_def)

lemma str_lines_lines: "\<forall>l\<in>set ls. nl \<notin> set l \<Longrightarrow> str_lines (ascii_lines ls) = map strip_cr ls"
  using split_on_lines [of ls] by (simp add: str_lines_def nl_def)

section \<open>Fields of a frontmatter\<close>

lemma utf8_chars_last: "\<not> utf8_continuation b \<Longrightarrow> utf8_chars (s @ [b]) = utf8_chars s @ [[b]]"
proof (induction s rule: utf8_chars.induct)
  case (2 c cs)
  then have "takeWhile utf8_continuation (cs @ [b]) = takeWhile utf8_continuation cs"
    "dropWhile utf8_continuation (cs @ [b]) = dropWhile utf8_continuation cs @ [b]"
    by (simp_all add: takeWhile_tail dropWhile_append)
  with 2 show ?case by simp
qed simp

definition solid :: "char \<Rightarrow> bool" where
  "solid c \<longleftrightarrow> byte c < 128 \<and> \<not> is_whitespace [c]"

lemma solid_lead: "solid a \<Longrightarrow> \<not> is_whitespace (a # cs)"
  by (cases cs) (auto simp: solid_def is_whitespace_def)

lemma trim_solid_start: "solid a \<Longrightarrow> trim_start (a # s) = a # s"
  by (simp add: trim_start_def solid_lead)

lemma trim_solid_end: "solid b \<Longrightarrow> trim_end (s @ [b]) = s @ [b]"
proof -
  assume b: "solid b"
  then have "\<not> utf8_continuation b" by (simp add: solid_def utf8_continuation_def)
  with b show ?thesis by (simp add: trim_end_def utf8_chars_last solid_def)
qed

lemma trim_solid: "solid a \<Longrightarrow> solid b \<Longrightarrow> str_trim (a # s @ [b]) = a # s @ [b]"
  using trim_solid_end [of b "a # s"] by (simp add: str_trim_def trim_solid_start)

lemma trim_space: "s = [] \<or> \<not> utf8_continuation (hd s) \<Longrightarrow> str_trim (CHR '' '' # s) = str_trim s"
proof -
  assume "s = [] \<or> \<not> utf8_continuation (hd s)"
  then have "utf8_chars (CHR '' '' # s) = [CHR '' ''] # utf8_chars s" by (cases s) auto
  moreover have "is_whitespace '' ''" by code_simp
  ultimately show ?thesis by (simp add: str_trim_def trim_start_def)
qed

lemma solid_quote: "solid CHR 0x22" by code_simp

lemma trim_quoted [simp]: "str_trim (in_quotes v) = in_quotes v"
  using trim_solid [OF solid_quote solid_quote, of v] by (simp add: in_quotes_def)

lemma unquote_quoted [simp]: "unquote_frontmatter_value (in_quotes v) = v"
  by (simp add: unquote_frontmatter_value_def Let_def) (simp add: in_quotes_def)

lemma trim_space_quoted: "str_trim (CHR '' '' # in_quotes v) = in_quotes v"
proof -
  have "\<not> utf8_continuation CHR 0x22" by code_simp
  then have "str_trim (CHR '' '' # in_quotes v) = str_trim (in_quotes v)" by (intro trim_space) (simp add: in_quotes_def)
  then show ?thesis by simp
qed

definition field_key :: "string \<Rightarrow> bool" where
  "field_key k \<longleftrightarrow> k \<noteq> [] \<and> solid (hd k) \<and> solid (last k) \<and> CHR '':'' \<notin> set k \<and> hd k \<noteq> CHR ''#''"

lemma split_once_key: "CHR '':'' \<notin> set k \<Longrightarrow> split_once CHR '':'' (k @ CHR '':'' # v) = Some (k, v)"
proof -
  assume "CHR '':'' \<notin> set k"
  then have "takeWhile (\<lambda>d. d \<noteq> CHR '':'') (k @ CHR '':'' # v) = k" by (auto simp: takeWhile_append)
  then show ?thesis by (simp add: split_once_def find_char_def Let_def)
qed

lemma trim_field_key: "field_key k \<Longrightarrow> str_trim k = k"
proof -
  assume k: "field_key k"
  show ?thesis
  proof (cases "length k = 1")
    case True
    then obtain a where "k = [a]" by (auto simp: length_Suc_conv)
    with k show ?thesis using trim_solid_end [of a "[]"] by (simp add: field_key_def str_trim_def trim_solid_start)
  next
    case False
    with k obtain a r where "k = a # r" "r \<noteq> []" by (cases k) (auto simp: field_key_def)
    then have "k = a # butlast r @ [last r]" by simp
    with k \<open>k = a # r\<close> \<open>r \<noteq> []\<close> show ?thesis using trim_solid [of a "last r" "butlast r"] by (simp add: field_key_def)
  qed
qed

lemma quoted_field: "field_key k \<Longrightarrow> frontmatter_field (k @ '': '' @ in_quotes v) = Some (k, v)"
proof -
  assume k: "field_key k"
  then obtain a r where ar: "k = a # r" "solid a" by (cases k) (auto simp: field_key_def)
  let ?line = "k @ '': '' @ in_quotes v"
  have "?line = a # (r @ '': '' @ [CHR 0x22] @ v) @ [CHR 0x22]" by (simp add: ar in_quotes_def)
  then have trim: "str_trim ?line = ?line" using trim_solid [OF ar(2) solid_quote, of "r @ '': '' @ [CHR 0x22] @ v"] by simp
  have "split_once CHR '':'' ?line = Some (k, CHR '' '' # in_quotes v)"
    using split_once_key [of k "CHR '' '' # in_quotes v"] k by (simp add: field_key_def)
  moreover have "?line \<noteq> ''---''"
  proof
    assume "?line = ''---''"
    then have "CHR '':'' \<in> set ''---''" by (metis in_set_conv_decomp append_Cons append_assoc)
    then show False by simp
  qed
  moreover have "\<not> starts_with ?line ''#''" using k by (simp add: ar field_key_def starts_with_def)
  moreover have "?line \<noteq> []" by simp
  ultimately show ?thesis
    unfolding frontmatter_field_def trim Let_def by (simp add: trim_field_key [OF k] trim_space_quoted del: append.simps)
qed

lemma trim_solid_head: "solid a \<Longrightarrow> \<exists>r. str_trim (a # t) = a # r"
proof -
  assume a: "solid a"
  let ?us = "utf8_chars (dropWhile utf8_continuation t)" and ?u = "a # takeWhile utf8_continuation t"
  have "dropWhile is_whitespace (rev ?us @ [?u]) = dropWhile is_whitespace (rev ?us) @ [?u]"
    by (simp add: dropWhile_append solid_lead [OF a])
  then show ?thesis by (simp add: str_trim_def trim_solid_start [OF a] trim_end_def)
qed

lemma item_field: "frontmatter_field (''  - '' @ in_quotes v) = Some (k, w) \<Longrightarrow> hd k = CHR ''-''"
proof -
  assume f: "frontmatter_field (''  - '' @ in_quotes v) = Some (k, w)"
  have dash: "solid CHR ''-''" "\<not> utf8_continuation CHR ''-''" "\<not> utf8_continuation CHR '' ''" by code_simp+
  have "str_trim (''  - '' @ in_quotes v) = str_trim (''- '' @ in_quotes v)"
    using trim_space [of "'' - '' @ in_quotes v"] trim_space [of "''- '' @ in_quotes v"] dash by simp
  also have "\<dots> = ''- '' @ in_quotes v" using trim_solid [OF dash(1) solid_quote, of "'' '' @ [CHR 0x22] @ v"] by (simp add: in_quotes_def)
  finally have t: "str_trim (''  - '' @ in_quotes v) = CHR ''-'' # CHR '' '' # in_quotes v" by simp
  from f obtain key where key: "split_once CHR '':'' (CHR ''-'' # CHR '' '' # in_quotes v) = Some (key, drop (length key + 1) (CHR ''-'' # CHR '' '' # in_quotes v))"
    "k = str_trim key"
    unfolding frontmatter_field_def Let_def t by (auto simp: split_once_def find_char_def Let_def split: if_splits)
  then obtain r where "key = CHR ''-'' # r" by (auto simp: split_once_def find_char_def Let_def split: if_splits)
  with key(2) trim_solid_head [OF dash(1), of r] show ?thesis by auto
qed

lemma bt_get_last_of_list: "k \<notin> fst ` set ys \<Longrightarrow> bt_get (bt_of_list (xs @ (k, v) # ys)) k = Some v"
proof (induction ys rule: rev_induct)
  case Nil
  then show ?case using bt_of_list_snoc [of xs k v] bt_wf_of_list [of xs] by simp
next
  case (snoc y ys)
  obtain j w where y: "y = (j, w)" by (cases y)
  have "bt_of_list (xs @ (k, v) # ys @ [(j, w)]) = bt_insert j w (bt_of_list (xs @ (k, v) # ys))"
    using bt_of_list_snoc [of "xs @ (k, v) # ys" j w] by simp
  with snoc y show ?case using bt_wf_of_list [of "xs @ (k, v) # ys"] by auto
qed

definition quoted_fields :: "talk_append_request \<Rightarrow> wiki_page \<Rightarrow> string \<Rightarrow> string option \<Rightarrow> string \<Rightarrow> talk_thread_target \<Rightarrow>
    (string \<times> string) list" where
  "quoted_fields q p message_id operation_id created_at target =
     [(''id'', message_id)] @ (case operation_id of None \<Rightarrow> [] | Some op \<Rightarrow> [(''operation_id'', escape_yaml op)]) @
     [(''kind'', tq_kind q), (''author'', tq_from q), (''created'', created_at), (''talk_for'', ''mailbox://page/'' @ pg_id p),
      (''thread'', th_thread_id target)] @ (case th_reply_to target of None \<Rightarrow> [] | Some r \<Rightarrow> [(''reply_to'', escape_yaml r)]) @
     [(''subject'', escape_yaml (tq_subject q))]"

definition quoted_line :: "string \<times> string \<Rightarrow> string" where
  "quoted_line kv = fst kv @ '': '' @ in_quotes (snd kv)"

lemma talk_fields_lines: "talk_fields q p message_id operation_id created_at target [] =
    map quoted_line (quoted_fields q p message_id operation_id created_at target) @ ''state: open'' #
      recipient_lines (talk_recipients q) @ [''attachments: []'']"
  by (simp add: talk_fields_def quoted_fields_def quoted_line_def attachment_lines_def split: option.splits)

definition quoted_names :: "string list" where
  "quoted_names = [''id'', ''operation_id'', ''kind'', ''author'', ''created'', ''talk_for'', ''thread'', ''reply_to'', ''subject'']"

lemma quoted_fields_names: "kv \<in> set (quoted_fields q p message_id operation_id created_at target) \<Longrightarrow> fst kv \<in> set quoted_names"
  by (cases operation_id; cases "th_reply_to target") (auto simp: quoted_fields_def quoted_names_def)

lemma quoted_names_solid: "k \<in> set quoted_names \<Longrightarrow> field_key k \<and> hd k \<noteq> CHR ''-''"
proof -
  have "list_all (\<lambda>k. field_key k \<and> hd k \<noteq> CHR ''-'') quoted_names" by code_simp
  then show "k \<in> set quoted_names \<Longrightarrow> field_key k \<and> hd k \<noteq> CHR ''-''" unfolding list_all_iff by blast
qed

lemma quoted_keys: "kv \<in> set (quoted_fields q p message_id operation_id created_at target) \<Longrightarrow> field_key (fst kv) \<and> hd (fst kv) \<noteq> CHR ''-''"
  using quoted_fields_names quoted_names_solid by blast

lemma set_map_filter: "y \<in> set (List.map_filter f xs) \<longleftrightarrow> (\<exists>x\<in>set xs. f x = Some y)"
  by (force simp: List.map_filter_def)

lemma quoted_lines_fields: "\<forall>kv\<in>set kvs. field_key (fst kv) \<Longrightarrow> List.map_filter frontmatter_field (map quoted_line kvs) = kvs"
  by (induction kvs) (auto simp: List.map_filter_simps quoted_line_def quoted_field [simplified])

lemma recipient_line_cases:
  assumes "l \<in> set (recipient_lines rs)"
  obtains "l \<in> {''recipients: []'', ''recipients:''}" | v where "l = ''  - '' @ in_quotes v"
proof (cases "rs = []")
  case True
  with assms have "l = ''recipients: []''" by (simp add: recipient_lines_def)
  with that(1) show thesis by blast
next
  case False
  with assms consider "l = ''recipients:''" | "l \<in> (\<lambda>r. ''  - '' @ in_quotes (escape_yaml r)) ` set rs"
    by (auto simp: recipient_lines_def simp del: append.simps)
  then show thesis using that by cases blast+
qed

lemma other_fields:
  assumes "k \<in> fst ` set (List.map_filter frontmatter_field (''state: open'' # recipient_lines rs @ [''attachments: []'']))"
  shows "hd k = CHR ''-'' \<or> k \<in> {''state'', ''recipients'', ''attachments''}"
proof -
  have literals: "frontmatter_field ''state: open'' = Some (''state'', ''open'')" "frontmatter_field ''recipients: []'' = Some (''recipients'', ''[]'')"
    "frontmatter_field ''recipients:'' = Some (''recipients'', [])" "frontmatter_field ''attachments: []'' = Some (''attachments'', ''[]'')"
    by code_simp+
  from assms obtain l v where l: "l \<in> set (''state: open'' # recipient_lines rs @ [''attachments: []''])" "frontmatter_field l = Some (k, v)"
    by (auto simp only: set_map_filter image_iff fst_conv prod.collapse)
  from l(1) consider "l \<in> {''state: open'', ''recipients: []'', ''recipients:'', ''attachments: []''}" | r where "l = ''  - '' @ in_quotes r"
    by (simp only: set_append list.set Un_iff insert_iff empty_iff) (blast elim: recipient_line_cases)
  then show ?thesis
  proof cases
    case 1
    with l(2) literals show ?thesis by auto
  next
    case 2
    with l(2) item_field show ?thesis by blast
  qed
qed

lemma talk_line_shape:
  assumes "l \<in> set (talk_fields q p message_id operation_id created_at target [])"
  shows "strip_cr l = l" "trim_end_set [cr] l \<noteq> ''---''"
proof -
  from assms consider kv where "l = quoted_line kv" "kv \<in> set (quoted_fields q p message_id operation_id created_at target)"
    | "l \<in> {''state: open'', ''attachments: []'', ''recipients: []'', ''recipients:''}" | v where "l = ''  - '' @ in_quotes v"
    unfolding talk_fields_lines by (simp only: set_append set_map list.set Un_iff insert_iff empty_iff image_iff) (blast elim: recipient_line_cases)
  then have shape: "l \<noteq> [] \<and> last l \<noteq> cr \<and> hd l \<noteq> CHR ''-''"
  proof cases
    case (1 kv)
    have "cr \<noteq> CHR 0x22" by code_simp
    with 1(1) quoted_keys [OF 1(2)] show ?thesis by (auto simp: quoted_line_def in_quotes_def field_key_def)
  next
    case 2
    have "list_all (\<lambda>l. l \<noteq> [] \<and> last l \<noteq> cr \<and> hd l \<noteq> CHR ''-'') [''state: open'', ''attachments: []'', ''recipients: []'', ''recipients:'']"
      by code_simp
    with 2 show ?thesis by auto
  next
    case (3 v)
    have "cr \<noteq> CHR 0x22" by code_simp
    with 3 show ?thesis by (simp add: in_quotes_def)
  qed
  then show "strip_cr l = l" by (simp add: strip_cr_def cr_def)
  show "trim_end_set [cr] l \<noteq> ''---''"
  proof
    from shape have "trim_end_set [cr] l = l" by (cases l rule: rev_cases) (auto simp: trim_end_set_def)
    moreover assume "trim_end_set [cr] l = ''---''"
    ultimately have "hd l = CHR ''-''" by auto
    with shape show False by blast
  qed
qed

lemma talk_text_split:
  assumes "\<forall>l\<in>set (talk_fields q p message_id operation_id created_at target []). nl \<notin> set l"
  shows "\<exists>rest. talk_text q p message_id operation_id created_at target [] =
      ascii_lines ([''---''] @ talk_fields q p message_id operation_id created_at target [] @ [''---'']) @ rest \<and>
    split_markdown_frontmatter (talk_text q p message_id operation_id created_at target []) =
      Inr (ascii_lines ([''---''] @ talk_fields q p message_id operation_id created_at target [] @ [''---'']), rest)"
proof -
  let ?ls = "talk_fields q p message_id operation_id created_at target []"
  have "\<forall>l\<in>set ?ls. nl \<notin> set l \<and> trim_end_set [cr] l \<noteq> ''---''" using assms talk_line_shape(2) by blast
  from split_frontmatter_lines [OF this] show ?thesis
    by (intro exI [of _ "[nl] @ ''## '' @ tq_subject q @ [nl, nl] @ tq_body_markdown q @ attachment_section p [] @ [nl]"])
      (simp add: talk_text_def ascii_lines_def)
qed

lemma talk_text_fields:
  assumes "\<forall>l\<in>set (talk_fields q p message_id operation_id created_at target []). nl \<notin> set l"
  shows "\<exists>others. parse_simple_frontmatter_fields (talk_text q p message_id operation_id created_at target []) =
      Inr (bt_of_list (quoted_fields q p message_id operation_id created_at target @ others)) \<and>
    (\<forall>k\<in>fst ` set others. hd k = CHR ''-'' \<or> k \<in> {''state'', ''recipients'', ''attachments''})"
proof -
  let ?ls = "talk_fields q p message_id operation_id created_at target []"
  let ?others = "List.map_filter frontmatter_field (''state: open'' # recipient_lines (talk_recipients q) @ [''attachments: []''])"
  have dashes: "nl \<notin> set ''---''" "strip_cr ''---'' = ''---''" "frontmatter_field ''---'' = None" by code_simp+
  have "map strip_cr ?ls = ?ls" using talk_line_shape(1) by (simp add: map_idI)
  then have "str_lines (ascii_lines ([''---''] @ ?ls @ [''---''])) = [''---''] @ ?ls @ [''---'']"
    using assms dashes by (subst str_lines_lines) auto
  moreover have "List.map_filter frontmatter_field ([''---''] @ ?ls @ [''---'']) =
      quoted_fields q p message_id operation_id created_at target @ ?others"
    unfolding talk_fields_lines
    using quoted_lines_fields [of "quoted_fields q p message_id operation_id created_at target"] quoted_keys
    by (simp add: List.map_filter_def dashes(3) del: map_map)
  ultimately show ?thesis using talk_text_split [OF assms] other_fields
    by (intro exI [of _ ?others]) (auto simp: parse_simple_frontmatter_fields_def)
qed

section \<open>Retries\<close>

lemma ensure_files [simp]: "ws_files (ensure_runtime_dirs env st) = ws_files st"
  by (simp add: ensure_runtime_dirs_def create_dirs_def)

lemma create_dirs_files [simp]: "ws_files (create_dirs p st) = ws_files st"
  by (simp add: create_dirs_def)

lemma create_dirs_present: "set (path_ancestors p) \<subseteq> set (ws_dirs st) \<Longrightarrow> create_dirs p st = st"
proof -
  assume "set (path_ancestors p) \<subseteq> set (ws_dirs st)"
  then have "filter (\<lambda>d. d \<notin> set (ws_dirs st)) (path_ancestors p) = []" by (auto simp: filter_empty_conv)
  then show ?thesis by (simp add: create_dirs_def)
qed

lemma dirs_of_create [simp]: "set (ws_dirs (create_dirs p st)) = set (path_ancestors p) \<union> set (ws_dirs st)"
  by (auto simp: create_dirs_def)

lemma dirs_of_put [simp]: "ws_dirs (put_file x c st) = ws_dirs st"
  by (simp add: put_file_def)

lemma ensure_again: "ws_dirs st' = ws_dirs (ensure_runtime_dirs env st) \<Longrightarrow> ensure_runtime_dirs env st' = st'"
proof -
  assume same: "ws_dirs st' = ws_dirs (ensure_runtime_dirs env st)"
  then have "set (path_ancestors (path_join (user_wiki env) ''.1context'')) \<subseteq> set (ws_dirs st')"
    "set (path_ancestors (path_join (wiki_source env) ''families'')) \<subseteq> set (ws_dirs st')" by (auto simp: ensure_runtime_dirs_def)
  then show ?thesis by (simp add: ensure_runtime_dirs_def create_dirs_present)
qed

lemma talk_plan_parts:
  assumes "talk_plan env now file_stamp q st = Inr (p, op, target, path, created_at)"
  shows "talk_page env st q = Inr p" "checked_target_id (tq_operation_id q) ''--operation-id'' = Inr op"
    "resolve_talk_thread_target env st p q (default_thread_id p (tq_subject q)) = Inr target"
    "path = talk_source_path env p (talk_stamp env file_stamp op) (tq_kind q) (tq_subject q)"
    "created_at = or_text (existing_talk_created_at st path) now"
  using assms by (auto simp: talk_plan_def try_then_Inr Let_def)

lemma checked_operation: "checked_target_id v flag = Inr op \<Longrightarrow> v \<noteq> None \<Longrightarrow> op \<noteq> None"
  by (auto simp: checked_target_id_def map_sum_def split: option.splits sum.splits)

lemma talk_page_found:
  assumes "talk_page env st q = Inr p"
  shows "\<exists>pages. wiki_pages env st = Inr pages \<and> List.find (\<lambda>p. pg_id p = tq_page q \<or> pg_route p = tq_page q) pages = Some p"
  using assms by (auto simp: talk_page_def try_then_Inr ok_or_def split: option.splits if_splits)

lemma pages_of_config: "bt_get (ws_files st) (config_path env) = bt_get (ws_files st') (config_path env) \<Longrightarrow>
    wiki_pages env st = wiki_pages env st' \<and> wiki_site_pages env st = wiki_site_pages env st'"
  by (simp add: wiki_pages_def wiki_site_pages_def wiki_config_def read_text_file_def)

lemma registry_is_read: "wiki_pages env st = Inr pages \<Longrightarrow> bt_get (ws_files st) (config_path env) \<noteq> None"
  by (auto simp: wiki_pages_def wiki_config_def try_then_Inr read_text_file_def ok_or_def split: option.splits)

text \<open>The page of a request does not change while messages are appended.\<close>

lemma same_talk_page:
  assumes "append_talk env menv now file_stamp q (st, ms) = (r, st1, ms1)" "bt_wf (ws_files st)"
    and "talk_page env (ensure_runtime_dirs env st) q' = Inr p" "talk_page env (ensure_runtime_dirs env st1) q' = Inr p'"
  shows "p' = p"
proof -
  from talk_page_found [OF assms(3)] obtain pages where pages: "wiki_pages env (ensure_runtime_dirs env st) = Inr pages"
    "List.find (\<lambda>p. pg_id p = tq_page q' \<or> pg_route p = tq_page q') pages = Some p" by blast
  from registry_is_read [OF pages(1)] obtain c where "bt_get (ws_files st) (config_path env) = Some c" by auto
  moreover from this append_talk_holds [of "config_path env" c st env menv now file_stamp q ms] assms(1,2)
  have "bt_get (ws_files st1) (config_path env) = Some c" by (simp add: holds_def)
  ultimately have "wiki_pages env (ensure_runtime_dirs env st1) = Inr pages"
    using pages(1) pages_of_config [of "ensure_runtime_dirs env st" env "ensure_runtime_dirs env st1"] by simp
  with talk_page_found [OF assms(4)] pages(2) show ?thesis by auto
qed

lemma pending_same: "pending_attachments P page_id message_id inputs used = Inr rs \<Longrightarrow>
    pending_attachments Q page_id message_id inputs used = Inr rs' \<Longrightarrow> rs' = rs"
proof (induction inputs arbitrary: used rs rs')
  case (Cons input inputs)
  then show ?case by (fastforce simp: try_then_Inr split: if_splits option.splits)
qed simp

lemma pending_length: "pending_attachments P page_id message_id inputs used = Inr rs \<Longrightarrow> length rs = length inputs"
  by (induction inputs arbitrary: used rs) (fastforce simp: try_then_Inr split: if_splits option.splits)+

lemma copied_first:
  assumes "copy_each env dir ((input, r) # rest) st = (Inr u, st1)" "bt_wf (ws_files st)"
  shows "\<exists>c. holds (path_join dir (tr_filename r)) c st1"
proof -
  let ?x = "path_join dir (tr_filename r)" and ?c = "file_content st (ti_path input)"
  from assms(1) have "copy_each env dir rest (put_file ?x ?c st) = (Inr u, st1)" by (auto split: if_splits)
  moreover have "holds ?x ?c (put_file ?x ?c st)" using assms(2) by (simp add: holds_def put_file_def)
  ultimately show ?thesis using holds_copy_each [of ?x ?c "put_file ?x ?c st" env dir rest] by auto
qed

lemma append_talk_delivery:
  assumes "append_talk env menv now file_stamp q (st, ms) = (Inr r, st1, ms1)"
    and plan: "talk_plan env now file_stamp q (ensure_runtime_dirs env st) = Inr (p, op, target, path, created_at)"
    and copy: "copy_talk_attachments env p (talk_message_id env file_stamp (tq_subject q) op) (tq_attachments q) (ensure_runtime_dirs env st) = (Inr records, mid)"
    and source: "write_talk_source path (talk_text q p (talk_message_id env file_stamp (tq_subject q) op) op created_at target records) op mid = (Inr (), st2)"
    and mail: "send_talk_mail env menv st2 q p (talk_message_id env file_stamp (tq_subject q) op) target created_at op records ms = (d, ms2)"
  shows "st2 = st1" "tq_delivery_mode q \<noteq> MailDelivery \<Longrightarrow> ms1 = ms" "tq_delivery_mode q = MailDelivery \<Longrightarrow> ms1 = ms2"
    "r = talk_result q p (talk_message_id env file_stamp (tq_subject q) op) target created_at records
       (if tq_delivery_mode q = MailDelivery then mail_outcome d else (''appended'', None, []))"
  using assms(1) source by (auto simp: append_talk_def plan copy mail Let_def split: if_splits)

lemma append_talk_Inr:
  assumes "append_talk env menv now file_stamp q (st, ms) = (Inr r, st1, ms1)"
  obtains p op target path created_at records mid where
    "talk_plan env now file_stamp q (ensure_runtime_dirs env st) = Inr (p, op, target, path, created_at)"
    "copy_talk_attachments env p (talk_message_id env file_stamp (tq_subject q) op) (tq_attachments q) (ensure_runtime_dirs env st) = (Inr records, mid)"
    "write_talk_source path (talk_text q p (talk_message_id env file_stamp (tq_subject q) op) op created_at target records) op mid = (Inr (), st1)"
proof -
  let ?st0 = "ensure_runtime_dirs env st"
  from assms obtain p op target path created_at where plan: "talk_plan env now file_stamp q ?st0 = Inr (p, op, target, path, created_at)"
    by (cases "talk_plan env now file_stamp q ?st0") (auto simp: append_talk_def)
  let ?mid = "talk_message_id env file_stamp (tq_subject q) op"
  obtain c mid where c: "copy_talk_attachments env p ?mid (tq_attachments q) ?st0 = (c, mid)" by fastforce
  from assms plan c obtain records where records: "c = Inr records" by (cases c) (auto simp: append_talk_def Let_def)
  let ?t = "talk_text q p ?mid op created_at target records"
  obtain w st2 where w: "write_talk_source path ?t op mid = (w, st2)" by fastforce
  from assms plan c records w have u: "w = Inr ()" by (cases w) (auto simp: append_talk_def Let_def)
  obtain d ms2 where d: "send_talk_mail env menv st2 q p ?mid target created_at op records ms = (d, ms2)" by fastforce
  from append_talk_delivery(1) [OF assms plan c [unfolded records] w [unfolded u] d] have "st2 = st1" .
  with that plan c records w u show thesis by blast
qed

lemma first_attachment_there:
  assumes "copy_talk_attachments env p message_id inputs st = (Inr records, st1)" "bt_wf (ws_files st)" "inputs \<noteq> []"
  obtains input inputs' r rs c where "inputs = input # inputs'" "records = r # rs"
    "holds (path_join (attachment_dir env p message_id) (tr_filename r)) c st1"
proof -
  let ?dir = "attachment_dir env p message_id"
  from assms(1,3) have pending: "pending_attachments (is_file st) (pg_id p) message_id inputs [] = Inr records"
    and copied: "\<exists>u. copy_each env ?dir (zip inputs records) (create_dirs ?dir st) = (Inr u, st1)"
    by (auto simp: copy_talk_attachments_def st_try_def st_then_def split: sum.splits prod.splits)
  from pending_length [OF pending] assms(3) obtain input inputs' r rs where lists: "inputs = input # inputs'" "records = r # rs"
    by (cases inputs; cases records) auto
  with copied have "\<exists>u. copy_each env ?dir ((input, r) # zip inputs' rs) (create_dirs ?dir st) = (Inr u, st1)" by simp
  with copied_first [of env ?dir input r "zip inputs' rs" "create_dirs ?dir st" _ st1] assms(2)
  obtain c where "holds (path_join ?dir (tr_filename r)) c st1" by auto
  with that lists show thesis by blast
qed

lemma copy_again_fails:
  assumes "copy_talk_attachments env p message_id inputs st = (Inr records, st1)" "bt_wf (ws_files st)" "inputs \<noteq> []"
    and there: "\<And>x c. holds x c st1 \<Longrightarrow> holds x c st2"
  shows "\<exists>e st3. copy_talk_attachments env p message_id inputs st2 = (Inl e, st3) \<and> ws_files st3 = ws_files st2"
proof -
  let ?dir = "attachment_dir env p message_id"
  from first_attachment_there [OF assms(1-3)] obtain input inputs' r rs c where lists: "inputs = input # inputs'" "records = r # rs"
    and first: "holds (path_join ?dir (tr_filename r)) c st1" by blast
  from holds_create_dirs [OF there [OF first], of ?dir] have exists: "wiki_path_exists (create_dirs ?dir st2) (path_join ?dir (tr_filename r))"
    by (auto simp: wiki_path_exists_def dest: holds_is_file)
  from assms(1,3) have pending: "pending_attachments (is_file st) (pg_id p) message_id inputs [] = Inr records"
    by (auto simp: copy_talk_attachments_def st_try_def st_then_def split: sum.splits prod.splits)
  show ?thesis
  proof (cases "pending_attachments (is_file st2) (pg_id p) message_id inputs []")
    case (Inl e)
    with assms(3) show ?thesis by (simp add: copy_talk_attachments_def st_try_def)
  next
    case (Inr records')
    with pending_same [OF pending] lists have "records' = r # rs" by blast
    with Inr exists assms(3) lists(1) show ?thesis by (simp add: copy_talk_attachments_def st_try_def st_then_def)
  qed
qed

text \<open>C38. A message with attachments cannot be retried: once it was appended under an operation identifier, the same request
  always fails, since every attachment is created anew and is there already, and neither the files nor the mail change.\<close>

theorem retried_attachments_fail:
  assumes "append_talk env menv now file_stamp q (st, ms) = (Inr r, st1, ms1)" "bt_wf (ws_files st)"
    and "tq_attachments q \<noteq> []" "tq_operation_id q \<noteq> None"
  shows "\<exists>e st2. append_talk env menv now2 file_stamp2 q (st1, ms1) = (Inl e, st2, ms1) \<and> ws_files st2 = ws_files st1"
proof -
  let ?st0 = "ensure_runtime_dirs env st" and ?st1 = "ensure_runtime_dirs env st1"
  obtain p op target path created_at records mid where
    plan: "talk_plan env now file_stamp q ?st0 = Inr (p, op, target, path, created_at)" and
    copy: "copy_talk_attachments env p (talk_message_id env file_stamp (tq_subject q) op) (tq_attachments q) ?st0 = (Inr records, mid)" and
    source: "write_talk_source path (talk_text q p (talk_message_id env file_stamp (tq_subject q) op) op created_at target records) op mid = (Inr (), st1)"
    using append_talk_Inr [OF assms(1)] .
  show ?thesis
  proof (cases "talk_plan env now2 file_stamp2 q ?st1")
    case (Inl e)
    then show ?thesis by (simp add: append_talk_def st_try_def)
  next
    case (Inr again)
    obtain p' op' target' path' created' where again: "again = (p', op', target', path', created')" by (cases again) auto
    note first = talk_plan_parts [OF plan] and second = talk_plan_parts [OF Inr [unfolded again]]
    from same_talk_page [OF assms(1,2) first(1) second(1)] first(2) second(2) have same: "p' = p" "op' = op" by simp_all
    from checked_operation [OF first(2) assms(4)] obtain k where "op = Some k" by auto
    then have ids: "talk_message_id env file_stamp2 (tq_subject q) op = talk_message_id env file_stamp (tq_subject q) op"
      by (simp add: talk_message_id_def)
    have "holds x c ?st1" if "holds x c mid" for x c
      using holds_write_talk_source [OF that, of path "talk_text q p (talk_message_id env file_stamp (tq_subject q) op) op created_at target records" op]
        source by (simp add: holds_def)
    from copy_again_fails [OF copy _ assms(3) this] assms(2) obtain e st3 where
      "copy_talk_attachments env p (talk_message_id env file_stamp (tq_subject q) op) (tq_attachments q) ?st1 = (Inl e, st3)" "ws_files st3 = ws_files ?st1"
      by auto
    then show ?thesis by (intro exI [of _ e] exI [of _ st3]) (simp add: append_talk_def st_try_def Inr again same ids)
  qed
qed

section \<open>A retry without attachments\<close>

lemma tombstone_last: "last (tombstone_path env p) = CHR ''l''"
  by (simp add: tombstone_path_def with_extension_def Let_def)

lemma talk_path_last: "path = talk_source_path env p stamp kind subject \<Longrightarrow> last path = CHR ''d''"
  by (simp add: talk_source_path_def path_join_def)

lemma talk_page_stable:
  assumes "talk_page env st q = Inr p" "bt_get (ws_files st') (config_path env) = bt_get (ws_files st) (config_path env)"
    and there: "\<And>x. wiki_path_exists st x \<Longrightarrow> wiki_path_exists st' x"
    and closed: "\<And>p. wiki_path_exists st' (tombstone_path env p) = wiki_path_exists st (tombstone_path env p)"
  shows "talk_page env st' q = Inr p"
proof -
  from assms(1) obtain pages status where pages: "wiki_pages env st = Inr pages"
      "List.find (\<lambda>p. pg_id p = tq_page q \<or> pg_route p = tq_page q) pages = Some p"
    and status: "page_status env st (pg_id p) = Inr status" "tq_allow_tombstoned q \<or> \<not> closed_state (st_state status)"
    and dir: "wiki_path_exists st (talk_dir env p)"
    by (auto simp: talk_page_def try_then_Inr ok_or_def split: option.splits if_splits)
  from status(1) pages(1) obtain site_pages where site: "wiki_site_pages env st = Inr site_pages"
    by (auto simp: page_status_def inventory_def try_then_Inr)
  from pages(2) have "p \<in> set pages" by (auto simp: find_Some_iff)
  moreover have "matches_reference (pg_id p) (pg_id p) (pg_route p)" by (simp add: matches_reference_def)
  ultimately obtain p0 where p0: "List.find (\<lambda>p0. matches_reference (pg_id p) (pg_id p0) (pg_route p0)) pages = Some p0"
    by (cases "List.find (\<lambda>p0. matches_reference (pg_id p) (pg_id p0) (pg_route p0)) pages") (auto simp: find_None_iff)
  from pages_of_config [OF assms(2)] pages(1) site have pages': "wiki_pages env st' = Inr pages" "wiki_site_pages env st' = Inr site_pages" by simp_all
  from status page_status_first [OF pages(1) site p0] have open_page: "tq_allow_tombstoned q \<or> \<not> closed_state (page_state env st' p0 (page_is_stale env st' p0))"
    by (auto simp: closed_page_state closed)
  show ?thesis using open_page there [OF dir] by (auto simp: talk_page_def pages' pages(2) ok_or_def page_status_first [OF pages' p0])
qed

lemma created_reads_back:
  assumes "\<forall>l\<in>set (talk_fields q p message_id operation_id created_at target []). nl \<notin> set l"
    and "bt_get (ws_files st) path = Some (talk_text q p message_id operation_id created_at target [])"
  shows "existing_talk_created_at st path = Some created_at"
proof -
  from talk_text_fields [OF assms(1)] obtain others where
    fields: "parse_simple_frontmatter_fields (talk_text q p message_id operation_id created_at target []) =
      Inr (bt_of_list (quoted_fields q p message_id operation_id created_at target @ others))"
    and others: "\<forall>k\<in>fst ` set others. hd k = CHR ''-'' \<or> k \<in> {''state'', ''recipients'', ''attachments''}" by blast
  let ?after = "[(''talk_for'', ''mailbox://page/'' @ pg_id p), (''thread'', th_thread_id target)] @
    (case th_reply_to target of None \<Rightarrow> [] | Some r \<Rightarrow> [(''reply_to'', escape_yaml r)]) @ [(''subject'', escape_yaml (tq_subject q))] @ others"
  have "\<exists>before. quoted_fields q p message_id operation_id created_at target @ others = before @ (''created'', created_at) # ?after"
    by (intro exI [of _ "[(''id'', message_id)] @ (case operation_id of None \<Rightarrow> [] | Some op \<Rightarrow> [(''operation_id'', escape_yaml op)]) @
      [(''kind'', tq_kind q), (''author'', tq_from q)]"]) (simp add: quoted_fields_def)
  moreover have "''created'' \<notin> fst ` set others"
  proof
    assume "''created'' \<in> fst ` set others"
    with others have "hd ''created'' = CHR ''-'' \<or> ''created'' \<in> {''state'', ''recipients'', ''attachments''}" by blast
    then show False by simp
  qed
  then have "''created'' \<notin> fst ` set ?after" by (cases "th_reply_to target") simp_all
  ultimately have "bt_get (bt_of_list (quoted_fields q p message_id operation_id created_at target @ others)) ''created'' = Some created_at"
    using bt_get_last_of_list by metis
  with fields assms(2) show ?thesis by (simp add: existing_talk_created_at_def)
qed

lemma mail_sent_again:
  assumes "send_talk_mail env menv st q p message_id target created_at op [] ms = (d, ms1)" "isl d = False"
  shows "st_deliveries (snd (send_talk_mail env menv st' q p message_id target created_at op [] ms1)) = st_deliveries ms1"
proof -
  let ?e = "talk_envelope env q p message_id target created_at op []"
  from assms obtain receipt where first: "send_mail menv ?e (tq_body_markdown q) None ms = (Inr receipt, ms1)"
    by (auto simp: send_talk_mail_def split: prod.splits sum.splits)
  then have "sent_ok (send_mail menv ?e (tq_body_markdown q) None ms)" by (simp add: sent_ok_def)
  from sending_again [OF this] first have "delivers_nothing (send_mail menv ?e (tq_body_markdown q) None ms1) ms1" by simp
  then show ?thesis by (auto simp: delivers_nothing_def send_talk_mail_def split: prod.splits sum.splits)
qed

lemma first_message_writes:
  assumes "write_talk_source path content op st = (Inr (), st1)" "\<not> wiki_path_exists st path" "bt_wf (ws_files st)"
    and "set (path_ancestors (path_parent path)) \<subseteq> set (ws_dirs st)"
  shows "st1 = put_file path content st" "bt_get (ws_files st1) path = Some content"
  using assms by (auto simp: write_talk_source_def create_dirs_present put_file_def)

lemma exists_after_put: "bt_wf (ws_files st) \<Longrightarrow> wiki_path_exists (put_file path content st) x \<longleftrightarrow> x = path \<or> wiki_path_exists st x"
  by (auto simp: wiki_path_exists_def is_file_def is_dir_def bt_contains_def put_file_def)

text \<open>The plan of a retry: the page, the identifiers, the thread, the path and the time are those of the first time.\<close>

lemma plan_again:
  assumes "talk_plan env now file_stamp q st = Inr (p, Some op, target, path, created_at)" "bt_wf (ws_files st)"
    and "tq_thread_id q = None" "tq_reply_to q = None" "\<not> wiki_path_exists st path"
    and "\<forall>l\<in>set (talk_fields q p message_id (Some op) created_at target []). nl \<notin> set l"
  shows "talk_plan env now2 file_stamp2 q (put_file path (talk_text q p message_id (Some op) created_at target []) st) =
    Inr (p, Some op, target, path, created_at)"
proof -
  let ?st = "put_file path (talk_text q p message_id (Some op) created_at target []) st"
  note first = talk_plan_parts [OF assms(1)]
  have last: "last path = CHR ''d''" using first(4) by (rule talk_path_last)
  have other: "bt_get (ws_files ?st) x = bt_get (ws_files st) x" if "x \<noteq> path" for x
    using that assms(2) by (simp add: put_file_def)
  from talk_page_found [OF first(1)] registry_is_read have "bt_get (ws_files st) (config_path env) \<noteq> None" by blast
  with assms(5) have "config_path env \<noteq> path" by (auto simp: wiki_path_exists_def is_file_def bt_contains_def)
  then have config: "bt_get (ws_files ?st) (config_path env) = bt_get (ws_files st) (config_path env)" by (rule other)
  have open_tombs: "wiki_path_exists ?st (tombstone_path env p0) = wiki_path_exists st (tombstone_path env p0)" for p0
  proof -
    have "tombstone_path env p0 \<noteq> path" using last tombstone_last [of env p0] by auto
    then show ?thesis by (simp add: exists_after_put [OF assms(2)])
  qed
  have "wiki_path_exists ?st x" if "wiki_path_exists st x" for x using that by (simp add: exists_after_put [OF assms(2)])
  then have "talk_page env ?st q = Inr p" by (rule talk_page_stable [OF first(1) config _ open_tombs])
  moreover have "existing_talk_created_at ?st path = Some created_at"
    using assms(2) by (intro created_reads_back [OF assms(6)]) (simp add: put_file_def)
  moreover have "talk_stamp env file_stamp2 (Some op) = talk_stamp env file_stamp (Some op)" by (simp add: talk_stamp_def)
  moreover have "resolve_talk_thread_target env ?st p q (default_thread_id p (tq_subject q)) = Inr target"
    using first(3) assms(3,4) by (simp add: resolve_talk_thread_target_def checked_target_id_def)
  moreover have "or_text (Some created_at) now2 = created_at" by (simp add: or_text_def)
  ultimately show ?thesis
    unfolding talk_plan_def first(2) try_then_eqs Let_def by (simp only: try_then_eqs first(2) first(4) [symmetric])
qed

lemma no_attachments_copied [simp]: "copy_talk_attachments env p message_id [] st = (Inr [], st)"
  by (simp add: copy_talk_attachments_def)

lemma message_kept: "wiki_path_exists st path \<Longrightarrow> write_talk_source path content (Some op) st = (Inr (), st)"
  by (simp add: write_talk_source_def)

lemma talk_message_id_again: "talk_message_id env file_stamp subject (Some op) = talk_message_id env file_stamp2 subject (Some op)"
  by (simp add: talk_message_id_def)

lemma failed_status: "fst (mail_outcome d) \<noteq> ''appended_delivery_failed'' \<Longrightarrow> isl d = False"
  by (cases d) (simp_all add: mail_outcome_def)

lemma talk_result_parts [simp]:
  "tt_message_id (talk_result q p message_id target created_at records outcome) = message_id"
  "tt_thread_id (talk_result q p message_id target created_at records outcome) = th_thread_id target"
  "tt_created_at (talk_result q p message_id target created_at records outcome) = created_at"
  "tt_status (talk_result q p message_id target created_at records outcome) = fst outcome"
  by (simp_all add: talk_result_def split: prod.splits)

lemma append_talk_ok:
  assumes "talk_plan env now file_stamp q (ensure_runtime_dirs env st) = Inr (p, op, target, path, created_at)"
    and "talk_message_id env file_stamp (tq_subject q) op = message_id"
    and "copy_talk_attachments env p message_id (tq_attachments q) (ensure_runtime_dirs env st) = (Inr records, mid)"
    and "write_talk_source path (talk_text q p message_id op created_at target records) op mid = (Inr (), st2)"
    and "send_talk_mail env menv st2 q p message_id target created_at op records ms = (d, ms2)"
  shows "append_talk env menv now file_stamp q (st, ms) = (Inr (talk_result q p message_id target created_at records
    (if tq_delivery_mode q = MailDelivery then mail_outcome d else (''appended'', None, []))), st2,
    if tq_delivery_mode q = MailDelivery then ms2 else ms)"
  by (simp add: append_talk_def assms Let_def)


text \<open>A message to the editors of the wiki, and one with an attachment.\<close>

definition talk_env :: wiki_env where
  "talk_env = tiny_env [tiny_page ''b'' ''/b'' True]"

definition talk_store :: wiki_store where
  "talk_store = create_dirs ''/w/user-wiki/source/families/pages/b/talk/b.talk'' (put_file ''/in/a.txt'' ''hello'' tiny_store)"

definition talk_question :: talk_append_request where
  "talk_question = \<lparr> tq_page = ''b'', tq_kind = ''question'', tq_subject = ''Why'', tq_operation_id = Some ''op1'', tq_delivery_mode = MailDelivery,
     tq_thread_id = None, tq_reply_to = None, tq_from = ''system://wiki'', tq_to = [''role://wiki.editor''], tq_cc = [],
     tq_body_markdown = ''Is it so?'', tq_attachments = [], tq_allow_tombstoned = False \<rparr>"

definition attached_question :: talk_append_request where
  "attached_question = talk_question\<lparr> tq_delivery_mode := LabelsOnly,
     tq_attachments := [\<lparr> ti_path = ''/in/a.txt'', ti_filename = None, ti_caption = None, ti_alt_text = None \<rparr>] \<rparr>"

lemma talk_store_wf: "bt_wf (ws_files talk_store)"
  by (simp add: talk_store_def put_file_def tiny_store_def bt_wf_of_list)

lemma talk_page_opens:
  assumes "wiki_pages env st = Inr pages" "wiki_site_pages env st = Inr site_pages"
    and "List.find (\<lambda>p. pg_id p = tq_page q \<or> pg_route p = tq_page q) pages = Some p"
    and "List.find (\<lambda>p0. matches_reference (pg_id p) (pg_id p0) (pg_route p0)) pages = Some p0"
    and "pg_enabled p0" "\<not> wiki_path_exists st (tombstone_path env p0)" "wiki_path_exists st (talk_dir env p)"
  shows "talk_page env st q = Inr p"
  using assms(5-7) by (simp add: talk_page_def assms(1,3) ok_or_def page_status_first [OF assms(1,2,4)] closed_page_state)

definition ready_store :: wiki_store where
  "ready_store = ensure_runtime_dirs talk_env talk_store"

definition asked_page :: wiki_page where
  "asked_page = hd (or_no_pages (wiki_pages talk_env ready_store))"

definition question_target :: talk_thread_target where
  "question_target = \<lparr> th_thread_id = ''thread_b_why'', th_reply_to = None \<rparr>"

definition question_path :: string where
  "question_path = ''/w/user-wiki/source/families/pages/b/talk/b.talk/op-op1.question.why.md''"

lemma asked_page_found:
  "wiki_pages talk_env ready_store = Inr [asked_page]" "wiki_site_pages talk_env ready_store = Inr []"
  "List.find (\<lambda>p. pg_id p = ''b'' \<or> pg_route p = ''b'') [asked_page] = Some asked_page"
  "List.find (\<lambda>p0. matches_reference (pg_id asked_page) (pg_id p0) (pg_route p0)) [asked_page] = Some asked_page"
  "pg_enabled asked_page" "\<not> wiki_path_exists ready_store (tombstone_path talk_env asked_page)" "wiki_path_exists ready_store (talk_dir talk_env asked_page)"
  by code_simp+

lemma question_parts:
  "checked_target_id (Some ''op1'') ''--operation-id'' = Inr (Some ''op1'')"
  "default_thread_id asked_page ''Why'' = ''thread_b_why''"
  "talk_source_path talk_env asked_page (talk_stamp talk_env ''s1'' (Some ''op1'')) ''question'' ''Why'' = question_path"
  "existing_talk_created_at ready_store question_path = None"
  "talk_message_id talk_env ''s1'' ''Why'' (Some ''op1'') = ''talkmsg_op_op1''"
  by code_simp+

lemma question_plan:
  assumes "q \<in> {talk_question, attached_question}"
  shows "talk_plan talk_env ''2026-05-01'' ''s1'' q ready_store = Inr (asked_page, Some ''op1'', question_target, question_path, ''2026-05-01'')"
proof -
  from assms have q: "tq_page q = ''b''" "tq_operation_id q = Some ''op1''" "tq_thread_id q = None" "tq_reply_to q = None" "tq_kind q = ''question''"
      "tq_subject q = ''Why''" by (auto simp: talk_question_def attached_question_def)
  have "talk_page talk_env ready_store q = Inr asked_page"
    using asked_page_found by (intro talk_page_opens) (simp_all only: q)
  with q question_parts show ?thesis
    by (simp add: talk_plan_def resolve_talk_thread_target_def checked_target_id_def [of None] question_target_def or_text_def)
qed

lemma attachment_copied: "\<exists>records mid. copy_talk_attachments talk_env asked_page ''talkmsg_op_op1'' (tq_attachments attached_question) ready_store =
    (Inr records, mid) \<and> \<not> wiki_path_exists mid question_path \<and> set (path_ancestors (path_parent question_path)) \<subseteq> set (ws_dirs mid)"
proof -
  let ?res = "copy_talk_attachments talk_env asked_page ''talkmsg_op_op1'' (tq_attachments attached_question) ready_store"
  have "\<not> isl (fst ?res)" "\<not> wiki_path_exists (snd ?res) question_path"
      "list_all (\<lambda>d. d \<in> set (ws_dirs (snd ?res))) (path_ancestors (path_parent question_path))" by code_simp+
  then show ?thesis by (cases ?res; cases "fst ?res") (auto simp: list_all_iff)
qed

lemma retried_attachments_fail_witness:
  "\<exists>r st1 ms1 e st2. append_talk talk_env example_env ''2026-05-01'' ''s1'' attached_question (talk_store, empty_store) = (Inr r, st1, ms1) \<and>
    append_talk talk_env example_env ''2026-05-02'' ''s2'' attached_question (st1, ms1) = (Inl e, st2, ms1) \<and> ws_files st2 = ws_files st1"
proof -
  from attachment_copied obtain records mid where copied: "copy_talk_attachments talk_env asked_page ''talkmsg_op_op1'' (tq_attachments attached_question)
      ready_store = (Inr records, mid)" and fresh: "\<not> wiki_path_exists mid question_path"
      "set (path_ancestors (path_parent question_path)) \<subseteq> set (ws_dirs mid)" by blast
  let ?t = "talk_text attached_question asked_page ''talkmsg_op_op1'' (Some ''op1'') ''2026-05-01'' question_target records"
  obtain st1 where written: "write_talk_source question_path ?t (Some ''op1'') mid = (Inr (), st1)"
    using fresh by (simp add: write_talk_source_def create_dirs_present Let_def)
  have q: "tq_subject attached_question = ''Why''" "tq_attachments attached_question \<noteq> []" "tq_operation_id attached_question \<noteq> None"
    by (simp_all add: attached_question_def talk_question_def)
  obtain d ms2 where mail: "send_talk_mail talk_env example_env st1 attached_question asked_page ''talkmsg_op_op1'' question_target ''2026-05-01'' (Some ''op1'')
      records empty_store = (d, ms2)" by fastforce
  have plan: "talk_plan talk_env ''2026-05-01'' ''s1'' attached_question (ensure_runtime_dirs talk_env talk_store) =
      Inr (asked_page, Some ''op1'', question_target, question_path, ''2026-05-01'')"
    using question_plan [of attached_question] by (simp only: ready_store_def) blast
  note first = append_talk_ok [OF plan question_parts(5) [folded q(1)] copied [unfolded ready_store_def] written mail]
  from retried_attachments_fail [OF first talk_store_wf q(2,3), of "''2026-05-02''" "''s2''"] first show ?thesis by blast
qed

lemma question_first:
  "\<not> wiki_path_exists ready_store question_path"
  "list_all (\<lambda>d. d \<in> set (ws_dirs ready_store)) (path_ancestors (path_parent question_path))"
  "list_all (\<lambda>l. nl \<notin> set l) (talk_fields talk_question asked_page ''talkmsg_op_op1'' (Some ''op1'') ''2026-05-01'' question_target [])"
  by code_simp+

lemma question_mailed: "fst (mail_outcome (fst (send_talk_mail talk_env example_env talk_store talk_question asked_page ''talkmsg_op_op1'' question_target ''2026-05-01''
    (Some ''op1'') [] store_identified))) = ''appended''"
  by code_simp


end
