(* ===== verification/Spec2Isabelle.thy ===== *)
theory Spec2Isabelle
  imports Bindings Phase_Graph Mail_Sending Turn_Properties Follow_Up_Properties Spool_Properties Validation_Properties
    Harness_Properties Harness_Proof Wiki_Route_Properties Wiki_Properties Engine_Publish Wiki_Talk_Properties
begin

text \<open>
  A verification development for the Rust crates of 1Context (\<open>crates/\<close> of the repository).

  \<^bold>\<open>The program.\<close> 1Context records what happens on a machine and lets agents keep a wiki of it. The capture core
  (\<open>onecontext-capture-core\<close>) writes events into a spool of JSON lines and packs windows of it into bundles of files. The
  context engine (\<open>onecontext-context-engine\<close>) turns events into source packets, schedules the phases of a run, fans jobs
  out into units of work and executes their turns on agents. The agent harness (\<open>onecontext-agent-harness/core\<close>) keeps the
  units of agents, their turns and receipts, and the evidence of what they may do. Agents write to each other through the
  mail store (\<open>onecontext-agent-mail\<close>), which the engine uses for the requests in the answers of a turn, and the wiki for
  talk that is delivered as mail. The wiki core (\<open>onecontext-wiki-core\<close>) holds the pages, their registry and talk, and
  protects what the operator has written from the agents.

  \<^bold>\<open>Theories and sources.\<close>

  \<^item> \<open>Prelude\<close>: texts as UTF-8 bytes with their characters, \<open>str::trim\<close>, \<open>BTreeMap\<close> and \<open>BTreeSet\<close> as sorted lists,
    fallible and stateful computations, path texts; the interfaces \<open>ordered_map\<close>, \<open>ledger\<close> and \<open>ledger_history\<close>.
    \<open>Json_Value\<close> has the values of \<open>serde_json\<close>, \<open>Wiki_Text\<close> the text functions of the wiki.
  \<^item> Context engine: \<open>Safe_Id\<close> and \<open>Engine_Paths\<close> (\<open>lib.rs\<close>), \<open>Orchestration\<close>, \<open>Scheduler\<close> and \<open>Phase_Graph\<close>
    (\<open>orchestration.rs\<close>, \<open>scheduler.rs\<close>), \<open>Bindings\<close> (\<open>scheduler_bindings.rs\<close>), \<open>Artifacts\<close>, \<open>Conditions\<close>, \<open>Run_State\<close>,
    \<open>Receipt_Bridge\<close>, \<open>Packet_Planner\<close>, \<open>Source_Packets\<close>, \<open>Fanout\<close> (the files of the same names), \<open>Runtime_Executor\<close> with
    \<open>Runtime_Properties\<close>, \<open>Harness_Executor\<close>, \<open>Agent_Turns\<close> with \<open>Turn_Properties\<close>, \<open>Follow_Ups\<close> with
    \<open>Follow_Up_Properties\<close> (both \<open>agent_execution.rs\<close>), \<open>Engine_Publish\<close> (\<open>wiki_publish.rs\<close>, \<open>wiki_marker.rs\<close>).
  \<^item> Agent mail (\<open>lib.rs\<close>): \<open>Mail_Types\<close>, \<open>Mail_Address\<close> and \<open>Mail_Store\<close> have the data, the addresses and the operations;
    \<open>Mail_Safety\<close>, \<open>Mail_Properties\<close> and \<open>Mail_Sending\<close> what holds of them.
  \<^item> Capture core: \<open>Capture_Paths\<close> (\<open>paths.rs\<close>, \<open>lanes.rs\<close>), \<open>Spool_Index\<close>, \<open>Spool_Lines\<close>, \<open>Spool_Read\<close> and
    \<open>Spool_Properties\<close> (\<open>spool_index.rs\<close>, \<open>spool.rs\<close>), \<open>Bundle_Files\<close> and \<open>Bundle_Trees\<close> (a file system as a tree),
    \<open>Bundles\<close> (\<open>bundle/schema.rs\<close>, \<open>bundle/writer.rs\<close>), \<open>Bundle_Validation\<close> with \<open>Validation_Properties\<close>
    (\<open>bundle/validate.rs\<close>), \<open>Retention\<close> with \<open>Retention_Properties\<close> (\<open>retention.rs\<close>).
  \<^item> Agent harness: \<open>Harness_Types\<close>, \<open>Harness_Core\<close>, \<open>Harness_Ops\<close> (\<open>lib.rs\<close>, \<open>turn.rs\<close>), \<open>Harness_Ids\<close>, \<open>Harness_Steps\<close>,
    \<open>Harness_Invariants\<close>, \<open>Harness_Replay\<close>, \<open>Harness_Recovery\<close> and \<open>Harness_Properties\<close> for their lemmas, and
    \<open>Harness_Proof\<close> (\<open>proof.rs\<close>).
  \<^item> Wiki core (\<open>lib.rs\<close>): \<open>Wiki_Config\<close> and \<open>Wiki_Registry\<close> (\<open>wiki.toml\<close>), \<open>Wiki_Routes\<close> with \<open>Wiki_Route_Properties\<close>
    (routes, links, attachment names), \<open>Wiki_Guard\<close> (frontmatter, sections, operator-touched spans), \<open>Wiki_Pages\<close> (the
    store, templates, the ledger), \<open>Wiki_Status\<close>, \<open>Wiki_Operations\<close> and \<open>Wiki_Creation\<close> (edits, deletion, restoration,
    creation) with \<open>Wiki_Properties\<close>, \<open>Wiki_Talk\<close> with \<open>Wiki_Talk_Properties\<close>.

  \<^bold>\<open>How state and operations are modelled.\<close> A struct is a record and an enum a datatype, with the fields and cases of the
  code under prefixed names. An operation takes the store and gives the result, an error or a value, and the new store; what
  an operation had written before it failed stays. A ledger of JSON lines is the list of its records; the files of a
  component are a map from paths to contents, or a tree where directories are moved and removed. The clock, SHA-256, the
  encoders and parsers of JSON and TOML, time stamps, URLs, upper case outside ASCII and child processes are parameters.
  Machine integers are words where they can wrap, and saturating or checked operations are written out. Operations under a
  lock are single steps; where the code takes no lock this is said. Runs of operations are the inductive predicates
  \<open>mail_reachable\<close>, \<open>harness_history\<close>, \<open>artifact_step\<close> and \<open>run_update\<close>, and \<open>run_wiki_commands\<close> for the wiki.

  \<^bold>\<open>What is shown.\<close>

  \<^item> Mail: in every reachable store a delivery has one claimant for ever, a terminal delivery stays so and a retired agent
    stays retired; sending keeps the limit of open deliveries and a repeated message delivers nothing; the text given to an
    agent cannot break out of its element; addresses read back.
  \<^item> Scheduling: the phase order is a topological order, issues are reported exactly for unknown or cyclic dependencies, and
    a plan without issues completes; phases complete exactly under the stated conditions, which leaves a waiting job behind.
  \<^item> Evidence and packets: artifacts are immutable; the packets of a plan partition the events and are reconstructed exactly.
  \<^item> Follow-up requests: they are read back from an answer, each gets one receipt, and a retry of a turn cannot send them.
  \<^item> Capture: the time index finds what a full scan finds; preserved and newest bundles survive a sweep; an accepted bundle is
    complete; which accepted paths escape.
  \<^item> Harness: the snapshot is recovered exactly from the receipts on disk; the lifecycle, the accounting and the lineage of
    units are invariant; the proof gate is characterised.
  \<^item> Wiki: whatever agents do, protected lines survive; a stale edit is refused and an edit is made exactly under the stated
    conditions and changes nothing else; the check of the registry is exact and creation keeps it clean; links reach pages; a
    talk message can be retried without a second message or mail, but not one with attachments.
  \<^item> Publishing of the engine: the same drafts change nothing the second time. What it does to protected lines is shown by
    \<open>publish_drops_operator_lines\<close>.

  The lemmas below the properties come in groups: frames of operations (\<open>frame\<close>, \<open>holds_intros\<close>), inversion of successful
  computations (\<open>result_simps\<close>), containers (\<open>btree_simps\<close>), invariants of steps, and facts on texts.

  \<^bold>\<open>Bounds.\<close> Loops are total: their recursion is structural or has a measure (the queue of Kahn's algorithm, the interval of
  a binary search, the rest of a text, the attempts up to 9999 of \<open>attempt_loop\<close>). Only the search for a free attachment name
  has fuel, one round more than there are names in use; the names of the rounds differ, so one of them is free
  (\<open>unique_attachment_filename\<close> always succeeds).

  \<^bold>\<open>What is not modelled.\<close> The daemons and command lines (sockets, HTTP, arguments, child processes), the memory database
  (SQL over Postgres), the bundle exporter and fixtures, the listing and report documents of the wiki core, the Swift
  application, the JavaScript renderer and scripts. Failures of the file system are modelled where a component handles
  them (bundles, retention, publishing), not elsewhere.
\<close>

end
